(* ===== verification/Prelude.thy ===== *)
theory Prelude
  imports Complex_Main "HOL-Library.Multiset"
begin

text \<open>
  Shared vocabulary of the development.

  The theory holds the fact collections the component theories fill, the small generic
  functions that model idioms of the Python sources (the first match of a generator, the
  truth value of a string, \<open>dict.setdefault\<close> on an insertion-ordered dictionary) and the
  lemmas on lists, options and insertion sort by a key that the component proofs share.
\<close>

named_theorems py_simps \<open>unfolding rules of the small Python idioms\<close>
named_theorems decimal_simps \<open>exactness facts of the decimal arithmetic\<close>
named_theorems road_simps \<open>projections and step equations of the road-network component\<close>
named_theorems fleet_simps \<open>step equations of the fleet component\<close>

section \<open>Python idioms\<close>

text \<open>\<open>next((x for x in xs if p x), None)\<close>.\<close>

fun first_match :: "('a \<Rightarrow> bool) \<Rightarrow> 'a list \<Rightarrow> 'a option" where
  "first_match p [] = None"
| "first_match p (x # xs) = (if p x then Some x else first_match p xs)"

text \<open>\<open>a or b\<close> on optional strings: an empty string is as false as \<open>None\<close>.\<close>

definition py_or :: "string option \<Rightarrow> string option \<Rightarrow> string option" where
  "py_or a b = (case a of None \<Rightarrow> b | Some s \<Rightarrow> if s = [] then b else a)"

text \<open>\<open>d.setdefault(k, v)\<close> on an insertion-ordered dictionary kept as an association list.\<close>

fun setdefault :: "'k \<Rightarrow> 'v \<Rightarrow> ('k \<times> 'v) list \<Rightarrow> ('k \<times> 'v) list" where
  "setdefault k v [] = [(k, v)]"
| "setdefault k v ((k', v') # kvs) =
     (if k = k' then (k', v') # kvs else (k', v') # setdefault k v kvs)"

text \<open>
  \<open>min(xs, key=f)\<close>: the first of the elements with the least key. Python raises on an empty
  sequence, which is \<open>None\<close> here.
\<close>

fun py_min_by :: "('a \<Rightarrow> 'k::linorder) \<Rightarrow> 'a list \<Rightarrow> 'a option" where
  "py_min_by f [] = None"
| "py_min_by f (x # xs) =
     (case py_min_by f xs of None \<Rightarrow> Some x | Some y \<Rightarrow> if f x \<le> f y then Some x else Some y)"

text \<open>A condition on a value that may be absent.\<close>

fun opt_all :: "('a \<Rightarrow> bool) \<Rightarrow> 'a option \<Rightarrow> bool" where
  "opt_all p None \<longleftrightarrow> True"
| "opt_all p (Some x) \<longleftrightarrow> p x"

text \<open>A digit of a hexadecimal number in lower case.\<close>

definition hex_digit :: "nat \<Rightarrow> char" where
  "hex_digit n = (if n < 10 then char_of (48 + n) else char_of (87 + n))"

section \<open>Results\<close>

text \<open>
  A call that may raise returns a sum, with \<open>Inl\<close> the exception. \<open>res_bind\<close> sequences two such
  calls and \<open>map_result\<close> runs one on every element of a list, stopping at the first exception.
\<close>

definition res_bind :: "'e + 'a \<Rightarrow> ('a \<Rightarrow> 'e + 'b) \<Rightarrow> 'e + 'b" where
  "res_bind r f = (case r of Inl e \<Rightarrow> Inl e | Inr x \<Rightarrow> f x)"

fun map_result :: "('a \<Rightarrow> 'e + 'b) \<Rightarrow> 'a list \<Rightarrow> 'e + 'b list" where
  "map_result f [] = Inr []"
| "map_result f (x # xs) =
     (case f x of
        Inl e \<Rightarrow> Inl e
      | Inr y \<Rightarrow> (case map_result f xs of Inl e \<Rightarrow> Inl e | Inr ys \<Rightarrow> Inr (y # ys)))"

section \<open>Lemmas on the idioms\<close>

lemma res_bind_simps [simp]: "res_bind (Inl e) f = Inl e" "res_bind (Inr x) f = f x"
  by (simp_all add: res_bind_def)

lemma res_bind_eq_Inr: "res_bind r f = Inr y \<longleftrightarrow> (\<exists>x. r = Inr x \<and> f x = Inr y)"
  by (cases r) auto

lemma res_bind_cong [fundef_cong]: "r = r' \<Longrightarrow> (\<And>x. r' = Inr x \<Longrightarrow> f x = f' x) \<Longrightarrow> res_bind r f = res_bind r' f'"
  by (cases r') auto

lemma map_result_Inr:
  "map_result f xs = Inr ys \<longleftrightarrow> list_all2 (\<lambda>x y. f x = Inr y) xs ys"
proof (induction xs arbitrary: ys)
  case (Cons x xs)
  show ?case
    by (cases "f x"; cases "map_result f xs") (auto simp: list_all2_Cons1 Cons.IH [symmetric])
qed auto

lemma map_result_total: "(\<And>x. x \<in> set xs \<Longrightarrow> \<exists>y. f x = Inr y) \<Longrightarrow> \<exists>ys. map_result f xs = Inr ys"
  by (induction xs) fastforce+

lemma map_result_map: "(\<And>x. x \<in> set xs \<Longrightarrow> f (g x) = Inr x) \<Longrightarrow> map_result f (map g xs) = Inr xs"
  by (induction xs) auto


lemma first_match_None: "first_match p xs = None \<longleftrightarrow> (\<forall>x\<in>set xs. \<not> p x)"
  by (induction xs) auto

lemma first_match_SomeD: "first_match p xs = Some x \<Longrightarrow> x \<in> set xs \<and> p x"
  by (induction xs) (auto split: if_splits)

lemma first_match_append:
  "first_match p (xs @ ys) = (case first_match p xs of None \<Rightarrow> first_match p ys | Some x \<Rightarrow> Some x)"
  by (induction xs) auto

lemma first_match_filter: "first_match p xs = (case filter p xs of [] \<Rightarrow> None | x # _ \<Rightarrow> Some x)"
  by (induction xs) auto

lemma first_match_distinct: "distinct (map f xs) \<Longrightarrow> x \<in> set xs \<Longrightarrow> first_match (\<lambda>y. f y = f x) xs = Some x"
  by (induction xs) (auto simp: rev_image_eqI)

lemma distinct_mapD: "distinct (map f xs) \<Longrightarrow> x \<in> set xs \<Longrightarrow> y \<in> set xs \<Longrightarrow> f x = f y \<Longrightarrow> x = y"
  by (induction xs) (auto simp: rev_image_eqI)

lemma py_or_None [simp]: "py_or None b = b"
  by (simp add: py_or_def)

lemma py_or_eq_None: "py_or a b = None \<longleftrightarrow> (a = None \<or> a = Some []) \<and> b = None"
  by (auto simp: py_or_def split: option.splits)

lemma setdefault_keys: "fst ` set (setdefault k v kvs) = insert k (fst ` set kvs)"
  by (induction k v kvs rule: setdefault.induct) (simp_all add: insert_commute)

lemma setdefault_distinct: "distinct (map fst kvs) \<Longrightarrow> distinct (map fst (setdefault k v kvs))"
proof (induction kvs)
  case (Cons kv kvs)
  then show ?case
    using setdefault_keys [of k v kvs] by (cases kv) (auto simp flip: set_map)
qed simp

lemma setdefault_map_of:
  "map_of (setdefault k v kvs) x =
     (if x = k then (case map_of kvs k of None \<Rightarrow> Some v | Some v' \<Rightarrow> Some v') else map_of kvs x)"
  by (induction kvs) auto

lemma setdefault_set: "set (setdefault k v kvs) \<subseteq> insert (k, v) (set kvs)"
  by (induction kvs) (auto split: if_splits)

lemma setdefault_set_mono: "set kvs \<subseteq> set (setdefault k v kvs)"
  by (induction kvs) auto

lemma setdefault_not_Nil [simp]: "setdefault k v kvs \<noteq> []"
  by (cases kvs) (auto split: if_splits)

lemma py_min_by_None: "py_min_by f xs = None \<longleftrightarrow> xs = []"
  by (cases xs) (auto split: option.splits)

lemma py_min_by_Some:
  "py_min_by f xs = Some y \<Longrightarrow> y \<in> set xs \<and> (\<forall>x\<in>set xs. f y \<le> f x)"
proof (induction xs arbitrary: y)
  case (Cons x xs)
  then show ?case
    by (cases "py_min_by f xs")
       (auto simp: py_min_by_None split: if_splits intro: order_trans)
qed simp

section \<open>Insertion sort by a key\<close>

text \<open>
  \<open>sorted(xs, key=f)\<close> is stable, as is \<open>sort_key\<close>. The lemmas restate the library's facts in
  the form the rankings use them: the head of a sorted list has the least key.
\<close>

lemma sort_key_hd_least:
  assumes "sort_key f xs = y # ys" and "x \<in> set xs"
  shows "f y \<le> f x"
proof -
  have "sorted (map f (y # ys))"
    using assms(1) sorted_sort_key [of f xs] by simp
  moreover have "x \<in> set (y # ys)"
    using assms set_sort [of f xs] by simp
  ultimately show ?thesis by auto
qed

lemma sort_key_Nil_iff [simp]: "sort_key f xs = [] \<longleftrightarrow> xs = []"
  by (metis length_0_conv length_sort)

lemma sort_key_hd_mem: "sort_key f xs = y # ys \<Longrightarrow> y \<in> set xs"
  by (metis list.set_intros(1) set_sort)

lemma list_all2_mem: "list_all2 P xs ys \<Longrightarrow> y \<in> set ys \<Longrightarrow> \<exists>x\<in>set xs. P x y"
  by (induction rule: list_all2_induct) auto

lemma map_result_mem:
  assumes "map_result f xs = Inr ys"
  shows "y \<in> set ys \<Longrightarrow> \<exists>x\<in>set xs. f x = Inr y" "x \<in> set xs \<Longrightarrow> \<exists>y\<in>set ys. f x = Inr y"
proof -
  have "list_all2 (\<lambda>x y. f x = Inr y) xs ys" using assms by (simp add: map_result_Inr)
  then have "(y \<in> set ys \<longrightarrow> (\<exists>x\<in>set xs. f x = Inr y)) \<and> (x \<in> set xs \<longrightarrow> (\<exists>y\<in>set ys. f x = Inr y))"
    by (induction rule: list_all2_induct) auto
  then show "y \<in> set ys \<Longrightarrow> \<exists>x\<in>set xs. f x = Inr y" "x \<in> set xs \<Longrightarrow> \<exists>y\<in>set ys. f x = Inr y"
    by auto
qed

end
