(* ===== verification/Decimal_Arith.thy ===== *)
theory Decimal_Arith
  imports Prelude
begin

text \<open>
  Python's \<open>decimal\<close> and \<open>float\<close> arithmetic.

  A \<open>Decimal\<close> is modelled by its numerical value, a rational: comparison and arithmetic
  depend on the value only. Every arithmetic operation of the default context rounds its exact
  result to 28 significant decimal digits, ties to even. \<open>round_sig b p\<close> is that rounding for
  any base and precision, so that \<open>ctx\<close> (base 10, 28 digits) models the decimal context and
  \<open>to_float\<close> (base 2, 53 digits) the conversion \<open>float(d)\<close> of a normal number. The lemmas show what
  the components rely on: rounding is monotone, idempotent, odd, and exact on every value that
  fits the precision.
\<close>

section \<open>Rounding to a number of significant digits\<close>

fun ndigits :: "nat \<Rightarrow> nat \<Rightarrow> nat" where
  "ndigits b n = (if b < 2 \<or> n < b then 1 else Suc (ndigits b (n div b)))"

declare ndigits.simps [simp del]

definition bpow :: "nat \<Rightarrow> int \<Rightarrow> rat" where
  "bpow b e = (if 0 \<le> e then of_nat b ^ nat e else 1 / of_nat b ^ nat (- e))"

text \<open>The adjusted exponent of a nonzero value: \<open>b^e \<le> |x| < b^(e+1)\<close>.\<close>

definition adj_exp :: "nat \<Rightarrow> rat \<Rightarrow> int" where
  "adj_exp b x =
     (let (p, q) = quotient_of \<bar>x\<bar>; d = int (ndigits b (nat p)) - int (ndigits b (nat q))
      in if bpow b d \<le> \<bar>x\<bar> then d else d - 1)"

definition round_half_even :: "rat \<Rightarrow> int" where
  "round_half_even x =
     (let f = \<lfloor>x\<rfloor>; d = x - of_int f
      in if d < 1 / 2 then f else if 1 / 2 < d then f + 1 else if even f then f else f + 1)"

definition round_sig :: "nat \<Rightarrow> nat \<Rightarrow> rat \<Rightarrow> rat" where
  "round_sig b p x =
     (if x = 0 then 0
      else let e = adj_exp b x + 1 - int p
           in of_int (round_half_even (x / bpow b e)) * bpow b e)"

section \<open>The decimal context and floats\<close>

definition ctx :: "rat \<Rightarrow> rat" where
  "ctx = round_sig 10 28"

definition to_float :: "rat \<Rightarrow> rat" where
  "to_float = round_sig 2 53"

definition dec_add :: "rat \<Rightarrow> rat \<Rightarrow> rat" where
  "dec_add a b = ctx (a + b)"

definition dec_sub :: "rat \<Rightarrow> rat \<Rightarrow> rat" where
  "dec_sub a b = ctx (a - b)"

definition dec_mul :: "rat \<Rightarrow> rat \<Rightarrow> rat" where
  "dec_mul a b = ctx (a * b)"

text \<open>A division by zero raises (\<open>DivisionByZero\<close>, or \<open>InvalidOperation\<close> for \<open>0 / 0\<close>).\<close>

definition dec_div :: "rat \<Rightarrow> rat \<Rightarrow> rat option" where
  "dec_div a b = (if b = 0 then None else Some (ctx (a / b)))"

text \<open>\<open>x.quantize(Decimal("0.01"), rounding=ROUND_HALF_UP)\<close> with \<open>k\<close> fractional digits.\<close>

definition round_half_up :: "rat \<Rightarrow> int" where
  "round_half_up x = (if 0 \<le> x then \<lfloor>x + 1 / 2\<rfloor> else - \<lfloor>1 / 2 - x\<rfloor>)"

text \<open>
  \<open>quantize\<close> to \<open>k\<close> places. It raises \<open>InvalidOperation\<close> beyond 28 digits, which sums of the two-place columns of the tables do not reach.
\<close>

definition quantize_half_up :: "nat \<Rightarrow> rat \<Rightarrow> rat" where
  "quantize_half_up k x = of_int (round_half_up (x * 10 ^ k)) / 10 ^ k"

section \<open>Powers and digit counts\<close>

lemma bpow_pos [simp]: "2 \<le> b \<Longrightarrow> 0 < bpow b e"
  by (simp add: bpow_def)

lemma bpow_nonzero [simp]: "2 \<le> b \<Longrightarrow> bpow b e \<noteq> 0"
  using bpow_pos [of b e] by linarith

lemma bpow_powi: "bpow b e = of_nat b powi e"
  by (simp add: bpow_def power_int_def inverse_eq_divide power_one_over)

lemma bpow_add: "2 \<le> b \<Longrightarrow> bpow b (d + e) = bpow b d * bpow b e"
  by (simp add: bpow_powi power_int_add)

lemma bpow_0 [simp]: "bpow b 0 = 1"
  by (simp add: bpow_def)

lemma bpow_nat: "bpow b (int n) = of_nat b ^ n"
  by (simp add: bpow_def)

lemma bpow_mono: "2 \<le> b \<Longrightarrow> d \<le> e \<Longrightarrow> bpow b d \<le> bpow b e"
  by (simp add: bpow_powi power_int_increasing)

lemma bpow_diff: "2 \<le> b \<Longrightarrow> bpow b (d - e) = bpow b d / bpow b e"
  by (simp add: bpow_powi power_int_diff)

lemma bpow_less_imp: "2 \<le> b \<Longrightarrow> bpow b d < bpow b e \<Longrightarrow> d < e"
  using bpow_mono [of b e d] by linarith

lemma ndigits_bounds:
  assumes "2 \<le> b" "0 < n"
  shows "b ^ (ndigits b n - 1) \<le> n \<and> n < b ^ ndigits b n \<and> 1 \<le> ndigits b n"
  using assms
proof (induction b n rule: ndigits.induct)
  case (1 b n)
  show ?case
  proof (cases "n < b")
    case True
    with 1 show ?thesis by (simp add: ndigits.simps [of b n])
  next
    case False
    let ?m = "n div b"
    have m: "0 < ?m" using False 1 by (simp add: div_greater_zero_iff)
    with 1 False have IH: "b ^ (ndigits b ?m - 1) \<le> ?m" "?m < b ^ ndigits b ?m" "1 \<le> ndigits b ?m"
      by auto
    have "b ^ ndigits b ?m = b ^ (ndigits b ?m - 1) * b"
      using IH(3) by (cases "ndigits b ?m") auto
    also have "\<dots> \<le> ?m * b" using IH(1) by simp
    also have "\<dots> \<le> n" by simp
    finally have lo: "b ^ ndigits b ?m \<le> n" .
    have "n < (?m + 1) * b" using 1 by (simp add: dividend_less_div_times)
    also have "\<dots> \<le> b ^ ndigits b ?m * b" using IH(2) by (intro mult_right_mono) auto
    finally have "n < b ^ Suc (ndigits b ?m)" by (simp add: mult.commute)
    with lo False 1 show ?thesis by (simp add: ndigits.simps [of b n])
  qed
qed

lemma adj_exp_bounds:
  assumes b: "2 \<le> b" and x: "x \<noteq> 0"
  shows "bpow b (adj_exp b x) \<le> \<bar>x\<bar>" "\<bar>x\<bar> < bpow b (adj_exp b x + 1)"
proof -
  obtain p q where pq: "quotient_of \<bar>x\<bar> = (p, q)" by fastforce
  have q0: "0 < q" using quotient_of_denom_pos [OF pq] .
  have xpq: "\<bar>x\<bar> = of_int p / of_int q" using quotient_of_div [OF pq] .
  have p0: "0 < p" using x q0 xpq by (metis zero_less_abs_iff zero_less_divide_iff of_int_0_less_iff
        of_int_less_0_iff not_less_iff_gr_or_eq)
  define m where "m = nat p"
  define n where "n = nat q"
  have mn: "0 < m" "0 < n" "of_int p = (of_nat m :: rat)" "of_int q = (of_nat n :: rat)"
    using p0 q0 by (auto simp: m_def n_def)
  define dm where "dm = ndigits b m"
  define dn where "dn = ndigits b n"
  define d where "d = int dm - int dn"
  note bm = ndigits_bounds [OF b mn(1), folded dm_def]
  note bn = ndigits_bounds [OF b mn(2), folded dn_def]
  have x_eq: "\<bar>x\<bar> = of_nat m / of_nat n" using xpq mn by simp
  have M: "bpow b (int dm - 1) \<le> of_nat m" "of_nat m < bpow b (int dm)"
    using bm bpow_nat [of b dm] bpow_nat [of b "dm - 1"]
    by (auto simp: of_nat_diff simp flip: of_nat_power)
  have N: "bpow b (int dn - 1) \<le> of_nat n" "of_nat n < bpow b (int dn)"
    using bn bpow_nat [of b dn] bpow_nat [of b "dn - 1"]
    by (auto simp: of_nat_diff simp flip: of_nat_power)
  have pos: "(0::rat) < of_nat n" "(0::rat) < of_nat m" using mn by auto
  have "of_nat m < bpow b (d + 1) * bpow b (int dn - 1)"
    using M(2) b by (simp add: d_def flip: bpow_add)
  also have "\<dots> \<le> bpow b (d + 1) * of_nat n"
    using N(1) b by (intro mult_left_mono) (auto simp: less_imp_le)
  finally have up: "\<bar>x\<bar> < bpow b (d + 1)" using pos by (simp add: x_eq divide_less_eq)
  have "bpow b (d - 1) * of_nat n \<le> bpow b (d - 1) * bpow b (int dn)"
    using N(2) b by (intro mult_left_mono) (auto simp: less_imp_le)
  also have "\<dots> \<le> of_nat m" using M(1) b by (simp add: d_def flip: bpow_add)
  finally have lo: "bpow b (d - 1) \<le> \<bar>x\<bar>" using pos by (simp add: x_eq le_divide_eq)
  have e: "adj_exp b x = (if bpow b d \<le> \<bar>x\<bar> then d else d - 1)"
    by (simp add: adj_exp_def pq d_def dm_def dn_def m_def n_def)
  show "bpow b (adj_exp b x) \<le> \<bar>x\<bar>" using lo by (auto simp: e)
  show "\<bar>x\<bar> < bpow b (adj_exp b x + 1)" using up by (auto simp: e)
qed


section \<open>Rounding to an integer\<close>

lemma round_half_even_bounds: "\<lfloor>x\<rfloor> \<le> round_half_even x \<and> round_half_even x \<le> \<lfloor>x\<rfloor> + 1"
  by (auto simp: round_half_even_def Let_def)

lemma round_half_even_of_int [simp]: "round_half_even (of_int k) = k"
  by (simp add: round_half_even_def)

lemma round_half_even_mono: "x \<le> y \<Longrightarrow> round_half_even x \<le> round_half_even y"
proof -
  assume xy: "x \<le> y"
  show ?thesis
  proof (cases "\<lfloor>x\<rfloor> = \<lfloor>y\<rfloor>")
    case True
    with xy show ?thesis by (auto simp: round_half_even_def Let_def)
  next
    case False
    then have "\<lfloor>x\<rfloor> + 1 \<le> \<lfloor>y\<rfloor>" using floor_mono [OF xy] by linarith
    then show ?thesis using round_half_even_bounds [of x] round_half_even_bounds [of y] by linarith
  qed
qed

lemma round_half_even_uminus: "round_half_even (- x) = - round_half_even x"
proof (cases "x = of_int \<lfloor>x\<rfloor>")
  case True
  then obtain k where "x = of_int k" by blast
  then show ?thesis using round_half_even_of_int [of k] round_half_even_of_int [of "- k"] by simp
next
  case False
  then have lt: "of_int \<lfloor>x\<rfloor> < x" using of_int_floor_le [of x] by linarith
  have fl: "\<lfloor>- x\<rfloor> = - \<lfloor>x\<rfloor> - 1"
    using lt by (intro floor_unique) (auto, linarith)
  show ?thesis using lt
    by (auto simp: round_half_even_def Let_def fl)
qed

lemma round_half_even_le_int: "x \<le> of_int k \<Longrightarrow> round_half_even x \<le> k"
  using round_half_even_mono [of x "of_int k"] by simp

lemma round_half_even_ge_int: "of_int k \<le> x \<Longrightarrow> k \<le> round_half_even x"
  using round_half_even_mono [of "of_int k" x] by simp

section \<open>Rounding to significant digits is exact, monotone and idempotent\<close>

lemma bpow_int_base: "2 \<le> b \<Longrightarrow> 0 \<le> e \<Longrightarrow> bpow b e = of_int (int b ^ nat e)"
  by (simp add: bpow_def)

lemma round_sig_exact:
  assumes b: "2 \<le> b" and x: "x = of_int m * bpow b k" and m: "\<bar>m\<bar> < int b ^ p"
  shows "round_sig b p x = x"
proof (cases "x = 0")
  case True
  then show ?thesis by (simp add: round_sig_def)
next
  case False
  define e where "e = adj_exp b x + 1 - int p"
  have "bpow b (adj_exp b x) \<le> \<bar>x\<bar>" using adj_exp_bounds(1) [OF b False] .
  also have "\<bar>x\<bar> = of_int \<bar>m\<bar> * bpow b k" using b by (simp add: x abs_mult less_imp_le)
  also have "\<dots> < of_int (int b ^ p) * bpow b k" using m b by (simp only: mult_less_cancel_right_pos bpow_pos of_int_less_iff)
  also have "\<dots> = bpow b (int p + k)" using b by (simp add: bpow_add bpow_nat)
  finally have "adj_exp b x < int p + k" using bpow_less_imp [OF b] by blast
  then have "0 \<le> k - e" by (simp add: e_def)
  then have "bpow b k = of_int (int b ^ nat (k - e)) * bpow b e"
    using bpow_add [OF b, of "k - e" e] bpow_int_base [OF b] by simp
  then have "x / bpow b e = of_int (m * int b ^ nat (k - e))" using b by (simp add: x)
  then have "of_int (round_half_even (x / bpow b e)) = x / bpow b e"
    by (metis round_half_even_of_int)
  then show ?thesis using False b by (simp add: round_sig_def Let_def e_def)
qed

lemma round_sig_uminus: "round_sig b p (- x) = - round_sig b p x"
  by (simp add: round_sig_def adj_exp_def Let_def round_half_even_uminus)

lemma round_sig_bounds:
  assumes b: "2 \<le> b" and p: "1 \<le> p" and x: "0 < x"
  shows "bpow b (adj_exp b x) \<le> round_sig b p x" "round_sig b p x \<le> bpow b (adj_exp b x + 1)"
proof -
  define e where "e = adj_exp b x + 1 - int p"
  have x0: "x \<noteq> 0" "\<bar>x\<bar> = x" using x by auto
  note B = adj_exp_bounds [OF b x0(1), unfolded x0(2)]
  have r: "round_sig b p x = of_int (round_half_even (x / bpow b e)) * bpow b e"
    using x0 by (simp add: round_sig_def e_def Let_def)
  have lo: "bpow b (adj_exp b x) = of_int (int b ^ (p - 1)) * bpow b e"
    using bpow_add [OF b, of "int (p - 1)" e] bpow_nat [of b "p - 1"] p by (simp add: e_def)
  have hi: "bpow b (adj_exp b x + 1) = of_int (int b ^ p) * bpow b e"
    using bpow_add [OF b, of "int p" e] by (simp add: bpow_nat e_def)
  have "of_int (int b ^ (p - 1)) \<le> x / bpow b e" using B(1) b by (simp add: lo le_divide_eq)
  then have "int b ^ (p - 1) \<le> round_half_even (x / bpow b e)" by (rule round_half_even_ge_int)
  then show "bpow b (adj_exp b x) \<le> round_sig b p x"
    using b unfolding lo r by (simp only: mult_le_cancel_right_pos bpow_pos of_int_le_iff)
  have "x / bpow b e \<le> of_int (int b ^ p)" using B(2) b by (simp add: hi divide_le_eq less_imp_le)
  then have "round_half_even (x / bpow b e) \<le> int b ^ p" by (rule round_half_even_le_int)
  then show "round_sig b p x \<le> bpow b (adj_exp b x + 1)"
    using b unfolding hi r by (simp only: mult_le_cancel_right_pos bpow_pos of_int_le_iff)
qed

lemma adj_exp_mono:
  assumes b: "2 \<le> b" and x: "0 < x" and xy: "x \<le> y"
  shows "adj_exp b x \<le> adj_exp b y"
proof -
  have "bpow b (adj_exp b x) \<le> x" using adj_exp_bounds(1) [OF b, of x] x by simp
  also have "\<dots> < bpow b (adj_exp b y + 1)" using adj_exp_bounds(2) [OF b, of y] x xy by simp
  finally show ?thesis using bpow_less_imp [OF b] by fastforce
qed

lemma round_sig_mono_pos:
  assumes b: "2 \<le> b" and p: "1 \<le> p" and x: "0 < x" and xy: "x \<le> y"
  shows "round_sig b p x \<le> round_sig b p y"
proof (cases "adj_exp b x = adj_exp b y")
  case True
  have "x / bpow b e \<le> y / bpow b e" for e
    using xy b by (simp add: divide_right_mono less_imp_le)
  then have "round_half_even (x / bpow b e) \<le> round_half_even (y / bpow b e)" for e
    by (rule round_half_even_mono)
  then show ?thesis using True x xy b
    by (simp add: round_sig_def Let_def mult_right_mono less_imp_le)
next
  case False
  then have le: "adj_exp b x + 1 \<le> adj_exp b y" using adj_exp_mono [OF b x xy] by linarith
  have "round_sig b p x \<le> bpow b (adj_exp b x + 1)" using round_sig_bounds(2) [OF b p x] .
  also have "\<dots> \<le> bpow b (adj_exp b y)" using bpow_mono [OF b le] .
  also have "\<dots> \<le> round_sig b p y" using round_sig_bounds(1) [OF b p] x xy by simp
  finally show ?thesis .
qed

lemma round_sig_nonneg:
  assumes "2 \<le> b" "1 \<le> p" "0 \<le> x"
  shows "0 \<le> round_sig b p x"
proof (cases "x = 0")
  case False
  then have "bpow b (adj_exp b x) \<le> round_sig b p x" using round_sig_bounds(1) assms by simp
  then show ?thesis using bpow_pos [OF assms(1), of "adj_exp b x"] by linarith
qed (simp add: round_sig_def)

lemma round_sig_mono:
  assumes b: "2 \<le> b" and p: "1 \<le> p" and xy: "x \<le> y"
  shows "round_sig b p x \<le> round_sig b p y"
proof -
  consider "0 < x" | "y < 0" | "x \<le> 0" "0 \<le> y" using xy by linarith
  then show ?thesis
  proof cases
    case 1
    then show ?thesis using round_sig_mono_pos [OF b p _ xy] by simp
  next
    case 2
    then have "round_sig b p (- y) \<le> round_sig b p (- x)"
      using round_sig_mono_pos [OF b p, of "- y" "- x"] xy by simp
    then show ?thesis by (simp add: round_sig_uminus)
  next
    case 3
    then show ?thesis
      using round_sig_nonneg [OF b p, of "- x"] round_sig_nonneg [OF b p, of y]
      by (simp add: round_sig_uminus)
  qed
qed

lemma round_sig_representable:
  assumes b: "2 \<le> b" and p: "1 \<le> p"
  obtains m k where "round_sig b p x = of_int m * bpow b k" "\<bar>m\<bar> < int b ^ p"
proof (cases "x = 0")
  case True
  then show ?thesis using that [of 0 0] b by (simp add: round_sig_def)
next
  case False
  define e where "e = adj_exp b x + 1 - int p"
  define m where "m = round_half_even (x / bpow b e)"
  have r: "round_sig b p x = of_int m * bpow b e"
    using False by (simp add: round_sig_def e_def m_def Let_def)
  have hi: "bpow b (adj_exp b x + 1) = of_int (int b ^ p) * bpow b e"
    using bpow_add [OF b, of "int p" e] by (simp add: bpow_nat e_def)
  have "\<bar>x\<bar> < of_int (int b ^ p) * bpow b e" using adj_exp_bounds(2) [OF b False] hi by simp
  then have "x / bpow b e \<le> of_int (int b ^ p)" "of_int (- (int b ^ p)) \<le> x / bpow b e"
    using b by (auto simp: divide_le_eq le_divide_eq abs_less_iff)
  then have m_le: "\<bar>m\<bar> \<le> int b ^ p"
    using round_half_even_le_int [of "x / bpow b e"] round_half_even_ge_int [of "- (int b ^ p)" "x / bpow b e"]
    by (auto simp: m_def abs_le_iff)
  show ?thesis
  proof (cases "\<bar>m\<bar> = int b ^ p")
    case False
    then show ?thesis using that r m_le by force
  next
    case True
    have "int b ^ p = int b ^ (p - 1) * int b" using p by (cases p) auto
    then have "of_int m * bpow b e = of_int (sgn m * int b ^ (p - 1)) * bpow b (e + 1)"
      using b bpow_add [OF b, of e 1] bpow_nat [of b 1] arg_cong [OF sgn_mult_abs [of m], of rat_of_int]
      unfolding True by simp
    moreover have "\<bar>sgn m * int b ^ (p - 1)\<bar> < int b ^ p"
      using b p by (simp add: abs_mult abs_sgn_eq power_strict_increasing)
    ultimately show ?thesis using that r by metis
  qed
qed

lemma round_sig_idem: "2 \<le> b \<Longrightarrow> 1 \<le> p \<Longrightarrow> round_sig b p (round_sig b p x) = round_sig b p x"
  by (metis round_sig_exact round_sig_representable)


section \<open>The decimal context\<close>

lemma ctx_mono: "x \<le> y \<Longrightarrow> ctx x \<le> ctx y"
  by (simp add: ctx_def round_sig_mono)

lemma ctx_idem [simp]: "ctx (ctx x) = ctx x"
  by (simp add: ctx_def round_sig_idem)

lemma ctx_nonneg: "0 \<le> x \<Longrightarrow> 0 \<le> ctx x"
  by (simp add: ctx_def round_sig_nonneg)

lemma ctx_uminus: "ctx (- x) = - ctx x"
  by (simp add: ctx_def round_sig_uminus)

lemma ctx_exact: "x * 10 ^ k = of_int m \<Longrightarrow> \<bar>m\<bar> < 10 ^ 28 \<Longrightarrow> ctx x = x"
  unfolding ctx_def
  by (rule round_sig_exact [where m = m and k = "- int k"]) (auto simp: bpow_def field_simps)

text \<open>
  An evaluation shortcut: a value with at most four fractional digits and far below the precision
  is returned as it is.
\<close>

lemma ctx_code [code]:
  "ctx x = (let (p, q) = quotient_of x
            in if 10000 mod q = 0 \<and> \<bar>p\<bar> < 10 ^ 24 then x else round_sig 10 28 x)"
proof -
  obtain p q where pq: "quotient_of x = (p, q)" by fastforce
  have q: "0 < q" "x = of_int p / of_int q"
    using quotient_of_denom_pos [OF pq] quotient_of_div [OF pq] by auto
  have "ctx x = x" if "10000 mod q = 0" "\<bar>p\<bar> < 10 ^ 24"
  proof -
    from that(1) have "q dvd 10000" by presburger
    then obtain k where k: "10000 = q * k" by (rule dvdE)
    then have "(10 ^ 4 :: rat) = of_int q * of_int k"
      using arg_cong [OF k, of rat_of_int] by simp
    then have "x * 10 ^ 4 = (of_int p / of_int q) * (of_int q * of_int k)" by (simp only: q(2))
    then have exact: "x * 10 ^ 4 = of_int (p * k)" using q(1) by simp
    have k0: "0 < k" "k \<le> 10000"
      using k q(1) zero_less_mult_iff [of q k] mult_right_mono [of 1 q k] by auto
    have "\<bar>p * k\<bar> \<le> \<bar>p\<bar> * 10000" using k0 by (simp add: abs_mult mult_left_mono)
    also have "\<dots> < 10 ^ 24 * 10000" using that(2) by (intro mult_strict_right_mono) auto
    finally have small: "\<bar>p * k\<bar> < 10 ^ 28" by simp
    show ?thesis by (rule ctx_exact [OF exact small])
  qed
  then show ?thesis by (simp add: pq ctx_def)
qed

lemma ctx_of_int [decimal_simps]: "\<bar>m\<bar> < 10 ^ 28 \<Longrightarrow> ctx (of_int m) = of_int m"
  by (rule ctx_exact [where k = 0]) auto

lemma ctx_0 [simp]: "ctx 0 = 0"
  by (simp add: ctx_def round_sig_def)

lemma ctx_1 [simp]: "ctx 1 = 1"
  using ctx_of_int [of 1] by simp

lemma ctx_numeral [decimal_simps]: "(numeral n :: int) < 10 ^ 28 \<Longrightarrow> ctx (numeral n) = numeral n"
  using ctx_of_int [of "numeral n"] by simp

lemma ctx_le_exact: "x \<le> y \<Longrightarrow> ctx y = y \<Longrightarrow> ctx x \<le> y"
  using ctx_mono by fastforce

lemma ctx_ge_exact: "y \<le> x \<Longrightarrow> ctx y = y \<Longrightarrow> y \<le> ctx x"
  using ctx_mono by fastforce

lemma dec_add_mono: "a \<le> a' \<Longrightarrow> b \<le> b' \<Longrightarrow> dec_add a b \<le> dec_add a' b'"
  by (simp add: dec_add_def ctx_mono)

lemma dec_add_ctx [simp]: "ctx (dec_add a b) = dec_add a b"
  by (simp add: dec_add_def)

lemma dec_mul_ctx [simp]: "ctx (dec_mul a b) = dec_mul a b"
  by (simp add: dec_mul_def)

lemma dec_add_inflate: "ctx a = a \<Longrightarrow> 0 \<le> b \<Longrightarrow> a \<le> dec_add a b"
  by (simp add: dec_add_def ctx_ge_exact)

lemma dec_add_nonneg: "0 \<le> a \<Longrightarrow> 0 \<le> b \<Longrightarrow> 0 \<le> dec_add a b"
  by (simp add: dec_add_def ctx_nonneg)

lemma dec_mul_nonneg: "0 \<le> a \<Longrightarrow> 0 \<le> b \<Longrightarrow> 0 \<le> dec_mul a b"
  by (simp add: dec_mul_def ctx_nonneg)

lemma dec_mul_mono: "0 \<le> b \<Longrightarrow> a \<le> a' \<Longrightarrow> dec_mul a b \<le> dec_mul a' b"
  by (simp add: dec_mul_def ctx_mono mult_right_mono)

text \<open>A quotient of a smaller nonnegative value by a larger one lies in the unit interval.\<close>

lemma dec_div_unit:
  assumes "dec_div a b = Some q" and "0 \<le> a" and "a \<le> b"
  shows "0 \<le> q \<and> q \<le> 1"
proof -
  have q: "q = ctx (a / b)" and "b \<noteq> 0" using assms(1) by (auto simp: dec_div_def split: if_splits)
  have "0 \<le> a / b" "a / b \<le> 1" using assms(2,3) \<open>b \<noteq> 0\<close> by (auto simp: divide_le_eq)
  then show ?thesis by (auto simp: q intro: ctx_nonneg ctx_le_exact)
qed

lemma dec_div_mono:
  assumes "dec_div a c = Some q" "dec_div b c = Some r" "a \<le> b" "0 \<le> c"
  shows "q \<le> r"
  using assms by (auto simp: dec_div_def intro!: ctx_mono divide_right_mono split: if_splits)

section \<open>Quantising\<close>

lemma round_half_up_mono: "x \<le> y \<Longrightarrow> round_half_up x \<le> round_half_up y"
proof -
  assume xy: "x \<le> y"
  consider "0 \<le> x" | "y < 0" | "x < 0" "0 \<le> y" by linarith
  then show ?thesis
  proof cases
    case 1
    with xy show ?thesis by (simp add: round_half_up_def floor_mono)
  next
    case 2
    then have "\<lfloor>1 / 2 - y\<rfloor> \<le> \<lfloor>1 / 2 - x\<rfloor>" using xy by (intro floor_mono) simp
    with 2 xy show ?thesis by (simp add: round_half_up_def)
  next
    case 3
    then have "0 \<le> \<lfloor>1 / 2 - x\<rfloor>" "0 \<le> \<lfloor>y + 1 / 2\<rfloor>" unfolding le_floor_iff by simp_all
    then have "- \<lfloor>1 / 2 - x\<rfloor> \<le> \<lfloor>y + 1 / 2\<rfloor>" by linarith
    with 3 show ?thesis by (simp add: round_half_up_def)
  qed
qed

lemma round_half_up_of_int [simp]: "round_half_up (of_int m) = m"
proof -
  have "\<lfloor>of_int m + (1 / 2 :: rat)\<rfloor> = m" "\<lfloor>1 / 2 - (of_int m :: rat)\<rfloor> = - m"
    by (rule floor_unique; simp)+
  then show ?thesis by (simp add: round_half_up_def)
qed

lemma quantize_half_up_mono: "x \<le> y \<Longrightarrow> quantize_half_up k x \<le> quantize_half_up k y"
  by (simp add: quantize_half_up_def divide_right_mono round_half_up_mono mult_right_mono)

lemma quantize_half_up_exact: "x * 10 ^ k = of_int m \<Longrightarrow> quantize_half_up k x = x"
  by (simp add: quantize_half_up_def) (simp add: field_simps)

lemma quantize_half_up_0 [simp]: "quantize_half_up k 0 = 0"
  by (rule quantize_half_up_exact [of _ _ 0]) simp

lemma quantize_half_up_nonneg: "0 \<le> x \<Longrightarrow> 0 \<le> quantize_half_up k x"
  using quantize_half_up_mono [of 0 x k] by simp

text \<open>Half-up quantising moves a value by at most half a unit of the last digit.\<close>

lemma round_half_up_error: "\<bar>of_int (round_half_up x) - x\<bar> \<le> 1 / 2"
proof (cases "0 \<le> x")
  case True
  then have "round_half_up x = \<lfloor>x + 1 / 2\<rfloor>" by (simp add: round_half_up_def)
  then show ?thesis using floor_correct [of "x + 1 / 2"] unfolding abs_le_iff by simp linarith
next
  case False
  then have "round_half_up x = - \<lfloor>1 / 2 - x\<rfloor>" by (simp add: round_half_up_def)
  then show ?thesis using floor_correct [of "1 / 2 - x"] unfolding abs_le_iff by simp linarith
qed

lemma quantize_half_up_error: "\<bar>quantize_half_up k x - x\<bar> \<le> 1 / (2 * 10 ^ k)"
proof -
  have "quantize_half_up k x - x = (of_int (round_half_up (x * 10 ^ k)) - x * 10 ^ k) / 10 ^ k"
    by (simp add: quantize_half_up_def diff_divide_distrib)
  then have "\<bar>quantize_half_up k x - x\<bar> = \<bar>of_int (round_half_up (x * 10 ^ k)) - x * 10 ^ k\<bar> / 10 ^ k"
    by (simp add: abs_divide)
  also have "\<dots> \<le> (1 / 2) / 10 ^ k"
    by (intro divide_right_mono round_half_up_error) simp
  finally show ?thesis by (simp add: mult.commute)
qed

end
