(* ===== verification/Road_Network.thy ===== *)
theory Road_Network
  imports Decimal_Arith "HOL-Library.Product_Lexorder" "HOL-Library.List_Lexorder" "HOL-Library.Char_ord"
begin

text \<open>
  The road network of \<open>backend/app/road_network\<close>: the snapshots of \<open>models.py\<close> and the path
  finder of \<open>dijkstra.py\<close>, function by function.

  Strings are compared by \<open>List_Lexorder\<close> over \<open>Char_ord\<close> and tuples by \<open>Product_Lexorder\<close>, the
  order Python uses for \<open>str\<close> and \<open>tuple\<close> (the byte order of UTF-8 is the order of the code
  points). The binary heap of \<open>heapq\<close> is kept as a sorted list: what the program observes of it is
  that \<open>heappop\<close> returns a least element. The search loop is a partial function into \<open>option\<close>,
  where \<open>None\<close> means that the loop does not return, and \<open>find_path\<close> (the method \<open>find\<close>) reports that outcome as
  \<open>NoReturn\<close>; \<open>Dijkstra_Correct\<close> shows when it does return and what it returns.
\<close>

section \<open>Data: models.py\<close>

datatype route_objective = FASTEST | SHORTEST | SAFEST

record road_node =
  rn_node_id :: string
  rn_name :: string
  rn_x_km :: rat
  rn_y_km :: rat
  rn_node_type :: string

record road_edge =
  re_edge_id :: string
  re_name :: string
  re_from_node_id :: string
  re_to_node_id :: string
  re_distance_km :: rat
  re_base_minutes :: int
  re_road_level :: string
  re_risk_level :: string
  re_status :: string
  re_congestion_factor :: rat
  re_weight_limit_tons :: rat
  re_bidirectional :: bool
  re_version :: int

record road_network =
  net_version :: int
  net_nodes :: "road_node list"
  net_edges :: "road_edge list"

record path_result =
  pr_objective :: route_objective
  pr_node_ids :: "string list"
  pr_edge_ids :: "string list"
  pr_distance_km :: rat
  pr_estimated_minutes :: int
  pr_risk_cost :: rat
  pr_visited_node_count :: nat

text \<open>
  How a call can end other than with a value: a missing dictionary key, or a loop that never
  returns.
\<close>

datatype road_error = KeyError string | NoReturn

section \<open>Edge weights\<close>

definition risk_penalty :: "road_edge \<Rightarrow> rat option" where
  "risk_penalty edge =
     map_of [(''LOW'', 0), (''MEDIUM'', 4), (''HIGH'', 12)] (re_risk_level edge)"

definition edge_minutes :: "road_edge \<Rightarrow> rat" where
  "edge_minutes edge = dec_mul (of_int (re_base_minutes edge)) (re_congestion_factor edge)"

definition weight :: "road_edge \<Rightarrow> route_objective \<Rightarrow> rat option" where
  "weight edge objective =
     (case objective of
        SHORTEST \<Rightarrow> Some (re_distance_km edge)
      | FASTEST \<Rightarrow> Some (edge_minutes edge)
      | SAFEST \<Rightarrow> map_option (dec_add (edge_minutes edge)) (risk_penalty edge))"

definition quantize_distance :: "rat \<Rightarrow> rat" where
  "quantize_distance = quantize_half_up 2"

definition is_available :: "road_edge \<Rightarrow> rat \<Rightarrow> string set \<Rightarrow> bool" where
  "is_available edge vehicle_weight_tons excluded_edge_ids \<longleftrightarrow>
     re_edge_id edge \<notin> excluded_edge_ids \<and> re_status edge \<noteq> ''BLOCKED'' \<and>
     vehicle_weight_tons \<le> re_weight_limit_tons edge"

text \<open>\<open>_display_minutes\<close>: the dictionary keeps the last edge of each id.\<close>

fun sum_minutes :: "(string \<rightharpoonup> road_edge) \<Rightarrow> rat \<Rightarrow> string list \<Rightarrow> rat option" where
  "sum_minutes edges acc [] = Some acc"
| "sum_minutes edges acc (edge_id # edge_ids) =
     (case edges edge_id of
        None \<Rightarrow> None
      | Some edge \<Rightarrow> sum_minutes edges (dec_add acc (edge_minutes edge)) edge_ids)"

definition edges_by_id :: "road_edge list \<Rightarrow> string \<rightharpoonup> road_edge" where
  "edges_by_id edges = map_of (rev (map (\<lambda>e. (re_edge_id e, e)) edges))"

definition display_minutes :: "road_network \<Rightarrow> string list \<Rightarrow> int option" where
  "display_minutes snapshot edge_ids =
     map_option ceiling (sum_minutes (edges_by_id (net_edges snapshot)) 0 edge_ids)"

section \<open>The adjacency lists\<close>

type_synonym adjacency = "string \<Rightarrow> (string \<times> road_edge) list"

definition adjacency_step :: "rat \<Rightarrow> string set \<Rightarrow> adjacency \<Rightarrow> road_edge \<Rightarrow> adjacency" where
  "adjacency_step vehicle_weight_tons excluded_edge_ids adjacency edge =
     (if \<not> is_available edge vehicle_weight_tons excluded_edge_ids then adjacency
      else let f = re_from_node_id edge; t = re_to_node_id edge;
               adj1 = adjacency(f := adjacency f @ [(t, edge)])
           in if re_bidirectional edge then adj1(t := adj1 t @ [(f, edge)]) else adj1)"

definition build_adjacency :: "road_network \<Rightarrow> rat \<Rightarrow> string set \<Rightarrow> adjacency" where
  "build_adjacency snapshot vehicle_weight_tons excluded_edge_ids =
     (let adj = foldl (adjacency_step vehicle_weight_tons excluded_edge_ids) (\<lambda>_. []) (net_edges snapshot)
      in (\<lambda>n. sort_key (\<lambda>item. (re_edge_id (snd item), fst item)) (adj n)))"

section \<open>The heap and the search loop\<close>

type_synonym heap_entry = "rat \<times> string list \<times> string \<times> string list \<times> rat \<times> rat"
type_synonym best_map = "string \<rightharpoonup> rat \<times> string list"

definition heappush :: "'a::linorder \<Rightarrow> 'a list \<Rightarrow> 'a list" where
  "heappush x heap = insort x heap"

fun heappop :: "'a list \<Rightarrow> ('a \<times> 'a list) option" where
  "heappop [] = None"
| "heappop (x # heap) = Some (x, heap)"

text \<open>The inner loop over the neighbours of the node just taken from the heap.\<close>

fun relax :: "route_objective \<Rightarrow> rat \<Rightarrow> string list \<Rightarrow> string list \<Rightarrow> rat \<Rightarrow> rat \<Rightarrow>
    (string \<times> road_edge) list \<Rightarrow> best_map \<Rightarrow> heap_entry list \<Rightarrow>
    road_error + best_map \<times> heap_entry list" where
  "relax objective cost edge_ids node_path distance_km risk_cost [] best heap = Inr (best, heap)"
| "relax objective cost edge_ids node_path distance_km risk_cost ((next_node_id, edge) # items) best heap =
     (case weight edge objective of
        None \<Rightarrow> Inl (KeyError (re_risk_level edge))
      | Some w \<Rightarrow>
          let next_edge_ids = edge_ids @ [re_edge_id edge];
              next_cost = dec_add cost w;
              candidate = (next_cost, next_edge_ids)
          in if (case best next_node_id of None \<Rightarrow> False | Some b \<Rightarrow> b \<le> candidate)
             then relax objective cost edge_ids node_path distance_km risk_cost items best heap
             else (case risk_penalty edge of
                     None \<Rightarrow> Inl (KeyError (re_risk_level edge))
                   | Some rp \<Rightarrow>
                       relax objective cost edge_ids node_path distance_km risk_cost items
                         (best(next_node_id \<mapsto> candidate))
                         (heappush (next_cost, next_edge_ids, next_node_id, node_path @ [next_node_id],
                            dec_add distance_km (re_distance_km edge), dec_add risk_cost rp) heap)))"

partial_function (option) search ::
  "road_network \<Rightarrow> route_objective \<Rightarrow> string \<Rightarrow> adjacency \<Rightarrow> best_map \<Rightarrow> heap_entry list \<Rightarrow> nat \<Rightarrow>
   (road_error + path_result option) option" where
  "search snapshot objective end_node_id adjacency best heap visited_node_count =
     (case heappop heap of
        None \<Rightarrow> Some (Inr None)
      | Some ((cost, edge_ids, node_id, node_path, distance_km, risk_cost), heap') \<Rightarrow>
          if best node_id \<noteq> Some (cost, edge_ids)
          then search snapshot objective end_node_id adjacency best heap' visited_node_count
          else if node_id = end_node_id
          then Some (case display_minutes snapshot edge_ids of
                 None \<Rightarrow> Inl (KeyError [])
               | Some minutes \<Rightarrow>
                   Inr (Some \<lparr>pr_objective = objective, pr_node_ids = node_path, pr_edge_ids = edge_ids,
                     pr_distance_km = quantize_distance distance_km, pr_estimated_minutes = minutes,
                     pr_risk_cost = risk_cost, pr_visited_node_count = visited_node_count + 1\<rparr>))
          else (case relax objective cost edge_ids node_path distance_km risk_cost
                       (adjacency node_id) best heap' of
                  Inl err \<Rightarrow> Some (Inl err)
                | Inr (best', heap'') \<Rightarrow>
                    search snapshot objective end_node_id adjacency best' heap''
                      (visited_node_count + 1)))"

declare search.simps [code]

definition initial_entry :: "string \<Rightarrow> heap_entry" where
  "initial_entry start_node_id = (0, [], start_node_id, [start_node_id], 0, 0)"

type_synonym find_fn =
  "road_network \<Rightarrow> string \<Rightarrow> string \<Rightarrow> route_objective \<Rightarrow> rat \<Rightarrow> string set \<Rightarrow>
   road_error + path_result option"

definition find_path :: find_fn where
  "find_path snapshot start_node_id end_node_id objective vehicle_weight_tons excluded_edge_ids =
     (let node_ids = set (map rn_node_id (net_nodes snapshot))
      in if start_node_id \<notin> node_ids \<or> end_node_id \<notin> node_ids then Inr None
         else if start_node_id = end_node_id
         then Inr (Some \<lparr>pr_objective = objective, pr_node_ids = [start_node_id], pr_edge_ids = [],
                pr_distance_km = 0, pr_estimated_minutes = 0, pr_risk_cost = 0,
                pr_visited_node_count = 0\<rparr>)
         else (case search snapshot objective end_node_id
                      (build_adjacency snapshot vehicle_weight_tons excluded_edge_ids)
                      [start_node_id \<mapsto> (0, [])] [initial_entry start_node_id] 0 of
                 None \<Rightarrow> Inl NoReturn
               | Some r \<Rightarrow> r))"

section \<open>The arcs the adjacency lists hold\<close>

text \<open>
  An arc of the network as a vehicle of the given weight may drive it: an available edge in its
  direction, or against it when it is bidirectional.
\<close>

definition arc :: "road_network \<Rightarrow> rat \<Rightarrow> string set \<Rightarrow> string \<Rightarrow> road_edge \<Rightarrow> string \<Rightarrow> bool" where
  "arc snapshot vw excl n e m \<longleftrightarrow>
     e \<in> set (net_edges snapshot) \<and> is_available e vw excl \<and>
     (re_from_node_id e = n \<and> re_to_node_id e = m \<or>
      re_bidirectional e \<and> re_to_node_id e = n \<and> re_from_node_id e = m)"

lemma adjacency_step_set:
  "set (adjacency_step vw excl adj e n) =
     set (adj n) \<union> {(m, e) | m. is_available e vw excl \<and>
        (re_from_node_id e = n \<and> re_to_node_id e = m \<or>
         re_bidirectional e \<and> re_to_node_id e = n \<and> re_from_node_id e = m)}"
  by (auto simp: adjacency_step_def Let_def)

lemma foldl_adjacency_set:
  "set (foldl (adjacency_step vw excl) adj es n) =
     set (adj n) \<union> {(m, e) | m e. e \<in> set es \<and> is_available e vw excl \<and>
        (re_from_node_id e = n \<and> re_to_node_id e = m \<or>
         re_bidirectional e \<and> re_to_node_id e = n \<and> re_from_node_id e = m)}"
  by (induction es arbitrary: adj) (auto simp: adjacency_step_set)

lemma build_adjacency_arc:
  "(m, e) \<in> set (build_adjacency snapshot vw excl n) \<longleftrightarrow> arc snapshot vw excl n e m"
  by (auto simp: build_adjacency_def Let_def foldl_adjacency_set arc_def)

end
