(* ===== verification/Dijkstra_Correct.thy ===== *)
theory Dijkstra_Correct
  imports Road_Network
begin

text \<open>
  Total correctness of the search loop of \<open>Road_Network\<close>.

  A walk is a list of (edge, node reached) pairs; \<open>walk_cost\<close> adds the edge weights from the left
  with the rounding decimal addition, in the order the program adds them. The invariant
  \<open>search_inv\<close> says that every heap entry records a simple walk from the start, that the best
  map never exceeds the key of any prefix of a recorded walk, and that every node of the best map is
  either in the heap with its current key or settled (all its arcs relaxed). From it follow the
  optimality of the walk the loop returns, the completeness of its negative answer and, with a
  measure that counts the keys still below the best map, its termination. Only monotonicity of
  the rounding and nonnegative weights are used.
\<close>

declare split_paired_All [simp del] split_paired_Ex [simp del]

section \<open>The heap keeps its elements and returns a least one\<close>

locale priority_queue =
  fixes push :: "'a::linorder \<Rightarrow> 'h \<Rightarrow> 'h"
    and pop :: "'h \<Rightarrow> ('a \<times> 'h) option"
    and elems :: "'h \<Rightarrow> 'a multiset"
    and invar :: "'h \<Rightarrow> bool"
  assumes pop_None: "invar h \<Longrightarrow> pop h = None \<longleftrightarrow> elems h = {#}"
    and pop_elems: "invar h \<Longrightarrow> pop h = Some (x, h') \<Longrightarrow> elems h = add_mset x (elems h')"
    and pop_least: "invar h \<Longrightarrow> pop h = Some (x, h') \<Longrightarrow> y \<in># elems h \<Longrightarrow> x \<le> y"
    and pop_invar: "invar h \<Longrightarrow> pop h = Some (x, h') \<Longrightarrow> invar h'"
    and push_elems: "invar h \<Longrightarrow> elems (push x h) = add_mset x (elems h)"
    and push_invar: "invar h \<Longrightarrow> invar (push x h)"
begin

lemma pop_size: "invar h \<Longrightarrow> pop h = Some (x, h') \<Longrightarrow> size (elems h) = Suc (size (elems h'))"
  using pop_elems by simp

lemma pop_set: "invar h \<Longrightarrow> pop h = Some (x, h') \<Longrightarrow> set_mset (elems h) = insert x (set_mset (elems h'))"
  using pop_elems by simp

lemma push_set: "invar h \<Longrightarrow> set_mset (elems (push x h)) = insert x (set_mset (elems h))"
  using push_elems by simp

end

interpretation heapq: priority_queue "heappush :: heap_entry \<Rightarrow> _" heappop mset sorted
proof unfold_locales
  fix h h' :: "heap_entry list" and x y :: heap_entry
  show "sorted h \<Longrightarrow> heappop h = None \<longleftrightarrow> mset h = {#}" by (cases h) auto
  show "sorted h \<Longrightarrow> heappop h = Some (x, h') \<Longrightarrow> mset h = add_mset x (mset h')" by (cases h) auto
  show "sorted h \<Longrightarrow> heappop h = Some (x, h') \<Longrightarrow> y \<in># mset h \<Longrightarrow> x \<le> y" by (cases h) auto
  show "sorted h \<Longrightarrow> heappop h = Some (x, h') \<Longrightarrow> sorted h'" by (cases h) auto
  show "sorted h \<Longrightarrow> mset (heappush x h) = add_mset x (mset h)"
    by (simp add: heappush_def)
  show "sorted h \<Longrightarrow> sorted (heappush x h)" by (simp add: heappush_def sorted_insort)
qed

section \<open>Walks and their keys\<close>

type_synonym walk = "(road_edge \<times> string) list"

fun is_walk :: "adjacency \<Rightarrow> string \<Rightarrow> walk \<Rightarrow> string \<Rightarrow> bool" where
  "is_walk adj n [] m \<longleftrightarrow> n = m"
| "is_walk adj n ((e, k) # es) m \<longleftrightarrow> (k, e) \<in> set (adj n) \<and> is_walk adj k es m"

definition walk_end :: "string \<Rightarrow> walk \<Rightarrow> string" where
  "walk_end s es = last (s # map snd es)"

definition edge_weight :: "route_objective \<Rightarrow> road_edge \<Rightarrow> rat" where
  "edge_weight obj e = (case weight e obj of None \<Rightarrow> 0 | Some w \<Rightarrow> w)"

definition edge_risk :: "road_edge \<Rightarrow> rat" where
  "edge_risk e = (case risk_penalty e of None \<Rightarrow> 0 | Some r \<Rightarrow> r)"

definition dec_sum :: "rat list \<Rightarrow> rat" where
  "dec_sum = foldl dec_add 0"

definition walk_cost :: "route_objective \<Rightarrow> walk \<Rightarrow> rat" where
  "walk_cost obj es = dec_sum (map (edge_weight obj \<circ> fst) es)"

definition walk_ids :: "walk \<Rightarrow> string list" where
  "walk_ids es = map (re_edge_id \<circ> fst) es"

definition walk_key :: "route_objective \<Rightarrow> walk \<Rightarrow> rat \<times> string list" where
  "walk_key obj es = (walk_cost obj es, walk_ids es)"

definition walk_entry :: "route_objective \<Rightarrow> string \<Rightarrow> walk \<Rightarrow> heap_entry" where
  "walk_entry obj s es =
     (walk_cost obj es, walk_ids es, walk_end s es, s # map snd es,
      dec_sum (map (re_distance_km \<circ> fst) es), dec_sum (map (edge_risk \<circ> fst) es))"

definition adj_ok :: "route_objective \<Rightarrow> adjacency \<Rightarrow> bool" where
  "adj_ok obj adj \<longleftrightarrow>
     (\<exists>A. finite A \<and> (\<forall>n. set (adj n) \<subseteq> A)) \<and>
     (\<forall>n m e. (m, e) \<in> set (adj n) \<longrightarrow>
        (\<exists>w. weight e obj = Some w \<and> 0 \<le> w) \<and> (\<exists>r. risk_penalty e = Some r))"

lemma dec_sum_Nil [simp]: "dec_sum [] = 0"
  by (simp add: dec_sum_def)

lemma dec_sum_snoc [simp]: "dec_sum (xs @ [x]) = dec_add (dec_sum xs) x"
  by (simp add: dec_sum_def)

lemma dec_sum_ctx [simp]: "ctx (dec_sum xs) = dec_sum xs"
  by (cases xs rule: rev_cases) auto

lemma dec_sum_nonneg: "(\<And>x. x \<in> set xs \<Longrightarrow> 0 \<le> x) \<Longrightarrow> 0 \<le> dec_sum xs"
  by (induction xs rule: rev_induct) (auto intro: dec_add_nonneg)

lemma walk_cost_Nil [simp]: "walk_cost obj [] = 0"
  by (simp add: walk_cost_def)

lemma walk_cost_ctx [simp]: "ctx (walk_cost obj es) = walk_cost obj es"
  by (simp add: walk_cost_def)

lemma walk_cost_snoc: "walk_cost obj (es @ [(e, m)]) = dec_add (walk_cost obj es) (edge_weight obj e)"
  by (simp add: walk_cost_def)

lemma walk_ids_snoc: "walk_ids (es @ [(e, m)]) = walk_ids es @ [re_edge_id e]"
  by (simp add: walk_ids_def)

lemma walk_end_Nil [simp]: "walk_end s [] = s"
  by (simp add: walk_end_def)

lemma walk_end_snoc [simp]: "walk_end s (es @ [(e, m)]) = m"
  by (simp add: walk_end_def)

lemma is_walk_append: "is_walk adj n (xs @ ys) m \<longleftrightarrow> (\<exists>k. is_walk adj n xs k \<and> is_walk adj k ys m)"
  by (induction adj n xs m rule: is_walk.induct) auto

lemma is_walk_snoc:
  "is_walk adj n (xs @ [(e, k)]) m \<longleftrightarrow> k = m \<and> (\<exists>j. is_walk adj n xs j \<and> (m, e) \<in> set (adj j))"
  by (auto simp: is_walk_append)

lemma is_walk_end: "is_walk adj s es m \<Longrightarrow> walk_end s es = m"
  by (cases es rule: rev_cases) (auto simp: is_walk_append)

lemma adj_ok_weight:
  assumes "adj_ok obj adj" "(m, e) \<in> set (adj n)"
  shows "weight e obj = Some (edge_weight obj e)" "0 \<le> edge_weight obj e"
    "risk_penalty e = Some (edge_risk e)"
  using assms by (fastforce simp: adj_ok_def edge_weight_def edge_risk_def)+

text \<open>Extending a walk never lowers its key.\<close>

lemma list_le_append: "(xs :: string list) \<le> xs @ ys"
  by (induction xs) auto

lemma key_extend_le:
  assumes "adj_ok obj adj" "(m, e) \<in> set (adj n)"
  shows "walk_key obj es \<le> walk_key obj (es @ [(e, m)])"
proof -
  have "walk_cost obj es \<le> walk_cost obj (es @ [(e, m)])"
    using adj_ok_weight(2) [OF assms] by (simp add: walk_cost_snoc dec_add_inflate)
  then show ?thesis
    using list_le_append [of "walk_ids es"] by (auto simp: walk_key_def walk_ids_snoc less_eq_prod_def)
qed

lemma key_append_le:
  assumes ok: "adj_ok obj adj" and "is_walk adj s (es @ fs) m"
  shows "walk_key obj es \<le> walk_key obj (es @ fs)"
  using assms(2)
proof (induction fs arbitrary: m rule: rev_induct)
  case (snoc x fs)
  obtain e k where x: "x = (e, k)" by fastforce
  with snoc.prems obtain j where j: "is_walk adj s (es @ fs) j" "(m, e) \<in> set (adj j)" "k = m"
    using is_walk_snoc [of adj s "es @ fs" e k m] by auto
  from snoc.IH [OF j(1)] key_extend_le [OF ok j(2), of "es @ fs"] show ?case
    by (simp add: x j(3))
qed simp

text \<open>Simple walks have finitely many keys.\<close>

definition simple_walk :: "adjacency \<Rightarrow> string \<Rightarrow> walk \<Rightarrow> string \<Rightarrow> bool" where
  "simple_walk adj s es m \<longleftrightarrow> is_walk adj s es m \<and> distinct (s # map snd es)"

definition keys_to :: "route_objective \<Rightarrow> adjacency \<Rightarrow> string \<Rightarrow> string \<Rightarrow> (rat \<times> string list) set" where
  "keys_to obj adj s m = {walk_key obj es | es. simple_walk adj s es m}"

lemma is_walk_arcs: "is_walk adj s es m \<Longrightarrow> (\<And>n. set (adj n) \<subseteq> A) \<Longrightarrow> set es \<subseteq> {(e, k). (k, e) \<in> A}"
  by (induction adj s es m rule: is_walk.induct) auto

lemma finite_simple_walks:
  assumes "adj_ok obj adj"
  shows "finite {es. \<exists>m. simple_walk adj s es m}"
proof -
  from assms obtain A where A: "finite A" "\<And>n. set (adj n) \<subseteq> A" by (auto simp: adj_ok_def)
  let ?B = "{(e, k). (k, e) \<in> A}"
  have B: "finite ?B"
    using A(1) by (rule finite_subset [rotated, OF finite_imageI [of A prod.swap]]) force
  have "set es \<subseteq> ?B \<and> length es \<le> card (snd ` ?B)" if "simple_walk adj s es m" for es m
  proof -
    have sub: "set es \<subseteq> ?B"
      using that is_walk_arcs [of adj s es m A] A(2) unfolding simple_walk_def by blast
    have "length es = card (snd ` set es)"
      using that by (metis distinct.simps(2) distinct_card length_map list.set_map simple_walk_def)
    also have "\<dots> \<le> card (snd ` ?B)" using sub B by (intro card_mono) auto
    finally show ?thesis using sub by simp
  qed
  then have "{es. \<exists>m. simple_walk adj s es m} \<subseteq> {xs. set xs \<subseteq> ?B \<and> length xs \<le> card (snd ` ?B)}"
    by blast
  then show ?thesis using finite_lists_length_le [OF B] by (rule finite_subset)
qed

lemma simple_walk_end: "simple_walk adj s es m \<Longrightarrow> walk_end s es = m"
  unfolding simple_walk_def by (blast intro: is_walk_end)

section \<open>The invariant of the loop\<close>

definition dominates :: "route_objective \<Rightarrow> string \<Rightarrow> best_map \<Rightarrow> walk \<Rightarrow> bool" where
  "dominates obj s best es \<longleftrightarrow>
     (\<forall>es1 es2. es = es1 @ es2 \<longrightarrow> (\<exists>b. best (walk_end s es1) = Some b \<and> b \<le> walk_key obj es1))"

definition entry_ok :: "route_objective \<Rightarrow> adjacency \<Rightarrow> string \<Rightarrow> best_map \<Rightarrow> heap_entry \<Rightarrow> bool" where
  "entry_ok obj adj s best x \<longleftrightarrow>
     (\<exists>es m. simple_walk adj s es m \<and> dominates obj s best es \<and> x = walk_entry obj s es)"

definition extend_key :: "route_objective \<Rightarrow> rat \<times> string list \<Rightarrow> road_edge \<Rightarrow> rat \<times> string list" where
  "extend_key obj b e = (dec_add (fst b) (edge_weight obj e), snd b @ [re_edge_id e])"

definition relaxed :: "route_objective \<Rightarrow> best_map \<Rightarrow> rat \<times> string list \<Rightarrow> (string \<times> road_edge) set \<Rightarrow> bool" where
  "relaxed obj best b arcs \<longleftrightarrow>
     (\<forall>(m, e)\<in>arcs. \<exists>b'. best m = Some b' \<and> b' \<le> extend_key obj b e)"

definition in_heap :: "heap_entry list \<Rightarrow> string \<Rightarrow> rat \<times> string list \<Rightarrow> bool" where
  "in_heap heap n b \<longleftrightarrow> (\<exists>np d r. (fst b, snd b, n, np, d, r) \<in> set heap)"

definition search_inv :: "route_objective \<Rightarrow> adjacency \<Rightarrow> string \<Rightarrow> string \<Rightarrow> string set \<Rightarrow>
    best_map \<Rightarrow> heap_entry list \<Rightarrow> bool" where
  "search_inv obj adj s t X best heap \<longleftrightarrow>
     sorted heap \<and> (\<forall>x\<in>set heap. entry_ok obj adj s best x) \<and> best s = Some (0, []) \<and>
     (\<forall>n b. best n = Some b \<longrightarrow> b \<in> keys_to obj adj s n) \<and>
     (\<forall>n b. best n = Some b \<longrightarrow> n \<notin> X \<longrightarrow>
        in_heap heap n b \<or> n \<noteq> t \<and> relaxed obj best b (set (adj n)))"

definition best_le :: "best_map \<Rightarrow> best_map \<Rightarrow> bool" where
  "best_le best best' \<longleftrightarrow> (\<forall>n b. best n = Some b \<longrightarrow> (\<exists>b'. best' n = Some b' \<and> b' \<le> b))"

text \<open>The keys that could still improve the best map: what shrinks with every push.\<close>

definition below :: "route_objective \<Rightarrow> adjacency \<Rightarrow> string \<Rightarrow> best_map \<Rightarrow> (string \<times> rat \<times> string list) set" where
  "below obj adj s best = {(n, k). k \<in> keys_to obj adj s n \<and> (\<forall>b. best n = Some b \<longrightarrow> k < b)}"

definition todo :: "route_objective \<Rightarrow> adjacency \<Rightarrow> string \<Rightarrow> best_map \<Rightarrow> heap_entry list \<Rightarrow> nat" where
  "todo obj adj s best heap = 2 * card (below obj adj s best) + length heap"

lemma best_le_refl [simp]: "best_le best best"
  by (simp add: best_le_def)

lemma best_leD:
  assumes "best_le best best'" "\<exists>b. best n = Some b \<and> b \<le> k"
  shows "\<exists>b. best' n = Some b \<and> b \<le> k"
  using assms order_trans unfolding best_le_def by blast

lemma best_le_trans: "best_le a b \<Longrightarrow> best_le b c \<Longrightarrow> best_le a c"
  unfolding best_le_def using order_trans by blast

lemma dominates_mono: "best_le best best' \<Longrightarrow> dominates obj s best es \<Longrightarrow> dominates obj s best' es"
  unfolding dominates_def using best_leD by blast

lemma entry_ok_mono: "best_le best best' \<Longrightarrow> entry_ok obj adj s best x \<Longrightarrow> entry_ok obj adj s best' x"
  unfolding entry_ok_def using dominates_mono by blast

lemma relaxed_mono: "best_le best best' \<Longrightarrow> relaxed obj best b arcs \<Longrightarrow> relaxed obj best' b arcs"
  unfolding relaxed_def using best_leD by blast

lemma extend_key_walk: "extend_key obj (walk_key obj es) e = walk_key obj (es @ [(e, m)])"
  by (simp add: extend_key_def walk_key_def walk_cost_snoc walk_ids_snoc)

lemma finite_below:
  assumes "adj_ok obj adj"
  shows "finite (below obj adj s best)"
proof -
  have "below obj adj s best \<subseteq> (\<lambda>es. (walk_end s es, walk_key obj es)) ` {es. \<exists>m. simple_walk adj s es m}"
    by (force simp: below_def keys_to_def dest: simple_walk_end)
  then show ?thesis using finite_simple_walks [OF assms] by (blast intro: finite_subset)
qed

lemma dominates_end: "dominates obj s best es \<Longrightarrow> \<exists>b. best (walk_end s es) = Some b \<and> b \<le> walk_key obj es"
  unfolding dominates_def by (metis append_Nil2)

text \<open>A candidate that improves the best map reaches a node outside its walk.\<close>

lemma improving_is_simple:
  assumes ok: "adj_ok obj adj" and es: "simple_walk adj s es n" and dom: "dominates obj s best es"
    and arc: "(m, e) \<in> set (adj n)"
    and imp: "\<And>b. best m = Some b \<Longrightarrow> \<not> b \<le> walk_key obj (es @ [(e, m)])"
  shows "m \<notin> set (s # map snd es)" "simple_walk adj s (es @ [(e, m)]) m"
proof -
  have w: "is_walk adj s es n" using es by (simp add: simple_walk_def)
  show new: "m \<notin> set (s # map snd es)"
  proof
    assume "m \<in> set (s # map snd es)"
    then obtain es1 es2 where split: "es = es1 @ es2" "walk_end s es1 = m"
    proof (cases "m = s")
      case True
      then show ?thesis using that [of "[]" es] by simp
    next
      case False
      with \<open>m \<in> set (s # map snd es)\<close> obtain f where "(f, m) \<in> set es" by auto
      then obtain xs ys where "es = xs @ (f, m) # ys" by (meson split_list)
      then show ?thesis using that [of "xs @ [(f, m)]" ys] by simp
    qed
    then obtain b where b: "best m = Some b" "b \<le> walk_key obj es1"
      using dom unfolding dominates_def by blast
    have "walk_key obj es1 \<le> walk_key obj es" using key_append_le [OF ok] w split(1) by blast
    also have "\<dots> \<le> walk_key obj (es @ [(e, m)])" using key_extend_le [OF ok arc] .
    finally show False using b imp by fastforce
  qed
  show "simple_walk adj s (es @ [(e, m)]) m"
    using new es arc unfolding simple_walk_def by (auto simp: is_walk_snoc)
qed

text \<open>One improving push keeps the invariant and uses up a key.\<close>

lemma push_step:
  assumes ok: "adj_ok obj adj" and inv: "search_inv obj adj s t {n} best heap"
    and es: "simple_walk adj s es n" and dom: "dominates obj s best es"
    and arc: "(m, e) \<in> set (adj n)"
    and imp: "\<And>b. best m = Some b \<Longrightarrow> \<not> b \<le> walk_key obj (es @ [(e, m)])"
  defines "best1 \<equiv> best(m \<mapsto> walk_key obj (es @ [(e, m)]))"
    and "heap1 \<equiv> heappush (walk_entry obj s (es @ [(e, m)])) heap"
  shows "search_inv obj adj s t {n} best1 heap1" "best_le best best1" "best1 n = best n"
    "todo obj adj s best1 heap1 < todo obj adj s best heap"
proof -
  let ?es = "es @ [(e, m)]"
  let ?k = "walk_key obj ?es"
  note simp' = improving_is_simple [OF ok es dom arc imp]
  have n: "n \<in> set (s # map snd es)" using simple_walk_end [OF es] last_in_set [of "s # map snd es"]
    by (simp add: walk_end_def)
  have ms: "m \<noteq> s" "m \<noteq> n" using simp'(1) n by auto
  show le: "best_le best best1"
    unfolding best_le_def
  proof (intro allI impI)
    fix k b assume kb: "best k = Some b"
    show "\<exists>b'. best1 k = Some b' \<and> b' \<le> b"
    proof (cases "k = m")
      case True
      then have "?k \<le> b" using imp kb linear by blast
      then show ?thesis using True by (simp add: best1_def)
    qed (use kb in \<open>simp add: best1_def\<close>)
  qed
  show "best1 n = best n" using ms by (simp add: best1_def)
  have key: "?k \<in> keys_to obj adj s m" using simp'(2) by (auto simp: keys_to_def)
  have dom1: "dominates obj s best1 ?es"
    unfolding dominates_def
  proof (intro allI impI)
    fix es1 es2 assume split: "?es = es1 @ es2"
    show "\<exists>b. best1 (walk_end s es1) = Some b \<and> b \<le> walk_key obj es1"
    proof (cases es2 rule: rev_cases)
      case Nil
      with split have "best1 (walk_end s es1) = Some (walk_key obj es1)" by (auto simp: best1_def)
      then show ?thesis by blast
    next
      case (snoc ys y)
      with split have "es = es1 @ ys" by simp
      then show ?thesis using dominates_mono [OF le dom] unfolding dominates_def by blast
    qed
  qed
  have ent: "entry_ok obj adj s best1 (walk_entry obj s ?es)"
    using simp'(2) dom1 by (auto simp: entry_ok_def)
  have heap1: "set heap1 = insert (walk_entry obj s ?es) (set heap)" "sorted heap1"
    using inv heapq.push_set [of heap] heapq.push_invar [of heap]
    by (auto simp: search_inv_def heap1_def)
  have cover: "in_heap heap1 k b \<or> k \<noteq> t \<and> relaxed obj best1 b (set (adj k))"
    if "best1 k = Some b" "k \<notin> {n}" for k b
  proof (cases "k = m")
    case True
    with that(1) have "b = ?k" by (simp add: best1_def)
    with True show ?thesis by (auto simp: in_heap_def heap1 walk_entry_def walk_key_def)
  next
    case False
    then have "best k = Some b" using that(1) by (simp add: best1_def)
    with that(2) inv have "in_heap heap k b \<or> k \<noteq> t \<and> relaxed obj best b (set (adj k))"
      by (auto simp: search_inv_def)
    then show ?thesis using relaxed_mono [OF le] unfolding in_heap_def heap1 by blast
  qed
  show "search_inv obj adj s t {n} best1 heap1"
    unfolding search_inv_def
    using inv heap1 ent entry_ok_mono [OF le] key ms cover
    by (auto simp: search_inv_def best1_def)
  have "below obj adj s best1 \<subseteq> below obj adj s best"
    using le less_le_trans unfolding best_le_def below_def by blast
  moreover have "(m, ?k) \<in> below obj adj s best" "(m, ?k) \<notin> below obj adj s best1"
    using key imp by (auto simp: below_def best1_def not_le)
  ultimately have "card (below obj adj s best1) < card (below obj adj s best)"
    using finite_below [OF ok] by (intro psubset_card_mono) auto
  then show "todo obj adj s best1 heap1 < todo obj adj s best heap"
    by (simp add: todo_def heap1_def heappush_def)
qed


section \<open>The inner loop\<close>

lemma relax_spec:
  assumes ok: "adj_ok obj adj" and es: "simple_walk adj s es n"
    and x: "walk_entry obj s es = (c, ids, n', np, d, r)"
    and inv: "search_inv obj adj s t {n} best heap" and dom: "dominates obj s best es"
    and items: "set items \<subseteq> set (adj n)"
  shows "\<exists>best' heap'. relax obj c ids np d r items best heap = Inr (best', heap') \<and>
    search_inv obj adj s t {n} best' heap' \<and> best_le best best' \<and> best' n = best n \<and>
    relaxed obj best' (walk_key obj es) (set items) \<and>
    todo obj adj s best' heap' \<le> todo obj adj s best heap"
  using inv dom items
proof (induction items arbitrary: best heap)
  case Nil
  then show ?case by (simp add: relaxed_def)
next
  case (Cons item items)
  obtain m e where item: "item = (m, e)" by fastforce
  have arc: "(m, e) \<in> set (adj n)" using Cons.prems(3) item by simp
  note w = adj_ok_weight [OF ok arc]
  let ?es = "es @ [(e, m)]"
  let ?k = "walk_key obj ?es"
  have k: "(dec_add c (edge_weight obj e), ids @ [re_edge_id e]) = ?k"
    using x by (simp add: walk_entry_def walk_key_def walk_cost_snoc walk_ids_snoc)
  have ent: "(dec_add c (edge_weight obj e), ids @ [re_edge_id e], m, np @ [m],
      dec_add d (re_distance_km e), dec_add r (edge_risk e)) = walk_entry obj s ?es"
    using x by (auto simp: walk_entry_def walk_cost_snoc walk_ids_snoc)
  show ?case
  proof (cases "\<exists>b. best m = Some b \<and> b \<le> ?k")
    case True
    then obtain b where b: "best m = Some b" "b \<le> ?k" by blast
    have step: "relax obj c ids np d r (item # items) best heap = relax obj c ids np d r items best heap"
      using b unfolding item by (simp add: w Let_def k)
    obtain best' heap' where IH: "relax obj c ids np d r items best heap = Inr (best', heap')"
      "search_inv obj adj s t {n} best' heap'" "best_le best best'" "best' n = best n"
      "relaxed obj best' (walk_key obj es) (set items)"
      "todo obj adj s best' heap' \<le> todo obj adj s best heap"
      using Cons.IH [OF Cons.prems(1,2)] Cons.prems(3) by auto
    have "\<exists>b'. best' m = Some b' \<and> b' \<le> extend_key obj (walk_key obj es) e"
      using best_leD [OF IH(3) True] by (simp only: extend_key_walk [of obj es e m])
    then have "relaxed obj best' (walk_key obj es) (set (item # items))"
      using IH(5) unfolding relaxed_def item by simp
    with IH step show ?thesis by metis
  next
    case False
    then have imp: "\<And>b. best m = Some b \<Longrightarrow> \<not> b \<le> ?k" by blast
    define best1 where "best1 = best(m \<mapsto> ?k)"
    define heap1 where "heap1 = heappush (walk_entry obj s ?es) heap"
    note P = push_step [OF ok Cons.prems(1) es Cons.prems(2) arc imp, folded best1_def heap1_def]
    have cond: "(case best m of None \<Rightarrow> False
        | Some b \<Rightarrow> b \<le> (dec_add c (edge_weight obj e), ids @ [re_edge_id e])) = False"
      using False unfolding k by (auto split: option.splits)
    have step: "relax obj c ids np d r (item # items) best heap = relax obj c ids np d r items best1 heap1"
      unfolding item by (simp add: w Let_def cond k ent best1_def heap1_def)
    have dom1: "dominates obj s best1 es" using dominates_mono [OF P(2) Cons.prems(2)] .
    obtain best' heap' where IH: "relax obj c ids np d r items best1 heap1 = Inr (best', heap')"
      "search_inv obj adj s t {n} best' heap'" "best_le best1 best'" "best' n = best1 n"
      "relaxed obj best' (walk_key obj es) (set items)"
      "todo obj adj s best' heap' \<le> todo obj adj s best1 heap1"
      using Cons.IH [OF P(1) dom1] Cons.prems(3) by auto
    have "\<exists>b. best1 m = Some b \<and> b \<le> ?k" by (simp add: best1_def del: split_paired_Ex)
    from best_leD [OF IH(3) this]
    have "\<exists>b'. best' m = Some b' \<and> b' \<le> extend_key obj (walk_key obj es) e"
      by (simp only: extend_key_walk [of obj es e m])
    then have "relaxed obj best' (walk_key obj es) (set (item # items))"
      using IH(5) unfolding relaxed_def item by simp
    moreover have "best_le best best'" "best' n = best n"
      using best_le_trans [OF P(2) IH(3)] IH(4) P(3) by auto
    moreover have "todo obj adj s best' heap' \<le> todo obj adj s best heap" using IH(6) P(4) by linarith
    ultimately show ?thesis using IH(1,2) step by metis
  qed
qed

section \<open>Optimality and completeness\<close>

text \<open>
  Every walk from the start is bounded below: by some heap entry, or by the best key of a
  settled node.
\<close>

lemma walk_bounded:
  assumes ok: "adj_ok obj adj" and inv: "search_inv obj adj s t {} best heap"
    and walk: "is_walk adj s es m"
  shows "(\<exists>x\<in>set heap. fst x \<le> walk_cost obj es) \<or>
    (\<exists>b. best m = Some b \<and> fst b \<le> walk_cost obj es \<and> m \<noteq> t \<and> relaxed obj best b (set (adj m)))"
  using walk
proof (induction es arbitrary: m rule: rev_induct)
  case Nil
  then have "best m = Some (0, [])" using inv by (simp add: search_inv_def)
  moreover from this have "in_heap heap m (0, []) \<or> m \<noteq> t \<and> relaxed obj best (0, []) (set (adj m))"
    using inv by (simp add: search_inv_def)
  ultimately show ?case unfolding in_heap_def by fastforce
next
  case (snoc x es)
  obtain e k where x: "x = (e, k)" by fastforce
  with snoc.prems obtain j where j: "is_walk adj s es j" "(m, e) \<in> set (adj j)" "k = m"
    by (auto simp: is_walk_snoc)
  have cost: "walk_cost obj (es @ [x]) = dec_add (walk_cost obj es) (edge_weight obj e)"
    by (simp add: x walk_cost_snoc)
  have up: "walk_cost obj es \<le> walk_cost obj (es @ [x])"
    using adj_ok_weight(2) [OF ok j(2)] by (simp add: cost dec_add_inflate)
  from snoc.IH [OF j(1)] show ?case
  proof (elim disjE bexE exE conjE)
    fix y assume "y \<in> set heap" "fst y \<le> walk_cost obj es"
    then show ?thesis using up order_trans by blast
  next
    fix b assume b: "best j = Some b" "fst b \<le> walk_cost obj es" "relaxed obj best b (set (adj j))"
    then obtain b' where b': "best m = Some b'" "b' \<le> extend_key obj b e"
      using j(2) unfolding relaxed_def by blast
    have "fst b' \<le> fst (extend_key obj b e)" using b'(2) by (auto simp: less_eq_prod_def)
    also have "\<dots> \<le> walk_cost obj (es @ [x])"
      using b(2) by (simp add: extend_key_def cost dec_add_mono)
    finally have le: "fst b' \<le> walk_cost obj (es @ [x])" .
    have "in_heap heap m b' \<or> m \<noteq> t \<and> relaxed obj best b' (set (adj m))"
      using inv b'(1) unfolding search_inv_def by blast
    then show ?thesis using le b'(1) unfolding in_heap_def by fastforce
  qed
qed

definition shortest_walk :: "route_objective \<Rightarrow> adjacency \<Rightarrow> string \<Rightarrow> string \<Rightarrow> walk \<Rightarrow> bool" where
  "shortest_walk obj adj s t es \<longleftrightarrow>
     simple_walk adj s es t \<and> (\<forall>fs. is_walk adj s fs t \<longrightarrow> walk_cost obj es \<le> walk_cost obj fs)"

definition walk_result :: "road_network \<Rightarrow> route_objective \<Rightarrow> string \<Rightarrow> walk \<Rightarrow> int \<Rightarrow> nat \<Rightarrow> path_result" where
  "walk_result snapshot obj s es minutes visited =
     \<lparr>pr_objective = obj, pr_node_ids = s # map snd es, pr_edge_ids = walk_ids es,
      pr_distance_km = quantize_distance (dec_sum (map (re_distance_km \<circ> fst) es)),
      pr_estimated_minutes = minutes, pr_risk_cost = dec_sum (map (edge_risk \<circ> fst) es),
      pr_visited_node_count = visited\<rparr>"

text \<open>What the loop may return.\<close>

definition search_result :: "road_network \<Rightarrow> route_objective \<Rightarrow> adjacency \<Rightarrow> string \<Rightarrow> string \<Rightarrow>
    road_error + path_result option \<Rightarrow> bool" where
  "search_result snapshot obj adj s t res \<longleftrightarrow>
     (case res of
        Inl err \<Rightarrow> \<exists>es. shortest_walk obj adj s t es \<and> display_minutes snapshot (walk_ids es) = None
      | Inr None \<Rightarrow> \<not> (\<exists>es. is_walk adj s es t)
      | Inr (Some p) \<Rightarrow> \<exists>es minutes visited. shortest_walk obj adj s t es \<and>
          display_minutes snapshot (walk_ids es) = Some minutes \<and>
          p = walk_result snapshot obj s es minutes visited)"

lemma popped_is_shortest:
  assumes ok: "adj_ok obj adj" and inv: "search_inv obj adj s t {} best heap"
    and pop: "heappop heap = Some (x, heap')" and x: "x = (c, ids, n, np, d, r)"
    and fresh: "best n = Some (c, ids)" and walk: "is_walk adj s fs n"
  shows "c \<le> walk_cost obj fs"
proof -
  have srt: "sorted heap" using inv by (simp add: search_inv_def)
  from walk_bounded [OF ok inv walk] show ?thesis
  proof (elim disjE bexE exE conjE)
    fix y assume "y \<in> set heap" "fst y \<le> walk_cost obj fs"
    moreover from this(1) have "x \<le> y" using heapq.pop_least [OF srt pop] by simp
    ultimately show ?thesis using x by (cases y) (auto simp: less_eq_prod_def)
  next
    fix b assume "best n = Some b" "fst b \<le> walk_cost obj fs"
    then show ?thesis using fresh by (metis fst_conv option.inject)
  qed
qed

section \<open>Total correctness of the loop\<close>

lemma search_inv_pop_stale:
  assumes inv: "search_inv obj adj s t {} best heap"
    and pop: "heappop heap = Some (x, heap')" and x: "x = (c, ids, n, np, d, r)"
    and stale: "best n \<noteq> Some (c, ids)"
  shows "search_inv obj adj s t {} best heap'"
proof -
  have srt: "sorted heap" using inv by (simp add: search_inv_def)
  note set = heapq.pop_set [OF srt pop, simplified]
  have "in_heap heap' k b" if "best k = Some b" "in_heap heap k b" for k b
    using that stale x unfolding in_heap_def set by (metis fst_conv insertE prod.collapse snd_conv)
  then show ?thesis
    using inv heapq.pop_invar [OF srt pop] set unfolding search_inv_def by blast
qed

lemma search_inv_pop_fresh:
  assumes inv: "search_inv obj adj s t {} best heap"
    and pop: "heappop heap = Some (x, heap')" and x: "x = (c, ids, n, np, d, r)"
  shows "search_inv obj adj s t {n} best heap'"
proof -
  have srt: "sorted heap" using inv by (simp add: search_inv_def)
  note set = heapq.pop_set [OF srt pop, simplified]
  have "in_heap heap' k b" if "k \<notin> {n}" "in_heap heap k b" for k b
    using that x unfolding in_heap_def set by blast
  then show ?thesis
    using inv heapq.pop_invar [OF srt pop] set unfolding search_inv_def by blast
qed

lemma search_inv_settle:
  assumes inv: "search_inv obj adj s t {n} best heap" and "best n = Some b"
    and "n \<noteq> t" and "relaxed obj best b (set (adj n))"
  shows "search_inv obj adj s t {} best heap"
  using assms unfolding search_inv_def by (metis option.inject singletonD)

lemma heap_entry_walk:
  assumes "search_inv obj adj s t X best heap" "(c, ids, n, np, d, r) \<in> set heap"
  obtains es where "simple_walk adj s es n" "dominates obj s best es"
    "walk_entry obj s es = (c, ids, n, np, d, r)" "walk_key obj es = (c, ids)"
proof -
  from assms obtain es m where es: "simple_walk adj s es m" "dominates obj s best es"
    "(c, ids, n, np, d, r) = walk_entry obj s es"
    unfolding search_inv_def entry_ok_def by blast
  then have "m = n" using simple_walk_end [OF es(1)] by (simp add: walk_entry_def)
  with es that show ?thesis by (auto simp: walk_entry_def walk_key_def)
qed

lemma search_total:
  assumes ok: "adj_ok obj adj" and inv: "search_inv obj adj s t {} best heap"
  shows "\<exists>res. search snapshot obj t adj best heap visited = Some res \<and>
    search_result snapshot obj adj s t res"
  using inv
proof (induction "todo obj adj s best heap" arbitrary: best heap visited rule: less_induct)
  case less
  have srt: "sorted heap" using less.prems by (simp add: search_inv_def)
  show ?case
  proof (cases "heappop heap")
    case None
    then have "heap = []" using heapq.pop_None [OF srt] by simp
    then have "\<not> (\<exists>es. is_walk adj s es t)"
      using walk_bounded [OF ok less.prems] by fastforce
    then show ?thesis using None by (simp add: search.simps search_result_def)
  next
    case (Some xh)
    obtain c ids n np d r heap' where xh: "xh = ((c, ids, n, np, d, r), heap')" by (metis surj_pair)
    note pop = Some [unfolded xh]
    have mem: "(c, ids, n, np, d, r) \<in> set heap" using heapq.pop_set [OF srt pop] by simp
    have len: "length heap = Suc (length heap')" using heapq.pop_size [OF srt pop] by simp
    show ?thesis
    proof (cases "best n = Some (c, ids)")
      case False
      have "todo obj adj s best heap' < todo obj adj s best heap" using len by (simp add: todo_def)
      from less.hyps [OF this search_inv_pop_stale [OF less.prems pop refl False]] False
      show ?thesis by (simp add: search.simps [of _ _ _ _ _ heap] pop)
    next
      case fresh: True
      obtain es where es: "simple_walk adj s es n" "dominates obj s best es"
        "walk_entry obj s es = (c, ids, n, np, d, r)" "walk_key obj es = (c, ids)"
        using heap_entry_walk [OF less.prems mem] .
      show ?thesis
      proof (cases "n = t")
        case True
        have short: "shortest_walk obj adj s t es"
          using es True popped_is_shortest [OF ok less.prems pop refl fresh]
          by (auto simp: shortest_walk_def walk_key_def)
        have ids: "ids = walk_ids es" "np = s # map snd es" using es(3) by (auto simp: walk_entry_def)
        show ?thesis
        proof (cases "display_minutes snapshot ids")
          case None
          then show ?thesis using fresh True short ids
            by (auto simp: search.simps [of _ _ _ _ _ heap] pop search_result_def)
        next
          case (Some minutes)
          have "walk_result snapshot obj s es minutes (visited + 1) =
              \<lparr>pr_objective = obj, pr_node_ids = np, pr_edge_ids = ids,
               pr_distance_km = quantize_distance d, pr_estimated_minutes = minutes,
               pr_risk_cost = r, pr_visited_node_count = visited + 1\<rparr>"
            using es(3) by (auto simp: walk_result_def walk_entry_def)
          then have "search snapshot obj t adj best heap visited =
              Some (Inr (Some (walk_result snapshot obj s es minutes (visited + 1))))"
            using fresh True Some by (simp add: search.simps [of _ _ _ _ _ heap] pop)
          moreover have "search_result snapshot obj adj s t
              (Inr (Some (walk_result snapshot obj s es minutes (visited + 1))))"
            using short Some ids unfolding search_result_def by auto
          ultimately show ?thesis by blast
        qed
      next
        case False
        note inv1 = search_inv_pop_fresh [OF less.prems pop refl]
        from relax_spec [OF ok es(1,3) inv1 es(2), of "adj n"]
        obtain best' heap'' where R: "relax obj c ids np d r (adj n) best heap' = Inr (best', heap'')"
          "search_inv obj adj s t {n} best' heap''" "best' n = best n"
          "relaxed obj best' (walk_key obj es) (set (adj n))"
          "todo obj adj s best' heap'' \<le> todo obj adj s best heap'" by auto
        have "search_inv obj adj s t {} best' heap''"
          using search_inv_settle [OF R(2) _ False R(4)] R(3) fresh es(4) by simp
        moreover have "todo obj adj s best' heap'' < todo obj adj s best heap"
          using R(5) len by (simp add: todo_def)
        ultimately have "\<exists>res. search snapshot obj t adj best' heap'' (visited + 1) = Some res \<and>
            search_result snapshot obj adj s t res"
          using less.hyps by blast
        then show ?thesis using fresh False R(1)
          by (simp add: search.simps [of _ _ _ _ _ heap] pop)
      qed
    qed
  qed
qed

declare split_paired_All [simp] split_paired_Ex [simp]

end
