(* ===== verification/Path_Finder.thy ===== *)
theory Path_Finder
  imports Dijkstra_Correct
begin

text \<open>
  The contract of the \<open>PathFinder\<close> protocol (\<open>backend/app/road_network/protocols.py\<close>) that the
  fleet and routing services rely on, as a locale, and its interpretation on the Dijkstra search.

  \<open>drivable\<close> is the specification of a route a vehicle may take: consecutive available edges, a
  bidirectional edge in either direction. \<open>best_route\<close> is the specification of the answer: a
  drivable simple route of least cost, with the totals the result reports.
\<close>

section \<open>Well-formed networks and drivable routes\<close>

definition known_risk :: "road_edge \<Rightarrow> bool" where
  "known_risk e \<longleftrightarrow> re_risk_level e \<in> {''LOW'', ''MEDIUM'', ''HIGH''}"

definition wf_edge :: "road_edge \<Rightarrow> bool" where
  "wf_edge e \<longleftrightarrow> 0 \<le> re_distance_km e \<and> 0 \<le> re_base_minutes e \<and> 0 \<le> re_congestion_factor e \<and> known_risk e"

definition wf_network :: "road_network \<Rightarrow> bool" where
  "wf_network net \<longleftrightarrow> list_all wf_edge (net_edges net) \<and> distinct (map re_edge_id (net_edges net))"

fun drivable :: "road_network \<Rightarrow> rat \<Rightarrow> string set \<Rightarrow> string \<Rightarrow> walk \<Rightarrow> string \<Rightarrow> bool" where
  "drivable net vw excl n [] m \<longleftrightarrow> n = m"
| "drivable net vw excl n ((e, k) # es) m \<longleftrightarrow> arc net vw excl n e k \<and> drivable net vw excl k es m"

definition node_ids :: "road_network \<Rightarrow> string set" where
  "node_ids net = set (map rn_node_id (net_nodes net))"

definition route_of :: "road_network \<Rightarrow> rat \<Rightarrow> string set \<Rightarrow> string \<Rightarrow> string \<Rightarrow> walk \<Rightarrow> path_result \<Rightarrow> bool" where
  "route_of net vw excl s t es p \<longleftrightarrow>
     drivable net vw excl s es t \<and> distinct (s # map snd es) \<and>
     pr_node_ids p = s # map snd es \<and> pr_edge_ids p = walk_ids es \<and>
     pr_distance_km p = quantize_half_up 2 (dec_sum (map (re_distance_km \<circ> fst) es)) \<and>
     pr_estimated_minutes p = \<lceil>dec_sum (map (edge_minutes \<circ> fst) es)\<rceil> \<and>
     pr_risk_cost p = dec_sum (map (edge_risk \<circ> fst) es)"

definition best_route :: "road_network \<Rightarrow> rat \<Rightarrow> string set \<Rightarrow> string \<Rightarrow> string \<Rightarrow> route_objective \<Rightarrow>
    path_result \<Rightarrow> bool" where
  "best_route net vw excl s t obj p \<longleftrightarrow>
     s \<in> node_ids net \<and> t \<in> node_ids net \<and> pr_objective p = obj \<and>
     (\<exists>es. route_of net vw excl s t es p \<and>
        (\<forall>fs. drivable net vw excl s fs t \<longrightarrow> walk_cost obj es \<le> walk_cost obj fs))"

lemma drivable_is_walk: "drivable net vw excl n es m = is_walk (build_adjacency net vw excl) n es m"
  by (induction net vw excl n es m rule: drivable.induct) (auto simp: build_adjacency_arc)

lemma risk_penalty_known: "known_risk e \<Longrightarrow> \<exists>r. risk_penalty e = Some r \<and> 0 \<le> r"
  by (auto simp: known_risk_def risk_penalty_def)

lemma edge_minutes_nonneg: "wf_edge e \<Longrightarrow> 0 \<le> edge_minutes e"
  by (simp add: wf_edge_def edge_minutes_def dec_mul_nonneg)

lemma edge_risk_nonneg: "wf_edge e \<Longrightarrow> 0 \<le> edge_risk e"
  using risk_penalty_known [of e] by (auto simp: wf_edge_def edge_risk_def)

lemma weight_nonneg: "wf_edge e \<Longrightarrow> \<exists>w. weight e obj = Some w \<and> 0 \<le> w"
  using risk_penalty_known [of e] edge_minutes_nonneg [of e]
  by (cases obj) (auto simp: weight_def wf_edge_def dec_add_nonneg)

lemma wf_networkD: "wf_network net \<Longrightarrow> e \<in> set (net_edges net) \<Longrightarrow> wf_edge e"
  by (simp add: wf_network_def list_all_iff)

lemma wf_adj_ok:
  assumes "wf_network net"
  shows "adj_ok obj (build_adjacency net vw excl)"
proof -
  let ?A = "(re_to_node_id ` set (net_edges net) \<union> re_from_node_id ` set (net_edges net)) \<times> set (net_edges net)"
  have "finite ?A" by simp
  moreover have "set (build_adjacency net vw excl n) \<subseteq> ?A" for n
    by (auto simp: build_adjacency_arc arc_def)
  moreover have "wf_edge e" if "(m, e) \<in> set (build_adjacency net vw excl n)" for n m e
    using that assms by (auto simp: build_adjacency_arc arc_def intro: wf_networkD)
  ultimately show ?thesis
    using weight_nonneg risk_penalty_known unfolding adj_ok_def wf_edge_def by blast
qed

lemma edges_by_id_distinct:
  assumes "distinct (map re_edge_id edges)" "e \<in> set edges"
  shows "edges_by_id edges (re_edge_id e) = Some e"
  unfolding edges_by_id_def
  by (rule map_of_is_SomeI) (use assms in \<open>auto simp: comp_def rev_map [symmetric]\<close>)

lemma sum_minutes_foldl:
  "(\<And>e. e \<in> set es \<Longrightarrow> edges (re_edge_id e) = Some e) \<Longrightarrow>
   sum_minutes edges acc (map re_edge_id es) = Some (foldl dec_add acc (map edge_minutes es))"
  by (induction es arbitrary: acc) auto

lemma drivable_edges: "drivable net vw excl n es m \<Longrightarrow> e \<in> fst ` set es \<Longrightarrow>
    e \<in> set (net_edges net) \<and> is_available e vw excl"
  by (induction net vw excl n es m rule: drivable.induct) (auto simp: arc_def)

lemma display_minutes_walk:
  assumes "wf_network net" "drivable net vw excl n es m"
  shows "display_minutes net (walk_ids es) = Some \<lceil>dec_sum (map (edge_minutes \<circ> fst) es)\<rceil>"
proof -
  have "edges_by_id (net_edges net) (re_edge_id e) = Some e" if "e \<in> set (map fst es)" for e
    using that assms by (auto simp: wf_network_def dest!: drivable_edges intro!: edges_by_id_distinct)
  then have "sum_minutes (edges_by_id (net_edges net)) 0 (map re_edge_id (map fst es)) =
      Some (foldl dec_add 0 (map edge_minutes (map fst es)))"
    by (rule sum_minutes_foldl)
  then show ?thesis by (simp add: display_minutes_def walk_ids_def dec_sum_def comp_def)
qed

section \<open>What the search returns\<close>

lemma search_inv_initial:
  "s \<noteq> t \<Longrightarrow> search_inv obj adj s t {} [s \<mapsto> (0, [])] [initial_entry s]"
proof -
  have "simple_walk adj s [] s" by (simp add: simple_walk_def)
  moreover have "dominates obj s [s \<mapsto> (0, [])] []" by (simp add: dominates_def walk_key_def walk_ids_def)
  moreover have "initial_entry s = walk_entry obj s []"
    by (simp add: initial_entry_def walk_entry_def walk_ids_def)
  ultimately have "entry_ok obj adj s [s \<mapsto> (0, [])] (initial_entry s)"
    unfolding entry_ok_def by blast
  moreover have "(0, []) \<in> keys_to obj adj s s"
    using \<open>simple_walk adj s [] s\<close> by (force simp: keys_to_def walk_key_def walk_ids_def)
  moreover have "in_heap [initial_entry s] s (0, [])" by (simp add: in_heap_def initial_entry_def)
  ultimately show ?thesis by (auto simp: search_inv_def split: if_splits)
qed

lemma route_of_empty:
  "route_of net vw excl s s [] \<lparr>pr_objective = obj, pr_node_ids = [s], pr_edge_ids = [], pr_distance_km = 0,
     pr_estimated_minutes = 0, pr_risk_cost = 0, pr_visited_node_count = 0\<rparr>"
  by (simp add: route_of_def walk_ids_def)

lemma walk_cost_nonneg:
  assumes "wf_network net" "drivable net vw excl s es t"
  shows "0 \<le> walk_cost obj es"
  unfolding walk_cost_def
proof (rule dec_sum_nonneg)
  fix x assume "x \<in> set (map (edge_weight obj \<circ> fst) es)"
  then obtain e where "e \<in> fst ` set es" "x = edge_weight obj e" by auto
  then show "0 \<le> x"
    using assms weight_nonneg [of e obj] by (auto simp: edge_weight_def dest!: drivable_edges wf_networkD)
qed

lemma best_route_shortest:
  assumes wf: "wf_network net" and st: "s \<in> node_ids net" "t \<in> node_ids net"
    and short: "shortest_walk obj (build_adjacency net vw excl) s t es"
    and mins: "display_minutes net (walk_ids es) = Some minutes"
  shows "best_route net vw excl s t obj (walk_result net obj s es minutes visited)"
proof -
  have w: "drivable net vw excl s es t" "distinct (s # map snd es)"
    "\<forall>fs. drivable net vw excl s fs t \<longrightarrow> walk_cost obj es \<le> walk_cost obj fs"
    using short unfolding shortest_walk_def simple_walk_def drivable_is_walk by blast+
  have "minutes = \<lceil>dec_sum (map (edge_minutes \<circ> fst) es)\<rceil>"
    using display_minutes_walk [OF wf w(1)] mins by simp
  then have "route_of net vw excl s t es (walk_result net obj s es minutes visited)"
    using w by (simp add: route_of_def walk_result_def quantize_distance_def)
  then show ?thesis using st w(3) by (auto simp: best_route_def walk_result_def)
qed

lemma search_no_error:
  assumes wf: "wf_network net" and "shortest_walk obj (build_adjacency net vw excl) s t es"
  shows "display_minutes net (walk_ids es) \<noteq> None"
  using assms display_minutes_walk [OF wf]
  unfolding shortest_walk_def simple_walk_def by (metis drivable_is_walk option.distinct(1))

lemma find_path_cases:
  assumes wf: "wf_network net"
  shows "case find_path net s t obj vw excl of
      Inl err \<Rightarrow> False
    | Inr None \<Rightarrow> s \<notin> node_ids net \<or> t \<notin> node_ids net \<or> \<not> (\<exists>es. drivable net vw excl s es t)
    | Inr (Some p) \<Rightarrow> best_route net vw excl s t obj p"
proof -
  consider "s \<notin> node_ids net \<or> t \<notin> node_ids net" | "s \<in> node_ids net" "s = t"
    | "s \<in> node_ids net" "t \<in> node_ids net" "s \<noteq> t" by blast
  then show ?thesis
  proof cases
    case 1
    then show ?thesis by (auto simp: find_path_def node_ids_def)
  next
    case 2
    then show ?thesis
      using route_of_empty [of net vw excl s obj] walk_cost_nonneg [OF wf]
      by (auto simp: find_path_def node_ids_def best_route_def Let_def intro!: exI [of _ "[]"])
  next
    case 3
    let ?adj = "build_adjacency net vw excl"
    obtain res where res: "search net obj t ?adj [s \<mapsto> (0, [])] [initial_entry s] 0 = Some res"
      "search_result net obj ?adj s t res"
      using search_total [OF wf_adj_ok [OF wf] search_inv_initial [OF 3(3)]] by blast
    have found: "find_path net s t obj vw excl = res"
      using 3 res(1) by (simp add: find_path_def node_ids_def)
    show ?thesis
    proof (cases res)
      case (Inl err)
      then show ?thesis using res(2) search_no_error [OF wf] by (fastforce simp: search_result_def)
    next
      case (Inr r)
      then show ?thesis using res(2) found best_route_shortest [OF wf 3(1,2)]
        by (cases r) (auto simp: search_result_def drivable_is_walk)
    qed
  qed
qed

section \<open>Facts about routes\<close>

lemma arc_mono: "arc net vw excl n e m \<Longrightarrow> vw' \<le> vw \<Longrightarrow> excl' \<subseteq> excl \<Longrightarrow> arc net vw' excl' n e m"
  by (auto simp: arc_def is_available_def)

lemma drivable_mono:
  "drivable net vw excl n es m \<Longrightarrow> vw' \<le> vw \<Longrightarrow> excl' \<subseteq> excl \<Longrightarrow> drivable net vw' excl' n es m"
  by (induction net vw excl n es m rule: drivable.induct) (auto intro: arc_mono)

lemma route_of_edge:
  assumes "route_of net vw excl s t es p" "i \<in> set (pr_edge_ids p)"
  obtains e where "e \<in> set (net_edges net)" "re_edge_id e = i" "is_available e vw excl"
  using assms drivable_edges [of net vw excl s es t] that
  by (auto simp: route_of_def walk_ids_def)

lemma route_of_nonneg:
  assumes wf: "wf_network net" and "route_of net vw excl s t es p"
  shows "0 \<le> pr_distance_km p" "0 \<le> pr_estimated_minutes p" "0 \<le> pr_risk_cost p"
proof -
  have w: "wf_edge (fst x)" if "x \<in> set es" for x
    using that assms drivable_edges wf_networkD unfolding route_of_def by blast
  have "0 \<le> dec_sum (map (f \<circ> fst) es)" if "\<And>e. wf_edge e \<Longrightarrow> 0 \<le> f e" for f
    using that w by (auto intro!: dec_sum_nonneg)
  from this [of re_distance_km] this [of edge_minutes] this [of edge_risk]
  have "0 \<le> dec_sum (map (re_distance_km \<circ> fst) es)" "0 \<le> dec_sum (map (edge_minutes \<circ> fst) es)"
    "0 \<le> dec_sum (map (edge_risk \<circ> fst) es)"
    using edge_minutes_nonneg edge_risk_nonneg by (auto simp: wf_edge_def)
  then show "0 \<le> pr_distance_km p" "0 \<le> pr_estimated_minutes p" "0 \<le> pr_risk_cost p"
    using assms(2) by (auto simp: route_of_def quantize_half_up_nonneg)
qed

text \<open>
  A node and edge list is a path of the network: each listed edge joins the two nodes around it.
  The check is the one \<open>AuditService._path_connects\<close> makes, stated on the domain records.
\<close>

fun joins :: "road_edge list \<Rightarrow> string list \<Rightarrow> string list \<Rightarrow> bool" where
  "joins edges [n] [] \<longleftrightarrow> True"
| "joins edges (n # m # ns) (i # is) \<longleftrightarrow>
     (\<exists>e\<in>set edges. re_edge_id e = i \<and>
        (re_from_node_id e = n \<and> re_to_node_id e = m \<or>
         re_bidirectional e \<and> re_to_node_id e = n \<and> re_from_node_id e = m)) \<and>
     joins edges (m # ns) is"
| "joins edges _ _ \<longleftrightarrow> False"

lemma drivable_joins: "drivable net vw excl s es t \<Longrightarrow> joins (net_edges net) (s # map snd es) (walk_ids es)"
proof (induction net vw excl s es t rule: drivable.induct)
  case (2 net vw excl n e k es m)
  then show ?case by (auto simp: walk_ids_def arc_def comp_def)
qed (simp add: walk_ids_def)

section \<open>The contract\<close>

locale path_finder =
  fixes find :: find_fn
  assumes find_total: "wf_network net \<Longrightarrow> \<exists>r. find net s t obj vw excl = Inr r"
    and find_best: "wf_network net \<Longrightarrow> find net s t obj vw excl = Inr (Some p) \<Longrightarrow>
          best_route net vw excl s t obj p"
    and find_none: "wf_network net \<Longrightarrow> find net s t obj vw excl = Inr None \<Longrightarrow>
          s \<notin> node_ids net \<or> t \<notin> node_ids net \<or> \<not> (\<exists>es. drivable net vw excl s es t)"
begin

lemma find_route:
  assumes "wf_network net" "find net s t obj vw excl = Inr (Some p)"
  obtains es where "route_of net vw excl s t es p"
  using find_best [OF assms] that by (auto simp: best_route_def)

lemma find_iff:
  assumes wf: "wf_network net"
  shows "(\<exists>p. find net s t obj vw excl = Inr (Some p)) \<longleftrightarrow>
    s \<in> node_ids net \<and> t \<in> node_ids net \<and> (\<exists>es. drivable net vw excl s es t)"
proof -
  obtain r where "find net s t obj vw excl = Inr r" using find_total [OF wf] by blast
  then show ?thesis
    using find_best [OF wf] find_none [OF wf]
    by (cases r) (fastforce simp: best_route_def route_of_def)+
qed

lemma find_avoids:
  assumes "wf_network net" "find net s t obj vw excl = Inr (Some p)"
  shows "set (pr_edge_ids p) \<inter> excl = {}"
proof -
  obtain es where "route_of net vw excl s t es p" using find_route [OF assms] .
  then have "i \<notin> excl" if "i \<in> set (pr_edge_ids p)" for i
    using that by (rule route_of_edge) (auto simp: is_available_def)
  then show ?thesis by blast
qed

lemma find_available:
  assumes "wf_network net" "find net s t obj vw excl = Inr (Some p)" "i \<in> set (pr_edge_ids p)"
  obtains e where "e \<in> set (net_edges net)" "re_edge_id e = i" "is_available e vw excl"
proof -
  obtain es where "route_of net vw excl s t es p" using find_route [OF assms(1,2)] .
  then show ?thesis using assms(3) that by (auto elim!: route_of_edge)
qed

lemma find_nonneg:
  assumes "wf_network net" "find net s t obj vw excl = Inr (Some p)"
  shows "0 \<le> pr_distance_km p" "0 \<le> pr_estimated_minutes p" "0 \<le> pr_risk_cost p"
proof -
  obtain es where es: "route_of net vw excl s t es p" using find_route [OF assms] .
  show "0 \<le> pr_distance_km p" "0 \<le> pr_estimated_minutes p" "0 \<le> pr_risk_cost p"
    using route_of_nonneg [OF assms(1) es] by auto
qed

lemma find_joins:
  assumes "wf_network net" "find net s t obj vw excl = Inr (Some p)"
  shows "joins (net_edges net) (pr_node_ids p) (pr_edge_ids p)"
proof -
  obtain es where "route_of net vw excl s t es p" using find_route [OF assms] .
  then show ?thesis using drivable_joins [of net vw excl s es t] by (simp add: route_of_def)
qed

text \<open>Lifting a restriction (fewer excluded roads, a lighter vehicle) keeps a destination reachable.\<close>

lemma find_weaken:
  assumes "wf_network net" "find net s t obj vw excl = Inr (Some p)" "vw' \<le> vw" "excl' \<subseteq> excl"
  shows "\<exists>p'. find net s t obj' vw' excl' = Inr (Some p')"
proof -
  have "s \<in> node_ids net \<and> t \<in> node_ids net \<and> (\<exists>es. drivable net vw excl s es t)"
    using assms(2) find_iff [OF assms(1), of s t obj vw excl] by blast
  then show ?thesis unfolding find_iff [OF assms(1)] using drivable_mono assms(3,4) by blast
qed

end

interpretation dijkstra: path_finder find_path
proof unfold_locales
  fix net s t obj vw excl p assume wf: "wf_network net"
  note C = find_path_cases [OF wf, where s = s and t = t and obj = obj and vw = vw and excl = excl]
  show "\<exists>r. find_path net s t obj vw excl = Inr r" using C by (auto split: sum.splits)
  show "find_path net s t obj vw excl = Inr (Some p) \<Longrightarrow> best_route net vw excl s t obj p"
    using C by simp
  show "find_path net s t obj vw excl = Inr None \<Longrightarrow>
      s \<notin> node_ids net \<or> t \<notin> node_ids net \<or> \<not> (\<exists>es. drivable net vw excl s es t)"
    using C by simp
qed

section \<open>A small network for evaluation\<close>

definition sample_node :: "string \<Rightarrow> road_node" where
  "sample_node i = \<lparr>rn_node_id = i, rn_name = i, rn_x_km = 0, rn_y_km = 0, rn_node_type = ''JUNCTION''\<rparr>"

definition sample_edge :: "string \<Rightarrow> string \<Rightarrow> string \<Rightarrow> rat \<Rightarrow> int \<Rightarrow> string \<Rightarrow> road_edge" where
  "sample_edge i f t d m risk =
     \<lparr>re_edge_id = i, re_name = i, re_from_node_id = f, re_to_node_id = t, re_distance_km = d,
      re_base_minutes = m, re_road_level = ''COUNTY'', re_risk_level = risk, re_status = ''OPEN'',
      re_congestion_factor = 1, re_weight_limit_tons = 10, re_bidirectional = True, re_version = 1\<rparr>"

definition sample_net :: road_network where
  "sample_net =
     \<lparr>net_version = 3, net_nodes = map sample_node [''A'', ''B'', ''C''],
      net_edges = [sample_edge ''E1'' ''A'' ''B'' (3 / 2) 3 ''LOW'',
                   sample_edge ''E2'' ''B'' ''C'' 2 4 ''LOW'',
                   sample_edge ''E3'' ''A'' ''C'' 10 20 ''MEDIUM'']\<rparr>"

lemma sample_net_wf: "wf_network sample_net"
  by code_simp

definition sample_detour :: path_result where
  "sample_detour =
     \<lparr>pr_objective = FASTEST, pr_node_ids = [''A'', ''C''], pr_edge_ids = [''E3''],
      pr_distance_km = 10, pr_estimated_minutes = 20, pr_risk_cost = 4, pr_visited_node_count = 3\<rparr>"

lemma sample_detour_found: "find_path sample_net ''A'' ''C'' FASTEST 2 {''E2''} = Inr (Some sample_detour)"
  by code_simp

section \<open>Properties of the path finder\<close>

text \<open>
  C1. On every network with nonnegative distances, minutes and congestion factors, known risk
  levels and distinct edge ids, the search returns without error: \<open>None\<close> exactly when an end point
  is unknown or no drivable route exists, and otherwise a drivable simple route whose cost for the
  objective is least among all drivable routes, with its quantised distance, its minutes rounded up
  and its summed risk.
\<close>

theorem find_path_correct:
  assumes "wf_network net"
  shows "case find_path net s t obj vw excl of
      Inl err \<Rightarrow> False
    | Inr None \<Rightarrow> s \<notin> node_ids net \<or> t \<notin> node_ids net \<or> \<not> (\<exists>es. drivable net vw excl s es t)
    | Inr (Some p) \<Rightarrow> best_route net vw excl s t obj p"
  using assms by (rule find_path_cases)

theorem find_path_correct_witness:
  "wf_network sample_net \<and> best_route sample_net 2 {''E2''} ''A'' ''C'' FASTEST sample_detour"
  using find_path_correct [OF sample_net_wf, of "''A''" "''C''" 2 "{''E2''}" FASTEST]
    sample_net_wf sample_detour_found by simp

text \<open>
  Lifting restrictions never slows a vehicle down: with fewer excluded roads and a lighter
  vehicle the destination stays reachable and the reported minutes of the fastest route do not grow.
\<close>

theorem fastest_minutes_antimono:
  assumes "wf_network net" and "find_path net s t FASTEST vw excl = Inr (Some p)"
    and "vw' \<le> vw" and "excl' \<subseteq> excl"
  shows "\<exists>p'. find_path net s t FASTEST vw' excl' = Inr (Some p') \<and>
    pr_estimated_minutes p' \<le> pr_estimated_minutes p"
proof -
  obtain p' where p': "find_path net s t FASTEST vw' excl' = Inr (Some p')"
    using dijkstra.find_weaken [OF assms] by blast
  obtain es es' where es: "route_of net vw excl s t es p" and es': "route_of net vw' excl' s t es' p'"
    and least: "\<And>fs. drivable net vw' excl' s fs t \<Longrightarrow> walk_cost FASTEST es' \<le> walk_cost FASTEST fs"
    using dijkstra.find_best [OF assms(1,2)] dijkstra.find_best [OF assms(1) p']
    by (auto simp: best_route_def)
  have "drivable net vw' excl' s es t"
    using es drivable_mono assms(3,4) unfolding route_of_def by blast
  then have "walk_cost FASTEST es' \<le> walk_cost FASTEST es" by (rule least)
  then have "dec_sum (map (edge_minutes \<circ> fst) es') \<le> dec_sum (map (edge_minutes \<circ> fst) es)"
    by (simp add: walk_cost_def edge_weight_def weight_def comp_def)
  then show ?thesis using p' es es' by (auto simp: route_of_def intro: ceiling_mono)
qed

theorem fastest_minutes_antimono_witness:
  "\<exists>p'. find_path sample_net ''A'' ''C'' FASTEST 1 {} = Inr (Some p') \<and> pr_estimated_minutes p' \<le> 20"
  using fastest_minutes_antimono [OF sample_net_wf sample_detour_found, of 1 "{}"]
  by (simp add: sample_detour_def)

end
