(* ===== verification/Fleet.thy ===== *)
theory Fleet
  imports Path_Finder
begin

text \<open>
  The fleet component of \<open>backend/app/fleet\<close>: the snapshots of \<open>models.py\<close>, the repository that
  builds them from the vehicle and driver tables, the travel-time estimators and the allocation
  service of \<open>service.py\<close> that ranks replacement vehicles.

  The estimators are objects looked up by structural protocols (\<open>isinstance\<close> on runtime-checkable
  protocols); an estimator is a record whose optional methods are options. Numbers follow the
  rounding decimal arithmetic of \<open>Decimal_Arith\<close>, in the source's order of operations.
\<close>

section \<open>Data: models.py\<close>

record fleet_driver =
  fd_driver_id :: string
  fd_name :: string
  fd_license_class :: string
  fd_status :: string
  fd_current_node_id :: string

record fleet_vehicle =
  fv_vehicle_id :: string
  fv_plate_no :: string
  fv_vehicle_type :: string
  fv_max_load_kg :: rat
  fv_current_load_kg :: rat
  fv_cargo_capability :: string
  fv_gross_weight_tons :: rat
  fv_status :: string
  fv_current_node_id :: string
  fv_driver :: "fleet_driver option"

definition remaining_load_kg :: "fleet_vehicle \<Rightarrow> rat" where
  "remaining_load_kg v = quantize_half_up 2 (dec_sub (fv_max_load_kg v) (fv_current_load_kg v))"

definition current_load_ratio :: "fleet_vehicle \<Rightarrow> rat" where
  "current_load_ratio v =
     (if fv_max_load_kg v = 0 then 0 else ctx (fv_current_load_kg v / fv_max_load_kg v))"

record fleet_request =
  rq_original_vehicle_id :: string
  rq_incident_node_id :: string
  rq_cargo_weight_kg :: rat
  rq_cargo_type :: string
  rq_destination_node_id :: "string option"

record score_components =
  sc_eta_penalty :: rat
  sc_distance_penalty :: rat
  sc_load_penalty :: rat
  sc_road_risk_penalty :: rat
  sc_same_station_bonus :: rat
  sc_cargo_exact_match_bonus :: rat

record vehicle_candidate =
  vc_vehicle_id :: string
  vc_driver_id :: "string option"
  vc_vehicle_status :: string
  vc_remaining_load_kg :: rat
  vc_pickup_route :: "path_result option"
  vc_pickup_distance_km :: "rat option"
  vc_pickup_eta_minutes :: "int option"
  vc_score_components :: "score_components option"
  vc_score :: "rat option"
  vc_eligible :: bool
  vc_exclusion_reasons :: "string list"
  vc_gross_weight_tons :: rat
  vc_cargo_capability :: string
  vc_driver_status :: "string option"

record fleet_result =
  fr_original_vehicle_id :: string
  fr_candidates :: "vehicle_candidate list"
  fr_selected_vehicle_id :: "string option"
  fr_selected_driver_id :: "string option"
  fr_pickup_route :: "path_result option"
  fr_vehicle_reassigned :: bool
  fr_status :: string
  fr_reason :: "string option"

section \<open>The repository: sqlalchemy_repository.py\<close>

text \<open>A row of the vehicle table; points in time are integers (microseconds since the epoch).\<close>

record vehicle_row =
  vr_id :: int
  vr_vehicle_id :: string
  vr_plate_no :: string
  vr_vehicle_type :: string
  vr_max_load_kg :: rat
  vr_current_load_kg :: rat
  vr_cargo_capability :: string
  vr_gross_weight_tons :: rat
  vr_status :: string
  vr_fault_code :: "string option"
  vr_status_reason :: "string option"
  vr_status_changed_at :: "int option"
  vr_available_after :: "int option"
  vr_maintenance_order_no :: "string option"
  vr_current_node_id :: string
  vr_assigned_driver_id :: "string option"
  vr_version :: int

definition vehicle_snapshot :: "vehicle_row \<Rightarrow> fleet_driver option \<Rightarrow> fleet_vehicle" where
  "vehicle_snapshot vehicle driver =
     \<lparr>fv_vehicle_id = vr_vehicle_id vehicle, fv_plate_no = vr_plate_no vehicle,
      fv_vehicle_type = vr_vehicle_type vehicle,
      fv_max_load_kg = quantize_half_up 2 (vr_max_load_kg vehicle),
      fv_current_load_kg = quantize_half_up 2 (vr_current_load_kg vehicle),
      fv_cargo_capability = vr_cargo_capability vehicle,
      fv_gross_weight_tons = quantize_half_up 2 (vr_gross_weight_tons vehicle),
      fv_status = vr_status vehicle, fv_current_node_id = vr_current_node_id vehicle,
      fv_driver = driver\<rparr>"

text \<open>A driver id is the primary key of its table, so a lookup by id has at most one match.\<close>

definition driver_of :: "fleet_driver list \<Rightarrow> string option \<Rightarrow> fleet_driver option" where
  "driver_of drivers assigned =
     (case assigned of None \<Rightarrow> None | Some d \<Rightarrow> first_match (\<lambda>dr. fd_driver_id dr = d) drivers)"

definition get_vehicle :: "vehicle_row list \<Rightarrow> fleet_driver list \<Rightarrow> string \<Rightarrow> fleet_vehicle option" where
  "get_vehicle vehicles drivers vehicle_id =
     map_option (\<lambda>v. vehicle_snapshot v (driver_of drivers (vr_assigned_driver_id v)))
       (first_match (\<lambda>v. vr_vehicle_id v = vehicle_id) vehicles)"

definition list_candidates :: "vehicle_row list \<Rightarrow> fleet_driver list \<Rightarrow> string \<Rightarrow> fleet_vehicle list" where
  "list_candidates vehicles drivers excluding_vehicle_id =
     map (\<lambda>v. vehicle_snapshot v (driver_of drivers (vr_assigned_driver_id v)))
       (sort_key vr_vehicle_id vehicles)"

section \<open>Travel-time estimators\<close>

record prepared_estimator =
  pe_estimate :: "string \<Rightarrow> string \<Rightarrow> rat \<Rightarrow> road_error + path_result option"
  pe_is_weight_restricted :: "(string \<Rightarrow> string \<Rightarrow> rat \<Rightarrow> road_error + bool) option"

record travel_time_estimator =
  te_direct :: prepared_estimator
  te_for_snapshot :: "(road_network \<Rightarrow> prepared_estimator) option"
  te_for_allocation :: "(unit \<Rightarrow> prepared_estimator) option"

definition is_weight_restricted :: "find_fn \<Rightarrow> road_network \<Rightarrow> string \<Rightarrow> string \<Rightarrow> rat \<Rightarrow> road_error + bool" where
  "is_weight_restricted finder snapshot from_node_id to_node_id vehicle_weight_tons =
     res_bind (finder snapshot from_node_id to_node_id FASTEST vehicle_weight_tons {})
       (\<lambda>r. if r \<noteq> None then Inr False
            else res_bind (finder snapshot from_node_id to_node_id FASTEST 0 {}) (\<lambda>r0. Inr (r0 \<noteq> None)))"

text \<open>\<open>_PreparedDijkstraTravelTimeEstimator\<close>.\<close>

definition prepared_dijkstra :: "find_fn \<Rightarrow> road_network \<Rightarrow> prepared_estimator" where
  "prepared_dijkstra finder snapshot =
     \<lparr>pe_estimate = (\<lambda>f t w. finder snapshot f t FASTEST w {}),
      pe_is_weight_restricted = Some (is_weight_restricted finder snapshot)\<rparr>"

text \<open>\<open>DijkstraTravelTimeEstimator\<close> over the road network as the provider returns it now.\<close>

definition dijkstra_estimator :: "find_fn \<Rightarrow> (unit \<Rightarrow> road_network) \<Rightarrow> travel_time_estimator" where
  "dijkstra_estimator finder provider_snapshot =
     \<lparr>te_direct = \<lparr>pe_estimate = (\<lambda>f t w. finder (provider_snapshot ()) f t FASTEST w {}),
                  pe_is_weight_restricted =
                    Some (\<lambda>f t w. is_weight_restricted finder (provider_snapshot ()) f t w)\<rparr>,
      te_for_snapshot = Some (prepared_dijkstra finder),
      te_for_allocation = Some (\<lambda>_. prepared_dijkstra finder (provider_snapshot ()))\<rparr>"

section \<open>FleetAllocationService\<close>

datatype fleet_error = RoadError road_error | TypeError string

definition light_vehicle_types :: "string set" where
  "light_vehicle_types = {''VAN'', ''REFRIGERATED_VAN'', ''ELECTRIC_VAN'', ''TRICYCLE''}"

definition fleet_risk_level :: "rat \<Rightarrow> string" where
  "fleet_risk_level risk_cost = (if 12 \<le> risk_cost then ''HIGH'' else if 0 < risk_cost then ''MEDIUM'' else ''LOW'')"

definition fleet_risk_penalty :: "rat \<Rightarrow> rat" where
  "fleet_risk_penalty risk_cost =
     (let level = fleet_risk_level risk_cost
      in if level = ''LOW'' then 0 else if level = ''MEDIUM'' then 6 else 15)"

definition license_matches :: "fleet_vehicle \<Rightarrow> bool" where
  "license_matches v =
     (case fv_driver v of
        None \<Rightarrow> False
      | Some d \<Rightarrow> fd_license_class d \<in>
          (if fv_vehicle_type v \<in> light_vehicle_types then {''C1'', ''B2''} else {''B2''}))"

definition cheap_reasons :: "fleet_vehicle \<Rightarrow> fleet_request \<Rightarrow> string list" where
  "cheap_reasons v rq =
     (if fv_vehicle_id v = rq_original_vehicle_id rq then [''ORIGINAL_VEHICLE_EXCLUDED''] else []) @
     (if fv_status v \<noteq> ''AVAILABLE'' then [''VEHICLE_UNAVAILABLE''] else []) @
     (case fv_driver v of
        None \<Rightarrow> [''DRIVER_UNAVAILABLE'']
      | Some d \<Rightarrow> (if fd_status d \<noteq> ''ON_DUTY'' then [''DRIVER_UNAVAILABLE''] else []) @
                  (if \<not> license_matches v then [''LICENSE_MISMATCH''] else [])) @
     (if remaining_load_kg v < rq_cargo_weight_kg rq then [''INSUFFICIENT_CAPACITY''] else []) @
     (if rq_cargo_type rq = ''COLD_CHAIN'' \<and> fv_cargo_capability v \<noteq> ''COLD_CHAIN''
      then [''CARGO_CAPABILITY_MISMATCH''] else [])"

definition compute_score_components :: "fleet_vehicle \<Rightarrow> fleet_request \<Rightarrow> path_result \<Rightarrow> score_components" where
  "compute_score_components v rq pickup =
     \<lparr>sc_eta_penalty = dec_mul (of_int (pr_estimated_minutes pickup)) (3 / 2),
      sc_distance_penalty = dec_mul (pr_distance_km pickup) 2,
      sc_load_penalty = dec_mul (current_load_ratio v) 20,
      sc_road_risk_penalty = fleet_risk_penalty (pr_risk_cost pickup),
      sc_same_station_bonus = (if fv_current_node_id v = rq_incident_node_id rq then 8 else 0),
      sc_cargo_exact_match_bonus = (if fv_cargo_capability v = rq_cargo_type rq then 10 else 0)\<rparr>"

definition fleet_score :: "score_components \<Rightarrow> rat" where
  "fleet_score c =
     quantize_half_up 1
       (dec_add (dec_add (dec_sub (dec_sub (dec_sub (dec_sub 100 (sc_eta_penalty c))
          (sc_distance_penalty c)) (sc_load_penalty c)) (sc_road_risk_penalty c))
          (sc_same_station_bonus c)) (sc_cargo_exact_match_bonus c))"

definition rejected :: "fleet_vehicle \<Rightarrow> string list \<Rightarrow> vehicle_candidate" where
  "rejected v reasons =
     \<lparr>vc_vehicle_id = fv_vehicle_id v, vc_driver_id = map_option fd_driver_id (fv_driver v),
      vc_vehicle_status = fv_status v, vc_remaining_load_kg = remaining_load_kg v,
      vc_pickup_route = None, vc_pickup_distance_km = None, vc_pickup_eta_minutes = None,
      vc_score_components = None, vc_score = None, vc_eligible = False,
      vc_exclusion_reasons = reasons, vc_gross_weight_tons = fv_gross_weight_tons v,
      vc_cargo_capability = fv_cargo_capability v,
      vc_driver_status = map_option fd_status (fv_driver v)\<rparr>"

definition weight_restricted :: "prepared_estimator \<Rightarrow> fleet_vehicle \<Rightarrow> string \<Rightarrow> string \<Rightarrow> road_error + bool" where
  "weight_restricted est v from_node_id to_node_id =
     (case pe_is_weight_restricted est of
        None \<Rightarrow> Inr False
      | Some f \<Rightarrow> f from_node_id to_node_id (fv_gross_weight_tons v))"

text \<open>The reasons an unreachable leg adds: first the weight restriction, then the leg's own code.\<close>

definition unreachable_reasons :: "prepared_estimator \<Rightarrow> fleet_vehicle \<Rightarrow> string \<Rightarrow> string \<Rightarrow> string \<Rightarrow>
    road_error + string list" where
  "unreachable_reasons est v from_node_id to_node_id code =
     res_bind (weight_restricted est v from_node_id to_node_id)
       (\<lambda>wr. Inr ((if wr then [''ROAD_WEIGHT_RESTRICTION''] else []) @ [code]))"

definition delivery_reasons :: "prepared_estimator \<Rightarrow> fleet_vehicle \<Rightarrow> fleet_request \<Rightarrow> road_error + string list" where
  "delivery_reasons est v rq =
     (case rq_destination_node_id rq of
        None \<Rightarrow> Inr []
      | Some dest \<Rightarrow>
          res_bind (pe_estimate est (rq_incident_node_id rq) dest (fv_gross_weight_tons v))
            (\<lambda>delivery. if delivery = None
               then unreachable_reasons est v (rq_incident_node_id rq) dest ''DELIVERY_UNREACHABLE''
               else Inr []))"

definition evaluate :: "prepared_estimator \<Rightarrow> fleet_request \<Rightarrow> fleet_vehicle \<Rightarrow> road_error + vehicle_candidate" where
  "evaluate est rq v =
     res_bind (pe_estimate est (fv_current_node_id v) (rq_incident_node_id rq) (fv_gross_weight_tons v))
       (\<lambda>pickup_opt. case pickup_opt of
          None \<Rightarrow>
            res_bind (unreachable_reasons est v (fv_current_node_id v) (rq_incident_node_id rq) ''PICKUP_UNREACHABLE'')
              (\<lambda>more. Inr (rejected v (cheap_reasons v rq @ more)))
        | Some pickup \<Rightarrow>
            res_bind (delivery_reasons est v rq)
              (\<lambda>more. let reasons = cheap_reasons v rq @ more;
                          components = compute_score_components v rq pickup
                      in Inr \<lparr>vc_vehicle_id = fv_vehicle_id v,
                           vc_driver_id = map_option fd_driver_id (fv_driver v),
                           vc_vehicle_status = fv_status v, vc_remaining_load_kg = remaining_load_kg v,
                           vc_pickup_route = Some pickup,
                           vc_pickup_distance_km = Some (pr_distance_km pickup),
                           vc_pickup_eta_minutes = Some (pr_estimated_minutes pickup),
                           vc_score_components = Some components,
                           vc_score = Some (fleet_score components), vc_eligible = (reasons = []),
                           vc_exclusion_reasons = reasons,
                           vc_gross_weight_tons = fv_gross_weight_tons v,
                           vc_cargo_capability = fv_cargo_capability v,
                           vc_driver_status = map_option fd_status (fv_driver v)\<rparr>))"

text \<open>
  The ranking key \<open>(-score, pickup_eta_minutes, vehicle_id)\<close>. It is only taken of eligible
  candidates, whose score and arrival time are present (\<open>evaluate_eligible\<close>).
\<close>

definition rank_key :: "vehicle_candidate \<Rightarrow> rat \<times> int \<times> string" where
  "rank_key c =
     (- (case vc_score c of None \<Rightarrow> 0 | Some s \<Rightarrow> s),
      (case vc_pickup_eta_minutes c of None \<Rightarrow> 0 | Some m \<Rightarrow> m), vc_vehicle_id c)"

definition prepare_estimator :: "travel_time_estimator \<Rightarrow> road_network option \<Rightarrow> fleet_error + prepared_estimator" where
  "prepare_estimator est snapshot_opt =
     (case snapshot_opt of
        Some snapshot \<Rightarrow>
          (case te_for_snapshot est of
             None \<Rightarrow> Inl (TypeError ''Travel-time estimator does not accept an explicit road-network snapshot.'')
           | Some f \<Rightarrow> Inr (f snapshot))
      | None \<Rightarrow>
          (case te_for_allocation est of Some f \<Rightarrow> Inr (f ()) | None \<Rightarrow> Inr (te_direct est)))"

definition allocation_result :: "fleet_request \<Rightarrow> vehicle_candidate list \<Rightarrow> fleet_result" where
  "allocation_result rq candidates =
     (let eligible = sort_key rank_key (filter vc_eligible candidates);
          rejected = sort_key vc_vehicle_id (filter (\<lambda>c. \<not> vc_eligible c) candidates);
          ordered = eligible @ rejected
      in case eligible of
           [] \<Rightarrow> \<lparr>fr_original_vehicle_id = rq_original_vehicle_id rq, fr_candidates = ordered,
                  fr_selected_vehicle_id = None, fr_selected_driver_id = None, fr_pickup_route = None,
                  fr_vehicle_reassigned = False, fr_status = ''UNAVAILABLE'',
                  fr_reason = Some ''NO_REPLACEMENT_VEHICLE''\<rparr>
         | selected # _ \<Rightarrow>
             \<lparr>fr_original_vehicle_id = rq_original_vehicle_id rq, fr_candidates = ordered,
              fr_selected_vehicle_id = Some (vc_vehicle_id selected),
              fr_selected_driver_id = vc_driver_id selected, fr_pickup_route = vc_pickup_route selected,
              fr_vehicle_reassigned = True, fr_status = ''REASSIGNED'', fr_reason = None\<rparr>)"

definition allocate :: "travel_time_estimator \<Rightarrow> (string \<Rightarrow> fleet_vehicle list) \<Rightarrow> fleet_request \<Rightarrow>
    road_network option \<Rightarrow> fleet_error + fleet_result" where
  "allocate estimator list_vehicles rq snapshot_opt =
     res_bind (prepare_estimator estimator snapshot_opt)
       (\<lambda>est. case map_result (evaluate est rq) (list_vehicles (rq_original_vehicle_id rq)) of
                Inl err \<Rightarrow> Inl (RoadError err)
              | Inr candidates \<Rightarrow> Inr (allocation_result rq candidates))"

section \<open>What the allocation promises\<close>

text \<open>
  A vehicle is suitable when none of the cheap reasons applies, and it serves a request when it can
  drive to the incident and, if a destination is given, from there to the destination.
\<close>

definition suitable :: "fleet_vehicle \<Rightarrow> fleet_request \<Rightarrow> bool" where
  "suitable v rq \<longleftrightarrow>
     fv_vehicle_id v \<noteq> rq_original_vehicle_id rq \<and> fv_status v = ''AVAILABLE'' \<and>
     (\<exists>d. fv_driver v = Some d \<and> fd_status d = ''ON_DUTY'') \<and> license_matches v \<and>
     rq_cargo_weight_kg rq \<le> remaining_load_kg v \<and>
     (rq_cargo_type rq = ''COLD_CHAIN'' \<longrightarrow> fv_cargo_capability v = ''COLD_CHAIN'')"

definition reachable :: "road_network \<Rightarrow> rat \<Rightarrow> string \<Rightarrow> string \<Rightarrow> bool" where
  "reachable net vw a b \<longleftrightarrow> a \<in> node_ids net \<and> b \<in> node_ids net \<and> (\<exists>es. drivable net vw {} a es b)"

definition serves :: "road_network \<Rightarrow> fleet_request \<Rightarrow> fleet_vehicle \<Rightarrow> bool" where
  "serves net rq v \<longleftrightarrow>
     reachable net (fv_gross_weight_tons v) (fv_current_node_id v) (rq_incident_node_id rq) \<and>
     (\<forall>dest. rq_destination_node_id rq = Some dest \<longrightarrow>
        reachable net (fv_gross_weight_tons v) (rq_incident_node_id rq) dest)"

definition weight_blocked :: "road_network \<Rightarrow> fleet_vehicle \<Rightarrow> string \<Rightarrow> string \<Rightarrow> bool" where
  "weight_blocked net v a b \<longleftrightarrow> \<not> reachable net (fv_gross_weight_tons v) a b \<and> reachable net 0 a b"

lemma cheap_reasons_no_restriction: "''ROAD_WEIGHT_RESTRICTION'' \<notin> set (cheap_reasons v rq)"
  by (auto simp: cheap_reasons_def split: option.splits)

lemma cheap_reasons_Nil: "cheap_reasons v rq = [] \<longleftrightarrow> suitable v rq"
  by (auto simp: cheap_reasons_def suitable_def license_matches_def split: option.splits)

lemma unreachable_reasons_not_Nil: "unreachable_reasons est v a b code \<noteq> Inr []"
  by (cases "weight_restricted est v a b") (auto simp: unreachable_reasons_def)

text \<open>An eligible candidate has a route, an arrival time and a score, and no reason against it.\<close>

lemma evaluate_fields:
  assumes "evaluate est rq v = Inr c"
  shows "vc_vehicle_id c = fv_vehicle_id v" "vc_driver_id c = map_option fd_driver_id (fv_driver v)"
    "vc_vehicle_status c = fv_status v" "vc_driver_status c = map_option fd_status (fv_driver v)"
    "vc_remaining_load_kg c = remaining_load_kg v" "vc_cargo_capability c = fv_cargo_capability v"
    "vc_gross_weight_tons c = fv_gross_weight_tons v"
    "vc_eligible c \<longleftrightarrow> vc_exclusion_reasons c = []"
  using assms unreachable_reasons_not_Nil
  by (auto simp: evaluate_def rejected_def res_bind_eq_Inr Let_def split: option.splits)

lemma evaluate_eligible:
  assumes "evaluate est rq v = Inr c" and "vc_eligible c"
  obtains pickup where "pe_estimate est (fv_current_node_id v) (rq_incident_node_id rq)
      (fv_gross_weight_tons v) = Inr (Some pickup)"
    "vc_pickup_route c = Some pickup" "vc_pickup_eta_minutes c = Some (pr_estimated_minutes pickup)"
    "vc_score c = Some (fleet_score (compute_score_components v rq pickup))"
    "suitable v rq" "delivery_reasons est v rq = Inr []"
  using assms cheap_reasons_Nil [of v rq]
  by (auto simp: evaluate_def rejected_def res_bind_eq_Inr Let_def split: option.splits)

lemma delivery_reasons_Nil:
  "delivery_reasons est v rq = Inr [] \<longleftrightarrow>
   (\<forall>dest. rq_destination_node_id rq = Some dest \<longrightarrow>
      (\<exists>p. pe_estimate est (rq_incident_node_id rq) dest (fv_gross_weight_tons v) = Inr (Some p)))"
  using unreachable_reasons_not_Nil
  by (cases "rq_destination_node_id rq")
     (auto simp: delivery_reasons_def res_bind_eq_Inr split: if_splits)

section \<open>Ranking\<close>

lemma allocation_result_candidates: "mset (fr_candidates (allocation_result rq cs)) = mset cs"
proof -
  have "fr_candidates (allocation_result rq cs) =
      sort_key rank_key (filter vc_eligible cs) @ sort_key vc_vehicle_id (filter (\<lambda>c. \<not> vc_eligible c) cs)"
    by (simp add: allocation_result_def Let_def split: list.splits)
  then show ?thesis by (simp add: mset_filter)
qed

lemma allocation_result_none:
  "fr_selected_vehicle_id (allocation_result rq cs) = None \<longleftrightarrow> (\<forall>c\<in>set cs. \<not> vc_eligible c)"
proof -
  have "fr_selected_vehicle_id (allocation_result rq cs) = None \<longleftrightarrow>
      sort_key rank_key (filter vc_eligible cs) = []"
    by (simp add: allocation_result_def Let_def del: sort_key_Nil_iff split: list.splits)
  then show ?thesis by (simp add: filter_empty_conv)
qed

lemma allocation_result_some:
  assumes "fr_selected_vehicle_id (allocation_result rq cs) = Some vid"
  obtains c where "c \<in> set cs" "vc_eligible c" "vc_vehicle_id c = vid"
    "fr_selected_driver_id (allocation_result rq cs) = vc_driver_id c"
    "fr_pickup_route (allocation_result rq cs) = vc_pickup_route c"
    "\<And>c'. c' \<in> set cs \<Longrightarrow> vc_eligible c' \<Longrightarrow> rank_key c \<le> rank_key c'"
proof -
  obtain c rest where e: "sort_key rank_key (filter vc_eligible cs) = c # rest"
    using assms by (auto simp: allocation_result_def Let_def split: list.splits)
  have "c \<in> set (filter vc_eligible cs)" using sort_key_hd_mem [OF e] .
  moreover have "rank_key c \<le> rank_key c'" if "c' \<in> set cs" "vc_eligible c'" for c'
    using sort_key_hd_least [OF e] that by simp
  ultimately show ?thesis using that assms e by (auto simp: allocation_result_def Let_def)
qed

section \<open>The allocation over a path finder\<close>

context path_finder
begin

lemma estimate_reachable:
  assumes "wf_network net"
  shows "(\<exists>p. pe_estimate (prepared_dijkstra find net) a b w = Inr (Some p)) \<longleftrightarrow> reachable net w a b"
  using find_iff [OF assms] by (simp add: prepared_dijkstra_def reachable_def)

lemma estimate_total: "wf_network net \<Longrightarrow> \<exists>r. pe_estimate (prepared_dijkstra find net) a b w = Inr r"
  using find_total by (simp add: prepared_dijkstra_def)

text \<open>The weight-restriction reason is given exactly when only the vehicle's weight is in the way.\<close>

lemma weight_restricted_iff:
  assumes "wf_network net"
  shows "weight_restricted (prepared_dijkstra find net) v a b =
    Inr (\<not> reachable net (fv_gross_weight_tons v) a b \<and> reachable net 0 a b)"
proof -
  obtain r r0 where r: "find net a b FASTEST (fv_gross_weight_tons v) {} = Inr r"
    "find net a b FASTEST 0 {} = Inr r0"
    using find_total [OF assms] by meson
  then show ?thesis
    using find_iff [OF assms, of a b FASTEST "fv_gross_weight_tons v" "{}"]
      find_iff [OF assms, of a b FASTEST 0 "{}"]
    by (cases r; cases r0)
       (auto simp: weight_restricted_def prepared_dijkstra_def is_weight_restricted_def reachable_def)
qed

lemma unreachable_reasons_total:
  "wf_network net \<Longrightarrow> \<exists>rs. unreachable_reasons (prepared_dijkstra find net) v a b code = Inr rs"
  by (simp add: unreachable_reasons_def weight_restricted_iff)

lemma evaluate_total:
  assumes wf: "wf_network net"
  shows "\<exists>c. evaluate (prepared_dijkstra find net) rq v = Inr c"
proof -
  obtain r where r: "pe_estimate (prepared_dijkstra find net) (fv_current_node_id v)
      (rq_incident_node_id rq) (fv_gross_weight_tons v) = Inr r"
    using estimate_total [OF wf] by blast
  obtain ds where ds: "delivery_reasons (prepared_dijkstra find net) v rq = Inr ds"
  proof (cases "rq_destination_node_id rq")
    case (Some dest)
    obtain d where "pe_estimate (prepared_dijkstra find net) (rq_incident_node_id rq) dest
        (fv_gross_weight_tons v) = Inr d"
      using estimate_total [OF wf] by blast
    moreover obtain rs where "unreachable_reasons (prepared_dijkstra find net) v
        (rq_incident_node_id rq) dest ''DELIVERY_UNREACHABLE'' = Inr rs"
      using unreachable_reasons_total [OF wf] by blast
    ultimately show ?thesis using that Some by (cases d) (auto simp: delivery_reasons_def)
  qed (use that in \<open>simp add: delivery_reasons_def\<close>)
  obtain us where "unreachable_reasons (prepared_dijkstra find net) v
      (fv_current_node_id v) (rq_incident_node_id rq) ''PICKUP_UNREACHABLE'' = Inr us"
    using unreachable_reasons_total [OF wf] by blast
  then show ?thesis using r ds by (cases r) (simp_all add: evaluate_def Let_def)
qed

lemma evaluate_eligible_iff:
  assumes wf: "wf_network net" and c: "evaluate (prepared_dijkstra find net) rq v = Inr c"
  shows "vc_eligible c \<longleftrightarrow> suitable v rq \<and> serves net rq v"
proof -
  have serves: "serves net rq v \<longleftrightarrow>
      (\<exists>p. pe_estimate (prepared_dijkstra find net) (fv_current_node_id v) (rq_incident_node_id rq)
         (fv_gross_weight_tons v) = Inr (Some p)) \<and>
      delivery_reasons (prepared_dijkstra find net) v rq = Inr []"
    using estimate_reachable [OF wf] by (simp add: serves_def delivery_reasons_Nil)
  show ?thesis
  proof
    assume "vc_eligible c"
    with c show "suitable v rq \<and> serves net rq v"
      unfolding serves by (rule evaluate_eligible) blast
  next
    assume "suitable v rq \<and> serves net rq v"
    then show "vc_eligible c"
      using c cheap_reasons_Nil [of v rq] unfolding serves by (auto simp: evaluate_def Let_def)
  qed
qed

lemma evaluate_all_total:
  "wf_network net \<Longrightarrow> \<exists>cs. map_result (evaluate (prepared_dijkstra find net) rq) vs = Inr cs"
  using evaluate_total by (intro map_result_total) blast

lemma allocate_candidates:
  assumes wf: "wf_network net"
  obtains cs where "allocate (dijkstra_estimator find provider) vs rq (Some net) = Inr (allocation_result rq cs)"
    "map_result (evaluate (prepared_dijkstra find net) rq) (vs (rq_original_vehicle_id rq)) = Inr cs"
proof -
  obtain cs where "map_result (evaluate (prepared_dijkstra find net) rq) (vs (rq_original_vehicle_id rq)) = Inr cs"
    using evaluate_all_total [OF wf] by blast
  then show ?thesis using that by (simp add: allocate_def prepare_estimator_def dijkstra_estimator_def)
qed

text \<open>The weight restriction is reported exactly when a lighter vehicle could drive the leg.\<close>

lemma restriction_in_unreachable:
  assumes wf: "wf_network net" and "unreachable_reasons (prepared_dijkstra find net) v a b code = Inr rs"
    and "code \<noteq> ''ROAD_WEIGHT_RESTRICTION''"
  shows "''ROAD_WEIGHT_RESTRICTION'' \<in> set rs \<longleftrightarrow>
    \<not> reachable net (fv_gross_weight_tons v) a b \<and> reachable net 0 a b"
  using assms(2,3) weight_restricted_iff [OF wf] by (auto simp: unreachable_reasons_def)

lemma delivery_restriction:
  assumes wf: "wf_network net" and ds: "delivery_reasons (prepared_dijkstra find net) v rq = Inr ds"
  shows "''ROAD_WEIGHT_RESTRICTION'' \<in> set ds \<longleftrightarrow>
    (\<exists>dest. rq_destination_node_id rq = Some dest \<and> weight_blocked net v (rq_incident_node_id rq) dest)"
proof (cases "rq_destination_node_id rq")
  case None
  then show ?thesis using ds by (simp add: delivery_reasons_def)
next
  case (Some dest)
  obtain d where d: "pe_estimate (prepared_dijkstra find net) (rq_incident_node_id rq) dest
      (fv_gross_weight_tons v) = Inr d"
    using estimate_total [OF wf] by blast
  show ?thesis
  proof (cases d)
    case None
    then have "unreachable_reasons (prepared_dijkstra find net) v (rq_incident_node_id rq) dest
        ''DELIVERY_UNREACHABLE'' = Inr ds"
      using ds d Some by (simp add: delivery_reasons_def)
    then show ?thesis using restriction_in_unreachable [OF wf] Some by (simp add: weight_blocked_def)
  next
    case (Some p)
    then have "reachable net (fv_gross_weight_tons v) (rq_incident_node_id rq) dest"
      using estimate_reachable [OF wf] d by blast
    then show ?thesis
      using ds d Some \<open>rq_destination_node_id rq = Some dest\<close> by (simp add: delivery_reasons_def weight_blocked_def)
  qed
qed

lemma evaluate_restriction:
  assumes wf: "wf_network net" and c: "evaluate (prepared_dijkstra find net) rq v = Inr c"
  shows "''ROAD_WEIGHT_RESTRICTION'' \<in> set (vc_exclusion_reasons c) \<longleftrightarrow>
    weight_blocked net v (fv_current_node_id v) (rq_incident_node_id rq) \<or>
    reachable net (fv_gross_weight_tons v) (fv_current_node_id v) (rq_incident_node_id rq) \<and>
      (\<exists>dest. rq_destination_node_id rq = Some dest \<and> weight_blocked net v (rq_incident_node_id rq) dest)"
    (is "?R \<longleftrightarrow> _")
proof (cases "reachable net (fv_gross_weight_tons v) (fv_current_node_id v) (rq_incident_node_id rq)")
  case True
  then obtain p where p: "pe_estimate (prepared_dijkstra find net) (fv_current_node_id v)
      (rq_incident_node_id rq) (fv_gross_weight_tons v) = Inr (Some p)"
    using estimate_reachable [OF wf] by blast
  obtain ds where ds: "delivery_reasons (prepared_dijkstra find net) v rq = Inr ds"
    and r: "vc_exclusion_reasons c = cheap_reasons v rq @ ds"
    using c p by (auto simp: evaluate_def res_bind_eq_Inr Let_def)
  have "''ROAD_WEIGHT_RESTRICTION'' \<in> set ds \<longleftrightarrow>
      (\<exists>dest. rq_destination_node_id rq = Some dest \<and> weight_blocked net v (rq_incident_node_id rq) dest)"
    using delivery_restriction [OF wf ds] .
  then show ?thesis using True r cheap_reasons_no_restriction by (auto simp: weight_blocked_def)
next
  case False
  then have "pe_estimate (prepared_dijkstra find net) (fv_current_node_id v) (rq_incident_node_id rq)
      (fv_gross_weight_tons v) = Inr None"
    using estimate_reachable [OF wf] estimate_total [OF wf] by (metis not_Some_eq)
  then obtain rs where rs: "unreachable_reasons (prepared_dijkstra find net) v (fv_current_node_id v)
      (rq_incident_node_id rq) ''PICKUP_UNREACHABLE'' = Inr rs"
    and r: "vc_exclusion_reasons c = cheap_reasons v rq @ rs"
    using c by (auto simp: evaluate_def res_bind_eq_Inr rejected_def)
  then show ?thesis using False restriction_in_unreachable [OF wf rs] cheap_reasons_no_restriction
    by (auto simp: weight_blocked_def)
qed

text \<open>
  What the allocation guarantees of its result: either no listed vehicle both suits and serves the
  request, or the selected one does and ranks first among the eligible candidates.
\<close>

lemma allocation_none:
  assumes wf: "wf_network net"
    and cs: "map_result (evaluate (prepared_dijkstra find net) rq) vs = Inr cs"
    and none: "fr_selected_vehicle_id (allocation_result rq cs) = None" and v: "v \<in> set vs"
  shows "\<not> (suitable v rq \<and> serves net rq v)"
proof -
  obtain c where "c \<in> set cs" "evaluate (prepared_dijkstra find net) rq v = Inr c"
    using map_result_mem(2) [OF cs v] by blast
  moreover from this(1) have "\<not> vc_eligible c" using none by (simp add: allocation_result_none)
  ultimately show ?thesis using evaluate_eligible_iff [OF wf] by blast
qed

lemma allocation_some:
  assumes wf: "wf_network net"
    and cs: "map_result (evaluate (prepared_dijkstra find net) rq) vs = Inr cs"
    and sel: "fr_selected_vehicle_id (allocation_result rq cs) = Some vid"
  obtains v c where "v \<in> set vs" "c \<in> set cs" "evaluate (prepared_dijkstra find net) rq v = Inr c"
    "fv_vehicle_id v = vid" "vc_vehicle_id c = vid" "vc_eligible c" "suitable v rq" "serves net rq v"
    "fr_selected_driver_id (allocation_result rq cs) = vc_driver_id c"
    "fr_pickup_route (allocation_result rq cs) = vc_pickup_route c"
    "\<forall>c'\<in>set cs. vc_eligible c' \<longrightarrow> rank_key c \<le> rank_key c'"
proof -
  obtain c where c: "c \<in> set cs" "vc_eligible c" "vc_vehicle_id c = vid"
    "fr_selected_driver_id (allocation_result rq cs) = vc_driver_id c"
    "fr_pickup_route (allocation_result rq cs) = vc_pickup_route c"
    "\<And>c'. c' \<in> set cs \<Longrightarrow> vc_eligible c' \<Longrightarrow> rank_key c \<le> rank_key c'"
    using allocation_result_some [OF sel] by metis
  obtain v where v: "v \<in> set vs" "evaluate (prepared_dijkstra find net) rq v = Inr c"
    using map_result_mem(1) [OF cs c(1)] by blast
  have "suitable v rq" "serves net rq v" using evaluate_eligible_iff [OF wf v(2)] c(2) by auto
  moreover have "fv_vehicle_id v = vid" using evaluate_fields(1) [OF v(2)] c(3) by simp
  ultimately show ?thesis using that v c by blast
qed

end

section \<open>Score bounds\<close>

lemma dec_sub_mono: "a \<le> a' \<Longrightarrow> b' \<le> b \<Longrightarrow> dec_sub a b \<le> dec_sub a' b'"
  by (simp add: dec_sub_def ctx_mono)

lemma dec_sub_nonneg_le: "ctx a = a \<Longrightarrow> 0 \<le> b \<Longrightarrow> dec_sub a b \<le> a"
  by (simp add: dec_sub_def ctx_le_exact)

lemma dec_sub_ctx [simp]: "ctx (dec_sub a b) = dec_sub a b"
  by (simp add: dec_sub_def)

lemma fleet_score_le:
  assumes "0 \<le> sc_eta_penalty c" "0 \<le> sc_distance_penalty c" "0 \<le> sc_load_penalty c"
    "0 \<le> sc_road_risk_penalty c" "sc_same_station_bonus c \<le> 8" "sc_cargo_exact_match_bonus c \<le> 10"
  shows "fleet_score c \<le> 118"
proof -
  have c: "ctx 100 = 100" "ctx 108 = 108" "ctx 118 = 118" by (simp_all add: decimal_simps)
  let ?p = "dec_sub (dec_sub (dec_sub (dec_sub 100 (sc_eta_penalty c)) (sc_distance_penalty c))
      (sc_load_penalty c)) (sc_road_risk_penalty c)"
  have "?p \<le> 100"
    using assms c(1) by (meson dec_sub_ctx dec_sub_nonneg_le order_trans)
  then have "dec_add ?p (sc_same_station_bonus c) \<le> dec_add 100 8"
    using assms(5) by (intro dec_add_mono) auto
  then have "dec_add (dec_add ?p (sc_same_station_bonus c)) (sc_cargo_exact_match_bonus c) \<le>
      dec_add (dec_add 100 8) 10"
    using assms(6) by (rule dec_add_mono)
  also have "\<dots> = 118" using c by (simp add: dec_add_def)
  finally have "fleet_score c \<le> quantize_half_up 1 118"
    unfolding fleet_score_def by (rule quantize_half_up_mono)
  also have "\<dots> = 118" by (rule quantize_half_up_exact [of _ _ 1180]) simp
  finally show ?thesis .
qed

lemma current_load_ratio_nonneg:
  "0 \<le> fv_current_load_kg v \<Longrightarrow> 0 \<le> fv_max_load_kg v \<Longrightarrow> 0 \<le> current_load_ratio v"
  by (simp add: current_load_ratio_def ctx_nonneg)

lemma components_score_le:
  assumes "0 \<le> pr_estimated_minutes p" "0 \<le> pr_distance_km p"
    "0 \<le> fv_current_load_kg v" "0 \<le> fv_max_load_kg v"
  shows "fleet_score (compute_score_components v rq p) \<le> 118"
  using assms current_load_ratio_nonneg [of v]
  by (intro fleet_score_le)
     (auto simp: compute_score_components_def fleet_risk_penalty_def Let_def intro!: dec_mul_nonneg)

section \<open>A small fleet for evaluation\<close>

definition sample_driver :: "string \<Rightarrow> fleet_driver" where
  "sample_driver i =
     \<lparr>fd_driver_id = i, fd_name = i, fd_license_class = ''B2'', fd_status = ''ON_DUTY'',
      fd_current_node_id = ''A''\<rparr>"

definition sample_vehicle :: "string \<Rightarrow> string \<Rightarrow> string \<Rightarrow> fleet_vehicle" where
  "sample_vehicle i status node =
     \<lparr>fv_vehicle_id = i, fv_plate_no = i, fv_vehicle_type = ''VAN'', fv_max_load_kg = 1000,
      fv_current_load_kg = 100, fv_cargo_capability = ''GENERAL'', fv_gross_weight_tons = 2,
      fv_status = status, fv_current_node_id = node, fv_driver = Some (sample_driver i)\<rparr>"

definition sample_fleet :: "string \<Rightarrow> fleet_vehicle list" where
  "sample_fleet _ =
     [sample_vehicle ''V1'' ''BROKEN'' ''B'', sample_vehicle ''V2'' ''AVAILABLE'' ''A'',
      sample_vehicle ''V3'' ''AVAILABLE'' ''C'']"

definition sample_request :: fleet_request where
  "sample_request =
     \<lparr>rq_original_vehicle_id = ''V1'', rq_incident_node_id = ''B'', rq_cargo_weight_kg = 500,
      rq_cargo_type = ''GENERAL'', rq_destination_node_id = Some ''C''\<rparr>"

section \<open>Properties of the allocation\<close>

text \<open>
  C2. On a well-formed road network the allocation never fails and ranks every listed vehicle once. It
  selects a vehicle exactly when some listed vehicle is suitable (not the original one, available,
  with an on-duty licensed driver, enough remaining load and the cargo capability) and can drive at
  its weight to the incident and on to the destination; the selected vehicle is such a vehicle, and
  no other such vehicle ranks before it by score, arrival time and id.
\<close>

theorem allocate_selects_best:
  assumes wf: "wf_network net"
  shows "\<exists>res cs. allocate (dijkstra_estimator find_path provider) vehicles rq (Some net) = Inr res \<and>
    map_result (evaluate (prepared_dijkstra find_path net) rq) (vehicles (rq_original_vehicle_id rq)) = Inr cs \<and>
    mset (fr_candidates res) = mset cs \<and>
    (case fr_selected_vehicle_id res of
       None \<Rightarrow> \<not> fr_vehicle_reassigned res \<and>
         (\<forall>v\<in>set (vehicles (rq_original_vehicle_id rq)). \<not> (suitable v rq \<and> serves net rq v))
     | Some vid \<Rightarrow> fr_vehicle_reassigned res \<and> vid \<noteq> rq_original_vehicle_id rq \<and>
         (\<exists>v c. v \<in> set (vehicles (rq_original_vehicle_id rq)) \<and> fv_vehicle_id v = vid \<and>
            suitable v rq \<and> serves net rq v \<and> evaluate (prepared_dijkstra find_path net) rq v = Inr c \<and>
            (\<forall>c'\<in>set cs. vc_eligible c' \<longrightarrow> rank_key c \<le> rank_key c')))"
proof -
  obtain cs where
    alloc: "allocate (dijkstra_estimator find_path provider) vehicles rq (Some net) = Inr (allocation_result rq cs)"
    and cs: "map_result (evaluate (prepared_dijkstra find_path net) rq) (vehicles (rq_original_vehicle_id rq)) = Inr cs"
    using dijkstra.allocate_candidates [OF wf] .
  have reassigned: "fr_vehicle_reassigned (allocation_result rq cs) \<longleftrightarrow>
      fr_selected_vehicle_id (allocation_result rq cs) \<noteq> None"
    by (simp add: allocation_result_def Let_def split: list.splits)
  show ?thesis
  proof (cases "fr_selected_vehicle_id (allocation_result rq cs)")
    case None
    then show ?thesis
      using alloc cs reassigned allocation_result_candidates dijkstra.allocation_none [OF wf cs None] by simp
  next
    case (Some vid)
    obtain v c where "v \<in> set (vehicles (rq_original_vehicle_id rq))" "fv_vehicle_id v = vid"
      "evaluate (prepared_dijkstra find_path net) rq v = Inr c" "suitable v rq" "serves net rq v"
      "\<forall>c'\<in>set cs. vc_eligible c' \<longrightarrow> rank_key c \<le> rank_key c'"
      using dijkstra.allocation_some [OF wf cs Some] by metis
    moreover from this have "vid \<noteq> rq_original_vehicle_id rq" by (auto simp: suitable_def)
    ultimately show ?thesis
      using alloc cs reassigned allocation_result_candidates Some by simp blast
  qed
qed

theorem allocate_selects_best_witness:
  "\<exists>res. allocate (dijkstra_estimator find_path (\<lambda>_. sample_net)) sample_fleet sample_request (Some sample_net) =
     Inr res \<and> length (fr_candidates res) = 3"
proof -
  obtain res cs where
    r: "allocate (dijkstra_estimator find_path (\<lambda>_. sample_net)) sample_fleet sample_request (Some sample_net) = Inr res"
    "map_result (evaluate (prepared_dijkstra find_path sample_net) sample_request)
       (sample_fleet (rq_original_vehicle_id sample_request)) = Inr cs"
    "mset (fr_candidates res) = mset cs"
    using allocate_selects_best [OF sample_net_wf, of "\<lambda>_. sample_net" sample_fleet sample_request] by blast
  have "length cs = 3" using r(2) unfolding map_result_Inr by (auto simp: sample_fleet_def dest!: list_all2_lengthD)
  then show ?thesis using r(1,3) by (metis mset_eq_length)
qed

text \<open>
  A candidate's exclusion reasons name the road weight restriction exactly when the vehicle's weight is what
  stands in the way: a vehicle of no weight could drive the pickup leg where this one cannot, or, the pickup being
  reachable, it could drive the delivery leg where this one cannot.
\<close>

theorem weight_restriction_reported:
  assumes "wf_network net" and "evaluate (prepared_dijkstra find_path net) rq v = Inr c"
  shows "''ROAD_WEIGHT_RESTRICTION'' \<in> set (vc_exclusion_reasons c) \<longleftrightarrow>
    weight_blocked net v (fv_current_node_id v) (rq_incident_node_id rq) \<or>
    reachable net (fv_gross_weight_tons v) (fv_current_node_id v) (rq_incident_node_id rq) \<and>
      (\<exists>dest. rq_destination_node_id rq = Some dest \<and> weight_blocked net v (rq_incident_node_id rq) dest)"
  using assms by (rule dijkstra.evaluate_restriction)

theorem weight_restriction_reported_witness:
  "weight_blocked sample_net (sample_vehicle ''V2'' ''AVAILABLE'' ''A''\<lparr>fv_gross_weight_tons := 20\<rparr>) ''A'' ''B''"
proof -
  let ?v = "sample_vehicle ''V2'' ''AVAILABLE'' ''A''\<lparr>fv_gross_weight_tons := 20\<rparr>"
  obtain c where c: "evaluate (prepared_dijkstra find_path sample_net) sample_request ?v = Inr c"
    using dijkstra.evaluate_total [OF sample_net_wf] by blast
  have "\<exists>c. evaluate (prepared_dijkstra find_path sample_net) sample_request ?v = Inr c \<and>
      vc_exclusion_reasons c = [''ROAD_WEIGHT_RESTRICTION'', ''PICKUP_UNREACHABLE'']"
    by (rule exI [of _ "rejected ?v [''ROAD_WEIGHT_RESTRICTION'', ''PICKUP_UNREACHABLE'']"]) code_simp
  then have "''ROAD_WEIGHT_RESTRICTION'' \<in> set (vc_exclusion_reasons c)" using c by auto
  moreover have "find_path sample_net ''A'' ''B'' FASTEST 20 {} = Inr None" by code_simp
  then have "\<not> reachable sample_net 20 ''A'' ''B''"
    using dijkstra.find_iff [OF sample_net_wf, of "''A''" "''B''" FASTEST 20 "{}"] by (simp add: reachable_def)
  ultimately show ?thesis
    using weight_restriction_reported [OF sample_net_wf c] by (auto simp: sample_request_def sample_vehicle_def)
qed

end
