(* ===== verification/Capacity.thy ===== *)
theory Capacity
  imports Fleet
begin

text \<open>
  The capacity component of \<open>backend/app/capacity\<close>: the snapshots of \<open>models.py\<close>, the two providers
  of \<open>provider.py\<close> and the service of \<open>service.py\<close> that rates the capacity of the assigned driver
  and vehicle. Load ratios are binary floats: the conversion of the fleet's decimal ratio rounds to 53
  significant bits (\<open>to_float\<close>). A provider call may raise, which is the left of a sum.
\<close>

section \<open>Data: models.py\<close>

record capacity_snapshot =
  cs_driver_available :: bool
  cs_vehicle_available :: bool
  cs_load_ratio :: rat
  cs_station_load_ratio :: "rat option"
  cs_provider_name :: string
  cs_remaining_load_kg :: "rat option"
  cs_cargo_capability :: "string option"

record capacity_result =
  cr_driver_available :: bool
  cr_vehicle_available :: bool
  cr_load_ratio :: rat
  cr_station_load_ratio :: "rat option"
  cr_capacity_status :: string
  cr_risk_level :: string
  cr_reason :: "string option"
  cr_provider_name :: string

section \<open>Providers: provider.py\<close>

datatype capacity_error = CapacityProviderError | CapacityEvaluationError string

type_synonym capacity_provider =
  "string \<Rightarrow> string option \<Rightarrow> string \<Rightarrow> int \<Rightarrow> capacity_error + capacity_snapshot"

definition no_capacity :: "string \<Rightarrow> capacity_snapshot" where
  "no_capacity provider =
     \<lparr>cs_driver_available = False, cs_vehicle_available = False, cs_load_ratio = 0,
      cs_station_load_ratio = None, cs_provider_name = provider, cs_remaining_load_kg = None,
      cs_cargo_capability = None\<rparr>"

definition fleet_get_capacity :: "(string \<Rightarrow> fleet_vehicle option) \<Rightarrow> capacity_provider" where
  "fleet_get_capacity fleet_provider driver_id vehicle_id route_id order_id =
     (case vehicle_id of
        None \<Rightarrow> Inr (no_capacity ''sqlalchemy_fleet'')
      | Some vid \<Rightarrow>
          (case fleet_provider vid of
             None \<Rightarrow> Inr (no_capacity ''sqlalchemy_fleet'')
           | Some vehicle \<Rightarrow>
               Inr \<lparr>cs_driver_available =
                      (case fv_driver vehicle of
                         None \<Rightarrow> False
                       | Some d \<Rightarrow> fd_driver_id d = driver_id \<and> fd_status d = ''ON_DUTY''),
                    cs_vehicle_available = (fv_status vehicle \<in> {''AVAILABLE'', ''IN_TRANSIT''}),
                    cs_load_ratio = to_float (current_load_ratio vehicle),
                    cs_station_load_ratio = None, cs_provider_name = ''sqlalchemy_fleet'',
                    cs_remaining_load_kg = Some (remaining_load_kg vehicle),
                    cs_cargo_capability = Some (fv_cargo_capability vehicle)\<rparr>))"

definition memory_get_capacity :: "(string \<times> string \<rightharpoonup> capacity_snapshot) \<Rightarrow> capacity_provider" where
  "memory_get_capacity records driver_id vehicle_id route_id order_id =
     (case vehicle_id of
        None \<Rightarrow> Inr (no_capacity ''in_memory_capacity'')
      | Some vid \<Rightarrow>
          (case records (driver_id, vid) of
             None \<Rightarrow> Inr (no_capacity ''in_memory_capacity'')
           | Some snapshot \<Rightarrow> Inr snapshot))"

section \<open>CapacityService\<close>

definition at_threshold :: "rat \<Rightarrow> rat \<Rightarrow> rat option \<Rightarrow> bool" where
  "at_threshold threshold load_ratio station_load_ratio \<longleftrightarrow>
     threshold \<le> load_ratio \<or> (case station_load_ratio of None \<Rightarrow> False | Some r \<Rightarrow> threshold \<le> r)"

definition is_unavailable :: "rat \<Rightarrow> rat \<Rightarrow> rat option \<Rightarrow> bool" where
  "is_unavailable unavailable_threshold load_ratio station_load_ratio =
     at_threshold unavailable_threshold load_ratio station_load_ratio"

definition is_limited :: "rat \<Rightarrow> rat \<Rightarrow> rat option \<Rightarrow> bool" where
  "is_limited limited_threshold load_ratio station_load_ratio =
     at_threshold limited_threshold load_ratio station_load_ratio"

definition capacity_result_of :: "capacity_snapshot \<Rightarrow> string \<Rightarrow> string \<Rightarrow> string option \<Rightarrow> capacity_result" where
  "capacity_result_of snapshot status risk_level reason =
     \<lparr>cr_driver_available = cs_driver_available snapshot,
      cr_vehicle_available = cs_vehicle_available snapshot, cr_load_ratio = cs_load_ratio snapshot,
      cr_station_load_ratio = cs_station_load_ratio snapshot, cr_capacity_status = status,
      cr_risk_level = risk_level, cr_reason = reason, cr_provider_name = cs_provider_name snapshot\<rparr>"

definition lacks_payload :: "capacity_snapshot \<Rightarrow> rat option \<Rightarrow> bool" where
  "lacks_payload snapshot cargo_weight_kg \<longleftrightarrow>
     (case (cargo_weight_kg, cs_remaining_load_kg snapshot) of
        (Some w, Some r) \<Rightarrow> r < w | _ \<Rightarrow> False)"

definition lacks_capability :: "capacity_snapshot \<Rightarrow> string option \<Rightarrow> bool" where
  "lacks_capability snapshot cargo_type \<longleftrightarrow>
     cargo_type = Some ''COLD_CHAIN'' \<and> cs_cargo_capability snapshot \<noteq> None \<and>
     cs_cargo_capability snapshot \<noteq> Some ''COLD_CHAIN''"

definition down_statuses :: "string set" where
  "down_statuses = {''BROKEN'', ''UNAVAILABLE'', ''MAINTENANCE''}"

definition rate_capacity :: "rat \<Rightarrow> rat \<Rightarrow> capacity_snapshot \<Rightarrow> string \<Rightarrow> rat option \<Rightarrow> string option \<Rightarrow>
    capacity_result" where
  "rate_capacity limited_threshold unavailable_threshold snapshot vehicle_status cargo_weight_kg cargo_type =
     (if vehicle_status \<in> down_statuses
      then capacity_result_of (snapshot\<lparr>cs_vehicle_available := False\<rparr>) ''UNAVAILABLE'' ''high''
             (Some (''Vehicle runtime status is '' @ vehicle_status @ ''.''))
      else if \<not> cs_driver_available snapshot
      then capacity_result_of snapshot ''UNAVAILABLE'' ''high'' (Some ''Assigned driver is unavailable.'')
      else if \<not> cs_vehicle_available snapshot
      then capacity_result_of snapshot ''UNAVAILABLE'' ''high'' (Some ''Assigned vehicle is unavailable.'')
      else if lacks_payload snapshot cargo_weight_kg
      then capacity_result_of snapshot ''UNAVAILABLE'' ''high''
             (Some ''Assigned vehicle has insufficient remaining payload.'')
      else if lacks_capability snapshot cargo_type
      then capacity_result_of snapshot ''UNAVAILABLE'' ''high''
             (Some ''Assigned vehicle lacks the required cargo capability.'')
      else if is_unavailable unavailable_threshold (cs_load_ratio snapshot) (cs_station_load_ratio snapshot)
      then capacity_result_of snapshot ''UNAVAILABLE'' ''high'' (Some ''Vehicle or station load exceeds capacity.'')
      else if is_limited limited_threshold (cs_load_ratio snapshot) (cs_station_load_ratio snapshot)
      then capacity_result_of snapshot ''LIMITED'' ''medium'' (Some ''Vehicle load is approaching capacity.'')
      else capacity_result_of snapshot ''AVAILABLE'' ''low'' None)"

definition capacity_evaluate :: "rat \<Rightarrow> rat \<Rightarrow> capacity_provider \<Rightarrow> string \<Rightarrow> string option \<Rightarrow> string \<Rightarrow>
    int \<Rightarrow> string \<Rightarrow> rat option \<Rightarrow> string option \<Rightarrow> capacity_error + capacity_result" where
  "capacity_evaluate limited_threshold unavailable_threshold provider driver_id vehicle_id route_id order_id
     vehicle_status cargo_weight_kg cargo_type =
     (case provider driver_id vehicle_id route_id order_id of
        Inl CapacityProviderError \<Rightarrow>
          Inl (CapacityEvaluationError ''Capacity evaluation is temporarily unavailable.'')
      | Inl err \<Rightarrow> Inl err
      | Inr snapshot \<Rightarrow>
          Inr (rate_capacity limited_threshold unavailable_threshold snapshot vehicle_status
                 cargo_weight_kg cargo_type))"

section \<open>What a rating means\<close>

text \<open>The vehicle can take the cargo: the conditions under which the service does not refuse it.\<close>

definition can_carry :: "capacity_snapshot \<Rightarrow> string \<Rightarrow> rat option \<Rightarrow> string option \<Rightarrow> bool" where
  "can_carry snapshot vehicle_status cargo_weight_kg cargo_type \<longleftrightarrow>
     vehicle_status \<notin> down_statuses \<and> cs_driver_available snapshot \<and> cs_vehicle_available snapshot \<and>
     (\<forall>w r. cargo_weight_kg = Some w \<longrightarrow> cs_remaining_load_kg snapshot = Some r \<longrightarrow> w \<le> r) \<and>
     (\<forall>c. cargo_type = Some ''COLD_CHAIN'' \<longrightarrow> cs_cargo_capability snapshot = Some c \<longrightarrow> c = ''COLD_CHAIN'')"

definition below :: "rat \<Rightarrow> capacity_snapshot \<Rightarrow> bool" where
  "below threshold snapshot \<longleftrightarrow>
     cs_load_ratio snapshot < threshold \<and> (\<forall>r. cs_station_load_ratio snapshot = Some r \<longrightarrow> r < threshold)"

lemma at_threshold_below: "at_threshold t (cs_load_ratio s) (cs_station_load_ratio s) \<longleftrightarrow> \<not> below t s"
  by (auto simp: at_threshold_def below_def split: option.splits)

lemma can_carry_guards:
  "can_carry s vs w ct \<longleftrightarrow> vs \<notin> down_statuses \<and> cs_driver_available s \<and> cs_vehicle_available s \<and>
     \<not> lacks_payload s w \<and> \<not> lacks_capability s ct"
  by (cases w; cases "cs_remaining_load_kg s"; cases "cs_cargo_capability s")
     (auto simp: can_carry_def lacks_payload_def lacks_capability_def)

lemma capacity_result_of_sel [simp]:
  "cr_capacity_status (capacity_result_of s st rl r) = st"
  "cr_risk_level (capacity_result_of s st rl r) = rl"
  "cr_reason (capacity_result_of s st rl r) = r"
  "cr_vehicle_available (capacity_result_of s st rl r) = cs_vehicle_available s"
  "cr_driver_available (capacity_result_of s st rl r) = cs_driver_available s"
  by (simp_all add: capacity_result_of_def)

lemma rate_capacity_status:
  "cr_capacity_status (rate_capacity lt ut s vs w ct) =
     (if can_carry s vs w ct \<and> below ut s
      then if below lt s then ''AVAILABLE'' else ''LIMITED'' else ''UNAVAILABLE'')"
  by (simp add: rate_capacity_def is_unavailable_def is_limited_def at_threshold_below can_carry_guards)

lemma rate_capacity_risk:
  "cr_risk_level (rate_capacity lt ut s vs w ct) =
     (if cr_capacity_status (rate_capacity lt ut s vs w ct) = ''AVAILABLE'' then ''low''
      else if cr_capacity_status (rate_capacity lt ut s vs w ct) = ''LIMITED'' then ''medium'' else ''high'')"
  by (simp add: rate_capacity_def)

lemma fleet_snapshot_fit:
  assumes "fleet_get_capacity fleet driver_id vehicle_id route_id order_id = Inr s"
  shows "can_carry s vs w ct \<longleftrightarrow> (\<exists>vid v d. vehicle_id = Some vid \<and> fleet vid = Some v \<and> vs \<notin> down_statuses \<and>
     fv_driver v = Some d \<and> fd_driver_id d = driver_id \<and> fd_status d = ''ON_DUTY'' \<and>
     fv_status v \<in> {''AVAILABLE'', ''IN_TRANSIT''} \<and> (\<forall>kg. w = Some kg \<longrightarrow> kg \<le> remaining_load_kg v) \<and>
     (ct = Some ''COLD_CHAIN'' \<longrightarrow> fv_cargo_capability v = ''COLD_CHAIN''))"
proof (cases "Option.bind vehicle_id fleet")
  case None
  then have "s = no_capacity ''sqlalchemy_fleet''"
    using assms by (cases vehicle_id) (auto simp: fleet_get_capacity_def)
  then show ?thesis using None by (cases vehicle_id) (auto simp: can_carry_def no_capacity_def)
next
  case (Some v)
  then obtain vid where "vehicle_id = Some vid" "fleet vid = Some v" by (cases vehicle_id) auto
  then show ?thesis using assms
    by (cases "fv_driver v") (auto simp: fleet_get_capacity_def can_carry_def)
qed

lemma fleet_snapshot_below:
  assumes "fleet_get_capacity fleet driver_id vehicle_id route_id order_id = Inr s"
    and "can_carry s vs w ct"
  shows "below t s \<longleftrightarrow> (\<exists>vid v. vehicle_id = Some vid \<and> fleet vid = Some v \<and> to_float (current_load_ratio v) < t)"
proof -
  obtain vid v where "vehicle_id = Some vid" "fleet vid = Some v"
    using assms(2) unfolding fleet_snapshot_fit [OF assms(1)] by blast
  then show ?thesis using assms(1) by (auto simp: fleet_get_capacity_def below_def)
qed

section \<open>Properties of the rating\<close>

text \<open>
  Over the fleet repository the capacity service never raises, and its
  rating is exact: a vehicle is rated \<open>AVAILABLE\<close> exactly when it is known, not reported down, driven
  by its own on-duty driver, able to take the cargo and loaded below both thresholds; \<open>LIMITED\<close> exactly when
  it is so but for reaching the lower threshold; \<open>UNAVAILABLE\<close> in every other case, and the risk level follows the
  rating.
\<close>

theorem capacity_rating_exact:
  "\<exists>res. capacity_evaluate lt ut (fleet_get_capacity fleet) driver_id vehicle_id route_id order_id
      vs w ct = Inr res \<and>
    (let fit = (\<exists>vid v d. vehicle_id = Some vid \<and> fleet vid = Some v \<and> vs \<notin> down_statuses \<and>
         fv_driver v = Some d \<and> fd_driver_id d = driver_id \<and> fd_status d = ''ON_DUTY'' \<and>
         fv_status v \<in> {''AVAILABLE'', ''IN_TRANSIT''} \<and> (\<forall>kg. w = Some kg \<longrightarrow> kg \<le> remaining_load_kg v) \<and>
         (ct = Some ''COLD_CHAIN'' \<longrightarrow> fv_cargo_capability v = ''COLD_CHAIN''));
       load_below = (\<lambda>t. \<exists>vid v. vehicle_id = Some vid \<and> fleet vid = Some v \<and>
         to_float (current_load_ratio v) < t)
     in (cr_capacity_status res, cr_risk_level res) =
        (if \<not> fit \<or> \<not> load_below ut then (''UNAVAILABLE'', ''high'')
         else if load_below lt then (''AVAILABLE'', ''low'') else (''LIMITED'', ''medium'')))"
proof -
  obtain s where s: "fleet_get_capacity fleet driver_id vehicle_id route_id order_id = Inr s"
    by (cases "fleet_get_capacity fleet driver_id vehicle_id route_id order_id")
       (auto simp: fleet_get_capacity_def split: option.splits)
  then have res: "capacity_evaluate lt ut (fleet_get_capacity fleet) driver_id vehicle_id route_id order_id
      vs w ct = Inr (rate_capacity lt ut s vs w ct)"
    by (simp add: capacity_evaluate_def)
  have "(cr_capacity_status (rate_capacity lt ut s vs w ct), cr_risk_level (rate_capacity lt ut s vs w ct)) =
      (if can_carry s vs w ct \<and> below ut s
       then if below lt s then (''AVAILABLE'', ''low'') else (''LIMITED'', ''medium'') else (''UNAVAILABLE'', ''high''))"
    by (simp add: rate_capacity_risk rate_capacity_status)
  then show ?thesis unfolding Let_def fleet_snapshot_fit [OF s, symmetric]
    using res fleet_snapshot_below [OF s, of vs w ct] by auto
qed

definition sample_garage :: "string \<Rightarrow> fleet_vehicle option" where
  "sample_garage vid = first_match (\<lambda>v. fv_vehicle_id v = vid) (sample_fleet vid)"

theorem capacity_rating_exact_witness:
  "\<exists>res. capacity_evaluate (4 / 5) 1 (fleet_get_capacity sample_garage) ''V2'' (Some ''V2'') ''R1'' 7
     ''NORMAL'' (Some 500) (Some ''GENERAL'') = Inr res \<and> cr_capacity_status res = ''AVAILABLE''"
proof -
  have v: "sample_garage ''V2'' = Some (sample_vehicle ''V2'' ''AVAILABLE'' ''A'')"
    and fits: "(500 :: rat) \<le> remaining_load_kg (sample_vehicle ''V2'' ''AVAILABLE'' ''A'')"
    and light: "to_float (current_load_ratio (sample_vehicle ''V2'' ''AVAILABLE'' ''A'')) < 4 / 5"
    by code_simp+
  from light have "to_float (current_load_ratio (sample_vehicle ''V2'' ''AVAILABLE'' ''A'')) < 1" by simp
  then show ?thesis
    using capacity_rating_exact [of "4 / 5" 1 sample_garage "''V2''" "Some ''V2''" "''R1''" 7 "''NORMAL''"
        "Some 500" "Some ''GENERAL''"] v fits light
    by (auto simp: sample_vehicle_def sample_driver_def down_statuses_def)
qed

end
