(* ===== verification/Decimal_Text.thy ===== *)
theory Decimal_Text
  imports Decimal_Arith
begin

text \<open>
  Decimal numbers as text: \<open>str(n)\<close> of an integer, \<open>format(d, "f")\<close> of a decimal with a fixed number
  of fractional digits (the scale of its database column), and the constructor \<open>Decimal(s)\<close> with
  its full grammar over ASCII (surrounding white space, underscores, sign, fraction, exponent,
  infinities and NaNs). The main lemma is that the constructor reads back what \<open>format\<close> prints.
\<close>

section \<open>Printing\<close>

definition digit_char :: "nat \<Rightarrow> char" where
  "digit_char d = char_of (48 + d)"

fun show_nat :: "nat \<Rightarrow> string" where
  "show_nat n = (if n < 10 then [digit_char n] else show_nat (n div 10) @ [digit_char (n mod 10)])"

declare show_nat.simps [simp del]

definition show_int :: "int \<Rightarrow> string" where
  "show_int i = (if i < 0 then CHR ''-'' # show_nat (nat (- i)) else show_nat (nat i))"

definition zero_pad :: "nat \<Rightarrow> string \<Rightarrow> string" where
  "zero_pad k s = replicate (k - length s) (digit_char 0) @ s"

text \<open>\<open>format(x, "f")\<close> for a decimal stored with \<open>k\<close> fractional digits.\<close>

definition format_f :: "nat \<Rightarrow> rat \<Rightarrow> string" where
  "format_f k x =
     (let m = nat \<lfloor>\<bar>x\<bar> * 10 ^ k\<rfloor>
      in (if x < 0 then ''-'' else []) @ show_nat (m div 10 ^ k) @
         (if k = 0 then [] else CHR ''.'' # zero_pad k (show_nat (m mod 10 ^ k))))"

section \<open>Reading\<close>

datatype pydec = Finite rat | Infinite bool | NaN

definition is_digit :: "char \<Rightarrow> bool" where
  "is_digit c \<longleftrightarrow> 48 \<le> (of_char c :: nat) \<and> (of_char c :: nat) \<le> 57"

definition is_space :: "char \<Rightarrow> bool" where
  "is_space c \<longleftrightarrow> (let n = (of_char c :: nat) in n = 32 \<or> 9 \<le> n \<and> n \<le> 13 \<or> 28 \<le> n \<and> n \<le> 31)"

definition strip :: "string \<Rightarrow> string" where
  "strip s = rev (dropWhile is_space (rev (dropWhile is_space s)))"

definition lower_char :: "char \<Rightarrow> char" where
  "lower_char c = (let n = (of_char c :: nat) in if 65 \<le> n \<and> n \<le> 90 then char_of (n + 32) else c)"

definition digits_value :: "string \<Rightarrow> nat" where
  "digits_value s = foldl (\<lambda>acc c. acc * 10 + (of_char c - 48)) 0 s"

fun take_sign :: "string \<Rightarrow> bool \<times> string" where
  "take_sign (c # s) = (if c = CHR ''-'' then (True, s) else if c = CHR ''+'' then (False, s) else (False, c # s))"
| "take_sign [] = (False, [])"

text \<open>The exponent part: nothing, or the letter e, an optional sign and digits.\<close>

fun read_exponent :: "string \<Rightarrow> int option" where
  "read_exponent [] = Some 0"
| "read_exponent (c # s) =
     (let (neg, ds) = take_sign s
      in if c = CHR ''e'' \<and> ds \<noteq> [] \<and> list_all is_digit ds
         then Some (if neg then - int (digits_value ds) else int (digits_value ds)) else None)"

definition read_number :: "string \<Rightarrow> rat option" where
  "read_number s =
     (let ip = takeWhile is_digit s; r1 = dropWhile is_digit s;
          (fp, r2) = (case r1 of [] \<Rightarrow> ([], [])
             | c # r \<Rightarrow> if c = CHR ''.'' then (takeWhile is_digit r, dropWhile is_digit r) else ([], r1))
      in if ip = [] \<and> fp = [] then None
         else map_option (\<lambda>e. of_nat (digits_value (ip @ fp)) * bpow 10 (e - int (length fp)))
                (read_exponent r2))"

definition decimal_of_string :: "string \<Rightarrow> pydec option" where
  "decimal_of_string s0 =
     (let (neg, s) = take_sign (map lower_char (filter (\<lambda>c. c \<noteq> CHR ''_'') (strip s0)))
      in if s = ''inf'' \<or> s = ''infinity'' then Some (Infinite neg)
         else if take 3 s = ''nan'' \<and> list_all is_digit (drop 3 s) then Some NaN
         else if take 4 s = ''snan'' \<and> list_all is_digit (drop 4 s) then Some NaN
         else map_option (\<lambda>v. Finite (if neg then - v else v)) (read_number s))"

section \<open>Digits\<close>

lemma of_char_digit [simp]: "d < 10 \<Longrightarrow> of_char (digit_char d) = 48 + d"
  by (simp add: digit_char_def)

lemma is_digit_digit [simp]: "d < 10 \<Longrightarrow> is_digit (digit_char d)"
  by (simp add: is_digit_def)

lemma show_nat_digits: "list_all is_digit (show_nat n)"
proof (induction n rule: show_nat.induct)
  case (1 n)
  then show ?case by (simp add: show_nat.simps [of n])
qed

lemma show_nat_not_Nil [simp]: "show_nat n \<noteq> []"
  by (simp add: show_nat.simps [of n])

lemma digits_value_snoc: "digits_value (s @ [c]) = digits_value s * 10 + (of_char c - 48)"
  by (simp add: digits_value_def)

lemma digits_value_Nil [simp]: "digits_value [] = 0"
  by (simp add: digits_value_def)

lemma digits_value_append: "digits_value (s @ t) = digits_value s * 10 ^ length t + digits_value t"
proof (induction t rule: rev_induct)
  case (snoc c t)
  have "digits_value (s @ t @ [c]) = digits_value (s @ t) * 10 + (of_char c - 48)"
    using digits_value_snoc [of "s @ t" c] by simp
  then show ?case using snoc by (simp add: digits_value_snoc algebra_simps)
qed simp

lemma digits_value_show_nat [simp]: "digits_value (show_nat n) = n"
proof (induction n rule: show_nat.induct)
  case (1 n)
  show ?case
  proof (cases "n < 10")
    case True
    then show ?thesis using digits_value_snoc [of "[]" "digit_char n"] by (simp add: show_nat.simps [of n])
  next
    case False
    then show ?thesis using 1 by (simp add: show_nat.simps [of n] digits_value_snoc)
  qed
qed

lemma length_show_nat: "n < 10 ^ Suc k \<Longrightarrow> length (show_nat n) \<le> Suc k"
proof (induction k arbitrary: n)
  case 0
  then show ?case by (simp add: show_nat.simps [of n])
next
  case (Suc k)
  then have "n div 10 < 10 ^ Suc k" by (auto simp: div_less_iff_less_mult)
  with Suc.IH [of "n div 10"] show ?case by (simp add: show_nat.simps [of n])
qed

lemma digits_value_zeros [simp]: "digits_value (replicate k (digit_char 0)) = 0"
  by (induction k) (simp_all add: replicate_append_same [symmetric] digits_value_snoc)

lemma zero_pad_digits: "list_all is_digit s \<Longrightarrow> list_all is_digit (zero_pad k s)"
  by (auto simp: zero_pad_def list_all_iff)

lemma zero_pad_value [simp]: "digits_value (zero_pad k s) = digits_value s"
  by (simp add: zero_pad_def digits_value_append)

lemma zero_pad_length: "length s \<le> k \<Longrightarrow> length (zero_pad k s) = k"
  by (simp add: zero_pad_def)

section \<open>Reading back a printed decimal\<close>

definition plain :: "char \<Rightarrow> bool" where
  "plain c \<longleftrightarrow> is_digit c \<or> c = CHR ''-'' \<or> c = CHR ''.''"

lemma plain_facts:
  assumes "plain c"
  shows "\<not> is_space c" "c \<noteq> CHR ''_''" "lower_char c = c"
  using assms by (auto simp: plain_def is_digit_def is_space_def lower_char_def Let_def)

lemma normalise_plain:
  assumes "list_all plain s"
  shows "map lower_char (filter (\<lambda>c. c \<noteq> CHR ''_'') (strip s)) = s"
proof -
  have "dropWhile is_space t = t" if "list_all plain t" for t
    using that plain_facts(1) by (cases t) auto
  then have "strip s = s" using assms by (simp add: strip_def list_all_rev)
  moreover have "filter (\<lambda>c. c \<noteq> CHR ''_'') s = s"
    using assms plain_facts(2) by (auto simp: list_all_iff filter_id_conv)
  moreover have "map lower_char s = s"
    using assms plain_facts(3) by (auto simp: list_all_iff intro: map_idI)
  ultimately show ?thesis by simp
qed

lemma digits_plain: "list_all is_digit s \<Longrightarrow> list_all plain s"
  by (auto simp: list_all_iff plain_def)

lemma not_digit_dot [simp]: "\<not> is_digit CHR ''.''" "\<not> is_digit CHR ''-''" "\<not> is_digit CHR ''i''"
    "\<not> is_digit CHR ''n''" "\<not> is_digit CHR ''s''" "\<not> is_digit CHR ''+''"
  by (simp_all add: is_digit_def)

lemma read_number_fraction:
  assumes "list_all is_digit ip" "list_all is_digit fp" "ip \<noteq> []"
  shows "read_number (ip @ CHR ''.'' # fp) =
    Some (of_nat (digits_value ip * 10 ^ length fp + digits_value fp) / 10 ^ length fp)"
proof -
  have t: "takeWhile is_digit (ip @ CHR ''.'' # fp) = ip" "dropWhile is_digit (ip @ CHR ''.'' # fp) = CHR ''.'' # fp"
    using assms(1) by (simp_all add: takeWhile_append dropWhile_append list_all_iff)
  have f: "takeWhile is_digit fp = fp" "dropWhile is_digit fp = []"
    using assms(2) by (simp_all add: list_all_iff)
  have "bpow 10 (- int (length fp)) = 1 / 10 ^ length fp" by (simp add: bpow_def)
  then show ?thesis
    using assms(3) by (simp add: read_number_def t f digits_value_append)
qed

lemma decimal_of_digits:
  assumes "list_all is_digit ip" "list_all is_digit fp" "ip \<noteq> []"
  shows "decimal_of_string ((if neg then ''-'' else []) @ ip @ CHR ''.'' # fp) =
    Some (Finite ((if neg then - 1 else 1) *
      (of_nat (digits_value ip * 10 ^ length fp + digits_value fp) / 10 ^ length fp)))"
proof -
  let ?b = "ip @ CHR ''.'' # fp"
  have norm: "list_all plain ((if neg then ''-'' else []) @ ?b)"
    using digits_plain [OF assms(1)] digits_plain [OF assms(2)] by (auto simp: plain_def)
  obtain c r where ip: "ip = c # r" "is_digit c" using assms(1,3) by (cases ip) auto
  have sign: "take_sign ((if neg then ''-'' else []) @ ?b) = (neg, ?b)"
    using ip by auto
  have special: "?b \<noteq> ''inf''" "?b \<noteq> ''infinity''" "take 3 ?b \<noteq> ''nan''" "take 4 ?b \<noteq> ''snan''"
    using ip by auto
  show ?thesis
    unfolding decimal_of_string_def normalise_plain [OF norm] sign
    using special by (simp add: read_number_fraction [OF assms] add_divide_distrib diff_divide_distrib)
qed

lemma decimal_of_format_f:
  assumes "0 < k" and m: "x * 10 ^ k = of_int m"
  shows "decimal_of_string (format_f k x) = Some (Finite x)"
proof -
  define n where "n = nat \<bar>m\<bar>"
  have abs: "\<bar>x\<bar> * 10 ^ k = of_int \<bar>m\<bar>" using m by (metis abs_mult abs_of_pos of_int_abs zero_less_numeral zero_less_power)
  then have nn: "nat \<lfloor>\<bar>x\<bar> * 10 ^ k\<rfloor> = n" by (simp only: n_def floor_of_int)
  have len: "length (show_nat (n mod 10 ^ k)) \<le> k"
    using length_show_nat [of "n mod 10 ^ k" "k - 1"] assms(1) by simp
  have "of_nat n = \<bar>x\<bar> * 10 ^ k" using abs by (simp add: n_def)
  then have val: "of_nat n / 10 ^ k = \<bar>x\<bar>" by simp
  have "format_f k x = (if x < 0 then ''-'' else []) @ show_nat (n div 10 ^ k) @
      CHR ''.'' # zero_pad k (show_nat (n mod 10 ^ k))"
    using assms(1) by (simp add: format_f_def nn Let_def)
  then show ?thesis
    using decimal_of_digits [OF show_nat_digits zero_pad_digits [OF show_nat_digits] show_nat_not_Nil,
        of "x < 0" "n div 10 ^ k" k "n mod 10 ^ k"] val
    by (simp add: zero_pad_length [OF len] div_mult_mod_eq)
qed

end
