(* ===== verification/Py_Value.thy ===== *)
theory Py_Value
  imports Road_Network Decimal_Text
begin

text \<open>
  The dynamically typed values the agents exchange: the graph state, the evidence mappings and the
  JSON columns hold \<open>None\<close>, booleans, integers, floats, strings, lists and string-keyed
  dictionaries. The theory models what the sources do with such a value: \<open>dict.get\<close> and item
  assignment on insertion-ordered dictionaries, the type tests that the services wrap in small
  helpers, \<open>str\<close> and \<open>repr\<close>, and \<open>json.dumps\<close> with sorted keys. A float is a rational number that
  is representable with 53 bits; infinities and not-a-number floats do not occur in JSON state.
  Text is the UTF-8 encoding of the source's text, one \<open>char\<close> per byte.
\<close>

datatype pyval =
    PNone
  | PBool bool
  | PInt int
  | PFloat rat
  | PStr string
  | PList "pyval list"
  | PDict "(string \<times> pyval) list"

type_synonym pydict = "(string \<times> pyval) list"

definition utf8 :: "int list \<Rightarrow> string" where
  "utf8 bytes = map char_of bytes"

section \<open>Dictionaries\<close>

text \<open>\<open>d.get(k)\<close>.\<close>

definition dget :: "pydict \<Rightarrow> string \<Rightarrow> pyval" where
  "dget d k = (case map_of d k of None \<Rightarrow> PNone | Some v \<Rightarrow> v)"

definition dhas :: "pydict \<Rightarrow> string \<Rightarrow> bool" where
  "dhas d k \<longleftrightarrow> map_of d k \<noteq> None"

text \<open>\<open>d[k] = v\<close> keeps the position of a key that is present and appends one that is not.\<close>

fun dset :: "string \<Rightarrow> pyval \<Rightarrow> pydict \<Rightarrow> pydict" where
  "dset k v [] = [(k, v)]"
| "dset k v ((k', v') # d) = (if k = k' then (k, v) # d else (k', v') # dset k v d)"

definition dupdate :: "pydict \<Rightarrow> pydict \<Rightarrow> pydict" where
  "dupdate d e = foldl (\<lambda>d (k, v). dset k v d) d e"

lemma map_of_dset [simp]: "map_of (dset k v d) = (map_of d)(k \<mapsto> v)"
  by (induction k v d rule: dset.induct) auto

lemma dget_dset [simp]: "dget (dset k v d) k' = (if k' = k then v else dget d k')"
  by (simp add: dget_def)

lemma dhas_dset [simp]: "dhas (dset k v d) k' \<longleftrightarrow> k' = k \<or> dhas d k'"
  by (simp add: dhas_def)

lemma dget_Nil [simp]: "dget [] k = PNone"
  by (simp add: dget_def)

lemma dget_Cons [simp]: "dget ((k, v) # d) k' = (if k = k' then v else dget d k')"
  by (simp add: dget_def)

lemma dhas_Nil [simp]: "\<not> dhas [] k"
  by (simp add: dhas_def)

lemma dhas_Cons [simp]: "dhas ((k, v) # d) k' \<longleftrightarrow> k = k' \<or> dhas d k'"
  by (simp add: dhas_def)

lemma dget_absent: "\<not> dhas d k \<Longrightarrow> dget d k = PNone"
  by (simp add: dget_def dhas_def)

section \<open>Type tests\<close>

text \<open>\<open>value if isinstance(value, Mapping) else {}\<close>.\<close>

definition mapping_of :: "pyval \<Rightarrow> pydict" where
  "mapping_of v = (case v of PDict d \<Rightarrow> d | _ \<Rightarrow> [])"

definition is_mapping :: "pyval \<Rightarrow> bool" where
  "is_mapping v = (case v of PDict _ \<Rightarrow> True | _ \<Rightarrow> False)"

text \<open>\<open>value if isinstance(value, str) and value else None\<close>.\<close>

definition text_of :: "pyval \<Rightarrow> string option" where
  "text_of v = (case v of PStr s \<Rightarrow> if s = [] then None else Some s | _ \<Rightarrow> None)"

text \<open>\<open>value if isinstance(value, int) and not isinstance(value, bool) else None\<close>.\<close>

definition integer_of :: "pyval \<Rightarrow> int option" where
  "integer_of v = (case v of PInt i \<Rightarrow> Some i | _ \<Rightarrow> None)"

text \<open>The elements of a sequence that is not a string.\<close>

definition sequence_of :: "pyval \<Rightarrow> pyval list option" where
  "sequence_of v = (case v of PList vs \<Rightarrow> Some vs | _ \<Rightarrow> None)"

definition mappings_of :: "pyval list \<Rightarrow> pydict list" where
  "mappings_of vs = concat (map (\<lambda>v. case v of PDict d \<Rightarrow> [d] | _ \<Rightarrow> []) vs)"

text \<open>The strings of a list, and nothing of any other value.\<close>

definition string_list :: "pyval \<Rightarrow> string list" where
  "string_list v =
     (case v of PList vs \<Rightarrow> concat (map (\<lambda>x. case x of PStr s \<Rightarrow> [s] | _ \<Rightarrow> []) vs) | _ \<Rightarrow> [])"

definition opt_str :: "string option \<Rightarrow> pyval" where
  "opt_str s = (case s of None \<Rightarrow> PNone | Some t \<Rightarrow> PStr t)"

definition opt_int :: "int option \<Rightarrow> pyval" where
  "opt_int i = (case i of None \<Rightarrow> PNone | Some j \<Rightarrow> PInt j)"

definition str_list :: "string list \<Rightarrow> pyval" where
  "str_list ss = PList (map PStr ss)"

lemma mapping_of_simps [simp]: "mapping_of (PDict d) = d" "mapping_of PNone = []"
  by (simp_all add: mapping_of_def)

lemma text_of_simps [simp]: "text_of PNone = None" "text_of (PStr s) = (if s = [] then None else Some s)"
  by (simp_all add: text_of_def)

lemma text_of_opt_str: "text_of (opt_str s) = (case s of None \<Rightarrow> None | Some t \<Rightarrow> if t = [] then None else Some t)"
  by (simp add: opt_str_def split: option.splits)

lemma text_of_Some: "text_of v = Some s \<longleftrightarrow> v = PStr s \<and> s \<noteq> []"
  by (auto simp: text_of_def split: pyval.splits)

lemma concat_map_singleton: "concat (map ((\<lambda>x. case x of PStr s \<Rightarrow> [s] | _ \<Rightarrow> []) \<circ> PStr) ss) = ss"
  by (induction ss) auto

lemma string_list_str_list [simp]: "string_list (str_list ss) = ss"
  by (simp add: string_list_def str_list_def concat_map_singleton)

lemma string_list_None [simp]: "string_list PNone = []"
  by (simp add: string_list_def)

lemma mappings_of_PDict: "mappings_of (map PDict ds) = ds"
  by (induction ds) (auto simp: mappings_of_def)

section \<open>Text of values\<close>

fun join :: "string \<Rightarrow> string list \<Rightarrow> string" where
  "join sep [] = []"
| "join sep [s] = s"
| "join sep (s # t # ts) = s @ sep @ join sep (t # ts)"

text \<open>
  \<open>repr\<close> of a float: the shortest decimal that reads back as the same float, in positional notation
  for exponents from -4 to 15 and in scientific notation otherwise.
\<close>

definition float_digits :: "rat \<Rightarrow> nat" where
  "float_digits x =
     (case filter (\<lambda>n. to_float (round_sig 10 n x) = x) [1..<17] of [] \<Rightarrow> 17 | n # _ \<Rightarrow> n)"

definition repr_float :: "rat \<Rightarrow> string" where
  "repr_float x =
     (if x = 0 then ''0.0''
      else let n = float_digits x; v = round_sig 10 n x; e = adj_exp 10 v
           in if - 4 \<le> e \<and> e < 16 then format_f (nat (max 1 (int n - 1 - e))) v
              else format_f (n - 1) (v / bpow 10 e) @ (if e < 0 then ''e-'' else ''e+'') @
                   zero_pad 2 (show_nat (nat \<bar>e\<bar>)))"

definition hex2 :: "nat \<Rightarrow> string" where
  "hex2 n = [hex_digit (n div 16), hex_digit (n mod 16)]"

definition repr_char :: "char \<Rightarrow> char \<Rightarrow> string" where
  "repr_char quote c =
     (let n = of_char c :: nat
      in if c = quote \<or> n = 92 then [char_of (92 :: nat), c]
         else if n = 10 then char_of (92 :: nat) # ''n''
         else if n = 13 then char_of (92 :: nat) # ''r''
         else if n = 9 then char_of (92 :: nat) # ''t''
         else if n < 32 \<or> n = 127 then char_of (92 :: nat) # ''x'' @ hex2 n
         else [c])"

definition repr_str :: "string \<Rightarrow> string" where
  "repr_str s =
     (let single = char_of (39 :: nat); double = char_of (34 :: nat);
          q = (if single \<in> set s \<and> double \<notin> set s then double else single)
      in q # concat (map (repr_char q) s) @ [q])"

function py_repr :: "pyval \<Rightarrow> string" where
  "py_repr PNone = ''None''"
| "py_repr (PBool b) = (if b then ''True'' else ''False'')"
| "py_repr (PInt i) = show_int i"
| "py_repr (PFloat x) = repr_float x"
| "py_repr (PStr s) = repr_str s"
| "py_repr (PList vs) = ''['' @ join '', '' (map py_repr vs) @ '']''"
| "py_repr (PDict d) = ''{'' @ join '', '' (map (\<lambda>(k, v). repr_str k @ '': '' @ py_repr v) d) @ ''}''"
  by pat_completeness auto
termination
  by (relation "measure size") (auto simp: less_Suc_eq_le size_list_estimation' size_prod_simp
      intro: size_list_estimation')

definition py_str :: "pyval \<Rightarrow> string" where
  "py_str v = (case v of PStr s \<Rightarrow> s | _ \<Rightarrow> py_repr v)"

section \<open>JSON\<close>

definition json_char :: "char \<Rightarrow> string" where
  "json_char c =
     (let n = of_char c :: nat; esc = char_of (92 :: nat)
      in if n = 34 \<or> n = 92 then [esc, c]
         else if n = 10 then esc # ''n''
         else if n = 13 then esc # ''r''
         else if n = 9 then esc # ''t''
         else if n = 12 then esc # ''f''
         else if n = 8 then esc # ''b''
         else if n < 32 then esc # ''u00'' @ hex2 n
         else [c])"

definition json_string :: "string \<Rightarrow> string" where
  "json_string s = char_of (34 :: nat) # concat (map json_char s) @ [char_of (34 :: nat)]"

text \<open>\<open>json.dumps(v, ensure_ascii=False, sort_keys=True)\<close>.\<close>

function json_dumps :: "pyval \<Rightarrow> string" where
  "json_dumps PNone = ''null''"
| "json_dumps (PBool b) = (if b then ''true'' else ''false'')"
| "json_dumps (PInt i) = show_int i"
| "json_dumps (PFloat x) = repr_float x"
| "json_dumps (PStr s) = json_string s"
| "json_dumps (PList vs) = ''['' @ join '', '' (map json_dumps vs) @ '']''"
| "json_dumps (PDict d) =
     ''{'' @ join '', '' (map (\<lambda>(k, v). json_string k @ '': '' @ json_dumps v) (sort_key fst d)) @ ''}''"
  by pat_completeness auto
termination
  by (relation "measure size") (auto simp: less_Suc_eq_le size_list_estimation' size_prod_simp
      intro: size_list_estimation')

end
