(* ===== verification/Py_Text.thy ===== *)
theory Py_Text
  imports Py_Value
begin

text \<open>
  Text processing of the sources on UTF-8 text: substring tests, \<open>strip\<close>, \<open>split\<close> and \<open>upper\<close>. White space is that of
  \<open>str.isspace\<close>: the ASCII control and separator characters and the encoded Unicode spaces.
  \<open>upper\<close> is modelled on the ASCII letters, which is what the compared identifiers consist of.
\<close>

section \<open>Substrings\<close>

text \<open>\<open>name in reference\<close> on strings.\<close>

fun is_prefix :: "'a list \<Rightarrow> 'a list \<Rightarrow> bool" where
  "is_prefix [] ys \<longleftrightarrow> True"
| "is_prefix (x # xs) [] \<longleftrightarrow> False"
| "is_prefix (x # xs) (y # ys) \<longleftrightarrow> x = y \<and> is_prefix xs ys"

fun is_infix :: "'a list \<Rightarrow> 'a list \<Rightarrow> bool" where
  "is_infix xs [] \<longleftrightarrow> xs = []"
| "is_infix xs (y # ys) \<longleftrightarrow> is_prefix xs (y # ys) \<or> is_infix xs ys"

text \<open>\<open>any(keyword in value for keyword in keywords)\<close>.\<close>

definition contains_any :: "string \<Rightarrow> string list \<Rightarrow> bool" where
  "contains_any s keywords \<longleftrightarrow> list_ex (\<lambda>k. is_infix k s) keywords"

section \<open>White space\<close>

definition white_spaces :: "string list" where
  "white_spaces =
     map utf8 ([[9], [10], [11], [12], [13], [28], [29], [30], [31], [32], [0xC2, 0x85], [0xC2, 0xA0], [0xE1, 0x9A, 0x80],
       [0xE2, 0x80, 0x80], [0xE2, 0x80, 0x81], [0xE2, 0x80, 0x82], [0xE2, 0x80, 0x83], [0xE2, 0x80, 0x84],
       [0xE2, 0x80, 0x85], [0xE2, 0x80, 0x86], [0xE2, 0x80, 0x87], [0xE2, 0x80, 0x88], [0xE2, 0x80, 0x89],
       [0xE2, 0x80, 0x8A], [0xE2, 0x80, 0xA8], [0xE2, 0x80, 0xA9], [0xE2, 0x80, 0xAF], [0xE2, 0x81, 0x9F],
       [0xE3, 0x80, 0x80]])"

text \<open>The length of the white space character a text starts with, 0 if it starts with another.\<close>

definition space_len :: "string list \<Rightarrow> string \<Rightarrow> nat" where
  "space_len spaces s = (case first_match (\<lambda>w. is_prefix w s) spaces of None \<Rightarrow> 0 | Some w \<Rightarrow> length w)"

text \<open>The fuel is the length of the text: every round removes a character.\<close>

fun drop_spaces :: "nat \<Rightarrow> string list \<Rightarrow> string \<Rightarrow> string" where
  "drop_spaces 0 spaces s = s"
| "drop_spaces (Suc n) spaces s =
     (let k = space_len spaces s in if k = 0 then s else drop_spaces n spaces (drop k s))"

definition py_strip :: "string \<Rightarrow> string" where
  "py_strip s =
     (let l = drop_spaces (length s) white_spaces s
      in rev (drop_spaces (length l) (map rev white_spaces) (rev l)))"

text \<open>\<open>s.split()\<close>: the words between runs of white space, with the current word reversed in the accumulator.\<close>

fun split_words :: "nat \<Rightarrow> string \<Rightarrow> string \<Rightarrow> string list" where
  "split_words 0 acc s = (if acc = [] then [] else [rev acc])"
| "split_words (Suc n) acc [] = (if acc = [] then [] else [rev acc])"
| "split_words (Suc n) acc (c # s) =
     (let k = space_len white_spaces (c # s)
      in if k = 0 then split_words n (c # acc) s
         else (if acc = [] then [] else [rev acc]) @ split_words n [] (drop k (c # s)))"

definition py_split :: "string \<Rightarrow> string list" where
  "py_split s = split_words (length s) [] s"

definition py_upper :: "string \<Rightarrow> string" where
  "py_upper s = map (\<lambda>c. let n = (of_char c :: nat) in if 97 \<le> n \<and> n \<le> 122 then char_of (n - 32) else c) s"

section \<open>Truth values\<close>

definition truthy :: "pyval \<Rightarrow> bool" where
  "truthy v =
     (case v of PNone \<Rightarrow> False | PBool b \<Rightarrow> b | PInt i \<Rightarrow> i \<noteq> 0 | PFloat x \<Rightarrow> x \<noteq> 0 | PStr s \<Rightarrow> s \<noteq> []
      | PList vs \<Rightarrow> vs \<noteq> [] | PDict d \<Rightarrow> d \<noteq> [])"

text \<open>\<open>a or b\<close> on values, and \<open>d.get(k, default)\<close>.\<close>

definition val_or :: "pyval \<Rightarrow> pyval \<Rightarrow> pyval" where
  "val_or a b = (if truthy a then a else b)"

definition dget_default :: "pydict \<Rightarrow> string \<Rightarrow> pyval \<Rightarrow> pyval" where
  "dget_default d k dflt = (case map_of d k of None \<Rightarrow> dflt | Some v \<Rightarrow> v)"

lemma truthy_simps [simp]: "\<not> truthy PNone" "truthy (PStr s) \<longleftrightarrow> s \<noteq> []" "truthy (PBool b) \<longleftrightarrow> b"
  by (simp_all add: truthy_def)

lemma val_or_simps [simp]: "val_or PNone b = b" "s \<noteq> [] \<Longrightarrow> val_or (PStr s) b = PStr s"
  by (simp_all add: val_or_def)

end
