(* ===== verification/Sha256.thy ===== *)
theory Sha256
  imports "HOL-Library.Word" Prelude
begin

text \<open>
  \<open>hashlib.sha256(...).hexdigest()\<close> of the Python standard library, after FIPS 180-4, on byte strings.
  Route ids, memory ids and idempotency digests are built from it.
\<close>

unbundle bit_operations_syntax

type_synonym w32 = "32 word"

text \<open>
  The constants are the first 32 bits of the fractional parts of the cube roots of the first
  64 primes, and of the square roots of the first eight. \<open>root_bits k x b\<close> is the largest number below
  \<open>2 ^ b\<close> whose \<open>k\<close>-th power is at most \<open>x\<close>, found bit by bit from the top.
\<close>

fun root_bits :: "nat \<Rightarrow> int \<Rightarrow> nat \<Rightarrow> int \<Rightarrow> int" where
  "root_bits k x 0 acc = acc"
| "root_bits k x (Suc b) acc = root_bits k x b (if (acc + 2 ^ b) ^ k \<le> x then acc + 2 ^ b else acc)"

definition sha_primes :: "int list" where
  "sha_primes =
     [2, 3, 5, 7, 11, 13, 17, 19, 23, 29, 31, 37, 41, 43, 47, 53, 59, 61, 67, 71, 73, 79, 83, 89, 97, 101, 103, 107,
      109, 113, 127, 131, 137, 139, 149, 151, 157, 163, 167, 173, 179, 181, 191, 193, 197, 199, 211, 223, 227, 229,
      233, 239, 241, 251, 257, 263, 269, 271, 277, 281, 283, 293, 307, 311]"

definition sha_k :: "w32 list" where
  "sha_k = map (\<lambda>p. word_of_int (root_bits 3 (p * 2 ^ 96) 36 0)) sha_primes"

definition sha_h0 :: "w32 list" where
  "sha_h0 = map (\<lambda>p. word_of_int (root_bits 2 (p * 2 ^ 64) 36 0)) (take 8 sha_primes)"

definition sha_rotr :: "nat \<Rightarrow> w32 \<Rightarrow> w32" where
  "sha_rotr n x = drop_bit n x OR push_bit (32 - n) x"

definition big_sigma0 :: "w32 \<Rightarrow> w32" where
  "big_sigma0 x = sha_rotr 2 x XOR sha_rotr 13 x XOR sha_rotr 22 x"

definition big_sigma1 :: "w32 \<Rightarrow> w32" where
  "big_sigma1 x = sha_rotr 6 x XOR sha_rotr 11 x XOR sha_rotr 25 x"

definition small_sigma0 :: "w32 \<Rightarrow> w32" where
  "small_sigma0 x = sha_rotr 7 x XOR sha_rotr 18 x XOR drop_bit 3 x"

definition small_sigma1 :: "w32 \<Rightarrow> w32" where
  "small_sigma1 x = sha_rotr 17 x XOR sha_rotr 19 x XOR drop_bit 10 x"

text \<open>The padded message: the byte 128, zeros, and the bit length in eight bytes.\<close>

definition be_bytes :: "nat \<Rightarrow> int \<Rightarrow> int list" where
  "be_bytes k n = map (\<lambda>i. (n div 256 ^ i) mod 256) (rev [0..<k])"

definition sha_pad :: "int list \<Rightarrow> int list" where
  "sha_pad m =
     (let l = length m
      in m @ [128] @ replicate ((119 - l mod 64) mod 64) 0 @ be_bytes 8 (8 * int l))"

fun words_of_bytes :: "int list \<Rightarrow> w32 list" where
  "words_of_bytes (a # b # c # d # bs) =
     of_int (((a * 256 + b) * 256 + c) * 256 + d) # words_of_bytes bs"
| "words_of_bytes _ = []"

text \<open>The message schedule, kept with its newest word first.\<close>

fun schedule :: "nat \<Rightarrow> w32 list \<Rightarrow> w32 list" where
  "schedule 0 ws = ws"
| "schedule (Suc n) ws =
     schedule n ((small_sigma1 (ws ! 1) + ws ! 6 + small_sigma0 (ws ! 14) + ws ! 15) # ws)"

fun sha_round :: "w32 list \<Rightarrow> w32 \<times> w32 \<Rightarrow> w32 list" where
  "sha_round [a, b, c, d, e, f, g, h] (k, w) =
     (let t1 = h + big_sigma1 e + ((e AND f) XOR (NOT e AND g)) + k + w;
          t2 = big_sigma0 a + ((a AND b) XOR (a AND c) XOR (b AND c))
      in [t1 + t2, a, b, c, d + t1, e, f, g])"
| "sha_round s _ = s"

definition sha_compress :: "w32 list \<Rightarrow> w32 list \<Rightarrow> w32 list" where
  "sha_compress h block =
     map2 (+) h (foldl sha_round h (zip sha_k (rev (schedule 48 (rev block)))))"

fun sha_blocks :: "nat \<Rightarrow> w32 list \<Rightarrow> w32 list \<Rightarrow> w32 list" where
  "sha_blocks 0 h ws = h"
| "sha_blocks (Suc n) h ws = sha_blocks n (sha_compress h (take 16 ws)) (drop 16 ws)"

definition word_hex :: "w32 \<Rightarrow> string" where
  "word_hex w = map (\<lambda>i. hex_digit (nat (uint w div 16 ^ i mod 16))) (rev [0..<8])"

text \<open>The number of blocks is the padded length divided by 64.\<close>

definition sha256_hex :: "string \<Rightarrow> string" where
  "sha256_hex s =
     (let ws = words_of_bytes (sha_pad (map of_char s))
      in concat (map word_hex (sha_blocks (length ws div 16) sha_h0 ws)))"

lemma length_word_hex [simp]: "length (word_hex w) = 8"
  by (simp add: word_hex_def)

lemma length_sha_round: "length h = 8 \<Longrightarrow> length (sha_round h kw) = 8"
  by (cases "(h, kw)" rule: sha_round.cases) (auto simp: Let_def)

lemma length_sha_rounds: "length h = 8 \<Longrightarrow> length (foldl sha_round h kws) = 8"
  by (induction kws arbitrary: h) (auto simp: length_sha_round)

lemma length_sha_blocks: "length h = 8 \<Longrightarrow> length (sha_blocks n h ws) = 8"
  by (induction n arbitrary: h ws) (auto simp: sha_compress_def length_sha_rounds)

lemma length_concat_const: "(\<And>x. x \<in> set xs \<Longrightarrow> length (f x) = k) \<Longrightarrow> length (concat (map f xs)) = k * length xs"
  by (induction xs) auto

text \<open>A digest has 64 hexadecimal digits.\<close>

lemma length_sha256_hex [simp]: "length (sha256_hex s) = 64"
proof -
  have "length sha_h0 = 8" by (simp add: sha_h0_def sha_primes_def)
  then show ?thesis
    by (simp add: sha256_hex_def Let_def length_sha_blocks length_concat_const [where k = 8])
qed

end
