(* ===== verification/Routing.thy ===== *)
theory Routing
  imports Path_Finder Py_Text Sha256
begin

text \<open>
  The routing component of \<open>backend/app/routing\<close>: the records of \<open>models.py\<close>, the in-memory route
  catalogue of \<open>provider.py\<close> and the service of \<open>service.py\<close>, which recommends a route either from the
  catalogue (\<open>route\<close>) or by planning on the road network (\<open>plan\<close>).

  The division of decimals by zero, which raises in Python, is the error \<open>DecimalDivision\<close>.
\<close>

section \<open>Data: models.py\<close>

record route_score_components =
  rs_normalized_minutes :: rat
  rs_normalized_distance :: rat
  rs_normalized_risk :: rat
  rs_time_penalty :: rat
  rs_distance_penalty :: rat
  rs_risk_penalty :: rat

record route_candidate =
  rc_route_id :: string
  rc_route_name :: string
  rc_distance_km :: rat
  rc_estimated_minutes :: int
  rc_risk_level :: string
  rc_available :: bool
  rc_reason :: "string option"
  rc_score :: rat
  rc_node_ids :: "string list"
  rc_edge_ids :: "string list"
  rc_objective :: "string option"
  rc_algorithm_version :: "string option"
  rc_road_network_version :: "int option"
  rc_visited_node_count :: "nat option"
  rc_risk_cost :: "rat option"
  rc_scoring_formula :: "string option"
  rc_score_components :: "route_score_components option"

record sandtable_task_context =
  tc_order_id :: int
  tc_order_no :: string
  tc_cargo_weight_kg :: rat
  tc_cargo_type :: string
  tc_origin_node_id :: string
  tc_destination_node_id :: string
  tc_current_vehicle_id :: string
  tc_current_driver_id :: "string option"
  tc_incident_node_id :: "string option"
  tc_affected_edge_ids :: "string list"
  tc_road_network_version :: int
  tc_vehicle_weight_tons :: rat

record route_planning_context =
  pc_order_id :: int
  pc_order_no :: string
  pc_cargo_weight_kg :: rat
  pc_cargo_type :: string
  pc_origin_node_id :: string
  pc_destination_node_id :: string
  pc_current_vehicle_id :: string
  pc_current_driver_id :: "string option"
  pc_incident_node_id :: "string option"
  pc_affected_edge_ids :: "string list"
  pc_road_network_version :: int
  pc_original_vehicle_weight_tons :: rat
  pc_active_vehicle_weight_tons :: rat

text \<open>\<open>RoutePlanningContext | SandtableTaskContext\<close>.\<close>

datatype plan_context = Planning route_planning_context | Sandtable sandtable_task_context

record routing_result =
  rr_candidate_routes :: "route_candidate list"
  rr_recommended_route :: "string option"
  rr_decision :: string
  rr_decision_reason :: string
  rr_memory_adopted :: bool
  rr_adopted_memory_id :: "string option"
  rr_routing_status :: string
  rr_requires_manual_review :: bool
  rr_original_path :: "path_result option"
  rr_recommended_path :: "path_result option"
  rr_blocked_edge_ids :: "string list"
  rr_road_network_version :: "int option"
  rr_road_network_nodes :: "pydict list"
  rr_road_network_edges :: "pydict list"

text \<open>The recalled memory of \<open>graph/state.py\<close>.\<close>

record memory_recall =
  mr_memory_id :: string
  mr_similarity_score :: rat
  mr_driver_id :: string
  mr_route_id :: string
  mr_anomaly_type :: string
  mr_historical_resolution :: string
  mr_metadata :: pydict

section \<open>The route catalogue: provider.py\<close>

record route_provider =
  rp_candidates :: "route_candidate list"
  rp_references :: "(string \<times> string) list"

definition get_candidates :: "route_provider \<Rightarrow> route_candidate list" where
  "get_candidates provider = rp_candidates provider"

definition resolve_route_reference :: "route_provider \<Rightarrow> string \<Rightarrow> string option" where
  "resolve_route_reference provider reference =
     map_option snd (first_match (\<lambda>(name, route_id). is_infix name reference) (rp_references provider))"

definition catalog_route :: "string \<Rightarrow> string \<Rightarrow> rat \<Rightarrow> int \<Rightarrow> string \<Rightarrow> route_candidate" where
  "catalog_route route_id name distance minutes risk =
     \<lparr>rc_route_id = route_id, rc_route_name = name, rc_distance_km = distance,
      rc_estimated_minutes = minutes, rc_risk_level = risk, rc_available = True, rc_reason = None,
      rc_score = 0, rc_node_ids = [], rc_edge_ids = [], rc_objective = None,
      rc_algorithm_version = None, rc_road_network_version = None, rc_visited_node_count = None,
      rc_risk_cost = None, rc_scoring_formula = None, rc_score_components = None\<rparr>"

text \<open>The Chinese names of the three roads, in UTF-8.\<close>

definition name_xinping :: string where
  "name_xinping = utf8 [0xE6, 0x96, 0xB0, 0xE5, 0xB9, 0xB3, 0xE8, 0xB7, 0xAF]"

definition name_102 :: string where
  "name_102 = ''102'' @ utf8 [0xE5, 0x9B, 0xBD, 0xE9, 0x81, 0x93]"

definition name_308 :: string where
  "name_308 = ''308'' @ utf8 [0xE5, 0x8E, 0xBF, 0xE9, 0x81, 0x93]"

definition default_catalog :: route_provider where
  "default_catalog =
     \<lparr>rp_candidates =
        [catalog_route ''xinping-road'' name_xinping 10 20 ''low'',
         catalog_route ''national-102'' name_102 13 26 ''low'',
         catalog_route ''county-308'' name_308 15 30 ''medium''],
      rp_references =
        [(name_xinping, ''xinping-road''), (name_102, ''national-102''), (name_308, ''county-308'')]\<rparr>"

section \<open>RoutingService: the catalogue route\<close>

datatype routing_error = RoutingRoad road_error | DecimalDivision

definition manual_result :: "route_candidate list \<Rightarrow> string \<Rightarrow> string \<Rightarrow> routing_result" where
  "manual_result candidates reason status =
     \<lparr>rr_candidate_routes = candidates, rr_recommended_route = None, rr_decision = ''MANUAL_REVIEW'',
      rr_decision_reason = reason, rr_memory_adopted = False, rr_adopted_memory_id = None,
      rr_routing_status = status, rr_requires_manual_review = True, rr_original_path = None,
      rr_recommended_path = None, rr_blocked_edge_ids = [], rr_road_network_version = None,
      rr_road_network_nodes = [], rr_road_network_edges = []\<rparr>"

definition memory_route :: "rat \<Rightarrow> route_provider option \<Rightarrow> memory_recall option \<Rightarrow> string option" where
  "memory_route memory_adoption_threshold provider memory =
     (case (memory, provider) of
        (Some m, Some p) \<Rightarrow>
          if mr_similarity_score m < memory_adoption_threshold then None
          else resolve_route_reference p (mr_historical_resolution m)
      | _ \<Rightarrow> None)"

definition score_route :: "route_candidate \<Rightarrow> string \<Rightarrow> string \<Rightarrow> string \<Rightarrow> string option \<Rightarrow> string \<Rightarrow> route_candidate" where
  "score_route candidate current_route_id road_condition environment_risk mem_route capacity_status =
     (if rc_route_id candidate = current_route_id \<and> road_condition \<in> {''slippery'', ''closed''}
      then candidate\<lparr>rc_risk_level := (if road_condition = ''slippery'' then ''high'' else ''critical''),
             rc_available := False,
             rc_reason := Some ''Current route is unsafe for the reported road condition.'',
             rc_score := - 1000\<rparr>
      else let s0 = dec_sub (dec_sub 100 (dec_mul (rc_distance_km candidate) 2))
                      (dec_mul (of_int (rc_estimated_minutes candidate)) (1 / 10));
               s1 = (if environment_risk \<in> {''high'', ''critical''} \<and> rc_risk_level candidate \<in> {''medium'', ''high''}
                     then dec_sub s0 15 else s0);
               s2 = (if mem_route = Some (rc_route_id candidate) then dec_add s1 30 else s1);
               s3 = (if capacity_status = ''LIMITED'' then dec_sub s2 5 else s2)
           in candidate\<lparr>rc_score := s3\<rparr>)"

text \<open>\<open>f"{x:.2f}"\<close> of a float: the exact binary value rounded half to even at two digits.\<close>

definition fixed2 :: "rat \<Rightarrow> string" where
  "fixed2 x = (if x < 0 then ''-'' else []) @ format_f 2 (of_int (round_half_even (\<bar>x\<bar> * 100)) / 100)"

definition route_reason :: "route_candidate \<Rightarrow> string \<Rightarrow> string \<Rightarrow> string \<Rightarrow> memory_recall option \<Rightarrow> string" where
  "route_reason route road_condition environment_risk capacity_status memory =
     (let base = ''Road condition is '' @ road_condition @ '' with '' @ environment_risk @
                 '' environmental risk; capacity status is '' @ capacity_status @ ''.''
      in case memory of
           None \<Rightarrow> base @ '' Recommended '' @ rc_route_name route @ '' by deterministic safety and distance score.''
         | Some m \<Rightarrow> base @ '' Recalled historical memory '' @ mr_memory_id m @ '' at similarity '' @
                     fixed2 (mr_similarity_score m) @ ''; '' @ mr_historical_resolution m @
                     ''. Recommended '' @ rc_route_name route @ ''.'')"

definition route_ranked :: "string \<Rightarrow> memory_recall option \<Rightarrow> string option \<Rightarrow> string \<Rightarrow> string \<Rightarrow> string \<Rightarrow>
    route_candidate list \<Rightarrow> routing_result" where
  "route_ranked current_route_id memory mem_route road_condition environment_risk capacity_status candidates =
     (case first_match rc_available candidates of
        None \<Rightarrow> manual_result candidates ''No safe route is currently available.'' ''NO_SAFE_ROUTE''
      | Some recommended \<Rightarrow>
          let adopted = (memory \<noteq> None \<and> mem_route = Some (rc_route_id recommended) \<and> rc_available recommended)
          in (manual_result candidates
                (route_reason recommended road_condition environment_risk capacity_status
                   (if adopted then memory else None)) ''ROUTED'')
               \<lparr>rr_recommended_route := Some (rc_route_id recommended),
                rr_decision := (if rc_route_id recommended = current_route_id then ''KEEP_ROUTE'' else ''REROUTE''),
                rr_memory_adopted := adopted,
                rr_adopted_memory_id := (if adopted then map_option mr_memory_id memory else None),
                rr_requires_manual_review := False\<rparr>)"

definition route :: "rat \<Rightarrow> route_provider option \<Rightarrow> string \<Rightarrow> memory_recall list \<Rightarrow> string \<Rightarrow> string \<Rightarrow> string \<Rightarrow>
    string \<Rightarrow> routing_result" where
  "route memory_adoption_threshold provider current_route_id memory_results weather road_condition
     environment_risk capacity_status =
     (if capacity_status \<in> {''UNAVAILABLE'', ''UNKNOWN''}
      then manual_result [] (''Capacity status is '' @ capacity_status @ ''; manual review is required.'') ''MANUAL_REVIEW''
      else case provider of
        None \<Rightarrow> manual_result [] ''No route provider is configured.'' ''MANUAL_REVIEW''
      | Some p \<Rightarrow>
          let memory = (case memory_results of [] \<Rightarrow> None | m # _ \<Rightarrow> Some m);
              mem_route = memory_route memory_adoption_threshold provider memory;
              scored = map (\<lambda>c. score_route c current_route_id road_condition environment_risk mem_route
                              capacity_status) (get_candidates p)
          in route_ranked current_route_id memory mem_route road_condition environment_risk capacity_status
               (sort_key (\<lambda>c. - rc_score c) scored))"

section \<open>RoutingService: planning on the road network\<close>

definition objective_value :: "route_objective \<Rightarrow> string" where
  "objective_value obj = (case obj of FASTEST \<Rightarrow> ''FASTEST'' | SHORTEST \<Rightarrow> ''SHORTEST'' | SAFEST \<Rightarrow> ''SAFEST'')"

definition risk_level_of :: "rat \<Rightarrow> string" where
  "risk_level_of risk_cost = (if 12 \<le> risk_cost then ''high'' else if 0 < risk_cost then ''medium'' else ''low'')"

definition plan_route_id :: "string list \<Rightarrow> string" where
  "plan_route_id edge_ids = ''RTE-'' @ py_upper (take 16 (sha256_hex (join ''|'' edge_ids)))"

definition route_components :: "rat \<Rightarrow> rat \<Rightarrow> rat \<Rightarrow> route_score_components" where
  "route_components minutes distance risk =
     \<lparr>rs_normalized_minutes = minutes, rs_normalized_distance = distance, rs_normalized_risk = risk,
      rs_time_penalty = dec_mul minutes 45, rs_distance_penalty = dec_mul distance 30,
      rs_risk_penalty = dec_mul risk 25\<rparr>"

definition components_score :: "route_score_components \<Rightarrow> rat" where
  "components_score c =
     dec_sub (dec_sub (dec_sub 100 (rs_time_penalty c)) (rs_distance_penalty c)) (rs_risk_penalty c)"

definition normalized :: "bool \<Rightarrow> rat \<Rightarrow> rat \<Rightarrow> rat \<Rightarrow> path_result \<Rightarrow> routing_error + route_score_components" where
  "normalized single max_minutes max_distance max_risk path =
     (if single then Inr (route_components 0 0 0)
      else case dec_div (of_int (pr_estimated_minutes path)) max_minutes of
        None \<Rightarrow> Inl DecimalDivision
      | Some minutes \<Rightarrow>
          (case dec_div (pr_distance_km path) max_distance of
             None \<Rightarrow> Inl DecimalDivision
           | Some distance \<Rightarrow>
               if max_risk = 0 then Inr (route_components minutes distance 0)
               else (case dec_div (pr_risk_cost path) max_risk of
                       None \<Rightarrow> Inl DecimalDivision
                     | Some risk \<Rightarrow> Inr (route_components minutes distance risk))))"

definition path_candidate :: "int \<Rightarrow> path_result \<Rightarrow> route_score_components \<Rightarrow> route_candidate" where
  "path_candidate version path components =
     \<lparr>rc_route_id = plan_route_id (pr_edge_ids path),
      rc_route_name = objective_value (pr_objective path) @ '' route'',
      rc_distance_km = pr_distance_km path, rc_estimated_minutes = pr_estimated_minutes path,
      rc_risk_level = risk_level_of (pr_risk_cost path), rc_available = True, rc_reason = None,
      rc_score = components_score components, rc_node_ids = pr_node_ids path,
      rc_edge_ids = pr_edge_ids path, rc_objective = Some (objective_value (pr_objective path)),
      rc_algorithm_version = Some ''DIJKSTRA_V1'', rc_road_network_version = Some version,
      rc_visited_node_count = Some (pr_visited_node_count path), rc_risk_cost = Some (pr_risk_cost path),
      rc_scoring_formula = Some ''ROUTE_SCORE_V1'', rc_score_components = Some components\<rparr>"

text \<open>\<open>max\<close> over the paths; the caller passes at least one.\<close>

definition max_of :: "('a \<Rightarrow> rat) \<Rightarrow> 'a list \<Rightarrow> rat" where
  "max_of f xs = (case map f xs of [] \<Rightarrow> 0 | y # ys \<Rightarrow> foldl max y ys)"

definition score_paths :: "path_result list \<Rightarrow> int \<Rightarrow> routing_error + route_candidate list" where
  "score_paths paths version =
     (let max_minutes = max_of (of_int \<circ> pr_estimated_minutes) paths;
          max_distance = max_of pr_distance_km paths;
          max_risk = max_of pr_risk_cost paths
      in map_result (\<lambda>path. res_bind (normalized (length paths = 1) max_minutes max_distance max_risk path)
                              (\<lambda>components. Inr (path_candidate version path components))) paths)"

definition nodes_to_state :: "road_network \<Rightarrow> pydict list" where
  "nodes_to_state snapshot =
     map (\<lambda>node. [(''node_id'', PStr (rn_node_id node)), (''name'', PStr (rn_name node)),
                  (''x_km'', PStr (format_f 2 (rn_x_km node))), (''y_km'', PStr (format_f 2 (rn_y_km node))),
                  (''node_type'', PStr (rn_node_type node))]) (net_nodes snapshot)"

definition edges_to_state :: "road_network \<Rightarrow> pydict list" where
  "edges_to_state snapshot =
     map (\<lambda>edge. [(''edge_id'', PStr (re_edge_id edge)), (''name'', PStr (re_name edge)),
                  (''from_node_id'', PStr (re_from_node_id edge)), (''to_node_id'', PStr (re_to_node_id edge)),
                  (''distance_km'', PStr (format_f 2 (re_distance_km edge))),
                  (''base_minutes'', PInt (re_base_minutes edge)), (''road_level'', PStr (re_road_level edge)),
                  (''risk_level'', PStr (re_risk_level edge)), (''status'', PStr (re_status edge)),
                  (''congestion_factor'', PStr (format_f 2 (re_congestion_factor edge))),
                  (''weight_limit_tons'', PStr (format_f 2 (re_weight_limit_tons edge))),
                  (''bidirectional'', PBool (re_bidirectional edge)), (''version'', PInt (re_version edge))])
       (net_edges snapshot)"

definition reopen :: "string list \<Rightarrow> road_network \<Rightarrow> road_network" where
  "reopen blocked snapshot =
     snapshot\<lparr>net_edges := map (\<lambda>edge. if re_edge_id edge \<in> set blocked then edge\<lparr>re_status := ''OPEN''\<rparr> else edge)
                            (net_edges snapshot)\<rparr>"

definition context_origin :: "plan_context \<Rightarrow> string" where
  "context_origin context = (case context of Planning c \<Rightarrow> pc_origin_node_id c | Sandtable c \<Rightarrow> tc_origin_node_id c)"

definition context_destination :: "plan_context \<Rightarrow> string" where
  "context_destination context =
     (case context of Planning c \<Rightarrow> pc_destination_node_id c | Sandtable c \<Rightarrow> tc_destination_node_id c)"

definition context_start :: "plan_context \<Rightarrow> string" where
  "context_start context =
     (let incident = (case context of Planning c \<Rightarrow> pc_incident_node_id c | Sandtable c \<Rightarrow> tc_incident_node_id c)
      in case py_or incident None of None \<Rightarrow> context_origin context | Some n \<Rightarrow> n)"

definition context_weights :: "plan_context \<Rightarrow> rat \<times> rat" where
  "context_weights context =
     (case context of
        Planning c \<Rightarrow> (pc_original_vehicle_weight_tons c, pc_active_vehicle_weight_tons c)
      | Sandtable c \<Rightarrow> (tc_vehicle_weight_tons c, tc_vehicle_weight_tons c))"

text \<open>The paths of the three objectives, in the order of the enumeration.\<close>

definition objective_paths :: "find_fn \<Rightarrow> road_network \<Rightarrow> string \<Rightarrow> string \<Rightarrow> rat \<Rightarrow> string list \<Rightarrow>
    routing_error + path_result list" where
  "objective_paths finder snapshot start_node_id destination vehicle_weight_tons blocked =
     (case map_result (\<lambda>objective. finder snapshot start_node_id destination objective vehicle_weight_tons
                          (set blocked))
             [FASTEST, SHORTEST, SAFEST] of
        Inl err \<Rightarrow> Inl (RoutingRoad err)
      | Inr found \<Rightarrow> Inr (concat (map (\<lambda>p. case p of None \<Rightarrow> [] | Some path \<Rightarrow> [path]) found)))"

definition by_edges_of :: "path_result list \<Rightarrow> (string list \<times> path_result) list" where
  "by_edges_of paths = foldl (\<lambda>acc path. setdefault (pr_edge_ids path) path acc) [] paths"

definition candidate_key :: "route_candidate \<Rightarrow> rat \<times> int \<times> rat \<times> string list" where
  "candidate_key c = (- rc_score c, rc_estimated_minutes c, rc_distance_km c, rc_edge_ids c)"

definition plan_evidence :: "road_network \<Rightarrow> path_result option \<Rightarrow> string list \<Rightarrow> routing_result \<Rightarrow> routing_result" where
  "plan_evidence snapshot original_path blocked result =
     result\<lparr>rr_original_path := original_path, rr_blocked_edge_ids := blocked,
       rr_road_network_version := Some (net_version snapshot),
       rr_road_network_nodes := nodes_to_state snapshot, rr_road_network_edges := edges_to_state snapshot\<rparr>"

definition routed_result :: "road_network \<Rightarrow> path_result option \<Rightarrow> string list \<Rightarrow> route_candidate list \<Rightarrow>
    route_candidate \<Rightarrow> path_result \<Rightarrow> routing_result" where
  "routed_result snapshot original_path blocked candidates recommended recommended_path =
     (plan_evidence snapshot original_path blocked
        (manual_result candidates
          ''DIJKSTRA_V1 evaluated fastest, shortest, and safest paths using the fixed road-network snapshot.''
          ''ROUTED''))
        \<lparr>rr_recommended_route := Some (rc_route_id recommended),
         rr_decision :=
           (if blocked \<noteq> [] \<or>
               (case original_path of None \<Rightarrow> False
                | Some o_path \<Rightarrow> pr_edge_ids o_path \<noteq> pr_edge_ids recommended_path)
            then ''REROUTE'' else ''KEEP_ROUTE''),
         rr_requires_manual_review := False,
         rr_recommended_path := Some recommended_path\<rparr>"

definition plan_candidates :: "road_network \<Rightarrow> path_result option \<Rightarrow> string list \<Rightarrow>
    (string list \<times> path_result) list \<Rightarrow> routing_error + routing_result" where
  "plan_candidates snapshot original_path blocked by_edges =
     res_bind (score_paths (map snd by_edges) (net_version snapshot))
       (\<lambda>candidates.
          case py_min_by candidate_key candidates of
            None \<Rightarrow> Inl (RoutingRoad (KeyError []))
          | Some recommended \<Rightarrow>
              (case map_of by_edges (rc_edge_ids recommended) of
                 None \<Rightarrow> Inl (RoutingRoad (KeyError []))
               | Some recommended_path \<Rightarrow>
                   Inr (routed_result snapshot original_path blocked candidates recommended recommended_path)))"

definition plan_on :: "find_fn \<Rightarrow> road_network \<Rightarrow> plan_context \<Rightarrow> string list \<Rightarrow> routing_error + routing_result" where
  "plan_on finder snapshot context affected_edge_ids =
     (let blocked = sort (remdups affected_edge_ids)
      in case finder (reopen blocked snapshot) (context_origin context) (context_destination context) FASTEST
                (fst (context_weights context)) {} of
           Inl err \<Rightarrow> Inl (RoutingRoad err)
         | Inr original_path \<Rightarrow>
             res_bind (objective_paths finder snapshot (context_start context) (context_destination context)
                         (snd (context_weights context)) blocked)
               (\<lambda>paths. let by_edges = by_edges_of paths
                        in if by_edges = []
                           then Inr (plan_evidence snapshot original_path blocked
                                  (manual_result [] ''No reachable route remains after excluding affected roads.''
                                     ''NO_REACHABLE_ROUTE''))
                           else plan_candidates snapshot original_path blocked by_edges))"

definition plan :: "find_fn option \<Rightarrow> (unit \<Rightarrow> road_network) option \<Rightarrow> plan_context \<Rightarrow> string \<Rightarrow> string list \<Rightarrow>
    memory_recall list \<Rightarrow> road_network option \<Rightarrow> routing_error + routing_result" where
  "plan finder_opt road_network_provider context capacity_status affected_edge_ids memory_results
     road_network_snapshot =
     (case (finder_opt, road_network_snapshot, road_network_provider) of
        (None, _, _) \<Rightarrow> Inr (manual_result [] ''Road network planning is not configured.'' ''MANUAL_REVIEW'')
      | (Some _, None, None) \<Rightarrow>
          Inr (manual_result [] ''Road network planning is not configured.'' ''MANUAL_REVIEW'')
      | (Some finder, snapshot_opt, provider) \<Rightarrow>
          if capacity_status \<in> {''UNAVAILABLE'', ''UNKNOWN''}
          then Inr (manual_result [] ''No vehicle is available for route planning.'' ''MANUAL_REVIEW'')
          else (case (snapshot_opt, provider) of
                  (Some snapshot, _) \<Rightarrow> plan_on finder snapshot context affected_edge_ids
                | (None, Some p) \<Rightarrow> plan_on finder (p ()) context affected_edge_ids
                | (None, None) \<Rightarrow>
                    Inr (manual_result [] ''Road network planning is not configured.'' ''MANUAL_REVIEW'')))"

section \<open>Scores of planned routes\<close>

lemma max_of_upper: "x \<in> set xs \<Longrightarrow> f x \<le> max_of f xs"
proof -
  have fold_max: "a \<le> foldl max a ys \<and> (\<forall>y\<in>set ys. y \<le> foldl max a ys)" for a :: rat and ys
    by (induction ys arbitrary: a) (auto intro: order_trans [OF max.cobounded1] order_trans [OF max.cobounded2])
  assume "x \<in> set xs"
  then show ?thesis using fold_max by (cases xs) (force simp: max_of_def)+
qed

lemma max_of_pos: "x \<in> set xs \<Longrightarrow> 0 < f x \<Longrightarrow> 0 < max_of f xs"
  using max_of_upper [of x xs f] by simp

definition unit_components :: "route_score_components \<Rightarrow> bool" where
  "unit_components c \<longleftrightarrow> (\<exists>m d r. c = route_components m d r \<and> 0 \<le> m \<and> m \<le> 1 \<and> 0 \<le> d \<and> d \<le> 1 \<and> 0 \<le> r \<and> r \<le> 1)"

lemma unit_componentsI:
  "0 \<le> m \<Longrightarrow> m \<le> 1 \<Longrightarrow> 0 \<le> d \<Longrightarrow> d \<le> 1 \<Longrightarrow> 0 \<le> r \<Longrightarrow> r \<le> 1 \<Longrightarrow> unit_components (route_components m d r)"
  unfolding unit_components_def by blast

lemma dec_mul_unit:
  assumes "0 \<le> x" "x \<le> 1" "0 \<le> (c :: rat)" "ctx c = c"
  shows "0 \<le> dec_mul x c" "dec_mul x c \<le> c"
proof -
  show "0 \<le> dec_mul x c" using assms dec_mul_nonneg by blast
  have "dec_mul x c \<le> dec_mul 1 c" using assms dec_mul_mono by blast
  then show "dec_mul x c \<le> c" using assms(4) by (simp add: dec_mul_def)
qed

lemma dec_sub_bounds:
  assumes "a \<le> x" "x \<le> b" "0 \<le> y" "y \<le> c" "ctx (a - c) = a - c" "ctx b = b"
  shows "a - c \<le> dec_sub x y" "dec_sub x y \<le> b"
  using assms ctx_ge_exact [of "a - c" "x - y"] ctx_le_exact [of "x - y" b]
  by (auto simp: dec_sub_def)

lemma unit_score_bounds:
  assumes "unit_components c"
  shows "0 \<le> components_score c" "components_score c \<le> 100"
proof -
  obtain m d r where c: "c = route_components m d r" and u: "0 \<le> m" "m \<le> 1" "0 \<le> d" "d \<le> 1" "0 \<le> r" "r \<le> 1"
    using assms by (auto simp: unit_components_def)
  have e: "ctx (45 :: rat) = 45" "ctx (30 :: rat) = 30" "ctx (25 :: rat) = 25" "ctx (55 :: rat) = 55"
    "ctx (100 :: rat) = 100" by (simp_all add: decimal_simps)
  note p = dec_mul_unit [OF u(1,2) _ e(1)] dec_mul_unit [OF u(3,4) _ e(2)] dec_mul_unit [OF u(5,6) _ e(3)]
  have 1: "55 \<le> dec_sub 100 (dec_mul m 45)" "dec_sub 100 (dec_mul m 45) \<le> 100"
    using dec_sub_bounds [of 100 100 100 "dec_mul m 45" 45] p(1,2) e by auto
  then have 2: "25 \<le> dec_sub (dec_sub 100 (dec_mul m 45)) (dec_mul d 30)"
    "dec_sub (dec_sub 100 (dec_mul m 45)) (dec_mul d 30) \<le> 100"
    using dec_sub_bounds [of 55 "dec_sub 100 (dec_mul m 45)" 100 "dec_mul d 30" 30] p(3,4) e by auto
  show "0 \<le> components_score c" "components_score c \<le> 100"
    using dec_sub_bounds [of 25 "dec_sub (dec_sub 100 (dec_mul m 45)) (dec_mul d 30)" 100 "dec_mul r 25" 25]
      2 p(5,6) e
    by (auto simp: c components_score_def route_components_def)
qed

lemma route_components_antimono:
  assumes "m' \<le> m" "d' \<le> d" "r' \<le> r"
  shows "components_score (route_components m d r) \<le> components_score (route_components m' d' r')"
proof -
  have le: "x \<le> y \<Longrightarrow> dec_mul x c \<le> dec_mul y c" if "0 \<le> c" for x y c :: rat
    using dec_mul_mono that by blast
  have sub: "x \<le> x' \<Longrightarrow> y' \<le> y \<Longrightarrow> dec_sub x y \<le> dec_sub x' y'" for x x' y y' :: rat
    by (simp add: dec_sub_def ctx_mono)
  show ?thesis unfolding components_score_def route_components_def
    using assms by (auto intro!: sub le)
qed

section \<open>Scoring never divides by zero\<close>

text \<open>
  The measures a road has in a real network: at least 10 metres, a minute and a hundredth of
  congestion. The tables do not enforce them, and two routes of zero minutes would make the
  normalisation divide by zero.
\<close>

definition measured_network :: "road_network \<Rightarrow> bool" where
  "measured_network net \<longleftrightarrow> wf_network net \<and>
     list_all (\<lambda>e. 1 / 100 \<le> re_distance_km e \<and> 1 \<le> re_base_minutes e \<and> 1 / 100 \<le> re_congestion_factor e)
       (net_edges net)"

lemma dec_sum_ge: "(\<And>x. x \<in> set xs \<Longrightarrow> 0 \<le> x) \<Longrightarrow> x \<in> set xs \<Longrightarrow> ctx x \<le> dec_sum xs"
proof (induction xs rule: rev_induct)
  case (snoc y ys)
  have nn: "0 \<le> dec_sum ys" "0 \<le> y" using snoc.prems by (auto intro: dec_sum_nonneg)
  show ?case
  proof (cases "x \<in> set ys")
    case True
    then have "ctx x \<le> dec_sum ys" using snoc by simp
    then show ?thesis using dec_add_inflate [of "dec_sum ys" y] nn by simp
  next
    case False
    then show ?thesis using snoc.prems nn by (simp add: dec_add_def ctx_mono)
  qed
qed simp

lemma ctx_cent: "ctx (1 / 100) = 1 / 100"
  by (rule ctx_exact [of _ 2 1]) auto

lemma measured_edge_minutes:
  assumes "1 \<le> re_base_minutes e" "1 / 100 \<le> re_congestion_factor e"
  shows "1 / 100 \<le> edge_minutes e"
proof -
  have "(1 :: rat) * (1 / 100) \<le> of_int (re_base_minutes e) * re_congestion_factor e"
    using assms by (intro mult_mono) auto
  then have "1 / 100 \<le> of_int (re_base_minutes e) * re_congestion_factor e" by simp
  then show ?thesis unfolding edge_minutes_def dec_mul_def by (rule ctx_ge_exact [OF _ ctx_cent])
qed

lemma measured_route_pos:
  assumes net: "measured_network net" and r: "route_of net vw excl s t es p" and ne: "pr_edge_ids p \<noteq> []"
  shows "0 < pr_distance_km p" "0 < pr_estimated_minutes p"
proof -
  have wf: "wf_network net" using net by (simp add: measured_network_def)
  obtain e k fs where es: "es = (e, k) # fs" using ne r by (cases es) (auto simp: route_of_def walk_ids_def)
  have mem: "x \<in> set es \<Longrightarrow> fst x \<in> set (net_edges net)" for x
    using r drivable_edges by (fastforce simp: route_of_def)
  have sum: "1 / 100 \<le> dec_sum (map (f \<circ> fst) es)"
    if f: "\<And>e. e \<in> set (net_edges net) \<Longrightarrow> 1 / 100 \<le> f e" for f
  proof -
    have "1 / 100 \<le> f e" using f [of e] mem [of "(e, k)"] es by simp
    moreover have "f e \<in> set (map (f \<circ> fst) es)" using es by simp
    moreover have "0 \<le> x" if x: "x \<in> set (map (f \<circ> fst) es)" for x
    proof -
      obtain y where "y \<in> set es" "x = f (fst y)" using x by force
      then show ?thesis using f [OF mem, of y] by simp
    qed
    ultimately show ?thesis using dec_sum_ge ctx_ge_exact ctx_cent by (meson order_trans)
  qed
  have "1 / 100 \<le> dec_sum (map (re_distance_km \<circ> fst) es)"
    using sum [of re_distance_km] net by (auto simp: measured_network_def list_all_iff)
  then have "quantize_half_up 2 (1 / 100) \<le> pr_distance_km p"
    using r quantize_half_up_mono by (auto simp: route_of_def)
  then show "0 < pr_distance_km p" by (simp add: quantize_half_up_exact [of _ _ 1])
  have "1 / 100 \<le> dec_sum (map (edge_minutes \<circ> fst) es)"
    using sum [of edge_minutes] net measured_edge_minutes by (auto simp: measured_network_def list_all_iff)
  then have "0 < dec_sum (map (edge_minutes \<circ> fst) es)" by simp
  then show "0 < pr_estimated_minutes p" using r by (simp add: route_of_def)
qed

lemma dec_div_some: "b \<noteq> 0 \<Longrightarrow> \<exists>q. dec_div a b = Some q"
  by (simp add: dec_div_def)

text \<open>
  A list of paths that can be scored: nonnegative measures, and either a single path or some path
  with positive distance and minutes.
\<close>

definition scorable :: "path_result list \<Rightarrow> bool" where
  "scorable paths \<longleftrightarrow>
     (\<forall>p\<in>set paths. 0 \<le> pr_distance_km p \<and> 0 \<le> pr_estimated_minutes p \<and> 0 \<le> pr_risk_cost p) \<and>
     (length paths = 1 \<or> (\<exists>p\<in>set paths. 0 < pr_distance_km p \<and> 0 < pr_estimated_minutes p))"

lemma normalized_total:
  assumes "scorable paths" "p \<in> set paths"
  shows "\<exists>c. normalized (length paths = 1) (max_of (of_int \<circ> pr_estimated_minutes) paths)
      (max_of pr_distance_km paths) (max_of pr_risk_cost paths) p = Inr c \<and> unit_components c"
proof (cases "length paths = 1")
  case True
  then show ?thesis by (auto simp: normalized_def intro: unit_componentsI)
next
  case False
  let ?m = "max_of (of_int \<circ> pr_estimated_minutes) paths" and ?d = "max_of pr_distance_km paths"
    and ?r = "max_of pr_risk_cost paths"
  obtain q where q: "q \<in> set paths" "0 < pr_distance_km q" "0 < pr_estimated_minutes q"
    using assms(1) False by (auto simp: scorable_def)
  have pos: "0 < ?m" "0 < ?d" using q by (auto intro: max_of_pos)
  have nn: "0 \<le> pr_distance_km p" "0 \<le> pr_estimated_minutes p" "0 \<le> pr_risk_cost p"
    using assms by (auto simp: scorable_def)
  have le: "of_int (pr_estimated_minutes p) \<le> ?m" "pr_distance_km p \<le> ?d" "pr_risk_cost p \<le> ?r"
    using max_of_upper [OF assms(2), of "of_int \<circ> pr_estimated_minutes"] max_of_upper [OF assms(2)] by auto
  obtain m d where m: "dec_div (of_int (pr_estimated_minutes p)) ?m = Some m" "dec_div (pr_distance_km p) ?d = Some d"
    using pos dec_div_some by (metis less_irrefl)
  then have u: "0 \<le> m \<and> m \<le> 1" "0 \<le> d \<and> d \<le> 1" using nn le dec_div_unit by auto
  show ?thesis
  proof (cases "?r = 0")
    case True
    then show ?thesis using False m u by (auto simp: normalized_def intro: unit_componentsI)
  next
    case r0: False
    then obtain r where r: "dec_div (pr_risk_cost p) ?r = Some r" using dec_div_some by blast
    then have "0 \<le> r \<and> r \<le> 1" using nn le dec_div_unit by blast
    then show ?thesis using False m u r r0 by (auto simp: normalized_def intro: unit_componentsI)
  qed
qed

lemma score_paths_total:
  assumes "scorable paths"
  obtains cs where "score_paths paths v = Inr cs"
    "list_all2 (\<lambda>p c. \<exists>k. unit_components k \<and> c = path_candidate v p k) paths cs"
proof -
  let ?f = "\<lambda>path. res_bind (normalized (length paths = 1) (max_of (of_int \<circ> pr_estimated_minutes) paths)
      (max_of pr_distance_km paths) (max_of pr_risk_cost paths) path) (\<lambda>k. Inr (path_candidate v path k))"
  have step: "\<exists>k. ?f p = Inr (path_candidate v p k) \<and> unit_components k" if "p \<in> set paths" for p
    using normalized_total [OF assms that] by auto
  then obtain cs where cs: "map_result ?f paths = Inr cs" using map_result_total [of paths ?f] by blast
  then have "list_all2 (\<lambda>p c. ?f p = Inr c) paths cs" by (simp add: map_result_Inr)
  then have "list_all2 (\<lambda>p c. \<exists>k. unit_components k \<and> c = path_candidate v p k) paths cs"
    by (rule list.rel_mono_strong) (use step in fastforce)
  then show ?thesis using that cs by (simp add: score_paths_def Let_def)
qed

lemma score_paths_mem:
  assumes "score_paths paths v = Inr cs" and "c \<in> set cs"
  obtains p k where "p \<in> set paths" "c = path_candidate v p k"
    "normalized (length paths = 1) (max_of (of_int \<circ> pr_estimated_minutes) paths)
       (max_of pr_distance_km paths) (max_of pr_risk_cost paths) p = Inr k"
  using map_result_mem(1) [OF assms(1) [unfolded score_paths_def Let_def] assms(2)] that
  by (auto simp: res_bind_eq_Inr)

text \<open>A path that is no worse in minutes, distance and risk scores at least as high.\<close>

lemma normalized_antimono:
  assumes p: "normalized single mm md mr p = Inr k" and p': "normalized single mm md mr p' = Inr k'"
    and nn: "0 \<le> mm" "0 \<le> md" "0 \<le> mr"
    and le: "pr_estimated_minutes p' \<le> pr_estimated_minutes p" "pr_distance_km p' \<le> pr_distance_km p"
      "pr_risk_cost p' \<le> pr_risk_cost p"
  shows "components_score k \<le> components_score k'"
proof (cases single)
  case True
  then show ?thesis using p p' by (simp add: normalized_def)
next
  case False
  obtain m d r m' d' r' where
    k: "k = route_components m d r" "k' = route_components m' d' r'"
    and q: "dec_div (of_int (pr_estimated_minutes p)) mm = Some m" "dec_div (pr_distance_km p) md = Some d"
      "dec_div (of_int (pr_estimated_minutes p')) mm = Some m'" "dec_div (pr_distance_km p') md = Some d'"
    and r: "mr = 0 \<and> r = 0 \<and> r' = 0 \<or> dec_div (pr_risk_cost p) mr = Some r \<and> dec_div (pr_risk_cost p') mr = Some r'"
    using p p' False by (auto simp: normalized_def split: option.splits if_splits)
  have "m' \<le> m" using dec_div_mono [OF q(3,1)] le(1) nn(1) by simp
  moreover have "d' \<le> d" using dec_div_mono [OF q(4,2)] le(2) nn(2) by simp
  moreover have "r' \<le> r" using r dec_div_mono [of "pr_risk_cost p'" mr r' "pr_risk_cost p" r] le(3) nn(3) by auto
  ultimately show ?thesis unfolding k by (rule route_components_antimono)
qed

lemma scorable_max_nonneg:
  assumes "scorable paths" "p \<in> set paths"
  shows "0 \<le> max_of (of_int \<circ> pr_estimated_minutes) paths" "0 \<le> max_of pr_distance_km paths"
    "0 \<le> max_of pr_risk_cost paths"
proof -
  have "0 \<le> f p \<Longrightarrow> 0 \<le> max_of f paths" for f
    using max_of_upper [OF assms(2), of f] by simp
  then show "0 \<le> max_of (of_int \<circ> pr_estimated_minutes) paths" "0 \<le> max_of pr_distance_km paths"
    "0 \<le> max_of pr_risk_cost paths" using assms by (auto simp: scorable_def)
qed

lemma score_paths_pareto:
  assumes sc: "scorable paths" and cs: "score_paths paths v = Inr cs" and mem: "c \<in> set cs" "c' \<in> set cs"
    and le: "rc_estimated_minutes c' \<le> rc_estimated_minutes c" "rc_distance_km c' \<le> rc_distance_km c"
      "rc_risk_cost c' = Some r'" "rc_risk_cost c = Some r" "r' \<le> r"
  shows "rc_score c \<le> rc_score c'"
proof -
  obtain p k where p: "p \<in> set paths" "c = path_candidate v p k"
    "normalized (length paths = 1) (max_of (of_int \<circ> pr_estimated_minutes) paths)
       (max_of pr_distance_km paths) (max_of pr_risk_cost paths) p = Inr k"
    using score_paths_mem [OF cs mem(1)] .
  obtain p' k' where p': "c' = path_candidate v p' k'"
    "normalized (length paths = 1) (max_of (of_int \<circ> pr_estimated_minutes) paths)
       (max_of pr_distance_km paths) (max_of pr_risk_cost paths) p' = Inr k'"
    using score_paths_mem [OF cs mem(2)] .
  show ?thesis
    using normalized_antimono [OF p(3) p'(2) scorable_max_nonneg [OF sc p(1)]] le
    by (simp add: p(2) p'(1) path_candidate_def)
qed

definition candidate_risk :: "route_candidate \<Rightarrow> rat" where
  "candidate_risk c = (case rc_risk_cost c of None \<Rightarrow> 0 | Some r \<Rightarrow> r)"

lemma least_key_undominated:
  assumes sc: "scorable paths" and cs: "score_paths paths v = Inr cs" and mem: "c \<in> set cs" "c' \<in> set cs"
    and key: "candidate_key c \<le> candidate_key c'" and faster: "rc_estimated_minutes c' < rc_estimated_minutes c"
  shows "rc_distance_km c < rc_distance_km c' \<or> candidate_risk c < candidate_risk c'"
proof (rule ccontr)
  assume n: "\<not> ?thesis"
  have "\<exists>r. rc_risk_cost d = Some r" if "d \<in> set cs" for d
    using score_paths_mem [OF cs that] by (metis path_candidate_def route_candidate.select_convs(15))
  then obtain r r' where r: "rc_risk_cost c = Some r" "rc_risk_cost c' = Some r'" using mem by blast
  then have "r' \<le> r" "rc_distance_km c' \<le> rc_distance_km c" using n by (auto simp: candidate_risk_def)
  then have "rc_score c \<le> rc_score c'"
    using score_paths_pareto [OF sc cs mem _ _ r(2,1)] faster by simp
  then show False using key faster by (auto simp: candidate_key_def less_eq_prod_def)
qed

section \<open>The grouping of paths by their edges\<close>

lemma by_edges_foldl:
  assumes "\<And>k p. (k, p) \<in> set acc \<Longrightarrow> k = pr_edge_ids p"
  shows "(k, p) \<in> set (foldl (\<lambda>acc path. setdefault (pr_edge_ids path) path acc) acc ps) \<Longrightarrow>
    k = pr_edge_ids p \<and> (p \<in> set ps \<or> (k, p) \<in> set acc)"
  using assms
proof (induction ps arbitrary: acc)
  case (Cons q ps)
  have "k = pr_edge_ids p" if "(k, p) \<in> set (setdefault (pr_edge_ids q) q acc)" for k p
    using that setdefault_set [of "pr_edge_ids q" q acc] Cons.prems(2) by auto
  then show ?case
    using Cons.IH [of "setdefault (pr_edge_ids q) q acc"] Cons.prems(1) setdefault_set [of "pr_edge_ids q" q acc]
    by auto
qed auto

lemma by_edges_of_mem: "(k, p) \<in> set (by_edges_of ps) \<Longrightarrow> k = pr_edge_ids p \<and> p \<in> set ps"
  using by_edges_foldl [of "[]" k p ps] by (simp add: by_edges_of_def)

lemma by_edges_of_distinct: "distinct (map fst (by_edges_of ps))"
proof -
  have "distinct (map fst acc) \<Longrightarrow>
      distinct (map fst (foldl (\<lambda>acc path. setdefault (pr_edge_ids path) path acc) acc ps))" for acc
    by (induction ps arbitrary: acc) (auto simp: setdefault_distinct)
  then show ?thesis by (simp add: by_edges_of_def)
qed

lemma by_edges_of_Nil: "by_edges_of ps = [] \<longleftrightarrow> ps = []"
proof -
  have "acc \<noteq> [] \<Longrightarrow> foldl (\<lambda>acc path. setdefault (pr_edge_ids path) path acc) acc qs \<noteq> []" for acc qs
    by (induction qs arbitrary: acc) auto
  then show ?thesis by (cases ps) (auto simp: by_edges_of_def)
qed

text \<open>Distinct groups have distinct edge lists, so of two groups one has an edge.\<close>

lemma by_edges_of_two:
  assumes "length (by_edges_of ps) \<noteq> 1" "by_edges_of ps \<noteq> []"
  shows "\<exists>p\<in>set (map snd (by_edges_of ps)). pr_edge_ids p \<noteq> []"
proof -
  obtain kp kq rest where e: "by_edges_of ps = kp # kq # rest"
    using assms by (cases "by_edges_of ps"; cases "tl (by_edges_of ps)") auto
  then have "fst kp \<noteq> fst kq" using by_edges_of_distinct [of ps] by auto
  moreover have "fst kp = pr_edge_ids (snd kp)" "fst kq = pr_edge_ids (snd kq)"
    using e by_edges_of_mem [of "fst kp" "snd kp" ps] by_edges_of_mem [of "fst kq" "snd kq" ps] by auto
  ultimately show ?thesis using e by auto
qed

section \<open>Planning over a path finder\<close>

lemma reopen_wf: "wf_network net \<Longrightarrow> wf_network (reopen blocked net)"
  by (auto simp: wf_network_def reopen_def list_all_iff wf_edge_def known_risk_def comp_def if_distrib
      cong: if_cong)

text \<open>
  What the plan promises of a network: \<open>recommends\<close> says that a result routes the vehicle along a
  best route of one of the objectives, that the chosen candidate ranks first, and that no faster
  candidate is at least as short and as safe.
\<close>

definition recommends :: "road_network \<Rightarrow> plan_context \<Rightarrow> string list \<Rightarrow> routing_result \<Rightarrow> bool" where
  "recommends net context affected res \<longleftrightarrow>
     rr_routing_status res = ''ROUTED'' \<and> \<not> rr_requires_manual_review res \<and>
     rr_decision res \<in> {''REROUTE'', ''KEEP_ROUTE''} \<and>
     (\<exists>p obj c. rr_recommended_path res = Some p \<and>
        best_route net (snd (context_weights context)) (set affected) (context_start context)
          (context_destination context) obj p \<and>
        c \<in> set (rr_candidate_routes res) \<and> rr_recommended_route res = Some (rc_route_id c) \<and>
        rc_edge_ids c = pr_edge_ids p \<and> rc_node_ids c = pr_node_ids p \<and>
        rc_route_id c = plan_route_id (pr_edge_ids p) \<and>
        (\<forall>c'\<in>set (rr_candidate_routes res). candidate_key c \<le> candidate_key c' \<and>
           0 \<le> rc_score c' \<and> rc_score c' \<le> 100 \<and>
           (rc_estimated_minutes c' < rc_estimated_minutes c \<longrightarrow>
              rc_distance_km c < rc_distance_km c' \<or> candidate_risk c < candidate_risk c')))"

definition route_exists :: "road_network \<Rightarrow> plan_context \<Rightarrow> string list \<Rightarrow> bool" where
  "route_exists net context affected \<longleftrightarrow>
     context_start context \<in> node_ids net \<and> context_destination context \<in> node_ids net \<and>
     (\<exists>es. drivable net (snd (context_weights context)) (set affected) (context_start context) es
        (context_destination context))"

context path_finder
begin

lemma objective_paths_found:
  assumes wf: "wf_network net"
  obtains paths where "objective_paths find net s t w blocked = Inr paths"
    "\<forall>p\<in>set paths. \<exists>obj. find net s t obj w (set blocked) = Inr (Some p)"
    "paths = [] \<longleftrightarrow> \<not> (s \<in> node_ids net \<and> t \<in> node_ids net \<and> (\<exists>es. drivable net w (set blocked) s es t))"
proof -
  obtain a b c where r: "find net s t FASTEST w (set blocked) = Inr a"
    "find net s t SHORTEST w (set blocked) = Inr b" "find net s t SAFEST w (set blocked) = Inr c"
    using find_total [OF wf] by meson
  let ?paths = "concat (map (\<lambda>p. case p of None \<Rightarrow> [] | Some path \<Rightarrow> [path]) [a, b, c])"
  have "objective_paths find net s t w blocked = Inr ?paths"
    using r by (simp add: objective_paths_def)
  moreover have "\<exists>obj. find net s t obj w (set blocked) = Inr (Some p)" if "p \<in> set ?paths" for p
    using that r by (auto split: option.splits)
  moreover have "?paths = [] \<longleftrightarrow> \<not> (s \<in> node_ids net \<and> t \<in> node_ids net \<and> (\<exists>es. drivable net w (set blocked) s es t))"
    using r find_iff [OF wf, of s t FASTEST w "set blocked"] find_iff [OF wf, of s t SHORTEST w "set blocked"]
      find_iff [OF wf, of s t SAFEST w "set blocked"]
    by (cases a; cases b; cases c) auto
  ultimately show ?thesis using that by blast
qed

lemma found_scorable:
  assumes net: "measured_network net"
    and found: "\<And>p. p \<in> set paths \<Longrightarrow> \<exists>obj. find net s t obj w (set blocked) = Inr (Some p)"
    and ne: "paths \<noteq> []"
  shows "scorable (map snd (by_edges_of paths))"
proof -
  have wf: "wf_network net" using net by (simp add: measured_network_def)
  have mem: "\<exists>obj es. find net s t obj w (set blocked) = Inr (Some p) \<and> route_of net w (set blocked) s t es p"
    if p: "p \<in> set (map snd (by_edges_of paths))" for p
  proof -
    have "p \<in> set paths" using p by_edges_of_mem by fastforce
    then obtain obj where "find net s t obj w (set blocked) = Inr (Some p)" using found by blast
    then show ?thesis using find_route [OF wf] by blast
  qed
  have "\<exists>p\<in>set (map snd (by_edges_of paths)). 0 < pr_distance_km p \<and> 0 < pr_estimated_minutes p"
    if "length (by_edges_of paths) \<noteq> 1"
    using by_edges_of_two [OF that] ne mem measured_route_pos [OF net] unfolding by_edges_of_Nil by blast
  moreover have "0 \<le> pr_distance_km p \<and> 0 \<le> pr_estimated_minutes p \<and> 0 \<le> pr_risk_cost p"
    if "p \<in> set (map snd (by_edges_of paths))" for p
    using mem [OF that] find_nonneg [OF wf] by blast
  ultimately show ?thesis unfolding scorable_def length_map by blast
qed

lemma plan_candidates_recommends:
  assumes net: "measured_network net"
    and found: "\<And>p. p \<in> set paths \<Longrightarrow> \<exists>obj. find net (context_start context) (context_destination context) obj
      (snd (context_weights context)) (set blocked) = Inr (Some p)"
    and ne: "paths \<noteq> []"
  obtains res where "plan_candidates net o_path blocked (by_edges_of paths) = Inr res"
    "recommends net context blocked res" "rr_blocked_edge_ids res = blocked"
    "rr_road_network_edges res = edges_to_state net"
proof -
  have wf: "wf_network net" using net by (simp add: measured_network_def)
  let ?ps = "map snd (by_edges_of paths)"
  note scorable = found_scorable [OF net found ne]
  obtain cs where cs: "score_paths ?ps (net_version net) = Inr cs"
    "list_all2 (\<lambda>p c. \<exists>k. unit_components k \<and> c = path_candidate (net_version net) p k) ?ps cs"
    by (rule score_paths_total [OF scorable])
  have "cs \<noteq> []" using cs(2) ne by (auto simp: by_edges_of_Nil)
  then obtain c where c: "py_min_by candidate_key cs = Some c" by (meson option.exhaust py_min_by_None)
  then have least: "c \<in> set cs" "\<forall>c'\<in>set cs. candidate_key c \<le> candidate_key c'"
    by (auto dest: py_min_by_Some)
  have unit: "\<exists>p\<in>set ?ps. \<exists>k. unit_components k \<and> c' = path_candidate (net_version net) p k" if "c' \<in> set cs" for c'
    using list_all2_mem [OF cs(2) that] .
  obtain p k where p: "p \<in> set ?ps" "c = path_candidate (net_version net) p k" using unit [OF least(1)] by blast
  have key: "(pr_edge_ids p, p) \<in> set (by_edges_of paths)" "p \<in> set paths" using p(1) by_edges_of_mem by fastforce+
  then have key': "map_of (by_edges_of paths) (rc_edge_ids c) = Some p"
    using p(2) by (simp add: path_candidate_def map_of_is_SomeI [OF by_edges_of_distinct])
  obtain obj where "best_route net (snd (context_weights context)) (set blocked) (context_start context)
      (context_destination context) obj p"
    using found [OF key(2)] find_best [OF wf] by blast
  moreover have "0 \<le> rc_score c' \<and> rc_score c' \<le> 100" if "c' \<in> set cs" for c'
    using unit [OF that] unit_score_bounds by (auto simp: path_candidate_def)
  moreover have "rc_estimated_minutes c' < rc_estimated_minutes c \<longrightarrow>
      rc_distance_km c < rc_distance_km c' \<or> candidate_risk c < candidate_risk c'" if "c' \<in> set cs" for c'
    using least_key_undominated [OF scorable cs(1) least(1) that] least(2) that by blast
  ultimately have "recommends net context blocked (routed_result net o_path blocked cs c p)"
    using least p(2) unfolding recommends_def by (intro conjI exI [of _ p] exI [of _ obj] exI [of _ c])
      (auto simp: routed_result_def plan_evidence_def manual_result_def path_candidate_def)
  moreover have "plan_candidates net o_path blocked (by_edges_of paths) =
      Inr (routed_result net o_path blocked cs c p)"
    using cs(1) c key' by (simp add: plan_candidates_def routed_result_def)
  ultimately show ?thesis using that [of "routed_result net o_path blocked cs c p"]
    by (simp add: routed_result_def plan_evidence_def)
qed

lemma plan_on_total:
  assumes net: "measured_network net"
  obtains res where "plan_on find net context affected = Inr res"
    "rr_blocked_edge_ids res = sort (remdups affected)" "rr_road_network_edges res = edges_to_state net"
    "if route_exists net context affected then recommends net context affected res
     else rr_routing_status res = ''NO_REACHABLE_ROUTE'' \<and> rr_recommended_path res = None \<and>
       rr_recommended_route res = None \<and> rr_requires_manual_review res"
proof -
  let ?b = "sort (remdups affected)"
  have wf: "wf_network net" using net by (simp add: measured_network_def)
  have set: "set ?b = set affected" by simp
  obtain o_path where o: "find (reopen ?b net) (context_origin context) (context_destination context) FASTEST
      (fst (context_weights context)) {} = Inr o_path"
    using find_total [OF reopen_wf [OF wf]] by blast
  obtain paths where paths: "objective_paths find net (context_start context) (context_destination context)
      (snd (context_weights context)) ?b = Inr paths"
    "\<forall>p\<in>set paths. \<exists>obj. find net (context_start context) (context_destination context) obj
      (snd (context_weights context)) (set affected) = Inr (Some p)"
    "paths = [] \<longleftrightarrow> \<not> route_exists net context affected"
    by (rule objective_paths_found [OF wf, of "context_start context" "context_destination context"
        "snd (context_weights context)" ?b, unfolded set, folded route_exists_def])
  show ?thesis
  proof (cases "paths = []")
    case True
    then show ?thesis using that o paths
      by (auto simp: plan_on_def by_edges_of_def plan_evidence_def manual_result_def)
  next
    case False
    obtain res where "plan_candidates net o_path ?b (by_edges_of paths) = Inr res"
      "recommends net context ?b res" "rr_blocked_edge_ids res = ?b" "rr_road_network_edges res = edges_to_state net"
      using plan_candidates_recommends [OF net paths(2) [folded set, rule_format] False] .
    then show ?thesis using that o paths False
      by (simp add: plan_on_def by_edges_of_Nil recommends_def)
  qed
qed

end

section \<open>The catalogue route\<close>

lemma first_match_sorted:
  assumes "first_match p (sort_key f xs) = Some y"
  shows "y \<in> set xs \<and> p y \<and> (\<forall>x\<in>set xs. p x \<longrightarrow> f y \<le> f x)"
proof -
  obtain ys where ys: "sort_key f (filter p xs) = y # ys"
    using assms by (auto simp: first_match_filter filter_sort split: list.splits)
  have "y \<in> set (filter p xs)" using sort_key_hd_mem [OF ys] .
  then show ?thesis using sort_key_hd_least [OF ys] by auto
qed

lemma score_route_available:
  "rc_available (score_route c cur road env m cap) \<Longrightarrow> road \<in> {''slippery'', ''closed''} \<Longrightarrow>
   rc_route_id (score_route c cur road env m cap) \<noteq> cur"
  by (auto simp: score_route_def Let_def split: if_splits)

lemma memory_route_Some:
  "memory_route threshold provider memory = Some r \<Longrightarrow>
   \<exists>m p. memory = Some m \<and> provider = Some p \<and> threshold \<le> mr_similarity_score m \<and>
     resolve_route_reference p (mr_historical_resolution m) = Some r"
  by (auto simp: memory_route_def split: option.splits if_splits)

section \<open>A planning task for evaluation\<close>

definition sample_context :: plan_context where
  "sample_context =
     Planning \<lparr>pc_order_id = 7, pc_order_no = ''7'', pc_cargo_weight_kg = 500, pc_cargo_type = ''GENERAL'',
       pc_origin_node_id = ''A'', pc_destination_node_id = ''C'', pc_current_vehicle_id = ''V1'',
       pc_current_driver_id = None, pc_incident_node_id = Some ''B'', pc_affected_edge_ids = [''E2''],
       pc_road_network_version = 3, pc_original_vehicle_weight_tons = 2, pc_active_vehicle_weight_tons = 2\<rparr>"

lemma sample_net_measured: "measured_network sample_net"
  by code_simp

lemma sample_route_exists: "route_exists sample_net sample_context [''E2'']"
proof -
  let ?e1 = "sample_edge ''E1'' ''A'' ''B'' (3 / 2) 3 ''LOW''" and ?e3 = "sample_edge ''E3'' ''A'' ''C'' 10 20 ''MEDIUM''"
  have "drivable sample_net 2 {''E2''} ''B'' [(?e1, ''A''), (?e3, ''C'')] ''C''"
    by (simp add: arc_def is_available_def sample_net_def sample_edge_def)
  moreover have "context_start sample_context = ''B''" "context_destination sample_context = ''C''"
    "snd (context_weights sample_context) = 2" "''B'' \<in> node_ids sample_net" "''C'' \<in> node_ids sample_net"
    by code_simp+
  ultimately show ?thesis unfolding route_exists_def by (simp del: drivable.simps) blast
qed

section \<open>Properties of the routing service\<close>

text \<open>
  C3. With a vehicle available, planning on a network of measured roads never fails and always reports
  the affected roads, sorted and without repetition. If the vehicle cannot reach the destination from
  the incident (or the origin) without the affected roads, the result asks for manual review. Otherwise
  it recommends a route that is drivable at the weight of the active vehicle, avoids every affected and every
  blocked road, and is of least cost for one of the objectives; the recommended candidate has the best
  key of all candidates, all scores lie between 0 and 100, and no faster candidate is at
  least as short and as safe.
\<close>

theorem plan_recommends_best:
  assumes "measured_network net" and "capacity_status \<notin> {''UNAVAILABLE'', ''UNKNOWN''}"
  shows "\<exists>res. plan (Some find_path) provider context capacity_status affected memories (Some net) = Inr res \<and>
    rr_blocked_edge_ids res = sort (remdups affected) \<and>
    (if route_exists net context affected then recommends net context affected res
     else rr_routing_status res = ''NO_REACHABLE_ROUTE'' \<and> rr_recommended_route res = None \<and>
       rr_requires_manual_review res)"
proof -
  obtain res where "plan_on find_path net context affected = Inr res"
    "rr_blocked_edge_ids res = sort (remdups affected)"
    "if route_exists net context affected then recommends net context affected res
     else rr_routing_status res = ''NO_REACHABLE_ROUTE'' \<and> rr_recommended_path res = None \<and>
       rr_recommended_route res = None \<and> rr_requires_manual_review res"
    by (rule dijkstra.plan_on_total [OF assms(1)])
  then show ?thesis using assms(2) by (simp add: plan_def split: if_splits)
qed

theorem plan_recommends_best_witness:
  "\<exists>res. plan (Some find_path) None sample_context ''AVAILABLE'' [''E2''] [] (Some sample_net) = Inr res \<and>
     recommends sample_net sample_context [''E2''] res"
  using plan_recommends_best [OF sample_net_measured, of "''AVAILABLE''" None sample_context "[''E2'']" "[]"]
    sample_route_exists by auto

text \<open>
  C5. The catalogue route is safe: it recommends nothing without manual review; what it recommends is
  an available candidate of the highest score, never the current route when its road is slippery or
  closed; it keeps the route exactly when it recommends the current one; and it adopts only the first recalled memory,
  when that is similar enough and its resolution names the recommended route.
\<close>

theorem route_recommendation_safe:
  "let res = route threshold provider current memories weather road env capacity_status
   in case rr_recommended_route res of
        None \<Rightarrow> rr_requires_manual_review res \<and> rr_decision res = ''MANUAL_REVIEW'' \<and> \<not> rr_memory_adopted res
      | Some r \<Rightarrow> \<not> rr_requires_manual_review res \<and> capacity_status \<notin> {''UNAVAILABLE'', ''UNKNOWN''} \<and>
          (road \<in> {''slippery'', ''closed''} \<longrightarrow> r \<noteq> current) \<and>
          rr_decision res = (if r = current then ''KEEP_ROUTE'' else ''REROUTE'') \<and>
          (\<exists>c\<in>set (rr_candidate_routes res). rc_route_id c = r \<and> rc_available c \<and>
             (\<forall>c'\<in>set (rr_candidate_routes res). rc_available c' \<longrightarrow> rc_score c' \<le> rc_score c)) \<and>
          (rr_memory_adopted res \<longrightarrow> (\<exists>m ms p. memories = m # ms \<and> provider = Some p \<and>
             rr_adopted_memory_id res = Some (mr_memory_id m) \<and> threshold \<le> mr_similarity_score m \<and>
             resolve_route_reference p (mr_historical_resolution m) = Some r))"
proof (cases "capacity_status \<in> {''UNAVAILABLE'', ''UNKNOWN''} \<or> provider = None")
  case True
  then show ?thesis by (auto simp: route_def manual_result_def)
next
  case False
  then obtain p where p: "provider = Some p" and cap: "capacity_status \<notin> {''UNAVAILABLE'', ''UNKNOWN''}" by auto
  define memory where "memory = (case memories of [] \<Rightarrow> None | m # _ \<Rightarrow> Some m)"
  define mroute where "mroute = memory_route threshold provider memory"
  define scored where "scored = map (\<lambda>c. score_route c current road env mroute capacity_status) (get_candidates p)"
  define res where "res = route_ranked current memory mroute road env capacity_status (sort_key (\<lambda>c. - rc_score c) scored)"
  have route: "route threshold provider current memories weather road env capacity_status = res"
    using p cap by (simp add: route_def memory_def mroute_def scored_def res_def Let_def)
  have mem: "\<exists>m ms p. memories = m # ms \<and> provider = Some p \<and> memory = Some m \<and>
      threshold \<le> mr_similarity_score m \<and> resolve_route_reference p (mr_historical_resolution m) = Some r"
    if "mroute = Some r" for r
    using memory_route_Some [of threshold provider memory r] that
    by (auto simp: mroute_def memory_def split: list.splits)
  show ?thesis
  proof (cases "first_match rc_available (sort_key (\<lambda>c. - rc_score c) scored)")
    case None
    then show ?thesis unfolding route by (simp add: res_def route_ranked_def manual_result_def)
  next
    case (Some c)
    have best: "c \<in> set scored" "rc_available c" "\<forall>c'\<in>set scored. rc_available c' \<longrightarrow> rc_score c' \<le> rc_score c"
      using first_match_sorted [OF Some] by auto
    have safe: "road \<in> {''slippery'', ''closed''} \<longrightarrow> rc_route_id c \<noteq> current"
      using best(1,2) score_route_available unfolding scored_def by auto
    have r: "rr_recommended_route res = Some (rc_route_id c)" "set (rr_candidate_routes res) = set scored"
      "\<not> rr_requires_manual_review res" "rr_decision res = (if rc_route_id c = current then ''KEEP_ROUTE'' else ''REROUTE'')"
      "rr_memory_adopted res \<longleftrightarrow> memory \<noteq> None \<and> mroute = Some (rc_route_id c)"
      "rr_memory_adopted res \<Longrightarrow> rr_adopted_memory_id res = map_option mr_memory_id memory"
      using Some best(2) by (auto simp: res_def route_ranked_def manual_result_def Let_def)
    show ?thesis unfolding route using r best safe cap mem [of "rc_route_id c"] by (auto simp: Let_def)
  qed
qed

theorem route_recommendation_safe_witness:
  "let res = route (4 / 5) (Some default_catalog) ''xinping-road'' [] ''rain'' ''slippery'' ''high'' ''AVAILABLE''
   in rr_recommended_route res = Some ''national-102'' \<and> rr_decision res = ''REROUTE''"
proof -
  have "rr_recommended_route (route (4 / 5) (Some default_catalog) ''xinping-road'' [] ''rain'' ''slippery'' ''high''
      ''AVAILABLE'') = Some ''national-102''"
    by code_simp
  then show ?thesis
    using route_recommendation_safe [of "4 / 5" "Some default_catalog" "''xinping-road''" "[]" "''rain''"
        "''slippery''" "''high''" "''AVAILABLE''"]
    by (simp add: Let_def)
qed

end
