(* ===== verification/Dispatch_Service.thy ===== *)
theory Dispatch_Service
  imports Fleet Py_Value
begin

text \<open>
  The dispatch component: \<open>DispatchService\<close> of \<open>backend/app/dispatch/service.py\<close> with the tables it
  reads and writes (\<open>dispatch_tasks\<close>, \<open>fleet_vehicles\<close>, \<open>dispatches\<close>, \<open>dispatch_evidence\<close>).

  One attempt to write a dispatch is a transaction with two moments: it reads on one state of the
  database (the task, an existing dispatch, the vehicle) and it flushes and commits on another, later state, because other
  workers commit in between. The flush first updates the vehicle row under its version column
  (\<open>version_id_col\<close>: no row with the version read raises \<open>StaleDataError\<close>), then inserts the dispatch
  under its unique constraints and foreign keys (a violation raises \<open>IntegrityError\<close>), as the
  dependency order of the unit of work has it. With the same state twice this is
  the attempt of a worker that is alone. The random \<open>uuid4().hex\<close> of the dispatch number is an argument.
\<close>

section \<open>Tables\<close>

record task_row =
  dt_id :: int
  dt_task_id :: string
  dt_order_id :: int
  dt_anomaly_id :: "int option"
  dt_status :: string
  dt_idempotency_key :: string
  dt_assignee_subject_id :: "string option"
  dt_started_at :: "int option"
  dt_completed_at :: "int option"

record dispatch_row =
  dp_id :: int
  dp_dispatch_no :: string
  dp_order_id :: int
  dp_task_id :: "int option"
  dp_original_driver_id :: "string option"
  dp_target_driver_id :: "string option"
  dp_original_route_id :: "string option"
  dp_target_route_id :: "string option"
  dp_original_vehicle_id :: "string option"
  dp_target_vehicle_id :: "string option"
  dp_transfer_node_id :: "string option"
  dp_decision_reason :: "string option"
  dp_recommended_action :: "string option"
  dp_analysis_mode :: "string option"
  dp_issue_subtype :: "string option"
  dp_fallback_used :: bool
  dp_fallback_reason :: "string option"
  dp_status :: string
  dp_version :: int

record evidence_row =
  ev_id :: int
  ev_dispatch_id :: int
  ev_evidence_type :: string
  ev_algorithm_version :: string
  ev_payload_json :: pydict
  ev_road_network_version :: "int option"

text \<open>The ids of orders and road nodes stand for the tables the foreign keys refer to.\<close>

record dispatch_db =
  db_orders :: "int list"
  db_nodes :: "string list"
  db_tasks :: "task_row list"
  db_vehicles :: "vehicle_row list"
  db_dispatches :: "dispatch_row list"
  db_evidence :: "evidence_row list"
  db_next_dispatch_id :: int
  db_next_evidence_id :: int

record dispatch_result =
  dr_dispatch_id :: "int option"
  dr_dispatch_no :: "string option"
  dr_order_id :: int
  dr_task_id :: string
  dr_status :: string
  dr_original_route_id :: string
  dr_target_route_id :: "string option"
  dr_version :: "int option"
  dr_executed :: bool
  dr_reason :: string
  dr_requires_manual_review :: bool
  dr_original_vehicle_id :: "string option"
  dr_target_vehicle_id :: "string option"
  dr_target_driver_id :: "string option"

text \<open>The arguments of \<open>execute\<close>.\<close>

record dispatch_request =
  dq_task_id :: string
  dq_order_id :: int
  dq_original_route_id :: string
  dq_target_route_id :: "string option"
  dq_decision :: string
  dq_decision_reason :: string
  dq_fallback_used :: bool
  dq_fallback_reason :: "string option"
  dq_requires_manual_review :: bool
  dq_recommended_action :: "string option"
  dq_analysis_mode :: "string option"
  dq_issue_subtype :: "string option"
  dq_original_vehicle_id :: "string option"
  dq_candidate_vehicles :: "pydict list"
  dq_transfer_node_id :: "string option"
  dq_fleet_evidence :: "pydict option"
  dq_route_evidence :: "pydict option"

datatype dispatch_error =
    ValueError string
  | CandidateReservationConflict
  | IntegrityError
  | VehicleReservationConflict

section \<open>Evidence\<close>

definition d_text :: "pydict option \<Rightarrow> string \<Rightarrow> string option" where
  "d_text value key = (case value of None \<Rightarrow> None | Some d \<Rightarrow> text_of (dget d key))"

definition number_text :: "pyval \<Rightarrow> string option" where
  "number_text value = (case value of PNone \<Rightarrow> None | _ \<Rightarrow> Some (py_str value))"

definition algorithm_version :: "pydict option \<Rightarrow> string \<Rightarrow> string" where
  "algorithm_version evidence default_version =
     (case d_text evidence ''algorithm_version'' of None \<Rightarrow> default_version | Some v \<Rightarrow> v)"

definition compact_path :: "pyval \<Rightarrow> pyval" where
  "compact_path value =
     (case value of
        PDict d \<Rightarrow>
          PDict [(''objective'', opt_str (d_text (Some d) ''objective'')),
                 (''node_ids'', str_list (string_list (dget d ''node_ids''))),
                 (''edge_ids'', str_list (string_list (dget d ''edge_ids''))),
                 (''distance_km'', opt_str (number_text (dget d ''distance_km''))),
                 (''estimated_minutes'', opt_int (integer_of (dget d ''estimated_minutes''))),
                 (''risk_cost'', opt_str (number_text (dget d ''risk_cost''))),
                 (''visited_node_count'', opt_int (integer_of (dget d ''visited_node_count''))),
                 (''scoring_formula'', opt_str (d_text (Some d) ''scoring_formula''))]
      | _ \<Rightarrow> PNone)"

text \<open>The components of a score under the allowed keys, those that are absent left out.\<close>

definition compact_components :: "string list \<Rightarrow> pyval \<Rightarrow> pyval" where
  "compact_components allowed_keys value =
     (let components = mapping_of value
      in PDict (map (\<lambda>key. (key, opt_str (number_text (dget components key))))
                 (filter (\<lambda>key. dget components key \<noteq> PNone) allowed_keys)))"

definition vehicle_component_keys :: "string list" where
  "vehicle_component_keys =
     [''eta_penalty'', ''distance_penalty'', ''load_penalty'', ''road_risk_penalty'', ''same_station_bonus'',
      ''cargo_exact_match_bonus'']"

definition compact_selected_candidate :: "pydict \<Rightarrow> pydict" where
  "compact_selected_candidate candidate =
     (let remaining_capacity =
            (if dget candidate ''remaining_capacity_kg'' = PNone then dget candidate ''remaining_load_kg''
             else dget candidate ''remaining_capacity_kg'')
      in [(''vehicle_id'', opt_str (d_text (Some candidate) ''vehicle_id'')),
          (''driver_id'', opt_str (d_text (Some candidate) ''driver_id'')),
          (''vehicle_status'', opt_str (d_text (Some candidate) ''vehicle_status'')),
          (''driver_status'', opt_str (d_text (Some candidate) ''driver_status'')),
          (''remaining_capacity_kg'', opt_str (number_text remaining_capacity)),
          (''cargo_capability'', opt_str (d_text (Some candidate) ''cargo_capability'')),
          (''score'', opt_str (number_text (dget candidate ''score''))),
          (''score_components'', compact_components vehicle_component_keys (dget candidate ''score_components'')),
          (''eligible'', PBool (dget candidate ''eligible'' = PBool True)),
          (''exclusion_reasons'', str_list (string_list (dget candidate ''exclusion_reasons'')))])"

definition compact_vehicle_candidate :: "pydict \<Rightarrow> pydict" where
  "compact_vehicle_candidate candidate =
     dupdate (compact_selected_candidate candidate)
       [(''gross_weight_tons'', opt_str (number_text (dget candidate ''gross_weight_tons''))),
        (''pickup_route'', compact_path (dget candidate ''pickup_route'')),
        (''pickup_distance_km'', opt_str (number_text (dget candidate ''pickup_distance_km''))),
        (''pickup_eta_minutes'', opt_int (integer_of (dget candidate ''pickup_eta_minutes''))),
        (''scoring_formula'', opt_str (d_text (Some candidate) ''scoring_formula''))]"

definition compact_fleet_evidence :: "pydict list \<Rightarrow> string option \<Rightarrow> string option \<Rightarrow> pydict" where
  "compact_fleet_evidence candidates original_vehicle_id selected_vehicle_id =
     (let selected = first_match (\<lambda>c. d_text (Some c) ''vehicle_id'' = selected_vehicle_id) candidates
      in [(''original_vehicle_id'', opt_str original_vehicle_id),
          (''target_vehicle_id'', opt_str selected_vehicle_id),
          (''target_driver_id'', opt_str (d_text selected ''driver_id'')),
          (''vehicle_reassigned'',
            PBool (selected_vehicle_id \<noteq> None \<and> selected_vehicle_id \<noteq> original_vehicle_id)),
          (''pickup_route'',
            compact_path (case selected of None \<Rightarrow> PNone | Some c \<Rightarrow> dget c ''pickup_route'')),
          (''selected_candidate'',
            (case selected of None \<Rightarrow> PNone | Some c \<Rightarrow> PDict (compact_selected_candidate c))),
          (''candidates'', PList (map (PDict \<circ> compact_vehicle_candidate) candidates))])"

definition compact_geo_points :: "pyval \<Rightarrow> pyval" where
  "compact_geo_points value =
     (case value of
        PList points \<Rightarrow>
          PList (map (\<lambda>point. PDict [(''node_id'', opt_str (d_text (Some point) ''node_id'')),
                                   (''longitude'', opt_str (d_text (Some point) ''longitude'')),
                                   (''latitude'', opt_str (d_text (Some point) ''latitude''))])
                   (mappings_of points))
      | _ \<Rightarrow> PList [])"

definition compact_real_road_route :: "pyval \<Rightarrow> pyval" where
  "compact_real_road_route value =
     (case value of
        PDict d \<Rightarrow>
          PDict [(''provider'', opt_str (d_text (Some d) ''provider'')),
                 (''source'', opt_str (d_text (Some d) ''source'')),
                 (''status'', opt_str (d_text (Some d) ''status'')),
                 (''coordinate_system'', opt_str (d_text (Some d) ''coordinate_system'')),
                 (''mapping_version'', opt_str (d_text (Some d) ''mapping_version'')),
                 (''distance_meters'', opt_int (integer_of (dget d ''distance_meters''))),
                 (''duration_seconds'', opt_int (integer_of (dget d ''duration_seconds''))),
                 (''waypoints'', compact_geo_points (dget d ''waypoints'')),
                 (''polyline'', compact_geo_points (dget d ''polyline'')),
                 (''fallback_reason'', opt_str (d_text (Some d) ''fallback_reason''))]
      | _ \<Rightarrow> PNone)"

definition route_component_keys :: "string list" where
  "route_component_keys =
     [''normalized_minutes'', ''normalized_distance'', ''normalized_risk'', ''time_penalty'',
      ''distance_penalty'', ''risk_penalty'']"

definition compact_route_candidate :: "pydict \<Rightarrow> pydict" where
  "compact_route_candidate route =
     [(''route_id'', opt_str (d_text (Some route) ''route_id'')),
      (''route_name'', opt_str (d_text (Some route) ''route_name'')),
      (''objective'', opt_str (d_text (Some route) ''objective'')),
      (''node_ids'', str_list (string_list (dget route ''node_ids''))),
      (''edge_ids'', str_list (string_list (dget route ''edge_ids''))),
      (''distance_km'', opt_str (number_text (dget route ''distance_km''))),
      (''estimated_minutes'', opt_int (integer_of (dget route ''estimated_minutes''))),
      (''risk_level'', opt_str (d_text (Some route) ''risk_level'')),
      (''risk_cost'', opt_str (number_text (dget route ''risk_cost''))),
      (''visited_node_count'', opt_int (integer_of (dget route ''visited_node_count''))),
      (''available'', (case dget route ''available'' of PBool b \<Rightarrow> PBool b | _ \<Rightarrow> PNone)),
      (''reason'', opt_str (d_text (Some route) ''reason'')),
      (''score'', opt_str (number_text (dget route ''score''))),
      (''score_components'', compact_components route_component_keys (dget route ''score_components'')),
      (''scoring_formula'', opt_str (d_text (Some route) ''scoring_formula'')),
      (''algorithm_version'', opt_str (d_text (Some route) ''algorithm_version'')),
      (''road_network_version'', opt_int (integer_of (dget route ''road_network_version'')))]"

definition compact_network_nodes :: "pyval \<Rightarrow> pyval" where
  "compact_network_nodes value =
     (case value of
        PList nodes \<Rightarrow>
          PList (map (\<lambda>node. PDict [(''node_id'', opt_str (d_text (Some node) ''node_id'')),
                                  (''name'', opt_str (d_text (Some node) ''name'')),
                                  (''x_km'', opt_str (number_text (dget node ''x_km''))),
                                  (''y_km'', opt_str (number_text (dget node ''y_km''))),
                                  (''node_type'', opt_str (d_text (Some node) ''node_type''))])
                   (mappings_of nodes))
      | _ \<Rightarrow> PList [])"

definition compact_network_edges :: "pyval \<Rightarrow> pyval" where
  "compact_network_edges value =
     (case value of
        PList edges \<Rightarrow>
          PList (map (\<lambda>edge. PDict [(''edge_id'', opt_str (d_text (Some edge) ''edge_id'')),
                                  (''name'', opt_str (d_text (Some edge) ''name'')),
                                  (''from_node_id'', opt_str (d_text (Some edge) ''from_node_id'')),
                                  (''to_node_id'', opt_str (d_text (Some edge) ''to_node_id'')),
                                  (''distance_km'', opt_str (number_text (dget edge ''distance_km''))),
                                  (''base_minutes'', opt_int (integer_of (dget edge ''base_minutes''))),
                                  (''road_level'', opt_str (d_text (Some edge) ''road_level'')),
                                  (''risk_level'', opt_str (d_text (Some edge) ''risk_level'')),
                                  (''status'', opt_str (d_text (Some edge) ''status'')),
                                  (''congestion_factor'', opt_str (number_text (dget edge ''congestion_factor''))),
                                  (''weight_limit_tons'', opt_str (number_text (dget edge ''weight_limit_tons''))),
                                  (''bidirectional'', PBool (dget edge ''bidirectional'' = PBool True)),
                                  (''version'', opt_int (integer_of (dget edge ''version'')))])
                   (mappings_of edges))
      | _ \<Rightarrow> PList [])"

definition compact_relevant_edges :: "pyval \<Rightarrow> string set \<Rightarrow> pyval" where
  "compact_relevant_edges value relevant_edge_ids =
     (case value of
        PList edges \<Rightarrow>
          PList (map (\<lambda>edge. PDict [(''edge_id'', opt_str (d_text (Some edge) ''edge_id'')),
                                  (''from_node_id'', opt_str (d_text (Some edge) ''from_node_id'')),
                                  (''to_node_id'', opt_str (d_text (Some edge) ''to_node_id'')),
                                  (''status'', opt_str (d_text (Some edge) ''status'')),
                                  (''bidirectional'', PBool (dget edge ''bidirectional'' = PBool True))])
                   (filter (\<lambda>edge. case d_text (Some edge) ''edge_id'' of
                                     None \<Rightarrow> False | Some i \<Rightarrow> i \<in> relevant_edge_ids) (mappings_of edges)))
      | _ \<Rightarrow> PList [])"

definition path_edge_ids :: "pyval \<Rightarrow> string set" where
  "path_edge_ids path = set (string_list (dget (mapping_of path) ''edge_ids''))"

definition compact_route_evidence :: "pydict option \<Rightarrow> string \<Rightarrow> string option \<Rightarrow> pydict" where
  "compact_route_evidence evidence original_route_id target_route_id =
     (let source = (case evidence of None \<Rightarrow> [] | Some d \<Rightarrow> d);
          original_path = compact_path (dget source ''original_path'');
          recommended_path = compact_path (dget source ''recommended_path'');
          pickup_path = compact_path (if dget source ''pickup_path'' \<noteq> PNone then dget source ''pickup_path''
                                      else dget source ''pickup_route'');
          blocked_edge_ids = string_list (dget source ''blocked_edge_ids'');
          relevant_edge_ids = set blocked_edge_ids \<union> path_edge_ids original_path \<union>
            path_edge_ids recommended_path \<union> path_edge_ids pickup_path;
          candidate_routes = (case sequence_of (dget source ''candidate_routes'') of None \<Rightarrow> [] | Some rs \<Rightarrow> rs)
      in [(''original_route_id'', PStr original_route_id), (''target_route_id'', opt_str target_route_id),
          (''original_path'', original_path), (''recommended_path'', recommended_path),
          (''pickup_path'', pickup_path), (''blocked_edge_ids'', str_list blocked_edge_ids),
          (''distance_delta_km'', opt_str (number_text (dget source ''distance_delta_km''))),
          (''eta_delta_minutes'', opt_int (integer_of (dget source ''eta_delta_minutes''))),
          (''visited_node_count'', dget (mapping_of recommended_path) ''visited_node_count''),
          (''routing_status'', opt_str (d_text (Some source) ''routing_status'')),
          (''relevant_edges'', compact_relevant_edges (dget source ''road_network_edges'') relevant_edge_ids),
          (''network_nodes'', compact_network_nodes (dget source ''road_network_nodes'')),
          (''network_edges'', compact_network_edges (dget source ''road_network_edges'')),
          (''real_road_route'', compact_real_road_route (dget source ''real_road_route'')),
          (''candidate_routes'', PList (map (PDict \<circ> compact_route_candidate) (mappings_of candidate_routes)))])"

section \<open>The transaction\<close>

definition get_by_task_id :: "dispatch_db \<Rightarrow> int \<Rightarrow> dispatch_row option" where
  "get_by_task_id db task_id = first_match (\<lambda>d. dp_task_id d = Some task_id) (db_dispatches db)"

definition find_task :: "dispatch_db \<Rightarrow> string \<Rightarrow> task_row option" where
  "find_task db task_id = first_match (\<lambda>t. dt_task_id t = task_id) (db_tasks db)"

definition find_vehicle :: "dispatch_db \<Rightarrow> string \<Rightarrow> vehicle_row option" where
  "find_vehicle db vehicle_id = first_match (\<lambda>v. vr_vehicle_id v = vehicle_id) (db_vehicles db)"

definition ranked_eligible_candidates :: "pydict list \<Rightarrow> pydict list" where
  "ranked_eligible_candidates candidates = filter (\<lambda>c. dget c ''eligible'' = PBool True) candidates"

definition str_or :: "string option \<Rightarrow> string \<Rightarrow> string" where
  "str_or a b = (case py_or a None of None \<Rightarrow> b | Some s \<Rightarrow> s)"

definition stored_result :: "dispatch_row \<Rightarrow> string \<Rightarrow> int \<Rightarrow> string \<Rightarrow> string \<Rightarrow> dispatch_result" where
  "stored_result dispatch task_id order_id original_route_id decision_reason =
     (let manual_review = (dp_status dispatch = ''REVIEW_REQUIRED'')
      in \<lparr>dr_dispatch_id = Some (dp_id dispatch), dr_dispatch_no = Some (dp_dispatch_no dispatch),
          dr_order_id = order_id, dr_task_id = task_id, dr_status = dp_status dispatch,
          dr_original_route_id = str_or (dp_original_route_id dispatch) original_route_id,
          dr_target_route_id = dp_target_route_id dispatch, dr_version = Some (dp_version dispatch),
          dr_executed = (\<not> manual_review),
          dr_reason = str_or (dp_decision_reason dispatch) decision_reason,
          dr_requires_manual_review = manual_review,
          dr_original_vehicle_id = dp_original_vehicle_id dispatch,
          dr_target_vehicle_id = dp_target_vehicle_id dispatch,
          dr_target_driver_id = dp_target_driver_id dispatch\<rparr>)"

definition read_idempotent_result :: "dispatch_db \<Rightarrow> dispatch_request \<Rightarrow> dispatch_result option" where
  "read_idempotent_result db rq =
     (case find_task db (dq_task_id rq) of
        None \<Rightarrow> None
      | Some task \<Rightarrow>
          (case get_by_task_id db (dt_id task) of
             None \<Rightarrow> None
           | Some existing \<Rightarrow>
               Some (stored_result existing (dq_task_id rq) (dq_order_id rq) (dq_original_route_id rq)
                       (dq_decision_reason rq))))"

definition manual_review :: "dispatch_request \<Rightarrow> bool" where
  "manual_review rq \<longleftrightarrow> dq_requires_manual_review rq \<or> dq_decision rq \<in> {''MANUAL_REVIEW'', ''NO_SAFE_ROUTE''}"

definition dispatch_status :: "dispatch_request \<Rightarrow> string" where
  "dispatch_status rq =
     (if manual_review rq then ''REVIEW_REQUIRED''
      else if dq_decision rq = ''REROUTE'' then ''REROUTED'' else ''KEPT_ROUTE'')"

text \<open>The default action of a manual review, in UTF-8.\<close>

definition manual_review_action :: string where
  "manual_review_action = utf8
     [0xE4, 0xBF, 0x9D, 0xE6, 0x8C, 0x81, 0xE4, 0xBB, 0xBB, 0xE5, 0x8A, 0xA1, 0xE6, 0x9A, 0x82, 0xE5, 0x81, 0x9C,
      0xE5, 0xB9, 0xB6, 0xE7, 0xAD, 0x89, 0xE5, 0xBE, 0x85, 0xE4, 0xBA, 0xBA, 0xE5, 0xB7, 0xA5, 0xE5, 0xA4, 0x8D,
      0xE6, 0xA0, 0xB8, 0xE3, 0x80, 0x82]"

definition new_dispatch :: "int \<Rightarrow> string \<Rightarrow> task_row \<Rightarrow> dispatch_request \<Rightarrow> pydict option \<Rightarrow> dispatch_row" where
  "new_dispatch new_id uuid task rq candidate =
     (let review_default = (\<lambda>s. if manual_review rq then Some s else None)
      in \<lparr>dp_id = new_id, dp_dispatch_no = ''DSP-'' @ uuid, dp_order_id = dq_order_id rq,
          dp_task_id = Some (dt_id task), dp_original_driver_id = None,
          dp_target_driver_id = d_text candidate ''driver_id'',
          dp_original_route_id = Some (dq_original_route_id rq),
          dp_target_route_id = (if manual_review rq then dq_target_route_id rq
                                else Some (str_or (dq_target_route_id rq) (dq_original_route_id rq))),
          dp_original_vehicle_id = dq_original_vehicle_id rq,
          dp_target_vehicle_id = d_text candidate ''vehicle_id'',
          dp_transfer_node_id = dq_transfer_node_id rq, dp_decision_reason = Some (dq_decision_reason rq),
          dp_recommended_action = py_or (dq_recommended_action rq) (review_default manual_review_action),
          dp_analysis_mode = py_or (dq_analysis_mode rq) (review_default ''EIGHT_AGENT_RULE_ASSISTED''),
          dp_issue_subtype = py_or (dq_issue_subtype rq) (review_default ''GENERAL''),
          dp_fallback_used = dq_fallback_used rq, dp_fallback_reason = dq_fallback_reason rq,
          dp_status = dispatch_status rq, dp_version = 1\<rparr>)"

definition new_evidence :: "int \<Rightarrow> int \<Rightarrow> dispatch_request \<Rightarrow> pydict option \<Rightarrow> evidence_row list" where
  "new_evidence new_id dispatch_id rq candidate =
     [\<lparr>ev_id = new_id, ev_dispatch_id = dispatch_id, ev_evidence_type = ''FLEET_ALLOCATION'',
       ev_algorithm_version = algorithm_version (dq_fleet_evidence rq) ''FLEET_SCORE_V1'',
       ev_payload_json = compact_fleet_evidence (dq_candidate_vehicles rq) (dq_original_vehicle_id rq)
                           (d_text candidate ''vehicle_id''),
       ev_road_network_version = None\<rparr>,
      \<lparr>ev_id = new_id + 1, ev_dispatch_id = dispatch_id, ev_evidence_type = ''ROUTE_CALCULATION'',
       ev_algorithm_version = algorithm_version (dq_route_evidence rq) ''DIJKSTRA_V1'',
       ev_payload_json = compact_route_evidence (dq_route_evidence rq) (dq_original_route_id rq)
                           (dq_target_route_id rq),
       ev_road_network_version =
         (case dq_route_evidence rq of None \<Rightarrow> None | Some d \<Rightarrow> integer_of (dget d ''road_network_version''))\<rparr>]"

definition created_result :: "dispatch_row \<Rightarrow> dispatch_request \<Rightarrow> dispatch_result" where
  "created_result dispatch rq =
     \<lparr>dr_dispatch_id = Some (dp_id dispatch), dr_dispatch_no = Some (dp_dispatch_no dispatch),
      dr_order_id = dq_order_id rq, dr_task_id = dq_task_id rq, dr_status = dispatch_status rq,
      dr_original_route_id = dq_original_route_id rq, dr_target_route_id = dp_target_route_id dispatch,
      dr_version = Some (dp_version dispatch), dr_executed = (\<not> manual_review rq),
      dr_reason = dq_decision_reason rq, dr_requires_manual_review = manual_review rq,
      dr_original_vehicle_id = dq_original_vehicle_id rq,
      dr_target_vehicle_id = dp_target_vehicle_id dispatch,
      dr_target_driver_id = dp_target_driver_id dispatch\<rparr>"

text \<open>
  The flush of the vehicle: the row with the id and the version that were read becomes
  \<open>RESERVED\<close> under the next version; \<open>None\<close> is the \<open>StaleDataError\<close>.
\<close>

definition flush_vehicle :: "vehicle_row option \<Rightarrow> vehicle_row list \<Rightarrow> vehicle_row list option" where
  "flush_vehicle read_row rows =
     (case read_row of
        None \<Rightarrow> Some rows
      | Some v \<Rightarrow>
          if \<exists>r\<in>set rows. vr_id r = vr_id v \<and> vr_version r = vr_version v
          then Some (map (\<lambda>r. if vr_id r = vr_id v \<and> vr_version r = vr_version v
                              then r\<lparr>vr_status := ''RESERVED'', vr_version := vr_version r + 1\<rparr> else r) rows)
          else None)"

definition references_ok :: "dispatch_db \<Rightarrow> dispatch_row \<Rightarrow> bool" where
  "references_ok db d \<longleftrightarrow>
     dp_order_id d \<in> set (db_orders db) \<and>
     opt_all (\<lambda>t. t \<in> set (map dt_id (db_tasks db))) (dp_task_id d) \<and>
     opt_all (\<lambda>v. v \<in> set (map vr_vehicle_id (db_vehicles db))) (dp_original_vehicle_id d) \<and>
     opt_all (\<lambda>v. v \<in> set (map vr_vehicle_id (db_vehicles db))) (dp_target_vehicle_id d) \<and>
     opt_all (\<lambda>n. n \<in> set (db_nodes db)) (dp_transfer_node_id d)"

definition unique_ok :: "dispatch_db \<Rightarrow> dispatch_row \<Rightarrow> bool" where
  "unique_ok db d \<longleftrightarrow>
     (\<forall>e\<in>set (db_dispatches db). dp_dispatch_no e \<noteq> dp_dispatch_no d \<and>
        (dp_task_id d \<noteq> None \<longrightarrow> dp_task_id e \<noteq> dp_task_id d))"

text \<open>If the version of the vehicle and a unique key are both violated, the model reports the vehicle; which of the two the database meets first depends on the order of the flush.\<close>

definition commit_dispatch :: "dispatch_db \<Rightarrow> vehicle_row option \<Rightarrow> task_row \<Rightarrow> dispatch_request \<Rightarrow>
    pydict option \<Rightarrow> string \<Rightarrow> (dispatch_error + dispatch_result) \<times> dispatch_db" where
  "commit_dispatch db vehicle task rq candidate uuid =
     (case flush_vehicle vehicle (db_vehicles db) of
        None \<Rightarrow> (Inl CandidateReservationConflict, db)
      | Some vehicles \<Rightarrow>
          let dispatch = new_dispatch (db_next_dispatch_id db) uuid task rq candidate
          in if unique_ok db dispatch \<and> references_ok db dispatch
             then (Inr (created_result dispatch rq),
                   db\<lparr>db_vehicles := vehicles, db_dispatches := db_dispatches db @ [dispatch],
                     db_evidence := db_evidence db @
                       new_evidence (db_next_evidence_id db) (dp_id dispatch) rq candidate,
                     db_next_dispatch_id := db_next_dispatch_id db + 1,
                     db_next_evidence_id := db_next_evidence_id db + 2\<rparr>)
             else (case read_idempotent_result db rq of
                     Some res \<Rightarrow> (Inr res, db)
                   | None \<Rightarrow> (Inl IntegrityError, db)))"

definition execute_once :: "dispatch_db \<Rightarrow> dispatch_db \<Rightarrow> dispatch_request \<Rightarrow> pydict option \<Rightarrow> string \<Rightarrow>
    (dispatch_error + dispatch_result) \<times> dispatch_db" where
  "execute_once read_db write_db rq candidate uuid =
     (case find_task read_db (dq_task_id rq) of
        None \<Rightarrow> (Inl (ValueError ''Dispatch task does not exist''), write_db)
      | Some task \<Rightarrow>
          (case get_by_task_id read_db (dt_id task) of
             Some existing \<Rightarrow>
               (Inr (stored_result existing (dq_task_id rq) (dq_order_id rq) (dq_original_route_id rq)
                       (dq_decision_reason rq)), write_db)
           | None \<Rightarrow>
               (case candidate of
                  None \<Rightarrow> commit_dispatch write_db None task rq candidate uuid
                | Some c \<Rightarrow>
                    (case Option.bind (d_text candidate ''vehicle_id'') (find_vehicle read_db) of
                       None \<Rightarrow> (Inl CandidateReservationConflict, write_db)
                     | Some vehicle \<Rightarrow>
                         if vr_status vehicle \<noteq> ''AVAILABLE'' \<or> d_text candidate ''driver_id'' = None
                         then (Inl CandidateReservationConflict, write_db)
                         else commit_dispatch write_db (Some vehicle) task rq candidate uuid))))"

text \<open>The loop of \<open>execute\<close>: at most the first two eligible candidates, each with its own number.\<close>

fun execute_attempts :: "dispatch_db \<Rightarrow> dispatch_request \<Rightarrow> (pydict option \<times> string) list \<Rightarrow>
    (dispatch_error + dispatch_result) \<times> dispatch_db" where
  "execute_attempts db rq [] = (Inl VehicleReservationConflict, db)"
| "execute_attempts db rq ((candidate, uuid) # attempts) =
     (case execute_once db db rq candidate uuid of
        (Inl CandidateReservationConflict, db') \<Rightarrow> execute_attempts db' rq attempts
      | (Inl err, db') \<Rightarrow> (Inl err, db')
      | (Inr res, db') \<Rightarrow> (Inr res, db'))"

definition execute_attempt_list :: "dispatch_request \<Rightarrow> pydict option list" where
  "execute_attempt_list rq =
     (let candidates = ranked_eligible_candidates (dq_candidate_vehicles rq)
      in if candidates = [] then [None] else map Some (take 2 candidates))"

definition execute :: "dispatch_db \<Rightarrow> dispatch_request \<Rightarrow> (nat \<Rightarrow> string) \<Rightarrow>
    (dispatch_error + dispatch_result) \<times> dispatch_db" where
  "execute db rq uuids =
     (let attempts = execute_attempt_list rq
      in execute_attempts db rq (zip attempts (map uuids [0..<length attempts])))"

section \<open>Workers side by side\<close>

text \<open>
  Any number of workers run attempts at the same time. A worker's attempt is pending from its reads,
  whose state of the database it keeps, until its flush, which happens on whatever state the others
  have left.
\<close>

record pending_attempt =
  pa_request :: dispatch_request
  pa_candidate :: "pydict option"
  pa_uuid :: string
  pa_read_db :: dispatch_db

type_synonym dispatch_state = "dispatch_db \<times> pending_attempt list"

inductive dispatch_step :: "dispatch_state \<Rightarrow> dispatch_state \<Rightarrow> bool" where
  attempt_read: "pa_read_db p = db \<Longrightarrow> dispatch_step (db, ps) (db, p # ps)"
| attempt_flush: "p \<in> set ps \<Longrightarrow>
    execute_once (pa_read_db p) db (pa_request p) (pa_candidate p) (pa_uuid p) = (res, db') \<Longrightarrow>
    dispatch_step (db, ps) (db', remove1 p ps)"

inductive_cases dispatch_stepE: "dispatch_step s s'"

definition vehicle_table_ok :: "dispatch_db \<Rightarrow> bool" where
  "vehicle_table_ok db \<longleftrightarrow> distinct (map vr_id (db_vehicles db)) \<and> distinct (map vr_vehicle_id (db_vehicles db))"

definition task_links :: "dispatch_row list \<Rightarrow> int list" where
  "task_links ds = concat (map (\<lambda>d. case dp_task_id d of None \<Rightarrow> [] | Some t \<Rightarrow> [t]) ds)"

definition target_vehicles :: "dispatch_row list \<Rightarrow> string list" where
  "target_vehicles ds = concat (map (\<lambda>d. case dp_target_vehicle_id d of None \<Rightarrow> [] | Some v \<Rightarrow> [v]) ds)"

text \<open>The vehicle table after the vehicles with the given row ids have been reserved once.\<close>

definition reserve_rows :: "int set \<Rightarrow> vehicle_row list \<Rightarrow> vehicle_row list" where
  "reserve_rows R rows =
     map (\<lambda>r. if vr_id r \<in> R then r\<lparr>vr_status := ''RESERVED'', vr_version := vr_version r + 1\<rparr> else r) rows"

definition reserved_ids :: "int set \<Rightarrow> vehicle_row list \<Rightarrow> string set" where
  "reserved_ids R rows = {vr_vehicle_id r | r. r \<in> set rows \<and> vr_id r \<in> R}"

text \<open>
  The invariant over the initial database: the reservations made so far are exactly the targets of the
  dispatches written so far, each vehicle once, and it was available; a pending attempt has read a state with
  fewer reservations.
\<close>

definition pending_ok :: "dispatch_db \<Rightarrow> int set \<Rightarrow> pending_attempt list \<Rightarrow> bool" where
  "pending_ok db0 R ps \<longleftrightarrow>
     (\<forall>p\<in>set ps. \<exists>R'. R' \<subseteq> R \<and> db_vehicles (pa_read_db p) = reserve_rows R' (db_vehicles db0))"

definition dispatch_inv_at :: "dispatch_db \<Rightarrow> int set \<Rightarrow> dispatch_row list \<Rightarrow> dispatch_state \<Rightarrow> bool" where
  "dispatch_inv_at db0 R new s \<longleftrightarrow>
     db_vehicles (fst s) = reserve_rows R (db_vehicles db0) \<and> db_dispatches (fst s) = db_dispatches db0 @ new \<and>
     distinct (target_vehicles new) \<and> set (target_vehicles new) = reserved_ids R (db_vehicles db0) \<and>
     (\<forall>r\<in>set (db_vehicles db0). vr_id r \<in> R \<longrightarrow> vr_status r = ''AVAILABLE'') \<and>
     pending_ok db0 R (snd s) \<and> distinct (task_links (db_dispatches (fst s)))"

definition dispatch_inv :: "dispatch_db \<Rightarrow> dispatch_state \<Rightarrow> bool" where
  "dispatch_inv db0 s \<longleftrightarrow> (\<exists>R new. dispatch_inv_at db0 R new s)"

lemma pending_ok_remove1: "pending_ok db0 R ps \<Longrightarrow> pending_ok db0 R (remove1 p ps)"
  unfolding pending_ok_def by (meson notin_set_remove1)

lemma pending_ok_mono: "pending_ok db0 R ps \<Longrightarrow> R \<subseteq> S \<Longrightarrow> pending_ok db0 S ps"
  unfolding pending_ok_def by (meson order_trans)

lemma reserve_rows_sel [simp]:
  "map vr_id (reserve_rows R rows) = map vr_id rows" "map vr_vehicle_id (reserve_rows R rows) = map vr_vehicle_id rows"
  by (simp_all add: reserve_rows_def)

lemma reserve_rows_empty [simp]: "reserve_rows {} rows = rows"
  by (simp add: reserve_rows_def)

lemma task_links_append [simp]: "task_links (xs @ ys) = task_links xs @ task_links ys"
  by (simp add: task_links_def)

lemma target_vehicles_append [simp]: "target_vehicles (xs @ ys) = target_vehicles xs @ target_vehicles ys"
  by (simp add: target_vehicles_def)

lemma task_links_single: "dp_task_id d = Some t \<Longrightarrow> task_links [d] = [t]"
  by (simp add: task_links_def)

lemma target_vehicles_single: "dp_target_vehicle_id d = Some v \<Longrightarrow> target_vehicles [d] = [v]"
  by (simp add: target_vehicles_def)

lemma task_links_mem: "t \<in> set (task_links ds) \<longleftrightarrow> (\<exists>d\<in>set ds. dp_task_id d = Some t)"
  by (force simp: task_links_def split: option.splits)

lemma execute_once_unchanged:
  assumes "execute_once rdb wdb rq c u = (res, db')"
  shows "db' = wdb \<or> (\<exists>task vehicle. find_task rdb (dq_task_id rq) = Some task \<and>
    (case c of None \<Rightarrow> vehicle = None
     | Some _ \<Rightarrow> \<exists>vid v. d_text c ''vehicle_id'' = Some vid \<and> find_vehicle rdb vid = Some v \<and>
         vehicle = Some v \<and> vr_status v = ''AVAILABLE'') \<and>
    commit_dispatch wdb vehicle task rq c u = (res, db'))"
  using assms
  by (auto simp: execute_once_def bind_eq_Some_conv split: option.splits if_splits Option.bind_splits)

lemma commit_dispatch_cases:
  assumes "commit_dispatch db vehicle task rq c u = (res, db')"
  shows "db' = db \<or> (\<exists>vehicles d. flush_vehicle vehicle (db_vehicles db) = Some vehicles \<and>
    d = new_dispatch (db_next_dispatch_id db) u task rq c \<and> unique_ok db d \<and> references_ok db d \<and>
    res = Inr (created_result d rq) \<and> db_vehicles db' = vehicles \<and> db_dispatches db' = db_dispatches db @ [d] \<and>
    db_tasks db' = db_tasks db)"
  using assms by (auto simp: commit_dispatch_def Let_def split: option.splits if_splits)

lemma distinct_map_eq: "distinct (map f xs) \<Longrightarrow> x \<in> set xs \<Longrightarrow> y \<in> set xs \<Longrightarrow> f x = f y \<Longrightarrow> x = y"
  by (metis distinct_map inj_onD)

text \<open>
  The optimistic lock at work: a flush of a vehicle that was read available succeeds only if no one
  has reserved the vehicle since, and it reserves just this one.
\<close>

lemma flush_reserves:
  assumes d: "distinct (map vr_id rows0)" and v: "v \<in> set (reserve_rows R' rows0)" "vr_status v = ''AVAILABLE''"
    and R: "R' \<subseteq> R" and f: "flush_vehicle (Some v) (reserve_rows R rows0) = Some rows"
  shows "v \<in> set rows0 \<and> vr_id v \<notin> R \<and> rows = reserve_rows (insert (vr_id v) R) rows0"
proof -
  have v0: "v \<in> set rows0" using v by (auto simp: reserve_rows_def split: if_splits)
  have eq: "r = v" if "r \<in> set rows0" "vr_id r = vr_id v" for r
    using distinct_map_eq [OF d that(1) v0 that(2)] .
  have "\<exists>r\<in>set (reserve_rows R rows0). vr_id r = vr_id v \<and> vr_version r = vr_version v"
    using f by (simp add: flush_vehicle_def split: if_splits)
  then obtain r where "r \<in> set rows0" "vr_id r = vr_id v" "vr_id r \<in> R \<Longrightarrow> vr_version r + 1 = vr_version v"
    by (auto simp: reserve_rows_def split: if_splits)
  then have R: "vr_id v \<notin> R" using eq [of r] by auto
  let ?g = "\<lambda>r. if vr_id r \<in> R then r\<lparr>vr_status := ''RESERVED'', vr_version := vr_version r + 1\<rparr> else r"
  let ?f = "\<lambda>r. if vr_id r = vr_id v \<and> vr_version r = vr_version v
      then r\<lparr>vr_status := ''RESERVED'', vr_version := vr_version r + 1\<rparr> else r"
  have "rows = map ?f (map ?g rows0)"
    using f by (simp add: flush_vehicle_def reserve_rows_def del: map_map split: if_splits)
  moreover have "?f (?g r) = (if vr_id r \<in> insert (vr_id v) R
      then r\<lparr>vr_status := ''RESERVED'', vr_version := vr_version r + 1\<rparr> else r)" if "r \<in> set rows0" for r
    using eq [OF that] R by (cases "vr_id r = vr_id v") auto
  ultimately show ?thesis using v0 R by (simp add: reserve_rows_def)
qed

lemma reserved_ids_insert:
  assumes "distinct (map vr_vehicle_id rows)" "distinct (map vr_id rows)" "v \<in> set rows" "vr_id v \<notin> R"
  shows "reserved_ids (insert (vr_id v) R) rows = insert (vr_vehicle_id v) (reserved_ids R rows)"
    "vr_vehicle_id v \<notin> reserved_ids R rows"
  using assms distinct_map_eq [of vr_id rows] distinct_map_eq [of vr_vehicle_id rows]
  by (auto simp: reserved_ids_def)

lemma find_vehicle_mem: "find_vehicle db vid = Some v \<Longrightarrow> v \<in> set (db_vehicles db) \<and> vr_vehicle_id v = vid"
  unfolding find_vehicle_def by (rule first_match_SomeD)

lemma unique_ok_links:
  "unique_ok db d \<Longrightarrow> dp_task_id d = Some t \<Longrightarrow> t \<notin> set (task_links (db_dispatches db))"
  by (auto simp: unique_ok_def task_links_mem)

lemma dispatch_inv_initial: "distinct (task_links (db_dispatches db0)) \<Longrightarrow> dispatch_inv db0 (db0, [])"
  unfolding dispatch_inv_def
  by (intro exI [of _ "{}"] exI [of _ "[]"])
     (simp add: dispatch_inv_at_def target_vehicles_def reserved_ids_def pending_ok_def)

text \<open>A commit without a vehicle adds a dispatch; one with a vehicle adds a reservation too.\<close>

lemma dispatch_inv_plain:
  assumes "dispatch_inv_at db0 R new (db, ps)" "db_vehicles db' = db_vehicles db"
    "db_dispatches db' = db_dispatches db @ [d]" "dp_target_vehicle_id d = None"
    "distinct (task_links (db_dispatches db'))"
  shows "dispatch_inv_at db0 R (new @ [d]) (db', remove1 p ps)"
  using assms pending_ok_remove1 [of db0 R ps p] by (auto simp: dispatch_inv_at_def target_vehicles_def)

lemma dispatch_inv_reserve:
  assumes ok: "vehicle_table_ok db0" and inv: "dispatch_inv_at db0 R new (db, ps)" and p: "p \<in> set ps"
    and w: "w \<in> set (db_vehicles (pa_read_db p))" "vr_status w = ''AVAILABLE''"
    and f: "flush_vehicle (Some w) (db_vehicles db) = Some (db_vehicles db')"
    and d: "db_dispatches db' = db_dispatches db @ [d]" "dp_target_vehicle_id d = Some (vr_vehicle_id w)"
      "distinct (task_links (db_dispatches db'))"
  shows "dispatch_inv_at db0 (insert (vr_id w) R) (new @ [d]) (db', remove1 p ps)"
proof -
  obtain R' where R': "R' \<subseteq> R" "db_vehicles (pa_read_db p) = reserve_rows R' (db_vehicles db0)"
    using inv p by (auto simp: dispatch_inv_at_def pending_ok_def)
  have r: "w \<in> set (db_vehicles db0)" "vr_id w \<notin> R" "db_vehicles db' = reserve_rows (insert (vr_id w) R) (db_vehicles db0)"
    using flush_reserves [of "db_vehicles db0" w R' R "db_vehicles db'"] ok w R' f inv
    by (auto simp: vehicle_table_ok_def dispatch_inv_at_def)
  have "\<forall>r\<in>set (db_vehicles db0). vr_id r \<in> insert (vr_id w) R \<longrightarrow> vr_status r = ''AVAILABLE''"
    using inv r(1) w(2) ok distinct_map_eq [of vr_id "db_vehicles db0"]
    by (auto simp: vehicle_table_ok_def dispatch_inv_at_def)
  moreover have "pending_ok db0 (insert (vr_id w) R) (remove1 p ps)"
    using inv pending_ok_mono [OF pending_ok_remove1 subset_insertI] by (simp add: dispatch_inv_at_def)
  moreover have ids: "reserved_ids (insert (vr_id w) R) (db_vehicles db0) =
      insert (vr_vehicle_id w) (reserved_ids R (db_vehicles db0))" "vr_vehicle_id w \<notin> reserved_ids R (db_vehicles db0)"
    using reserved_ids_insert [OF _ _ r(1,2)] ok by (auto simp: vehicle_table_ok_def)
  then have "distinct (target_vehicles (new @ [d]))"
    "set (target_vehicles (new @ [d])) = reserved_ids (insert (vr_id w) R) (db_vehicles db0)"
    using inv by (simp_all add: dispatch_inv_at_def target_vehicles_single [OF d(2)])
  ultimately show ?thesis using inv r(3) d(1,3) by (simp add: dispatch_inv_at_def)
qed

lemma dispatch_inv_flush:
  assumes ok: "vehicle_table_ok db0" and inv: "dispatch_inv_at db0 R new (db, ps)" and p: "p \<in> set ps"
    and ex: "execute_once (pa_read_db p) db (pa_request p) (pa_candidate p) (pa_uuid p) = (res, db')"
  shows "dispatch_inv db0 (db', remove1 p ps)"
proof (cases "db' = db")
  case True
  then show ?thesis using inv pending_ok_remove1 unfolding dispatch_inv_def dispatch_inv_at_def by fastforce
next
  case False
  then obtain task vehicle where c: "commit_dispatch db vehicle task (pa_request p) (pa_candidate p) (pa_uuid p) = (res, db')"
    and v: "case pa_candidate p of None \<Rightarrow> vehicle = None
      | Some _ \<Rightarrow> \<exists>vid v. d_text (pa_candidate p) ''vehicle_id'' = Some vid \<and> find_vehicle (pa_read_db p) vid = Some v \<and>
          vehicle = Some v \<and> vr_status v = ''AVAILABLE''"
    using execute_once_unchanged [OF ex] by blast
  obtain d where d: "flush_vehicle vehicle (db_vehicles db) = Some (db_vehicles db')"
    "d = new_dispatch (db_next_dispatch_id db) (pa_uuid p) task (pa_request p) (pa_candidate p)" "unique_ok db d"
    "db_dispatches db' = db_dispatches db @ [d]"
    using commit_dispatch_cases [OF c] False by blast
  have links: "dp_task_id d = Some (dt_id task)" "dp_target_vehicle_id d = d_text (pa_candidate p) ''vehicle_id''"
    by (simp_all add: d(2) new_dispatch_def Let_def)
  have tasks: "distinct (task_links (db_dispatches db'))"
    using inv unique_ok_links [OF d(3) links(1)] d(4) task_links_single [OF links(1)]
    by (auto simp: dispatch_inv_at_def)
  show ?thesis
  proof (cases "pa_candidate p")
    case None
    then have "db_vehicles db' = db_vehicles db" "dp_target_vehicle_id d = None"
      using v d(1) links(2) by (auto simp: flush_vehicle_def d_text_def)
    then show ?thesis using dispatch_inv_plain [OF inv _ d(4) _ tasks] by (auto simp: dispatch_inv_def)
  next
    case (Some cand)
    then obtain vid w where w: "d_text (pa_candidate p) ''vehicle_id'' = Some vid" "vehicle = Some w"
      "vr_status w = ''AVAILABLE''" "find_vehicle (pa_read_db p) vid = Some w"
      using v by auto
    then show ?thesis
      using dispatch_inv_reserve [OF ok inv p _ _ _ d(4) _ tasks, of w] d(1) links(2) find_vehicle_mem [OF w(4)]
      by (auto simp: dispatch_inv_def)
  qed
qed

lemma dispatch_inv_step:
  assumes "vehicle_table_ok db0" "dispatch_inv db0 s" "dispatch_step s s'"
  shows "dispatch_inv db0 s'"
  using assms(3)
proof cases
  case (attempt_read p db ps)
  obtain R new where I: "dispatch_inv_at db0 R new (db, ps)" using assms(2) attempt_read by (auto simp: dispatch_inv_def)
  then have "dispatch_inv_at db0 R new (db, p # ps)"
    using attempt_read(3) by (auto simp: dispatch_inv_at_def pending_ok_def)
  then show ?thesis using attempt_read by (auto simp: dispatch_inv_def)
next
  case (attempt_flush p ps db res db')
  then show ?thesis using dispatch_inv_flush [OF assms(1)] assms(2) by (auto simp: dispatch_inv_def)
qed

lemma dispatch_inv_reachable:
  assumes "vehicle_table_ok db0" "distinct (task_links (db_dispatches db0))" "dispatch_step\<^sup>*\<^sup>* (db0, []) s"
  shows "dispatch_inv db0 s"
  using assms(3)
proof (induction rule: rtranclp_induct)
  case base
  show ?case using dispatch_inv_initial assms(2) .
next
  case (step s s')
  then show ?case using dispatch_inv_step [OF assms(1)] by blast
qed

section \<open>One worker alone\<close>

text \<open>A failed attempt leaves the database as it was; a conflict is the only outcome that is retried.\<close>

lemma commit_dispatch_error: "commit_dispatch db v task rq c u = (Inl err, db') \<Longrightarrow> db' = db"
  by (auto simp: commit_dispatch_def Let_def split: option.splits if_splits)

lemma execute_once_error: "execute_once rdb wdb rq c u = (Inl err, db') \<Longrightarrow> db' = wdb"
  by (auto simp: execute_once_def dest: commit_dispatch_error split: option.splits if_splits)

lemma execute_attempts_error: "execute_attempts db rq as = (Inl err, db') \<Longrightarrow> db' = db"
proof (induction db rq as arbitrary: db' rule: execute_attempts.induct)
  case (2 db rq c u as)
  show ?case using 2 execute_once_error [of db db rq c u]
    by (auto split: prod.splits sum.splits dispatch_error.splits)
qed simp

lemma execute_attempts_once:
  assumes "execute_attempts db rq as = (Inr res, db')"
  shows "\<exists>c u. (c, u) \<in> set as \<and> execute_once db db rq c u = (Inr res, db')"
  using assms
proof (induction db rq as arbitrary: db' rule: execute_attempts.induct)
  case (2 db rq c u as)
  show ?case using 2 execute_once_error [of db db rq c u]
    by (auto split: prod.splits sum.splits dispatch_error.splits) blast+
qed simp

lemma execute_attempt_list_not_Nil: "execute_attempt_list rq \<noteq> []"
  by (simp add: execute_attempt_list_def Let_def)

lemma execute_once_stored:
  assumes "find_task rdb (dq_task_id rq) = Some task" "get_by_task_id rdb (dt_id task) = Some d"
  shows "execute_once rdb wdb rq c u =
    (Inr (stored_result d (dq_task_id rq) (dq_order_id rq) (dq_original_route_id rq) (dq_decision_reason rq)), wdb)"
  using assms by (simp add: execute_once_def)

lemma execute_stored:
  assumes "find_task db (dq_task_id rq) = Some task" "get_by_task_id db (dt_id task) = Some d"
  shows "execute db rq uuids =
    (Inr (stored_result d (dq_task_id rq) (dq_order_id rq) (dq_original_route_id rq) (dq_decision_reason rq)), db)"
proof -
  obtain c as where "execute_attempt_list rq = c # as" using execute_attempt_list_not_Nil by (cases "execute_attempt_list rq") auto
  then show ?thesis using execute_once_stored [OF assms]
    by (simp add: execute_def Let_def upt_conv_Cons del: upt_Suc)
qed

lemma first_match_append_last:
  "\<forall>x\<in>set xs. \<not> p x \<Longrightarrow> p y \<Longrightarrow> first_match p (xs @ [y]) = Some y"
  by (induction xs) auto

text \<open>A dispatch just written is the one its task finds, and it has the fields of the result.\<close>

lemma commit_dispatch_stored:
  assumes "commit_dispatch db v task rq c u = (Inr res, db')" "find_task db (dq_task_id rq) = Some task"
  shows "\<exists>d. get_by_task_id db' (dt_id task) = Some d \<and> find_task db' (dq_task_id rq) = Some task \<and>
    dr_dispatch_id res = Some (dp_id d) \<and> dr_dispatch_no res = Some (dp_dispatch_no d) \<and>
    dr_status res = dp_status d \<and> dr_executed res = (dp_status d \<noteq> ''REVIEW_REQUIRED'') \<and>
    dr_target_route_id res = dp_target_route_id d \<and> dr_target_vehicle_id res = dp_target_vehicle_id d \<and>
    dr_target_driver_id res = dp_target_driver_id d"
proof (cases "\<exists>vehicles. flush_vehicle v (db_vehicles db) = Some vehicles \<and>
    (let d = new_dispatch (db_next_dispatch_id db) u task rq c in unique_ok db d \<and> references_ok db d)")
  case True
  define d where "d = new_dispatch (db_next_dispatch_id db) u task rq c"
  have db': "db_dispatches db' = db_dispatches db @ [d]" "db_tasks db' = db_tasks db" "res = created_result d rq"
    "unique_ok db d" "dp_task_id d = Some (dt_id task)"
    using True assms(1) by (auto simp: commit_dispatch_def Let_def d_def new_dispatch_def)
  then have "get_by_task_id db' (dt_id task) = Some d"
    unfolding get_by_task_id_def db'(1) by (intro first_match_append_last) (auto simp: unique_ok_def)
  then show ?thesis using db' assms(2)
    by (auto simp: find_task_def created_result_def d_def new_dispatch_def Let_def dispatch_status_def)
next
  case False
  then have "read_idempotent_result db rq = Some res" "db' = db"
    using assms(1) by (auto simp: commit_dispatch_def Let_def split: option.splits if_splits)
  then show ?thesis using assms(2)
    by (auto simp: read_idempotent_result_def stored_result_def Let_def split: option.splits)
qed

lemma execute_once_stored_result:
  assumes "execute_once db db rq c u = (Inr res, db')"
  shows "\<exists>task d. find_task db' (dq_task_id rq) = Some task \<and> get_by_task_id db' (dt_id task) = Some d \<and>
    dr_dispatch_id res = Some (dp_id d) \<and> dr_dispatch_no res = Some (dp_dispatch_no d) \<and>
    dr_status res = dp_status d \<and> dr_executed res = (dp_status d \<noteq> ''REVIEW_REQUIRED'') \<and>
    dr_target_route_id res = dp_target_route_id d \<and> dr_target_vehicle_id res = dp_target_vehicle_id d \<and>
    dr_target_driver_id res = dp_target_driver_id d"
proof -
  obtain task where t: "find_task db (dq_task_id rq) = Some task"
    using assms by (auto simp: execute_once_def split: option.splits)
  show ?thesis
  proof (cases "get_by_task_id db (dt_id task)")
    case (Some d)
    then show ?thesis using execute_once_stored [OF t Some] assms t by (auto simp: stored_result_def Let_def)
  next
    case None
    then obtain v where "commit_dispatch db v task rq c u = (Inr res, db')"
      using assms t by (auto simp: execute_once_def split: option.splits if_splits)
    then show ?thesis using commit_dispatch_stored t by blast
  qed
qed

text \<open>A candidate whose vehicle a worker that is alone can reserve.\<close>

definition reservable :: "dispatch_db \<Rightarrow> pydict \<Rightarrow> bool" where
  "reservable db c \<longleftrightarrow>
     (\<exists>vid v. d_text (Some c) ''vehicle_id'' = Some vid \<and> find_vehicle db vid = Some v \<and>
        vr_status v = ''AVAILABLE'') \<and> d_text (Some c) ''driver_id'' \<noteq> None"

lemma flush_alone: "v \<in> set rows \<Longrightarrow> \<exists>rows'. flush_vehicle (Some v) rows = Some rows' \<and>
    map vr_vehicle_id rows' = map vr_vehicle_id rows"
  by (auto simp: flush_vehicle_def comp_def if_distrib cong: if_cong)

lemma find_vehicle_flushed:
  assumes "find_vehicle db vid = Some v" "flush_vehicle (Some v) (db_vehicles db) = Some rows" "db_vehicles db' = rows"
  shows "\<exists>w. find_vehicle db' vid = Some w \<and> vr_status w = ''RESERVED'' \<and> vr_version w = vr_version v + 1"
proof -
  define g :: "vehicle_row \<Rightarrow> vehicle_row" where "g = (\<lambda>r. if vr_id r = vr_id v \<and> vr_version r = vr_version v
      then r\<lparr>vr_status := ''RESERVED'', vr_version := vr_version r + 1\<rparr> else r)"
  have "vr_vehicle_id (g r) = vr_vehicle_id r" for r by (simp add: g_def)
  then have "first_match (\<lambda>r. vr_vehicle_id r = vid) (map g xs) =
      map_option g (first_match (\<lambda>r. vr_vehicle_id r = vid) xs)" for xs
    by (induction xs) auto
  moreover have "db_vehicles db' = map g (db_vehicles db)"
    using assms(2,3) by (simp add: flush_vehicle_def g_def split: if_splits)
  ultimately have "find_vehicle db' vid = Some (g v)" using assms(1) by (simp add: find_vehicle_def)
  then show ?thesis by (simp add: g_def)
qed

lemma execute_once_blocked:
  assumes "find_task db (dq_task_id rq) = Some task" "get_by_task_id db (dt_id task) = None" "\<not> reservable db c"
  shows "execute_once db db rq (Some c) u = (Inl CandidateReservationConflict, db)"
  using assms
  by (cases "d_text (Some c) ''vehicle_id''"; cases "Option.bind (d_text (Some c) ''vehicle_id'') (find_vehicle db)")
     (auto simp: execute_once_def reservable_def)

lemma execute_once_reserves:
  assumes "find_task db (dq_task_id rq) = Some task" "get_by_task_id db (dt_id task) = None" "reservable db c"
  shows "case execute_once db db rq (Some c) u of
      (Inl err, db') \<Rightarrow> err = IntegrityError \<and> db' = db
    | (Inr res, db') \<Rightarrow> dr_target_vehicle_id res = d_text (Some c) ''vehicle_id'' \<and>
        dr_target_driver_id res = d_text (Some c) ''driver_id'' \<and>
        (\<exists>vid v w. d_text (Some c) ''vehicle_id'' = Some vid \<and> find_vehicle db vid = Some v \<and>
           find_vehicle db' vid = Some w \<and> vr_status w = ''RESERVED'' \<and> vr_version w = vr_version v + 1)"
proof -
  obtain vid v where v: "d_text (Some c) ''vehicle_id'' = Some vid" "find_vehicle db vid = Some v"
    "vr_status v = ''AVAILABLE''" "d_text (Some c) ''driver_id'' \<noteq> None"
    using assms(3) by (auto simp: reservable_def)
  obtain rows where rows: "flush_vehicle (Some v) (db_vehicles db) = Some rows"
    using flush_alone find_vehicle_mem [OF v(2)] by blast
  have none: "read_idempotent_result db rq = None" using assms(1,2) by (simp add: read_idempotent_result_def)
  have "execute_once db db rq (Some c) u = commit_dispatch db (Some v) task rq (Some c) u"
    using assms(1,2) v by (auto simp: execute_once_def)
  then show ?thesis
    using rows none v find_vehicle_flushed [OF v(2) rows]
    by (auto simp: commit_dispatch_def Let_def created_result_def new_dispatch_def split: prod.splits)
qed

lemma execute_attempts_first:
  assumes task: "find_task db (dq_task_id rq) = Some task" "get_by_task_id db (dt_id task) = None"
    and "length us = length cs"
  shows "case first_match (reservable db) cs of
      None \<Rightarrow> execute_attempts db rq (zip (map Some cs) us) = (Inl VehicleReservationConflict, db)
    | Some c \<Rightarrow>
        (case execute_attempts db rq (zip (map Some cs) us) of
           (Inl err, db') \<Rightarrow> err = IntegrityError \<and> db' = db
         | (Inr res, db') \<Rightarrow> dr_target_vehicle_id res = d_text (Some c) ''vehicle_id'' \<and>
             dr_target_driver_id res = d_text (Some c) ''driver_id'' \<and>
             (\<exists>vid v w. d_text (Some c) ''vehicle_id'' = Some vid \<and> find_vehicle db vid = Some v \<and>
                find_vehicle db' vid = Some w \<and> vr_status w = ''RESERVED'' \<and> vr_version w = vr_version v + 1))"
  using assms(3)
proof (induction cs arbitrary: us)
  case (Cons c cs)
  then obtain u us' where us: "us = u # us'" "length us' = length cs" by (cases us) auto
  show ?case
  proof (cases "reservable db c")
    case True
    then show ?thesis using execute_once_reserves [OF task True, of u] us
      by (auto split: prod.splits sum.splits)
  next
    case False
    have "execute_attempts db rq (zip (map Some (c # cs)) us) = execute_attempts db rq (zip (map Some cs) us')"
      using execute_once_blocked [OF task False, of u] us by simp
    moreover have "first_match (reservable db) (c # cs) = first_match (reservable db) cs" using False by simp
    ultimately show ?thesis using Cons.IH [OF us(2)] by (simp only:)
  qed
qed simp

section \<open>A small database for evaluation\<close>

definition sample_row :: "int \<Rightarrow> string \<Rightarrow> vehicle_row" where
  "sample_row i vid =
     \<lparr>vr_id = i, vr_vehicle_id = vid, vr_plate_no = vid, vr_vehicle_type = ''VAN'', vr_max_load_kg = 1000,
      vr_current_load_kg = 100, vr_cargo_capability = ''GENERAL'', vr_gross_weight_tons = 2,
      vr_status = ''AVAILABLE'', vr_fault_code = None, vr_status_reason = None, vr_status_changed_at = None,
      vr_available_after = None, vr_maintenance_order_no = None, vr_current_node_id = ''A'',
      vr_assigned_driver_id = Some vid, vr_version = 1\<rparr>"

definition sample_db :: dispatch_db where
  "sample_db =
     \<lparr>db_orders = [7], db_nodes = [''A'', ''B'', ''C''],
      db_tasks = [\<lparr>dt_id = 1, dt_task_id = ''T1'', dt_order_id = 7, dt_anomaly_id = None, dt_status = ''RUNNING'',
        dt_idempotency_key = ''K1'', dt_assignee_subject_id = None, dt_started_at = None, dt_completed_at = None\<rparr>],
      db_vehicles = [sample_row 1 ''V1'', sample_row 2 ''V2''], db_dispatches = [], db_evidence = [],
      db_next_dispatch_id = 1, db_next_evidence_id = 1\<rparr>"

definition sample_candidate :: "string \<Rightarrow> pydict" where
  "sample_candidate vid = [(''vehicle_id'', PStr vid), (''driver_id'', PStr vid), (''eligible'', PBool True)]"

definition sample_dispatch :: dispatch_request where
  "sample_dispatch =
     \<lparr>dq_task_id = ''T1'', dq_order_id = 7, dq_original_route_id = ''R1'', dq_target_route_id = Some ''R2'',
      dq_decision = ''REROUTE'', dq_decision_reason = ''blocked'', dq_fallback_used = False,
      dq_fallback_reason = None, dq_requires_manual_review = False, dq_recommended_action = None,
      dq_analysis_mode = None, dq_issue_subtype = None, dq_original_vehicle_id = Some ''V1'',
      dq_candidate_vehicles = [sample_candidate ''V2''], dq_transfer_node_id = Some ''B'',
      dq_fleet_evidence = None, dq_route_evidence = None\<rparr>"

definition sample_dispatched :: "(dispatch_error + dispatch_result) \<times> dispatch_db" where
  "sample_dispatched = execute_once sample_db sample_db sample_dispatch (Some (sample_candidate ''V2'')) ''u0''"

section \<open>Properties of the dispatch service\<close>

text \<open>
  C6. Whatever number of workers dispatch at the same time and however their attempts interleave, no
  vehicle is given away twice: the dispatches written since the start target pairwise different vehicles, each of which was
  available at the start and is reserved now, every other vehicle is untouched, and no task has two dispatches.
\<close>

theorem no_double_reservation:
  assumes "vehicle_table_ok db0" and "distinct (task_links (db_dispatches db0))"
    and "dispatch_step\<^sup>*\<^sup>* (db0, []) (db, ps)"
  shows "\<exists>new. db_dispatches db = db_dispatches db0 @ new \<and> distinct (target_vehicles new) \<and>
    distinct (task_links (db_dispatches db)) \<and>
    list_all2 (\<lambda>r0 r. if vr_vehicle_id r0 \<in> set (target_vehicles new)
         then vr_status r0 = ''AVAILABLE'' \<and> r = r0\<lparr>vr_status := ''RESERVED'', vr_version := vr_version r0 + 1\<rparr>
         else r = r0) (db_vehicles db0) (db_vehicles db)"
proof -
  obtain R new where I: "dispatch_inv_at db0 R new (db, ps)"
    using dispatch_inv_reachable [OF assms] by (auto simp: dispatch_inv_def)
  have "vr_vehicle_id r \<in> set (target_vehicles new) \<longleftrightarrow> vr_id r \<in> R" if "r \<in> set (db_vehicles db0)" for r
    using I that assms(1) distinct_map_eq [of vr_vehicle_id "db_vehicles db0"]
    by (auto simp: dispatch_inv_at_def reserved_ids_def vehicle_table_ok_def)
  then have "list_all2 (\<lambda>r0 r. if vr_vehicle_id r0 \<in> set (target_vehicles new)
         then vr_status r0 = ''AVAILABLE'' \<and> r = r0\<lparr>vr_status := ''RESERVED'', vr_version := vr_version r0 + 1\<rparr>
         else r = r0) (db_vehicles db0) (db_vehicles db)"
    using I by (auto simp: dispatch_inv_at_def reserve_rows_def list_all2_map2 intro!: list.rel_refl_strong)
  then show ?thesis using I by (auto simp: dispatch_inv_at_def)
qed

theorem no_double_reservation_witness:
  "\<exists>new. db_dispatches (snd sample_dispatched) = new \<and> target_vehicles new = [''V2'']"
proof -
  let ?p = "\<lparr>pa_request = sample_dispatch, pa_candidate = Some (sample_candidate ''V2''), pa_uuid = ''u0'',
    pa_read_db = sample_db\<rparr>"
  have "dispatch_step (sample_db, []) (sample_db, [?p])" by (rule attempt_read) simp
  moreover have "dispatch_step (sample_db, [?p]) (snd sample_dispatched, remove1 ?p [?p])"
    by (rule attempt_flush [where res = "fst sample_dispatched"]) (simp_all add: sample_dispatched_def)
  ultimately have "dispatch_step\<^sup>*\<^sup>* (sample_db, []) (snd sample_dispatched, remove1 ?p [?p])" by auto
  moreover have "vehicle_table_ok sample_db" "distinct (task_links (db_dispatches sample_db))" by code_simp+
  moreover have "target_vehicles (db_dispatches (snd sample_dispatched)) = [''V2'']" "db_dispatches sample_db = []"
    by code_simp+
  ultimately show ?thesis using no_double_reservation [of sample_db "snd sample_dispatched"] by force
qed



text \<open>
  For a task without a dispatch and with eligible candidates, a worker that is alone reserves the first of
  the two best candidates whose vehicle is available and has a driver: its vehicle becomes \<open>RESERVED\<close> under the next
  version and the result names this vehicle and driver. If neither can be reserved the call
  raises \<open>VehicleReservationConflict\<close>, and on every error the database is unchanged.
\<close>

theorem execute_reserves_first:
  assumes task: "find_task db (dq_task_id rq) = Some task" "get_by_task_id db (dt_id task) = None"
    and elig: "ranked_eligible_candidates (dq_candidate_vehicles rq) \<noteq> []"
  shows "case first_match (reservable db) (take 2 (ranked_eligible_candidates (dq_candidate_vehicles rq))) of
      None \<Rightarrow> execute db rq uuids = (Inl VehicleReservationConflict, db)
    | Some c \<Rightarrow>
        (case execute db rq uuids of
           (Inl err, db') \<Rightarrow> err = IntegrityError \<and> db' = db
         | (Inr res, db') \<Rightarrow> dr_target_vehicle_id res = d_text (Some c) ''vehicle_id'' \<and>
             dr_target_driver_id res = d_text (Some c) ''driver_id'' \<and>
             (\<exists>vid v w. d_text (Some c) ''vehicle_id'' = Some vid \<and> find_vehicle db vid = Some v \<and>
                find_vehicle db' vid = Some w \<and> vr_status w = ''RESERVED'' \<and> vr_version w = vr_version v + 1))"
proof -
  have attempts: "execute db rq uuids = execute_attempts db rq
      (zip (map Some cs) (map uuids [0..<length cs]))" if "cs = take 2 (ranked_eligible_candidates (dq_candidate_vehicles rq))" for cs
    using that elig by (simp add: execute_def execute_attempt_list_def Let_def)
  show ?thesis unfolding attempts [OF refl] by (rule execute_attempts_first [OF task]) simp
qed

theorem execute_reserves_first_witness:
  "fst (execute sample_db sample_dispatch (\<lambda>_. ''u0'')) \<noteq> Inl VehicleReservationConflict \<and>
   first_match (reservable sample_db) [sample_candidate ''V2''] = Some (sample_candidate ''V2'')"
proof -
  have c: "take 2 (ranked_eligible_candidates (dq_candidate_vehicles sample_dispatch)) = [sample_candidate ''V2'']"
    "ranked_eligible_candidates (dq_candidate_vehicles sample_dispatch) \<noteq> []" by code_simp+
  have r: "first_match (reservable sample_db) [sample_candidate ''V2''] = Some (sample_candidate ''V2'')"
  proof -
    have "d_text (Some (sample_candidate ''V2'')) ''vehicle_id'' = Some ''V2''"
      "d_text (Some (sample_candidate ''V2'')) ''driver_id'' = Some ''V2''"
      "find_vehicle sample_db ''V2'' = Some (sample_row 2 ''V2'')" "vr_status (sample_row 2 ''V2'') = ''AVAILABLE''"
      by code_simp+
    then show ?thesis by (simp add: reservable_def)
  qed
  have "find_task sample_db (dq_task_id sample_dispatch) = Some (hd (db_tasks sample_db))"
    "get_by_task_id sample_db (dt_id (hd (db_tasks sample_db))) = None" by code_simp+
  from execute_reserves_first [OF this c(2), of "\<lambda>_. ''u0''"] show ?thesis
    using r unfolding c(1) by (cases "execute sample_db sample_dispatch (\<lambda>_. ''u0'')") (auto split: sum.splits)
qed

end
