(* ===== verification/Audit_Service.thy ===== *)
theory Audit_Service
  imports Dispatch_Service
begin

text \<open>
  The audit component, \<open>AuditService\<close> of \<open>backend/app/audit/service.py\<close>: it checks the evidence a run
  has left in the graph state against the dispatch that was written, and stores one audit record per task and dispatch.

  The evidence is an untyped mapping, so the model keeps every type test of the source, and the two ways in
  which its tests can raise: a membership test \<open>x in {...}\<close> on an unhashable value, and an order
  comparison with a decimal NaN. The sequence of early returns of \<open>_evaluate\<close> is a list of stages, each of which
  updates the checks and may give the verdict.
\<close>

section \<open>Data: models.py\<close>

record audit_checks =
  ac_route_consistency :: bool
  ac_memory_consistency :: bool
  ac_fallback_consistency :: bool
  ac_dispatch_execution :: bool
  ac_vehicle_assignment :: bool
  ac_capacity_constraint :: bool
  ac_route_connectivity :: bool
  ac_blocked_edge_exclusion :: bool

record audit_result =
  ar_audit_status :: string
  ar_passed :: bool
  ar_reason :: string
  ar_checks :: audit_checks
  ar_dispatch_id :: "int option"
  ar_requires_manual_review :: bool
  ar_audit_record_id :: "int option"

record audit_record =
  au_id :: int
  au_task_id :: int
  au_dispatch_id :: int
  au_result :: string
  au_reason :: string
  au_evidence_json :: string

record audit_db =
  adb_tasks :: "task_row list"
  adb_dispatch_ids :: "int list"
  adb_records :: "audit_record list"
  adb_next_id :: int

datatype audit_error = AuditPersistenceError string | UnhashableType | DecimalComparison

text \<open>Status, reason and whether a person has to look.\<close>

type_synonym verdict = "string \<times> string \<times> bool"
type_synonym stage = "audit_checks \<Rightarrow> audit_error + audit_checks \<times> verdict option"

section \<open>Reading the evidence\<close>

text \<open>\<open>value in {...}\<close> for a set of strings.\<close>

definition in_strings :: "pyval \<Rightarrow> string list \<Rightarrow> audit_error + bool" where
  "in_strings v allowed =
     (case v of PList _ \<Rightarrow> Inl UnhashableType | PDict _ \<Rightarrow> Inl UnhashableType
      | PStr s \<Rightarrow> Inr (s \<in> set allowed) | _ \<Rightarrow> Inr False)"

text \<open>\<open>_decimal\<close>: text outside the grammar of \<open>Decimal\<close> is \<open>None\<close>.\<close>

definition decimal_of :: "pyval \<Rightarrow> pydec option" where
  "decimal_of v = (if v = PNone then None else decimal_of_string (py_str v))"

text \<open>\<open>a >= b\<close> on decimals; a comparison with a NaN raises.\<close>

fun decimal_ge :: "pydec \<Rightarrow> pydec \<Rightarrow> audit_error + bool" where
  "decimal_ge NaN _ = Inl DecimalComparison"
| "decimal_ge _ NaN = Inl DecimalComparison"
| "decimal_ge (Finite x) (Finite y) = Inr (y \<le> x)"
| "decimal_ge (Infinite neg) (Finite y) = Inr (\<not> neg)"
| "decimal_ge (Finite x) (Infinite neg) = Inr neg"
| "decimal_ge (Infinite a) (Infinite b) = Inr (\<not> a \<or> b)"

definition has_memory :: "pyval \<Rightarrow> string \<Rightarrow> bool" where
  "has_memory value memory_id =
     (case value of PList vs \<Rightarrow> list_ex (\<lambda>d. dget d ''memory_id'' = PStr memory_id) (mappings_of vs) | _ \<Rightarrow> False)"

definition candidate_of :: "pyval \<Rightarrow> string option \<Rightarrow> pydict" where
  "candidate_of value vehicle_id =
     (case (vehicle_id, value) of
        (Some _, PList vs) \<Rightarrow>
          (case first_match (\<lambda>d. text_of (dget d ''vehicle_id'') = vehicle_id) (mappings_of vs) of
             None \<Rightarrow> [] | Some d \<Rightarrow> d)
      | _ \<Rightarrow> [])"

text \<open>The dictionary keeps the last edge of each id.\<close>

definition road_edges_by_id :: "pyval \<Rightarrow> string \<rightharpoonup> pydict" where
  "road_edges_by_id road_edges =
     (case road_edges of
        PList vs \<Rightarrow>
          map_of (rev (concat (map (\<lambda>d. case text_of (dget d ''edge_id'') of None \<Rightarrow> [] | Some i \<Rightarrow> [(i, d)])
                                 (mappings_of vs))))
      | _ \<Rightarrow> Map.empty)"

fun connects :: "(string \<rightharpoonup> pydict) \<Rightarrow> string list \<Rightarrow> string list \<Rightarrow> bool" where
  "connects edges (n # m # ns) (edge_id # edge_ids) \<longleftrightarrow>
     (case edges edge_id of
        None \<Rightarrow> False
      | Some edge \<Rightarrow>
          let start = text_of (dget edge ''from_node_id''); stop = text_of (dget edge ''to_node_id'');
              forward = (start = Some n \<and> stop = Some m);
              backward = (dget edge ''bidirectional'' = PBool True \<and> stop = Some n \<and> start = Some m)
          in (forward \<or> backward) \<and> connects edges (m # ns) edge_ids)"
| "connects edges _ _ \<longleftrightarrow> True"

definition path_connects :: "string list \<Rightarrow> string list \<Rightarrow> pyval \<Rightarrow> bool" where
  "path_connects nodes edge_ids road_edges \<longleftrightarrow>
     edge_ids \<noteq> [] \<and> length nodes = length edge_ids + 1 \<and>
     connects (road_edges_by_id road_edges) nodes edge_ids"

fun all_open :: "(string \<rightharpoonup> pydict) \<Rightarrow> string list \<Rightarrow> audit_error + bool" where
  "all_open edges [] = Inr True"
| "all_open edges (edge_id # edge_ids) =
     (case edges edge_id of
        None \<Rightarrow> Inr False
      | Some edge \<Rightarrow>
          res_bind (in_strings (dget edge ''status'') [''OPEN'', ''CONGESTED'', ''RESTRICTED''])
            (\<lambda>ok. if ok then all_open edges edge_ids else Inr False))"

definition path_edges_are_open :: "string list \<Rightarrow> pyval \<Rightarrow> audit_error + bool" where
  "path_edges_are_open edge_ids road_edges =
     (if edge_ids = [] then Inr False else all_open (road_edges_by_id road_edges) edge_ids)"

section \<open>The stages of the evaluation\<close>

definition issue_of :: "pydict \<Rightarrow> string option" where
  "issue_of ev = py_or (text_of (dget ev ''identified_issue'')) (text_of (dget ev ''anomaly_type''))"

definition review_stage :: "pydict \<Rightarrow> string option \<Rightarrow> stage" where
  "review_stage ev decision checks =
     Inr (checks,
       if decision = Some ''MANUAL_REVIEW'' \<or> dget ev ''requires_manual_review'' = PBool True \<or>
          text_of (dget ev ''error_code'') \<in>
            {Some ''DISPATCH_CONFLICT'', Some ''DISPATCH_VERSION_CONFLICT'', Some ''VEHICLE_RESERVATION_CONFLICT''}
       then Some (''REVIEW_REQUIRED'', ''Dispatch requires manual review.'', True) else None)"

definition assignment_ok :: "pydict \<Rightarrow> audit_error + bool" where
  "assignment_ok ev =
     (let dispatch = mapping_of (dget ev ''dispatch_result'');
          original_vehicle_id = py_or (text_of (dget dispatch ''original_vehicle_id'')) (text_of (dget ev ''vehicle_id''));
          target_vehicle_id = text_of (dget dispatch ''target_vehicle_id'');
          target_driver_id = text_of (dget dispatch ''target_driver_id'');
          selected_vehicle_id = text_of (dget ev ''selected_vehicle_id'');
          selected_driver_id = text_of (dget ev ''selected_driver_id'');
          candidate = candidate_of (dget ev ''candidate_vehicles'') target_vehicle_id;
          candidate_vehicle_id = text_of (dget candidate ''vehicle_id'');
          candidate_driver_id = text_of (dget candidate ''driver_id'')
      in if original_vehicle_id \<noteq> None \<and> target_vehicle_id \<noteq> None \<and> target_vehicle_id \<noteq> original_vehicle_id \<and>
            candidate_vehicle_id = selected_vehicle_id \<and> selected_vehicle_id = target_vehicle_id \<and>
            candidate_driver_id = selected_driver_id \<and> selected_driver_id = target_driver_id \<and>
            dget candidate ''vehicle_status'' = PStr ''AVAILABLE''
         then res_bind (in_strings (dget candidate ''driver_status'') [''ON_DUTY'', ''AVAILABLE''])
                (\<lambda>on_duty. Inr (on_duty \<and> dget candidate ''eligible'' = PBool True \<and>
                             dget candidate ''exclusion_reasons'' = PList []))
         else Inr False)"

definition capacity_ok :: "pydict \<Rightarrow> audit_error + bool" where
  "capacity_ok ev =
     (let dispatch = mapping_of (dget ev ''dispatch_result'');
          candidate = candidate_of (dget ev ''candidate_vehicles'') (text_of (dget dispatch ''target_vehicle_id''));
          cargo_weight = decimal_of (dget ev ''cargo_weight_kg'');
          remaining_capacity = decimal_of (if dget candidate ''remaining_capacity_kg'' \<noteq> PNone
            then dget candidate ''remaining_capacity_kg'' else dget candidate ''remaining_load_kg'');
          cold = (text_of (dget ev ''cargo_type'') \<noteq> Some ''COLD_CHAIN'' \<or>
                  text_of (dget candidate ''cargo_capability'') = Some ''COLD_CHAIN'')
      in case (cargo_weight, remaining_capacity) of
           (Some w, Some r) \<Rightarrow> res_bind (decimal_ge r w) (\<lambda>ge. Inr (ge \<and> cold))
         | _ \<Rightarrow> Inr False)"

definition breakdown_stage :: "pydict \<Rightarrow> stage" where
  "breakdown_stage ev checks =
     (if issue_of ev \<noteq> Some ''VEHICLE_BREAKDOWN'' then Inr (checks, None)
      else res_bind (assignment_ok ev) (\<lambda>assignment. res_bind (capacity_ok ev) (\<lambda>capacity.
        Inr (checks\<lparr>ac_vehicle_assignment := assignment, ac_capacity_constraint := capacity\<rparr>,
          if \<not> assignment then Some (''REJECTED'', ''Replacement vehicle assignment is inconsistent.'', True)
          else if \<not> capacity
          then Some (''REJECTED'', ''Replacement vehicle capacity or cargo capability is invalid.'', True)
          else None))))"

definition road_stage :: "pydict \<Rightarrow> stage" where
  "road_stage ev checks =
     (let blocked_edge_ids = string_list (dget ev ''blocked_edge_ids'');
          path = mapping_of (dget ev ''recommended_path'');
          path_edge_ids = string_list (dget path ''edge_ids'');
          path_node_ids = string_list (dget path ''node_ids'');
          road_edges = dget ev ''road_network_edges'';
          connected = path_connects path_node_ids path_edge_ids road_edges
      in if issue_of ev \<noteq> Some ''ROAD_BLOCKED'' \<and> blocked_edge_ids = [] then Inr (checks, None)
         else res_bind (if set path_edge_ids \<inter> set blocked_edge_ids = {}
                        then path_edges_are_open path_edge_ids road_edges else Inr False) (\<lambda>excluded.
           Inr (checks\<lparr>ac_route_connectivity := connected, ac_blocked_edge_exclusion := excluded\<rparr>,
             if \<not> connected then Some (''REJECTED'', ''Recommended path is not connected in the road network.'', True)
             else if \<not> excluded then Some (''REJECTED'', ''Recommended path includes a blocked edge.'', True)
             else None)))"

definition no_route_stage :: "string option \<Rightarrow> bool \<Rightarrow> stage" where
  "no_route_stage decision executed checks =
     Inr (if decision = Some ''NO_SAFE_ROUTE'' \<and> executed
          then (checks\<lparr>ac_route_consistency := False\<rparr>,
                Some (''REJECTED'', ''No-safe-route decision cannot execute a dispatch.'', True))
          else (checks, None))"

definition reroute_stage :: "pydict \<Rightarrow> string option \<Rightarrow> bool \<Rightarrow> string option \<Rightarrow> stage" where
  "reroute_stage ev decision executed target_route_id checks =
     (if decision \<noteq> Some ''REROUTE'' then Inr (checks, None)
      else let recommended_route = text_of (dget ev ''recommended_route'');
               ok = (recommended_route \<noteq> None \<and> executed \<and> target_route_id = recommended_route)
           in Inr (checks\<lparr>ac_route_consistency := ok\<rparr>,
                if ok then None else Some (''REJECTED'', ''Recommended route and dispatch target do not match.'', True)))"

definition keep_stage :: "pydict \<Rightarrow> string option \<Rightarrow> bool \<Rightarrow> string option \<Rightarrow> stage" where
  "keep_stage ev decision executed target_route_id checks =
     (if decision \<noteq> Some ''KEEP_ROUTE'' then Inr (checks, None)
      else let ok = (executed \<and> target_route_id = text_of (dget ev ''route_id''))
           in Inr (checks\<lparr>ac_route_consistency := ok\<rparr>,
                if ok then None
                else Some (''REJECTED'', ''Keep-route dispatch target does not match the original route.'', True)))"

definition memory_stage :: "pydict \<Rightarrow> stage" where
  "memory_stage ev checks =
     (if dget ev ''memory_adopted'' \<noteq> PBool True then Inr (checks, None)
      else let ok = (case text_of (dget ev ''adopted_memory_id'') of
                       None \<Rightarrow> False | Some memory_id \<Rightarrow> has_memory (dget ev ''memory_results'') memory_id)
           in Inr (checks\<lparr>ac_memory_consistency := ok\<rparr>,
                if ok then None else Some (''REJECTED'', ''Adopted memory is absent from recalled memory results.'', True)))"

definition fallback_stage :: "pydict \<Rightarrow> stage" where
  "fallback_stage ev checks =
     (if dget ev ''fallback_used'' \<noteq> PBool True then Inr (checks, None)
      else let ok = (text_of (dget ev ''fallback_reason'') \<noteq> None)
           in Inr (checks\<lparr>ac_fallback_consistency := ok\<rparr>,
                if ok then None else Some (''REJECTED'', ''Fallback dispatch requires a fallback reason.'', True)))"

fun run_stages :: "stage list \<Rightarrow> audit_checks \<Rightarrow> audit_error + audit_checks \<times> verdict" where
  "run_stages [] checks = Inr (checks, (''APPROVED'', ''Audit checks passed.'', False))"
| "run_stages (s # ss) checks =
     res_bind (s checks) (\<lambda>(checks', v). case v of Some verdict \<Rightarrow> Inr (checks', verdict) | None \<Rightarrow> run_stages ss checks')"

definition audit_stages :: "pydict \<Rightarrow> string option \<Rightarrow> bool \<Rightarrow> string option \<Rightarrow> stage list" where
  "audit_stages ev decision executed target_route_id =
     [review_stage ev decision, breakdown_stage ev, road_stage ev, no_route_stage decision executed,
      reroute_stage ev decision executed target_route_id, keep_stage ev decision executed target_route_id,
      memory_stage ev, fallback_stage ev]"

definition audit_evaluate :: "pydict \<Rightarrow> string option \<Rightarrow> bool \<Rightarrow> string option \<Rightarrow> audit_checks \<Rightarrow>
    audit_error + audit_checks \<times> verdict" where
  "audit_evaluate ev decision executed target_route_id checks =
     run_stages (audit_stages ev decision executed target_route_id) checks"

definition initial_checks :: "bool \<Rightarrow> audit_checks" where
  "initial_checks executed =
     \<lparr>ac_route_consistency = True, ac_memory_consistency = True, ac_fallback_consistency = True,
      ac_dispatch_execution = executed, ac_vehicle_assignment = True, ac_capacity_constraint = True,
      ac_route_connectivity = True, ac_blocked_edge_exclusion = True\<rparr>"

section \<open>The stored evidence\<close>

definition entity_id :: "pyval \<Rightarrow> string option" where
  "entity_id value =
     (case value of PDict d \<Rightarrow> (case dget d ''entity_id'' of PStr s \<Rightarrow> Some s | _ \<Rightarrow> None) | _ \<Rightarrow> None)"

text \<open>An entity id that is present and not empty.\<close>

definition truthy_entity :: "pyval \<Rightarrow> string option" where
  "truthy_entity value = py_or (entity_id value) None"

definition fact_texts :: "pyval \<Rightarrow> string list" where
  "fact_texts value =
     (case value of
        PList vs \<Rightarrow>
          concat (map (\<lambda>d. case (truthy_entity (dget d ''source''), text_of (dget d ''relation_type''),
                               truthy_entity (dget d ''target'')) of
                             (Some source, Some relation, Some target) \<Rightarrow> [source @ ''|'' @ relation @ ''|'' @ target]
                           | _ \<Rightarrow> []) (mappings_of (take 10 vs)))
      | _ \<Rightarrow> [])"

definition path_texts :: "pyval \<Rightarrow> string list" where
  "path_texts value =
     (case value of
        PList vs \<Rightarrow>
          concat (map (\<lambda>d. case dget d ''entities'' of
                             PList es \<Rightarrow>
                               (let ids = concat (map (\<lambda>e. case truthy_entity e of None \<Rightarrow> [] | Some i \<Rightarrow> [i]) es)
                                in if ids = [] then [] else [join ''>'' ids])
                           | _ \<Rightarrow> []) (mappings_of (take 5 vs)))
      | _ \<Rightarrow> [])"

definition audit_compact_path :: "pyval \<Rightarrow> pydict" where
  "audit_compact_path value =
     (let path = mapping_of value
      in [(''node_ids'', str_list (string_list (dget path ''node_ids''))),
          (''edge_ids'', str_list (string_list (dget path ''edge_ids'')))])"

text \<open>The two services hold the same code for a selected candidate and for the relevant edges.\<close>

definition audit_selected_candidate :: "pydict \<Rightarrow> pydict" where
  "audit_selected_candidate candidate = compact_selected_candidate candidate"

definition audit_relevant_edges :: "pyval \<Rightarrow> string set \<Rightarrow> pyval" where
  "audit_relevant_edges value relevant_edge_ids = compact_relevant_edges value relevant_edge_ids"

definition is_correlation_char :: "char \<Rightarrow> bool" where
  "is_correlation_char c \<longleftrightarrow>
     (let n = (of_char c :: nat)
      in 65 \<le> n \<and> n \<le> 90 \<or> 97 \<le> n \<and> n \<le> 122 \<or> 48 \<le> n \<and> n \<le> 57 \<or> n = 46 \<or> n = 95 \<or> n = 45)"

definition safe_correlation_id :: "pyval \<Rightarrow> string option" where
  "safe_correlation_id value =
     (case value of
        PStr s \<Rightarrow> if 1 \<le> length s \<and> length s \<le> 64 \<and> list_all is_correlation_char s then Some s else None
      | _ \<Rightarrow> None)"

definition evidence_candidates :: "pydict \<Rightarrow> pydict list" where
  "evidence_candidates ev =
     (case dget ev ''candidate_vehicles'' of PList vs \<Rightarrow> mappings_of (take 20 vs) | _ \<Rightarrow> [])"

definition base_evidence :: "pydict \<Rightarrow> pydict" where
  "base_evidence ev =
     [(''graph_memory_used'', PBool (dget ev ''graph_memory_used'' = PBool True)),
      (''graph_memory_error'', opt_str (text_of (dget ev ''graph_memory_error''))),
      (''facts'', str_list (fact_texts (dget ev ''graph_memory_facts''))),
      (''paths'', str_list (path_texts (dget ev ''graph_memory_paths''))),
      (''analysis_mode'', opt_str (text_of (dget ev ''analysis_mode''))),
      (''identified_issue'', opt_str (text_of (dget ev ''identified_issue''))),
      (''issue_subtype'', opt_str (text_of (dget ev ''issue_subtype''))),
      (''environment_risk'', opt_str (text_of (dget ev ''environment_risk''))),
      (''capacity_status'', opt_str (text_of (dget (mapping_of (dget ev ''capacity_state'')) ''capacity_status''))),
      (''memory_hit_count'',
        PInt (case dget ev ''memory_results'' of PList vs \<Rightarrow> int (min (length vs) 10) | _ \<Rightarrow> 0))]"

definition candidate_evidence :: "pydict \<Rightarrow> pydict" where
  "candidate_evidence ev =
     (if dhas ev ''candidate_vehicles''
      then [(''candidate_vehicles'',
              PList (map (\<lambda>item. PDict [(''vehicle_id'', opt_str (text_of (dget item ''vehicle_id''))),
                                      (''score'', opt_str (number_text (dget item ''score''))),
                                      (''eligible'', PBool (dget item ''eligible'' = PBool True)),
                                      (''exclusion_reasons'', str_list (string_list (dget item ''exclusion_reasons'')))])
                       (evidence_candidates ev)))]
      else [])"

definition dispatch_evidence_keys :: "string list" where
  "dispatch_evidence_keys =
     [''dispatch_id'', ''target_route_id'', ''executed'', ''original_vehicle_id'', ''target_vehicle_id'', ''target_driver_id'']"

definition extended_evidence :: "pydict \<Rightarrow> pydict" where
  "extended_evidence ev =
     (if list_ex (dhas ev) [''candidate_vehicles'', ''cargo_weight_kg'', ''cargo_type'', ''road_network_edges'',
                            ''original_path'', ''pickup_route'']
      then let dispatch = mapping_of (dget ev ''dispatch_result'');
               target_vehicle_id = (case text_of (dget dispatch ''target_vehicle_id'') of
                                      None \<Rightarrow> text_of (dget ev ''selected_vehicle_id'') | Some v \<Rightarrow> Some v);
               selected = first_match (\<lambda>item. text_of (dget item ''vehicle_id'') = target_vehicle_id)
                            (evidence_candidates ev);
               text = (\<lambda>key. (key, opt_str (text_of (dget ev key))));
               flag = (\<lambda>key. (key, PBool (dget ev key = PBool True)))
           in [text ''task_id'', text ''decision'', text ''route_id'', text ''recommended_route'', text ''anomaly_type'',
               text ''vehicle_id'', text ''selected_vehicle_id'', text ''selected_driver_id'',
               (''cargo_weight_kg'', opt_str (number_text (dget ev ''cargo_weight_kg''))), text ''cargo_type'',
               flag ''fallback_used'', text ''fallback_reason'', flag ''memory_adopted'', text ''adopted_memory_id'',
               flag ''requires_manual_review'', text ''error_code'',
               (''dispatch_result'',
                 PDict (map (\<lambda>key. (key, dget dispatch key)) (filter (dhas dispatch) dispatch_evidence_keys))),
               (''selected_candidate'',
                 (case selected of None \<Rightarrow> PNone | Some c \<Rightarrow> PDict (audit_selected_candidate c)))]
      else [])"

definition path_sources :: "pydict \<Rightarrow> (string \<times> pyval) list" where
  "path_sources ev =
     filter (\<lambda>(key, value). value \<noteq> PNone \<or> dhas ev key)
       [(''original_path'', dget ev ''original_path''), (''recommended_path'', dget ev ''recommended_path''),
        (''pickup_path'', if dget ev ''pickup_path'' \<noteq> PNone then dget ev ''pickup_path'' else dget ev ''pickup_route'')]"

definition graph_evidence :: "pydict \<Rightarrow> pydict" where
  "graph_evidence ev =
     (let sources = path_sources ev;
          paths = map (\<lambda>(key, value). (key, PDict (audit_compact_path value))) sources;
          path_edges = concat (map (\<lambda>(key, value). string_list (dget (audit_compact_path value) ''edge_ids'')) sources);
          blocked = (if dhas ev ''blocked_edge_ids'' then string_list (dget ev ''blocked_edge_ids'') else []);
          correlation = (case safe_correlation_id (dget ev ''correlation_id'') of
                           None \<Rightarrow> [] | Some i \<Rightarrow> [(''correlation_id'', PStr i)])
      in foldl dupdate (base_evidence ev)
           [candidate_evidence ev, extended_evidence ev, paths,
            if dhas ev ''blocked_edge_ids'' then [(''blocked_edge_ids'', str_list blocked)] else [],
            if dhas ev ''road_network_edges''
            then [(''road_network_edges'',
                    audit_relevant_edges (dget ev ''road_network_edges'') (set path_edges \<union> set blocked))] else [],
            correlation])"

section \<open>Persistence and the service call\<close>

definition persist_if_possible :: "audit_db \<Rightarrow> string option \<Rightarrow> int option \<Rightarrow> string \<Rightarrow> string \<Rightarrow> string \<Rightarrow>
    audit_error + int option \<times> audit_db" where
  "persist_if_possible db task_id dispatch_id status reason evidence_json =
     (case (task_id, dispatch_id) of
        (Some tid, Some did) \<Rightarrow>
          (case first_match (\<lambda>t. dt_task_id t = tid) (adb_tasks db) of
             None \<Rightarrow> Inl (AuditPersistenceError ''Audit task was not found.'')
           | Some task \<Rightarrow>
               (case first_match (\<lambda>r. au_task_id r = dt_id task \<and> au_dispatch_id r = did) (adb_records db) of
                  Some existing \<Rightarrow> Inr (Some (au_id existing), db)
                | None \<Rightarrow>
                    if did \<notin> set (adb_dispatch_ids db)
                    then Inl (AuditPersistenceError ''Audit record persistence failed.'')
                    else Inr (Some (adb_next_id db),
                           db\<lparr>adb_records := adb_records db @
                                [\<lparr>au_id = adb_next_id db, au_task_id = dt_id task, au_dispatch_id = did,
                                  au_result = status, au_reason = reason, au_evidence_json = evidence_json\<rparr>],
                              adb_next_id := adb_next_id db + 1\<rparr>)))
      | _ \<Rightarrow> Inr (None, db))"

definition audit :: "audit_db \<Rightarrow> pydict \<Rightarrow> audit_error + audit_result \<times> audit_db" where
  "audit db ev =
     (let dispatch = mapping_of (dget ev ''dispatch_result'');
          decision = text_of (dget ev ''decision'');
          dispatch_id = integer_of (dget dispatch ''dispatch_id'');
          executed = (dget dispatch ''executed'' = PBool True);
          target_route_id = text_of (dget dispatch ''target_route_id'')
      in res_bind (audit_evaluate ev decision executed target_route_id (initial_checks executed))
           (\<lambda>(checks, status, reason, requires_manual_review).
              res_bind (persist_if_possible db (text_of (dget ev ''task_id'')) dispatch_id status reason
                          (json_dumps (PDict (graph_evidence ev))))
                (\<lambda>(record_id, db').
                   Inr (\<lparr>ar_audit_status = status, ar_passed = (status = ''APPROVED''), ar_reason = reason,
                         ar_checks = checks, ar_dispatch_id = dispatch_id,
                         ar_requires_manual_review = requires_manual_review, ar_audit_record_id = record_id\<rparr>, db'))))"

section \<open>What the stages guarantee\<close>

definition checks_hold :: "audit_checks \<Rightarrow> bool" where
  "checks_hold c \<longleftrightarrow> ac_route_consistency c \<and> ac_memory_consistency c \<and> ac_fallback_consistency c \<and>
     ac_vehicle_assignment c \<and> ac_capacity_constraint c \<and> ac_route_connectivity c \<and> ac_blocked_edge_exclusion c"

text \<open>
  A stage that passes keeps all checks true; one that gives a verdict asks for a person, and either rejects with a
  failed check or asks for review with none.
\<close>

definition stage_ok :: "stage \<Rightarrow> bool" where
  "stage_ok s \<longleftrightarrow> (\<forall>c c' v. checks_hold c \<longrightarrow> s c = Inr (c', v) \<longrightarrow>
     (case v of None \<Rightarrow> checks_hold c'
      | Some (status, reason, manual) \<Rightarrow> manual \<and>
          (status = ''REJECTED'' \<and> \<not> checks_hold c' \<or> status = ''REVIEW_REQUIRED'' \<and> checks_hold c')))"

lemma stage_ok_audit: "s \<in> set (audit_stages ev d x t) \<Longrightarrow> stage_ok s"
  by (auto simp: audit_stages_def stage_ok_def checks_hold_def review_stage_def breakdown_stage_def road_stage_def
      no_route_stage_def reroute_stage_def keep_stage_def memory_stage_def fallback_stage_def Let_def
      res_bind_eq_Inr split: if_splits)

lemma run_stages_verdict:
  assumes "\<And>s. s \<in> set ss \<Longrightarrow> stage_ok s" "checks_hold c" "run_stages ss c = Inr (c', status, reason, manual)"
  shows "status = ''APPROVED'' \<and> \<not> manual \<and> checks_hold c' \<or>
    manual \<and> (status = ''REJECTED'' \<and> \<not> checks_hold c' \<or> status = ''REVIEW_REQUIRED'' \<and> checks_hold c')"
  using assms
proof (induction ss arbitrary: c)
  case (Cons s ss)
  obtain c1 v where s: "s c = Inr (c1, v)"
    "(case v of Some w \<Rightarrow> Inr (c1, w) | None \<Rightarrow> run_stages ss c1) = Inr (c', status, reason, manual)"
    using Cons.prems(3) by (auto simp: res_bind_eq_Inr)
  have ok: "stage_ok s" using Cons.prems(1) by simp
  show ?case
  proof (cases v)
    case None
    then have "checks_hold c1" using ok s(1) Cons.prems(2) by (auto simp: stage_ok_def)
    then show ?thesis using Cons.IH [OF Cons.prems(1)] s(2) None by simp
  next
    case (Some w)
    then show ?thesis using ok s Cons.prems(2) unfolding stage_ok_def by fastforce
  qed
qed simp

text \<open>A stage decides a condition if it passes exactly when the condition holds; the run is approved exactly when all conditions hold.\<close>

definition decides :: "stage \<Rightarrow> bool \<Rightarrow> bool" where
  "decides s P \<longleftrightarrow> (\<forall>c c' v. s c = Inr (c', v) \<longrightarrow> (v = None \<longleftrightarrow> P))"

lemma run_stages_exact:
  assumes "list_all2 decides ss Ps" "\<And>s. s \<in> set ss \<Longrightarrow> stage_ok s" "checks_hold c" "run_stages ss c = Inr (c', status, reason, manual)"
  shows "status = ''APPROVED'' \<longleftrightarrow> list_all (\<lambda>P. P) Ps"
  using assms
proof (induction ss Ps arbitrary: c rule: list_all2_induct)
  case (Cons s ss P Ps)
  obtain c1 v where s: "s c = Inr (c1, v)"
    "(case v of Some w \<Rightarrow> Inr (c1, w) | None \<Rightarrow> run_stages ss c1) = Inr (c', status, reason, manual)"
    using Cons.prems(3) by (auto simp: res_bind_eq_Inr)
  have ok: "stage_ok s" using Cons.prems(1) by simp
  have P: "v = None \<longleftrightarrow> P" using Cons.hyps(1) s(1) by (simp add: decides_def)
  show ?case
  proof (cases v)
    case None
    then have "checks_hold c1" using ok s(1) Cons.prems(2) by (auto simp: stage_ok_def)
    then show ?thesis using Cons.IH [OF Cons.prems(1)] s(2) None P by simp
  next
    case (Some w)
    then have "status \<noteq> ''APPROVED''" using ok s Cons.prems(2) unfolding stage_ok_def by fastforce
    then show ?thesis using P Some by simp
  qed
qed simp

text \<open>The facts behind an approved replacement vehicle and an approved route.\<close>

definition breakdown_sound :: "pydict \<Rightarrow> bool" where
  "breakdown_sound ev \<longleftrightarrow>
     (\<exists>vs c vid dispatch original w r. dispatch = mapping_of (dget ev ''dispatch_result'') \<and>
        original = py_or (text_of (dget dispatch ''original_vehicle_id'')) (text_of (dget ev ''vehicle_id'')) \<and>
        text_of (dget dispatch ''target_vehicle_id'') = Some vid \<and> original \<noteq> None \<and> original \<noteq> Some vid \<and>
        dget ev ''candidate_vehicles'' = PList vs \<and> first_match (\<lambda>d. text_of (dget d ''vehicle_id'') = Some vid) (mappings_of vs) = Some c \<and>
        text_of (dget ev ''selected_vehicle_id'') = Some vid \<and>
        text_of (dget ev ''selected_driver_id'') = text_of (dget dispatch ''target_driver_id'') \<and>
        text_of (dget c ''driver_id'') = text_of (dget dispatch ''target_driver_id'') \<and>
        dget c ''vehicle_status'' = PStr ''AVAILABLE'' \<and> dget c ''driver_status'' \<in> {PStr ''ON_DUTY'', PStr ''AVAILABLE''} \<and>
        dget c ''eligible'' = PBool True \<and> dget c ''exclusion_reasons'' = PList [] \<and>
        decimal_of (dget ev ''cargo_weight_kg'') = Some w \<and>
        decimal_of (if dget c ''remaining_capacity_kg'' \<noteq> PNone then dget c ''remaining_capacity_kg'' else dget c ''remaining_load_kg'') = Some r \<and>
        decimal_ge r w = Inr True \<and>
        (text_of (dget ev ''cargo_type'') = Some ''COLD_CHAIN'' \<longrightarrow> dget c ''cargo_capability'' = PStr ''COLD_CHAIN''))"

definition road_sound :: "pydict \<Rightarrow> bool" where
  "road_sound ev \<longleftrightarrow>
     (let path = mapping_of (dget ev ''recommended_path''); edges = road_edges_by_id (dget ev ''road_network_edges'');
          ids = string_list (dget path ''edge_ids'')
      in ids \<noteq> [] \<and> connects edges (string_list (dget path ''node_ids'')) ids \<and>
         length (string_list (dget path ''node_ids'')) = length ids + 1 \<and>
         (\<forall>i\<in>set ids. i \<notin> set (string_list (dget ev ''blocked_edge_ids'')) \<and>
            (\<exists>e. edges i = Some e \<and> dget e ''status'' \<in> {PStr ''OPEN'', PStr ''CONGESTED'', PStr ''RESTRICTED''})))"

lemma in_strings_True: "in_strings v ss = Inr True \<longleftrightarrow> (\<exists>s\<in>set ss. v = PStr s)"
  by (auto simp: in_strings_def split: pyval.splits)

lemma all_open_True: "all_open edges ids = Inr True \<longleftrightarrow>
    (\<forall>i\<in>set ids. \<exists>e. edges i = Some e \<and> dget e ''status'' \<in> {PStr ''OPEN'', PStr ''CONGESTED'', PStr ''RESTRICTED''})"
proof (induction ids)
  case (Cons i ids)
  show ?case
  proof (cases "edges i")
    case (Some e)
    then show ?thesis using Cons.IH in_strings_True [of "dget e ''status''" "[''OPEN'', ''CONGESTED'', ''RESTRICTED'']"]
      by (cases "in_strings (dget e ''status'') [''OPEN'', ''CONGESTED'', ''RESTRICTED'']") auto
  qed simp
qed simp

lemma candidate_of_match:
  "text_of (dget (candidate_of v (Some i)) ''vehicle_id'') = Some i \<longleftrightarrow>
     (\<exists>vs. v = PList vs \<and> first_match (\<lambda>d. text_of (dget d ''vehicle_id'') = Some i) (mappings_of vs) = Some (candidate_of v (Some i)))"
  by (auto simp: candidate_of_def dget_def text_of_def dest: first_match_SomeD split: pyval.splits option.splits)

lemma assignment_ok_True:
  "assignment_ok ev = Inr True \<longleftrightarrow>
     (\<exists>vs c vid. text_of (dget (mapping_of (dget ev ''dispatch_result'')) ''target_vehicle_id'') = Some vid \<and>
        py_or (text_of (dget (mapping_of (dget ev ''dispatch_result'')) ''original_vehicle_id'')) (text_of (dget ev ''vehicle_id'')) \<notin> {None, Some vid} \<and>
        dget ev ''candidate_vehicles'' = PList vs \<and> first_match (\<lambda>d. text_of (dget d ''vehicle_id'') = Some vid) (mappings_of vs) = Some c \<and>
        candidate_of (dget ev ''candidate_vehicles'') (Some vid) = c \<and>
        text_of (dget ev ''selected_vehicle_id'') = Some vid \<and>
        text_of (dget ev ''selected_driver_id'') = text_of (dget (mapping_of (dget ev ''dispatch_result'')) ''target_driver_id'') \<and>
        text_of (dget c ''driver_id'') = text_of (dget (mapping_of (dget ev ''dispatch_result'')) ''target_driver_id'') \<and>
        dget c ''vehicle_status'' = PStr ''AVAILABLE'' \<and> dget c ''driver_status'' \<in> {PStr ''ON_DUTY'', PStr ''AVAILABLE''} \<and>
        dget c ''eligible'' = PBool True \<and> dget c ''exclusion_reasons'' = PList [])" (is "?L \<longleftrightarrow> ?R")
proof (cases "text_of (dget (mapping_of (dget ev ''dispatch_result'')) ''target_vehicle_id'')")
  case None
  then show ?thesis by (simp add: assignment_ok_def Let_def)
next
  case (Some vid)
  let ?c = "candidate_of (dget ev ''candidate_vehicles'') (Some vid)"
  show ?thesis
    using candidate_of_match [of "dget ev ''candidate_vehicles''" vid] in_strings_True [of "dget ?c ''driver_status''" "[''ON_DUTY'', ''AVAILABLE'']"]
    by (auto simp: assignment_ok_def Let_def Some res_bind_eq_Inr split: if_splits)
qed

lemma capacity_ok_True:
  "capacity_ok ev = Inr True \<longleftrightarrow>
     (\<exists>c w r. candidate_of (dget ev ''candidate_vehicles'') (text_of (dget (mapping_of (dget ev ''dispatch_result'')) ''target_vehicle_id'')) = c \<and>
        decimal_of (dget ev ''cargo_weight_kg'') = Some w \<and>
        decimal_of (if dget c ''remaining_capacity_kg'' \<noteq> PNone then dget c ''remaining_capacity_kg'' else dget c ''remaining_load_kg'') = Some r \<and>
        decimal_ge r w = Inr True \<and>
        (text_of (dget ev ''cargo_type'') = Some ''COLD_CHAIN'' \<longrightarrow> dget c ''cargo_capability'' = PStr ''COLD_CHAIN''))"
  by (auto simp: capacity_ok_def Let_def res_bind_eq_Inr text_of_Some split: option.splits)

lemma breakdown_sound_iff: "breakdown_sound ev \<longleftrightarrow> assignment_ok ev = Inr True \<and> capacity_ok ev = Inr True"
proof
  assume "breakdown_sound ev"
  then obtain vs c vid d or w r where b: "d = mapping_of (dget ev ''dispatch_result'')"
    "or = py_or (text_of (dget d ''original_vehicle_id'')) (text_of (dget ev ''vehicle_id''))"
    "text_of (dget d ''target_vehicle_id'') = Some vid" "or \<noteq> None" "or \<noteq> Some vid" "dget ev ''candidate_vehicles'' = PList vs"
    "first_match (\<lambda>d. text_of (dget d ''vehicle_id'') = Some vid) (mappings_of vs) = Some c"
    and rest: "text_of (dget ev ''selected_vehicle_id'') = Some vid" "text_of (dget ev ''selected_driver_id'') = text_of (dget d ''target_driver_id'')"
    "text_of (dget c ''driver_id'') = text_of (dget d ''target_driver_id'')" "dget c ''vehicle_status'' = PStr ''AVAILABLE''"
    "dget c ''driver_status'' \<in> {PStr ''ON_DUTY'', PStr ''AVAILABLE''}" "dget c ''eligible'' = PBool True" "dget c ''exclusion_reasons'' = PList []"
    and cap: "decimal_of (dget ev ''cargo_weight_kg'') = Some w"
    "decimal_of (if dget c ''remaining_capacity_kg'' \<noteq> PNone then dget c ''remaining_capacity_kg'' else dget c ''remaining_load_kg'') = Some r"
    "decimal_ge r w = Inr True" "text_of (dget ev ''cargo_type'') = Some ''COLD_CHAIN'' \<longrightarrow> dget c ''cargo_capability'' = PStr ''COLD_CHAIN''"
    unfolding breakdown_sound_def by (elim exE conjE)
  have c: "candidate_of (dget ev ''candidate_vehicles'') (Some vid) = c" using b(6,7) by (simp add: candidate_of_def)
  have "assignment_ok ev = Inr True" unfolding assignment_ok_True
    by (rule exI [of _ vs], rule exI [of _ c], rule exI [of _ vid]) (intro conjI; use b rest c in simp)
  moreover have "capacity_ok ev = Inr True" unfolding capacity_ok_True
    by (rule exI [of _ c], rule exI [of _ w], rule exI [of _ r]) (intro conjI; (rule cap)?; use b c in simp)
  ultimately show "assignment_ok ev = Inr True \<and> capacity_ok ev = Inr True" ..
next
  let ?d = "mapping_of (dget ev ''dispatch_result'')"
  assume ok: "assignment_ok ev = Inr True \<and> capacity_ok ev = Inr True"
  obtain vs c vid where a: "text_of (dget ?d ''target_vehicle_id'') = Some vid"
    "py_or (text_of (dget ?d ''original_vehicle_id'')) (text_of (dget ev ''vehicle_id'')) \<notin> {None, Some vid}"
    "dget ev ''candidate_vehicles'' = PList vs" "first_match (\<lambda>d. text_of (dget d ''vehicle_id'') = Some vid) (mappings_of vs) = Some c"
    "candidate_of (dget ev ''candidate_vehicles'') (Some vid) = c" "text_of (dget ev ''selected_vehicle_id'') = Some vid"
    "text_of (dget ev ''selected_driver_id'') = text_of (dget ?d ''target_driver_id'')" "text_of (dget c ''driver_id'') = text_of (dget ?d ''target_driver_id'')"
    "dget c ''vehicle_status'' = PStr ''AVAILABLE''" "dget c ''driver_status'' \<in> {PStr ''ON_DUTY'', PStr ''AVAILABLE''}"
    "dget c ''eligible'' = PBool True" "dget c ''exclusion_reasons'' = PList []"
    using ok [THEN conjunct1] unfolding assignment_ok_True by (elim exE conjE)
  obtain w r where k: "decimal_of (dget ev ''cargo_weight_kg'') = Some w"
    "decimal_of (if dget c ''remaining_capacity_kg'' \<noteq> PNone then dget c ''remaining_capacity_kg'' else dget c ''remaining_load_kg'') = Some r"
    "decimal_ge r w = Inr True" "text_of (dget ev ''cargo_type'') = Some ''COLD_CHAIN'' \<longrightarrow> dget c ''cargo_capability'' = PStr ''COLD_CHAIN''"
    using ok [THEN conjunct2] unfolding capacity_ok_True a(1) a(5) by blast
  show "breakdown_sound ev" unfolding breakdown_sound_def
    by (rule exI [of _ vs], rule exI [of _ c], rule exI [of _ vid], rule exI [of _ ?d], rule exI, rule exI [of _ w], rule exI [of _ r])
      (intro conjI; (rule refl k)?; use a in simp)
qed

lemma road_sound_iff:
  "road_sound ev \<longleftrightarrow> path_connects (string_list (dget (mapping_of (dget ev ''recommended_path'')) ''node_ids''))
       (string_list (dget (mapping_of (dget ev ''recommended_path'')) ''edge_ids'')) (dget ev ''road_network_edges'') \<and>
     set (string_list (dget (mapping_of (dget ev ''recommended_path'')) ''edge_ids'')) \<inter> set (string_list (dget ev ''blocked_edge_ids'')) = {} \<and>
     path_edges_are_open (string_list (dget (mapping_of (dget ev ''recommended_path'')) ''edge_ids'')) (dget ev ''road_network_edges'') = Inr True"
  by (auto simp: road_sound_def Let_def path_connects_def path_edges_are_open_def all_open_True)

lemma breakdown_stage_decides: "decides (breakdown_stage ev) (issue_of ev = Some ''VEHICLE_BREAKDOWN'' \<longrightarrow> breakdown_sound ev)"
  by (auto simp: decides_def breakdown_stage_def breakdown_sound_iff res_bind_eq_Inr split: if_splits)

lemma road_stage_decides:
  "decides (road_stage ev) (issue_of ev = Some ''ROAD_BLOCKED'' \<or> string_list (dget ev ''blocked_edge_ids'') \<noteq> [] \<longrightarrow> road_sound ev)"
  by (auto simp: decides_def road_stage_def road_sound_iff Let_def res_bind_eq_Inr split: if_splits)

lemma initial_checks_hold: "checks_hold (initial_checks executed)"
  by (simp add: checks_hold_def initial_checks_def)

lemma audit_run_verdict:
  assumes "run_stages (audit_stages ev d x t) (initial_checks b) = Inr (c', status, reason, manual)"
  shows "status = ''APPROVED'' \<and> \<not> manual \<and> checks_hold c' \<or>
    manual \<and> (status = ''REJECTED'' \<and> \<not> checks_hold c' \<or> status = ''REVIEW_REQUIRED'' \<and> checks_hold c')"
  by (rule run_stages_verdict [OF _ initial_checks_hold assms]) (rule stage_ok_audit)

lemma audit_stages_run:
  assumes "audit db ev = Inr (res, db')"
  obtains manual where "run_stages (audit_stages ev (text_of (dget ev ''decision''))
      (dget (mapping_of (dget ev ''dispatch_result'')) ''executed'' = PBool True)
      (text_of (dget (mapping_of (dget ev ''dispatch_result'')) ''target_route_id'')))
      (initial_checks (dget (mapping_of (dget ev ''dispatch_result'')) ''executed'' = PBool True)) =
      Inr (ar_checks res, ar_audit_status res, ar_reason res, manual)"
    "ar_requires_manual_review res = manual" "ar_passed res = (ar_audit_status res = ''APPROVED'')"
  using assms that by (auto simp: audit_def audit_evaluate_def Let_def res_bind_eq_Inr)

lemma audit_verdict:
  assumes "audit db ev = Inr (res, db')"
  shows "ar_audit_status res = ''APPROVED'' \<and> \<not> ar_requires_manual_review res \<and> checks_hold (ar_checks res) \<or>
    ar_requires_manual_review res \<and> (ar_audit_status res = ''REJECTED'' \<and> \<not> checks_hold (ar_checks res) \<or>
      ar_audit_status res = ''REVIEW_REQUIRED'' \<and> checks_hold (ar_checks res))"
proof -
  obtain manual where "run_stages (audit_stages ev (text_of (dget ev ''decision''))
      (dget (mapping_of (dget ev ''dispatch_result'')) ''executed'' = PBool True)
      (text_of (dget (mapping_of (dget ev ''dispatch_result'')) ''target_route_id'')))
      (initial_checks (dget (mapping_of (dget ev ''dispatch_result'')) ''executed'' = PBool True)) =
      Inr (ar_checks res, ar_audit_status res, ar_reason res, manual)" "ar_requires_manual_review res = manual"
    using audit_stages_run [OF assms] by metis
  then show ?thesis using audit_run_verdict by blast
qed

lemma persist_again:
  assumes "persist_if_possible db tid did st rs ej = Inr (Some i, db')"
  shows "persist_if_possible db' tid did st' rs' ej' = Inr (Some i, db')"
proof -
  obtain t d task where k: "tid = Some t" "did = Some d" "first_match (\<lambda>x. dt_task_id x = t) (adb_tasks db) = Some task"
    using assms by (auto simp: persist_if_possible_def split: option.splits)
  show ?thesis
  proof (cases "first_match (\<lambda>r. au_task_id r = dt_id task \<and> au_dispatch_id r = d) (adb_records db)")
    case (Some e)
    then show ?thesis using assms k by (auto simp: persist_if_possible_def)
  next
    case None
    then have "\<forall>r\<in>set (adb_records db). \<not> (au_task_id r = dt_id task \<and> au_dispatch_id r = d)"
      by (simp add: first_match_None)
    then show ?thesis using assms k None
      by (auto simp: persist_if_possible_def first_match_append_last split: if_splits)
  qed
qed

text \<open>What an approval says about the evidence.\<close>

definition sound_evidence :: "pydict \<Rightarrow> bool" where
  "sound_evidence ev \<longleftrightarrow>
    (let dispatch = mapping_of (dget ev ''dispatch_result''); decision = text_of (dget ev ''decision'');
      executed = (dget dispatch ''executed'' = PBool True); target = text_of (dget dispatch ''target_route_id'')
    in decision \<noteq> Some ''MANUAL_REVIEW'' \<and> dget ev ''requires_manual_review'' \<noteq> PBool True \<and>
      text_of (dget ev ''error_code'') \<notin> {Some ''DISPATCH_CONFLICT'', Some ''DISPATCH_VERSION_CONFLICT'', Some ''VEHICLE_RESERVATION_CONFLICT''} \<and>
      (decision = Some ''REROUTE'' \<longrightarrow> executed \<and> target \<noteq> None \<and> target = text_of (dget ev ''recommended_route'')) \<and>
      (decision = Some ''KEEP_ROUTE'' \<longrightarrow> executed \<and> target = text_of (dget ev ''route_id'')) \<and>
      (decision = Some ''NO_SAFE_ROUTE'' \<longrightarrow> \<not> executed) \<and>
      (issue_of ev = Some ''VEHICLE_BREAKDOWN'' \<longrightarrow> breakdown_sound ev) \<and>
      (issue_of ev = Some ''ROAD_BLOCKED'' \<or> string_list (dget ev ''blocked_edge_ids'') \<noteq> [] \<longrightarrow> road_sound ev) \<and>
      (dget ev ''memory_adopted'' = PBool True \<longrightarrow>
         (\<exists>m. text_of (dget ev ''adopted_memory_id'') = Some m \<and> has_memory (dget ev ''memory_results'') m)) \<and>
      (dget ev ''fallback_used'' = PBool True \<longrightarrow> text_of (dget ev ''fallback_reason'') \<noteq> None))"

lemma audit_passed_sound:
  assumes "audit db ev = Inr (res, db')"
  shows "ar_passed res \<longleftrightarrow> sound_evidence ev"
proof -
  let ?dp = "mapping_of (dget ev ''dispatch_result'')" and ?d = "text_of (dget ev ''decision'')"
  let ?x = "dget ?dp ''executed'' = PBool True" and ?t = "text_of (dget ?dp ''target_route_id'')"
  obtain manual where run: "run_stages (audit_stages ev ?d ?x ?t) (initial_checks ?x) =
      Inr (ar_checks res, ar_audit_status res, ar_reason res, manual)" and passed: "ar_passed res \<longleftrightarrow> ar_audit_status res = ''APPROVED''"
    using audit_stages_run [OF assms] by metis
  have "decides (review_stage ev ?d) (?d \<noteq> Some ''MANUAL_REVIEW'' \<and> dget ev ''requires_manual_review'' \<noteq> PBool True \<and>
      text_of (dget ev ''error_code'') \<notin> {Some ''DISPATCH_CONFLICT'', Some ''DISPATCH_VERSION_CONFLICT'', Some ''VEHICLE_RESERVATION_CONFLICT''})" (is "decides _ ?review")
    "decides (no_route_stage ?d ?x) (?d = Some ''NO_SAFE_ROUTE'' \<longrightarrow> \<not> ?x)" (is "decides _ ?none")
    "decides (reroute_stage ev ?d ?x ?t) (?d = Some ''REROUTE'' \<longrightarrow> ?x \<and> ?t \<noteq> None \<and> ?t = text_of (dget ev ''recommended_route''))" (is "decides _ ?reroute")
    "decides (keep_stage ev ?d ?x ?t) (?d = Some ''KEEP_ROUTE'' \<longrightarrow> ?x \<and> ?t = text_of (dget ev ''route_id''))" (is "decides _ ?keep")
    "decides (memory_stage ev) (dget ev ''memory_adopted'' = PBool True \<longrightarrow>
      (\<exists>m. text_of (dget ev ''adopted_memory_id'') = Some m \<and> has_memory (dget ev ''memory_results'') m))" (is "decides _ ?mem")
    "decides (fallback_stage ev) (dget ev ''fallback_used'' = PBool True \<longrightarrow> text_of (dget ev ''fallback_reason'') \<noteq> None)" (is "decides _ ?fall")
    by (auto simp: decides_def review_stage_def no_route_stage_def reroute_stage_def keep_stage_def memory_stage_def fallback_stage_def Let_def
        split: if_splits option.splits)
  then have "list_all2 decides (audit_stages ev ?d ?x ?t)
      [?review, issue_of ev = Some ''VEHICLE_BREAKDOWN'' \<longrightarrow> breakdown_sound ev,
       issue_of ev = Some ''ROAD_BLOCKED'' \<or> string_list (dget ev ''blocked_edge_ids'') \<noteq> [] \<longrightarrow> road_sound ev, ?none, ?reroute, ?keep, ?mem, ?fall]"
    unfolding audit_stages_def using breakdown_stage_decides road_stage_decides by simp
  from run_stages_exact [OF this stage_ok_audit initial_checks_hold run] show ?thesis
    unfolding passed sound_evidence_def Let_def by (simp only: list.pred_inject) blast
qed

text \<open>A small run for evaluation: a rerouted order around a blocked road.\<close>

definition sample_evidence :: pydict where
  "sample_evidence =
     [(''task_id'', PStr ''T1''), (''route_id'', PStr ''R1''), (''anomaly_type'', PStr ''ROAD_BLOCKED''),
      (''recommended_route'', PStr ''R2''), (''decision'', PStr ''REROUTE''),
      (''blocked_edge_ids'', str_list [''E2'']),
      (''recommended_path'', PDict [(''node_ids'', str_list [''A'', ''C'']), (''edge_ids'', str_list [''E3''])]),
      (''road_network_edges'',
        PList [PDict [(''edge_id'', PStr ''E3''), (''from_node_id'', PStr ''A''), (''to_node_id'', PStr ''C''),
                      (''status'', PStr ''OPEN''), (''bidirectional'', PBool True)]]),
      (''dispatch_result'', PDict [(''dispatch_id'', PInt 1), (''executed'', PBool True), (''target_route_id'', PStr ''R2'')])]"

definition sample_audit_db :: audit_db where
  "sample_audit_db = \<lparr>adb_tasks = db_tasks sample_db, adb_dispatch_ids = [1], adb_records = [], adb_next_id = 1\<rparr>"

lemma sample_evaluated:
  "audit_evaluate sample_evidence (Some ''REROUTE'') True (Some ''R2'') (initial_checks True) =
     Inr (initial_checks True, ''APPROVED'', ''Audit checks passed.'', False)"
  by code_simp

lemma sample_evidence_fields:
  "text_of (dget sample_evidence ''decision'') = Some ''REROUTE''" "text_of (dget sample_evidence ''task_id'') = Some ''T1''"
  "dget (mapping_of (dget sample_evidence ''dispatch_result'')) ''executed'' = PBool True"
  "text_of (dget (mapping_of (dget sample_evidence ''dispatch_result'')) ''target_route_id'') = Some ''R2''"
  "integer_of (dget (mapping_of (dget sample_evidence ''dispatch_result'')) ''dispatch_id'') = Some 1"
  "issue_of sample_evidence = Some ''ROAD_BLOCKED''"
  by code_simp+

lemma sample_audit:
  "audit db sample_evidence =
     res_bind (persist_if_possible db (Some ''T1'') (Some 1) ''APPROVED'' ''Audit checks passed.''
                 (json_dumps (PDict (graph_evidence sample_evidence))))
       (\<lambda>(record_id, db'). Inr (\<lparr>ar_audit_status = ''APPROVED'', ar_passed = True, ar_reason = ''Audit checks passed.'',
          ar_checks = initial_checks True, ar_dispatch_id = Some 1, ar_requires_manual_review = False,
          ar_audit_record_id = record_id\<rparr>, db'))"
  by (simp add: audit_def Let_def sample_evidence_fields sample_evaluated)

lemma sample_persisted:
  "\<exists>db'. persist_if_possible sample_audit_db (Some ''T1'') (Some 1) st rs ej = Inr (Some 1, db')"
  by (simp add: persist_if_possible_def sample_audit_db_def sample_db_def)

lemma sample_audit_ok:
  "\<exists>res db'. audit sample_audit_db sample_evidence = Inr (res, db') \<and> ar_passed res \<and> ar_audit_record_id res = Some 1 \<and>
     ar_dispatch_id res = Some 1 \<and> (\<exists>res'. audit db' sample_evidence = Inr (res', db'))"
proof -
  obtain db' where p: "persist_if_possible sample_audit_db (Some ''T1'') (Some 1) ''APPROVED'' ''Audit checks passed.''
      (json_dumps (PDict (graph_evidence sample_evidence))) = Inr (Some 1, db')"
    using sample_persisted by blast
  then show ?thesis using persist_again [OF p] by (simp add: sample_audit)
qed

section \<open>Properties of the audit\<close>

text \<open>
  C8. An audit approves a dispatch exactly when every check that applies holds: nothing asks for review, no conflict was recorded; a rerouting was executed
  towards the recommended route, a kept route was executed as the original one, and nothing was executed without a safe route; after a breakdown the original vehicle is known and the target
  is another one, it and its driver are the selected ones, and the first candidate of that id is an available, eligible vehicle without exclusions, with that driver, who is on duty or available,
  with room for the known weight and the capability for the cargo; around blocked roads the recommended path is connected, open and free of them; an adopted
  memory was recalled, and a fallback has a reason.
\<close>

theorem audit_approval_sound:
  assumes "audit db ev = Inr (res, db')"
  shows "ar_passed res \<longleftrightarrow>
    (let dispatch = mapping_of (dget ev ''dispatch_result''); decision = text_of (dget ev ''decision'');
      executed = (dget dispatch ''executed'' = PBool True); target = text_of (dget dispatch ''target_route_id'')
    in decision \<noteq> Some ''MANUAL_REVIEW'' \<and> dget ev ''requires_manual_review'' \<noteq> PBool True \<and>
      text_of (dget ev ''error_code'') \<notin> {Some ''DISPATCH_CONFLICT'', Some ''DISPATCH_VERSION_CONFLICT'', Some ''VEHICLE_RESERVATION_CONFLICT''} \<and>
      (decision = Some ''REROUTE'' \<longrightarrow> executed \<and> target \<noteq> None \<and> target = text_of (dget ev ''recommended_route'')) \<and>
      (decision = Some ''KEEP_ROUTE'' \<longrightarrow> executed \<and> target = text_of (dget ev ''route_id'')) \<and>
      (decision = Some ''NO_SAFE_ROUTE'' \<longrightarrow> \<not> executed) \<and>
      (issue_of ev = Some ''VEHICLE_BREAKDOWN'' \<longrightarrow> breakdown_sound ev) \<and>
      (issue_of ev = Some ''ROAD_BLOCKED'' \<or> string_list (dget ev ''blocked_edge_ids'') \<noteq> [] \<longrightarrow> road_sound ev) \<and>
      (dget ev ''memory_adopted'' = PBool True \<longrightarrow>
         (\<exists>m. text_of (dget ev ''adopted_memory_id'') = Some m \<and> has_memory (dget ev ''memory_results'') m)) \<and>
      (dget ev ''fallback_used'' = PBool True \<longrightarrow> text_of (dget ev ''fallback_reason'') \<noteq> None))"
  using audit_passed_sound [OF assms] by (simp only: sound_evidence_def)

theorem audit_approval_sound_witness: "road_sound sample_evidence"
proof -
  obtain res db' where r: "audit sample_audit_db sample_evidence = Inr (res, db')" "ar_passed res"
    using sample_audit_ok by blast
  then show ?thesis using audit_approval_sound [OF r(1)] sample_evidence_fields(6) by (simp add: Let_def)
qed

text \<open>
  A verdict and its checks agree: an audit is approved exactly when no person has to look at it; it is rejected
  exactly when one of the seven consistency checks has failed, and in every other case they all hold.
\<close>

theorem audit_verdict_consistent:
  assumes "audit db ev = Inr (res, db')"
  shows "ar_audit_status res \<in> {''APPROVED'', ''REJECTED'', ''REVIEW_REQUIRED''} \<and>
    (ar_passed res \<longleftrightarrow> \<not> ar_requires_manual_review res) \<and>
    (ar_audit_status res = ''REJECTED'' \<longleftrightarrow>
      \<not> (ac_route_consistency (ar_checks res) \<and> ac_memory_consistency (ar_checks res) \<and>
         ac_fallback_consistency (ar_checks res) \<and> ac_vehicle_assignment (ar_checks res) \<and>
         ac_capacity_constraint (ar_checks res) \<and> ac_route_connectivity (ar_checks res) \<and>
         ac_blocked_edge_exclusion (ar_checks res)))"
proof -
  have "ar_passed res = (ar_audit_status res = ''APPROVED'')" using audit_stages_run [OF assms] by metis
  then show ?thesis using audit_verdict [OF assms] by (auto simp: checks_hold_def)
qed

theorem audit_verdict_consistent_witness:
  "\<exists>res db'. audit sample_audit_db sample_evidence = Inr (res, db') \<and> \<not> ar_requires_manual_review res"
proof -
  obtain res db' where r: "audit sample_audit_db sample_evidence = Inr (res, db')" "ar_passed res"
    using sample_audit_ok by blast
  then show ?thesis using audit_verdict_consistent [OF r(1)] by auto
qed

text \<open>
  The audit of a task's dispatch is recorded once: after an audit has stored a record, every later audit of the same task
  and dispatch that gives a verdict returns the id of that record and adds nothing, whatever its evidence.
\<close>

theorem audit_recorded_once:
  assumes "audit db ev = Inr (res, db')" and "ar_audit_record_id res = Some i"
    and "text_of (dget ev' ''task_id'') = text_of (dget ev ''task_id'')"
    and "integer_of (dget (mapping_of (dget ev' ''dispatch_result'')) ''dispatch_id'') = ar_dispatch_id res"
    and "audit db' ev' = Inr (res', db'')"
  shows "ar_audit_record_id res' = Some i \<and> db'' = db'"
proof -
  obtain st rs ej where p: "persist_if_possible db (text_of (dget ev ''task_id'')) (ar_dispatch_id res) st rs ej = Inr (Some i, db')"
    using assms(1,2) by (auto simp: audit_def Let_def res_bind_eq_Inr)
  obtain st' rs' ej' where p': "persist_if_possible db' (text_of (dget ev' ''task_id''))
      (integer_of (dget (mapping_of (dget ev' ''dispatch_result'')) ''dispatch_id'')) st' rs' ej' =
      Inr (ar_audit_record_id res', db'')"
    using assms(5) by (auto simp: audit_def Let_def res_bind_eq_Inr)
  show ?thesis using persist_again [OF p] p' unfolding assms(3,4) by auto
qed

theorem audit_recorded_once_witness:
  "\<exists>res db' res'. audit sample_audit_db sample_evidence = Inr (res, db') \<and> audit db' sample_evidence = Inr (res', db') \<and>
     ar_audit_record_id res' = Some 1"
proof -
  obtain res db' res' where r: "audit sample_audit_db sample_evidence = Inr (res, db')" "ar_audit_record_id res = Some 1"
    "ar_dispatch_id res = Some 1" "audit db' sample_evidence = Inr (res', db')"
    using sample_audit_ok by blast
  then show ?thesis using audit_recorded_once [OF r(1,2) refl _ r(4)] sample_evidence_fields(5) by auto
qed

end
