(* ===== verification/Recommendations.thy ===== *)
theory Recommendations
  imports Py_Text
begin

text \<open>
  \<open>IssueRecommendationService\<close> of \<open>backend/app/recommendations/service.py\<close>: the rule-based reading of a
  reported anomaly. It normalises the category, finds a subtype from key words of the description, verifies the recommended
  route against the candidates and chooses an action. The Chinese literals are kept in UTF-8.
\<close>

section \<open>Data\<close>

record issue_recommendation =
  ir_issue_category :: string
  ir_issue_subtype :: string
  ir_analysis_reason :: string
  ir_recommended_action :: string
  ir_recommended_route :: "string option"
  ir_analysis_mode :: string

definition known_categories :: "string list" where
  "known_categories =
     [''VEHICLE_BREAKDOWN'', ''ROAD_BLOCKED'', ''ROAD_HAZARD'', ''WEATHER'', ''CARGO'', ''CAPACITY'', ''OTHER'']"

definition non_route_categories :: "string list" where
  "non_route_categories = [''VEHICLE_BREAKDOWN'', ''CARGO'', ''CAPACITY'', ''OTHER'']"

section \<open>Literals\<close>

text \<open>"The description of the incident is missing."\<close>

definition default_description :: string where
  "default_description =
     utf8 [0xE7, 0x8E, 0xB0, 0xE5, 0x9C, 0xBA, 0xE5, 0xBC, 0x82, 0xE5, 0xB8, 0xB8, 0xE6, 0x8F, 0x8F, 0xE8, 0xBF, 0xB0,
       0xE7, 0xBC, 0xBA, 0xE5, 0xA4, 0xB1]"

definition breakdown_words :: "string list" where
  "breakdown_words =
     [utf8 [0xE7, 0x88, 0x86, 0xE8, 0x83, 0x8E],
      utf8 [0xE8, 0xBD, 0xAE, 0xE8, 0x83, 0x8E],
      utf8 [0xE6, 0x89, 0x8E, 0xE8, 0x83, 0x8E],
      utf8 [0xE5, 0x88, 0xB9, 0xE8, 0xBD, 0xA6],
      utf8 [0xE5, 0x88, 0xB6, 0xE5, 0x8A, 0xA8],
      utf8 [0xE5, 0x8F, 0x91, 0xE5, 0x8A, 0xA8, 0xE6, 0x9C, 0xBA],
      utf8 [0xE8, 0xBD, 0xA6, 0xE8, 0xBE, 0x86, 0xE6, 0x95, 0x85, 0xE9, 0x9A, 0x9C]]"

definition blocked_words :: "string list" where
  "blocked_words =
     [utf8 [0xE5, 0xB0, 0x81, 0xE8, 0xB7, 0xAF],
      utf8 [0xE9, 0x81, 0x93, 0xE8, 0xB7, 0xAF, 0xE5, 0xB0, 0x81, 0xE9, 0x97, 0xAD],
      utf8 [0xE5, 0xA1, 0x8C, 0xE6, 0x96, 0xB9]]"

definition hazard_words :: "string list" where
  "hazard_words =
     [utf8 [0xE6, 0xB9, 0xBF, 0xE6, 0xBB, 0x91],
      utf8 [0xE5, 0x9D, 0x91, 0xE6, 0xB4, 0xBC],
      utf8 [0xE8, 0x90, 0xBD, 0xE7, 0x9F, 0xB3],
      utf8 [0xE9, 0x81, 0x93, 0xE8, 0xB7, 0xAF, 0xE6, 0x8D, 0x9F, 0xE5, 0x9D, 0x8F]]"

definition weather_words :: "string list" where
  "weather_words =
     [utf8 [0xE6, 0x9A, 0xB4, 0xE9, 0x9B, 0xA8],
      utf8 [0xE5, 0xA4, 0xA7, 0xE9, 0x9B, 0xAA],
      utf8 [0xE5, 0xA4, 0xA7, 0xE9, 0x9B, 0xBE],
      utf8 [0xE5, 0xBC, 0xBA, 0xE9, 0xA3, 0x8E],
      utf8 [0xE5, 0xA4, 0xA9, 0xE6, 0xB0, 0x94]]"

definition cargo_words :: "string list" where
  "cargo_words =
     [utf8 [0xE8, 0xB4, 0xA7, 0xE7, 0x89, 0xA9],
      utf8 [0xE6, 0xB3, 0x84, 0xE6, 0xBC, 0x8F],
      utf8 [0xE6, 0xB8, 0xA9, 0xE6, 0x8E, 0xA7],
      utf8 [0xE5, 0x86, 0xB7, 0xE9, 0x93, 0xBE],
      utf8 [0xE5, 0x80, 0xBE, 0xE6, 0x96, 0x9C]]"

definition capacity_words :: "string list" where
  "capacity_words =
     [utf8 [0xE8, 0xB6, 0x85, 0xE8, 0xBD, 0xBD],
      utf8 [0xE5, 0x8F, 0xB8, 0xE6, 0x9C, 0xBA, 0xE4, 0xB8, 0x8D, 0xE5, 0x8F, 0xAF, 0xE7, 0x94, 0xA8],
      utf8 [0xE8, 0xBD, 0xA6, 0xE8, 0xBE, 0x86, 0xE4, 0xB8, 0x8D, 0xE5, 0x8F, 0xAF, 0xE7, 0x94, 0xA8],
      utf8 [0xE8, 0xBF, 0x90, 0xE5, 0x8A, 0x9B]]"

definition subtype_rules :: "(string \<times> (string \<times> string list) list) list" where
  "subtype_rules =
     [(''VEHICLE_BREAKDOWN'',
        [(''TIRE'', [utf8 [0xE7, 0x88, 0x86, 0xE8, 0x83, 0x8E], utf8 [0xE8, 0xBD, 0xAE, 0xE8, 0x83, 0x8E], utf8 [0xE6, 0x89, 0x8E, 0xE8, 0x83, 0x8E]]),
         (''BRAKE'', [utf8 [0xE5, 0x88, 0xB9, 0xE8, 0xBD, 0xA6], utf8 [0xE5, 0x88, 0xB6, 0xE5, 0x8A, 0xA8]]),
         (''ENGINE'', [utf8 [0xE5, 0x8F, 0x91, 0xE5, 0x8A, 0xA8, 0xE6, 0x9C, 0xBA], utf8 [0xE5, 0xBC, 0x95, 0xE6, 0x93, 0x8E]])]),
      (''ROAD_BLOCKED'',
        [(''LANDSLIDE'', [utf8 [0xE5, 0xA1, 0x8C, 0xE6, 0x96, 0xB9], utf8 [0xE6, 0xBB, 0x91, 0xE5, 0x9D, 0xA1]]),
         (''FLOODING'', [utf8 [0xE7, 0xA7, 0xAF, 0xE6, 0xB0, 0xB4], utf8 [0xE6, 0xB7, 0xB9, 0xE6, 0xB0, 0xB4]]),
         (''CONSTRUCTION'', [utf8 [0xE6, 0x96, 0xBD, 0xE5, 0xB7, 0xA5]]),
         (''CLOSURE'', [utf8 [0xE5, 0xB0, 0x81, 0xE8, 0xB7, 0xAF], utf8 [0xE5, 0xB0, 0x81, 0xE9, 0x97, 0xAD]])]),
      (''ROAD_HAZARD'',
        [(''SLIPPERY'', [utf8 [0xE6, 0xB9, 0xBF, 0xE6, 0xBB, 0x91], utf8 [0xE7, 0xBB, 0x93, 0xE5, 0x86, 0xB0]]),
         (''POTHOLE'', [utf8 [0xE5, 0x9D, 0x91, 0xE6, 0xB4, 0xBC], utf8 [0xE5, 0x9D, 0x91, 0xE6, 0xB4, 0x9E]]),
         (''ROCKFALL'', [utf8 [0xE8, 0x90, 0xBD, 0xE7, 0x9F, 0xB3]]),
         (''DAMAGE'', [utf8 [0xE9, 0x81, 0x93, 0xE8, 0xB7, 0xAF, 0xE6, 0x8D, 0x9F, 0xE5, 0x9D, 0x8F], utf8 [0xE8, 0xB7, 0xAF, 0xE9, 0x9D, 0xA2, 0xE7, 0xA0, 0xB4, 0xE6, 0x8D, 0x9F]])]),
      (''WEATHER'',
        [(''HEAVY_RAIN'', [utf8 [0xE6, 0x9A, 0xB4, 0xE9, 0x9B, 0xA8], utf8 [0xE5, 0xBC, 0xBA, 0xE9, 0x99, 0x8D, 0xE9, 0x9B, 0xA8]]),
         (''SNOW'', [utf8 [0xE5, 0xA4, 0xA7, 0xE9, 0x9B, 0xAA], utf8 [0xE6, 0x9A, 0xB4, 0xE9, 0x9B, 0xAA]]),
         (''FOG'', [utf8 [0xE5, 0xA4, 0xA7, 0xE9, 0x9B, 0xBE], utf8 [0xE8, 0x83, 0xBD, 0xE8, 0xA7, 0x81, 0xE5, 0xBA, 0xA6, 0xE4, 0xBD, 0x8E]]),
         (''STRONG_WIND'', [utf8 [0xE5, 0xBC, 0xBA, 0xE9, 0xA3, 0x8E], utf8 [0xE5, 0xA4, 0xA7, 0xE9, 0xA3, 0x8E]])]),
      (''CARGO'',
        [(''TEMPERATURE'', [utf8 [0xE6, 0xB8, 0xA9, 0xE6, 0x8E, 0xA7], utf8 [0xE6, 0xB8, 0xA9, 0xE5, 0xBA, 0xA6], utf8 [0xE5, 0x86, 0xB7, 0xE9, 0x93, 0xBE]]),
         (''LEAK'', [utf8 [0xE6, 0xB3, 0x84, 0xE6, 0xBC, 0x8F], utf8 [0xE6, 0xB8, 0x97, 0xE6, 0xBC, 0x8F]]),
         (''DAMAGE'', [utf8 [0xE7, 0xA0, 0xB4, 0xE6, 0x8D, 0x9F]]),
         (''SHIFT'', [utf8 [0xE5, 0x80, 0xBE, 0xE6, 0x96, 0x9C], utf8 [0xE7, 0xA7, 0xBB, 0xE4, 0xBD, 0x8D]])]),
      (''CAPACITY'',
        [(''OVERLOAD'', [utf8 [0xE8, 0xB6, 0x85, 0xE8, 0xBD, 0xBD]]),
         (''DRIVER_UNAVAILABLE'', [utf8 [0xE5, 0x8F, 0xB8, 0xE6, 0x9C, 0xBA, 0xE4, 0xB8, 0x8D, 0xE5, 0x8F, 0xAF, 0xE7, 0x94, 0xA8]]),
         (''VEHICLE_UNAVAILABLE'', [utf8 [0xE8, 0xBD, 0xA6, 0xE8, 0xBE, 0x86, 0xE4, 0xB8, 0x8D, 0xE5, 0x8F, 0xAF, 0xE7, 0x94, 0xA8]])])]"

definition action_tire :: string where
  "action_tire =
     utf8 [0xE7, 0xAB, 0x8B, 0xE5, 0x8D, 0xB3, 0xE5, 0xAE, 0x89, 0xE5, 0x85, 0xA8, 0xE5, 0x81, 0x9C, 0xE8, 0xBD, 0xA6,
       0xE5, 0xB9, 0xB6, 0xE8, 0xAE, 0xBE, 0xE7, 0xBD, 0xAE, 0xE8, 0xAD, 0xA6, 0xE7, 0xA4, 0xBA, 0xE6, 0xA0,
       0x87, 0xE5, 0xBF, 0x97, 0xEF, 0xBC, 0x8C, 0xE6, 0xA3, 0x80, 0xE6, 0x9F, 0xA5, 0xE5, 0xA4, 0x87, 0xE8,
       0x83, 0x8E, 0xE6, 0x9D, 0xA1, 0xE4, 0xBB, 0xB6, 0xEF, 0xBC, 0x9B, 0xE5, 0x8F, 0xAF, 0xE5, 0xAE, 0x89,
       0xE5, 0x85, 0xA8, 0xE6, 0x93, 0x8D, 0xE4, 0xBD, 0x9C, 0xE6, 0x97, 0xB6, 0xE6, 0x9B, 0xB4, 0xE6, 0x8D,
       0xA2, 0xE8, 0xBD, 0xAE, 0xE8, 0x83, 0x8E, 0xEF, 0xBC, 0x8C, 0xE5, 0x90, 0xA6, 0xE5, 0x88, 0x99, 0xE8,
       0x81, 0x94, 0xE7, 0xB3, 0xBB, 0xE9, 0x81, 0x93, 0xE8, 0xB7, 0xAF, 0xE6, 0x95, 0x91, 0xE6, 0x8F, 0xB4,
       0xEF, 0xBC, 0x8C, 0xE5, 0xBF, 0x85, 0xE8, 0xA6, 0x81, 0xE6, 0x97, 0xB6, 0xE6, 0x8D, 0xA2, 0xE8, 0xBD,
       0xA6, 0xE8, 0xBD, 0xAC, 0xE8, 0xBF, 0x90, 0xE3, 0x80, 0x82]"

definition action_brake :: string where
  "action_brake =
     utf8 [0xE7, 0xAB, 0x8B, 0xE5, 0x8D, 0xB3, 0xE5, 0x81, 0x9C, 0xE6, 0xAD, 0xA2, 0xE7, 0xBB, 0xA7, 0xE7, 0xBB, 0xAD,
       0xE8, 0xA1, 0x8C, 0xE9, 0xA9, 0xB6, 0xE5, 0xB9, 0xB6, 0xE8, 0xAE, 0xBE, 0xE7, 0xBD, 0xAE, 0xE8, 0xAD,
       0xA6, 0xE7, 0xA4, 0xBA, 0xE6, 0xA0, 0x87, 0xE5, 0xBF, 0x97, 0xEF, 0xBC, 0x8C, 0xE8, 0x81, 0x94, 0xE7,
       0xB3, 0xBB, 0xE9, 0x81, 0x93, 0xE8, 0xB7, 0xAF, 0xE6, 0x95, 0x91, 0xE6, 0x8F, 0xB4, 0xE6, 0xA3, 0x80,
       0xE4, 0xBF, 0xAE, 0xE5, 0x88, 0xB6, 0xE5, 0x8A, 0xA8, 0xE7, 0xB3, 0xBB, 0xE7, 0xBB, 0x9F, 0xEF, 0xBC,
       0x8C, 0xE5, 0xBF, 0x85, 0xE8, 0xA6, 0x81, 0xE6, 0x97, 0xB6, 0xE6, 0x8D, 0xA2, 0xE8, 0xBD, 0xA6, 0xE8,
       0xBD, 0xAC, 0xE8, 0xBF, 0x90, 0xE3, 0x80, 0x82]"

definition action_engine :: string where
  "action_engine =
     utf8 [0xE7, 0xAB, 0x8B, 0xE5, 0x8D, 0xB3, 0xE5, 0xAE, 0x89, 0xE5, 0x85, 0xA8, 0xE5, 0x81, 0x9C, 0xE8, 0xBD, 0xA6,
       0xE5, 0xB9, 0xB6, 0xE5, 0x85, 0xB3, 0xE9, 0x97, 0xAD, 0xE8, 0xBD, 0xA6, 0xE8, 0xBE, 0x86, 0xEF, 0xBC,
       0x8C, 0xE8, 0x81, 0x94, 0xE7, 0xB3, 0xBB, 0xE9, 0x81, 0x93, 0xE8, 0xB7, 0xAF, 0xE6, 0x95, 0x91, 0xE6,
       0x8F, 0xB4, 0xE6, 0xA3, 0x80, 0xE6, 0x9F, 0xA5, 0xE5, 0x8F, 0x91, 0xE5, 0x8A, 0xA8, 0xE6, 0x9C, 0xBA,
       0xEF, 0xBC, 0x8C, 0xE7, 0xA1, 0xAE, 0xE8, 0xAE, 0xA4, 0xE4, 0xBF, 0xAE, 0xE5, 0xA4, 0x8D, 0xE5, 0x89,
       0x8D, 0xE4, 0xB8, 0x8D, 0xE5, 0xBE, 0x97, 0xE7, 0xBB, 0xA7, 0xE7, 0xBB, 0xAD, 0xE9, 0x85, 0x8D, 0xE9,
       0x80, 0x81, 0xE3, 0x80, 0x82]"

definition action_breakdown :: string where
  "action_breakdown =
     utf8 [0xE7, 0xAB, 0x8B, 0xE5, 0x8D, 0xB3, 0xE5, 0xAE, 0x89, 0xE5, 0x85, 0xA8, 0xE5, 0x81, 0x9C, 0xE8, 0xBD, 0xA6,
       0xE5, 0xB9, 0xB6, 0xE8, 0xAE, 0xBE, 0xE7, 0xBD, 0xAE, 0xE8, 0xAD, 0xA6, 0xE7, 0xA4, 0xBA, 0xE6, 0xA0,
       0x87, 0xE5, 0xBF, 0x97, 0xEF, 0xBC, 0x8C, 0xE8, 0x81, 0x94, 0xE7, 0xB3, 0xBB, 0xE9, 0x81, 0x93, 0xE8,
       0xB7, 0xAF, 0xE6, 0x95, 0x91, 0xE6, 0x8F, 0xB4, 0xE6, 0xA3, 0x80, 0xE6, 0x9F, 0xA5, 0xE8, 0xBD, 0xA6,
       0xE8, 0xBE, 0x86, 0xEF, 0xBC, 0x8C, 0xE5, 0xBF, 0x85, 0xE8, 0xA6, 0x81, 0xE6, 0x97, 0xB6, 0xE6, 0x8D,
       0xA2, 0xE8, 0xBD, 0xA6, 0xE8, 0xBD, 0xAC, 0xE8, 0xBF, 0x90, 0xE3, 0x80, 0x82]"

definition action_blocked_route :: string where
  "action_blocked_route =
     utf8 [0xE4, 0xBF, 0x9D, 0xE6, 0x8C, 0x81, 0xE5, 0xAE, 0x89, 0xE5, 0x85, 0xA8, 0xE8, 0xB7, 0x9D, 0xE7, 0xA6, 0xBB,
       0xEF, 0xBC, 0x8C, 0xE6, 0x8C, 0x89, 0xE5, 0xB7, 0xB2, 0xE6, 0xA0, 0xB8, 0xE9, 0xAA, 0x8C, 0xE7, 0x9A,
       0x84, 0xE5, 0xAE, 0x89, 0xE5, 0x85, 0xA8, 0xE5, 0x80, 0x99, 0xE9, 0x80, 0x89, 0xE8, 0xB7, 0xAF, 0xE7,
       0xBA, 0xBF, 0xE6, 0x94, 0xB9, 0xE9, 0x81, 0x93, 0xE5, 0xB9, 0xB6, 0xE6, 0x9C, 0x8D, 0xE4, 0xBB, 0x8E,
       0xE8, 0xB0, 0x83, 0xE5, 0xBA, 0xA6, 0xE6, 0x8C, 0x87, 0xE4, 0xBB, 0xA4, 0xE3, 0x80, 0x82]"

definition action_blocked_wait :: string where
  "action_blocked_wait =
     utf8 [0xE5, 0x81, 0x9C, 0xE5, 0x9C, 0xA8, 0xE5, 0xAE, 0x89, 0xE5, 0x85, 0xA8, 0xE4, 0xBD, 0x8D, 0xE7, 0xBD, 0xAE,
       0xE5, 0xB9, 0xB6, 0xE4, 0xBF, 0x9D, 0xE6, 0x8C, 0x81, 0xE4, 0xBB, 0xBB, 0xE5, 0x8A, 0xA1, 0xE6, 0x9A,
       0x82, 0xE5, 0x81, 0x9C, 0xEF, 0xBC, 0x8C, 0xE7, 0xAD, 0x89, 0xE5, 0xBE, 0x85, 0xE8, 0xB0, 0x83, 0xE5,
       0xBA, 0xA6, 0xE6, 0xA0, 0xB8, 0xE5, 0xAE, 0x9E, 0xE5, 0x90, 0x8E, 0xE9, 0x85, 0x8D, 0xE7, 0xBD, 0xAE,
       0xE6, 0x9B, 0xBF, 0xE4, 0xBB, 0xA3, 0xE8, 0xB7, 0xAF, 0xE7, 0xBA, 0xBF, 0xE3, 0x80, 0x82]"

definition action_hazard_route :: string where
  "action_hazard_route =
     utf8 [0xE9, 0x99, 0x8D, 0xE4, 0xBD, 0x8E, 0xE8, 0xBD, 0xA6, 0xE9, 0x80, 0x9F, 0xE5, 0xB9, 0xB6, 0xE6, 0x8C, 0x89,
       0xE5, 0xB7, 0xB2, 0xE6, 0xA0, 0xB8, 0xE9, 0xAA, 0x8C, 0xE7, 0x9A, 0x84, 0xE5, 0xAE, 0x89, 0xE5, 0x85,
       0xA8, 0xE5, 0x80, 0x99, 0xE9, 0x80, 0x89, 0xE8, 0xB7, 0xAF, 0xE7, 0xBA, 0xBF, 0xE7, 0xBB, 0x95, 0xE8,
       0xA1, 0x8C, 0xEF, 0xBC, 0x8C, 0xE6, 0x8C, 0x81, 0xE7, 0xBB, 0xAD, 0xE5, 0x85, 0xB3, 0xE6, 0xB3, 0xA8,
       0xE7, 0x8E, 0xB0, 0xE5, 0x9C, 0xBA, 0xE8, 0xB7, 0xAF, 0xE5, 0x86, 0xB5, 0xE3, 0x80, 0x82]"

definition action_hazard_wait :: string where
  "action_hazard_wait =
     utf8 [0xE7, 0xAB, 0x8B, 0xE5, 0x8D, 0xB3, 0xE9, 0x99, 0x8D, 0xE9, 0x80, 0x9F, 0xE5, 0xB9, 0xB6, 0xE5, 0x9C, 0xA8,
       0xE5, 0xBF, 0x85, 0xE8, 0xA6, 0x81, 0xE6, 0x97, 0xB6, 0xE5, 0x81, 0x9C, 0xE6, 0xAD, 0xA2, 0xE9, 0x80,
       0x9A, 0xE8, 0xA1, 0x8C, 0xEF, 0xBC, 0x8C, 0xE4, 0xB8, 0x8A, 0xE6, 0x8A, 0xA5, 0xE5, 0x87, 0x86, 0xE7,
       0xA1, 0xAE, 0xE4, 0xBD, 0x8D, 0xE7, 0xBD, 0xAE, 0xEF, 0xBC, 0x8C, 0xE7, 0xAD, 0x89, 0xE5, 0xBE, 0x85,
       0xE8, 0xB0, 0x83, 0xE5, 0xBA, 0xA6, 0xE6, 0xA0, 0xB8, 0xE5, 0xAE, 0x9E, 0xE5, 0xAE, 0x89, 0xE5, 0x85,
       0xA8, 0xE8, 0xB7, 0xAF, 0xE7, 0xBA, 0xBF, 0xE3, 0x80, 0x82]"

definition action_weather_route :: string where
  "action_weather_route =
     utf8 [0xE6, 0x9A, 0x82, 0xE7, 0xBC, 0x93, 0xE5, 0xBD, 0x93, 0xE5, 0x89, 0x8D, 0xE8, 0xB7, 0xAF, 0xE7, 0xBA, 0xBF,
       0xE9, 0x80, 0x9A, 0xE8, 0xA1, 0x8C, 0xEF, 0xBC, 0x8C, 0xE7, 0xA1, 0xAE, 0xE8, 0xAE, 0xA4, 0xE5, 0xAE,
       0x89, 0xE5, 0x85, 0xA8, 0xE5, 0x90, 0x8E, 0xE6, 0x8C, 0x89, 0xE5, 0xB7, 0xB2, 0xE6, 0xA0, 0xB8, 0xE9,
       0xAA, 0x8C, 0xE5, 0x80, 0x99, 0xE9, 0x80, 0x89, 0xE8, 0xB7, 0xAF, 0xE7, 0xBA, 0xBF, 0xE6, 0x94, 0xB9,
       0xE9, 0x81, 0x93, 0xE3, 0x80, 0x82]"

definition action_weather_wait :: string where
  "action_weather_wait =
     utf8 [0xE6, 0x9A, 0x82, 0xE7, 0xBC, 0x93, 0xE9, 0x80, 0x9A, 0xE8, 0xA1, 0x8C, 0xE5, 0xB9, 0xB6, 0xE5, 0xB0, 0xB1,
       0xE8, 0xBF, 0x91, 0xE5, 0xAE, 0x89, 0xE5, 0x85, 0xA8, 0xE9, 0x81, 0xBF, 0xE9, 0x99, 0xA9, 0xEF, 0xBC,
       0x8C, 0xE7, 0xAD, 0x89, 0xE5, 0xBE, 0x85, 0xE7, 0x8E, 0xAF, 0xE5, 0xA2, 0x83, 0xE9, 0xA3, 0x8E, 0xE9,
       0x99, 0xA9, 0xE4, 0xB8, 0x8B, 0xE9, 0x99, 0x8D, 0xE6, 0x88, 0x96, 0xE8, 0xB0, 0x83, 0xE5, 0xBA, 0xA6,
       0xE7, 0xA1, 0xAE, 0xE8, 0xAE, 0xA4, 0xE6, 0x9B, 0xBF, 0xE4, 0xBB, 0xA3, 0xE8, 0xB7, 0xAF, 0xE7, 0xBA,
       0xBF, 0xE3, 0x80, 0x82]"

definition action_cargo :: string where
  "action_cargo =
     utf8 [0xE7, 0xAB, 0x8B, 0xE5, 0x8D, 0xB3, 0xE5, 0xAE, 0x89, 0xE5, 0x85, 0xA8, 0xE5, 0x81, 0x9C, 0xE8, 0xBD, 0xA6,
       0xE6, 0xA3, 0x80, 0xE6, 0x9F, 0xA5, 0xE8, 0xB4, 0xA7, 0xE7, 0x89, 0xA9, 0xEF, 0xBC, 0x8C, 0xE9, 0x9A,
       0x94, 0xE7, 0xA6, 0xBB, 0xE6, 0xB3, 0x84, 0xE6, 0xBC, 0x8F, 0xE6, 0x88, 0x96, 0xE6, 0xB8, 0xA9, 0xE6,
       0x8E, 0xA7, 0xE9, 0xA3, 0x8E, 0xE9, 0x99, 0xA9, 0xEF, 0xBC, 0x8C, 0xE9, 0x87, 0x8D, 0xE6, 0x96, 0xB0,
       0xE5, 0x9B, 0xBA, 0xE5, 0xAE, 0x9A, 0xE8, 0xB4, 0xA7, 0xE7, 0x89, 0xA9, 0xEF, 0xBC, 0x8C, 0xE5, 0xBF,
       0x85, 0xE8, 0xA6, 0x81, 0xE6, 0x97, 0xB6, 0xE5, 0xAE, 0x89, 0xE6, 0x8E, 0x92, 0xE8, 0xBD, 0xAC, 0xE8,
       0xBF, 0x90, 0xE3, 0x80, 0x82]"

definition action_capacity :: string where
  "action_capacity =
     utf8 [0xE4, 0xBF, 0x9D, 0xE6, 0x8C, 0x81, 0xE4, 0xBB, 0xBB, 0xE5, 0x8A, 0xA1, 0xE6, 0x9A, 0x82, 0xE5, 0x81, 0x9C,
       0xE5, 0xB9, 0xB6, 0xE9, 0x87, 0x8D, 0xE6, 0x96, 0xB0, 0xE5, 0x88, 0x86, 0xE9, 0x85, 0x8D, 0xE5, 0x8F,
       0xB8, 0xE6, 0x9C, 0xBA, 0xE6, 0x88, 0x96, 0xE8, 0xBD, 0xA6, 0xE8, 0xBE, 0x86, 0xEF, 0xBC, 0x9B, 0xE5,
       0xAD, 0x98, 0xE5, 0x9C, 0xA8, 0xE8, 0xB6, 0x85, 0xE8, 0xBD, 0xBD, 0xE6, 0x97, 0xB6, 0xE7, 0xAB, 0x8B,
       0xE5, 0x8D, 0xB3, 0xE5, 0x8D, 0xB8, 0xE8, 0xBD, 0xBD, 0xE5, 0x88, 0x86, 0xE6, 0xB5, 0x81, 0xEF, 0xBC,
       0x8C, 0xE5, 0xBF, 0x85, 0xE8, 0xA6, 0x81, 0xE6, 0x97, 0xB6, 0xE6, 0x8B, 0x86, 0xE5, 0x8D, 0x95, 0xE8,
       0xBD, 0xAC, 0xE8, 0xBF, 0x90, 0xE3, 0x80, 0x82]"

definition action_other :: string where
  "action_other =
     utf8 [0xE4, 0xBF, 0x9D, 0xE6, 0x8C, 0x81, 0xE4, 0xBB, 0xBB, 0xE5, 0x8A, 0xA1, 0xE6, 0x9A, 0x82, 0xE5, 0x81, 0x9C,
       0xEF, 0xBC, 0x8C, 0xE8, 0xAE, 0xB0, 0xE5, 0xBD, 0x95, 0xE7, 0x8E, 0xB0, 0xE5, 0x9C, 0xBA, 0xE4, 0xBD,
       0x8D, 0xE7, 0xBD, 0xAE, 0xE5, 0x92, 0x8C, 0xE7, 0x8E, 0xB0, 0xE8, 0xB1, 0xA1, 0xEF, 0xBC, 0x8C, 0xE5,
       0xB9, 0xB6, 0xE7, 0xAB, 0x8B, 0xE5, 0x8D, 0xB3, 0xE8, 0x81, 0x94, 0xE7, 0xB3, 0xBB, 0xE8, 0xB0, 0x83,
       0xE5, 0xBA, 0xA6, 0xE5, 0x91, 0x98, 0xE8, 0xA1, 0xA5, 0xE5, 0x85, 0x85, 0xE8, 0xB5, 0x84, 0xE6, 0xBA,
       0x90, 0xE4, 0xB8, 0x8E, 0xE5, 0xA4, 0x84, 0xE7, 0xBD, 0xAE, 0xE6, 0x96, 0xB9, 0xE6, 0xA1, 0x88, 0xE3,
       0x80, 0x82]"

definition fact_report :: string where
  "fact_report =
     utf8 [0xE5, 0x91, 0x98, 0xE5, 0xB7, 0xA5, 0xE4, 0xB8, 0x8A, 0xE6, 0x8A, 0xA5, 0xE2, 0x80, 0x9C]"

definition fact_quote :: string where
  "fact_quote =
     utf8 [0xE2, 0x80, 0x9D]"

definition fact_vehicle :: string where
  "fact_vehicle =
     utf8 [0xE8, 0xBD, 0xA6, 0xE8, 0xBE, 0x86, 0xE7, 0x8A, 0xB6, 0xE6, 0x80, 0x81, 0xE4, 0xB8, 0xBA] @ '' ''"

definition fact_environment :: string where
  "fact_environment =
     utf8 [0xE7, 0x8E, 0xAF, 0xE5, 0xA2, 0x83, 0xE9, 0xA3, 0x8E, 0xE9, 0x99, 0xA9, 0xE4, 0xB8, 0xBA] @ '' ''"

definition fact_capacity :: string where
  "fact_capacity =
     utf8 [0xE8, 0xBF, 0x90, 0xE5, 0x8A, 0x9B, 0xE7, 0x8A, 0xB6, 0xE6, 0x80, 0x81, 0xE4, 0xB8, 0xBA] @ '' ''"

definition fact_separator :: string where
  "fact_separator =
     utf8 [0xEF, 0xBC, 0x9B]"

definition fact_conclusion :: string where
  "fact_conclusion =
     utf8 [0xEF, 0xBC, 0x8C] @ ''8-Agent '' @ utf8 [0xE5, 0x8D, 0x8F, 0xE5, 0x90, 0x8C, 0xE5, 0x88, 0x86, 0xE6, 0x9E,
       0x90, 0xE5, 0x90, 0x8E, 0xE9, 0x9C, 0x80, 0xE8, 0xA6, 0x81, 0xE6, 0x89, 0xA7, 0xE8, 0xA1, 0x8C, 0xE5,
       0xAE, 0x89, 0xE5, 0x85, 0xA8, 0xE5, 0xA4, 0x84, 0xE7, 0xBD, 0xAE, 0xE3, 0x80, 0x82]"

section \<open>The service\<close>

definition category_aliases :: "(string \<times> string) list" where
  "category_aliases =
     [(''ROAD'', ''ROAD_HAZARD''), (''VEHICLE'', ''VEHICLE_BREAKDOWN''), (''VEHICLE_FAULT'', ''VEHICLE_BREAKDOWN''),
      (''GOODS'', ''CARGO'')]"

definition normalize_category :: "string \<Rightarrow> string \<Rightarrow> string" where
  "normalize_category anomaly_type description =
     (let normal = py_upper (py_strip anomaly_type);
          category = (case map_of category_aliases normal of None \<Rightarrow> normal | Some c \<Rightarrow> c)
      in if category \<in> set known_categories then category
         else if contains_any description breakdown_words then ''VEHICLE_BREAKDOWN''
         else if contains_any description blocked_words then ''ROAD_BLOCKED''
         else if contains_any description hazard_words then ''ROAD_HAZARD''
         else if contains_any description weather_words then ''WEATHER''
         else if contains_any description cargo_words then ''CARGO''
         else if contains_any description capacity_words then ''CAPACITY''
         else ''OTHER'')"

definition identify_subtype :: "string \<Rightarrow> string \<Rightarrow> string" where
  "identify_subtype category description =
     (let rules = (case map_of subtype_rules category of None \<Rightarrow> [] | Some rs \<Rightarrow> rs)
      in case first_match (\<lambda>(subtype, keywords). contains_any description keywords) rules of
           None \<Rightarrow> ''GENERAL'' | Some (subtype, _) \<Rightarrow> subtype)"

definition verified_route :: "string option \<Rightarrow> pydict list \<Rightarrow> string option" where
  "verified_route recommended_route candidate_routes =
     (case py_or recommended_route None of
        None \<Rightarrow> None
      | Some r \<Rightarrow>
          if list_ex (\<lambda>c. dget c ''route_id'' = PStr r \<and> dget c ''available'' = PBool True) candidate_routes
          then Some r else None)"

definition issue_reason :: "string \<Rightarrow> string option \<Rightarrow> string option \<Rightarrow> string option \<Rightarrow> string" where
  "issue_reason description vehicle_status environment_risk capacity_status =
     (let fact = (\<lambda>label value. case py_or value None of None \<Rightarrow> [] | Some v \<Rightarrow> [label @ v])
      in join fact_separator
           ([fact_report @ description @ fact_quote] @ fact fact_vehicle vehicle_status @
            fact fact_environment environment_risk @ fact fact_capacity capacity_status) @ fact_conclusion)"

definition issue_action :: "string \<Rightarrow> string \<Rightarrow> string option \<Rightarrow> string" where
  "issue_action category subtype route =
     (let has_route = (py_or route None \<noteq> None)
      in if category = ''VEHICLE_BREAKDOWN''
         then (if subtype = ''TIRE'' then action_tire else if subtype = ''BRAKE'' then action_brake
               else if subtype = ''ENGINE'' then action_engine else action_breakdown)
         else if category = ''ROAD_BLOCKED'' then (if has_route then action_blocked_route else action_blocked_wait)
         else if category = ''ROAD_HAZARD'' then (if has_route then action_hazard_route else action_hazard_wait)
         else if category = ''WEATHER'' then (if has_route then action_weather_route else action_weather_wait)
         else if category = ''CARGO'' then action_cargo
         else if category = ''CAPACITY'' then action_capacity
         else action_other)"

definition recommend :: "string \<Rightarrow> string \<Rightarrow> string option \<Rightarrow> string option \<Rightarrow> string option \<Rightarrow> pydict list \<Rightarrow>
    string option \<Rightarrow> issue_recommendation" where
  "recommend anomaly_type anomaly_description vehicle_status environment_risk capacity_status candidate_routes
     recommended_route =
     (let stripped = py_strip anomaly_description;
          description = (if stripped = [] then default_description else stripped);
          category = normalize_category anomaly_type description;
          subtype = identify_subtype category description;
          route = (if category \<in> set non_route_categories then None
                   else verified_route recommended_route candidate_routes)
      in \<lparr>ir_issue_category = category, ir_issue_subtype = subtype,
          ir_analysis_reason = issue_reason description vehicle_status environment_risk capacity_status,
          ir_recommended_action = issue_action category subtype route, ir_recommended_route = route,
          ir_analysis_mode = ''EIGHT_AGENT_RULE_ASSISTED''\<rparr>)"

section \<open>What a recommendation promises\<close>

lemma category_known: "normalize_category t d \<in> set known_categories"
  by (auto simp: normalize_category_def Let_def known_categories_def)

lemma verified_route_Some:
  "verified_route r cs = Some x \<longleftrightarrow> r = Some x \<and> x \<noteq> [] \<and>
     (\<exists>c\<in>set cs. dget c ''route_id'' = PStr x \<and> dget c ''available'' = PBool True)"
  by (auto simp: verified_route_def py_or_def list_ex_iff split: option.splits if_splits)

text \<open>
  A recommendation names a known category, and it names a route only for an anomaly of the road or the
  weather, only the route it was given, and only when that route is among the candidates as available.
\<close>

theorem recommendation_verified:
  "let r = recommend anomaly_type description vs er cs candidates route
   in ir_issue_category r \<in> set known_categories \<and>
      (case ir_recommended_route r of
         None \<Rightarrow> ir_issue_category r \<in> set non_route_categories \<or> route = None \<or> route = Some [] \<or>
           \<not> (\<exists>c\<in>set candidates. Some (dget c ''route_id'') = map_option PStr route \<and> dget c ''available'' = PBool True)
       | Some x \<Rightarrow> route = Some x \<and> ir_issue_category r \<in> {''ROAD_BLOCKED'', ''ROAD_HAZARD'', ''WEATHER''} \<and>
           (\<exists>c\<in>set candidates. dget c ''route_id'' = PStr x \<and> dget c ''available'' = PBool True))"
proof -
  let ?d = "if py_strip description = [] then default_description else py_strip description"
  let ?c = "normalize_category anomaly_type ?d"
  have cat: "?c \<in> set known_categories" using category_known .
  then have route_cat: "?c \<notin> set non_route_categories \<Longrightarrow> ?c \<in> {''ROAD_BLOCKED'', ''ROAD_HAZARD'', ''WEATHER''}"
    by (auto simp: known_categories_def non_route_categories_def)
  show ?thesis
  proof (cases "?c \<in> set non_route_categories")
    case True
    then show ?thesis using cat by (simp add: recommend_def Let_def)
  next
    case False
    then show ?thesis
      using cat route_cat verified_route_Some [of route candidates]
      by (cases "verified_route route candidates"; cases route)
         (auto simp: recommend_def Let_def verified_route_def py_or_def list_ex_iff split: if_splits)
  qed
qed

theorem recommendation_verified_witness:
  "ir_recommended_route (recommend ''weather'' ''storm'' None None None
     [[(''route_id'', PStr ''R2''), (''available'', PBool True)]] (Some ''R2'')) = Some ''R2''"
proof -
  let ?cs = "[[(''route_id'', PStr ''R2''), (''available'', PBool True)]]"
  have "ir_issue_category (recommend ''weather'' ''storm'' None None None ?cs (Some ''R2'')) = ''WEATHER''" by code_simp
  then show ?thesis
    using recommendation_verified [of "''weather''" "''storm''" None None None ?cs "Some ''R2''"]
    by (auto simp: Let_def non_route_categories_def split: option.splits)
qed

end
