(* ===== verification/Sandtable.thy ===== *)
theory Sandtable
  imports Routing Dispatch_Service
begin

text \<open>
  The task context of \<open>backend/app/sandtable\<close>: the repository \<open>SqlAlchemySandtableRepository\<close>, which reads the order, its
  end points and its vehicle and blocks a road, and \<open>SandtableContextService.resolve\<close>, which matches a report with the order.
  The seeding of the demonstration data is not modelled.
\<close>

section \<open>Tables\<close>

record order_row =
  or_id :: int
  or_order_no :: string
  or_status :: string
  or_driver_id :: "string option"
  or_vehicle_id :: "string option"
  or_route_id :: "string option"
  or_origin :: string
  or_destination :: string
  or_cargo_weight_kg :: "rat option"
  or_cargo_type :: "string option"
  or_origin_station_id :: "string option"
  or_destination_station_id :: "string option"

record station_row =
  sr_station_id :: string
  sr_name :: string
  sr_station_type :: string
  sr_road_node_id :: string
  sr_handling_capacity_kg :: rat
  sr_status :: string

record sandtable_db =
  sdb_orders :: "order_row list"
  sdb_stations :: "station_row list"
  sdb_nodes :: "road_node list"
  sdb_edges :: "road_edge list"
  sdb_vehicles :: "vehicle_row list"

datatype sandtable_error =
    LookupFailed
  | RoadLocationUnresolved
  | VehicleAssignmentMismatch sandtable_task_context

section \<open>The repository\<close>

definition endpoint_node_id :: "sandtable_db \<Rightarrow> string option \<Rightarrow> string \<Rightarrow> string option" where
  "endpoint_node_id db station_id endpoint_name =
     (let by_name = (case filter (\<lambda>n. rn_name n = endpoint_name) (sdb_nodes db) of
                       [n] \<Rightarrow> Some (rn_node_id n) | _ \<Rightarrow> None)
      in case station_id of
           None \<Rightarrow> by_name
         | Some sid \<Rightarrow>
             (case first_match (\<lambda>s. sr_station_id s = sid) (sdb_stations db) of
                Some station \<Rightarrow> Some (sr_road_node_id station) | None \<Rightarrow> by_name))"

definition max_edge_version :: "road_edge list \<Rightarrow> int" where
  "max_edge_version edges = (case map re_version edges of [] \<Rightarrow> 0 | v # vs \<Rightarrow> foldl max v vs)"

definition load :: "sandtable_db \<Rightarrow> int \<Rightarrow> sandtable_error + sandtable_task_context" where
  "load db order_id =
     (case first_match (\<lambda>r. or_id r = order_id) (sdb_orders db) of
        None \<Rightarrow> Inl LookupFailed
      | Some order \<Rightarrow>
          (case (endpoint_node_id db (or_origin_station_id order) (or_origin order),
                 endpoint_node_id db (or_destination_station_id order) (or_destination order),
                 first_match (\<lambda>v. Some (vr_vehicle_id v) = or_vehicle_id order) (sdb_vehicles db)) of
             (Some origin, Some destination, Some vehicle) \<Rightarrow>
               Inr \<lparr>tc_order_id = or_id order, tc_order_no = or_order_no order,
                    tc_cargo_weight_kg = (case or_cargo_weight_kg order of None \<Rightarrow> 0 | Some w \<Rightarrow> w),
                    tc_cargo_type = str_or (or_cargo_type order) ''GENERAL'',
                    tc_origin_node_id = origin, tc_destination_node_id = destination,
                    tc_current_vehicle_id = vr_vehicle_id vehicle,
                    tc_current_driver_id = vr_assigned_driver_id vehicle, tc_incident_node_id = None,
                    tc_affected_edge_ids = [], tc_road_network_version = max_edge_version (sdb_edges db),
                    tc_vehicle_weight_tons = vr_gross_weight_tons vehicle\<rparr>
           | _ \<Rightarrow> Inl LookupFailed))"

text \<open>A changed row gets the next version (\<open>version_id_col\<close>).\<close>

definition set_edge_status :: "sandtable_db \<Rightarrow> string \<Rightarrow> string \<Rightarrow> sandtable_error + int \<times> sandtable_db" where
  "set_edge_status db edge_id status =
     (case first_match (\<lambda>e. re_edge_id e = edge_id) (sdb_edges db) of
        None \<Rightarrow> Inl LookupFailed
      | Some edge \<Rightarrow>
          if re_status edge = status then Inr (re_version edge, db)
          else Inr (re_version edge + 1,
                 db\<lparr>sdb_edges := map (\<lambda>e. if re_edge_id e = edge_id
                      then e\<lparr>re_status := status, re_version := re_version e + 1\<rparr> else e) (sdb_edges db)\<rparr>))"

section \<open>SandtableContextService\<close>

definition vehicle_aliases :: "(string \<times> string) list" where
  "vehicle_aliases = [(utf8 [0xE6, 0x96, 0xB0, 0xE7, 0x89, 0xA9, 0xE5, 0x86, 0xB7, 0xE9, 0x93, 0xBE] @ ''-01'', ''V-001'')]"

definition node_aliases :: "(string \<times> string) list" where
  "node_aliases = [(utf8 [0xE6, 0x96, 0xB0, 0xE5, 0xB9, 0xB3, 0xE8, 0xB7, 0xAF] @ '' K3.2'', ''N04'')]"

definition edge_aliases :: "(string \<times> string) list" where
  "edge_aliases =
     [(utf8 [0xE6, 0x96, 0xB0, 0xE5, 0xB9, 0xB3, 0xE8, 0xB7, 0xAF, 0xE4, 0xB8, 0x9C, 0xE6, 0xB2, 0xB3, 0xE6, 0xA1, 0xA5,
        0xE6, 0xAE, 0xB5], ''E04''),
      (utf8 [0xE4, 0xB8, 0xAD, 0xE5, 0xBF, 0x83, 0xE4, 0xBB, 0x93, 0xE8, 0x87, 0xB3] @ '' 308 '' @ utf8 [0xE7, 0xBA, 0xBF],
        ''E10'')]"

definition resolve_exact_alias :: "string \<Rightarrow> (string \<times> string) list \<Rightarrow> string option" where
  "resolve_exact_alias description aliases =
     (case map snd (filter (\<lambda>(alias, value). is_infix alias description) aliases) of [v] \<Rightarrow> Some v | _ \<Rightarrow> None)"

definition resolve :: "sandtable_db \<Rightarrow> int \<Rightarrow> string \<Rightarrow> string \<Rightarrow> string option \<Rightarrow>
    (sandtable_error + sandtable_task_context) \<times> sandtable_db" where
  "resolve db order_id anomaly_type description vehicle_id =
     (case load db order_id of
        Inl err \<Rightarrow> (Inl err, db)
      | Inr context \<Rightarrow>
          let reported = py_or vehicle_id (resolve_exact_alias description vehicle_aliases)
          in if reported \<noteq> None \<and> reported \<noteq> Some (tc_current_vehicle_id context)
             then (Inl (VehicleAssignmentMismatch context), db)
             else if anomaly_type = ''ROAD_BLOCKED''
             then (case resolve_exact_alias description edge_aliases of
                     None \<Rightarrow> (Inl RoadLocationUnresolved, db)
                   | Some edge_id \<Rightarrow>
                       (case set_edge_status db edge_id ''BLOCKED'' of
                          Inl err \<Rightarrow> (Inl err, db)
                        | Inr (_, db') \<Rightarrow>
                            (case load db' order_id of
                               Inl err \<Rightarrow> (Inl err, db')
                             | Inr context' \<Rightarrow> (Inr (context'\<lparr>tc_affected_edge_ids := [edge_id]\<rparr>), db'))))
             else (Inr (context\<lparr>tc_incident_node_id := resolve_exact_alias description node_aliases\<rparr>), db))"

section \<open>What resolving promises\<close>

lemma endpoint_node_id_edges [simp]: "endpoint_node_id (db\<lparr>sdb_edges := es\<rparr>) sid name = endpoint_node_id db sid name"
  by (simp add: endpoint_node_id_def Let_def split: option.split)

lemma load_set_edge:
  "load (db\<lparr>sdb_edges := es\<rparr>) order_id =
     map_sum id (\<lambda>c. c\<lparr>tc_road_network_version := max_edge_version es\<rparr>) (load db order_id)"
  by (simp add: load_def split: option.split)

text \<open>The error a road or order cannot be found with never occurs after the road was blocked.\<close>

lemma resolve_blocked_loads:
  assumes "load db order_id = Inr context" "set_edge_status db edge_id status = Inr (v, db')"
  shows "\<exists>context'. load db' order_id = Inr context' \<and> tc_current_vehicle_id context' = tc_current_vehicle_id context \<and>
    tc_origin_node_id context' = tc_origin_node_id context \<and>
    tc_destination_node_id context' = tc_destination_node_id context"
  using assms by (auto simp: set_edge_status_def load_set_edge split: option.splits if_splits)

lemma set_edge_status_blocks:
  assumes "set_edge_status db edge_id status = Inr (v, db')" "distinct (map re_edge_id (sdb_edges db))"
    and "e \<in> set (sdb_edges db')" "re_edge_id e = edge_id"
  shows "re_status e = status"
proof -
  obtain edge where m: "first_match (\<lambda>e. re_edge_id e = edge_id) (sdb_edges db) = Some edge"
    using assms(1) by (auto simp: set_edge_status_def split: option.splits)
  then have edge: "edge \<in> set (sdb_edges db)" "re_edge_id edge = edge_id" by (auto dest: first_match_SomeD)
  show ?thesis
  proof (cases "re_status edge = status")
    case True
    then have "db' = db" using assms(1) m by (auto simp: set_edge_status_def)
    then show ?thesis using True assms(3,4) edge distinct_map_eq [OF assms(2), of e edge] by simp
  next
    case False
    define g where "g = (\<lambda>e :: road_edge. if re_edge_id e = edge_id
        then e\<lparr>re_status := status, re_version := re_version e + 1\<rparr> else e)"
    have "sdb_edges db' = map g (sdb_edges db)" using assms(1) m False by (auto simp: set_edge_status_def g_def)
    then obtain x where "e = g x" using assms(3) by auto
    then show ?thesis using assms(4) by (auto simp: g_def split: if_splits)
  qed
qed

lemma set_edge_status_frame:
  assumes "set_edge_status db edge_id status = Inr (v, db')"
  shows "list_all2 (\<lambda>x y. re_edge_id y = re_edge_id x \<and> (re_edge_id x \<noteq> edge_id \<longrightarrow> y = x)) (sdb_edges db) (sdb_edges db')"
    "\<exists>e\<in>set (sdb_edges db'). re_edge_id e = edge_id"
proof -
  obtain edge where m: "first_match (\<lambda>e. re_edge_id e = edge_id) (sdb_edges db) = Some edge"
    using assms by (auto simp: set_edge_status_def split: option.splits)
  then have edge: "edge \<in> set (sdb_edges db)" "re_edge_id edge = edge_id" by (auto dest: first_match_SomeD)
  show frame: "list_all2 (\<lambda>x y. re_edge_id y = re_edge_id x \<and> (re_edge_id x \<noteq> edge_id \<longrightarrow> y = x))
      (sdb_edges db) (sdb_edges db')"
    using assms m by (auto simp: set_edge_status_def list_all2_map2 intro!: list.rel_refl_strong split: if_splits)
  then have "map re_edge_id (sdb_edges db') = map re_edge_id (sdb_edges db)"
    by (induction rule: list_all2_induct) auto
  then have "edge_id \<in> set (map re_edge_id (sdb_edges db'))" using edge by auto
  then show "\<exists>e\<in>set (sdb_edges db'). re_edge_id e = edge_id" by auto
qed

section \<open>A small sandtable for evaluation\<close>

definition sample_order :: order_row where
  "sample_order =
     \<lparr>or_id = 7, or_order_no = ''O7'', or_status = ''IN_TRANSIT'', or_driver_id = None, or_vehicle_id = Some ''V1'',
      or_route_id = None, or_origin = ''A'', or_destination = ''C'', or_cargo_weight_kg = Some 500,
      or_cargo_type = Some ''GENERAL'', or_origin_station_id = None, or_destination_station_id = None\<rparr>"

definition sample_sandtable :: sandtable_db where
  "sample_sandtable =
     \<lparr>sdb_orders = [sample_order], sdb_stations = [], sdb_nodes = net_nodes sample_net,
      sdb_edges = [sample_edge ''E04'' ''A'' ''B'' (3 / 2) 3 ''LOW''], sdb_vehicles = [sample_row 1 ''V1'']\<rparr>"

definition sample_report :: string where
  "sample_report = fst (hd edge_aliases)"

section \<open>Properties of the sandtable context\<close>

text \<open>
  C9. Resolving the report of a blocked road either fails without any change, or it blocks exactly the road that the report names
  uniquely: that road is in the table and blocked, all others are as before, the context of the order carries
  just this road, and the vehicle is the reported one if one was reported.
\<close>

theorem resolve_blocks_reported_road:
  assumes "distinct (map re_edge_id (sdb_edges db))"
  shows "case resolve db order_id ''ROAD_BLOCKED'' description vehicle_id of
      (Inl err, db') \<Rightarrow> db' = db
    | (Inr context, db') \<Rightarrow>
        (\<exists>edge_id. resolve_exact_alias description edge_aliases = Some edge_id \<and>
           tc_affected_edge_ids context = [edge_id] \<and>
           (\<exists>e\<in>set (sdb_edges db'). re_edge_id e = edge_id) \<and>
           (\<forall>e\<in>set (sdb_edges db'). re_edge_id e = edge_id \<longrightarrow> re_status e = ''BLOCKED'') \<and>
           list_all2 (\<lambda>x y. re_edge_id y = re_edge_id x \<and> (re_edge_id x \<noteq> edge_id \<longrightarrow> y = x))
             (sdb_edges db) (sdb_edges db') \<and>
           (\<forall>v. py_or vehicle_id (resolve_exact_alias description vehicle_aliases) = Some v \<longrightarrow>
              tc_current_vehicle_id context = v))"
proof (cases "load db order_id")
  case (Inl err)
  then show ?thesis by (simp add: resolve_def)
next
  case (Inr tctx)
  let ?rep = "py_or vehicle_id (resolve_exact_alias description vehicle_aliases)"
  show ?thesis
  proof (cases "?rep \<noteq> None \<and> ?rep \<noteq> Some (tc_current_vehicle_id tctx) \<or>
      resolve_exact_alias description edge_aliases = None")
    case True
    then show ?thesis using Inr by (auto simp: resolve_def Let_def split: option.splits)
  next
    case False
    then obtain edge_id where e: "resolve_exact_alias description edge_aliases = Some edge_id" by auto
    have ok: "\<not> (?rep \<noteq> None \<and> ?rep \<noteq> Some (tc_current_vehicle_id tctx))" using False by blast
    show ?thesis
    proof (cases "set_edge_status db edge_id ''BLOCKED''")
      case (Inl err)
      have "resolve db order_id ''ROAD_BLOCKED'' description vehicle_id = (Inl err, db)"
        unfolding resolve_def \<open>load db order_id = Inr tctx\<close> Let_def sum.case e option.case Inl
        using ok by (simp only: if_False if_True refl)
      then show ?thesis by simp
    next
      case (Inr vdb)
      then obtain v db' where s: "set_edge_status db edge_id ''BLOCKED'' = Inr (v, db')" by (cases vdb) auto
      obtain tctx' where c: "load db' order_id = Inr tctx'" "tc_current_vehicle_id tctx' = tc_current_vehicle_id tctx"
        using resolve_blocked_loads [OF \<open>load db order_id = Inr tctx\<close> s] by blast
      have "resolve db order_id ''ROAD_BLOCKED'' description vehicle_id =
          (Inr (tctx'\<lparr>tc_affected_edge_ids := [edge_id]\<rparr>), db')"
        unfolding resolve_def \<open>load db order_id = Inr tctx\<close> Let_def sum.case e option.case s prod.case c(1)
        using ok by (simp only: if_False if_True refl)
      then show ?thesis
        using e ok c(2) set_edge_status_frame [OF s] set_edge_status_blocks [OF s assms] by auto
    qed
  qed
qed

theorem resolve_blocks_reported_road_witness:
  "\<exists>tctx db'. resolve sample_sandtable 7 ''ROAD_BLOCKED'' sample_report None = (Inr tctx, db') \<and>
     tc_affected_edge_ids tctx = [''E04'']"
proof -
  have d: "distinct (map re_edge_id (sdb_edges sample_sandtable))"
    and r: "resolve_exact_alias sample_report edge_aliases = Some ''E04''"
    and ok: "\<exists>x. fst (resolve sample_sandtable 7 ''ROAD_BLOCKED'' sample_report None) = Inr x"
    by (code_simp, code_simp,
        rule exI [of _ "projr (fst (resolve sample_sandtable 7 ''ROAD_BLOCKED'' sample_report None))"], code_simp)
  then show ?thesis
    using resolve_blocks_reported_road [OF d, where order_id = 7 and description = sample_report and vehicle_id = None]
    by (cases "resolve sample_sandtable 7 ''ROAD_BLOCKED'' sample_report None") auto
qed

end
