(* ===== verification/Road_Snapshot_State.thy ===== *)
theory Road_Snapshot_State
  imports Road_Network Decimal_Text
begin

text \<open>
  \<open>RoadNetworkSnapshotService\<close> (\<open>backend/app/road_network/service.py\<close>): the road network captured once
  per task as plain state (\<open>RoadNetworkSnapshotState\<close> of \<open>graph/state.py\<close>, all decimals as text) and
  restored at a node boundary.

  The decimals of a snapshot come from \<open>Numeric(_, 2)\<close> columns, so \<open>format(_, "f")\<close> prints two
  fractional digits. \<open>Decimal(s)\<close> raises on text outside its grammar; text that denotes an
  infinity or a NaN has no rational value and is kept apart as \<open>NotFinite\<close>.
\<close>

record road_node_state =
  ns_node_id :: string
  ns_name :: string
  ns_x_km :: string
  ns_y_km :: string
  ns_node_type :: string

record road_edge_state =
  es_edge_id :: string
  es_name :: string
  es_from_node_id :: string
  es_to_node_id :: string
  es_distance_km :: string
  es_base_minutes :: int
  es_road_level :: string
  es_risk_level :: string
  es_status :: string
  es_congestion_factor :: string
  es_weight_limit_tons :: string
  es_bidirectional :: bool
  es_version :: int

record road_network_state =
  st_version :: int
  st_nodes :: "road_node_state list"
  st_edges :: "road_edge_state list"

datatype restore_error = InvalidOperation | NotFinite

definition node_to_state :: "road_node \<Rightarrow> road_node_state" where
  "node_to_state node =
     \<lparr>ns_node_id = rn_node_id node, ns_name = rn_name node, ns_x_km = format_f 2 (rn_x_km node),
      ns_y_km = format_f 2 (rn_y_km node), ns_node_type = rn_node_type node\<rparr>"

definition edge_to_state :: "road_edge \<Rightarrow> road_edge_state" where
  "edge_to_state edge =
     \<lparr>es_edge_id = re_edge_id edge, es_name = re_name edge,
      es_from_node_id = re_from_node_id edge, es_to_node_id = re_to_node_id edge,
      es_distance_km = format_f 2 (re_distance_km edge), es_base_minutes = re_base_minutes edge,
      es_road_level = re_road_level edge, es_risk_level = re_risk_level edge,
      es_status = re_status edge, es_congestion_factor = format_f 2 (re_congestion_factor edge),
      es_weight_limit_tons = format_f 2 (re_weight_limit_tons edge),
      es_bidirectional = re_bidirectional edge, es_version = re_version edge\<rparr>"

definition to_state :: "road_network \<Rightarrow> road_network_state" where
  "to_state snapshot =
     \<lparr>st_version = net_version snapshot, st_nodes = map node_to_state (net_nodes snapshot),
      st_edges = map edge_to_state (net_edges snapshot)\<rparr>"

definition capture :: "(unit \<Rightarrow> road_network) \<Rightarrow> road_network_state" where
  "capture provider_snapshot = to_state (provider_snapshot ())"

definition read_decimal :: "string \<Rightarrow> restore_error + rat" where
  "read_decimal s =
     (case decimal_of_string s of
        None \<Rightarrow> Inl InvalidOperation
      | Some (Finite v) \<Rightarrow> Inr v
      | Some _ \<Rightarrow> Inl NotFinite)"

definition restore_node :: "road_node_state \<Rightarrow> restore_error + road_node" where
  "restore_node node =
     (case read_decimal (ns_x_km node) of
        Inl err \<Rightarrow> Inl err
      | Inr x \<Rightarrow> (case read_decimal (ns_y_km node) of
          Inl err \<Rightarrow> Inl err
        | Inr y \<Rightarrow> Inr \<lparr>rn_node_id = ns_node_id node, rn_name = ns_name node, rn_x_km = x,
                     rn_y_km = y, rn_node_type = ns_node_type node\<rparr>))"

definition restore_edge :: "road_edge_state \<Rightarrow> restore_error + road_edge" where
  "restore_edge edge =
     (case read_decimal (es_distance_km edge) of
        Inl err \<Rightarrow> Inl err
      | Inr d \<Rightarrow> (case read_decimal (es_congestion_factor edge) of
          Inl err \<Rightarrow> Inl err
        | Inr c \<Rightarrow> (case read_decimal (es_weight_limit_tons edge) of
            Inl err \<Rightarrow> Inl err
          | Inr w \<Rightarrow> Inr \<lparr>re_edge_id = es_edge_id edge, re_name = es_name edge,
              re_from_node_id = es_from_node_id edge, re_to_node_id = es_to_node_id edge,
              re_distance_km = d, re_base_minutes = es_base_minutes edge,
              re_road_level = es_road_level edge, re_risk_level = es_risk_level edge,
              re_status = es_status edge, re_congestion_factor = c, re_weight_limit_tons = w,
              re_bidirectional = es_bidirectional edge, re_version = es_version edge\<rparr>)))"

definition restore :: "road_network_state \<Rightarrow> restore_error + road_network" where
  "restore state =
     (case map_result restore_node (st_nodes state) of
        Inl err \<Rightarrow> Inl err
      | Inr nodes \<Rightarrow> (case map_result restore_edge (st_edges state) of
          Inl err \<Rightarrow> Inl err
        | Inr edges \<Rightarrow> Inr \<lparr>net_version = st_version state, net_nodes = nodes, net_edges = edges\<rparr>))"

section \<open>The repository: sqlalchemy_repository.py\<close>

text \<open>
  The rows of the two tables carry the fields of the snapshots; the repository orders them by id,
  quantises their decimals and takes the greatest edge version as the version of the network.
\<close>

definition repo_decimal :: "rat \<Rightarrow> rat" where
  "repo_decimal = quantize_half_up 2"

definition repo_node :: "road_node \<Rightarrow> road_node" where
  "repo_node node = node\<lparr>rn_x_km := repo_decimal (rn_x_km node), rn_y_km := repo_decimal (rn_y_km node)\<rparr>"

definition repo_edge :: "road_edge \<Rightarrow> road_edge" where
  "repo_edge edge =
     edge\<lparr>re_distance_km := repo_decimal (re_distance_km edge),
       re_congestion_factor := repo_decimal (re_congestion_factor edge),
       re_weight_limit_tons := repo_decimal (re_weight_limit_tons edge)\<rparr>"

definition repo_snapshot :: "road_node list \<Rightarrow> road_edge list \<Rightarrow> road_network" where
  "repo_snapshot nodes edges =
     (let es = map repo_edge (sort_key re_edge_id edges)
      in \<lparr>net_version = (case map re_version es of [] \<Rightarrow> 0 | v # vs \<Rightarrow> foldl max v vs),
          net_nodes = map repo_node (sort_key rn_node_id nodes), net_edges = es\<rparr>)"

section \<open>Round trip\<close>

text \<open>A value of a \<open>Numeric(_, 2)\<close> column.\<close>

definition scale2 :: "rat \<Rightarrow> bool" where
  "scale2 x \<longleftrightarrow> x * 100 = of_int \<lfloor>x * 100\<rfloor>"

definition scaled_network :: "road_network \<Rightarrow> bool" where
  "scaled_network net \<longleftrightarrow>
     list_all (\<lambda>n. scale2 (rn_x_km n) \<and> scale2 (rn_y_km n)) (net_nodes net) \<and>
     list_all (\<lambda>e. scale2 (re_distance_km e) \<and> scale2 (re_congestion_factor e) \<and>
                 scale2 (re_weight_limit_tons e)) (net_edges net)"

lemma read_format: "scale2 x \<Longrightarrow> read_decimal (format_f 2 x) = Inr x"
  using decimal_of_format_f [of 2 x "\<lfloor>x * 100\<rfloor>"] by (simp add: read_decimal_def scale2_def)

lemma restore_node_state:
  "scale2 (rn_x_km n) \<Longrightarrow> scale2 (rn_y_km n) \<Longrightarrow> restore_node (node_to_state n) = Inr n"
  by (simp add: restore_node_def node_to_state_def read_format)

lemma restore_edge_state:
  "scale2 (re_distance_km e) \<Longrightarrow> scale2 (re_congestion_factor e) \<Longrightarrow> scale2 (re_weight_limit_tons e) \<Longrightarrow>
   restore_edge (edge_to_state e) = Inr e"
  by (simp add: restore_edge_def edge_to_state_def read_format)

lemma restore_to_state_eq: "scaled_network net \<Longrightarrow> restore (to_state net) = Inr net"
  by (simp add: restore_def to_state_def scaled_network_def list_all_iff
      map_result_map restore_node_state restore_edge_state)

lemma scale2_repo_decimal: "scale2 (repo_decimal x)"
  by (simp add: scale2_def repo_decimal_def quantize_half_up_def)

lemma repo_snapshot_scaled: "scaled_network (repo_snapshot nodes edges)"
  by (simp add: scaled_network_def repo_snapshot_def Let_def list_all_iff repo_node_def repo_edge_def
      scale2_repo_decimal)

section \<open>Properties of the snapshot service\<close>

text \<open>
  C4. Capturing the road network as the repository reads it from any rows and restoring it at a later node
  gives back the same network: every planning step of a task works on the roads that were captured at its start.
\<close>

theorem snapshot_capture_restore:
  "restore (capture (\<lambda>_. repo_snapshot nodes edges)) = Inr (repo_snapshot nodes edges)"
  unfolding capture_def by (rule restore_to_state_eq [OF repo_snapshot_scaled])

end
