(* ===== verification/Circuit_Breaker.thy ===== *)
theory Circuit_Breaker
  imports Prelude Py_Text
begin

text \<open>
  The environment service: \<open>CircuitBreaker\<close> of \<open>backend/app/services/circuit_breaker.py\<close>,
  \<open>StaticRouteFallbackProvider\<close> of \<open>providers/environment.py\<close> and \<open>EnvironmentService\<close> of
  \<open>services/environment.py\<close>.

  The breaker's operations run under its \<open>asyncio\<close> lock, so each is one atomic step. The clock (\<open>time.monotonic\<close>) is an
  argument of the operations that read it, and the primary provider, a web service, is an argument of the service:
  it answers, fails with one of the two provider errors, or escapes with any other exception (a cancellation, an invalid
  address), which the service does not catch.
\<close>

section \<open>CircuitBreaker\<close>

datatype circuit_state = CLOSED | OPEN | HALF_OPEN

record circuit_config =
  cc_failure_threshold :: int
  cc_recovery_seconds :: rat

record circuit_breaker =
  cb_state :: circuit_state
  cb_failure_count :: int
  cb_opened_at :: "rat option"
  cb_half_open_probe_in_flight :: bool

definition new_breaker :: circuit_breaker where
  "new_breaker =
     \<lparr>cb_state = CLOSED, cb_failure_count = 0, cb_opened_at = None, cb_half_open_probe_in_flight = False\<rparr>"

definition open_breaker :: "rat \<Rightarrow> circuit_breaker \<Rightarrow> circuit_breaker" where
  "open_breaker now b =
     b\<lparr>cb_state := OPEN, cb_opened_at := Some now, cb_half_open_probe_in_flight := False\<rparr>"

definition allow_request :: "circuit_config \<Rightarrow> rat \<Rightarrow> circuit_breaker \<Rightarrow> bool \<times> circuit_breaker" where
  "allow_request cfg now b =
     (case cb_state b of
        CLOSED \<Rightarrow> (True, b)
      | OPEN \<Rightarrow>
          (case cb_opened_at b of
             None \<Rightarrow> (False, b)
           | Some opened_at \<Rightarrow>
               if now - opened_at < cc_recovery_seconds cfg then (False, b)
               else (True, b\<lparr>cb_state := HALF_OPEN, cb_half_open_probe_in_flight := True\<rparr>))
      | HALF_OPEN \<Rightarrow>
          if cb_half_open_probe_in_flight b then (False, b)
          else (True, b\<lparr>cb_half_open_probe_in_flight := True\<rparr>))"

definition record_success :: "circuit_breaker \<Rightarrow> circuit_breaker" where
  "record_success b =
     b\<lparr>cb_state := CLOSED, cb_failure_count := 0, cb_opened_at := None, cb_half_open_probe_in_flight := False\<rparr>"

definition record_failure :: "circuit_config \<Rightarrow> rat \<Rightarrow> circuit_breaker \<Rightarrow> circuit_breaker" where
  "record_failure cfg now b =
     (if cb_state b = HALF_OPEN then open_breaker now b
      else let b' = b\<lparr>cb_failure_count := cb_failure_count b + 1\<rparr>
           in if cc_failure_threshold cfg \<le> cb_failure_count b' then open_breaker now b' else b')"

section \<open>The abstract automaton\<close>

text \<open>
  What the four attributes stand for: the breaker counts consecutive failures, or is tripped since some moment,
  or waits for the answer of its one probe.
\<close>

datatype circuit = Counting int | Tripped rat | Probing

definition abs_circuit :: "circuit_breaker \<Rightarrow> circuit" where
  "abs_circuit b =
     (case cb_state b of
        CLOSED \<Rightarrow> Counting (cb_failure_count b)
      | OPEN \<Rightarrow> Tripped (case cb_opened_at b of None \<Rightarrow> 0 | Some t \<Rightarrow> t)
      | HALF_OPEN \<Rightarrow> Probing)"

fun spec_allow :: "circuit_config \<Rightarrow> rat \<Rightarrow> circuit \<Rightarrow> bool \<times> circuit" where
  "spec_allow cfg now (Counting n) = (True, Counting n)"
| "spec_allow cfg now (Tripped t) = (if now - t < cc_recovery_seconds cfg then (False, Tripped t) else (True, Probing))"
| "spec_allow cfg now Probing = (False, Probing)"

fun spec_failure :: "circuit_config \<Rightarrow> rat \<Rightarrow> circuit \<Rightarrow> circuit" where
  "spec_failure cfg now (Counting n) = (if cc_failure_threshold cfg \<le> n + 1 then Tripped now else Counting (n + 1))"
| "spec_failure cfg now _ = Tripped now"

text \<open>The invariant under which the attributes determine each other.\<close>

definition breaker_ok :: "circuit_config \<Rightarrow> circuit_breaker \<Rightarrow> bool" where
  "breaker_ok cfg b \<longleftrightarrow>
     0 \<le> cb_failure_count b \<and>
     (cb_state b = CLOSED \<longleftrightarrow> cb_failure_count b < cc_failure_threshold cfg) \<and>
     (cb_state b = CLOSED \<longleftrightarrow> cb_opened_at b = None) \<and>
     (cb_state b = HALF_OPEN \<longleftrightarrow> cb_half_open_probe_in_flight b)"

section \<open>Calls from any number of tasks\<close>

datatype breaker_event = Allow rat | Success | Failure rat

fun breaker_run :: "circuit_config \<Rightarrow> breaker_event list \<Rightarrow> circuit_breaker \<Rightarrow> bool list \<times> circuit_breaker" where
  "breaker_run cfg [] b = ([], b)"
| "breaker_run cfg (Allow now # es) b =
     (let (a, b') = allow_request cfg now b; (as, b'') = breaker_run cfg es b' in (a # as, b''))"
| "breaker_run cfg (Success # es) b = breaker_run cfg es (record_success b)"
| "breaker_run cfg (Failure now # es) b = breaker_run cfg es (record_failure cfg now b)"

fun spec_run :: "circuit_config \<Rightarrow> breaker_event list \<Rightarrow> circuit \<Rightarrow> bool list \<times> circuit" where
  "spec_run cfg [] c = ([], c)"
| "spec_run cfg (Allow now # es) c =
     (let (a, c') = spec_allow cfg now c; (as, c'') = spec_run cfg es c' in (a # as, c''))"
| "spec_run cfg (Success # es) c = spec_run cfg es (Counting 0)"
| "spec_run cfg (Failure now # es) c = spec_run cfg es (spec_failure cfg now c)"

section \<open>The environment service\<close>

record environment_result =
  en_weather :: string
  en_road_condition :: string
  en_risk_level :: string
  en_provider_name :: string
  en_fallback_used :: bool
  en_fallback_reason :: "string option"
  en_elapsed_ms :: rat

datatype provider_failure = ProviderTimeout | ProviderResponseError | OtherException

definition py_lower :: "string \<Rightarrow> string" where
  "py_lower s = map lower_char s"

definition get_fallback :: "string \<Rightarrow> string \<Rightarrow> rat \<Rightarrow> environment_result" where
  "get_fallback route_id reason elapsed_ms =
     (let route_context = py_lower route_id;
          (weather, road_condition, risk_level) =
            (if is_infix ''closed'' route_context then (''unknown'', ''closed'', ''critical'')
             else if is_infix ''rain'' route_context \<or> is_infix ''slippery'' route_context
             then (''heavy_rain'', ''slippery'', ''high'')
             else (''unknown'', ''unknown'', ''elevated''))
      in \<lparr>en_weather = weather, en_road_condition = road_condition, en_risk_level = risk_level,
          en_provider_name = ''static_route_fallback'', en_fallback_used = True, en_fallback_reason = Some reason,
          en_elapsed_ms = elapsed_ms\<rparr>)"

text \<open>
  One call of \<open>get_environment\<close>: the breaker is asked at \<open>t1\<close> and told at \<open>t2\<close>; \<open>elapsed_ms\<close> is what
  \<open>perf_counter\<close> measured and \<open>answer\<close> the answer of the primary provider, if it is asked.
\<close>

definition get_environment :: "circuit_config \<Rightarrow> rat \<Rightarrow> rat \<Rightarrow> rat \<Rightarrow> (string \<Rightarrow> provider_failure + environment_result) \<Rightarrow>
    string \<Rightarrow> circuit_breaker \<Rightarrow> (provider_failure + environment_result) \<times> circuit_breaker" where
  "get_environment cfg t1 t2 elapsed_ms primary route_id b =
     (let (allowed, b') = allow_request cfg t1 b
      in if \<not> allowed then (Inr (get_fallback route_id ''Environment circuit breaker is open.'' elapsed_ms), b')
         else case primary route_id of
           Inr result \<Rightarrow> (Inr result, record_success b')
         | Inl ProviderTimeout \<Rightarrow>
             (Inr (get_fallback route_id ''Primary environment provider timed out.'' elapsed_ms), record_failure cfg t2 b')
         | Inl ProviderResponseError \<Rightarrow>
             (Inr (get_fallback route_id ''Primary environment provider failed.'' elapsed_ms), record_failure cfg t2 b')
         | Inl OtherException \<Rightarrow> (Inl OtherException, b'))"

section \<open>The invariant and the simulation\<close>

lemma new_breaker_ok: "0 < cc_failure_threshold cfg \<Longrightarrow> breaker_ok cfg new_breaker"
  by (simp add: breaker_ok_def new_breaker_def)

lemma allow_request_ok:
  assumes "breaker_ok cfg b"
  shows "breaker_ok cfg (snd (allow_request cfg now b))"
    and "fst (allow_request cfg now b) = fst (spec_allow cfg now (abs_circuit b))"
    and "abs_circuit (snd (allow_request cfg now b)) = snd (spec_allow cfg now (abs_circuit b))"
  using assms
  by (auto simp: breaker_ok_def allow_request_def abs_circuit_def split: circuit_state.splits option.splits)

lemma record_success_ok:
  assumes "0 < cc_failure_threshold cfg"
  shows "breaker_ok cfg (record_success b)" "abs_circuit (record_success b) = Counting 0"
  using assms by (simp_all add: breaker_ok_def record_success_def abs_circuit_def)

lemma record_failure_ok:
  assumes "breaker_ok cfg b"
  shows "breaker_ok cfg (record_failure cfg now b)"
    and "abs_circuit (record_failure cfg now b) = spec_failure cfg now (abs_circuit b)"
  using assms
  by (cases "cb_state b"; auto simp: breaker_ok_def record_failure_def open_breaker_def abs_circuit_def Let_def)+

lemmas breaker_steps = allow_request_ok record_success_ok record_failure_ok

lemma breaker_run_ok:
  assumes "0 < cc_failure_threshold cfg" "breaker_ok cfg b"
  shows "breaker_ok cfg (snd (breaker_run cfg es b)) \<and> fst (breaker_run cfg es b) = fst (spec_run cfg es (abs_circuit b)) \<and>
    abs_circuit (snd (breaker_run cfg es b)) = snd (spec_run cfg es (abs_circuit b))"
  using assms
proof (induction cfg es b rule: breaker_run.induct)
  case (2 cfg now es b)
  then show ?case using allow_request_ok [OF 2(3), of now]
    by (auto simp: Let_def split: prod.splits)
next
  case (3 cfg es b)
  then show ?case using record_success_ok [OF 3(2), of b] by simp
qed (simp_all add: breaker_steps)

lemma breaker_reachable:
  assumes "0 < cc_failure_threshold cfg" "breaker_run cfg es new_breaker = (as, b)"
  shows "breaker_ok cfg b"
  using breaker_run_ok [OF assms(1) new_breaker_ok [OF assms(1)], of es] assms(2) by simp

lemma probing_refuses:
  assumes "cb_state b = HALF_OPEN" "cb_half_open_probe_in_flight b"
  shows "breaker_run cfg (map Allow ts) b = (replicate (length ts) False, b)"
  by (induction ts) (simp_all add: allow_request_def assms)

lemma open_admits_one:
  assumes "breaker_ok cfg b" "cb_state b \<noteq> CLOSED"
  shows "length (filter id (fst (breaker_run cfg (map Allow ts) b))) \<le> 1"
proof (cases "cb_state b = HALF_OPEN")
  case True
  then show ?thesis using assms(1) probing_refuses [OF True, of cfg ts] by (simp add: breaker_ok_def)
next
  case False
  then have op: "cb_state b = OPEN" using assms(2) by (cases "cb_state b") auto
  then obtain t where t: "cb_opened_at b = Some t" using assms(1) by (auto simp: breaker_ok_def)
  show ?thesis
  proof (induction ts)
    case (Cons now ts)
    show ?case
    proof (cases "now - t < cc_recovery_seconds cfg")
      case True
      then have "allow_request cfg now b = (False, b)" using op t by (simp add: allow_request_def)
      then show ?thesis using Cons.IH by (simp add: Let_def case_prod_beta)
    next
      case False
      let ?b = "b\<lparr>cb_state := HALF_OPEN, cb_half_open_probe_in_flight := True\<rparr>"
      have "allow_request cfg now b = (True, ?b)" using False op t by (simp add: allow_request_def)
      then show ?thesis using probing_refuses [of ?b cfg ts] by simp
    qed
  qed simp
qed

section \<open>Properties of the breaker and the service\<close>

text \<open>
  C10. The breaker implements the three-state automaton: whatever calls the tasks make in whatever order, \<open>allow_request\<close>
  answers as the automaton does; it trips when the failures in a row reach the threshold; a probe is in flight exactly
  while the breaker is half-open, so the attributes stay consistent and the branch for a half-open breaker without a
  probe is never taken.
\<close>

theorem breaker_refines_automaton:
  assumes "0 < cc_failure_threshold cfg" and "breaker_run cfg es new_breaker = (as, b)"
  shows "spec_run cfg es (Counting 0) = (as, abs_circuit b) \<and>
    (cb_state b = CLOSED \<longleftrightarrow> cb_failure_count b < cc_failure_threshold cfg) \<and>
    (cb_state b = CLOSED \<longleftrightarrow> cb_opened_at b = None) \<and> (cb_state b = HALF_OPEN \<longleftrightarrow> cb_half_open_probe_in_flight b)"
proof -
  have "abs_circuit new_breaker = Counting 0" by (simp add: abs_circuit_def new_breaker_def)
  then show ?thesis
    using breaker_run_ok [OF assms(1) new_breaker_ok [OF assms(1)], of es] assms(2) breaker_reachable [OF assms]
    by (auto simp: breaker_ok_def prod_eq_iff)
qed

definition sample_circuit :: circuit_config where
  "sample_circuit = \<lparr>cc_failure_threshold = 2, cc_recovery_seconds = 30\<rparr>"

theorem breaker_refines_automaton_witness:
  "spec_run sample_circuit [Failure 1, Failure 2, Allow 10, Allow 40, Allow 41] (Counting 0) =
     ([False, True, False], Probing)"
proof -
  let ?es = "[Failure 1, Failure 2, Allow 10, Allow 40, Allow 41]"
  have "0 < cc_failure_threshold sample_circuit" by code_simp
  moreover have "breaker_run sample_circuit ?es new_breaker =
      ([False, True, False], \<lparr>cb_state = HALF_OPEN, cb_failure_count = 2, cb_opened_at = Some 2, cb_half_open_probe_in_flight = True\<rparr>)"
    by code_simp
  ultimately show ?thesis using breaker_refines_automaton by (fastforce simp: abs_circuit_def)
qed

text \<open>
  A breaker that is not closed lets at most one request through until the outcome of a request is recorded, however
  many tasks ask and whenever they ask.
\<close>

theorem tripped_breaker_admits_one:
  assumes "0 < cc_failure_threshold cfg" and "breaker_run cfg es new_breaker = (as, b)" and "cb_state b \<noteq> CLOSED"
  shows "length (filter id (fst (breaker_run cfg (map Allow ts) b))) \<le> 1"
  using open_admits_one [OF breaker_reachable [OF assms(1,2)] assms(3)] .

theorem tripped_breaker_admits_one_witness:
  "length (filter id (fst (breaker_run sample_circuit (map Allow [10, 40, 41])
     (snd (breaker_run sample_circuit [Failure 1, Failure 2] new_breaker))))) \<le> 1"
proof -
  have "0 < cc_failure_threshold sample_circuit" by code_simp
  moreover have "cb_state (snd (breaker_run sample_circuit [Failure 1, Failure 2] new_breaker)) \<noteq> CLOSED" by code_simp
  ultimately show ?thesis
    by (rule tripped_breaker_admits_one [OF _ prod.collapse [symmetric]])
qed

text \<open>
  The environment service answers whenever the primary provider answers or fails with a provider error; the answer is
  the provider's own or a fallback that is marked and gives its reason; and while the breaker is tripped the provider is
  not consulted at all.
\<close>

theorem environment_service_answers:
  assumes "primary route_id \<noteq> Inl OtherException"
  shows "(\<exists>res. fst (get_environment cfg t1 t2 el primary route_id b) = Inr res \<and>
      (primary route_id = Inr res \<or> en_fallback_used res \<and> (\<exists>reason. en_fallback_reason res = Some reason \<and> reason \<noteq> []))) \<and>
    (cb_state b = OPEN \<and> (\<forall>t. cb_opened_at b = Some t \<longrightarrow> t1 - t < cc_recovery_seconds cfg) \<longrightarrow>
      get_environment cfg t1 t2 el primary route_id b =
        (Inr (get_fallback route_id ''Environment circuit breaker is open.'' el), b))"
proof -
  have fb: "en_fallback_used (get_fallback r s e)" "en_fallback_reason (get_fallback r s e) = Some s" for r s e
    by (simp_all add: get_fallback_def Let_def)
  have "allow_request cfg t1 b = (False, b)"
    if "cb_state b = OPEN" "\<forall>t. cb_opened_at b = Some t \<longrightarrow> t1 - t < cc_recovery_seconds cfg"
    using that by (auto simp: allow_request_def split: option.splits)
  then have two: "cb_state b = OPEN \<and> (\<forall>t. cb_opened_at b = Some t \<longrightarrow> t1 - t < cc_recovery_seconds cfg) \<longrightarrow>
      get_environment cfg t1 t2 el primary route_id b =
        (Inr (get_fallback route_id ''Environment circuit breaker is open.'' el), b)"
    by (simp add: get_environment_def)
  have one: "\<exists>res. fst (get_environment cfg t1 t2 el primary route_id b) = Inr res \<and>
      (primary route_id = Inr res \<or> en_fallback_used res \<and> (\<exists>reason. en_fallback_reason res = Some reason \<and> reason \<noteq> []))"
    using assms
    by (cases "allow_request cfg t1 b"; cases "primary route_id")
       (auto simp: get_environment_def fb split: provider_failure.splits)
  from one two show ?thesis ..
qed

theorem environment_service_answers_witness:
  "get_environment sample_circuit 10 11 1 (\<lambda>_. Inl ProviderTimeout) ''rain-road''
     (snd (breaker_run sample_circuit [Failure 1, Failure 2] new_breaker)) =
   (Inr (get_fallback ''rain-road'' ''Environment circuit breaker is open.'' 1),
    snd (breaker_run sample_circuit [Failure 1, Failure 2] new_breaker))"
proof -
  let ?b = "snd (breaker_run sample_circuit [Failure 1, Failure 2] new_breaker)"
  have "cb_state ?b = OPEN" "cb_opened_at ?b = Some 2" "(10 :: rat) - 2 < cc_recovery_seconds sample_circuit"
    by code_simp+
  then show ?thesis
    using environment_service_answers [of "\<lambda>_. Inl ProviderTimeout" "''rain-road''" sample_circuit 10 11 1 ?b] by simp
qed

text \<open>
  C11. A probe that ends in any other exception is lost: the exception escapes, nothing is recorded, and from then on every
  call gives the fallback without asking the provider, no matter how much time has passed.
\<close>

theorem lost_probe_blocks_forever:
  assumes "cb_state b = OPEN" and "cb_opened_at b = Some t" and "cc_recovery_seconds cfg \<le> t1 - t"
    and "get_environment cfg t1 t2 el (\<lambda>_. Inl OtherException) route_id b = (res, b')"
  shows "res = Inl OtherException \<and>
    (\<forall>t3 t4 el' primary route_id'. get_environment cfg t3 t4 el' primary route_id' b' =
       (Inr (get_fallback route_id' ''Environment circuit breaker is open.'' el'), b'))"
proof -
  have "allow_request cfg t1 b = (True, b\<lparr>cb_state := HALF_OPEN, cb_half_open_probe_in_flight := True\<rparr>)"
    using assms(1-3) by (simp add: allow_request_def)
  then have "res = Inl OtherException" "b' = b\<lparr>cb_state := HALF_OPEN, cb_half_open_probe_in_flight := True\<rparr>"
    using assms(4) by (simp_all add: get_environment_def)
  then show ?thesis by (simp add: get_environment_def allow_request_def)
qed

theorem lost_probe_blocks_forever_witness:
  "fst (get_environment sample_circuit 40 41 1 (\<lambda>_. Inl OtherException) ''R1''
     (snd (breaker_run sample_circuit [Failure 1, Failure 2] new_breaker))) = Inl OtherException"
proof -
  let ?b = "snd (breaker_run sample_circuit [Failure 1, Failure 2] new_breaker)"
  have "cb_state ?b = OPEN" "cb_opened_at ?b = Some 2" "cc_recovery_seconds sample_circuit \<le> (40 :: rat) - 2"
    by code_simp+
  from lost_probe_blocks_forever [OF this prod.collapse [symmetric]] show ?thesis by blast
qed

end
