(* ===== verification/Real_Routes.thy ===== *)
theory Real_Routes
  imports Circuit_Breaker
begin

text \<open>
  The real-road routes of \<open>backend/app/real_routes\<close>: the coordinates of the demonstration nodes
  (\<open>demo_coordinates.py\<close>), the records of \<open>models.py\<close> and \<open>RealRoadRouteService\<close> of \<open>service.py\<close>, which asks a driving-route
  provider (a web service, an argument here) for the roads along a planned path and falls back to the bare waypoints.

  Nothing is computed with a coordinate, so a coordinate is the text that \<open>format(_, "f")\<close> prints of it.
\<close>

section \<open>Data: models.py\<close>

record geo_point =
  gp_node_id :: "string option"
  gp_longitude :: string
  gp_latitude :: string

record driving_route_result =
  dv_distance_meters :: int
  dv_duration_seconds :: int
  dv_polyline :: "geo_point list"

record real_road_route =
  rd_provider :: string
  rd_source :: string
  rd_status :: string
  rd_coordinate_system :: string
  rd_mapping_version :: string
  rd_distance_meters :: "int option"
  rd_duration_seconds :: "int option"
  rd_waypoints :: "geo_point list"
  rd_polyline :: "geo_point list"
  rd_fallback_reason :: "string option"

section \<open>Coordinates: demo\_coordinates.py\<close>

definition mapping_version :: string where
  "mapping_version = ''DEMO_AMAP_V1''"

definition node_coordinates :: "(string \<times> string \<times> string) list" where
  "node_coordinates =
     [(''N01'', ''103.044800'', ''25.226500''),
      (''N02'', ''103.032000'', ''25.232000''),
      (''N03'', ''103.057000'', ''25.239000''),
      (''N04'', ''103.079000'', ''25.246000''),
      (''N05'', ''103.104000'', ''25.252000''),
      (''N06'', ''103.135000'', ''25.261000''),
      (''N07'', ''103.018000'', ''25.207000''),
      (''N08'', ''103.062000'', ''25.198000''),
      (''N09'', ''103.105000'', ''25.214000''),
      (''N10'', ''103.025000'', ''25.267000''),
      (''N11'', ''103.013000'', ''25.303000''),
      (''N12'', ''102.973000'', ''25.247000''),
      (''N13'', ''103.072000'', ''25.158000''),
      (''N14'', ''102.991000'', ''25.217000''),
      (''N15'', ''103.077000'', ''25.228000''),
      (''N16'', ''102.997000'', ''25.279000''),
      (''N17'', ''103.132000'', ''25.293000''),
      (''N18'', ''103.151000'', ''25.204000''),
      (''N19'', ''103.051000'', ''25.220000''),
      (''N20'', ''103.092000'', ''25.235000''),
      (''N21'', ''103.117000'', ''25.225000''),
      (''N22'', ''103.069000'', ''25.231000'')]"

datatype real_route_error = TooFewNodes | UnmappedNode string | ProviderEscaped

definition demo_geo_point :: "string \<Rightarrow> real_route_error + geo_point" where
  "demo_geo_point node_id =
     (case map_of node_coordinates node_id of
        None \<Rightarrow> Inl (UnmappedNode node_id)
      | Some (longitude, latitude) \<Rightarrow>
          Inr \<lparr>gp_node_id = Some node_id, gp_longitude = longitude, gp_latitude = latitude\<rparr>)"

definition demo_geo_points :: "string list \<Rightarrow> real_route_error + geo_point list" where
  "demo_geo_points node_ids = map_result demo_geo_point node_ids"

section \<open>RealRoadRouteService\<close>

type_synonym driving_provider =
  "geo_point \<Rightarrow> geo_point \<Rightarrow> geo_point list \<Rightarrow> provider_failure + driving_route_result"

definition real_fallback :: "geo_point list \<Rightarrow> string \<Rightarrow> real_road_route" where
  "real_fallback waypoints reason =
     \<lparr>rd_provider = ''AMAP'', rd_source = ''CLIENT_WAYPOINT_FALLBACK'', rd_status = ''CLIENT_MATCH_REQUIRED'',
      rd_coordinate_system = ''GCJ02'', rd_mapping_version = mapping_version, rd_distance_meters = None,
      rd_duration_seconds = None, rd_waypoints = waypoints, rd_polyline = waypoints,
      rd_fallback_reason = Some reason\<rparr>"

definition verified_route_of :: "geo_point list \<Rightarrow> driving_route_result \<Rightarrow> real_road_route" where
  "verified_route_of waypoints route =
     \<lparr>rd_provider = ''AMAP'', rd_source = ''AMAP_WEB_SERVICE'', rd_status = ''VERIFIED'',
      rd_coordinate_system = ''GCJ02'', rd_mapping_version = mapping_version,
      rd_distance_meters = Some (dv_distance_meters route), rd_duration_seconds = Some (dv_duration_seconds route),
      rd_waypoints = waypoints, rd_polyline = dv_polyline route, rd_fallback_reason = None\<rparr>"

text \<open>
  The optional circuit breaker comes with its settings; \<open>t1\<close> and \<open>t2\<close> are its clock when it is asked and told.
\<close>

definition real_plan :: "driving_provider option \<Rightarrow> circuit_config \<Rightarrow> rat \<Rightarrow> rat \<Rightarrow> string list \<Rightarrow> circuit_breaker option \<Rightarrow>
    (real_route_error + real_road_route) \<times> circuit_breaker option" where
  "real_plan provider cfg t1 t2 node_ids breaker =
     (if length node_ids < 2 then (Inl TooFewNodes, breaker)
      else case demo_geo_points node_ids of
        Inl err \<Rightarrow> (Inl err, breaker)
      | Inr waypoints \<Rightarrow>
          (case provider of
             None \<Rightarrow> (Inr (real_fallback waypoints ''AMap Web Service is not configured.''), breaker)
           | Some ask \<Rightarrow>
               let (allowed, breaker') =
                     (case breaker of None \<Rightarrow> (True, None) | Some b \<Rightarrow> map_prod id Some (allow_request cfg t1 b))
               in if \<not> allowed
                  then (Inr (real_fallback waypoints ''AMap Web Service is temporarily unavailable.''), breaker')
                  else (case ask (hd waypoints) (last waypoints) (butlast (tl waypoints)) of
                          Inr answer \<Rightarrow> (Inr (verified_route_of waypoints answer), map_option record_success breaker')
                        | Inl OtherException \<Rightarrow> (Inl ProviderEscaped, breaker')
                        | Inl _ \<Rightarrow> (Inr (real_fallback waypoints ''AMap Web Service is temporarily unavailable.''),
                                  map_option (record_failure cfg t2) breaker'))))"

section \<open>The answer of the service\<close>

lemma demo_geo_points_Inr:
  assumes "set node_ids \<subseteq> fst ` set node_coordinates"
  shows "\<exists>ps. demo_geo_points node_ids = Inr ps \<and> map gp_node_id ps = map Some node_ids"
  using assms
proof (induction node_ids)
  case (Cons n ns)
  then obtain c where "map_of node_coordinates n = Some c"
    by (metis insert_subset list.set(2) map_of_eq_None_iff not_None_eq)
  then show ?case using Cons by (cases c) (auto simp: demo_geo_points_def demo_geo_point_def)
qed (simp add: demo_geo_points_def)

text \<open>
  Along a path of at least two mapped nodes the service answers whatever the provider does short of an unexpected
  exception: its waypoints are the nodes of the path in their order, and the route is marked as verified exactly when the
  provider has answered, otherwise the waypoints stand in for it and the reason is given. A path of fewer nodes raises.
\<close>

theorem real_plan_answers:
  assumes "set node_ids \<subseteq> fst ` set node_coordinates"
    and "\<forall>ask a z ws. provider = Some ask \<longrightarrow> ask a z ws \<noteq> Inl OtherException"
  shows "(case fst (real_plan provider cfg t1 t2 node_ids breaker) of
      Inl err \<Rightarrow> length node_ids < 2 \<and> err = TooFewNodes
    | Inr res \<Rightarrow> 2 \<le> length node_ids \<and> map gp_node_id (rd_waypoints res) = map Some node_ids \<and>
        (if rd_status res = ''VERIFIED''
         then rd_fallback_reason res = None \<and>
           (\<exists>ask answer. provider = Some ask \<and>
              ask (hd (rd_waypoints res)) (last (rd_waypoints res)) (butlast (tl (rd_waypoints res))) = Inr answer \<and>
              rd_polyline res = dv_polyline answer)
         else rd_polyline res = rd_waypoints res \<and> rd_fallback_reason res \<noteq> None))"
proof -
  obtain ps where ps: "demo_geo_points node_ids = Inr ps" "map gp_node_id ps = map Some node_ids"
    using demo_geo_points_Inr [OF assms(1)] by blast
  have fb: "rd_waypoints (real_fallback ps r) = ps" "rd_polyline (real_fallback ps r) = ps"
    "rd_status (real_fallback ps r) \<noteq> ''VERIFIED''" "rd_fallback_reason (real_fallback ps r) = Some r" for r
    by (simp_all add: real_fallback_def)
  have vr: "rd_waypoints (verified_route_of ps a) = ps" "rd_polyline (verified_route_of ps a) = dv_polyline a"
    "rd_status (verified_route_of ps a) = ''VERIFIED''" "rd_fallback_reason (verified_route_of ps a) = None" for a
    by (simp_all add: verified_route_of_def)
  show ?thesis
  proof (cases "length node_ids < 2")
    case True
    then show ?thesis by (simp add: real_plan_def)
  next
    case False
    show ?thesis
    proof (cases provider)
      case None
      then show ?thesis using False ps by (simp add: real_plan_def fb)
    next
      case (Some ask)
      obtain allowed breaker' where al: "(case breaker of None \<Rightarrow> (True, None)
          | Some b \<Rightarrow> map_prod id Some (allow_request cfg t1 b)) = (allowed, breaker')" by fastforce
      show ?thesis
        using False ps Some assms(2) al
        by (cases "ask (hd ps) (last ps) (butlast (tl ps))"; cases allowed)
           (auto simp: real_plan_def fb vr split: provider_failure.splits)
    qed
  qed
qed

theorem real_plan_answers_witness:
  "case fst (real_plan None sample_circuit 0 0 [''N01'', ''N04''] None) of
      Inl err \<Rightarrow> False | Inr res \<Rightarrow> map gp_node_id (rd_waypoints res) = [Some ''N01'', Some ''N04'']"
proof -
  have "set [''N01'', ''N04''] \<subseteq> fst ` set node_coordinates" by code_simp
  from real_plan_answers [OF this, of None sample_circuit 0 0 None] show ?thesis
    by (auto split: sum.splits)
qed

end
