(* ===== verification/Graph_State.thy ===== *)
theory Graph_State
  imports Capacity Routing Dispatch_Service Audit_Service Recommendations Sandtable Road_Snapshot_State Real_Routes
begin

text \<open>
  What the agents of \<open>backend/app/agents\<close> share: the graph state (\<open>DispatchGraphState\<close> of \<open>graph/state.py\<close>) and the functions
  that turn the records of the components into plain state.

  The graph state is a dictionary with the declared keys; only the captured road network, which the agents pass on
  unread, keeps its type and sits in a field of its own. Reading a key that is absent with
  \<open>state[key]\<close> is the error \<open>MissingKey\<close>; a value of another type than the one declared is \<open>WrongType\<close>.

  Decimals are rational numbers. Where the source prints one with a fixed number of digits (a table column, a
  quantised value, a product with a literal) the text is written out; the text of a quotient, whose
  number of digits depends on the history of the computation, is given by the argument \<open>txt\<close>. Such text only goes into the
  evidence, no agent reads it back, and every theorem holds for all \<open>txt\<close>.
\<close>

section \<open>State and errors\<close>

record graph_state =
  gs_values :: pydict
  gs_road_network_snapshot :: "road_network_state option"

type_synonym patch = graph_state

datatype agent_error =
    MissingKey string
  | WrongType string
  | OriginalWeightRequired
  | BadDecimal restore_error
  | CapacityFailed capacity_error
  | FleetFailed fleet_error
  | RoutingFailed routing_error
  | EnvironmentFailed provider_failure
  | RealRouteFailed real_route_error
  | DispatchFailed dispatch_error
  | AuditFailed audit_error

definition patch_of :: "pydict \<Rightarrow> patch" where
  "patch_of d = \<lparr>gs_values = d, gs_road_network_snapshot = None\<rparr>"

text \<open>The patch of a node replaces the keys it has.\<close>

definition apply_patch :: "graph_state \<Rightarrow> patch \<Rightarrow> graph_state" where
  "apply_patch st p =
     \<lparr>gs_values = dupdate (gs_values st) (gs_values p),
      gs_road_network_snapshot =
        (case gs_road_network_snapshot p of None \<Rightarrow> gs_road_network_snapshot st | Some s \<Rightarrow> Some s)\<rparr>"

abbreviation sget :: "graph_state \<Rightarrow> string \<Rightarrow> pyval" where
  "sget st k \<equiv> dget (gs_values st) k"

definition lift_error :: "('e \<Rightarrow> agent_error) \<Rightarrow> 'e + 'a \<Rightarrow> agent_error + 'a" where
  "lift_error f r = (case r of Inl e \<Rightarrow> Inl (f e) | Inr x \<Rightarrow> Inr x)"

text \<open>\<open>state[key]\<close> for the types it is declared with.\<close>

definition item :: "graph_state \<Rightarrow> string \<Rightarrow> agent_error + pyval" where
  "item st k = (case map_of (gs_values st) k of None \<Rightarrow> Inl (MissingKey k) | Some v \<Rightarrow> Inr v)"

definition as_text :: "string \<Rightarrow> pyval \<Rightarrow> agent_error + string" where
  "as_text k v = (case v of PStr s \<Rightarrow> Inr s | _ \<Rightarrow> Inl (WrongType k))"

definition as_int :: "string \<Rightarrow> pyval \<Rightarrow> agent_error + int" where
  "as_int k v = (case v of PInt i \<Rightarrow> Inr i | _ \<Rightarrow> Inl (WrongType k))"

definition as_bool :: "string \<Rightarrow> pyval \<Rightarrow> agent_error + bool" where
  "as_bool k v = (case v of PBool b \<Rightarrow> Inr b | _ \<Rightarrow> Inl (WrongType k))"

definition as_opt_text :: "string \<Rightarrow> pyval \<Rightarrow> agent_error + string option" where
  "as_opt_text k v = (case v of PNone \<Rightarrow> Inr None | PStr s \<Rightarrow> Inr (Some s) | _ \<Rightarrow> Inl (WrongType k))"

definition as_list :: "string \<Rightarrow> pyval \<Rightarrow> agent_error + pyval list" where
  "as_list k v = (case v of PList vs \<Rightarrow> Inr vs | _ \<Rightarrow> Inl (WrongType k))"

definition as_dict :: "string \<Rightarrow> pyval \<Rightarrow> agent_error + pydict" where
  "as_dict k v = (case v of PDict d \<Rightarrow> Inr d | _ \<Rightarrow> Inl (WrongType k))"

definition text_item :: "graph_state \<Rightarrow> string \<Rightarrow> agent_error + string" where
  "text_item st k = res_bind (item st k) (as_text k)"

definition int_item :: "graph_state \<Rightarrow> string \<Rightarrow> agent_error + int" where
  "int_item st k = res_bind (item st k) (as_int k)"

text \<open>\<open>state.get(key)\<close> and \<open>state.get(key, default)\<close>.\<close>

definition opt_text :: "graph_state \<Rightarrow> string \<Rightarrow> agent_error + string option" where
  "opt_text st k = as_opt_text k (sget st k)"

definition text_default :: "graph_state \<Rightarrow> string \<Rightarrow> string \<Rightarrow> agent_error + string" where
  "text_default st k dflt = as_text k (dget_default (gs_values st) k (PStr dflt))"

definition bool_default :: "graph_state \<Rightarrow> string \<Rightarrow> bool \<Rightarrow> agent_error + bool" where
  "bool_default st k dflt = as_bool k (dget_default (gs_values st) k (PBool dflt))"

definition list_default :: "graph_state \<Rightarrow> string \<Rightarrow> agent_error + pyval list" where
  "list_default st k = as_list k (dget_default (gs_values st) k (PList []))"

definition texts_default :: "graph_state \<Rightarrow> string \<Rightarrow> agent_error + string list" where
  "texts_default st k = res_bind (list_default st k) (map_result (as_text k))"

definition dicts_default :: "graph_state \<Rightarrow> string \<Rightarrow> agent_error + pydict list" where
  "dicts_default st k = res_bind (list_default st k) (map_result (as_dict k))"

text \<open>\<open>Decimal(text)\<close>.\<close>

definition as_decimal :: "string \<Rightarrow> agent_error + rat" where
  "as_decimal s = lift_error BadDecimal (read_decimal s)"

section \<open>Records as state\<close>

text \<open>\<open>_path_to_state\<close> (in \<open>agents/capacity.py\<close> and \<open>agents/routing.py\<close>, with the same text). The risk of an empty path is
  the literal \<open>Decimal("0.00")\<close>; otherwise it is a sum of whole penalties.\<close>

definition path_to_state :: "path_result \<Rightarrow> pydict" where
  "path_to_state path =
     [(''objective'', PStr (objective_value (pr_objective path))),
      (''node_ids'', str_list (pr_node_ids path)),
      (''edge_ids'', str_list (pr_edge_ids path)),
      (''distance_km'', PStr (format_f 2 (pr_distance_km path))),
      (''estimated_minutes'', PInt (pr_estimated_minutes path)),
      (''risk_cost'', PStr (format_f (if pr_edge_ids path = [] then 2 else 0) (pr_risk_cost path))),
      (''visited_node_count'', PInt (int (pr_visited_node_count path)))]"

definition opt_dict :: "('a \<Rightarrow> pydict) \<Rightarrow> 'a option \<Rightarrow> pyval" where
  "opt_dict f x = (case x of None \<Rightarrow> PNone | Some y \<Rightarrow> PDict (f y))"

definition capacity_result_to_state :: "capacity_result \<Rightarrow> pydict" where
  "capacity_result_to_state result =
     [(''driver_available'', PBool (cr_driver_available result)),
      (''vehicle_available'', PBool (cr_vehicle_available result)),
      (''load_ratio'', PFloat (cr_load_ratio result)),
      (''station_load_ratio'', (case cr_station_load_ratio result of None \<Rightarrow> PNone | Some r \<Rightarrow> PFloat r)),
      (''capacity_status'', PStr (cr_capacity_status result)),
      (''risk_level'', PStr (cr_risk_level result)),
      (''reason'', opt_str (cr_reason result)),
      (''provider_name'', PStr (cr_provider_name result))]"

definition score_components_to_state :: "(rat \<Rightarrow> string) \<Rightarrow> score_components \<Rightarrow> pydict" where
  "score_components_to_state txt c =
     [(''eta_penalty'', PStr (format_f 1 (sc_eta_penalty c))),
      (''distance_penalty'', PStr (format_f 2 (sc_distance_penalty c))),
      (''load_penalty'', PStr (txt (sc_load_penalty c))),
      (''road_risk_penalty'', PStr (format_f 0 (sc_road_risk_penalty c))),
      (''same_station_bonus'', PStr (format_f 0 (sc_same_station_bonus c))),
      (''cargo_exact_match_bonus'', PStr (format_f 0 (sc_cargo_exact_match_bonus c)))]"

definition candidate_to_state :: "(rat \<Rightarrow> string) \<Rightarrow> vehicle_candidate \<Rightarrow> pydict" where
  "candidate_to_state txt candidate =
     [(''vehicle_id'', PStr (vc_vehicle_id candidate)),
      (''driver_id'', opt_str (vc_driver_id candidate)),
      (''vehicle_status'', PStr (vc_vehicle_status candidate)),
      (''driver_status'', opt_str (vc_driver_status candidate)),
      (''remaining_load_kg'', PStr (format_f 2 (vc_remaining_load_kg candidate))),
      (''remaining_capacity_kg'', PStr (format_f 2 (vc_remaining_load_kg candidate))),
      (''gross_weight_tons'', PStr (format_f 2 (vc_gross_weight_tons candidate))),
      (''cargo_capability'', PStr (vc_cargo_capability candidate)),
      (''pickup_route'', opt_dict path_to_state (vc_pickup_route candidate)),
      (''pickup_distance_km'', opt_str (map_option (format_f 2) (vc_pickup_distance_km candidate))),
      (''pickup_eta_minutes'', opt_int (vc_pickup_eta_minutes candidate)),
      (''score'', opt_str (map_option (format_f 1) (vc_score candidate))),
      (''score_components'', opt_dict (score_components_to_state txt) (vc_score_components candidate)),
      (''scoring_formula'', PStr ''FLEET_SCORE_V1''),
      (''eligible'', PBool (vc_eligible candidate)),
      (''exclusion_reasons'', str_list (vc_exclusion_reasons candidate))]"

definition route_score_components_to_state :: "(rat \<Rightarrow> string) \<Rightarrow> route_score_components \<Rightarrow> pydict" where
  "route_score_components_to_state txt c =
     [(''normalized_minutes'', PStr (txt (rs_normalized_minutes c))),
      (''normalized_distance'', PStr (txt (rs_normalized_distance c))),
      (''normalized_risk'', PStr (txt (rs_normalized_risk c))),
      (''time_penalty'', PStr (txt (rs_time_penalty c))),
      (''distance_penalty'', PStr (txt (rs_distance_penalty c))),
      (''risk_penalty'', PStr (txt (rs_risk_penalty c)))]"

text \<open>A score that two digits express is printed with two digits.\<close>

definition route_score_to_state :: "(rat \<Rightarrow> string) \<Rightarrow> rat \<Rightarrow> string" where
  "route_score_to_state txt score =
     (let two_decimal_score = of_int (round_half_even (score * 100)) / 100
      in if score = two_decimal_score then format_f 2 score else txt score)"

text \<open>The distance of a planned route is quantised; a catalogue route is printed with the digits of its literal.\<close>

definition route_candidate_to_state :: "(rat \<Rightarrow> string) \<Rightarrow> route_candidate \<Rightarrow> pydict" where
  "route_candidate_to_state txt candidate =
     [(''route_id'', PStr (rc_route_id candidate)),
      (''route_name'', PStr (rc_route_name candidate)),
      (''distance_km'', PStr (if rc_objective candidate = None then txt (rc_distance_km candidate)
                              else format_f 2 (rc_distance_km candidate))),
      (''estimated_minutes'', PInt (rc_estimated_minutes candidate)),
      (''risk_level'', PStr (rc_risk_level candidate)),
      (''available'', PBool (rc_available candidate)),
      (''reason'', opt_str (rc_reason candidate)),
      (''score'', PStr (route_score_to_state txt (rc_score candidate))),
      (''node_ids'', str_list (rc_node_ids candidate)),
      (''edge_ids'', str_list (rc_edge_ids candidate)),
      (''objective'', opt_str (rc_objective candidate)),
      (''algorithm_version'', opt_str (rc_algorithm_version candidate)),
      (''scoring_formula'', opt_str (rc_scoring_formula candidate)),
      (''score_components'', opt_dict (route_score_components_to_state txt) (rc_score_components candidate)),
      (''road_network_version'', opt_int (rc_road_network_version candidate)),
      (''visited_node_count'', opt_int (map_option int (rc_visited_node_count candidate))),
      (''risk_cost'', opt_str (map_option (format_f (if rc_edge_ids candidate = [] then 2 else 0)) (rc_risk_cost candidate)))]"

definition geo_point_to_state :: "geo_point \<Rightarrow> pydict" where
  "geo_point_to_state point =
     [(''node_id'', opt_str (gp_node_id point)), (''longitude'', PStr (gp_longitude point)),
      (''latitude'', PStr (gp_latitude point))]"

definition real_road_route_to_state :: "real_road_route \<Rightarrow> pydict" where
  "real_road_route_to_state road =
     [(''provider'', PStr (rd_provider road)), (''source'', PStr (rd_source road)),
      (''status'', PStr (rd_status road)), (''coordinate_system'', PStr (rd_coordinate_system road)),
      (''mapping_version'', PStr (rd_mapping_version road)),
      (''distance_meters'', opt_int (rd_distance_meters road)),
      (''duration_seconds'', opt_int (rd_duration_seconds road)),
      (''waypoints'', PList (map (PDict \<circ> geo_point_to_state) (rd_waypoints road))),
      (''polyline'', PList (map (PDict \<circ> geo_point_to_state) (rd_polyline road))),
      (''fallback_reason'', opt_str (rd_fallback_reason road))]"

definition dispatch_result_to_state :: "dispatch_result \<Rightarrow> pydict" where
  "dispatch_result_to_state result =
     [(''dispatch_id'', opt_int (dr_dispatch_id result)),
      (''dispatch_no'', opt_str (dr_dispatch_no result)),
      (''status'', PStr (dr_status result)),
      (''target_route_id'', opt_str (dr_target_route_id result)),
      (''original_vehicle_id'', opt_str (dr_original_vehicle_id result)),
      (''target_vehicle_id'', opt_str (dr_target_vehicle_id result)),
      (''target_driver_id'', opt_str (dr_target_driver_id result)),
      (''version'', opt_int (dr_version result)),
      (''executed'', PBool (dr_executed result))]"

definition checks_to_state :: "audit_checks \<Rightarrow> pydict" where
  "checks_to_state c =
     [(''route_consistency'', PBool (ac_route_consistency c)),
      (''memory_consistency'', PBool (ac_memory_consistency c)),
      (''fallback_consistency'', PBool (ac_fallback_consistency c)),
      (''dispatch_execution'', PBool (ac_dispatch_execution c)),
      (''vehicle_assignment'', PBool (ac_vehicle_assignment c)),
      (''capacity_constraint'', PBool (ac_capacity_constraint c)),
      (''route_connectivity'', PBool (ac_route_connectivity c)),
      (''blocked_edge_exclusion'', PBool (ac_blocked_edge_exclusion c))]"

definition audit_result_to_state :: "audit_result \<Rightarrow> pydict" where
  "audit_result_to_state result =
     [(''audit_status'', PStr (ar_audit_status result)),
      (''passed'', PBool (ar_passed result)),
      (''reason'', PStr (ar_reason result)),
      (''checks'', PDict (checks_to_state (ar_checks result))),
      (''dispatch_id'', opt_int (ar_dispatch_id result)),
      (''requires_manual_review'', PBool (ar_requires_manual_review result)),
      (''audit_record_id'', opt_int (ar_audit_record_id result))]"

definition memory_recall_to_state :: "memory_recall \<Rightarrow> pydict" where
  "memory_recall_to_state recall =
     [(''memory_id'', PStr (mr_memory_id recall)),
      (''similarity_score'', PFloat (mr_similarity_score recall)),
      (''driver_id'', PStr (mr_driver_id recall)),
      (''route_id'', PStr (mr_route_id recall)),
      (''anomaly_type'', PStr (mr_anomaly_type recall)),
      (''historical_resolution'', PStr (mr_historical_resolution recall)),
      (''metadata'', PDict (mr_metadata recall))]"

text \<open>A recalled memory of the state, as the routing service reads it.\<close>

definition read_recall :: "pyval \<Rightarrow> agent_error + memory_recall" where
  "read_recall v =
     res_bind (as_dict ''memory_results'' v) (\<lambda>d.
       case (dget d ''memory_id'', dget d ''similarity_score'', dget d ''driver_id'', dget d ''route_id'',
             dget d ''anomaly_type'', dget d ''historical_resolution'', dget d ''metadata'') of
         (PStr memory_id, PFloat score, PStr driver_id, PStr route_id, PStr anomaly_type, PStr resolution, PDict metadata) \<Rightarrow>
           Inr \<lparr>mr_memory_id = memory_id, mr_similarity_score = score, mr_driver_id = driver_id,
                mr_route_id = route_id, mr_anomaly_type = anomaly_type, mr_historical_resolution = resolution,
                mr_metadata = metadata\<rparr>
       | _ \<Rightarrow> Inl (WrongType ''memory_results''))"

lemma read_recall_state: "read_recall (PDict (memory_recall_to_state r)) = Inr r"
  by (simp add: read_recall_def memory_recall_to_state_def as_dict_def)

section \<open>The database\<close>

text \<open>The tables, once; each service sees the part it works on.\<close>

record county_db =
  w_orders :: "order_row list"
  w_stations :: "station_row list"
  w_nodes :: "road_node list"
  w_edges :: "road_edge list"
  w_vehicles :: "vehicle_row list"
  w_drivers :: "fleet_driver list"
  w_tasks :: "task_row list"
  w_dispatches :: "dispatch_row list"
  w_evidence :: "evidence_row list"
  w_audit_records :: "audit_record list"
  w_next_dispatch_id :: int
  w_next_evidence_id :: int
  w_next_audit_id :: int

definition sandtable_view :: "county_db \<Rightarrow> sandtable_db" where
  "sandtable_view w =
     \<lparr>sdb_orders = w_orders w, sdb_stations = w_stations w, sdb_nodes = w_nodes w, sdb_edges = w_edges w,
      sdb_vehicles = w_vehicles w\<rparr>"

definition put_sandtable :: "county_db \<Rightarrow> sandtable_db \<Rightarrow> county_db" where
  "put_sandtable w s = w\<lparr>w_edges := sdb_edges s\<rparr>"

definition dispatch_view :: "county_db \<Rightarrow> dispatch_db" where
  "dispatch_view w =
     \<lparr>db_orders = map or_id (w_orders w), db_nodes = map rn_node_id (w_nodes w), db_tasks = w_tasks w,
      db_vehicles = w_vehicles w, db_dispatches = w_dispatches w, db_evidence = w_evidence w,
      db_next_dispatch_id = w_next_dispatch_id w, db_next_evidence_id = w_next_evidence_id w\<rparr>"

definition put_dispatch :: "county_db \<Rightarrow> dispatch_db \<Rightarrow> county_db" where
  "put_dispatch w d =
     w\<lparr>w_vehicles := db_vehicles d, w_dispatches := db_dispatches d, w_evidence := db_evidence d,
       w_next_dispatch_id := db_next_dispatch_id d, w_next_evidence_id := db_next_evidence_id d\<rparr>"

definition audit_view :: "county_db \<Rightarrow> audit_db" where
  "audit_view w =
     \<lparr>adb_tasks = w_tasks w, adb_dispatch_ids = map dp_id (w_dispatches w), adb_records = w_audit_records w,
      adb_next_id = w_next_audit_id w\<rparr>"

definition put_audit :: "county_db \<Rightarrow> audit_db \<Rightarrow> county_db" where
  "put_audit w a = w\<lparr>w_audit_records := adb_records a, w_next_audit_id := adb_next_id a\<rparr>"

definition road_snapshot :: "county_db \<Rightarrow> road_network" where
  "road_snapshot w = repo_snapshot (w_nodes w) (w_edges w)"

end
