(* ===== verification/Agents.thy ===== *)
theory Agents
  imports Graph_State
begin

text \<open>
  The eight agents of \<open>backend/app/agents\<close> and the graph of \<open>graph/builder.py\<close> that runs them one after the other.

  A node reads the graph state and the database and returns a patch of the state. The services it calls are the definitions
  of the component theories, over the one database of the run; the recall services (a vector store and a graph
  database), the environment service and the real-road service enter through \<open>graph_dependencies\<close> as functions that give
  their answer to one call. The time of day and the random numbers are arguments too. The metrics recorder
  has no influence on the state and is left out.
\<close>

section \<open>Dependencies: graph/dependencies.py\<close>

record graph_memory_context =
  gc_driver_id :: string
  gc_route_id :: string
  gc_anomaly_type :: string
  gc_text :: string
  gc_vehicle_id :: "string option"
  gc_weather :: "string option"

text \<open>The facts and paths of a recall as \<open>to_dict\<close> gives them.\<close>

record graph_memory_recall =
  gm_facts :: "pydict list"
  gm_paths :: "pydict list"
  gm_elapsed_ms :: rat

record routing_service =
  rt_route_provider :: "route_provider option"
  rt_memory_adoption_threshold :: rat
  rt_road_network_provider :: "(county_db \<Rightarrow> road_network) option"
  rt_path_finder :: "find_fn option"

record capacity_service =
  cv_provider :: "county_db \<Rightarrow> capacity_provider"
  cv_limited_threshold :: rat
  cv_unavailable_threshold :: rat

record graph_dependencies =
  gd_sandtable_context_service :: bool
  gd_road_network_snapshot_service :: bool
  gd_entity_memory_service :: "(string \<Rightarrow> unit + memory_recall list) option"
  gd_graph_memory_service :: "(graph_memory_context \<Rightarrow> unit + graph_memory_recall) option"
  gd_environment_service :: "(string \<Rightarrow> provider_failure + environment_result) option"
  gd_capacity_service :: "capacity_service option"
  gd_fleet_allocation_service :: bool
  gd_routing_service :: "routing_service option"
  gd_real_road_route_service :: "(string list \<Rightarrow> real_route_error + real_road_route) option"
  gd_dispatch_service :: bool
  gd_audit_service :: bool
  gd_now :: string
  gd_uuids :: "nat \<Rightarrow> string"
  gd_txt :: "rat \<Rightarrow> string"

section \<open>Intake: agents/intake.py\<close>

definition mismatch_message :: string where
  "mismatch_message = utf8
     [0xE8, 0xAF, 0xB7, 0xE6, 0xB1, 0x82, 0xE8, 0xBD, 0xA6, 0xE8, 0xBE, 0x86, 0xE4, 0xB8, 0x8E, 0xE8, 0xAE, 0xA2,
      0xE5, 0x8D, 0x95, 0xE5, 0xBD, 0x93, 0xE5, 0x89, 0x8D, 0xE5, 0x88, 0x86, 0xE9, 0x85, 0x8D, 0xE8, 0xBD,
      0xA6, 0xE8, 0xBE, 0x86, 0xE4, 0xB8, 0x8D, 0xE4, 0xB8, 0x80, 0xE8, 0x87, 0xB4, 0xEF, 0xBC, 0x8C, 0xE8,
      0xAF, 0xB7, 0xE4, 0xBA, 0xBA, 0xE5, 0xB7, 0xA5, 0xE6, 0xA0, 0xB8, 0xE5, 0xAF, 0xB9, 0xE8, 0xAE, 0xA2,
      0xE5, 0x8D, 0x95, 0xE8, 0xBD, 0xA6, 0xE8, 0xBE, 0x86, 0xE4, 0xBF, 0xA1, 0xE6, 0x81, 0xAF, 0xE3, 0x80,
      0x82]"

definition with_started :: "graph_state \<Rightarrow> string \<Rightarrow> pydict \<Rightarrow> pydict" where
  "with_started st now p = (if truthy (sget st ''started_at'') then p else dset ''started_at'' (PStr now) p)"

definition driver_or :: "string option \<Rightarrow> graph_state \<Rightarrow> agent_error + string" where
  "driver_or driver_id st =
     (case py_or driver_id None of Some d \<Rightarrow> Inr d | None \<Rightarrow> text_item st ''driver_id'')"

text \<open>The patch of a context that could be resolved, with the captured road network if the service is there.\<close>

definition context_patch :: "graph_state \<Rightarrow> string \<Rightarrow> pydict \<Rightarrow> sandtable_task_context \<Rightarrow> road_network_state option \<Rightarrow>
    agent_error + patch" where
  "context_patch st now p context snapshot_state =
     res_bind (driver_or (tc_current_driver_id context) st) (\<lambda>driver_id.
       let vehicle_weight = PStr (format_f 2 (tc_vehicle_weight_tons context))
       in Inr \<lparr>gs_values = with_started st now (dupdate p
             [(''sandtable_context_loaded'', PBool True),
              (''cargo_weight_kg'', PStr (format_f 2 (tc_cargo_weight_kg context))),
              (''cargo_type'', PStr (tc_cargo_type context)),
              (''origin_node_id'', PStr (tc_origin_node_id context)),
              (''destination_node_id'', PStr (tc_destination_node_id context)),
              (''vehicle_id'', PStr (tc_current_vehicle_id context)),
              (''vehicle_weight_tons'', vehicle_weight),
              (''original_vehicle_weight_tons'', vehicle_weight),
              (''active_vehicle_weight_tons'', vehicle_weight),
              (''driver_id'', PStr driver_id),
              (''incident_node_id'', opt_str (tc_incident_node_id context)),
              (''affected_edge_ids'', str_list (tc_affected_edge_ids context)),
              (''blocked_edge_ids'', str_list (tc_affected_edge_ids context)),
              (''road_network_version'',
                PInt (case snapshot_state of None \<Rightarrow> tc_road_network_version context | Some s \<Rightarrow> st_version s))]),
            gs_road_network_snapshot = snapshot_state\<rparr>)"

definition mismatch_patch :: "graph_state \<Rightarrow> pydict \<Rightarrow> sandtable_task_context \<Rightarrow> agent_error + patch" where
  "mismatch_patch st p context =
     res_bind (driver_or (tc_current_driver_id context) st) (\<lambda>driver_id.
       let vehicle_weight = PStr (format_f 2 (tc_vehicle_weight_tons context))
       in Inr (patch_of (dupdate p
            [(''sandtable_context_loaded'', PBool True),
             (''vehicle_id'', PStr (tc_current_vehicle_id context)),
             (''driver_id'', PStr driver_id),
             (''vehicle_weight_tons'', vehicle_weight),
             (''original_vehicle_weight_tons'', vehicle_weight),
             (''active_vehicle_weight_tons'', vehicle_weight),
             (''requires_manual_review'', PBool True),
             (''error_code'', PStr ''VEHICLE_ASSIGNMENT_MISMATCH''),
             (''error_message'', PStr mismatch_message)])))"

definition unresolved_patch :: "pydict \<Rightarrow> patch" where
  "unresolved_patch p = patch_of (dupdate p
     [(''sandtable_context_loaded'', PBool True),
      (''requires_manual_review'', PBool True),
      (''error_code'', PStr ''ROAD_LOCATION_UNRESOLVED''),
      (''error_message'', PStr ''The reported road location could not be resolved uniquely.'')])"

definition intake_sandtable :: "bool \<Rightarrow> string \<Rightarrow> graph_state \<Rightarrow> string \<Rightarrow> pydict \<Rightarrow> county_db \<Rightarrow>
    (agent_error + patch) \<times> county_db" where
  "intake_sandtable snapshot_on now st anomaly base w =
     (case (int_item st ''order_id'', text_item st ''anomaly_type'', opt_text st ''vehicle_id'') of
        (Inr order_id, Inr anomaly_type, Inr vehicle_id) \<Rightarrow>
          (let p = dset ''sandtable_context_loaded'' (PBool False) base;
               (result, s) = resolve (sandtable_view w) order_id anomaly_type anomaly vehicle_id;
               w' = put_sandtable w s
           in case result of
                Inl LookupFailed \<Rightarrow> (Inr (patch_of (with_started st now p)), w')
              | Inl RoadLocationUnresolved \<Rightarrow> (Inr (unresolved_patch p), w')
              | Inl (VehicleAssignmentMismatch context) \<Rightarrow> (mismatch_patch st p context, w')
              | Inr context \<Rightarrow>
                  (context_patch st now p context
                     (if snapshot_on then Some (capture (\<lambda>_. road_snapshot w')) else None), w'))
      | (Inl e, _, _) \<Rightarrow> (Inl e, w)
      | (_, Inl e, _) \<Rightarrow> (Inl e, w)
      | (_, _, Inl e) \<Rightarrow> (Inl e, w))"

definition intake_node :: "bool \<Rightarrow> bool \<Rightarrow> string \<Rightarrow> graph_state \<Rightarrow> county_db \<Rightarrow> (agent_error + patch) \<times> county_db" where
  "intake_node sandtable_on snapshot_on now st w =
     (case text_default st ''anomaly_description'' [] of
        Inl e \<Rightarrow> (Inl e, w)
      | Inr description \<Rightarrow>
          let anomaly = join '' '' (py_split description);
              base = [(''normalized_anomaly'', PStr anomaly), (''requires_manual_review'', PBool False)]
          in if \<not> (truthy (sget st ''task_id'') \<and> truthy (sget st ''order_id'') \<and>
                    truthy (sget st ''anomaly_type'') \<and> anomaly \<noteq> [])
             then (Inr (patch_of [(''requires_manual_review'', PBool True),
                      (''error_code'', PStr ''INTAKE_VALIDATION_ERROR''),
                      (''error_message'', PStr ''Anomaly description is required.'')]), w)
             else if sandtable_on then intake_sandtable snapshot_on now st anomaly base w
             else (Inr (patch_of (with_started st now base)), w))"

section \<open>Recall: agents/memory.py and agents/graph\_memory.py\<close>

definition memory_context_text :: "string \<Rightarrow> string \<Rightarrow> string \<Rightarrow> string \<Rightarrow> string" where
  "memory_context_text driver_id route_id anomaly_type detail =
     utf8 [0xE5, 0x8F, 0xB8, 0xE6, 0x9C, 0xBA] @ '' '' @ driver_id @
     '' '' @ utf8 [0xE8, 0xB7, 0xAF, 0xE7, 0xBA, 0xBF] @ '' '' @ route_id @
     '' '' @ utf8 [0xE5, 0xBC, 0x82, 0xE5, 0xB8, 0xB8] @ '' '' @ anomaly_type @ '' '' @ detail"

definition memory_recall_query :: "string \<Rightarrow> string \<Rightarrow> string \<Rightarrow> string \<Rightarrow> string" where
  "memory_recall_query driver_id route_id anomaly_type normalized_anomaly =
     memory_context_text driver_id route_id anomaly_type
       (utf8 [0xE5, 0xBC, 0x82, 0xE5, 0xB8, 0xB8, 0xE6, 0x8F, 0x8F, 0xE8, 0xBF, 0xB0] @ '' '' @ normalized_anomaly)"

text \<open>\<open>state.get("normalized_anomaly", state["anomaly_description"])\<close>: the default is read in any case.\<close>

definition anomaly_text :: "graph_state \<Rightarrow> agent_error + string" where
  "anomaly_text st =
     res_bind (text_item st ''anomaly_description'') (\<lambda>description. text_default st ''normalized_anomaly'' description)"

definition entity_memory_node :: "(string \<Rightarrow> unit + memory_recall list) option \<Rightarrow> graph_state \<Rightarrow> agent_error + patch" where
  "entity_memory_node service st =
     (case service of
        None \<Rightarrow> Inr (patch_of [(''memory_results'', PList [])])
      | Some recall \<Rightarrow>
          res_bind (text_item st ''driver_id'') (\<lambda>driver_id.
          res_bind (text_item st ''route_id'') (\<lambda>route_id.
          res_bind (text_item st ''anomaly_type'') (\<lambda>anomaly_type.
          res_bind (anomaly_text st) (\<lambda>text.
            case recall (memory_recall_query driver_id route_id anomaly_type text) of
              Inl _ \<Rightarrow> Inr (patch_of [(''memory_results'', PList []), (''error_code'', PStr ''MEMORY_RECALL_ERROR''),
                         (''error_message'', PStr ''Entity memory recall is temporarily unavailable.'')])
            | Inr recalls \<Rightarrow>
                Inr (patch_of [(''memory_results'', PList (map (PDict \<circ> memory_recall_to_state) recalls))]))))))"

definition empty_recall :: pydict where
  "empty_recall =
     [(''graph_memory_facts'', PList []), (''graph_memory_paths'', PList []), (''graph_memory_used'', PBool False),
      (''graph_memory_error'', PNone), (''graph_memory_elapsed_ms'', PFloat 0)]"

definition graph_memory_node :: "(graph_memory_context \<Rightarrow> unit + graph_memory_recall) option \<Rightarrow> graph_state \<Rightarrow>
    agent_error + patch" where
  "graph_memory_node service st =
     (case service of
        None \<Rightarrow> Inr (patch_of empty_recall)
      | Some recall \<Rightarrow>
          res_bind (text_item st ''driver_id'') (\<lambda>driver_id.
          res_bind (text_item st ''route_id'') (\<lambda>route_id.
          res_bind (text_item st ''anomaly_type'') (\<lambda>anomaly_type.
          res_bind (anomaly_text st) (\<lambda>text.
          res_bind (opt_text st ''vehicle_id'') (\<lambda>vehicle_id.
          res_bind (opt_text st ''weather'') (\<lambda>weather.
            case recall \<lparr>gc_driver_id = driver_id, gc_route_id = route_id, gc_anomaly_type = anomaly_type,
                          gc_text = text, gc_vehicle_id = vehicle_id, gc_weather = weather\<rparr> of
              Inl _ \<Rightarrow> Inr (patch_of (dset ''graph_memory_error''
                         (PStr ''Graph memory recall is temporarily unavailable.'') empty_recall))
            | Inr r \<Rightarrow>
                Inr (patch_of
                  [(''graph_memory_facts'', PList (map PDict (gm_facts r))),
                   (''graph_memory_paths'', PList (map PDict (gm_paths r))),
                   (''graph_memory_used'', PBool (gm_facts r \<noteq> [] \<or> gm_paths r \<noteq> [])),
                   (''graph_memory_error'', PNone),
                   (''graph_memory_elapsed_ms'', PFloat (gm_elapsed_ms r))]))))))))"

section \<open>Environment: agents/environment.py\<close>

definition environment_node :: "(string \<Rightarrow> provider_failure + environment_result) option \<Rightarrow> graph_state \<Rightarrow>
    agent_error + patch" where
  "environment_node service st =
     (case service of
        None \<Rightarrow> Inr (patch_of [])
      | Some ask \<Rightarrow>
          res_bind (text_item st ''route_id'') (\<lambda>route_id.
          res_bind (lift_error EnvironmentFailed (ask route_id)) (\<lambda>result.
            Inr (patch_of
              [(''weather'', PStr (en_weather result)), (''road_condition'', PStr (en_road_condition result)),
               (''environment_risk'', PStr (en_risk_level result)),
               (''fallback_used'', PBool (en_fallback_used result)),
               (''fallback_reason'', opt_str (en_fallback_reason result)),
               (''environment_provider'', PStr (en_provider_name result)),
               (''environment_elapsed_ms'', PFloat (en_elapsed_ms result))]))))"

section \<open>Capacity: agents/capacity.py\<close>

definition compatibility_state :: "bool \<Rightarrow> graph_state \<Rightarrow> pydict" where
  "compatibility_state legacy st =
     (let available = (dget_default (gs_values st) ''vehicle_status'' (PStr ''NORMAL'') = PStr ''NORMAL'')
      in [(''driver_available'', PBool available), (''vehicle_available'', PBool available),
          (''load_ratio'', PFloat 0), (''station_load_ratio'', PNone),
          (''capacity_status'', PStr (if available then ''AVAILABLE'' else ''UNAVAILABLE'')),
          (''risk_level'', PStr (if available then ''low'' else ''high'')),
          (''reason'', PNone),
          (''provider_name'', PStr (if legacy then ''legacy_compatibility'' else ''sandtable_graph''))])"

definition evaluation_error_patch :: patch where
  "evaluation_error_patch = patch_of
     [(''capacity_state'', PDict
        [(''driver_available'', PBool False), (''vehicle_available'', PBool False), (''load_ratio'', PFloat 0),
         (''station_load_ratio'', PNone), (''capacity_status'', PStr ''UNKNOWN''), (''risk_level'', PStr ''high''),
         (''reason'', PStr ''Capacity evaluation is temporarily unavailable.''), (''provider_name'', PStr ''unknown'')]),
      (''requires_manual_review'', PBool True),
      (''error_code'', PStr ''CAPACITY_EVALUATION_ERROR''),
      (''error_message'', PStr ''Capacity evaluation is temporarily unavailable.'')]"

text \<open>The call of the capacity service; \<open>None\<close> is the \<open>CapacityEvaluationError\<close> that the node handles.\<close>

definition rated_state :: "capacity_service \<Rightarrow> graph_state \<Rightarrow> county_db \<Rightarrow> agent_error + pydict option" where
  "rated_state service st w =
     res_bind (text_item st ''driver_id'') (\<lambda>driver_id.
     res_bind (opt_text st ''vehicle_id'') (\<lambda>vehicle_id.
     res_bind (text_item st ''route_id'') (\<lambda>route_id.
     res_bind (int_item st ''order_id'') (\<lambda>order_id.
     res_bind (text_default st ''vehicle_status'' ''NORMAL'') (\<lambda>vehicle_status.
     res_bind (opt_text st ''cargo_weight_kg'') (\<lambda>weight_text.
     res_bind (case weight_text of None \<Rightarrow> Inr None
               | Some t \<Rightarrow> res_bind (as_decimal t) (\<lambda>kg. Inr (Some kg))) (\<lambda>cargo_weight_kg.
     res_bind (opt_text st ''cargo_type'') (\<lambda>cargo_type.
       case capacity_evaluate (cv_limited_threshold service) (cv_unavailable_threshold service) (cv_provider service w)
              driver_id vehicle_id route_id order_id vehicle_status cargo_weight_kg cargo_type of
         Inl (CapacityEvaluationError _) \<Rightarrow> Inr None
       | Inl err \<Rightarrow> Inl (CapacityFailed err)
       | Inr result \<Rightarrow> Inr (Some (capacity_result_to_state result))))))))))"

definition allocation_request :: "graph_state \<Rightarrow> agent_error + fleet_request" where
  "allocation_request st =
     res_bind (text_default st ''vehicle_id'' []) (\<lambda>original_vehicle_id.
     res_bind (opt_text st ''incident_node_id'') (\<lambda>incident.
     res_bind (case py_or incident None of Some n \<Rightarrow> Inr n | None \<Rightarrow> text_default st ''origin_node_id'' []) (\<lambda>incident_node_id.
     res_bind (text_default st ''cargo_weight_kg'' ''0'') (\<lambda>weight_text.
     res_bind (as_decimal weight_text) (\<lambda>cargo_weight_kg.
     res_bind (text_default st ''cargo_type'' ''GENERAL'') (\<lambda>cargo_type.
     res_bind (opt_text st ''destination_node_id'') (\<lambda>destination_node_id.
       Inr \<lparr>rq_original_vehicle_id = original_vehicle_id, rq_incident_node_id = incident_node_id,
            rq_cargo_weight_kg = cargo_weight_kg, rq_cargo_type = cargo_type,
            rq_destination_node_id = destination_node_id\<rparr>)))))))"

definition restored_snapshot :: "bool \<Rightarrow> graph_state \<Rightarrow> agent_error + road_network option" where
  "restored_snapshot snapshot_on st =
     (case gs_road_network_snapshot st of
        Some s \<Rightarrow> if snapshot_on then res_bind (lift_error BadDecimal (restore s)) (\<lambda>net. Inr (Some net)) else Inr None
      | None \<Rightarrow> Inr None)"

definition reassigned_patch :: "(rat \<Rightarrow> string) \<Rightarrow> pydict \<Rightarrow> fleet_result \<Rightarrow> patch" where
  "reassigned_patch txt capacity_state allocation =
     (let selected_weight =
            (case first_match (\<lambda>c. Some (vc_vehicle_id c) = fr_selected_vehicle_id allocation) (fr_candidates allocation) of
               None \<Rightarrow> 0 | Some c \<Rightarrow> vc_gross_weight_tons c)
      in patch_of
        [(''capacity_state'', PDict (dupdate capacity_state
           [(''driver_available'', PBool True), (''vehicle_available'', PBool True),
            (''capacity_status'', PStr ''REASSIGNED''), (''risk_level'', PStr ''low''), (''reason'', PNone)])),
         (''candidate_vehicles'', PList (map (PDict \<circ> candidate_to_state txt) (fr_candidates allocation))),
         (''selected_vehicle_id'', opt_str (fr_selected_vehicle_id allocation)),
         (''selected_driver_id'', opt_str (fr_selected_driver_id allocation)),
         (''selected_vehicle_gross_weight_tons'', PStr (format_f 2 selected_weight)),
         (''active_vehicle_weight_tons'', PStr (format_f 2 selected_weight)),
         (''vehicle_reassigned'', PBool True),
         (''pickup_route'', opt_dict path_to_state (fr_pickup_route allocation)),
         (''requires_manual_review'', PBool False)])"

definition no_replacement_patch :: "(rat \<Rightarrow> string) \<Rightarrow> pydict \<Rightarrow> fleet_result \<Rightarrow> patch" where
  "no_replacement_patch txt capacity_state allocation = patch_of
     [(''capacity_state'', PDict (dupdate capacity_state
        [(''vehicle_available'', PBool False), (''capacity_status'', PStr ''UNAVAILABLE''),
         (''risk_level'', PStr ''high''), (''reason'', opt_str (fr_reason allocation))])),
      (''candidate_vehicles'', PList (map (PDict \<circ> candidate_to_state txt) (fr_candidates allocation))),
      (''requires_manual_review'', PBool True),
      (''error_code'', PStr ''NO_REPLACEMENT_VEHICLE''),
      (''error_message'', PStr ''No eligible replacement vehicle is available.'')]"

text \<open>\<open>FleetAllocationService.allocate\<close> over the repositories of the database.\<close>

definition allocate_in :: "county_db \<Rightarrow> fleet_request \<Rightarrow> road_network option \<Rightarrow> agent_error + fleet_result" where
  "allocate_in w request snapshot =
     lift_error FleetFailed
       (allocate (dijkstra_estimator find_path (\<lambda>_. road_snapshot w)) (list_candidates (w_vehicles w) (w_drivers w))
          request snapshot)"

definition capacity_node :: "(rat \<Rightarrow> string) \<Rightarrow> capacity_service option \<Rightarrow> bool \<Rightarrow> bool \<Rightarrow> graph_state \<Rightarrow> county_db \<Rightarrow>
    agent_error + patch" where
  "capacity_node txt service fleet_on snapshot_on st w =
     (let legacy = (sget st ''sandtable_context_loaded'' = PBool False)
      in res_bind (case service of
                     None \<Rightarrow> Inr (Some (compatibility_state legacy st))
                   | Some s \<Rightarrow> if legacy then Inr (Some (compatibility_state legacy st)) else rated_state s st w)
           (\<lambda>rated. case rated of
              None \<Rightarrow> Inr evaluation_error_patch
            | Some capacity_state \<Rightarrow>
                if \<not> legacy \<and> fleet_on \<and>
                   sget st ''vehicle_status'' \<in> {PStr ''BROKEN'', PStr ''UNAVAILABLE'', PStr ''MAINTENANCE''}
                then res_bind (restored_snapshot snapshot_on st) (\<lambda>snapshot.
                     res_bind (allocation_request st) (\<lambda>request.
                     res_bind (allocate_in w request snapshot) (\<lambda>allocation.
                       Inr (if fr_vehicle_reassigned allocation then reassigned_patch txt capacity_state allocation
                            else no_replacement_patch txt capacity_state allocation))))
                else Inr (patch_of [(''capacity_state'', PDict capacity_state)])))"

section \<open>Routing: agents/routing.py\<close>

definition planning_context :: "graph_state \<Rightarrow> agent_error + route_planning_context" where
  "planning_context st =
     (let original_weight = val_or (sget st ''original_vehicle_weight_tons'') (sget st ''vehicle_weight_tons'');
          active_weight = val_or (val_or (sget st ''active_vehicle_weight_tons'')
                            (sget st ''selected_vehicle_gross_weight_tons'')) original_weight
      in if original_weight = PNone then Inl OriginalWeightRequired
         else
           res_bind (int_item st ''order_id'') (\<lambda>order_id.
           res_bind (text_default st ''cargo_weight_kg'' ''0'') (\<lambda>weight_text.
           res_bind (as_decimal weight_text) (\<lambda>cargo_weight_kg.
           res_bind (text_default st ''cargo_type'' ''GENERAL'') (\<lambda>cargo_type.
           res_bind (text_item st ''origin_node_id'') (\<lambda>origin_node_id.
           res_bind (text_item st ''destination_node_id'') (\<lambda>destination_node_id.
           res_bind (opt_text st ''selected_vehicle_id'') (\<lambda>selected_vehicle.
           res_bind (case py_or selected_vehicle None of Some v \<Rightarrow> Inr v | None \<Rightarrow> text_default st ''vehicle_id'' []) (\<lambda>vehicle_id.
           res_bind (opt_text st ''selected_driver_id'') (\<lambda>selected_driver.
           res_bind (opt_text st ''driver_id'') (\<lambda>driver_id.
           res_bind (opt_text st ''incident_node_id'') (\<lambda>incident_node_id.
           res_bind (texts_default st ''affected_edge_ids'') (\<lambda>affected.
           res_bind (as_int ''road_network_version'' (dget_default (gs_values st) ''road_network_version'' (PInt 0))) (\<lambda>version.
           res_bind (as_decimal (py_str original_weight)) (\<lambda>original.
           res_bind (as_decimal (py_str active_weight)) (\<lambda>active.
             Inr \<lparr>pc_order_id = order_id, pc_order_no = show_int order_id, pc_cargo_weight_kg = cargo_weight_kg,
                  pc_cargo_type = cargo_type, pc_origin_node_id = origin_node_id,
                  pc_destination_node_id = destination_node_id, pc_current_vehicle_id = vehicle_id,
                  pc_current_driver_id = py_or selected_driver driver_id, pc_incident_node_id = incident_node_id,
                  pc_affected_edge_ids = affected, pc_road_network_version = version,
                  pc_original_vehicle_weight_tons = original, pc_active_vehicle_weight_tons = active\<rparr>))))))))))))))))"

definition routing_basis :: string where
  "routing_basis = '' '' @ utf8 [0xE8, 0xB7, 0xAF, 0xE7, 0x94, 0xB1, 0xE4, 0xBE, 0x9D, 0xE6, 0x8D, 0xAE, 0xEF, 0xBC, 0x9A]"

text \<open>\<open>state.get("capacity_state", {}).get("capacity_status")\<close>.\<close>

definition known_capacity_status :: "graph_state \<Rightarrow> agent_error + string option" where
  "known_capacity_status st =
     res_bind (as_dict ''capacity_state'' (dget_default (gs_values st) ''capacity_state'' (PDict [])))
       (\<lambda>d. as_opt_text ''capacity_state'' (dget d ''capacity_status''))"

definition recommendation_patch :: "graph_state \<Rightarrow> routing_result \<Rightarrow> pydict list \<Rightarrow> agent_error + pydict" where
  "recommendation_patch st result candidate_routes =
     res_bind (text_item st ''anomaly_type'') (\<lambda>anomaly_type.
     res_bind (text_item st ''anomaly_description'') (\<lambda>description.
     res_bind (opt_text st ''vehicle_status'') (\<lambda>vehicle_status.
     res_bind (opt_text st ''environment_risk'') (\<lambda>environment_risk.
     res_bind (known_capacity_status st) (\<lambda>capacity_status.
       let recommendation = recommend anomaly_type description vehicle_status environment_risk capacity_status
                              candidate_routes (rr_recommended_route result);
           category = ir_issue_category recommendation;
           reassigned_breakdown = (category = ''VEHICLE_BREAKDOWN'' \<and> capacity_status = Some ''REASSIGNED'');
           recommended_route = (if reassigned_breakdown then rr_recommended_route result
                                else ir_recommended_route recommendation);
           action_only = (category \<in> {''VEHICLE_BREAKDOWN'', ''CARGO'', ''CAPACITY'', ''OTHER''} \<and> \<not> reassigned_breakdown);
           route_rejected = (rr_decision result = ''REROUTE'' \<and> recommended_route = None);
           requires_manual_review = (rr_requires_manual_review result \<or> action_only \<or> route_rejected)
       in Inr [(''candidate_routes'', PList (map PDict candidate_routes)),
               (''recommended_route'', opt_str recommended_route),
               (''identified_issue'', PStr category),
               (''issue_subtype'', PStr (ir_issue_subtype recommendation)),
               (''recommended_action'', PStr (ir_recommended_action recommendation)),
               (''analysis_mode'', PStr (ir_analysis_mode recommendation)),
               (''decision'', PStr (if requires_manual_review then ''MANUAL_REVIEW'' else rr_decision result)),
               (''decision_reason'', PStr (ir_analysis_reason recommendation @ routing_basis @ rr_decision_reason result)),
               (''memory_adopted'', PBool (rr_memory_adopted result)),
               (''adopted_memory_id'', opt_str (rr_adopted_memory_id result)),
               (''requires_manual_review'', PBool requires_manual_review)])))))"

definition no_route_message :: string where
  "no_route_message = utf8
     [0xE6, 0x8E, 0x92, 0xE9, 0x99, 0xA4, 0xE5, 0x8F, 0x97, 0xE5, 0xBD, 0xB1, 0xE5, 0x93, 0x8D, 0xE9, 0x81, 0x93,
      0xE8, 0xB7, 0xAF, 0xE5, 0x90, 0x8E, 0xE4, 0xB8, 0x8D, 0xE5, 0xAD, 0x98, 0xE5, 0x9C, 0xA8, 0xE5, 0x8F,
      0xAF, 0xE8, 0xBE, 0xBE, 0xE9, 0x85, 0x8D, 0xE9, 0x80, 0x81, 0xE8, 0xB7, 0xAF, 0xE7, 0xBA, 0xBF, 0xEF,
      0xBC, 0x8C, 0xE8, 0xAF, 0xB7, 0xE4, 0xBA, 0xBA, 0xE5, 0xB7, 0xA5, 0xE5, 0xA4, 0x8D, 0xE6, 0xA0, 0xB8,
      0xE3, 0x80, 0x82]"

definition path_deltas :: "routing_result \<Rightarrow> pyval \<times> pyval" where
  "path_deltas result =
     (case (rr_recommended_path result, rr_original_path result) of
        (Some recommended, Some original) \<Rightarrow>
          (PStr (format_f 2 (dec_sub (pr_distance_km recommended) (pr_distance_km original))),
           PInt (pr_estimated_minutes recommended - pr_estimated_minutes original))
      | _ \<Rightarrow> (PNone, PNone))"

definition planned_patch :: "pydict \<Rightarrow> routing_result \<Rightarrow> pydict" where
  "planned_patch recommendation result =
     dupdate recommendation
       ((if rr_routing_status result = ''NO_REACHABLE_ROUTE''
         then [(''error_code'', PStr ''NO_REACHABLE_ROUTE''), (''error_message'', PStr no_route_message)] else []) @
        [(''blocked_edge_ids'', str_list (rr_blocked_edge_ids result)),
         (''original_path'', opt_dict path_to_state (rr_original_path result)),
         (''recommended_path'',
           opt_dict (\<lambda>p. path_to_state p @ [(''scoring_formula'', PStr ''ROUTE_SCORE_V1'')]) (rr_recommended_path result)),
         (''routing_algorithm'', PStr ''DIJKSTRA_V1''),
         (''routing_status'', PStr (rr_routing_status result)),
         (''road_network_version'', opt_int (rr_road_network_version result)),
         (''distance_delta_km'', fst (path_deltas result)),
         (''eta_delta_minutes'', snd (path_deltas result)),
         (''road_network_nodes'', PList (map PDict (rr_road_network_nodes result))),
         (''road_network_edges'', PList (map PDict (rr_road_network_edges result)))])"

text \<open>\<open>state["capacity_state"]["capacity_status"]\<close>, which both service calls read.\<close>

definition capacity_status_item :: "graph_state \<Rightarrow> agent_error + string" where
  "capacity_status_item st =
     res_bind (item st ''capacity_state'') (\<lambda>v.
     res_bind (as_dict ''capacity_state'' v) (\<lambda>d.
       if dhas d ''capacity_status'' then as_text ''capacity_status'' (dget d ''capacity_status'')
       else Inl (MissingKey ''capacity_status'')))"

definition plan_node :: "(rat \<Rightarrow> string) \<Rightarrow> routing_service \<Rightarrow> bool \<Rightarrow>
    (string list \<Rightarrow> real_route_error + real_road_route) option \<Rightarrow> graph_state \<Rightarrow> county_db \<Rightarrow> agent_error + patch" where
  "plan_node txt service snapshot_on real_roads st w =
     res_bind (restored_snapshot snapshot_on st) (\<lambda>snapshot.
     res_bind (planning_context st) (\<lambda>context.
     res_bind (capacity_status_item st) (\<lambda>capacity_status.
     res_bind (texts_default st ''affected_edge_ids'') (\<lambda>affected.
     res_bind (lift_error RoutingFailed
        (plan (rt_path_finder service) (map_option (\<lambda>p _. p w) (rt_road_network_provider service)) (Planning context)
           capacity_status affected [] snapshot)) (\<lambda>result.
     res_bind (recommendation_patch st result (map (route_candidate_to_state txt) (rr_candidate_routes result)))
       (\<lambda>recommendation.
          let p = planned_patch recommendation result
          in case (rr_recommended_path result, real_roads) of
               (Some path, Some ask) \<Rightarrow>
                 res_bind (lift_error RealRouteFailed (ask (pr_node_ids path))) (\<lambda>road.
                   Inr (patch_of (dset ''real_road_route'' (PDict (real_road_route_to_state road)) p)))
             | _ \<Rightarrow> Inr (patch_of p)))))))"

definition route_node :: "(rat \<Rightarrow> string) \<Rightarrow> routing_service \<Rightarrow> graph_state \<Rightarrow> agent_error + patch" where
  "route_node txt service st =
     res_bind (text_item st ''route_id'') (\<lambda>route_id.
     res_bind (list_default st ''memory_results'') (\<lambda>memories.
     res_bind (map_result read_recall (take 1 memories)) (\<lambda>memory_results.
     res_bind (text_default st ''weather'' ''unknown'') (\<lambda>weather.
     res_bind (text_default st ''road_condition'' ''unknown'') (\<lambda>road_condition.
     res_bind (text_default st ''environment_risk'' ''elevated'') (\<lambda>environment_risk.
     res_bind (capacity_status_item st) (\<lambda>capacity_status.
       let result = route (rt_memory_adoption_threshold service) (rt_route_provider service) route_id memory_results
                      weather road_condition environment_risk capacity_status
       in res_bind (recommendation_patch st result (map (route_candidate_to_state txt) (rr_candidate_routes result)))
            (\<lambda>p. Inr (patch_of p)))))))))"

definition can_plan :: "routing_service \<Rightarrow> bool" where
  "can_plan service \<longleftrightarrow> rt_road_network_provider service \<noteq> None \<and> rt_path_finder service \<noteq> None"

definition routing_node :: "(rat \<Rightarrow> string) \<Rightarrow> routing_service option \<Rightarrow> bool \<Rightarrow>
    (string list \<Rightarrow> real_route_error + real_road_route) option \<Rightarrow> graph_state \<Rightarrow> county_db \<Rightarrow> agent_error + patch" where
  "routing_node txt service_opt snapshot_on real_roads st w =
     (case service_opt of
        None \<Rightarrow> Inr (patch_of [])
      | Some service \<Rightarrow>
          if can_plan service \<and> truthy (sget st ''origin_node_id'') \<and> truthy (sget st ''destination_node_id'')
          then plan_node txt service snapshot_on real_roads st w
          else route_node txt service st)"

section \<open>Dispatch: agents/dispatch.py\<close>

definition fleet_evidence_of :: "graph_state \<Rightarrow> pydict" where
  "fleet_evidence_of st =
     [(''algorithm_version'', PStr ''FLEET_SCORE_V1''),
      (''candidates'', dget_default (gs_values st) ''candidate_vehicles'' (PList [])),
      (''pickup_route'', sget st ''pickup_route'')]"

definition route_evidence_of :: "graph_state \<Rightarrow> pydict" where
  "route_evidence_of st =
     (let get_list = (\<lambda>k. dget_default (gs_values st) k (PList []))
      in [(''algorithm_version'', dget_default (gs_values st) ''routing_algorithm'' (PStr ''DIJKSTRA_V1'')),
          (''road_network_version'', sget st ''road_network_version''),
          (''blocked_edge_ids'', get_list ''blocked_edge_ids''),
          (''original_path'', sget st ''original_path''),
          (''recommended_path'', sget st ''recommended_path''),
          (''pickup_route'', sget st ''pickup_route''),
          (''road_network_nodes'', get_list ''road_network_nodes''),
          (''road_network_edges'', get_list ''road_network_edges''),
          (''real_road_route'', sget st ''real_road_route''),
          (''candidate_routes'', get_list ''candidate_routes''),
          (''distance_delta_km'', sget st ''distance_delta_km''),
          (''eta_delta_minutes'', sget st ''eta_delta_minutes''),
          (''routing_status'', sget st ''routing_status'')])"

definition request_of :: "graph_state \<Rightarrow> agent_error + dispatch_request" where
  "request_of st =
     res_bind (text_item st ''task_id'') (\<lambda>task_id.
     res_bind (int_item st ''order_id'') (\<lambda>order_id.
     res_bind (text_item st ''route_id'') (\<lambda>route_id.
     res_bind (opt_text st ''recommended_route'') (\<lambda>recommended_route.
     res_bind (text_default st ''decision'' ''MANUAL_REVIEW'') (\<lambda>decision.
     res_bind (text_default st ''decision_reason'' ''Manual review required.'') (\<lambda>decision_reason.
     res_bind (bool_default st ''fallback_used'' False) (\<lambda>fallback_used.
     res_bind (opt_text st ''fallback_reason'') (\<lambda>fallback_reason.
     res_bind (bool_default st ''requires_manual_review'' False) (\<lambda>requires_manual_review.
     res_bind (opt_text st ''recommended_action'') (\<lambda>recommended_action.
     res_bind (opt_text st ''analysis_mode'') (\<lambda>analysis_mode.
     res_bind (opt_text st ''issue_subtype'') (\<lambda>issue_subtype.
     res_bind (if sget st ''original_vehicle_weight_tons'' = PNone then Inr None else opt_text st ''vehicle_id'') (\<lambda>vehicle_id.
     res_bind (dicts_default st ''candidate_vehicles'') (\<lambda>candidates.
     res_bind (opt_text st ''incident_node_id'') (\<lambda>incident_node_id.
       Inr \<lparr>dq_task_id = task_id, dq_order_id = order_id, dq_original_route_id = route_id,
            dq_target_route_id = recommended_route, dq_decision = decision, dq_decision_reason = decision_reason,
            dq_fallback_used = fallback_used, dq_fallback_reason = fallback_reason,
            dq_requires_manual_review = requires_manual_review, dq_recommended_action = recommended_action,
            dq_analysis_mode = analysis_mode, dq_issue_subtype = issue_subtype, dq_original_vehicle_id = vehicle_id,
            dq_candidate_vehicles = candidates, dq_transfer_node_id = incident_node_id,
            dq_fleet_evidence = Some (fleet_evidence_of st), dq_route_evidence = Some (route_evidence_of st)\<rparr>)))))))))))))))"

definition reservation_conflict_patch :: patch where
  "reservation_conflict_patch = patch_of
     [(''requires_manual_review'', PBool True),
      (''error_code'', PStr ''VEHICLE_RESERVATION_CONFLICT''),
      (''error_message'', PStr ''Replacement vehicle reservation conflicted with another dispatch.'')]"

definition dispatched_patch :: "dispatch_result \<Rightarrow> patch" where
  "dispatched_patch result = patch_of
     ([(''dispatch_result'', PDict (dispatch_result_to_state result)),
       (''requires_manual_review'', PBool (dr_requires_manual_review result))] @
      (case dr_target_vehicle_id result of None \<Rightarrow> [] | Some v \<Rightarrow> [(''selected_vehicle_id'', PStr v)]) @
      (case dr_target_driver_id result of None \<Rightarrow> [] | Some d \<Rightarrow> [(''selected_driver_id'', PStr d)]))"

text \<open>
  \<open>DispatchService.execute\<close> never raises \<open>OptimisticLockConflict\<close>, which the source also handles here; its other errors
  leave the node.
\<close>

definition dispatch_node :: "(nat \<Rightarrow> string) \<Rightarrow> bool \<Rightarrow> graph_state \<Rightarrow> county_db \<Rightarrow> (agent_error + patch) \<times> county_db" where
  "dispatch_node uuids service_on st w =
     (if \<not> service_on then (Inr (patch_of []), w)
      else case request_of st of
        Inl e \<Rightarrow> (Inl e, w)
      | Inr rq \<Rightarrow>
          (case execute (dispatch_view w) rq uuids of
             (Inr result, d) \<Rightarrow> (Inr (dispatched_patch result), put_dispatch w d)
           | (Inl VehicleReservationConflict, d) \<Rightarrow> (Inr reservation_conflict_patch, put_dispatch w d)
           | (Inl err, d) \<Rightarrow> (Inl (DispatchFailed err), put_dispatch w d)))"

section \<open>Audit: agents/audit.py\<close>

definition audit_evidence_of :: "graph_state \<Rightarrow> agent_error + pydict" where
  "audit_evidence_of st =
     (let get_list = (\<lambda>k. (k, dget_default (gs_values st) k (PList [])));
          get = (\<lambda>k. (k, sget st k));
          get_flag = (\<lambda>k. (k, dget_default (gs_values st) k (PBool False)));
          get_dict = (\<lambda>k. (k, dget_default (gs_values st) k (PDict [])))
      in res_bind (item st ''task_id'') (\<lambda>task_id.
         res_bind (item st ''route_id'') (\<lambda>route_id.
           Inr [(''task_id'', task_id), (''route_id'', route_id), get ''anomaly_type'', get ''vehicle_id'',
                get ''selected_vehicle_id'', get ''selected_driver_id'', get_list ''candidate_vehicles'',
                get ''cargo_weight_kg'', get ''cargo_type'', get_list ''blocked_edge_ids'', get ''original_path'',
                get ''recommended_path'', get ''pickup_route'', get_list ''road_network_edges'',
                get_list ''memory_results'', get_flag ''memory_adopted'', get ''adopted_memory_id'',
                get_flag ''graph_memory_used'', get ''graph_memory_error'', get_list ''graph_memory_facts'',
                get_list ''graph_memory_paths'', get_flag ''fallback_used'', get ''fallback_reason'',
                get ''recommended_route'', get ''analysis_mode'', get ''identified_issue'', get ''issue_subtype'',
                get ''environment_risk'', get_dict ''capacity_state'', get ''decision'', get ''decision_reason'',
                get_dict ''dispatch_result'', get_flag ''requires_manual_review'', get ''error_code''])))"

definition audit_node :: "bool \<Rightarrow> graph_state \<Rightarrow> county_db \<Rightarrow> (agent_error + patch) \<times> county_db" where
  "audit_node service_on st w =
     (if \<not> service_on then (Inr (patch_of []), w)
      else case audit_evidence_of st of
        Inl e \<Rightarrow> (Inl e, w)
      | Inr evidence \<Rightarrow>
          (case audit (audit_view w) evidence of
             Inr (result, a) \<Rightarrow>
               (Inr (patch_of [(''audit_result'', PDict (audit_result_to_state result)),
                      (''requires_manual_review'', PBool (ar_requires_manual_review result))]), put_audit w a)
           | Inl (AuditPersistenceError _) \<Rightarrow>
               (Inr (patch_of [(''requires_manual_review'', PBool True),
                      (''error_code'', PStr ''AUDIT_PERSISTENCE_ERROR''),
                      (''error_message'', PStr ''Audit result could not be persisted.''),
                      (''audit_result'', PNone)]), w)
           | Inl err \<Rightarrow> (Inl (AuditFailed err), w)))"

section \<open>The graph: graph/builder.py\<close>

datatype agent = Intake | Entity_Memory | Graph_Memory | Environment | Capacity | Routing | Dispatch | Audit

definition node_name :: "agent \<Rightarrow> string" where
  "node_name a =
     (case a of Intake \<Rightarrow> ''intake'' | Entity_Memory \<Rightarrow> ''entity_memory'' | Graph_Memory \<Rightarrow> ''graph_memory''
      | Environment \<Rightarrow> ''environment'' | Capacity \<Rightarrow> ''capacity'' | Routing \<Rightarrow> ''routing''
      | Dispatch \<Rightarrow> ''dispatch'' | Audit \<Rightarrow> ''audit'')"

definition node_order :: "agent list" where
  "node_order = [Intake, Entity_Memory, Graph_Memory, Environment, Capacity, Routing, Dispatch, Audit]"

definition run_node :: "graph_dependencies \<Rightarrow> agent \<Rightarrow> graph_state \<Rightarrow> county_db \<Rightarrow> (agent_error + patch) \<times> county_db" where
  "run_node deps a st w =
     (case a of
        Intake \<Rightarrow> intake_node (gd_sandtable_context_service deps) (gd_road_network_snapshot_service deps) (gd_now deps) st w
      | Entity_Memory \<Rightarrow> (entity_memory_node (gd_entity_memory_service deps) st, w)
      | Graph_Memory \<Rightarrow> (graph_memory_node (gd_graph_memory_service deps) st, w)
      | Environment \<Rightarrow> (environment_node (gd_environment_service deps) st, w)
      | Capacity \<Rightarrow> (capacity_node (gd_txt deps) (gd_capacity_service deps) (gd_fleet_allocation_service deps)
                       (gd_road_network_snapshot_service deps) st w, w)
      | Routing \<Rightarrow> (routing_node (gd_txt deps) (gd_routing_service deps) (gd_road_network_snapshot_service deps)
                      (gd_real_road_route_service deps) st w, w)
      | Dispatch \<Rightarrow> dispatch_node (gd_uuids deps) (gd_dispatch_service deps) st w
      | Audit \<Rightarrow> audit_node (gd_audit_service deps) st w)"

text \<open>The progress keys that \<open>_instrument_node\<close> adds to the patch of every node.\<close>

definition instrumented :: "graph_dependencies \<Rightarrow> agent \<Rightarrow> graph_state \<Rightarrow> county_db \<Rightarrow> (agent_error + patch) \<times> county_db" where
  "instrumented deps a st w =
     (case run_node deps a st w of
        (Inl e, w') \<Rightarrow> (Inl e, w')
      | (Inr p, w') \<Rightarrow>
          (res_bind (as_int ''completed_node_count'' (dget_default (gs_values st) ''completed_node_count'' (PInt 0)))
             (\<lambda>count. Inr (p\<lparr>gs_values := dupdate (gs_values p)
                [(''last_completed_node'', PStr (node_name a)), (''completed_node_count'', PInt (count + 1))]\<rparr>)), w'))"

fun run_nodes :: "graph_dependencies \<Rightarrow> agent list \<Rightarrow> graph_state \<Rightarrow> county_db \<Rightarrow> (agent_error + graph_state) \<times> county_db" where
  "run_nodes deps [] st w = (Inr st, w)"
| "run_nodes deps (a # as) st w =
     (case instrumented deps a st w of
        (Inl e, w') \<Rightarrow> (Inl e, w')
      | (Inr p, w') \<Rightarrow> run_nodes deps as (apply_patch st p) w')"

definition run_graph :: "graph_dependencies \<Rightarrow> graph_state \<Rightarrow> county_db \<Rightarrow> (agent_error + graph_state) \<times> county_db" where
  "run_graph deps st w = run_nodes deps node_order st w"

end
