(* ===== verification/Pipeline.thy ===== *)
theory Pipeline
  imports Agents
begin

text \<open>
  What every run of the dispatch graph keeps. \<open>state_keys\<close> are the keys that \<open>DispatchGraphState\<close> declares; each agent's
  patch has declared keys only, so that the merged state has each key once and a patch overrides just what it names. From this
  follow the progress of a run and what the state of an approved run satisfies; the properties themselves are stated in the
  theories \<open>Plan_Audit\<close> and \<open>Flagged_Run\<close>.
\<close>

section \<open>Patches\<close>

lemma dupdate_Nil [simp]: "dupdate d [] = d"
  by (simp add: dupdate_def)

lemma dupdate_Cons: "dupdate d ((k, v) # e) = dupdate (dset k v d) e"
  by (simp add: dupdate_def)

lemma map_of_dupdate: "distinct (map fst e) \<Longrightarrow> map_of (dupdate d e) = map_of d ++ map_of e"
proof (induction e arbitrary: d)
  case (Cons kv e)
  have "map_of e (fst kv) = None" using Cons.prems by (simp add: map_of_eq_None_iff)
  then show ?case using Cons by (cases kv) (auto simp: dupdate_Cons map_add_def split: option.splits)
qed simp

lemma patch_of_sel [simp]: "gs_values (patch_of d) = d" "gs_road_network_snapshot (patch_of d) = None"
  by (simp_all add: patch_of_def)

section \<open>Declared keys\<close>

definition state_keys :: "string list" where
  "state_keys =
     [''correlation_id'', ''task_id'', ''order_id'', ''driver_id'', ''route_id'', ''anomaly_type'', ''anomaly_description'',
      ''vehicle_id'', ''vehicle_status'', ''vehicle_weight_tons'', ''original_vehicle_weight_tons'',
      ''active_vehicle_weight_tons'', ''sandtable_context_loaded'', ''normalized_anomaly'', ''memory_results'',
      ''graph_memory_facts'', ''graph_memory_paths'', ''graph_memory_used'', ''graph_memory_error'',
      ''graph_memory_elapsed_ms'', ''weather'', ''road_condition'', ''environment_risk'', ''environment_provider'',
      ''environment_elapsed_ms'', ''capacity_state'', ''cargo_weight_kg'', ''cargo_type'', ''origin_node_id'',
      ''destination_node_id'', ''incident_node_id'', ''affected_edge_ids'', ''candidate_vehicles'', ''selected_vehicle_id'',
      ''selected_driver_id'', ''selected_vehicle_gross_weight_tons'', ''vehicle_reassigned'', ''pickup_route'',
      ''blocked_edge_ids'', ''original_path'', ''recommended_path'', ''routing_algorithm'', ''routing_status'',
      ''road_network_version'', ''distance_delta_km'', ''eta_delta_minutes'', ''road_network_nodes'', ''road_network_edges'',
      ''real_road_route'', ''candidate_routes'', ''recommended_route'', ''identified_issue'', ''issue_subtype'',
      ''recommended_action'', ''analysis_mode'', ''decision'', ''decision_reason'', ''memory_adopted'', ''adopted_memory_id'',
      ''fallback_used'', ''fallback_reason'', ''dispatch_version'', ''dispatch_result'', ''audit_result'',
      ''requires_manual_review'', ''error_code'', ''error_message'', ''started_at'', ''completed_at'', ''last_completed_node'',
      ''completed_node_count'']"

definition is_state_key :: "string \<Rightarrow> bool" where
  "is_state_key k \<longleftrightarrow> k \<in> set state_keys"

lemma state_key_simps [simp]:
  "is_state_key ''correlation_id''" "is_state_key ''task_id''" "is_state_key ''order_id''" "is_state_key ''driver_id''"
    "is_state_key ''route_id''" "is_state_key ''anomaly_type''" "is_state_key ''anomaly_description''" "is_state_key
    ''vehicle_id''" "is_state_key ''vehicle_status''" "is_state_key ''vehicle_weight_tons''" "is_state_key
    ''original_vehicle_weight_tons''" "is_state_key ''active_vehicle_weight_tons''" "is_state_key
    ''sandtable_context_loaded''" "is_state_key ''normalized_anomaly''" "is_state_key ''memory_results''" "is_state_key
    ''graph_memory_facts''" "is_state_key ''graph_memory_paths''" "is_state_key ''graph_memory_used''" "is_state_key
    ''graph_memory_error''" "is_state_key ''graph_memory_elapsed_ms''" "is_state_key ''weather''" "is_state_key
    ''road_condition''" "is_state_key ''environment_risk''" "is_state_key ''environment_provider''" "is_state_key
    ''environment_elapsed_ms''" "is_state_key ''capacity_state''" "is_state_key ''cargo_weight_kg''" "is_state_key
    ''cargo_type''" "is_state_key ''origin_node_id''" "is_state_key ''destination_node_id''" "is_state_key
    ''incident_node_id''" "is_state_key ''affected_edge_ids''" "is_state_key ''candidate_vehicles''" "is_state_key
    ''selected_vehicle_id''" "is_state_key ''selected_driver_id''" "is_state_key ''selected_vehicle_gross_weight_tons''"
    "is_state_key ''vehicle_reassigned''" "is_state_key ''pickup_route''" "is_state_key ''blocked_edge_ids''"
    "is_state_key ''original_path''" "is_state_key ''recommended_path''" "is_state_key ''routing_algorithm''"
    "is_state_key ''routing_status''" "is_state_key ''road_network_version''" "is_state_key ''distance_delta_km''"
    "is_state_key ''eta_delta_minutes''" "is_state_key ''road_network_nodes''" "is_state_key ''road_network_edges''"
    "is_state_key ''real_road_route''" "is_state_key ''candidate_routes''" "is_state_key ''recommended_route''"
    "is_state_key ''identified_issue''" "is_state_key ''issue_subtype''" "is_state_key ''recommended_action''"
    "is_state_key ''analysis_mode''" "is_state_key ''decision''" "is_state_key ''decision_reason''" "is_state_key
    ''memory_adopted''" "is_state_key ''adopted_memory_id''" "is_state_key ''fallback_used''" "is_state_key
    ''fallback_reason''" "is_state_key ''dispatch_version''" "is_state_key ''dispatch_result''" "is_state_key
    ''audit_result''" "is_state_key ''requires_manual_review''" "is_state_key ''error_code''" "is_state_key
    ''error_message''" "is_state_key ''started_at''" "is_state_key ''completed_at''" "is_state_key
    ''last_completed_node''" "is_state_key ''completed_node_count''"
  by code_simp+

text \<open>A dictionary of declared keys, each at most once, as Python's dictionaries have them.\<close>

definition declared :: "pydict \<Rightarrow> bool" where
  "declared d \<longleftrightarrow> list_all (is_state_key \<circ> fst) d \<and> distinct (map fst d)"

lemma declared_simps [simp]: "declared []"
  "declared ((k, v) # d) \<longleftrightarrow> is_state_key k \<and> k \<notin> fst ` set d \<and> declared d"
  by (auto simp: declared_def)

lemma dset_keys: "fst ` set (dset k v d) = insert k (fst ` set d)"
  by (induction k v d rule: dset.induct) auto

lemma declared_dset [simp]: "declared d \<Longrightarrow> is_state_key k \<Longrightarrow> declared (dset k v d)"
  by (induction k v d rule: dset.induct) (auto simp: dset_keys)

lemma declared_dupdate [simp]: "declared d \<Longrightarrow> declared e \<Longrightarrow> declared (dupdate d e)"
proof (induction e arbitrary: d)
  case (Cons kv e)
  then show ?case by (cases kv) (simp add: dupdate_Cons)
qed simp

lemma declared_with_started [simp]: "declared p \<Longrightarrow> declared (with_started st now p)"
  by (simp add: with_started_def)

text \<open>What a call returns, if it returns, has a property.\<close>

definition returns :: "('a \<Rightarrow> bool) \<Rightarrow> 'e + 'a \<Rightarrow> bool" where
  "returns P r \<longleftrightarrow> (\<forall>x. r = Inr x \<longrightarrow> P x)"

lemma returns_simps [simp]: "returns P (Inl e)" "returns P (Inr x) \<longleftrightarrow> P x"
  by (simp_all add: returns_def)

lemma returns_bind [intro!]: "(\<And>x. returns P (f x)) \<Longrightarrow> returns P (res_bind r f)"
  by (cases r) auto

lemma returnsD: "returns P r \<Longrightarrow> r = Inr x \<Longrightarrow> P x"
  by (simp add: returns_def)

abbreviation declares :: "agent_error + patch \<Rightarrow> bool" where
  "declares \<equiv> returns (\<lambda>p. declared (gs_values p))"

lemma context_patch_declared: "declared p \<Longrightarrow> declares (context_patch st now p c s)"
  by (auto simp: context_patch_def Let_def)

lemma mismatch_patch_declared: "declared p \<Longrightarrow> declares (mismatch_patch st p c)"
  by (auto simp: mismatch_patch_def Let_def)

lemma intake_sandtable_declared: "declared base \<Longrightarrow> declares (fst (intake_sandtable b now st n base w))"
  by (auto simp: intake_sandtable_def Let_def unresolved_patch_def case_prod_beta
      intro: context_patch_declared mismatch_patch_declared split: sum.split sandtable_error.split)

lemma intake_declared: "declares (fst (intake_node a b now st w))"
  by (auto simp: intake_node_def Let_def intro: intake_sandtable_declared split: sum.split)

lemma entity_memory_declared: "declares (entity_memory_node f st)"
  by (auto simp: entity_memory_node_def split: option.split sum.split)

lemma graph_memory_declared: "declares (graph_memory_node f st)"
  by (auto simp: graph_memory_node_def empty_recall_def split: option.split sum.split)

lemma environment_declared: "declares (environment_node f st)"
  by (auto simp: environment_node_def split: option.split)

lemma capacity_declared: "declares (capacity_node txt s f b st w)"
  unfolding capacity_node_def Let_def
  by (auto simp: evaluation_error_patch_def reassigned_patch_def no_replacement_patch_def Let_def split: option.split)

lemma recommendation_declared: "returns declared (recommendation_patch st r cs)"
  by (auto simp: recommendation_patch_def Let_def)

lemma planned_declared: "declared p \<Longrightarrow> declared (planned_patch p r)"
  unfolding planned_patch_def by (cases "rr_routing_status r = ''NO_REACHABLE_ROUTE''") simp_all

lemma returns_bind_with: "returns Q r \<Longrightarrow> (\<And>x. Q x \<Longrightarrow> returns P (f x)) \<Longrightarrow> returns P (res_bind r f)"
  by (cases r) auto

lemma plan_declared: "declares (plan_node txt s b rr st w)"
  unfolding plan_node_def
  by (intro returns_bind returns_bind_with [OF recommendation_declared])
     (auto simp: Let_def planned_declared split: option.split)

lemma route_declared: "declares (route_node txt s st)"
  unfolding route_node_def Let_def
  by (intro returns_bind returns_bind_with [OF recommendation_declared]) auto

lemma routing_declared: "declares (routing_node txt s b rr st w)"
  by (simp add: routing_node_def plan_declared route_declared split: option.split)

lemma dispatch_declared: "declares (fst (dispatch_node u b st w))"
  by (auto simp: dispatch_node_def dispatched_patch_def reservation_conflict_patch_def
      split: sum.split prod.split dispatch_error.split option.split)

lemma audit_declared: "declares (fst (audit_node b st w))"
  by (auto simp: audit_node_def split: sum.split prod.split audit_error.split)

lemmas nodes_declared = intake_declared entity_memory_declared graph_memory_declared environment_declared
  capacity_declared routing_declared dispatch_declared audit_declared

lemma run_node_declared: "declares (fst (run_node deps a st w))"
  by (cases a) (simp_all add: run_node_def nodes_declared)

lemma instrumented_declared: "declares (fst (instrumented deps a st w))"
  using run_node_declared [of deps a st w]
  by (auto simp: instrumented_def split: sum.split prod.split)


section \<open>A run\<close>

lemma apply_patch_declared: "declared (gs_values st) \<Longrightarrow> declared (gs_values p) \<Longrightarrow> declared (gs_values (apply_patch st p))"
  by (simp add: apply_patch_def)

lemma declared_distinct: "declared d \<Longrightarrow> distinct (map fst d)"
  by (simp add: declared_def)

lemma map_of_apply_patch:
  "declared (gs_values p) \<Longrightarrow> map_of (gs_values (apply_patch st p)) = map_of (gs_values st) ++ map_of (gs_values p)"
  by (simp add: apply_patch_def map_of_dupdate declared_distinct)

lemma instrumented_progress:
  assumes "instrumented deps a st w = (Inr p, w')"
  shows "\<exists>q n. run_node deps a st w = (Inr q, w') \<and>
    dget_default (gs_values st) ''completed_node_count'' (PInt 0) = PInt n \<and>
    map_of (gs_values p) = (map_of (gs_values q))(''last_completed_node'' \<mapsto> PStr (node_name a),
      ''completed_node_count'' \<mapsto> PInt (n + 1)) \<and>
    gs_road_network_snapshot p = gs_road_network_snapshot q"
  using assms
  by (auto simp: instrumented_def res_bind_eq_Inr as_int_def dupdate_Cons split: sum.splits prod.splits pyval.splits)

lemma run_nodes_append:
  "run_nodes deps (as @ bs) st w =
     (case run_nodes deps as st w of (Inl e, w') \<Rightarrow> (Inl e, w') | (Inr st', w') \<Rightarrow> run_nodes deps bs st' w')"
  by (induction as arbitrary: st w) (auto split: sum.splits prod.splits)

lemma run_nodes_progress:
  assumes "run_nodes deps as st w = (Inr st', w')" "declared (gs_values st)"
    "dget_default (gs_values st) ''completed_node_count'' (PInt 0) = PInt n"
  shows "declared (gs_values st') \<and> dget_default (gs_values st') ''completed_node_count'' (PInt 0) = PInt (n + int (length as)) \<and>
    (as \<noteq> [] \<longrightarrow> sget st' ''last_completed_node'' = PStr (node_name (last as)))"
  using assms
proof (induction as arbitrary: st w n)
  case (Cons a as)
  obtain p w1 where p: "instrumented deps a st w = (Inr p, w1)" "run_nodes deps as (apply_patch st p) w1 = (Inr st', w')"
    using Cons.prems(1) by (auto split: sum.splits prod.splits)
  have d: "declared (gs_values p)" using instrumented_declared [of deps a st w] p(1) by simp
  obtain q :: graph_state and n' where "dget_default (gs_values st) ''completed_node_count'' (PInt 0) = PInt n'"
    and "map_of (gs_values p) = (map_of (gs_values q))(''last_completed_node'' \<mapsto> PStr (node_name a),
      ''completed_node_count'' \<mapsto> PInt (n' + 1))"
    using instrumented_progress [OF p(1)] by blast
  then have q: "map_of (gs_values p) = (map_of (gs_values q))(''last_completed_node'' \<mapsto> PStr (node_name a),
      ''completed_node_count'' \<mapsto> PInt (n + 1))" using Cons.prems(3) by simp
  have s: "dget_default (gs_values (apply_patch st p)) ''completed_node_count'' (PInt 0) = PInt (n + 1)"
    "sget (apply_patch st p) ''last_completed_node'' = PStr (node_name a)"
    by (simp_all add: dget_default_def dget_def map_of_apply_patch [OF d] q)
  note IH = Cons.IH [OF p(2) apply_patch_declared [OF Cons.prems(2) d] s(1)]
  show ?case
  proof (cases "as = []")
    case True
    then show ?thesis using p(2) s apply_patch_declared [OF Cons.prems(2) d] by simp
  next
    case False
    then show ?thesis using IH by simp
  qed
qed simp


section \<open>The audited run\<close>

lemma sget_apply_patch:
  "declared (gs_values p) \<Longrightarrow> sget (apply_patch st p) k = (case map_of (gs_values p) k of None \<Rightarrow> sget st k | Some v \<Rightarrow> v)"
  by (simp add: dget_def map_of_apply_patch map_add_def split: option.split)

lemma default_views:
  "mapping_of (dget_default d k (PDict [])) = mapping_of (dget d k)"
  "string_list (dget_default d k (PList [])) = string_list (dget d k)"
  "dget_default d k (PBool False) = PBool True \<longleftrightarrow> dget d k = PBool True"
  "road_edges_by_id (dget_default d k (PList [])) = road_edges_by_id (dget d k)"
  "has_memory (dget_default d k (PList [])) m = has_memory (dget d k) m"
  by (auto simp: dget_default_def dget_def string_list_def road_edges_by_id_def has_memory_def mappings_of_def
      split: option.split)

lemma default_list: "dget_default d k (PList []) = PList vs \<Longrightarrow> vs \<noteq> [] \<Longrightarrow> dget d k = PList vs"
  by (auto simp: dget_default_def dget_def split: option.splits)

lemma item_Inr: "item st k = Inr v \<Longrightarrow> sget st k = v"
  by (auto simp: item_def dget_def split: option.splits)

lemma audit_evidence_fields:
  assumes "audit_evidence_of st = Inr ev"
  shows "dget ev ''decision'' = sget st ''decision''" "dget ev ''route_id'' = sget st ''route_id''"
    "dget ev ''recommended_route'' = sget st ''recommended_route''"
    "dget ev ''identified_issue'' = sget st ''identified_issue''" "dget ev ''anomaly_type'' = sget st ''anomaly_type''"
    "dget ev ''vehicle_id'' = sget st ''vehicle_id''" "dget ev ''error_code'' = sget st ''error_code''"
    "dget ev ''selected_vehicle_id'' = sget st ''selected_vehicle_id''" "dget ev ''selected_driver_id'' = sget st ''selected_driver_id''"
    "dget ev ''cargo_weight_kg'' = sget st ''cargo_weight_kg''" "dget ev ''cargo_type'' = sget st ''cargo_type''"
    "dget ev ''recommended_path'' = sget st ''recommended_path''"
    "dget ev ''adopted_memory_id'' = sget st ''adopted_memory_id''"
    "dget ev ''fallback_reason'' = sget st ''fallback_reason''"
    "dget ev ''dispatch_result'' = dget_default (gs_values st) ''dispatch_result'' (PDict [])"
    "dget ev ''candidate_vehicles'' = dget_default (gs_values st) ''candidate_vehicles'' (PList [])"
    "dget ev ''blocked_edge_ids'' = dget_default (gs_values st) ''blocked_edge_ids'' (PList [])"
    "dget ev ''road_network_edges'' = dget_default (gs_values st) ''road_network_edges'' (PList [])"
    "dget ev ''memory_results'' = dget_default (gs_values st) ''memory_results'' (PList [])"
    "dget ev ''memory_adopted'' = dget_default (gs_values st) ''memory_adopted'' (PBool False)"
    "dget ev ''fallback_used'' = dget_default (gs_values st) ''fallback_used'' (PBool False)"
    "dget ev ''requires_manual_review'' = dget_default (gs_values st) ''requires_manual_review'' (PBool False)"
  using assms unfolding audit_evidence_of_def Let_def by (auto simp: res_bind_eq_Inr dest: item_Inr)

lemma sound_evidence_state:
  assumes "audit_evidence_of st = Inr ev" "sound_evidence ev"
  shows "sound_evidence (gs_values st)"
proof -
  note F = audit_evidence_fields [OF assms(1)]
  have issue: "issue_of ev = issue_of (gs_values st)" by (simp add: issue_of_def F)
  have road: "road_sound ev = road_sound (gs_values st)" by (simp add: road_sound_def F default_views)
  have breakdown: "breakdown_sound (gs_values st)" if "breakdown_sound ev"
  proof -
    from that have "\<exists>vs vid c. dget ev ''candidate_vehicles'' = PList vs \<and> first_match (\<lambda>d. text_of (dget d ''vehicle_id'') = Some vid) (mappings_of vs) = Some c"
      unfolding breakdown_sound_def by (elim exE conjE) (intro exI conjI)
    then obtain vs vid c where v: "dget_default (gs_values st) ''candidate_vehicles'' (PList []) = PList vs"
      "first_match (\<lambda>d. text_of (dget d ''vehicle_id'') = Some vid) (mappings_of vs) = Some c" unfolding F by blast
    then have "vs \<noteq> []" by (auto simp: mappings_of_def)
    then have "dget_default (gs_values st) ''candidate_vehicles'' (PList []) = sget st ''candidate_vehicles''"
      using default_list [OF v(1)] v(1) by simp
    then show ?thesis using that unfolding breakdown_sound_def F default_views by (simp only: default_views)
  qed
  show ?thesis
    using assms(2) breakdown unfolding sound_evidence_def Let_def issue road F default_views by blast
qed

lemma audit_passed_status: "audit db ev = Inr (res, db') \<Longrightarrow> ar_passed res \<longleftrightarrow> ar_audit_status res = ''APPROVED''"
  by (auto simp: audit_def Let_def res_bind_eq_Inr)

lemma audit_node_passed:
  assumes "audit_node True st w = (Inr p, w')" "dget (mapping_of (dget (gs_values p) ''audit_result'')) ''passed'' = PBool True"
  shows "sound_evidence (gs_values st) \<and> map_of (gs_values p) ''requires_manual_review'' = Some (PBool False) \<and>
    fst ` set (gs_values p) = {''audit_result'', ''requires_manual_review''}"
proof -
  obtain ev where ev: "audit_evidence_of st = Inr ev"
    using assms(1) by (auto simp: audit_node_def split: sum.splits)
  obtain res a where res: "audit (audit_view w) ev = Inr (res, a)" "ar_passed res"
    "gs_values p = [(''audit_result'', PDict (audit_result_to_state res)), (''requires_manual_review'', PBool (ar_requires_manual_review res))]"
    using assms ev by (auto simp: audit_node_def audit_result_to_state_def split: sum.splits audit_error.splits)
  have "\<not> ar_requires_manual_review res"
    using audit_verdict [OF res(1)] audit_passed_status [OF res(1)] res(2) by auto
  then show ?thesis using sound_evidence_state [OF ev] audit_passed_sound [OF res(1)] res(2,3) by simp
qed

lemma sound_evidence_cong:
  assumes "\<And>k. k \<noteq> ''requires_manual_review'' \<Longrightarrow> k \<noteq> ''audit_result'' \<Longrightarrow> k \<noteq> ''last_completed_node'' \<Longrightarrow>
      k \<noteq> ''completed_node_count'' \<Longrightarrow> dget d' k = dget d k"
    and "sound_evidence d" "dget d' ''requires_manual_review'' \<noteq> PBool True"
  shows "sound_evidence d'"
proof -
  have eqs: "dget d' ''dispatch_result'' = dget d ''dispatch_result''" "dget d' ''decision'' = dget d ''decision''"
    "dget d' ''recommended_route'' = dget d ''recommended_route''" "dget d' ''route_id'' = dget d ''route_id''"
    "dget d' ''identified_issue'' = dget d ''identified_issue''" "dget d' ''anomaly_type'' = dget d ''anomaly_type''"
    "dget d' ''candidate_vehicles'' = dget d ''candidate_vehicles''" "dget d' ''cargo_weight_kg'' = dget d ''cargo_weight_kg''"
    "dget d' ''cargo_type'' = dget d ''cargo_type''" "dget d' ''recommended_path'' = dget d ''recommended_path''"
    "dget d' ''road_network_edges'' = dget d ''road_network_edges''" "dget d' ''blocked_edge_ids'' = dget d ''blocked_edge_ids''"
    "dget d' ''memory_adopted'' = dget d ''memory_adopted''" "dget d' ''adopted_memory_id'' = dget d ''adopted_memory_id''"
    "dget d' ''memory_results'' = dget d ''memory_results''" "dget d' ''fallback_used'' = dget d ''fallback_used''"
    "dget d' ''fallback_reason'' = dget d ''fallback_reason''" "dget d' ''vehicle_id'' = dget d ''vehicle_id''" "dget d' ''error_code'' = dget d ''error_code''"
    "dget d' ''selected_vehicle_id'' = dget d ''selected_vehicle_id''" "dget d' ''selected_driver_id'' = dget d ''selected_driver_id''"
    by (rule assms(1); simp)+
  have sub: "issue_of d' = issue_of d" "road_sound d' = road_sound d" "breakdown_sound d' = breakdown_sound d"
    by (simp_all only: issue_of_def road_sound_def breakdown_sound_def eqs)
  show ?thesis using assms(2,3) unfolding sound_evidence_def Let_def eqs sub by blast
qed

lemma approved_run:
  assumes "declared (gs_values st)" "gd_audit_service deps" "run_graph deps st w = (Inr st', w')"
    "dget (mapping_of (sget st' ''audit_result'')) ''passed'' = PBool True"
  shows "sound_evidence (gs_values st') \<and> sget st' ''requires_manual_review'' = PBool False"
proof -
  let ?as = "[Intake, Entity_Memory, Graph_Memory, Environment, Capacity, Routing, Dispatch]"
  have "run_nodes deps (?as @ [Audit]) st w = (Inr st', w')" using assms(3) by (simp add: run_graph_def node_order_def)
  then obtain st7 w7 p where st7: "run_nodes deps ?as st w = (Inr st7, w7)" "instrumented deps Audit st7 w7 = (Inr p, w')"
    "st' = apply_patch st7 p"
    unfolding run_nodes_append by (auto split: sum.splits prod.splits)
  obtain q :: graph_state and n where q: "audit_node True st7 w7 = (Inr q, w')"
    "map_of (gs_values p) = (map_of (gs_values q))(''last_completed_node'' \<mapsto> PStr ''audit'', ''completed_node_count'' \<mapsto> PInt (n + 1))"
    using instrumented_progress [OF st7(2)] assms(2) by (auto simp: run_node_def node_name_def)
  have d: "declared (gs_values p)" using instrumented_declared [of deps Audit st7 w7] st7(2) by simp
  have g: "sget st' k = (if k = ''last_completed_node'' then PStr ''audit'' else if k = ''completed_node_count'' then PInt (n + 1)
      else case map_of (gs_values q) k of None \<Rightarrow> sget st7 k | Some v \<Rightarrow> v)" for k
    unfolding st7(3) sget_apply_patch [OF d] q(2) by auto
  have "map_of (gs_values q) ''audit_result'' \<noteq> None"
    using q(1) by (auto simp: audit_node_def split: sum.splits audit_error.splits)
  then have "sget st' ''audit_result'' = dget (gs_values q) ''audit_result''" by (auto simp: g dget_def [of "gs_values q"])
  then have "dget (mapping_of (dget (gs_values q) ''audit_result'')) ''passed'' = PBool True" using assms(4) by simp
  from audit_node_passed [OF q(1) this] have s: "sound_evidence (gs_values st7)"
    "map_of (gs_values q) ''requires_manual_review'' = Some (PBool False)"
    "fst ` set (gs_values q) = {''audit_result'', ''requires_manual_review''}" by auto
  have none: "map_of (gs_values q) k = None" if "k \<noteq> ''requires_manual_review''" "k \<noteq> ''audit_result''" for k
    using that s(3) by (simp add: map_of_eq_None_iff)
  have r: "sget st' ''requires_manual_review'' = PBool False" unfolding g by (simp add: s(2))
  have "sget st' k = sget st7 k" if "k \<noteq> ''requires_manual_review''" "k \<noteq> ''audit_result''" "k \<noteq> ''last_completed_node''"
      "k \<noteq> ''completed_node_count''" for k
    unfolding g using that none [OF that(1,2)] by simp
  then have "sound_evidence (gs_values st')"
    by (rule sound_evidence_cong [OF _ s(1)]) (simp_all add: r)
  with r show ?thesis by simp
qed

end
