(* ===== verification/Plan_Audit.thy ===== *)
theory Plan_Audit
  imports Pipeline
begin

text \<open>
  The routing agent and the audit agent read the same road network, one as the captured snapshot and one as the
  \<open>road_network_edges\<close> list that the planned patch carries. This theory relates the two readings and shows that
  what the planner proposes without asking for review is what the road checks of the audit accept.
\<close>


section \<open>From the plan to the audit\<close>

definition edge_dict :: "road_edge \<Rightarrow> pydict" where
  "edge_dict edge =
     [(''edge_id'', PStr (re_edge_id edge)), (''name'', PStr (re_name edge)),
      (''from_node_id'', PStr (re_from_node_id edge)), (''to_node_id'', PStr (re_to_node_id edge)),
      (''distance_km'', PStr (format_f 2 (re_distance_km edge))),
      (''base_minutes'', PInt (re_base_minutes edge)), (''road_level'', PStr (re_road_level edge)),
      (''risk_level'', PStr (re_risk_level edge)), (''status'', PStr (re_status edge)),
      (''congestion_factor'', PStr (format_f 2 (re_congestion_factor edge))),
      (''weight_limit_tons'', PStr (format_f 2 (re_weight_limit_tons edge))),
      (''bidirectional'', PBool (re_bidirectional edge)), (''version'', PInt (re_version edge))]"

lemma edges_to_state_eq: "edges_to_state net = map edge_dict (net_edges net)"
  by (simp add: edges_to_state_def edge_dict_def)

lemma edge_dict_fields [simp]:
  "dget (edge_dict e) ''edge_id'' = PStr (re_edge_id e)" "dget (edge_dict e) ''from_node_id'' = PStr (re_from_node_id e)"
  "dget (edge_dict e) ''to_node_id'' = PStr (re_to_node_id e)" "dget (edge_dict e) ''status'' = PStr (re_status e)"
  "dget (edge_dict e) ''bidirectional'' = PBool (re_bidirectional e)"
  by (simp_all add: edge_dict_def)

text \<open>Roads as the tables hold them: named, with named ends and one of the four statuses.\<close>

definition auditable :: "road_network \<Rightarrow> bool" where
  "auditable net \<longleftrightarrow> list_all (\<lambda>e. re_edge_id e \<noteq> [] \<and> re_from_node_id e \<noteq> [] \<and> re_to_node_id e \<noteq> [] \<and>
     re_status e \<in> {''OPEN'', ''CONGESTED'', ''RESTRICTED'', ''BLOCKED''}) (net_edges net)"

abbreviation network_val :: "road_network \<Rightarrow> pyval" where
  "network_val net \<equiv> PList (map PDict (edges_to_state net))"

lemma road_edge_lookup:
  assumes "auditable net" "distinct (map re_edge_id (net_edges net))" "e \<in> set (net_edges net)"
  shows "road_edges_by_id (network_val net) (re_edge_id e) = Some (edge_dict e)"
proof -
  let ?kv = "map (\<lambda>e. (re_edge_id e, edge_dict e)) (net_edges net)"
  have "concat (map (\<lambda>d. case text_of (dget d ''edge_id'') of None \<Rightarrow> [] | Some i \<Rightarrow> [(i, d)]) (map edge_dict es)) =
      map (\<lambda>e. (re_edge_id e, edge_dict e)) es" if "\<forall>e\<in>set es. re_edge_id e \<noteq> []" for es
    using that by (induction es) auto
  then have "road_edges_by_id (network_val net) = map_of (rev ?kv)"
    using assms(1) by (simp add: road_edges_by_id_def edges_to_state_eq mappings_of_PDict auditable_def list_all_iff del: map_map)
  moreover have "distinct (map fst (rev ?kv))" using assms(2) by (simp add: comp_def flip: rev_map)
  ultimately show ?thesis using assms(3) by (auto intro!: map_of_is_SomeI)
qed

lemma joins_connects:
  assumes "auditable net" "distinct (map re_edge_id (net_edges net))" "joins (net_edges net) ns is"
  shows "connects (road_edges_by_id (network_val net)) ns is \<and> length ns = length is + 1"
  using assms(3)
proof (induction "net_edges net" ns "is" rule: joins.induct)
  case (2 n m ns i "is")
  then obtain e where e: "e \<in> set (net_edges net)" "re_edge_id e = i"
    "re_from_node_id e = n \<and> re_to_node_id e = m \<or> re_bidirectional e \<and> re_to_node_id e = n \<and> re_from_node_id e = m" by auto
  then have "re_from_node_id e \<noteq> []" "re_to_node_id e \<noteq> []"
    using assms(1) by (auto simp: auditable_def list_all_iff)
  then show ?case using 2 e road_edge_lookup [OF assms(1,2) e(1)] by (auto simp: Let_def)
qed auto

lemma walk_ids_Nil [simp]: "walk_ids es = [] \<longleftrightarrow> es = []"
  by (simp add: walk_ids_def)

lemma found_route_audited:
  assumes "auditable net" "wf_network net" "best_route net vw excl s t obj p" "s \<noteq> t"
  shows "path_connects (pr_node_ids p) (pr_edge_ids p) (network_val net) \<and>
    path_edges_are_open (pr_edge_ids p) (network_val net) = Inr True \<and> set (pr_edge_ids p) \<inter> excl = {}"
proof -
  have d: "distinct (map re_edge_id (net_edges net))" using assms(2) by (simp add: wf_network_def)
  obtain es where es: "route_of net vw excl s t es p" using assms(3) by (auto simp: best_route_def)
  have "es \<noteq> []" using es assms(4) by (auto simp: route_of_def)
  then have ne: "pr_edge_ids p \<noteq> []" using es by (simp add: route_of_def)
  have j: "joins (net_edges net) (pr_node_ids p) (pr_edge_ids p)"
    using es drivable_joins [of net vw excl s es t] by (simp add: route_of_def)
  have "\<exists>e. road_edges_by_id (network_val net) i = Some e \<and> dget e ''status'' \<in> {PStr ''OPEN'', PStr ''CONGESTED'', PStr ''RESTRICTED''} \<and>
      i \<notin> excl" if i: "i \<in> set (pr_edge_ids p)" for i
  proof -
    obtain e where "e \<in> set (net_edges net)" "re_edge_id e = i" "is_available e vw excl"
      using route_of_edge [OF es i] by blast
    then show ?thesis using road_edge_lookup [OF assms(1) d] assms(1)
      by (auto simp: is_available_def auditable_def list_all_iff)
  qed
  then show ?thesis using joins_connects [OF assms(1) d j] ne
    by (auto simp: path_connects_def path_edges_are_open_def all_open_True)
qed


lemma plan_snapshot: "c \<notin> {''UNAVAILABLE'', ''UNKNOWN''} \<Longrightarrow>
    plan (Some f) pr cx c aff ms (Some net) = plan_on f net cx aff"
  by (cases pr) (auto simp: plan_def)

lemma planned_patch_fields:
  "dget (planned_patch rec r) ''recommended_path'' =
     opt_dict (\<lambda>p. path_to_state p @ [(''scoring_formula'', PStr ''ROUTE_SCORE_V1'')]) (rr_recommended_path r)"
  "dget (planned_patch rec r) ''blocked_edge_ids'' = str_list (rr_blocked_edge_ids r)"
  "dget (planned_patch rec r) ''road_network_edges'' = PList (map PDict (rr_road_network_edges r))"
  "dget (planned_patch rec r) ''requires_manual_review'' = dget rec ''requires_manual_review''"
  by (simp_all add: planned_patch_def dupdate_def)

lemma lift_error_Inr: "lift_error f r = Inr x \<longleftrightarrow> r = Inr x"
  by (cases r) (simp_all add: lift_error_def)

lemma plan_node_Inr:
  assumes "plan_node txt svc True real_roads st w = Inr p" "gs_road_network_snapshot st = Some s" "restore s = Inr net"
  obtains cx c aff r rec where "planning_context st = Inr cx" "capacity_status_item st = Inr c"
    "texts_default st ''affected_edge_ids'' = Inr aff"
    "plan (rt_path_finder svc) (map_option (\<lambda>p _. p w) (rt_road_network_provider svc)) (Planning cx) c aff [] (Some net) = Inr r"
    "recommendation_patch st r (map (route_candidate_to_state txt) (rr_candidate_routes r)) = Inr rec"
    "\<forall>k. k \<noteq> ''real_road_route'' \<longrightarrow> dget (gs_values p) k = dget (planned_patch rec r) k"
proof -
  have snap: "restored_snapshot True st = Inr (Some net)"
    by (simp add: restored_snapshot_def assms(2,3) lift_error_def)
  obtain cx c aff r rec where g: "planning_context st = Inr cx" "capacity_status_item st = Inr c"
    "texts_default st ''affected_edge_ids'' = Inr aff"
    "plan (rt_path_finder svc) (map_option (\<lambda>p _. p w) (rt_road_network_provider svc)) (Planning cx) c aff [] (Some net) = Inr r"
    "recommendation_patch st r (map (route_candidate_to_state txt) (rr_candidate_routes r)) = Inr rec"
    and last: "(case (rr_recommended_path r, real_roads) of
               (Some path, Some ask) \<Rightarrow>
                 res_bind (lift_error RealRouteFailed (ask (pr_node_ids path))) (\<lambda>road.
                   Inr (patch_of (dset ''real_road_route'' (PDict (real_road_route_to_state road)) (planned_patch rec r))))
             | _ \<Rightarrow> Inr (patch_of (planned_patch rec r))) = Inr p"
    using assms(1) unfolding plan_node_def snap
    by (auto simp only: res_bind_eq_Inr Let_def sum.inject lift_error_Inr)
  have "\<forall>k. k \<noteq> ''real_road_route'' \<longrightarrow> dget (gs_values p) k = dget (planned_patch rec r) k"
    using last by (cases "rr_recommended_path r"; cases real_roads) (auto simp: res_bind_eq_Inr)
  with that g show ?thesis by blast
qed

lemma recommendation_patch_review:
  "recommendation_patch st r cs = Inr rec \<Longrightarrow> dget rec ''requires_manual_review'' = PBool False \<Longrightarrow> \<not> rr_requires_manual_review r"
  by (auto simp: recommendation_patch_def res_bind_eq_Inr Let_def)

section \<open>A sample plan\<close>

definition empty_county :: county_db where
  "empty_county =
     \<lparr>w_orders = [], w_stations = [], w_nodes = [], w_edges = [], w_vehicles = [], w_drivers = [], w_tasks = [],
      w_dispatches = [], w_evidence = [], w_audit_records = [], w_next_dispatch_id = 1, w_next_evidence_id = 1,
      w_next_audit_id = 1\<rparr>"

definition sample_planner :: routing_service where
  "sample_planner =
     \<lparr>rt_route_provider = None, rt_memory_adoption_threshold = 4 / 5, rt_road_network_provider = None,
      rt_path_finder = Some find_path\<rparr>"

definition sample_state :: graph_state where
  "sample_state =
     \<lparr>gs_values =
        [(''task_id'', PStr ''T1''), (''order_id'', PInt 7), (''driver_id'', PStr ''D1''), (''route_id'', PStr ''R1''),
         (''anomaly_type'', PStr ''VEHICLE_BREAKDOWN''), (''anomaly_description'', PStr ''engine''),
         (''vehicle_id'', PStr ''V1''), (''original_vehicle_weight_tons'', PStr ''2.00''),
         (''origin_node_id'', PStr ''A''), (''destination_node_id'', PStr ''C''), (''incident_node_id'', PStr ''B''),
         (''affected_edge_ids'', PList [PStr ''E2'']),
         (''capacity_state'', PDict [(''capacity_status'', PStr ''REASSIGNED'')])],
      gs_road_network_snapshot = Some (to_state sample_net)\<rparr>"

abbreviation sample_planning :: route_planning_context where
  "sample_planning \<equiv>
     \<lparr>pc_order_id = 7, pc_order_no = ''7'', pc_cargo_weight_kg = 0, pc_cargo_type = ''GENERAL'',
       pc_origin_node_id = ''A'', pc_destination_node_id = ''C'', pc_current_vehicle_id = ''V1'',
       pc_current_driver_id = Some ''D1'', pc_incident_node_id = Some ''B'', pc_affected_edge_ids = [''E2''],
       pc_road_network_version = 0, pc_original_vehicle_weight_tons = 2, pc_active_vehicle_weight_tons = 2\<rparr>"

lemma sample_planning_context: "planning_context sample_state = Inr sample_planning"
  by code_simp

lemma sample_net_restored: "restore (to_state sample_net) = Inr sample_net"
  by (rule restore_to_state_eq) code_simp


lemma recommend_category: "ir_issue_category (recommend a d v e c cs r) =
    normalize_category a (if py_strip d = [] then default_description else py_strip d)"
  by (simp add: recommend_def Let_def)

lemma reassigned_breakdown_review:
  assumes "text_item st ''anomaly_type'' = Inr ''VEHICLE_BREAKDOWN''" "text_item st ''anomaly_description'' = Inr d"
    "opt_text st ''vehicle_status'' = Inr v" "opt_text st ''environment_risk'' = Inr e"
    "known_capacity_status st = Inr (Some ''REASSIGNED'')"
    "\<not> rr_requires_manual_review r" "rr_recommended_route r \<noteq> None"
  shows "\<exists>rec. recommendation_patch st r cs = Inr rec \<and> dget rec ''requires_manual_review'' = PBool False"
proof -
  have "py_upper (py_strip ''VEHICLE_BREAKDOWN'') = ''VEHICLE_BREAKDOWN''" by code_simp
  then have n: "normalize_category ''VEHICLE_BREAKDOWN'' x = ''VEHICLE_BREAKDOWN''" for x
    by (simp add: normalize_category_def category_aliases_def known_categories_def)
  show ?thesis unfolding recommendation_patch_def assms(1-5)
    by (simp add: recommend_category n Let_def assms(6,7))
qed

lemma sample_planning_route: "route_exists sample_net (Planning sample_planning) [''E2'']"
proof -
  have "context_start (Planning sample_planning) = context_start sample_context"
   "context_destination (Planning sample_planning) = context_destination sample_context"
   "snd (context_weights (Planning sample_planning)) = snd (context_weights sample_context)" by code_simp+
  then show ?thesis using sample_route_exists by (simp add: route_exists_def)
qed

lemma sample_plan: "\<exists>p. plan_node (\<lambda>_. []) sample_planner True None sample_state empty_county = Inr p \<and>
    dget (gs_values p) ''requires_manual_review'' = PBool False"
proof -
  obtain r where r: "plan_on find_path sample_net (Planning sample_planning) [''E2''] = Inr r"
    "recommends sample_net (Planning sample_planning) [''E2''] r"
    using dijkstra.plan_on_total [OF sample_net_measured, of "Planning sample_planning" "[''E2'']"] sample_planning_route
    by metis
  have r2: "\<not> rr_requires_manual_review r" "rr_recommended_route r \<noteq> None" using r(2) by (auto simp: recommends_def)
  have s: "text_item sample_state ''anomaly_type'' = Inr ''VEHICLE_BREAKDOWN''" "text_item sample_state ''anomaly_description'' = Inr ''engine''"
    "opt_text sample_state ''vehicle_status'' = Inr None" "opt_text sample_state ''environment_risk'' = Inr None"
    "known_capacity_status sample_state = Inr (Some ''REASSIGNED'')" 
   "capacity_status_item sample_state = Inr ''REASSIGNED''"  "texts_default sample_state ''affected_edge_ids'' = Inr [''E2'']"
    by code_simp+
  obtain rec where rec: "recommendation_patch sample_state r (map (route_candidate_to_state (\<lambda>_. [])) (rr_candidate_routes r)) = Inr rec"
     "dget rec ''requires_manual_review'' = PBool False"
    using reassigned_breakdown_review [OF s(1-5) r2] by blast
  have sn: "restored_snapshot True sample_state = Inr (Some sample_net)"
    by (simp add: restored_snapshot_def sample_state_def sample_net_restored lift_error_def)
  have p: "plan (rt_path_finder sample_planner) pr cx ''REASSIGNED'' aff ms (Some net) = plan_on find_path net cx aff" for pr cx aff ms net
    by (simp add: sample_planner_def plan_snapshot)
  show ?thesis unfolding plan_node_def sn sample_planning_context
    by (simp add: s p r(1) rec lift_error_def Let_def planned_patch_fields split: option.splits)
qed

section \<open>The property\<close>

text \<open>
  C13. A plan that needs no review passes the road checks of the audit: whenever the routing agent plans a way from the
  incident (or the origin) to another place on a captured network of measured, named roads and asks for no
  review, then the audit of any evidence that carries over the path, the affected roads and the network finds
  the path connected, open and free of the affected roads.
\<close>

theorem planned_route_passes_audit:
  assumes "plan_node txt svc True real_roads st w = Inr p" and "rt_path_finder svc = Some find_path"
    and "gs_road_network_snapshot st = Some s" and "restore s = Inr net" and "measured_network net" and "auditable net"
    and "planning_context st = Inr cx" and "context_start (Planning cx) \<noteq> pc_destination_node_id cx"
    and "dget (gs_values p) ''requires_manual_review'' = PBool False"
    and "\<forall>k\<in>{''recommended_path'', ''blocked_edge_ids'', ''road_network_edges''}. dget ev k = dget (gs_values p) k"
  shows "\<exists>c'. road_stage ev c = Inr (c', None)"
proof -
  obtain cs aff r rec where g: "capacity_status_item st = Inr cs" "texts_default st ''affected_edge_ids'' = Inr aff"
    "plan (rt_path_finder svc) (map_option (\<lambda>p _. p w) (rt_road_network_provider svc)) (Planning cx) cs aff [] (Some net) = Inr r"
    "recommendation_patch st r (map (route_candidate_to_state txt) (rr_candidate_routes r)) = Inr rec"
    and f: "\<forall>k. k \<noteq> ''real_road_route'' \<longrightarrow> dget (gs_values p) k = dget (planned_patch rec r) k"
    by (rule plan_node_Inr [OF assms(1,3,4)]) (use assms(7) in auto)
  have review: "\<not> rr_requires_manual_review r"
    using recommendation_patch_review [OF g(4)] assms(9) f by (simp add: planned_patch_fields)
  then have cs: "cs \<notin> {''UNAVAILABLE'', ''UNKNOWN''}"
    using g(3) assms(2) by (auto simp: plan_def manual_result_def split: if_splits option.splits)
  obtain r' where r': "plan_on find_path net (Planning cx) aff = Inr r'" "rr_blocked_edge_ids r' = sort (remdups aff)"
    "rr_road_network_edges r' = edges_to_state net"
    "if route_exists net (Planning cx) aff then recommends net (Planning cx) aff r'
     else rr_routing_status r' = ''NO_REACHABLE_ROUTE'' \<and> rr_recommended_path r' = None \<and>
       rr_recommended_route r' = None \<and> rr_requires_manual_review r'"
    by (rule dijkstra.plan_on_total [OF assms(5)])
  have "r' = r" using r'(1) g(3) by (simp add: assms(2) plan_snapshot [OF cs])
  then obtain q obj where q: "rr_recommended_path r = Some q"
    "best_route net (snd (context_weights (Planning cx))) (set aff) (context_start (Planning cx)) (pc_destination_node_id cx) obj q"
    using r'(4) review by (auto simp: recommends_def context_destination_def split: if_splits)
  have wf: "wf_network net" using assms(5) by (simp add: measured_network_def)
  note ok = found_route_audited [OF assms(6) wf q(2) assms(8)]
  have ev: "dget ev ''recommended_path'' = PDict (path_to_state q @ [(''scoring_formula'', PStr ''ROUTE_SCORE_V1'')])"
    "dget ev ''blocked_edge_ids'' = str_list (sort (remdups aff))" "dget ev ''road_network_edges'' = network_val net"
    using assms(10) f q(1) r'(2,3) \<open>r' = r\<close> by (simp_all add: planned_patch_fields opt_dict_def)
  have "string_list (dget (mapping_of (dget ev ''recommended_path'')) ''edge_ids'') = pr_edge_ids q"
    "string_list (dget (mapping_of (dget ev ''recommended_path'')) ''node_ids'') = pr_node_ids q"
    unfolding ev by (simp_all add: path_to_state_def)
  then show ?thesis using ok by (simp add: road_stage_def Let_def ev(2,3))
qed

theorem planned_route_passes_audit_witness:
  "\<exists>p c'. plan_node (\<lambda>_. []) sample_planner True None sample_state empty_county = Inr p \<and>
     road_stage (gs_values p) (initial_checks True) = Inr (c', None)"
proof -
  obtain p where p: "plan_node (\<lambda>_. []) sample_planner True None sample_state empty_county = Inr p"
    "dget (gs_values p) ''requires_manual_review'' = PBool False" using sample_plan by blast
  have "auditable sample_net" "rt_path_finder sample_planner = Some find_path"
     "gs_road_network_snapshot sample_state = Some (to_state sample_net)" 
     by (code_simp, simp_all add: sample_planner_def sample_state_def)
  note a = planned_route_passes_audit [OF p(1) this(2,3) sample_net_restored sample_net_measured this(1) sample_planning_context _ p(2)]
  have "context_start (Planning sample_planning) \<noteq> pc_destination_node_id sample_planning" by code_simp
  then show ?thesis using a [of "gs_values p"] p(1) by blast
qed

end
