(* ===== verification/Flagged_Run.thy ===== *)
theory Flagged_Run
  imports Pipeline
begin

text \<open>
  Reports that the intake agent flags for a person. A run is followed through all eight agents: the report names a vehicle that
  is not the one of the order, intake flags it, and the routing agent, which does not read the flag, writes its own. The theory
  ends with the two properties of whole runs that this one run bears witness to.
\<close>

section \<open>A flagged report\<close>

definition flagged_county :: county_db where
  "flagged_county =
     \<lparr>w_orders = [sample_order], w_stations = [], w_nodes = net_nodes sample_net, w_edges = [],
      w_vehicles = [sample_row 1 ''V1''], w_drivers = [], w_tasks = db_tasks sample_db, w_dispatches = [],
      w_evidence = [], w_audit_records = [], w_next_dispatch_id = 1, w_next_evidence_id = 1, w_next_audit_id = 1\<rparr>"

definition catalog_service :: routing_service where
  "catalog_service =
     \<lparr>rt_route_provider = Some default_catalog, rt_memory_adoption_threshold = 4 / 5, rt_road_network_provider = None,
      rt_path_finder = None\<rparr>"

definition catalog_deps :: graph_dependencies where
  "catalog_deps =
     \<lparr>gd_sandtable_context_service = True, gd_road_network_snapshot_service = False, gd_entity_memory_service = None,
      gd_graph_memory_service = None, gd_environment_service = None, gd_capacity_service = None,
      gd_fleet_allocation_service = False, gd_routing_service = Some catalog_service, gd_real_road_route_service = None,
      gd_dispatch_service = True, gd_audit_service = True, gd_now = ''t'', gd_uuids = (\<lambda>_. ''u''), gd_txt = (\<lambda>_. [])\<rparr>"

definition flagged_start :: graph_state where
  "flagged_start =
     \<lparr>gs_values =
        [(''task_id'', PStr ''T1''), (''order_id'', PInt 7), (''driver_id'', PStr ''D1''), (''route_id'', PStr ''R1''),
         (''anomaly_type'', PStr ''WEATHER''), (''anomaly_description'', PStr ''rain''), (''vehicle_id'', PStr ''V9'')],
      gs_road_network_snapshot = None\<rparr>"

definition flagged_intake :: graph_state where
  "flagged_intake =
     \<lparr>gs_values =
        [(''task_id'', PStr ''T1''), (''order_id'', PInt 7), (''driver_id'', PStr ''V1''), (''route_id'', PStr ''R1''),
         (''anomaly_type'', PStr ''WEATHER''), (''anomaly_description'', PStr ''rain''), (''vehicle_id'', PStr ''V1''),
         (''normalized_anomaly'', PStr ''rain''), (''requires_manual_review'', PBool True),
         (''sandtable_context_loaded'', PBool True), (''vehicle_weight_tons'', PStr ''2.00''),
         (''original_vehicle_weight_tons'', PStr ''2.00''), (''active_vehicle_weight_tons'', PStr ''2.00''),
         (''error_code'', PStr ''VEHICLE_ASSIGNMENT_MISMATCH''), (''error_message'', PStr mismatch_message),
         (''last_completed_node'', PStr ''intake''), (''completed_node_count'', PInt 1)],
      gs_road_network_snapshot = None\<rparr>"

abbreviation flag_patch :: patch where
  "flag_patch \<equiv> patch_of
     [(''normalized_anomaly'', PStr ''rain''), (''requires_manual_review'', PBool True),
      (''sandtable_context_loaded'', PBool True), (''vehicle_id'', PStr ''V1''), (''driver_id'', PStr ''V1''),
      (''vehicle_weight_tons'', PStr ''2.00''), (''original_vehicle_weight_tons'', PStr ''2.00''),
      (''active_vehicle_weight_tons'', PStr ''2.00''), (''error_code'', PStr ''VEHICLE_ASSIGNMENT_MISMATCH''),
      (''error_message'', PStr mismatch_message)]"

abbreviation reroute_patch :: "pyval \<Rightarrow> string \<Rightarrow> string \<Rightarrow> string \<Rightarrow> string \<Rightarrow> patch" where
  "reroute_patch cands sub act mode reason \<equiv> patch_of
     [(''candidate_routes'', cands), (''recommended_route'', PStr ''xinping-road''), (''identified_issue'', PStr ''WEATHER''),
      (''issue_subtype'', PStr sub), (''recommended_action'', PStr act), (''analysis_mode'', PStr mode),
      (''decision'', PStr ''REROUTE''), (''decision_reason'', PStr reason), (''memory_adopted'', PBool False),
      (''adopted_memory_id'', PNone), (''requires_manual_review'', PBool False)]"

lemma flagged_resolved:
  "\<exists>cx. resolve (sandtable_view flagged_county) 7 ''WEATHER'' ''rain'' (Some ''V9'') =
     (Inl (VehicleAssignmentMismatch cx), sandtable_view flagged_county) \<and>
     tc_current_driver_id cx = Some ''V1'' \<and> tc_current_vehicle_id cx = ''V1'' \<and> format_f 2 (tc_vehicle_weight_tons cx) = ''2.00''"
proof -
  let ?r = "resolve (sandtable_view flagged_county) 7 ''WEATHER'' ''rain'' (Some ''V9'')"
  let ?cx = "case fst ?r of Inl (VehicleAssignmentMismatch cx) \<Rightarrow> cx"
  have "snd ?r = sandtable_view flagged_county" by code_simp
  moreover have "fst ?r = Inl (VehicleAssignmentMismatch ?cx)" by code_simp
  moreover have "tc_current_driver_id ?cx = Some ''V1''" by code_simp
  moreover have "tc_current_vehicle_id ?cx = ''V1''" by code_simp
  moreover have "format_f 2 (tc_vehicle_weight_tons ?cx) = ''2.00''" by code_simp
  ultimately show ?thesis by (metis prod.collapse)
qed

lemma put_sandtable_view [simp]: "put_sandtable w (sandtable_view w) = w"
  by (simp add: put_sandtable_def sandtable_view_def)

lemma flagged_items:
  "text_default flagged_start ''anomaly_description'' [] = Inr ''rain''" "join '' '' (py_split ''rain'') = ''rain''"
  "int_item flagged_start ''order_id'' = Inr 7" "text_item flagged_start ''anomaly_type'' = Inr ''WEATHER''"
  "opt_text flagged_start ''vehicle_id'' = Inr (Some ''V9'')"
  "truthy (sget flagged_start ''task_id'')" "truthy (sget flagged_start ''order_id'')" "truthy (sget flagged_start ''anomaly_type'')"
  by code_simp+


lemma run_step:
  assumes "run_node deps a st w = (Inr p, w')"
    "dget_default (gs_values st) ''completed_node_count'' (PInt 0) = PInt n"
    "st' = apply_patch st (p\<lparr>gs_values := dupdate (gs_values p)
      [(''last_completed_node'', PStr (node_name a)), (''completed_node_count'', PInt (n + 1))]\<rparr>)"
  shows "run_nodes deps (a # as) st w = run_nodes deps as st' w'"
  by (simp add: instrumented_def assms as_int_def)

lemma flagged_by_intake:
  "run_nodes catalog_deps (Intake # as) flagged_start flagged_county = run_nodes catalog_deps as flagged_intake flagged_county"
proof -
  obtain cx where cx: "resolve (sandtable_view flagged_county) 7 ''WEATHER'' ''rain'' (Some ''V9'') =
     (Inl (VehicleAssignmentMismatch cx), sandtable_view flagged_county)" "tc_current_driver_id cx = Some ''V1''"
     "tc_current_vehicle_id cx = ''V1''" "format_f 2 (tc_vehicle_weight_tons cx) = ''2.00''"
    using flagged_resolved by blast
  have "intake_node True False ''t'' flagged_start flagged_county = (Inr flag_patch, flagged_county)"
    by (simp add: intake_node_def flagged_items intake_sandtable_def cx mismatch_patch_def driver_or_def py_or_def dupdate_def Let_def)
  then have "run_node catalog_deps Intake flagged_start flagged_county = (Inr flag_patch, flagged_county)"
    by (simp add: run_node_def catalog_deps_def)
  then show ?thesis
    by (rule run_step [where n = 0])
      (simp_all add: flagged_start_def flagged_intake_def apply_patch_def node_name_def dupdate_def dget_default_def)
qed

definition flagged_rated :: graph_state where
  "flagged_rated =
     \<lparr>gs_values =
        [(''task_id'', PStr ''T1''), (''order_id'', PInt 7), (''driver_id'', PStr ''V1''), (''route_id'', PStr ''R1''),
         (''anomaly_type'', PStr ''WEATHER''), (''anomaly_description'', PStr ''rain''), (''vehicle_id'', PStr ''V1''),
         (''normalized_anomaly'', PStr ''rain''), (''requires_manual_review'', PBool True),
         (''sandtable_context_loaded'', PBool True), (''vehicle_weight_tons'', PStr ''2.00''),
         (''original_vehicle_weight_tons'', PStr ''2.00''), (''active_vehicle_weight_tons'', PStr ''2.00''),
         (''error_code'', PStr ''VEHICLE_ASSIGNMENT_MISMATCH''), (''error_message'', PStr mismatch_message),
         (''last_completed_node'', PStr ''capacity''), (''completed_node_count'', PInt 5), (''memory_results'', PList []),
         (''graph_memory_facts'', PList []), (''graph_memory_paths'', PList []), (''graph_memory_used'', PBool False),
         (''graph_memory_error'', PNone), (''graph_memory_elapsed_ms'', PFloat 0),
         (''capacity_state'', PDict
           [(''driver_available'', PBool True), (''vehicle_available'', PBool True), (''load_ratio'', PFloat 0),
            (''station_load_ratio'', PNone), (''capacity_status'', PStr ''AVAILABLE''), (''risk_level'', PStr ''low''),
            (''reason'', PNone), (''provider_name'', PStr ''sandtable_graph'')])],
      gs_road_network_snapshot = None\<rparr>"

lemma flagged_to_rated:
  "run_nodes catalog_deps (Entity_Memory # Graph_Memory # Environment # Capacity # as) flagged_intake w =
   run_nodes catalog_deps as flagged_rated w"
  unfolding flagged_intake_def flagged_rated_def catalog_deps_def
  by (simp add: instrumented_def run_node_def node_name_def entity_memory_node_def graph_memory_node_def empty_recall_def environment_node_def
      capacity_node_def compatibility_state_def as_int_def dget_default_def dupdate_def apply_patch_def Let_def)


definition route_outline :: "routing_result \<Rightarrow> string option \<times> bool \<times> string \<times> bool \<times> string option \<times> (string \<times> bool) list" where
  "route_outline r =
     (rr_recommended_route r, rr_requires_manual_review r, rr_decision r, rr_memory_adopted r, rr_adopted_memory_id r,
      map (\<lambda>c. (rc_route_id c, rc_available c)) (rr_candidate_routes r))"

lemma flagged_route:
  "route_outline (Routing.route (4 / 5) (Some default_catalog) ''R1'' [] ''unknown'' ''unknown'' ''elevated'' ''AVAILABLE'') =
     (Some ''xinping-road'', False, ''REROUTE'', False, None,
      [(''xinping-road'', True), (''national-102'', True), (''county-308'', True)])"
  by code_simp

lemma flagged_routed:
  "\<exists>cands act reason sub mode. routing_node (\<lambda>_. []) (Some catalog_service) False None flagged_rated w = Inr (reroute_patch cands sub act mode reason)"
proof -
  have c: "py_upper (py_strip ''WEATHER'') = ''WEATHER''" by code_simp
  have n: "normalize_category ''WEATHER'' x = ''WEATHER''" for x
    by (simp add: normalize_category_def c category_aliases_def known_categories_def)
  have i: "text_item flagged_rated ''route_id'' = Inr ''R1''" "list_default flagged_rated ''memory_results'' = Inr []"
    "text_default flagged_rated ''weather'' ''unknown'' = Inr ''unknown''"
    "text_default flagged_rated ''road_condition'' ''unknown'' = Inr ''unknown''"
    "text_default flagged_rated ''environment_risk'' ''elevated'' = Inr ''elevated''"
    "capacity_status_item flagged_rated = Inr ''AVAILABLE''"
    "text_item flagged_rated ''anomaly_type'' = Inr ''WEATHER''" "text_item flagged_rated ''anomaly_description'' = Inr ''rain''"
    "opt_text flagged_rated ''vehicle_status'' = Inr None" "opt_text flagged_rated ''environment_risk'' = Inr None"
    "known_capacity_status flagged_rated = Inr (Some ''AVAILABLE'')" by code_simp+
  define r where "r = Routing.route (4 / 5) (Some default_catalog) ''R1'' [] ''unknown'' ''unknown'' ''elevated'' ''AVAILABLE''"
  have r: "rr_recommended_route r = Some ''xinping-road''" "\<not> rr_requires_manual_review r" "rr_decision r = ''REROUTE''"
    "\<not> rr_memory_adopted r" "rr_adopted_memory_id r = None" "\<exists>c\<in>set (rr_candidate_routes r). rc_route_id c = ''xinping-road'' \<and> rc_available c"
    using flagged_route unfolding route_outline_def r_def [symmetric] by auto
  have v: "verified_route (Some ''xinping-road'') (map (route_candidate_to_state (\<lambda>_. [])) (rr_candidate_routes r)) = Some ''xinping-road''"
    using r(6) by (auto simp: verified_route_def py_or_def list_ex_iff route_candidate_to_state_def)
  have nr: "''WEATHER'' \<notin> set non_route_categories" by code_simp
  show ?thesis
    by (simp add: routing_node_def catalog_service_def can_plan_def route_node_def i recommendation_patch_def Let_def recommend_def
        n r v nr opt_str_def patch_of_def flip: r_def)
qed


lemma execute_without_candidates:
  assumes "find_task db (dq_task_id rq) = Some task" "get_by_task_id db (dt_id task) = None" "dq_candidate_vehicles rq = []"
    "unique_ok db (new_dispatch (db_next_dispatch_id db) (uuids 0) task rq None)"
    "references_ok db (new_dispatch (db_next_dispatch_id db) (uuids 0) task rq None)"
  obtains db' where "execute db rq uuids = (Inr (created_result (new_dispatch (db_next_dispatch_id db) (uuids 0) task rq None) rq), db')"
    "db_dispatches db' = db_dispatches db @ [new_dispatch (db_next_dispatch_id db) (uuids 0) task rq None]"
  by (rule that [of "snd (execute db rq uuids)"])
    (simp_all add: execute_def execute_attempt_list_def ranked_eligible_candidates_def execute_once_def
      commit_dispatch_def flush_vehicle_def Let_def assms)

definition flagged_rerouted :: "pyval \<Rightarrow> string \<Rightarrow> string \<Rightarrow> string \<Rightarrow> string \<Rightarrow> graph_state" where
  "flagged_rerouted cands sub act mode reason =
     \<lparr>gs_values =
        [(''task_id'', PStr ''T1''), (''order_id'', PInt 7), (''driver_id'', PStr ''V1''), (''route_id'', PStr ''R1''),
         (''anomaly_type'', PStr ''WEATHER''), (''anomaly_description'', PStr ''rain''), (''vehicle_id'', PStr ''V1''),
         (''normalized_anomaly'', PStr ''rain''), (''requires_manual_review'', PBool False),
         (''sandtable_context_loaded'', PBool True), (''vehicle_weight_tons'', PStr ''2.00''),
         (''original_vehicle_weight_tons'', PStr ''2.00''), (''active_vehicle_weight_tons'', PStr ''2.00''),
         (''error_code'', PStr ''VEHICLE_ASSIGNMENT_MISMATCH''), (''error_message'', PStr mismatch_message),
         (''last_completed_node'', PStr ''routing''), (''completed_node_count'', PInt 6), (''memory_results'', PList []),
         (''graph_memory_facts'', PList []), (''graph_memory_paths'', PList []), (''graph_memory_used'', PBool False),
         (''graph_memory_error'', PNone), (''graph_memory_elapsed_ms'', PFloat 0),
         (''capacity_state'', PDict
           [(''driver_available'', PBool True), (''vehicle_available'', PBool True), (''load_ratio'', PFloat 0),
            (''station_load_ratio'', PNone), (''capacity_status'', PStr ''AVAILABLE''), (''risk_level'', PStr ''low''),
            (''reason'', PNone), (''provider_name'', PStr ''sandtable_graph'')]),
         (''candidate_routes'', cands), (''recommended_route'', PStr ''xinping-road''),
         (''identified_issue'', PStr ''WEATHER''), (''issue_subtype'', PStr sub), (''recommended_action'', PStr act),
         (''analysis_mode'', PStr mode), (''decision'', PStr ''REROUTE''), (''decision_reason'', PStr reason),
         (''memory_adopted'', PBool False), (''adopted_memory_id'', PNone)],
      gs_road_network_snapshot = None\<rparr>"

lemma flagged_request:
  "\<exists>rq. request_of (flagged_rerouted cands sub act mode reason) = Inr rq \<and> dq_task_id rq = ''T1'' \<and> dq_order_id rq = 7 \<and>
     dq_original_route_id rq = ''R1'' \<and> dq_target_route_id rq = Some ''xinping-road'' \<and> dq_decision rq = ''REROUTE'' \<and>
     dq_candidate_vehicles rq = [] \<and> dq_original_vehicle_id rq = Some ''V1'' \<and> dq_transfer_node_id rq = None \<and>
     \<not> dq_requires_manual_review rq"
  by (simp add: flagged_rerouted_def request_of_def text_item_def int_item_def item_def opt_text_def
      text_default_def bool_default_def dicts_default_def list_default_def as_text_def as_int_def as_opt_text_def as_bool_def
      as_list_def dget_default_def)


lemma flagged_reroutes:
  "\<exists>cands sub act mode reason. run_nodes catalog_deps (Routing # as) flagged_rated flagged_county =
     run_nodes catalog_deps as (flagged_rerouted cands sub act mode reason) flagged_county"
proof -
  obtain cands act reason sub mode where p: "routing_node (\<lambda>_. []) (Some catalog_service) False None flagged_rated flagged_county = Inr (reroute_patch cands sub act mode reason)"
    using flagged_routed by blast
  have "run_node catalog_deps Routing flagged_rated flagged_county = (Inr (reroute_patch cands sub act mode reason), flagged_county)"
    by (simp add: run_node_def catalog_deps_def p)
  then have "run_nodes catalog_deps (Routing # as) flagged_rated flagged_county =
     run_nodes catalog_deps as (flagged_rerouted cands sub act mode reason) flagged_county"
  proof (rule run_step [where n = 5])
    show "dget_default (gs_values flagged_rated) ''completed_node_count'' (PInt 0) = PInt 5"
      by (simp add: flagged_rated_def dget_default_def)
  qed (simp add: flagged_rerouted_def apply_patch_def node_name_def dupdate_def flagged_rated_def)
  then show ?thesis by blast
qed

lemma flagged_dispatches:
  "\<exists>p w. run_node catalog_deps Dispatch (flagged_rerouted cands sub act mode reason) flagged_county = (Inr p, w) \<and>
     1 \<in> dp_id ` set (w_dispatches w) \<and> w_tasks w = w_tasks flagged_county \<and> w_audit_records w = [] \<and>
     (\<exists>dr. gs_values p = [(''dispatch_result'', PDict dr), (''requires_manual_review'', PBool False)] \<and>
       dget dr ''dispatch_id'' = PInt 1 \<and> dget dr ''executed'' = PBool True \<and> dget dr ''target_route_id'' = PStr ''xinping-road'')"
proof -
  obtain rq where rq: "request_of (flagged_rerouted cands sub act mode reason) = Inr rq" "dq_task_id rq = ''T1''" "dq_order_id rq = 7"
     "dq_original_route_id rq = ''R1''" "dq_target_route_id rq = Some ''xinping-road''" "dq_decision rq = ''REROUTE''"
     "dq_candidate_vehicles rq = []" "dq_original_vehicle_id rq = Some ''V1''" "dq_transfer_node_id rq = None"
     "\<not> dq_requires_manual_review rq" using flagged_request by blast
  let ?db = "dispatch_view flagged_county"
  define task where "task = hd (w_tasks flagged_county)"
  define nd where "nd = new_dispatch (db_next_dispatch_id ?db) ''u'' task rq None"
  have task: "find_task ?db (dq_task_id rq) = Some task" "get_by_task_id ?db (dt_id task) = None"
    by (simp_all add: task_def rq dispatch_view_def flagged_county_def sample_db_def find_task_def get_by_task_id_def)
  have nd: "dp_id nd = 1" "dp_target_route_id nd = Some ''xinping-road''" "dp_order_id nd = 7" "dp_task_id nd = Some (dt_id task)"
    "dp_original_vehicle_id nd = Some ''V1''" "dp_target_vehicle_id nd = None" "dp_transfer_node_id nd = None"
    "dp_target_driver_id nd = None"
    by (simp_all add: nd_def new_dispatch_def Let_def rq manual_review_def str_or_def py_or_def dispatch_view_def flagged_county_def d_text_def)
  have ok: "unique_ok ?db nd" "references_ok ?db nd"
    by (simp_all add: unique_ok_def references_ok_def nd, simp_all add: task_def dispatch_view_def flagged_county_def sample_order_def sample_row_def sample_db_def)
  obtain db' where x: "execute ?db rq (\<lambda>_. ''u'') = (Inr (created_result nd rq), db')" "db_dispatches db' = db_dispatches ?db @ [nd]"
    by (rule execute_without_candidates [where uuids = "\<lambda>_. ''u''", OF task rq(7) ok [unfolded nd_def], folded nd_def])
  have "run_node catalog_deps Dispatch (flagged_rerouted cands sub act mode reason) flagged_county =
      (Inr (dispatched_patch (created_result nd rq)), put_dispatch flagged_county db')"
    by (simp add: run_node_def catalog_deps_def dispatch_node_def rq(1) x)
  then show ?thesis using x(2) nd
    by (simp add: put_dispatch_def dispatched_patch_def created_result_def rq manual_review_def dispatch_result_to_state_def
        opt_int_def opt_str_def flagged_county_def)
qed

lemma plain_reroute_approved:
  assumes "issue_of ev \<notin> {Some ''VEHICLE_BREAKDOWN'', Some ''ROAD_BLOCKED''}" "string_list (dget ev ''blocked_edge_ids'') = []"
    "dget ev ''requires_manual_review'' \<noteq> PBool True" "dget ev ''memory_adopted'' \<noteq> PBool True" "dget ev ''fallback_used'' \<noteq> PBool True"
    "text_of (dget ev ''error_code'') \<notin> {Some ''DISPATCH_CONFLICT'', Some ''DISPATCH_VERSION_CONFLICT'', Some ''VEHICLE_RESERVATION_CONFLICT''}"
    "text_of (dget ev ''recommended_route'') = Some r"
  shows "audit_evaluate ev (Some ''REROUTE'') True (Some r) (initial_checks True) =
    Inr (initial_checks True, ''APPROVED'', ''Audit checks passed.'', False)"
  using assms by (simp add: audit_evaluate_def audit_stages_def review_stage_def breakdown_stage_def road_stage_def no_route_stage_def
      reroute_stage_def keep_stage_def memory_stage_def fallback_stage_def Let_def initial_checks_def)

lemma flagged_rerouted_fields:
  "sget (flagged_rerouted cands sub act mode reason) ''task_id'' = PStr ''T1''"
  "sget (flagged_rerouted cands sub act mode reason) ''route_id'' = PStr ''R1''"
  "sget (flagged_rerouted cands sub act mode reason) ''identified_issue'' = PStr ''WEATHER''"
  "sget (flagged_rerouted cands sub act mode reason) ''blocked_edge_ids'' = PNone"
  "sget (flagged_rerouted cands sub act mode reason) ''memory_adopted'' = PBool False"
  "sget (flagged_rerouted cands sub act mode reason) ''fallback_used'' = PNone"
  "sget (flagged_rerouted cands sub act mode reason) ''error_code'' = PStr ''VEHICLE_ASSIGNMENT_MISMATCH''"
  "sget (flagged_rerouted cands sub act mode reason) ''recommended_route'' = PStr ''xinping-road''"
  "sget (flagged_rerouted cands sub act mode reason) ''decision'' = PStr ''REROUTE''"
  "sget (flagged_rerouted cands sub act mode reason) ''completed_node_count'' = PInt 6"
  by (simp_all add: flagged_rerouted_def)


lemma flagged_approved:
  assumes dr: "dget dr ''dispatch_id'' = PInt 1" "dget dr ''executed'' = PBool True" "dget dr ''target_route_id'' = PStr ''xinping-road''"
    and w: "1 \<in> dp_id ` set (w_dispatches w)" "w_tasks w = w_tasks flagged_county" "w_audit_records w = []"
    and st: "\<And>k. sget st k = (if k = ''dispatch_result'' then PDict dr else if k = ''requires_manual_review'' then PBool False
        else if k = ''last_completed_node'' then PStr ''dispatch'' else if k = ''completed_node_count'' then PInt 7
        else sget (flagged_rerouted cands sub act mode reason) k)"
    and items: "item st ''task_id'' = Inr (PStr ''T1'')" "item st ''route_id'' = Inr (PStr ''R1'')"
  shows "\<exists>p w'. run_node catalog_deps Audit st w = (Inr p, w') \<and> (\<exists>res. gs_values p =
     [(''audit_result'', PDict (audit_result_to_state res)), (''requires_manual_review'', PBool False)] \<and> ar_passed res)"
proof -
  obtain ev where ev: "audit_evidence_of st = Inr ev" "dget ev ''task_id'' = PStr ''T1''" "dget ev ''error_code'' = sget st ''error_code''"
    by (simp add: audit_evidence_of_def Let_def items)
  note F = audit_evidence_fields [OF ev(1)] and R = flagged_rerouted_fields [of cands sub act mode reason]
  have dp: "mapping_of (dget ev ''dispatch_result'') = dr" unfolding F default_views by (simp add: st)
  have e: "audit_evaluate ev (Some ''REROUTE'') True (Some ''xinping-road'') (initial_checks True) =
    Inr (initial_checks True, ''APPROVED'', ''Audit checks passed.'', False)"
  proof (rule plain_reroute_approved)
    show "string_list (dget ev ''blocked_edge_ids'') = []" unfolding F default_views by (simp add: st R string_list_def)
  qed (simp_all add: F default_views issue_of_def py_or_def st R ev(3))
  obtain rid db' where "persist_if_possible (audit_view w) (Some ''T1'') (Some 1) ''APPROVED'' ''Audit checks passed.''
      (json_dumps (PDict (graph_evidence ev))) = Inr (rid, db')"
    using w by (auto simp: persist_if_possible_def audit_view_def flagged_county_def sample_db_def)
  then show ?thesis
    by (simp add: run_node_def catalog_deps_def audit_node_def ev audit_def Let_def dp dr F(1) st R e integer_of_def
        del: json_dumps.simps) (rule exI, rule conjI, rule refl, simp)
qed


lemma run_step_fields:
  assumes "run_node deps a st w = (Inr p, w')" "sget st ''completed_node_count'' = PInt n" "declared (gs_values p)"
  shows "\<exists>st'. run_nodes deps (a # as) st w = run_nodes deps as st' w' \<and>
    map_of (gs_values st') = (map_of (gs_values st) ++ map_of (gs_values p))(''last_completed_node'' \<mapsto> PStr (node_name a),
      ''completed_node_count'' \<mapsto> PInt (n + 1))"
proof -
  let ?p = "p\<lparr>gs_values := dupdate (gs_values p)
      [(''last_completed_node'', PStr (node_name a)), (''completed_node_count'', PInt (n + 1))]\<rparr>"
  have "dget_default (gs_values st) ''completed_node_count'' (PInt 0) = PInt n"
    using assms(2) by (auto simp: dget_def dget_default_def split: option.splits)
  then have "run_nodes deps (a # as) st w = run_nodes deps as (apply_patch st ?p) w'"
    by (rule run_step [OF assms(1)]) simp
  moreover have "map_of (gs_values (apply_patch st ?p)) = map_of (gs_values st) ++ map_of (gs_values ?p)"
    by (rule map_of_apply_patch) (simp add: assms(3))
  ultimately show ?thesis by (intro exI [of _ "apply_patch st ?p"]) (simp add: map_of_dupdate map_add_upd fun_upd_twist)
qed

lemma flagged_run:
  "\<exists>st w. run_graph catalog_deps flagged_start flagged_county = (Inr st, w) \<and>
     sget st ''error_code'' = PStr ''VEHICLE_ASSIGNMENT_MISMATCH'' \<and> sget st ''requires_manual_review'' = PBool False \<and>
     dget (mapping_of (sget st ''dispatch_result'')) ''executed'' = PBool True \<and>
     dget (mapping_of (sget st ''audit_result'')) ''passed'' = PBool True"
proof -
  obtain cands sub act mode reason where r: "run_graph catalog_deps flagged_start flagged_county =
      run_nodes catalog_deps [Dispatch, Audit] (flagged_rerouted cands sub act mode reason) flagged_county"
    unfolding run_graph_def node_order_def flagged_by_intake flagged_to_rated using flagged_reroutes by blast
  let ?st = "flagged_rerouted cands sub act mode reason"
  note R = flagged_rerouted_fields [of cands sub act mode reason]
  obtain p w dr where d: "run_node catalog_deps Dispatch ?st flagged_county = (Inr p, w)"
     "1 \<in> dp_id ` set (w_dispatches w)" "w_tasks w = w_tasks flagged_county" "w_audit_records w = []"
     "gs_values p = [(''dispatch_result'', PDict dr), (''requires_manual_review'', PBool False)]"
     "dget dr ''dispatch_id'' = PInt 1" "dget dr ''executed'' = PBool True" "dget dr ''target_route_id'' = PStr ''xinping-road''"
    using flagged_dispatches by blast
  obtain st7 where st7: "run_nodes catalog_deps [Dispatch, Audit] ?st flagged_county = run_nodes catalog_deps [Audit] st7 w"
    "map_of (gs_values st7) = (map_of (gs_values ?st) ++ map_of (gs_values p))(''last_completed_node'' \<mapsto> PStr ''dispatch'',
      ''completed_node_count'' \<mapsto> PInt 7)"
    using run_step_fields [OF d(1) R(10), of "[Audit]"] d(5) by (auto simp: node_name_def)
  have f7: "sget st7 k = (if k = ''dispatch_result'' then PDict dr else if k = ''requires_manual_review'' then PBool False
        else if k = ''last_completed_node'' then PStr ''dispatch'' else if k = ''completed_node_count'' then PInt 7
        else sget ?st k)" for k
    by (simp add: dget_def st7(2) d(5) map_add_def)
  have items: "item st7 ''task_id'' = Inr (PStr ''T1'')" "item st7 ''route_id'' = Inr (PStr ''R1'')"
    by (simp_all add: item_def st7(2) d(5) map_add_def) (simp_all add: flagged_rerouted_def)
  obtain q w' res where a: "run_node catalog_deps Audit st7 w = (Inr q, w')"
     "gs_values q = [(''audit_result'', PDict (audit_result_to_state res)), (''requires_manual_review'', PBool False)]" "ar_passed res"
    using flagged_approved [OF d(6-8,2-4) f7 items] by blast
  obtain st8 where st8: "run_nodes catalog_deps [Audit] st7 w = run_nodes catalog_deps [] st8 w'"
    "map_of (gs_values st8) = (map_of (gs_values st7) ++ map_of (gs_values q))(''last_completed_node'' \<mapsto> PStr ''audit'',
      ''completed_node_count'' \<mapsto> PInt 8)"
    using run_step_fields [OF a(1), of 7 "[]"] a(2) by (auto simp: node_name_def f7)
  have f8: "sget st8 k = (if k = ''audit_result'' then PDict (audit_result_to_state res) else if k = ''requires_manual_review'' then PBool False
        else if k = ''last_completed_node'' then PStr ''audit'' else if k = ''completed_node_count'' then PInt 8
        else sget st7 k)" for k
    by (simp add: dget_def st8(2) a(2) map_add_def)
  have "run_graph catalog_deps flagged_start flagged_county = (Inr st8, w')" by (simp only: r st7(1) st8(1) run_nodes.simps(1))
  moreover have "dget (audit_result_to_state res) ''passed'' = PBool True" using a(3) by (simp add: audit_result_to_state_def)
  ultimately show ?thesis by (intro exI [of _ st8] exI [of _ w']) (simp add: f8 f7 R d(7))
qed

section \<open>The routing agent and the flag\<close>

abbreviation with_review :: "pyval \<Rightarrow> graph_state \<Rightarrow> graph_state" where
  "with_review v st \<equiv> st\<lparr>gs_values := dset ''requires_manual_review'' v (gs_values st)\<rparr>"

lemma review_unread:
  assumes "k \<noteq> ''requires_manual_review''"
  shows "item (with_review v st) k = item st k" "sget (with_review v st) k = sget st k"
    "dget_default (dset ''requires_manual_review'' v d) k x = dget_default d k x"
  using assms by (simp_all add: item_def dget_default_def)

lemma review_reads:
  assumes "k \<noteq> ''requires_manual_review''"
  shows "text_item (with_review v st) k = text_item st k" "int_item (with_review v st) k = int_item st k"
    "opt_text (with_review v st) k = opt_text st k" "text_default (with_review v st) k x = text_default st k x"
    "list_default (with_review v st) k = list_default st k" "texts_default (with_review v st) k = texts_default st k"
  using assms by (simp_all add: text_item_def int_item_def opt_text_def text_default_def list_default_def texts_default_def
      review_unread)

lemma routing_ignores_review: "routing_node txt s b rr (with_review v st) w = routing_node txt s b rr st w"
proof -
  have c: "capacity_status_item (with_review v st) = capacity_status_item st"
    "known_capacity_status (with_review v st) = known_capacity_status st"
    "restored_snapshot b (with_review v st) = restored_snapshot b st"
    by (simp_all add: capacity_status_item_def known_capacity_status_def restored_snapshot_def review_unread)
  have p: "planning_context (with_review v st) = planning_context st"
    by (simp add: planning_context_def Let_def review_reads review_unread cong: option.case_cong)
  have r: "recommendation_patch (with_review v st) x y = recommendation_patch st x y" for x y
    by (simp add: recommendation_patch_def review_reads c)
  have "plan_node txt x b rr (with_review v st) w = plan_node txt x b rr st w" for x
    by (simp add: plan_node_def review_reads c r p)
  moreover have "route_node txt x (with_review v st) = route_node txt x st" for x
    by (simp add: route_node_def review_reads c r)
  ultimately show ?thesis by (simp add: routing_node_def review_unread cong: option.case_cong if_cong)
qed

section \<open>Properties of whole runs\<close>

text \<open>
  C14. A run through the eight agents keeps the state typed: from a state with declared keys only and a count of \<open>n\<close> finished
  agents, a run that returns has declared keys only, each once, counts \<open>n + 8\<close> finished agents and names the audit as the last.
\<close>

theorem run_graph_typed:
  assumes "declared (gs_values st)" and "dget_default (gs_values st) ''completed_node_count'' (PInt 0) = PInt n"
    and "run_graph deps st w = (Inr st', w')"
  shows "declared (gs_values st') \<and> dget_default (gs_values st') ''completed_node_count'' (PInt 0) = PInt (n + 8) \<and>
    sget st' ''last_completed_node'' = PStr ''audit''"
  using run_nodes_progress [OF assms(3) [unfolded run_graph_def] assms(1,2)] by (simp add: node_order_def node_name_def)

theorem run_graph_typed_witness:
  "\<exists>st w. run_graph catalog_deps flagged_start flagged_county = (Inr st, w) \<and> sget st ''last_completed_node'' = PStr ''audit''"
proof -
  have "declared (gs_values flagged_start)" "dget_default (gs_values flagged_start) ''completed_node_count'' (PInt 0) = PInt 0"
    by (simp_all add: flagged_start_def dget_default_def)
  then show ?thesis using run_graph_typed [of flagged_start 0 catalog_deps flagged_county] flagged_run by blast
qed

text \<open>
  C12. What a run approves is sound. Whenever the eight agents, from a state with declared keys only, end with an audit that passed, the final state itself
  satisfies every check of the audit that applies to it, and asks for no review: if the decision is to reroute, the dispatch was executed towards the recommended route, if it is to keep the route,
  towards the original one, and if there is no safe route, nothing was executed (with any other decision nothing is said about the execution); no conflict of dispatches or vehicles
  is recorded; after a breakdown the target and its driver are the selected ones, another vehicle than the original, available, eligible, with a driver on duty and with room and capability for the cargo;
  around blocked roads the recommended path is connected, open and free of them, an adopted memory was recalled, and a fallback has a reason.
\<close>

theorem approved_run_sound:
  assumes "declared (gs_values st)" and "gd_audit_service deps" and "run_graph deps st w = (Inr st', w')"
    and "dget (mapping_of (sget st' ''audit_result'')) ''passed'' = PBool True"
  shows "sound_evidence (gs_values st') \<and> sget st' ''requires_manual_review'' = PBool False"
  using assms by (rule approved_run)

theorem approved_run_sound_witness:
  "\<exists>st w. run_graph catalog_deps flagged_start flagged_county = (Inr st, w) \<and> sound_evidence (gs_values st)"
proof -
  have "declared (gs_values flagged_start)" "gd_audit_service catalog_deps" by (simp_all add: flagged_start_def catalog_deps_def)
  then show ?thesis using approved_run_sound [of flagged_start catalog_deps flagged_county] flagged_run by blast
qed

text \<open>
  C15. A review that intake asks for is lost. The patch of the routing agent depends on nothing that the flag says; and there is a run in
  which intake finds that the reported vehicle is not the one of the order and asks for a review, yet the order is rerouted, the
  dispatch executed and the audit approved, with the error code of the mismatch still in the final state.
\<close>

theorem intake_review_lost:
  "routing_node txt service b real_roads (st\<lparr>gs_values := dset ''requires_manual_review'' v (gs_values st)\<rparr>) w =
     routing_node txt service b real_roads st w \<and>
   (\<exists>st' w'. run_graph catalog_deps flagged_start flagged_county = (Inr st', w') \<and>
     sget st' ''error_code'' = PStr ''VEHICLE_ASSIGNMENT_MISMATCH'' \<and> sget st' ''requires_manual_review'' = PBool False \<and>
     dget (mapping_of (sget st' ''dispatch_result'')) ''executed'' = PBool True \<and>
     dget (mapping_of (sget st' ''audit_result'')) ''passed'' = PBool True)"
  using routing_ignores_review flagged_run by blast

end
