(* ===== verification/Runtime_Threads.thy ===== *)
theory Runtime_Threads
  imports Py_Value "HOL-Library.Sublist"
begin

text \<open>
  Runtime threads: the durable record of how far the agents have come with a task. A thread points to its canonical checkpoint, counts
  its versions, and is claimed at a stable boundary either by a worker or by an operator's override. The theory models the
  tables and the repository \<open>runtime_threads/sqlalchemy_repository.py\<close>. Every method takes the tables as its session read
  them and the tables as they are when it writes, so that two sessions may overlap; a row is written only over the version that was
  read. The random event ids, the creation times and the session handling of SQLAlchemy are not modelled. The second half
  shows what every method keeps: a thread agrees with the history of its events (\<open>thread_ok\<close>) and changes only forwards
  (\<open>thread_later\<close>).
\<close>

section \<open>Rows: models/runtime\_thread.py and runtime\_threads/models.py\<close>

datatype thread_status = RUNNING | STABLE | OVERRIDING | TERMINAL

datatype thread_event_type =
    THREAD_CREATED
  | CHECKPOINT_STAGED
  | CHECKPOINT_PROMOTED
  | THREAD_RESUMED
  | THREAD_TERMINAL
  | RECONCILIATION
  | THREAD_ERROR
  | RUNTIME_OVERRIDE_APPLIED

record runtime_thread =
  th_thread_id :: string
  th_task_id :: string
  th_status :: thread_status
  th_current_checkpoint_id :: "string option"
  th_state_version :: int
  th_current_node :: "string option"
  th_next_node :: "string option"
  th_checkpoint_count :: int
  th_checkpoint_size_bytes :: "int option"
  th_last_event_sequence :: "int option"
  th_worker_consumer :: "string option"
  th_resumed_count :: int
  th_terminal_at :: "int option"
  th_row_version :: int

record thread_event =
  te_event_key :: string
  te_thread_id :: string
  te_event_type :: thread_event_type
  te_checkpoint_id :: "string option"
  te_parent_checkpoint_id :: "string option"
  te_state_version :: int
  te_node :: "string option"
  te_next_node :: "string option"
  te_checkpoint_size_bytes :: "int option"
  te_worker_consumer :: "string option"
  te_error_code :: "string option"
  te_metadata :: pydict

record promote_checkpoint_command =
  pm_thread_id :: string
  pm_expected_checkpoint_id :: "string option"
  pm_expected_state_version :: int
  pm_checkpoint_id :: string
  pm_parent_checkpoint_id :: "string option"
  pm_node :: string
  pm_next_node :: "string option"
  pm_checkpoint_size_bytes :: int
  pm_worker_consumer :: string
  pm_event_key :: string
  pm_event_type :: thread_event_type

record thread_db =
  td_tasks :: "string list"
  td_threads :: "runtime_thread list"
  td_events :: "thread_event list"

datatype thread_error =
    UnknownTask
  | UnknownThread
  | ThreadVersionConflict
  | BoundaryClaimConflict
  | StaleThread
  | DuplicateThreadKey

definition thread_terminal :: "runtime_thread \<Rightarrow> bool" where
  "thread_terminal t \<longleftrightarrow> th_status t = TERMINAL"

section \<open>Reads and flushes\<close>

definition get_by_thread_id :: "thread_db \<Rightarrow> string \<Rightarrow> runtime_thread option" where
  "get_by_thread_id db thread_id = first_match (\<lambda>t. th_thread_id t = thread_id) (td_threads db)"

definition thread_by_task_id :: "thread_db \<Rightarrow> string \<Rightarrow> runtime_thread option" where
  "thread_by_task_id db task_id = first_match (\<lambda>t. th_task_id t = task_id) (td_threads db)"

definition event_by_key :: "thread_db \<Rightarrow> string \<Rightarrow> string \<Rightarrow> thread_event option" where
  "event_by_key db thread_id event_key =
     first_match (\<lambda>e. te_thread_id e = thread_id \<and> te_event_key e = event_key) (td_events db)"

definition put_thread :: "thread_db \<Rightarrow> runtime_thread \<Rightarrow> thread_db" where
  "put_thread db row =
     db\<lparr>td_threads := map (\<lambda>t. if th_thread_id t = th_thread_id row then row else t) (td_threads db)\<rparr>"

text \<open>
  The flush of a changed row and of the new events in one transaction: the row is written only over the version that was
  read (\<open>version_id_col\<close>), and no event may have the key of another event of its thread.
\<close>

definition flush_row :: "thread_db \<Rightarrow> runtime_thread \<Rightarrow> runtime_thread \<Rightarrow> thread_event list \<Rightarrow> thread_error + runtime_thread \<times> thread_db" where
  "flush_row db read_row row new_events =
     (case get_by_thread_id db (th_thread_id read_row) of
        None \<Rightarrow> Inl StaleThread
      | Some current \<Rightarrow>
          if th_row_version current \<noteq> th_row_version read_row then Inl StaleThread
          else if list_ex (\<lambda>e. event_by_key db (te_thread_id e) (te_event_key e) \<noteq> None) new_events then Inl DuplicateThreadKey
          else let written = row\<lparr>th_row_version := th_row_version read_row + 1\<rparr>
               in Inr (written, (put_thread db written)\<lparr>td_events := td_events db @ new_events\<rparr>))"

section \<open>SqlAlchemyRuntimeThreadRepository\<close>

definition created_event :: "string \<Rightarrow> thread_event" where
  "created_event thread_id =
     \<lparr>te_event_key = ''thread:created'', te_thread_id = thread_id, te_event_type = THREAD_CREATED, te_checkpoint_id = None,
      te_parent_checkpoint_id = None, te_state_version = 0, te_node = None, te_next_node = None,
      te_checkpoint_size_bytes = None, te_worker_consumer = None, te_error_code = None, te_metadata = []\<rparr>"

definition new_thread :: "string \<Rightarrow> string \<Rightarrow> runtime_thread" where
  "new_thread task_id thread_id =
     \<lparr>th_thread_id = thread_id, th_task_id = task_id, th_status = RUNNING, th_current_checkpoint_id = None,
      th_state_version = 0, th_current_node = None, th_next_node = Some ''intake'', th_checkpoint_count = 0,
      th_checkpoint_size_bytes = None, th_last_event_sequence = None, th_worker_consumer = None, th_resumed_count = 0,
      th_terminal_at = None, th_row_version = 1\<rparr>"

text \<open>Each method reads from \<open>r\<close>, the tables as its session saw them, and writes to \<open>w\<close>.\<close>

definition create_for_task :: "thread_db \<Rightarrow> thread_db \<Rightarrow> string \<Rightarrow> string \<Rightarrow> (thread_error + runtime_thread) \<times> thread_db" where
  "create_for_task r w task_id thread_id =
     (case thread_by_task_id r task_id of
        Some existing \<Rightarrow>
          (if th_thread_id existing \<noteq> thread_id then Inl ThreadVersionConflict else Inr existing, w)
      | None \<Rightarrow>
          if task_id \<notin> set (td_tasks r) then (Inl UnknownTask, w)
          else if get_by_thread_id w thread_id = None \<and> thread_by_task_id w task_id = None \<and>
                  event_by_key w thread_id ''thread:created'' = None
          then (Inr (new_thread task_id thread_id),
                w\<lparr>td_threads := td_threads w @ [new_thread task_id thread_id],
                  td_events := td_events w @ [created_event thread_id]\<rparr>)
          else (case thread_by_task_id w task_id of
                  None \<Rightarrow> (Inl DuplicateThreadKey, w)
                | Some existing \<Rightarrow>
                    (if th_thread_id existing \<noteq> thread_id then Inl DuplicateThreadKey else Inr existing, w)))"

text \<open>The two claims and the release are single \<open>UPDATE\<close> statements.\<close>

definition claim_boundary :: "thread_db \<Rightarrow> string \<Rightarrow> string \<Rightarrow> int \<Rightarrow> string \<Rightarrow> thread_status \<Rightarrow> string option \<Rightarrow>
    (thread_error + runtime_thread) \<times> thread_db" where
  "claim_boundary db thread_id expected_checkpoint_id expected_state_version expected_next_node target_status worker_consumer =
     (case get_by_thread_id db thread_id of
        None \<Rightarrow> (Inl BoundaryClaimConflict, db)
      | Some t \<Rightarrow>
          if th_status t = STABLE \<and> th_current_checkpoint_id t = Some expected_checkpoint_id \<and>
             th_state_version t = expected_state_version \<and> th_next_node t = Some expected_next_node
          then let t' = t\<lparr>th_status := target_status, th_row_version := th_row_version t + 1,
                          th_worker_consumer := (case worker_consumer of None \<Rightarrow> th_worker_consumer t | Some c \<Rightarrow> Some c)\<rparr>
               in (Inr t', put_thread db t')
          else (Inl BoundaryClaimConflict, db))"

definition claim_override_boundary :: "thread_db \<Rightarrow> string \<Rightarrow> string \<Rightarrow> int \<Rightarrow> string \<Rightarrow>
    (thread_error + runtime_thread) \<times> thread_db" where
  "claim_override_boundary db thread_id checkpoint_id version next_node =
     claim_boundary db thread_id checkpoint_id version next_node OVERRIDING None"

definition claim_next_node :: "thread_db \<Rightarrow> string \<Rightarrow> string \<Rightarrow> int \<Rightarrow> string \<Rightarrow> string \<Rightarrow>
    (thread_error + runtime_thread) \<times> thread_db" where
  "claim_next_node db thread_id checkpoint_id version next_node worker_consumer =
     claim_boundary db thread_id checkpoint_id version next_node RUNNING (Some worker_consumer)"

definition release_override_boundary :: "thread_db \<Rightarrow> string \<Rightarrow> string \<Rightarrow> int \<Rightarrow> string \<Rightarrow>
    (thread_error + runtime_thread) \<times> thread_db" where
  "release_override_boundary db thread_id expected_checkpoint_id expected_state_version expected_next_node =
     (case get_by_thread_id db thread_id of
        None \<Rightarrow> (Inl BoundaryClaimConflict, db)
      | Some t \<Rightarrow>
          if th_status t = OVERRIDING \<and> th_current_checkpoint_id t = Some expected_checkpoint_id \<and>
             th_state_version t = expected_state_version \<and> th_next_node t = Some expected_next_node
          then let t' = t\<lparr>th_status := STABLE, th_row_version := th_row_version t + 1\<rparr> in (Inr t', put_thread db t')
          else (Inl BoundaryClaimConflict, db))"

definition checkpoint_event :: "promote_checkpoint_command \<Rightarrow> thread_event_type \<Rightarrow> string \<Rightarrow> thread_event" where
  "checkpoint_event cmd event_type event_key =
     \<lparr>te_event_key = event_key, te_thread_id = pm_thread_id cmd, te_event_type = event_type,
      te_checkpoint_id = Some (pm_checkpoint_id cmd), te_parent_checkpoint_id = pm_parent_checkpoint_id cmd,
      te_state_version = pm_expected_state_version cmd + 1, te_node = Some (pm_node cmd), te_next_node = pm_next_node cmd,
      te_checkpoint_size_bytes = Some (pm_checkpoint_size_bytes cmd), te_worker_consumer = Some (pm_worker_consumer cmd),
      te_error_code = None, te_metadata = []\<rparr>"

definition stage_checkpoint :: "thread_db \<Rightarrow> thread_db \<Rightarrow> promote_checkpoint_command \<Rightarrow> (thread_error + thread_event) \<times> thread_db" where
  "stage_checkpoint r w cmd =
     (let event_key = ''staged:'' @ pm_checkpoint_id cmd;
          event = checkpoint_event cmd CHECKPOINT_STAGED event_key
      in case event_by_key r (pm_thread_id cmd) event_key of
           Some existing \<Rightarrow> (Inr existing, w)
         | None \<Rightarrow>
             if get_by_thread_id r (pm_thread_id cmd) = None then (Inl UnknownThread, w)
             else (case event_by_key w (pm_thread_id cmd) event_key of
                     Some existing \<Rightarrow> (Inr existing, w)
                   | None \<Rightarrow> (Inr event, w\<lparr>td_events := td_events w @ [event]\<rparr>)))"

definition promoted :: "promote_checkpoint_command \<Rightarrow> runtime_thread \<Rightarrow> runtime_thread" where
  "promoted cmd t =
     t\<lparr>th_current_checkpoint_id := Some (pm_checkpoint_id cmd), th_state_version := th_state_version t + 1,
       th_current_node := Some (pm_node cmd), th_next_node := pm_next_node cmd,
       th_checkpoint_count := th_checkpoint_count t + 1,
       th_checkpoint_size_bytes := Some (pm_checkpoint_size_bytes cmd),
       th_worker_consumer := Some (pm_worker_consumer cmd), th_status := STABLE\<rparr>"

definition promote_checkpoint :: "thread_db \<Rightarrow> thread_db \<Rightarrow> promote_checkpoint_command \<Rightarrow>
    (thread_error + runtime_thread) \<times> thread_db" where
  "promote_checkpoint r w cmd =
     (case get_by_thread_id r (pm_thread_id cmd) of
        None \<Rightarrow> (Inl UnknownThread, w)
      | Some t \<Rightarrow>
          if th_current_checkpoint_id t = Some (pm_checkpoint_id cmd) then (Inr t, w)
          else if th_status t = TERMINAL then (Inl ThreadVersionConflict, w)
          else if th_current_checkpoint_id t \<noteq> pm_expected_checkpoint_id cmd \<or>
                  th_state_version t \<noteq> pm_expected_state_version cmd
          then (Inl ThreadVersionConflict, w)
          else (case flush_row w t (promoted cmd t) [checkpoint_event cmd (pm_event_type cmd) (pm_event_key cmd)] of
                  Inr (t', w') \<Rightarrow> (Inr t', w')
                | Inl _ \<Rightarrow>
                    (case get_by_thread_id w (pm_thread_id cmd) of
                       None \<Rightarrow> (Inl UnknownThread, w)
                     | Some current \<Rightarrow>
                         if th_current_checkpoint_id current = Some (pm_checkpoint_id cmd) then (Inr current, w)
                         else (Inl ThreadVersionConflict, w))))"

text \<open>The end of a method that does not handle the errors of its commit.\<close>

definition commit_row :: "thread_db \<Rightarrow> thread_error + runtime_thread \<times> thread_db \<Rightarrow> (thread_error + runtime_thread) \<times> thread_db" where
  "commit_row w flushed = (case flushed of Inl e \<Rightarrow> (Inl e, w) | Inr (t, w') \<Rightarrow> (Inr t, w'))"

definition mark_resumed :: "thread_db \<Rightarrow> thread_db \<Rightarrow> string \<Rightarrow> string \<Rightarrow> string \<Rightarrow>
    (thread_error + runtime_thread) \<times> thread_db" where
  "mark_resumed r w thread_id event_key worker_consumer =
     (case get_by_thread_id r thread_id of
        None \<Rightarrow> (Inl UnknownThread, w)
      | Some t \<Rightarrow>
          if th_status t = TERMINAL then (Inr t, w)
          else if event_by_key r thread_id event_key \<noteq> None then (Inr t, w)
          else commit_row w (flush_row w t
                 (t\<lparr>th_resumed_count := th_resumed_count t + 1, th_worker_consumer := Some worker_consumer\<rparr>)
                 [\<lparr>te_event_key = event_key, te_thread_id = thread_id, te_event_type = THREAD_RESUMED,
                   te_checkpoint_id = th_current_checkpoint_id t, te_parent_checkpoint_id = None,
                   te_state_version = th_state_version t, te_node = th_current_node t, te_next_node = th_next_node t,
                   te_checkpoint_size_bytes = None, te_worker_consumer = Some worker_consumer, te_error_code = None,
                   te_metadata = []\<rparr>]))"

definition mark_terminal :: "thread_db \<Rightarrow> thread_db \<Rightarrow> string \<Rightarrow> string \<Rightarrow> string \<Rightarrow> string option \<Rightarrow> string option \<Rightarrow> int \<Rightarrow>
    (thread_error + runtime_thread) \<times> thread_db" where
  "mark_terminal r w thread_id event_key worker_consumer current_node error_code now =
     (case get_by_thread_id r thread_id of
        None \<Rightarrow> (Inl UnknownThread, w)
      | Some t \<Rightarrow>
          if event_by_key r thread_id event_key \<noteq> None then (Inr t, w)
          else commit_row w (flush_row w t
                 (t\<lparr>th_status := TERMINAL, th_current_node := current_node, th_next_node := None,
                    th_worker_consumer := Some worker_consumer, th_terminal_at := Some now\<rparr>)
                 [\<lparr>te_event_key = event_key, te_thread_id = thread_id, te_event_type = THREAD_TERMINAL,
                   te_checkpoint_id = th_current_checkpoint_id t, te_parent_checkpoint_id = None,
                   te_state_version = th_state_version t, te_node = current_node, te_next_node = None,
                   te_checkpoint_size_bytes = None, te_worker_consumer = Some worker_consumer, te_error_code = error_code,
                   te_metadata = []\<rparr>]))"

definition update_last_event_sequence :: "thread_db \<Rightarrow> thread_db \<Rightarrow> string \<Rightarrow> int \<Rightarrow> (thread_error + runtime_thread) \<times> thread_db" where
  "update_last_event_sequence r w thread_id sequence =
     (case get_by_thread_id r thread_id of
        None \<Rightarrow> (Inl UnknownThread, w)
      | Some t \<Rightarrow>
          if (case th_last_event_sequence t of None \<Rightarrow> True | Some s \<Rightarrow> s < sequence)
          then commit_row w (flush_row w t (t\<lparr>th_last_event_sequence := Some sequence\<rparr>) [])
          else (Inr t, w))"

definition list_events :: "thread_db \<Rightarrow> string \<Rightarrow> int \<Rightarrow> thread_event list" where
  "list_events db thread_id n =
     (if n \<le> 0 then []
      else rev (take (nat n) (rev (filter (\<lambda>e. te_thread_id e = thread_id) (td_events db)))))"


section \<open>The history of a thread\<close>

text \<open>
  Advancing events are those that give a thread a new canonical checkpoint; all but the overrides count as checkpoints of the graph.
\<close>

definition is_checkpoint_event :: "thread_event \<Rightarrow> bool" where
  "is_checkpoint_event e \<longleftrightarrow> te_event_type e = CHECKPOINT_PROMOTED \<or> te_event_type e = RECONCILIATION"

definition is_advance :: "thread_event \<Rightarrow> bool" where
  "is_advance e \<longleftrightarrow> is_checkpoint_event e \<or> te_event_type e = RUNTIME_OVERRIDE_APPLIED"

definition advances :: "thread_db \<Rightarrow> string \<Rightarrow> thread_event list" where
  "advances db thread_id = filter (\<lambda>e. te_thread_id e = thread_id \<and> is_advance e) (td_events db)"

text \<open>
  A thread agrees with its history: its version counts the advancing events, which carry the versions 1, 2, 3, \dots{} in
  this order, its checkpoint is the one of the last of them, and its checkpoint count leaves out the overrides.
\<close>

definition history_ok :: "thread_event list \<Rightarrow> runtime_thread \<Rightarrow> bool" where
  "history_ok adv t \<longleftrightarrow>
     map te_state_version adv = map int [1..<Suc (length adv)] \<and> th_state_version t = int (length adv) \<and>
     th_checkpoint_count t = int (length (filter is_checkpoint_event adv)) \<and>
     th_current_checkpoint_id t = (if adv = [] then None else te_checkpoint_id (last adv))"

definition thread_ok :: "thread_db \<Rightarrow> bool" where
  "thread_ok db \<longleftrightarrow>
     distinct (map th_thread_id (td_threads db)) \<and>
     distinct (map (\<lambda>e. (te_thread_id e, te_event_key e)) (td_events db)) \<and>
     (\<forall>e\<in>set (td_events db). get_by_thread_id db (te_thread_id e) \<noteq> None) \<and>
     (\<forall>t\<in>set (td_threads db). history_ok (advances db (th_thread_id t)) t)"

text \<open>How a row may change: a terminal thread stays terminal at its version, and a version has one checkpoint.\<close>

definition row_le :: "runtime_thread \<Rightarrow> runtime_thread \<Rightarrow> bool" where
  "row_le t t' \<longleftrightarrow>
     th_thread_id t' = th_thread_id t \<and> th_task_id t' = th_task_id t \<and>
     th_row_version t \<le> th_row_version t' \<and> (th_row_version t = th_row_version t' \<longrightarrow> t = t') \<and>
     th_state_version t \<le> th_state_version t' \<and>
     (th_state_version t = th_state_version t' \<longrightarrow> th_current_checkpoint_id t' = th_current_checkpoint_id t) \<and>
     (th_status t = TERMINAL \<longrightarrow> th_status t' = TERMINAL \<and> th_state_version t' = th_state_version t)"

definition thread_later :: "thread_db \<Rightarrow> thread_db \<Rightarrow> bool" where
  "thread_later db db' \<longleftrightarrow>
     (\<forall>i t. get_by_thread_id db i = Some t \<longrightarrow> (\<exists>t'. get_by_thread_id db' i = Some t' \<and> row_le t t')) \<and>
     prefix (td_events db) (td_events db')"

lemma row_le_refl [simp]: "row_le t t"
  by (simp add: row_le_def)

lemma row_le_trans: "row_le a b \<Longrightarrow> row_le b c \<Longrightarrow> row_le a c"
  unfolding row_le_def by auto

lemma thread_later_refl: "thread_later db db"
  by (simp add: thread_later_def)

lemma thread_later_trans: "thread_later a b \<Longrightarrow> thread_later b c \<Longrightarrow> thread_later a c"
  unfolding thread_later_def by (meson prefix_order.trans row_le_trans)

lemma thread_laterD: "thread_later r w \<Longrightarrow> get_by_thread_id r i = Some t \<Longrightarrow> \<exists>t'. get_by_thread_id w i = Some t' \<and> row_le t t'"
  by (simp add: thread_later_def)

lemma get_by_thread_id_Some: "get_by_thread_id db i = Some t \<Longrightarrow> th_thread_id t = i \<and> t \<in> set (td_threads db)"
  unfolding get_by_thread_id_def by (blast dest: first_match_SomeD)

lemma get_by_thread_id_mem:
  assumes "distinct (map th_thread_id (td_threads db))" "t \<in> set (td_threads db)"
  shows "get_by_thread_id db (th_thread_id t) = Some t"
proof -
  have "first_match (\<lambda>u. th_thread_id u = th_thread_id t) ts = Some t" if "distinct (map th_thread_id ts)" "t \<in> set ts" for ts
    using that by (induction ts) (auto simp: rev_image_eqI)
  then show ?thesis using assms by (simp add: get_by_thread_id_def)
qed

lemma get_put_thread:
  "get_by_thread_id (put_thread db t) i =
     (if i = th_thread_id t then map_option (\<lambda>_. t) (get_by_thread_id db i) else get_by_thread_id db i)"
proof -
  have "first_match (\<lambda>u. th_thread_id u = i) (map (\<lambda>u. if th_thread_id u = th_thread_id t then t else u) ts) =
     (if i = th_thread_id t then map_option (\<lambda>_. t) (first_match (\<lambda>u. th_thread_id u = i) ts)
      else first_match (\<lambda>u. th_thread_id u = i) ts)" for ts
    by (induction ts) auto
  then show ?thesis by (simp add: get_by_thread_id_def put_thread_def)
qed

lemma put_thread_ids: "map th_thread_id (td_threads (put_thread db t)) = map th_thread_id (td_threads db)"
  by (simp add: put_thread_def)

lemma put_thread_events [simp]: "td_events (put_thread db t) = td_events db" "td_tasks (put_thread db t) = td_tasks db"
  by (simp_all add: put_thread_def)

lemma get_by_thread_id_events [simp]: "get_by_thread_id (db\<lparr>td_events := es\<rparr>) i = get_by_thread_id db i"
  by (simp add: get_by_thread_id_def)

lemma event_by_key_None:
  "event_by_key db i k = None \<longleftrightarrow> (i, k) \<notin> (\<lambda>e. (te_thread_id e, te_event_key e)) ` set (td_events db)"
  by (auto simp: event_by_key_def first_match_None)

section \<open>What a flush keeps\<close>

text \<open>The change of one row together with its events.\<close>

definition change_ok :: "runtime_thread \<Rightarrow> runtime_thread \<Rightarrow> thread_event list \<Rightarrow> bool" where
  "change_ok t t' es \<longleftrightarrow>
     th_thread_id t' = th_thread_id t \<and> th_task_id t' = th_task_id t \<and> (\<forall>e\<in>set es. te_thread_id e = th_thread_id t) \<and>
     length es \<le> 1 \<and>
     (if filter is_advance es = []
      then th_state_version t' = th_state_version t \<and> th_checkpoint_count t' = th_checkpoint_count t \<and>
           th_current_checkpoint_id t' = th_current_checkpoint_id t \<and> (th_status t = TERMINAL \<longrightarrow> th_status t' = TERMINAL)
      else th_status t \<noteq> TERMINAL \<and> th_state_version t' = th_state_version t + 1 \<and>
           th_checkpoint_count t' = th_checkpoint_count t + int (length (filter is_checkpoint_event es)) \<and>
           (\<forall>e\<in>set es. te_state_version e = th_state_version t + 1 \<and> te_checkpoint_id e = th_current_checkpoint_id t'))"

lemma change_row_le:
  assumes "change_ok t t' es" "th_row_version t' = th_row_version t + 1"
  shows "row_le t t'"
  using assms unfolding change_ok_def row_le_def by (auto split: if_splits)

lemma change_history:
  assumes "history_ok adv t" "change_ok t t' es"
  shows "history_ok (adv @ filter is_advance es) (t'\<lparr>th_row_version := v\<rparr>)"
proof (cases "filter is_advance es = []")
  case True
  then show ?thesis using assms by (simp add: history_ok_def change_ok_def)
next
  case False
  then obtain e where e: "es = [e]" "is_advance e" using assms(2)
    by (cases es) (auto simp: change_ok_def split: if_splits)
  have "map int [1..<Suc (Suc n)] = map int [1..<Suc n] @ [int n + 1]" for n by simp
  then show ?thesis using assms e by (simp add: history_ok_def change_ok_def)
qed

lemma advances_put: "advances (db'\<lparr>td_events := es @ fs\<rparr>) i =
    filter (\<lambda>e. te_thread_id e = i \<and> is_advance e) es @ filter (\<lambda>e. te_thread_id e = i \<and> is_advance e) fs"
  by (simp add: advances_def)

lemma written_ok:
  assumes ok: "thread_ok db" and t: "get_by_thread_id db (th_thread_id t) = Some t"
    and ch: "change_ok t t' es" "th_row_version t' = th_row_version t + 1"
    and keys: "\<forall>e\<in>set es. event_by_key db (te_thread_id e) (te_event_key e) = None"
    and db': "db' = (put_thread db t')\<lparr>td_events := td_events db @ es\<rparr>"
  shows "thread_ok db' \<and> thread_later db db'"
proof -
  have id: "th_thread_id t' = th_thread_id t" and len: "length es \<le> 1" and es: "\<forall>e\<in>set es. te_thread_id e = th_thread_id t"
    using ch(1) by (simp_all add: change_ok_def)
  have get: "get_by_thread_id db' i = (if i = th_thread_id t then Some t' else get_by_thread_id db i)" for i
    by (simp add: db' get_put_thread id t)
  have later: "thread_later db db'"
    unfolding thread_later_def using get t change_row_le [OF ch] by (auto simp: db' put_thread_def split: if_splits)
  have d: "distinct (map th_thread_id (td_threads db'))" using ok by (simp add: db' put_thread_ids thread_ok_def)
  have k: "distinct (map (\<lambda>e. (te_thread_id e, te_event_key e)) (td_events db'))"
    using ok keys len by (cases es) (auto simp: db' thread_ok_def event_by_key_None)
  have f: "get_by_thread_id db' (te_thread_id e) \<noteq> None" if "e \<in> set (td_events db')" for e
    unfolding get using that ok es by (auto simp: db' thread_ok_def)
  have h: "history_ok (advances db' (th_thread_id u)) u" if u: "u \<in> set (td_threads db')" for u
  proof (cases "th_thread_id u = th_thread_id t")
    case True
    then have "u = t'" using get_by_thread_id_mem [OF d u] get [of "th_thread_id u"] by simp
    have "advances db' (th_thread_id t) = advances db (th_thread_id t) @ filter is_advance es"
      using es by (auto simp: advances_def db' intro: filter_cong)
    moreover have "history_ok (advances db (th_thread_id t)) t" using ok get_by_thread_id_Some [OF t] by (simp add: thread_ok_def)
    from change_history [OF this ch(1), of "th_row_version t'"] have "history_ok (advances db (th_thread_id t) @ filter is_advance es) t'" by simp
    ultimately show ?thesis using True \<open>u = t'\<close> by simp
  next
    case False
    then have "get_by_thread_id db (th_thread_id u) = Some u" using get_by_thread_id_mem [OF d u] get by simp
    then have "history_ok (advances db (th_thread_id u)) u" using ok by (auto simp: thread_ok_def dest: get_by_thread_id_Some)
    moreover have "filter (\<lambda>e. te_thread_id e = th_thread_id u \<and> is_advance e) es = []" using es False by (auto simp: filter_empty_conv)
    ultimately show ?thesis by (simp add: advances_def db')
  qed
  show ?thesis using later d k f h by (simp add: thread_ok_def)
qed

lemma change_ok_version [simp]: "change_ok t (t'\<lparr>th_row_version := v\<rparr>) es \<longleftrightarrow> change_ok t t' es"
  by (simp add: change_ok_def)

lemma flush_row_ok:
  assumes "flush_row w t row es = Inr (t', w')" "get_by_thread_id r i = Some t" "thread_later r w" "thread_ok w" "change_ok t row es"
  shows "thread_ok w' \<and> thread_later w w'"
proof -
  have i: "th_thread_id t = i" using get_by_thread_id_Some [OF assms(2)] by simp
  obtain cur where cur: "get_by_thread_id w i = Some cur" "row_le t cur" using thread_laterD [OF assms(3,2)] by blast
  then have v: "th_row_version cur = th_row_version t" "\<not> list_ex (\<lambda>e. event_by_key w (te_thread_id e) (te_event_key e) \<noteq> None) es"
    and w': "t' = row\<lparr>th_row_version := th_row_version t + 1\<rparr>" "w' = (put_thread w t')\<lparr>td_events := td_events w @ es\<rparr>"
    using assms(1) i by (auto simp: flush_row_def Let_def split: if_splits)
  have "cur = t" using cur(2) v(1) by (simp add: row_le_def)
  then have t: "get_by_thread_id w (th_thread_id t) = Some t" using cur(1) i by simp
  show ?thesis
    by (rule written_ok [OF assms(4) t _ _ _ w'(2)]) (use assms(5) v(2) w'(1) in \<open>auto simp: list_ex_iff\<close>)
qed

text \<open>The write of a method leads from an orderly state to a later orderly one.\<close>

definition moves :: "thread_db \<Rightarrow> thread_db \<Rightarrow> bool" where
  "moves w w' \<longleftrightarrow> thread_ok w' \<and> thread_later w w'"

lemma moves_refl: "thread_ok w \<Longrightarrow> moves w w"
  by (simp add: moves_def thread_later_refl)

lemma commit_row_ok:
  assumes "get_by_thread_id r i = Some t" "thread_later r w" "thread_ok w" "change_ok t row es"
  shows "moves w (snd (commit_row w (flush_row w t row es)))"
proof (cases "flush_row w t row es")
  case (Inl e)
  then show ?thesis using assms(3) moves_refl by (simp add: commit_row_def)
next
  case (Inr p)
  then show ?thesis using flush_row_ok [OF _ assms] by (cases p) (simp add: commit_row_def moves_def)
qed

section \<open>What every method keeps\<close>

lemmas change_simps = change_ok_def is_advance_def is_checkpoint_event_def

lemma mark_resumed_moves:
  assumes "thread_ok w" "thread_later r w"
  shows "moves w (snd (mark_resumed r w i k c))"
  using assms unfolding mark_resumed_def
  by (auto split: option.split dest: get_by_thread_id_Some intro!: commit_row_ok moves_refl simp: change_simps)

lemma mark_terminal_moves:
  assumes "thread_ok w" "thread_later r w"
  shows "moves w (snd (mark_terminal r w i k c n err now))"
  using assms unfolding mark_terminal_def
  by (auto split: option.split dest: get_by_thread_id_Some intro!: commit_row_ok moves_refl simp: change_simps)

lemma update_last_event_sequence_moves:
  assumes "thread_ok w" "thread_later r w"
  shows "moves w (snd (update_last_event_sequence r w i n))"
  using assms unfolding update_last_event_sequence_def
  by (auto split: option.split dest: get_by_thread_id_Some intro!: commit_row_ok moves_refl simp: change_simps)

lemma promote_checkpoint_moves:
  assumes "thread_ok w" "thread_later r w" "pm_event_type cmd \<in> {CHECKPOINT_PROMOTED, RECONCILIATION}"
  shows "moves w (snd (promote_checkpoint r w cmd))"
proof (cases "get_by_thread_id r (pm_thread_id cmd)")
  case None
  then show ?thesis using assms by (simp add: promote_checkpoint_def moves_refl)
next
  case (Some t)
  show ?thesis
  proof (cases "th_status t = TERMINAL \<or> th_state_version t \<noteq> pm_expected_state_version cmd")
    case True
    then show ?thesis using Some assms by (auto simp: promote_checkpoint_def moves_refl)
  next
    case False
    then have "change_ok t (promoted cmd t) [checkpoint_event cmd (pm_event_type cmd) (pm_event_key cmd)]"
      using assms(3) get_by_thread_id_Some [OF Some] by (auto simp: change_simps promoted_def checkpoint_event_def)
    note fl = flush_row_ok [OF _ Some assms(2,1) this]
    show ?thesis using fl Some assms(1)
      by (auto simp: promote_checkpoint_def moves_refl moves_def thread_later_refl split: sum.split option.split)
  qed
qed

lemma single_update_moves:
  assumes "thread_ok w" "get_by_thread_id w i = Some t" "change_ok t t' []" "th_row_version t' = th_row_version t + 1"
  shows "moves w (put_thread w t')"
proof -
  have t: "get_by_thread_id w (th_thread_id t) = Some t" using get_by_thread_id_Some [OF assms(2)] assms(2) by simp
  show ?thesis unfolding moves_def by (rule written_ok [OF assms(1) t assms(3,4)]) (simp_all add: put_thread_def)
qed

lemma claim_boundary_moves: "thread_ok w \<Longrightarrow> moves w (snd (claim_boundary w i c v n s wc))"
  unfolding claim_boundary_def Let_def
  by (auto split: option.split intro!: single_update_moves moves_refl simp: change_simps)

lemma release_override_boundary_moves: "thread_ok w \<Longrightarrow> moves w (snd (release_override_boundary w i c v n))"
  unfolding release_override_boundary_def Let_def
  by (auto split: option.split intro!: single_update_moves moves_refl simp: change_simps)

lemma thread_added_moves:
  assumes ok: "thread_ok w" and new: "get_by_thread_id w i = None"
  shows "moves w (w\<lparr>td_threads := td_threads w @ [new_thread task i], td_events := td_events w @ [created_event i]\<rparr>)" (is "moves w ?w")
proof -
  have ids: "i \<notin> set (map th_thread_id (td_threads w))" using new by (auto simp: get_by_thread_id_def first_match_None)
  have ev: "te_thread_id e \<noteq> i" if "e \<in> set (td_events w)" for e using that ok new by (auto simp: thread_ok_def)
  have get: "get_by_thread_id ?w j = (if j = i then Some (new_thread task i) else get_by_thread_id w j)" for j
    using new by (auto simp: get_by_thread_id_def first_match_append new_thread_def split: option.split)
  have nadv: "\<not> is_advance (created_event i)" by (simp add: is_advance_def is_checkpoint_event_def created_event_def)
  have adv: "advances ?w j = advances w j" for j using nadv by (simp add: advances_def)
  have "advances w i = []" using ev by (auto simp: advances_def filter_empty_conv)
  then have h: "history_ok (advances w i) (new_thread task i)" by (simp add: history_ok_def new_thread_def)
  have "thread_later w ?w" unfolding thread_later_def get using new by auto
  moreover have "thread_ok ?w" unfolding thread_ok_def get adv
    using ok ids ev h by (auto simp: thread_ok_def new_thread_def created_event_def)
  ultimately show ?thesis by (simp add: moves_def)
qed

lemma create_for_task_moves: "thread_ok w \<Longrightarrow> moves w (snd (create_for_task r w task i))"
  unfolding create_for_task_def by (auto split: option.split intro!: thread_added_moves moves_refl)

lemma stage_checkpoint_moves:
  assumes "thread_ok w" "thread_later r w"
  shows "moves w (snd (stage_checkpoint r w cmd))"
proof -
  let ?k = "''staged:'' @ pm_checkpoint_id cmd" and ?i = "pm_thread_id cmd"
  let ?e = "checkpoint_event cmd CHECKPOINT_STAGED ?k"
  have "moves w (w\<lparr>td_events := td_events w @ [?e]\<rparr>)" if e: "event_by_key w ?i ?k = None" "get_by_thread_id r ?i \<noteq> None"
  proof -
    have "get_by_thread_id w ?i \<noteq> None" using e(2) thread_laterD [OF assms(2)] by blast
    moreover have "\<not> is_advance ?e" by (simp add: is_advance_def is_checkpoint_event_def checkpoint_event_def)
    then have "advances (w\<lparr>td_events := td_events w @ [?e]\<rparr>) j = advances w j" for j by (simp add: advances_def)
    ultimately show ?thesis using assms(1) e(1)
      by (auto simp: moves_def thread_ok_def thread_later_def checkpoint_event_def event_by_key_None)
  qed
  then show ?thesis using assms(1) by (auto simp: stage_checkpoint_def Let_def moves_refl split: option.split)
qed
end
