(* ===== verification/Checkpoints.thy ===== *)
theory Checkpoints
  imports Runtime_Threads
begin

text \<open>
  Checkpoints of a runtime thread: the ancestry tests, the runner that promotes a checkpoint after each agent
  (\<open>runtime_threads/runner.py\<close>) and the reconciler that promotes a checkpoint which a crashed worker left behind
  (\<open>runtime_threads/reconciler.py\<close>). What LangGraph streams and what its checkpoint store returns are arguments; the
  event publisher, whose errors the runner ignores, is not modelled. The ancestry loops terminate because each turn adds a
  known checkpoint to those seen.
\<close>

section \<open>Checkpoint records\<close>

record checkpoint_record =
  cr_thread_id :: string
  cr_checkpoint_id :: string
  cr_parent_checkpoint_id :: "string option"
  cr_checkpoint_namespace :: string
  cr_state :: pydict
  cr_serialized_size_bytes :: int

text \<open>\<open>{record.checkpoint_id: record for record in records}\<close>: the last record of an id counts.\<close>

definition record_by_id :: "checkpoint_record list \<Rightarrow> string \<Rightarrow> checkpoint_record option" where
  "record_by_id records i = first_match (\<lambda>r. cr_checkpoint_id r = i) (rev records)"

text \<open>\<open>value == n\<close> for an integer \<open>n\<close>: booleans and floats compare as numbers.\<close>

definition equals_int :: "pyval \<Rightarrow> int \<Rightarrow> bool" where
  "equals_int v n =
     (case v of PInt i \<Rightarrow> i = n | PFloat x \<Rightarrow> x = of_int n | PBool b \<Rightarrow> (if b then 1 else 0) = n | _ \<Rightarrow> False)"

lemma record_by_id_Some: "record_by_id records i = Some r \<Longrightarrow> r \<in> set records \<and> cr_checkpoint_id r = i"
  unfolding record_by_id_def by (auto dest: first_match_SomeD)

function descends_loop :: "checkpoint_record list \<Rightarrow> string \<Rightarrow> string option \<Rightarrow> string list \<Rightarrow> bool" where
  "descends_loop records checkpoint_id parent_id seen =
     (case parent_id of
        None \<Rightarrow> False
      | Some p \<Rightarrow>
          if p \<in> set seen then False
          else if p = checkpoint_id then True
          else (case record_by_id records p of
                  None \<Rightarrow> False
                | Some parent \<Rightarrow> descends_loop records checkpoint_id (cr_parent_checkpoint_id parent) (p # seen)))"
  by pat_completeness auto

lemma seen_decreases:
  assumes "record_by_id records p = Some r" "p \<notin> set seen"
  shows "card (cr_checkpoint_id ` set records - insert p (set seen)) < card (cr_checkpoint_id ` set records - set seen)"
proof (rule psubset_card_mono)
  show "cr_checkpoint_id ` set records - insert p (set seen) \<subset> cr_checkpoint_id ` set records - set seen"
    using record_by_id_Some [OF assms(1)] assms(2) by blast
qed simp

termination descends_loop
  by (relation "measure (\<lambda>(records, _, _, seen). card (cr_checkpoint_id ` set records - set seen))")
    (simp_all add: seen_decreases)

definition checkpoint_descends_from :: "checkpoint_record \<Rightarrow> string \<Rightarrow> checkpoint_record list \<Rightarrow> bool" where
  "checkpoint_descends_from record checkpoint_id records =
     descends_loop records checkpoint_id (cr_parent_checkpoint_id record) []"

function ancestry_loop :: "checkpoint_record list \<Rightarrow> string \<Rightarrow> string option \<Rightarrow> string list \<Rightarrow> bool" where
  "ancestry_loop records thread_id parent_id seen =
     (case parent_id of
        None \<Rightarrow> True
      | Some p \<Rightarrow>
          if p \<in> set seen then False
          else (case record_by_id records p of
                  None \<Rightarrow> False
                | Some parent \<Rightarrow>
                    if cr_thread_id parent \<noteq> thread_id \<or> cr_checkpoint_namespace parent \<noteq> [] then False
                    else if dget (cr_state parent) ''completed_node_count'' \<noteq> PNone \<and>
                            \<not> equals_int (dget (cr_state parent) ''completed_node_count'') 0 then False
                    else ancestry_loop records thread_id (cr_parent_checkpoint_id parent) (p # seen)))"
  by pat_completeness auto
termination
  by (relation "measure (\<lambda>(records, _, _, seen). card (cr_checkpoint_id ` set records - set seen))")
    (simp_all add: seen_decreases)

definition checkpoint_has_initial_ancestry :: "checkpoint_record \<Rightarrow> checkpoint_record list \<Rightarrow> bool" where
  "checkpoint_has_initial_ancestry record records =
     ancestry_loop records (cr_thread_id record) (cr_parent_checkpoint_id record) []"

declare descends_loop.simps [simp del] ancestry_loop.simps [simp del]

lemma descends_loop_simps:
  "\<not> descends_loop rs c None seen"
  "descends_loop rs c (Some p) seen \<longleftrightarrow> p \<notin> set seen \<and>
     (p = c \<or> (\<exists>r. record_by_id rs p = Some r \<and> descends_loop rs c (cr_parent_checkpoint_id r) (p # seen)))"
  by (subst descends_loop.simps, simp, subst descends_loop.simps, auto split: option.split)

section \<open>Descent as a relation\<close>

definition parent_step :: "checkpoint_record list \<Rightarrow> (string \<times> string) set" where
  "parent_step records = {(a, b). \<exists>r. record_by_id records a = Some r \<and> cr_parent_checkpoint_id r = Some b}"

lemma parent_step_unique: "(a, b) \<in> parent_step rs \<Longrightarrow> (a, c) \<in> parent_step rs \<Longrightarrow> b = c"
  by (auto simp: parent_step_def)

lemma descends_loop_sound: "descends_loop rs c parent seen \<Longrightarrow> \<exists>p. parent = Some p \<and> (p, c) \<in> (parent_step rs)\<^sup>*"
proof (induction rs c parent seen rule: descends_loop.induct)
  case (1 rs c parent seen)
  then obtain p where p: "parent = Some p" by (cases parent) (auto simp: descends_loop_simps)
  show ?case
  proof (cases "p = c")
    case False
    then obtain r where r: "record_by_id rs p = Some r" "p \<notin> set seen" "descends_loop rs c (cr_parent_checkpoint_id r) (p # seen)"
      using "1.prems" p by (auto simp: descends_loop_simps)
    then obtain q where q: "cr_parent_checkpoint_id r = Some q" "(q, c) \<in> (parent_step rs)\<^sup>*"
      using "1.IH" [OF p r(2) False r(1,3)] by blast
    then have "(p, q) \<in> parent_step rs" using r by (simp add: parent_step_def)
    then show ?thesis using p q(2) by (auto intro: converse_rtrancl_into_rtrancl)
  qed (simp add: p)
qed

lemma descends_loop_complete:
  assumes "(p, c) \<in> parent_step rs ^^ n" "\<forall>m<n. (p, c) \<notin> parent_step rs ^^ m"
    "\<forall>q\<in>set seen. \<forall>i\<le>n. (p, q) \<notin> parent_step rs ^^ i"
  shows "descends_loop rs c (Some p) seen"
  using assms
proof (induction n arbitrary: p seen)
  case 0
  then have "p = c" "p \<notin> set seen" by auto
  then show ?case by (simp add: descends_loop_simps)
next
  case (Suc n)
  have "(p, p) \<in> parent_step rs ^^ 0" by simp
  then have p: "p \<notin> set seen" "p \<noteq> c" using Suc.prems(2,3) by blast+
  obtain q where q: "(p, q) \<in> parent_step rs" "(q, c) \<in> parent_step rs ^^ n" using Suc.prems(1) relpow_Suc_D2 by fastforce
  then obtain r where r: "record_by_id rs p = Some r" "cr_parent_checkpoint_id r = Some q" by (auto simp: parent_step_def)
  have up: "(p, x) \<in> parent_step rs ^^ Suc i" if "(q, x) \<in> parent_step rs ^^ i" for x i using q(1) that by (rule relpow_Suc_I2)
  have down: "(q, x) \<in> parent_step rs ^^ i" if step: "(p, x) \<in> parent_step rs ^^ Suc i" for x i
  proof -
    obtain q' where "(p, q') \<in> parent_step rs" "(q', x) \<in> parent_step rs ^^ i" using relpow_Suc_D2 [OF step] by blast
    then show ?thesis using parent_step_unique [OF q(1)] by simp
  qed
  have "\<forall>m<n. (q, c) \<notin> parent_step rs ^^ m" using up Suc.prems(2) Suc_mono by blast
  moreover have "\<forall>x\<in>set (p # seen). \<forall>i\<le>n. (q, x) \<notin> parent_step rs ^^ i"
  proof (intro ballI allI impI)
    fix x i assume x: "x \<in> set (p # seen)" "i \<le> n"
    show "(q, x) \<notin> parent_step rs ^^ i"
    proof (cases "x = p")
      case True
      have "(p, c) \<in> parent_step rs ^^ (Suc n - Suc i)" if "(q, p) \<in> parent_step rs ^^ i"
      proof -
        have "(p, p) \<in> parent_step rs ^^ Suc i" using up [OF that] .
        moreover have "(p, c) \<in> parent_step rs ^^ (Suc i + (Suc n - Suc i))" using Suc.prems(1) x(2) by simp
        then obtain y where "(p, y) \<in> parent_step rs ^^ Suc i" "(y, c) \<in> parent_step rs ^^ (Suc n - Suc i)"
          unfolding relpow_add by blast
        moreover have "(a, b) \<in> parent_step rs ^^ k \<Longrightarrow> (a, b') \<in> parent_step rs ^^ k \<Longrightarrow> b = b'" for a b b' k
          by (induction k arbitrary: b b') (auto dest: parent_step_unique)
        ultimately show ?thesis by blast
      qed
      then show ?thesis using Suc.prems(2) True x(2) by (metis Suc_diff_Suc diff_less_Suc diff_Suc_Suc le_imp_less_Suc)
    next
      case False
      then show ?thesis using Suc.prems(3) up x by fastforce
    qed
  qed
  ultimately have "descends_loop rs c (Some q) (p # seen)" by (rule Suc.IH [OF q(2)])
  then show ?case using p r by (simp add: descends_loop_simps)
qed


section \<open>ThreadCheckpointReconciler\<close>

text \<open>
  The states of the model are JSON values, so that the test of \<open>json.dumps\<close> always succeeds. \<open>index\<close> of a node that is not
  in the order raises in the source; the callers pass only nodes of the order.
\<close>

fun next_in_order :: "string list \<Rightarrow> string \<Rightarrow> string option" where
  "next_in_order [] node = None"
| "next_in_order (n # ns) node = (if n = node then (case ns of [] \<Rightarrow> None | m # _ \<Rightarrow> Some m) else next_in_order ns node)"

definition is_continuous :: "string list \<Rightarrow> runtime_thread \<Rightarrow> checkpoint_record \<Rightarrow> bool" where
  "is_continuous order thread record =
     (case (dget (cr_state record) ''last_completed_node'', th_next_node thread) of
        (PStr node, Some next_node) \<Rightarrow>
          node = next_node \<and> node \<in> set order \<and>
          equals_int (dget (cr_state record) ''completed_node_count'') (th_checkpoint_count thread + 1)
      | _ \<Rightarrow> False)"

definition continues :: "runtime_thread \<Rightarrow> checkpoint_record list \<Rightarrow> checkpoint_record \<Rightarrow> bool" where
  "continues thread records record =
     (case th_current_checkpoint_id thread of
        None \<Rightarrow> checkpoint_has_initial_ancestry record records
      | Some c \<Rightarrow> checkpoint_descends_from record c records)"

definition direct_children :: "runtime_thread \<Rightarrow> checkpoint_record list \<Rightarrow> checkpoint_record list" where
  "direct_children thread records =
     filter (\<lambda>record. cr_thread_id record = th_thread_id thread \<and>
               Some (cr_checkpoint_id record) \<noteq> th_current_checkpoint_id thread \<and> continues thread records record) records"

datatype checkpoint_error =
    DIVERGENT_ORPHAN_CHECKPOINTS
  | CHECKPOINT_NAMESPACE_MISMATCH
  | CHECKPOINT_PAYLOAD_TOO_LARGE
  | CHECKPOINT_RECONCILIATION_CONFLICT
  | RUNTIME_THREAD_TERMINAL
  | CANONICAL_CHECKPOINT_MISSING
  | CHECKPOINT_BOUNDARY_MISSING
  | CHECKPOINT_PROMOTION_CONFLICT
  | CHECKPOINT_RUNTIME_FAILURE

definition promotion_of :: "string list \<Rightarrow> string \<Rightarrow> thread_event_type \<Rightarrow> string \<Rightarrow> runtime_thread \<Rightarrow> checkpoint_record \<Rightarrow> string \<Rightarrow>
    promote_checkpoint_command" where
  "promotion_of order consumer event_type key_prefix thread record node =
     \<lparr>pm_thread_id = th_thread_id thread, pm_expected_checkpoint_id = th_current_checkpoint_id thread,
      pm_expected_state_version = th_state_version thread, pm_checkpoint_id = cr_checkpoint_id record,
      pm_parent_checkpoint_id = cr_parent_checkpoint_id record, pm_node = node, pm_next_node = next_in_order order node,
      pm_checkpoint_size_bytes = cr_serialized_size_bytes record, pm_worker_consumer = consumer,
      pm_event_key = key_prefix @ cr_checkpoint_id record, pm_event_type = event_type\<rparr>"

definition thread_reconcile :: "string list \<Rightarrow> int \<Rightarrow> string \<Rightarrow> checkpoint_record list \<Rightarrow> runtime_thread \<Rightarrow> thread_db \<Rightarrow>
    (checkpoint_error + runtime_thread) \<times> thread_db" where
  "thread_reconcile order max_checkpoint_bytes consumer records thread db =
     (if thread_terminal thread \<or> th_next_node thread = None then (Inr thread, db)
      else case filter (is_continuous order thread) (direct_children thread records) of
        [] \<Rightarrow> (Inr thread, db)
      | [candidate] \<Rightarrow>
          if cr_checkpoint_namespace candidate \<noteq> [] then (Inl CHECKPOINT_NAMESPACE_MISMATCH, db)
          else if max_checkpoint_bytes < cr_serialized_size_bytes candidate then (Inl CHECKPOINT_PAYLOAD_TOO_LARGE, db)
          else (case promote_checkpoint db db (promotion_of order consumer RECONCILIATION ''reconcile:'' thread candidate
                       (the (th_next_node thread))) of
                  (Inr t, db') \<Rightarrow> (Inr t, db')
                | (Inl _, db') \<Rightarrow> (Inl CHECKPOINT_RECONCILIATION_CONFLICT, db'))
      | _ \<Rightarrow> (Inl DIVERGENT_ORPHAN_CHECKPOINTS, db))"

section \<open>CheckpointedGraphRunner\<close>

text \<open>One look at the store of \<open>_latest_boundary\<close>, and the looks until the deadline.\<close>

definition boundary_in :: "runtime_thread \<Rightarrow> string \<Rightarrow> checkpoint_record list \<Rightarrow> checkpoint_record option" where
  "boundary_in thread node records =
     first_match (\<lambda>record. cr_thread_id record = th_thread_id thread \<and>
        dget (cr_state record) ''last_completed_node'' = PStr node \<and>
        equals_int (dget (cr_state record) ''completed_node_count'') (th_checkpoint_count thread + 1) \<and>
        Some node = th_next_node thread \<and> continues thread records record) records"

fun latest_boundary :: "runtime_thread \<Rightarrow> string \<Rightarrow> checkpoint_record list list \<Rightarrow> checkpoint_error + checkpoint_record" where
  "latest_boundary thread node [] = Inl CHECKPOINT_BOUNDARY_MISSING"
| "latest_boundary thread node (records # polls) =
     (case boundary_in thread node records of Some record \<Rightarrow> Inr record | None \<Rightarrow> latest_boundary thread node polls)"

definition runner_promote :: "string list \<Rightarrow> int \<Rightarrow> string \<Rightarrow> runtime_thread \<Rightarrow> checkpoint_record \<Rightarrow> string \<Rightarrow> thread_db \<Rightarrow>
    (checkpoint_error + runtime_thread) \<times> thread_db" where
  "runner_promote order max_checkpoint_bytes consumer thread record node db =
     (if cr_checkpoint_namespace record \<noteq> [] then (Inl CHECKPOINT_NAMESPACE_MISMATCH, db)
      else if max_checkpoint_bytes < cr_serialized_size_bytes record then (Inl CHECKPOINT_PAYLOAD_TOO_LARGE, db)
      else case promote_checkpoint db db (promotion_of order consumer CHECKPOINT_PROMOTED ''checkpoint:'' thread record node) of
             (Inr t, db') \<Rightarrow> (Inr t, db')
           | (Inl ThreadVersionConflict, db') \<Rightarrow> (Inl CHECKPOINT_PROMOTION_CONFLICT, db')
           | (Inl _, db') \<Rightarrow> (Inl CHECKPOINT_RUNTIME_FAILURE, db'))"

text \<open>
  The loop over the items of the streamed updates. An update that is not a mapping has no items; the patch of an item that is not a
  mapping is \<open>None\<close>. What the looks at the store return while an item is handled comes with the item.
\<close>

record stream_item =
  si_node :: string
  si_patch :: "pydict option"
  si_polls :: "checkpoint_record list list"

definition accepted :: "string list \<Rightarrow> stream_item \<Rightarrow> bool" where
  "accepted order i \<longleftrightarrow> si_node i \<in> set order \<and> si_patch i \<noteq> None"

fun run_items :: "string list \<Rightarrow> int \<Rightarrow> string \<Rightarrow> runtime_thread \<Rightarrow> pydict \<Rightarrow> stream_item list \<Rightarrow> thread_db \<Rightarrow>
    (checkpoint_error + runtime_thread \<times> pydict) \<times> thread_db" where
  "run_items order max_bytes consumer thread result [] db = (Inr (thread, result), db)"
| "run_items order max_bytes consumer thread result (i # items) db =
     (if \<not> accepted order i then run_items order max_bytes consumer thread result items db
      else case latest_boundary thread (si_node i) (si_polls i) of
        Inl err \<Rightarrow> (Inl err, db)
      | Inr record \<Rightarrow>
          (case runner_promote order max_bytes consumer thread record (si_node i) db of
             (Inl err, db') \<Rightarrow> (Inl err, db')
           | (Inr thread', db') \<Rightarrow>
               run_items order max_bytes consumer thread' (dupdate result (case si_patch i of None \<Rightarrow> [] | Some p \<Rightarrow> p)) items db'))"

definition run_new :: "string list \<Rightarrow> int \<Rightarrow> string \<Rightarrow> runtime_thread \<Rightarrow> pydict \<Rightarrow> stream_item list list \<Rightarrow> thread_db \<Rightarrow>
    (checkpoint_error + pydict) \<times> thread_db" where
  "run_new order max_bytes consumer thread graph_input updates db =
     (case run_items order max_bytes consumer thread graph_input (concat updates) db of
        (Inl err, db') \<Rightarrow> (Inl err, db') | (Inr (_, result), db') \<Rightarrow> (Inr result, db'))"

text \<open>A resumed run starts from an empty result and marks the thread as resumed at the first update.\<close>

definition resume_run :: "string list \<Rightarrow> int \<Rightarrow> string \<Rightarrow> runtime_thread \<Rightarrow> string option \<Rightarrow> stream_item list list \<Rightarrow> thread_db \<Rightarrow>
    (checkpoint_error + pydict) \<times> thread_db" where
  "resume_run order max_bytes consumer thread resume_key updates db =
     (if thread_terminal thread then (Inl RUNTIME_THREAD_TERMINAL, db)
      else case th_current_checkpoint_id thread of
        None \<Rightarrow> (Inl CANONICAL_CHECKPOINT_MISSING, db)
      | Some checkpoint_id \<Rightarrow>
          if updates = [] then (Inr [], db)
          else let key = ''resume:'' @ checkpoint_id @ '':'' @ (case py_or resume_key None of None \<Rightarrow> consumer | Some k \<Rightarrow> k)
               in case mark_resumed db db (th_thread_id thread) key consumer of
                    (Inl _, db') \<Rightarrow> (Inl CHECKPOINT_RUNTIME_FAILURE, db')
                  | (Inr current, db') \<Rightarrow> run_new order max_bytes consumer current [] updates db')"

section \<open>The order of a run\<close>

lemma next_in_order_split: "distinct (pre @ node # post) \<Longrightarrow>
    next_in_order (pre @ node # post) node = (case post of [] \<Rightarrow> None | m # _ \<Rightarrow> Some m)"
  by (induction pre) auto

text \<open>Records as the store keeps them: with distinct ids, and never their own ancestor.\<close>

definition sound_records :: "checkpoint_record list \<Rightarrow> bool" where
  "sound_records records \<longleftrightarrow> distinct (map cr_checkpoint_id records) \<and> acyclic (parent_step records)"

lemma record_by_id_mem:
  assumes "distinct (map cr_checkpoint_id records)" "r \<in> set records"
  shows "record_by_id records (cr_checkpoint_id r) = Some r"
proof -
  have "first_match (\<lambda>u. cr_checkpoint_id u = cr_checkpoint_id r) us = Some r"
    if "distinct (map cr_checkpoint_id us)" "r \<in> set us" for us
    using that by (induction us) (auto simp: rev_image_eqI)
  from this [of "rev records"] show ?thesis using assms by (simp add: record_by_id_def flip: rev_map)
qed

lemma not_own_ancestor:
  assumes "sound_records records" "r \<in> set records"
  shows "\<not> checkpoint_descends_from r (cr_checkpoint_id r) records"
proof
  assume "checkpoint_descends_from r (cr_checkpoint_id r) records"
  then obtain p where p: "cr_parent_checkpoint_id r = Some p" "(p, cr_checkpoint_id r) \<in> (parent_step records)\<^sup>*"
    unfolding checkpoint_descends_from_def using descends_loop_sound by blast
  have "(cr_checkpoint_id r, p) \<in> parent_step records"
    using record_by_id_mem [of records r] assms p(1) by (simp add: sound_records_def parent_step_def)
  then have "(cr_checkpoint_id r, cr_checkpoint_id r) \<in> (parent_step records)\<^sup>+" using p(2) by (rule rtrancl_into_trancl2)
  then show False using assms(1) by (simp add: sound_records_def acyclic_def)
qed

lemma latest_boundary_Inr:
  assumes "latest_boundary thread node polls = Inr record" "\<forall>records\<in>set polls. sound_records records"
  shows "th_next_node thread = Some node \<and> th_current_checkpoint_id thread \<noteq> Some (cr_checkpoint_id record)"
  using assms
proof (induction polls)
  case (Cons records polls)
  show ?case
  proof (cases "boundary_in thread node records")
    case (Some r)
    then have "r = record" using Cons.prems by simp
    moreover have "r \<in> set records" "th_next_node thread = Some node" "continues thread records r"
      using Some unfolding boundary_in_def by (auto dest: first_match_SomeD)
    ultimately show ?thesis using not_own_ancestor [of records r] Cons.prems(2) by (auto simp: continues_def)
  qed (use Cons in simp)
qed simp

lemma runner_promote_Inr:
  assumes "runner_promote order mb c thread record node db = (Inr thread', db')"
    "get_by_thread_id db (th_thread_id thread) = Some thread" "th_current_checkpoint_id thread \<noteq> Some (cr_checkpoint_id record)"
  shows "get_by_thread_id db' (th_thread_id thread) = Some thread' \<and> th_thread_id thread' = th_thread_id thread \<and>
    th_state_version thread' = th_state_version thread + 1 \<and> th_checkpoint_count thread' = th_checkpoint_count thread + 1 \<and>
    th_status thread' = STABLE \<and> th_next_node thread' = next_in_order order node \<and>
    th_current_checkpoint_id thread' = Some (cr_checkpoint_id record)"
proof -
  let ?cmd = "promotion_of order c CHECKPOINT_PROMOTED ''checkpoint:'' thread record node"
  have p: "promote_checkpoint db db ?cmd = (Inr thread', db')"
    using assms(1) by (auto simp: runner_promote_def split: if_splits prod.splits sum.splits thread_error.splits)
  have "flush_row db thread (promoted ?cmd thread) [checkpoint_event ?cmd (pm_event_type ?cmd) (pm_event_key ?cmd)] = Inr (thread', db')"
    using p assms(2,3) unfolding promote_checkpoint_def
    by (auto simp: promotion_of_def split: if_splits sum.splits option.splits prod.splits)
  then have "thread' = (promoted ?cmd thread)\<lparr>th_row_version := th_row_version thread + 1\<rparr>"
    "db' = (put_thread db thread')\<lparr>td_events := td_events db @ [checkpoint_event ?cmd (pm_event_type ?cmd) (pm_event_key ?cmd)]\<rparr>"
    using assms(2) by (auto simp: flush_row_def Let_def split: if_splits)
  then show ?thesis using assms(2) by (simp add: get_put_thread promoted_def promotion_of_def)
qed

lemma split_unique: "xs @ m # ys = xs' @ m # ys' \<Longrightarrow> distinct (xs @ m # ys) \<Longrightarrow> xs = xs'"
proof (induction xs arbitrary: xs')
  case Nil
  then show ?case by (cases xs') auto
next
  case (Cons x xs)
  then show ?case by (cases xs') auto
qed

lemma run_items_order:
  assumes "distinct order" "run_items order mb c thread result items db = (Inr (thread', result'), db')"
    "get_by_thread_id db (th_thread_id thread) = Some thread" "\<forall>i\<in>set items. \<forall>records\<in>set (si_polls i). sound_records records"
  defines "nodes \<equiv> map si_node (filter (accepted order) items)"
  shows "get_by_thread_id db' (th_thread_id thread) = Some thread' \<and>
    th_state_version thread' = th_state_version thread + int (length nodes) \<and>
    th_checkpoint_count thread' = th_checkpoint_count thread + int (length nodes) \<and>
    (if nodes = [] then thread' = thread
     else th_next_node thread = Some (hd nodes) \<and> th_status thread' = STABLE \<and>
       (\<exists>pre post. order = pre @ nodes @ post \<and> th_next_node thread' = (case post of [] \<Rightarrow> None | n # _ \<Rightarrow> Some n)))"
  using assms(2-4) unfolding nodes_def
proof (induction items arbitrary: thread result db)
  case (Cons i items)
  show ?case
  proof (cases "accepted order i")
    case False
    then show ?thesis using Cons by simp
  next
    case True
    let ?ns = "map si_node (filter (accepted order) items)"
    obtain rec t1 db1 where r: "latest_boundary thread (si_node i) (si_polls i) = Inr rec"
      "runner_promote order mb c thread rec (si_node i) db = (Inr t1, db1)"
      "run_items order mb c t1 (dupdate result (case si_patch i of None \<Rightarrow> [] | Some p \<Rightarrow> p)) items db1 = (Inr (thread', result'), db')"
      using Cons.prems(1) True by (auto split: sum.splits prod.splits)
    have n: "th_next_node thread = Some (si_node i)" "th_current_checkpoint_id thread \<noteq> Some (cr_checkpoint_id rec)"
      using latest_boundary_Inr [OF r(1)] Cons.prems(3) by auto
    note t1 = runner_promote_Inr [OF r(2) Cons.prems(2) n(2)]
    have IH: "get_by_thread_id db' (th_thread_id t1) = Some thread' \<and>
      th_state_version thread' = th_state_version t1 + int (length ?ns) \<and>
      th_checkpoint_count thread' = th_checkpoint_count t1 + int (length ?ns) \<and>
      (if ?ns = [] then thread' = t1
       else th_next_node t1 = Some (hd ?ns) \<and> th_status thread' = STABLE \<and>
         (\<exists>pre post. order = pre @ ?ns @ post \<and> th_next_node thread' = (case post of [] \<Rightarrow> None | n # _ \<Rightarrow> Some n)))"
      by (rule Cons.IH [OF r(3)]) (use t1 Cons.prems(3) in auto)
    obtain pre rest where ord: "order = pre @ si_node i # rest" using True by (auto simp: accepted_def dest: split_list)
    have nx: "th_next_node t1 = (case rest of [] \<Rightarrow> None | m # _ \<Rightarrow> Some m)"
      using t1 next_in_order_split [of pre "si_node i" rest] assms(1) ord by simp
    have "\<exists>pre post. order = pre @ (si_node i # ?ns) @ post \<and> th_next_node thread' = (case post of [] \<Rightarrow> None | n # _ \<Rightarrow> Some n)"
    proof (cases "?ns = []")
      case True
      then show ?thesis using IH nx ord by auto
    next
      case False
      then obtain pre2 post where p: "order = pre2 @ ?ns @ post" "th_next_node thread' = (case post of [] \<Rightarrow> None | n # _ \<Rightarrow> Some n)"
        "th_next_node t1 = Some (hd ?ns)" using IH by auto
      obtain m ms where m: "?ns = m # ms" using False by (cases ?ns) auto
      then obtain rs where rest: "rest = m # rs" using nx p(3) by (cases rest) auto
      have "pre2 @ m # (ms @ post) = (pre @ [si_node i]) @ m # rs" using p(1) ord m rest by simp
      moreover have "distinct (pre2 @ m # (ms @ post))" using assms(1) p(1) m by simp
      ultimately have "pre2 = pre @ [si_node i]" by (rule split_unique)
      then show ?thesis using p m by auto
    qed
    then show ?thesis using True t1 IH n(1) by (auto split: if_splits)
  qed
qed simp

section \<open>A sample run\<close>

definition sample_thread :: runtime_thread where
  "sample_thread = new_thread ''T1'' ''cf:dispatch:T1''"

definition sample_thread_db :: thread_db where
  "sample_thread_db = \<lparr>td_tasks = [''T1''], td_threads = [sample_thread], td_events = [created_event ''cf:dispatch:T1'']\<rparr>"

definition sample_checkpoint :: checkpoint_record where
  "sample_checkpoint =
     \<lparr>cr_thread_id = ''cf:dispatch:T1'', cr_checkpoint_id = ''c1'', cr_parent_checkpoint_id = None, cr_checkpoint_namespace = [],
      cr_state = [(''last_completed_node'', PStr ''intake''), (''completed_node_count'', PInt 1)], cr_serialized_size_bytes = 10\<rparr>"

definition sample_item :: stream_item where
  "sample_item = \<lparr>si_node = ''intake'', si_patch = Some [], si_polls = [[sample_checkpoint]]\<rparr>"

lemma sample_records_sound: "sound_records [sample_checkpoint]"
proof -
  have "parent_step [sample_checkpoint] = {}"
    by (auto simp: parent_step_def record_by_id_def sample_checkpoint_def)
  then show ?thesis by (simp add: sound_records_def acyclic_def)
qed

lemma sample_found: "get_by_thread_id sample_thread_db (th_thread_id sample_thread) = Some sample_thread"
  by (simp add: get_by_thread_id_def sample_thread_db_def)

lemma sample_run:
  "\<exists>db'. run_new [''intake'', ''audit''] 100 ''w1'' sample_thread [] [[sample_item]] sample_thread_db = (Inr [], db')"
proof -
  have "fst (run_new [''intake'', ''audit''] 100 ''w1'' sample_thread [] [[sample_item]] sample_thread_db) = Inr []" by code_simp
  then show ?thesis by (metis prod.collapse)
qed

section \<open>Properties of checkpoints\<close>

text \<open>
  C20. The search for ancestors, which stops at the first repeated checkpoint, always terminates and is exact even on records whose parents form a cycle:
  a record descends from a checkpoint if and only if the checkpoint is reached from the parent of the record by
  following parents any number of times.
\<close>

theorem checkpoint_descent_exact:
  "checkpoint_descends_from record checkpoint_id records \<longleftrightarrow>
     (\<exists>p. cr_parent_checkpoint_id record = Some p \<and> (p, checkpoint_id) \<in> (parent_step records)\<^sup>*)"
proof (cases "cr_parent_checkpoint_id record")
  case None
  then show ?thesis by (simp add: checkpoint_descends_from_def descends_loop_simps)
next
  case (Some p)
  have "descends_loop records checkpoint_id (Some p) []" if reach: "(p, checkpoint_id) \<in> (parent_step records)\<^sup>*"
  proof -
    obtain n where n: "(p, checkpoint_id) \<in> parent_step records ^^ n" using reach unfolding rtrancl_power by blast
    define m where "m = (LEAST k. (p, checkpoint_id) \<in> parent_step records ^^ k)"
    have "(p, checkpoint_id) \<in> parent_step records ^^ m" unfolding m_def by (rule LeastI [where P = "\<lambda>k. (p, checkpoint_id) \<in> parent_step records ^^ k", OF n])
    moreover have "\<forall>k<m. (p, checkpoint_id) \<notin> parent_step records ^^ k" unfolding m_def using not_less_Least by blast
    ultimately show ?thesis by (rule descends_loop_complete) simp
  qed
  then show ?thesis using Some descends_loop_sound by (fastforce simp: checkpoint_descends_from_def)
qed

text \<open>
  C17. A run promotes checkpoints in the order of the graph. Whenever a run returns, on a store whose checkpoints have distinct ids and are
  never their own ancestors, the agents whose patches were taken are a contiguous section of the order that starts at the next node
  of the thread; the thread has one more version and one more checkpoint for each of them, and its next node is the one that follows the section.
\<close>

theorem run_promotes_in_order:
  assumes "distinct order" and "get_by_thread_id db (th_thread_id thread) = Some thread"
    and "\<forall>i\<in>set (concat updates). \<forall>records\<in>set (si_polls i). sound_records records"
    and "run_new order max_bytes consumer thread graph_input updates db = (Inr result, db')"
  shows "\<exists>thread'. get_by_thread_id db' (th_thread_id thread) = Some thread' \<and>
    (let nodes = map si_node (filter (accepted order) (concat updates))
     in th_state_version thread' = th_state_version thread + int (length nodes) \<and>
        th_checkpoint_count thread' = th_checkpoint_count thread + int (length nodes) \<and>
        (if nodes = [] then thread' = thread
         else th_next_node thread = Some (hd nodes) \<and> th_status thread' = STABLE \<and>
           (\<exists>pre post. order = pre @ nodes @ post \<and> th_next_node thread' = (case post of [] \<Rightarrow> None | n # _ \<Rightarrow> Some n))))"
proof -
  obtain thread' where "run_items order max_bytes consumer thread graph_input (concat updates) db = (Inr (thread', result), db')"
    using assms(4) by (auto simp: run_new_def split: sum.splits prod.splits)
  from run_items_order [OF assms(1) this assms(2,3)] show ?thesis unfolding Let_def by blast
qed

theorem run_promotes_in_order_witness:
  "\<exists>db' t. run_new [''intake'', ''audit''] 100 ''w1'' sample_thread [] [[sample_item]] sample_thread_db = (Inr [], db') \<and>
     get_by_thread_id db' ''cf:dispatch:T1'' = Some t \<and> th_next_node t = Some ''audit'' \<and> th_state_version t = 1"
proof -
  obtain db' where r: "run_new [''intake'', ''audit''] 100 ''w1'' sample_thread [] [[sample_item]] sample_thread_db = (Inr [], db')"
    using sample_run by blast
  have "\<forall>i\<in>set (concat [[sample_item]]). \<forall>records\<in>set (si_polls i). sound_records records"
    by (simp add: sample_item_def sample_records_sound)
  moreover have "map si_node (filter (accepted [''intake'', ''audit'']) (concat [[sample_item]])) = [''intake'']"
    "th_thread_id sample_thread = ''cf:dispatch:T1''" "th_state_version sample_thread = 0" by code_simp+
  moreover have "th_next_node t = Some ''audit''"
    if "[''intake'', ''audit''] = pre @ [''intake''] @ post" "th_next_node t = (case post of [] \<Rightarrow> None | n # _ \<Rightarrow> Some n)" for pre post t
    using that by (cases pre; cases "tl pre") auto
  ultimately show ?thesis
    using run_promotes_in_order [OF _ sample_found _ r] r by (fastforce simp: Let_def)
qed

text \<open>
  C21. Reconciling promotes at most the one checkpoint that continues the thread. It either leaves the tables as they are, or exactly one
  record of the thread descends from its checkpoint with the next node and the next count, and the thread is now at this record with one more version
  and checkpoint. Two or more such records are an error and change nothing.
\<close>

theorem reconcile_promotes_unique:
  assumes "get_by_thread_id db (th_thread_id thread) = Some thread"
    and "thread_reconcile order max_bytes consumer records thread db = (res, db')"
  defines "children \<equiv> filter (is_continuous order thread) (direct_children thread records)"
  shows "(db' = db \<or> (\<exists>c t node. children = [c] \<and> res = Inr t \<and> th_next_node thread = Some node \<and>
       get_by_thread_id db' (th_thread_id thread) = Some t \<and> th_current_checkpoint_id t = Some (cr_checkpoint_id c) \<and>
       th_current_node t = Some node \<and> th_next_node t = next_in_order order node \<and>
       th_state_version t = th_state_version thread + 1 \<and> th_checkpoint_count t = th_checkpoint_count thread + 1)) \<and>
    (th_status thread \<noteq> TERMINAL \<longrightarrow> 2 \<le> length children \<longrightarrow> res = Inl DIVERGENT_ORPHAN_CHECKPOINTS \<and> db' = db)"
proof -
  have cont: "\<exists>node. th_next_node thread = Some node" if "c \<in> set children" for c
    using that by (auto simp: children_def is_continuous_def split: pyval.splits option.splits)
  have unfolded: "thread_reconcile order max_bytes consumer records thread db = (if thread_terminal thread \<or> th_next_node thread = None then (Inr thread, db)
      else case children of
        [] \<Rightarrow> (Inr thread, db)
      | [c] \<Rightarrow>
          if cr_checkpoint_namespace c \<noteq> [] then (Inl CHECKPOINT_NAMESPACE_MISMATCH, db)
          else if max_bytes < cr_serialized_size_bytes c then (Inl CHECKPOINT_PAYLOAD_TOO_LARGE, db)
          else (case promote_checkpoint db db (promotion_of order consumer RECONCILIATION ''reconcile:'' thread c (the (th_next_node thread))) of
                  (Inr t, db') \<Rightarrow> (Inr t, db') | (Inl _, db') \<Rightarrow> (Inl CHECKPOINT_RECONCILIATION_CONFLICT, db'))
      | _ \<Rightarrow> (Inl DIVERGENT_ORPHAN_CHECKPOINTS, db))"
    by (simp add: thread_reconcile_def children_def)
  show ?thesis
  proof (cases "thread_terminal thread \<or> th_next_node thread = None")
    case True
    then have "db' = db" using assms(2) unfolded by simp
    moreover have "children = []" if "th_status thread \<noteq> TERMINAL" using that True cont by (cases children) (auto simp: thread_terminal_def)
    ultimately show ?thesis by auto
  next
    case False
    then obtain node where node: "th_next_node thread = Some node" by auto
    consider "children = []" | c where "children = [c]" | a b cs where "children = a # b # cs"
      by (cases children; cases "tl children") auto
    then show ?thesis
    proof cases
      case (2 c)
      let ?cmd = "promotion_of order consumer RECONCILIATION ''reconcile:'' thread c node"
      have "c \<in> set (direct_children thread records)" using 2 by (metis children_def filter_is_subset list.set_intros(1) subsetD)
      then have nc: "th_current_checkpoint_id thread \<noteq> Some (cr_checkpoint_id c)" by (auto simp: direct_children_def)
      show ?thesis
      proof (cases "flush_row db thread (promoted ?cmd thread) [checkpoint_event ?cmd (pm_event_type ?cmd) (pm_event_key ?cmd)]")
        case (Inl e)
        moreover have "get_by_thread_id db (pm_thread_id ?cmd) = Some thread" using assms(1) by (simp add: promotion_of_def)
        ultimately have "snd (promote_checkpoint db db ?cmd) = db" by (simp add: promote_checkpoint_def)
        then have "db' = db" using assms(2) False 2 node unfolded by (auto split: if_splits prod.splits sum.splits)
        then show ?thesis using 2 by simp
      next
        case (Inr p)
        obtain t db1 where p: "p = (t, db1)" by fastforce
        then have t: "t = (promoted ?cmd thread)\<lparr>th_row_version := th_row_version thread + 1\<rparr>"
          "db1 = (put_thread db t)\<lparr>td_events := td_events db @ [checkpoint_event ?cmd (pm_event_type ?cmd) (pm_event_key ?cmd)]\<rparr>"
          using Inr assms(1) by (auto simp: flush_row_def Let_def split: if_splits)
        have "promote_checkpoint db db ?cmd = (Inr t, db1)"
          using assms(1) nc Inr p False by (simp add: promote_checkpoint_def promotion_of_def thread_terminal_def)
        then have "db' = db \<or> res = Inr t \<and> db' = db1" using assms(2) False 2 node unfolded by (auto split: if_splits)
        then show ?thesis using 2 node assms(1) t by (auto simp: get_put_thread promoted_def promotion_of_def)
      qed
    qed (use assms(2) False unfolded in auto)
  qed
qed

theorem reconcile_promotes_unique_witness:
  "\<exists>db' t. thread_reconcile [''intake'', ''audit''] 100 ''w1'' [sample_checkpoint] sample_thread sample_thread_db = (Inr t, db') \<and>
     th_current_checkpoint_id t = Some ''c1''"
proof -
  let ?r = "thread_reconcile [''intake'', ''audit''] 100 ''w1'' [sample_checkpoint] sample_thread sample_thread_db"
  have d: "map th_state_version (td_threads (snd ?r)) = [1]" by code_simp
  have "map th_state_version (td_threads sample_thread_db) = [0]" by code_simp
  then have "snd ?r \<noteq> sample_thread_db" using d by auto
  moreover have "cr_checkpoint_id sample_checkpoint = ''c1''" by code_simp
  moreover have "filter (is_continuous [''intake'', ''audit''] sample_thread) (direct_children sample_thread [sample_checkpoint]) = [sample_checkpoint]"
    by code_simp
  ultimately show ?thesis
    using reconcile_promotes_unique [OF sample_found, of "[''intake'', ''audit'']" 100 "''w1''" "[sample_checkpoint]" "fst ?r" "snd ?r"]
    by (cases ?r) auto
qed

end
