(* ===== verification/Stale_Reads.thy ===== *)
theory Stale_Reads
  imports Main
begin

text \<open>
  Transactions that read at one moment and write at another. A repository method opens a session, reads the rows it needs
  and flushes its changes later, when other sessions may have changed the tables. \<open>stale_step\<close> interleaves any number of
  such methods; the locale \<open>stale_reads\<close> is the contract under which the interleaving keeps an invariant: the
  write of a method, checked against the row versions it read, leads to a later state in which the invariant still holds.
\<close>

inductive stale_step :: "('op \<Rightarrow> bool) \<Rightarrow> ('op \<Rightarrow> 'db \<Rightarrow> 'db \<Rightarrow> 'db) \<Rightarrow> 'db \<times> ('op \<times> 'db) list \<Rightarrow>
    'db \<times> ('op \<times> 'db) list \<Rightarrow> bool" for valid exec where
  session_read: "valid op \<Longrightarrow> stale_step valid exec (db, ps) (db, (op, db) # ps)"
| session_write: "(op, r) \<in> set ps \<Longrightarrow> stale_step valid exec (db, ps) (exec op r db, remove1 (op, r) ps)"

inductive_cases stale_stepE: "stale_step valid exec (db, ps) s"

locale stale_reads =
  fixes valid :: "'op \<Rightarrow> bool" and exec :: "'op \<Rightarrow> 'db \<Rightarrow> 'db \<Rightarrow> 'db" and later :: "'db \<Rightarrow> 'db \<Rightarrow> bool"
    and ok :: "'db \<Rightarrow> bool"
  assumes later_refl: "later db db"
    and later_trans: "later a b \<Longrightarrow> later b c \<Longrightarrow> later a c"
    and exec_ok: "valid op \<Longrightarrow> ok r \<Longrightarrow> ok db \<Longrightarrow> later r db \<Longrightarrow> ok (exec op r db)"
    and exec_later: "valid op \<Longrightarrow> ok r \<Longrightarrow> ok db \<Longrightarrow> later r db \<Longrightarrow> later db (exec op r db)"
begin

lemma step_invariant:
  assumes "stale_step valid exec s s'"
    and "ok (fst s)" "later db0 (fst s)" "\<forall>(op, r)\<in>set (snd s). valid op \<and> ok r \<and> later r (fst s)"
  shows "ok (fst s') \<and> later db0 (fst s') \<and> (\<forall>(op, r)\<in>set (snd s'). valid op \<and> ok r \<and> later r (fst s'))"
  using assms
proof (cases rule: stale_step.cases)
  case (session_read op db ps)
  then show ?thesis using assms later_refl by auto
next
  case (session_write op r ps db)
  then have v: "valid op" "ok r" "ok db" "later r db" "later db0 db" using assms by auto
  have "later q (exec op r db)" if "later q db" for q
    using later_trans [OF that exec_later [OF v(1-4)]] .
  then show ?thesis using session_write assms(4) v(5) exec_ok [OF v(1-4)] by (auto dest: notin_set_remove1)
qed

lemma reachable_invariant:
  assumes "(stale_step valid exec)\<^sup>*\<^sup>* (db0, []) s" "ok db0"
  shows "ok (fst s) \<and> later db0 (fst s) \<and> (\<forall>(op, r)\<in>set (snd s). valid op \<and> ok r \<and> later r (fst s))"
  using assms(1)
proof (induction rule: rtranclp_induct)
  case base
  show ?case using assms(2) later_refl by simp
next
  case (step s s')
  then show ?case using step_invariant [OF step.hyps(2), of db0] by blast
qed

lemma later_between:
  assumes "(stale_step valid exec)\<^sup>*\<^sup>* (db0, []) s" "(stale_step valid exec)\<^sup>*\<^sup>* s s'" "ok db0"
  shows "ok (fst s') \<and> later (fst s) (fst s')"
  using assms(2)
proof (induction rule: rtranclp_induct)
  case base
  show ?case using reachable_invariant [OF assms(1,3)] later_refl by simp
next
  case (step s1 s2)
  have "(stale_step valid exec)\<^sup>*\<^sup>* (db0, []) s1" using assms(1) step.hyps(1) by simp
  from reachable_invariant [OF this assms(3)] show ?case using step_invariant [OF step.hyps(2), of "fst s"] step.IH by blast
qed

end

end
