(* ===== verification/Permissions.thy ===== *)
theory Permissions
  imports Prelude
begin

text \<open>
  Roles, permissions and the matrix between them (\<open>security/permissions.py\<close>), and the principal that a verified token
  yields (\<open>security/models.py\<close>). The verification of tokens rests on a cryptographic library and is not modelled.
\<close>

datatype role = EMPLOYEE | DISPATCHER | SUPERVISOR | OPERATOR | AUDITOR | ADMIN

datatype permission =
    DISPATCH_READ | DISPATCH_CREATE | DISPATCH_REVIEW | ORDERS_READ | ANOMALIES_READ | ANOMALIES_REPORT | AGENTS_READ
  | MEMORY_READ | MEMORY_MUTATE | RUNTIME_READ | RUNTIME_OVERRIDE | AUDIT_READ | MONITOR_READ | SYSTEM_ADMIN

definition role_value :: "role \<Rightarrow> string" where
  "role_value r =
     (case r of EMPLOYEE \<Rightarrow> ''EMPLOYEE'' | DISPATCHER \<Rightarrow> ''DISPATCHER'' | SUPERVISOR \<Rightarrow> ''SUPERVISOR''
      | OPERATOR \<Rightarrow> ''OPERATOR'' | AUDITOR \<Rightarrow> ''AUDITOR'' | ADMIN \<Rightarrow> ''ADMIN'')"

definition all_roles :: "role list" where
  "all_roles = [EMPLOYEE, DISPATCHER, SUPERVISOR, OPERATOR, AUDITOR, ADMIN]"

definition all_permissions :: "permission list" where
  "all_permissions =
     [DISPATCH_READ, DISPATCH_CREATE, DISPATCH_REVIEW, ORDERS_READ, ANOMALIES_READ, ANOMALIES_REPORT, AGENTS_READ,
      MEMORY_READ, MEMORY_MUTATE, RUNTIME_READ, RUNTIME_OVERRIDE, AUDIT_READ, MONITOR_READ, SYSTEM_ADMIN]"

definition dispatcher_permissions :: "permission set" where
  "dispatcher_permissions = {DISPATCH_READ, DISPATCH_CREATE, ORDERS_READ, ANOMALIES_READ, AGENTS_READ, MEMORY_READ}"

definition role_permission_matrix :: "role \<Rightarrow> permission set" where
  "role_permission_matrix r =
     (case r of
        EMPLOYEE \<Rightarrow> {DISPATCH_READ, ANOMALIES_REPORT}
      | DISPATCHER \<Rightarrow> dispatcher_permissions
      | SUPERVISOR \<Rightarrow>
          dispatcher_permissions \<union>
          {DISPATCH_REVIEW, MEMORY_MUTATE, RUNTIME_READ, RUNTIME_OVERRIDE, AUDIT_READ, MONITOR_READ}
      | OPERATOR \<Rightarrow> {AGENTS_READ, RUNTIME_READ, AUDIT_READ, MONITOR_READ}
      | AUDITOR \<Rightarrow> {MEMORY_READ, RUNTIME_READ, AUDIT_READ, MONITOR_READ}
      | ADMIN \<Rightarrow> set all_permissions)"

text \<open>\<open>Role(value)\<close>, with \<open>None\<close> for the \<open>ValueError\<close>.\<close>

definition role_of_value :: "string \<Rightarrow> role option" where
  "role_of_value v = first_match (\<lambda>r. role_value r = v) all_roles"

fun permissions_for_roles :: "string list \<Rightarrow> permission set \<times> string list" where
  "permissions_for_roles [] = ({}, [])"
| "permissions_for_roles (v # vs) =
     (let (permissions, unknown) = permissions_for_roles vs
      in case role_of_value v of
           None \<Rightarrow> (permissions, v # unknown)
         | Some r \<Rightarrow> (role_permission_matrix r \<union> permissions, unknown))"

record principal =
  pp_subject_id :: string
  pp_roles :: "role list"
  pp_permissions :: "permission set"

definition can :: "principal \<Rightarrow> permission \<Rightarrow> bool" where
  "can p permission \<longleftrightarrow> permission \<in> pp_permissions p"

lemma role_of_value_Some: "role_of_value v = Some r \<longleftrightarrow> v = role_value r"
proof
  show "role_of_value v = Some r \<Longrightarrow> v = role_value r" by (auto simp: role_of_value_def dest: first_match_SomeD)
  show "v = role_value r \<Longrightarrow> role_of_value v = Some r"
    by (cases r) (simp_all add: role_of_value_def all_roles_def role_value_def)
qed

lemma permissions_for_roles_iff:
  "p \<in> fst (permissions_for_roles vs) \<longleftrightarrow> (\<exists>r. role_value r \<in> set vs \<and> p \<in> role_permission_matrix r)"
proof (induction vs)
  case (Cons v vs)
  show ?case
  proof (cases "role_of_value v")
    case None
    then have "v \<noteq> role_value r" for r using role_of_value_Some [of v r] by auto
    then show ?thesis using Cons None by (auto simp: Let_def split: prod.splits)
  next
    case (Some q)
    then have v: "role_value r = v \<longleftrightarrow> r = q" for r using role_of_value_Some [of v r] by auto
    have "(\<exists>r. role_value r \<in> set (v # vs) \<and> p \<in> role_permission_matrix r) \<longleftrightarrow>
        p \<in> role_permission_matrix q \<or> (\<exists>r. role_value r \<in> set vs \<and> p \<in> role_permission_matrix r)"
      using v by auto
    then show ?thesis using Cons Some by (auto simp: Let_def split: prod.splits)
  qed
qed simp

lemma override_roles: "RUNTIME_OVERRIDE \<in> role_permission_matrix r \<longleftrightarrow> r \<in> {SUPERVISOR, ADMIN}"
  by (cases r) (simp_all add: role_permission_matrix_def dispatcher_permissions_def all_permissions_def)

lemma review_roles: "DISPATCH_REVIEW \<in> role_permission_matrix r \<longleftrightarrow> r \<in> {SUPERVISOR, ADMIN}"
  by (cases r) (simp_all add: role_permission_matrix_def dispatcher_permissions_def all_permissions_def)

end
