(* ===== verification/Runtime_Overrides.thy ===== *)
theory Runtime_Overrides
  imports Checkpoints Sha256 Stale_Reads Permissions
begin

text \<open>
  Runtime overrides: an operator changes the status of a vehicle while a task is under way. The theory models the tables of
  \<open>models/runtime_override.py\<close>, the policy, the repository, the checkpoint update, the service and the reconciler of
  \<open>runtime_overrides/\<close>. The methods of the repository read from \<open>r\<close> and write to \<open>w\<close>, as those of the threads do; the
  service lets other sessions commit before each of its accesses. The metrics, the timings, the \<open>publish_requested\<close> event,
  whose errors are ignored, and the random ids of attempts and events are not modelled.
\<close>

section \<open>Data: runtime\_overrides/models.py and models/runtime\_override.py\<close>

datatype override_status = PENDING | APPLYING | APPLIED | REJECTED | CONFLICT | PARTIAL | FAILED

datatype override_decision = ALLOWED | DECISION_REJECTED | NEEDS_DIFFERENT_BOUNDARY

record override_request =
  oq_idempotency_key :: string
  oq_entity_type :: string
  oq_entity_id :: string
  oq_field :: string
  oq_old_value :: string
  oq_new_value :: string
  oq_reason :: string
  oq_expected_version :: int
  oq_expected_next_node :: "string option"

record override_command =
  oc_override_id :: string
  oc_thread_id :: string
  oc_request :: override_request
  oc_operator_id :: string
  oc_operator_role :: string
  oc_operator_permissions :: "permission set"
  oc_requested_at :: int

record runtime_override =
  ro_override_id :: string
  ro_thread_id :: string
  ro_task_id :: string
  ro_operator_id :: string
  ro_operator_role :: string
  ro_request :: override_request
  ro_payload_fingerprint :: string
  ro_before_state_version :: "int option"
  ro_after_state_version :: "int option"
  ro_decision :: "override_decision option"
  ro_status :: override_status
  ro_source_checkpoint_id :: "string option"
  ro_result_checkpoint_id :: "string option"
  ro_event_status :: string
  ro_intent_expires_at :: int
  ro_error_code :: "string option"
  ro_error_summary :: "string option"
  ro_requested_at :: int
  ro_started_at :: "int option"
  ro_completed_at :: "int option"

record override_attempt =
  ra_override_id :: string
  ra_attempt_no :: int
  ra_operation :: string
  ra_status :: override_status
  ra_observed_state_version :: "int option"
  ra_source_checkpoint_id :: "string option"
  ra_result_checkpoint_id :: "string option"
  ra_error_code :: "string option"
  ra_error_summary :: "string option"
  ra_started_at :: int
  ra_completed_at :: "int option"

record override_db =
  ov_threads :: thread_db
  ov_overrides :: "runtime_override list"
  ov_attempts :: "override_attempt list"

text \<open>
  The errors that leave a method, and the codes of \<open>RuntimeOverrideServiceError\<close>. The \<open>ValueError\<close> of a command that is
  not well formed and the \<open>IndexError\<close> of a principal without roles are \<open>InvalidCommand\<close> and \<open>NoRole\<close>.
\<close>

datatype override_error =
    UnknownOverride
  | OverrideThreadUnknown
  | OverrideIdempotencyConflict
  | OverrideIntegrityError
  | InvalidTransition
  | ResultConflict
  | OverrideVersionConflict
  | InvalidStatus
  | OverrideForbidden
  | InvalidCommand
  | NoRole
  | BoundaryReleaseFailed
  | UpdateCrashed

section \<open>Policy: runtime\_overrides/policy.py\<close>

definition allowed_transitions :: "(string \<times> string) list" where
  "allowed_transitions = [(''NORMAL'', ''BROKEN''), (''NORMAL'', ''UNAVAILABLE''), (''NORMAL'', ''MAINTENANCE'')]"

definition policy_evaluate :: "override_request \<Rightarrow> runtime_thread \<Rightarrow> pydict \<Rightarrow> override_decision \<times> string option" where
  "policy_evaluate rq thread state =
     (if th_status thread = TERMINAL then (DECISION_REJECTED, Some ''THREAD_TERMINAL'')
      else if th_status thread \<noteq> STABLE then (NEEDS_DIFFERENT_BOUNDARY, Some ''THREAD_NOT_STABLE'')
      else if (oq_entity_type rq, oq_field rq) \<noteq> (''Vehicle'', ''status'') then (DECISION_REJECTED, Some ''OVERRIDE_FIELD_NOT_ALLOWED'')
      else if (th_current_node thread, th_next_node thread) \<noteq> (Some ''environment'', Some ''capacity'')
      then (NEEDS_DIFFERENT_BOUNDARY, Some ''THREAD_NOT_STABLE'')
      else if oq_expected_next_node rq \<noteq> None \<and> oq_expected_next_node rq \<noteq> th_next_node thread
      then (NEEDS_DIFFERENT_BOUNDARY, Some ''RUNTIME_NEXT_NODE_CONFLICT'')
      else if (oq_old_value rq, oq_new_value rq) \<notin> set allowed_transitions then (DECISION_REJECTED, Some ''OVERRIDE_VALUE_INVALID'')
      else if dget state ''vehicle_id'' \<noteq> PStr (oq_entity_id rq) then (DECISION_REJECTED, Some ''RUNTIME_STATE_PRECONDITION_FAILED'')
      else if dget state ''vehicle_status'' \<noteq> PStr (oq_old_value rq) then (DECISION_REJECTED, Some ''RUNTIME_STATE_PRECONDITION_FAILED'')
      else (ALLOWED, None))"

section \<open>Identity: runtime\_overrides/identity.py\<close>

text \<open>\<open>json.dumps(d, ensure_ascii=False, separators=(",", ":"), sort_keys=True)\<close> of a flat dictionary.\<close>

definition json_flat :: "pydict \<Rightarrow> string" where
  "json_flat d = ''{'' @ join '','' (map (\<lambda>(k, v). json_string k @ '':'' @ json_dumps v) (sort_key fst d)) @ ''}''"

definition to_fingerprint_dict :: "override_command \<Rightarrow> pydict" where
  "to_fingerprint_dict cmd =
     (let rq = oc_request cmd
      in [(''thread_id'', PStr (oc_thread_id cmd)), (''entity_type'', PStr (oq_entity_type rq)),
          (''entity_id'', PStr (oq_entity_id rq)), (''field'', PStr (oq_field rq)), (''old_value'', PStr (oq_old_value rq)),
          (''new_value'', PStr (oq_new_value rq)), (''reason'', PStr (oq_reason rq)),
          (''expected_version'', PInt (oq_expected_version rq)), (''expected_next_node'', opt_str (oq_expected_next_node rq))])"

definition payload_fingerprint :: "override_command \<Rightarrow> string" where
  "payload_fingerprint cmd = sha256_hex (json_flat (to_fingerprint_dict cmd))"

text \<open>
  \<open>RuntimeOverrideCommand.__post_init__\<close>. The limits are in characters; the model's text is UTF-8, of which
  \<open>char_count\<close> counts the bytes that do not continue a character.
\<close>

definition char_count :: "string \<Rightarrow> nat" where
  "char_count s = length (filter (\<lambda>c. \<not> (128 \<le> (of_char c :: nat) \<and> (of_char c :: nat) < 192)) s)"

definition bounded_text :: "string \<Rightarrow> nat \<Rightarrow> bool" where
  "bounded_text s n \<longleftrightarrow> s \<noteq> [] \<and> char_count s \<le> n"

definition command_ok :: "override_command \<Rightarrow> bool" where
  "command_ok cmd \<longleftrightarrow>
     (let rq = oc_request cmd
      in bounded_text (oc_override_id cmd) 36 \<and> bounded_text (oq_idempotency_key rq) 128 \<and> bounded_text (oc_thread_id cmd) 96 \<and>
         bounded_text (oq_entity_type rq) 32 \<and> bounded_text (oq_entity_id rq) 128 \<and> bounded_text (oq_field rq) 64 \<and>
         bounded_text (oq_reason rq) 512 \<and> bounded_text (oc_operator_id cmd) 128 \<and> bounded_text (oc_operator_role cmd) 64 \<and>
         0 \<le> oq_expected_version rq \<and> oq_expected_next_node rq \<noteq> Some [])"

section \<open>SqlAlchemyRuntimeOverrideRepository\<close>

definition find_override :: "override_db \<Rightarrow> string \<Rightarrow> runtime_override option" where
  "find_override db override_id = first_match (\<lambda>row. ro_override_id row = override_id) (ov_overrides db)"

definition override_by_key :: "override_db \<Rightarrow> string \<Rightarrow> runtime_override option" where
  "override_by_key db key = first_match (\<lambda>row. oq_idempotency_key (ro_request row) = key) (ov_overrides db)"

text \<open>A row is written by its primary key, without a version: the last session wins.\<close>

definition put_override :: "override_db \<Rightarrow> string \<Rightarrow> (runtime_override \<Rightarrow> runtime_override) \<Rightarrow> override_db" where
  "put_override db override_id f =
     db\<lparr>ov_overrides := map (\<lambda>row. if ro_override_id row = override_id then f row else row) (ov_overrides db)\<rparr>"

definition latest_attempt_no :: "override_db \<Rightarrow> string \<Rightarrow> int" where
  "latest_attempt_no db override_id =
     foldl max 0 (map ra_attempt_no (filter (\<lambda>a. ra_override_id a = override_id) (ov_attempts db)))"

definition update_latest_attempt :: "override_db \<Rightarrow> string \<Rightarrow> (override_attempt \<Rightarrow> override_attempt) \<Rightarrow> override_db" where
  "update_latest_attempt db override_id f =
     db\<lparr>ov_attempts := map (\<lambda>a. if ra_override_id a = override_id \<and> ra_attempt_no a = latest_attempt_no db override_id
                               then f a else a) (ov_attempts db)\<rparr>"

type_synonym 'a ov_result = "(override_error + 'a) \<times> override_db"

definition replay :: "runtime_override \<Rightarrow> override_command \<Rightarrow> string \<Rightarrow> override_error + runtime_override \<times> bool" where
  "replay row cmd fingerprint =
     (if ro_operator_id row \<noteq> oc_operator_id cmd \<or> ro_payload_fingerprint row \<noteq> fingerprint
      then Inl OverrideIdempotencyConflict else Inr (row, True))"

definition new_override :: "override_command \<Rightarrow> string \<Rightarrow> int \<Rightarrow> string \<Rightarrow> runtime_override" where
  "new_override cmd fingerprint intent_expires_at task_id =
     \<lparr>ro_override_id = oc_override_id cmd, ro_thread_id = oc_thread_id cmd, ro_task_id = task_id,
      ro_operator_id = oc_operator_id cmd, ro_operator_role = oc_operator_role cmd, ro_request = oc_request cmd,
      ro_payload_fingerprint = fingerprint, ro_before_state_version = None, ro_after_state_version = None, ro_decision = None,
      ro_status = PENDING, ro_source_checkpoint_id = None, ro_result_checkpoint_id = None, ro_event_status = ''PENDING'',
      ro_intent_expires_at = intent_expires_at, ro_error_code = None, ro_error_summary = None,
      ro_requested_at = oc_requested_at cmd, ro_started_at = None, ro_completed_at = None\<rparr>"

definition begin_or_replay :: "override_db \<Rightarrow> override_db \<Rightarrow> override_command \<Rightarrow> string \<Rightarrow> int \<Rightarrow> (runtime_override \<times> bool) ov_result" where
  "begin_or_replay r w cmd fingerprint intent_expires_at =
     (let key = oq_idempotency_key (oc_request cmd)
      in case override_by_key r key of
           Some existing \<Rightarrow> (replay existing cmd fingerprint, w)
         | None \<Rightarrow>
             (case get_by_thread_id (ov_threads r) (oc_thread_id cmd) of
                None \<Rightarrow> (Inl OverrideThreadUnknown, w)
              | Some thread \<Rightarrow>
                  let row = new_override cmd fingerprint intent_expires_at (th_task_id thread)
                  in if find_override w (oc_override_id cmd) = None \<and> override_by_key w key = None
                     then (Inr (row, False), w\<lparr>ov_overrides := ov_overrides w @ [row]\<rparr>)
                     else (case override_by_key w key of
                             None \<Rightarrow> (Inl OverrideIntegrityError, w)
                           | Some existing \<Rightarrow> (replay existing cmd fingerprint, w))))"

definition append_attempt :: "override_db \<Rightarrow> override_db \<Rightarrow> string \<Rightarrow> string \<Rightarrow> override_status \<Rightarrow> int \<Rightarrow> int ov_result" where
  "append_attempt r w override_id operation status started_at =
     (if find_override r override_id = None then (Inl UnknownOverride, w)
      else let attempt_no = latest_attempt_no r override_id + 1
           in if list_ex (\<lambda>a. ra_override_id a = override_id \<and> ra_attempt_no a = attempt_no) (ov_attempts w)
              then (Inl OverrideIntegrityError, w)
              else (Inr attempt_no, w\<lparr>ov_attempts := ov_attempts w @
                     [\<lparr>ra_override_id = override_id, ra_attempt_no = attempt_no, ra_operation = operation, ra_status = status,
                       ra_observed_state_version = None, ra_source_checkpoint_id = None, ra_result_checkpoint_id = None,
                       ra_error_code = None, ra_error_summary = None, ra_started_at = started_at, ra_completed_at = None\<rparr>]\<rparr>))"

definition mark_applying :: "override_db \<Rightarrow> override_db \<Rightarrow> string \<Rightarrow> int \<Rightarrow> string \<Rightarrow> int \<Rightarrow> runtime_override ov_result" where
  "mark_applying r w override_id before_state_version source_checkpoint_id started_at =
     (case find_override r override_id of
        None \<Rightarrow> (Inl UnknownOverride, w)
      | Some row \<Rightarrow>
          if ro_status row = APPLYING then (Inr row, w)
          else if ro_status row \<noteq> PENDING then (Inl InvalidTransition, w)
          else if list_ex (\<lambda>a. ra_override_id a = override_id \<and> ra_attempt_no a = 1) (ov_attempts w)
          then (Inl OverrideIntegrityError, w)
          else let f = (\<lambda>row. row\<lparr>ro_status := APPLYING, ro_decision := Some ALLOWED,
                          ro_before_state_version := Some before_state_version,
                          ro_source_checkpoint_id := Some source_checkpoint_id, ro_started_at := Some started_at\<rparr>)
               in (Inr (f row), (put_override w override_id f)\<lparr>ov_attempts := ov_attempts w @
                     [\<lparr>ra_override_id = override_id, ra_attempt_no = 1, ra_operation = ''APPLY'', ra_status = APPLYING,
                       ra_observed_state_version = Some before_state_version,
                       ra_source_checkpoint_id = Some source_checkpoint_id, ra_result_checkpoint_id = None,
                       ra_error_code = None, ra_error_summary = None, ra_started_at = started_at, ra_completed_at = None\<rparr>]\<rparr>))"

definition attach_result_checkpoint :: "override_db \<Rightarrow> override_db \<Rightarrow> string \<Rightarrow> string \<Rightarrow> runtime_override ov_result" where
  "attach_result_checkpoint r w override_id checkpoint_id =
     (case find_override r override_id of
        None \<Rightarrow> (Inl UnknownOverride, w)
      | Some row \<Rightarrow>
          if ro_status row \<noteq> APPLYING then (Inl InvalidTransition, w)
          else if ro_result_checkpoint_id row \<noteq> None \<and> ro_result_checkpoint_id row \<noteq> Some checkpoint_id
          then (Inl ResultConflict, w)
          else let f = (\<lambda>row. row\<lparr>ro_result_checkpoint_id := Some checkpoint_id\<rparr>)
               in (Inr (f row), update_latest_attempt (put_override w override_id f) override_id
                     (\<lambda>a. a\<lparr>ra_result_checkpoint_id := Some checkpoint_id\<rparr>)))"

definition close_override :: "override_db \<Rightarrow> override_db \<Rightarrow> string \<Rightarrow> override_status \<Rightarrow> override_decision option \<Rightarrow> string \<Rightarrow> int \<Rightarrow>
    runtime_override ov_result" where
  "close_override r w override_id status decision error_code completed_at =
     (case find_override r override_id of
        None \<Rightarrow> (Inl UnknownOverride, w)
      | Some row \<Rightarrow>
          if ro_status row = APPLIED then (Inr row, w)
          else let f = (\<lambda>row. row\<lparr>ro_status := status,
                          ro_decision := (case decision of None \<Rightarrow> ro_decision row | Some d \<Rightarrow> Some d),
                          ro_error_code := Some error_code, ro_error_summary := Some error_code,
                          ro_completed_at := Some completed_at\<rparr>)
               in (Inr (f row), update_latest_attempt (put_override w override_id f) override_id
                     (\<lambda>a. a\<lparr>ra_status := status, ra_error_code := Some error_code, ra_error_summary := Some error_code,
                            ra_completed_at := Some completed_at\<rparr>)))"

definition finish :: "override_db \<Rightarrow> override_db \<Rightarrow> string \<Rightarrow> override_status \<Rightarrow> override_decision \<Rightarrow> string \<Rightarrow> int \<Rightarrow>
    runtime_override ov_result" where
  "finish r w override_id status decision error_code completed_at =
     (if status \<notin> {REJECTED, CONFLICT, FAILED} then (Inl InvalidStatus, w)
      else close_override r w override_id status (Some decision) error_code completed_at)"

definition mark_partial :: "override_db \<Rightarrow> override_db \<Rightarrow> string \<Rightarrow> string \<Rightarrow> int \<Rightarrow> runtime_override ov_result" where
  "mark_partial r w override_id error_code completed_at = close_override r w override_id PARTIAL None error_code completed_at"

definition mark_event_status :: "override_db \<Rightarrow> override_db \<Rightarrow> string \<Rightarrow> string \<Rightarrow> runtime_override ov_result" where
  "mark_event_status r w override_id event_status =
     (if event_status \<notin> {''PENDING'', ''PUBLISHED'', ''FAILED''} then (Inl InvalidStatus, w)
      else case find_override r override_id of
        None \<Rightarrow> (Inl UnknownOverride, w)
      | Some row \<Rightarrow>
          let f = (\<lambda>row. row\<lparr>ro_event_status := event_status\<rparr>) in (Inr (f row), put_override w override_id f))"

definition override_event_key :: "string \<Rightarrow> string" where
  "override_event_key override_id = ''override:'' @ override_id @ '':applied''"

definition override_event :: "runtime_override \<Rightarrow> runtime_thread \<Rightarrow> string \<Rightarrow> int \<Rightarrow> thread_event" where
  "override_event row thread result_checkpoint_id bytes =
     \<lparr>te_event_key = override_event_key (ro_override_id row), te_thread_id = ro_thread_id row,
      te_event_type = RUNTIME_OVERRIDE_APPLIED, te_checkpoint_id = Some result_checkpoint_id,
      te_parent_checkpoint_id = ro_source_checkpoint_id row, te_state_version = th_state_version thread,
      te_node = th_current_node thread, te_next_node = th_next_node thread, te_checkpoint_size_bytes = Some bytes,
      te_worker_consumer = th_worker_consumer thread, te_error_code = None,
      te_metadata =
        [(''override_id'', PStr (ro_override_id row)), (''operator_id'', PStr (ro_operator_id row)),
         (''entity_type'', PStr (oq_entity_type (ro_request row))), (''entity_id'', PStr (oq_entity_id (ro_request row))),
         (''field'', PStr (oq_field (ro_request row))), (''old_value'', PStr (oq_old_value (ro_request row))),
         (''new_value'', PStr (oq_new_value (ro_request row))), (''reason'', PStr (oq_reason (ro_request row)))]\<rparr>"

text \<open>Any error of the commit, be it a stale thread or a duplicate event, becomes the conflict.\<close>

definition promote_applied :: "override_db \<Rightarrow> override_db \<Rightarrow> string \<Rightarrow> string \<Rightarrow> int \<Rightarrow> int \<Rightarrow> runtime_override ov_result" where
  "promote_applied r w override_id result_checkpoint_id bytes completed_at =
     (case find_override r override_id of
        None \<Rightarrow> (Inl UnknownOverride, w)
      | Some row \<Rightarrow>
          if ro_status row = APPLIED then (Inr row, w)
          else (case get_by_thread_id (ov_threads r) (ro_thread_id row) of
                  None \<Rightarrow> (Inl OverrideThreadUnknown, w)
                | Some thread \<Rightarrow>
                    if ro_status row \<notin> {APPLYING, PARTIAL} \<or> ro_result_checkpoint_id row \<noteq> Some result_checkpoint_id \<or>
                       th_status thread \<noteq> OVERRIDING \<or> th_current_checkpoint_id thread \<noteq> ro_source_checkpoint_id row \<or>
                       th_state_version thread \<noteq> oq_expected_version (ro_request row) \<or>
                       th_next_node thread \<noteq> oq_expected_next_node (ro_request row)
                    then (Inl OverrideVersionConflict, w)
                    else let thread' = thread\<lparr>th_current_checkpoint_id := Some result_checkpoint_id,
                               th_state_version := th_state_version thread + 1, th_status := STABLE,
                               th_checkpoint_size_bytes := Some bytes\<rparr>;
                             f = (\<lambda>row. row\<lparr>ro_status := APPLIED, ro_after_state_version := Some (th_state_version thread'),
                               ro_completed_at := Some completed_at, ro_error_code := None, ro_error_summary := None\<rparr>);
                             events = (case event_by_key (ov_threads r) (ro_thread_id row) (override_event_key override_id) of
                               None \<Rightarrow> [override_event row thread' result_checkpoint_id bytes] | Some _ \<Rightarrow> [])
                         in (case flush_row (ov_threads w) thread thread' events of
                               Inl _ \<Rightarrow> (Inl OverrideVersionConflict, w)
                             | Inr (_, threads) \<Rightarrow>
                                 (Inr (f row), update_latest_attempt ((put_override w override_id f)\<lparr>ov_threads := threads\<rparr>) override_id
                                    (\<lambda>a. a\<lparr>ra_status := APPLIED, ra_result_checkpoint_id := Some result_checkpoint_id,
                                           ra_completed_at := Some completed_at\<rparr>)))))"

definition list_by_thread :: "override_db \<Rightarrow> string \<Rightarrow> int \<Rightarrow> runtime_override list" where
  "list_by_thread db thread_id n =
     take (nat (min (max n 1) 100))
       (rev (sort_key ro_requested_at (filter (\<lambda>row. ro_thread_id row = thread_id) (ov_overrides db))))"


section \<open>Checkpoint update and service\<close>

text \<open>
  \<open>LangGraphStateUpdater.update\<close>. LangGraph's answer to \<open>aupdate_state\<close> is the id of the new checkpoint, if it gives one; \<open>Inl\<close> is
  an exception of LangGraph. \<open>next_nodes\<close> is what \<open>aget_state\<close> reports. The \<open>ValueError\<close>s of the
  source are \<open>InvalidUpdate\<close> with their text.
\<close>

datatype update_error = InvalidUpdate string | StoreUnavailable | GraphCrashed

type_synonym checkpoint_lookup = "string \<Rightarrow> string \<Rightarrow> unit + checkpoint_record option"

definition changed_keys :: "pydict \<Rightarrow> pydict \<Rightarrow> string set" where
  "changed_keys source result = {k \<in> fst ` set source \<union> fst ` set result. dget source k \<noteq> dget result k}"

definition validate_update :: "int \<Rightarrow> checkpoint_record \<Rightarrow> checkpoint_record \<Rightarrow> string list \<Rightarrow> pydict \<Rightarrow> string \<Rightarrow> update_error + unit" where
  "validate_update max_bytes source result next_nodes p expected_next_node =
     (if cr_thread_id result \<noteq> cr_thread_id source then Inl (InvalidUpdate ''CHECKPOINT_THREAD_MISMATCH'')
      else if cr_checkpoint_namespace result \<noteq> cr_checkpoint_namespace source \<or> cr_checkpoint_namespace result \<noteq> []
      then Inl (InvalidUpdate ''CHECKPOINT_NAMESPACE_MISMATCH'')
      else if cr_parent_checkpoint_id result \<noteq> Some (cr_checkpoint_id source) then Inl (InvalidUpdate ''CHECKPOINT_ANCESTRY_MISMATCH'')
      else if next_nodes \<noteq> [expected_next_node] then Inl (InvalidUpdate ''RUNTIME_NEXT_NODE_CONFLICT'')
      else if dget (cr_state result) ''last_completed_node'' \<noteq> dget (cr_state source) ''last_completed_node''
      then Inl (InvalidUpdate ''CHECKPOINT_NODE_MISMATCH'')
      else if dget (cr_state result) ''completed_node_count'' \<noteq> dget (cr_state source) ''completed_node_count''
      then Inl (InvalidUpdate ''CHECKPOINT_COUNT_MISMATCH'')
      else if changed_keys (cr_state source) (cr_state result) \<noteq> fst ` set p then Inl (InvalidUpdate ''STATE_DIFF_NOT_ALLOWED'')
      else if \<exists>(k, v)\<in>set p. dget (cr_state result) k \<noteq> v then Inl (InvalidUpdate ''STATE_DIFF_NOT_ALLOWED'')
      else if max_bytes < cr_serialized_size_bytes result then Inl (InvalidUpdate ''CHECKPOINT_PAYLOAD_TOO_LARGE'')
      else Inr ())"

definition update_checkpoint :: "int \<Rightarrow> checkpoint_lookup \<Rightarrow> (checkpoint_record \<Rightarrow> pydict \<Rightarrow> unit + string option \<times> string list) \<Rightarrow>
    checkpoint_record \<Rightarrow> pydict \<Rightarrow> string \<Rightarrow> update_error + checkpoint_record" where
  "update_checkpoint max_bytes lookup update_state source p expected_next_node =
     (if fst ` set p \<noteq> {''vehicle_status''} then Inl (InvalidUpdate ''STATE_DIFF_NOT_ALLOWED'')
      else case update_state source p of
        Inl _ \<Rightarrow> Inl GraphCrashed
      | Inr (None, _) \<Rightarrow> Inl (InvalidUpdate ''RESULT_CHECKPOINT_ID_MISSING'')
      | Inr (Some i, next_nodes) \<Rightarrow>
          if i = [] then Inl (InvalidUpdate ''RESULT_CHECKPOINT_ID_MISSING'')
          else (case lookup (cr_thread_id source) i of
                  Inl _ \<Rightarrow> Inl StoreUnavailable
                | Inr None \<Rightarrow> Inl (InvalidUpdate ''RESULT_CHECKPOINT_MISSING'')
                | Inr (Some result) \<Rightarrow>
                    res_bind (validate_update max_bytes source result next_nodes p expected_next_node) (\<lambda>_. Inr result)))"

text \<open>
  \<open>others i\<close> is what other sessions commit before the \<open>i\<close>-th access of the service to the tables. The clock stands
  still during one call.
\<close>

record override_env =
  oe_lookup :: checkpoint_lookup
  oe_update_state :: "checkpoint_record \<Rightarrow> pydict \<Rightarrow> unit + string option \<times> string list"
  oe_max_bytes :: int
  oe_lock_acquired :: bool
  oe_events :: "(runtime_override \<Rightarrow> bool) option"
  oe_now :: int
  oe_intent_ttl :: int
  oe_new_id :: string
  oe_others :: "nat \<Rightarrow> override_db \<Rightarrow> override_db"

definition service_finish :: "override_env \<Rightarrow> nat \<Rightarrow> override_db \<Rightarrow> string \<Rightarrow> string \<Rightarrow> bool \<Rightarrow> bool \<Rightarrow> runtime_override ov_result" where
  "service_finish env i db override_id code rejected failed =
     (let db = oe_others env i db;
          status = (if failed then FAILED else if rejected then REJECTED else CONFLICT);
          decision = (if rejected \<or> failed then DECISION_REJECTED else NEEDS_DIFFERENT_BOUNDARY)
      in finish db db override_id status decision code (oe_now env))"

text \<open>The replay of an override that is no longer pending.\<close>

definition apply_replayed :: "override_env \<Rightarrow> runtime_override \<Rightarrow> override_db \<Rightarrow> runtime_override ov_result" where
  "apply_replayed env stored db =
     (if ro_status stored \<noteq> APPLYING then (Inr stored, db)
      else if ro_result_checkpoint_id stored \<noteq> None
      then (let db = oe_others env 2 db
            in mark_partial db db (ro_override_id stored) ''RUNTIME_OVERRIDE_RECONCILIATION_REQUIRED'' (oe_now env))
      else let db1 = oe_others env 2 db;
               db2 = (case get_by_thread_id (ov_threads db1) (ro_thread_id stored) of
                        None \<Rightarrow> db1
                      | Some current \<Rightarrow>
                          if th_status current = OVERRIDING \<and> th_current_checkpoint_id current = ro_source_checkpoint_id stored \<and>
                             th_state_version current = oq_expected_version (ro_request stored) \<and>
                             th_next_node current = oq_expected_next_node (ro_request stored)
                          then (let db' = oe_others env 3 db1
                                in db'\<lparr>ov_threads := snd (release_override_boundary (ov_threads db') (ro_thread_id stored)
                                       (case ro_source_checkpoint_id stored of None \<Rightarrow> [] | Some c \<Rightarrow> c)
                                       (oq_expected_version (ro_request stored))
                                       (case oq_expected_next_node (ro_request stored) of None \<Rightarrow> [] | Some n \<Rightarrow> n))\<rparr>)
                          else db1);
               db3 = oe_others env 4 db2
           in finish db3 db3 (ro_override_id stored) FAILED DECISION_REJECTED ''RUNTIME_OVERRIDE_INTERRUPTED'' (oe_now env))"

text \<open>
  The \<open>finally\<close> block after an exception between the claim and the creation of the candidate: the boundary is released,
  and a conflict of the release replaces the exception.
\<close>

definition release_after_crash :: "override_env \<Rightarrow> string \<Rightarrow> override_error \<Rightarrow> override_db \<Rightarrow> runtime_override ov_result" where
  "release_after_crash env thread_id err db =
     (let db = oe_others env 20 db
      in case get_by_thread_id (ov_threads db) thread_id of
           None \<Rightarrow> (Inl err, db)
         | Some current \<Rightarrow>
             if th_status current \<noteq> OVERRIDING then (Inl err, db)
             else (let db = oe_others env 21 db
                   in case release_override_boundary (ov_threads db) thread_id
                             (case th_current_checkpoint_id current of None \<Rightarrow> [] | Some c \<Rightarrow> c) (th_state_version current)
                             (case th_next_node current of None \<Rightarrow> [] | Some n \<Rightarrow> n) of
                        (Inr _, threads) \<Rightarrow> (Inl err, db\<lparr>ov_threads := threads\<rparr>)
                      | (Inl _, _) \<Rightarrow> (Inl BoundaryReleaseFailed, db)))"

definition apply_claimed :: "override_env \<Rightarrow> runtime_override \<Rightarrow> runtime_thread \<Rightarrow> checkpoint_record \<Rightarrow> override_db \<Rightarrow>
    runtime_override ov_result" where
  "apply_claimed env stored thread source db =
     (let db = oe_others env 8 db; override_id = ro_override_id stored; thread_id = ro_thread_id stored;
          next_node = (case th_next_node thread of None \<Rightarrow> [] | Some n \<Rightarrow> n)
      in case mark_applying db db override_id (th_state_version thread) (cr_checkpoint_id source) (oe_now env) of
           (Inl err, db) \<Rightarrow> release_after_crash env thread_id err db
         | (Inr _, db) \<Rightarrow>
             (case update_checkpoint (oe_max_bytes env) (oe_lookup env) (oe_update_state env) source
                     [(''vehicle_status'', PStr (oq_new_value (ro_request stored)))] next_node of
                Inl GraphCrashed \<Rightarrow> release_after_crash env thread_id UpdateCrashed db
              | Inl _ \<Rightarrow>
                  (let db = oe_others env 9 db
                   in case release_override_boundary (ov_threads db) thread_id (cr_checkpoint_id source) (th_state_version thread) next_node of
                        (Inl _, _) \<Rightarrow> release_after_crash env thread_id BoundaryReleaseFailed db
                      | (Inr _, threads) \<Rightarrow>
                          service_finish env 10 (db\<lparr>ov_threads := threads\<rparr>) override_id ''CHECKPOINT_UPDATE_FAILED'' False True)
              | Inr updated \<Rightarrow>
                  (let db = oe_others env 11 db
                   in case attach_result_checkpoint db db override_id (cr_checkpoint_id updated) of
                        (Inl err, db) \<Rightarrow> (Inl err, db)
                      | (Inr _, db) \<Rightarrow>
                          (let db = oe_others env 12 db
                           in case promote_applied db db override_id (cr_checkpoint_id updated) (cr_serialized_size_bytes updated)
                                     (oe_now env) of
                                (Inl OverrideVersionConflict, db) \<Rightarrow>
                                  (let db = oe_others env 13 db
                                   in mark_partial db db override_id ''CHECKPOINT_PROMOTION_CONFLICT'' (oe_now env))
                              | (Inl err, db) \<Rightarrow> (Inl err, db)
                              | (Inr applied, db) \<Rightarrow>
                                  (let db = oe_others env 14 db;
                                       published = (case oe_events env of None \<Rightarrow> True | Some publish \<Rightarrow> publish applied)
                                   in mark_event_status db db override_id (if published then ''PUBLISHED'' else ''FAILED''))))))"

definition apply_locked :: "override_env \<Rightarrow> override_request \<Rightarrow> runtime_override \<Rightarrow> override_db \<Rightarrow> runtime_override ov_result" where
  "apply_locked env rq stored db =
     (let db = oe_others env 5 db; override_id = ro_override_id stored; thread_id = ro_thread_id stored
      in case get_by_thread_id (ov_threads db) thread_id of
           None \<Rightarrow> service_finish env 6 db override_id ''THREAD_NOT_FOUND'' True False
         | Some thread \<Rightarrow>
             if th_status thread = TERMINAL then service_finish env 6 db override_id ''THREAD_TERMINAL'' True False
             else if th_status thread \<noteq> STABLE then service_finish env 6 db override_id ''THREAD_NOT_STABLE'' False False
             else if th_state_version thread \<noteq> oq_expected_version rq
             then service_finish env 6 db override_id ''RUNTIME_STATE_VERSION_CONFLICT'' False False
             else (case th_current_checkpoint_id thread of
                     None \<Rightarrow> service_finish env 6 db override_id ''CANONICAL_CHECKPOINT_MISSING'' True False
                   | Some current \<Rightarrow>
                       (case oe_lookup env thread_id current of
                          Inl _ \<Rightarrow> service_finish env 6 db override_id ''CHECKPOINT_STORE_UNAVAILABLE'' False True
                        | Inr None \<Rightarrow> service_finish env 6 db override_id ''CANONICAL_CHECKPOINT_MISSING'' False True
                        | Inr (Some source) \<Rightarrow>
                            (case policy_evaluate rq thread (cr_state source) of
                               (ALLOWED, _) \<Rightarrow>
                                 (let db = oe_others env 7 db
                                  in case claim_override_boundary (ov_threads db) thread_id (cr_checkpoint_id source)
                                            (th_state_version thread) (case th_next_node thread of None \<Rightarrow> [] | Some n \<Rightarrow> n) of
                                       (Inl _, _) \<Rightarrow> service_finish env 8 db override_id ''THREAD_NOT_STABLE'' False False
                                     | (Inr _, threads) \<Rightarrow> apply_claimed env stored thread source (db\<lparr>ov_threads := threads\<rparr>))
                             | (decision, code) \<Rightarrow>
                                 (let db = oe_others env 7 db
                                  in finish db db override_id (if decision = DECISION_REJECTED then REJECTED else CONFLICT) decision
                                       (case py_or code None of None \<Rightarrow> ''RUNTIME_STATE_PRECONDITION_FAILED'' | Some c \<Rightarrow> c)
                                       (oe_now env))))))"

definition command_of :: "override_env \<Rightarrow> string \<Rightarrow> override_request \<Rightarrow> principal \<Rightarrow> override_error + override_command" where
  "command_of env thread_id rq p =
     (case sort (map role_value (remdups (pp_roles p))) of
        [] \<Rightarrow> Inl NoRole
      | first_role # _ \<Rightarrow>
          let cmd = \<lparr>oc_override_id = oe_new_id env, oc_thread_id = thread_id, oc_request = rq,
                     oc_operator_id = pp_subject_id p, oc_operator_role = first_role,
                     oc_operator_permissions = pp_permissions p, oc_requested_at = oe_now env\<rparr>
          in if command_ok cmd then Inr cmd else Inl InvalidCommand)"

definition apply_override :: "override_env \<Rightarrow> string \<Rightarrow> override_request \<Rightarrow> principal \<Rightarrow> override_db \<Rightarrow> runtime_override ov_result" where
  "apply_override env thread_id rq p db =
     (let db = oe_others env 0 db
      in if get_by_thread_id (ov_threads db) thread_id = None then (Inl OverrideThreadUnknown, db)
         else if \<not> can p RUNTIME_OVERRIDE then (Inl OverrideForbidden, db)
         else case command_of env thread_id rq p of
           Inl err \<Rightarrow> (Inl err, db)
         | Inr cmd \<Rightarrow>
             (let db = oe_others env 1 db
              in case begin_or_replay db db cmd (payload_fingerprint cmd) (oe_now env + oe_intent_ttl env) of
                   (Inl err, db) \<Rightarrow> (Inl err, db)
                 | (Inr (stored, replayed), db) \<Rightarrow>
                     if replayed \<and> ro_status stored \<noteq> PENDING then apply_replayed env stored db
                     else if \<not> oe_lock_acquired env
                     then (let db = oe_others env 2 db
                           in finish db db (ro_override_id stored) CONFLICT NEEDS_DIFFERENT_BOUNDARY ''RUNTIME_OVERRIDE_BUSY''
                                (oe_now env))
                     else apply_locked env rq stored db))"

section \<open>RuntimeOverrideReconciler\<close>

definition override_valid :: "int \<Rightarrow> override_request \<Rightarrow> checkpoint_record \<Rightarrow> checkpoint_record \<Rightarrow> bool" where
  "override_valid max_bytes rq source result \<longleftrightarrow>
     cr_thread_id result = cr_thread_id source \<and> cr_checkpoint_namespace result = cr_checkpoint_namespace source \<and>
     cr_checkpoint_namespace result = [] \<and> cr_parent_checkpoint_id result = Some (cr_checkpoint_id source) \<and>
     cr_serialized_size_bytes result \<le> max_bytes \<and>
     dget (cr_state source) ''vehicle_id'' = PStr (oq_entity_id rq) \<and>
     dget (cr_state source) ''vehicle_status'' = PStr (oq_old_value rq) \<and>
     dget (cr_state result) ''vehicle_status'' = PStr (oq_new_value rq) \<and>
     dget (cr_state result) ''last_completed_node'' = dget (cr_state source) ''last_completed_node'' \<and>
     dget (cr_state result) ''completed_node_count'' = dget (cr_state source) ''completed_node_count'' \<and>
     changed_keys (cr_state source) (cr_state result) = {''vehicle_status''}"

text \<open>Errors of the store leave the method, as \<open>UpdateCrashed\<close>.\<close>

definition reconcile_override :: "int \<Rightarrow> checkpoint_lookup \<Rightarrow> int \<Rightarrow> string \<Rightarrow> override_db \<Rightarrow> runtime_override ov_result" where
  "reconcile_override max_bytes lookup now override_id db =
     (case find_override db override_id of
        None \<Rightarrow> (Inl UnknownOverride, db)
      | Some item_row \<Rightarrow>
          if ro_status item_row \<noteq> PARTIAL then (Inr item_row, db)
          else let conflict = finish db db override_id CONFLICT NEEDS_DIFFERENT_BOUNDARY ''RUNTIME_STATE_VERSION_CONFLICT'' now;
                   invalid = (\<lambda>code. mark_partial db db override_id code now)
               in case get_by_thread_id (ov_threads db) (ro_thread_id item_row) of
                    None \<Rightarrow> conflict
                  | Some thread \<Rightarrow>
                      if th_status thread \<noteq> OVERRIDING \<or> th_current_checkpoint_id thread \<noteq> ro_source_checkpoint_id item_row \<or>
                         th_state_version thread \<noteq> oq_expected_version (ro_request item_row)
                      then conflict
                      else (case (ro_source_checkpoint_id item_row, ro_result_checkpoint_id item_row) of
                              (Some source_id, Some result_id) \<Rightarrow>
                                (case (lookup (ro_thread_id item_row) source_id, lookup (ro_thread_id item_row) result_id) of
                                   (Inr (Some source), Inr (Some result)) \<Rightarrow>
                                     if \<not> override_valid max_bytes (ro_request item_row) source result
                                     then invalid ''RUNTIME_OVERRIDE_RESULT_INVALID''
                                     else (case promote_applied db db override_id (cr_checkpoint_id result)
                                                  (cr_serialized_size_bytes result) now of
                                             (Inl OverrideVersionConflict, db') \<Rightarrow>
                                               finish db' db' override_id CONFLICT NEEDS_DIFFERENT_BOUNDARY
                                                 ''RUNTIME_STATE_VERSION_CONFLICT'' now
                                           | promoted_row \<Rightarrow> promoted_row)
                                 | (Inr _, Inr _) \<Rightarrow> invalid ''RUNTIME_OVERRIDE_RESULT_MISSING''
                                 | _ \<Rightarrow> (Inl UpdateCrashed, db))
                            | _ \<Rightarrow> invalid ''RUNTIME_OVERRIDE_RESULT_MISSING''))"

end
