(* ===== verification/Runtime_History.thy ===== *)
theory Runtime_History
  imports Runtime_Overrides
begin

text \<open>
  The runtime tables under interleaved sessions. Every method of the two repositories that writes is an operation; \<open>stale_step\<close>
  lets each of them read at one moment and write at a later one. The theory shows that the methods meet the contract \<open>stale_reads\<close>, from which the
  history of a thread stays in order whatever the interleaving.
\<close>

section \<open>Every write to the runtime tables\<close>

datatype runtime_op =
    CreateForTask string string
  | ClaimOverrideBoundary string string int string
  | ClaimNextNode string string int string string
  | ReleaseOverrideBoundary string string int string
  | StageCheckpoint promote_checkpoint_command
  | PromoteCheckpoint promote_checkpoint_command
  | MarkResumed string string string
  | MarkTerminal string string string "string option" "string option" int
  | UpdateLastEventSequence string int
  | BeginOrReplay override_command string int
  | AppendAttempt string string override_status int
  | MarkApplying string int string int
  | AttachResultCheckpoint string string
  | Finish string override_status override_decision string int
  | MarkPartial string string int
  | MarkEventStatus string string
  | PromoteApplied string string int int

definition on_threads :: "(thread_db \<Rightarrow> thread_db \<Rightarrow> 'a \<times> thread_db) \<Rightarrow> override_db \<Rightarrow> override_db \<Rightarrow> override_db" where
  "on_threads f r w = w\<lparr>ov_threads := snd (f (ov_threads r) (ov_threads w))\<rparr>"

fun exec_op :: "runtime_op \<Rightarrow> override_db \<Rightarrow> override_db \<Rightarrow> override_db" where
  "exec_op (CreateForTask task i) = on_threads (\<lambda>r w. create_for_task r w task i)"
| "exec_op (ClaimOverrideBoundary i c v n) = on_threads (\<lambda>_ w. claim_override_boundary w i c v n)"
| "exec_op (ClaimNextNode i c v n worker) = on_threads (\<lambda>_ w. claim_next_node w i c v n worker)"
| "exec_op (ReleaseOverrideBoundary i c v n) = on_threads (\<lambda>_ w. release_override_boundary w i c v n)"
| "exec_op (StageCheckpoint cmd) = on_threads (\<lambda>r w. stage_checkpoint r w cmd)"
| "exec_op (PromoteCheckpoint cmd) = on_threads (\<lambda>r w. promote_checkpoint r w cmd)"
| "exec_op (MarkResumed i k worker) = on_threads (\<lambda>r w. mark_resumed r w i k worker)"
| "exec_op (MarkTerminal i k worker n e now) = on_threads (\<lambda>r w. mark_terminal r w i k worker n e now)"
| "exec_op (UpdateLastEventSequence i n) = on_threads (\<lambda>r w. update_last_event_sequence r w i n)"
| "exec_op (BeginOrReplay cmd fp t) = (\<lambda>r w. snd (begin_or_replay r w cmd fp t))"
| "exec_op (AppendAttempt i kind s t) = (\<lambda>r w. snd (append_attempt r w i kind s t))"
| "exec_op (MarkApplying i v c t) = (\<lambda>r w. snd (mark_applying r w i v c t))"
| "exec_op (AttachResultCheckpoint i c) = (\<lambda>r w. snd (attach_result_checkpoint r w i c))"
| "exec_op (Finish i s d code t) = (\<lambda>r w. snd (finish r w i s d code t))"
| "exec_op (MarkPartial i code t) = (\<lambda>r w. snd (mark_partial r w i code t))"
| "exec_op (MarkEventStatus i s) = (\<lambda>r w. snd (mark_event_status r w i s))"
| "exec_op (PromoteApplied i c bytes t) = (\<lambda>r w. snd (promote_applied r w i c bytes t))"

text \<open>
  What the callers pass: a worker's event keys do not start like those of overrides, and its promotions are of the two
  event types of \<open>runner.py\<close> and \<open>reconciler.py\<close>.
\<close>

definition worker_key :: "string \<Rightarrow> bool" where
  "worker_key k \<longleftrightarrow> \<not> prefix ''override:'' k"

fun valid_op :: "runtime_op \<Rightarrow> bool" where
  "valid_op (PromoteCheckpoint cmd) \<longleftrightarrow>
     worker_key (pm_event_key cmd) \<and> pm_event_type cmd \<in> {CHECKPOINT_PROMOTED, RECONCILIATION}"
| "valid_op (MarkResumed _ k _) \<longleftrightarrow> worker_key k"
| "valid_op (MarkTerminal _ k _ _ _ _) \<longleftrightarrow> worker_key k"
| "valid_op _ \<longleftrightarrow> True"

section \<open>The invariant of the tables\<close>

text \<open>The event of an applied override belongs to the thread and the version that the override expected.\<close>

definition override_event_ok :: "override_db \<Rightarrow> thread_event \<Rightarrow> bool" where
  "override_event_ok db e \<longleftrightarrow>
     (\<forall>i. te_event_key e = override_event_key i \<longrightarrow> is_advance e \<and>
        (\<exists>row. find_override db i = Some row \<and> ro_thread_id row = te_thread_id e \<and>
               te_state_version e = oq_expected_version (ro_request row) + 1))"

definition override_ok :: "override_db \<Rightarrow> bool" where
  "override_ok db \<longleftrightarrow> thread_ok (ov_threads db) \<and> (\<forall>e\<in>set (td_events (ov_threads db)). override_event_ok db e)"

text \<open>An override keeps its thread and its request.\<close>

definition requests_kept :: "override_db \<Rightarrow> override_db \<Rightarrow> bool" where
  "requests_kept db db' \<longleftrightarrow>
     (\<forall>i row. find_override db i = Some row \<longrightarrow>
        (\<exists>row'. find_override db' i = Some row' \<and> ro_thread_id row' = ro_thread_id row \<and> ro_request row' = ro_request row))"

definition override_later :: "override_db \<Rightarrow> override_db \<Rightarrow> bool" where
  "override_later db db' \<longleftrightarrow> thread_later (ov_threads db) (ov_threads db') \<and> requests_kept db db'"

lemma override_event_key_inj [simp]: "override_event_key i = override_event_key j \<longleftrightarrow> i = j"
  by (simp add: override_event_key_def)

lemma requests_kept_refl [simp]: "requests_kept db db"
  by (simp add: requests_kept_def)

lemma requests_kept_trans: "requests_kept a b \<Longrightarrow> requests_kept b c \<Longrightarrow> requests_kept a c"
  unfolding requests_kept_def by (metis (no_types, lifting))

lemma requests_keptD:
  "requests_kept db db' \<Longrightarrow> find_override db i = Some row \<Longrightarrow>
     \<exists>row'. find_override db' i = Some row' \<and> ro_thread_id row' = ro_thread_id row \<and> ro_request row' = ro_request row"
  by (simp add: requests_kept_def)

lemma override_event_ok_kept: "override_event_ok db e \<Longrightarrow> requests_kept db db' \<Longrightarrow> override_event_ok db' e"
  unfolding override_event_ok_def requests_kept_def by (metis (no_types, lifting))

lemma find_override_simps [simp]:
  "find_override (db\<lparr>ov_threads := ts\<rparr>) i = find_override db i"
  "find_override (db\<lparr>ov_attempts := as\<rparr>) i = find_override db i"
  "find_override (update_latest_attempt db j f) i = find_override db i"
  by (simp_all add: find_override_def update_latest_attempt_def)

lemma ov_threads_simps [simp]:
  "ov_threads (update_latest_attempt db j f) = ov_threads db"
  "ov_threads (put_override db j g) = ov_threads db"
  by (simp_all add: update_latest_attempt_def put_override_def)

definition keeps_identity :: "(runtime_override \<Rightarrow> runtime_override) \<Rightarrow> bool" where
  "keeps_identity f \<longleftrightarrow>
     (\<forall>row. ro_override_id (f row) = ro_override_id row \<and> ro_thread_id (f row) = ro_thread_id row \<and> ro_request (f row) = ro_request row)"

lemma find_put_override:
  assumes "keeps_identity f"
  shows "find_override (put_override db j f) i = (if i = j then map_option f (find_override db i) else find_override db i)"
proof -
  have "first_match (\<lambda>row. ro_override_id row = i) (map (\<lambda>row. if ro_override_id row = j then f row else row) rows) =
      (if i = j then map_option f (first_match (\<lambda>row. ro_override_id row = i) rows) else first_match (\<lambda>row. ro_override_id row = i) rows)" for rows
    using assms by (induction rows) (auto simp: keeps_identity_def)
  then show ?thesis by (simp add: find_override_def put_override_def)
qed

lemma requests_kept_put: "keeps_identity f \<Longrightarrow> requests_kept db (put_override db j f)"
  by (auto simp: requests_kept_def find_put_override) (auto simp: keeps_identity_def)

text \<open>A change that leaves the threads alone and keeps the requests.\<close>

definition quiet :: "override_db \<Rightarrow> override_db \<Rightarrow> bool" where
  "quiet db db' \<longleftrightarrow> ov_threads db' = ov_threads db \<and> requests_kept db db'"

lemma quiet_refl [simp]: "quiet db db"
  by (simp add: quiet_def)

lemma quiet_put: "keeps_identity f \<Longrightarrow> quiet db (put_override db j f)"
  by (simp add: quiet_def requests_kept_put)

lemma quiet_attempts [simp]:
  "quiet db (db'\<lparr>ov_attempts := as\<rparr>) \<longleftrightarrow> quiet db db'" "quiet db (update_latest_attempt db' j f) \<longleftrightarrow> quiet db db'"
  by (simp_all add: quiet_def requests_kept_def)

lemma quiet_keeps: "override_ok db \<Longrightarrow> quiet db db' \<Longrightarrow> override_ok db' \<and> override_later db db'"
  unfolding override_ok_def override_later_def quiet_def using override_event_ok_kept thread_later_refl by auto

lemma begin_or_replay_quiet: "quiet w (snd (begin_or_replay r w cmd fp t))"
proof -
  have "quiet w (w\<lparr>ov_overrides := ov_overrides w @ [row]\<rparr>)" if "find_override w (ro_override_id row) = None" for row
    using that by (auto simp: quiet_def requests_kept_def find_override_def first_match_append split: option.splits)
  then show ?thesis by (auto simp: begin_or_replay_def Let_def new_override_def split: option.split)
qed

lemma override_row_quiet:
  "quiet w (snd (append_attempt r w i kind s t))" "quiet w (snd (mark_applying r w i v c t))"
  "quiet w (snd (attach_result_checkpoint r w i c))" "quiet w (snd (finish r w i s d code t))"
  "quiet w (snd (mark_partial r w i code t))" "quiet w (snd (mark_event_status r w i es))"
  by (auto simp: append_attempt_def mark_applying_def attach_result_checkpoint_def finish_def mark_partial_def close_override_def
        mark_event_status_def Let_def keeps_identity_def split: option.split intro!: quiet_put)


section \<open>Writes to the threads\<close>

text \<open>The methods of a worker add at most one event, whose key is not one of an override.\<close>

definition worker_events :: "thread_db \<Rightarrow> thread_db \<Rightarrow> bool" where
  "worker_events w w' \<longleftrightarrow> (\<exists>es. td_events w' = td_events w @ es \<and> (\<forall>e\<in>set es. worker_key (te_event_key e)))"

lemma worker_events_same [simp]: "td_events w' = td_events w \<Longrightarrow> worker_events w w'"
  by (simp add: worker_events_def)

lemma worker_events_add: "td_events w' = td_events w @ [e] \<Longrightarrow> worker_key (te_event_key e) \<Longrightarrow> worker_events w w'"
  by (simp add: worker_events_def)

lemma flush_row_events: "flush_row w t row es = Inr (t', w') \<Longrightarrow> td_events w' = td_events w @ es"
  by (auto simp: flush_row_def Let_def split: option.splits if_splits)

lemma commit_row_events:
  "\<forall>e\<in>set es. worker_key (te_event_key e) \<Longrightarrow> worker_events w (snd (commit_row w (flush_row w t row es)))"
  by (auto simp: commit_row_def worker_events_def dest: flush_row_events split: sum.split)

lemma worker_key_simps [simp]: "worker_key ''thread:created''" "worker_key (CHR ''s'' # k)" "\<not> worker_key (override_event_key i)"
  by (simp_all add: worker_key_def override_event_key_def)

lemma thread_method_events:
  "worker_events w (snd (create_for_task r w task i))"
  "worker_events w (snd (claim_boundary w i c v n s wc))"
  "worker_events w (snd (release_override_boundary w i c v n))"
  "worker_events w (snd (stage_checkpoint r w cmd))"
  "worker_key (pm_event_key cmd) \<Longrightarrow> worker_events w (snd (promote_checkpoint r w cmd))"
  "worker_key k \<Longrightarrow> worker_events w (snd (mark_resumed r w i k worker))"
  "worker_key k \<Longrightarrow> worker_events w (snd (mark_terminal r w i k worker n' err now))"
  "worker_events w (snd (update_last_event_sequence r w i v))"
  by (auto simp: create_for_task_def claim_boundary_def release_override_boundary_def stage_checkpoint_def promote_checkpoint_def
        mark_resumed_def mark_terminal_def update_last_event_sequence_def Let_def checkpoint_event_def created_event_def
      dest!: flush_row_events intro!: commit_row_events intro: worker_events_add split: option.split sum.split)

lemmas thread_method_moves =
  create_for_task_moves claim_boundary_moves release_override_boundary_moves stage_checkpoint_moves promote_checkpoint_moves
  mark_resumed_moves mark_terminal_moves update_last_event_sequence_moves

lemma on_threads_keeps:
  assumes "override_ok w" "moves (ov_threads w) (snd (f (ov_threads r) (ov_threads w)))"
    and "worker_events (ov_threads w) (snd (f (ov_threads r) (ov_threads w)))"
  shows "override_ok (on_threads f r w) \<and> override_later w (on_threads f r w)"
proof -
  have "override_event_ok (on_threads f r w) e \<longleftrightarrow> override_event_ok w e" for e
    by (simp add: override_event_ok_def on_threads_def)
  moreover have "override_event_ok w e" if "worker_key (te_event_key e)" for e
    using that by (auto simp: override_event_ok_def)
  moreover have "requests_kept w (on_threads f r w)" by (simp add: requests_kept_def on_threads_def)
  ultimately show ?thesis using assms
    by (auto simp: override_ok_def override_later_def moves_def worker_events_def on_threads_def)
qed

section \<open>The promotion of an override\<close>

text \<open>While a thread has the version that the override expects, the override has no event yet.\<close>

lemma no_event_before_promotion:
  assumes ok: "override_ok r" and row: "find_override r i = Some row"
    and t: "get_by_thread_id (ov_threads r) (ro_thread_id row) = Some t"
    and v: "th_state_version t = oq_expected_version (ro_request row)"
  shows "event_by_key (ov_threads r) (ro_thread_id row) (override_event_key i) = None"
proof (rule ccontr)
  assume "\<not> ?thesis"
  then obtain e where e: "e \<in> set (td_events (ov_threads r))" "te_thread_id e = ro_thread_id row" "te_event_key e = override_event_key i"
    by (auto simp: event_by_key_def dest: first_match_SomeD)
  then have ev: "is_advance e" "te_state_version e = oq_expected_version (ro_request row) + 1"
    using ok row e unfolding override_ok_def override_event_ok_def by (metis option.inject)+
  have "history_ok (advances (ov_threads r) (ro_thread_id row)) t"
    using ok get_by_thread_id_Some [OF t] by (auto simp: override_ok_def thread_ok_def)
  moreover have "e \<in> set (advances (ov_threads r) (ro_thread_id row))" using e ev(1) by (simp add: advances_def)
  ultimately have "te_state_version e \<in> set (map int [1..<Suc (length (advances (ov_threads r) (ro_thread_id row)))])"
    "th_state_version t = int (length (advances (ov_threads r) (ro_thread_id row)))"
    unfolding history_ok_def by (metis image_eqI set_map)+
  then show False using ev(2) v by auto
qed

lemma promote_applied_keeps:
  assumes okr: "override_ok r" and ok: "override_ok w" and later: "override_later r w"
  shows "override_ok (snd (promote_applied r w i c bytes now)) \<and> override_later w (snd (promote_applied r w i c bytes now))"
proof (cases "snd (promote_applied r w i c bytes now) = w")
  case True
  then show ?thesis using ok by (simp add: override_later_def thread_later_refl)
next
  case False
  then obtain row t where row: "find_override r i = Some row" and t: "get_by_thread_id (ov_threads r) (ro_thread_id row) = Some t"
    and v: "th_state_version t = oq_expected_version (ro_request row)" and s: "th_status t = OVERRIDING"
    by (auto simp: promote_applied_def split: option.splits if_splits)
  let ?t = "t\<lparr>th_current_checkpoint_id := Some c, th_state_version := th_state_version t + 1, th_status := STABLE, th_checkpoint_size_bytes := Some bytes\<rparr>"
  let ?e = "override_event row ?t c bytes"
  let ?f = "\<lambda>row. row\<lparr>ro_status := APPLIED, ro_after_state_version := Some (th_state_version t + 1),
                               ro_completed_at := Some now, ro_error_code := None, ro_error_summary := None\<rparr>"
  have none: "event_by_key (ov_threads r) (ro_thread_id row) (override_event_key i) = None"
    by (rule no_event_before_promotion [OF okr row t v])
  have id: "ro_override_id row = i" using row by (auto simp: find_override_def dest: first_match_SomeD)
  obtain t' ts where fl: "flush_row (ov_threads w) t ?t [?e] = Inr (t', ts)"
    and db': "\<exists>g. snd (promote_applied r w i c bytes now) = update_latest_attempt ((put_override w i ?f)\<lparr>ov_threads := ts\<rparr>) i g"
    using False row t none by (auto simp: promote_applied_def Let_def split: sum.splits if_splits)
  have "change_ok t ?t [?e]" using s get_by_thread_id_Some [OF t] by (auto simp: change_simps override_event_def)
  then have mv: "thread_ok ts \<and> thread_later (ov_threads w) ts"
    using flush_row_ok [OF fl t] ok later by (simp add: override_ok_def override_later_def)
  obtain rw where rw: "find_override w i = Some rw" "ro_thread_id rw = ro_thread_id row" "ro_request rw = ro_request row"
    using later row by (auto simp: override_later_def dest: requests_keptD)
  let ?db = "snd (promote_applied r w i c bytes now)"
  have kept: "requests_kept w ?db"
    using db' requests_kept_put [of ?f w i] by (auto simp: requests_kept_def keeps_identity_def)
  have "override_event_ok w ?e"
    using rw v id by (auto simp: override_event_ok_def override_event_def is_advance_def)
  then have "override_event_ok ?db ?e" using override_event_ok_kept kept by blast
  moreover have "override_event_ok ?db e" if "e \<in> set (td_events (ov_threads w))" for e
    using that ok kept override_event_ok_kept by (auto simp: override_ok_def)
  moreover have "ov_threads ?db = ts" using db' by auto
  ultimately show ?thesis using mv kept flush_row_events [OF fl] by (auto simp: override_ok_def override_later_def)
qed

lemma exec_op_keeps:
  assumes "valid_op op" "override_ok r" "override_ok w" "override_later r w"
  shows "override_ok (exec_op op r w) \<and> override_later w (exec_op op r w)"
proof -
  have th: "thread_ok (ov_threads w)" "thread_later (ov_threads r) (ov_threads w)"
    using assms by (simp_all add: override_ok_def override_later_def)
  note on = on_threads_keeps [OF assms(3)]
    and q = begin_or_replay_quiet [THEN quiet_keeps [OF assms(3)]] override_row_quiet [THEN quiet_keeps [OF assms(3)]]
  show ?thesis
    using assms(1) th
    by (cases op)
      (auto simp: claim_override_boundary_def claim_next_node_def promote_applied_keeps [OF assms(2-4)]
        intro!: on thread_method_moves thread_method_events q)
qed

interpretation runtime: stale_reads valid_op exec_op override_later override_ok
proof unfold_locales
  show "override_later db db" for db by (simp add: override_later_def thread_later_refl)
  show "override_later a c" if "override_later a b" "override_later b c" for a b c
    using that thread_later_trans requests_kept_trans unfolding override_later_def by blast
qed (use exec_op_keeps in blast)+


section \<open>Histories\<close>

definition empty_tables :: "string list \<Rightarrow> override_db" where
  "empty_tables tasks =
     \<lparr>ov_threads = \<lparr>td_tasks = tasks, td_threads = [], td_events = []\<rparr>, ov_overrides = [], ov_attempts = []\<rparr>"

lemma empty_tables_ok: "override_ok (empty_tables tasks)"
  by (simp add: override_ok_def empty_tables_def thread_ok_def)

abbreviation runtime_step :: "override_db \<times> (runtime_op \<times> override_db) list \<Rightarrow> override_db \<times> (runtime_op \<times> override_db) list \<Rightarrow> bool" where
  "runtime_step \<equiv> stale_step valid_op exec_op"

lemma one_session: "valid_op op \<Longrightarrow> runtime_step\<^sup>*\<^sup>* (db, []) (exec_op op db db, [])"
  using stale_step.session_read [of valid_op op exec_op db "[]"] stale_step.session_write [of op db "[(op, db)]" valid_op exec_op db]
  by (simp add: converse_rtranclp_into_rtranclp)

lemma two_sessions:
  assumes "valid_op a" "valid_op b"
  shows "runtime_step\<^sup>*\<^sup>* (db, []) (exec_op b db (exec_op a db db), [])"
proof -
  let ?s1 = "(db, [(a, db)])" and ?s2 = "(db, [(b, db), (a, db)])" and ?s4 = "(exec_op b db (exec_op a db db), [])"
  let ?s3 = "(exec_op a db db, remove1 (a, db) [(b, db), (a, db)])"
  have "runtime_step (db, []) ?s1" "runtime_step ?s1 ?s2" using assms by (auto intro: stale_step.session_read)
  moreover have "runtime_step ?s2 ?s3" by (rule session_write) simp
  moreover have "runtime_step ?s3 ?s4" using session_write [of b db "[(b, db)]" valid_op exec_op "exec_op a db db"] by (cases "a = b") auto
  ultimately show ?thesis by (blast intro: converse_rtranclp_into_rtranclp)
qed

text \<open>
  C16. However the sessions of workers, operators and reconcilers interleave, every thread agrees with its history: from empty tables, when
  any sequence of methods has read and written, each reading at one moment and writing at a later one, the version of a thread counts its promotions and applied
  overrides, whose events carry the versions 1, 2, 3, \dots{} in the order in which they were written, its checkpoint is the one of the last of them, and its
  checkpoint count leaves out the overrides. Between any two moments a thread is kept, versions never decrease, a version has one checkpoint, a terminal thread stays
  terminal at its version, and no event is lost.
\<close>

theorem thread_history_consistent:
  assumes "runtime_step\<^sup>*\<^sup>* (empty_tables tasks, []) s" and "runtime_step\<^sup>*\<^sup>* s s'"
  defines "now \<equiv> ov_threads (fst s)" and "then' \<equiv> ov_threads (fst s')"
  shows "(\<forall>t\<in>set (td_threads then').
       map te_state_version (advances then' (th_thread_id t)) = map int [1..<Suc (nat (th_state_version t))] \<and>
       th_state_version t = int (length (advances then' (th_thread_id t))) \<and>
       th_checkpoint_count t = int (length (filter is_checkpoint_event (advances then' (th_thread_id t)))) \<and>
       th_current_checkpoint_id t =
         (if advances then' (th_thread_id t) = [] then None else te_checkpoint_id (last (advances then' (th_thread_id t))))) \<and>
    (\<forall>i t. get_by_thread_id now i = Some t \<longrightarrow> (\<exists>t'. get_by_thread_id then' i = Some t' \<and>
       th_state_version t \<le> th_state_version t' \<and>
       (th_state_version t' = th_state_version t \<longrightarrow> th_current_checkpoint_id t' = th_current_checkpoint_id t) \<and>
       (th_status t = TERMINAL \<longrightarrow> th_status t' = TERMINAL \<and> th_state_version t' = th_state_version t))) \<and>
    prefix (td_events now) (td_events then')"
proof -
  have inv: "override_ok (fst s')" "override_later (fst s) (fst s')"
    using runtime.later_between [OF assms(1,2) empty_tables_ok] by auto
  then have h: "\<forall>t\<in>set (td_threads then'). history_ok (advances then' (th_thread_id t)) t" and l: "thread_later now then'"
    by (simp_all add: override_ok_def thread_ok_def override_later_def then'_def now_def)
  have "\<exists>t'. get_by_thread_id then' i = Some t' \<and> th_state_version t \<le> th_state_version t' \<and>
       (th_state_version t' = th_state_version t \<longrightarrow> th_current_checkpoint_id t' = th_current_checkpoint_id t) \<and>
       (th_status t = TERMINAL \<longrightarrow> th_status t' = TERMINAL \<and> th_state_version t' = th_state_version t)"
    if "get_by_thread_id now i = Some t" for i t
    using thread_laterD [OF l that] unfolding row_le_def by metis
  then show ?thesis using h l by (simp add: history_ok_def thread_later_def)
qed

text \<open>Two workers that promote different checkpoints over the same version: the second write is refused.\<close>

definition sample_created :: override_db where
  "sample_created = exec_op (CreateForTask ''T1'' ''t1'') (empty_tables [''T1'']) (empty_tables [''T1''])"

definition sample_promotion :: "string \<Rightarrow> runtime_op" where
  "sample_promotion c = PromoteCheckpoint
     \<lparr>pm_thread_id = ''t1'', pm_expected_checkpoint_id = None, pm_expected_state_version = 0, pm_checkpoint_id = c,
      pm_parent_checkpoint_id = None, pm_node = ''intake'', pm_next_node = Some ''environment'', pm_checkpoint_size_bytes = 10,
      pm_worker_consumer = ''w1'', pm_event_key = ''promoted:'' @ c, pm_event_type = CHECKPOINT_PROMOTED\<rparr>"

definition sample_race :: override_db where
  "sample_race = exec_op (sample_promotion ''b'') sample_created (exec_op (sample_promotion ''a'') sample_created sample_created)"

theorem thread_history_consistent_witness:
  "map (\<lambda>t. (th_state_version t, th_checkpoint_count t, th_current_checkpoint_id t)) (td_threads (ov_threads sample_race)) =
     [(1, 1, Some ''a'')] \<and> prefix (td_events (ov_threads sample_created)) (td_events (ov_threads sample_race))"
proof -
  have v: "valid_op (sample_promotion c)" for c by (simp add: sample_promotion_def worker_key_def)
  have s: "runtime_step\<^sup>*\<^sup>* (empty_tables [''T1''], []) (sample_created, [])"
    using one_session [of "CreateForTask ''T1'' ''t1''" "empty_tables [''T1'']"] by (simp add: sample_created_def)
  have s': "runtime_step\<^sup>*\<^sup>* (sample_created, []) (sample_race, [])"
    unfolding sample_race_def by (rule two_sessions [OF v v])
  have a: "map th_thread_id (td_threads (ov_threads sample_race)) = [''t1'']" by code_simp
  have b: "map te_checkpoint_id (advances (ov_threads sample_race) ''t1'') = [Some ''a'']"
    "map is_checkpoint_event (advances (ov_threads sample_race) ''t1'') = [True]" by code_simp+
  obtain t where t: "td_threads (ov_threads sample_race) = [t]" "th_thread_id t = ''t1''" using a by auto
  obtain e where e: "advances (ov_threads sample_race) ''t1'' = [e]" "te_checkpoint_id e = Some ''a''" "is_checkpoint_event e" using b by auto
  show ?thesis using thread_history_consistent [OF s s'] t e by simp
qed

end
