(* ===== verification/Override_Service.thy ===== *)
theory Override_Service
  imports Runtime_History
begin

text \<open>
  What a call of the override service does when it meets no other session: a request that the policy allows reaches the promotion of its
  new checkpoint, which succeeds when the request names the next node and blocks the thread when it does not.
\<close>

section \<open>A request that the policy allows\<close>

text \<open>
  The request reaches the promotion: it is new and well formed, the principal may override, the lock is free, the thread stands
  at the version the request expects, the policy allows it, LangGraph and the store deliver a valid new checkpoint, and no
  other session interferes.
\<close>

definition override_ready :: "override_env \<Rightarrow> string \<Rightarrow> override_request \<Rightarrow> principal \<Rightarrow> override_db \<Rightarrow> runtime_thread \<Rightarrow>
    checkpoint_record \<Rightarrow> checkpoint_record \<Rightarrow> bool" where
  "override_ready env thread_id rq p db t source updated \<longleftrightarrow>
     get_by_thread_id (ov_threads db) thread_id = Some t \<and>
     can p RUNTIME_OVERRIDE \<and> (\<exists>cmd. command_of env thread_id rq p = Inr cmd) \<and>
     override_by_key db (oq_idempotency_key rq) = None \<and> find_override db (oe_new_id env) = None \<and>
     list_all (\<lambda>a. ra_override_id a \<noteq> oe_new_id env) (ov_attempts db) \<and>
     event_by_key (ov_threads db) thread_id (override_event_key (oe_new_id env)) = None \<and>
     oe_lock_acquired env \<and> th_state_version t = oq_expected_version rq \<and>
     th_current_checkpoint_id t = Some (cr_checkpoint_id source) \<and>
     oe_lookup env thread_id (cr_checkpoint_id source) = Inr (Some source) \<and>
     policy_evaluate rq t (cr_state source) = (ALLOWED, None) \<and>
     update_checkpoint (oe_max_bytes env) (oe_lookup env) (oe_update_state env) source
       [(''vehicle_status'', PStr (oq_new_value rq))] ''capacity'' = Inr updated"

lemma policy_allows:
  "policy_evaluate rq t state = (ALLOWED, c) \<longleftrightarrow>
     c = None \<and> th_status t = STABLE \<and> oq_entity_type rq = ''Vehicle'' \<and> oq_field rq = ''status'' \<and>
     th_current_node t = Some ''environment'' \<and> th_next_node t = Some ''capacity'' \<and>
     (oq_expected_next_node rq = None \<or> oq_expected_next_node rq = Some ''capacity'') \<and>
     (oq_old_value rq, oq_new_value rq) \<in> set allowed_transitions \<and>
     dget state ''vehicle_id'' = PStr (oq_entity_id rq) \<and> dget state ''vehicle_status'' = PStr (oq_old_value rq)"
  by (auto simp: policy_evaluate_def)

lemma command_of_fields:
  "command_of env thread_id rq p = Inr cmd \<Longrightarrow>
     oc_override_id cmd = oe_new_id env \<and> oc_thread_id cmd = thread_id \<and> oc_request cmd = rq"
  by (auto simp: command_of_def Let_def split: list.splits if_splits)

lemma find_override_app:
  "find_override db i = None \<Longrightarrow> ro_override_id row = i \<Longrightarrow> find_override (db\<lparr>ov_overrides := ov_overrides db @ [row]\<rparr>) i = Some row"
  by (simp add: find_override_def first_match_append)

lemma find_put:
  "find_override db i = Some row \<Longrightarrow> keeps_identity f \<Longrightarrow> find_override (put_override db i f) i = Some (f row)"
  by (simp add: find_put_override)

text \<open>The state in which the promotion runs.\<close>

definition claimed_thread :: "runtime_thread \<Rightarrow> runtime_thread" where
  "claimed_thread t = t\<lparr>th_status := OVERRIDING, th_row_version := th_row_version t + 1\<rparr>"

lemma claim_ready:
  assumes "get_by_thread_id db i = Some t" "th_status t = STABLE" "th_current_checkpoint_id t = Some c" "th_next_node t = Some n"
  shows "claim_override_boundary db i c (th_state_version t) n = (Inr (claimed_thread t), put_thread db (claimed_thread t))"
  using assms by (simp add: claim_override_boundary_def claim_boundary_def claimed_thread_def Let_def)

definition before_promotion :: "override_db \<Rightarrow> override_db \<Rightarrow> runtime_thread \<Rightarrow> override_env \<Rightarrow> override_request \<Rightarrow> checkpoint_record \<Rightarrow> checkpoint_record \<Rightarrow> bool" where
  "before_promotion db db' t env rq source updated \<longleftrightarrow>
     ov_threads db' = put_thread (ov_threads db) (claimed_thread t) \<and>
     (\<exists>row. find_override db' (oe_new_id env) = Some row \<and> ro_status row = APPLYING \<and> ro_thread_id row = th_thread_id t \<and>
        ro_override_id row = oe_new_id env \<and>
        ro_request row = rq \<and> ro_source_checkpoint_id row = Some (cr_checkpoint_id source) \<and>
        ro_result_checkpoint_id row = Some (cr_checkpoint_id updated))"

definition after_promotion :: "override_env \<Rightarrow> checkpoint_record \<Rightarrow> override_db \<Rightarrow> runtime_override ov_result" where
  "after_promotion env updated db =
     (case promote_applied db db (oe_new_id env) (cr_checkpoint_id updated) (cr_serialized_size_bytes updated) (oe_now env) of
        (Inl OverrideVersionConflict, db) \<Rightarrow> mark_partial db db (oe_new_id env) ''CHECKPOINT_PROMOTION_CONFLICT'' (oe_now env)
      | (Inl err, db) \<Rightarrow> (Inl err, db)
      | (Inr applied, db) \<Rightarrow>
          mark_event_status db db (oe_new_id env)
            (if (case oe_events env of None \<Rightarrow> True | Some publish \<Rightarrow> publish applied) then ''PUBLISHED'' else ''FAILED''))"

lemma ready_reaches_promotion:
  assumes ready: "override_ready env thread_id rq p db t source updated" and alone: "\<And>i. oe_others env i = (\<lambda>db. db)"
  shows "\<exists>db'. before_promotion db db' t env rq source updated \<and> apply_override env thread_id rq p db = after_promotion env updated db'"
proof -
  note r = ready [unfolded override_ready_def]
  obtain cmd where cmd: "command_of env thread_id rq p = Inr cmd" using r by blast
  note cf = command_of_fields [OF cmd]
  have pol: "policy_evaluate rq t (cr_state source) = (ALLOWED, None)" using r by simp
  note pa = pol [unfolded policy_allows]
  have tid: "th_thread_id t = thread_id" using r get_by_thread_id_Some by blast
  let ?fp = "payload_fingerprint cmd" and ?x = "oe_now env + oe_intent_ttl env"
  let ?row = "new_override cmd ?fp ?x (th_task_id t)"
  let ?db1 = "db\<lparr>ov_overrides := ov_overrides db @ [?row]\<rparr>"
  have b: "begin_or_replay db db cmd ?fp ?x = (Inr (?row, False), ?db1)"
    using r cf by (simp add: begin_or_replay_def Let_def)
  have row: "ro_override_id ?row = oe_new_id env" "ro_thread_id ?row = thread_id" "ro_request ?row = rq" "ro_status ?row = PENDING"
    "ro_result_checkpoint_id ?row = None"
    using cf by (simp_all add: new_override_def)
  let ?db2 = "?db1\<lparr>ov_threads := put_thread (ov_threads db) (claimed_thread t)\<rparr>"
  have f2: "find_override ?db2 (oe_new_id env) = Some ?row"
    using find_override_app [of db "oe_new_id env" ?row] r row by (simp add: find_override_def)
  have at: "\<not> list_ex (\<lambda>a. ra_override_id a = oe_new_id env \<and> ra_attempt_no a = 1) (ov_attempts ?db2)"
    using r by (auto simp: list_ex_iff list_all_iff)
  let ?g = "\<lambda>row. row\<lparr>ro_status := APPLYING, ro_decision := Some ALLOWED, ro_before_state_version := Some (th_state_version t),
              ro_source_checkpoint_id := Some (cr_checkpoint_id source), ro_started_at := Some (oe_now env)\<rparr>"
  obtain db3 where m: "mark_applying ?db2 ?db2 (oe_new_id env) (th_state_version t) (cr_checkpoint_id source) (oe_now env) = (Inr (?g ?row), db3)"
    and o3: "ov_overrides db3 = ov_overrides (put_override ?db2 (oe_new_id env) ?g)" "ov_threads db3 = ov_threads ?db2"
    using f2 at row by (simp add: mark_applying_def put_override_def Let_def)
  have f3: "find_override db3 (oe_new_id env) = Some (?g ?row)"
    using find_put [OF f2, of ?g] o3 row(1) by (simp add: keeps_identity_def find_override_def)
  let ?h = "\<lambda>row. row\<lparr>ro_result_checkpoint_id := Some (cr_checkpoint_id updated)\<rparr>"
  obtain db4 where a: "attach_result_checkpoint db3 db3 (oe_new_id env) (cr_checkpoint_id updated) = (Inr (?h (?g ?row)), db4)"
    and o4: "ov_overrides db4 = ov_overrides (put_override db3 (oe_new_id env) ?h)" "ov_threads db4 = ov_threads db3"
    using f3 row by (simp add: attach_result_checkpoint_def Let_def update_latest_attempt_def put_override_def)
  have f4: "find_override db4 (oe_new_id env) = Some (?h (?g ?row))"
    using find_put [OF f3, of ?h] o4 row(1) by (simp add: keeps_identity_def find_override_def)
  have bp: "before_promotion db db4 t env rq source updated"
    unfolding before_promotion_def using f4 o4 o3 row tid by simp
  have u: "update_checkpoint (oe_max_bytes env) (oe_lookup env) (oe_update_state env) source
       [(''vehicle_status'', PStr (oq_new_value rq))] ''capacity'' = Inr updated" using r by simp
  have nn: "th_next_node t = Some ''capacity''" using pa by simp
  have cl: "apply_claimed env ?row t source ?db2 = after_promotion env updated db4"
    unfolding apply_claimed_def Let_def alone row option.case nn m u a prod.case sum.case after_promotion_def ..
  have "apply_locked env rq ?row ?db1 = apply_claimed env ?row t source ?db2"
    using r pa row claim_ready [of "ov_threads ?db1" thread_id t "cr_checkpoint_id source" "''capacity''"]
    by (simp add: apply_locked_def alone Let_def)
  moreover have "apply_override env thread_id rq p db = apply_locked env rq ?row ?db1"
    using r b cmd by (simp add: apply_override_def alone Let_def)
  ultimately show ?thesis using bp cl by metis
qed

lemma validate_update_Inr:
  "validate_update max_bytes source result next_nodes p n = Inr u \<Longrightarrow>
     cr_thread_id result = cr_thread_id source \<and> cr_parent_checkpoint_id result = Some (cr_checkpoint_id source) \<and>
     next_nodes = [n] \<and> changed_keys (cr_state source) (cr_state result) = fst ` set p \<and>
     (\<forall>(k, v)\<in>set p. dget (cr_state result) k = v) \<and> cr_serialized_size_bytes result \<le> max_bytes"
  unfolding validate_update_def by (simp split: if_splits) blast

lemma update_checkpoint_Inr:
  assumes "update_checkpoint max_bytes lookup update_state source p n = Inr updated"
  shows "\<exists>next_nodes u. validate_update max_bytes source updated next_nodes p n = Inr u"
  using assms unfolding update_checkpoint_def res_bind_def
  by (simp split: if_splits sum.splits option.splits prod.splits) blast

lemma update_checkpoint_valid:
  assumes "update_checkpoint max_bytes lookup update_state source [(''vehicle_status'', PStr v)] n = Inr updated"
  shows "cr_thread_id updated = cr_thread_id source \<and> cr_parent_checkpoint_id updated = Some (cr_checkpoint_id source) \<and>
    changed_keys (cr_state source) (cr_state updated) = {''vehicle_status''} \<and> dget (cr_state updated) ''vehicle_status'' = PStr v \<and>
    cr_serialized_size_bytes updated \<le> max_bytes"
  using update_checkpoint_Inr [OF assms] by (auto dest!: validate_update_Inr)

section \<open>Promotion and conflict\<close>

lemma before_promotion_thread:
  assumes "before_promotion db db' t env rq source updated" "get_by_thread_id (ov_threads db) i = Some t"
  shows "get_by_thread_id (ov_threads db') i = Some (claimed_thread t)"
  using assms get_by_thread_id_Some [OF assms(2)] by (simp add: before_promotion_def get_put_thread claimed_thread_def)

lemma claimed_thread_simps [simp]:
  "th_status (claimed_thread t) = OVERRIDING" "th_thread_id (claimed_thread t) = th_thread_id t"
  "th_state_version (claimed_thread t) = th_state_version t" "th_current_node (claimed_thread t) = th_current_node t"
  "th_next_node (claimed_thread t) = th_next_node t" "th_current_checkpoint_id (claimed_thread t) = th_current_checkpoint_id t"
  "th_checkpoint_count (claimed_thread t) = th_checkpoint_count t"
  by (simp_all add: claimed_thread_def)

lemma flush_row_new:
  assumes "get_by_thread_id db i = Some t" "event_by_key db i k = None" "te_thread_id e = i" "te_event_key e = k"
  shows "flush_row db t row [e] = Inr (row\<lparr>th_row_version := th_row_version t + 1\<rparr>,
     (put_thread db (row\<lparr>th_row_version := th_row_version t + 1\<rparr>))\<lparr>td_events := td_events db @ [e]\<rparr>)"
  using assms get_by_thread_id_Some [OF assms(1)] by (simp add: flush_row_def Let_def)

lemma mark_event_status_found:
  assumes "find_override db i = Some row" "s \<in> {''PUBLISHED'', ''FAILED''}"
  shows "\<exists>db'. mark_event_status db db i s = (Inr (row\<lparr>ro_event_status := s\<rparr>), db') \<and> ov_threads db' = ov_threads db"
  using assms by (auto simp: mark_event_status_def Let_def put_override_def)

lemma promotion_succeeds:
  assumes bp: "before_promotion db db' t env rq source updated" and t: "get_by_thread_id (ov_threads db) i = Some t"
    and v: "th_state_version t = oq_expected_version rq" "th_current_checkpoint_id t = Some (cr_checkpoint_id source)"
    and n: "th_next_node t = oq_expected_next_node rq"
    and e: "event_by_key (ov_threads db) i (override_event_key (oe_new_id env)) = None"
  shows "\<exists>row db'' t'. after_promotion env updated db' = (Inr row, db'') \<and> ro_status row = APPLIED \<and>
    ro_after_state_version row = Some (oq_expected_version rq + 1) \<and> get_by_thread_id (ov_threads db'') i = Some t' \<and>
    th_status t' = STABLE \<and> th_state_version t' = th_state_version t + 1 \<and>
    th_current_checkpoint_id t' = Some (cr_checkpoint_id updated) \<and> th_current_node t' = th_current_node t \<and>
    th_next_node t' = th_next_node t \<and> th_checkpoint_count t' = th_checkpoint_count t"
proof -
  obtain row where row: "find_override db' (oe_new_id env) = Some row" "ro_status row = APPLYING" "ro_thread_id row = i"
      "ro_override_id row = oe_new_id env" "ro_request row = rq" "ro_source_checkpoint_id row = Some (cr_checkpoint_id source)"
      "ro_result_checkpoint_id row = Some (cr_checkpoint_id updated)"
    using bp get_by_thread_id_Some [OF t] by (auto simp: before_promotion_def)
  let ?c = "claimed_thread t"
  have c: "get_by_thread_id (ov_threads db') i = Some ?c" by (rule before_promotion_thread [OF bp t])
  have e': "event_by_key (ov_threads db') i (override_event_key (oe_new_id env)) = None"
    using e bp by (simp add: before_promotion_def event_by_key_def)
  let ?f = "\<lambda>row. row\<lparr>ro_status := APPLIED, ro_after_state_version := Some (th_state_version t + 1),
      ro_completed_at := Some (oe_now env), ro_error_code := None, ro_error_summary := None\<rparr>"
  let ?t = "?c\<lparr>th_current_checkpoint_id := Some (cr_checkpoint_id updated), th_state_version := th_state_version t + 1,
      th_status := STABLE, th_checkpoint_size_bytes := Some (cr_serialized_size_bytes updated)\<rparr>"
  let ?t' = "?t\<lparr>th_row_version := th_row_version ?c + 1\<rparr>"
  let ?e = "override_event row ?t (cr_checkpoint_id updated) (cr_serialized_size_bytes updated)"
  let ?ts = "(put_thread (ov_threads db') ?t')\<lparr>td_events := td_events (ov_threads db') @ [?e]\<rparr>"
  have fl: "flush_row (ov_threads db') ?c ?t [?e] = Inr (?t', ?ts)"
    by (rule flush_row_new [OF c e']) (simp_all add: override_event_def row)
  obtain g where p: "promote_applied db' db' (oe_new_id env) (cr_checkpoint_id updated) (cr_serialized_size_bytes updated) (oe_now env) =
      (Inr (?f row), update_latest_attempt ((put_override db' (oe_new_id env) ?f)\<lparr>ov_threads := ?ts\<rparr>) (oe_new_id env) g)"
    using row c e' v n fl by (simp add: promote_applied_def Let_def)
  let ?db1 = "update_latest_attempt ((put_override db' (oe_new_id env) ?f)\<lparr>ov_threads := ?ts\<rparr>) (oe_new_id env) g"
  have f1: "find_override ?db1 (oe_new_id env) = Some (?f row)"
    using find_put [OF row(1), of ?f] row(4) by (simp add: keeps_identity_def find_override_def update_latest_attempt_def)
  have th: "ov_threads ?db1 = ?ts" by (simp add: update_latest_attempt_def)
  have gt: "get_by_thread_id ?ts i = Some ?t'" using c get_by_thread_id_Some [OF t] by (simp add: get_put_thread)
  obtain s where "after_promotion env updated db' = mark_event_status ?db1 ?db1 (oe_new_id env) s" "s \<in> {''PUBLISHED'', ''FAILED''}"
    unfolding after_promotion_def p by (simp split: option.split)
  then obtain db'' where "after_promotion env updated db' = (Inr ((?f row)\<lparr>ro_event_status := s\<rparr>), db'')" "ov_threads db'' = ?ts"
    using mark_event_status_found [OF f1, of s] th by auto
  then show ?thesis using gt v(1) by (intro exI [of _ "(?f row)\<lparr>ro_event_status := s\<rparr>"] exI [of _ db''] exI [of _ ?t']) simp
qed

lemma promotion_conflicts:
  assumes bp: "before_promotion db db' t env rq source updated" and t: "get_by_thread_id (ov_threads db) i = Some t"
    and n: "th_next_node t \<noteq> oq_expected_next_node rq"
  shows "\<exists>row db''. after_promotion env updated db' = (Inr row, db'') \<and> ro_status row = PARTIAL \<and>
    ro_override_id row = oe_new_id env \<and> find_override db'' (oe_new_id env) = Some row \<and> ro_request row = rq \<and>
    ro_thread_id row = i \<and> get_by_thread_id (ov_threads db'') i = Some (claimed_thread t)"
proof -
  obtain row where row: "find_override db' (oe_new_id env) = Some row" "ro_status row = APPLYING" "ro_thread_id row = i"
      "ro_override_id row = oe_new_id env" "ro_request row = rq"
    using bp get_by_thread_id_Some [OF t] by (auto simp: before_promotion_def)
  have c: "get_by_thread_id (ov_threads db') i = Some (claimed_thread t)" by (rule before_promotion_thread [OF bp t])
  have "promote_applied db' db' (oe_new_id env) (cr_checkpoint_id updated) (cr_serialized_size_bytes updated) (oe_now env) =
        (Inl OverrideVersionConflict, db')"
    using row c n by (simp add: promote_applied_def claimed_thread_def)
  then show ?thesis using row c find_put [OF row(1)]
    by (simp add: after_promotion_def mark_partial_def close_override_def Let_def keeps_identity_def)
qed

text \<open>Reconciling cannot promote an override whose stored next node is not the thread's.\<close>

lemma reconcile_keeps_fence:
  assumes row: "find_override db i = Some row" "ro_status row = PARTIAL"
    and t: "get_by_thread_id (ov_threads db) (ro_thread_id row) = Some t" "th_next_node t \<noteq> oq_expected_next_node (ro_request row)"
  shows "ov_threads (snd (reconcile_override max_bytes lookup now i db)) = ov_threads db"
proof -
  have p: "promote_applied db db i c b now = (Inl OverrideVersionConflict, db)" for c b
    using assms by (simp add: promote_applied_def)
  have q: "ov_threads (snd (finish db db i s d code now)) = ov_threads db" "ov_threads (snd (mark_partial db db i code now)) = ov_threads db" for s d code
    by (simp_all add: finish_def mark_partial_def close_override_def Let_def update_latest_attempt_def put_override_def split: option.split)
  show ?thesis using row t
    by (auto simp: reconcile_override_def Let_def p q split: option.split sum.split prod.split)
qed


section \<open>A sample request\<close>

definition sample_source :: checkpoint_record where
  "sample_source =
     \<lparr>cr_thread_id = ''t1'', cr_checkpoint_id = ''c2'', cr_parent_checkpoint_id = Some ''c1'', cr_checkpoint_namespace = [],
      cr_state = [(''vehicle_id'', PStr ''V1''), (''vehicle_status'', PStr ''NORMAL'')], cr_serialized_size_bytes = 10\<rparr>"

definition sample_updated :: checkpoint_record where
  "sample_updated = sample_source\<lparr>cr_checkpoint_id := ''c3'', cr_parent_checkpoint_id := Some ''c2'',
     cr_state := [(''vehicle_id'', PStr ''V1''), (''vehicle_status'', PStr ''BROKEN'')]\<rparr>"

definition sample_env :: override_env where
  "sample_env =
     \<lparr>oe_lookup = (\<lambda>_ c. Inr (if c = ''c2'' then Some sample_source else if c = ''c3'' then Some sample_updated else None)),
      oe_update_state = (\<lambda>_ _. Inr (Some ''c3'', [''capacity''])), oe_max_bytes = 100, oe_lock_acquired = True,
      oe_events = None, oe_now = 7, oe_intent_ttl = 30, oe_new_id = ''o1'', oe_others = (\<lambda>_ db. db)\<rparr>"

definition sample_override_request :: "string option \<Rightarrow> override_request" where
  "sample_override_request n =
     \<lparr>oq_idempotency_key = ''k1'', oq_entity_type = ''Vehicle'', oq_entity_id = ''V1'', oq_field = ''status'',
      oq_old_value = ''NORMAL'', oq_new_value = ''BROKEN'', oq_reason = ''flat tyre'', oq_expected_version = 2,
      oq_expected_next_node = n\<rparr>"

definition sample_stable :: runtime_thread where
  "sample_stable = (new_thread ''T1'' ''t1'')\<lparr>th_status := STABLE, th_current_checkpoint_id := Some ''c2'', th_state_version := 2,
     th_current_node := Some ''environment'', th_next_node := Some ''capacity'', th_checkpoint_count := 2\<rparr>"

definition sample_tables :: override_db where
  "sample_tables = \<lparr>ov_threads = \<lparr>td_tasks = [''T1''], td_threads = [sample_stable], td_events = []\<rparr>, ov_overrides = [], ov_attempts = []\<rparr>"

definition sample_supervisor :: principal where
  "sample_supervisor = \<lparr>pp_subject_id = ''u1'', pp_roles = [SUPERVISOR], pp_permissions = role_permission_matrix SUPERVISOR\<rparr>"

lemma sample_ready:
  assumes "n = None \<or> n = Some ''capacity''"
  shows "override_ready sample_env ''t1'' (sample_override_request n) sample_supervisor sample_tables sample_stable sample_source sample_updated"
proof -
  have 1: "command_ok cmd" if "oc_override_id cmd = ''o1''" "oc_thread_id cmd = ''t1''" "oc_request cmd = sample_override_request n"
      "oc_operator_id cmd = ''u1''" "oc_operator_role cmd = ''SUPERVISOR''" for cmd
    using that assms by (auto simp: command_ok_def bounded_text_def char_count_def sample_override_request_def)
  have 2: "changed_keys (cr_state sample_source) (cr_state sample_updated) = {''vehicle_status''}"
    by (auto simp: changed_keys_def sample_source_def sample_updated_def dget_def)
  show ?thesis
    using assms 1 2
    by (auto simp: override_ready_def sample_tables_def sample_stable_def new_thread_def get_by_thread_id_def
      can_def sample_supervisor_def role_permission_matrix_def command_of_def role_value_def sample_env_def Let_def
      override_by_key_def find_override_def event_by_key_def policy_allows allowed_transitions_def
      update_checkpoint_def validate_update_def sample_source_def sample_updated_def sample_override_request_def dget_def)
qed


section \<open>Properties\<close>

text \<open>
  C18. A new, allowed request that names the next node is applied, when no other session interferes: the override ends
  \<open>APPLIED\<close>, the thread is stable again one version later, at the new checkpoint, with its nodes and its checkpoint count unchanged, and the new
  checkpoint is a child of the old one that differs from it in the vehicle status alone.
\<close>

theorem override_is_applied:
  assumes "override_ready env thread_id rq p db t source updated" and "\<And>i. oe_others env i = (\<lambda>db. db)"
    and "oq_expected_next_node rq \<noteq> None"
  shows "\<exists>row db' t'. apply_override env thread_id rq p db = (Inr row, db') \<and> ro_status row = APPLIED \<and>
    ro_after_state_version row = Some (oq_expected_version rq + 1) \<and> get_by_thread_id (ov_threads db') thread_id = Some t' \<and>
    th_status t' = STABLE \<and> th_state_version t' = th_state_version t + 1 \<and>
    th_current_checkpoint_id t' = Some (cr_checkpoint_id updated) \<and> th_current_node t' = Some ''environment'' \<and>
    th_next_node t' = Some ''capacity'' \<and> th_checkpoint_count t' = th_checkpoint_count t \<and>
    cr_parent_checkpoint_id updated = Some (cr_checkpoint_id source) \<and>
    changed_keys (cr_state source) (cr_state updated) = {''vehicle_status''} \<and>
    dget (cr_state updated) ''vehicle_status'' = PStr (oq_new_value rq)"
proof -
  note r = assms(1) [unfolded override_ready_def]
  obtain db' where db': "before_promotion db db' t env rq source updated" "apply_override env thread_id rq p db = after_promotion env updated db'"
    using ready_reaches_promotion [OF assms(1,2)] by blast
  have pol: "policy_evaluate rq t (cr_state source) = (ALLOWED, None)" using r by simp
  then have n: "th_next_node t = oq_expected_next_node rq" "th_next_node t = Some ''capacity''" "th_current_node t = Some ''environment''"
    using assms(3) by (auto simp: policy_allows)
  have up: "update_checkpoint (oe_max_bytes env) (oe_lookup env) (oe_update_state env) source
       [(''vehicle_status'', PStr (oq_new_value rq))] ''capacity'' = Inr updated" using r by simp
  show ?thesis
    using promotion_succeeds [OF db'(1), of thread_id] r n update_checkpoint_valid [OF up] by (simp add: db'(2))
qed

theorem override_is_applied_witness:
  "\<exists>row db' t'. apply_override sample_env ''t1'' (sample_override_request (Some ''capacity'')) sample_supervisor sample_tables = (Inr row, db') \<and>
     ro_status row = APPLIED \<and> get_by_thread_id (ov_threads db') ''t1'' = Some t' \<and> th_state_version t' = 3"
proof -
  have "oe_others sample_env i = (\<lambda>db. db)" for i by (simp add: sample_env_def)
  moreover have "oq_expected_next_node (sample_override_request (Some ''capacity'')) \<noteq> None" by (simp add: sample_override_request_def)
  moreover have "th_state_version sample_stable = 2" by (simp add: sample_stable_def)
  ultimately show ?thesis
    using override_is_applied [OF sample_ready [of "Some ''capacity''"]] by fastforce
qed

text \<open>
  C19. A new, allowed request that leaves the next node open, as the interface lets it, is never applied and blocks its thread. The policy and the
  claim accept it, but the promotion compares the thread's next node with the one stored in the request, so that the override ends
  \<open>PARTIAL\<close> with the thread still \<open>OVERRIDING\<close>; reconciling, whatever the checkpoint store answers, leaves the threads as they are, and neither a worker
  nor another override can claim the thread, whatever it expects.
\<close>

theorem override_without_next_node_blocks:
  assumes "override_ready env thread_id rq p db t source updated" and "\<And>i. oe_others env i = (\<lambda>db. db)"
    and "oq_expected_next_node rq = None"
  shows "\<exists>row db'. apply_override env thread_id rq p db = (Inr row, db') \<and> ro_status row = PARTIAL \<and>
    (\<exists>t'. get_by_thread_id (ov_threads db') thread_id = Some t' \<and> th_status t' = OVERRIDING \<and>
          th_state_version t' = th_state_version t \<and> th_current_checkpoint_id t' = th_current_checkpoint_id t) \<and>
    (\<forall>max_bytes lookup now. ov_threads (snd (reconcile_override max_bytes lookup now (ro_override_id row) db')) = ov_threads db') \<and>
    (\<forall>c v n worker. fst (claim_next_node (ov_threads db') thread_id c v n worker) = Inl BoundaryClaimConflict \<and>
                     fst (claim_override_boundary (ov_threads db') thread_id c v n) = Inl BoundaryClaimConflict)"
proof -
  note r = assms(1) [unfolded override_ready_def]
  obtain db0 where db0: "before_promotion db db0 t env rq source updated" "apply_override env thread_id rq p db = after_promotion env updated db0"
    using ready_reaches_promotion [OF assms(1,2)] by blast
  have pol: "policy_evaluate rq t (cr_state source) = (ALLOWED, None)" and t: "get_by_thread_id (ov_threads db) thread_id = Some t"
    using r by simp_all
  then have n: "th_next_node t \<noteq> oq_expected_next_node rq" using assms(3) by (simp add: policy_allows)
  obtain row db' where a: "after_promotion env updated db0 = (Inr row, db')" "ro_status row = PARTIAL" "ro_override_id row = oe_new_id env"
      "find_override db' (oe_new_id env) = Some row" "ro_request row = rq" "ro_thread_id row = thread_id"
      "get_by_thread_id (ov_threads db') thread_id = Some (claimed_thread t)"
    using promotion_conflicts [OF db0(1) t n] by blast
  have "ov_threads (snd (reconcile_override max_bytes lookup now (ro_override_id row) db')) = ov_threads db'" for max_bytes lookup now
    using reconcile_keeps_fence [of db' "oe_new_id env" row "claimed_thread t"] a n by simp
  then show ?thesis
    using a by (simp add: db0(2) claim_next_node_def claim_override_boundary_def claim_boundary_def)
qed

theorem override_without_next_node_blocks_witness:
  "\<exists>row db'. apply_override sample_env ''t1'' (sample_override_request None) sample_supervisor sample_tables = (Inr row, db') \<and>
     ro_status row = PARTIAL \<and> (\<exists>t'. get_by_thread_id (ov_threads db') ''t1'' = Some t' \<and> th_status t' = OVERRIDING)"
proof -
  have "oe_others sample_env i = (\<lambda>db. db)" for i by (simp add: sample_env_def)
  moreover have "oq_expected_next_node (sample_override_request None) = None" by (simp add: sample_override_request_def)
  ultimately show ?thesis using override_without_next_node_blocks [OF sample_ready [of None]] by fastforce
qed

end
