(* ===== verification/Idempotency.thy ===== *)
theory Idempotency
  imports Audit_Service Runtime_Threads Sandtable Stale_Reads
begin

text \<open>
  The ledger of dispatch tasks (\<open>idempotency/service.py\<close>). A task is created together with its runtime thread in one transaction, or found by its id and its
  idempotency key. Each method reads the tables as its session saw them, \<open>r\<close>, and writes to the tables as they are then, \<open>w\<close>; the unique and foreign keys of the
  tables are checked against \<open>w\<close>. The row of a task has no version: the last session to write its status wins.
\<close>

section \<open>Tables\<close>

record dispatch_publication =
  pb_id :: int
  pb_task_id :: int
  pb_dispatch_id :: int
  pb_status :: string
  pb_route_id :: "string option"
  pb_route_instruction :: "string option"
  pb_published_by_subject_id :: string
  pb_published_by_display_name :: string
  pb_published_at :: int

record demo_employee_account =
  ea_employee_id :: string
  ea_display_name :: string
  ea_role :: string
  ea_is_active :: bool

record ledger_db =
  lg_orders :: "order_row list"
  lg_anomalies :: "int list"
  lg_accounts :: "demo_employee_account list"
  lg_vehicles :: "vehicle_row list"
  lg_drivers :: "fleet_driver list"
  lg_tasks :: "task_row list"
  lg_next_task_id :: int
  lg_threads :: thread_db
  lg_dispatches :: "dispatch_row list"
  lg_audits :: "audit_record list"
  lg_next_audit_id :: int
  lg_publications :: "dispatch_publication list"
  lg_next_publication_id :: int

datatype idempotency_state = NEW | IN_PROGRESS | TERMINAL_STATE

record idempotency_decision =
  id_state :: idempotency_state
  id_task_id :: string
  id_idempotency_key :: string
  id_existing_status :: "string option"
  id_should_execute :: bool
  id_reason :: string

record execution_reconciliation =
  er_dispatch_id :: "int option"
  er_audit_id :: "int option"
  er_terminal_status :: "string option"

datatype ledger_error = IdempotencyConflictError | LedgerIntegrityError | TaskDoesNotExist | InvalidThreadTaskId

definition terminal_statuses :: "string list" where
  "terminal_statuses = [''APPROVED'', ''COMPLETED'', ''DLQ'', ''FAILED'', ''REVIEW_REQUIRED'']"

definition reconciliation_terminal :: "execution_reconciliation \<Rightarrow> bool" where
  "reconciliation_terminal e \<longleftrightarrow> er_terminal_status e \<in> {Some ''APPROVED'', Some ''REVIEW_REQUIRED''}"

definition task_by_id :: "ledger_db \<Rightarrow> string \<Rightarrow> task_row option" where
  "task_by_id db task_id = first_match (\<lambda>t. dt_task_id t = task_id) (lg_tasks db)"

definition task_by_key :: "ledger_db \<Rightarrow> string \<Rightarrow> task_row option" where
  "task_by_key db key = first_match (\<lambda>t. dt_idempotency_key t = key) (lg_tasks db)"

section \<open>The service\<close>

definition existing_task :: "ledger_db \<Rightarrow> string \<Rightarrow> string \<Rightarrow> ledger_error + task_row option" where
  "existing_task db task_id key =
     (let by_task = task_by_id db task_id; by_key = task_by_key db key
      in if (case by_task of None \<Rightarrow> False | Some t \<Rightarrow> dt_idempotency_key t \<noteq> key) then Inl IdempotencyConflictError
         else if (case by_key of None \<Rightarrow> False | Some t \<Rightarrow> dt_task_id t \<noteq> task_id) then Inl IdempotencyConflictError
         else Inr (case by_task of None \<Rightarrow> by_key | Some t \<Rightarrow> Some t))"

definition task_decision :: "task_row \<Rightarrow> idempotency_decision" where
  "task_decision t =
     (if dt_status t \<in> set terminal_statuses
      then \<lparr>id_state = TERMINAL_STATE, id_task_id = dt_task_id t, id_idempotency_key = dt_idempotency_key t,
            id_existing_status = Some (dt_status t), id_should_execute = False, id_reason = ''Task is terminal.''\<rparr>
      else \<lparr>id_state = IN_PROGRESS, id_task_id = dt_task_id t, id_idempotency_key = dt_idempotency_key t,
            id_existing_status = Some (dt_status t), id_should_execute = False, id_reason = ''Task already exists.''\<rparr>)"

definition thread_id_for_persisted_task :: "string \<Rightarrow> string" where
  "thread_id_for_persisted_task task_id = ''cf:dispatch:'' @ task_id"

definition new_task :: "ledger_db \<Rightarrow> string \<Rightarrow> int \<Rightarrow> string \<Rightarrow> int option \<Rightarrow> string option \<Rightarrow> task_row" where
  "new_task db task_id order_id key anomaly_id assignee =
     \<lparr>dt_id = lg_next_task_id db, dt_task_id = task_id, dt_order_id = order_id, dt_anomaly_id = anomaly_id, dt_status = ''PENDING'',
      dt_idempotency_key = key, dt_assignee_subject_id = assignee, dt_started_at = None, dt_completed_at = None\<rparr>"

text \<open>The constraints that the three flushes of the transaction check.\<close>

definition task_constraints_ok :: "ledger_db \<Rightarrow> string \<Rightarrow> int \<Rightarrow> string \<Rightarrow> int option \<Rightarrow> bool" where
  "task_constraints_ok w task_id order_id key anomaly_id \<longleftrightarrow>
     order_id \<in> or_id ` set (lg_orders w) \<and> (case anomaly_id of None \<Rightarrow> True | Some a \<Rightarrow> a \<in> set (lg_anomalies w)) \<and>
     task_by_id w task_id = None \<and> task_by_key w key = None \<and>
     get_by_thread_id (lg_threads w) (thread_id_for_persisted_task task_id) = None \<and> thread_by_task_id (lg_threads w) task_id = None \<and>
     event_by_key (lg_threads w) (thread_id_for_persisted_task task_id) ''thread:created'' = None"

definition add_task :: "ledger_db \<Rightarrow> task_row \<Rightarrow> ledger_db" where
  "add_task w t =
     w\<lparr>lg_tasks := lg_tasks w @ [t], lg_next_task_id := lg_next_task_id w + 1,
       lg_threads := (lg_threads w)
         \<lparr>td_tasks := td_tasks (lg_threads w) @ [dt_task_id t],
          td_threads := td_threads (lg_threads w) @ [new_thread (dt_task_id t) (thread_id_for_persisted_task (dt_task_id t))],
          td_events := td_events (lg_threads w) @ [created_event (thread_id_for_persisted_task (dt_task_id t))]\<rparr>\<rparr>"

type_synonym 'a ledger_result = "(ledger_error + 'a) \<times> ledger_db"

definition begin_task :: "ledger_db \<Rightarrow> ledger_db \<Rightarrow> string \<Rightarrow> int \<Rightarrow> string \<Rightarrow> int option \<Rightarrow> string option \<Rightarrow>
    idempotency_decision ledger_result" where
  "begin_task r w task_id order_id key anomaly_id assignee =
     (case existing_task r task_id key of
        Inl e \<Rightarrow> (Inl e, w)
      | Inr (Some t) \<Rightarrow> (Inr (task_decision t), w)
      | Inr None \<Rightarrow>
          if task_id = [] then (Inl InvalidThreadTaskId, w)
          else if task_constraints_ok w task_id order_id key anomaly_id
          then (Inr \<lparr>id_state = NEW, id_task_id = task_id, id_idempotency_key = key, id_existing_status = None,
                     id_should_execute = True, id_reason = ''Ledger created.''\<rparr>,
                add_task w (new_task w task_id order_id key anomaly_id assignee))
          else (case existing_task w task_id key of
                  Inl e \<Rightarrow> (Inl e, w)
                | Inr None \<Rightarrow> (Inl LedgerIntegrityError, w)
                | Inr (Some t) \<Rightarrow> (Inr (task_decision t), w)))"

definition get_decision :: "ledger_db \<Rightarrow> string \<Rightarrow> string \<Rightarrow> ledger_error + idempotency_decision option" where
  "get_decision db task_id key = res_bind (existing_task db task_id key) (\<lambda>t. Inr (map_option task_decision t))"

text \<open>Only the columns that a method assigns are written.\<close>

definition update_task :: "ledger_db \<Rightarrow> string \<Rightarrow> (task_row \<Rightarrow> task_row) \<Rightarrow> ledger_db" where
  "update_task w task_id f = w\<lparr>lg_tasks := map (\<lambda>t. if dt_task_id t = task_id then f t else t) (lg_tasks w)\<rparr>"

definition set_status :: "ledger_db \<Rightarrow> ledger_db \<Rightarrow> string \<Rightarrow> string \<Rightarrow> bool \<Rightarrow> bool \<Rightarrow> int \<Rightarrow> unit ledger_result" where
  "set_status r w task_id status started completed now =
     (if task_by_id r task_id = None then (Inl TaskDoesNotExist, w)
      else (Inr (), update_task w task_id (\<lambda>t. t\<lparr>dt_status := status,
              dt_started_at := (if started then Some now else dt_started_at t),
              dt_completed_at := (if completed then Some now else dt_completed_at t)\<rparr>)))"

definition mark_processing :: "ledger_db \<Rightarrow> ledger_db \<Rightarrow> string \<Rightarrow> int \<Rightarrow> unit ledger_result" where
  "mark_processing r w task_id now = set_status r w task_id ''PROCESSING'' True False now"

definition mark_task_terminal :: "ledger_db \<Rightarrow> ledger_db \<Rightarrow> string \<Rightarrow> string \<Rightarrow> int \<Rightarrow> unit ledger_result" where
  "mark_task_terminal r w task_id status now = set_status r w task_id status False True now"

definition reconcile_existing_execution :: "ledger_db \<Rightarrow> string \<Rightarrow> execution_reconciliation" where
  "reconcile_existing_execution db task_id =
     (let none = \<lparr>er_dispatch_id = None, er_audit_id = None, er_terminal_status = None\<rparr>
      in case task_by_id db task_id of
           None \<Rightarrow> none
         | Some t \<Rightarrow>
             (case first_match (\<lambda>d. dp_task_id d = Some (dt_id t)) (lg_dispatches db) of
                None \<Rightarrow> none
              | Some d \<Rightarrow>
                  (let audit = first_match (\<lambda>a. au_task_id a = dt_id t \<and> au_dispatch_id a = dp_id d) (lg_audits db)
                   in \<lparr>er_dispatch_id = Some (dp_id d), er_audit_id = map_option au_id audit,
                       er_terminal_status = map_option au_result audit\<rparr>)))"

section \<open>What every method keeps\<close>

text \<open>Ids and keys are unique, and every task has its thread.\<close>

definition ledger_ok :: "ledger_db \<Rightarrow> bool" where
  "ledger_ok db \<longleftrightarrow>
     distinct (map dt_task_id (lg_tasks db)) \<and> distinct (map dt_idempotency_key (lg_tasks db)) \<and>
     (\<forall>t\<in>set (lg_tasks db). dt_task_id t \<noteq> [] \<and> get_by_thread_id (lg_threads db) (thread_id_for_persisted_task (dt_task_id t)) \<noteq> None) \<and>
     thread_ok (lg_threads db)"

definition same_task :: "task_row \<Rightarrow> task_row \<Rightarrow> bool" where
  "same_task t u \<longleftrightarrow>
     dt_id u = dt_id t \<and> dt_task_id u = dt_task_id t \<and> dt_order_id u = dt_order_id t \<and> dt_anomaly_id u = dt_anomaly_id t \<and>
     dt_idempotency_key u = dt_idempotency_key t \<and> dt_assignee_subject_id u = dt_assignee_subject_id t"

text \<open>A dispatch keeps all but its status, which is only written over the version that was read.\<close>

definition dispatch_le :: "dispatch_row \<Rightarrow> dispatch_row \<Rightarrow> bool" where
  "dispatch_le d e \<longleftrightarrow>
     e = d\<lparr>dp_status := dp_status e, dp_version := dp_version e\<rparr> \<and> dp_version d \<le> dp_version e \<and>
     (dp_version d = dp_version e \<longrightarrow> d = e)"

definition ledger_later :: "ledger_db \<Rightarrow> ledger_db \<Rightarrow> bool" where
  "ledger_later db db' \<longleftrightarrow>
     (\<forall>t\<in>set (lg_tasks db). \<exists>u\<in>set (lg_tasks db'). same_task t u) \<and> thread_later (lg_threads db) (lg_threads db') \<and>
     (\<forall>d\<in>set (lg_dispatches db). \<exists>e\<in>set (lg_dispatches db'). dispatch_le d e) \<and>
     prefix (lg_audits db) (lg_audits db') \<and> prefix (lg_publications db) (lg_publications db')"

lemma same_task_refl [simp]: "same_task t t"
  by (simp add: same_task_def)

lemma same_task_trans: "same_task a b \<Longrightarrow> same_task b c \<Longrightarrow> same_task a c"
  by (simp add: same_task_def)

lemma dispatch_le_refl [simp]: "dispatch_le d d"
  by (simp add: dispatch_le_def)

lemma dispatch_le_trans:
  assumes "dispatch_le a b" "dispatch_le b c" shows "dispatch_le a c"
proof -
  have "c = b\<lparr>dp_status := dp_status c, dp_version := dp_version c\<rparr>" "b = a\<lparr>dp_status := dp_status b, dp_version := dp_version b\<rparr>"
    using assms unfolding dispatch_le_def by blast+
  then have "c = a\<lparr>dp_status := dp_status c, dp_version := dp_version c\<rparr>"
    by (cases a; cases b; cases c) simp
  then show ?thesis using assms unfolding dispatch_le_def by (metis order.antisym order.trans)
qed

lemma dispatch_le_mem: "d \<in> A \<Longrightarrow> \<exists>e\<in>A. dispatch_le d e"
  by (rule bexI [where x = d]) simp_all

lemma same_task_mem: "t \<in> A \<Longrightarrow> \<exists>u\<in>A. same_task t u"
  by (rule bexI [where x = t]) simp_all

lemma ledger_laterI:
  assumes "\<And>t. t \<in> set (lg_tasks db) \<Longrightarrow> \<exists>u\<in>set (lg_tasks db'). same_task t u"
    and "thread_later (lg_threads db) (lg_threads db')"
    and "lg_dispatches db' = lg_dispatches db" "lg_audits db' = lg_audits db" "lg_publications db' = lg_publications db"
  shows "ledger_later db db'"
  unfolding ledger_later_def assms(3-5) using assms(1,2) by (auto intro: dispatch_le_mem)

lemma ledger_later_task: "ledger_later r w \<Longrightarrow> t \<in> set (lg_tasks r) \<Longrightarrow> \<exists>u\<in>set (lg_tasks w). same_task t u"
  by (simp add: ledger_later_def)

lemma ledger_later_refl: "ledger_later db db"
  by (intro ledger_laterI) (auto simp: thread_later_refl intro: same_task_mem)

lemma ledger_later_trans: "ledger_later a b \<Longrightarrow> ledger_later b c \<Longrightarrow> ledger_later a c"
  unfolding ledger_later_def by (meson dispatch_le_trans prefix_order.trans same_task_trans thread_later_trans)

lemma task_by_None: "task_by_id db i = None \<longleftrightarrow> i \<notin> dt_task_id ` set (lg_tasks db)"
  "task_by_key db k = None \<longleftrightarrow> k \<notin> dt_idempotency_key ` set (lg_tasks db)"
  by (auto simp: task_by_id_def task_by_key_def first_match_None)

lemma thread_ok_tasks: "thread_ok (db\<lparr>td_tasks := ts\<rparr>) \<longleftrightarrow> thread_ok db"
  by (simp add: thread_ok_def get_by_thread_id_def advances_def)

lemma thread_later_tasks: "thread_later db (db'\<lparr>td_tasks := ts\<rparr>) \<longleftrightarrow> thread_later db db'"
  by (simp add: thread_later_def get_by_thread_id_def)

lemma add_task_keeps:
  assumes ok: "ledger_ok w" and c: "task_constraints_ok w (dt_task_id t) o' (dt_idempotency_key t) a'" and i: "dt_task_id t \<noteq> []"
  shows "ledger_ok (add_task w t) \<and> ledger_later w (add_task w t)"
proof -
  let ?i = "thread_id_for_persisted_task (dt_task_id t)"
  let ?ts = "(lg_threads w)\<lparr>td_threads := td_threads (lg_threads w) @ [new_thread (dt_task_id t) ?i],
      td_events := td_events (lg_threads w) @ [created_event ?i]\<rparr>"
  have th: "lg_threads (add_task w t) = ?ts\<lparr>td_tasks := td_tasks (lg_threads w) @ [dt_task_id t]\<rparr>" by (simp add: add_task_def)
  have tasks: "lg_tasks (add_task w t) = lg_tasks w @ [t]" by (simp add: add_task_def)
  have "moves (lg_threads w) ?ts" using ok c by (intro thread_added_moves) (simp_all add: ledger_ok_def task_constraints_ok_def)
  then have mv: "thread_ok (lg_threads (add_task w t))" "thread_later (lg_threads w) (lg_threads (add_task w t))"
    unfolding th thread_ok_tasks thread_later_tasks moves_def by simp_all
  have get: "get_by_thread_id (lg_threads (add_task w t)) ?i \<noteq> None"
    unfolding th by (auto simp: get_by_thread_id_def first_match_append new_thread_def split: option.split)
  have keep: "get_by_thread_id (lg_threads (add_task w t)) j \<noteq> None" if "get_by_thread_id (lg_threads w) j \<noteq> None" for j
    using that thread_laterD [OF mv(2)] by blast
  have "dt_task_id t \<notin> dt_task_id ` set (lg_tasks w)" "dt_idempotency_key t \<notin> dt_idempotency_key ` set (lg_tasks w)"
    using c by (simp_all add: task_constraints_ok_def flip: task_by_None)
  then have "ledger_ok (add_task w t)" using ok mv(1) get keep i unfolding ledger_ok_def tasks by auto
  moreover have "ledger_later w (add_task w t)"
    using mv(2) by (intro ledger_laterI) (auto simp: tasks add_task_def intro: same_task_mem)
  ultimately show ?thesis by blast
qed

lemma update_task_keeps:
  assumes ok: "ledger_ok w" and f: "\<And>t. same_task t (f t)"
  shows "ledger_ok (update_task w i f) \<and> ledger_later w (update_task w i f)"
proof -
  let ?g = "\<lambda>t. if dt_task_id t = i then f t else t"
  have g: "same_task t (?g t)" for t using f by simp
  then have ids: "dt_task_id (?g t) = dt_task_id t" "dt_idempotency_key (?g t) = dt_idempotency_key t" for t
    unfolding same_task_def by blast+
  have tasks: "lg_tasks (update_task w i f) = map ?g (lg_tasks w)" by (simp add: update_task_def)
  have "map dt_task_id (map ?g (lg_tasks w)) = map dt_task_id (lg_tasks w)"
    "map dt_idempotency_key (map ?g (lg_tasks w)) = map dt_idempotency_key (lg_tasks w)"
    unfolding map_map comp_def ids by (rule refl)+
  then have "ledger_ok (update_task w i f)"
    using ok unfolding ledger_ok_def tasks set_map ball_simps ids by (simp add: update_task_def del: map_map map_eq_conv)
  moreover have "ledger_later w (update_task w i f)"
  proof (rule ledger_laterI)
    fix t assume "t \<in> set (lg_tasks w)"
    then have "?g t \<in> set (lg_tasks (update_task w i f))" unfolding tasks set_map by (rule imageI)
    then show "\<exists>u\<in>set (lg_tasks (update_task w i f)). same_task t u" using g by blast
  qed (simp_all add: update_task_def thread_later_refl)
  ultimately show ?thesis by blast
qed

lemma set_status_keeps:
  assumes "ledger_ok w" shows "ledger_ok (snd (set_status r w i s st cm now)) \<and> ledger_later w (snd (set_status r w i s st cm now))"
  using assms update_task_keeps [OF assms] by (simp add: set_status_def ledger_later_refl same_task_def)

lemma begin_task_keeps:
  assumes "ledger_ok w"
  shows "ledger_ok (snd (begin_task r w i order key a s)) \<and> ledger_later w (snd (begin_task r w i order key a s))"
proof -
  have "ledger_ok (add_task w (new_task w i order key a s)) \<and> ledger_later w (add_task w (new_task w i order key a s))"
    if "i \<noteq> []" "task_constraints_ok w i order key a"
    using add_task_keeps [OF assms, of "new_task w i order key a s"] that by (simp add: new_task_def)
  then show ?thesis using assms by (simp add: begin_task_def ledger_later_refl split: sum.split option.split)
qed

text \<open>A new task is announced only when neither its id nor its key was taken at the moment of the insertion.\<close>

lemma begin_task_new:
  assumes "begin_task r w i order key a s = (Inr d, w')" "id_state d = NEW"
  shows "task_constraints_ok w i order key a \<and> w' = add_task w (new_task w i order key a s) \<and> id_task_id d = i"
proof -
  have "id_state (task_decision t) \<noteq> NEW" for t by (simp add: task_decision_def)
  then show ?thesis using assms by (auto simp: begin_task_def split: sum.splits option.splits if_splits)
qed

lemma task_by_id_add:
  "task_by_id w (dt_task_id t) = None \<Longrightarrow> task_by_id (add_task w t) (dt_task_id t) = Some t"
  "task_by_key w (dt_idempotency_key t) = None \<Longrightarrow> task_by_key (add_task w t) (dt_idempotency_key t) = Some t"
  by (simp_all add: task_by_id_def task_by_key_def add_task_def first_match_append)

lemma task_by_id_update:
  assumes "\<And>t. dt_task_id (f t) = dt_task_id t"
  shows "task_by_id (update_task w i f) j = (if j = i then map_option f (task_by_id w j) else task_by_id w j)"
proof -
  have "first_match (\<lambda>t. dt_task_id t = j) (map (\<lambda>t. if dt_task_id t = i then f t else t) ts) =
     (if j = i then map_option f (first_match (\<lambda>t. dt_task_id t = j) ts) else first_match (\<lambda>t. dt_task_id t = j) ts)" for ts
    by (induction ts) (auto simp: assms)
  then show ?thesis by (simp add: task_by_id_def update_task_def)
qed

lemma task_by_id_mem: "ledger_ok db \<Longrightarrow> t \<in> set (lg_tasks db) \<Longrightarrow> task_by_id db (dt_task_id t) = Some t"
  unfolding ledger_ok_def task_by_id_def by (simp add: first_match_distinct)

lemma task_by_key_mem: "ledger_ok db \<Longrightarrow> t \<in> set (lg_tasks db) \<Longrightarrow> task_by_key db (dt_idempotency_key t) = Some t"
  unfolding ledger_ok_def task_by_key_def by (simp add: first_match_distinct)

end
