(* ===== verification/Py_Time.thy ===== *)
theory Py_Time
  imports Decimal_Text
begin

text \<open>
  Points in time of Python's \<open>datetime\<close>: the values of a clock and their text in the format of ISO 8601.
\<close>

text \<open>A point in time of a clock, in microseconds since the epoch, with or without a time zone; the zone is that of UTC.\<close>

datatype clock_time = Aware int | Naive int

text \<open>The date of a day of the proleptic Gregorian calendar, counted from 1970-01-01, by the 400-year cycle that starts in March.\<close>

definition civil_date :: "int \<Rightarrow> int \<times> int \<times> int" where
  "civil_date days =
     (let z = days + 719468; era = z div 146097; doe = z mod 146097;
          yoe = (doe - doe div 1460 + doe div 36524 - doe div 146096) div 365;
          doy = doe - (365 * yoe + yoe div 4 - yoe div 100);
          mp = (5 * doy + 2) div 153;
          month = (if mp < 10 then mp + 3 else mp - 9)
      in (yoe + era * 400 + (if month \<le> 2 then 1 else 0), month, doy - (153 * mp + 2) div 5 + 1))"

definition two_digits :: "int \<Rightarrow> string" where
  "two_digits i = zero_pad 2 (show_int i)"

definition isoformat :: "int \<Rightarrow> string" where
  "isoformat t =
     (let us = t mod 1000000; seconds = t div 1000000; s = seconds mod 86400
      in case civil_date (seconds div 86400) of (year, month, day) \<Rightarrow>
         zero_pad 4 (show_int year) @ ''-'' @ two_digits month @ ''-'' @ two_digits day @ ''T'' @
         two_digits (s div 3600) @ '':'' @ two_digits (s div 60 mod 60) @ '':'' @ two_digits (s mod 60) @
         (if us = 0 then [] else ''.'' @ zero_pad 6 (show_int us)) @ ''+00:00'')"

end
