(* ===== verification/Reviews.thy ===== *)
theory Reviews
  imports Idempotency Py_Time Py_Text
begin

text \<open>
  What people and the worker do with the plan of a task once the graph has left it: the decision of a manual review (\<open>reviews/service.py\<close>) and
  the publication of an approved dispatch (\<open>publications/service.py\<close>). As in \<open>Idempotency\<close>, a method reads the tables \<open>r\<close> and writes to \<open>w\<close>; the row locks
  that some databases take for \<open>FOR UPDATE\<close> are not relied on. The dispatch is written over the version that was read, and only if its status changes.
\<close>

section \<open>Reviews\<close>

datatype review_decision = APPROVE | REJECT

record review_decision_result =
  rd_task_id :: string
  rd_decision :: review_decision
  rd_status :: string
  rd_reviewer :: string
  rd_decided_at :: int
  rd_dispatch_version :: int

datatype review_error =
    ReviewNotFound
  | ReviewAlreadyDecided
  | ReviewDispatchMissing
  | ReviewReasonRequired
  | ReviewVersionConflict
  | ReviewReasonTooLong
  | ReviewClockNaive

text \<open>\<open>len\<close> of a text: the continuation bytes of UTF-8 are not counted.\<close>

definition text_length :: "string \<Rightarrow> nat" where
  "text_length s = length (filter (\<lambda>c. let b = (of_char c :: nat) in b < 0x80 \<or> 0xC0 \<le> b) s)"

definition review_reason :: "review_decision \<Rightarrow> string option \<Rightarrow> review_error + string" where
  "review_reason decision reason =
     (let normalized = (case reason of None \<Rightarrow> [] | Some s \<Rightarrow> py_strip s)
      in if 500 < text_length normalized then Inl ReviewReasonTooLong
         else if decision = REJECT \<and> text_length normalized < 2 then Inl ReviewReasonRequired
         else if decision = APPROVE \<and> normalized = []
         then Inr (utf8 [0xE4, 0xBA, 0xBA, 0xE5, 0xB7, 0xA5, 0xE5, 0xA4, 0x8D, 0xE6, 0xA0, 0xB8, 0xE5, 0xB7, 0xB2, 0xE6, 0x89,
           0xB9, 0xE5, 0x87, 0x86, 0xE3, 0x80, 0x82])
         else Inr normalized)"

text \<open>\<open>ORDER BY id DESC LIMIT 1\<close>.\<close>

fun latest :: "('a \<Rightarrow> int) \<Rightarrow> 'a list \<Rightarrow> 'a option" where
  "latest f [] = None"
| "latest f (x # xs) = (case latest f xs of None \<Rightarrow> Some x | Some y \<Rightarrow> if f x < f y then Some y else Some x)"

definition latest_dispatch :: "ledger_db \<Rightarrow> task_row \<Rightarrow> dispatch_row option" where
  "latest_dispatch db t = latest dp_id (filter (\<lambda>d. dp_task_id d = Some (dt_id t)) (lg_dispatches db))"

definition latest_audit :: "ledger_db \<Rightarrow> task_row \<Rightarrow> dispatch_row \<Rightarrow> audit_record option" where
  "latest_audit db t d = latest au_id (filter (\<lambda>a. au_task_id a = dt_id t \<and> au_dispatch_id a = dp_id d) (lg_audits db))"

text \<open>The update of a dispatch whose status changes, over the version that was read.\<close>

definition flush_dispatch :: "ledger_db \<Rightarrow> dispatch_row \<Rightarrow> string \<Rightarrow> (int \<times> ledger_db) option" where
  "flush_dispatch w d status =
     (if dp_status d = status then Some (dp_version d, w)
      else if list_ex (\<lambda>e. dp_id e = dp_id d \<and> dp_version e = dp_version d) (lg_dispatches w)
      then Some (dp_version d + 1,
             w\<lparr>lg_dispatches := map (\<lambda>e. if dp_id e = dp_id d \<and> dp_version e = dp_version d
                                           then e\<lparr>dp_status := status, dp_version := dp_version d + 1\<rparr> else e) (lg_dispatches w)\<rparr>)
      else None)"

definition add_audit :: "ledger_db \<Rightarrow> int \<Rightarrow> int \<Rightarrow> string \<Rightarrow> string \<Rightarrow> string \<Rightarrow> ledger_db" where
  "add_audit w task dispatch result reason evidence =
     w\<lparr>lg_audits := lg_audits w @ [\<lparr>au_id = lg_next_audit_id w, au_task_id = task, au_dispatch_id = dispatch, au_result = result,
                                    au_reason = reason, au_evidence_json = evidence\<rparr>],
       lg_next_audit_id := lg_next_audit_id w + 1\<rparr>"

definition review_status :: "review_decision \<Rightarrow> string" where
  "review_status decision = (case decision of APPROVE \<Rightarrow> ''APPROVED'' | REJECT \<Rightarrow> ''REJECTED'')"

definition review_evidence :: "review_decision \<Rightarrow> int \<Rightarrow> string \<Rightarrow> string \<Rightarrow> string" where
  "review_evidence decision decided_at subject_id display_name =
     json_dumps (PDict [(''decision'', PStr (case decision of APPROVE \<Rightarrow> ''APPROVE'' | REJECT \<Rightarrow> ''REJECT'')),
       (''decided_at'', PStr (isoformat decided_at)), (''reviewer_display_name'', PStr display_name), (''reviewer_subject_id'', PStr subject_id)])"

definition decide :: "ledger_db \<Rightarrow> ledger_db \<Rightarrow> string \<Rightarrow> review_decision \<Rightarrow> string option \<Rightarrow> string \<Rightarrow> string \<Rightarrow> clock_time \<Rightarrow>
    (review_error + review_decision_result) \<times> ledger_db" where
  "decide r w task_id decision reason subject_id display_name clock =
     (case review_reason decision reason of
        Inl e \<Rightarrow> (Inl e, w)
      | Inr normalized_reason \<Rightarrow>
          (case task_by_id r task_id of
             None \<Rightarrow> (Inl ReviewNotFound, w)
           | Some t \<Rightarrow>
               if dt_status t \<noteq> ''REVIEW_REQUIRED'' then (Inl ReviewAlreadyDecided, w)
               else case latest_dispatch r t of
                      None \<Rightarrow> (Inl ReviewDispatchMissing, w)
                    | Some d \<Rightarrow>
                        (case clock of
                           Naive _ \<Rightarrow> (Inl ReviewClockNaive, w)
                         | Aware decided_at \<Rightarrow>
                             let status = review_status decision;
                                 w1 = update_task w task_id (\<lambda>t. t\<lparr>dt_status := status, dt_completed_at := Some decided_at\<rparr>)
                             in case flush_dispatch w1 d status of
                                  None \<Rightarrow> (Inl ReviewVersionConflict, w)
                                | Some (version, w2) \<Rightarrow>
                                    (Inr \<lparr>rd_task_id = task_id, rd_decision = decision, rd_status = status, rd_reviewer = display_name,
                                          rd_decided_at = decided_at, rd_dispatch_version = version\<rparr>,
                                     add_audit w2 (dt_id t) (dp_id d) status normalized_reason
                                       (review_evidence decision decided_at subject_id display_name)))))"

section \<open>Publications\<close>

record publication_result =
  pr_task_id :: string
  pr_dispatch_id :: int
  pr_status :: string
  pr_route_id :: "string option"
  pr_route_instruction :: "string option"
  pr_published_at :: int
  pr_published_by :: string
  pr_recipient_employee_id :: string
  pr_recipient_display_name :: string
  pr_duplicate :: bool

datatype publication_error =
    PublicationTaskNotFound
  | PublicationDispatchMissing
  | PublicationNotApproved
  | PublicationRouteMissing
  | PublicationClockNaive
  | PublicationIntegrityError

definition route_instruction :: "ledger_db \<Rightarrow> dispatch_row \<Rightarrow> order_row \<Rightarrow> string \<Rightarrow> string" where
  "route_instruction db d order route_id =
     (let vehicle_id = dp_target_vehicle_id d
      in if vehicle_id = None \<or> vehicle_id = dp_original_vehicle_id d
         then utf8 [0xE4, 0xBB, 0x8E] @ '' '' @ or_origin order @
              '' '' @ utf8 [0xE5, 0x87, 0xBA, 0xE5, 0x8F, 0x91, 0xEF, 0xBC, 0x8C, 0xE6, 0x8C, 0x89] @ '' '' @ route_id @
              '' '' @ utf8 [0xE8, 0xA1, 0x8C, 0xE9, 0xA9, 0xB6, 0xEF, 0xBC, 0x8C, 0xE5, 0x89, 0x8D, 0xE5, 0xBE, 0x80] @ ''
           '' @ or_destination order @
              utf8 [0xE3, 0x80, 0x82, 0xE9, 0x80, 0x94, 0xE4, 0xB8, 0xAD, 0xE6, 0xB3, 0xA8, 0xE6, 0x84, 0x8F, 0xE7, 0x8E,
           0xB0, 0xE5, 0x9C, 0xBA, 0xE8, 0xB7, 0xAF, 0xE5, 0x86, 0xB5, 0xE5, 0xB9, 0xB6, 0xE6, 0x9C, 0x8D,
           0xE4, 0xBB, 0x8E, 0xE5, 0xAE, 0x89, 0xE5, 0x85, 0xA8, 0xE8, 0xB0, 0x83, 0xE5, 0xBA, 0xA6, 0xE3,
           0x80, 0x82]
         else
           let vehicle = first_match (\<lambda>v. Some (vr_vehicle_id v) = vehicle_id) (lg_vehicles db);
               driver = (case dp_target_driver_id d of None \<Rightarrow> None | Some i \<Rightarrow> first_match (\<lambda>p. fd_driver_id p = i) (lg_drivers db));
               plate = (case vehicle of Some v \<Rightarrow> vr_plate_no v | None \<Rightarrow> the vehicle_id);
               driver_label = (case driver of
                   Some p \<Rightarrow> fd_name p @ utf8 [0xEF, 0xBC, 0x88] @ the (dp_target_driver_id d) @ utf8 [0xEF, 0xBC, 0x89]
                 | None \<Rightarrow> the (py_or (dp_target_driver_id d)
                     (Some (utf8 [0xE6, 0x9C, 0xAA, 0xE6, 0x8C, 0x87, 0xE5, 0xAE, 0x9A, 0xE5, 0x8F, 0xB8, 0xE6, 0x9C, 0xBA]))));
               transfer_node_id = the (py_or (dp_transfer_node_id d)
                     (Some (utf8 [0xE6, 0x9C, 0xAA, 0xE6, 0x8C, 0x87, 0xE5, 0xAE, 0x9A, 0xE6, 0x8E, 0xA5, 0xE9, 0xA9, 0xB3, 0xE8, 0x8A,
           0x82, 0xE7, 0x82, 0xB9])))
           in utf8 [0xE6, 0x8D, 0xA2, 0xE7, 0x94, 0xA8, 0xE8, 0xBD, 0xA6, 0xE7, 0x89, 0x8C] @ '' '' @ plate @
              utf8 [0xEF, 0xBC, 0x8C, 0xE7, 0x94, 0xB1, 0xE5, 0x8F, 0xB8, 0xE6, 0x9C, 0xBA] @ '' '' @ driver_label @
              utf8 [0xE5, 0x89, 0x8D, 0xE5, 0xBE, 0x80, 0xE6, 0x8E, 0xA5, 0xE9, 0xA9, 0xB3, 0xE8, 0x8A, 0x82, 0xE7, 0x82,
           0xB9] @ '' '' @ transfer_node_id @
              utf8 [0xEF, 0xBC, 0x8C, 0xE9, 0x9A, 0x8F, 0xE5, 0x90, 0x8E, 0xE6, 0x8C, 0x89, 0xE8, 0xB7, 0xAF, 0xE7, 0xBA,
           0xBF] @ '' '' @ route_id @
              '' '' @ utf8 [0xE8, 0xA1, 0x8C, 0xE9, 0xA9, 0xB6, 0xE8, 0x87, 0xB3] @ '' '' @ or_destination order @ utf8 [0xE3, 0x80, 0x82])"

definition publication_of :: "ledger_db \<Rightarrow> task_row \<Rightarrow> dispatch_publication option" where
  "publication_of db t = first_match (\<lambda>p. pb_task_id p = dt_id t) (lg_publications db)"

definition publication_answer :: "ledger_db \<Rightarrow> task_row \<Rightarrow> dispatch_publication \<Rightarrow> bool \<Rightarrow> publication_result" where
  "publication_answer db t p duplicate =
     (let recipient = (case dt_assignee_subject_id t of None \<Rightarrow> None | Some i \<Rightarrow> first_match (\<lambda>a. ea_employee_id a = i) (lg_accounts db))
      in \<lparr>pr_task_id = dt_task_id t, pr_dispatch_id = pb_dispatch_id p, pr_status = pb_status p, pr_route_id = pb_route_id p,
          pr_route_instruction = pb_route_instruction p, pr_published_at = pb_published_at p,
          pr_published_by = pb_published_by_display_name p,
          pr_recipient_employee_id = the (py_or (dt_assignee_subject_id t) (Some ''UNASSIGNED'')),
          pr_recipient_display_name = (case recipient of
              Some a \<Rightarrow> ea_display_name a
            | None \<Rightarrow> the (py_or (dt_assignee_subject_id t)
                (Some (utf8 [0xE6, 0x9C, 0xAA, 0xE6, 0x8C, 0x87, 0xE5, 0xAE, 0x9A, 0xE6, 0x8E, 0xA5, 0xE6, 0x94, 0xB6, 0xE5, 0x91,
           0x98, 0xE5, 0xB7, 0xA5])))),
          pr_duplicate = duplicate\<rparr>)"

definition dispatch_route :: "dispatch_row \<Rightarrow> string option" where
  "dispatch_route d = py_or (dp_target_route_id d) (dp_original_route_id d)"

definition insert_publication :: "ledger_db \<Rightarrow> ledger_db \<Rightarrow> task_row \<Rightarrow> dispatch_row \<Rightarrow> order_row \<Rightarrow> string \<Rightarrow> string \<Rightarrow> string \<Rightarrow> int \<Rightarrow>
    (publication_error + publication_result) \<times> ledger_db" where
  "insert_publication r w t d order route_id subject_id display_name published_at =
     (let p = \<lparr>pb_id = lg_next_publication_id w, pb_task_id = dt_id t, pb_dispatch_id = dp_id d, pb_status = ''PUBLISHED'',
               pb_route_id = Some route_id, pb_route_instruction = Some (route_instruction r d order route_id),
               pb_published_by_subject_id = subject_id, pb_published_by_display_name = display_name, pb_published_at = published_at\<rparr>
      in if list_ex (\<lambda>q. pb_task_id q = dt_id t \<or> pb_dispatch_id q = dp_id d) (lg_publications w)
         then (case task_by_id w (dt_task_id t) of
                 None \<Rightarrow> (Inl PublicationIntegrityError, w)
               | Some t' \<Rightarrow>
                   (case publication_of w t' of
                      None \<Rightarrow> (Inl PublicationIntegrityError, w)
                    | Some q \<Rightarrow> (Inr (publication_answer w t' q True), w)))
         else (let w' = w\<lparr>lg_publications := lg_publications w @ [p], lg_next_publication_id := lg_next_publication_id w + 1\<rparr>
               in (Inr (publication_answer w' t p False), w')))"

definition publish_dispatch :: "ledger_db \<Rightarrow> ledger_db \<Rightarrow> string \<Rightarrow> string \<Rightarrow> string \<Rightarrow> clock_time \<Rightarrow>
    (publication_error + publication_result) \<times> ledger_db" where
  "publish_dispatch r w task_id subject_id display_name clock =
     (case task_by_id r task_id of
        None \<Rightarrow> (Inl PublicationTaskNotFound, w)
      | Some t \<Rightarrow>
          (case publication_of r t of
             Some p \<Rightarrow> (Inr (publication_answer r t p True), w)
           | None \<Rightarrow>
               (case latest_dispatch r t of
                  None \<Rightarrow> (Inl PublicationDispatchMissing, w)
                | Some d \<Rightarrow>
                    if dt_status t \<notin> {''APPROVED'', ''COMPLETED''} \<or> map_option au_result (latest_audit r t d) \<noteq> Some ''APPROVED''
                    then (Inl PublicationNotApproved, w)
                    else case dispatch_route d of
                           None \<Rightarrow> (Inl PublicationRouteMissing, w)
                         | Some route_id \<Rightarrow>
                             (case first_match (\<lambda>p. or_id p = dt_order_id t) (lg_orders r) of
                                None \<Rightarrow> (Inl PublicationTaskNotFound, w)
                              | Some order \<Rightarrow>
                                  (case clock of
                                     Naive _ \<Rightarrow> (Inl PublicationClockNaive, w)
                                   | Aware published_at \<Rightarrow>
                                       insert_publication r w t d order route_id subject_id display_name published_at)))))"

definition publish_automatically :: "ledger_db \<Rightarrow> ledger_db \<Rightarrow> string \<Rightarrow> clock_time \<Rightarrow> (publication_error + publication_result) \<times> ledger_db" where
  "publish_automatically r w task_id clock =
     publish_dispatch r w task_id ''countyflow-ai'' (''CountyFlow AI '' @ utf8 [0xE8, 0x87, 0xAA, 0xE5, 0x8A, 0xA8, 0xE5, 0x8F, 0x91, 0xE5, 0xB8, 0x83]) clock"

section \<open>What the methods keep\<close>

lemma latest_mem: "latest f xs = Some x \<Longrightarrow> x \<in> set xs"
  by (induction xs arbitrary: x) (auto split: option.splits if_splits)

lemma latest_dispatchD: "latest_dispatch db t = Some d \<Longrightarrow> d \<in> set (lg_dispatches db) \<and> dp_task_id d = Some (dt_id t)"
  unfolding latest_dispatch_def by (auto dest: latest_mem)

lemma latest_auditD:
  "latest_audit db t d = Some a \<Longrightarrow> a \<in> set (lg_audits db) \<and> au_task_id a = dt_id t \<and> au_dispatch_id a = dp_id d"
  unfolding latest_audit_def by (auto dest: latest_mem)

text \<open>
  Every publication has the route of a dispatch of its task, for which an approval is on record; a task and a dispatch are published at most once.
\<close>

definition publications_ok :: "ledger_db \<Rightarrow> bool" where
  "publications_ok db \<longleftrightarrow>
     distinct (map pb_task_id (lg_publications db)) \<and> distinct (map pb_dispatch_id (lg_publications db)) \<and>
     (\<forall>p\<in>set (lg_publications db).
        (\<exists>d\<in>set (lg_dispatches db). dp_id d = pb_dispatch_id p \<and> dp_task_id d = Some (pb_task_id p) \<and> pb_route_id p = dispatch_route d) \<and>
        (\<exists>a\<in>set (lg_audits db). au_task_id a = pb_task_id p \<and> au_dispatch_id a = pb_dispatch_id p \<and> au_result a = ''APPROVED''))"

lemma dispatch_leD:
  assumes "dispatch_le d e" shows "dp_id e = dp_id d \<and> dp_task_id e = dp_task_id d \<and> dispatch_route e = dispatch_route d"
proof -
  have "e = d\<lparr>dp_status := dp_status e, dp_version := dp_version e\<rparr>" using assms unfolding dispatch_le_def by blast
  then show ?thesis unfolding dispatch_route_def by (cases d; cases e) simp
qed

text \<open>The two facts a publication rests on outlive every change of the tables.\<close>

lemma ledger_later_dispatch:
  assumes "ledger_later db db'" "\<exists>d\<in>set (lg_dispatches db). dp_id d = i \<and> dp_task_id d = t \<and> rt = dispatch_route d"
  shows "\<exists>d\<in>set (lg_dispatches db'). dp_id d = i \<and> dp_task_id d = t \<and> rt = dispatch_route d"
  using assms dispatch_leD unfolding ledger_later_def by metis

lemma ledger_later_audit:
  assumes "ledger_later db db'" "\<exists>a\<in>set (lg_audits db). P a" shows "\<exists>a\<in>set (lg_audits db'). P a"
  using assms set_mono_prefix unfolding ledger_later_def by blast

lemma publications_ok_later:
  assumes "publications_ok db" "ledger_later db db'" "lg_publications db' = lg_publications db"
  shows "publications_ok db'"
  using assms(1) ledger_later_dispatch [OF assms(2)] ledger_later_audit [OF assms(2)] unfolding publications_ok_def assms(3) by simp

lemma flush_dispatch_keeps:
  assumes "flush_dispatch w d s = Some (v, w')" "ledger_ok w"
  shows "ledger_ok w' \<and> ledger_later w w' \<and> lg_publications w' = lg_publications w"
proof -
  let ?g = "\<lambda>e. if dp_id e = dp_id d \<and> dp_version e = dp_version d then e\<lparr>dp_status := s, dp_version := dp_version d + 1\<rparr> else e"
  have g: "dispatch_le e (?g e)" for e by (simp add: dispatch_le_def)
  consider "w' = w" | "w' = w\<lparr>lg_dispatches := map ?g (lg_dispatches w)\<rparr>"
    using assms(1) by (auto simp: flush_dispatch_def split: if_splits)
  then show ?thesis
  proof cases
    case 2
    have "\<exists>e\<in>set (lg_dispatches w'). dispatch_le x e" if "x \<in> set (lg_dispatches w)" for x
      using g [of x] imageI [OF that, of ?g] unfolding 2 by auto
    then show ?thesis using assms(2) 2 by (auto simp: ledger_ok_def ledger_later_def thread_later_refl intro: same_task_mem)
  qed (use assms(2) in \<open>simp add: ledger_later_refl\<close>)
qed

lemma add_audit_keeps:
  assumes "ledger_ok w"
  shows "ledger_ok (add_audit w t d res why ev) \<and> ledger_later w (add_audit w t d res why ev) \<and>
    lg_publications (add_audit w t d res why ev) = lg_publications w"
  using assms by (auto simp: add_audit_def ledger_ok_def ledger_later_def thread_later_refl intro: same_task_mem dispatch_le_mem)

lemma decide_cases:
  assumes "decide r w i dec why sub name clock = (res, w')"
  shows "w' = w \<and> isl res \<or>
    (\<exists>t d tm v w2 reason evidence. task_by_id r i = Some t \<and> dt_status t = ''REVIEW_REQUIRED'' \<and> latest_dispatch r t = Some d \<and> clock = Aware tm \<and>
      flush_dispatch (update_task w i (\<lambda>t. t\<lparr>dt_status := review_status dec, dt_completed_at := Some tm\<rparr>)) d (review_status dec) = Some (v, w2) \<and>
      w' = add_audit w2 (dt_id t) (dp_id d) (review_status dec) reason evidence)"
  using assms unfolding decide_def Let_def by (auto split: sum.splits option.splits if_splits clock_time.splits prod.splits)

lemma decide_keeps:
  assumes "ledger_ok w" "decide r w i dec why sub name clock = (res, w')"
  shows "ledger_ok w' \<and> ledger_later w w' \<and> lg_publications w' = lg_publications w"
  using decide_cases [OF assms(2)]
proof (elim disjE exE conjE)
  assume "w' = w"
  then show ?thesis using assms(1) by (simp add: ledger_later_refl)
next
  fix t d tm v w2 reason evidence
  assume 2: "flush_dispatch (update_task w i (\<lambda>t. t\<lparr>dt_status := review_status dec, dt_completed_at := Some tm\<rparr>)) d (review_status dec) = Some (v, w2)"
    "w' = add_audit w2 (dt_id t) (dp_id d) (review_status dec) reason evidence"
  let ?w1 = "update_task w i (\<lambda>t. t\<lparr>dt_status := review_status dec, dt_completed_at := Some tm\<rparr>)"
  have 1: "ledger_ok ?w1" "ledger_later w ?w1" using update_task_keeps [OF assms(1)] by (simp_all add: same_task_def)
  have "lg_publications ?w1 = lg_publications w" by (simp add: update_task_def)
  then show ?thesis
    using 2(2) flush_dispatch_keeps [OF 2(1) 1(1)] add_audit_keeps ledger_later_trans 1(2) by metis
qed

lemma insert_publication_cases:
  assumes "insert_publication r w t d order rt sub name tm = (res, w')"
  shows "w' = w \<or> (\<exists>p. pb_task_id p = dt_id t \<and> pb_dispatch_id p = dp_id d \<and> pb_route_id p = Some rt \<and>
      (\<forall>q\<in>set (lg_publications w). pb_task_id q \<noteq> dt_id t \<and> pb_dispatch_id q \<noteq> dp_id d) \<and>
      w' = w\<lparr>lg_publications := lg_publications w @ [p], lg_next_publication_id := lg_next_publication_id w + 1\<rparr>)"
proof (cases "list_ex (\<lambda>q. pb_task_id q = dt_id t \<or> pb_dispatch_id q = dp_id d) (lg_publications w)")
  case True
  then have "w' = w" using assms by (auto simp: insert_publication_def Let_def split: option.splits)
  then show ?thesis by blast
next
  case False
  let ?p = "\<lparr>pb_id = lg_next_publication_id w, pb_task_id = dt_id t, pb_dispatch_id = dp_id d, pb_status = ''PUBLISHED'',
     pb_route_id = Some rt, pb_route_instruction = Some (route_instruction r d order rt),
     pb_published_by_subject_id = sub, pb_published_by_display_name = name, pb_published_at = tm\<rparr>"
  have "w' = w\<lparr>lg_publications := lg_publications w @ [?p], lg_next_publication_id := lg_next_publication_id w + 1\<rparr>"
    using False assms by (simp add: insert_publication_def Let_def)
  then show ?thesis using False by (intro disjI2 exI [of _ ?p]) (auto simp: list_ex_iff)
qed

lemma publish_dispatch_cases:
  assumes "publish_dispatch r w i sub name clock = (res, w')"
  shows "w' = w \<or> (\<exists>t d a order tm rt. task_by_id r i = Some t \<and> dt_status t \<in> {''APPROVED'', ''COMPLETED''} \<and> latest_dispatch r t = Some d \<and>
      latest_audit r t d = Some a \<and> au_result a = ''APPROVED'' \<and> dispatch_route d = Some rt \<and>
      insert_publication r w t d order rt sub name tm = (res, w'))"
  using assms unfolding publish_dispatch_def
  by (auto split: option.splits if_splits clock_time.splits)

lemma publish_dispatch_keeps:
  assumes ok: "ledger_ok w" "publications_ok w" and later: "ledger_later r w"
    and pub: "publish_dispatch r w i sub name clock = (res, w')"
  shows "ledger_ok w' \<and> publications_ok w' \<and> ledger_later w w'"
proof (cases "w' = w")
  case True
  then show ?thesis using ok by (simp add: ledger_later_refl)
next
  case False
  obtain t d a order tm rt where 1: "latest_dispatch r t = Some d" "latest_audit r t d = Some a" "au_result a = ''APPROVED''"
    "dispatch_route d = Some rt" "insert_publication r w t d order rt sub name tm = (res, w')"
    using publish_dispatch_cases [OF pub] False by blast
  obtain p where 2: "pb_task_id p = dt_id t" "pb_dispatch_id p = dp_id d" "pb_route_id p = Some rt"
    "\<forall>q\<in>set (lg_publications w). pb_task_id q \<noteq> dt_id t \<and> pb_dispatch_id q \<noteq> dp_id d"
    "w' = w\<lparr>lg_publications := lg_publications w @ [p], lg_next_publication_id := lg_next_publication_id w + 1\<rparr>"
    using insert_publication_cases [OF 1(5)] False by blast
  have "\<exists>e\<in>set (lg_dispatches r). dp_id e = dp_id d \<and> dp_task_id e = Some (dt_id t) \<and> Some rt = dispatch_route e"
    using latest_dispatchD [OF 1(1)] 1(4) by auto
  from ledger_later_dispatch [OF later this]
  have d: "\<exists>e\<in>set (lg_dispatches w). dp_id e = pb_dispatch_id p \<and> dp_task_id e = Some (pb_task_id p) \<and> pb_route_id p = dispatch_route e"
    unfolding 2(1-3) .
  have "\<exists>b\<in>set (lg_audits r). au_task_id b = dt_id t \<and> au_dispatch_id b = dp_id d \<and> au_result b = ''APPROVED''"
    using latest_auditD [OF 1(2)] 1(3) by blast
  from ledger_later_audit [OF later this]
  have "\<exists>b\<in>set (lg_audits w). au_task_id b = pb_task_id p \<and> au_dispatch_id b = pb_dispatch_id p \<and> au_result b = ''APPROVED''"
    unfolding 2(1-3) .
  with d have "publications_ok w'" using ok(2) 2(1,2,4) unfolding publications_ok_def 2(5) by auto
  then show ?thesis using ok(1) unfolding 2(5)
    by (auto simp: ledger_ok_def ledger_later_def thread_later_refl intro: same_task_mem dispatch_le_mem)
qed

end
