(* ===== verification/Json_Text.thy ===== *)
theory Json_Text
  imports Py_Text
begin

text \<open>
  JSON text: \<open>json.dumps\<close> with compact separators and sorted keys, \<open>json.loads\<close>, and \<open>bytes.decode("utf-8")\<close>. The reader is the one of
  the standard library: it skips blanks, tabs and line ends, requires control characters to be escaped, joins pairs of surrogates, keeps the last
  value of a repeated key and accepts \<open>NaN\<close> and the infinities. The limits of the interpreter on nesting and on the digits of an integer are not
  modelled. The reader runs on fuel, of which twice the length of the text is enough (\<open>json_reader_fuel\<close>); reading a printed value gives the
  value with its keys in order (\<open>json_loads_compact\<close>).
\<close>

section \<open>UTF-8\<close>

text \<open>\<open>bytes.decode("utf-8")\<close> succeeds on well-formed sequences: no overlong forms, no surrogates, nothing beyond U+10FFFF.\<close>

definition byte_of :: "char \<Rightarrow> nat" where
  "byte_of c = of_char c"

definition cont :: "char \<Rightarrow> bool" where
  "cont c \<longleftrightarrow> 0x80 \<le> byte_of c \<and> byte_of c \<le> 0xBF"

definition second3 :: "nat \<Rightarrow> char \<Rightarrow> bool" where
  "second3 b c \<longleftrightarrow> cont c \<and> (b = 0xE0 \<longrightarrow> 0xA0 \<le> byte_of c) \<and> (b = 0xED \<longrightarrow> byte_of c \<le> 0x9F)"

definition second4 :: "nat \<Rightarrow> char \<Rightarrow> bool" where
  "second4 b c \<longleftrightarrow> cont c \<and> (b = 0xF0 \<longrightarrow> 0x90 \<le> byte_of c) \<and> (b = 0xF4 \<longrightarrow> byte_of c \<le> 0x8F)"

fun utf8_valid :: "string \<Rightarrow> bool" where
  "utf8_valid [] \<longleftrightarrow> True"
| "utf8_valid (a # s) \<longleftrightarrow>
     (let b = byte_of a
      in if b < 0x80 then utf8_valid s
         else if 0xC2 \<le> b \<and> b \<le> 0xDF then (case s of c # s1 \<Rightarrow> cont c \<and> utf8_valid s1 | _ \<Rightarrow> False)
         else if 0xE0 \<le> b \<and> b \<le> 0xEF then (case s of c # d # s2 \<Rightarrow> second3 b c \<and> cont d \<and> utf8_valid s2 | _ \<Rightarrow> False)
         else if 0xF0 \<le> b \<and> b \<le> 0xF4
         then (case s of c # d # e # s3 \<Rightarrow> second4 b c \<and> cont d \<and> cont e \<and> utf8_valid s3 | _ \<Rightarrow> False)
         else False)"

text \<open>The bytes of a code point. A lone surrogate, which a Python text may hold, keeps the three bytes of its number.\<close>

definition utf8_encode :: "nat \<Rightarrow> string" where
  "utf8_encode n =
     map char_of
       (if n < 0x80 then [n]
        else if n < 0x800 then [0xC0 + n div 64, 0x80 + n mod 64]
        else if n < 0x10000 then [0xE0 + n div 4096, 0x80 + n div 64 mod 64, 0x80 + n mod 64]
        else [0xF0 + n div 262144, 0x80 + n div 4096 mod 64, 0x80 + n div 64 mod 64, 0x80 + n mod 64])"

section \<open>Printing: compact separators, sorted keys\<close>

text \<open>\<open>json.dumps(v, ensure_ascii=False, separators=(",", ":"), sort_keys=True)\<close>.\<close>

function json_compact :: "pyval \<Rightarrow> string" where
  "json_compact PNone = ''null''"
| "json_compact (PBool b) = (if b then ''true'' else ''false'')"
| "json_compact (PInt i) = show_int i"
| "json_compact (PFloat x) = repr_float x"
| "json_compact (PStr s) = json_string s"
| "json_compact (PList vs) = ''['' @ join '','' (map json_compact vs) @ '']''"
| "json_compact (PDict d) =
     ''{'' @ join '','' (map (\<lambda>(k, v). json_string k @ '':'' @ json_compact v) (sort_key fst d)) @ ''}''"
  by pat_completeness auto
termination
  by (relation "measure size") (auto simp: less_Suc_eq_le size_list_estimation' size_prod_simp
      intro: size_list_estimation')

section \<open>Reading: \<open>json.loads\<close>\<close>

definition skip_ws :: "string \<Rightarrow> string" where
  "skip_ws s = dropWhile (\<lambda>c. byte_of c \<in> {9, 10, 13, 32}) s"

definition hex_value :: "char \<Rightarrow> nat option" where
  "hex_value c =
     (let n = byte_of c
      in if 48 \<le> n \<and> n \<le> 57 then Some (n - 48)
         else if 65 \<le> n \<and> n \<le> 70 then Some (n - 55)
         else if 97 \<le> n \<and> n \<le> 102 then Some (n - 87)
         else None)"

definition hex4 :: "string \<Rightarrow> (nat \<times> string) option" where
  "hex4 s =
     (case s of
        a # b # c # d # r \<Rightarrow>
          (case (hex_value a, hex_value b, hex_value c, hex_value d) of
             (Some w, Some x, Some y, Some z) \<Rightarrow> Some (((w * 16 + x) * 16 + y) * 16 + z, r)
           | _ \<Rightarrow> None)
      | _ \<Rightarrow> None)"

text \<open>The escape \<open>u\<close> with its four digits, and a second one if the two are a pair of surrogates.\<close>

definition json_unicode :: "string \<Rightarrow> (string \<times> string) option" where
  "json_unicode s =
     (case hex4 s of
        None \<Rightarrow> None
      | Some (n, r) \<Rightarrow>
          (case r of
             e # u # t \<Rightarrow>
               if 0xD800 \<le> n \<and> n \<le> 0xDBFF \<and> byte_of e = 92 \<and> u = CHR ''u''
               then (case hex4 t of
                       None \<Rightarrow> None
                     | Some (m, q) \<Rightarrow>
                         if 0xDC00 \<le> m \<and> m \<le> 0xDFFF then Some (utf8_encode (0x10000 + (n - 0xD800) * 1024 + (m - 0xDC00)), q)
                         else Some (utf8_encode n, r))
               else Some (utf8_encode n, r)
           | _ \<Rightarrow> Some (utf8_encode n, r)))"

definition simple_escape :: "char \<Rightarrow> char option" where
  "simple_escape c =
     map_option char_of
       (if byte_of c \<in> {34, 92, 47} then Some (byte_of c)
        else if c = CHR ''b'' then Some 8
        else if c = CHR ''f'' then Some 12
        else if c = CHR ''n'' then Some 10
        else if c = CHR ''r'' then Some 13
        else if c = CHR ''t'' then Some 9
        else None)"

lemma hex4_length: "hex4 s = Some (n, r) \<Longrightarrow> length s = length r + 4"
  by (auto simp: hex4_def split: list.splits option.splits)

lemma json_unicode_length: "json_unicode s = Some (b, r) \<Longrightarrow> length r < length s"
  by (auto simp: json_unicode_def dest!: hex4_length split: option.splits list.splits if_splits prod.splits)

text \<open>The characters of a string up to its closing quote. Control characters must be escaped.\<close>

function json_chars :: "string \<Rightarrow> (string \<times> string) option" where
  "json_chars [] = None"
| "json_chars (c # cs) =
     (if byte_of c = 34 then Some ([], cs)
      else if byte_of c < 32 then None
      else if byte_of c \<noteq> 92 then map_option (\<lambda>(s, r). (c # s, r)) (json_chars cs)
      else case cs of
        [] \<Rightarrow> None
      | e # ds \<Rightarrow>
          if e = CHR ''u''
          then (case json_unicode ds of
                  None \<Rightarrow> None
                | Some (b, r) \<Rightarrow> map_option (\<lambda>(s, q). (b @ s, q)) (json_chars r))
          else (case simple_escape e of
                  None \<Rightarrow> None
                | Some b \<Rightarrow> map_option (\<lambda>(s, q). (b # s, q)) (json_chars ds)))"
  by pat_completeness auto
termination
  by (relation "measure length") (auto dest: json_unicode_length)

definition read_fraction :: "string \<Rightarrow> string \<times> string" where
  "read_fraction s =
     (case s of
        [] \<Rightarrow> ([], s)
      | c # q \<Rightarrow>
          let f = takeWhile is_digit q in if c \<noteq> CHR ''.'' \<or> f = [] then ([], s) else (f, drop (length f) q))"

definition read_exp :: "string \<Rightarrow> int option \<times> string" where
  "read_exp s =
     (case s of
        [] \<Rightarrow> (None, s)
      | e # q \<Rightarrow>
          if e = CHR ''e'' \<or> e = CHR ''E''
          then (let neg = (q \<noteq> [] \<and> hd q = CHR ''-''); t = (if q \<noteq> [] \<and> hd q \<in> {CHR ''-'', CHR ''+''} then tl q else q);
                    d = takeWhile is_digit t
                in if d = [] then (None, s)
                   else (Some (if neg then - int (digits_value d) else int (digits_value d)), drop (length d) t))
          else (None, s))"

definition json_number :: "string \<Rightarrow> (pyval \<times> string) option" where
  "json_number s =
     (let neg = (s \<noteq> [] \<and> hd s = CHR ''-''); t = (if neg then tl s else s); ds = takeWhile is_digit t
      in if ds = [] then None
         else let whole = (if hd ds = CHR ''0'' then [hd ds] else ds);
                  (frac, r) = read_fraction (drop (length whole) t);
                  (e, r') = read_exp r;
                  n = digits_value whole
              in if frac = [] \<and> e = None then Some (PInt (if neg then - int n else int n), r')
                 else let x = of_nat (digits_value (whole @ frac)) * bpow 10 ((case e of None \<Rightarrow> 0 | Some k \<Rightarrow> k) - int (length frac))
                      in Some (PFloat (to_float (if neg then - x else x)), r'))"

text \<open>The constants, with the rest of the text. \<open>NaN\<close> and the infinities, which the model's floats do not have, are read as zero.\<close>

definition json_constants :: "(string \<times> pyval) list" where
  "json_constants =
     [(''null'', PNone), (''true'', PBool True), (''false'', PBool False), (''NaN'', PFloat 0), (''Infinity'', PFloat 0),
      (''-Infinity'', PFloat 0)]"

definition json_scalar :: "string \<Rightarrow> (pyval \<times> string) option" where
  "json_scalar s =
     (case first_match (\<lambda>(w, v). is_prefix w s) json_constants of
        Some (w, v) \<Rightarrow> Some (v, drop (length w) s)
      | None \<Rightarrow> json_number s)"

text \<open>Objects keep the last value of a repeated key.\<close>

fun json_value :: "nat \<Rightarrow> string \<Rightarrow> (pyval \<times> string) option"
  and json_elements :: "nat \<Rightarrow> pyval list \<Rightarrow> string \<Rightarrow> (pyval \<times> string) option"
  and json_members :: "nat \<Rightarrow> pydict \<Rightarrow> string \<Rightarrow> (pyval \<times> string) option" where
  "json_value 0 s = None"
| "json_value (Suc n) s =
     (case s of
        [] \<Rightarrow> None
      | c # cs \<Rightarrow>
          if byte_of c = 34 then map_option (\<lambda>(t, r). (PStr t, r)) (json_chars cs)
          else if c = CHR ''{''
          then (case skip_ws cs of
                  [] \<Rightarrow> None
                | d # r \<Rightarrow> if d = CHR ''}'' then Some (PDict [], r) else json_members n [] (d # r))
          else if c = CHR ''[''
          then (case skip_ws cs of
                  [] \<Rightarrow> None
                | d # r \<Rightarrow> if d = CHR '']'' then Some (PList [], r) else json_elements n [] (d # r))
          else json_scalar s)"
| "json_elements 0 acc s = None"
| "json_elements (Suc n) acc s =
     (case json_value n s of
        None \<Rightarrow> None
      | Some (v, r) \<Rightarrow>
          (case skip_ws r of
             [] \<Rightarrow> None
           | d # q \<Rightarrow>
               if d = CHR '']'' then Some (PList (acc @ [v]), q)
               else if d = CHR '','' then json_elements n (acc @ [v]) (skip_ws q)
               else None))"
| "json_members 0 acc s = None"
| "json_members (Suc n) acc s =
     (case s of
        [] \<Rightarrow> None
      | c # cs \<Rightarrow>
          if byte_of c \<noteq> 34 then None
          else (case json_chars cs of
                  None \<Rightarrow> None
                | Some (k, r) \<Rightarrow>
                    (case skip_ws r of
                       [] \<Rightarrow> None
                     | d # q \<Rightarrow>
                         if d \<noteq> CHR '':'' then None
                         else (case json_value n (skip_ws q) of
                                 None \<Rightarrow> None
                               | Some (v, r2) \<Rightarrow>
                                   (case skip_ws r2 of
                                      [] \<Rightarrow> None
                                    | e # q2 \<Rightarrow>
                                        if e = CHR ''}'' then Some (PDict (dset k v acc), q2)
                                        else if e = CHR '','' then json_members n (dset k v acc) (skip_ws q2)
                                        else None)))))"

definition json_loads :: "string \<Rightarrow> pyval option" where
  "json_loads s =
     (case json_value (Suc (2 * length s)) (skip_ws s) of
        None \<Rightarrow> None
      | Some (v, r) \<Rightarrow> if skip_ws r = [] then Some v else None)"


section \<open>The reader consumes its input\<close>

lemma skip_ws_length: "length (skip_ws s) \<le> length s"
  by (simp add: skip_ws_def length_dropWhile_le)

lemma json_chars_length: "json_chars s = Some (t, r) \<Longrightarrow> length r < length s"
proof (induction s arbitrary: t r rule: json_chars.induct)
  case (2 c cs)
  show ?case
  proof (cases "byte_of c = 34 \<or> byte_of c < 32")
    case True
    then show ?thesis using "2.prems" by (auto split: if_splits)
  next
    case ord: False
    show ?thesis
    proof (cases "byte_of c = 92")
      case False
      then obtain t' where "json_chars cs = Some (t', r)" using "2.prems" ord by auto
      then show ?thesis using "2.IH"(1) ord False by fastforce
    next
      case esc: True
      then obtain e ds where cs: "cs = e # ds" using "2.prems" by (cases cs) auto
      show ?thesis
      proof (cases "e = CHR ''u''")
        case True
        then obtain b q t' where "json_unicode ds = Some (b, q)" "json_chars q = Some (t', r)"
          using "2.prems" cs esc by (auto split: option.splits)
        then show ?thesis using "2.IH"(2) cs esc True by (fastforce dest: json_unicode_length)
      next
        case False
        then obtain b t' where "simple_escape e = Some b" "json_chars ds = Some (t', r)"
          using "2.prems" cs esc by (auto split: option.splits)
        then show ?thesis using "2.IH"(3) cs esc False by fastforce
      qed
    qed
  qed
qed simp

lemma read_fraction_length: "length (snd (read_fraction s)) \<le> length s"
  by (auto simp: read_fraction_def Let_def split: list.split)

lemma read_exp_length: "length (snd (read_exp s)) \<le> length s"
  by (auto simp: read_exp_def Let_def split: list.split)

lemma json_number_length: "json_number s = Some (v, r) \<Longrightarrow> length r < length s"
proof -
  assume a: "json_number s = Some (v, r)"
  define t where "t = (if s \<noteq> [] \<and> hd s = CHR ''-'' then tl s else s)"
  define ds where "ds = takeWhile is_digit t"
  define whole where "whole = (if hd ds = CHR ''0'' then [hd ds] else ds)"
  obtain f q where f: "read_fraction (drop (length whole) t) = (f, q)" by fastforce
  obtain e r' where e: "read_exp q = (e, r')" by fastforce
  have ds: "ds \<noteq> []" and r: "r = r'"
    using a f e unfolding json_number_def Let_def t_def [symmetric] ds_def [symmetric] whole_def [symmetric]
    by (auto simp: t_def [symmetric] ds_def [symmetric] whole_def [symmetric] split: if_splits)
  have "t \<noteq> []" "whole \<noteq> []" using ds by (auto simp: ds_def whole_def)
  then have "length (drop (length whole) t) < length t" by simp
  moreover have "length t \<le> length s" by (simp add: t_def)
  moreover have "length q \<le> length (drop (length whole) t)" using read_fraction_length f by (metis snd_conv)
  moreover have "length r' \<le> length q" using read_exp_length e by (metis snd_conv)
  ultimately show ?thesis using r by simp
qed

lemma json_scalar_length: "json_scalar s = Some (v, r) \<Longrightarrow> length r < length s"
proof -
  assume a: "json_scalar s = Some (v, r)"
  have p: "is_prefix w s \<Longrightarrow> w \<noteq> [] \<Longrightarrow> s \<noteq> []" for w by (cases w; cases s) auto
  show ?thesis
  proof (cases "first_match (\<lambda>(w, v). is_prefix w s) json_constants")
    case None
    then show ?thesis using a json_number_length by (simp add: json_scalar_def)
  next
    case (Some x)
    obtain w u where x: "x = (w, u)" by fastforce
    have "x \<in> set json_constants \<and> is_prefix w s" using Some x by (auto dest: first_match_SomeD)
    then have "is_prefix w s" "w \<noteq> []" unfolding x by (auto simp: json_constants_def)
    then show ?thesis using a Some x p [of w] by (auto simp: json_scalar_def)
  qed
qed

lemma json_reader_length:
  "json_value n s = Some (v, r) \<Longrightarrow> length r < length s"
  "json_elements n acc s = Some (v, r) \<Longrightarrow> length r < length s"
  "json_members n d s = Some (v, r) \<Longrightarrow> length r < length s"
proof (induction n s and n acc s and n d s arbitrary: v r and v r and v r rule: json_value_json_elements_json_members.induct)
  case (2 n s)
  obtain c cs where s: "s = c # cs" using "2.prems" by (cases s) auto
  have w: "skip_ws cs = d # q \<Longrightarrow> Suc (length q) \<le> length cs" for d q using skip_ws_length [of cs] by simp
  show ?case
  proof (cases "byte_of c = 34")
    case True
    then show ?thesis using "2.prems" s by (auto dest: json_chars_length)
  next
    case q: False
    consider "c = CHR ''{''" | "c = CHR ''[''" | "c \<noteq> CHR ''{''" "c \<noteq> CHR ''[''" by blast
    then show ?thesis
    proof cases
      case 1
      then obtain d t where d: "skip_ws cs = d # t" using "2.prems" s q by (auto split: list.splits)
      then show ?thesis using "2.prems" s q 1 w [OF d] "2.IH"(1) [OF s q 1 d] by (fastforce split: if_splits)
    next
      case 2
      then obtain d t where d: "skip_ws cs = d # t" using "2.prems" s q by (auto split: list.splits)
      then show ?thesis using "2.prems" s q 2 w [OF d] "2.IH"(2) [OF s q _ 2 d] by (fastforce split: if_splits)
    next
      case 3
      then show ?thesis using "2.prems" s q by (auto dest: json_scalar_length)
    qed
  qed
next
  case (4 n acc s)
  obtain v1 r1 where v1: "json_value n s = Some (v1, r1)" using "4.prems" by (auto split: option.splits)
  then obtain d q where d: "skip_ws r1 = d # q" using "4.prems" by (auto split: list.splits)
  have "Suc (length q) \<le> length r1" "length (skip_ws q) \<le> length q" using skip_ws_length [of r1] skip_ws_length [of q] d by simp_all
  then show ?case using "4.prems" v1 d "4.IH"(1) [OF v1] "4.IH"(2) [OF v1 _ d] by (fastforce split: if_splits)
next
  case (6 n acc s)
  obtain c cs where s: "s = c # cs" "byte_of c = 34" using "6.prems" by (cases s) (auto split: if_splits)
  then obtain k r1 where k: "json_chars cs = Some (k, r1)" using "6.prems" by (auto split: option.splits)
  then obtain d q where d: "skip_ws r1 = d # q" "d = CHR '':''" using "6.prems" s by (auto split: list.splits if_splits)
  then obtain v1 r2 where v1: "json_value n (skip_ws q) = Some (v1, r2)" using "6.prems" s k by (auto split: option.splits)
  then obtain e q2 where e: "skip_ws r2 = e # q2" using "6.prems" s k d by (auto split: list.splits)
  have l: "length r1 < length s" using json_chars_length [OF k] s by simp
  have m: "Suc (length q) \<le> length r1" "length (skip_ws q) \<le> length q" "Suc (length q2) \<le> length r2" "length (skip_ws q2) \<le> length q2"
    using skip_ws_length [of r1] skip_ws_length [of q] skip_ws_length [of r2] skip_ws_length [of q2] d e by simp_all
  have v: "length r2 < length (skip_ws q)" using "6.IH"(1) s k d v1 by fastforce
  show ?case
  proof (cases "e = CHR ''}''")
    case True
    then show ?thesis using "6.prems" s k d v1 e l m v by simp
  next
    case False
    then have "json_members n (dset k v1 acc) (skip_ws q2) = Some (v, r)" using "6.prems" s k d v1 e by (auto split: if_splits)
    then have "length r < length (skip_ws q2)" using "6.IH"(2) s k d v1 e False "6.prems" by (fastforce split: if_splits)
    then show ?thesis using l m v by simp
  qed
qed simp_all


text \<open>The fuel is enough: beyond twice the length of the text, more of it changes nothing.\<close>

lemma json_reader_Nil [simp]: "json_value n [] = None" "json_members n d [] = None" "json_elements n acc [] = None"
proof -
  show v: "json_value n [] = None" for n by (cases n) simp_all
  show "json_members n d [] = None" by (cases n) simp_all
  show "json_elements n acc [] = None" by (cases n) (simp_all add: v)
qed

lemma json_reader_fuel:
  "(2 * length s < m \<longrightarrow> 2 * length s < n \<longrightarrow> json_value m s = json_value n s) \<and>
   (2 * length s + 1 < m \<longrightarrow> 2 * length s + 1 < n \<longrightarrow> json_elements m acc s = json_elements n acc s) \<and>
   (2 * length s < m \<longrightarrow> 2 * length s < n \<longrightarrow> json_members m d s = json_members n d s)"
proof (induction m arbitrary: n s acc d)
  case (Suc m)
  have val: "json_value (Suc m) s = json_value n s" if n: "2 * length s < Suc m" "2 * length s < n" for n and s :: string
  proof (cases s)
    case (Cons c cs)
    obtain k where k: "n = Suc k" using n by (cases n) auto
    have "json_members m [] (skip_ws cs) = json_members k [] (skip_ws cs)"
      "json_elements m [] (skip_ws cs) = json_elements k [] (skip_ws cs)"
      using Suc.IH [where n = k and s = "skip_ws cs" and acc = "[]" and d = "[]"] skip_ws_length [of cs] n k Cons by auto
    then show ?thesis using Cons k by (auto split: list.splits)
  qed simp
  have elements: "json_elements (Suc m) acc s = json_elements n acc s" if n: "2 * length s + 1 < Suc m" "2 * length s + 1 < n"
  proof -
    obtain k where k: "n = Suc k" using n by (cases n) auto
    have v: "json_value m s = json_value k s" using Suc.IH [where n = k and s = s] n k by simp
    have "json_elements m (acc @ [v]) (skip_ws q) = json_elements k (acc @ [v]) (skip_ws q)"
      if "json_value k s = Some (v, r)" "skip_ws r = e # q" for v r e q
      using Suc.IH [where n = k and s = "skip_ws q" and acc = "acc @ [v]"] json_reader_length(1) [OF that(1)] that(2)
        skip_ws_length [of r] skip_ws_length [of q] n k by simp
    then show ?thesis unfolding k json_elements.simps v by (auto split: option.split list.split)
  qed
  have members: "json_members (Suc m) d s = json_members n d s" if n: "2 * length s < Suc m" "2 * length s < n"
  proof (cases s)
    case (Cons c cs)
    obtain k where k: "n = Suc k" using n by (cases n) auto
    have v: "json_value m (skip_ws q) = json_value k (skip_ws q) \<and> length (skip_ws q) < length cs"
      if "json_chars cs = Some (t, r)" "skip_ws r = e # q" for t r e q
      using Suc.IH [where n = k and s = "skip_ws q"] json_chars_length [OF that(1)] that(2)
        skip_ws_length [of r] skip_ws_length [of q] n k Cons by simp
    have "json_members m d' (skip_ws q2) = json_members k d' (skip_ws q2)"
      if "json_chars cs = Some (t, r)" "skip_ws r = e # q" "json_value k (skip_ws q) = Some (v', r2)" "skip_ws r2 = e2 # q2"
      for t r e q v' r2 e2 q2 d'
      using Suc.IH [where n = k and s = "skip_ws q2" and d = d'] v [OF that(1,2)] json_reader_length(1) [OF that(3)] that(4)
        skip_ws_length [of r2] skip_ws_length [of q2] n k Cons by simp
    then show ?thesis using v unfolding k json_members.simps Cons by (auto split: option.split list.split)
  qed simp
  show ?case using val elements members by simp
qed simp

section \<open>Reading what was printed\<close>

text \<open>Values without floats whose dictionaries have distinct keys.\<close>

fun json_plain :: "pyval \<Rightarrow> bool" where
  "json_plain (PFloat x) \<longleftrightarrow> False"
| "json_plain (PList vs) \<longleftrightarrow> (\<forall>v\<in>set vs. json_plain v)"
| "json_plain (PDict d) \<longleftrightarrow> distinct (map fst d) \<and> (\<forall>(k, v)\<in>set d. json_plain v)"
| "json_plain _ \<longleftrightarrow> True"

text \<open>What is read back has its keys in order.\<close>

function json_sorted :: "pyval \<Rightarrow> pyval" where
  "json_sorted (PList vs) = PList (map json_sorted vs)"
| "json_sorted (PDict d) = PDict (map (\<lambda>(k, v). (k, json_sorted v)) (sort_key fst d))"
| "json_sorted PNone = PNone"
| "json_sorted (PBool b) = PBool b"
| "json_sorted (PInt i) = PInt i"
| "json_sorted (PFloat x) = PFloat x"
| "json_sorted (PStr s) = PStr s"
  by pat_completeness auto
termination
  by (relation "measure size") (auto simp: less_Suc_eq_le size_list_estimation' size_prod_simp
      intro: size_list_estimation')

lemma hex_value_digit: "n < 16 \<Longrightarrow> hex_value (hex_digit n) = Some n"
  by (auto simp: hex_value_def hex_digit_def byte_of_def Let_def)


lemma byte_of_char_of [simp]: "n < 256 \<Longrightarrow> byte_of (char_of n) = n"
  by (simp add: byte_of_def)

lemma char_of_byte [simp]: "char_of (byte_of c) = c"
  by (simp add: byte_of_def)

lemma json_unicode_control:
  assumes "byte_of c < 32"
  shows "json_unicode (''00'' @ hex2 (byte_of c) @ r) = Some ([c], r)"
proof -
  let ?n = "byte_of c"
  have "hex_value (hex_digit (?n div 16)) = Some (?n div 16)" "hex_value (hex_digit (?n mod 16)) = Some (?n mod 16)"
    using assms by (simp_all add: hex_value_digit)
  moreover have "hex_value CHR ''0'' = Some 0" by (simp add: hex_value_def byte_of_def)
  moreover have "?n div 16 * 16 + ?n mod 16 = ?n" by (rule div_mult_mod_eq)
  ultimately have "hex4 (''00'' @ hex2 ?n @ r) = Some (?n, r)" by (simp add: hex4_def hex2_def)
  moreover have "utf8_encode ?n = [c]" using assms by (simp add: utf8_encode_def)
  moreover have "\<not> 0xD800 \<le> ?n" using assms by simp
  ultimately show ?thesis unfolding json_unicode_def by (simp split: list.split)
qed

lemma json_chars_char: "json_chars (json_char c @ r) = map_option (\<lambda>(s, q). (c # s, q)) (json_chars r)"
proof -
  have bs: "byte_of (char_of (92 :: nat)) = 92" by simp
  have esc: "json_chars (char_of (92 :: nat) # e # r) = map_option (\<lambda>(s, q). (c # s, q)) (json_chars r)"
    if "simple_escape e = Some c" "e \<noteq> CHR ''u''" for e
    using that by (simp add: bs)
  consider "byte_of c = 34 \<or> byte_of c = 92" | "byte_of c \<in> {10, 13, 9, 12, 8}"
    | "byte_of c < 32" "byte_of c \<notin> {10, 13, 9, 12, 8}" | "32 \<le> byte_of c" "byte_of c \<noteq> 34" "byte_of c \<noteq> 92" by force
  then show ?thesis
  proof cases
    case 1
    then have "c \<noteq> CHR ''u''" by (auto simp: byte_of_def)
    then show ?thesis using 1 esc [of c] by (auto simp: json_char_def byte_of_def [symmetric] simple_escape_def)
  next
    case 2
    have l: "byte_of CHR ''n'' = 110" "byte_of CHR ''r'' = 114" "byte_of CHR ''t'' = 116" "byte_of CHR ''f'' = 102" "byte_of CHR ''b'' = 98"
      by (simp_all add: byte_of_def)
    have k: "c = char_of n" if "byte_of c = n" for n using that by auto
    obtain e where e: "json_char c = [char_of (92 :: nat), e]" "simple_escape e = Some c" "e \<noteq> CHR ''u''"
      using 2 by (auto simp: json_char_def byte_of_def [symmetric] simple_escape_def Let_def l dest!: k)
    show ?thesis unfolding e(1) using esc [OF e(2,3)] by simp
  next
    case 3
    then have "json_char c = char_of (92 :: nat) # CHR ''u'' # ''00'' @ hex2 (byte_of c)"
      by (auto simp: json_char_def byte_of_def Let_def)
    then show ?thesis using json_unicode_control [OF 3(1), of r] by (simp add: bs)
  next
    case 4
    then have "json_char c = [c]" by (auto simp: json_char_def byte_of_def Let_def)
    then show ?thesis using 4 by simp
  qed
qed

lemma json_chars_print: "json_chars (concat (map json_char s) @ char_of (34 :: nat) # r) = Some (s, r)"
  by (induction s) (simp_all add: json_chars_char)

text \<open>What may follow a number.\<close>

definition ends :: "string \<Rightarrow> bool" where
  "ends r \<longleftrightarrow> r = [] \<or> hd r \<in> {CHR '','', CHR ''}'', CHR '']''}"

lemma show_nat_leading: "n \<noteq> 0 \<Longrightarrow> hd (show_nat n) \<noteq> CHR ''0''"
proof (induction n rule: show_nat.induct)
  case (1 n)
  show ?case
  proof (cases "n < 10")
    case True
    have "(of_char (digit_char n) :: nat) \<noteq> of_char CHR ''0''" using True "1.prems" by simp
    then have "digit_char n \<noteq> CHR ''0''" by metis
    then show ?thesis using True by (simp add: show_nat.simps)
  next
    case False
    then have "show_nat n = show_nat (n div 10) @ [digit_char (n mod 10)]" by (subst show_nat.simps) simp
    then show ?thesis using 1 False by (simp add: hd_append)
  qed
qed

lemma json_number_print:
  assumes "ends r"
  shows "json_number (show_int i @ r) = Some (PInt i, r)"
proof -
  have tw: "takeWhile is_digit (show_nat n @ r) = show_nat n" for n
    using assms show_nat_digits [of n] by (cases r) (auto simp: ends_def is_digit_def takeWhile_append2 list_all_iff)
  have neg: "hd (show_nat n @ r) \<noteq> CHR ''-''" for n
    using show_nat_digits [of n] show_nat_not_Nil [of n] by (cases "show_nat n") (auto simp: is_digit_def)
  have whole: "(if hd (show_nat n) = CHR ''0'' then [hd (show_nat n)] else show_nat n) = show_nat n" for n
    using show_nat_leading [of n] by (cases "n = 0") (auto simp: show_nat.simps)
  have f: "read_fraction r = ([], r)" using assms by (cases r) (auto simp: read_fraction_def ends_def)
  have e: "read_exp r = (None, r)" using assms by (cases r) (auto simp: read_exp_def ends_def)
  show ?thesis
  proof (cases "i < 0")
    case True
    then have "show_int i = CHR ''-'' # show_nat (nat (- i))" by (simp add: show_int_def)
    then show ?thesis using True by (simp add: json_number_def tw whole f e)
  next
    case False
    then have "show_int i = show_nat (nat i)" by (simp add: show_int_def)
    then show ?thesis using False neg [of "nat i"] by (simp add: json_number_def tw whole f e)
  qed
qed


lemma skip_ws_simps [simp]: "skip_ws [] = []" "skip_ws (c # s) = (if byte_of c \<in> {9, 10, 13, 32} then skip_ws s else c # s)"
  by (simp_all add: skip_ws_def)

lemma punctuation [simp]:
  "byte_of CHR '','' = 44" "byte_of CHR '':'' = 58" "byte_of CHR ''['' = 91" "byte_of CHR '']'' = 93" "byte_of CHR ''{'' = 123"
  "byte_of CHR ''}'' = 125"
  by (simp_all add: byte_of_def)

text \<open>A printed value starts with a quote, a bracket, a letter, a digit or a minus sign.\<close>

definition opens :: "char \<Rightarrow> bool" where
  "opens c \<longleftrightarrow> byte_of c \<notin> {9, 10, 13, 32} \<and> byte_of c \<noteq> 125 \<and> byte_of c \<noteq> 93"

lemma opensD: "opens c \<Longrightarrow> skip_ws (c # s) = c # s \<and> c \<noteq> CHR ''}'' \<and> c \<noteq> CHR '']''"
  by (auto simp: opens_def)

lemma show_int_opens: "\<exists>c cs. show_int i = c # cs \<and> opens c \<and> byte_of c \<noteq> 34 \<and> c \<noteq> CHR ''{'' \<and> c \<noteq> CHR ''['' \<and>
    (c = CHR ''-'' \<longrightarrow> cs \<noteq> [] \<and> is_digit (hd cs)) \<and> (c \<noteq> CHR ''-'' \<longrightarrow> is_digit c)"
proof -
  obtain c cs where n: "show_nat (nat \<bar>i\<bar>) = c # cs" "is_digit c"
    using show_nat_digits [of "nat \<bar>i\<bar>"] show_nat_not_Nil by (cases "show_nat (nat \<bar>i\<bar>)") auto
  then have o: "opens c" "byte_of c \<noteq> 34" "c \<noteq> CHR ''{''" "c \<noteq> CHR ''[''" "c \<noteq> CHR ''-''"
    by (auto simp: opens_def byte_of_def is_digit_def)
  have "opens CHR ''-''" "byte_of CHR ''-'' \<noteq> 34" by (simp_all add: opens_def byte_of_def)
  then show ?thesis using n o by (cases "i < 0") (auto simp: show_int_def)
qed

lemma json_compact_opens:
  assumes "json_plain v"
  shows "\<exists>c cs. json_compact v = c # cs \<and> opens c"
proof (cases v)
  case (PInt i)
  then show ?thesis using show_int_opens [of i] by auto
qed (use assms in \<open>auto simp: opens_def byte_of_def json_string_def\<close>)

lemma json_scalar_int: "ends r \<Longrightarrow> json_scalar (show_int i @ r) = Some (PInt i, r)"
proof -
  assume r: "ends r"
  obtain c cs where s: "show_int i = c # cs" "c = CHR ''-'' \<longrightarrow> cs \<noteq> [] \<and> is_digit (hd cs)" "c \<noteq> CHR ''-'' \<longrightarrow> is_digit c"
    using show_int_opens by blast
  have letters: "\<not> is_digit CHR ''n''" "\<not> is_digit CHR ''t''" "\<not> is_digit CHR ''f''" "\<not> is_digit CHR ''N''" "\<not> is_digit CHR ''I''"
    by (simp_all add: is_digit_def)
  have c: "c \<noteq> CHR ''n''" "c \<noteq> CHR ''t''" "c \<noteq> CHR ''f''" "c \<noteq> CHR ''N''" "c \<noteq> CHR ''I''" using s(3) letters by auto
  have m: "\<not> is_prefix ''-Infinity'' (show_int i @ r)" using s letters by (cases cs) auto
  have "first_match (\<lambda>(w, v). is_prefix w (show_int i @ r)) json_constants = None"
    unfolding first_match_None json_constants_def using c m s(1) by simp
  then show ?thesis by (simp add: json_scalar_def json_number_print [OF r])
qed

definition item_text :: "string \<times> pyval \<Rightarrow> string" where
  "item_text m = json_string (fst m) @ '':'' @ json_compact (snd m)"

lemma item_text_fun: "item_text = (\<lambda>(k, v). json_string k @ '':'' @ json_compact v)"
  by (simp add: fun_eq_iff item_text_def)

text \<open>A value that is read back from its text, whatever follows.\<close>

definition reads_back :: "pyval \<Rightarrow> bool" where
  "reads_back v \<longleftrightarrow>
     (\<forall>r n. ends r \<longrightarrow> 2 * length (json_compact v @ r) < n \<longrightarrow> json_value n (json_compact v @ r) = Some (json_sorted v, r))"

lemma reads_backD:
  "reads_back v \<Longrightarrow> ends r \<Longrightarrow> 2 * length (json_compact v @ r) < n \<Longrightarrow> json_value n (json_compact v @ r) = Some (json_sorted v, r)"
  by (simp add: reads_back_def)

lemma dset_new: "k \<notin> fst ` set d \<Longrightarrow> dset k v d = d @ [(k, v)]"
  by (induction d) auto

lemma json_members_print:
  assumes "ms \<noteq> []" "\<forall>m\<in>set ms. reads_back (snd m) \<and> json_plain (snd m)" "distinct (map fst (d @ ms))"
    and "2 * length (join '','' (map item_text ms) @ ''}'' @ r) < n"
  shows "json_members n d (join '','' (map item_text ms) @ ''}'' @ r) =
    Some (PDict (d @ map (\<lambda>(k, v). (k, json_sorted v)) ms), r)"
  using assms
proof (induction ms arbitrary: d n)
  case (Cons m ms)
  obtain k v where m: "m = (k, v)" by fastforce
  obtain n' where n: "n = Suc n'" using Cons.prems(4) by (cases n) auto
  define tail where "tail = (if ms = [] then ''}'' @ r else '','' @ join '','' (map item_text ms) @ ''}'' @ r)"
  have split: "join '','' (map item_text (m # ms)) @ ''}'' @ r =
      char_of (34 :: nat) # concat (map json_char k) @ char_of (34 :: nat) # '':'' @ json_compact v @ tail"
    by (cases ms) (simp_all add: tail_def item_text_def json_string_def m)
  have "ends tail" by (simp add: ends_def tail_def)
  obtain c cs where c: "json_compact v = c # cs" "opens c" using json_compact_opens [of v] Cons.prems(2) m by auto
  have len: "2 * length (json_compact v @ tail) < n'"
    using Cons.prems(4) unfolding split n by simp
  have v: "json_value n' (json_compact v @ tail) = Some (json_sorted v, tail)"
    using reads_backD [OF _ \<open>ends tail\<close> len] Cons.prems(2) m by simp
  have ws: "skip_ws (json_compact v @ tail) = json_compact v @ tail" using c by (simp add: opens_def)
  have new: "dset k (json_sorted v) d = d @ [(k, json_sorted v)]" using Cons.prems(3) m by (auto intro!: dset_new)
  show ?case
  proof (cases ms)
    case Nil
    then show ?thesis unfolding split n using v ws new by (simp add: json_chars_print tail_def m)
  next
    case ms: (Cons m' ms')
    let ?rest = "join '','' (map item_text ms) @ ''}'' @ r"
    have first: "\<exists>c cs. ?rest = c # cs \<and> byte_of c = 34" unfolding ms by (cases ms') (simp_all add: item_text_def json_string_def)
    then have w2: "skip_ws ?rest = ?rest" by auto
    have "json_members n' (d @ [(k, json_sorted v)]) ?rest =
        Some (PDict ((d @ [(k, json_sorted v)]) @ map (\<lambda>(k, v). (k, json_sorted v)) ms), r)"
      using Cons.prems(2,3) ms m len by (intro Cons.IH) (auto simp: tail_def)
    then show ?thesis unfolding split n using v ws new w2 ms by (simp add: json_chars_print tail_def m)
  qed
qed simp

lemma json_elements_print:
  assumes "vs \<noteq> []" "\<forall>v\<in>set vs. reads_back v \<and> json_plain v" "2 * length (join '','' (map json_compact vs) @ '']'' @ r) + 1 < n"
  shows "json_elements n acc (join '','' (map json_compact vs) @ '']'' @ r) = Some (PList (acc @ map json_sorted vs), r)"
  using assms
proof (induction vs arbitrary: acc n)
  case (Cons v vs)
  obtain n' where n: "n = Suc n'" using Cons.prems(3) by (cases n) auto
  define tail where "tail = (if vs = [] then '']'' @ r else '','' @ join '','' (map json_compact vs) @ '']'' @ r)"
  have split: "join '','' (map json_compact (v # vs)) @ '']'' @ r = json_compact v @ tail"
    by (cases vs) (simp_all add: tail_def)
  have "ends tail" by (simp add: ends_def tail_def)
  have v: "json_value n' (json_compact v @ tail) = Some (json_sorted v, tail)"
    using reads_backD [OF _ \<open>ends tail\<close>] Cons.prems(2,3) unfolding split n by simp
  show ?case
  proof (cases vs)
    case Nil
    then show ?thesis unfolding split n using v by (simp add: tail_def)
  next
    case vs: (Cons v' vs')
    let ?rest = "join '','' (map json_compact vs) @ '']'' @ r"
    obtain c cs where c: "json_compact v' = c # cs" "opens c" using json_compact_opens [of v'] Cons.prems(2) vs by auto
    have w2: "skip_ws ?rest = ?rest" using c unfolding vs by (cases vs') (simp_all add: opens_def)
    have len: "length (json_compact v) \<noteq> 0" using json_compact_opens [of v] Cons.prems(2) by auto
    have "json_elements n' (acc @ [json_sorted v]) ?rest = Some (PList ((acc @ [json_sorted v]) @ map json_sorted vs), r)"
      using Cons.prems vs len unfolding split n by (intro Cons.IH) (auto simp: tail_def)
    then show ?thesis unfolding split n using v w2 vs by (simp add: tail_def)
  qed
qed simp

lemma json_reads_back: "json_plain v \<Longrightarrow> reads_back v"
proof (induction v rule: json_compact.induct)
  case (3 i)
  have "json_value n (show_int i @ r) = Some (PInt i, r)" if "ends r" "2 * length (show_int i @ r) < n" for r n
  proof -
    obtain m where m: "n = Suc m" using \<open>2 * length (show_int i @ r) < n\<close> by (cases n) auto
    obtain c cs where c: "show_int i = c # cs" "byte_of c \<noteq> 34" "c \<noteq> CHR ''{''" "c \<noteq> CHR ''[''" using show_int_opens by blast
    then show ?thesis using json_scalar_int [OF \<open>ends r\<close>, of i] m by simp
  qed
  then show ?case by (simp add: reads_back_def)
next
  case (5 s)
  have "json_value n (json_string s @ r) = Some (PStr s, r)" if "0 < n" for r n
    using \<open>0 < n\<close> by (cases n) (simp_all add: json_string_def json_chars_print)
  then show ?case by (simp add: reads_back_def)
next
  case (6 vs)
  show ?case unfolding reads_back_def
  proof (intro allI impI)
    fix r n assume n: "2 * length (json_compact (PList vs) @ r) < n"
    obtain m where m: "n = Suc m" using n by (cases n) auto
    show "json_value n (json_compact (PList vs) @ r) = Some (json_sorted (PList vs), r)"
    proof (cases vs)
      case (Cons v vs')
      obtain c cs where c: "json_compact v = c # cs" "opens c" using json_compact_opens [of v] 6 Cons by auto
      have "\<exists>cs. join '','' (map json_compact vs) @ '']'' @ r = c # cs" using c unfolding Cons by (cases vs') simp_all
      then obtain cs' where s: "join '','' (map json_compact vs) @ '']'' @ r = c # cs'" by blast
      have "json_elements m [] (join '','' (map json_compact vs) @ '']'' @ r) = Some (PList ([] @ map json_sorted vs), r)"
        by (rule json_elements_print) (use 6 n m Cons in auto)
      then show ?thesis using s opensD [OF c(2), of cs'] m by simp
    qed (simp add: m)
  qed
next
  case (7 d)
  show ?case unfolding reads_back_def
  proof (intro allI impI)
    fix r n assume n: "2 * length (json_compact (PDict d) @ r) < n"
    obtain m where m: "n = Suc m" using n by (cases n) auto
    let ?d = "sort_key fst d"
    have t: "json_compact (PDict d) = ''{'' @ join '','' (map item_text ?d) @ ''}''"
      by (simp add: item_text_fun)
    show "json_value n (json_compact (PDict d) @ r) = Some (json_sorted (PDict d), r)"
    proof (cases "?d = []")
      case True
      then show ?thesis unfolding t using m by simp
    next
      case False
      have rb: "reads_back (snd m) \<and> json_plain (snd m)" if "m \<in> set ?d" for m
        using 7 that by (cases m) auto
      have dist: "distinct (map fst ([] @ ?d))" using "7.prems" by (simp add: distinct_map)
      have "\<exists>cs. join '','' (map item_text ?d) @ ''}'' @ r = char_of (34 :: nat) # cs"
        using False by (cases ?d; cases "tl ?d") (simp_all add: item_text_def json_string_def)
      then obtain cs where s: "join '','' (map item_text ?d) @ ''}'' @ r = char_of (34 :: nat) # cs" by blast
      have "json_members m [] (join '','' (map item_text ?d) @ ''}'' @ r) = Some (PDict ([] @ map (\<lambda>(k, v). (k, json_sorted v)) ?d), r)"
        by (rule json_members_print) (use False rb dist n m t in auto)
      moreover have "char_of (34 :: nat) \<noteq> CHR ''}''" by (auto dest: arg_cong [where f = byte_of])
      ultimately show ?thesis unfolding t using s m by simp
    qed
  qed
qed (auto simp: reads_back_def byte_of_def json_scalar_def json_constants_def gr0_conv_Suc dest!: gr_implies_not0 [THEN not0_implies_Suc])

lemma json_loads_compact: "json_plain v \<Longrightarrow> json_loads (json_compact v) = Some (json_sorted v)"
proof -
  assume v: "json_plain v"
  obtain c cs where c: "json_compact v = c # cs" "opens c" using json_compact_opens [OF v] by blast
  have "skip_ws (json_compact v) = json_compact v" using c by (simp add: opens_def)
  moreover have "ends []" by (simp add: ends_def)
  ultimately show ?thesis using reads_backD [OF json_reads_back [OF v], of "[]" "Suc (2 * length (json_compact v))"]
    by (simp add: json_loads_def)
qed


section \<open>Printed text is UTF-8\<close>

lemma utf8_valid_append: "utf8_valid a \<Longrightarrow> utf8_valid (a @ b) \<longleftrightarrow> utf8_valid b"
proof (induction a rule: utf8_valid.induct)
  case (2 a s)
  then show ?case by (auto simp: Let_def split: if_splits list.splits)
qed simp

lemma utf8_valid_ascii: "\<forall>c\<in>set s. byte_of c < 128 \<Longrightarrow> utf8_valid s"
  by (induction s) (auto simp: Let_def)

lemma json_char_ascii: "byte_of c < 128 \<Longrightarrow> d \<in> set (json_char c) \<Longrightarrow> byte_of d < 128"
proof -
  have "byte_of (hex_digit n) < 128" if "n < 16" for n using that by (auto simp: hex_digit_def)
  moreover have "byte_of CHR ''u'' < 128" "byte_of CHR ''n'' < 128" "byte_of CHR ''r'' < 128" "byte_of CHR ''t'' < 128"
    "byte_of CHR ''f'' < 128" "byte_of CHR ''b'' < 128" "byte_of CHR ''0'' < 128" by (simp_all add: byte_of_def)
  moreover assume "byte_of c < 128" "d \<in> set (json_char c)"
  ultimately show ?thesis by (auto simp: json_char_def Let_def hex2_def byte_of_def [symmetric] split: if_splits)
qed

lemma json_char_high: "128 \<le> byte_of c \<Longrightarrow> json_char c = [c]"
  by (auto simp: json_char_def byte_of_def Let_def)

lemma cont_high: "cont c \<Longrightarrow> 128 \<le> byte_of c" "second3 b c \<Longrightarrow> 128 \<le> byte_of c" "second4 b c \<Longrightarrow> 128 \<le> byte_of c"
  by (simp_all add: second3_def second4_def cont_def)

lemma json_chars_utf8: "utf8_valid s \<Longrightarrow> utf8_valid (concat (map json_char s))"
proof (induction s rule: utf8_valid.induct)
  case (2 a s)
  show ?case
  proof (cases "byte_of a < 128")
    case True
    then have "utf8_valid (json_char a)" using json_char_ascii utf8_valid_ascii by blast
    then show ?thesis using 2 True by (simp add: utf8_valid_append)
  next
    case False
    then show ?thesis using 2 by (auto simp: Let_def json_char_high cont_high split: if_splits list.splits)
  qed
qed simp

fun json_utf8 :: "pyval \<Rightarrow> bool" where
  "json_utf8 (PStr s) \<longleftrightarrow> utf8_valid s"
| "json_utf8 (PFloat x) \<longleftrightarrow> False"
| "json_utf8 (PList vs) \<longleftrightarrow> (\<forall>v\<in>set vs. json_utf8 v)"
| "json_utf8 (PDict d) \<longleftrightarrow> (\<forall>(k, v)\<in>set d. utf8_valid k \<and> json_utf8 v)"
| "json_utf8 _ \<longleftrightarrow> True"

lemma json_string_utf8: "utf8_valid s \<Longrightarrow> utf8_valid (json_string s)"
  using json_chars_utf8 [of s] by (simp add: json_string_def utf8_valid_append)

lemma join_utf8: "\<forall>s\<in>set ss. utf8_valid s \<Longrightarrow> utf8_valid sep \<Longrightarrow> utf8_valid (join sep ss)"
  by (induction sep ss rule: join.induct) (simp_all add: utf8_valid_append)

lemma show_int_utf8: "utf8_valid (show_int i)"
proof (rule utf8_valid_ascii)
  have d: "byte_of c < 128" if "is_digit c" for c using that by (auto simp: is_digit_def byte_of_def)
  have "\<forall>c\<in>set (show_nat n). byte_of c < 128" for n using show_nat_digits [of n] d by (auto simp: list_all_iff)
  then show "\<forall>c\<in>set (show_int i). byte_of c < 128" by (simp add: show_int_def byte_of_def)
qed

lemma json_compact_utf8: "json_utf8 v \<Longrightarrow> utf8_valid (json_compact v)"
proof (induction v rule: json_compact.induct)
  case (3 i)
  show ?case by (simp add: show_int_utf8)
next
  case (6 vs)
  have "utf8_valid (join '','' (map json_compact vs))" using 6 by (intro join_utf8) auto
  then show ?case by (simp add: utf8_valid_append)
next
  case (7 d)
  have "utf8_valid (item_text m)" if "m \<in> set (sort_key fst d)" for m
  proof -
    have "utf8_valid (json_compact (snd m))" "utf8_valid (fst m)" using 7 that by (cases m, auto)+
    then show ?thesis by (simp add: item_text_def utf8_valid_append json_string_utf8)
  qed
  then have "utf8_valid (join '','' (map item_text (sort_key fst d)))" by (intro join_utf8) auto
  then show ?case by (simp add: utf8_valid_append item_text_fun)
qed (auto simp: json_string_utf8 byte_of_def)

end
