(* ===== verification/Task_Messages.thy ===== *)
theory Task_Messages
  imports Json_Text
begin

text \<open>
  The messages of the dispatch stream (\<open>streams/models.py\<close>): a task as the API publishes it and the worker reads it, and a dead
  letter. A message is read from bytes. \<open>utc\<close> tells which texts \<open>datetime.fromisoformat\<close> reads as a time whose offset is that of UTC; the
  properties hold whatever it accepts.
\<close>

section \<open>Data\<close>

text \<open>A key that a payload may lack is an option; the two last may also be present as \<open>None\<close>.\<close>

record task_payload =
  tp_driver_id :: string
  tp_vehicle_id :: string
  tp_route_id :: string
  tp_anomaly_type :: string
  tp_anomaly_description :: string
  tp_vehicle_status :: "string option"
  tp_incident_node_id :: "string option option"
  tp_affected_edge_id :: "string option option"

record task_message =
  tm_schema_version :: string
  tm_task_id :: string
  tm_order_id :: int
  tm_anomaly_id :: "int option"
  tm_idempotency_key :: string
  tm_created_at :: string
  tm_payload :: task_payload
  tm_correlation_id :: "string option"

record dead_letter =
  dl_schema_version :: string
  dl_original_message_id :: string
  dl_task_id :: string
  dl_order_id :: int
  dl_idempotency_key :: string
  dl_original_stream :: string
  dl_failure_reason :: string
  dl_error_code :: string
  dl_delivery_count :: int
  dl_failed_at :: string
  dl_payload :: task_payload

text \<open>\<open>QueueMessageError\<close> with its text, and \<open>QueueConnectionError\<close>.\<close>

datatype queue_error = QueueMessageError string | QueueConnectionError string

section \<open>Printing\<close>

definition payload_dict :: "task_payload \<Rightarrow> pydict" where
  "payload_dict p =
     [(''driver_id'', PStr (tp_driver_id p)), (''vehicle_id'', PStr (tp_vehicle_id p)), (''route_id'', PStr (tp_route_id p)),
      (''anomaly_type'', PStr (tp_anomaly_type p)), (''anomaly_description'', PStr (tp_anomaly_description p))] @
     (case tp_vehicle_status p of None \<Rightarrow> [] | Some s \<Rightarrow> [(''vehicle_status'', PStr s)]) @
     (case tp_incident_node_id p of None \<Rightarrow> [] | Some n \<Rightarrow> [(''incident_node_id'', opt_str n)]) @
     (case tp_affected_edge_id p of None \<Rightarrow> [] | Some e \<Rightarrow> [(''affected_edge_id'', opt_str e)])"

definition message_dict :: "task_message \<Rightarrow> pydict" where
  "message_dict m =
     [(''schema_version'', PStr (tm_schema_version m)), (''task_id'', PStr (tm_task_id m)), (''order_id'', PInt (tm_order_id m)),
      (''anomaly_id'', opt_int (tm_anomaly_id m)), (''idempotency_key'', PStr (tm_idempotency_key m)),
      (''created_at'', PStr (tm_created_at m)), (''payload'', PDict (payload_dict (tm_payload m))),
      (''correlation_id'', opt_str (tm_correlation_id m))]"

definition message_to_json :: "task_message \<Rightarrow> string" where
  "message_to_json m = json_compact (PDict (message_dict m))"

definition dead_letter_dict :: "dead_letter \<Rightarrow> pydict" where
  "dead_letter_dict m =
     [(''schema_version'', PStr (dl_schema_version m)), (''original_message_id'', PStr (dl_original_message_id m)),
      (''task_id'', PStr (dl_task_id m)), (''order_id'', PInt (dl_order_id m)), (''idempotency_key'', PStr (dl_idempotency_key m)),
      (''original_stream'', PStr (dl_original_stream m)), (''failure_reason'', PStr (dl_failure_reason m)),
      (''error_code'', PStr (dl_error_code m)), (''delivery_count'', PInt (dl_delivery_count m)),
      (''failed_at'', PStr (dl_failed_at m)), (''payload'', PDict (payload_dict (dl_payload m)))]"

definition dead_letter_to_json :: "dead_letter \<Rightarrow> string" where
  "dead_letter_to_json m = json_compact (PDict (dead_letter_dict m))"

section \<open>Reading\<close>

definition message_error :: "string \<Rightarrow> queue_error + 'a" where
  "message_error text = Inl (QueueMessageError text)"

definition required_text :: "string \<Rightarrow> pyval \<Rightarrow> string \<Rightarrow> queue_error + string" where
  "required_text kind v field =
     (case text_of v of None \<Rightarrow> message_error (kind @ '' message field '' @ field @ '' is required.'') | Some s \<Rightarrow> Inr s)"

definition required_integer :: "string \<Rightarrow> pyval \<Rightarrow> string \<Rightarrow> queue_error + int" where
  "required_integer kind v field =
     (case integer_of v of None \<Rightarrow> message_error (kind @ '' message field '' @ field @ '' must be an integer.'') | Some i \<Rightarrow> Inr i)"

definition optional_text :: "pydict \<Rightarrow> string \<Rightarrow> queue_error + string option" where
  "optional_text raw field =
     (case dget raw field of
        PNone \<Rightarrow> Inr None
      | PStr s \<Rightarrow> if s = [] then message_error (''Stream message field '' @ field @ '' is invalid.'') else Inr (Some s)
      | _ \<Rightarrow> message_error (''Stream message field '' @ field @ '' is invalid.''))"

text \<open>A key is read only when the payload has it.\<close>

definition present_text :: "pydict \<Rightarrow> string \<Rightarrow> queue_error + string option option" where
  "present_text raw field =
     (if dhas raw field then res_bind (optional_text raw field) (\<lambda>t. Inr (Some t)) else Inr None)"

definition read_payload :: "pyval \<Rightarrow> queue_error + task_payload" where
  "read_payload v =
     (case v of
        PDict d \<Rightarrow>
          (case text_of (dget_default d ''vehicle_status'' (PStr ''NORMAL'')) of
             None \<Rightarrow> message_error ''Stream message field vehicle_status is invalid.''
           | Some vehicle_status \<Rightarrow>
               res_bind (required_text ''Stream'' (dget d ''driver_id'') ''driver_id'') (\<lambda>driver_id.
               res_bind (required_text ''Stream'' (dget d ''vehicle_id'') ''vehicle_id'') (\<lambda>vehicle_id.
               res_bind (required_text ''Stream'' (dget d ''route_id'') ''route_id'') (\<lambda>route_id.
               res_bind (required_text ''Stream'' (dget d ''anomaly_type'') ''anomaly_type'') (\<lambda>anomaly_type.
               res_bind (required_text ''Stream'' (dget d ''anomaly_description'') ''anomaly_description'') (\<lambda>anomaly_description.
               res_bind (present_text d ''incident_node_id'') (\<lambda>incident_node_id.
               res_bind (present_text d ''affected_edge_id'') (\<lambda>affected_edge_id.
               Inr \<lparr>tp_driver_id = driver_id, tp_vehicle_id = vehicle_id, tp_route_id = route_id, tp_anomaly_type = anomaly_type,
                    tp_anomaly_description = anomaly_description, tp_vehicle_status = Some vehicle_status,
                    tp_incident_node_id = incident_node_id, tp_affected_edge_id = affected_edge_id\<rparr>))))))))
      | _ \<Rightarrow> message_error ''Stream message payload is required.'')"

definition utc_timestamp :: "(string \<Rightarrow> bool) \<Rightarrow> string \<Rightarrow> string \<Rightarrow> pyval \<Rightarrow> queue_error + string" where
  "utc_timestamp utc kind field v =
     (case v of
        PStr s \<Rightarrow> if utc s then Inr s else message_error (kind @ '' message '' @ field @ '' must be ISO-8601 UTC.'')
      | _ \<Rightarrow> message_error (kind @ '' message field '' @ field @ '' is required.''))"

definition loads_bytes :: "string \<Rightarrow> string \<Rightarrow> queue_error + pyval" where
  "loads_bytes kind text =
     (if \<not> utf8_valid text then message_error (kind @ '' message is not valid JSON.'')
      else case json_loads text of None \<Rightarrow> message_error (kind @ '' message is not valid JSON.'') | Some v \<Rightarrow> Inr v)"

definition message_from_dict :: "(string \<Rightarrow> bool) \<Rightarrow> pydict \<Rightarrow> queue_error + task_message" where
  "message_from_dict utc raw =
     (if dget raw ''schema_version'' \<noteq> PStr ''1'' then message_error ''Stream message schema version is unsupported.''
      else
        res_bind (required_text ''Stream'' (dget raw ''task_id'') ''task_id'') (\<lambda>task_id.
        res_bind (required_text ''Stream'' (dget raw ''idempotency_key'') ''idempotency_key'') (\<lambda>idempotency_key.
        res_bind (required_integer ''Stream'' (dget raw ''order_id'') ''order_id'') (\<lambda>order_id.
        res_bind (if dget raw ''anomaly_id'' = PNone then Inr None
                  else res_bind (required_integer ''Stream'' (dget raw ''anomaly_id'') ''anomaly_id'') (\<lambda>i. Inr (Some i))) (\<lambda>anomaly_id.
        res_bind (utc_timestamp utc ''Stream'' ''created_at'' (dget raw ''created_at'')) (\<lambda>created_at.
        res_bind (read_payload (dget raw ''payload'')) (\<lambda>payload.
        res_bind (optional_text raw ''correlation_id'') (\<lambda>correlation_id.
        Inr \<lparr>tm_schema_version = ''1'', tm_task_id = task_id, tm_order_id = order_id, tm_anomaly_id = anomaly_id,
             tm_idempotency_key = idempotency_key, tm_created_at = created_at, tm_payload = payload,
             tm_correlation_id = correlation_id\<rparr>))))))))"

definition message_from_json :: "(string \<Rightarrow> bool) \<Rightarrow> string \<Rightarrow> queue_error + task_message" where
  "message_from_json utc text =
     res_bind (loads_bytes ''Stream'' text) (\<lambda>raw.
       case raw of PDict d \<Rightarrow> message_from_dict utc d | _ \<Rightarrow> message_error ''Stream message must be a JSON object.'')"

definition positive_integer :: "pyval \<Rightarrow> string \<Rightarrow> queue_error + int" where
  "positive_integer v field =
     res_bind (required_integer ''Dead-letter'' v field) (\<lambda>i.
       if i < 1 then message_error (''Dead-letter message field '' @ field @ '' must be positive.'') else Inr i)"

text \<open>\<open>now\<close> is the text of the current time in UTC.\<close>

definition dead_letter_from_stream_message ::
    "string \<Rightarrow> string \<Rightarrow> task_message \<Rightarrow> string \<Rightarrow> string \<Rightarrow> string \<Rightarrow> int \<Rightarrow> queue_error + dead_letter" where
  "dead_letter_from_stream_message now original_message_id m original_stream failure_reason error_code delivery_count =
     res_bind (required_text ''Dead-letter'' (PStr original_message_id) ''original_message_id'') (\<lambda>original_message_id.
     res_bind (required_text ''Dead-letter'' (PStr original_stream) ''original_stream'') (\<lambda>original_stream.
     res_bind (required_text ''Dead-letter'' (PStr failure_reason) ''failure_reason'') (\<lambda>failure_reason.
     res_bind (required_text ''Dead-letter'' (PStr error_code) ''error_code'') (\<lambda>error_code.
     res_bind (positive_integer (PInt delivery_count) ''delivery_count'') (\<lambda>delivery_count.
     res_bind (read_payload (PDict (payload_dict (tm_payload m)))) (\<lambda>payload.
     Inr \<lparr>dl_schema_version = ''1'', dl_original_message_id = original_message_id, dl_task_id = tm_task_id m,
          dl_order_id = tm_order_id m, dl_idempotency_key = tm_idempotency_key m, dl_original_stream = original_stream,
          dl_failure_reason = failure_reason, dl_error_code = error_code, dl_delivery_count = delivery_count, dl_failed_at = now,
          dl_payload = payload\<rparr>))))))"

definition dead_letter_from_dict :: "(string \<Rightarrow> bool) \<Rightarrow> pydict \<Rightarrow> queue_error + dead_letter" where
  "dead_letter_from_dict utc raw =
     res_bind (required_text ''Dead-letter'' (dget raw ''original_message_id'') ''original_message_id'') (\<lambda>original_message_id.
     res_bind (required_text ''Dead-letter'' (dget raw ''task_id'') ''task_id'') (\<lambda>task_id.
     res_bind (required_integer ''Dead-letter'' (dget raw ''order_id'') ''order_id'') (\<lambda>order_id.
     res_bind (required_text ''Dead-letter'' (dget raw ''idempotency_key'') ''idempotency_key'') (\<lambda>idempotency_key.
     res_bind (required_text ''Dead-letter'' (dget raw ''original_stream'') ''original_stream'') (\<lambda>original_stream.
     res_bind (required_text ''Dead-letter'' (dget raw ''failure_reason'') ''failure_reason'') (\<lambda>failure_reason.
     res_bind (required_text ''Dead-letter'' (dget raw ''error_code'') ''error_code'') (\<lambda>error_code.
     res_bind (positive_integer (dget raw ''delivery_count'') ''delivery_count'') (\<lambda>delivery_count.
     res_bind (utc_timestamp utc ''Dead-letter'' ''failed_at'' (dget raw ''failed_at'')) (\<lambda>failed_at.
     res_bind (read_payload (dget raw ''payload'')) (\<lambda>payload.
     Inr \<lparr>dl_schema_version = ''1'', dl_original_message_id = original_message_id, dl_task_id = task_id, dl_order_id = order_id,
          dl_idempotency_key = idempotency_key, dl_original_stream = original_stream, dl_failure_reason = failure_reason,
          dl_error_code = error_code, dl_delivery_count = delivery_count, dl_failed_at = failed_at, dl_payload = payload\<rparr>))))))))))"

definition dead_letter_from_json :: "(string \<Rightarrow> bool) \<Rightarrow> string \<Rightarrow> queue_error + dead_letter" where
  "dead_letter_from_json utc text =
     res_bind (loads_bytes ''Dead-letter'' text) (\<lambda>raw.
       case raw of
         PDict d \<Rightarrow>
           if dget d ''schema_version'' \<noteq> PStr ''1'' then message_error ''Dead-letter message schema version is unsupported.''
           else dead_letter_from_dict utc d
       | _ \<Rightarrow> message_error ''Dead-letter message schema version is unsupported.'')"

section \<open>Reading what was printed\<close>

text \<open>A message as the producers build it: its texts are not empty and are proper text.\<close>

definition proper :: "string \<Rightarrow> bool" where
  "proper s \<longleftrightarrow> s \<noteq> [] \<and> utf8_valid s"

definition payload_ok :: "task_payload \<Rightarrow> bool" where
  "payload_ok p \<longleftrightarrow>
     proper (tp_driver_id p) \<and> proper (tp_vehicle_id p) \<and> proper (tp_route_id p) \<and> proper (tp_anomaly_type p) \<and>
     proper (tp_anomaly_description p) \<and> pred_option proper (tp_vehicle_status p) \<and>
     pred_option (pred_option proper) (tp_incident_node_id p) \<and> pred_option (pred_option proper) (tp_affected_edge_id p)"

definition message_ok :: "(string \<Rightarrow> bool) \<Rightarrow> task_message \<Rightarrow> bool" where
  "message_ok utc m \<longleftrightarrow>
     tm_schema_version m = ''1'' \<and> proper (tm_task_id m) \<and> proper (tm_idempotency_key m) \<and> utf8_valid (tm_created_at m) \<and>
     utc (tm_created_at m) \<and> payload_ok (tm_payload m) \<and> pred_option proper (tm_correlation_id m)"

definition dead_letter_ok :: "(string \<Rightarrow> bool) \<Rightarrow> dead_letter \<Rightarrow> bool" where
  "dead_letter_ok utc m \<longleftrightarrow>
     dl_schema_version m = ''1'' \<and> proper (dl_original_message_id m) \<and> proper (dl_task_id m) \<and> proper (dl_idempotency_key m) \<and>
     proper (dl_original_stream m) \<and> proper (dl_failure_reason m) \<and> proper (dl_error_code m) \<and> 1 \<le> dl_delivery_count m \<and>
     utf8_valid (dl_failed_at m) \<and> utc (dl_failed_at m) \<and> payload_ok (dl_payload m)"

text \<open>Reading fills in the vehicle status that a payload lacks.\<close>

definition filled :: "task_payload \<Rightarrow> task_payload" where
  "filled p = p\<lparr>tp_vehicle_status := Some (case tp_vehicle_status p of None \<Rightarrow> ''NORMAL'' | Some s \<Rightarrow> s)\<rparr>"


text \<open>A reader that looks keys up does not see their order.\<close>

abbreviation sorted_dict :: "pydict \<Rightarrow> pydict" where
  "sorted_dict d \<equiv> map (\<lambda>(k, v). (k, json_sorted v)) (sort_key fst d)"

lemma map_of_sorted_dict: "distinct (map fst d) \<Longrightarrow> map_of (sorted_dict d) k = map_option json_sorted (map_of d k)"
proof -
  assume d: "distinct (map fst d)"
  then have "map_of (sort_key fst d) = map_of d" by (intro map_of_eqI) (auto simp: distinct_map map_of_eq_Some_iff)
  moreover have "map_of (map (\<lambda>(k, v). (k, json_sorted v)) xs) k = map_option json_sorted (map_of xs k)" for xs
    by (induction xs) auto
  ultimately show ?thesis by simp
qed

lemma sorted_dict_lookup:
  assumes "distinct (map fst d)"
  shows "dget (sorted_dict d) k = json_sorted (dget d k)" "dhas (sorted_dict d) k = dhas d k"
    "dget_default (sorted_dict d) k (PStr t) = json_sorted (dget_default d k (PStr t))"
  using map_of_sorted_dict [OF assms, of k] by (simp_all add: dget_def dhas_def dget_default_def split: option.split)

lemma json_sorted_scalars [simp]:
  "text_of (json_sorted v) = text_of v" "integer_of (json_sorted v) = integer_of v"
  "json_sorted v = PNone \<longleftrightarrow> v = PNone" "json_sorted v = PStr t \<longleftrightarrow> v = PStr t"
  by (cases v; simp add: text_of_def integer_of_def)+

lemma optional_text_sorted: "distinct (map fst d) \<Longrightarrow> optional_text (sorted_dict d) k = optional_text d k"
  unfolding optional_text_def sorted_dict_lookup by (cases "dget d k") simp_all

lemma read_payload_sorted: "json_plain v \<Longrightarrow> read_payload (json_sorted v) = read_payload v"
proof (cases v)
  case (PDict d)
  assume "json_plain v"
  then have d: "distinct (map fst d)" using PDict by simp
  show ?thesis
    unfolding PDict read_payload_def json_sorted.simps pyval.case sorted_dict_lookup [OF d] required_text_def present_text_def
      optional_text_sorted [OF d] json_sorted_scalars ..
qed (simp_all add: read_payload_def)

lemma utc_timestamp_sorted: "utc_timestamp utc kind field (json_sorted v) = utc_timestamp utc kind field v"
  by (cases v) (simp_all add: utc_timestamp_def)

lemma message_from_dict_sorted: "json_plain (PDict d) \<Longrightarrow> message_from_dict utc (sorted_dict d) = message_from_dict utc d"
proof -
  assume p: "json_plain (PDict d)"
  then have d: "distinct (map fst d)" by simp
  have "json_plain (dget d ''payload'')" using p by (auto simp: dget_def dest!: map_of_SomeD split: option.split)
  note r = read_payload_sorted [OF this]
  show ?thesis
    unfolding message_from_dict_def required_text_def required_integer_def sorted_dict_lookup [OF d] utc_timestamp_sorted r
      optional_text_sorted [OF d] json_sorted_scalars ..
qed

lemma dead_letter_from_dict_sorted:
  "json_plain (PDict d) \<Longrightarrow> dead_letter_from_dict utc (sorted_dict d) = dead_letter_from_dict utc d"
proof -
  assume p: "json_plain (PDict d)"
  then have d: "distinct (map fst d)" by simp
  have "json_plain (dget d ''payload'')" using p by (auto simp: dget_def dest!: map_of_SomeD split: option.split)
  note r = read_payload_sorted [OF this]
  show ?thesis
    unfolding dead_letter_from_dict_def required_text_def required_integer_def positive_integer_def sorted_dict_lookup [OF d]
      utc_timestamp_sorted r json_sorted_scalars ..
qed

lemma payload_dict_plain: "json_plain (PDict (payload_dict p))"
  by (auto simp: payload_dict_def opt_str_def split: option.split)

lemma payload_keys_utf8:
  "\<forall>k\<in>{''driver_id'', ''vehicle_id'', ''route_id'', ''anomaly_type'', ''anomaly_description'', ''vehicle_status'', ''incident_node_id'',
      ''affected_edge_id''}. utf8_valid k"
  by code_simp

lemma opt_str_utf8: "json_utf8 (opt_str t) \<longleftrightarrow> pred_option utf8_valid t"
  by (cases t) (simp_all add: opt_str_def)

lemma payload_dict_utf8: "payload_ok p \<Longrightarrow> json_utf8 (PDict (payload_dict p))"
proof -
  assume p: "payload_ok p"
  have "json_utf8 (opt_str t)" if "pred_option proper t" for t using that by (cases t) (auto simp: opt_str_utf8 proper_def)
  then show ?thesis using p payload_keys_utf8
    by (cases "tp_vehicle_status p"; cases "tp_incident_node_id p"; cases "tp_affected_edge_id p")
      (auto simp: payload_dict_def payload_ok_def proper_def simp del: utf8_valid.simps)
qed

lemma read_payload_dict: "payload_ok p \<Longrightarrow> read_payload (PDict (payload_dict p)) = Inr (filled p)"
proof -
  assume p: "payload_ok p"
  have lookups: "dget (payload_dict p) ''driver_id'' = PStr (tp_driver_id p)" "dget (payload_dict p) ''vehicle_id'' = PStr (tp_vehicle_id p)"
    "dget (payload_dict p) ''route_id'' = PStr (tp_route_id p)" "dget (payload_dict p) ''anomaly_type'' = PStr (tp_anomaly_type p)"
    "dget (payload_dict p) ''anomaly_description'' = PStr (tp_anomaly_description p)"
    by (simp_all add: payload_dict_def)
  have status: "dget_default (payload_dict p) ''vehicle_status'' (PStr ''NORMAL'') =
      PStr (case tp_vehicle_status p of None \<Rightarrow> ''NORMAL'' | Some s \<Rightarrow> s)"
    by (simp add: payload_dict_def dget_default_def split: option.split)
  have incident: "present_text (payload_dict p) ''incident_node_id'' = Inr (tp_incident_node_id p)"
    using p by (auto simp: payload_ok_def proper_def payload_dict_def present_text_def optional_text_def opt_str_def dhas_def dget_def split: option.split)
  have edge: "present_text (payload_dict p) ''affected_edge_id'' = Inr (tp_affected_edge_id p)"
    using p by (auto simp: payload_ok_def proper_def payload_dict_def present_text_def optional_text_def opt_str_def dhas_def dget_def split: option.split)
  show ?thesis
    using p by (auto simp: read_payload_def lookups status incident edge required_text_def payload_ok_def proper_def filled_def split: option.split)
qed


lemma message_dict_json:
  assumes "message_ok utc m"
  shows "json_plain (PDict (message_dict m))" "json_utf8 (PDict (message_dict m))"
proof -
  show "json_plain (PDict (message_dict m))"
    using payload_dict_plain [of "tm_payload m"] by (auto simp: message_dict_def opt_str_def opt_int_def split: option.split)
  have keys: "\<forall>k\<in>{''schema_version'', ''task_id'', ''order_id'', ''anomaly_id'', ''idempotency_key'', ''created_at'', ''payload'',
      ''correlation_id'', ''1''}. utf8_valid k" by code_simp
  have "json_utf8 (opt_str (tm_correlation_id m))"
    using assms by (cases "tm_correlation_id m") (auto simp: message_ok_def opt_str_utf8 proper_def)
  moreover have "json_utf8 (PDict (payload_dict (tm_payload m)))" using assms by (simp only: payload_dict_utf8 message_ok_def)
  moreover have "json_utf8 (opt_int i)" for i by (simp add: opt_int_def split: option.split)
  ultimately show "json_utf8 (PDict (message_dict m))"
    using assms keys by (auto simp: message_dict_def message_ok_def proper_def simp del: utf8_valid.simps)
qed

lemma message_from_message_dict: "message_ok utc m \<Longrightarrow>
    message_from_dict utc (message_dict m) = Inr (m\<lparr>tm_payload := filled (tm_payload m)\<rparr>)"
  by (cases "tm_anomaly_id m"; cases "tm_correlation_id m")
    (auto simp: message_from_dict_def message_dict_def message_ok_def proper_def required_text_def required_integer_def integer_of_def
      utc_timestamp_def optional_text_def opt_int_def opt_str_def read_payload_dict)

lemma dead_letter_dict_json:
  assumes "dead_letter_ok utc m"
  shows "json_plain (PDict (dead_letter_dict m))" "json_utf8 (PDict (dead_letter_dict m))"
proof -
  show "json_plain (PDict (dead_letter_dict m))"
    using payload_dict_plain [of "dl_payload m"] by (auto simp: dead_letter_dict_def)
  have keys: "\<forall>k\<in>{''schema_version'', ''original_message_id'', ''task_id'', ''order_id'', ''idempotency_key'', ''original_stream'',
      ''failure_reason'', ''error_code'', ''delivery_count'', ''failed_at'', ''payload'', ''1''}. utf8_valid k" by code_simp
  moreover have "json_utf8 (PDict (payload_dict (dl_payload m)))" using assms by (simp only: payload_dict_utf8 dead_letter_ok_def)
  ultimately show "json_utf8 (PDict (dead_letter_dict m))"
    using assms by (auto simp: dead_letter_dict_def dead_letter_ok_def proper_def simp del: utf8_valid.simps)
qed

lemma dead_letter_from_dead_letter_dict: "dead_letter_ok utc m \<Longrightarrow>
    dead_letter_from_dict utc (dead_letter_dict m) = Inr (m\<lparr>dl_payload := filled (dl_payload m)\<rparr>)"
  by (auto simp: dead_letter_from_dict_def dead_letter_dict_def dead_letter_ok_def proper_def required_text_def required_integer_def
      positive_integer_def integer_of_def utc_timestamp_def read_payload_dict)

lemma loads_compact:
  assumes "json_plain v" "json_utf8 v"
  shows "loads_bytes kind (json_compact v) = Inr (json_sorted v)"
  using json_loads_compact [OF assms(1)] json_compact_utf8 [OF assms(2)] by (simp add: loads_bytes_def)

lemma filled_ok: "payload_ok p \<Longrightarrow> payload_ok (filled p)"
proof -
  have "proper ''NORMAL''" by (simp add: proper_def byte_of_def)
  then show "payload_ok p \<Longrightarrow> payload_ok (filled p)" by (auto simp: payload_ok_def filled_def split: option.split)
qed

section \<open>Properties of messages\<close>

text \<open>
  C22. Messages survive the stream. A well-formed task message that is printed as JSON text and read back is the same message, with the default
  vehicle status filled in, whatever bytes its texts hold; so is a dead letter. A message that fails to be processed becomes a dead letter that
  keeps its identity and its payload and reads back as it was written.
\<close>

theorem message_survives_stream:
  "(message_ok utc m \<longrightarrow> message_from_json utc (message_to_json m) = Inr (m\<lparr>tm_payload := filled (tm_payload m)\<rparr>)) \<and>
   (message_ok utc m \<and> proper i \<and> proper stream \<and> proper reason \<and> proper code \<and> 1 \<le> n \<and> utf8_valid now \<and> utc now \<longrightarrow>
     (\<exists>l. dead_letter_from_stream_message now i m stream reason code n = Inr l \<and>
          dead_letter_from_json utc (dead_letter_to_json l) = Inr l \<and> dl_task_id l = tm_task_id m \<and>
          dl_idempotency_key l = tm_idempotency_key m \<and> dl_order_id l = tm_order_id m \<and> dl_payload l = filled (tm_payload m) \<and>
          dl_delivery_count l = n))"
proof (intro conjI impI)
  assume m: "message_ok utc m"
  note j = message_dict_json [OF m]
  show "message_from_json utc (message_to_json m) = Inr (m\<lparr>tm_payload := filled (tm_payload m)\<rparr>)"
    unfolding message_from_json_def message_to_json_def loads_compact [OF j]
    using message_from_message_dict [OF m] message_from_dict_sorted [OF j(1)] by simp
next
  assume a: "message_ok utc m \<and> proper i \<and> proper stream \<and> proper reason \<and> proper code \<and> 1 \<le> n \<and> utf8_valid now \<and> utc now"
  have p: "payload_ok (tm_payload m)" using a by (simp add: message_ok_def)
  let ?l = "\<lparr>dl_schema_version = ''1'', dl_original_message_id = i, dl_task_id = tm_task_id m,
          dl_order_id = tm_order_id m, dl_idempotency_key = tm_idempotency_key m, dl_original_stream = stream,
          dl_failure_reason = reason, dl_error_code = code, dl_delivery_count = n, dl_failed_at = now,
          dl_payload = filled (tm_payload m)\<rparr>"
  have l: "dead_letter_from_stream_message now i m stream reason code n = Inr ?l"
    using a by (auto simp: dead_letter_from_stream_message_def required_text_def proper_def positive_integer_def required_integer_def
        integer_of_def read_payload_dict [OF p])
  have ok: "dead_letter_ok utc ?l" using a filled_ok [OF p] by (simp add: dead_letter_ok_def message_ok_def)
  note j = dead_letter_dict_json [OF ok]
  have "dget (sorted_dict (dead_letter_dict ?l)) ''schema_version'' = PStr ''1''"
    using sorted_dict_lookup(1) [of "dead_letter_dict ?l"] j(1) by (simp add: dead_letter_dict_def)
  then have "dead_letter_from_json utc (dead_letter_to_json ?l) = Inr (?l\<lparr>dl_payload := filled (dl_payload ?l)\<rparr>)"
    unfolding dead_letter_from_json_def dead_letter_to_json_def loads_compact [OF j]
    using dead_letter_from_dead_letter_dict [OF ok] dead_letter_from_dict_sorted [OF j(1)] by simp
  moreover have "?l\<lparr>dl_payload := filled (dl_payload ?l)\<rparr> = ?l" by (simp add: filled_def split: option.split)
  ultimately show "\<exists>l. dead_letter_from_stream_message now i m stream reason code n = Inr l \<and>
          dead_letter_from_json utc (dead_letter_to_json l) = Inr l \<and> dl_task_id l = tm_task_id m \<and>
          dl_idempotency_key l = tm_idempotency_key m \<and> dl_order_id l = tm_order_id m \<and> dl_payload l = filled (tm_payload m) \<and>
          dl_delivery_count l = n" using l by (intro exI [of _ ?l]) simp
qed

definition sample_payload :: task_payload where
  "sample_payload =
     \<lparr>tp_driver_id = ''D1'', tp_vehicle_id = ''V1'', tp_route_id = ''R1'', tp_anomaly_type = ''VEHICLE_BREAKDOWN'',
      tp_anomaly_description = utf8 [0xE8, 0xBD, 0xA6, 10, 34], tp_vehicle_status = None, tp_incident_node_id = Some None,
      tp_affected_edge_id = None\<rparr>"

definition sample_message :: task_message where
  "sample_message =
     \<lparr>tm_schema_version = ''1'', tm_task_id = ''T1'', tm_order_id = 7, tm_anomaly_id = None, tm_idempotency_key = ''k1'',
      tm_created_at = ''2026-01-01T00:00:00+00:00'', tm_payload = sample_payload, tm_correlation_id = None\<rparr>"

lemma sample_message_ok: "message_ok (\<lambda>s. s = ''2026-01-01T00:00:00+00:00'') sample_message"
proof -
  have "list_all proper [''D1'', ''V1'', ''R1'', ''VEHICLE_BREAKDOWN'', utf8 [0xE8, 0xBD, 0xA6, 10, 34], ''T1'', ''k1'']" by code_simp
  moreover have "utf8_valid ''2026-01-01T00:00:00+00:00''" by code_simp
  ultimately show ?thesis
    by (simp add: message_ok_def payload_ok_def sample_message_def sample_payload_def del: utf8_valid.simps)
qed

theorem message_survives_stream_witness:
  "message_from_json (\<lambda>s. s = ''2026-01-01T00:00:00+00:00'') (message_to_json sample_message) =
     Inr (sample_message\<lparr>tm_payload := filled sample_payload\<rparr>)"
proof -
  have "tm_payload sample_message = sample_payload" by (simp add: sample_message_def)
  then show ?thesis
    using message_survives_stream [of "\<lambda>s. s = ''2026-01-01T00:00:00+00:00''" sample_message] sample_message_ok by simp
qed

end
