(* ===== verification/Stream_Queue.thy ===== *)
theory Stream_Queue
  imports Task_Messages
begin

text \<open>
  The stream queue (\<open>streams/redis_queue.py\<close>) and the retry policy (\<open>streams/retry.py\<close>). What the Redis client answers to each call is an argument,
  with \<open>Inl ()\<close> for a \<open>RedisError\<close>; the theory models how the queue reads the answers and which calls it makes. Answers are the values that the client
  library returns: numbers, texts, bytes, lists, tuples and mappings.
\<close>

section \<open>Retry policy\<close>

record retry_policy =
  rp_max_delivery_attempts :: int
  rp_base_delay_ms :: int
  rp_max_delay_ms :: int

definition should_retry :: "retry_policy \<Rightarrow> int \<Rightarrow> bool" where
  "should_retry p delivery_count \<longleftrightarrow> delivery_count < rp_max_delivery_attempts p"

text \<open>The power of a negative exponent is a fraction.\<close>

definition backoff_ms :: "retry_policy \<Rightarrow> int \<Rightarrow> rat" where
  "backoff_ms p delivery_count =
     min (of_int (rp_base_delay_ms p) * bpow 2 (delivery_count - 1)) (of_int (rp_max_delay_ms p))"

section \<open>Answers of the client\<close>

datatype redis_val =
    RNone
  | RInt int
  | RBool bool
  | RStr string
  | RBytes string
  | RList "redis_val list"
  | RTuple "redis_val list"
  | RMap "(redis_val \<times> redis_val) list"

record stream_message =
  sm_message_id :: string
  sm_task :: task_message
  sm_delivery_count :: "int option"
  sm_metadata :: "(string \<times> string) list"

record pending_summary =
  ps_pending :: int
  ps_min_message_id :: "string option"
  ps_max_message_id :: "string option"
  ps_consumers :: "(string \<times> int) list"

record stream_operational_state =
  so_pending_by_consumer :: "(string \<times> int) list"
  so_stream_lag :: int
  so_dlq_messages :: int

text \<open>\<open>raw.get("key", raw.get(b"key"))\<close>.\<close>

definition rget :: "(redis_val \<times> redis_val) list \<Rightarrow> string \<Rightarrow> redis_val" where
  "rget d k = (case map_of d (RStr k) of Some v \<Rightarrow> v | None \<Rightarrow> (case map_of d (RBytes k) of Some v \<Rightarrow> v | None \<Rightarrow> RNone))"

definition redis_text :: "redis_val \<Rightarrow> string \<Rightarrow> queue_error + string" where
  "redis_text v field =
     (case v of
        RBytes b \<Rightarrow> if utf8_valid b then Inr b else message_error (''Redis '' @ field @ '' is not UTF-8.'')
      | RStr s \<Rightarrow> if s \<noteq> [] then Inr s else message_error (''Redis '' @ field @ '' is invalid.'')
      | _ \<Rightarrow> message_error (''Redis '' @ field @ '' is invalid.''))"

definition redis_optional_text :: "redis_val \<Rightarrow> string \<Rightarrow> queue_error + string option" where
  "redis_optional_text v field = (if v = RNone then Inr None else res_bind (redis_text v field) (\<lambda>t. Inr (Some t)))"

definition redis_int :: "redis_val \<Rightarrow> int option" where
  "redis_int v = (case v of RInt i \<Rightarrow> Some i | _ \<Rightarrow> None)"

text \<open>The answer of a call, or the error that the queue raises for a \<open>RedisError\<close>.\<close>

definition answered :: "string \<Rightarrow> unit + 'a \<Rightarrow> queue_error + 'a" where
  "answered text resp = (case resp of Inl _ \<Rightarrow> Inl (QueueConnectionError text) | Inr v \<Rightarrow> Inr v)"

section \<open>Entries\<close>

definition entry_data :: "redis_val \<Rightarrow> queue_error + redis_val \<times> string" where
  "entry_data entry =
     (case entry of
        RTuple [message_id, entry_fields] \<Rightarrow>
          (case entry_fields of
             RMap d \<Rightarrow>
               (case (case map_of d (RBytes ''data'') of Some v \<Rightarrow> v
                      | None \<Rightarrow> (case map_of d (RStr ''data'') of Some v \<Rightarrow> v | None \<Rightarrow> RNone)) of
                  RBytes text \<Rightarrow> Inr (message_id, text)
                | RStr text \<Rightarrow> Inr (message_id, text)
                | _ \<Rightarrow> message_error ''Redis stream message data is required.'')
           | _ \<Rightarrow> message_error ''Redis stream fields are invalid.'')
      | _ \<Rightarrow> message_error ''Redis stream entry is invalid.'')"

definition entry_message :: "(string \<Rightarrow> bool) \<Rightarrow> string \<Rightarrow> redis_val \<Rightarrow> queue_error + stream_message" where
  "entry_message utc stream_name entry =
     res_bind (entry_data entry) (\<lambda>(message_id, text).
     res_bind (redis_text message_id ''message ID'') (\<lambda>message_id.
     res_bind (message_from_json utc text) (\<lambda>task.
     Inr \<lparr>sm_message_id = message_id, sm_task = task, sm_delivery_count = None, sm_metadata = [(''stream'', stream_name)]\<rparr>)))"

fun entry_messages :: "(string \<Rightarrow> bool) \<Rightarrow> string \<Rightarrow> redis_val list \<Rightarrow> queue_error + stream_message list" where
  "entry_messages utc stream_name [] = Inr []"
| "entry_messages utc stream_name (e # es) =
     res_bind (entry_message utc stream_name e) (\<lambda>m. res_bind (entry_messages utc stream_name es) (\<lambda>ms. Inr (m # ms)))"

definition stream_messages :: "(string \<Rightarrow> bool) \<Rightarrow> redis_val \<Rightarrow> redis_val \<Rightarrow> queue_error + stream_message list" where
  "stream_messages utc stream entries =
     (case entries of
        RList es \<Rightarrow> res_bind (redis_text stream ''stream name'') (\<lambda>stream_name. entry_messages utc stream_name es)
      | _ \<Rightarrow> message_error ''Redis stream entries are invalid.'')"

fun group_messages :: "(string \<Rightarrow> bool) \<Rightarrow> (redis_val \<times> redis_val) list \<Rightarrow> queue_error + stream_message list" where
  "group_messages utc [] = Inr []"
| "group_messages utc ((stream, entries) # streams) =
     res_bind (stream_messages utc stream entries) (\<lambda>ms. res_bind (group_messages utc streams) (\<lambda>ns. Inr (ms @ ns)))"

definition read_group :: "(string \<Rightarrow> bool) \<Rightarrow> unit + (redis_val \<times> redis_val) list \<Rightarrow> queue_error + stream_message list" where
  "read_group utc resp = res_bind (answered ''Redis stream read failed.'' resp) (group_messages utc)"

section \<open>Pending messages\<close>

fun pending_consumers :: "redis_val list \<Rightarrow> queue_error + (string \<times> int) list" where
  "pending_consumers [] = Inr []"
| "pending_consumers (c # cs) =
     (case c of
        RMap d \<Rightarrow>
          (case redis_int (rget d ''pending'') of
             None \<Rightarrow> message_error ''Redis pending consumer count is invalid.''
           | Some pending \<Rightarrow>
               res_bind (redis_text (rget d ''name'') ''pending consumer name'') (\<lambda>name.
               res_bind (pending_consumers cs) (\<lambda>rest. Inr ((name, pending) # rest))))
      | _ \<Rightarrow> message_error ''Redis pending consumer is invalid.'')"

definition get_pending_summary :: "unit + redis_val \<Rightarrow> queue_error + pending_summary" where
  "get_pending_summary resp =
     res_bind (answered ''Redis pending summary read failed.'' resp) (\<lambda>raw.
       case raw of
         RMap d \<Rightarrow>
           (case redis_int (rget d ''pending'') of
              None \<Rightarrow> message_error ''Redis pending count is invalid.''
            | Some pending \<Rightarrow>
                (case rget d ''consumers'' of
                   RList cs \<Rightarrow>
                     res_bind (redis_optional_text (rget d ''min'') ''pending minimum message ID'') (\<lambda>minimum.
                     res_bind (redis_optional_text (rget d ''max'') ''pending maximum message ID'') (\<lambda>maximum.
                     res_bind (pending_consumers cs) (\<lambda>consumers.
                     Inr \<lparr>ps_pending = pending, ps_min_message_id = minimum, ps_max_message_id = maximum, ps_consumers = consumers\<rparr>)))
                 | _ \<Rightarrow> message_error ''Redis pending consumers are invalid.''))
       | _ \<Rightarrow> message_error ''Redis pending summary is invalid.'')"

text \<open>The first group of the consumer group's name that has a lag.\<close>

fun group_lag :: "string \<Rightarrow> redis_val list \<Rightarrow> queue_error + int option" where
  "group_lag consumer_group [] = Inr None"
| "group_lag consumer_group (g # gs) =
     (case g of
        RMap d \<Rightarrow>
          res_bind (redis_optional_text (rget d ''name'') ''consumer group'') (\<lambda>name.
            if name \<noteq> Some consumer_group then group_lag consumer_group gs
            else case redis_int (rget d ''lag'') of Some lag \<Rightarrow> Inr (Some lag) | None \<Rightarrow> group_lag consumer_group gs)
      | _ \<Rightarrow> group_lag consumer_group gs)"

definition get_operational_state :: "string \<Rightarrow> unit + redis_val \<Rightarrow> unit + redis_val \<Rightarrow> unit + redis_val \<Rightarrow>
    queue_error + stream_operational_state" where
  "get_operational_state consumer_group pending_resp groups_resp dlq_resp =
     res_bind (get_pending_summary pending_resp) (\<lambda>pending.
     res_bind (answered ''Redis stream operational state read failed.'' groups_resp) (\<lambda>groups.
     res_bind (answered ''Redis stream operational state read failed.'' dlq_resp) (\<lambda>dlq.
       case (groups, redis_int dlq) of
         (RList gs, Some dlq_messages) \<Rightarrow>
           res_bind (group_lag consumer_group gs) (\<lambda>lag.
             case lag of
               None \<Rightarrow> message_error ''Redis consumer group lag is unavailable.''
             | Some l \<Rightarrow> Inr \<lparr>so_pending_by_consumer = ps_consumers pending, so_stream_lag = l, so_dlq_messages = dlq_messages\<rparr>)
       | _ \<Rightarrow> message_error ''Redis stream operational state is invalid.'')))"

text \<open>A number of each listed message; entries that cannot be read are skipped, and a later entry of an id replaces an earlier one.\<close>

fun pending_numbers :: "string \<Rightarrow> redis_val list \<Rightarrow> (string \<rightharpoonup> int)" where
  "pending_numbers key [] = Map.empty"
| "pending_numbers key (i # rest) =
     (case i of
        RMap d \<Rightarrow>
          (case (redis_int (rget d key), redis_text (rget d ''message_id'') ''pending message ID'') of
             (Some n, Inr message_id) \<Rightarrow> (\<lambda>k. case pending_numbers key rest k of Some m \<Rightarrow> Some m | None \<Rightarrow> if k = message_id then Some n else None)
           | _ \<Rightarrow> pending_numbers key rest)
      | _ \<Rightarrow> pending_numbers key rest)"

definition pending_range :: "string \<Rightarrow> unit + redis_val \<Rightarrow> (string \<rightharpoonup> int)" where
  "pending_range key resp = (case resp of Inr (RList xs) \<Rightarrow> pending_numbers key xs | _ \<Rightarrow> Map.empty)"

text \<open>The counts are asked for with the number of claimed messages as the limit, and only if there are any.\<close>

definition delivery_counts :: "nat \<Rightarrow> (nat \<Rightarrow> unit + redis_val) \<Rightarrow> (string \<rightharpoonup> int)" where
  "delivery_counts n xpending_range = (if n = 0 then Map.empty else pending_range ''times_delivered'' (xpending_range n))"

definition claim_pending :: "(string \<Rightarrow> bool) \<Rightarrow> string \<Rightarrow> unit + redis_val \<Rightarrow> unit + redis_val \<Rightarrow> (nat \<Rightarrow> unit + redis_val) \<Rightarrow>
    queue_error + stream_message list" where
  "claim_pending utc stream_name idle_resp claim_resp counts_resp =
     (let pending_idle = pending_range ''time_since_delivered'' idle_resp
      in res_bind (answered ''Redis pending message recovery failed.'' claim_resp) (\<lambda>raw.
           case (case raw of RList xs \<Rightarrow> xs | RTuple xs \<Rightarrow> xs | _ \<Rightarrow> []) of
             _ # entries # _ \<Rightarrow>
               res_bind (stream_messages utc (RStr stream_name) entries) (\<lambda>messages.
                 let counts = delivery_counts (length messages) counts_resp
                 in Inr (map (\<lambda>m. m\<lparr>sm_delivery_count := counts (sm_message_id m),
                           sm_metadata := sm_metadata m @ [(''pending_idle_ms_at_claim'',
                             show_int (case pending_idle (sm_message_id m) of None \<Rightarrow> 0 | Some i \<Rightarrow> i))]\<rparr>) messages))
           | _ \<Rightarrow> message_error ''Redis pending recovery response is invalid.''))"

section \<open>Calls that change the streams\<close>

datatype queue_call = CreateGroup | Publish string | PublishDeadLetter string | AckMessage string

text \<open>\<open>Inl (Some t)\<close> is a \<open>ResponseError\<close> with the text \<open>t\<close>, \<open>Inl None\<close> another \<open>RedisError\<close>.\<close>

definition ensure_consumer_group :: "string option + unit \<Rightarrow> queue_error + bool" where
  "ensure_consumer_group resp =
     (case resp of
        Inr _ \<Rightarrow> Inr True
      | Inl (Some text) \<Rightarrow>
          if is_infix ''BUSYGROUP'' text then Inr False
          else Inl (QueueConnectionError ''Redis consumer group initialization failed.'')
      | Inl None \<Rightarrow> Inl (QueueConnectionError ''Redis consumer group initialization failed.''))"

definition publish :: "unit + redis_val \<Rightarrow> task_message \<Rightarrow> (queue_error + string) \<times> queue_call list" where
  "publish resp task =
     (res_bind (answered ''Redis stream publish failed.'' resp) (\<lambda>v. redis_text v ''message ID''),
      [Publish (message_to_json task)])"

definition ack :: "unit + int \<Rightarrow> string \<Rightarrow> (queue_error + int) \<times> queue_call list" where
  "ack resp message_id = (answered ''Redis stream acknowledgement failed.'' resp, [AckMessage message_id])"

definition publish_dead_letter :: "unit + redis_val \<Rightarrow> dead_letter \<Rightarrow> (queue_error + string) \<times> queue_call list" where
  "publish_dead_letter resp m =
     (res_bind (answered ''Redis dead-letter publish failed.'' resp) (\<lambda>v. redis_text v ''dead-letter message ID''),
      [PublishDeadLetter (dead_letter_to_json m)])"

definition move_to_dlq :: "string \<Rightarrow> string \<Rightarrow> unit + redis_val \<Rightarrow> unit + int \<Rightarrow> stream_message \<Rightarrow> string \<Rightarrow> string \<Rightarrow> int \<Rightarrow>
    (queue_error + string) \<times> queue_call list" where
  "move_to_dlq now stream_name xadd_resp ack_resp m failure_reason error_code delivery_count =
     (case dead_letter_from_stream_message now (sm_message_id m) (sm_task m) stream_name failure_reason error_code delivery_count of
        Inl err \<Rightarrow> (Inl err, [])
      | Inr letter \<Rightarrow>
          (case publish_dead_letter xadd_resp letter of
             (Inl err, calls) \<Rightarrow> (Inl err, calls)
           | (Inr dlq_id, calls) \<Rightarrow>
               (case ack ack_resp (sm_message_id m) of
                  (Inl err, acks) \<Rightarrow> (Inl err, calls @ acks)
                | (Inr _, acks) \<Rightarrow> (Inr dlq_id, calls @ acks))))"


section \<open>Claimed messages without a count\<close>

text \<open>
  The queue asks for the pending entries of the consumer with the number of claimed messages as the limit. Redis answers with the first entries in the
  order of their ids. When the consumer has an older entry that was not claimed now, the last claimed message is not among them.
\<close>

definition pending_entry :: "string \<times> int \<Rightarrow> redis_val" where
  "pending_entry e = RMap [(RStr ''message_id'', RStr (fst e)), (RStr ''times_delivered'', RInt (snd e))]"

lemma pending_numbers_dom:
  "pending_numbers ''times_delivered'' (map pending_entry es) k \<noteq> None \<Longrightarrow> k \<in> fst ` set es"
proof (induction es)
  case (Cons e es)
  have "k = fst e \<or> pending_numbers ''times_delivered'' (map pending_entry es) k \<noteq> None"
    using Cons.prems by (cases "fst e = []") (auto simp: pending_entry_def [of e] rget_def redis_int_def redis_text_def message_error_def split: option.splits if_splits)
  then show ?case using Cons.IH by auto
qed simp

theorem last_claimed_without_count:
  assumes "distinct (map fst (older @ claimed))" "older \<noteq> []" "claimed \<noteq> []"
    and "map sm_message_id messages = map fst claimed"
    and "\<And>n. xpending_range n = Inr (RList (map pending_entry (take n (older @ claimed))))"
  shows "delivery_counts (length messages) xpending_range (sm_message_id (last messages)) = None"
proof (rule ccontr)
  assume a: "delivery_counts (length messages) xpending_range (sm_message_id (last messages)) \<noteq> None"
  obtain cs c where claimed: "claimed = cs @ [c]" using assms(3) by (cases claimed rule: rev_cases) auto
  have len: "length messages = Suc (length cs)" using assms(4) claimed by (metis length_append_singleton length_map)
  have lst: "sm_message_id (last messages) = fst c"
    using assms(4) claimed len by (cases messages rule: rev_cases) auto
  let ?first = "take (Suc (length cs)) (older @ claimed)"
  have "fst c \<in> fst ` set ?first"
    using a pending_numbers_dom [of ?first] assms(5) len lst
    by (simp add: delivery_counts_def pending_range_def del: take_append map_append)
  moreover have "set ?first \<subseteq> set older \<union> set cs"
    using assms(2) claimed by (cases older) (auto dest: in_set_takeD)
  ultimately have "fst c \<in> fst ` (set older \<union> set cs)" by auto
  then show False using assms(1) claimed by auto
qed

section \<open>Properties of retries\<close>


definition default_retry_policy :: retry_policy where
  "default_retry_policy = \<lparr>rp_max_delivery_attempts = 3, rp_base_delay_ms = 1000, rp_max_delay_ms = 30000\<rparr>"


end
