(* ===== verification/Task_Submission.thy ===== *)
theory Task_Submission
  imports Idempotency Py_Time Stream_Queue
begin

text \<open>
  The submission of tasks (\<open>services/dispatch_task_api_service.py\<close>). A submission runs several sessions and a call to the queue, one after the other.
  \<open>others n\<close> is what other sessions commit before the \<open>n\<close>-th access of the submission to the tables; \<open>reply\<close> is the answer of Redis to the message.
  The random task id is made from \<open>uuid_hex\<close>, the digits of \<open>uuid4\<close>. The events for subscribers, whose errors are swallowed, and the assembly of the result
  page from the stored evidence are not modelled.
\<close>

section \<open>Requests and answers\<close>

record create_dispatch_task_request =
  cr_order_id :: int
  cr_anomaly_id :: "int option"
  cr_driver_id :: string
  cr_vehicle_id :: string
  cr_route_id :: string
  cr_anomaly_type :: string
  cr_anomaly_description :: string
  cr_idempotency_key :: string
  cr_vehicle_status :: string
  cr_assignee_employee_id :: "string option"
  cr_incident_node_id :: "string option"
  cr_affected_edge_id :: "string option"

record accepted_task =
  ac_task_id :: string
  ac_order_id :: int
  ac_status :: string
  ac_accepted :: bool
  ac_duplicate :: bool
  ac_message :: string

record task_status =
  ts_task_id :: string
  ts_order_id :: int
  ts_status :: string
  ts_started_at :: "int option"
  ts_completed_at :: "int option"
  ts_ready :: bool
  ts_requires_manual_review :: bool

text \<open>The exceptions of the service, and those of the ledger and of the queue that it lets through.\<close>

datatype submission_error =
    TaskNotFoundError
  | SubmissionConflictError
  | SubmissionQueueError
  | AssigneeNotFoundError
  | TaskAccessForbiddenError
  | LedgerFailure ledger_error
  | QueueFailure queue_error

section \<open>The service\<close>

definition active_delivery_employee :: "ledger_db \<Rightarrow> string \<Rightarrow> bool" where
  "active_delivery_employee db employee_id \<longleftrightarrow>
     (case first_match (\<lambda>a. ea_employee_id a = employee_id) (lg_accounts db) of
        None \<Rightarrow> False | Some account \<Rightarrow> ea_is_active account \<and> ea_role account = ''EMPLOYEE'')"

definition accepted_answer :: "task_row \<Rightarrow> bool \<Rightarrow> accepted_task" where
  "accepted_answer t duplicate =
     \<lparr>ac_task_id = dt_task_id t, ac_order_id = dt_order_id t, ac_status = dt_status t, ac_accepted = True, ac_duplicate = duplicate,
      ac_message = ''Dispatch task accepted for asynchronous processing.''\<rparr>"

definition submission_payload :: "create_dispatch_task_request \<Rightarrow> task_payload" where
  "submission_payload q =
     \<lparr>tp_driver_id = cr_driver_id q, tp_vehicle_id = cr_vehicle_id q, tp_route_id = cr_route_id q, tp_anomaly_type = cr_anomaly_type q,
      tp_anomaly_description = cr_anomaly_description q, tp_vehicle_status = Some (cr_vehicle_status q),
      tp_incident_node_id = Some (cr_incident_node_id q), tp_affected_edge_id = Some (cr_affected_edge_id q)\<rparr>"

definition submission_message :: "string \<Rightarrow> int \<Rightarrow> string \<Rightarrow> int \<Rightarrow> string option \<Rightarrow> create_dispatch_task_request \<Rightarrow> task_message" where
  "submission_message task_id order_id key now correlation_id q =
     \<lparr>tm_schema_version = ''1'', tm_task_id = task_id, tm_order_id = order_id, tm_anomaly_id = cr_anomaly_id q, tm_idempotency_key = key,
      tm_created_at = isoformat now, tm_payload = submission_payload q, tm_correlation_id = correlation_id\<rparr>"

definition set_submission_pending :: "ledger_db \<Rightarrow> ledger_db \<Rightarrow> string \<Rightarrow> (submission_error + unit) \<times> ledger_db" where
  "set_submission_pending r w task_id =
     (if task_by_id r task_id = None then (Inl TaskNotFoundError, w)
      else (Inr (), update_task w task_id (\<lambda>t. t\<lparr>dt_status := ''PENDING'', dt_completed_at := None\<rparr>)))"

type_synonym submission_result = "(submission_error + accepted_task) \<times> ledger_db \<times> queue_call list"

definition answer_task :: "ledger_db \<Rightarrow> string \<Rightarrow> bool \<Rightarrow> queue_call list \<Rightarrow> submission_result" where
  "answer_task db task_id duplicate calls =
     (case task_by_id db task_id of
        None \<Rightarrow> (Inl TaskNotFoundError, db, calls) | Some t \<Rightarrow> (Inr (accepted_answer t duplicate), db, calls))"

definition publish_existing :: "(nat \<Rightarrow> ledger_db \<Rightarrow> ledger_db) \<Rightarrow> int \<Rightarrow> string option \<Rightarrow> unit + redis_val \<Rightarrow> task_row \<Rightarrow>
    create_dispatch_task_request \<Rightarrow> ledger_db \<Rightarrow> submission_result" where
  "publish_existing others now correlation_id reply t q db =
     (case publish reply (submission_message (dt_task_id t) (dt_order_id t) (dt_idempotency_key t) now correlation_id q) of
        (Inl (QueueConnectionError _), calls) \<Rightarrow> (Inl SubmissionQueueError, db, calls)
      | (Inl e, calls) \<Rightarrow> (Inl (QueueFailure e), db, calls)
      | (Inr _, calls) \<Rightarrow>
          (let r = others 2 db; w = others 3 r
           in case set_submission_pending r w (dt_task_id t) of
                (Inl e, w1) \<Rightarrow> (Inl e, w1, calls)
              | (Inr _, w1) \<Rightarrow> answer_task (others 4 w1) (dt_task_id t) True calls))"

definition submit_new :: "(nat \<Rightarrow> ledger_db \<Rightarrow> ledger_db) \<Rightarrow> string \<Rightarrow> int \<Rightarrow> string option \<Rightarrow> unit + redis_val \<Rightarrow>
    create_dispatch_task_request \<Rightarrow> string \<Rightarrow> ledger_db \<Rightarrow> submission_result" where
  "submit_new others uuid_hex now correlation_id reply q assignee db =
     (let task_id = ''TASK-'' @ take 31 uuid_hex; r = others 2 db; w = others 3 r
      in case begin_task r w task_id (cr_order_id q) (cr_idempotency_key q) (cr_anomaly_id q) (Some assignee) of
           (Inl e, w1) \<Rightarrow> (Inl (LedgerFailure e), w1, [])
         | (Inr d, w1) \<Rightarrow>
             if \<not> id_should_execute d then answer_task (others 4 w1) (id_task_id d) True []
             else case publish reply (submission_message task_id (cr_order_id q) (cr_idempotency_key q) now correlation_id q) of
                    (Inl (QueueConnectionError _), calls) \<Rightarrow>
                      (let r2 = others 4 w1; w2 = others 5 r2
                       in case mark_task_terminal r2 w2 task_id ''SUBMISSION_FAILED'' now of
                            (Inl e, w3) \<Rightarrow> (Inl (LedgerFailure e), w3, calls)
                          | (Inr _, w3) \<Rightarrow> (Inl SubmissionQueueError, w3, calls))
                  | (Inl e, calls) \<Rightarrow> (Inl (QueueFailure e), w1, calls)
                  | (Inr _, calls) \<Rightarrow> answer_task (others 4 w1) task_id False calls)"

definition submit :: "(nat \<Rightarrow> ledger_db \<Rightarrow> ledger_db) \<Rightarrow> string \<Rightarrow> int \<Rightarrow> string option \<Rightarrow> unit + redis_val \<Rightarrow>
    create_dispatch_task_request \<Rightarrow> string \<Rightarrow> ledger_db \<Rightarrow> submission_result" where
  "submit others uuid_hex now correlation_id reply q assignee db =
     (let db0 = others 0 db; db1 = others 1 db0
      in if cr_assignee_employee_id q \<noteq> None \<and> \<not> active_delivery_employee db0 assignee then (Inl AssigneeNotFoundError, db0, [])
         else case task_by_key db1 (cr_idempotency_key q) of
                None \<Rightarrow> submit_new others uuid_hex now correlation_id reply q assignee db1
              | Some t \<Rightarrow>
                  if dt_order_id t \<noteq> cr_order_id q \<or> dt_assignee_subject_id t \<noteq> Some assignee then (Inl SubmissionConflictError, db1, [])
                  else if dt_status t = ''SUBMISSION_FAILED'' then publish_existing others now correlation_id reply t q db1
                  else (Inr (accepted_answer t True), db1, []))"

definition api_status :: "string \<Rightarrow> string" where
  "api_status status = (if status = ''APPROVED'' then ''COMPLETED'' else status)"

definition task_status_of :: "ledger_db \<Rightarrow> string \<Rightarrow> submission_error + task_status" where
  "task_status_of db task_id =
     (case task_by_id db task_id of
        None \<Rightarrow> Inl TaskNotFoundError
      | Some t \<Rightarrow>
          (let status = api_status (dt_status t)
           in Inr \<lparr>ts_task_id = dt_task_id t, ts_order_id = dt_order_id t, ts_status = status, ts_started_at = dt_started_at t,
                   ts_completed_at = dt_completed_at t, ts_ready = (status \<in> {''COMPLETED'', ''REVIEW_REQUIRED''}),
                   ts_requires_manual_review = (status = ''REVIEW_REQUIRED'')\<rparr>))"

definition require_read_access :: "ledger_db \<Rightarrow> string \<Rightarrow> string \<Rightarrow> bool \<Rightarrow> submission_error + unit" where
  "require_read_access db task_id subject_id can_read_all =
     (case task_by_id db task_id of
        None \<Rightarrow> Inl TaskNotFoundError
      | Some t \<Rightarrow> if \<not> can_read_all \<and> dt_assignee_subject_id t \<noteq> Some subject_id then Inl TaskAccessForbiddenError else Inr ())"

section \<open>One task per key\<close>

text \<open>What other sessions do keeps the ledger well-formed and its tasks in place.\<close>

definition keeps_ledger :: "(nat \<Rightarrow> ledger_db \<Rightarrow> ledger_db) \<Rightarrow> bool" where
  "keeps_ledger others \<longleftrightarrow> (\<forall>n db. ledger_ok db \<longrightarrow> ledger_ok (others n db) \<and> ledger_later db (others n db))"

lemma keeps_ledgerD: "keeps_ledger others \<Longrightarrow> ledger_ok db \<Longrightarrow> ledger_ok (others n db) \<and> ledger_later db (others n db)"
  by (simp add: keeps_ledger_def)

lemma existing_task_id: "existing_task db i key = Inr (Some t) \<Longrightarrow> t \<in> set (lg_tasks db) \<and> dt_task_id t = i"
  by (auto simp: existing_task_def Let_def task_by_id_def task_by_key_def split: if_splits option.splits dest: first_match_SomeD)

lemma later_tasks: "ledger_later r w \<Longrightarrow> task_by_id w i = None \<Longrightarrow> task_by_id r i = None"
  unfolding task_by_None image_iff by (metis ledger_later_task same_task_def)

text \<open>A task id that is new to the ledger either starts a task or is refused.\<close>

lemma begin_fresh:
  assumes "ledger_later r w" "task_by_id w i = None" "begin_task r w i order key a s = (Inr d, w')"
  shows "w' = add_task w (new_task w i order key a s) \<and> task_by_key w key = None \<and> id_should_execute d"
proof -
  have "existing_task db i key \<noteq> Inr (Some t)" if "task_by_id db i = None" for db t
    using that existing_task_id unfolding task_by_None by blast
  then show ?thesis using assms later_tasks [OF assms(1,2)] unfolding begin_task_def
    by (auto simp: task_constraints_ok_def split: sum.splits option.splits if_splits)
qed

text \<open>The task of an answer: the row of the key, with the order and the assignee of the request.\<close>

definition answers_request :: "create_dispatch_task_request \<Rightarrow> string \<Rightarrow> accepted_task \<Rightarrow> ledger_db \<Rightarrow> bool" where
  "answers_request q assignee a db \<longleftrightarrow>
     (\<exists>t\<in>set (lg_tasks db). dt_task_id t = ac_task_id a \<and> dt_idempotency_key t = cr_idempotency_key q \<and>
        dt_order_id t = cr_order_id q \<and> dt_assignee_subject_id t = Some assignee)"

lemma answers_request_later: "answers_request q s a db \<Longrightarrow> ledger_later db db' \<Longrightarrow> answers_request q s a db'"
  unfolding answers_request_def ledger_later_def same_task_def by metis

lemma answer_task_cases:
  "answer_task db i dup calls = (Inr a, db', calls') \<longleftrightarrow>
     db' = db \<and> calls' = calls \<and> (\<exists>t. task_by_id db i = Some t \<and> a = accepted_answer t dup)"
  by (auto simp: answer_task_def split: option.splits)

lemma answer_task_request:
  assumes "answer_task db i dup calls = (Inr a, db', calls')" "t \<in> set (lg_tasks db)" "ledger_ok db" "dt_task_id t = i"
    "dt_idempotency_key t = cr_idempotency_key q" "dt_order_id t = cr_order_id q" "dt_assignee_subject_id t = Some assignee"
  shows "answers_request q assignee a db'"
  using assms task_by_id_mem [OF assms(3,2)] unfolding answer_task_cases answers_request_def by (auto simp: accepted_answer_def)

lemma set_submission_pending_keeps:
  assumes "ledger_ok w"
  shows "ledger_ok (snd (set_submission_pending r w i)) \<and> ledger_later w (snd (set_submission_pending r w i))"
  using assms update_task_keeps [OF assms] by (simp add: set_submission_pending_def ledger_later_refl same_task_def)

lemma publish_existing_answer:
  assumes ok: "ledger_ok db" "keeps_ledger others" and t: "t \<in> set (lg_tasks db)" "dt_idempotency_key t = cr_idempotency_key q"
    "dt_order_id t = cr_order_id q" "dt_assignee_subject_id t = Some assignee"
    and ans: "publish_existing others now c reply t q db = (Inr a, db', calls)"
  shows "ledger_ok db' \<and> answers_request q assignee a db'"
proof -
  let ?i = "dt_task_id t" and ?r = "others 2 db" and ?w = "others 3 (others 2 db)"
  let ?w1 = "snd (set_submission_pending ?r ?w ?i)"
  have end': "answer_task (others 4 ?w1) ?i True calls = (Inr a, db', calls)"
    using ans unfolding publish_existing_def Let_def
    by (auto simp: answer_task_cases split: sum.splits prod.splits queue_error.splits)
  have w: "ledger_ok ?w" "ledger_later db ?w" using keeps_ledgerD [OF ok(2)] ok(1) ledger_later_trans by blast+
  have w1: "ledger_ok (others 4 ?w1)" "ledger_later db (others 4 ?w1)"
    using set_submission_pending_keeps [OF w(1), of ?r ?i] w(2) keeps_ledgerD [OF ok(2)] ledger_later_trans by blast+
  from ledger_later_task [OF w1(2) t(1)] obtain u where u: "u \<in> set (lg_tasks (others 4 ?w1))" "same_task t u" by blast
  show ?thesis using answer_task_request [OF end' u(1) w1(1), of q assignee] u(2) t end' w1(1)
    by (auto simp: same_task_def answer_task_cases)
qed

lemma submit_new_answer:
  assumes ok: "ledger_ok db" "keeps_ledger others" and fresh: "task_by_id (others 3 (others 2 db)) (''TASK-'' @ take 31 uuid_hex) = None"
    and ans: "submit_new others uuid_hex now c reply q assignee db = (Inr a, db', calls)"
  shows "ledger_ok db' \<and> answers_request q assignee a db'"
proof -
  let ?i = "''TASK-'' @ take 31 uuid_hex" and ?r = "others 2 db" and ?w = "others 3 (others 2 db)"
  let ?t = "new_task ?w ?i (cr_order_id q) (cr_idempotency_key q) (cr_anomaly_id q) (Some assignee)"
  have r: "ledger_ok ?w" "ledger_later ?r ?w" using keeps_ledgerD [OF ok(2)] ok(1) by blast+
  obtain d w1 where b: "begin_task ?r ?w ?i (cr_order_id q) (cr_idempotency_key q) (cr_anomaly_id q) (Some assignee) = (Inr d, w1)"
    using ans unfolding submit_new_def Let_def by (auto split: sum.splits prod.splits)
  note new = begin_fresh [OF r(2) fresh b]
  have w1: "ledger_ok w1" using begin_task_keeps [OF r(1)] b by (metis snd_conv)
  have end': "answer_task (others 4 w1) ?i False calls = (Inr a, db', calls)"
    using ans new unfolding submit_new_def Let_def b
    by (auto simp: answer_task_cases split: sum.splits prod.splits queue_error.splits if_splits)
  have "?t \<in> set (lg_tasks w1)" using new by (simp add: add_task_def)
  moreover have w4: "ledger_ok (others 4 w1)" "ledger_later w1 (others 4 w1)" using keeps_ledgerD [OF ok(2) w1] by blast+
  ultimately obtain u where u: "u \<in> set (lg_tasks (others 4 w1))" "same_task ?t u" using ledger_later_task by blast
  show ?thesis using answer_task_request [OF end' u(1) w4(1), of q assignee] u(2) end' w4(1)
    by (auto simp: same_task_def new_task_def answer_task_cases)
qed

lemma submit_answer:
  assumes ok: "ledger_ok db" "keeps_ledger others"
    and fresh: "task_by_id (others 3 (others 2 (others 1 (others 0 db)))) (''TASK-'' @ take 31 uuid_hex) = None"
    and ans: "submit others uuid_hex now c reply q assignee db = (Inr a, db', calls)"
  shows "ledger_ok db' \<and> answers_request q assignee a db'"
proof -
  let ?db = "others 1 (others 0 db)"
  have ok1: "ledger_ok ?db" using keeps_ledgerD [OF ok(2)] ok(1) by blast
  show ?thesis
  proof (cases "task_by_key ?db (cr_idempotency_key q)")
    case None
    then have "submit_new others uuid_hex now c reply q assignee ?db = (Inr a, db', calls)"
      using ans by (auto simp: submit_def Let_def split: if_splits)
    from submit_new_answer [OF ok1 ok(2) fresh this] show ?thesis .
  next
    case (Some t)
    then have t: "t \<in> set (lg_tasks ?db)" "dt_idempotency_key t = cr_idempotency_key q"
      by (auto simp: task_by_key_def dest: first_match_SomeD)
    then have "dt_order_id t = cr_order_id q" "dt_assignee_subject_id t = Some assignee"
      "publish_existing others now c reply t q ?db = (Inr a, db', calls) \<or> a = accepted_answer t True \<and> db' = ?db"
      using ans Some by (auto simp: submit_def Let_def split: if_splits)
    then show ?thesis using publish_existing_answer [OF ok1 ok(2) t] t ok1
      by (auto simp: answers_request_def accepted_answer_def)
  qed
qed

text \<open>
  C26. Submitting a task is idempotent. Whatever other sessions do meanwhile, an accepted submission answers with the one task that has the
  key of the request, and this task has the order and the assignee of the request. Submitting the same request again at any later time, while the task
  has not failed to be queued and an assignee that the request names is still an active delivery employee, answers with the same task as a duplicate, publishes no message and changes nothing. The random part of the task id is assumed to be new to
  the ledger.
\<close>

theorem submission_idempotent:
  assumes "ledger_ok db" "keeps_ledger others"
    and "task_by_id (others 3 (others 2 (others 1 (others 0 db)))) (''TASK-'' @ take 31 uuid_hex) = None"
    and "submit others uuid_hex now correlation_id reply q assignee db = (Inr a, db', calls)"
    and "ledger_ok later_db" "ledger_later db' later_db"
  shows "\<exists>t. task_by_key later_db (cr_idempotency_key q) = Some t \<and> dt_task_id t = ac_task_id a \<and>
    dt_order_id t = cr_order_id q \<and> dt_assignee_subject_id t = Some assignee \<and>
    (dt_status t \<noteq> ''SUBMISSION_FAILED'' \<and> (cr_assignee_employee_id q = None \<or> active_delivery_employee later_db assignee) \<longrightarrow>
       submit (\<lambda>_ x. x) uuid_hex' now' correlation_id' reply' q assignee later_db = (Inr (accepted_answer t True), later_db, []))"
proof -
  have "answers_request q assignee a later_db" using submit_answer [OF assms(1-4)] answers_request_later assms(6) by blast
  then obtain t where t: "t \<in> set (lg_tasks later_db)" "dt_task_id t = ac_task_id a" "dt_idempotency_key t = cr_idempotency_key q"
    "dt_order_id t = cr_order_id q" "dt_assignee_subject_id t = Some assignee" unfolding answers_request_def by blast
  moreover have "task_by_key later_db (cr_idempotency_key q) = Some t" using task_by_key_mem [OF assms(5) t(1)] t(3) by simp
  ultimately show ?thesis by (auto simp: submit_def Let_def)
qed

section \<open>Two races\<close>

text \<open>
  Two submissions with one key that both find the key unused: the one that comes second fails with the conflict of the ledger. It is neither answered as a
  duplicate nor reported as \<open>SubmissionConflictError\<close>, the only conflict that the callers of \<open>submit\<close> handle.
\<close>

theorem racing_submission_fails:
  assumes "cr_assignee_employee_id q = None \<or> active_delivery_employee (others 0 db) assignee"
    and "task_by_key (others 1 (others 0 db)) (cr_idempotency_key q) = None"
    and "task_by_key (others 2 (others 1 (others 0 db))) (cr_idempotency_key q) = Some t" "dt_task_id t \<noteq> ''TASK-'' @ take 31 uuid_hex"
  shows "fst (submit others uuid_hex now c reply q assignee db) = Inl (LedgerFailure IdempotencyConflictError)"
  using assms by (auto simp: submit_def submit_new_def begin_task_def existing_task_def Let_def)

text \<open>
  A task that could not be queued is submitted again. The message is published before the status is set back to \<open>PENDING\<close>: when a worker has finished the
  task in between, its result is overwritten and the task waits for ever.
\<close>

theorem resubmission_overwrites_result:
  assumes "cr_assignee_employee_id q = None \<or> active_delivery_employee (others 0 db) assignee"
    and "task_by_key (others 1 (others 0 db)) (cr_idempotency_key q) = Some t" "dt_status t = ''SUBMISSION_FAILED''"
    and "dt_order_id t = cr_order_id q" "dt_assignee_subject_id t = Some assignee"
    and "others 3 (others 2 (others 1 (others 0 db))) = w" "others 2 (others 1 (others 0 db)) = r" "\<And>x. others 4 x = x"
    and "task_by_id r (dt_task_id t) \<noteq> None" "task_by_id w (dt_task_id t) = Some u" "dt_status u = ''APPROVED''"
    and "reply = Inr (RStr s)" "s \<noteq> []"
  shows "\<exists>a db' v. submit others uuid_hex now c reply q assignee db = (Inr a, db', [Publish (message_to_json
      (submission_message (dt_task_id t) (dt_order_id t) (dt_idempotency_key t) now c q))]) \<and>
    task_by_id db' (dt_task_id t) = Some v \<and> dt_status v = ''PENDING'' \<and> dt_completed_at v = None"
  using assms by (auto simp: submit_def publish_existing_def publish_def Let_def answered_def redis_text_def set_submission_pending_def
      answer_task_def task_by_id_update)

section \<open>An example\<close>

definition sample_ledger :: ledger_db where
  "sample_ledger =
     \<lparr>lg_orders = [\<lparr>or_id = 7, or_order_no = ''ORD-7'', or_status = ''IN_TRANSIT'', or_driver_id = None, or_vehicle_id = None, or_route_id = None,
        or_origin = ''A'', or_destination = ''B'', or_cargo_weight_kg = None, or_cargo_type = None, or_origin_station_id = None,
        or_destination_station_id = None\<rparr>],
      lg_anomalies = [], lg_accounts = [], lg_vehicles = [], lg_drivers = [], lg_tasks = [], lg_next_task_id = 1,
      lg_threads = \<lparr>td_tasks = [], td_threads = [], td_events = []\<rparr>, lg_dispatches = [], lg_audits = [], lg_next_audit_id = 1,
      lg_publications = [], lg_next_publication_id = 1\<rparr>"

definition task_request :: create_dispatch_task_request where
  "task_request =
     \<lparr>cr_order_id = 7, cr_anomaly_id = None, cr_driver_id = ''D-1'', cr_vehicle_id = ''V-1'', cr_route_id = ''R-1'',
      cr_anomaly_type = ''ROAD_BLOCKED'', cr_anomaly_description = ''bridge closed'', cr_idempotency_key = ''key-7'', cr_vehicle_status = ''NORMAL'',
      cr_assignee_employee_id = None, cr_incident_node_id = None, cr_affected_edge_id = Some ''E-1''\<rparr>"

definition sample_submission :: submission_result where
  "sample_submission = submit (\<lambda>_ x. x) ''0af3'' 0 None (Inr (RStr ''1-0'')) task_request ''E1'' sample_ledger"

lemma sample_ledger_ok: "ledger_ok sample_ledger"
  by code_simp

lemma sample_submission_task:
  "\<exists>t. fst sample_submission = Inr (accepted_answer t False) \<and> lg_tasks (fst (snd sample_submission)) = [t] \<and> dt_status t = ''PENDING''"
  by (rule exI [of _ "new_task sample_ledger ''TASK-0af3'' 7 ''key-7'' None (Some ''E1'')"])
    (simp add: sample_submission_def sample_ledger_def task_request_def submit_def submit_new_def begin_task_def existing_task_def task_by_id_def
      task_by_key_def task_constraints_ok_def thread_id_for_persisted_task_def get_by_thread_id_def thread_by_task_id_def event_by_key_def
      add_task_def new_task_def publish_def answered_def redis_text_def answer_task_def Let_def)

theorem submission_idempotent_witness:
  "\<exists>a t. fst sample_submission = Inr a \<and> task_by_key (fst (snd sample_submission)) ''key-7'' = Some t \<and> dt_task_id t = ac_task_id a \<and>
     submit (\<lambda>_ x. x) ''77'' 5 None (Inl ()) task_request ''E1'' (fst (snd sample_submission)) =
       (Inr (accepted_answer t True), fst (snd sample_submission), [])"
proof -
  let ?db = "fst (snd sample_submission)"
  obtain t0 where t0: "fst sample_submission = Inr (accepted_answer t0 False)" "lg_tasks ?db = [t0]" "dt_status t0 = ''PENDING''"
    using sample_submission_task by blast
  have eq: "submit (\<lambda>_ x. x) ''0af3'' 0 None (Inr (RStr ''1-0'')) task_request ''E1'' sample_ledger =
     (Inr (accepted_answer t0 False), ?db, snd (snd sample_submission))"
    unfolding t0(1) [symmetric] by (simp flip: sample_submission_def)
  have fresh: "task_by_id sample_ledger (''TASK-'' @ take 31 ''0af3'') = None" by code_simp
  have keeps: "keeps_ledger (\<lambda>_ x. x)" by (simp add: keeps_ledger_def ledger_later_refl)
  have ok: "ledger_ok ?db" using submit_answer [OF sample_ledger_ok keeps fresh eq] by blast
  have q: "cr_assignee_employee_id task_request = None" "cr_idempotency_key task_request = ''key-7''" by (simp_all add: task_request_def)
  from submission_idempotent [OF sample_ledger_ok keeps fresh eq ok ledger_later_refl,
      where uuid_hex' = "''77''" and now' = 5 and correlation_id' = None and reply' = "Inl ()"]
  obtain t where t: "task_by_key ?db ''key-7'' = Some t" "dt_task_id t = ac_task_id (accepted_answer t0 False)"
    "dt_status t \<noteq> ''SUBMISSION_FAILED'' \<longrightarrow>
      submit (\<lambda>_ x. x) ''77'' 5 None (Inl ()) task_request ''E1'' ?db = (Inr (accepted_answer t True), ?db, [])" unfolding q by blast
  have "t = t0" using t(1) t0(2) by (simp add: task_by_key_def split: if_splits)
  then show ?thesis using t t0(1,3) by auto
qed

end

