(* ===== verification/Task_Ledger.thy ===== *)
theory Task_Ledger
  imports Reviews Task_Submission
begin

text \<open>
  The life of the tasks: the methods of \<open>Idempotency\<close>, \<open>Task_Submission\<close> and \<open>Reviews\<close> that write to the tables, interleaved in any way, each between the moment at
  which it read and the moment at which it writes. The theory shows what all of them keep, and that a review is decided once.
\<close>

section \<open>Sessions\<close>

text \<open>\<open>GraphRows\<close> is the commit of a dispatch or an audit record by a run of the graph; the keys of the dispatches are unique.\<close>

datatype ledger_op =
    BeginTask string int string "int option" "string option"
  | MarkProcessing string int
  | MarkTaskTerminal string string int
  | SetSubmissionPending string
  | MarkThreadTerminal string string string "string option" "string option" int
  | DecideReview string review_decision "string option" string string clock_time
  | PublishTask string string string clock_time
  | GraphDispatch dispatch_row
  | GraphAudit int int string string string

definition dispatches_ok :: "ledger_db \<Rightarrow> bool" where
  "dispatches_ok db \<longleftrightarrow>
     distinct (map dp_id (lg_dispatches db)) \<and>
     (\<forall>d\<in>set (lg_dispatches db). \<forall>e\<in>set (lg_dispatches db). dp_task_id d = dp_task_id e \<and> dp_task_id d \<noteq> None \<longrightarrow> d = e)"

definition add_dispatch :: "ledger_db \<Rightarrow> dispatch_row \<Rightarrow> ledger_db" where
  "add_dispatch w d =
     (if list_ex (\<lambda>e. dp_id e = dp_id d \<or> dp_task_id e = dp_task_id d \<and> dp_task_id d \<noteq> None) (lg_dispatches w) then w
      else w\<lparr>lg_dispatches := lg_dispatches w @ [d]\<rparr>)"

fun exec_ledger :: "ledger_op \<Rightarrow> ledger_db \<Rightarrow> ledger_db \<Rightarrow> ledger_db" where
  "exec_ledger (BeginTask i order key a s) r w = snd (begin_task r w i order key a s)"
| "exec_ledger (MarkProcessing i now) r w = snd (mark_processing r w i now)"
| "exec_ledger (MarkTaskTerminal i status now) r w = snd (mark_task_terminal r w i status now)"
| "exec_ledger (SetSubmissionPending i) r w = snd (set_submission_pending r w i)"
| "exec_ledger (MarkThreadTerminal i key c n err now) r w =
     w\<lparr>lg_threads := snd (mark_terminal (lg_threads r) (lg_threads w) i key c n err now)\<rparr>"
| "exec_ledger (DecideReview i dec why sub name clock) r w = snd (decide r w i dec why sub name clock)"
| "exec_ledger (PublishTask i sub name clock) r w = snd (publish_dispatch r w i sub name clock)"
| "exec_ledger (GraphDispatch d) r w = add_dispatch w d"
| "exec_ledger (GraphAudit t d res why ev) r w = add_audit w t d res why ev"

definition tables_ok :: "ledger_db \<Rightarrow> bool" where
  "tables_ok db \<longleftrightarrow> ledger_ok db \<and> dispatches_ok db \<and> publications_ok db"

section \<open>What every session keeps\<close>

lemma dispatches_ok_same: "lg_dispatches db' = lg_dispatches db \<Longrightarrow> dispatches_ok db' \<longleftrightarrow> dispatches_ok db"
  by (simp add: dispatches_ok_def)

lemma begin_task_rows:
  "lg_dispatches (snd (begin_task r w i order key a s)) = lg_dispatches w"
  "lg_publications (snd (begin_task r w i order key a s)) = lg_publications w"
  by (auto simp: begin_task_def add_task_def split: sum.split option.split)

lemma set_status_rows:
  "lg_dispatches (snd (set_status r w i s st cm now)) = lg_dispatches w" "lg_publications (snd (set_status r w i s st cm now)) = lg_publications w"
  by (auto simp: set_status_def update_task_def)

lemma set_submission_pending_rows:
  "lg_dispatches (snd (set_submission_pending r w i)) = lg_dispatches w" "lg_publications (snd (set_submission_pending r w i)) = lg_publications w"
  by (auto simp: set_submission_pending_def update_task_def)

lemma publish_dispatch_dispatches: "lg_dispatches (snd (publish_dispatch r w i sub name clock)) = lg_dispatches w"
proof (cases "publish_dispatch r w i sub name clock")
  case (Pair res w')
  then show ?thesis using publish_dispatch_cases [OF Pair] insert_publication_cases by fastforce
qed

lemma flush_dispatch_ok:
  assumes "flush_dispatch w d s = Some (v, w')" "dispatches_ok w" shows "dispatches_ok w'"
proof (cases "dp_status d = s")
  case True
  then show ?thesis using assms by (simp add: flush_dispatch_def)
next
  case False
  let ?g = "\<lambda>e. if dp_id e = dp_id d \<and> dp_version e = dp_version d then e\<lparr>dp_status := s, dp_version := dp_version d + 1\<rparr> else e"
  have w': "lg_dispatches w' = map ?g (lg_dispatches w)" using assms(1) False by (auto simp: flush_dispatch_def split: if_splits)
  have g: "dp_id (?g e) = dp_id e" "dp_task_id (?g e) = dp_task_id e" for e by simp_all
  have "map dp_id (map ?g (lg_dispatches w)) = map dp_id (lg_dispatches w)" unfolding map_map comp_def g by (rule refl)
  then have "distinct (map dp_id (lg_dispatches w'))" using assms(2) unfolding w' dispatches_ok_def by argo
  moreover have "\<forall>x\<in>set (lg_dispatches w'). \<forall>y\<in>set (lg_dispatches w'). dp_task_id x = dp_task_id y \<and> dp_task_id x \<noteq> None \<longrightarrow> x = y"
    using assms(2) unfolding w' set_map dispatches_ok_def ball_simps g by metis
  ultimately show ?thesis unfolding dispatches_ok_def by blast
qed

lemma decide_dispatches_ok:
  assumes "dispatches_ok w" shows "dispatches_ok (snd (decide r w i dec why sub name clock))"
proof (cases "decide r w i dec why sub name clock")
  case (Pair res w')
  have u: "dispatches_ok (update_task w i f)" for f using assms dispatches_ok_same [of "update_task w i f" w] by (simp add: update_task_def)
  have a: "dispatches_ok (add_audit x t d res why ev) = dispatches_ok x" for x t d res why ev by (simp add: dispatches_ok_def add_audit_def)
  show ?thesis using decide_cases [OF Pair] assms flush_dispatch_ok [OF _ u] unfolding Pair snd_conv by (auto simp: a)
qed

lemma add_dispatch_keeps:
  assumes "tables_ok w" shows "tables_ok (add_dispatch w d) \<and> ledger_later w (add_dispatch w d)"
proof (cases "add_dispatch w d = w")
  case True
  then show ?thesis using assms ledger_later_refl by simp
next
  case False
  then have new: "\<forall>e\<in>set (lg_dispatches w). dp_id e \<noteq> dp_id d \<and> (dp_task_id e = dp_task_id d \<longrightarrow> dp_task_id d = None)"
    "add_dispatch w d = w\<lparr>lg_dispatches := lg_dispatches w @ [d]\<rparr>"
    unfolding add_dispatch_def by (auto simp: list_ex_iff split: if_splits)
  have l: "ledger_later w (add_dispatch w d)" unfolding new(2)
    by (auto simp: ledger_later_def thread_later_refl intro: same_task_mem dispatch_le_mem)
  moreover have "dispatches_ok (add_dispatch w d)" using assms new(1) unfolding new(2) tables_ok_def dispatches_ok_def by auto
  moreover have "ledger_ok (add_dispatch w d)" using assms unfolding new(2) tables_ok_def ledger_ok_def by simp
  moreover have "publications_ok (add_dispatch w d)"
    using assms publications_ok_later [OF _ l] unfolding new(2) tables_ok_def by simp
  ultimately show ?thesis unfolding tables_ok_def by blast
qed

text \<open>A write that leaves dispatches and publications alone.\<close>

lemma quiet_write:
  assumes "tables_ok w" "ledger_ok w' \<and> ledger_later w w'" "lg_dispatches w' = lg_dispatches w" "lg_publications w' = lg_publications w"
  shows "tables_ok w' \<and> ledger_later w w'"
  using assms publications_ok_later [of w w'] dispatches_ok_same [of w' w] unfolding tables_ok_def by blast

lemma exec_ledger_keeps:
  assumes ok: "tables_ok w" and later: "ledger_later r w"
  shows "tables_ok (exec_ledger op r w) \<and> ledger_later w (exec_ledger op r w)"
proof (cases op)
  case (MarkThreadTerminal i key c n err now)
  have "moves (lg_threads w) (snd (mark_terminal (lg_threads r) (lg_threads w) i key c n err now))"
    using ok later by (intro mark_terminal_moves) (simp_all add: tables_ok_def ledger_ok_def ledger_later_def)
  then have m: "thread_ok (lg_threads (exec_ledger op r w))" "thread_later (lg_threads w) (lg_threads (exec_ledger op r w))"
    by (simp_all add: MarkThreadTerminal moves_def)
  have "get_by_thread_id (lg_threads (exec_ledger op r w)) j \<noteq> None" if "get_by_thread_id (lg_threads w) j \<noteq> None" for j
    using that thread_laterD [OF m(2)] by blast
  then have "ledger_ok (exec_ledger op r w)"
    using ok m(1) unfolding tables_ok_def ledger_ok_def by (simp add: MarkThreadTerminal)
  moreover have "ledger_later w (exec_ledger op r w)"
    using m(2) by (intro ledger_laterI) (simp_all add: MarkThreadTerminal same_task_mem)
  ultimately show ?thesis by (intro quiet_write [OF ok]) (simp_all add: MarkThreadTerminal)
next
  case (DecideReview i dec why sub name clock)
  obtain res w' where d: "decide r w i dec why sub name clock = (res, w')" by fastforce
  from decide_keeps [OF _ d] have k: "ledger_ok w' \<and> ledger_later w w' \<and> lg_publications w' = lg_publications w" using ok by (simp add: tables_ok_def)
  have "dispatches_ok w'" using decide_dispatches_ok [of w r i dec why sub name clock] ok by (simp add: d tables_ok_def)
  then show ?thesis using k ok publications_ok_later [of w w'] by (simp add: DecideReview d tables_ok_def)
next
  case (PublishTask i sub name clock)
  obtain res w' where p: "publish_dispatch r w i sub name clock = (res, w')" by fastforce
  have "ledger_ok w' \<and> publications_ok w' \<and> ledger_later w w'" using publish_dispatch_keeps [OF _ _ later p] ok by (simp add: tables_ok_def)
  moreover have "dispatches_ok w'" using publish_dispatch_dispatches [of r w i sub name clock] ok dispatches_ok_same [of w' w] by (simp add: p tables_ok_def)
  ultimately show ?thesis by (simp add: PublishTask p tables_ok_def)
next
  case (GraphDispatch d)
  then show ?thesis using add_dispatch_keeps [OF ok] by simp
next
  case (GraphAudit t d res why ev)
  then show ?thesis using add_audit_keeps [of w t d res why ev] ok by (intro quiet_write) (auto simp: tables_ok_def add_audit_def)
next
  case (BeginTask i order key a s)
  then show ?thesis using begin_task_keeps [of w r i order key a s] begin_task_rows [of r w i order key a s] ok
    by (intro quiet_write [OF ok]) (simp_all add: tables_ok_def)
next
  case (MarkProcessing i now)
  then show ?thesis using set_status_keeps [of w] set_status_rows [of r w] ok
    by (intro quiet_write [OF ok]) (simp_all add: tables_ok_def mark_processing_def)
next
  case (MarkTaskTerminal i st now)
  then show ?thesis using set_status_keeps [of w] set_status_rows [of r w] ok
    by (intro quiet_write [OF ok]) (simp_all add: tables_ok_def mark_task_terminal_def)
next
  case (SetSubmissionPending i)
  then show ?thesis using set_submission_pending_keeps [of w] set_submission_pending_rows [of r w] ok
    by (intro quiet_write [OF ok]) (simp_all add: tables_ok_def)
qed

interpretation ledger: stale_reads "\<lambda>_ :: ledger_op. True" exec_ledger ledger_later tables_ok
proof
  show "tables_ok (exec_ledger op r db)" if "tables_ok db" "ledger_later r db" for op r db using exec_ledger_keeps [OF that] by blast
  show "ledger_later db (exec_ledger op r db)" if "tables_ok db" "ledger_later r db" for op r db using exec_ledger_keeps [OF that] by blast
qed (use ledger_later_refl ledger_later_trans in blast)+

abbreviation ledger_step :: "ledger_db \<times> (ledger_op \<times> ledger_db) list \<Rightarrow> ledger_db \<times> (ledger_op \<times> ledger_db) list \<Rightarrow> bool" where
  "ledger_step \<equiv> stale_step (\<lambda>_. True) exec_ledger"

text \<open>
  C25. Every task is created once, with its thread, and its identity never changes. In any history of overlapping sessions that starts from well-formed
  tables, task ids and idempotency keys are unique and every task has its runtime thread; a task of an earlier moment has the same row id, order, key and assignee
  at every later one; and \<open>begin\<close> reports a new task only if neither its id nor its key was in the ledger, and then adds exactly this task.
\<close>

theorem task_created_once:
  assumes "tables_ok db0" "ledger_step\<^sup>*\<^sup>* (db0, []) s" "ledger_step\<^sup>*\<^sup>* s s'"
  shows "distinct (map dt_task_id (lg_tasks (fst s'))) \<and> distinct (map dt_idempotency_key (lg_tasks (fst s'))) \<and>
    (\<forall>t\<in>set (lg_tasks (fst s')). get_by_thread_id (lg_threads (fst s')) (thread_id_for_persisted_task (dt_task_id t)) \<noteq> None) \<and>
    (\<forall>t\<in>set (lg_tasks (fst s)). \<exists>u\<in>set (lg_tasks (fst s')). same_task t u) \<and>
    (\<forall>r i order key a p d w'. begin_task r (fst s) i order key a p = (Inr d, w') \<and> id_state d = NEW \<longrightarrow>
       task_by_id (fst s) i = None \<and> task_by_key (fst s) key = None \<and>
       (\<exists>t. lg_tasks w' = lg_tasks (fst s) @ [t] \<and> dt_task_id t = i \<and> dt_idempotency_key t = key \<and> dt_order_id t = order \<and> dt_status t = ''PENDING''))"
proof -
  have inv: "ledger_ok (fst s')" "ledger_later (fst s) (fst s')" using ledger.later_between [OF assms(2,3,1)] by (simp_all add: tables_ok_def)
  moreover have "task_by_id w i = None \<and> task_by_key w key = None \<and> (\<exists>t. lg_tasks w' = lg_tasks w @ [t] \<and> dt_task_id t = i \<and>
      dt_idempotency_key t = key \<and> dt_order_id t = order \<and> dt_status t = ''PENDING'')"
    if "begin_task r w i order key a p = (Inr d, w')" "id_state d = NEW" for r w i order key a p d w'
    using begin_task_new [OF that] by (auto simp: task_constraints_ok_def add_task_def new_task_def)
  ultimately show ?thesis unfolding ledger_ok_def ledger_later_def by blast
qed

text \<open>
  C28. Only what an audit or a reviewer has approved is published. In any history of overlapping sessions, every publication carries the route of a dispatch of
  its task, an approval of this dispatch is on record, no task and no dispatch is published twice, and a publication is never changed or withdrawn.
\<close>

theorem publications_approved:
  assumes "tables_ok db0" "ledger_step\<^sup>*\<^sup>* (db0, []) s" "ledger_step\<^sup>*\<^sup>* s s'"
  shows "distinct (map pb_task_id (lg_publications (fst s'))) \<and> distinct (map pb_dispatch_id (lg_publications (fst s'))) \<and>
    (\<forall>p\<in>set (lg_publications (fst s')).
       (\<exists>d\<in>set (lg_dispatches (fst s')). dp_id d = pb_dispatch_id p \<and> dp_task_id d = Some (pb_task_id p) \<and> pb_route_id p = dispatch_route d) \<and>
       (\<exists>a\<in>set (lg_audits (fst s')). au_task_id a = pb_task_id p \<and> au_dispatch_id a = pb_dispatch_id p \<and> au_result a = ''APPROVED'')) \<and>
    prefix (lg_publications (fst s)) (lg_publications (fst s'))"
  using ledger.later_between [OF assms(2,3,1)] unfolding tables_ok_def publications_ok_def ledger_later_def by blast

section \<open>Reviews\<close>

text \<open>The dispatch that a session would decide on has not been decided.\<close>

definition undecided :: "ledger_db \<Rightarrow> string \<Rightarrow> bool" where
  "undecided db i \<longleftrightarrow>
     (case task_by_id db i of None \<Rightarrow> True
      | Some t \<Rightarrow> (case latest_dispatch db t of None \<Rightarrow> True | Some d \<Rightarrow> dp_status d \<notin> {''APPROVED'', ''REJECTED''}))"

lemma undecided_status: "undecided db i \<Longrightarrow> task_by_id db i = Some t \<Longrightarrow> latest_dispatch db t = Some d \<Longrightarrow> dp_status d \<noteq> review_status dec"
  by (auto simp: undecided_def review_status_def split: review_decision.splits)

lemma task_by_idD: "task_by_id db i = Some t \<Longrightarrow> t \<in> set (lg_tasks db) \<and> dt_task_id t = i"
  unfolding task_by_id_def by (blast dest: first_match_SomeD)

lemma task_by_id_later:
  assumes "ledger_later r w" "ledger_ok w" "task_by_id r i = Some t"
  shows "\<exists>u. task_by_id w i = Some u \<and> same_task t u"
  using ledger_later_task [OF assms(1)] task_by_idD [OF assms(3)] task_by_id_mem [OF assms(2)] unfolding same_task_def by metis

lemma dispatch_later:
  assumes "ledger_later r w" "d \<in> set (lg_dispatches r)"
  shows "\<exists>e\<in>set (lg_dispatches w). dispatch_le d e"
  using assms by (simp add: ledger_later_def)

lemma dispatch_unique:
  "dispatches_ok w \<Longrightarrow> d \<in> set (lg_dispatches w) \<Longrightarrow> e \<in> set (lg_dispatches w) \<Longrightarrow> dp_id d = dp_id e \<Longrightarrow> d = e"
  unfolding dispatches_ok_def by (blast intro: distinct_mapD)

lemma flush_dispatch_row:
  assumes "flush_dispatch w d s = Some (v, w')" "dp_status d \<noteq> s"
  shows "\<exists>e\<in>set (lg_dispatches w). dp_id e = dp_id d \<and> dp_version e = dp_version d \<and>
    e\<lparr>dp_status := s, dp_version := dp_version d + 1\<rparr> \<in> set (lg_dispatches w')"
  using assms by (auto simp: flush_dispatch_def list_ex_iff split: if_splits)

text \<open>A decision writes over the version that was read.\<close>

lemma decide_row:
  assumes ok: "tables_ok w" and read: "ledger_later r w" "undecided r i" and dec: "decide r w i dec why sub name clock = (Inr res, w')"
  shows "\<exists>t d. task_by_id r i = Some t \<and> latest_dispatch r t = Some d \<and> d \<in> set (lg_dispatches w) \<and>
    (\<exists>e\<in>set (lg_dispatches w'). dp_id e = dp_id d \<and> dp_version e = dp_version d + 1)"
proof -
  from decide_cases [OF dec] obtain t d tm v w2 reason evidence where 1: "task_by_id r i = Some t" "latest_dispatch r t = Some d"
    "flush_dispatch (update_task w i (\<lambda>t. t\<lparr>dt_status := review_status dec, dt_completed_at := Some tm\<rparr>)) d (review_status dec) = Some (v, w2)"
    "w' = add_audit w2 (dt_id t) (dp_id d) (review_status dec) reason evidence" by auto
  from flush_dispatch_row [OF 1(3) undecided_status [OF read(2) 1(1,2)]]
  obtain e where e: "e \<in> set (lg_dispatches w)" "dp_id e = dp_id d" "dp_version e = dp_version d"
    "e\<lparr>dp_status := review_status dec, dp_version := dp_version d + 1\<rparr> \<in> set (lg_dispatches w')"
    unfolding 1(4) by (auto simp: update_task_def add_audit_def)
  obtain f where f: "f \<in> set (lg_dispatches w)" "dispatch_le d f" using dispatch_later [OF read(1)] latest_dispatchD [OF 1(2)] by blast
  have "f = e" using dispatch_unique [of w f e] ok e f dispatch_leD [OF f(2)] by (simp add: tables_ok_def)
  then have "d = e" using f(2) e(3) by (simp add: dispatch_le_def)
  moreover have "\<exists>x\<in>set (lg_dispatches w'). dp_id x = dp_id d \<and> dp_version x = dp_version d + 1"
    by (rule bexI [OF _ e(4)]) (simp add: e(2))
  ultimately show ?thesis using 1(1,2) e(1) by blast
qed

text \<open>
  C27. A review is decided once. Two reviewers read the task while its plan is undecided. Once the decision of the first is written, the decision of the second
  is refused whenever it is written, whatever it is, and changes nothing: the task has the status of the first decision, and exactly one audit record was added for it.
\<close>

theorem review_decided_once:
  assumes "tables_ok w" "tables_ok w2" "ledger_later r w" "ledger_later r2 w" "undecided r i" "undecided r2 i"
    and "decide r w i dec why sub name clock = (Inr res, w1)" "ledger_later w1 w2"
  shows "map_option dt_status (task_by_id w1 i) = Some (review_status dec) \<and>
    (\<exists>a. lg_audits w1 = lg_audits w @ [a] \<and> au_result a = review_status dec) \<and>
    (\<exists>e. decide r2 w2 i dec2 why2 sub2 name2 clock2 = (Inl e, w2))"
proof (intro conjI)
  have dec: "ledger_ok w1" "ledger_later w w1" using decide_keeps [OF _ assms(7)] assms(1) by (simp_all add: tables_ok_def)
  obtain t d e where 1: "task_by_id r i = Some t" "latest_dispatch r t = Some d" "d \<in> set (lg_dispatches w)"
    "e \<in> set (lg_dispatches w1)" "dp_id e = dp_id d" "dp_version e = dp_version d + 1" using decide_row [OF assms(1,3,5,7)] by blast
  obtain g where g: "g \<in> set (lg_dispatches w2)" "dispatch_le e g" using dispatch_later [OF assms(8) 1(4)] by blast
  show "\<exists>e. decide r2 w2 i dec2 why2 sub2 name2 clock2 = (Inl e, w2)"
  proof (rule ccontr)
    assume no: "\<nexists>e. decide r2 w2 i dec2 why2 sub2 name2 clock2 = (Inl e, w2)"
    obtain x w3 where x: "decide r2 w2 i dec2 why2 sub2 name2 clock2 = (x, w3)" by fastforce
    then obtain res2 where d2: "decide r2 w2 i dec2 why2 sub2 name2 clock2 = (Inr res2, w3)"
      using decide_cases [OF x] no by (cases x) (auto simp: decide_def Let_def split: sum.splits option.splits if_splits clock_time.splits prod.splits)
    have "ledger_later r2 w2" using assms(4,8) dec(2) ledger_later_trans by blast
    then obtain t2 y where 2: "task_by_id r2 i = Some t2" "latest_dispatch r2 t2 = Some y" "y \<in> set (lg_dispatches w2)"
      using decide_row [OF assms(2) _ assms(6) d2] by blast
    obtain f where f: "f \<in> set (lg_dispatches w)" "dispatch_le y f" using dispatch_later [OF assms(4)] latest_dispatchD [OF 2(2)] by blast
    have "dt_id t2 = dt_id t"
      using task_by_id_later [OF assms(3) _ 1(1)] task_by_id_later [OF assms(4) _ 2(1)] assms(1) by (auto simp: tables_ok_def same_task_def)
    then have "f = d" using f(1) 1(3) latest_dispatchD [OF 1(2)] latest_dispatchD [OF 2(2)] dispatch_leD [OF f(2)] assms(1)
      unfolding tables_ok_def dispatches_ok_def by (metis option.distinct(1))
    then have "y = g" using dispatch_unique [of w2 y g] assms(2) 2(3) g dispatch_leD [OF f(2)] dispatch_leD [OF g(2)] 1(5)
      by (simp add: tables_ok_def)
    then show False using f(2) g(2) 1(6) \<open>f = d\<close> by (simp add: dispatch_le_def)
  qed
  from decide_cases [OF assms(7)] obtain tm v wa reason evidence where 3:
    "flush_dispatch (update_task w i (\<lambda>t. t\<lparr>dt_status := review_status dec, dt_completed_at := Some tm\<rparr>)) d (review_status dec) = Some (v, wa)"
    "w1 = add_audit wa (dt_id t) (dp_id d) (review_status dec) reason evidence" using 1(1,2) by auto
  have wa: "lg_tasks wa = lg_tasks (update_task w i (\<lambda>t. t\<lparr>dt_status := review_status dec, dt_completed_at := Some tm\<rparr>))" "lg_audits wa = lg_audits w"
    using 3(1) by (auto simp: flush_dispatch_def update_task_def split: if_splits)
  have "task_by_id w1 i = task_by_id (update_task w i (\<lambda>t. t\<lparr>dt_status := review_status dec, dt_completed_at := Some tm\<rparr>)) i"
    by (simp add: task_by_id_def 3(2) add_audit_def wa)
  then show "map_option dt_status (task_by_id w1 i) = Some (review_status dec)"
    using task_by_id_later [OF assms(3) _ 1(1)] assms(1) by (auto simp: tables_ok_def task_by_id_update)
  show "\<exists>a. lg_audits w1 = lg_audits w @ [a] \<and> au_result a = review_status dec"
    by (simp add: 3(2) add_audit_def wa)
qed

section \<open>An example\<close>

text \<open>Sessions one after the other.\<close>

definition run_sessions :: "ledger_op list \<Rightarrow> ledger_db \<Rightarrow> ledger_db" where
  "run_sessions ops db = fold (\<lambda>op w. exec_ledger op w w) ops db"

lemma run_sessions_steps: "ledger_step\<^sup>*\<^sup>* (db, []) (run_sessions ops db, [])"
proof (induction ops arbitrary: db)
  case Nil
  show ?case by (simp add: run_sessions_def)
next
  case (Cons op ops)
  have "ledger_step (db, []) (db, [(op, db)])" "ledger_step (db, [(op, db)]) (exec_ledger op db db, [])"
    using session_read [of "\<lambda>_. True" op exec_ledger db "[]"] session_write [of op db "[(op, db)]" "\<lambda>_. True" exec_ledger db] by simp_all
  then show ?case using Cons [of "exec_ledger op db db"] by (simp add: run_sessions_def converse_rtranclp_into_rtranclp)
qed

definition sample_plan :: dispatch_row where
  "sample_plan =
     \<lparr>dp_id = 4, dp_dispatch_no = ''DSP-4'', dp_order_id = 7, dp_task_id = Some 1, dp_original_driver_id = None, dp_target_driver_id = None,
      dp_original_route_id = Some ''R-1'', dp_target_route_id = Some ''R-2'', dp_original_vehicle_id = None, dp_target_vehicle_id = None,
      dp_transfer_node_id = None, dp_decision_reason = None, dp_recommended_action = None, dp_analysis_mode = None, dp_issue_subtype = None,
      dp_fallback_used = False, dp_fallback_reason = None, dp_status = ''PENDING_REVIEW'', dp_version = 1\<rparr>"

definition sample_waiting :: ledger_db where
  "sample_waiting = run_sessions [BeginTask ''T-1'' 7 ''key-7'' None None, GraphDispatch sample_plan,
     GraphAudit 1 4 ''REVIEW_REQUIRED'' ''check'' ''{}'', MarkTaskTerminal ''T-1'' ''REVIEW_REQUIRED'' 3] sample_ledger"

definition sample_reviewed :: ledger_db where
  "sample_reviewed = run_sessions [DecideReview ''T-1'' APPROVE (Some ''ok'') ''S-1'' ''Ann'' (Aware 5)] sample_waiting"

definition sample_published :: ledger_db where
  "sample_published = run_sessions [PublishTask ''T-1'' ''S-1'' ''Ann'' (Aware 6)] sample_reviewed"

definition sample_task :: task_row where
  "sample_task = \<lparr>dt_id = 1, dt_task_id = ''T-1'', dt_order_id = 7, dt_anomaly_id = None, dt_status = ''REVIEW_REQUIRED'', dt_idempotency_key = ''key-7'',
     dt_assignee_subject_id = None, dt_started_at = None, dt_completed_at = Some 3\<rparr>"

definition sample_verdict :: audit_record where
  "sample_verdict = \<lparr>au_id = 1, au_task_id = 1, au_dispatch_id = 4, au_result = ''REVIEW_REQUIRED'', au_reason = ''check'', au_evidence_json = ''{}''\<rparr>"

lemma sample_waiting_eq:
  "sample_waiting = sample_ledger\<lparr>lg_tasks := [sample_task], lg_next_task_id := 2,
     lg_threads := \<lparr>td_tasks = [''T-1''], td_threads = [new_thread ''T-1'' ''cf:dispatch:T-1''], td_events = [created_event ''cf:dispatch:T-1'']\<rparr>,
     lg_dispatches := [sample_plan], lg_audits := [sample_verdict], lg_next_audit_id := 2\<rparr>"
  by (simp add: sample_waiting_def run_sessions_def begin_task_def existing_task_def task_by_id_def task_by_key_def task_constraints_ok_def
      sample_ledger_def thread_id_for_persisted_task_def get_by_thread_id_def thread_by_task_id_def event_by_key_def add_task_def new_task_def
      add_dispatch_def add_audit_def mark_task_terminal_def set_status_def update_task_def sample_task_def sample_verdict_def)

lemma sample_reasons: "review_reason APPROVE (Some ''ok'') = Inr ''ok''" "review_reason REJECT (Some ''no'') = Inr ''no''"
  by code_simp+

lemmas sample_decide = decide_def sample_reasons task_by_id_def sample_waiting_eq sample_task_def latest_dispatch_def sample_plan_def flush_dispatch_def
  review_status_def update_task_def add_audit_def sample_verdict_def Let_def

lemma sample_decided: "\<not> isl (fst (decide sample_waiting sample_waiting ''T-1'' APPROVE (Some ''ok'') sub name (Aware t)))"
  "\<not> isl (fst (decide sample_waiting sample_waiting ''T-1'' REJECT (Some ''no'') sub name (Aware t)))"
  by (simp_all add: sample_decide)

lemma sample_tables_ok: "tables_ok sample_ledger"
  by (simp add: tables_ok_def ledger_ok_def dispatches_ok_def publications_ok_def sample_ledger_def thread_ok_def)

lemma sample_waiting_steps: "ledger_step\<^sup>*\<^sup>* (sample_ledger, []) (sample_waiting, [])"
  unfolding sample_waiting_def by (rule run_sessions_steps)

lemma sample_published_steps: "ledger_step\<^sup>*\<^sup>* (sample_waiting, []) (sample_published, [])"
  unfolding sample_published_def sample_reviewed_def by (rule rtranclp_trans [OF run_sessions_steps run_sessions_steps])

theorem task_created_once_witness:
  "map dt_task_id (lg_tasks sample_waiting) = [''T-1''] \<and>
     (\<exists>u\<in>set (lg_tasks sample_published). dt_task_id u = ''T-1'' \<and> dt_idempotency_key u = ''key-7'')"
  using task_created_once [OF sample_tables_ok sample_waiting_steps sample_published_steps]
  by (auto simp: same_task_def sample_waiting_eq sample_task_def)

theorem publications_approved_witness:
  "map pb_route_id (lg_publications sample_published) = [Some ''R-2''] \<and>
     (\<exists>a\<in>set (lg_audits sample_published). au_dispatch_id a = 4 \<and> au_result a = ''APPROVED'')"
proof -
  have p: "map pb_route_id (lg_publications sample_published) = [Some ''R-2'']" "map pb_dispatch_id (lg_publications sample_published) = [4]"
    by (simp_all add: sample_published_def sample_reviewed_def run_sessions_def sample_decide publish_dispatch_def publication_of_def latest_audit_def
        sample_ledger_def dispatch_route_def insert_publication_def py_or_def)
  then obtain q where "lg_publications sample_published = [q]" "pb_dispatch_id q = 4" by auto
  then show ?thesis using p(1) publications_approved [OF sample_tables_ok sample_waiting_steps sample_published_steps] by auto
qed

theorem review_decided_once_witness:
  "map_option dt_status (task_by_id sample_reviewed ''T-1'') = Some ''APPROVED'' \<and>
     (\<exists>e. decide sample_waiting sample_reviewed ''T-1'' REJECT (Some ''no'') ''S-2'' ''Bob'' (Aware 9) = (Inl e, sample_reviewed))"
proof -
  have t: "tables_ok sample_waiting" "tables_ok sample_reviewed"
    using ledger.reachable_invariant [OF sample_waiting_steps sample_tables_ok]
      ledger.reachable_invariant [OF run_sessions_steps] unfolding sample_reviewed_def by force+
  have u: "undecided sample_waiting ''T-1''"
    by (simp add: undecided_def task_by_id_def latest_dispatch_def sample_waiting_eq sample_task_def sample_plan_def)
  note sample_decided(1) [of "''S-1''" "''Ann''" 5]
  moreover have "snd (decide sample_waiting sample_waiting ''T-1'' APPROVE (Some ''ok'') ''S-1'' ''Ann'' (Aware 5)) = sample_reviewed"
    by (simp add: sample_reviewed_def run_sessions_def)
  ultimately obtain res where "decide sample_waiting sample_waiting ''T-1'' APPROVE (Some ''ok'') ''S-1'' ''Ann'' (Aware 5) = (Inr res, sample_reviewed)"
    by (metis isl_def prod.collapse sum.collapse(2))
  from review_decided_once [OF t ledger_later_refl ledger_later_refl u u this ledger_later_refl] show ?thesis by (simp add: review_status_def)
qed

end

