(* ===== verification/Execution_Lock.thy ===== *)
theory Execution_Lock
  imports Prelude
begin

text \<open>
  The Redis locks: \<open>RedisExecutionLock\<close> (\<open>locks/redis_execution_lock.py\<close>), which keeps two workers from running one task, and
  \<open>RuntimeBoundaryLock\<close> (\<open>runtime_overrides/redis_lock.py\<close>), which keeps two overrides from one thread. The two differ in their key prefix and in that only the
  first is renewed. The Redis client is a parameter: \<open>set\<close> with \<open>NX\<close> and \<open>PX\<close>, and \<open>transaction\<close>, which watches a key, lets a function look at its
  value and queue commands, and runs them only if the key did not change meanwhile. Its documented behaviour is the hypothesis \<open>lock_client_ok\<close>. A step relation
  interleaves any number of holders with the expiry of keys.
\<close>

section \<open>The client\<close>

datatype lock_command = PExpire string int | DeleteKey string

text \<open>\<open>Inl ()\<close> is a \<open>RedisError\<close>; the answer to \<open>set\<close> is whether the key was set.\<close>

record 'r lock_client =
  lc_set :: "string \<Rightarrow> string \<Rightarrow> int \<Rightarrow> 'r \<Rightarrow> (unit + bool) \<times> 'r"
  lc_transaction :: "(string option \<Rightarrow> bool \<times> lock_command list) \<Rightarrow> string \<Rightarrow> 'r \<Rightarrow> (unit + bool) \<times> 'r"

section \<open>The lock\<close>

record lock_handle =
  lh_key :: string
  lh_token :: string
  lh_acquired :: bool

datatype lock_error = AcquireFailed | RenewalFailed | ReleaseFailed

definition execution_lock_prefix :: string where
  "execution_lock_prefix = ''countyflow:lock:dispatch:''"

definition thread_lock_prefix :: string where
  "thread_lock_prefix = ''countyflow:lock:thread:''"

text \<open>\<open>token\<close> is the random hexadecimal number of the call.\<close>

definition acquire :: "'r lock_client \<Rightarrow> string \<Rightarrow> int \<Rightarrow> string \<Rightarrow> string \<Rightarrow> 'r \<Rightarrow> (lock_error + lock_handle) \<times> 'r" where
  "acquire client key_prefix ttl_ms token name r =
     (case lc_set client (key_prefix @ name) token ttl_ms r of
        (Inl _, r') \<Rightarrow> (Inl AcquireFailed, r')
      | (Inr acquired, r') \<Rightarrow> (Inr \<lparr>lh_key = key_prefix @ name, lh_token = token, lh_acquired = acquired\<rparr>, r'))"

definition renewal_interval_seconds :: "int \<Rightarrow> rat" where
  "renewal_interval_seconds ttl_ms = max (of_int ttl_ms / 3000) (1 / 1000)"

definition compare_and_extend :: "lock_handle \<Rightarrow> int \<Rightarrow> string option \<Rightarrow> bool \<times> lock_command list" where
  "compare_and_extend handle ttl_ms found =
     (if found \<noteq> Some (lh_token handle) then (False, []) else (True, [PExpire (lh_key handle) ttl_ms]))"

definition renew :: "'r lock_client \<Rightarrow> int \<Rightarrow> lock_handle \<Rightarrow> 'r \<Rightarrow> (lock_error + bool) \<times> 'r" where
  "renew client ttl_ms handle r =
     (if \<not> lh_acquired handle then (Inr False, r)
      else case lc_transaction client (compare_and_extend handle ttl_ms) (lh_key handle) r of
             (Inl _, r') \<Rightarrow> (Inl RenewalFailed, r')
           | (Inr renewed, r') \<Rightarrow> (Inr renewed, r'))"

definition compare_and_delete :: "lock_handle \<Rightarrow> string option \<Rightarrow> bool \<times> lock_command list" where
  "compare_and_delete handle found =
     (if found \<noteq> Some (lh_token handle) then (False, []) else (True, [DeleteKey (lh_key handle)]))"

definition release :: "'r lock_client \<Rightarrow> lock_handle \<Rightarrow> 'r \<Rightarrow> (lock_error + bool) \<times> 'r" where
  "release client handle r =
     (if \<not> lh_acquired handle then (Inr False, r)
      else case lc_transaction client (compare_and_delete handle) (lh_key handle) r of
             (Inl _, r') \<Rightarrow> (Inl ReleaseFailed, r')
           | (Inr deleted, r') \<Rightarrow> (Inr deleted, r'))"

section \<open>What Redis promises\<close>

fun run_command :: "(string \<rightharpoonup> string) \<Rightarrow> lock_command \<Rightarrow> (string \<rightharpoonup> string)" where
  "run_command m (PExpire k t) = m"
| "run_command m (DeleteKey k) = m(k := None)"

text \<open>
  \<open>found r\<close> are the keys that are set and not expired. \<open>SET NX\<close> sets a key that is not set and only then; a transaction sees the value of its key and runs
  its commands as one. A call that fails may or may not have had its effect.
\<close>

definition set_ok :: "'r lock_client \<Rightarrow> ('r \<Rightarrow> (string \<rightharpoonup> string)) \<Rightarrow> bool" where
  "set_ok client found \<longleftrightarrow>
     (\<forall>k t ttl r res r'. lc_set client k t ttl r = (res, r') \<longrightarrow>
        (found r' = found r \<or> found r k = None \<and> found r' = (found r)(k \<mapsto> t)) \<and>
        (\<forall>ok. res = Inr ok \<longrightarrow> (ok \<longleftrightarrow> found r k = None) \<and> (ok \<longrightarrow> found r' = (found r)(k \<mapsto> t))))"

definition transaction_ok :: "'r lock_client \<Rightarrow> ('r \<Rightarrow> (string \<rightharpoonup> string)) \<Rightarrow> bool" where
  "transaction_ok client found \<longleftrightarrow>
     (\<forall>f k r res r'. lc_transaction client f k r = (res, r') \<longrightarrow>
        (found r' = found r \<or> found r' = foldl run_command (found r) (snd (f (found r k)))) \<and>
        (\<forall>ok. res = Inr ok \<longrightarrow> ok = fst (f (found r k)) \<and> found r' = foldl run_command (found r) (snd (f (found r k)))))"

definition lock_client_ok :: "'r lock_client \<Rightarrow> ('r \<Rightarrow> (string \<rightharpoonup> string)) \<Rightarrow> bool" where
  "lock_client_ok client found \<longleftrightarrow> set_ok client found \<and> transaction_ok client found"

section \<open>Holders of locks\<close>

text \<open>A state is the store of Redis, the handles that were acquired and not yet given back, and the tokens drawn so far.\<close>

type_synonym 'r lock_state = "'r \<times> lock_handle list \<times> string set"

inductive lock_step :: "'r lock_client \<Rightarrow> ('r \<Rightarrow> (string \<rightharpoonup> string)) \<Rightarrow> string \<Rightarrow> int \<Rightarrow> 'r lock_state \<Rightarrow> 'r lock_state \<Rightarrow> bool"
  for client found key_prefix ttl where
  acquired: "token \<notin> drawn \<Longrightarrow> acquire client key_prefix ttl token name r = (Inr h, r') \<Longrightarrow>
     lock_step client found key_prefix ttl (r, hs, drawn) (r', if lh_acquired h then h # hs else hs, insert token drawn)"
| acquire_failed: "token \<notin> drawn \<Longrightarrow> acquire client key_prefix ttl token name r = (Inl e, r') \<Longrightarrow>
     lock_step client found key_prefix ttl (r, hs, drawn) (r', hs, insert token drawn)"
| renewed: "h \<in> set hs \<Longrightarrow> renew client ttl h r = (res, r') \<Longrightarrow>
     lock_step client found key_prefix ttl (r, hs, drawn) (r', hs, drawn)"
| released: "h \<in> set hs \<Longrightarrow> release client h r = (res, r') \<Longrightarrow>
     lock_step client found key_prefix ttl (r, hs, drawn) (r', remove1 h hs, drawn)"
| expired: "(\<And>k. found r' k = found r k \<or> found r' k = None) \<Longrightarrow>
     lock_step client found key_prefix ttl (r, hs, drawn) (r', hs, drawn)"

inductive_cases lock_stepE: "lock_step client found key_prefix ttl (r, hs, drawn) s"

text \<open>A handle is current while its token stands under its key.\<close>

definition current :: "(string \<rightharpoonup> string) \<Rightarrow> lock_handle \<Rightarrow> bool" where
  "current m h \<longleftrightarrow> m (lh_key h) = Some (lh_token h)"

definition lock_inv :: "('r \<Rightarrow> (string \<rightharpoonup> string)) \<Rightarrow> 'r lock_state \<Rightarrow> bool" where
  "lock_inv found s \<longleftrightarrow>
     (let (r, hs, drawn) = s
      in distinct (map lh_token hs) \<and> (\<forall>h\<in>set hs. lh_acquired h \<and> lh_token h \<in> drawn) \<and> ran (found r) \<subseteq> drawn)"

lemma client_set:
  assumes "lock_client_ok client found" "lc_set client k t ttl r = (res, r')"
  shows "found r' = found r \<or> found r k = None \<and> found r' = (found r)(k \<mapsto> t)"
    and "res = Inr ok \<Longrightarrow> ok \<longleftrightarrow> found r k = None" and "res = Inr True \<Longrightarrow> found r' = (found r)(k \<mapsto> t)"
  using assms unfolding lock_client_ok_def set_ok_def by blast+

lemma client_transaction:
  assumes "lock_client_ok client found" "lc_transaction client f k r = (res, r')"
  shows "found r' = found r \<or> found r' = foldl run_command (found r) (snd (f (found r k)))"
    and "res = Inr ok \<Longrightarrow> ok = fst (f (found r k)) \<and> found r' = foldl run_command (found r) (snd (f (found r k)))"
  using assms unfolding lock_client_ok_def transaction_ok_def by metis+

lemma acquire_effect:
  assumes "lock_client_ok client found" "acquire client p ttl token name r = (res, r')"
  shows "found r' = found r \<or> found r (p @ name) = None \<and> found r' = (found r)(p @ name \<mapsto> token)"
    and "res = Inr h \<Longrightarrow> lh_key h = p @ name \<and> lh_token h = token \<and> (lh_acquired h \<longleftrightarrow> found r (p @ name) = None) \<and>
           (lh_acquired h \<longrightarrow> found r' = (found r)(p @ name \<mapsto> token))"
proof -
  obtain x r1 where x: "lc_set client (p @ name) token ttl r = (x, r1)" by fastforce
  have r': "r' = r1" using assms(2) x by (auto simp: acquire_def split: sum.splits)
  show "found r' = found r \<or> found r (p @ name) = None \<and> found r' = (found r)(p @ name \<mapsto> token)"
    using client_set(1) [OF assms(1) x] r' by simp
  show "res = Inr h \<Longrightarrow> lh_key h = p @ name \<and> lh_token h = token \<and> (lh_acquired h \<longleftrightarrow> found r (p @ name) = None) \<and>
           (lh_acquired h \<longrightarrow> found r' = (found r)(p @ name \<mapsto> token))"
    using assms(2) x client_set(2,3) [OF assms(1) x] r' by (auto simp: acquire_def split: sum.splits)
qed

lemma renew_effect:
  assumes "lock_client_ok client found" "renew client ttl h r = (res, r')"
  shows "found r' = found r" and "lh_acquired h \<Longrightarrow> res = Inr b \<Longrightarrow> b \<longleftrightarrow> current (found r) h"
proof -
  have f: "foldl run_command m (snd (compare_and_extend h ttl v)) = m" for m v by (simp add: compare_and_extend_def)
  obtain x r1 where x: "lc_transaction client (compare_and_extend h ttl) (lh_key h) r = (x, r1)" by fastforce
  note t = client_transaction [OF assms(1) x]
  show "found r' = found r" using assms(2) x t(1) f by (auto simp: renew_def split: if_splits sum.splits)
  show "lh_acquired h \<Longrightarrow> res = Inr b \<Longrightarrow> b \<longleftrightarrow> current (found r) h"
    using assms(2) x t(2) by (auto simp: renew_def compare_and_extend_def current_def split: if_splits sum.splits)
qed

lemma release_effect:
  assumes "lock_client_ok client found" "release client h r = (res, r')"
  shows "found r' = found r \<or> current (found r) h \<and> found r' = (found r)(lh_key h := None)"
    and "lh_acquired h \<Longrightarrow> res = Inr b \<Longrightarrow>
      (b \<longleftrightarrow> current (found r) h) \<and> found r' = (if b then (found r)(lh_key h := None) else found r)"
proof -
  have f: "foldl run_command m (snd (compare_and_delete h v)) = (if v = Some (lh_token h) then m(lh_key h := None) else m)" for m v
    by (simp add: compare_and_delete_def)
  obtain x r1 where x: "lc_transaction client (compare_and_delete h) (lh_key h) r = (x, r1)" by fastforce
  note t = client_transaction [OF assms(1) x, unfolded f]
  show "found r' = found r \<or> current (found r) h \<and> found r' = (found r)(lh_key h := None)"
    using assms(2) x t(1) by (auto simp: release_def current_def split: if_splits sum.splits)
  show "lh_acquired h \<Longrightarrow> res = Inr b \<Longrightarrow> (b \<longleftrightarrow> current (found r) h) \<and> found r' = (if b then (found r)(lh_key h := None) else found r)"
    using assms(2) x t(2) by (auto simp: release_def compare_and_delete_def current_def split: if_splits sum.splits)
qed

lemma lock_step_inv:
  assumes "lock_client_ok client found" "lock_step client found p ttl s s'" "lock_inv found s"
  shows "lock_inv found s'"
  using assms(2,3)
proof (cases rule: lock_step.cases)
  case (acquired token drawn name r h r' hs)
  note e = acquire_effect [OF assms(1) acquired(4)]
  have "ran (found r') \<subseteq> insert token (ran (found r))" using e(1) by (auto simp: ran_def split: if_splits)
  moreover have "lh_token h = token" using e(2) by simp
  moreover have "token \<notin> lh_token ` set hs" using acquired(3) assms(3) acquired(1) by (auto simp: lock_inv_def)
  ultimately show ?thesis using assms(3) acquired(1,2) by (auto simp: lock_inv_def)
next
  case (acquire_failed token drawn name r e r' hs)
  have "ran (found r') \<subseteq> insert token (ran (found r))"
    using acquire_effect(1) [OF assms(1) acquire_failed(4)] by (auto simp: ran_def split: if_splits)
  then show ?thesis using assms(3) acquire_failed(1,2) by (auto simp: lock_inv_def)
next
  case (renewed h hs r res r' drawn)
  then show ?thesis using assms(3) renew_effect(1) [OF assms(1) renewed(4)] by (auto simp: lock_inv_def)
next
  case (released h hs r res r' drawn)
  have "ran (found r') \<subseteq> ran (found r)" using release_effect(1) [OF assms(1) released(4)] by (auto simp: ran_def split: if_splits)
  moreover have "distinct (map lh_token (remove1 h hs))" if "distinct (map lh_token hs)"
    using that by (induction hs) (auto dest: notin_set_remove1 simp: image_iff)
  ultimately show ?thesis using assms(3) released(1,2) by (auto simp: lock_inv_def dest: notin_set_remove1)
next
  case (expired r' r hs drawn)
  have "ran (found r') \<subseteq> ran (found r)" using expired(3) by (auto simp: ran_def) (metis option.distinct(1))
  then show ?thesis using assms(3) expired(1,2) by (auto simp: lock_inv_def)
qed

lemma lock_reachable_inv:
  assumes "lock_client_ok client found" "(lock_step client found p ttl)\<^sup>*\<^sup>* (r0, [], {}) s" "found r0 = Map.empty"
  shows "lock_inv found s"
  using assms(2) by (induction rule: rtranclp_induct) (use assms(3) lock_step_inv [OF assms(1)] in \<open>auto simp: lock_inv_def\<close>)

section \<open>Properties of locks\<close>

text \<open>
  C24. A lock has one current holder. Whatever the interleaving of acquisitions, renewals, releases, failed calls and expiries, when every acquisition draws a new token: two
  handles of the same key that are both current are the same handle; an acquisition succeeds only when no handle of its key is current and makes the new handle current;
  a handle that is no longer current (its key expired and may belong to another holder) is told so when it renews or releases, and neither changes
  anything for the others.
\<close>

theorem lock_has_one_holder:
  assumes "lock_client_ok client found" and "found r0 = Map.empty"
    and "(lock_step client found key_prefix ttl)\<^sup>*\<^sup>* (r0, [], {}) (r, hs, drawn)"
  shows "(\<forall>g\<in>set hs. \<forall>h\<in>set hs. lh_key g = lh_key h \<longrightarrow> current (found r) g \<longrightarrow> current (found r) h \<longrightarrow> g = h) \<and>
    (\<forall>token name h r'. acquire client key_prefix ttl token name r = (Inr h, r') \<longrightarrow> lh_acquired h \<longrightarrow>
       current (found r') h \<and> (\<forall>g\<in>set hs. lh_key g = lh_key h \<longrightarrow> \<not> current (found r) g)) \<and>
    (\<forall>h\<in>set hs. \<not> current (found r) h \<longrightarrow>
       (\<forall>res r'. renew client ttl h r = (res, r') \<longrightarrow> res \<noteq> Inr True \<and> found r' = found r) \<and>
       (\<forall>res r'. release client h r = (res, r') \<longrightarrow> res \<noteq> Inr True \<and> found r' = found r))"
proof -
  have inv: "distinct (map lh_token hs)" "\<forall>h\<in>set hs. lh_acquired h"
    using lock_reachable_inv [OF assms(1,3,2)] by (auto simp: lock_inv_def)
  have one: "g = h" if "g \<in> set hs" "h \<in> set hs" "lh_key g = lh_key h" "current (found r) g" "current (found r) h" for g h
  proof -
    have "lh_token g = lh_token h" using that(3-5) by (simp add: current_def)
    then show ?thesis using inv(1) that(1,2) by (auto simp: distinct_map inj_on_def)
  qed
  have acq: "current (found r') h \<and> (\<forall>g\<in>set hs. lh_key g = lh_key h \<longrightarrow> \<not> current (found r) g)"
    if "acquire client key_prefix ttl token name r = (Inr h, r')" "lh_acquired h" for token name h r'
    using acquire_effect(2) [OF assms(1) that(1), of h] that(2) by (auto simp: current_def)
  have ren: "res \<noteq> Inr True \<and> found r' = found r" if "h \<in> set hs" "\<not> current (found r) h" "renew client ttl h r = (res, r')" for h res r'
    using renew_effect [OF assms(1) that(3)] inv(2) that(1,2) by blast
  have rel: "res \<noteq> Inr True \<and> found r' = found r" if "h \<in> set hs" "\<not> current (found r) h" "release client h r = (res, r')" for h res r'
    using release_effect [OF assms(1) that(3)] inv(2) that(1,2) by blast
  show ?thesis using one acq ren rel by blast
qed

text \<open>A client on a map, and the handle of a first acquisition.\<close>

definition map_client :: "(string \<rightharpoonup> string) lock_client" where
  "map_client =
     \<lparr>lc_set = (\<lambda>k t ttl m. (Inr (m k = None), if m k = None then m(k \<mapsto> t) else m)),
      lc_transaction = (\<lambda>f k m. (Inr (fst (f (m k))), foldl run_command m (snd (f (m k)))))\<rparr>"

lemma map_client_ok: "lock_client_ok map_client (\<lambda>m. m)"
  by (auto simp: lock_client_ok_def set_ok_def transaction_ok_def map_client_def)

definition sample_handle :: lock_handle where
  "sample_handle = \<lparr>lh_key = execution_lock_prefix @ ''k1'', lh_token = ''a'', lh_acquired = True\<rparr>"

theorem lock_has_one_holder_witness:
  "\<exists>m. (lock_step map_client (\<lambda>m. m) execution_lock_prefix 1000)\<^sup>*\<^sup>* (Map.empty, [], {}) (m, [sample_handle], {''a''}) \<and>
     current m sample_handle \<and>
     (\<forall>h r'. acquire map_client execution_lock_prefix 1000 ''b'' ''k1'' m = (Inr h, r') \<longrightarrow> \<not> lh_acquired h)"
proof -
  let ?m = "[lh_key sample_handle \<mapsto> ''a'']"
  have a: "acquire map_client execution_lock_prefix 1000 ''a'' ''k1'' Map.empty = (Inr sample_handle, ?m)"
    by (simp add: acquire_def map_client_def sample_handle_def)
  have "lock_step map_client (\<lambda>m. m) execution_lock_prefix 1000 (Map.empty, [], {}) (?m, [sample_handle], {''a''})"
    using acquired [where drawn = "{}" and hs = "[]" and found = "\<lambda>m. m", OF _ a] by (simp add: sample_handle_def)
  then have reach: "(lock_step map_client (\<lambda>m. m) execution_lock_prefix 1000)\<^sup>*\<^sup>* (Map.empty, [], {}) (?m, [sample_handle], {''a''})" by blast
  have cur: "current ?m sample_handle" by (simp add: current_def sample_handle_def)
  have "\<not> lh_acquired h" if "acquire map_client execution_lock_prefix 1000 ''b'' ''k1'' ?m = (Inr h, r')" for h r'
  proof
    assume "lh_acquired h"
    moreover have "lh_key h = lh_key sample_handle"
      using that by (auto simp: acquire_def map_client_def sample_handle_def)
    ultimately have "\<not> current ?m sample_handle"
      using lock_has_one_holder [OF map_client_ok refl reach] that by (metis list.set_intros(1))
    then show False using cur by simp
  qed
  then show ?thesis using reach cur by blast
qed

end
