(* ===== verification/Dispatch_Worker.thy ===== *)
theory Dispatch_Worker
  imports Task_Ledger Execution_Lock Checkpoints
begin

text \<open>
  The worker that takes messages from the stream, runs the graph on them and acknowledges them (\<open>workers/dispatch_worker.py\<close>). The worker works on the tables
  of the ledger, the locks and the streams; the last are a list of the calls made. The services a worker may lack are options or flags. What the compiled graph
  does comes from outside: \<open>wk_stream\<close> are the updates it streams from a thread and an input, whether it raises after them, and the rows it writes, \<open>wk_invoke\<close> the
  same for a graph without threads. The renewal of the lock in the background, the events for subscribers, whose errors are swallowed, the metrics and the logging
  are not modelled; nor are the waits. The steps of one message follow each other, with one exception: \<open>we_others\<close> is what other sessions commit to the
  threads between the read and the write of the terminal row.
\<close>

section \<open>The worker\<close>

record 'r worker =
  wk_consumer_name :: string
  wk_retry_policy :: retry_policy
  wk_idempotency :: bool
  wk_lock :: "('r lock_client \<times> int) option"
  wk_runner :: "(string list \<times> int) option"
  wk_repository :: bool
  wk_reconciler :: "(string list \<times> int \<times> (runtime_thread \<Rightarrow> unit + checkpoint_record list)) option"
  wk_publications :: bool
  wk_breakdown :: "(task_message \<Rightarrow> ledger_db \<Rightarrow> bool \<times> ledger_db) option"
  wk_stream :: "runtime_thread \<Rightarrow> pydict option \<Rightarrow> ledger_db \<Rightarrow> stream_item list list \<times> bool \<times> ledger_db"
  wk_invoke :: "pydict \<Rightarrow> ledger_db \<Rightarrow> (unit + pydict) \<times> ledger_db"

text \<open>The answers and draws of one message: the clock, the tokens of the lock, and the replies of Redis.\<close>

record worker_env =
  we_now :: int
  we_token :: string
  we_probe_token :: string
  we_ack :: "unit + int"
  we_dead_letter :: "unit + redis_val"
  we_stream_name :: string
  we_others :: "thread_db \<Rightarrow> thread_db"

record 'r worker_state =
  ws_db :: ledger_db
  ws_locks :: 'r
  ws_calls :: "queue_call list"

record worker_process_result =
  wr_message_id :: string
  wr_task_id :: string
  wr_acknowledged :: bool
  wr_terminal_status :: "string option"
  wr_requires_manual_review :: bool
  wr_error_code :: "string option"
  wr_delivery_count :: "int option"
  wr_retried :: bool
  wr_moved_to_dlq :: bool
  wr_backoff_ms :: "rat option"
  wr_idempotency_state :: "idempotency_state option"
  wr_duplicate_skipped :: bool
  wr_lock_acquired :: "bool option"
  wr_reconciled :: bool

datatype worker_error = LockFailed lock_error | LedgerFailed ledger_error | QueueFailed queue_error

type_synonym ('r, 'a) worker_result = "(worker_error + 'a) \<times> 'r worker_state"

definition worker_bind :: "('r, 'a) worker_result \<Rightarrow> ('a \<Rightarrow> 'r worker_state \<Rightarrow> ('r, 'b) worker_result) \<Rightarrow> ('r, 'b) worker_result" where
  "worker_bind m f = (case m of (Inl e, st) \<Rightarrow> (Inl e, st) | (Inr a, st) \<Rightarrow> f a st)"

definition process_result :: "stream_message \<Rightarrow> bool \<Rightarrow> string option \<Rightarrow> bool \<Rightarrow> string option \<Rightarrow> worker_process_result" where
  "process_result m acknowledged terminal_status requires_manual_review error_code =
     \<lparr>wr_message_id = sm_message_id m, wr_task_id = tm_task_id (sm_task m), wr_acknowledged = acknowledged, wr_terminal_status = terminal_status,
      wr_requires_manual_review = requires_manual_review, wr_error_code = error_code, wr_delivery_count = None, wr_retried = False,
      wr_moved_to_dlq = False, wr_backoff_ms = None, wr_idempotency_state = None, wr_duplicate_skipped = False, wr_lock_acquired = None,
      wr_reconciled = False\<rparr>"

section \<open>Input and outcome of the graph\<close>

definition task_message_to_graph_input :: "task_message \<Rightarrow> pydict" where
  "task_message_to_graph_input t =
     (let p = tm_payload t; edge = (case tp_affected_edge_id p of None \<Rightarrow> None | Some e \<Rightarrow> e)
      in [(''task_id'', PStr (tm_task_id t)), (''order_id'', PInt (tm_order_id t)), (''driver_id'', PStr (tp_driver_id p)),
          (''vehicle_id'', PStr (tp_vehicle_id p)), (''route_id'', PStr (tp_route_id p)), (''anomaly_type'', PStr (tp_anomaly_type p)),
          (''anomaly_description'', PStr (tp_anomaly_description p)),
          (''vehicle_status'', PStr (case tp_vehicle_status p of None \<Rightarrow> ''NORMAL'' | Some s \<Rightarrow> s)),
          (''incident_node_id'', opt_str (case tp_incident_node_id p of None \<Rightarrow> None | Some n \<Rightarrow> n)),
          (''affected_edge_ids'', PList (case edge of None \<Rightarrow> [] | Some e \<Rightarrow> [PStr e]))] @
         (case tm_correlation_id t of None \<Rightarrow> [] | Some c \<Rightarrow> [(''correlation_id'', PStr c)]))"

definition terminal_state :: "pydict \<Rightarrow> string option \<times> bool \<times> string option" where
  "terminal_state final =
     (let error_code = (case dget final ''error_code'' of PStr s \<Rightarrow> Some s | _ \<Rightarrow> None); review = (dget final ''requires_manual_review'' = PBool True)
      in if error_code = Some ''AUDIT_PERSISTENCE_ERROR'' then (None, review, error_code)
         else case dget final ''audit_result'' of
                PDict verdict \<Rightarrow>
                  if dget verdict ''audit_status'' = PStr ''APPROVED'' then (Some ''APPROVED'', review, error_code)
                  else if dget verdict ''audit_status'' = PStr ''REVIEW_REQUIRED'' \<and> review then (Some ''REVIEW_REQUIRED'', True, error_code)
                  else (None, review, error_code)
              | _ \<Rightarrow> (None, review, error_code))"

section \<open>Threads\<close>

definition set_threads :: "'r worker_state \<Rightarrow> thread_db \<Rightarrow> 'r worker_state" where
  "set_threads st threads = st\<lparr>ws_db := (ws_db st)\<lparr>lg_threads := threads\<rparr>\<rparr>"

text \<open>\<open>Inl ()\<close> is an exception of the reconciler or of the checkpoint store it reads.\<close>

definition runtime_thread_of :: "'r worker \<Rightarrow> string \<Rightarrow> 'r worker_state \<Rightarrow> (unit + runtime_thread option) \<times> 'r worker_state" where
  "runtime_thread_of wk task_id st =
     (if \<not> wk_repository wk then (Inr None, st)
      else case (thread_by_task_id (lg_threads (ws_db st)) task_id, wk_reconciler wk) of
             (Some thread, Some (order, max_bytes, list_bounded)) \<Rightarrow>
               (if thread_terminal thread \<or> th_next_node thread = None then (Inr (Some thread), st)
                else case list_bounded thread of
                       Inl _ \<Rightarrow> (Inl (), st)
                     | Inr records \<Rightarrow>
                         (case thread_reconcile order max_bytes (wk_consumer_name wk) records thread (lg_threads (ws_db st)) of
                            (Inl _, threads) \<Rightarrow> (Inl (), set_threads st threads)
                          | (Inr thread', threads) \<Rightarrow> (Inr (Some thread'), set_threads st threads)))
           | (thread, _) \<Rightarrow> (Inr thread, st))"

text \<open>The answer of \<open>_mark_runtime_terminal\<close>: \<open>True\<close> without a repository, \<open>None\<close> without a thread, \<open>False\<close> when the write fails, or the thread.\<close>

datatype terminal_mark = MarkTrue | MarkNone | MarkFalse | MarkThread runtime_thread

definition mark_runtime_terminal :: "'r worker \<Rightarrow> worker_env \<Rightarrow> string \<Rightarrow> string \<Rightarrow> string option \<Rightarrow> 'r worker_state \<Rightarrow>
    terminal_mark \<times> 'r worker_state" where
  "mark_runtime_terminal wk env task_id status error_code st =
     (if \<not> wk_repository wk then (MarkTrue, st)
      else case thread_by_task_id (lg_threads (ws_db st)) task_id of
             None \<Rightarrow> (MarkNone, st)
           | Some thread \<Rightarrow>
               (case mark_terminal (lg_threads (ws_db st)) (we_others env (lg_threads (ws_db st))) (th_thread_id thread) (''terminal:'' @ status)
                       (wk_consumer_name wk) (th_current_node thread) error_code (we_now env) of
                  (Inl _, threads) \<Rightarrow> (MarkFalse, set_threads st threads)
                | (Inr thread', threads) \<Rightarrow> (MarkThread thread', set_threads st threads)))"

definition runtime_terminal_failure :: "stream_message \<Rightarrow> idempotency_state \<Rightarrow> worker_process_result" where
  "runtime_terminal_failure m state =
     (process_result m False None False (Some ''RUNTIME_THREAD_TERMINAL_ERROR''))\<lparr>wr_idempotency_state := Some state, wr_lock_acquired := Some True\<rparr>"

section \<open>After the graph\<close>

definition auto_publish :: "'r worker \<Rightarrow> worker_env \<Rightarrow> string \<Rightarrow> string option \<Rightarrow> 'r worker_state \<Rightarrow> string option \<times> 'r worker_state" where
  "auto_publish wk env task_id terminal_status st =
     (if terminal_status \<noteq> Some ''APPROVED'' \<or> \<not> wk_publications wk then (None, st)
      else case publish_automatically (ws_db st) (ws_db st) task_id (Aware (we_now env)) of
             (Inl _, db) \<Rightarrow> (Some ''AUTO_PUBLICATION_ERROR'', st\<lparr>ws_db := db\<rparr>)
           | (Inr _, db) \<Rightarrow> (None, st\<lparr>ws_db := db\<rparr>))"

definition handle_vehicle_breakdown :: "'r worker \<Rightarrow> task_message \<Rightarrow> string option \<Rightarrow> 'r worker_state \<Rightarrow> string option \<times> 'r worker_state" where
  "handle_vehicle_breakdown wk t terminal_status st =
     (case wk_breakdown wk of
        None \<Rightarrow> (None, st)
      | Some handler \<Rightarrow>
          if terminal_status \<noteq> Some ''APPROVED'' \<or> py_upper (tp_anomaly_type (tm_payload t)) \<noteq> ''VEHICLE_BREAKDOWN'' then (None, st)
          else (case handler t (ws_db st) of
                  (ok, db) \<Rightarrow> (if ok then None else Some ''VEHICLE_RESCUE_ORCHESTRATION_ERROR'', st\<lparr>ws_db := db\<rparr>)))"

definition ack_message :: "worker_env \<Rightarrow> stream_message \<Rightarrow> 'r worker_state \<Rightarrow> ('r, bool) worker_result" where
  "ack_message env m st =
     (case ack (we_ack env) (sm_message_id m) of
        (Inl e, calls) \<Rightarrow> (Inl (QueueFailed e), st\<lparr>ws_calls := ws_calls st @ calls\<rparr>)
      | (Inr n, calls) \<Rightarrow> (Inr (n = 1), st\<lparr>ws_calls := ws_calls st @ calls\<rparr>))"

text \<open>The publication and the rescue of a broken vehicle; the first error ends them.\<close>

definition post_process :: "'r worker \<Rightarrow> worker_env \<Rightarrow> task_message \<Rightarrow> string option \<Rightarrow> 'r worker_state \<Rightarrow> string option \<times> 'r worker_state" where
  "post_process wk env t terminal_status st =
     (case auto_publish wk env (tm_task_id t) terminal_status st of
        (Some e, st1) \<Rightarrow> (Some e, st1)
      | (None, st1) \<Rightarrow> handle_vehicle_breakdown wk t terminal_status st1)"

definition ack_terminal_replay :: "'r worker \<Rightarrow> worker_env \<Rightarrow> stream_message \<Rightarrow> string option \<Rightarrow> bool \<Rightarrow> 'r worker_state \<Rightarrow>
    ('r, worker_process_result) worker_result" where
  "ack_terminal_replay wk env m status reconciled st =
     (case post_process wk env (sm_task m) status st of
        (Some e, st1) \<Rightarrow>
          (Inr ((process_result m False status False (Some e))\<lparr>wr_idempotency_state := Some TERMINAL_STATE, wr_lock_acquired := Some True,
                  wr_reconciled := reconciled\<rparr>), st1)
      | (None, st1) \<Rightarrow>
          worker_bind (ack_message env m st1) (\<lambda>acknowledged st2.
            (Inr ((process_result m acknowledged status (status = Some ''REVIEW_REQUIRED'') None)
                    \<lparr>wr_idempotency_state := Some TERMINAL_STATE, wr_duplicate_skipped := True, wr_lock_acquired := Some True,
                     wr_reconciled := reconciled\<rparr>), st2)))"

section \<open>The graph\<close>

text \<open>\<open>run_streamed\<close> is a run of the checkpointed runner; \<open>Inl ()\<close> is any of its exceptions.\<close>

definition run_streamed :: "'r worker \<Rightarrow> string list \<Rightarrow> int \<Rightarrow> runtime_thread \<Rightarrow> pydict option \<Rightarrow> string option \<Rightarrow> 'r worker_state \<Rightarrow>
    (unit + pydict) \<times> 'r worker_state" where
  "run_streamed wk order max_bytes thread graph_input resume_key st =
     (if graph_input = None \<and> thread_terminal thread then (Inl (), st)
      else case wk_stream wk thread graph_input (ws_db st) of
        (updates, raised, db) \<Rightarrow>
          (case (case graph_input of
                   Some i \<Rightarrow> run_new order max_bytes (wk_consumer_name wk) thread i updates (lg_threads db)
                 | None \<Rightarrow> resume_run order max_bytes (wk_consumer_name wk) thread resume_key updates (lg_threads db)) of
             (Inl _, threads) \<Rightarrow> (Inl (), st\<lparr>ws_db := db\<lparr>lg_threads := threads\<rparr>\<rparr>)
           | (Inr final, threads) \<Rightarrow> (if raised then Inl () else Inr final, st\<lparr>ws_db := db\<lparr>lg_threads := threads\<rparr>\<rparr>)))"

definition run_thread :: "'r worker \<Rightarrow> string list \<Rightarrow> int \<Rightarrow> stream_message \<Rightarrow> runtime_thread \<Rightarrow> 'r worker_state \<Rightarrow>
    (unit + pydict) \<times> 'r worker_state" where
  "run_thread wk order max_bytes m thread st =
     (case th_current_checkpoint_id thread of
        None \<Rightarrow> run_streamed wk order max_bytes thread (Some (task_message_to_graph_input (sm_task m))) None st
      | Some checkpoint_id \<Rightarrow>
          (let resume_key = sm_message_id m @ '':'' @ show_int (case sm_delivery_count m of None \<Rightarrow> 1 | Some n \<Rightarrow> if n = 0 then 1 else n) @ '':'' @
                 wk_consumer_name wk
           in if th_status thread = STABLE
              then (case th_next_node thread of
                      None \<Rightarrow> (Inl (), st)
                    | Some next_node \<Rightarrow>
                        if \<not> wk_repository wk then (Inl (), st)
                        else case claim_next_node (lg_threads (ws_db st)) (th_thread_id thread) checkpoint_id (th_state_version thread) next_node
                                (wk_consumer_name wk) of
                               (Inl _, threads) \<Rightarrow> (Inl (), set_threads st threads)
                             | (Inr thread', threads) \<Rightarrow>
                                 run_streamed wk order max_bytes thread' None (Some resume_key) (set_threads st threads))
              else run_streamed wk order max_bytes thread None (Some resume_key) st))"

definition run_graph_on :: "'r worker \<Rightarrow> stream_message \<Rightarrow> runtime_thread option \<Rightarrow> 'r worker_state \<Rightarrow> (unit + pydict) \<times> 'r worker_state" where
  "run_graph_on wk m runtime_thread st =
     (case (wk_runner wk, runtime_thread) of
        (Some (order, max_bytes), Some thread) \<Rightarrow> run_thread wk order max_bytes m thread st
      | _ \<Rightarrow> (case wk_invoke wk (task_message_to_graph_input (sm_task m)) (ws_db st) of (final, db) \<Rightarrow> (final, st\<lparr>ws_db := db\<rparr>)))"

definition process_graph :: "'r worker \<Rightarrow> worker_env \<Rightarrow> stream_message \<Rightarrow> bool \<Rightarrow> runtime_thread option \<Rightarrow> 'r worker_state \<Rightarrow>
    ('r, worker_process_result) worker_result" where
  "process_graph wk env m acknowledge_terminal runtime_thread st =
     (case run_graph_on wk m runtime_thread st of
        (Inl _, st1) \<Rightarrow> (Inr (process_result m False (Some ''FAILED'') False (Some ''GRAPH_EXECUTION_ERROR'')), st1)
      | (Inr final, st1) \<Rightarrow>
          (case terminal_state final of
             (None, review, error_code) \<Rightarrow>
               (let paused = (wk_repository wk \<and>
                       (case thread_by_task_id (lg_threads (ws_db st1)) (tm_task_id (sm_task m)) of
                          None \<Rightarrow> False | Some thread \<Rightarrow> th_status thread = STABLE \<and> th_next_node thread \<noteq> None))
                in (Inr (if paused then process_result m False None False (Some ''RUNTIME_THREAD_PAUSED'')
                         else process_result m False None review error_code), st1))
           | (Some status, review, error_code) \<Rightarrow>
               worker_bind (if acknowledge_terminal then ack_message env m st1 else (Inr False, st1)) (\<lambda>acknowledged st2.
                 (Inr (process_result m acknowledged (Some status) review error_code), st2))))"

section \<open>A message\<close>

definition ledger_call :: "unit ledger_result \<Rightarrow> 'r worker_state \<Rightarrow> ('r, unit) worker_result" where
  "ledger_call res st =
     (case res of (Inl e, db) \<Rightarrow> (Inl (LedgerFailed e), st\<lparr>ws_db := db\<rparr>) | (Inr u, db) \<Rightarrow> (Inr (), st\<lparr>ws_db := db\<rparr>))"

text \<open>The end of a task whose result is on record: the thread, the ledger unless it has the status, and the acknowledgement.\<close>

definition replay_terminal :: "'r worker \<Rightarrow> worker_env \<Rightarrow> stream_message \<Rightarrow> idempotency_state \<Rightarrow> string option \<Rightarrow> bool \<Rightarrow> 'r worker_state \<Rightarrow>
    ('r, worker_process_result) worker_result" where
  "replay_terminal wk env m state status reconciled st =
     (let task_id = tm_task_id (sm_task m); mark_status = the (py_or status (Some ''COMPLETED''))
      in case mark_runtime_terminal wk env task_id mark_status None st of
           (MarkNone, st1) \<Rightarrow> (Inr (runtime_terminal_failure m state), st1)
         | (_, st1) \<Rightarrow>
             worker_bind (if reconciled then ledger_call (mark_task_terminal (ws_db st1) (ws_db st1) task_id mark_status (we_now env)) st1 else (Inr (), st1))
               (\<lambda>_ st2. ack_terminal_replay wk env m status reconciled st2))"

definition process_unlocked :: "'r worker \<Rightarrow> worker_env \<Rightarrow> stream_message \<Rightarrow> 'r worker_state \<Rightarrow> ('r, worker_process_result) worker_result" where
  "process_unlocked wk env m st =
     (let requires_post_processing = (wk_publications wk \<or> wk_breakdown wk \<noteq> None)
      in worker_bind (process_graph wk env m (\<not> requires_post_processing) None st) (\<lambda>result st1.
           if requires_post_processing \<and> wr_terminal_status result \<in> {Some ''APPROVED'', Some ''REVIEW_REQUIRED''}
           then (case post_process wk env (sm_task m) (wr_terminal_status result) st1 of
                   (Some e, st2) \<Rightarrow> (Inr (result\<lparr>wr_acknowledged := False, wr_error_code := Some e\<rparr>), st2)
                 | (None, st2) \<Rightarrow> worker_bind (ack_message env m st2) (\<lambda>acknowledged st3. (Inr (result\<lparr>wr_acknowledged := acknowledged\<rparr>), st3)))
           else (Inr result, st1)))"

text \<open>The end of a run that has a result, and the run of the graph under the lock, for a task that has none.\<close>

definition finish_execution :: "'r worker \<Rightarrow> worker_env \<Rightarrow> stream_message \<Rightarrow> idempotency_state \<Rightarrow> worker_process_result \<Rightarrow> string \<Rightarrow> 'r worker_state \<Rightarrow>
    ('r, worker_process_result) worker_result" where
  "finish_execution wk env m state result status st =
     (let task_id = tm_task_id (sm_task m); tagged = result\<lparr>wr_idempotency_state := Some state, wr_lock_acquired := Some True\<rparr>
      in case mark_runtime_terminal wk env task_id status None st of
           (MarkNone, st1) \<Rightarrow> (Inr (runtime_terminal_failure m state), st1)
         | (_, st1) \<Rightarrow>
             worker_bind (ledger_call (mark_task_terminal (ws_db st1) (ws_db st1) task_id status (we_now env)) st1) (\<lambda>_ st2.
               case post_process wk env (sm_task m) (Some status) st2 of
                 (Some e, st3) \<Rightarrow> (Inr (tagged\<lparr>wr_acknowledged := False, wr_error_code := Some e\<rparr>), st3)
               | (None, st3) \<Rightarrow> worker_bind (ack_message env m st3) (\<lambda>acknowledged st4. (Inr (tagged\<lparr>wr_acknowledged := acknowledged\<rparr>), st4))))"

definition execute_task :: "'r worker \<Rightarrow> worker_env \<Rightarrow> stream_message \<Rightarrow> idempotency_state \<Rightarrow> 'r worker_state \<Rightarrow>
    ('r, worker_process_result) worker_result" where
  "execute_task wk env m state st =
     (let tagged = (\<lambda>result. result\<lparr>wr_idempotency_state := Some state, wr_lock_acquired := Some True\<rparr>)
      in case runtime_thread_of wk (tm_task_id (sm_task m)) st of
           (Inl _, st1) \<Rightarrow> (Inr (tagged (process_result m False None False (Some ''RUNTIME_THREAD_RECONCILIATION_ERROR''))), st1)
         | (Inr thread, st1) \<Rightarrow>
             worker_bind (process_graph wk env m False thread st1) (\<lambda>result st2.
               if wr_terminal_status result \<in> {Some ''APPROVED'', Some ''REVIEW_REQUIRED''}
               then finish_execution wk env m state result (the (wr_terminal_status result)) st2
               else (Inr (tagged result), st2)))"

definition process_locked :: "'r worker \<Rightarrow> worker_env \<Rightarrow> stream_message \<Rightarrow> 'r worker_state \<Rightarrow> ('r, worker_process_result) worker_result" where
  "process_locked wk env m st =
     (let t = sm_task m
      in case begin_task (ws_db st) (ws_db st) (tm_task_id t) (tm_order_id t) (tm_idempotency_key t) None None of
           (Inl e, db) \<Rightarrow> (Inl (LedgerFailed e), st\<lparr>ws_db := db\<rparr>)
         | (Inr decision, db) \<Rightarrow>
             (let st1 = st\<lparr>ws_db := db\<rparr>; reconciliation = reconcile_existing_execution db (tm_task_id t)
              in case id_state decision of
                   TERMINAL_STATE \<Rightarrow> replay_terminal wk env m TERMINAL_STATE (id_existing_status decision) False st1
                 | IN_PROGRESS \<Rightarrow>
                     if reconciliation_terminal reconciliation
                     then replay_terminal wk env m IN_PROGRESS (er_terminal_status reconciliation) True st1
                     else execute_task wk env m IN_PROGRESS st1
                 | NEW \<Rightarrow>
                     worker_bind (ledger_call (mark_processing db db (tm_task_id t) (we_now env)) st1) (\<lambda>_ st2. execute_task wk env m NEW st2)))"

definition process_message :: "'r worker \<Rightarrow> worker_env \<Rightarrow> stream_message \<Rightarrow> 'r worker_state \<Rightarrow> ('r, worker_process_result) worker_result" where
  "process_message wk env m st =
     (case (if wk_idempotency wk then wk_lock wk else None) of
        None \<Rightarrow> process_unlocked wk env m st
      | Some (client, ttl_ms) \<Rightarrow>
          (case acquire client execution_lock_prefix ttl_ms (we_token env) (tm_idempotency_key (sm_task m)) (ws_locks st) of
             (Inl e, locks) \<Rightarrow> (Inl (LockFailed e), st\<lparr>ws_locks := locks\<rparr>)
           | (Inr handle, locks) \<Rightarrow>
               if \<not> lh_acquired handle
               then (Inr ((process_result m False (Some ''LOCKED'') False None)\<lparr>wr_lock_acquired := Some False\<rparr>), st\<lparr>ws_locks := locks\<rparr>)
               else (case process_locked wk env m (st\<lparr>ws_locks := locks\<rparr>) of
                       (result, st1) \<Rightarrow>
                         (case release client handle (ws_locks st1) of
                            (Inl e, locks') \<Rightarrow> (Inl (LockFailed e), st1\<lparr>ws_locks := locks'\<rparr>)
                          | (Inr _, locks') \<Rightarrow> (result, st1\<lparr>ws_locks := locks'\<rparr>)))))"

section \<open>Recovery\<close>

text \<open>\<open>Inr True\<close> means that another worker holds the lock.\<close>

definition execution_is_active :: "'r worker \<Rightarrow> worker_env \<Rightarrow> stream_message \<Rightarrow> 'r worker_state \<Rightarrow> ('r, bool) worker_result" where
  "execution_is_active wk env m st =
     (case wk_lock wk of
        None \<Rightarrow> (Inr False, st)
      | Some (client, ttl_ms) \<Rightarrow>
          (case acquire client execution_lock_prefix ttl_ms (we_probe_token env) (tm_idempotency_key (sm_task m)) (ws_locks st) of
             (Inl e, locks) \<Rightarrow> (Inl (LockFailed e), st\<lparr>ws_locks := locks\<rparr>)
           | (Inr probe, locks) \<Rightarrow>
               if \<not> lh_acquired probe then (Inr True, st\<lparr>ws_locks := locks\<rparr>)
               else (case release client probe locks of
                       (Inl e, locks') \<Rightarrow> (Inl (LockFailed e), st\<lparr>ws_locks := locks'\<rparr>)
                     | (Inr _, locks') \<Rightarrow> (Inr False, st\<lparr>ws_locks := locks'\<rparr>))))"

definition give_up :: "'r worker \<Rightarrow> worker_env \<Rightarrow> stream_message \<Rightarrow> int \<Rightarrow> 'r worker_state \<Rightarrow> ('r, worker_process_result) worker_result" where
  "give_up wk env m delivery_count st =
     (let task_id = tm_task_id (sm_task m); code = ''MAX_DELIVERY_ATTEMPTS_EXCEEDED''
      in case mark_runtime_terminal wk env task_id ''DLQ'' (Some code) st of
           (MarkNone, st1) \<Rightarrow>
             (Inr ((process_result m False None False (Some ''RUNTIME_THREAD_TERMINAL_ERROR''))\<lparr>wr_delivery_count := Some delivery_count\<rparr>), st1)
         | (_, st1) \<Rightarrow>
             worker_bind (if wk_idempotency wk then ledger_call (mark_task_terminal (ws_db st1) (ws_db st1) task_id ''DLQ'' (we_now env)) st1 else (Inr (), st1))
               (\<lambda>_ st2.
                 case move_to_dlq (isoformat (we_now env)) (we_stream_name env) (we_dead_letter env) (we_ack env) m ''Maximum delivery attempts exceeded.'' code
                        delivery_count of
                   (Inl e, calls) \<Rightarrow> (Inl (QueueFailed e), st2\<lparr>ws_calls := ws_calls st2 @ calls\<rparr>)
                 | (Inr _, calls) \<Rightarrow>
                     (Inr ((process_result m True (Some ''DLQ'') False (Some code))\<lparr>wr_delivery_count := Some delivery_count, wr_moved_to_dlq := True\<rparr>),
                      st2\<lparr>ws_calls := ws_calls st2 @ calls\<rparr>)))"

definition recover_message :: "'r worker \<Rightarrow> worker_env \<Rightarrow> stream_message \<Rightarrow> 'r worker_state \<Rightarrow> ('r, worker_process_result) worker_result" where
  "recover_message wk env m st =
     (case sm_delivery_count m of
        None \<Rightarrow> (Inr (process_result m False None False (Some ''DELIVERY_COUNT_UNAVAILABLE'')), st)
      | Some delivery_count \<Rightarrow>
          if should_retry (wk_retry_policy wk) delivery_count
          then worker_bind (process_message wk env m st) (\<lambda>result st1.
                 (Inr (result\<lparr>wr_delivery_count := Some delivery_count, wr_retried := True,
                              wr_backoff_ms := Some (backoff_ms (wk_retry_policy wk) delivery_count)\<rparr>), st1))
          else worker_bind (execution_is_active wk env m st) (\<lambda>active st1.
                 if active
                 then (Inr ((process_result m False (Some ''LOCKED'') False None)\<lparr>wr_delivery_count := Some delivery_count, wr_lock_acquired := Some False\<rparr>), st1)
                 else give_up wk env m delivery_count st1))"

text \<open>The messages of one read or of one claim, in their order; an exception ends the round.\<close>

fun handle_all :: "(worker_env \<Rightarrow> stream_message \<Rightarrow> 'r worker_state \<Rightarrow> ('r, worker_process_result) worker_result) \<Rightarrow>
    (worker_env \<times> stream_message) list \<Rightarrow> 'r worker_state \<Rightarrow> ('r, worker_process_result list) worker_result" where
  "handle_all f [] st = (Inr [], st)"
| "handle_all f ((env, m) # ms) st =
     worker_bind (f env m st) (\<lambda>result st1. worker_bind (handle_all f ms st1) (\<lambda>results st2. (Inr (result # results), st2)))"

text \<open>\<open>envs\<close> gives every message its answers and draws. A malformed message stops the round without an error.\<close>

definition worker_round :: "(worker_env \<Rightarrow> stream_message \<Rightarrow> 'r worker_state \<Rightarrow> ('r, worker_process_result) worker_result) \<Rightarrow>
    (stream_message \<Rightarrow> worker_env) \<Rightarrow> string option + unit \<Rightarrow> queue_error + stream_message list \<Rightarrow> 'r worker_state \<Rightarrow>
    ('r, worker_process_result list) worker_result" where
  "worker_round f envs group_reply messages st =
     (case ensure_consumer_group group_reply of
        Inl e \<Rightarrow> (Inl (QueueFailed e), st)
      | Inr _ \<Rightarrow>
          (case messages of
             Inl (QueueMessageError _) \<Rightarrow> (Inr [], st)
           | Inl e \<Rightarrow> (Inl (QueueFailed e), st)
           | Inr ms \<Rightarrow> handle_all f (map (\<lambda>m. (envs m, m)) ms) st))"

definition run_once :: "'r worker \<Rightarrow> (stream_message \<Rightarrow> worker_env) \<Rightarrow> string option + unit \<Rightarrow> queue_error + stream_message list \<Rightarrow> 'r worker_state \<Rightarrow>
    ('r, worker_process_result list) worker_result" where
  "run_once wk envs group_reply messages st = worker_round (process_message wk) envs group_reply messages st"

definition recover_once :: "'r worker \<Rightarrow> (stream_message \<Rightarrow> worker_env) \<Rightarrow> string option + unit \<Rightarrow> queue_error + stream_message list \<Rightarrow> 'r worker_state \<Rightarrow>
    ('r, worker_process_result list) worker_result" where
  "recover_once wk envs group_reply messages st = worker_round (recover_message wk) envs group_reply messages st"

section \<open>What is acknowledged is finished\<close>

definition finished :: "'r worker \<Rightarrow> string \<Rightarrow> ledger_db \<Rightarrow> bool" where
  "finished wk task_id db \<longleftrightarrow>
     (\<exists>t. task_by_id db task_id = Some t \<and> dt_status t \<in> set terminal_statuses \<and>
        (dt_status t = ''APPROVED'' \<and> wk_publications wk \<longrightarrow> publication_of db t \<noteq> None))"

text \<open>The rescue of a vehicle leaves tasks and publications alone.\<close>

definition rescue_ok :: "'r worker \<Rightarrow> bool" where
  "rescue_ok wk \<longleftrightarrow>
     (\<forall>h t db. wk_breakdown wk = Some h \<longrightarrow> lg_tasks (snd (h t db)) = lg_tasks db \<and> lg_publications (snd (h t db)) = lg_publications db)"

definition status_in :: "ledger_db \<Rightarrow> string \<Rightarrow> string \<Rightarrow> bool" where
  "status_in db task_id s \<longleftrightarrow> map_option dt_status (task_by_id db task_id) = Some s"

definition acks_finished :: "'r worker \<Rightarrow> stream_message \<Rightarrow> 'r worker_state \<Rightarrow> 'r worker_state \<Rightarrow> bool" where
  "acks_finished wk m st st' \<longleftrightarrow>
     ws_calls st' = ws_calls st \<or>
     ws_calls st' = ws_calls st @ [AckMessage (sm_message_id m)] \<and> finished wk (tm_task_id (sm_task m)) (ws_db st')"

lemma status_in_tasks: "lg_tasks db' = lg_tasks db \<Longrightarrow> status_in db' i s = status_in db i s"
  by (simp add: status_in_def task_by_id_def)

lemma publish_success:
  assumes "publish_dispatch db db i sub name clock = (Inr a, db')"
  shows "lg_tasks db' = lg_tasks db \<and> (\<forall>t. task_by_id db' i = Some t \<longrightarrow> publication_of db' t \<noteq> None)"
proof -
  have "lg_tasks db' = lg_tasks db"
    using publish_dispatch_cases [OF assms] insert_publication_cases by fastforce
  moreover have "publication_of db' t \<noteq> None" if t: "task_by_id db' i = Some t" for t
  proof -
    have t': "task_by_id db i = Some t" using t calculation by (simp add: task_by_id_def)
    then have i: "dt_task_id t = i" using task_by_idD by blast
    show ?thesis using assms t' i unfolding publish_dispatch_def insert_publication_def
      by (auto simp: Let_def publication_of_def first_match_append split: option.splits if_splits clock_time.splits)
  qed
  ultimately show ?thesis by blast
qed

lemma auto_publish_ok:
  assumes "auto_publish wk env i status st = (None, st')"
  shows "ws_calls st' = ws_calls st \<and> lg_tasks (ws_db st') = lg_tasks (ws_db st) \<and>
    (status = Some ''APPROVED'' \<and> wk_publications wk \<longrightarrow> (\<forall>t. task_by_id (ws_db st') i = Some t \<longrightarrow> publication_of (ws_db st') t \<noteq> None))"
  using assms publish_success unfolding auto_publish_def publish_automatically_def
  by (fastforce split: if_splits prod.splits sum.splits)

lemma handle_vehicle_breakdown_keeps:
  assumes "rescue_ok wk" "handle_vehicle_breakdown wk t status st = (e, st')"
  shows "ws_calls st' = ws_calls st \<and> lg_tasks (ws_db st') = lg_tasks (ws_db st) \<and> lg_publications (ws_db st') = lg_publications (ws_db st)"
  using assms unfolding handle_vehicle_breakdown_def rescue_ok_def
  by (auto split: option.splits if_splits prod.splits) (metis snd_conv)+

lemma post_process_calls: "post_process wk env t status st = (e, st') \<Longrightarrow> ws_calls st' = ws_calls st"
  by (auto simp: post_process_def auto_publish_def handle_vehicle_breakdown_def split: option.splits if_splits prod.splits sum.splits)

lemma post_process_finished:
  assumes "rescue_ok wk" "post_process wk env t (Some s) st = (None, st')" "status_in (ws_db st) (tm_task_id t) s" "s \<in> set terminal_statuses"
  shows "finished wk (tm_task_id t) (ws_db st')"
proof -
  obtain st1 where 1: "auto_publish wk env (tm_task_id t) (Some s) st = (None, st1)" "handle_vehicle_breakdown wk t (Some s) st1 = (None, st')"
    using assms(2) by (auto simp: post_process_def split: prod.splits option.splits)
  note a = auto_publish_ok [OF 1(1)] and h = handle_vehicle_breakdown_keeps [OF assms(1) 1(2)]
  have "status_in (ws_db st') (tm_task_id t) s" using assms(3) a h status_in_tasks by metis
  moreover have "task_by_id (ws_db st') i = task_by_id (ws_db st1) i" "publication_of (ws_db st') u = publication_of (ws_db st1) u" for i u
    using h by (simp_all add: task_by_id_def publication_of_def)
  ultimately show ?thesis using a assms(4) by (auto simp: finished_def status_in_def)
qed

lemma ack_message_calls: "ack_message env m st = (res, st') \<Longrightarrow> ws_calls st' = ws_calls st @ [AckMessage (sm_message_id m)] \<and> ws_db st' = ws_db st"
  by (auto simp: ack_message_def ack_def split: prod.splits sum.splits)

lemma worker_bind_cases:
  assumes "worker_bind x f = (res, st')"
  obtains e where "x = (Inl e, st')" "res = Inl e" | a st1 where "x = (Inr a, st1)" "f a st1 = (res, st')"
  using assms by (auto simp: worker_bind_def split: prod.splits sum.splits)

text \<open>The publication, the rescue and the acknowledgement of a task that has its status.\<close>

lemma post_process_then_ack:
  assumes ok: "rescue_ok wk" "status_in (ws_db st) (tm_task_id (sm_task m)) s" "s \<in> set terminal_statuses"
    and run: "(case post_process wk env (sm_task m) (Some s) st of (Some e, st1) \<Rightarrow> (Inr (f e), st1)
      | (None, st1) \<Rightarrow> worker_bind (ack_message env m st1) (\<lambda>a st2. (Inr (g a), st2))) = (res, st')"
  shows "acks_finished wk m st st'"
proof (cases "post_process wk env (sm_task m) (Some s) st")
  case (Pair e st1)
  have calls: "ws_calls st1 = ws_calls st" using post_process_calls [OF Pair] .
  show ?thesis
  proof (cases e)
    case (Some e')
    then show ?thesis using run Pair calls by (simp add: acks_finished_def)
  next
    case None
    then have fin: "finished wk (tm_task_id (sm_task m)) (ws_db st1)" using post_process_finished [OF ok(1) _ ok(2,3)] Pair by blast
    have "worker_bind (ack_message env m st1) (\<lambda>a st2. (Inr (g a), st2)) = (res, st')" using run Pair None by simp
    then have "\<exists>x. ack_message env m st1 = (x, st')" by (rule worker_bind_cases) auto
    then show ?thesis using ack_message_calls [of env m st1] fin calls by (auto simp: acks_finished_def)
  qed
qed

lemma ack_terminal_replay_finished:
  assumes "rescue_ok wk" "status_in (ws_db st) (tm_task_id (sm_task m)) s" "s \<in> set terminal_statuses"
    and "ack_terminal_replay wk env m (Some s) reconciled st = (res, st')"
  shows "acks_finished wk m st st'"
  using post_process_then_ack [OF assms(1-3) assms(4) [unfolded ack_terminal_replay_def]] .

lemma mark_runtime_terminal_keeps:
  "mark_runtime_terminal wk env i s e st = (x, st') \<Longrightarrow>
     ws_calls st' = ws_calls st \<and> lg_tasks (ws_db st') = lg_tasks (ws_db st)"
  by (auto simp: mark_runtime_terminal_def set_threads_def split: if_splits option.splits prod.splits sum.splits)

lemma ledger_call_calls: "ledger_call x st = (res, st') \<Longrightarrow> ws_calls st' = ws_calls st"
  by (auto simp: ledger_call_def split: prod.splits sum.splits)

lemma mark_task_terminal_status:
  assumes "ledger_call (mark_task_terminal (ws_db st) (ws_db st) i s now) st = (Inr u, st')"
  shows "status_in (ws_db st') i s"
  using assms by (auto simp: ledger_call_def mark_task_terminal_def set_status_def status_in_def task_by_id_update split: if_splits)

lemma replay_terminal_finished:
  assumes ok: "rescue_ok wk" "s \<in> set terminal_statuses" "reconciled \<or> status_in (ws_db st) (tm_task_id (sm_task m)) s"
    and run: "replay_terminal wk env m state (Some s) reconciled st = (res, st')"
  shows "acks_finished wk m st st'"
proof -
  let ?i = "tm_task_id (sm_task m)"
  have s: "the (py_or (Some s) (Some ''COMPLETED'')) = s" using ok(2) by (auto simp: py_or_def terminal_statuses_def)
  obtain x st1 where x: "mark_runtime_terminal wk env ?i s None st = (x, st1)" by fastforce
  note k = mark_runtime_terminal_keeps [OF x]
  show ?thesis
  proof (cases "x = MarkNone")
    case True
    then show ?thesis using run k x by (simp add: replay_terminal_def s Let_def acks_finished_def)
  next
    case False
    then have "worker_bind (if reconciled then ledger_call (mark_task_terminal (ws_db st1) (ws_db st1) ?i s (we_now env)) st1 else (Inr (), st1))
        (\<lambda>_ st2. ack_terminal_replay wk env m (Some s) reconciled st2) = (res, st')"
      using run x by (cases x) (simp_all add: replay_terminal_def s Let_def)
    then show ?thesis
    proof (cases rule: worker_bind_cases)
      case (1 e)
      then show ?thesis using k by (auto simp: acks_finished_def dest: ledger_call_calls split: if_splits)
    next
      case (2 a st2)
      have st2: "ws_calls st2 = ws_calls st" "status_in (ws_db st2) ?i s"
        using 2(1) ok(3) k status_in_tasks [of "ws_db st1" "ws_db st" ?i s]
        by (cases reconciled; auto dest: ledger_call_calls mark_task_terminal_status)+
      then show ?thesis using ack_terminal_replay_finished [OF ok(1) st2(2) ok(2) 2(2)] by (simp add: acks_finished_def)
    qed
  qed
qed

text \<open>The graph runs without a call to the queue.\<close>

lemma run_graph_on_calls: "run_graph_on wk m thread st = (x, st') \<Longrightarrow> ws_calls st' = ws_calls st"
  by (auto simp: run_graph_on_def run_thread_def run_streamed_def set_threads_def Let_def split: option.splits prod.splits sum.splits if_splits)

lemma process_graph_calls: "process_graph wk env m False thread st = (x, st') \<Longrightarrow> ws_calls st' = ws_calls st"
  by (auto simp: process_graph_def worker_bind_def Let_def dest: run_graph_on_calls split: option.splits prod.splits sum.splits if_splits)

lemma runtime_thread_of_calls: "runtime_thread_of wk i st = (x, st') \<Longrightarrow> ws_calls st' = ws_calls st"
  by (auto simp: runtime_thread_of_def set_threads_def split: option.splits prod.splits sum.splits if_splits)

lemma finish_execution_finished:
  assumes ok: "rescue_ok wk" "s \<in> set terminal_statuses" and run: "finish_execution wk env m state result s st = (res, st')"
  shows "acks_finished wk m st st'"
proof -
  let ?i = "tm_task_id (sm_task m)"
  obtain z st1 where z: "mark_runtime_terminal wk env ?i s None st = (z, st1)" by fastforce
  have c1: "ws_calls st1 = ws_calls st" using mark_runtime_terminal_keeps [OF z] by simp
  show ?thesis
  proof (cases "z = MarkNone")
    case True
    then show ?thesis using run z c1 by (simp add: finish_execution_def Let_def acks_finished_def)
  next
    case False
    let ?t = "result\<lparr>wr_idempotency_state := Some state, wr_lock_acquired := Some True\<rparr>"
    have "worker_bind (ledger_call (mark_task_terminal (ws_db st1) (ws_db st1) ?i s (we_now env)) st1) (\<lambda>_ st2.
        case post_process wk env (sm_task m) (Some s) st2 of
          (Some e, st3) \<Rightarrow> (Inr (?t\<lparr>wr_acknowledged := False, wr_error_code := Some e\<rparr>), st3)
        | (None, st3) \<Rightarrow> worker_bind (ack_message env m st3) (\<lambda>a st4. (Inr (?t\<lparr>wr_acknowledged := a\<rparr>), st4))) = (res, st')"
      using run z False unfolding finish_execution_def Let_def by (cases z) simp_all
    then show ?thesis
    proof (cases rule: worker_bind_cases)
      case (1 e)
      then show ?thesis using c1 by (auto simp: acks_finished_def dest: ledger_call_calls)
    next
      case (2 a st2)
      have c2: "ws_calls st2 = ws_calls st" using ledger_call_calls [OF 2(1)] c1 by simp
      show ?thesis
        using post_process_then_ack [OF ok(1) mark_task_terminal_status [OF 2(1)] ok(2) 2(2)] c2 by (simp add: acks_finished_def)
    qed
  qed
qed

lemma execute_task_finished:
  assumes ok: "rescue_ok wk" and run: "execute_task wk env m state st = (res, st')"
  shows "acks_finished wk m st st'"
proof -
  obtain x st1 where x: "runtime_thread_of wk (tm_task_id (sm_task m)) st = (x, st1)" by fastforce
  have c1: "ws_calls st1 = ws_calls st" using runtime_thread_of_calls [OF x] .
  show ?thesis
  proof (cases x)
    case (Inl u)
    then show ?thesis using run x c1 by (auto simp: execute_task_def Let_def acks_finished_def)
  next
    case (Inr thread)
    obtain y st2 where y: "process_graph wk env m False thread st1 = (y, st2)" by fastforce
    have c2: "ws_calls st2 = ws_calls st" using process_graph_calls [OF y] c1 by simp
    show ?thesis
    proof (cases "\<exists>result. y = Inr result \<and> wr_terminal_status result \<in> {Some ''APPROVED'', Some ''REVIEW_REQUIRED''}")
      case False
      then show ?thesis using run x y c2 Inr by (auto simp: execute_task_def Let_def acks_finished_def worker_bind_def split: sum.splits)
    next
      case True
      then obtain result s where r: "y = Inr result" "wr_terminal_status result = Some s" "s \<in> {''APPROVED'', ''REVIEW_REQUIRED''}" by blast
      then have "finish_execution wk env m state result s st2 = (res, st')"
        using run x y Inr by (auto simp: execute_task_def Let_def worker_bind_def)
      moreover have "s \<in> set terminal_statuses" using r(3) by (auto simp: terminal_statuses_def)
      ultimately have "acks_finished wk m st2 st'" using finish_execution_finished [OF ok] by blast
      then show ?thesis using c2 by (simp add: acks_finished_def)
    qed
  qed
qed

lemma reconciliation_terminal_status: "reconciliation_terminal e \<Longrightarrow> \<exists>s. er_terminal_status e = Some s \<and> s \<in> set terminal_statuses"
  unfolding reconciliation_terminal_def by (cases "er_terminal_status e") (auto simp: terminal_statuses_def)

lemma process_locked_finished:
  assumes ok: "rescue_ok wk" "ledger_ok (ws_db st)" and run: "process_locked wk env m st = (res, st')"
  shows "acks_finished wk m st st'"
proof -
  let ?i = "tm_task_id (sm_task m)"
  obtain x db where x: "begin_task (ws_db st) (ws_db st) ?i (tm_order_id (sm_task m)) (tm_idempotency_key (sm_task m)) None None = (x, db)" by fastforce
  let ?st = "st\<lparr>ws_db := db\<rparr>"
  have calls: "acks_finished wk m ?st st' = acks_finished wk m st st'" by (simp add: acks_finished_def)
  show ?thesis
  proof (cases x)
    case (Inl e)
    then show ?thesis using run x by (auto simp: process_locked_def Let_def acks_finished_def)
  next
    case (Inr d)
    show ?thesis
    proof (cases "id_state d")
      case NEW
      then have "worker_bind (ledger_call (mark_processing db db ?i (we_now env)) ?st) (\<lambda>_ st2. execute_task wk env m NEW st2) = (res, st')"
        using run x Inr by (simp add: process_locked_def Let_def)
      then show ?thesis
      proof (cases rule: worker_bind_cases)
        case (1 e)
        then show ?thesis by (auto simp: acks_finished_def dest: ledger_call_calls)
      next
        case (2 a st2)
        then show ?thesis using execute_task_finished [OF ok(1) 2(2)] ledger_call_calls [OF 2(1)] by (simp add: acks_finished_def)
      qed
    next
      case IN_PROGRESS
      let ?r = "reconcile_existing_execution db ?i"
      show ?thesis
      proof (cases "reconciliation_terminal ?r")
        case True
        then obtain s where s: "er_terminal_status ?r = Some s" "s \<in> set terminal_statuses"
          using reconciliation_terminal_status by blast
        have "replay_terminal wk env m IN_PROGRESS (Some s) True ?st = (res, st')"
          using run x Inr IN_PROGRESS True s by (simp add: process_locked_def Let_def)
        from replay_terminal_finished [OF ok(1) s(2) disjI1 this] show ?thesis by (simp add: calls)
      next
        case False
        then have "execute_task wk env m IN_PROGRESS ?st = (res, st')" using run x Inr IN_PROGRESS by (simp add: process_locked_def Let_def)
        from execute_task_finished [OF ok(1) this] show ?thesis by (simp add: calls)
      qed
    next
      case TERMINAL_STATE
      then obtain t where t: "existing_task (ws_db st) ?i (tm_idempotency_key (sm_task m)) = Inr (Some t)" "d = task_decision t" "db = ws_db st"
        using x Inr unfolding begin_task_def by (auto split: sum.splits option.splits if_splits)
      then have s: "dt_status t \<in> set terminal_statuses" "id_existing_status d = Some (dt_status t)"
        using TERMINAL_STATE by (auto simp: task_decision_def split: if_splits)
      have "status_in (ws_db ?st) ?i (dt_status t)"
        using existing_task_id [OF t(1)] task_by_id_mem [OF ok(2), of t] t(3) by (auto simp: status_in_def)
      moreover have "replay_terminal wk env m TERMINAL_STATE (Some (dt_status t)) False ?st = (res, st')"
        using run x Inr TERMINAL_STATE s(2) by (simp add: process_locked_def Let_def)
      ultimately show ?thesis using replay_terminal_finished [OF ok(1) s(1) disjI2] calls by blast
    qed
  qed
qed

lemma process_message_finished:
  assumes ok: "rescue_ok wk" "ledger_ok (ws_db st)" "wk_idempotency wk" "wk_lock wk = Some (client, ttl)"
    and run: "process_message wk env m st = (res, st')"
  shows "acks_finished wk m st st'"
proof -
  obtain x locks where x: "acquire client execution_lock_prefix ttl (we_token env) (tm_idempotency_key (sm_task m)) (ws_locks st) = (x, locks)" by fastforce
  show ?thesis
  proof (cases "\<exists>h. x = Inr h \<and> lh_acquired h")
    case False
    then show ?thesis using run x ok(3,4) by (auto simp: process_message_def acks_finished_def split: sum.splits if_splits)
  next
    case True
    then obtain h where h: "x = Inr h" "lh_acquired h" by blast
    obtain y st1 where y: "process_locked wk env m (st\<lparr>ws_locks := locks\<rparr>) = (y, st1)" by fastforce
    have "acks_finished wk m (st\<lparr>ws_locks := locks\<rparr>) st1" using process_locked_finished [OF ok(1) _ y] ok(2) by simp
    moreover have "\<exists>locks'. st' = st1\<lparr>ws_locks := locks'\<rparr>"
      using run x y h ok(3,4) by (auto simp: process_message_def split: prod.splits sum.splits)
    ultimately show ?thesis by (auto simp: acks_finished_def)
  qed
qed

text \<open>
  The calls of a message that is given up: first the dead letter, which names the message, its task and its failure and carries its payload, then the acknowledgement,
  and the latter only when Redis has accepted the former.
\<close>

definition buried :: "worker_env \<Rightarrow> stream_message \<Rightarrow> int \<Rightarrow> queue_call list \<Rightarrow> bool" where
  "buried env m n calls \<longleftrightarrow>
     (\<exists>letter reply. calls = [PublishDeadLetter (dead_letter_to_json letter), AckMessage (sm_message_id m)] \<and> we_dead_letter env = Inr reply \<and>
        dl_original_message_id letter = sm_message_id m \<and> dl_task_id letter = tm_task_id (sm_task m) \<and> dl_order_id letter = tm_order_id (sm_task m) \<and>
        dl_idempotency_key letter = tm_idempotency_key (sm_task m) \<and> dl_delivery_count letter = n \<and>
        dl_error_code letter = ''MAX_DELIVERY_ATTEMPTS_EXCEEDED'' \<and> read_payload (PDict (payload_dict (tm_payload (sm_task m)))) = Inr (dl_payload letter))"

lemma dead_letter_fields:
  assumes "dead_letter_from_stream_message now i t name why code n = Inr l"
  shows "dl_original_message_id l = i \<and> dl_task_id l = tm_task_id t \<and> dl_order_id l = tm_order_id t \<and> dl_idempotency_key l = tm_idempotency_key t \<and>
    dl_delivery_count l = n \<and> dl_error_code l = code \<and> read_payload (PDict (payload_dict (tm_payload t))) = Inr (dl_payload l)"
  using assms by (auto simp: dead_letter_from_stream_message_def res_bind_eq_Inr required_text_def positive_integer_def required_integer_def integer_of_def
      message_error_def text_of_Some split: option.splits if_splits)

lemma move_to_dlq_calls:
  assumes "move_to_dlq now name (we_dead_letter env) acked m why ''MAX_DELIVERY_ATTEMPTS_EXCEEDED'' n = (res, calls)" "AckMessage i \<in> set calls"
  shows "buried env m n calls"
proof -
  obtain l where l: "dead_letter_from_stream_message now (sm_message_id m) (sm_task m) name why ''MAX_DELIVERY_ATTEMPTS_EXCEEDED'' n = Inr l"
    using assms by (auto simp: move_to_dlq_def split: sum.splits)
  moreover have "calls = [PublishDeadLetter (dead_letter_to_json l), AckMessage (sm_message_id m)]" "\<exists>v. we_dead_letter env = Inr v"
    using assms l by (auto simp: move_to_dlq_def publish_dead_letter_def ack_def answered_def split: sum.splits prod.splits)
  ultimately show ?thesis using dead_letter_fields [OF l] by (auto simp: buried_def)
qed

lemma buried_ack: "buried env m n calls \<Longrightarrow> AckMessage i \<in> set calls \<Longrightarrow> i = sm_message_id m"
  by (auto simp: buried_def)

lemma give_up_calls:
  assumes "wk_idempotency wk" "give_up wk env m n st = (res, st')"
  shows "\<exists>calls. ws_calls st' = ws_calls st @ calls \<and>
    (\<forall>i. AckMessage i \<in> set calls \<longrightarrow> buried env m n calls \<and> status_in (ws_db st') (tm_task_id (sm_task m)) ''DLQ'')"
proof -
  let ?i = "tm_task_id (sm_task m)"
  obtain z st1 where z: "mark_runtime_terminal wk env ?i ''DLQ'' (Some ''MAX_DELIVERY_ATTEMPTS_EXCEEDED'') st = (z, st1)" by fastforce
  have c1: "ws_calls st1 = ws_calls st" using mark_runtime_terminal_keeps [OF z] by simp
  obtain y st2 where y: "ledger_call (mark_task_terminal (ws_db st1) (ws_db st1) ?i ''DLQ'' (we_now env)) st1 = (y, st2)" by fastforce
  have c2: "ws_calls st2 = ws_calls st" using ledger_call_calls [OF y] c1 by simp
  obtain w calls where w: "move_to_dlq (isoformat (we_now env)) (we_stream_name env) (we_dead_letter env) (we_ack env) m
      ''Maximum delivery attempts exceeded.'' ''MAX_DELIVERY_ATTEMPTS_EXCEEDED'' n = (w, calls)" by fastforce
  consider "ws_calls st' = ws_calls st" | u where "y = Inr u" "st' = st2\<lparr>ws_calls := ws_calls st2 @ calls\<rparr>"
    using assms z y w c1 c2 by (auto simp: give_up_def Let_def worker_bind_def split: terminal_mark.splits sum.splits)
  then show ?thesis
  proof cases
    case (2 u)
    then show ?thesis using c2 move_to_dlq_calls [OF w] mark_task_terminal_status [of st1 ?i "''DLQ''" "we_now env" u st2] y by auto
  qed auto
qed

text \<open>
  C29. A message is acknowledged only when its task is finished. Whether a worker with ledger and lock handles a new message or recovers a pending one,
  when it makes the call that acknowledges the message, the task has a terminal status in the ledger, and an approved task is published if the worker publishes. A pending message whose deliveries
  are used up is acknowledged only after Redis accepted its dead letter, which names the message, its task, order, key and number of deliveries and carries its payload, and then the task is recorded as DLQ;
  in all other cases the acknowledgement is the only call. The rescue of vehicles is assumed to leave tasks and publications alone.
\<close>

theorem acknowledged_is_finished:
  assumes "rescue_ok wk" "ledger_ok (ws_db st)" "wk_idempotency wk" "wk_lock wk = Some (client, ttl)"
    and "(if recovering then recover_message wk env m st else process_message wk env m st) = (res, st')"
  shows "\<exists>calls. ws_calls st' = ws_calls st @ calls \<and>
    (\<forall>i. AckMessage i \<in> set calls \<longrightarrow> i = sm_message_id m \<and> finished wk (tm_task_id (sm_task m)) (ws_db st') \<and>
       (if recovering \<and> (\<exists>n. sm_delivery_count m = Some n \<and> \<not> should_retry (wk_retry_policy wk) n)
        then buried env m (the (sm_delivery_count m)) calls \<and> status_in (ws_db st') (tm_task_id (sm_task m)) ''DLQ'' else calls = [AckMessage i]))"
proof -
  let ?up = "recovering \<and> (\<exists>n. sm_delivery_count m = Some n \<and> \<not> should_retry (wk_retry_policy wk) n)"
  have e: "ws_calls st1 = ws_calls st" if "execution_is_active wk env m st = (x, st1)" for x st1
    using that by (auto simp: execution_is_active_def split: option.splits prod.splits sum.splits if_splits)
  show ?thesis
  proof (cases ?up)
    case False
    then have "st' = st \<or> (\<exists>x. process_message wk env m st = (x, st'))"
      using assms(5) by (auto simp: recover_message_def worker_bind_def split: option.splits prod.splits sum.splits if_splits)
    then have "acks_finished wk m st st'" using process_message_finished [OF assms(1-4)] by (auto simp: acks_finished_def)
    then show ?thesis using False unfolding if_not_P [OF False] by (auto simp: acks_finished_def)
  next
    case True
    then obtain n where n: "sm_delivery_count m = Some n" "\<not> should_retry (wk_retry_policy wk) n" by blast
    then consider "ws_calls st' = ws_calls st" | st1 x where "ws_calls st1 = ws_calls st" "give_up wk env m n st1 = (x, st')"
      using True assms(5) e by (auto simp: recover_message_def worker_bind_def split: prod.splits sum.splits if_splits)
    then show ?thesis
    proof cases
      case 2
      have d: "finished wk i db" if "status_in db i ''DLQ''" for i db using that by (auto simp: finished_def status_in_def terminal_statuses_def)
      obtain calls where c: "ws_calls st' = ws_calls st @ calls"
        and a: "\<forall>i. AckMessage i \<in> set calls \<longrightarrow> buried env m n calls \<and> status_in (ws_db st') (tm_task_id (sm_task m)) ''DLQ''"
        using give_up_calls [OF assms(3) 2(2)] unfolding 2(1) by blast
      have "i = sm_message_id m \<and> finished wk (tm_task_id (sm_task m)) (ws_db st') \<and> buried env m n calls \<and> status_in (ws_db st') (tm_task_id (sm_task m)) ''DLQ''"
        if "AckMessage i \<in> set calls" for i using a [rule_format, OF that] buried_ack [OF _ that, of env m n] d by simp
      then show ?thesis unfolding if_P [OF True] unfolding n(1) option.sel using c by (intro exI [of _ calls]) simp
    qed auto
  qed
qed

section \<open>Replays\<close>

text \<open>The lock of the message is free and is given back.\<close>

definition lock_works :: "'r worker \<Rightarrow> worker_env \<Rightarrow> stream_message \<Rightarrow> 'r \<Rightarrow> bool" where
  "lock_works wk env m r \<longleftrightarrow> wk_idempotency wk \<and>
     (case wk_lock wk of None \<Rightarrow> False
      | Some (client, ttl) \<Rightarrow>
          (case acquire client execution_lock_prefix ttl (we_token env) (tm_idempotency_key (sm_task m)) r of
             (Inr h, r') \<Rightarrow> lh_acquired h \<and> (\<forall>r''. \<not> isl (fst (release client h r''))) | _ \<Rightarrow> False))"

lemma process_message_locked:
  assumes "lock_works wk env m (ws_locks st)" "\<And>locks. \<exists>st1. process_locked wk env m (st\<lparr>ws_locks := locks\<rparr>) = (Inr x, st1) \<and> P (ws_db st1)"
  shows "\<exists>st1. process_message wk env m st = (Inr x, st1) \<and> P (ws_db st1)"
proof -
  obtain client ttl where c: "wk_idempotency wk" "wk_lock wk = Some (client, ttl)"
    using assms(1) by (auto simp: lock_works_def split: option.splits prod.splits)
  then obtain h locks where h: "acquire client execution_lock_prefix ttl (we_token env) (tm_idempotency_key (sm_task m)) (ws_locks st) = (Inr h, locks)"
    "lh_acquired h" "\<And>r''. \<not> isl (fst (release client h r''))"
    using assms(1) unfolding lock_works_def by (auto split: prod.splits sum.splits)
  obtain st1 where s: "process_locked wk env m (st\<lparr>ws_locks := locks\<rparr>) = (Inr x, st1)" "P (ws_db st1)" using assms(2) by blast
  obtain b locks' where "release client h (ws_locks st1) = (Inr b, locks')"
    using h(3) [of "ws_locks st1"] by (cases "release client h (ws_locks st1)") (auto simp: isl_def, metis old.sum.exhaust)
  then show ?thesis using c h(1,2) s by (auto simp: process_message_def)
qed

lemma replay_acknowledged:
  assumes "s \<in> set terminal_statuses" "s \<noteq> ''APPROVED''" "we_ack env = Inr 1" "status_in (ws_db st) (tm_task_id (sm_task m)) x"
    and "mark_runtime_terminal wk env (tm_task_id (sm_task m)) s None st = (y, st1)" "y \<noteq> MarkNone"
  shows "\<exists>st2. replay_terminal wk env m state (Some s) reconciled st =
      (Inr ((process_result m True (Some s) (s = ''REVIEW_REQUIRED'') None)\<lparr>wr_idempotency_state := Some TERMINAL_STATE, wr_duplicate_skipped := True,
          wr_lock_acquired := Some True, wr_reconciled := reconciled\<rparr>), st2) \<and>
    lg_threads (ws_db st2) = lg_threads (ws_db st1) \<and> status_in (ws_db st2) (tm_task_id (sm_task m)) (if reconciled then s else x)"
proof -
  let ?i = "tm_task_id (sm_task m)"
  have s: "the (py_or (Some s) (Some ''COMPLETED'')) = s" using assms(1) by (auto simp: py_or_def terminal_statuses_def)
  have x: "status_in (ws_db st1) ?i x" using mark_runtime_terminal_keeps [OF assms(5)] assms(4) status_in_tasks by metis
  have post: "post_process wk env (sm_task m) (Some s) st' = (None, st')" for st' :: "'a worker_state"
    using assms(2) by (simp add: post_process_def auto_publish_def handle_vehicle_breakdown_def split: option.splits)
  obtain u where "task_by_id (ws_db st1) ?i = Some u" using x by (auto simp: status_in_def)
  then show ?thesis using assms(3,5,6) x
    by (cases y; cases reconciled) (simp_all add: replay_terminal_def s Let_def ack_terminal_replay_def post ack_message_def ack_def answered_def
        worker_bind_def ledger_call_def mark_task_terminal_def set_status_def status_in_def task_by_id_update, simp_all add: update_task_def)
qed

lemma decide_status:
  assumes "decide r w i dec why sub name clock = (Inr res, w')" "task_by_id w' i = Some t"
  shows "dt_status t = review_status dec"
proof -
  from decide_cases [OF assms(1)] obtain d tm v w2 x reason evidence where
    "flush_dispatch (update_task w i (\<lambda>t. t\<lparr>dt_status := review_status dec, dt_completed_at := Some tm\<rparr>)) d (review_status dec) = Some (v, w2)"
    "w' = add_audit w2 x (dp_id d) (review_status dec) reason evidence" by auto
  then have "lg_tasks w' = lg_tasks (update_task w i (\<lambda>t. t\<lparr>dt_status := review_status dec, dt_completed_at := Some tm\<rparr>))"
    by (auto simp: flush_dispatch_def add_audit_def update_task_def split: if_splits)
  then have "task_by_id (update_task w i (\<lambda>t. t\<lparr>dt_status := review_status dec, dt_completed_at := Some tm\<rparr>)) i = Some t"
    using assms(2) by (simp add: task_by_id_def)
  then show ?thesis by (auto simp: task_by_id_update)
qed

lemma flush_dispatch_map:
  assumes "flush_dispatch w d s = Some (v, w')"
  shows "\<exists>g. lg_dispatches w' = map g (lg_dispatches w) \<and> (\<forall>x. dp_id (g x) = dp_id x \<and> dp_task_id (g x) = dp_task_id x)"
proof (cases "dp_status d = s")
  case True
  then show ?thesis using assms by (intro exI [of _ id]) (simp add: flush_dispatch_def)
next
  case False
  then show ?thesis using assms
    by (intro exI [of _ "\<lambda>e. if dp_id e = dp_id d \<and> dp_version e = dp_version d then e\<lparr>dp_status := s, dp_version := dp_version d + 1\<rparr> else e"])
      (auto simp: flush_dispatch_def split: if_splits)
qed

text \<open>The rows that a decision leaves to the worker: the first audit record of the dispatch stays the first.\<close>

lemma decide_reconcile:
  assumes ok: "tables_ok w" and dec: "decide w w i dec why sub name clock = (Inr res, w')"
    and first: "er_terminal_status (reconcile_existing_execution w i) = Some s"
  shows "er_terminal_status (reconcile_existing_execution w' i) = Some s"
proof -
  from decide_cases [OF dec] obtain t d tm v w2 reason evidence where 1: "task_by_id w i = Some t"
    "flush_dispatch (update_task w i (\<lambda>t. t\<lparr>dt_status := review_status dec, dt_completed_at := Some tm\<rparr>)) d (review_status dec) = Some (v, w2)"
    "w' = add_audit w2 (dt_id t) (dp_id d) (review_status dec) reason evidence" by auto
  from first obtain e a where e: "first_match (\<lambda>d. dp_task_id d = Some (dt_id t)) (lg_dispatches w) = Some e"
    "first_match (\<lambda>a. au_task_id a = dt_id t \<and> au_dispatch_id a = dp_id e) (lg_audits w) = Some a" "au_result a = s"
    using 1(1) by (auto simp: reconcile_existing_execution_def Let_def split: option.splits)
  have rows: "lg_tasks w' = lg_tasks (update_task w i (\<lambda>t. t\<lparr>dt_status := review_status dec, dt_completed_at := Some tm\<rparr>))"
    "\<exists>b. lg_audits w' = lg_audits w @ [b]"
    using 1(2) unfolding 1(3) by (auto simp: flush_dispatch_def add_audit_def update_task_def split: if_splits)
  obtain g where g: "lg_dispatches w' = map g (lg_dispatches w)" "\<And>x. dp_id (g x) = dp_id x" "\<And>x. dp_task_id (g x) = dp_task_id x"
    using flush_dispatch_map [OF 1(2)] unfolding 1(3) by (auto simp: add_audit_def update_task_def)
  have t': "\<exists>u. task_by_id w' i = Some u \<and> dt_id u = dt_id t"
    using 1(1) rows(1) task_by_id_update [of "\<lambda>t. t\<lparr>dt_status := review_status dec, dt_completed_at := Some tm\<rparr>" w i i] by (auto simp: task_by_id_def)
  have "first_match (\<lambda>d. dp_task_id d = x) (map g ds) = map_option g (first_match (\<lambda>d. dp_task_id d = x) ds)" for x ds
    by (induction ds) (auto simp: g)
  then have "\<exists>e'. first_match (\<lambda>d. dp_task_id d = Some (dt_id t)) (lg_dispatches w') = Some e' \<and> dp_id e' = dp_id e"
    using e(1) by (simp add: g)
  moreover have "first_match (\<lambda>a. au_task_id a = dt_id t \<and> au_dispatch_id a = dp_id e) (lg_audits w') = Some a"
    using rows(2) e(2) by (auto simp: first_match_append)
  ultimately show ?thesis using t' e(3) by (auto simp: reconcile_existing_execution_def Let_def)
qed

text \<open>
  C30. The rejection of a plan by a reviewer does not last. The status \<open>REJECTED\<close> is not among the terminal statuses of the ledger: when the message of the task is
  delivered again after the decision, for instance because the worker stopped before it could acknowledge it, the worker takes the task for unfinished,
  finds the first audit record of the run, which asked for a review, sets the task back to \<open>REVIEW_REQUIRED\<close>, acknowledges the message and reports no error.
\<close>

theorem rejected_review_reopened:
  assumes "tables_ok db0" "decide db0 db0 (tm_task_id (sm_task m)) REJECT why sub name clock = (Inr res, db)"
    and "er_terminal_status (reconcile_existing_execution db0 (tm_task_id (sm_task m))) = Some ''REVIEW_REQUIRED''"
    and "map_option dt_idempotency_key (task_by_id db0 (tm_task_id (sm_task m))) = Some (tm_idempotency_key (sm_task m))"
    and "wk_repository wk \<longrightarrow> thread_by_task_id (lg_threads db) (tm_task_id (sm_task m)) \<noteq> None"
    and "lock_works wk env m (ws_locks st)" "we_ack env = Inr 1" "ws_db st = db"
  shows "status_in db (tm_task_id (sm_task m)) ''REJECTED'' \<and>
    (\<exists>r st'. process_message wk env m st = (Inr r, st') \<and> wr_acknowledged r \<and> wr_error_code r = None \<and>
       status_in (ws_db st') (tm_task_id (sm_task m)) ''REVIEW_REQUIRED'')"
proof -
  let ?i = "tm_task_id (sm_task m)" and ?k = "tm_idempotency_key (sm_task m)"
  have ok: "ledger_ok db" "ledger_later db0 db" using decide_keeps [OF _ assms(2)] assms(1) by (simp_all add: tables_ok_def)
  obtain t0 where t0: "task_by_id db0 ?i = Some t0" "dt_idempotency_key t0 = ?k" using assms(4) by auto
  from task_by_id_later [OF ok(2,1) t0(1)] obtain t where t: "task_by_id db ?i = Some t" "dt_idempotency_key t = ?k" using t0(2) by (auto simp: same_task_def)
  have rej: "dt_status t = ''REJECTED''" using decide_status [OF assms(2) t(1)] by (simp add: review_status_def)
  have k: "task_by_key db ?k = Some t" using task_by_key_mem [OF ok(1), of t] task_by_idD [OF t(1)] t(2) by simp
  have b: "begin_task db db ?i order ?k None None = (Inr (task_decision t), db)" for order
    using t k task_by_idD [OF t(1)] by (simp add: begin_task_def existing_task_def Let_def)
  have d: "id_state (task_decision t) = IN_PROGRESS" using rej by (simp add: task_decision_def terminal_statuses_def)
  note rec = decide_reconcile [OF assms(1-3)]
  then have rt: "reconciliation_terminal (reconcile_existing_execution db ?i)" by (simp add: reconciliation_terminal_def)
  let ?x = "(process_result m True (Some ''REVIEW_REQUIRED'') True None)\<lparr>wr_idempotency_state := Some TERMINAL_STATE, wr_duplicate_skipped := True,
      wr_lock_acquired := Some True, wr_reconciled := True\<rparr>"
  have "\<exists>st1. process_locked wk env m (st\<lparr>ws_locks := locks\<rparr>) = (Inr ?x, st1) \<and> status_in (ws_db st1) ?i ''REVIEW_REQUIRED''" for locks
  proof -
    let ?s = "st\<lparr>ws_locks := locks\<rparr>"
    have same: "?s\<lparr>ws_db := db\<rparr> = ?s" using assms(8) by (cases st) simp
    obtain y st1 where y: "mark_runtime_terminal wk env ?i ''REVIEW_REQUIRED'' None ?s = (y, st1)" by fastforce
    then have "y \<noteq> MarkNone" using assms(5,8) by (auto simp: mark_runtime_terminal_def split: if_splits option.splits prod.splits sum.splits)
    moreover have "process_locked wk env m ?s = replay_terminal wk env m IN_PROGRESS (Some ''REVIEW_REQUIRED'') True (?s\<lparr>ws_db := db\<rparr>)"
      using b d rec rt assms(8) by (simp add: process_locked_def Let_def)
    then have "process_locked wk env m ?s = replay_terminal wk env m IN_PROGRESS (Some ''REVIEW_REQUIRED'') True ?s" unfolding same .
    ultimately show ?thesis using replay_acknowledged [OF _ _ assms(7) _ y, of "''REJECTED''" IN_PROGRESS True] t(1) rej assms(8)
      by (auto simp: status_in_def terminal_statuses_def)
  qed
  from process_message_locked [OF assms(6) this] show ?thesis using t(1) rej by (auto simp: status_in_def process_result_def)
qed

text \<open>
  A write of the terminal thread that is refused makes \<open>_mark_runtime_terminal\<close> answer \<open>False\<close>, but the callers only test for \<open>None\<close>: the message is
  acknowledged without an error although its thread did not become terminal.
\<close>

theorem refused_terminal_write_acknowledged:
  assumes "ledger_ok (ws_db st)" "task_by_id (ws_db st) (tm_task_id (sm_task m)) = Some t" "dt_idempotency_key t = tm_idempotency_key (sm_task m)"
    and "dt_status t = ''REVIEW_REQUIRED''" "wk_repository wk" "thread_by_task_id (lg_threads (ws_db st)) (tm_task_id (sm_task m)) = Some th"
    and "mark_terminal (lg_threads (ws_db st)) (we_others env (lg_threads (ws_db st))) (th_thread_id th) ''terminal:REVIEW_REQUIRED'' (wk_consumer_name wk)
      (th_current_node th) None (we_now env) = (Inl e, threads)"
    and "lock_works wk env m (ws_locks st)" "we_ack env = Inr 1"
  shows "\<exists>r st'. process_message wk env m st = (Inr r, st') \<and> wr_acknowledged r \<and> wr_error_code r = None \<and> lg_threads (ws_db st') = threads"
proof -
  let ?i = "tm_task_id (sm_task m)" and ?k = "tm_idempotency_key (sm_task m)"
  have k: "task_by_key (ws_db st) ?k = Some t" using task_by_key_mem [OF assms(1), of t] task_by_idD [OF assms(2)] assms(3) by simp
  have b: "begin_task (ws_db st) (ws_db st) ?i order ?k None None = (Inr (task_decision t), ws_db st)" for order
    using assms(2,3) k task_by_idD [OF assms(2)] by (simp add: begin_task_def existing_task_def Let_def)
  have d: "id_state (task_decision t) = TERMINAL_STATE" "id_existing_status (task_decision t) = Some ''REVIEW_REQUIRED''"
    using assms(4) by (simp_all add: task_decision_def terminal_statuses_def)
  let ?x = "(process_result m True (Some ''REVIEW_REQUIRED'') True None)\<lparr>wr_idempotency_state := Some TERMINAL_STATE, wr_duplicate_skipped := True,
      wr_lock_acquired := Some True, wr_reconciled := False\<rparr>"
  have "\<exists>st1. process_locked wk env m (st\<lparr>ws_locks := locks\<rparr>) = (Inr ?x, st1) \<and> lg_threads (ws_db st1) = threads" for locks
  proof -
    let ?s = "st\<lparr>ws_locks := locks\<rparr>"
    have same: "?s\<lparr>ws_db := ws_db st\<rparr> = ?s" by (cases st) simp
    have y: "mark_runtime_terminal wk env ?i ''REVIEW_REQUIRED'' None ?s = (MarkFalse, set_threads ?s threads)"
      using assms(5-7) by (simp add: mark_runtime_terminal_def)
    have "process_locked wk env m ?s = replay_terminal wk env m TERMINAL_STATE (Some ''REVIEW_REQUIRED'') False (?s\<lparr>ws_db := ws_db st\<rparr>)"
      using b d by (simp add: process_locked_def Let_def)
    then have "process_locked wk env m ?s = replay_terminal wk env m TERMINAL_STATE (Some ''REVIEW_REQUIRED'') False ?s" unfolding same .
    then show ?thesis using replay_acknowledged [OF _ _ assms(9) _ y, of "''REVIEW_REQUIRED''" TERMINAL_STATE False] assms(2,4)
      by (auto simp: status_in_def terminal_statuses_def set_threads_def)
  qed
  from process_message_locked [OF assms(8), where P = "\<lambda>db. lg_threads db = threads", OF this] show ?thesis by (auto simp: process_result_def)
qed

section \<open>An example\<close>

definition sample_worker :: "(string \<rightharpoonup> string) worker" where
  "sample_worker =
     \<lparr>wk_consumer_name = ''worker-1'', wk_retry_policy = default_retry_policy, wk_idempotency = True, wk_lock = Some (map_client, 30000),
      wk_runner = None, wk_repository = True, wk_reconciler = None, wk_publications = True, wk_breakdown = None,
      wk_stream = (\<lambda>_ _ db. ([], False, db)), wk_invoke = (\<lambda>_ db. (Inl (), db))\<rparr>"

definition sample_env :: worker_env where
  "sample_env = \<lparr>we_now = 9, we_token = ''t1'', we_probe_token = ''t2'', we_ack = Inr 1, we_dead_letter = Inr (RStr ''2-0''),
     we_stream_name = ''dispatch'', we_others = (\<lambda>x. x)\<rparr>"

definition sample_delivery :: stream_message where
  "sample_delivery = \<lparr>sm_message_id = ''1-0'', sm_task = sample_message\<lparr>tm_task_id := ''T-1'', tm_order_id := 7, tm_idempotency_key := ''key-7''\<rparr>,
     sm_delivery_count = None, sm_metadata = []\<rparr>"

definition sample_state :: "ledger_db \<Rightarrow> (string \<rightharpoonup> string) worker_state" where
  "sample_state db = \<lparr>ws_db = db, ws_locks = Map.empty, ws_calls = []\<rparr>"

definition sample_rejected :: ledger_db where
  "sample_rejected = run_sessions [DecideReview ''T-1'' REJECT (Some ''no'') ''S-1'' ''Ann'' (Aware 5)] sample_waiting"

lemma sample_delivery_simps:
  "tm_task_id (sm_task sample_delivery) = ''T-1''" "tm_idempotency_key (sm_task sample_delivery) = ''key-7''" "sm_message_id sample_delivery = ''1-0''"
  by (simp_all add: sample_delivery_def)

lemma sample_lock_works: "lock_works sample_worker sample_env sample_delivery (ws_locks (sample_state db))"
  by (simp add: lock_works_def sample_worker_def sample_state_def acquire_def map_client_def release_def)

lemma sample_waiting_ok: "tables_ok sample_waiting"
  using ledger.reachable_invariant [OF sample_waiting_steps sample_tables_ok] by simp

lemmas sample_replay = process_message_def sample_worker_def sample_env_def sample_delivery_def sample_state_def acquire_def map_client_def
  process_locked_def begin_task_def existing_task_def task_by_id_def task_by_key_def sample_waiting_eq sample_task_def task_decision_def
  terminal_statuses_def replay_terminal_def mark_runtime_terminal_def thread_by_task_id_def new_thread_def mark_terminal_def get_by_thread_id_def
  event_by_key_def created_event_def py_or_def ack_terminal_replay_def post_process_def auto_publish_def handle_vehicle_breakdown_def ack_message_def
  ack_def answered_def worker_bind_def set_threads_def release_def Let_def commit_row_def flush_row_def put_thread_def sample_message_def

theorem acknowledged_is_finished_witness:
  "ws_calls (snd (process_message sample_worker sample_env sample_delivery (sample_state sample_waiting))) = [AckMessage ''1-0''] \<and>
     finished sample_worker ''T-1'' (ws_db (snd (process_message sample_worker sample_env sample_delivery (sample_state sample_waiting))))"
proof -
  let ?st = "sample_state sample_waiting"
  have wk: "rescue_ok sample_worker" "wk_idempotency sample_worker" "wk_lock sample_worker = Some (map_client, 30000)"
    by (simp_all add: rescue_ok_def sample_worker_def)
  have ok: "ledger_ok (ws_db ?st)" using sample_waiting_ok by (simp add: sample_state_def tables_ok_def)
  have c: "ws_calls (snd (process_message sample_worker sample_env sample_delivery ?st)) = [AckMessage ''1-0'']"
    by (simp add: sample_replay)
  obtain res st' where r: "process_message sample_worker sample_env sample_delivery ?st = (res, st')" by fastforce
  have "ws_calls ?st = []" by (simp add: sample_state_def)
  then show ?thesis using acknowledged_is_finished [OF wk(1) ok wk(2,3), of False sample_env sample_delivery res st'] c unfolding r
    by (simp add: sample_delivery_simps)
qed

theorem rejected_review_reopened_witness:
  "status_in sample_rejected ''T-1'' ''REJECTED'' \<and>
     (\<exists>st'. snd (process_message sample_worker sample_env sample_delivery (sample_state sample_rejected)) = st' \<and>
        status_in (ws_db st') ''T-1'' ''REVIEW_REQUIRED'')"
proof -
  note sample_decided(2) [of "''S-1''" "''Ann''" 5]
  moreover have "snd (decide sample_waiting sample_waiting ''T-1'' REJECT (Some ''no'') ''S-1'' ''Ann'' (Aware 5)) = sample_rejected"
    by (simp add: sample_rejected_def run_sessions_def)
  ultimately obtain res where d: "decide sample_waiting sample_waiting (tm_task_id (sm_task sample_delivery)) REJECT (Some ''no'') ''S-1'' ''Ann'' (Aware 5) =
      (Inr res, sample_rejected)" unfolding sample_delivery_simps by (metis isl_def prod.collapse sum.collapse(2))
  have a: "er_terminal_status (reconcile_existing_execution sample_waiting (tm_task_id (sm_task sample_delivery))) = Some ''REVIEW_REQUIRED''"
    "map_option dt_idempotency_key (task_by_id sample_waiting (tm_task_id (sm_task sample_delivery))) = Some (tm_idempotency_key (sm_task sample_delivery))"
    by (simp_all add: sample_delivery_simps reconcile_existing_execution_def task_by_id_def sample_waiting_eq sample_task_def sample_plan_def
        sample_verdict_def Let_def)
  have th: "thread_by_task_id (lg_threads sample_rejected) (tm_task_id (sm_task sample_delivery)) \<noteq> None"
    by (simp add: sample_delivery_simps sample_rejected_def run_sessions_def sample_decide thread_by_task_id_def new_thread_def)
  from rejected_review_reopened [OF sample_waiting_ok d a _ sample_lock_works [of sample_rejected]] th
  show ?thesis by (auto simp: sample_delivery_simps sample_env_def sample_state_def)
qed

end

