(* ===== verification/Vehicle_Operations.thy ===== *)
theory Vehicle_Operations
  imports Path_Finder Reviews Task_Messages
begin

text \<open>
  The life of a vehicle that has broken down (\<open>vehicle_operations/models.py\<close>, \<open>sqlalchemy_repository.py\<close>, \<open>service.py\<close>, \<open>inspection.py\<close>, \<open>progressor.py\<close> and
  \<open>dispatch_bridge.py\<close>): a rescue unit tows it to a station, a bay repairs it, an inspection releases it. Each method of the repository is one transaction. It locks
  the rows it writes (\<open>FOR UPDATE\<close>), so it is modelled as a function of the tables as they are when it has its locks; an error leaves them as they were.
  Only \<open>create_breakdown_case\<close> also looks for an earlier case before it locks anything, in tables \<open>r\<close> that may be older. Rows that another session has locked are
  skipped where the code says \<open>skip_locked\<close>. Rows are listed in the order of their ids. The version of a row grows by one with each flush that changes it, and a
  query flushes what was assigned before it. Points in time are integers, in microseconds.
\<close>

section \<open>Statuses: models.py\<close>

datatype vehicle_operational_status =
    V_AVAILABLE | V_RESERVED | V_IN_TRANSIT | V_DISPATCHING | V_BROKEN | V_WAITING_RESCUE | V_IN_RESCUE | V_MAINTENANCE | V_QA_PENDING | V_OUT_OF_SERVICE

datatype rescue_status = R_CREATED | R_DISPATCHED | R_ARRIVED | R_LOADED | R_DELIVERED | R_FAILED | R_CANCELLED

datatype maintenance_status =
    M_SCHEDULED | M_WAITING_BAY | M_DIAGNOSING | M_REPAIRING | M_QA_PENDING | M_COMPLETED | M_FAILED | M_CANCELLED

fun vehicle_status_value :: "vehicle_operational_status \<Rightarrow> string" where
  "vehicle_status_value V_AVAILABLE = ''AVAILABLE''"
| "vehicle_status_value V_RESERVED = ''RESERVED''"
| "vehicle_status_value V_IN_TRANSIT = ''IN_TRANSIT''"
| "vehicle_status_value V_DISPATCHING = ''DISPATCHING''"
| "vehicle_status_value V_BROKEN = ''BROKEN''"
| "vehicle_status_value V_WAITING_RESCUE = ''WAITING_RESCUE''"
| "vehicle_status_value V_IN_RESCUE = ''IN_RESCUE''"
| "vehicle_status_value V_MAINTENANCE = ''MAINTENANCE''"
| "vehicle_status_value V_QA_PENDING = ''QA_PENDING''"
| "vehicle_status_value V_OUT_OF_SERVICE = ''OUT_OF_SERVICE''"

definition vehicle_status_of :: "string \<Rightarrow> vehicle_operational_status option" where
  "vehicle_status_of s = first_match (\<lambda>v. vehicle_status_value v = s)
     [V_AVAILABLE, V_RESERVED, V_IN_TRANSIT, V_DISPATCHING, V_BROKEN, V_WAITING_RESCUE, V_IN_RESCUE, V_MAINTENANCE, V_QA_PENDING, V_OUT_OF_SERVICE]"

fun rescue_value :: "rescue_status \<Rightarrow> string" where
  "rescue_value R_CREATED = ''CREATED''"
| "rescue_value R_DISPATCHED = ''DISPATCHED''"
| "rescue_value R_ARRIVED = ''ARRIVED''"
| "rescue_value R_LOADED = ''LOADED''"
| "rescue_value R_DELIVERED = ''DELIVERED''"
| "rescue_value R_FAILED = ''FAILED''"
| "rescue_value R_CANCELLED = ''CANCELLED''"

fun maintenance_value :: "maintenance_status \<Rightarrow> string" where
  "maintenance_value M_SCHEDULED = ''SCHEDULED''"
| "maintenance_value M_WAITING_BAY = ''WAITING_BAY''"
| "maintenance_value M_DIAGNOSING = ''DIAGNOSING''"
| "maintenance_value M_REPAIRING = ''REPAIRING''"
| "maintenance_value M_QA_PENDING = ''QA_PENDING''"
| "maintenance_value M_COMPLETED = ''COMPLETED''"
| "maintenance_value M_FAILED = ''FAILED''"
| "maintenance_value M_CANCELLED = ''CANCELLED''"

fun vehicle_transitions :: "vehicle_operational_status \<Rightarrow> vehicle_operational_status list" where
  "vehicle_transitions V_AVAILABLE = [V_RESERVED, V_DISPATCHING, V_BROKEN]"
| "vehicle_transitions V_RESERVED = [V_DISPATCHING]"
| "vehicle_transitions V_DISPATCHING = [V_IN_TRANSIT]"
| "vehicle_transitions V_IN_TRANSIT = [V_BROKEN]"
| "vehicle_transitions V_BROKEN = [V_WAITING_RESCUE]"
| "vehicle_transitions V_WAITING_RESCUE = [V_IN_RESCUE]"
| "vehicle_transitions V_IN_RESCUE = [V_MAINTENANCE]"
| "vehicle_transitions V_MAINTENANCE = [V_QA_PENDING]"
| "vehicle_transitions V_QA_PENDING = [V_AVAILABLE, V_OUT_OF_SERVICE]"
| "vehicle_transitions V_OUT_OF_SERVICE = []"

fun rescue_transitions :: "rescue_status \<Rightarrow> rescue_status list" where
  "rescue_transitions R_CREATED = [R_DISPATCHED, R_CANCELLED]"
| "rescue_transitions R_DISPATCHED = [R_ARRIVED, R_FAILED, R_CANCELLED]"
| "rescue_transitions R_ARRIVED = [R_LOADED, R_FAILED, R_CANCELLED]"
| "rescue_transitions R_LOADED = [R_DELIVERED, R_FAILED, R_CANCELLED]"
| "rescue_transitions _ = []"

fun maintenance_transitions :: "maintenance_status \<Rightarrow> maintenance_status list" where
  "maintenance_transitions M_SCHEDULED = [M_WAITING_BAY, M_CANCELLED]"
| "maintenance_transitions M_WAITING_BAY = [M_DIAGNOSING, M_CANCELLED]"
| "maintenance_transitions M_DIAGNOSING = [M_REPAIRING, M_FAILED]"
| "maintenance_transitions M_REPAIRING = [M_QA_PENDING, M_FAILED]"
| "maintenance_transitions M_QA_PENDING = [M_COMPLETED, M_FAILED]"
| "maintenance_transitions _ = []"

datatype operation_error =
    VehicleOperationNotFound string
  | VehicleOperationsConflict string
  | InvalidStateTransition string
  | InvalidStatusValue string
  | OperationIntegrityError
  | OperationKeyError
  | OperationAttributeError
  | RescueRouteUnavailable string
  | RescueSearchFailed road_error
  | VehicleBreakdownContextMissing string

definition require_transition :: "('s \<Rightarrow> string) \<Rightarrow> ('s \<Rightarrow> 's list) \<Rightarrow> 's \<Rightarrow> 's \<Rightarrow> operation_error + unit" where
  "require_transition val transitions current target =
     (if target \<in> set (transitions current) then Inr ()
      else Inl (InvalidStateTransition (''Invalid transition: '' @ val current @ '' -> '' @ val target)))"

definition require_vehicle_transition :: "vehicle_operational_status \<Rightarrow> vehicle_operational_status \<Rightarrow> operation_error + unit" where
  "require_vehicle_transition = require_transition vehicle_status_value vehicle_transitions"

definition require_rescue_transition :: "rescue_status \<Rightarrow> rescue_status \<Rightarrow> operation_error + unit" where
  "require_rescue_transition = require_transition rescue_value rescue_transitions"

definition require_maintenance_transition :: "maintenance_status \<Rightarrow> maintenance_status \<Rightarrow> operation_error + unit" where
  "require_maintenance_transition = require_transition maintenance_value maintenance_transitions"

section \<open>Tables\<close>

text \<open>The statuses of missions and orders come from the enumerations. Besides this component only the demo reset (\<open>demo_reset/service.py\<close>), which is not modelled, writes them: it cancels what is open.\<close>

record rescue_unit =
  ru_unit_id :: string
  ru_name :: string
  ru_plate_no :: string
  ru_unit_type :: string
  ru_status :: string
  ru_current_node_id :: string
  ru_capacity_tons :: rat
  ru_version :: int

record rescue_mission =
  rm_mission_no :: string
  rm_task_id :: string
  rm_vehicle_id :: string
  rm_rescue_unit_id :: string
  rm_status :: rescue_status
  rm_incident_node_id :: string
  rm_station_node_id :: string
  rm_outbound_edge_ids :: "string list"
  rm_tow_edge_ids :: "string list"
  rm_next_transition_at :: "int option"
  rm_attempt_count :: int
  rm_failure_reason :: "string option"
  rm_version :: int

record maintenance_bay =
  mb_bay_code :: string
  mb_station_id :: string
  mb_status :: string
  mb_current_order_no :: "string option"
  mb_version :: int

record maintenance_order =
  mo_order_no :: string
  mo_task_id :: string
  mo_vehicle_id :: string
  mo_bay_code :: "string option"
  mo_status :: maintenance_status
  mo_fault_code :: string
  mo_diagnosis :: "string option"
  mo_repair_minutes :: int
  mo_manual_inspection_required :: bool
  mo_inspection_result :: "string option"
  mo_next_transition_at :: "int option"
  mo_available_after :: "int option"
  mo_version :: int

record vehicle_status_history =
  vh_vehicle_id :: string
  vh_task_id :: string
  vh_from_status :: string
  vh_to_status :: string
  vh_reason :: string
  vh_changed_at :: int

record domain_outbox =
  ob_event_id :: string
  ob_task_id :: string
  ob_aggregate_type :: string
  ob_aggregate_id :: string
  ob_event_type :: string
  ob_payload_json :: pydict
  ob_created_at :: int
  ob_published_at :: "int option"
  ob_attempt_count :: int
  ob_last_error :: "string option"

text \<open>\<open>op_task_ids\<close> and \<open>op_node_ids\<close> are the keys of the tasks and the road nodes that other tables refer to.\<close>

record operations_db =
  op_vehicles :: "vehicle_row list"
  op_units :: "rescue_unit list"
  op_bays :: "maintenance_bay list"
  op_missions :: "rescue_mission list"
  op_orders :: "maintenance_order list"
  op_history :: "vehicle_status_history list"
  op_outbox :: "domain_outbox list"
  op_task_ids :: "string list"
  op_node_ids :: "string list"

text \<open>
  What a transaction meets besides the tables: whether another session has locked a row, named by its key, and the id and the time that the event with a
  number gets, both drawn afresh (\<open>uuid4\<close>, \<open>datetime.now\<close>).
\<close>

record operation_env =
  en_locked :: "string \<Rightarrow> bool"
  en_draw :: "nat \<Rightarrow> string \<times> int"

text \<open>A flush writes the rows that have changed, with a new version.\<close>

definition touch_vehicle :: "vehicle_row \<Rightarrow> vehicle_row \<Rightarrow> vehicle_row" where
  "touch_vehicle old new = (if new = old then old else new\<lparr>vr_version := vr_version old + 1\<rparr>)"

definition touch_unit :: "rescue_unit \<Rightarrow> rescue_unit \<Rightarrow> rescue_unit" where
  "touch_unit old new = (if new = old then old else new\<lparr>ru_version := ru_version old + 1\<rparr>)"

definition touch_bay :: "maintenance_bay \<Rightarrow> maintenance_bay \<Rightarrow> maintenance_bay" where
  "touch_bay old new = (if new = old then old else new\<lparr>mb_version := mb_version old + 1\<rparr>)"

definition touch_mission :: "rescue_mission \<Rightarrow> rescue_mission \<Rightarrow> rescue_mission" where
  "touch_mission old new = (if new = old then old else new\<lparr>rm_version := rm_version old + 1\<rparr>)"

definition touch_order :: "maintenance_order \<Rightarrow> maintenance_order \<Rightarrow> maintenance_order" where
  "touch_order old new = (if new = old then old else new\<lparr>mo_version := mo_version old + 1\<rparr>)"

definition put_row :: "('r \<Rightarrow> string) \<Rightarrow> 'r \<Rightarrow> 'r list \<Rightarrow> 'r list" where
  "put_row key new rows = map (\<lambda>r. if key r = key new then new else r) rows"

definition store_vehicle :: "vehicle_row \<Rightarrow> operations_db \<Rightarrow> operations_db" where
  "store_vehicle v db = db\<lparr>op_vehicles := put_row vr_vehicle_id v (op_vehicles db)\<rparr>"

definition store_unit :: "rescue_unit \<Rightarrow> operations_db \<Rightarrow> operations_db" where
  "store_unit u db = db\<lparr>op_units := put_row ru_unit_id u (op_units db)\<rparr>"

definition store_bay :: "maintenance_bay \<Rightarrow> operations_db \<Rightarrow> operations_db" where
  "store_bay b db = db\<lparr>op_bays := put_row mb_bay_code b (op_bays db)\<rparr>"

definition store_mission :: "rescue_mission \<Rightarrow> operations_db \<Rightarrow> operations_db" where
  "store_mission m db = db\<lparr>op_missions := put_row rm_mission_no m (op_missions db)\<rparr>"

definition store_order :: "maintenance_order \<Rightarrow> operations_db \<Rightarrow> operations_db" where
  "store_order x db = db\<lparr>op_orders := put_row mo_order_no x (op_orders db)\<rparr>"

definition add_history :: "vehicle_status_history list \<Rightarrow> operations_db \<Rightarrow> operations_db" where
  "add_history hs db = db\<lparr>op_history := op_history db @ hs\<rparr>"

definition mission_of_task :: "operations_db \<Rightarrow> string \<Rightarrow> rescue_mission option" where
  "mission_of_task db task_id = first_match (\<lambda>m. rm_task_id m = task_id) (op_missions db)"

definition order_of_task :: "operations_db \<Rightarrow> string \<Rightarrow> maintenance_order option" where
  "order_of_task db task_id = first_match (\<lambda>x. mo_task_id x = task_id) (op_orders db)"

definition unit_of :: "operations_db \<Rightarrow> string \<Rightarrow> rescue_unit option" where
  "unit_of db unit_id = first_match (\<lambda>u. ru_unit_id u = unit_id) (op_units db)"

section \<open>Snapshots: models.py\<close>

record rescue_mission_snapshot =
  rx_mission_no :: string
  rx_task_id :: string
  rx_vehicle_id :: string
  rx_rescue_unit_id :: string
  rx_status :: rescue_status
  rx_incident_node_id :: string
  rx_station_node_id :: string
  rx_outbound_edge_ids :: "string list"
  rx_tow_edge_ids :: "string list"
  rx_next_transition_at :: "int option"
  rx_version :: int

record maintenance_order_snapshot =
  mx_order_no :: string
  mx_task_id :: string
  mx_vehicle_id :: string
  mx_bay_code :: "string option"
  mx_status :: maintenance_status
  mx_fault_code :: string
  mx_diagnosis :: "string option"
  mx_repair_minutes :: int
  mx_manual_inspection_required :: bool
  mx_next_transition_at :: "int option"
  mx_available_after :: "int option"
  mx_version :: int
  mx_inspection_result :: "string option"

record operation_case =
  cx_task_id :: string
  cx_vehicle_id :: string
  cx_vehicle_status :: string
  cx_replacement_vehicle_id :: "string option"
  cx_replacement_vehicle_status :: "string option"
  cx_mission :: rescue_mission_snapshot
  cx_maintenance :: maintenance_order_snapshot
  cx_replacement_edge_ids :: "string list"

record breakdown_case_request =
  bc_task_id :: string
  bc_vehicle_id :: string
  bc_replacement_vehicle_id :: "string option"
  bc_rescue_unit_id :: string
  bc_incident_node_id :: string
  bc_station_node_id :: string
  bc_outbound_edge_ids :: "string list"
  bc_tow_edge_ids :: "string list"
  bc_fault_code :: string
  bc_diagnosis :: string
  bc_repair_minutes :: int
  bc_manual_inspection_required :: bool
  bc_occurred_at :: int
  bc_replacement_edge_ids :: "string list"

fun rescue_progress :: "rescue_status \<Rightarrow> int" where
  "rescue_progress R_CREATED = 0"
| "rescue_progress R_DISPATCHED = 25"
| "rescue_progress R_ARRIVED = 50"
| "rescue_progress R_LOADED = 75"
| "rescue_progress R_DELIVERED = 100"
| "rescue_progress R_FAILED = 100"
| "rescue_progress R_CANCELLED = 100"

fun maintenance_progress :: "maintenance_status \<Rightarrow> int" where
  "maintenance_progress M_SCHEDULED = 0"
| "maintenance_progress M_WAITING_BAY = 15"
| "maintenance_progress M_DIAGNOSING = 35"
| "maintenance_progress M_REPAIRING = 68"
| "maintenance_progress M_QA_PENDING = 90"
| "maintenance_progress M_COMPLETED = 100"
| "maintenance_progress M_FAILED = 100"
| "maintenance_progress M_CANCELLED = 100"

text \<open>A deadline and a clock of which only one has a time zone are compared as if both had it.\<close>

definition seconds_remaining :: "maintenance_order_snapshot \<Rightarrow> int \<Rightarrow> int option" where
  "seconds_remaining x now = map_option (\<lambda>deadline. max 0 ((deadline - now) div 1000000)) (mx_available_after x)"

section \<open>The repository: sqlalchemy_repository.py\<close>

definition vehicle_node :: "operations_db \<Rightarrow> string \<Rightarrow> operation_error + string" where
  "vehicle_node db vehicle_id =
     (case first_match (\<lambda>v. vr_vehicle_id v = vehicle_id) (op_vehicles db) of
        None \<Rightarrow> Inl (VehicleOperationNotFound vehicle_id)
      | Some v \<Rightarrow> Inr (vr_current_node_id v))"

definition vehicle_for_update :: "operations_db \<Rightarrow> string \<Rightarrow> operation_error + vehicle_row" where
  "vehicle_for_update db vehicle_id =
     (case first_match (\<lambda>v. vr_vehicle_id v = vehicle_id) (op_vehicles db) of
        None \<Rightarrow> Inl (VehicleOperationNotFound vehicle_id)
      | Some v \<Rightarrow> Inr v)"

definition transition_vehicle :: "vehicle_row \<Rightarrow> vehicle_operational_status \<Rightarrow> string \<Rightarrow> string \<Rightarrow> int \<Rightarrow>
    operation_error + (vehicle_row \<times> vehicle_status_history)" where
  "transition_vehicle v target reason task_id now =
     (case vehicle_status_of (vr_status v) of
        None \<Rightarrow> Inl (InvalidStatusValue (vr_status v))
      | Some current \<Rightarrow>
          res_bind (require_vehicle_transition current target) (\<lambda>_.
            Inr (v\<lparr>vr_status := vehicle_status_value target, vr_status_reason := Some reason, vr_status_changed_at := Some now\<rparr>,
                 \<lparr>vh_vehicle_id = vr_vehicle_id v, vh_task_id = task_id, vh_from_status = vehicle_status_value current,
                  vh_to_status = vehicle_status_value target, vh_reason = reason, vh_changed_at = now\<rparr>)))"

definition add_event :: "operation_env \<Rightarrow> string \<Rightarrow> string \<Rightarrow> string \<Rightarrow> string \<Rightarrow> pydict \<Rightarrow> operations_db \<Rightarrow> operations_db" where
  "add_event env task_id aggregate_type aggregate_id event_type payload db =
     (let n = length (op_outbox db)
      in db\<lparr>op_outbox := op_outbox db @
              [\<lparr>ob_event_id = ''EVT-'' @ fst (en_draw env n), ob_task_id = task_id, ob_aggregate_type = aggregate_type,
                ob_aggregate_id = aggregate_id, ob_event_type = event_type, ob_payload_json = payload, ob_created_at = snd (en_draw env n),
                ob_published_at = None, ob_attempt_count = 0, ob_last_error = None\<rparr>]\<rparr>)"

text \<open>\<open>\d+$\<close> of \<open>re.search\<close>: the digits at the end, before a final line break if there is one. Task ids are ASCII, and only the ASCII digits are modelled.\<close>

definition trailing_digits :: "string \<Rightarrow> string" where
  "trailing_digits s =
     (let t = (if s \<noteq> [] \<and> last s = char_of (10 :: nat) then butlast s else s)
      in rev (takeWhile is_digit (rev t)))"

definition suffix :: "string \<Rightarrow> string" where
  "suffix task_id =
     (let ds = trailing_digits task_id
      in if ds = [] then ''001'' else zero_pad 3 (show_nat (digits_value ds)))"

text \<open>\<open>%Y%m%d\<close>.\<close>

definition day_text :: "int \<Rightarrow> string" where
  "day_text t =
     (case civil_date (t div 1000000 div 86400) of (year, month, day) \<Rightarrow> zero_pad 4 (show_int year) @ two_digits month @ two_digits day)"

definition replacement_event :: "operations_db \<Rightarrow> string \<Rightarrow> domain_outbox option" where
  "replacement_event db task_id = first_match (\<lambda>e. ob_task_id e = task_id \<and> ob_event_type e = ''REPLACEMENT_DISPATCHED'') (op_outbox db)"

text \<open>The payload of such an event is written below: a text and a list of texts.\<close>

fun payload_texts :: "pyval list \<Rightarrow> string list option" where
  "payload_texts [] = Some []"
| "payload_texts (PStr s # vs) = map_option ((#) s) (payload_texts vs)"
| "payload_texts _ = None"

definition replacement_of :: "operations_db \<Rightarrow> string \<Rightarrow> operation_error + (string option \<times> string list)" where
  "replacement_of db task_id =
     (case replacement_event db task_id of
        None \<Rightarrow> Inr (None, [])
      | Some e \<Rightarrow>
          (case (dget (ob_payload_json e) ''vehicle_id'', dget_default (ob_payload_json e) ''edge_ids'' (PList [])) of
             (PStr vehicle_id, PList vs) \<Rightarrow>
               (case payload_texts vs of None \<Rightarrow> Inl OperationKeyError | Some edge_ids \<Rightarrow> Inr (Some vehicle_id, edge_ids))
           | _ \<Rightarrow> Inl OperationKeyError))"

definition mission_snapshot :: "rescue_mission \<Rightarrow> rescue_mission_snapshot" where
  "mission_snapshot m =
     \<lparr>rx_mission_no = rm_mission_no m, rx_task_id = rm_task_id m, rx_vehicle_id = rm_vehicle_id m, rx_rescue_unit_id = rm_rescue_unit_id m,
      rx_status = rm_status m, rx_incident_node_id = rm_incident_node_id m, rx_station_node_id = rm_station_node_id m,
      rx_outbound_edge_ids = rm_outbound_edge_ids m, rx_tow_edge_ids = rm_tow_edge_ids m, rx_next_transition_at = rm_next_transition_at m,
      rx_version = rm_version m\<rparr>"

definition order_snapshot :: "maintenance_order \<Rightarrow> maintenance_order_snapshot" where
  "order_snapshot x =
     \<lparr>mx_order_no = mo_order_no x, mx_task_id = mo_task_id x, mx_vehicle_id = mo_vehicle_id x, mx_bay_code = mo_bay_code x, mx_status = mo_status x,
      mx_fault_code = mo_fault_code x, mx_diagnosis = mo_diagnosis x, mx_repair_minutes = mo_repair_minutes x,
      mx_manual_inspection_required = mo_manual_inspection_required x, mx_next_transition_at = mo_next_transition_at x,
      mx_available_after = mo_available_after x, mx_version = mo_version x, mx_inspection_result = mo_inspection_result x\<rparr>"

definition case_snapshot :: "operations_db \<Rightarrow> rescue_mission \<Rightarrow> operation_error + operation_case" where
  "case_snapshot db m =
     (case order_of_task db (rm_task_id m) of
        None \<Rightarrow> Inl (VehicleOperationNotFound (rm_task_id m))
      | Some x \<Rightarrow>
          res_bind (vehicle_for_update db (rm_vehicle_id m)) (\<lambda>v.
          res_bind (replacement_of db (rm_task_id m)) (\<lambda>(replacement_id, edge_ids).
            let replacement = (case replacement_id of
                  None \<Rightarrow> None
                | Some i \<Rightarrow> if i = [] then None else first_match (\<lambda>v. vr_vehicle_id v = i) (op_vehicles db))
            in Inr \<lparr>cx_task_id = rm_task_id m, cx_vehicle_id = vr_vehicle_id v, cx_vehicle_status = vr_status v,
                    cx_replacement_vehicle_id = replacement_id, cx_replacement_vehicle_status = map_option vr_status replacement,
                    cx_mission = mission_snapshot m, cx_maintenance = order_snapshot x, cx_replacement_edge_ids = edge_ids\<rparr>)))"

type_synonym 'a operation_result = "operation_error + ('a \<times> operations_db)"

text \<open>A method ends with the snapshot of its case; the mission that it looks up may be missing.\<close>

definition with_case :: "operations_db \<Rightarrow> rescue_mission option \<Rightarrow> operation_case operation_result" where
  "with_case db m =
     (case m of None \<Rightarrow> Inl OperationAttributeError | Some m \<Rightarrow> res_bind (case_snapshot db m) (\<lambda>c. Inr (c, db)))"

definition get_case :: "operations_db \<Rightarrow> string \<Rightarrow> operation_error + operation_case option" where
  "get_case db task_id =
     (case mission_of_task db task_id of None \<Rightarrow> Inr None | Some m \<Rightarrow> res_bind (case_snapshot db m) (\<lambda>c. Inr (Some c)))"

definition set_replacement_route :: "string \<Rightarrow> string list \<Rightarrow> domain_outbox \<Rightarrow> domain_outbox" where
  "set_replacement_route event_id edge_ids e =
     (if ob_event_id e = event_id then e\<lparr>ob_payload_json := dset ''edge_ids'' (PList (map PStr edge_ids)) (ob_payload_json e)\<rparr> else e)"

definition update_replacement_route :: "string \<Rightarrow> string list \<Rightarrow> operations_db \<Rightarrow> operation_case operation_result" where
  "update_replacement_route task_id edge_ids db =
     (case (replacement_event db task_id, mission_of_task db task_id) of
        (Some e, Some m) \<Rightarrow> with_case (db\<lparr>op_outbox := map (set_replacement_route (ob_event_id e) edge_ids) (op_outbox db)\<rparr>) (Some m)
      | _ \<Rightarrow> Inl (VehicleOperationNotFound task_id))"

subsection \<open>A new case\<close>

definition mission_number :: "breakdown_case_request \<Rightarrow> string" where
  "mission_number q = ''JY-'' @ day_text (bc_occurred_at q) @ ''-'' @ suffix (bc_task_id q)"

definition order_number :: "breakdown_case_request \<Rightarrow> string" where
  "order_number q = ''WX-'' @ day_text (bc_occurred_at q) @ ''-'' @ suffix (bc_task_id q)"

definition new_mission :: "breakdown_case_request \<Rightarrow> rescue_mission" where
  "new_mission q =
     \<lparr>rm_mission_no = mission_number q, rm_task_id = bc_task_id q, rm_vehicle_id = bc_vehicle_id q, rm_rescue_unit_id = bc_rescue_unit_id q,
      rm_status = R_DISPATCHED, rm_incident_node_id = bc_incident_node_id q, rm_station_node_id = bc_station_node_id q,
      rm_outbound_edge_ids = bc_outbound_edge_ids q, rm_tow_edge_ids = bc_tow_edge_ids q,
      rm_next_transition_at = Some (bc_occurred_at q + 8000000), rm_attempt_count = 0, rm_failure_reason = None, rm_version = 1\<rparr>"

definition new_order :: "breakdown_case_request \<Rightarrow> maintenance_bay \<Rightarrow> maintenance_order" where
  "new_order q bay =
     \<lparr>mo_order_no = order_number q, mo_task_id = bc_task_id q, mo_vehicle_id = bc_vehicle_id q, mo_bay_code = Some (mb_bay_code bay),
      mo_status = M_SCHEDULED, mo_fault_code = bc_fault_code q, mo_diagnosis = Some (bc_diagnosis q), mo_repair_minutes = bc_repair_minutes q,
      mo_manual_inspection_required = bc_manual_inspection_required q, mo_inspection_result = None, mo_next_transition_at = None,
      mo_available_after = None, mo_version = 1\<rparr>"

text \<open>The unique and foreign keys of the mission and the order.\<close>

definition case_constraints_ok :: "operations_db \<Rightarrow> breakdown_case_request \<Rightarrow> bool" where
  "case_constraints_ok db q \<longleftrightarrow>
     bc_task_id q \<in> set (op_task_ids db) \<and> bc_incident_node_id q \<in> set (op_node_ids db) \<and> bc_station_node_id q \<in> set (op_node_ids db) \<and>
     mission_number q \<notin> rm_mission_no ` set (op_missions db) \<and> bc_task_id q \<notin> rm_task_id ` set (op_missions db) \<and>
     order_number q \<notin> mo_order_no ` set (op_orders db) \<and> bc_task_id q \<notin> mo_task_id ` set (op_orders db)"

definition free_bay :: "operation_env \<Rightarrow> operations_db \<Rightarrow> maintenance_bay option" where
  "free_bay env db = py_min_by mb_bay_code (filter (\<lambda>b. mb_status b = ''AVAILABLE'' \<and> \<not> en_locked env (mb_bay_code b)) (op_bays db))"

definition available_unit :: "operations_db \<Rightarrow> string \<Rightarrow> rescue_unit option" where
  "available_unit db unit_id = (case unit_of db unit_id of None \<Rightarrow> None | Some u \<Rightarrow> if ru_status u = ''AVAILABLE'' then Some u else None)"

text \<open>The replacement takes over the delivery; looking it up flushes the broken vehicle and its history.\<close>

definition replace_vehicle :: "breakdown_case_request \<Rightarrow> operations_db \<Rightarrow> operation_error + operations_db" where
  "replace_vehicle q db =
     (case bc_replacement_vehicle_id q of
        None \<Rightarrow> Inr db
      | Some i \<Rightarrow>
          if bc_task_id q \<notin> set (op_task_ids db) then Inl OperationIntegrityError
          else res_bind (vehicle_for_update db i) (\<lambda>v.
               res_bind (transition_vehicle v V_DISPATCHING (utf8 [0xE6, 0x8E, 0xA5, 0xE6, 0x9B, 0xBF, 0xE6, 0x95, 0x85, 0xE9, 0x9A, 0x9C, 0xE8, 0xBD, 0xA6,
           0xE8, 0xBE, 0x86, 0xE9, 0x85, 0x8D, 0xE9, 0x80, 0x81, 0xE4, 0xBB, 0xBB, 0xE5, 0x8A, 0xA1]) (bc_task_id q) (bc_occurred_at q)) (\<lambda>(v1, h1).
               res_bind (transition_vehicle v1 V_IN_TRANSIT (utf8 [0xE8, 0xB4, 0xA7, 0xE7, 0x89, 0xA9, 0xE8, 0xB4, 0xA3, 0xE4, 0xBB, 0xBB, 0xE5, 0xB7, 0xB2,
           0xE8, 0xBD, 0xAC, 0xE7, 0xA7, 0xBB, 0xE5, 0xB9, 0xB6, 0xE7, 0xBB, 0xA7, 0xE7, 0xBB, 0xAD, 0xE9, 0x85, 0x8D, 0xE9, 0x80, 0x81]) (bc_task_id q) (bc_occurred_at q)) (\<lambda>(v2, h2).
                 Inr (add_history [h1, h2] (store_vehicle (touch_vehicle v v2) db))))))"

definition stop_vehicle :: "breakdown_case_request \<Rightarrow> vehicle_row \<Rightarrow> operation_error + (vehicle_row \<times> vehicle_status_history list)" where
  "stop_vehicle q v =
     res_bind (transition_vehicle v V_BROKEN (utf8 [0xE5, 0x91, 0x98, 0xE5, 0xB7, 0xA5, 0xE4, 0xB8, 0x8A, 0xE6, 0x8A, 0xA5, 0xE8, 0xBD, 0xA6, 0xE8, 0xBE,
           0x86, 0xE6, 0x95, 0x85, 0xE9, 0x9A, 0x9C, 0xE5, 0xB9, 0xB6, 0xE5, 0xAE, 0x89, 0xE5, 0x85, 0xA8, 0xE5, 0x81, 0x9C, 0xE8, 0xBD, 0xA6]) (bc_task_id q) (bc_occurred_at q)) (\<lambda>(v1, h1).
     res_bind (transition_vehicle v1 V_WAITING_RESCUE (utf8 [0xE6, 0x95, 0x91, 0xE6, 0x8F, 0xB4, 0xE4, 0xB8, 0x8E, 0xE6, 0x8B, 0x96, 0xE8, 0xBD, 0xA6, 0xE4,
           0xBB, 0xBB, 0xE5, 0x8A, 0xA1, 0xE5, 0xB7, 0xB2, 0xE5, 0x88, 0x9B, 0xE5, 0xBB, 0xBA]) (bc_task_id q) (bc_occurred_at q)) (\<lambda>(v2, h2).
       Inr (v2\<lparr>vr_fault_code := Some (bc_fault_code q)\<rparr>, [h1, h2])))"

text \<open>The lookup of a replacement flushes the broken vehicle; the end of the transaction flushes it again, with the number of its order.\<close>

definition break_vehicle :: "breakdown_case_request \<Rightarrow> vehicle_row \<Rightarrow> operations_db \<Rightarrow> operation_error + operations_db" where
  "break_vehicle q v db =
     res_bind (stop_vehicle q v) (\<lambda>(v1, hs).
       let flushed = (bc_replacement_vehicle_id q \<noteq> None); v2 = (if flushed then touch_vehicle v v1 else v1); base = (if flushed then v2 else v)
       in res_bind (replace_vehicle q (add_history hs (store_vehicle v2 db))) (\<lambda>db1.
            Inr (store_vehicle (touch_vehicle base (v2\<lparr>vr_maintenance_order_no := Some (order_number q), vr_available_after := None\<rparr>)) db1)))"

definition case_events :: "operation_env \<Rightarrow> breakdown_case_request \<Rightarrow> operations_db \<Rightarrow> operations_db" where
  "case_events env q db =
     (let task_id = bc_task_id q;
          db1 = add_event env task_id ''vehicle'' (bc_vehicle_id q) ''VEHICLE_STOPPED'' [(''vehicle_id'', PStr (bc_vehicle_id q))] db;
          db2 = (case bc_replacement_vehicle_id q of
              None \<Rightarrow> db1
            | Some i \<Rightarrow> if i = [] then db1
                else add_event env task_id ''vehicle'' i ''REPLACEMENT_DISPATCHED''
                       [(''vehicle_id'', PStr i), (''edge_ids'', PList (map PStr (bc_replacement_edge_ids q)))] db1);
          db3 = add_event env task_id ''rescue'' (mission_number q) ''RESCUE_DISPATCHED'' [(''mission_no'', PStr (mission_number q))] db2
      in add_event env task_id ''maintenance'' (order_number q) ''MAINTENANCE_SCHEDULED'' [(''order_no'', PStr (order_number q))] db3)"

definition create_breakdown_case :: "operation_env \<Rightarrow> operations_db \<Rightarrow> breakdown_case_request \<Rightarrow> operations_db \<Rightarrow> operation_case operation_result" where
  "create_breakdown_case env r q db =
     (case mission_of_task r (bc_task_id q) of
        Some m \<Rightarrow> res_bind (case_snapshot r m) (\<lambda>c. Inr (c, db))
      | None \<Rightarrow>
          res_bind (vehicle_for_update db (bc_vehicle_id q)) (\<lambda>v.
            case available_unit db (bc_rescue_unit_id q) of
              None \<Rightarrow> Inl (VehicleOperationsConflict ''No available rescue unit for this breakdown.'')
            | Some u \<Rightarrow>
                (case free_bay env db of
                   None \<Rightarrow> Inl (VehicleOperationsConflict ''No maintenance bay is available.'')
                 | Some bay \<Rightarrow>
                     res_bind (break_vehicle q v db) (\<lambda>db1.
                       if \<not> case_constraints_ok db1 q then Inl OperationIntegrityError
                       else
                         let db2 = db1\<lparr>op_missions := op_missions db1 @ [new_mission q], op_orders := op_orders db1 @ [new_order q bay]\<rparr>;
                             db3 = store_unit (touch_unit u (u\<lparr>ru_status := ''DISPATCHED''\<rparr>)) db2;
                             db4 = store_bay (touch_bay bay (bay\<lparr>mb_status := ''RESERVED'', mb_current_order_no := Some (order_number q)\<rparr>)) db3
                         in with_case (case_events env q db4) (Some (new_mission q))))))"

subsection \<open>Rescue\<close>

definition due_mission :: "operation_env \<Rightarrow> int \<Rightarrow> operations_db \<Rightarrow> rescue_mission option" where
  "due_mission env now db =
     py_min_by (\<lambda>m. the (rm_next_transition_at m))
       (filter (\<lambda>m. rm_status m \<in> {R_DISPATCHED, R_ARRIVED, R_LOADED} \<and> \<not> en_locked env (rm_mission_no m) \<and>
                    (case rm_next_transition_at m of None \<Rightarrow> False | Some t \<Rightarrow> t \<le> now)) (op_missions db))"

fun rescue_target :: "rescue_status \<Rightarrow> rescue_status option" where
  "rescue_target R_DISPATCHED = Some R_ARRIVED"
| "rescue_target R_ARRIVED = Some R_LOADED"
| "rescue_target R_LOADED = Some R_DELIVERED"
| "rescue_target _ = None"

fun rescue_delay :: "rescue_status \<Rightarrow> int option" where
  "rescue_delay R_ARRIVED = Some 6000000"
| "rescue_delay R_LOADED = Some 4000000"
| "rescue_delay _ = None"

definition rescue_event :: "rescue_status \<Rightarrow> string" where
  "rescue_event target = (case target of R_ARRIVED \<Rightarrow> ''RESCUE_ARRIVED'' | R_LOADED \<Rightarrow> ''VEHICLE_LOADED'' | _ \<Rightarrow> ''TOW_DELIVERED'')"

definition deliver_vehicle :: "rescue_mission \<Rightarrow> int \<Rightarrow> operations_db \<Rightarrow> operation_error + operations_db" where
  "deliver_vehicle m now db =
     res_bind (vehicle_for_update db (rm_vehicle_id m)) (\<lambda>v.
     res_bind (transition_vehicle v V_MAINTENANCE (utf8 [0xE8, 0xBD, 0xA6, 0xE8, 0xBE, 0x86, 0xE5, 0xB7, 0xB2, 0xE9, 0x80, 0x81, 0xE8, 0xBE, 0xBE, 0xE5,
           0x8E, 0xBF, 0xE5, 0x9F, 0x9F, 0xE7, 0xBB, 0xB4, 0xE4, 0xBF, 0xAE, 0xE7, 0xAB, 0x99]) (rm_task_id m) now) (\<lambda>(v1, h).
       let db1 = add_history [h] (store_vehicle (touch_vehicle v (v1\<lparr>vr_current_node_id := rm_station_node_id m\<rparr>)) db);
           db2 = (case unit_of db1 (rm_rescue_unit_id m) of
               None \<Rightarrow> db1
             | Some u \<Rightarrow> store_unit (touch_unit u (u\<lparr>ru_status := ''AVAILABLE'', ru_current_node_id := rm_station_node_id m\<rparr>)) db1)
       in case order_of_task db2 (rm_task_id m) of
            None \<Rightarrow> Inr db2
          | Some x \<Rightarrow>
              res_bind (require_maintenance_transition (mo_status x) M_WAITING_BAY) (\<lambda>_.
                Inr (store_order (touch_order x (x\<lparr>mo_status := M_WAITING_BAY, mo_next_transition_at := Some (now + 1000000)\<rparr>)) db2))))"

definition rescue_effect :: "rescue_status \<Rightarrow> rescue_mission \<Rightarrow> int \<Rightarrow> operations_db \<Rightarrow> operation_error + operations_db" where
  "rescue_effect target m now db =
     (if target = R_LOADED
      then res_bind (vehicle_for_update db (rm_vehicle_id m)) (\<lambda>v.
           res_bind (transition_vehicle v V_IN_RESCUE (utf8 [0xE6, 0x95, 0x85, 0xE9, 0x9A, 0x9C, 0xE8, 0xBD, 0xA6, 0xE8, 0xBE, 0x86, 0xE5, 0xB7, 0xB2, 0xE8,
           0xA3, 0x85, 0xE8, 0xBD, 0xBD, 0xE6, 0x8B, 0x96, 0xE8, 0xBF, 0x90]) (rm_task_id m) now) (\<lambda>(v1, h).
             Inr (add_history [h] (store_vehicle (touch_vehicle v v1) db))))
      else if target = R_DELIVERED then deliver_vehicle m now db
      else Inr db)"

definition advance_one_due_rescue :: "operation_env \<Rightarrow> int \<Rightarrow> operations_db \<Rightarrow> operation_case option operation_result" where
  "advance_one_due_rescue env now db =
     (case due_mission env now db of
        None \<Rightarrow> Inr (None, db)
      | Some m \<Rightarrow>
          (case rescue_target (rm_status m) of
             None \<Rightarrow> Inl OperationKeyError
           | Some target \<Rightarrow>
               res_bind (require_rescue_transition (rm_status m) target) (\<lambda>_.
                 let m1 = touch_mission m (m\<lparr>rm_status := target, rm_attempt_count := rm_attempt_count m + 1,
                            rm_next_transition_at := map_option (\<lambda>d. now + d) (rescue_delay target)\<rparr>);
                     db1 = add_event env (rm_task_id m) ''rescue'' (rm_mission_no m) (rescue_event target) [(''status'', PStr (rescue_value target))]
                             (store_mission m1 db)
                 in res_bind (rescue_effect target m1 now db1) (\<lambda>db2.
                    res_bind (with_case db2 (Some m1)) (\<lambda>(c, db3). Inr (Some c, db3))))))"

definition retry_rescue :: "operation_env \<Rightarrow> string \<Rightarrow> int \<Rightarrow> operations_db \<Rightarrow> operation_case operation_result" where
  "retry_rescue env mission_no now db =
     (case first_match (\<lambda>m. rm_mission_no m = mission_no) (op_missions db) of
        None \<Rightarrow> Inl (VehicleOperationNotFound mission_no)
      | Some m \<Rightarrow>
          if rm_status m \<noteq> R_FAILED then Inl (InvalidStateTransition (''Retry requires FAILED, got '' @ rescue_value (rm_status m)))
          else
            (case unit_of db (rm_rescue_unit_id m) of
               None \<Rightarrow> Inl (VehicleOperationsConflict ''Rescue unit is not available for retry.'')
             | Some u \<Rightarrow>
                 if ru_status u \<noteq> ''AVAILABLE'' then Inl (VehicleOperationsConflict ''Rescue unit is not available for retry.'')
                 else
                   let m1 = touch_mission m (m\<lparr>rm_status := R_DISPATCHED, rm_next_transition_at := Some (now + 8000000), rm_failure_reason := None,
                              rm_attempt_count := rm_attempt_count m + 1\<rparr>);
                       db1 = store_unit (touch_unit u (u\<lparr>ru_status := ''DISPATCHED''\<rparr>)) (store_mission m1 db)
                   in with_case (add_event env (rm_task_id m) ''rescue'' (rm_mission_no m) ''RESCUE_RETRIED''
                        [(''attempt_count'', PInt (rm_attempt_count m1))] db1) (Some m1)))"

subsection \<open>Repair\<close>

definition due_order :: "operation_env \<Rightarrow> int \<Rightarrow> operations_db \<Rightarrow> maintenance_order option" where
  "due_order env now db =
     py_min_by (\<lambda>x. the (mo_next_transition_at x))
       (filter (\<lambda>x. mo_status x \<in> {M_WAITING_BAY, M_DIAGNOSING, M_REPAIRING, M_QA_PENDING} \<and> \<not> en_locked env (mo_order_no x) \<and>
                    (case mo_next_transition_at x of None \<Rightarrow> False | Some t \<Rightarrow> t \<le> now)) (op_orders db))"

fun maintenance_target :: "maintenance_status \<Rightarrow> maintenance_status option" where
  "maintenance_target M_WAITING_BAY = Some M_DIAGNOSING"
| "maintenance_target M_DIAGNOSING = Some M_REPAIRING"
| "maintenance_target M_REPAIRING = Some M_QA_PENDING"
| "maintenance_target M_QA_PENDING = Some M_COMPLETED"
| "maintenance_target _ = None"

definition schedule_order :: "maintenance_order \<Rightarrow> maintenance_status \<Rightarrow> int \<Rightarrow> maintenance_order" where
  "schedule_order x target now =
     (let next_at = (case target of
            M_DIAGNOSING \<Rightarrow> Some (now + 5000000)
          | M_REPAIRING \<Rightarrow> Some (now + mo_repair_minutes x * 60000000)
          | M_QA_PENDING \<Rightarrow> Some (now + 6000000)
          | _ \<Rightarrow> None);
          x1 = x\<lparr>mo_status := target, mo_next_transition_at := next_at\<rparr>
      in if target = M_REPAIRING then x1\<lparr>mo_available_after := Some (now + mo_repair_minutes x * 60000000 + 6000000)\<rparr> else x1)"

definition release_vehicle_and_bay :: "operation_env \<Rightarrow> maintenance_order \<Rightarrow> vehicle_row \<Rightarrow> bool \<Rightarrow> int \<Rightarrow> operations_db \<Rightarrow>
    operation_error + operations_db" where
  "release_vehicle_and_bay env x v passed now db =
     (let target = (if passed then V_AVAILABLE else V_OUT_OF_SERVICE)
      in res_bind (transition_vehicle v target (if passed then utf8 [0xE5, 0xAE, 0x89, 0xE5, 0x85, 0xA8, 0xE8, 0xB4, 0xA8, 0xE6, 0xA3, 0x80, 0xE9, 0x80,
           0x9A, 0xE8, 0xBF, 0x87, 0xEF, 0xBC, 0x8C, 0xE8, 0x87, 0xAA, 0xE5, 0x8A, 0xA8, 0xE6, 0x81, 0xA2, 0xE5, 0xA4, 0x8D, 0xE5, 0x8F, 0xAF, 0xE8, 0xB0,
           0x83, 0xE5, 0xBA, 0xA6] else utf8 [0xE5, 0xAE, 0x89, 0xE5, 0x85, 0xA8, 0xE8, 0xB4, 0xA8, 0xE6, 0xA3, 0x80, 0xE6, 0x9C, 0xAA, 0xE9, 0x80, 0x9A,
           0xE8, 0xBF, 0x87, 0xEF, 0xBC, 0x8C, 0xE5, 0x81, 0x9C, 0xE6, 0xAD, 0xA2, 0xE8, 0xBF, 0x90, 0xE8, 0x90, 0xA5]) (mo_task_id x) now) (\<lambda>(v1, h).
           let v2 = (if passed
                     then v1\<lparr>vr_fault_code := None, vr_status_reason := Some (utf8 [0xE5, 0xAE, 0x89, 0xE5, 0x85, 0xA8, 0xE8, 0xB4, 0xA8, 0xE6, 0xA3, 0x80,
           0xE9, 0x80, 0x9A, 0xE8, 0xBF, 0x87, 0xEF, 0xBC, 0x8C, 0xE8, 0xBD, 0xA6, 0xE8, 0xBE, 0x86, 0xE5, 0xB7, 0xB2, 0xE6, 0x81, 0xA2, 0xE5, 0xA4, 0x8D, 0xE5, 0x8F, 0xAF, 0xE8, 0xB0, 0x83, 0xE5, 0xBA, 0xA6]), vr_available_after := None,
                             vr_maintenance_order_no := None\<rparr>
                     else v1);
               db1 = add_history [h] (store_vehicle (touch_vehicle v v2) db);
               db2 = (case first_match (\<lambda>b. Some (mb_bay_code b) = mo_bay_code x) (op_bays db1) of
                   None \<Rightarrow> db1
                 | Some b \<Rightarrow> store_bay (touch_bay b (b\<lparr>mb_status := ''AVAILABLE'', mb_current_order_no := None\<rparr>)) db1)
           in Inr (add_event env (mo_task_id x) ''vehicle'' (vr_vehicle_id v) (if passed then ''VEHICLE_AVAILABLE'' else ''VEHICLE_OUT_OF_SERVICE'')
                [(''status'', PStr (vehicle_status_value target))] db2)))"

definition maintenance_effect :: "operation_env \<Rightarrow> maintenance_status \<Rightarrow> maintenance_order \<Rightarrow> int \<Rightarrow> operations_db \<Rightarrow> operation_error + operations_db" where
  "maintenance_effect env target x now db =
     res_bind (vehicle_for_update db (mo_vehicle_id x)) (\<lambda>v.
       if target = M_REPAIRING then Inr (store_vehicle (touch_vehicle v (v\<lparr>vr_available_after := mo_available_after x\<rparr>)) db)
       else if target = M_QA_PENDING
       then res_bind (transition_vehicle v V_QA_PENDING (utf8 [0xE7, 0xBB, 0xB4, 0xE4, 0xBF, 0xAE, 0xE5, 0xAE, 0x8C, 0xE6, 0x88, 0x90, 0xEF, 0xBC, 0x8C,
           0xE8, 0xBF, 0x9B, 0xE5, 0x85, 0xA5, 0xE5, 0xAE, 0x89, 0xE5, 0x85, 0xA8, 0xE8, 0xB4, 0xA8, 0xE6, 0xA3, 0x80]) (mo_task_id x) now) (\<lambda>(v1, h).
              Inr (add_history [h] (store_vehicle (touch_vehicle v v1) db)))
       else if target = M_COMPLETED
       then release_vehicle_and_bay env x v True now (store_order (touch_order x (x\<lparr>mo_inspection_result := Some ''PASSED''\<rparr>)) db)
       else Inr db)"

definition advance_one_due_maintenance :: "operation_env \<Rightarrow> int \<Rightarrow> operations_db \<Rightarrow> operation_case option operation_result" where
  "advance_one_due_maintenance env now db =
     (case due_order env now db of
        None \<Rightarrow> Inr (None, db)
      | Some x \<Rightarrow>
          let finish = (\<lambda>db. res_bind (with_case db (mission_of_task db (mo_task_id x))) (\<lambda>(c, db). Inr (Some c, db)))
          in if mo_status x = M_QA_PENDING \<and> mo_manual_inspection_required x \<and> mo_inspection_result x = None
             then finish (store_order (touch_order x (x\<lparr>mo_next_transition_at := None\<rparr>)) db)
             else
               (case maintenance_target (mo_status x) of
                  None \<Rightarrow> Inl OperationKeyError
                | Some target \<Rightarrow>
                    res_bind (require_maintenance_transition (mo_status x) target) (\<lambda>_.
                      let x1 = touch_order x (schedule_order x target now);
                          db1 = add_event env (mo_task_id x) ''maintenance'' (mo_order_no x) (''MAINTENANCE_'' @ maintenance_value target)
                                  [(''status'', PStr (maintenance_value target))] (store_order x1 db)
                      in res_bind (maintenance_effect env target x1 now db1) finish)))"

definition record_inspection :: "operation_env \<Rightarrow> string \<Rightarrow> bool \<Rightarrow> int \<Rightarrow> string \<Rightarrow> operations_db \<Rightarrow> operation_case operation_result" where
  "record_inspection env order_no passed decided_at decided_by db =
     (case first_match (\<lambda>x. mo_order_no x = order_no) (op_orders db) of
        None \<Rightarrow> Inl (VehicleOperationNotFound order_no)
      | Some x \<Rightarrow>
          if mo_status x \<noteq> M_QA_PENDING
          then Inl (InvalidStateTransition (''Inspection requires QA_PENDING, got '' @ maintenance_value (mo_status x)))
          else
            let target = (if passed then M_COMPLETED else M_FAILED)
            in res_bind (require_maintenance_transition (mo_status x) target) (\<lambda>_.
                 let x1 = touch_order x (x\<lparr>mo_status := target, mo_inspection_result := Some (if passed then ''PASSED'' else ''FAILED''),
                            mo_next_transition_at := None\<rparr>);
                     db1 = store_order x1 db
                 in res_bind (vehicle_for_update db1 (mo_vehicle_id x1)) (\<lambda>v.
                    res_bind (release_vehicle_and_bay env x1 v passed decided_at db1) (\<lambda>db2.
                      let db3 = add_event env (mo_task_id x1) ''maintenance'' (mo_order_no x1) ''INSPECTION_DECIDED''
                                  [(''passed'', PBool passed), (''decided_by'', PStr decided_by)] db2
                      in with_case db3 (mission_of_task db3 (mo_task_id x1))))))"

section \<open>The progressor: progressor.py\<close>

text \<open>An exception ends the run, and with it the loop of the progressor; the first transaction stays committed.\<close>

definition progressor_run_once :: "operation_env \<Rightarrow> int \<Rightarrow> operations_db \<Rightarrow> operation_error option \<times> operations_db" where
  "progressor_run_once env now db =
     (case advance_one_due_rescue env now db of
        Inl e \<Rightarrow> (Some e, db)
      | Inr (_, db1) \<Rightarrow>
          (case advance_one_due_maintenance env now db1 of
             Inl e \<Rightarrow> (Some e, db1)
           | Inr (_, db2) \<Rightarrow> (None, db2)))"

text \<open>The loop over the points in time at which it wakes up.\<close>

fun progressor_run_forever :: "operation_env \<Rightarrow> int list \<Rightarrow> operations_db \<Rightarrow> operation_error option \<times> operations_db" where
  "progressor_run_forever env [] db = (None, db)"
| "progressor_run_forever env (now # wakes) db =
     (case progressor_run_once env now db of (Some e, db1) \<Rightarrow> (Some e, db1) | (None, db1) \<Rightarrow> progressor_run_forever env wakes db1)"

section \<open>Orchestration: inspection.py, service.py, dispatch_bridge.py\<close>

definition manual_fault_codes :: "string list" where
  "manual_fault_codes = [''BRAKE_FAILURE'', ''STEERING_FAILURE'', ''ACCIDENT'', ''INJURY'']"

definition requires_manual :: "string \<Rightarrow> string \<Rightarrow> string \<Rightarrow> bool" where
  "requires_manual cargo_type severity fault_code \<longleftrightarrow>
     py_upper (py_strip fault_code) \<in> set manual_fault_codes \<or>
     py_upper (py_strip cargo_type) = ''COLD_CHAIN'' \<and> py_upper (py_strip severity) = ''CRITICAL''"

record breakdown_orchestration_input =
  bo_task_id :: string
  bo_vehicle_id :: string
  bo_replacement_vehicle_id :: "string option"
  bo_incident_node_id :: string
  bo_cargo_type :: string
  bo_severity :: string
  bo_fault_code :: string

record rescue_config =
  rc_rescue_unit_id :: string
  rc_rescue_node_id :: string
  rc_maintenance_node_id :: string

definition default_rescue_config :: rescue_config where
  "default_rescue_config = \<lparr>rc_rescue_unit_id = ''RU-001'', rc_rescue_node_id = ''N15'', rc_maintenance_node_id = ''N15''\<rparr>"

definition fault_diagnosis :: "string \<Rightarrow> string" where
  "fault_diagnosis fault =
     (if fault = ''ENGINE_COOLING'' then utf8 [0xE5, 0x8F, 0x91, 0xE5, 0x8A, 0xA8, 0xE6, 0x9C, 0xBA, 0xE5, 0x86, 0xB7, 0xE5, 0x8D, 0xB4, 0xE7, 0xB3, 0xBB,
           0xE7, 0xBB, 0x9F, 0xE6, 0x95, 0x85, 0xE9, 0x9A, 0x9C]
      else if fault = ''BRAKE_FAILURE'' then utf8 [0xE5, 0x88, 0xB6, 0xE5, 0x8A, 0xA8, 0xE7, 0xB3, 0xBB, 0xE7, 0xBB, 0x9F, 0xE6, 0x95, 0x85, 0xE9, 0x9A,
           0x9C, 0xEF, 0xBC, 0x8C, 0xE5, 0xBF, 0x85, 0xE9, 0xA1, 0xBB, 0xE4, 0xBA, 0xBA, 0xE5, 0xB7, 0xA5, 0xE5, 0xAE, 0x89, 0xE5, 0x85, 0xA8, 0xE5, 0xA4, 0x8D, 0xE6, 0xA0, 0xB8]
      else if fault = ''STEERING_FAILURE'' then utf8 [0xE8, 0xBD, 0xAC, 0xE5, 0x90, 0x91, 0xE7, 0xB3, 0xBB, 0xE7, 0xBB, 0x9F, 0xE6, 0x95, 0x85, 0xE9, 0x9A,
           0x9C, 0xEF, 0xBC, 0x8C, 0xE5, 0xBF, 0x85, 0xE9, 0xA1, 0xBB, 0xE4, 0xBA, 0xBA, 0xE5, 0xB7, 0xA5, 0xE5, 0xAE, 0x89, 0xE5, 0x85, 0xA8, 0xE5, 0xA4, 0x8D, 0xE6, 0xA0, 0xB8]
      else utf8 [0xE5, 0x8A, 0xA8, 0xE5, 0x8A, 0x9B, 0xE7, 0xB3, 0xBB, 0xE7, 0xBB, 0x9F, 0xE6, 0x95, 0x85, 0xE9, 0x9A, 0x9C, 0xEF, 0xBC, 0x8C, 0xE7, 0xAD,
           0x89, 0xE5, 0xBE, 0x85, 0xE7, 0xBB, 0xB4, 0xE4, 0xBF, 0xAE, 0xE8, 0xAF, 0x8A, 0xE6, 0x96, 0xAD])"

definition rescue_route :: "road_network \<Rightarrow> string \<Rightarrow> string \<Rightarrow> operation_error + path_result option" where
  "rescue_route net start_node_id end_node_id =
     (case find_path net start_node_id end_node_id FASTEST (9 / 2) {} of Inl e \<Rightarrow> Inl (RescueSearchFailed e) | Inr p \<Rightarrow> Inr p)"

definition replacement_route :: "road_network \<Rightarrow> operations_db \<Rightarrow> string \<Rightarrow> string \<Rightarrow> operation_error + string list" where
  "replacement_route net db vehicle_id incident_node_id =
     res_bind (vehicle_node db vehicle_id) (\<lambda>origin.
     res_bind (rescue_route net origin incident_node_id) (\<lambda>p.
       case p of
         None \<Rightarrow> Inl (RescueRouteUnavailable ''Persisted road topology has no safe replacement pickup route.'')
       | Some p \<Rightarrow> Inr (pr_edge_ids p)))"

definition orchestrate :: "rescue_config \<Rightarrow> operation_env \<Rightarrow> road_network \<Rightarrow> int \<Rightarrow> breakdown_orchestration_input \<Rightarrow> operations_db \<Rightarrow>
    operation_case operation_result" where
  "orchestrate cfg env net now i db =
     res_bind (get_case db (bo_task_id i)) (\<lambda>existing.
       case existing of
         Some c \<Rightarrow>
           (case cx_replacement_vehicle_id c of
              None \<Rightarrow> Inr (c, db)
            | Some vehicle_id \<Rightarrow>
                if cx_replacement_edge_ids c \<noteq> [] then Inr (c, db)
                else res_bind (replacement_route net db vehicle_id (rx_incident_node_id (cx_mission c))) (\<lambda>edge_ids.
                       update_replacement_route (bo_task_id i) edge_ids db))
       | None \<Rightarrow>
           res_bind (rescue_route net (rc_rescue_node_id cfg) (bo_incident_node_id i)) (\<lambda>outbound.
           res_bind (rescue_route net (bo_incident_node_id i) (rc_maintenance_node_id cfg)) (\<lambda>tow.
             case (outbound, tow) of
               (Some outbound, Some tow) \<Rightarrow>
                 res_bind (case bo_replacement_vehicle_id i of
                     None \<Rightarrow> Inr []
                   | Some vehicle_id \<Rightarrow> replacement_route net db vehicle_id (bo_incident_node_id i)) (\<lambda>replacement_edge_ids.
                   let fault = py_upper (py_strip (bo_fault_code i))
                   in create_breakdown_case env db
                        \<lparr>bc_task_id = bo_task_id i, bc_vehicle_id = bo_vehicle_id i, bc_replacement_vehicle_id = bo_replacement_vehicle_id i,
                         bc_rescue_unit_id = rc_rescue_unit_id cfg, bc_incident_node_id = bo_incident_node_id i,
                         bc_station_node_id = rc_maintenance_node_id cfg, bc_outbound_edge_ids = pr_edge_ids outbound,
                         bc_tow_edge_ids = pr_edge_ids tow, bc_fault_code = fault, bc_diagnosis = fault_diagnosis fault, bc_repair_minutes = 120,
                         bc_manual_inspection_required = requires_manual (bo_cargo_type i) (bo_severity i) fault, bc_occurred_at = now,
                         bc_replacement_edge_ids = replacement_edge_ids\<rparr> db)
             | _ \<Rightarrow> Inl (RescueRouteUnavailable ''Persisted road topology has no safe rescue/tow route.''))))"

definition fault_code_of :: "string \<Rightarrow> string" where
  "fault_code_of description =
     (let normalized = py_upper description
      in if is_infix (utf8 [0xE5, 0x88, 0xB6, 0xE5, 0x8A, 0xA8]) description \<or> is_infix (utf8 [0xE5, 0x88, 0xB9, 0xE8, 0xBD,
           0xA6]) description \<or> is_infix ''BRAKE'' normalized then ''BRAKE_FAILURE''
         else if is_infix (utf8 [0xE8, 0xBD, 0xAC, 0xE5, 0x90, 0x91]) description \<or> is_infix (utf8 [0xE6, 0x96, 0xB9, 0xE5, 0x90,
           0x91]) description \<or> is_infix ''STEERING'' normalized then ''STEERING_FAILURE''
         else if is_infix (utf8 [0xE5, 0x86, 0xB7, 0xE5, 0x8D, 0xB4]) description \<or> is_infix (utf8 [0xE6, 0xB0, 0xB4, 0xE6, 0xB8,
           0xA9]) description \<or> is_infix ''COOLING'' normalized then ''ENGINE_COOLING''
         else ''POWERTRAIN_FAILURE'')"

text \<open>The columns of an anomaly that the bridge reads.\<close>

record anomaly_row =
  ar_id :: int
  ar_severity :: string
  ar_description :: string
  ar_incident_node_id :: "string option"

definition breakdown_input :: "ledger_db \<Rightarrow> anomaly_row list \<Rightarrow> task_message \<Rightarrow> operation_error + breakdown_orchestration_input" where
  "breakdown_input lg anomalies m =
     (case task_by_id lg (tm_task_id m) of
        None \<Rightarrow> Inl (VehicleBreakdownContextMissing (tm_task_id m))
      | Some t \<Rightarrow>
          let anomaly = (case dt_anomaly_id t of None \<Rightarrow> None | Some a \<Rightarrow> first_match (\<lambda>x. ar_id x = a) anomalies);
              dispatch = first_match (\<lambda>d. dp_task_id d = Some (dt_id t)) (lg_dispatches lg)
          in case first_match (\<lambda>x. or_id x = dt_order_id t) (lg_orders lg) of
               None \<Rightarrow> Inl (VehicleBreakdownContextMissing (''order:'' @ show_int (dt_order_id t)))
             | Some order \<Rightarrow>
                 let original = the (py_or (Option.bind dispatch dp_original_vehicle_id) (Some (tp_vehicle_id (tm_payload m))));
                     target = Option.bind dispatch dp_target_vehicle_id;
                     description = (case anomaly of Some a \<Rightarrow> ar_description a | None \<Rightarrow> tp_anomaly_description (tm_payload m))
                 in Inr \<lparr>bo_task_id = tm_task_id m, bo_vehicle_id = original,
                         bo_replacement_vehicle_id = (if target = Some original then None else target),
                         bo_incident_node_id =
                           the (py_or (py_or (Option.bind anomaly ar_incident_node_id) (Option.bind dispatch dp_transfer_node_id)) (Some ''N04'')),
                         bo_cargo_type = the (py_or (or_cargo_type order) (Some ''GENERAL'')),
                         bo_severity = (case anomaly of Some a \<Rightarrow> ar_severity a | None \<Rightarrow> ''HIGH''),
                         bo_fault_code = fault_code_of description\<rparr>)"

definition handle_approved_breakdown :: "rescue_config \<Rightarrow> operation_env \<Rightarrow> road_network \<Rightarrow> int \<Rightarrow> ledger_db \<Rightarrow> anomaly_row list \<Rightarrow> task_message \<Rightarrow>
    operations_db \<Rightarrow> unit operation_result" where
  "handle_approved_breakdown cfg env net now lg anomalies m db =
     res_bind (breakdown_input lg anomalies m) (\<lambda>i. res_bind (orchestrate cfg env net now i db) (\<lambda>(_, db1). Inr ((), db1)))"

section \<open>Resources: seed.py\<close>

definition seed_vehicle_operation_resources :: "operations_db \<Rightarrow> operations_db" where
  "seed_vehicle_operation_resources db =
     (let db1 = (if unit_of db ''RU-001'' \<noteq> None then db
            else db\<lparr>op_units := op_units db @ [\<lparr>ru_unit_id = ''RU-001'', ru_name = utf8 [0xE6, 0x96, 0xB0, 0xE5, 0xB9, 0xB3, 0xE5, 0x8E, 0xBF, 0xE9, 0x81,
           0x93, 0xE8, 0xB7, 0xAF, 0xE6, 0x95, 0x91, 0xE6, 0x8F, 0xB4, 0x2D, 0x30, 0x32], ru_plate_no = utf8 [0xE6, 0x96, 0xB0, 0xE6, 0x95, 0x91, 0xE6, 0x8F,
           0xB4, 0x2D, 0x30, 0x32],
                     ru_unit_type = ''TOW_TRUCK'', ru_status = ''AVAILABLE'', ru_current_node_id = ''N15'', ru_capacity_tons = 8, ru_version = 1\<rparr>]\<rparr>)
      in if first_match (\<lambda>b. mb_bay_code b = ''A-02'') (op_bays db1) \<noteq> None then db1
         else db1\<lparr>op_bays := op_bays db1 @ [\<lparr>mb_bay_code = ''A-02'', mb_station_id = ''ST-007'', mb_status = ''AVAILABLE'',
                    mb_current_order_no = None, mb_version = 1\<rparr>]\<rparr>)"

end
