(* ===== verification/Vehicle_Views.thy ===== *)
theory Vehicle_Views
  imports Vehicle_Operations
begin

text \<open>
  The operation cases as the user interface shows them (\<open>vehicle_operations/query_service.py\<close>): the map of a case with its routes, stages and time line, the lists
  of vehicles and orders, and the check that a driver sees only his own case. Dictionaries are kept in the order of the source. The tables keep points in time
  without a time zone, so they are shown without one; the clock shows the one of UTC.
\<close>

section \<open>Parts\<close>

definition stored_isoformat :: "int \<Rightarrow> string" where
  "stored_isoformat t = (let s = isoformat t in take (length s - 6) s)"

definition opt_time :: "int option \<Rightarrow> pyval" where
  "opt_time t = (case t of None \<Rightarrow> PNone | Some t \<Rightarrow> PStr (stored_isoformat t))"

definition texts :: "string list \<Rightarrow> pyval" where
  "texts ss = PList (map PStr ss)"

definition rescue_view :: "operation_case \<Rightarrow> pydict" where
  "rescue_view c =
     (let m = cx_mission c
      in [(''mission_no'', PStr (rx_mission_no m)), (''status'', PStr (rescue_value (rx_status m))),
          (''progress_percent'', PInt (rescue_progress (rx_status m))), (''rescue_unit_id'', PStr (rx_rescue_unit_id m)),
          (''incident_node_id'', PStr (rx_incident_node_id m)), (''station_node_id'', PStr (rx_station_node_id m)),
          (''outbound_edge_ids'', texts (rx_outbound_edge_ids m)), (''tow_edge_ids'', texts (rx_tow_edge_ids m)),
          (''next_transition_at'', opt_time (rx_next_transition_at m))])"

definition maintenance_view :: "operation_case \<Rightarrow> int \<Rightarrow> pydict" where
  "maintenance_view c now =
     (let x = cx_maintenance c
      in [(''order_no'', PStr (mx_order_no x)), (''vehicle_id'', PStr (mx_vehicle_id x)), (''bay_code'', opt_str (mx_bay_code x)),
          (''status'', PStr (maintenance_value (mx_status x))), (''fault_code'', PStr (mx_fault_code x)), (''diagnosis'', opt_str (mx_diagnosis x)),
          (''repair_minutes'', PInt (mx_repair_minutes x)), (''manual_inspection_required'', PBool (mx_manual_inspection_required x)),
          (''inspection_result'', opt_str (mx_inspection_result x)), (''progress_percent'', PInt (maintenance_progress (mx_status x))),
          (''countdown_seconds'', opt_int (seconds_remaining x now)),
          (''available_after'', opt_time (mx_available_after x))])"

definition stage_view :: "string \<Rightarrow> string \<Rightarrow> string \<Rightarrow> string \<Rightarrow> pyval" where
  "stage_view key title status detail = PDict [(''key'', PStr key), (''title'', PStr title), (''status'', PStr status), (''detail'', PStr detail)]"

definition rescue_stage :: "rescue_status \<Rightarrow> string" where
  "rescue_stage s = (case s of R_DELIVERED \<Rightarrow> ''COMPLETED'' | R_FAILED \<Rightarrow> ''FAILED'' | R_CANCELLED \<Rightarrow> ''CANCELLED'' | R_CREATED \<Rightarrow> ''WAITING'' | _ \<Rightarrow> ''ACTIVE'')"

definition maintenance_stage :: "rescue_status \<Rightarrow> maintenance_status \<Rightarrow> string" where
  "maintenance_stage r s =
     (case s of M_COMPLETED \<Rightarrow> ''COMPLETED'' | M_FAILED \<Rightarrow> ''FAILED'' | M_CANCELLED \<Rightarrow> ''CANCELLED''
      | _ \<Rightarrow> if r = R_DELIVERED then ''ACTIVE'' else ''WAITING'')"

definition stages_view :: "operation_case \<Rightarrow> pyval list" where
  "stages_view c =
     (let r = rx_status (cx_mission c); s = mx_status (cx_maintenance c); replacement = py_or (cx_replacement_vehicle_id c) None
      in [stage_view ''SAFE_STOP'' (utf8 [0xE5, 0xAE, 0x89, 0xE5, 0x85, 0xA8, 0xE5, 0x81, 0x9C, 0xE8, 0xBD, 0xA6]) ''COMPLETED'' (utf8 [0xE5, 0x81, 0x9C,
           0xE8, 0xBD, 0xA6, 0xE7, 0xA1, 0xAE, 0xE8, 0xAE, 0xA4, 0xE3, 0x80, 0x81, 0xE5, 0x86, 0xB7, 0xE9, 0x93, 0xBE, 0xE4, 0xBF, 0x9D, 0xE6, 0xB8, 0xA9, 0xE4, 0xB8, 0x8E, 0xE9, 0x81, 0x93, 0xE8, 0xB7, 0xAF, 0xE8, 0xAD, 0xA6, 0xE7, 0xA4, 0xBA, 0xE5, 0xB7, 0xB2, 0xE5, 0xAE, 0x8C, 0xE6, 0x88, 0x90]),
          stage_view ''REPLACEMENT'' (utf8 [0xE6, 0x9B, 0xBF, 0xE4, 0xBB, 0xA3, 0xE9, 0x85, 0x8D, 0xE9, 0x80, 0x81, 0xE6, 0x8E, 0xA5, 0xE7, 0xAE,
           0xA1]) (if replacement = None then ''SKIPPED'' else ''COMPLETED'')
            (case replacement of None \<Rightarrow> utf8 [0xE5, 0xBD, 0x93, 0xE5, 0x89, 0x8D, 0xE4, 0xBB, 0xBB, 0xE5, 0x8A, 0xA1, 0xE6, 0x9C, 0xAA, 0xE5, 0x90, 0xAF,
           0xE7, 0x94, 0xA8, 0xE6, 0x9B, 0xBF, 0xE4, 0xBB, 0xA3, 0xE8, 0xBD, 0xA6, 0xE8, 0xBE, 0x86] | Some i \<Rightarrow> i @ '' '' @ utf8 [0xE5, 0xB7, 0xB2, 0xE6,
           0x8E, 0xA5, 0xE7, 0xAE, 0xA1, 0xE9, 0x85, 0x8D, 0xE9, 0x80, 0x81]),
          stage_view ''RESCUE'' (utf8 [0xE6, 0x95, 0x91, 0xE6, 0x8F, 0xB4, 0xE8, 0xBF, 0x90, 0xE9, 0x80, 0x81]) (rescue_stage r) (utf8 [0xE6, 0x95, 0x91,
           0xE6, 0x8F, 0xB4, 0xE8, 0xBF, 0x9B, 0xE5, 0xBA, 0xA6] @ '' '' @ show_int (rescue_progress r) @ ''%''),
          stage_view ''MAINTENANCE'' (utf8 [0xE7, 0xBB, 0xB4, 0xE4, 0xBF, 0xAE, 0xE4, 0xB8, 0x8E, 0xE8, 0x87, 0xAA, 0xE5, 0x8A, 0xA8, 0xE5, 0xA4, 0x8D, 0xE5,
           0xB2, 0x97]) (maintenance_stage r s) (utf8 [0xE7, 0xBB, 0xB4, 0xE4, 0xBF, 0xAE, 0xE8, 0xBF, 0x9B, 0xE5, 0xBA,
           0xA6] @ '' '' @ show_int (maintenance_progress s) @ ''%'')])"

definition event_labels :: "(string \<times> string) list" where
  "event_labels =
     [(''VEHICLE_STOPPED'', utf8 [0xE5, 0x8F, 0x91, 0xE7, 0x8E, 0xB0, 0xE6, 0x95, 0x85, 0xE9, 0x9A, 0x9C, 0xEF, 0xBC, 0x8C, 0xE8, 0xBD, 0xA6, 0xE8, 0xBE,
           0x86, 0xE5, 0xB7, 0xB2, 0xE5, 0xAE, 0x89, 0xE5, 0x85, 0xA8, 0xE5, 0x81, 0x9C, 0xE8, 0xBD, 0xA6]),
      (''REPLACEMENT_DISPATCHED'', utf8 [0xE7, 0xB3, 0xBB, 0xE7, 0xBB, 0x9F, 0xE5, 0x88, 0x86, 0xE9, 0x85, 0x8D, 0xE6, 0x9B, 0xBF, 0xE4, 0xBB, 0xA3, 0xE8,
           0xBD, 0xA6, 0xE8, 0xBE, 0x86, 0xE6, 0x8E, 0xA5, 0xE7, 0xAE, 0xA1, 0xE9, 0x85, 0x8D, 0xE9, 0x80, 0x81]),
      (''RESCUE_DISPATCHED'', utf8 [0xE9, 0x81, 0x93, 0xE8, 0xB7, 0xAF, 0xE6, 0x95, 0x91, 0xE6, 0x8F, 0xB4, 0xE8, 0xBD, 0xA6, 0xE8, 0xBE, 0x86, 0xE5, 0xB7,
           0xB2, 0xE5, 0x87, 0xBA, 0xE5, 0x8F, 0x91]),
      (''MAINTENANCE_SCHEDULED'', utf8 [0xE7, 0xBB, 0xB4, 0xE4, 0xBF, 0xAE, 0xE5, 0xB7, 0xA5, 0xE4, 0xBD, 0x8D, 0xE5, 0xB7, 0xB2, 0xE9, 0xA2, 0x84, 0xE7,
           0x95, 0x99]),
      (''RESCUE_ARRIVED'', utf8 [0xE6, 0x95, 0x91, 0xE6, 0x8F, 0xB4, 0xE8, 0xBD, 0xA6, 0xE8, 0xBE, 0x86, 0xE5, 0xB7, 0xB2, 0xE6, 0x8A, 0xB5, 0xE8, 0xBE,
           0xBE, 0xE6, 0x95, 0x85, 0xE9, 0x9A, 0x9C, 0xE7, 0x82, 0xB9]),
      (''VEHICLE_LOADED'', utf8 [0xE6, 0x95, 0x85, 0xE9, 0x9A, 0x9C, 0xE8, 0xBD, 0xA6, 0xE8, 0xBE, 0x86, 0xE5, 0xB7, 0xB2, 0xE8, 0xA3, 0x85, 0xE8, 0xBD,
           0xBD, 0xE6, 0x8B, 0x96, 0xE8, 0xBF, 0x90]),
      (''TOW_DELIVERED'', utf8 [0xE6, 0x95, 0x85, 0xE9, 0x9A, 0x9C, 0xE8, 0xBD, 0xA6, 0xE8, 0xBE, 0x86, 0xE5, 0xB7, 0xB2, 0xE9, 0x80, 0x81, 0xE8, 0xBE, 0xBE,
           0xE7, 0xBB, 0xB4, 0xE4, 0xBF, 0xAE, 0xE7, 0xAB, 0x99]),
      (''MAINTENANCE_DIAGNOSING'', utf8 [0xE7, 0xBB, 0xB4, 0xE4, 0xBF, 0xAE, 0xE4, 0xBA, 0xBA, 0xE5, 0x91, 0x98, 0xE5, 0xBC, 0x80, 0xE5, 0xA7, 0x8B, 0xE6,
           0x95, 0x85, 0xE9, 0x9A, 0x9C, 0xE8, 0xAF, 0x8A, 0xE6, 0x96, 0xAD]),
      (''MAINTENANCE_REPAIRING'', utf8 [0xE8, 0xBD, 0xA6, 0xE8, 0xBE, 0x86, 0xE5, 0xBC, 0x80, 0xE5, 0xA7, 0x8B, 0xE7, 0xBB, 0xB4, 0xE4, 0xBF, 0xAE]),
      (''MAINTENANCE_QA_PENDING'', utf8 [0xE7, 0xBB, 0xB4, 0xE4, 0xBF, 0xAE, 0xE5, 0xAE, 0x8C, 0xE6, 0x88, 0x90, 0xEF, 0xBC, 0x8C, 0xE7, 0xAD, 0x89, 0xE5,
           0xBE, 0x85, 0xE5, 0xAE, 0x89, 0xE5, 0x85, 0xA8, 0xE8, 0xB4, 0xA8, 0xE6, 0xA3, 0x80]),
      (''MAINTENANCE_COMPLETED'', utf8 [0xE5, 0xAE, 0x89, 0xE5, 0x85, 0xA8, 0xE8, 0xB4, 0xA8, 0xE6, 0xA3, 0x80, 0xE9, 0x80, 0x9A, 0xE8, 0xBF, 0x87, 0xEF,
           0xBC, 0x8C, 0xE7, 0xBB, 0xB4, 0xE4, 0xBF, 0xAE, 0xE5, 0xB7, 0xA5, 0xE5, 0x8D, 0x95, 0xE5, 0xAE, 0x8C, 0xE6, 0x88, 0x90]),
      (''MAINTENANCE_FAILED'', utf8 [0xE7, 0xBB, 0xB4, 0xE4, 0xBF, 0xAE, 0xE6, 0x88, 0x96, 0xE5, 0xAE, 0x89, 0xE5, 0x85, 0xA8, 0xE8, 0xB4, 0xA8, 0xE6, 0xA3,
           0x80, 0xE6, 0x9C, 0xAA, 0xE9, 0x80, 0x9A, 0xE8, 0xBF, 0x87]),
      (''MAINTENANCE_CANCELLED'', utf8 [0xE7, 0xBB, 0xB4, 0xE4, 0xBF, 0xAE, 0xE5, 0xB7, 0xA5, 0xE5, 0x8D, 0x95, 0xE5, 0xB7, 0xB2, 0xE5, 0x8F, 0x96, 0xE6,
           0xB6, 0x88]),
      (''RESCUE_RETRIED'', utf8 [0xE9, 0x81, 0x93, 0xE8, 0xB7, 0xAF, 0xE6, 0x95, 0x91, 0xE6, 0x8F, 0xB4, 0xE4, 0xBB, 0xBB, 0xE5, 0x8A, 0xA1, 0xE5, 0xB7,
           0xB2, 0xE9, 0x87, 0x8D, 0xE6, 0x96, 0xB0, 0xE6, 0xB4, 0xBE, 0xE5, 0x8F, 0x91]),
      (''VEHICLE_AVAILABLE'', utf8 [0xE8, 0xB4, 0xA8, 0xE6, 0xA3, 0x80, 0xE9, 0x80, 0x9A, 0xE8, 0xBF, 0x87, 0xEF, 0xBC, 0x8C, 0xE8, 0xBD, 0xA6, 0xE8, 0xBE,
           0x86, 0xE8, 0x87, 0xAA, 0xE5, 0x8A, 0xA8, 0xE6, 0x81, 0xA2, 0xE5, 0xA4, 0x8D, 0xE5, 0x8F, 0xAF, 0xE8, 0xB0, 0x83, 0xE5, 0xBA, 0xA6]),
      (''VEHICLE_OUT_OF_SERVICE'', utf8 [0xE8, 0xB4, 0xA8, 0xE6, 0xA3, 0x80, 0xE6, 0x9C, 0xAA, 0xE9, 0x80, 0x9A, 0xE8, 0xBF, 0x87, 0xEF, 0xBC, 0x8C, 0xE8,
           0xBD, 0xA6, 0xE8, 0xBE, 0x86, 0xE5, 0x81, 0x9C, 0xE6, 0xAD, 0xA2, 0xE8, 0xBF, 0x90, 0xE8, 0x90, 0xA5]),
      (''INSPECTION_DECIDED'', utf8 [0xE5, 0xAE, 0x89, 0xE5, 0x85, 0xA8, 0xE8, 0xB4, 0xA8, 0xE6, 0xA3, 0x80, 0xE7, 0xBB, 0x93, 0xE6, 0x9E, 0x9C, 0xE5, 0xB7,
           0xB2, 0xE7, 0xA1, 0xAE, 0xE8, 0xAE, 0xA4])]"

definition event_label :: "string \<Rightarrow> string" where
  "event_label event_type =
     (case map_of event_labels event_type of
        Some label \<Rightarrow> label
      | None \<Rightarrow> map (\<lambda>c. if c = CHR ''_'' then CHR '' '' else c) event_type)"

section \<open>Routes\<close>

definition edge_by_id :: "road_edge list \<Rightarrow> string \<Rightarrow> road_edge option" where
  "edge_by_id edges i = first_match (\<lambda>e. re_edge_id e = i) edges"

text \<open>The nodes along the edges, from a node on; \<open>None\<close> is an edge that is unknown or does not meet the node.\<close>

fun walk_nodes :: "road_edge list \<Rightarrow> string \<Rightarrow> string list \<Rightarrow> string list option" where
  "walk_nodes edges current [] = Some [current]"
| "walk_nodes edges current (i # is) =
     (case edge_by_id edges i of
        None \<Rightarrow> None
      | Some e \<Rightarrow>
          if re_from_node_id e = current then map_option ((#) current) (walk_nodes edges (re_to_node_id e) is)
          else if re_to_node_id e = current then map_option ((#) current) (walk_nodes edges (re_from_node_id e) is)
          else None)"

definition ordered_route_nodes :: "string list \<Rightarrow> road_edge list \<Rightarrow> string option \<Rightarrow> string option \<Rightarrow> string list" where
  "ordered_route_nodes edge_ids edges start_node_id end_node_id =
     (if edge_ids = [] then []
      else
        let backwards = (start_node_id = None \<and> end_node_id \<noteq> None);
            ordered = (if backwards then rev edge_ids else edge_ids)
        in case edge_by_id edges (hd ordered) of
             None \<Rightarrow> []
           | Some first \<Rightarrow>
               (let current = (case (if backwards then end_node_id else start_node_id) of None \<Rightarrow> re_from_node_id first | Some n \<Rightarrow> n)
                in case walk_nodes edges current ordered of None \<Rightarrow> [] | Some nodes \<Rightarrow> if backwards then rev nodes else nodes))"

section \<open>The service\<close>

definition node_view :: "road_node \<Rightarrow> pyval" where
  "node_view n =
     PDict [(''node_id'', PStr (rn_node_id n)), (''name'', PStr (rn_name n)), (''x_km'', PStr (format_f 2 (rn_x_km n))),
            (''y_km'', PStr (format_f 2 (rn_y_km n))), (''node_type'', PStr (rn_node_type n))]"

definition edge_view :: "road_edge \<Rightarrow> pyval" where
  "edge_view e =
     PDict [(''edge_id'', PStr (re_edge_id e)), (''name'', PStr (re_name e)), (''from_node_id'', PStr (re_from_node_id e)),
            (''to_node_id'', PStr (re_to_node_id e)), (''road_level'', PStr (re_road_level e)), (''status'', PStr (re_status e))]"

definition map_vehicle_view :: "operation_case \<Rightarrow> vehicle_row \<Rightarrow> pyval" where
  "map_vehicle_view c v =
     PDict [(''vehicle_id'', PStr (vr_vehicle_id v)), (''plate_no'', PStr (vr_plate_no v)), (''status'', PStr (vr_status v)),
            (''current_node_id'', PStr (vr_current_node_id v)), (''max_load_kg'', PStr (format_f 2 (vr_max_load_kg v))),
            (''current_load_kg'', PStr (format_f 2 (vr_current_load_kg v))), (''assigned_driver_id'', opt_str (vr_assigned_driver_id v)),
            (''status_reason'', opt_str (vr_status_reason v)), (''available_after'', opt_time (vr_available_after v)),
            (''is_incident'', PBool (vr_vehicle_id v = cx_vehicle_id c)),
            (''is_replacement'', PBool (Some (vr_vehicle_id v) = cx_replacement_vehicle_id c))]"

definition route_view :: "road_edge list \<Rightarrow> string \<times> string list \<times> string \<times> string option \<times> string option \<Rightarrow> pyval" where
  "route_view edges spec =
     (case spec of (kind, edge_ids, status, start, end_node) \<Rightarrow>
        PDict [(''kind'', PStr kind), (''edge_ids'', texts edge_ids), (''node_ids'', texts (ordered_route_nodes edge_ids edges start end_node)),
               (''status'', PStr status)])"

definition route_specs :: "road_edge list \<Rightarrow> operation_case \<Rightarrow> (string \<times> string list \<times> string \<times> string option \<times> string option) list" where
  "route_specs edges c =
     (let m = cx_mission c; incident = Some (rx_incident_node_id m); status = rescue_value (rx_status m);
          interrupted = (if list_ex (\<lambda>e. re_edge_id e = ''E03'') edges then [''E03''] else [])
      in [(''REPLACEMENT'', cx_replacement_edge_ids c, ''ACTIVE'', None, incident),
          (''RESCUE'', rx_outbound_edge_ids m, status, None, incident),
          (''TOW'', rx_tow_edge_ids m, status, incident, None),
          (''INTERRUPTED'', interrupted, ''INTERRUPTED'', None, None)])"

definition timeline_view :: "domain_outbox \<Rightarrow> pyval" where
  "timeline_view e =
     PDict [(''event_id'', PStr (ob_event_id e)), (''event_type'', PStr (ob_event_type e)), (''label'', PStr (event_label (ob_event_type e))),
            (''timestamp'', PStr (stored_isoformat (ob_created_at e))), (''payload'', PDict (ob_payload_json e))]"

definition map_snapshot :: "operations_db \<Rightarrow> road_node list \<Rightarrow> road_edge list \<Rightarrow> int \<Rightarrow> string \<Rightarrow> operation_error + pydict" where
  "map_snapshot db nodes edges now task_id =
     res_bind (get_case db task_id) (\<lambda>c. case c of
        None \<Rightarrow> Inl (VehicleOperationNotFound task_id)
      | Some c \<Rightarrow>
          Inr [(''task_id'', PStr task_id), (''generated_at'', PStr (isoformat now)),
               (''incident'', PDict
                  [(''status'', PStr (if mx_status (cx_maintenance c) = M_COMPLETED then ''RECOVERED'' else ''AUTO_PROCESSING'')),
                   (''risk'', PStr ''HIGH''), (''vehicle_id'', PStr (cx_vehicle_id c)),
                   (''replacement_vehicle_id'', opt_str (cx_replacement_vehicle_id c)),
                   (''location_node_id'', PStr (rx_incident_node_id (cx_mission c))), (''fault_code'', PStr (mx_fault_code (cx_maintenance c))),
                   (''cargo'', PStr (utf8 [0xE5, 0x86, 0xB7, 0xE9, 0x93, 0xBE, 0xE7, 0x94, 0x9F, 0xE9, 0xB2, 0x9C, 0x20, 0xC2, 0xB7, 0x20, 0x37, 0x30, 0x30,
           0x6B, 0x67]))]),
               (''nodes'', PList (map node_view (sort_key rn_node_id nodes))), (''edges'', PList (map edge_view (sort_key re_edge_id edges))),
               (''vehicles'', PList (map (map_vehicle_view c) (sort_key vr_vehicle_id (op_vehicles db)))),
               (''routes'', PList (map (route_view edges) (route_specs edges c))), (''rescue'', PDict (rescue_view c)),
               (''maintenance'', PDict (maintenance_view c now)), (''stages'', PList (stages_view c)),
               (''timeline'', PList (map timeline_view (filter (\<lambda>e. ob_task_id e = task_id) (op_outbox db))))])"

definition vehicle_view :: "vehicle_row \<Rightarrow> pydict" where
  "vehicle_view v =
     [(''vehicle_id'', PStr (vr_vehicle_id v)), (''plate_no'', PStr (vr_plate_no v)), (''vehicle_type'', PStr (vr_vehicle_type v)),
      (''status'', PStr (vr_status v)), (''current_node_id'', PStr (vr_current_node_id v)), (''fault_code'', opt_str (vr_fault_code v)),
      (''maintenance_order_no'', opt_str (vr_maintenance_order_no v)), (''version'', PInt (vr_version v))]"

definition list_vehicles :: "operations_db \<Rightarrow> pydict list" where
  "list_vehicles db = map vehicle_view (sort_key vr_vehicle_id (op_vehicles db))"

definition driver_map_snapshot :: "ledger_db \<Rightarrow> operations_db \<Rightarrow> road_node list \<Rightarrow> road_edge list \<Rightarrow> int \<Rightarrow> string \<Rightarrow> string \<Rightarrow> operation_error + pydict" where
  "driver_map_snapshot lg db nodes edges now task_id subject_id =
     (case task_by_id lg task_id of
        None \<Rightarrow> Inl (VehicleOperationNotFound task_id)
      | Some t \<Rightarrow> if dt_assignee_subject_id t \<noteq> Some subject_id then Inl (VehicleOperationNotFound task_id) else map_snapshot db nodes edges now task_id)"

text \<open>The assertion that a case exists for a mission or an order fails as an \<open>AssertionError\<close>.\<close>

definition asserted_case :: "operations_db \<Rightarrow> string \<Rightarrow> operation_error + operation_case" where
  "asserted_case db task_id = res_bind (get_case db task_id) (\<lambda>c. case c of None \<Rightarrow> Inl OperationAttributeError | Some c \<Rightarrow> Inr c)"

definition get_rescue_mission :: "operations_db \<Rightarrow> string \<Rightarrow> operation_error + pydict" where
  "get_rescue_mission db mission_no =
     (case first_match (\<lambda>m. rm_mission_no m = mission_no) (op_missions db) of
        None \<Rightarrow> Inl (VehicleOperationNotFound mission_no)
      | Some m \<Rightarrow> res_bind (asserted_case db (rm_task_id m)) (\<lambda>c. Inr (rescue_view c)))"

definition get_maintenance_order :: "operations_db \<Rightarrow> int \<Rightarrow> string \<Rightarrow> operation_error + pydict" where
  "get_maintenance_order db now order_no =
     (case first_match (\<lambda>x. mo_order_no x = order_no) (op_orders db) of
        None \<Rightarrow> Inl (VehicleOperationNotFound order_no)
      | Some x \<Rightarrow> res_bind (asserted_case db (mo_task_id x)) (\<lambda>c. Inr (maintenance_view c now)))"

definition list_maintenance_orders :: "operations_db \<Rightarrow> int \<Rightarrow> operation_error + pydict list" where
  "list_maintenance_orders db now = map_result (get_maintenance_order db now) (map mo_order_no (rev (op_orders db)))"

definition query_record_inspection :: "operation_env \<Rightarrow> string \<Rightarrow> bool \<Rightarrow> string \<Rightarrow> int \<Rightarrow> operations_db \<Rightarrow> pydict operation_result" where
  "query_record_inspection env order_no passed subject_id now db =
     res_bind (record_inspection env order_no passed now subject_id db) (\<lambda>(c, db1). Inr (maintenance_view c now, db1))"

section \<open>Results\<close>

lemma walk_nodes_forward:
  "distinct (map re_edge_id edges) \<Longrightarrow> joins edges ns is \<Longrightarrow> walk_nodes edges (hd ns) is = Some ns"
proof (induction edges ns "is" rule: joins.induct)
  case (2 edges n m ns i "is")
  then obtain e where e: "e \<in> set edges" "re_edge_id e = i"
      "re_from_node_id e = n \<and> re_to_node_id e = m \<or> re_to_node_id e = n \<and> re_from_node_id e = m"
    by auto
  have "edge_by_id edges i = Some e" using first_match_distinct [OF 2(2) e(1)] e(2) by (simp add: edge_by_id_def)
  then show ?case using 2 e(3) by auto
qed auto

lemma joins_length: "joins edges ns is \<Longrightarrow> length ns = Suc (length is)"
  by (induction edges ns "is" rule: joins.induct) auto

text \<open>The edges without their direction, which is all that the reconstruction reads.\<close>

definition undirected :: "road_edge list \<Rightarrow> road_edge list" where
  "undirected edges = map (\<lambda>e. e\<lparr>re_bidirectional := True\<rparr>) edges"

lemma joins_undirected: "joins edges ns is \<Longrightarrow> joins (undirected edges) ns is"
  by (induction edges ns "is" rule: joins.induct) (auto simp: undirected_def)

lemma walk_nodes_undirected: "walk_nodes (undirected edges) n is = walk_nodes edges n is"
proof (induction "is" arbitrary: n)
  case (Cons i "is")
  have "edge_by_id (undirected edges) i = map_option (\<lambda>e. e\<lparr>re_bidirectional := True\<rparr>) (edge_by_id edges i)"
    unfolding edge_by_id_def undirected_def by (induction edges) auto
  then show ?case using Cons by (auto split: option.split)
qed simp

lemma joins_snoc:
  "joins edges (ns @ [n]) is \<Longrightarrow> e \<in> set edges \<Longrightarrow> re_edge_id e = i \<Longrightarrow> re_bidirectional e \<Longrightarrow>
   re_from_node_id e = n \<and> re_to_node_id e = m \<or> re_to_node_id e = n \<and> re_from_node_id e = m \<Longrightarrow> joins edges (ns @ [n, m]) (is @ [i])"
proof (induction ns arbitrary: "is")
  case Nil
  then show ?case by (cases "is") auto
next
  case (Cons a ns)
  then show ?case by (cases "is"; cases ns) auto
qed

lemma joins_rev:
  assumes "joins edges ns is" "\<forall>e\<in>set edges. re_bidirectional e"
  shows "joins edges (rev ns) (rev is)"
  using assms
proof (induction edges ns "is" rule: joins.induct)
  case (2 edges n m ns i "is")
  then obtain e where e: "e \<in> set edges" "re_edge_id e = i"
      "re_from_node_id e = n \<and> re_to_node_id e = m \<or> re_to_node_id e = n \<and> re_from_node_id e = m"
    by auto
  have "joins edges (rev ns @ [m]) (rev is)" using 2 by simp
  then show ?case using joins_snoc [of edges "rev ns" m "rev is" e i n] e 2(3) by auto
qed auto

lemma drivable_last: "drivable net vw excl s es t \<Longrightarrow> last (s # map snd es) = t"
  by (induction net vw excl s es t rule: drivable.induct) auto

text \<open>
  C35. The map of a case shows each route as the nodes along it, although the tables keep only the ids of its edges. For a route of at least one edge, on the network on which it was found, this
  gives back its nodes, whether the reconstruction starts at its first node, as for the tow, or goes backwards from its last, as for the rescue. A route without edges,
  of a vehicle that is at its destination already, is shown without any node.
\<close>

theorem route_nodes_rebuilt:
  assumes "wf_network net" and "find_path net s t obj vw excl = Inr (Some p)"
  shows "if pr_edge_ids p \<noteq> []
    then ordered_route_nodes (pr_edge_ids p) (net_edges net) (Some s) None = pr_node_ids p \<and>
      ordered_route_nodes (pr_edge_ids p) (net_edges net) None (Some t) = pr_node_ids p
    else s = t \<and> pr_node_ids p = [s] \<and> ordered_route_nodes (pr_edge_ids p) (net_edges net) (Some s) None = [] \<and>
      ordered_route_nodes (pr_edge_ids p) (net_edges net) None (Some t) = []"
proof (cases "pr_edge_ids p = []")
  case True
  obtain es where es: "route_of net vw excl s t es p" using dijkstra.find_route [OF assms] .
  then have "es = []" using True by (cases es) (auto simp: route_of_def walk_ids_def)
  then show ?thesis using es True by (simp add: route_of_def ordered_route_nodes_def)
next
  case False
  have d: "distinct (map re_edge_id (net_edges net))" using assms(1) by (simp add: wf_network_def)
  then have d': "distinct (map re_edge_id (undirected (net_edges net)))" by (simp add: undirected_def comp_def)
  have j: "joins (net_edges net) (pr_node_ids p) (pr_edge_ids p)" using dijkstra.find_joins [OF assms(1,2)] .
  obtain es where es: "route_of net vw excl s t es p" using dijkstra.find_route [OF assms(1,2)] .
  have ends: "pr_node_ids p \<noteq> [] \<and> hd (pr_node_ids p) = s \<and> last (pr_node_ids p) = t"
    using es drivable_last [of net vw excl s es t] by (simp add: route_of_def)
  have f: "walk_nodes (net_edges net) s (pr_edge_ids p) = Some (pr_node_ids p)" using walk_nodes_forward [OF d j] ends by simp
  have b: "walk_nodes (net_edges net) t (rev (pr_edge_ids p)) = Some (rev (pr_node_ids p))"
  proof -
    have "\<forall>e\<in>set (undirected (net_edges net)). re_bidirectional e" by (simp add: undirected_def)
    then show ?thesis using walk_nodes_forward [OF d' joins_rev [OF joins_undirected [OF j]]] ends by (simp add: walk_nodes_undirected hd_rev)
  qed
  have "\<exists>e. edge_by_id (net_edges net) (hd (pr_edge_ids p)) = Some e" "\<exists>e. edge_by_id (net_edges net) (hd (rev (pr_edge_ids p))) = Some e"
    using f b False by (cases "pr_edge_ids p"; cases "rev (pr_edge_ids p)"; auto split: option.splits)+
  then show ?thesis using f b False by (simp add: ordered_route_nodes_def Let_def) auto
qed

theorem route_nodes_rebuilt_witness:
  "ordered_route_nodes [''E3''] (net_edges sample_net) None (Some ''C'') = [''A'', ''C'']"
  using route_nodes_rebuilt [OF sample_net_wf sample_detour_found] by (simp add: sample_detour_def)

end
