(* ===== verification/Vehicle_Repairs.thy ===== *)
theory Vehicle_Repairs
  imports Vehicle_Operations
begin

text \<open>
  What the transactions of \<open>Vehicle_Operations\<close> keep of the tables: the mission, the order, the vehicle, the bay and the rescue unit of a case agree on how far
  it has come, and no two open cases share a vehicle, a bay or a unit. Hence the transactions of the progressor never fail.
\<close>

section \<open>The invariant\<close>

text \<open>The operations modelled here never cancel a case, so that a cancelled mission or order is no stage of one; only the demo reset cancels.\<close>

fun case_stage_ok :: "rescue_status \<Rightarrow> maintenance_status \<Rightarrow> bool" where
  "case_stage_ok R_DISPATCHED s \<longleftrightarrow> s = M_SCHEDULED"
| "case_stage_ok R_ARRIVED s \<longleftrightarrow> s = M_SCHEDULED"
| "case_stage_ok R_LOADED s \<longleftrightarrow> s = M_SCHEDULED"
| "case_stage_ok R_DELIVERED s \<longleftrightarrow> s \<in> {M_WAITING_BAY, M_DIAGNOSING, M_REPAIRING, M_QA_PENDING, M_COMPLETED, M_FAILED}"
| "case_stage_ok _ s \<longleftrightarrow> False"

definition open_order :: "maintenance_order \<Rightarrow> bool" where
  "open_order x \<longleftrightarrow> mo_status x \<notin> {M_COMPLETED, M_FAILED}"

definition active_mission :: "rescue_mission \<Rightarrow> bool" where
  "active_mission m \<longleftrightarrow> rm_status m \<noteq> R_DELIVERED"

text \<open>The status of the vehicle of an open case.\<close>

definition vehicle_stage :: "rescue_status \<Rightarrow> maintenance_status \<Rightarrow> vehicle_operational_status" where
  "vehicle_stage r s =
     (if r = R_LOADED then V_IN_RESCUE else if r \<noteq> R_DELIVERED then V_WAITING_RESCUE
      else if s = M_QA_PENDING then V_QA_PENDING else V_MAINTENANCE)"

definition scheduled :: "maintenance_order \<Rightarrow> bool" where
  "scheduled x \<longleftrightarrow>
     (mo_status x \<in> {M_WAITING_BAY, M_DIAGNOSING, M_REPAIRING} \<longrightarrow> mo_next_transition_at x \<noteq> None) \<and>
     (mo_status x = M_QA_PENDING \<and> mo_next_transition_at x = None \<longrightarrow> mo_manual_inspection_required x \<and> mo_inspection_result x = None)"

definition vehicle_held :: "operations_db \<Rightarrow> rescue_mission \<Rightarrow> maintenance_order \<Rightarrow> bool" where
  "vehicle_held db m x \<longleftrightarrow>
     (\<exists>v\<in>set (op_vehicles db). vr_vehicle_id v = mo_vehicle_id x \<and>
        (open_order x \<longrightarrow> vr_status v = vehicle_status_value (vehicle_stage (rm_status m) (mo_status x)) \<and>
                        vr_maintenance_order_no v = Some (mo_order_no x)))"

definition bay_held :: "operations_db \<Rightarrow> maintenance_order \<Rightarrow> bool" where
  "bay_held db x \<longleftrightarrow>
     (open_order x \<longrightarrow> (\<exists>b\<in>set (op_bays db). mo_bay_code x = Some (mb_bay_code b) \<and> mb_status b = ''RESERVED'' \<and>
                                              mb_current_order_no b = Some (mo_order_no x)))"

definition unit_held :: "operations_db \<Rightarrow> rescue_mission \<Rightarrow> bool" where
  "unit_held db m \<longleftrightarrow>
     (active_mission m \<longrightarrow> rm_next_transition_at m \<noteq> None \<and>
        (\<exists>u\<in>set (op_units db). ru_unit_id u = rm_rescue_unit_id m \<and> ru_status u = ''DISPATCHED''))"

definition case_ok :: "operations_db \<Rightarrow> rescue_mission \<Rightarrow> maintenance_order \<Rightarrow> bool" where
  "case_ok db m x \<longleftrightarrow>
     rm_vehicle_id m = mo_vehicle_id x \<and> case_stage_ok (rm_status m) (mo_status x) \<and> scheduled x \<and> vehicle_held db m x \<and> bay_held db x \<and> unit_held db m"

definition keys_ok :: "operations_db \<Rightarrow> bool" where
  "keys_ok db \<longleftrightarrow>
     distinct (map vr_vehicle_id (op_vehicles db)) \<and> distinct (map ru_unit_id (op_units db)) \<and> distinct (map mb_bay_code (op_bays db)) \<and>
     distinct (map rm_mission_no (op_missions db)) \<and> distinct (map rm_task_id (op_missions db)) \<and>
     distinct (map mo_order_no (op_orders db)) \<and> distinct (map mo_task_id (op_orders db)) \<and>
     rm_task_id ` set (op_missions db) = mo_task_id ` set (op_orders db)"

definition units_apart :: "operations_db \<Rightarrow> bool" where
  "units_apart db \<longleftrightarrow>
     (\<forall>m\<in>set (op_missions db). \<forall>m'\<in>set (op_missions db).
        active_mission m \<and> active_mission m' \<and> rm_rescue_unit_id m = rm_rescue_unit_id m' \<longrightarrow> m = m')"

definition moves_ok :: "vehicle_status_history list \<Rightarrow> bool" where
  "moves_ok hs \<longleftrightarrow>
     (\<forall>h\<in>set hs. \<exists>a b. vh_from_status h = vehicle_status_value a \<and> vh_to_status h = vehicle_status_value b \<and> b \<in> set (vehicle_transitions a))"

definition outbox_ok :: "domain_outbox list \<Rightarrow> bool" where
  "outbox_ok es \<longleftrightarrow>
     (\<forall>e\<in>set es. ob_event_type e = ''REPLACEMENT_DISPATCHED'' \<longrightarrow>
        (\<exists>i ids. dget (ob_payload_json e) ''vehicle_id'' = PStr i \<and> map_of (ob_payload_json e) ''edge_ids'' = Some (PList (map PStr ids))))"

definition ops_ok :: "operations_db \<Rightarrow> bool" where
  "ops_ok db \<longleftrightarrow>
     keys_ok db \<and> units_apart db \<and> moves_ok (op_history db) \<and> outbox_ok (op_outbox db) \<and>
     (\<forall>m\<in>set (op_missions db). \<forall>x\<in>set (op_orders db). rm_task_id m = mo_task_id x \<longrightarrow> case_ok db m x)"

section \<open>Rows\<close>

lemma vehicle_status_of_value [simp]: "vehicle_status_of (vehicle_status_value s) = Some s"
  by (cases s) (simp_all add: vehicle_status_of_def)

lemma touch_vehicle_sel [simp]:
  "vr_vehicle_id (touch_vehicle a b) = vr_vehicle_id b" "vr_status (touch_vehicle a b) = vr_status b"
  "vr_maintenance_order_no (touch_vehicle a b) = vr_maintenance_order_no b" "vr_current_node_id (touch_vehicle a b) = vr_current_node_id b"
  by (simp_all add: touch_vehicle_def)

lemma touch_unit_sel [simp]: "ru_unit_id (touch_unit a b) = ru_unit_id b" "ru_status (touch_unit a b) = ru_status b"
  by (simp_all add: touch_unit_def)

lemma touch_bay_sel [simp]:
  "mb_bay_code (touch_bay a b) = mb_bay_code b" "mb_status (touch_bay a b) = mb_status b" "mb_current_order_no (touch_bay a b) = mb_current_order_no b"
  by (simp_all add: touch_bay_def)

lemma touch_mission_sel [simp]:
  "rm_mission_no (touch_mission a b) = rm_mission_no b" "rm_task_id (touch_mission a b) = rm_task_id b"
  "rm_vehicle_id (touch_mission a b) = rm_vehicle_id b" "rm_rescue_unit_id (touch_mission a b) = rm_rescue_unit_id b"
  "rm_status (touch_mission a b) = rm_status b" "rm_next_transition_at (touch_mission a b) = rm_next_transition_at b"
  "rm_station_node_id (touch_mission a b) = rm_station_node_id b"
  by (simp_all add: touch_mission_def)

lemma touch_order_sel [simp]:
  "mo_order_no (touch_order a b) = mo_order_no b" "mo_task_id (touch_order a b) = mo_task_id b" "mo_vehicle_id (touch_order a b) = mo_vehicle_id b"
  "mo_bay_code (touch_order a b) = mo_bay_code b" "mo_status (touch_order a b) = mo_status b"
  "mo_next_transition_at (touch_order a b) = mo_next_transition_at b" "mo_repair_minutes (touch_order a b) = mo_repair_minutes b"
  "mo_manual_inspection_required (touch_order a b) = mo_manual_inspection_required b"
  "mo_inspection_result (touch_order a b) = mo_inspection_result b" "mo_available_after (touch_order a b) = mo_available_after b"
  by (simp_all add: touch_order_def)

lemma transition_vehicle_stage:
  "vr_status v = vehicle_status_value s \<Longrightarrow> target \<in> set (vehicle_transitions s) \<Longrightarrow>
   transition_vehicle v target reason task_id now =
     Inr (v\<lparr>vr_status := vehicle_status_value target, vr_status_reason := Some reason, vr_status_changed_at := Some now\<rparr>,
          \<lparr>vh_vehicle_id = vr_vehicle_id v, vh_task_id = task_id, vh_from_status = vehicle_status_value s,
           vh_to_status = vehicle_status_value target, vh_reason = reason, vh_changed_at = now\<rparr>)"
  by (simp add: transition_vehicle_def require_vehicle_transition_def require_transition_def)

lemma transition_vehicle_Inr:
  assumes "transition_vehicle v target reason task_id now = Inr (v', h)"
  obtains s where "vr_status v = vehicle_status_value s" "target \<in> set (vehicle_transitions s)"
    "v' = v\<lparr>vr_status := vehicle_status_value target, vr_status_reason := Some reason, vr_status_changed_at := Some now\<rparr>"
    "moves_ok [h]"
proof -
  obtain s where s: "vehicle_status_of (vr_status v) = Some s" "target \<in> set (vehicle_transitions s)"
    using assms by (auto simp: transition_vehicle_def require_vehicle_transition_def require_transition_def split: option.splits if_splits)
  moreover have "vr_status v = vehicle_status_value s"
    using s(1) first_match_SomeD unfolding vehicle_status_of_def by fastforce
  ultimately have e: "Inr (v', h) = (Inr (v\<lparr>vr_status := vehicle_status_value target, vr_status_reason := Some reason,
      vr_status_changed_at := Some now\<rparr>, \<lparr>vh_vehicle_id = vr_vehicle_id v, vh_task_id = task_id, vh_from_status = vehicle_status_value s,
      vh_to_status = vehicle_status_value target, vh_reason = reason, vh_changed_at = now\<rparr>) :: operation_error + _)"
    using assms by (simp add: transition_vehicle_stage)
  then have "moves_ok [h]" using s(2) by (auto simp: moves_ok_def)
  then show thesis using e s that \<open>vr_status v = _\<close> by blast
qed

lemma moves_ok_append [simp]: "moves_ok (hs @ ks) \<longleftrightarrow> moves_ok hs \<and> moves_ok ks"
  by (auto simp: moves_ok_def)

lemma outbox_ok_append [simp]: "outbox_ok (es @ fs) \<longleftrightarrow> outbox_ok es \<and> outbox_ok fs"
  by (auto simp: outbox_ok_def)

lemma add_event_simps [simp]:
  "op_vehicles (add_event env t a i e p db) = op_vehicles db" "op_units (add_event env t a i e p db) = op_units db"
  "op_bays (add_event env t a i e p db) = op_bays db" "op_missions (add_event env t a i e p db) = op_missions db"
  "op_orders (add_event env t a i e p db) = op_orders db" "op_history (add_event env t a i e p db) = op_history db"
  by (simp_all add: add_event_def Let_def)

lemma add_event_outbox: "outbox_ok (op_outbox db) \<Longrightarrow> e \<noteq> ''REPLACEMENT_DISPATCHED'' \<Longrightarrow> outbox_ok (op_outbox (add_event env t a i e p db))"
  by (simp add: add_event_def Let_def) (simp add: outbox_ok_def)

lemmas store_defs = store_vehicle_def store_unit_def store_bay_def store_mission_def store_order_def add_history_def

lemma payload_texts_map [simp]: "payload_texts (map PStr ids) = Some ids"
  by (induction ids) auto

section \<open>Lookups\<close>

lemma ops_okD:
  assumes "ops_ok db"
  shows "keys_ok db" "units_apart db" "moves_ok (op_history db)" "outbox_ok (op_outbox db)"
    "m \<in> set (op_missions db) \<Longrightarrow> x \<in> set (op_orders db) \<Longrightarrow> rm_task_id m = mo_task_id x \<Longrightarrow> case_ok db m x"
  using assms by (auto simp: ops_ok_def)

lemma keys_okD:
  assumes "keys_ok db"
  shows "distinct (map vr_vehicle_id (op_vehicles db))" "distinct (map ru_unit_id (op_units db))" "distinct (map mb_bay_code (op_bays db))"
    "distinct (map rm_mission_no (op_missions db))" "distinct (map rm_task_id (op_missions db))"
    "distinct (map mo_order_no (op_orders db))" "distinct (map mo_task_id (op_orders db))"
  using assms by (simp_all add: keys_ok_def)

lemma mission_has_order:
  assumes "ops_ok db" "m \<in> set (op_missions db)"
  obtains x where "x \<in> set (op_orders db)" "rm_task_id m = mo_task_id x" "case_ok db m x"
proof -
  have "rm_task_id m \<in> mo_task_id ` set (op_orders db)" using assms by (auto simp: ops_ok_def keys_ok_def)
  then show thesis using assms that by (auto simp: ops_ok_def)
qed

lemma order_has_mission:
  assumes "ops_ok db" "x \<in> set (op_orders db)"
  obtains m where "m \<in> set (op_missions db)" "rm_task_id m = mo_task_id x" "case_ok db m x"
proof -
  have "mo_task_id x \<in> rm_task_id ` set (op_missions db)" using assms unfolding ops_ok_def keys_ok_def by blast
  then show thesis using assms that by (auto simp: ops_ok_def)
qed

lemma lookups:
  assumes "keys_ok db"
  shows "v \<in> set (op_vehicles db) \<Longrightarrow> vehicle_for_update db (vr_vehicle_id v) = Inr v"
    "u \<in> set (op_units db) \<Longrightarrow> unit_of db (ru_unit_id u) = Some u"
    "m \<in> set (op_missions db) \<Longrightarrow> mission_of_task db (rm_task_id m) = Some m"
    "x \<in> set (op_orders db) \<Longrightarrow> order_of_task db (mo_task_id x) = Some x"
  using keys_okD [OF assms]
  by (simp_all add: vehicle_for_update_def unit_of_def mission_of_task_def order_of_task_def first_match_distinct)

lemma replacement_of_ok:
  assumes "outbox_ok (op_outbox db)"
  obtains r where "replacement_of db t = Inr r"
proof (cases "replacement_event db t")
  case (Some e)
  then have "e \<in> set (op_outbox db)" "ob_event_type e = ''REPLACEMENT_DISPATCHED''"
    by (auto simp: replacement_event_def dest!: first_match_SomeD)
  then obtain i ids where "dget (ob_payload_json e) ''vehicle_id'' = PStr i" "map_of (ob_payload_json e) ''edge_ids'' = Some (PList (map PStr ids))"
    using assms by (auto simp: outbox_ok_def)
  then show thesis using Some that by (simp add: replacement_of_def dget_default_def dhas_def dget_def)
qed (simp add: that replacement_of_def)

lemma with_case_ok:
  assumes "ops_ok db" "m \<in> set (op_missions db)"
  obtains c where "with_case db (Some m) = Inr (c, db)"
proof -
  obtain x where x: "x \<in> set (op_orders db)" "rm_task_id m = mo_task_id x" "case_ok db m x" using mission_has_order [OF assms] .
  then obtain v where "v \<in> set (op_vehicles db)" "vr_vehicle_id v = rm_vehicle_id m" by (auto simp: case_ok_def vehicle_held_def)
  then have v: "vehicle_for_update db (rm_vehicle_id m) = Inr v" using lookups(1) [OF ops_okD(1) [OF assms(1)]] by metis
  have o: "order_of_task db (rm_task_id m) = Some x" using lookups(4) [OF ops_okD(1) [OF assms(1)]] x by simp
  obtain r where "replacement_of db (rm_task_id m) = Inr r" using replacement_of_ok [OF ops_okD(4) [OF assms(1)]] .
  then show thesis using v o that by (cases r) (auto simp: with_case_def case_snapshot_def Let_def)
qed

section \<open>A step of one case\<close>

text \<open>
  A transaction on an open case changes no row of another: the rows it changes are those of the mission \<open>m\<close>, its order \<open>x\<close>, and the vehicle, the bay and the unit
  that they hold.
\<close>

definition case_step :: "operations_db \<Rightarrow> rescue_mission \<Rightarrow> maintenance_order \<Rightarrow> (rescue_mission \<Rightarrow> rescue_mission) \<Rightarrow>
    (maintenance_order \<Rightarrow> maintenance_order) \<Rightarrow> operations_db \<Rightarrow> bool" where
  "case_step db m x fm fx db' \<longleftrightarrow>
     op_missions db' = map fm (op_missions db) \<and> op_orders db' = map fx (op_orders db) \<and>
     (\<forall>y\<in>set (op_missions db). rm_mission_no (fm y) = rm_mission_no y \<and> rm_task_id (fm y) = rm_task_id y \<and> rm_rescue_unit_id (fm y) = rm_rescue_unit_id y) \<and>
     (\<forall>y\<in>set (op_orders db). mo_order_no (fx y) = mo_order_no y \<and> mo_task_id (fx y) = mo_task_id y) \<and>
     (\<forall>y. rm_mission_no y \<noteq> rm_mission_no m \<longrightarrow> fm y = y) \<and> (\<forall>y. mo_order_no y \<noteq> mo_order_no x \<longrightarrow> fx y = y) \<and>
     (active_mission (fm m) \<longrightarrow> active_mission m) \<and>
     (\<exists>f. op_vehicles db' = map f (op_vehicles db) \<and> (\<forall>v. vr_vehicle_id (f v) = vr_vehicle_id v) \<and>
          (\<forall>v. vr_vehicle_id v \<noteq> mo_vehicle_id x \<longrightarrow> f v = v)) \<and>
     (\<exists>f. op_bays db' = map f (op_bays db) \<and> (\<forall>b. mb_bay_code (f b) = mb_bay_code b) \<and> (\<forall>b. Some (mb_bay_code b) \<noteq> mo_bay_code x \<longrightarrow> f b = b)) \<and>
     (\<exists>f. op_units db' = map f (op_units db) \<and> (\<forall>u. ru_unit_id (f u) = ru_unit_id u) \<and>
          (\<forall>u. ru_unit_id u \<noteq> rm_rescue_unit_id m \<or> \<not> active_mission m \<longrightarrow> f u = u))"

lemma map_keys: "(\<forall>y. k (f y) = k y) \<Longrightarrow> map k (map f ys) = map k ys"
  by simp

lemma case_step_keys:
  assumes "ops_ok db" "case_step db m x fm fx db'"
  shows "keys_ok db'"
proof -
  have "map vr_vehicle_id (op_vehicles db') = map vr_vehicle_id (op_vehicles db)"
    "map ru_unit_id (op_units db') = map ru_unit_id (op_units db)" "map mb_bay_code (op_bays db') = map mb_bay_code (op_bays db)"
    "map rm_mission_no (op_missions db') = map rm_mission_no (op_missions db)" "map rm_task_id (op_missions db') = map rm_task_id (op_missions db)"
    "map mo_order_no (op_orders db') = map mo_order_no (op_orders db)" "map mo_task_id (op_orders db') = map mo_task_id (op_orders db)"
    using assms(2) by (auto simp: case_step_def)
  then show ?thesis using ops_okD(1) [OF assms(1)] unfolding keys_ok_def by (metis set_map)
qed

lemma case_step_rows:
  assumes "keys_ok db" "case_step db m x fm fx db'" "m \<in> set (op_missions db)" "x \<in> set (op_orders db)"
  shows "y \<in> set (op_missions db') \<Longrightarrow> y = fm m \<or> y \<in> set (op_missions db) \<and> y \<noteq> m \<and> rm_mission_no y \<noteq> rm_mission_no m"
    "z \<in> set (op_orders db') \<Longrightarrow> z = fx x \<or> z \<in> set (op_orders db) \<and> z \<noteq> x \<and> mo_order_no z \<noteq> mo_order_no x"
proof -
  have fm: "op_missions db' = map fm (op_missions db)" "\<And>y. rm_mission_no y \<noteq> rm_mission_no m \<Longrightarrow> fm y = y"
    and fx: "op_orders db' = map fx (op_orders db)" "\<And>y. mo_order_no y \<noteq> mo_order_no x \<Longrightarrow> fx y = y"
    using assms(2) by (auto simp: case_step_def)
  show "y \<in> set (op_missions db') \<Longrightarrow> y = fm m \<or> y \<in> set (op_missions db) \<and> y \<noteq> m \<and> rm_mission_no y \<noteq> rm_mission_no m"
  proof -
    assume "y \<in> set (op_missions db')"
    then obtain n where "n \<in> set (op_missions db)" "y = fm n" using fm(1) by auto
    then show ?thesis using fm(2) [of n] distinct_mapD [OF keys_okD(4) [OF assms(1)] _ assms(3), of n] by metis
  qed
  show "z \<in> set (op_orders db') \<Longrightarrow> z = fx x \<or> z \<in> set (op_orders db) \<and> z \<noteq> x \<and> mo_order_no z \<noteq> mo_order_no x"
  proof -
    assume "z \<in> set (op_orders db')"
    then obtain n where "n \<in> set (op_orders db)" "z = fx n" using fx(1) by auto
    then show ?thesis using fx(2) [of n] distinct_mapD [OF keys_okD(6) [OF assms(1)] _ assms(4), of n] by metis
  qed
qed

lemma open_apart:
  assumes "ops_ok db" "x \<in> set (op_orders db)" "open_order x" "y \<in> set (op_orders db)" "open_order y"
    "mo_vehicle_id x = mo_vehicle_id y \<or> mo_bay_code x = mo_bay_code y"
  shows "x = y"
proof -
  note keys = keys_okD [OF ops_okD(1) [OF assms(1)]]
  obtain m n where "case_ok db m x" "case_ok db n y"
    using order_has_mission [OF assms(1,2)] order_has_mission [OF assms(1,4)] by metis
  then obtain v w b c where
    v: "v \<in> set (op_vehicles db)" "vr_vehicle_id v = mo_vehicle_id x" "vr_maintenance_order_no v = Some (mo_order_no x)" and
    w: "w \<in> set (op_vehicles db)" "vr_vehicle_id w = mo_vehicle_id y" "vr_maintenance_order_no w = Some (mo_order_no y)" and
    b: "b \<in> set (op_bays db)" "Some (mb_bay_code b) = mo_bay_code x" "mb_current_order_no b = Some (mo_order_no x)" and
    c: "c \<in> set (op_bays db)" "Some (mb_bay_code c) = mo_bay_code y" "mb_current_order_no c = Some (mo_order_no y)"
    using assms(3,5) by (auto simp: case_ok_def vehicle_held_def bay_held_def)
  have "mo_order_no x = mo_order_no y"
    using assms(6)
  proof
    assume "mo_vehicle_id x = mo_vehicle_id y"
    then have "v = w" using v w distinct_mapD [OF keys(1)] by simp
    then show ?thesis using v(3) w(3) by simp
  next
    assume "mo_bay_code x = mo_bay_code y"
    then have "mb_bay_code b = mb_bay_code c" using b(2) c(2) by (metis option.inject)
    then have "b = c" using b c distinct_mapD [OF keys(3)] by simp
    then show ?thesis using b(3) c(3) by simp
  qed
  then show ?thesis using assms(2,4) distinct_mapD [OF keys(6)] by simp
qed

text \<open>The other cases keep what they hold.\<close>

lemma case_step_others:
  assumes ok: "ops_ok db" and m: "m \<in> set (op_missions db)" and x: "x \<in> set (op_orders db)" "open_order x"
    and step: "case_step db m x fm fx db'"
    and n: "n \<in> set (op_missions db)" "n \<noteq> m" and y: "y \<in> set (op_orders db)" "y \<noteq> x" and task: "rm_task_id n = mo_task_id y"
  shows "case_ok db' n y"
proof -
  have c: "case_ok db n y" using ops_okD(5) [OF ok] n y task by simp
  obtain fv fb fu where
    fv: "op_vehicles db' = map fv (op_vehicles db)" "\<And>v. vr_vehicle_id (fv v) = vr_vehicle_id v"
      "\<And>v. vr_vehicle_id v \<noteq> mo_vehicle_id x \<Longrightarrow> fv v = v" and
    fb: "op_bays db' = map fb (op_bays db)" "\<And>b. Some (mb_bay_code b) \<noteq> mo_bay_code x \<Longrightarrow> fb b = b" and
    fu: "op_units db' = map fu (op_units db)" "\<And>u. ru_unit_id u \<noteq> rm_rescue_unit_id m \<or> \<not> active_mission m \<Longrightarrow> fu u = u"
    using step by (auto simp: case_step_def)
  have apart: "open_order y \<Longrightarrow> mo_vehicle_id y \<noteq> mo_vehicle_id x \<and> mo_bay_code y \<noteq> mo_bay_code x"
    using open_apart [OF ok y(1) _ x] y(2) by metis
  have "vehicle_held db' n y"
  proof -
    obtain v where v: "v \<in> set (op_vehicles db)" "vr_vehicle_id v = mo_vehicle_id y"
      "open_order y \<longrightarrow> vr_status v = vehicle_status_value (vehicle_stage (rm_status n) (mo_status y)) \<and> vr_maintenance_order_no v = Some (mo_order_no y)"
      using c by (auto simp: case_ok_def vehicle_held_def)
    have "open_order y \<Longrightarrow> fv v = v" using apart fv(3) v(2) by simp
    then show ?thesis unfolding vehicle_held_def using v fv(1,2) by (intro bexI [of _ "fv v"]) auto
  qed
  moreover have "bay_held db' y"
    unfolding bay_held_def
  proof
    assume o: "open_order y"
    then obtain b where b: "b \<in> set (op_bays db)" "mo_bay_code y = Some (mb_bay_code b)" "mb_status b = ''RESERVED''"
        "mb_current_order_no b = Some (mo_order_no y)"
      using c by (auto simp: case_ok_def bay_held_def)
    then have "fb b = b" using apart [OF o] fb(2) by simp
    then show "\<exists>b\<in>set (op_bays db'). mo_bay_code y = Some (mb_bay_code b) \<and> mb_status b = ''RESERVED'' \<and> mb_current_order_no b = Some (mo_order_no y)"
      using b fb(1) by (intro bexI [of _ b]) (auto simp: rev_image_eqI)
  qed
  moreover have "unit_held db' n"
    unfolding unit_held_def
  proof
    assume a: "active_mission n"
    then obtain u where u: "u \<in> set (op_units db)" "ru_unit_id u = rm_rescue_unit_id n" "ru_status u = ''DISPATCHED''"
        "rm_next_transition_at n \<noteq> None"
      using c by (auto simp: case_ok_def unit_held_def)
    have "ru_unit_id u \<noteq> rm_rescue_unit_id m \<or> \<not> active_mission m"
      using ops_okD(2) [OF ok] m n a u(2) unfolding units_apart_def by metis
    then have "fu u = u" by (rule fu(2))
    then show "rm_next_transition_at n \<noteq> None \<and> (\<exists>u\<in>set (op_units db'). ru_unit_id u = rm_rescue_unit_id n \<and> ru_status u = ''DISPATCHED'')"
      using u fu(1) by (auto simp: rev_image_eqI intro!: bexI [of _ u])
  qed
  ultimately show ?thesis using c by (simp add: case_ok_def)
qed

lemma case_step_ok:
  assumes ok: "ops_ok db" and m: "m \<in> set (op_missions db)" and x: "x \<in> set (op_orders db)" "open_order x" and task: "rm_task_id m = mo_task_id x"
    and step: "case_step db m x fm fx db'" and new: "case_ok db' (fm m) (fx x)"
    and logs: "moves_ok (op_history db')" "outbox_ok (op_outbox db')"
  shows "ops_ok db'"
proof -
  have k: "keys_ok db'" by (rule case_step_keys [OF ok step])
  note rows = case_step_rows [OF ops_okD(1) [OF ok] step m x(1)]
  have sel: "rm_task_id (fm m) = rm_task_id m" "mo_task_id (fx x) = mo_task_id x" "rm_rescue_unit_id (fm m) = rm_rescue_unit_id m"
    "active_mission (fm m) \<Longrightarrow> active_mission m"
    using step m x(1) by (auto simp: case_step_def)
  have "case_ok db' n y" if n: "n \<in> set (op_missions db')" and y: "y \<in> set (op_orders db')" and t: "rm_task_id n = mo_task_id y" for n y
  proof -
    have "n = fm m \<longleftrightarrow> y = fx x"
      using rows(1) [OF n] rows(2) [OF y] t task sel distinct_mapD [OF keys_okD(5) [OF ops_okD(1) [OF ok]] _ m]
        distinct_mapD [OF keys_okD(7) [OF ops_okD(1) [OF ok]] _ x(1)]
        distinct_mapD [OF keys_okD(5) [OF k] n] distinct_mapD [OF keys_okD(7) [OF k] y] by metis
    then show ?thesis
      using rows(1) [OF n] rows(2) [OF y] new case_step_others [OF ok m x step _ _ _ _ t] by metis
  qed
  moreover have "units_apart db'"
    unfolding units_apart_def
  proof (intro ballI impI, elim conjE)
    fix n n'
    assume n: "n \<in> set (op_missions db')" "n' \<in> set (op_missions db')" "active_mission n" "active_mission n'" "rm_rescue_unit_id n = rm_rescue_unit_id n'"
    then show "n = n'"
      using rows(1) [OF n(1)] rows(1) [OF n(2)] ops_okD(2) [OF ok] m sel(3,4) unfolding units_apart_def by metis
  qed
  ultimately show ?thesis using k logs by (simp add: ops_ok_def)
qed

section \<open>The rescue\<close>

definition replaced :: "('r \<Rightarrow> string) \<Rightarrow> 'r \<Rightarrow> 'r \<Rightarrow> 'r" where
  "replaced key new = (\<lambda>r. if key r = key new then new else r)"

lemma put_row_map: "put_row key new rows = map (replaced key new) rows"
  by (simp add: put_row_def replaced_def)

lemma replaced_simps [simp]:
  "key (replaced key new r) = key r" "key r = key new \<Longrightarrow> replaced key new r = new" "key r \<noteq> key new \<Longrightarrow> replaced key new r = r"
  by (simp_all add: replaced_def)

lemma replaced_sel: "key r = key new \<longrightarrow> sel r = sel new \<Longrightarrow> sel (replaced key new r) = sel r"
  by (simp add: replaced_def)

lemma case_stepI:
  assumes "op_missions db' = map fm (op_missions db)" "op_orders db' = map fx (op_orders db)" "op_vehicles db' = map fv (op_vehicles db)"
    "op_bays db' = map fb (op_bays db)" "op_units db' = map fu (op_units db)"
    "\<And>y. y \<in> set (op_missions db) \<Longrightarrow> rm_mission_no (fm y) = rm_mission_no y \<and> rm_task_id (fm y) = rm_task_id y \<and> rm_rescue_unit_id (fm y) = rm_rescue_unit_id y"
    "\<And>y. y \<in> set (op_orders db) \<Longrightarrow> mo_order_no (fx y) = mo_order_no y \<and> mo_task_id (fx y) = mo_task_id y"
    "\<And>v. vr_vehicle_id (fv v) = vr_vehicle_id v" "\<And>b. mb_bay_code (fb b) = mb_bay_code b" "\<And>u. ru_unit_id (fu u) = ru_unit_id u"
    "\<And>y. rm_mission_no y \<noteq> rm_mission_no m \<Longrightarrow> fm y = y" "\<And>y. mo_order_no y \<noteq> mo_order_no x \<Longrightarrow> fx y = y"
    "\<And>v. vr_vehicle_id v \<noteq> mo_vehicle_id x \<Longrightarrow> fv v = v" "\<And>b. Some (mb_bay_code b) \<noteq> mo_bay_code x \<Longrightarrow> fb b = b"
    "\<And>u. ru_unit_id u \<noteq> rm_rescue_unit_id m \<or> \<not> active_mission m \<Longrightarrow> fu u = u" "active_mission (fm m) \<Longrightarrow> active_mission m"
  shows "case_step db m x fm fx db'"
  unfolding case_step_def using assms by blast

lemma mission_replaced:
  assumes "keys_ok db" "m \<in> set (op_missions db)" "rm_mission_no m' = rm_mission_no m" "rm_task_id m' = rm_task_id m"
    "rm_rescue_unit_id m' = rm_rescue_unit_id m" "y \<in> set (op_missions db)"
  shows "rm_mission_no (replaced rm_mission_no m' y) = rm_mission_no y \<and> rm_task_id (replaced rm_mission_no m' y) = rm_task_id y \<and>
    rm_rescue_unit_id (replaced rm_mission_no m' y) = rm_rescue_unit_id y"
  using distinct_mapD [OF keys_okD(4) [OF assms(1)] assms(6,2)] assms(3-5) by (auto simp: replaced_def)

lemma order_replaced:
  assumes "keys_ok db" "x \<in> set (op_orders db)" "mo_order_no x' = mo_order_no x" "mo_task_id x' = mo_task_id x" "y \<in> set (op_orders db)"
  shows "mo_order_no (replaced mo_order_no x' y) = mo_order_no y \<and> mo_task_id (replaced mo_order_no x' y) = mo_task_id y"
  using distinct_mapD [OF keys_okD(6) [OF assms(1)] assms(5,2)] assms(3,4) by (auto simp: replaced_def)

text \<open>The three steps of a rescue, on the tables in which the mission has its new status.\<close>

lemma rescue_arrives:
  assumes ok: "ops_ok db" and m: "m \<in> set (op_missions db)" and x: "x \<in> set (op_orders db)" "rm_task_id m = mo_task_id x"
    and s: "rm_status m = R_DISPATCHED" and m1: "m1 = touch_mission m (m\<lparr>rm_status := R_ARRIVED, rm_attempt_count := k, rm_next_transition_at := Some t\<rparr>)"
    and db1: "db1 = add_event env (rm_task_id m) ''rescue'' (rm_mission_no m) (rescue_event R_ARRIVED) p (store_mission m1 db)"
  shows "case_step db m x (replaced rm_mission_no m1) id db1 \<and> ops_ok db1"
proof -
  have c: "case_ok db m x" using ops_okD(5) [OF ok m x] .
  then have o: "open_order x" using s by (auto simp: case_ok_def open_order_def)
  have st: "case_step db m x (replaced rm_mission_no m1) id db1"
    using mission_replaced [OF ops_okD(1) [OF ok] m, of m1] s
    by (intro case_stepI [where fv = id and fb = id and fu = id])
       (simp_all add: db1 store_defs put_row_map m1 active_mission_def)
  moreover have "case_ok db1 m1 x"
    using c s by (simp add: case_ok_def vehicle_held_def bay_held_def unit_held_def db1 store_defs m1 active_mission_def vehicle_stage_def)
  ultimately show ?thesis
    using case_step_ok [OF ok m x(1) o x(2) st] ops_okD(3,4) [OF ok] by (simp add: m1 db1 add_event_outbox store_defs rescue_event_def)
qed

lemma case_vehicle:
  assumes "ops_ok db" "case_ok db m x" "open_order x"
  obtains v where "v \<in> set (op_vehicles db)" "vr_vehicle_id v = mo_vehicle_id x" "vr_maintenance_order_no v = Some (mo_order_no x)"
    "vr_status v = vehicle_status_value (vehicle_stage (rm_status m) (mo_status x))"
    "vehicle_for_update db (mo_vehicle_id x) = Inr v"
  using assms lookups(1) [OF ops_okD(1) [OF assms(1)]] by (force simp: case_ok_def vehicle_held_def)

lemma vehicle_heldI:
  assumes "op_vehicles db' = map (replaced vr_vehicle_id v') (op_vehicles db)" "v \<in> set (op_vehicles db)" "vr_vehicle_id v' = vr_vehicle_id v"
    "vr_vehicle_id v = mo_vehicle_id x"
    "open_order x \<Longrightarrow> vr_status v' = vehicle_status_value (vehicle_stage (rm_status m) (mo_status x)) \<and> vr_maintenance_order_no v' = Some (mo_order_no x)"
  shows "vehicle_held db' m x"
  unfolding vehicle_held_def using assms by (intro bexI [of _ v']) (auto simp: rev_image_eqI)

lemma vehicle_moves:
  assumes "vr_status v = vehicle_status_value s" "target \<in> set (vehicle_transitions s)"
  obtains v1 h where "transition_vehicle v target reason task_id now = Inr (v1, h)" "vr_vehicle_id v1 = vr_vehicle_id v"
    "vr_status v1 = vehicle_status_value target" "vr_maintenance_order_no v1 = vr_maintenance_order_no v" "moves_ok [h]"
proof -
  obtain v1 h where t: "transition_vehicle v target reason task_id now = Inr (v1, h)" using transition_vehicle_stage [OF assms] by metis
  then obtain s where "v1 = v\<lparr>vr_status := vehicle_status_value target, vr_status_reason := Some reason, vr_status_changed_at := Some now\<rparr>" "moves_ok [h]"
    by (rule transition_vehicle_Inr)
  then show thesis using t that by simp
qed

lemma rescue_loads:
  assumes ok: "ops_ok db" and m: "m \<in> set (op_missions db)" and x: "x \<in> set (op_orders db)" "rm_task_id m = mo_task_id x"
    and s: "rm_status m = R_ARRIVED" and m1: "m1 = touch_mission m (m\<lparr>rm_status := R_LOADED, rm_attempt_count := k, rm_next_transition_at := Some t\<rparr>)"
    and db1: "db1 = add_event env (rm_task_id m) ''rescue'' (rm_mission_no m) (rescue_event R_LOADED) p (store_mission m1 db)"
  shows "\<exists>db2. rescue_effect R_LOADED m1 now db1 = Inr db2 \<and> case_step db m x (replaced rm_mission_no m1) id db2 \<and> ops_ok db2"
proof -
  have c: "case_ok db m x" using ops_okD(5) [OF ok m x] .
  then have o: "open_order x" using s by (auto simp: case_ok_def open_order_def)
  obtain v where v: "v \<in> set (op_vehicles db)" "vr_vehicle_id v = mo_vehicle_id x" "vr_maintenance_order_no v = Some (mo_order_no x)"
      "vr_status v = vehicle_status_value V_WAITING_RESCUE" "vehicle_for_update db (mo_vehicle_id x) = Inr v"
    using case_vehicle [OF ok c o] s by (auto simp: vehicle_stage_def)
  have id: "rm_vehicle_id m = mo_vehicle_id x" using c by (simp add: case_ok_def)
  have "vehicle_for_update db1 (rm_vehicle_id m1) = Inr v" using v(5) id by (simp add: db1 m1 store_defs vehicle_for_update_def)
  then obtain r where r: "rescue_effect R_LOADED m1 now db1 = res_bind (transition_vehicle v V_IN_RESCUE r (rm_task_id m1) now) (\<lambda>(v1, h).
      Inr (add_history [h] (store_vehicle (touch_vehicle v v1) db1)))"
    by (simp add: rescue_effect_def)
  obtain v1 h where "transition_vehicle v V_IN_RESCUE r (rm_task_id m1) now = Inr (v1, h)"
      and v1: "vr_vehicle_id v1 = vr_vehicle_id v" "vr_status v1 = vehicle_status_value V_IN_RESCUE"
        "vr_maintenance_order_no v1 = vr_maintenance_order_no v" and h: "moves_ok [h]"
    using vehicle_moves [OF v(4), of V_IN_RESCUE r "rm_task_id m1" now] by auto
  then have e: "rescue_effect R_LOADED m1 now db1 = Inr (add_history [h] (store_vehicle (touch_vehicle v v1) db1))"
    using r by simp
  define db2 where "db2 = add_history [h] (store_vehicle (touch_vehicle v v1) db1)"
  have st: "case_step db m x (replaced rm_mission_no m1) id db2"
    using mission_replaced [OF ops_okD(1) [OF ok] m, of m1] s v(2) v1(1)
    by (intro case_stepI [where fv = "replaced vr_vehicle_id (touch_vehicle v v1)" and fb = id and fu = id])
       (simp_all add: db2_def db1 store_defs put_row_map m1 active_mission_def)
  have "vehicle_held db2 m1 x"
    using v v1 by (intro vehicle_heldI [of _ "touch_vehicle v v1" db v]) (simp_all add: db2_def db1 store_defs put_row_map m1 vehicle_stage_def)
  then have "case_ok db2 m1 x"
    using c s by (simp add: case_ok_def bay_held_def unit_held_def db2_def db1 store_defs m1 active_mission_def)
  then have "ops_ok db2"
    using case_step_ok [OF ok m x(1) o x(2) st] ops_okD(3,4) [OF ok] h by (simp add: m1 db2_def db1 add_event_outbox store_defs rescue_event_def)
  then show ?thesis using e st by (auto simp: db2_def)
qed

lemma rescue_delivers:
  assumes ok: "ops_ok db" and m: "m \<in> set (op_missions db)" and x: "x \<in> set (op_orders db)" "rm_task_id m = mo_task_id x"
    and s: "rm_status m = R_LOADED" and m1: "m1 = touch_mission m (m\<lparr>rm_status := R_DELIVERED, rm_attempt_count := k, rm_next_transition_at := None\<rparr>)"
    and db1: "db1 = add_event env (rm_task_id m) ''rescue'' (rm_mission_no m) (rescue_event R_DELIVERED) p (store_mission m1 db)"
    and x1: "x1 = touch_order x (x\<lparr>mo_status := M_WAITING_BAY, mo_next_transition_at := Some (now + 1000000)\<rparr>)"
  shows "\<exists>db2. rescue_effect R_DELIVERED m1 now db1 = Inr db2 \<and> case_step db m x (replaced rm_mission_no m1) (replaced mo_order_no x1) db2 \<and> ops_ok db2"
proof -
  have c: "case_ok db m x" using ops_okD(5) [OF ok m x] .
  then have o: "open_order x" and xs: "mo_status x = M_SCHEDULED" and id: "rm_vehicle_id m = mo_vehicle_id x"
    using s by (auto simp: case_ok_def open_order_def)
  obtain v where v: "v \<in> set (op_vehicles db)" "vr_vehicle_id v = mo_vehicle_id x" "vr_maintenance_order_no v = Some (mo_order_no x)"
      "vr_status v = vehicle_status_value V_IN_RESCUE" "vehicle_for_update db (mo_vehicle_id x) = Inr v"
    using case_vehicle [OF ok c o] s by (auto simp: vehicle_stage_def)
  obtain u where "u \<in> set (op_units db)" "ru_unit_id u = rm_rescue_unit_id m"
    using c s by (auto simp: case_ok_def unit_held_def active_mission_def)
  then have u: "ru_unit_id u = rm_rescue_unit_id m" "unit_of db (rm_rescue_unit_id m) = Some u"
    using lookups(2) [OF ops_okD(1) [OF ok]] by metis+
  define u1 where "u1 = touch_unit u (u\<lparr>ru_status := ''AVAILABLE'', ru_current_node_id := rm_station_node_id m\<rparr>)"
  have "vehicle_for_update db1 (rm_vehicle_id m1) = Inr v" using v(5) id by (simp add: db1 m1 store_defs vehicle_for_update_def)
  moreover have "order_of_task db (rm_task_id m) = Some x" using lookups(4) [OF ops_okD(1) [OF ok] x(1)] x(2) by simp
  ultimately obtain r where
      r: "rescue_effect R_DELIVERED m1 now db1 = res_bind (transition_vehicle v V_MAINTENANCE r (rm_task_id m1) now) (\<lambda>(v1, h).
        Inr (store_order x1 (store_unit u1 (add_history [h] (store_vehicle (touch_vehicle v (v1\<lparr>vr_current_node_id := rm_station_node_id m\<rparr>)) db1)))))"
    using u(2) xs
    by (simp add: rescue_effect_def deliver_vehicle_def store_defs unit_of_def order_of_task_def db1 m1 x1 u1_def
          require_maintenance_transition_def require_transition_def Let_def)
  obtain v0 h where t: "transition_vehicle v V_MAINTENANCE r (rm_task_id m1) now = Inr (v0, h)"
      and v0: "vr_vehicle_id v0 = vr_vehicle_id v" "vr_status v0 = vehicle_status_value V_MAINTENANCE"
        "vr_maintenance_order_no v0 = vr_maintenance_order_no v" and h: "moves_ok [h]"
    using vehicle_moves [OF v(4), of V_MAINTENANCE r "rm_task_id m1" now] by auto
  define v1 where "v1 = v0\<lparr>vr_current_node_id := rm_station_node_id m\<rparr>"
  have v1: "vr_vehicle_id v1 = vr_vehicle_id v" "vr_status v1 = vehicle_status_value V_MAINTENANCE"
    "vr_maintenance_order_no v1 = vr_maintenance_order_no v" using v0 by (simp_all add: v1_def)
  have e: "rescue_effect R_DELIVERED m1 now db1 = Inr (store_order x1 (store_unit u1 (add_history [h] (store_vehicle (touch_vehicle v v1) db1))))"
    using r t by (simp add: v1_def)
  define db2 where "db2 = store_order x1 (store_unit u1 (add_history [h] (store_vehicle (touch_vehicle v v1) db1)))"
  have st: "case_step db m x (replaced rm_mission_no m1) (replaced mo_order_no x1) db2"
    using mission_replaced [OF ops_okD(1) [OF ok] m, of m1] order_replaced [OF ops_okD(1) [OF ok] x(1), of x1] s v(2) v1(1) u(1)
    by (intro case_stepI [where fv = "replaced vr_vehicle_id (touch_vehicle v v1)" and fb = id and fu = "replaced ru_unit_id u1"])
       (simp_all add: db2_def db1 store_defs put_row_map m1 x1 u1_def active_mission_def)
  have "vehicle_held db2 m1 x1"
    using v v1 by (intro vehicle_heldI [of _ "touch_vehicle v v1" db v]) (simp_all add: db2_def db1 store_defs put_row_map m1 x1 vehicle_stage_def)
  moreover have "bay_held db2 x1"
    using c o by (simp add: case_ok_def bay_held_def db2_def db1 store_defs x1 open_order_def)
  ultimately have "case_ok db2 m1 x1"
    using c by (simp add: case_ok_def unit_held_def m1 x1 active_mission_def scheduled_def)
  then have "ops_ok db2"
    using case_step_ok [OF ok m x(1) o x(2) st] ops_okD(3,4) [OF ok] h
    by (simp add: m1 x1 db2_def db1 add_event_outbox store_defs rescue_event_def)
  then show ?thesis using e st by (auto simp: db2_def)
qed

lemma due_missionD:
  assumes "due_mission env now db = Some m"
  shows "m \<in> set (op_missions db)" "rm_status m \<in> {R_DISPATCHED, R_ARRIVED, R_LOADED}" "\<exists>t. rm_next_transition_at m = Some t \<and> t \<le> now"
  using py_min_by_Some [OF assms [unfolded due_mission_def]] by (auto split: option.splits)

text \<open>The effect of the step on the mission and on its order.\<close>

definition rescue_moved :: "int \<Rightarrow> rescue_mission \<Rightarrow> rescue_mission \<Rightarrow> maintenance_order \<Rightarrow> maintenance_order \<Rightarrow> bool" where
  "rescue_moved now m m' x x' \<longleftrightarrow>
     rescue_target (rm_status m) = Some (rm_status m') \<and> rm_next_transition_at m' = map_option (\<lambda>d. now + d) (rescue_delay (rm_status m')) \<and>
     (x' = x \<or> mo_status x = M_SCHEDULED \<and> mo_status x' = M_WAITING_BAY \<and> mo_next_transition_at x' = Some (now + 1000000) \<and>
               mo_repair_minutes x' = mo_repair_minutes x)"

lemma advance_rescue_ok:
  assumes ok: "ops_ok db" and due: "due_mission env now db = Some m"
  obtains c db' x fm fx where "advance_one_due_rescue env now db = Inr (Some c, db')" "ops_ok db'" "case_step db m x fm fx db'"
    "x \<in> set (op_orders db)" "rm_task_id m = mo_task_id x" "rescue_moved now m (fm m) x (fx x)"
proof -
  note m = due_missionD [OF due]
  obtain x where x: "x \<in> set (op_orders db)" "rm_task_id m = mo_task_id x" "case_ok db m x" using mission_has_order [OF ok m(1)] .
  obtain target where t: "rescue_target (rm_status m) = Some target" using m(2) by auto
  define m1 where "m1 = touch_mission m (m\<lparr>rm_status := target, rm_attempt_count := rm_attempt_count m + 1,
      rm_next_transition_at := map_option (\<lambda>d. now + d) (rescue_delay target)\<rparr>)"
  define db1 where "db1 = add_event env (rm_task_id m) ''rescue'' (rm_mission_no m) (rescue_event target) [(''status'', PStr (rescue_value target))]
      (store_mission m1 db)"
  define x1 where "x1 = touch_order x (x\<lparr>mo_status := M_WAITING_BAY, mo_next_transition_at := Some (now + 1000000)\<rparr>)"
  define fx where "fx = (if target = R_DELIVERED then replaced mo_order_no x1 else id)"
  have "\<exists>db2. rescue_effect target m1 now db1 = Inr db2 \<and> case_step db m x (replaced rm_mission_no m1) fx db2 \<and> ops_ok db2"
  proof (cases "rm_status m")
    case R_DISPATCHED
    then have "target = R_ARRIVED" using t by simp
    then show ?thesis using rescue_arrives [OF ok m(1) x(1,2) R_DISPATCHED _ db1_def [unfolded \<open>target = R_ARRIVED\<close>]] m1_def
      by (simp add: fx_def rescue_effect_def)
  next
    case R_ARRIVED
    then have "target = R_LOADED" using t by simp
    then show ?thesis using rescue_loads [OF ok m(1) x(1,2) R_ARRIVED _ db1_def [unfolded \<open>target = R_LOADED\<close>]] m1_def by (simp add: fx_def)
  next
    case R_LOADED
    then have "target = R_DELIVERED" using t by simp
    then show ?thesis using rescue_delivers [OF ok m(1) x(1,2) R_LOADED _ db1_def [unfolded \<open>target = R_DELIVERED\<close>] x1_def] m1_def by (simp add: fx_def)
  qed (use m(2) in simp_all)
  then obtain db2 where e: "rescue_effect target m1 now db1 = Inr db2" and st: "case_step db m x (replaced rm_mission_no m1) fx db2" and ok2: "ops_ok db2"
    by blast
  have "op_missions db2 = map (replaced rm_mission_no m1) (op_missions db)" "replaced rm_mission_no m1 m = m1"
    using st by (simp_all add: case_step_def m1_def)
  then have "m1 \<in> set (op_missions db2)" using m(1) by (metis image_eqI list.set_map)
  then obtain c where "with_case db2 (Some m1) = Inr (c, db2)" using with_case_ok [OF ok2] by blast
  then have "advance_one_due_rescue env now db = Inr (Some c, db2)"
    using due t m(2) e
    by (auto simp: advance_one_due_rescue_def m1_def [symmetric] db1_def [symmetric] Let_def require_rescue_transition_def require_transition_def)
  moreover have "rescue_moved now m (replaced rm_mission_no m1 m) x (fx x)"
    using x(3) m(2) t by (auto simp: rescue_moved_def fx_def m1_def x1_def case_ok_def)
  ultimately show thesis using that ok2 st x by blast
qed

section \<open>The repair\<close>

lemma replaced_same: "distinct (map key rs) \<Longrightarrow> r \<in> set rs \<Longrightarrow> map (replaced key r) rs = rs"
  by (auto simp: replaced_def intro!: map_idI dest: distinct_mapD)

lemma replaced_twice [simp]: "key a = key b \<Longrightarrow> replaced key b (replaced key a r) = replaced key b r"
  by (simp add: replaced_def)

lemma order_step:
  assumes ok: "ops_ok db" and m: "m \<in> set (op_missions db)" "rm_status m = R_DELIVERED"
    and x: "x \<in> set (op_orders db)" "rm_task_id m = mo_task_id x" "open_order x"
    and v: "v \<in> set (op_vehicles db)" "vr_vehicle_id v = mo_vehicle_id x" "vr_vehicle_id v' = vr_vehicle_id v"
    and b: "b \<in> set (op_bays db)" "mo_bay_code x = Some (mb_bay_code b)" "mb_bay_code b' = mb_bay_code b"
    and x': "mo_order_no x' = mo_order_no x" "mo_task_id x' = mo_task_id x" "mo_vehicle_id x' = mo_vehicle_id x" "mo_bay_code x' = mo_bay_code x"
      "case_stage_ok R_DELIVERED (mo_status x')" "scheduled x'"
    and db': "op_missions db' = op_missions db" "op_orders db' = map (replaced mo_order_no x') (op_orders db)"
      "op_vehicles db' = map (replaced vr_vehicle_id v') (op_vehicles db)" "op_bays db' = map (replaced mb_bay_code b') (op_bays db)"
      "op_units db' = op_units db"
    and held: "open_order x' \<Longrightarrow> vr_status v' = vehicle_status_value (vehicle_stage R_DELIVERED (mo_status x')) \<and>
      vr_maintenance_order_no v' = Some (mo_order_no x) \<and> mb_status b' = ''RESERVED'' \<and> mb_current_order_no b' = Some (mo_order_no x)"
    and logs: "moves_ok (op_history db')" "outbox_ok (op_outbox db')"
  shows "case_step db m x id (replaced mo_order_no x') db' \<and> ops_ok db'"
proof -
  have c: "case_ok db m x" using ops_okD(5) [OF ok m(1) x(1,2)] .
  have st: "case_step db m x id (replaced mo_order_no x') db'"
    using order_replaced [OF ops_okD(1) [OF ok] x(1) x'(1,2)] v b x'
    by (intro case_stepI [where fv = "replaced vr_vehicle_id v'" and fb = "replaced mb_bay_code b'" and fu = id]) (simp_all add: db')
  have "vehicle_held db' m x'" using v x' held m(2) by (intro vehicle_heldI [OF db'(3) v(1)]) simp_all
  moreover have "b' \<in> set (op_bays db')" using db'(4) b by (auto simp: rev_image_eqI)
  then have "bay_held db' x'" unfolding bay_held_def using held b(2,3) x'(1,4) by (intro impI bexI [of _ b']) simp_all
  ultimately have "case_ok db' m x'" using c x' m(2) by (simp add: case_ok_def unit_held_def active_mission_def)
  then show ?thesis using case_step_ok [OF ok m(1) x(1,3,2) st _ logs] st x'(1) by simp
qed

lemma case_bay:
  assumes "ops_ok db" "case_ok db m x" "open_order x"
  obtains b where "b \<in> set (op_bays db)" "mo_bay_code x = Some (mb_bay_code b)" "mb_status b = ''RESERVED''"
    "mb_current_order_no b = Some (mo_order_no x)" "first_match (\<lambda>b. Some (mb_bay_code b) = mo_bay_code x) (op_bays db) = Some b"
proof -
  obtain b where b: "b \<in> set (op_bays db)" "mo_bay_code x = Some (mb_bay_code b)" "mb_status b = ''RESERVED''"
      "mb_current_order_no b = Some (mo_order_no x)"
    using assms(2,3) by (auto simp: case_ok_def bay_held_def)
  moreover have "first_match (\<lambda>b. Some (mb_bay_code b) = mo_bay_code x) (op_bays db) = Some b"
    using first_match_distinct [OF keys_okD(3) [OF ops_okD(1) [OF assms(1)]] b(1)] b(2) by simp
  ultimately show thesis using that by blast
qed

text \<open>The inspection closes the order, whether the vehicle passes it or not.\<close>

lemma release_step:
  assumes ok: "ops_ok db" and m: "m \<in> set (op_missions db)" "rm_status m = R_DELIVERED"
    and x: "x \<in> set (op_orders db)" "rm_task_id m = mo_task_id x" "mo_status x = M_QA_PENDING"
    and x': "mo_order_no x' = mo_order_no x" "mo_task_id x' = mo_task_id x" "mo_vehicle_id x' = mo_vehicle_id x" "mo_bay_code x' = mo_bay_code x"
      "mo_status x' \<in> {M_COMPLETED, M_FAILED}"
    and y: "mo_bay_code y = mo_bay_code x"
    and db1: "op_missions db1 = op_missions db" "op_orders db1 = map (replaced mo_order_no x') (op_orders db)" "op_vehicles db1 = op_vehicles db"
      "op_bays db1 = op_bays db" "op_units db1 = op_units db" "op_history db1 = op_history db" "outbox_ok (op_outbox db1)"
    and v: "v \<in> set (op_vehicles db)" "vr_vehicle_id v = mo_vehicle_id x" "vr_status v = vehicle_status_value V_QA_PENDING"
  shows "\<exists>db2. release_vehicle_and_bay env y v passed now db1 = Inr db2 \<and> case_step db m x id (replaced mo_order_no x') db2 \<and> ops_ok db2"
proof -
  have c: "case_ok db m x" using ops_okD(5) [OF ok m(1) x(1,2)] .
  have o: "open_order x" using x(3) by (simp add: open_order_def)
  obtain b where b: "b \<in> set (op_bays db)" "mo_bay_code x = Some (mb_bay_code b)"
      "first_match (\<lambda>b. Some (mb_bay_code b) = mo_bay_code x) (op_bays db) = Some b"
    using case_bay [OF ok c o] by metis
  define target where "target = (if passed then V_AVAILABLE else V_OUT_OF_SERVICE)"
  define b1 where "b1 = touch_bay b (b\<lparr>mb_status := ''AVAILABLE'', mb_current_order_no := None\<rparr>)"
  have bay: "first_match (\<lambda>b. Some (mb_bay_code b) = mo_bay_code y) (op_bays (add_history hs (store_vehicle w db1))) = Some b" for hs w
    using b(3) y db1(4) by (simp add: store_defs)
  have "\<exists>r g e p. release_vehicle_and_bay env y v passed now db1 = res_bind (transition_vehicle v target r (mo_task_id y) now) (\<lambda>(v1, h).
      Inr (add_event env (mo_task_id y) ''vehicle'' (vr_vehicle_id v) e p (store_bay b1 (add_history [h] (store_vehicle (touch_vehicle v (g v1)) db1)))))
      \<and> (\<forall>w. vr_vehicle_id (g w) = vr_vehicle_id w) \<and> e \<noteq> ''REPLACEMENT_DISPATCHED''"
    unfolding release_vehicle_and_bay_def Let_def target_def [symmetric] bay option.case b1_def [symmetric]
    by (intro exI conjI, rule refl) simp_all
  then obtain r g e p where r: "release_vehicle_and_bay env y v passed now db1 = res_bind (transition_vehicle v target r (mo_task_id y) now) (\<lambda>(v1, h).
      Inr (add_event env (mo_task_id y) ''vehicle'' (vr_vehicle_id v) e p (store_bay b1 (add_history [h] (store_vehicle (touch_vehicle v (g v1)) db1)))))"
    and g: "\<And>w. vr_vehicle_id (g w) = vr_vehicle_id w" and e: "e \<noteq> ''REPLACEMENT_DISPATCHED''"
    by blast
  have "target \<in> set (vehicle_transitions V_QA_PENDING)" by (simp add: target_def)
  then obtain v1 h where "transition_vehicle v target r (mo_task_id y) now = Inr (v1, h)" "vr_vehicle_id v1 = vr_vehicle_id v" and h: "moves_ok [h]"
    by (rule vehicle_moves [OF v(3)])
  moreover define v2 where "v2 = g v1"
  ultimately have r: "release_vehicle_and_bay env y v passed now db1 =
        Inr (add_event env (mo_task_id y) ''vehicle'' (vr_vehicle_id v) e p (store_bay b1 (add_history [h] (store_vehicle (touch_vehicle v v2) db1))))"
      and v2: "vr_vehicle_id v2 = vr_vehicle_id v"
    using r g by simp_all
  define db2 where "db2 = add_event env (mo_task_id y) ''vehicle'' (vr_vehicle_id v) e p (store_bay b1 (add_history [h] (store_vehicle (touch_vehicle v v2) db1)))"
  have "case_step db m x id (replaced mo_order_no x') db2 \<and> ops_ok db2"
    using x' v2 e db1(7) ops_okD(3) [OF ok] h
    by (intro order_step [OF ok m x(1,2) o v(1,2) _ b(1,2), of "touch_vehicle v v2" b1])
       (auto simp: b1_def db2_def store_defs put_row_map db1 scheduled_def open_order_def add_event_outbox)
  then show ?thesis using r by (auto simp: db2_def)
qed

lemma due_orderD:
  assumes "due_order env now db = Some x"
  shows "x \<in> set (op_orders db)" "mo_status x \<in> {M_WAITING_BAY, M_DIAGNOSING, M_REPAIRING, M_QA_PENDING}"
    "\<exists>t. mo_next_transition_at x = Some t \<and> t \<le> now"
  using py_min_by_Some [OF assms [unfolded due_order_def]] by (auto split: option.splits)

text \<open>How many steps an order and a mission are from their end.\<close>

definition order_rank :: "maintenance_order \<Rightarrow> nat" where
  "order_rank x = (case mo_status x of M_SCHEDULED \<Rightarrow> 4 | M_WAITING_BAY \<Rightarrow> 4 | M_DIAGNOSING \<Rightarrow> 3 | M_REPAIRING \<Rightarrow> 2
     | M_QA_PENDING \<Rightarrow> (if mo_next_transition_at x = None then 0 else 1) | _ \<Rightarrow> 0)"

fun mission_rank :: "rescue_status \<Rightarrow> nat" where
  "mission_rank R_DISPATCHED = 3"
| "mission_rank R_ARRIVED = 2"
| "mission_rank R_LOADED = 1"
| "mission_rank _ = 0"

definition repair_moved :: "int \<Rightarrow> maintenance_order \<Rightarrow> maintenance_order \<Rightarrow> bool" where
  "repair_moved now x x' \<longleftrightarrow>
     order_rank x' < order_rank x \<and> mo_repair_minutes x' = mo_repair_minutes x \<and>
     (\<forall>t. mo_next_transition_at x' = Some t \<longrightarrow> t \<le> now + max 6000000 (mo_repair_minutes x * 60000000))"

lemma finish_case:
  assumes "ops_ok db'" "m \<in> set (op_missions db')" "rm_task_id m = t"
  obtains c where "res_bind (with_case db' (mission_of_task db' t)) (\<lambda>(c, db). Inr (Some c, db)) = Inr (Some c, db')"
proof -
  have "mission_of_task db' t = Some m" using lookups(3) [OF ops_okD(1) [OF assms(1)] assms(2)] assms(3) by simp
  then show thesis using with_case_ok [OF assms(1,2)] that by (metis case_prod_conv res_bind_simps(2))
qed

lemma parked_step:
  assumes ok: "ops_ok db" and m: "m \<in> set (op_missions db)" "rm_status m = R_DELIVERED"
    and x: "x \<in> set (op_orders db)" "rm_task_id m = mo_task_id x" "mo_status x = M_QA_PENDING"
    and p: "mo_manual_inspection_required x" "mo_inspection_result x = None" and x1: "x1 = touch_order x (x\<lparr>mo_next_transition_at := None\<rparr>)"
  shows "case_step db m x id (replaced mo_order_no x1) (store_order x1 db) \<and> ops_ok (store_order x1 db)"
proof -
  have c: "case_ok db m x" and o: "open_order x" using ops_okD(5) [OF ok m(1) x(1,2)] x(3) by (simp_all add: open_order_def)
  obtain v where v: "v \<in> set (op_vehicles db)" "vr_vehicle_id v = mo_vehicle_id x" "vr_maintenance_order_no v = Some (mo_order_no x)"
      "vr_status v = vehicle_status_value V_QA_PENDING"
    using case_vehicle [OF ok c o] m x by (auto simp: vehicle_stage_def)
  obtain b where b: "b \<in> set (op_bays db)" "mo_bay_code x = Some (mb_bay_code b)" "mb_status b = ''RESERVED''"
      "mb_current_order_no b = Some (mo_order_no x)"
    using case_bay [OF ok c o] by metis
  note same = replaced_same [OF keys_okD(1) [OF ops_okD(1) [OF ok]] v(1)] replaced_same [OF keys_okD(3) [OF ops_okD(1) [OF ok]] b(1)]
  show ?thesis
    using v b x p ops_okD(3,4) [OF ok]
    by (intro order_step [OF ok m x(1,2) o v(1,2) _ b(1,2), of v b])
       (simp_all add: x1 same store_defs put_row_map scheduled_def vehicle_stage_def)
qed

lemma repair_step:
  assumes ok: "ops_ok db" and m: "m \<in> set (op_missions db)" "rm_status m = R_DELIVERED"
    and x: "x \<in> set (op_orders db)" "rm_task_id m = mo_task_id x" and t: "maintenance_target (mo_status x) = Some target"
    and x1: "x1 = touch_order x (schedule_order x target now)"
    and db1: "db1 = add_event env (mo_task_id x) ''maintenance'' (mo_order_no x) (''MAINTENANCE_'' @ maintenance_value target) p (store_order x1 db)"
    and x2: "x2 = (if target = M_COMPLETED then touch_order x1 (x1\<lparr>mo_inspection_result := Some ''PASSED''\<rparr>) else x1)"
  shows "\<exists>db2. maintenance_effect env target x1 now db1 = Inr db2 \<and> case_step db m x id (replaced mo_order_no x2) db2 \<and> ops_ok db2"
proof -
  have c: "case_ok db m x" using ops_okD(5) [OF ok m(1) x] .
  have o: "open_order x" using t by (auto simp: open_order_def)
  obtain v where v: "v \<in> set (op_vehicles db)" "vr_vehicle_id v = mo_vehicle_id x" "vr_maintenance_order_no v = Some (mo_order_no x)"
      "vr_status v = vehicle_status_value (vehicle_stage R_DELIVERED (mo_status x))" "vehicle_for_update db (mo_vehicle_id x) = Inr v"
    using case_vehicle [OF ok c o] m by auto
  obtain b where b: "b \<in> set (op_bays db)" "mo_bay_code x = Some (mb_bay_code b)" "mb_status b = ''RESERVED''"
      "mb_current_order_no b = Some (mo_order_no x)"
    using case_bay [OF ok c o] by metis
  note same = replaced_same [OF keys_okD(1) [OF ops_okD(1) [OF ok]] v(1)] replaced_same [OF keys_okD(3) [OF ops_okD(1) [OF ok]] b(1)]
  have x1_sel: "mo_order_no x1 = mo_order_no x" "mo_task_id x1 = mo_task_id x" "mo_vehicle_id x1 = mo_vehicle_id x" "mo_bay_code x1 = mo_bay_code x"
      "mo_status x1 = target"
    by (simp_all add: x1 schedule_order_def Let_def)
  have lv: "vehicle_for_update db1 (mo_vehicle_id x1) = Inr v" using v(5) x1_sel by (simp add: db1 store_defs vehicle_for_update_def)
  have sched: "target \<noteq> M_COMPLETED \<Longrightarrow> mo_next_transition_at x1 \<noteq> None" using t by (cases "mo_status x") (auto simp: x1 schedule_order_def Let_def)
  have out: "outbox_ok (op_outbox db1)" using ops_okD(4) [OF ok] by (simp add: db1 add_event_outbox store_defs)
  note facts = x1_sel out ops_okD(3) [OF ok] b v
  consider "target = M_DIAGNOSING" | "target = M_REPAIRING" | "target = M_QA_PENDING" | "target = M_COMPLETED"
    using t by (cases "mo_status x") auto
  then show ?thesis
  proof cases
    case 1
    have "case_step db m x id (replaced mo_order_no x1) db1 \<and> ops_ok db1"
      using facts sched t 1
      by (intro order_step [OF ok m x o v(1,2) _ b(1,2), of v b])
         (auto simp: same db1 store_defs put_row_map scheduled_def vehicle_stage_def elim!: maintenance_target.elims)
    then show ?thesis using lv 1 by (simp add: maintenance_effect_def x2)
  next
    case 2
    define v1 where "v1 = touch_vehicle v (v\<lparr>vr_available_after := mo_available_after x1\<rparr>)"
    have "case_step db m x id (replaced mo_order_no x1) (store_vehicle v1 db1) \<and> ops_ok (store_vehicle v1 db1)"
      using facts sched t 2
      by (intro order_step [OF ok m x o v(1,2) _ b(1,2), of v1 b])
         (auto simp: same db1 v1_def store_defs put_row_map scheduled_def vehicle_stage_def elim!: maintenance_target.elims)
    then show ?thesis using lv 2 by (simp add: maintenance_effect_def x2 v1_def)
  next
    case 3
    then have vs: "vr_status v = vehicle_status_value V_MAINTENANCE" using v(4) t by (cases "mo_status x") (auto simp: vehicle_stage_def)
    obtain r where r: "maintenance_effect env target x1 now db1 = res_bind (transition_vehicle v V_QA_PENDING r (mo_task_id x1) now) (\<lambda>(v1, h).
        Inr (add_history [h] (store_vehicle (touch_vehicle v v1) db1)))"
      using lv 3 by (simp add: maintenance_effect_def)
    obtain v1 h where t1: "transition_vehicle v V_QA_PENDING r (mo_task_id x1) now = Inr (v1, h)" "vr_vehicle_id v1 = vr_vehicle_id v"
        "vr_status v1 = vehicle_status_value V_QA_PENDING" "vr_maintenance_order_no v1 = vr_maintenance_order_no v" "moves_ok [h]"
      using vehicle_moves [OF vs, of V_QA_PENDING r "mo_task_id x1" now] by auto
    define db2 where "db2 = add_history [h] (store_vehicle (touch_vehicle v v1) db1)"
    have "case_step db m x id (replaced mo_order_no x1) db2 \<and> ops_ok db2"
      using facts sched 3 t1
      by (intro order_step [OF ok m x o v(1,2) _ b(1,2), of "touch_vehicle v v1" b])
         (auto simp: same db2_def db1 store_defs put_row_map scheduled_def vehicle_stage_def)
    then show ?thesis using r t1(1) 3 by (simp add: db2_def x2)
  next
    case 4
    then have qa: "mo_status x = M_QA_PENDING" using t by (cases "mo_status x") auto
    have "\<exists>db2. release_vehicle_and_bay env x1 v True now (store_order x2 db1) = Inr db2 \<and> case_step db m x id (replaced mo_order_no x2) db2 \<and> ops_ok db2"
      using facts qa 4
      by (intro release_step [OF ok m x qa _ _ _ _ _ _ _ _ _ _ _ _ _ v(1,2)])
         (simp_all add: x2 db1 store_defs put_row_map vehicle_stage_def comp_def add_event_def Let_def)
    then show ?thesis using lv 4 by (simp add: maintenance_effect_def x2)
  qed
qed

lemma advance_maintenance_ok:
  assumes ok: "ops_ok db" and due: "due_order env now db = Some x"
  obtains c db' m fx where "advance_one_due_maintenance env now db = Inr (Some c, db')" "ops_ok db'" "case_step db m x id fx db'"
    "m \<in> set (op_missions db)" "rm_task_id m = mo_task_id x" "repair_moved now x (fx x)"
proof -
  note x = due_orderD [OF due]
  obtain m where m: "m \<in> set (op_missions db)" "rm_task_id m = mo_task_id x" "case_ok db m x" using order_has_mission [OF ok x(1)] .
  have d: "rm_status m = R_DELIVERED" using m(3) x(2) by (cases "rm_status m") (auto simp: case_ok_def)
  have mem: "m \<in> set (op_missions db')" if "case_step db m x id fx db'" for db' fx using that m(1) by (simp add: case_step_def)
  show thesis
  proof (cases "mo_status x = M_QA_PENDING \<and> mo_manual_inspection_required x \<and> mo_inspection_result x = None")
    case True
    define x1 where "x1 = touch_order x (x\<lparr>mo_next_transition_at := None\<rparr>)"
    have p: "case_step db m x id (replaced mo_order_no x1) (store_order x1 db)" "ops_ok (store_order x1 db)"
      using parked_step [OF ok m(1) d x(1) m(2) _ _ _ x1_def] True by auto
    obtain c where "res_bind (with_case (store_order x1 db) (mission_of_task (store_order x1 db) (mo_task_id x))) (\<lambda>(c, db). Inr (Some c, db)) =
        (Inr (Some c, store_order x1 db) :: operation_case option operation_result)"
      using finish_case [OF p(2) mem [OF p(1)] m(2)] .
    then have "advance_one_due_maintenance env now db = Inr (Some c, store_order x1 db)"
      using due True by (simp add: advance_one_due_maintenance_def x1_def Let_def)
    moreover have "repair_moved now x (replaced mo_order_no x1 x)"
      using True x(3) by (auto simp: repair_moved_def x1_def order_rank_def)
    ultimately show thesis using that p m by blast
  next
    case False
    obtain target where t: "maintenance_target (mo_status x) = Some target" using x(2) by auto
    define x1 where "x1 = touch_order x (schedule_order x target now)"
    define db1 where "db1 = add_event env (mo_task_id x) ''maintenance'' (mo_order_no x) (''MAINTENANCE_'' @ maintenance_value target)
      [(''status'', PStr (maintenance_value target))] (store_order x1 db)"
    define x2 where "x2 = (if target = M_COMPLETED then touch_order x1 (x1\<lparr>mo_inspection_result := Some ''PASSED''\<rparr>) else x1)"
    obtain db2 where e: "maintenance_effect env target x1 now db1 = Inr db2" and st: "case_step db m x id (replaced mo_order_no x2) db2" and ok2: "ops_ok db2"
      using repair_step [OF ok m(1) d x(1) m(2) t x1_def db1_def x2_def] by blast
    obtain c where "res_bind (with_case db2 (mission_of_task db2 (mo_task_id x))) (\<lambda>(c, db). Inr (Some c, db)) =
        (Inr (Some c, db2) :: operation_case option operation_result)"
      using finish_case [OF ok2 mem [OF st] m(2)] .
    moreover have req: "require_maintenance_transition (mo_status x) target = Inr ()"
      using t by (auto simp: require_maintenance_transition_def require_transition_def elim!: maintenance_target.elims)
    ultimately have "advance_one_due_maintenance env now db = Inr (Some c, db2)"
      by (simp only: advance_one_due_maintenance_def due option.case Let_def if_not_P [OF False] t req res_bind_simps
            x1_def [symmetric] db1_def [symmetric] e)
    moreover have "repair_moved now x (replaced mo_order_no x2 x)"
      using t x(3) by (auto simp: repair_moved_def x2_def x1_def order_rank_def schedule_order_def Let_def elim!: maintenance_target.elims)
    ultimately show thesis using that ok2 st m by blast
  qed
qed

section \<open>Inspections and new cases\<close>

lemma record_inspection_ok:
  assumes ok: "ops_ok db" and r: "record_inspection env order_no passed now by_whom db = Inr (c, db')"
  shows "ops_ok db'"
proof -
  obtain x where x: "first_match (\<lambda>x. mo_order_no x = order_no) (op_orders db) = Some x" "mo_status x = M_QA_PENDING"
    using r by (auto simp: record_inspection_def split: option.splits if_splits)
  define x1 where "x1 = touch_order x (x\<lparr>mo_status := if passed then M_COMPLETED else M_FAILED,
      mo_inspection_result := Some (if passed then ''PASSED'' else ''FAILED''), mo_next_transition_at := None\<rparr>)"
  have xin: "x \<in> set (op_orders db)" using first_match_SomeD [OF x(1)] by blast
  obtain m where m: "m \<in> set (op_missions db)" "rm_task_id m = mo_task_id x" "case_ok db m x" using order_has_mission [OF ok xin] .
  have d: "rm_status m = R_DELIVERED" using m(3) x(2) by (cases "rm_status m") (auto simp: case_ok_def)
  obtain v where v: "v \<in> set (op_vehicles db)" "vr_vehicle_id v = mo_vehicle_id x"
      "vr_status v = vehicle_status_value V_QA_PENDING" "vehicle_for_update db (mo_vehicle_id x) = Inr v"
    using case_vehicle [OF ok m(3)] x(2) d by (auto simp: open_order_def vehicle_stage_def)
  have lv: "vehicle_for_update (store_order x1 db) (mo_vehicle_id x1) = Inr v" using v(4) by (simp add: x1_def store_defs vehicle_for_update_def)
  have x1: "mo_order_no x1 = mo_order_no x" "mo_task_id x1 = mo_task_id x" "mo_vehicle_id x1 = mo_vehicle_id x" "mo_bay_code x1 = mo_bay_code x"
    "mo_status x1 \<in> {M_COMPLETED, M_FAILED}" by (simp_all add: x1_def)
  have "\<exists>db2. release_vehicle_and_bay env x1 v passed now (store_order x1 db) = Inr db2 \<and> case_step db m x id (replaced mo_order_no x1) db2 \<and> ops_ok db2"
    using x1 v ops_okD(4) [OF ok] by (intro release_step [OF ok m(1) d xin m(2) x(2)]) (simp_all add: store_defs put_row_map)
  then obtain db2 where db2: "release_vehicle_and_bay env x1 v passed now (store_order x1 db) = Inr db2" "ops_ok db2" by blast
  define db3 where "db3 = add_event env (mo_task_id x1) ''maintenance'' (mo_order_no x1) ''INSPECTION_DECIDED''
      [(''passed'', PBool passed), (''decided_by'', PStr by_whom)] db2"
  have "ops_ok db3"
    using db2(2) by (simp add: ops_ok_def db3_def keys_ok_def units_apart_def case_ok_def vehicle_held_def bay_held_def unit_held_def add_event_outbox)
  moreover have "with_case db3 (mission_of_task db3 (mo_task_id x1)) = Inr (c, db')"
    using r x lv db2(1) x1 by (auto simp: record_inspection_def x1_def [symmetric] db3_def Let_def res_bind_eq_Inr)
  ultimately show ?thesis by (auto simp: with_case_def res_bind_eq_Inr split: option.splits)
qed

text \<open>A vehicle in rescue or repair is in one of these statuses. Changes to other vehicles, to free bays and to free units concern no open case.\<close>

definition in_repair :: "string \<Rightarrow> bool" where
  "in_repair s \<longleftrightarrow> s \<in> {''WAITING_RESCUE'', ''IN_RESCUE'', ''MAINTENANCE'', ''QA_PENDING''}"

lemma case_kept:
  assumes c: "case_ok db n y" and v: "op_vehicles db' = map fv (op_vehicles db)" "\<And>w. vr_vehicle_id (fv w) = vr_vehicle_id w"
      "\<And>w. w \<in> set (op_vehicles db) \<Longrightarrow> in_repair (vr_status w) \<Longrightarrow> fv w = w"
    and b: "op_bays db' = map fb (op_bays db)" "\<And>b. b \<in> set (op_bays db) \<Longrightarrow> mb_status b = ''RESERVED'' \<Longrightarrow> fb b = b"
    and u: "op_units db' = map fu (op_units db)" "\<And>u. u \<in> set (op_units db) \<Longrightarrow> ru_status u = ''DISPATCHED'' \<Longrightarrow> fu u = u"
  shows "case_ok db' n y"
proof -
  have "vehicle_held db' n y"
  proof -
    obtain w where w: "w \<in> set (op_vehicles db)" "vr_vehicle_id w = mo_vehicle_id y"
      "open_order y \<longrightarrow> vr_status w = vehicle_status_value (vehicle_stage (rm_status n) (mo_status y)) \<and> vr_maintenance_order_no w = Some (mo_order_no y)"
      using c by (auto simp: case_ok_def vehicle_held_def)
    have "open_order y \<Longrightarrow> in_repair (vr_status w)" using w(3) by (auto simp: in_repair_def vehicle_stage_def)
    then have "open_order y \<Longrightarrow> fv w = w" using v(3) w(1) by blast
    then show ?thesis unfolding vehicle_held_def using w v(1,2) by (intro bexI [of _ "fv w"]) auto
  qed
  moreover have "bay_held db' y"
    using c b unfolding case_ok_def bay_held_def by (metis image_eqI list.set_map)
  moreover have "unit_held db' n"
    using c u unfolding case_ok_def unit_held_def by (metis image_eqI list.set_map)
  ultimately show ?thesis using c by (simp add: case_ok_def)
qed

lemma replace_vehicle_Inr:
  assumes "keys_ok db" "replace_vehicle q db = Inr db'" "moves_ok (op_history db)"
  obtains f where "op_vehicles db' = map f (op_vehicles db)" "\<And>w. vr_vehicle_id (f w) = vr_vehicle_id w"
    "\<And>w. w \<in> set (op_vehicles db) \<Longrightarrow> in_repair (vr_status w) \<Longrightarrow> f w = w" "moves_ok (op_history db')"
    "op_missions db' = op_missions db" "op_orders db' = op_orders db" "op_bays db' = op_bays db" "op_units db' = op_units db"
    "op_outbox db' = op_outbox db" "op_task_ids db' = op_task_ids db" "op_node_ids db' = op_node_ids db"
proof (cases "bc_replacement_vehicle_id q")
  case None
  then have "db' = db" using assms(2) by (simp add: replace_vehicle_def)
  then show thesis using that [of id] assms(3) by simp
next
  case (Some i)
  from assms(2) obtain v v1 h1 v2 h2 r1 r2 where v: "vehicle_for_update db i = Inr v"
    and v1: "transition_vehicle v V_DISPATCHING r1 (bc_task_id q) (bc_occurred_at q) = Inr (v1, h1)"
    and v2: "transition_vehicle v1 V_IN_TRANSIT r2 (bc_task_id q) (bc_occurred_at q) = Inr (v2, h2)"
    and db': "db' = add_history [h1, h2] (store_vehicle (touch_vehicle v v2) db)"
    unfolding replace_vehicle_def Some option.case by (auto simp: res_bind_eq_Inr split: if_splits)
  obtain s where s: "vr_status v = vehicle_status_value s" "V_DISPATCHING \<in> set (vehicle_transitions s)" "vr_vehicle_id v1 = vr_vehicle_id v" "moves_ok [h1]"
    using v1 by (auto elim!: transition_vehicle_Inr)
  have "vr_vehicle_id v2 = vr_vehicle_id v" "moves_ok [h2]" using v2 s(3) by (auto elim!: transition_vehicle_Inr)
  moreover have "v \<in> set (op_vehicles db)" using v first_match_SomeD by (fastforce simp: vehicle_for_update_def split: option.splits)
  then have "w = v" if "w \<in> set (op_vehicles db)" "vr_vehicle_id w = vr_vehicle_id v" for w
    using distinct_mapD [OF keys_okD(1) [OF assms(1)]] that by metis
  moreover have "\<not> in_repair (vr_status v)" using s(1,2) by (cases s) (auto simp: in_repair_def)
  moreover have "moves_ok [h1, h2]" using s(4) \<open>moves_ok [h2]\<close> by (simp add: moves_ok_def)
  ultimately show thesis
    using that [of "replaced vr_vehicle_id (touch_vehicle v v2)"] assms(3) by (force simp: db' store_defs put_row_map replaced_def)
qed

lemma keys_ok_vehicles: "keys_ok db \<Longrightarrow> op_vehicles db' = map f (op_vehicles db) \<Longrightarrow> (\<And>w. vr_vehicle_id (f w) = vr_vehicle_id w) \<Longrightarrow>
    op_missions db' = op_missions db \<Longrightarrow> op_orders db' = op_orders db \<Longrightarrow> op_bays db' = op_bays db \<Longrightarrow> op_units db' = op_units db \<Longrightarrow> keys_ok db'"
  by (simp add: keys_ok_def comp_def)

lemma stop_vehicle_Inr:
  assumes "stop_vehicle q v = Inr (v', hs)"
  shows "\<not> in_repair (vr_status v)" "vr_vehicle_id v' = vr_vehicle_id v" "vr_status v' = vehicle_status_value V_WAITING_RESCUE" "moves_ok hs"
proof -
  obtain r1 r2 v1 h1 v2 h2 where v1: "transition_vehicle v V_BROKEN r1 (bc_task_id q) (bc_occurred_at q) = Inr (v1, h1)"
      and v2: "transition_vehicle v1 V_WAITING_RESCUE r2 (bc_task_id q) (bc_occurred_at q) = Inr (v2, h2)"
      and r: "v' = v2\<lparr>vr_fault_code := Some (bc_fault_code q)\<rparr>" "hs = [h1, h2]"
    using assms unfolding stop_vehicle_def by (auto simp: res_bind_eq_Inr)
  obtain s where s: "vr_status v = vehicle_status_value s" "V_BROKEN \<in> set (vehicle_transitions s)" "vr_vehicle_id v1 = vr_vehicle_id v" "moves_ok [h1]"
    using v1 by (auto elim!: transition_vehicle_Inr)
  have "moves_ok [h2]" "vr_vehicle_id v2 = vr_vehicle_id v" "vr_status v2 = vehicle_status_value V_WAITING_RESCUE"
    using v2 s(3) by (auto elim!: transition_vehicle_Inr)
  then show "\<not> in_repair (vr_status v)" "vr_vehicle_id v' = vr_vehicle_id v" "vr_status v' = vehicle_status_value V_WAITING_RESCUE" "moves_ok hs"
    using s r by (cases s; auto simp: in_repair_def moves_ok_def)+
qed

lemma break_vehicle_runs:
  assumes "vr_status v = vehicle_status_value s" "V_BROKEN \<in> set (vehicle_transitions s)" "bc_replacement_vehicle_id q = None"
  obtains db1 where "break_vehicle q v db = Inr db1" "op_missions db1 = op_missions db" "op_orders db1 = op_orders db"
    "op_task_ids db1 = op_task_ids db" "op_node_ids db1 = op_node_ids db"
proof -
  obtain v' hs where "stop_vehicle q v = Inr (v', hs)"
    by (simp add: stop_vehicle_def transition_vehicle_stage [OF assms(1,2)] transition_vehicle_stage [of _ V_BROKEN])
  then show thesis using assms(3) that by (simp add: break_vehicle_def replace_vehicle_def store_defs Let_def)
qed

lemma break_vehicle_Inr:
  assumes k: "keys_ok db" and v: "v \<in> set (op_vehicles db)" and r: "break_vehicle q v db = Inr db'" and h: "moves_ok (op_history db)"
  obtains f where "op_vehicles db' = map f (op_vehicles db)" "\<And>w. vr_vehicle_id (f w) = vr_vehicle_id w"
    "\<And>w. w \<in> set (op_vehicles db) \<Longrightarrow> in_repair (vr_status w) \<Longrightarrow> f w = w"
    "vr_status (f v) = vehicle_status_value V_WAITING_RESCUE" "vr_maintenance_order_no (f v) = Some (order_number q)"
    "moves_ok (op_history db')" "op_missions db' = op_missions db" "op_orders db' = op_orders db" "op_bays db' = op_bays db"
    "op_units db' = op_units db" "op_outbox db' = op_outbox db"
proof -
  from r obtain v1 hs where v1: "stop_vehicle q v = Inr (v1, hs)" by (auto simp: break_vehicle_def res_bind_eq_Inr)
  define v4 where "v4 = (if bc_replacement_vehicle_id q \<noteq> None then touch_vehicle v v1 else v1)"
  define base where "base = (if bc_replacement_vehicle_id q \<noteq> None then v4 else v)"
  obtain db1 where db1: "replace_vehicle q (add_history hs (store_vehicle v4 db)) = Inr db1"
    and db': "db' = store_vehicle (touch_vehicle base (v4\<lparr>vr_maintenance_order_no := Some (order_number q), vr_available_after := None\<rparr>)) db1"
    using r unfolding break_vehicle_def v1 res_bind_simps case_prod_conv Let_def v4_def [symmetric] base_def [symmetric] by (auto simp: res_bind_eq_Inr)
  note stop = stop_vehicle_Inr [OF v1]
  have v4': "vr_vehicle_id v4 = vr_vehicle_id v" "vr_status v4 = vehicle_status_value V_WAITING_RESCUE" using stop by (simp_all add: v4_def)
  define v5 where "v5 = touch_vehicle base (v4\<lparr>vr_maintenance_order_no := Some (order_number q), vr_available_after := None\<rparr>)"
  define db0 where "db0 = add_history hs (store_vehicle v4 db)"
  have k0: "keys_ok db0" using v4'(1) by (intro keys_ok_vehicles [OF k, of db0 "replaced vr_vehicle_id v4"]) (simp_all add: db0_def store_defs put_row_map)
  have h0: "moves_ok (op_history db0)" using h stop(4) by (simp add: db0_def store_defs)
  obtain g where g: "op_vehicles db1 = map g (op_vehicles db0)" "\<And>w. vr_vehicle_id (g w) = vr_vehicle_id w"
    "\<And>w. w \<in> set (op_vehicles db0) \<Longrightarrow> in_repair (vr_status w) \<Longrightarrow> g w = w" and g': "moves_ok (op_history db1)"
    "op_missions db1 = op_missions db0" "op_orders db1 = op_orders db0" "op_bays db1 = op_bays db0" "op_units db1 = op_units db0"
    "op_outbox db1 = op_outbox db0" "op_task_ids db1 = op_task_ids db0" "op_node_ids db1 = op_node_ids db0"
    by (rule replace_vehicle_Inr [OF k0 db1 [folded db0_def] h0]) blast
  define f where "f = (\<lambda>w. replaced vr_vehicle_id v5 (g (replaced vr_vehicle_id v4 w)))"
  have v5: "vr_vehicle_id v5 = vr_vehicle_id v" using v4' by (simp add: v5_def)
  have keep: "f w = w" if "w \<in> set (op_vehicles db)" "in_repair (vr_status w)" for w
  proof -
    have ne: "vr_vehicle_id w \<noteq> vr_vehicle_id v" using distinct_mapD [OF keys_okD(1) [OF k] that(1) v] that(2) stop(1) by auto
    then have "w \<in> set (op_vehicles db0)" using that(1) v4'(1) by (force simp: db0_def store_defs put_row_map replaced_def)
    then show ?thesis using g(3) that(2) ne v4'(1) v5 by (simp add: f_def)
  qed
  have "f v = v5" using g(2) v4'(1) v5 by (simp add: f_def)
  then show thesis
    using that [of f] keep g(1,2) g' v4' v5
    by (simp add: db' db0_def v5_def [symmetric] f_def store_defs put_row_map comp_def) (simp add: v5_def)
qed

lemma case_events_simps [simp]:
  "op_vehicles (case_events env q db) = op_vehicles db" "op_units (case_events env q db) = op_units db" "op_bays (case_events env q db) = op_bays db"
  "op_missions (case_events env q db) = op_missions db" "op_orders (case_events env q db) = op_orders db"
  "op_history (case_events env q db) = op_history db"
  by (simp_all add: case_events_def Let_def split: option.split)

lemma case_events_outbox: "outbox_ok (op_outbox db) \<Longrightarrow> outbox_ok (op_outbox (case_events env q db))"
  unfolding case_events_def Let_def
  by (intro add_event_outbox) (auto simp: add_event_def Let_def outbox_ok_def split: option.split)

lemma available_unitD: "available_unit db i = Some u \<Longrightarrow> u \<in> set (op_units db) \<and> ru_unit_id u = i \<and> ru_status u = ''AVAILABLE''"
  by (auto simp: available_unit_def unit_of_def split: option.splits if_splits dest!: first_match_SomeD)

lemma free_bayD: "free_bay env db = Some b \<Longrightarrow> b \<in> set (op_bays db) \<and> mb_status b = ''AVAILABLE''"
  using py_min_by_Some by (fastforce simp: free_bay_def)

lemma new_case_ok:
  assumes ok: "ops_ok db" and v: "v \<in> set (op_vehicles db)" "vr_vehicle_id v = bc_vehicle_id q"
    and u: "u \<in> set (op_units db)" "ru_unit_id u = bc_rescue_unit_id q" "ru_status u = ''AVAILABLE''"
    and b: "b \<in> set (op_bays db)" "mb_status b = ''AVAILABLE''"
    and f: "op_vehicles db' = map f (op_vehicles db)" "\<And>w. vr_vehicle_id (f w) = vr_vehicle_id w"
      "\<And>w. w \<in> set (op_vehicles db) \<Longrightarrow> in_repair (vr_status w) \<Longrightarrow> f w = w"
      "vr_status (f v) = vehicle_status_value V_WAITING_RESCUE" "vr_maintenance_order_no (f v) = Some (order_number q)"
    and u1: "ru_unit_id u1 = ru_unit_id u" "ru_status u1 = ''DISPATCHED''"
    and b1: "mb_bay_code b1 = mb_bay_code b" "mb_status b1 = ''RESERVED''" "mb_current_order_no b1 = Some (order_number q)"
    and db': "op_units db' = map (replaced ru_unit_id u1) (op_units db)" "op_bays db' = map (replaced mb_bay_code b1) (op_bays db)"
      "op_missions db' = op_missions db @ [new_mission q]" "op_orders db' = op_orders db @ [new_order q b]"
    and fresh: "mission_number q \<notin> rm_mission_no ` set (op_missions db)" "bc_task_id q \<notin> rm_task_id ` set (op_missions db)"
      "order_number q \<notin> mo_order_no ` set (op_orders db)" "bc_task_id q \<notin> mo_task_id ` set (op_orders db)"
    and logs: "moves_ok (op_history db')" "outbox_ok (op_outbox db')"
  shows "ops_ok db'"
proof -
  note k = keys_okD [OF ops_okD(1) [OF ok]]
  have units: "replaced ru_unit_id u1 w = w" if "w \<in> set (op_units db)" "ru_status w = ''DISPATCHED''" for w
    using distinct_mapD [OF k(2) that(1) u(1)] that(2) u(3) u1(1) by (auto simp: replaced_def)
  have bays: "replaced mb_bay_code b1 w = w" if "w \<in> set (op_bays db)" "mb_status w = ''RESERVED''" for w
    using distinct_mapD [OF k(3) that(1) b(1)] that(2) b(2) b1(1) by (auto simp: replaced_def)
  have old: "case_ok db' n y" if "n \<in> set (op_missions db)" "y \<in> set (op_orders db)" "rm_task_id n = mo_task_id y" for n y
    using case_kept [OF ops_okD(5) [OF ok that] f(1-3) db'(2) bays db'(1) units] by blast
  have "f v \<in> set (op_vehicles db')" "u1 \<in> set (op_units db')" "b1 \<in> set (op_bays db')"
    using f(1) v(1) db'(1,2) u(1) u1(1) b(1) b1(1) by (auto simp: rev_image_eqI)
  note held = this
  have "vehicle_held db' (new_mission q) (new_order q b)"
    unfolding vehicle_held_def using held(1) v(2) f(2,4,5)
    by (intro bexI [of _ "f v"]) (simp_all add: new_mission_def new_order_def vehicle_stage_def)
  moreover have "bay_held db' (new_order q b)"
    unfolding bay_held_def using held(3) b1 by (intro impI bexI [of _ b1]) (simp_all add: new_order_def)
  moreover have "unit_held db' (new_mission q)"
    unfolding unit_held_def using held(2) u(2) u1 by (intro impI conjI bexI [of _ u1]) (simp_all add: new_mission_def)
  ultimately have new: "case_ok db' (new_mission q) (new_order q b)"
    by (simp add: case_ok_def scheduled_def) (simp add: new_mission_def new_order_def)
  have "keys_ok db'"
    using k fresh ops_okD(1) [OF ok] unfolding keys_ok_def db' f(1)
    by (simp add: comp_def f(2) new_mission_def new_order_def)
  moreover have "units_apart db'"
  proof -
    have "rm_rescue_unit_id n \<noteq> rm_rescue_unit_id (new_mission q)" if n: "n \<in> set (op_missions db)" "active_mission n" for n
    proof
      assume e: "rm_rescue_unit_id n = rm_rescue_unit_id (new_mission q)"
      obtain y where "case_ok db n y" using mission_has_order [OF ok n(1)] .
      then obtain w where "w \<in> set (op_units db)" "ru_unit_id w = ru_unit_id u" "ru_status w = ''DISPATCHED''"
        using n(2) e u(2) by (auto simp: case_ok_def unit_held_def new_mission_def)
      moreover from this have "w = u" using distinct_mapD [OF k(2) _ u(1)] by simp
      ultimately show False using u(3) by simp
    qed
    then show ?thesis using ops_okD(2) [OF ok] unfolding units_apart_def db' by (auto dest: sym)
  qed
  moreover have "case_ok db' n y" if "n \<in> set (op_missions db')" "y \<in> set (op_orders db')" "rm_task_id n = mo_task_id y" for n y
  proof -
    have "rm_task_id (new_mission q) = bc_task_id q" "mo_task_id (new_order q b) = bc_task_id q" by (simp_all add: new_mission_def new_order_def)
    then show ?thesis using that old new fresh(2,4) unfolding db' by (auto simp: rev_image_eqI)
  qed
  ultimately show ?thesis using logs by (simp add: ops_ok_def)
qed

definition opened :: "operation_env \<Rightarrow> breakdown_case_request \<Rightarrow> rescue_unit \<Rightarrow> maintenance_bay \<Rightarrow> operations_db \<Rightarrow> operations_db" where
  "opened env q u b db = case_events env q (store_bay (touch_bay b (b\<lparr>mb_status := ''RESERVED'', mb_current_order_no := Some (order_number q)\<rparr>))
     (store_unit (touch_unit u (u\<lparr>ru_status := ''DISPATCHED''\<rparr>))
       (db\<lparr>op_missions := op_missions db @ [new_mission q], op_orders := op_orders db @ [new_order q b]\<rparr>)))"

lemma create_new:
  assumes "mission_of_task r (bc_task_id q) = None" "vehicle_for_update db (bc_vehicle_id q) = Inr v"
    "available_unit db (bc_rescue_unit_id q) = Some u" "free_bay env db = Some b" "break_vehicle q v db = Inr db1"
  shows "create_breakdown_case env r q db =
     (if case_constraints_ok db1 q then with_case (opened env q u b db1) (Some (new_mission q)) else Inl OperationIntegrityError)"
  using assms by (simp add: create_breakdown_case_def opened_def Let_def)

lemma opened_ok:
  assumes ok: "ops_ok db" and v: "vehicle_for_update db (bc_vehicle_id q) = Inr v" and u: "available_unit db (bc_rescue_unit_id q) = Some u"
      and b: "free_bay env db = Some b" and db1: "break_vehicle q v db = Inr db1" and con: "case_constraints_ok db1 q"
  shows "ops_ok (opened env q u b db1)"
proof -
  have v': "v \<in> set (op_vehicles db)" "vr_vehicle_id v = bc_vehicle_id q"
    using v first_match_SomeD by (fastforce simp: vehicle_for_update_def split: option.splits)+
  note u' = available_unitD [OF u] and b' = free_bayD [OF b]
  obtain f where f: "op_vehicles db1 = map f (op_vehicles db)" "\<And>w. vr_vehicle_id (f w) = vr_vehicle_id w"
    "\<And>w. w \<in> set (op_vehicles db) \<Longrightarrow> in_repair (vr_status w) \<Longrightarrow> f w = w"
    "vr_status (f v) = vehicle_status_value V_WAITING_RESCUE" "vr_maintenance_order_no (f v) = Some (order_number q)"
    and same: "moves_ok (op_history db1)" "op_missions db1 = op_missions db" "op_orders db1 = op_orders db" "op_bays db1 = op_bays db"
    "op_units db1 = op_units db" "op_outbox db1 = op_outbox db"
    by (rule break_vehicle_Inr [OF ops_okD(1) [OF ok] v'(1) db1 ops_okD(3) [OF ok]]) blast
  define u1 where "u1 = touch_unit u (u\<lparr>ru_status := ''DISPATCHED''\<rparr>)"
  define b1 where "b1 = touch_bay b (b\<lparr>mb_status := ''RESERVED'', mb_current_order_no := Some (order_number q)\<rparr>)"
  show ?thesis
    using u' b' f same con ops_okD(4) [OF ok]
    by (intro new_case_ok [OF ok v', of u b _ f u1 b1])
       (simp_all add: opened_def u1_def b1_def store_defs put_row_map case_constraints_ok_def case_events_outbox)
qed

lemma create_breakdown_case_ok:
  assumes ok: "ops_ok db" and r: "create_breakdown_case env r q db = Inr (c, db')"
  shows "ops_ok db'"
proof (cases "mission_of_task r (bc_task_id q)")
  case (Some m)
  then show ?thesis using assms by (auto simp: create_breakdown_case_def res_bind_eq_Inr)
next
  case None
  obtain v where v: "vehicle_for_update db (bc_vehicle_id q) = Inr v" using r None by (auto simp: create_breakdown_case_def res_bind_eq_Inr)
  obtain u where u: "available_unit db (bc_rescue_unit_id q) = Some u"
    using r None v by (cases "available_unit db (bc_rescue_unit_id q)") (auto simp: create_breakdown_case_def)
  obtain b where b: "free_bay env db = Some b" using r None v u by (cases "free_bay env db") (auto simp: create_breakdown_case_def)
  obtain db1 where db1: "break_vehicle q v db = Inr db1" using r None v u b by (auto simp: create_breakdown_case_def res_bind_eq_Inr)
  note v = v u b db1
  have con: "case_constraints_ok db1 q" and "db' = opened env q u b db1"
    using r create_new [OF None v] by (auto simp: with_case_def res_bind_eq_Inr split: if_splits)
  then show ?thesis using opened_ok [OF ok v con] by simp
qed

lemma created:
  assumes ok: "ops_ok db" and r: "mission_of_task r (bc_task_id q) = None" and v: "vehicle_for_update db (bc_vehicle_id q) = Inr v"
      "available_unit db (bc_rescue_unit_id q) = Some u" "free_bay env db = Some b" "break_vehicle q v db = Inr db1" and con: "case_constraints_ok db1 q"
  obtains c where "create_breakdown_case env r q db = Inr (c, opened env q u b db1)" "op_missions (opened env q u b db1) = op_missions db1 @ [new_mission q]"
    "op_orders (opened env q u b db1) = op_orders db1 @ [new_order q b]"
proof -
  have o: "op_missions (opened env q u b db1) = op_missions db1 @ [new_mission q]" "op_orders (opened env q u b db1) = op_orders db1 @ [new_order q b]"
    by (simp_all add: opened_def store_defs)
  then obtain c where "with_case (opened env q u b db1) (Some (new_mission q)) = Inr (c, opened env q u b db1)"
    using with_case_ok [OF opened_ok [OF ok v con], of "new_mission q"] by auto
  then show thesis using that o create_new [OF r v] con by simp
qed

lemma retry_refused:
  assumes "ops_ok db" shows "\<exists>e. retry_rescue env mission_no now db = Inl e"
proof (cases "first_match (\<lambda>m. rm_mission_no m = mission_no) (op_missions db)")
  case (Some m)
  then have m: "m \<in> set (op_missions db)" using first_match_SomeD by fast
  obtain x where "case_ok db m x" using mission_has_order [OF assms m] .
  then have "rm_status m \<noteq> R_FAILED" by (auto simp: case_ok_def)
  then show ?thesis using Some by (simp add: retry_rescue_def)
qed (simp add: retry_rescue_def)

lemma update_replacement_route_ok:
  assumes ok: "ops_ok db" and r: "update_replacement_route t ids db = Inr (c, db')"
  shows "ops_ok db'"
proof -
  obtain i where db': "db' = db\<lparr>op_outbox := map (set_replacement_route i ids) (op_outbox db)\<rparr>"
    using r by (auto simp: update_replacement_route_def with_case_def res_bind_eq_Inr split: option.splits)
  have "outbox_ok (op_outbox db')"
    using ops_okD(4) [OF ok] unfolding db' outbox_ok_def set_replacement_route_def by (auto simp: dget_def)
  then show ?thesis using ok by (simp add: ops_ok_def db' keys_ok_def units_apart_def case_ok_def vehicle_held_def bay_held_def unit_held_def)
qed

section \<open>Histories\<close>

text \<open>
  The calls of the sessions, one transaction after the other, and what the rest of the program may do to the table of vehicles in between: it changes any
  vehicle that is not in rescue or repair. The demo reset (\<open>demo_reset/service.py\<close>), which rewrites four vehicles whatever their status and cancels all open cases, is outside these calls.
\<close>

datatype operation_call =
    CreateCase operations_db breakdown_case_request
  | AdvanceRescue int
  | AdvanceMaintenance int
  | RetryRescue string int
  | Inspect string bool int string
  | ReplaceRoute string "string list"
  | FleetChange "vehicle_row \<Rightarrow> vehicle_row"

definition committed :: "operations_db \<Rightarrow> 'a operation_result \<Rightarrow> operations_db" where
  "committed db r = (case r of Inl _ \<Rightarrow> db | Inr (_, db') \<Rightarrow> db')"

fun exec_call :: "operation_env \<Rightarrow> operation_call \<Rightarrow> operations_db \<Rightarrow> operations_db" where
  "exec_call env (CreateCase r q) db = committed db (create_breakdown_case env r q db)"
| "exec_call env (AdvanceRescue now) db = committed db (advance_one_due_rescue env now db)"
| "exec_call env (AdvanceMaintenance now) db = committed db (advance_one_due_maintenance env now db)"
| "exec_call env (RetryRescue mission_no now) db = committed db (retry_rescue env mission_no now db)"
| "exec_call env (Inspect order_no passed now by_whom) db = committed db (record_inspection env order_no passed now by_whom db)"
| "exec_call env (ReplaceRoute t ids) db = committed db (update_replacement_route t ids db)"
| "exec_call env (FleetChange f) db =
     db\<lparr>op_vehicles := map (\<lambda>v. if in_repair (vr_status v) then v else (f v)\<lparr>vr_vehicle_id := vr_vehicle_id v\<rparr>) (op_vehicles db)\<rparr>"

fun exec_calls :: "(operation_env \<times> operation_call) list \<Rightarrow> operations_db \<Rightarrow> operations_db" where
  "exec_calls [] db = db"
| "exec_calls ((env, call) # calls) db = exec_calls calls (exec_call env call db)"

definition no_cases :: "operations_db \<Rightarrow> bool" where
  "no_cases db \<longleftrightarrow>
     op_missions db = [] \<and> op_orders db = [] \<and> op_history db = [] \<and> op_outbox db = [] \<and> distinct (map vr_vehicle_id (op_vehicles db)) \<and>
     distinct (map ru_unit_id (op_units db)) \<and> distinct (map mb_bay_code (op_bays db))"

lemma no_cases_ok: "no_cases db \<Longrightarrow> ops_ok db"
  by (simp add: no_cases_def ops_ok_def keys_ok_def units_apart_def moves_ok_def outbox_ok_def)

lemma exec_call_ok:
  assumes ok: "ops_ok db"
  shows "ops_ok (exec_call env call db)"
proof (cases call)
  case (CreateCase r q)
  then show ?thesis using create_breakdown_case_ok [OF ok] ok by (auto simp: committed_def split: sum.splits)
next
  case (AdvanceRescue now)
  show ?thesis
  proof (cases "due_mission env now db")
    case None
    then show ?thesis using AdvanceRescue ok by (simp add: committed_def advance_one_due_rescue_def)
  next
    case (Some m)
    obtain c db' where "advance_one_due_rescue env now db = Inr (Some c, db')" "ops_ok db'" by (rule advance_rescue_ok [OF ok Some])
    then show ?thesis using AdvanceRescue by (simp add: committed_def)
  qed
next
  case (AdvanceMaintenance now)
  show ?thesis
  proof (cases "due_order env now db")
    case None
    then show ?thesis using AdvanceMaintenance ok by (simp add: committed_def advance_one_due_maintenance_def)
  next
    case (Some x)
    obtain c db' where "advance_one_due_maintenance env now db = Inr (Some c, db')" "ops_ok db'" by (rule advance_maintenance_ok [OF ok Some])
    then show ?thesis using AdvanceMaintenance by (simp add: committed_def)
  qed
next
  case (RetryRescue mission_no now)
  then show ?thesis using retry_refused [OF ok, of env mission_no now] ok by (auto simp: committed_def)
next
  case (Inspect order_no passed now by_whom)
  then show ?thesis using record_inspection_ok [OF ok] ok by (auto simp: committed_def split: sum.splits)
next
  case (ReplaceRoute t ids)
  then show ?thesis using update_replacement_route_ok [OF ok] ok by (auto simp: committed_def split: sum.splits)
next
  case (FleetChange f)
  define g where "g = (\<lambda>v. if in_repair (vr_status v) then v else (f v)\<lparr>vr_vehicle_id := vr_vehicle_id v\<rparr>)"
  let ?db = "db\<lparr>op_vehicles := map g (op_vehicles db)\<rparr>"
  have g: "vr_vehicle_id (g v) = vr_vehicle_id v" "in_repair (vr_status v) \<Longrightarrow> g v = v" for v by (simp_all add: g_def)
  have "case_ok ?db n y" if "case_ok db n y" for n y
    using g by (intro case_kept [OF that, of ?db g id id]) simp_all
  moreover have "keys_ok ?db" using g by (intro keys_ok_vehicles [OF ops_okD(1) [OF ok], of ?db g]) simp_all
  ultimately have "ops_ok ?db" using ok by (auto simp: ops_ok_def units_apart_def)
  then show ?thesis using FleetChange by (simp add: g_def)
qed

lemma exec_calls_ok: "ops_ok db \<Longrightarrow> ops_ok (exec_calls calls db)"
  by (induction calls db rule: exec_calls.induct) (simp_all add: exec_call_ok)

end
