(* ===== verification/Vehicle_Progress.thy ===== *)
theory Vehicle_Progress
  imports Vehicle_Repairs
begin

text \<open>
  The progressor brings every case to its end: a measure of the work that is left falls with every transition that is due. The theory closes with what the
  invariant of \<open>Vehicle_Repairs\<close> and the measure say of all histories of calls.
\<close>

section \<open>Progress\<close>

definition work :: "operations_db \<Rightarrow> nat" where
  "work db = sum_list (map (\<lambda>m. mission_rank (rm_status m)) (op_missions db)) + sum_list (map order_rank (op_orders db))"

text \<open>No transition is planned after a point in time; no repair is planned to take longer than \<open>r\<close> minutes.\<close>

definition due_by :: "operations_db \<Rightarrow> int \<Rightarrow> bool" where
  "due_by db t \<longleftrightarrow>
     (\<forall>m\<in>set (op_missions db). \<forall>s. rm_next_transition_at m = Some s \<longrightarrow> s \<le> t) \<and>
     (\<forall>x\<in>set (op_orders db). \<forall>s. mo_next_transition_at x = Some s \<longrightarrow> s \<le> t)"

definition minutes_le :: "operations_db \<Rightarrow> int \<Rightarrow> bool" where
  "minutes_le db r \<longleftrightarrow> (\<forall>x\<in>set (op_orders db). mo_repair_minutes x \<le> r)"

definition longest :: "int \<Rightarrow> int" where
  "longest r = max 6000000 (r * 60000000)"

lemma sum_list_one:
  fixes g :: "'a \<Rightarrow> nat"
  assumes "distinct (map k ys)" "y \<in> set ys" "\<forall>z. k z \<noteq> k y \<longrightarrow> f z = z"
  shows "sum_list (map g (map f ys)) + g y = sum_list (map g ys) + g (f y)"
  using assms
proof (induction ys)
  case (Cons a ys)
  show ?case
  proof (cases "a = y")
    case True
    then have "f z = z" if "z \<in> set ys" for z using Cons.prems that by (metis distinct.simps(2) image_eqI list.set_map list.simps(9))
    then have "map g (map f ys) = map g ys" by simp
    then have "sum_list (map g (map f ys)) = sum_list (map g ys)" by (rule arg_cong)
    then show ?thesis using True by simp
  next
    case False
    then have "y \<in> set ys" "k a \<noteq> k y" using Cons.prems by (auto simp: rev_image_eqI)
    then show ?thesis using Cons by simp
  qed
qed simp

lemma case_step_work:
  assumes "keys_ok db" "case_step db m x fm fx db'" "m \<in> set (op_missions db)" "x \<in> set (op_orders db)"
  shows "work db' + (mission_rank (rm_status m) + order_rank x) = work db + (mission_rank (rm_status (fm m)) + order_rank (fx x))"
  using sum_list_one [OF keys_okD(4) [OF assms(1)] assms(3), of fm "\<lambda>m. mission_rank (rm_status m)"]
    sum_list_one [OF keys_okD(6) [OF assms(1)] assms(4), of fx order_rank] assms(2)
  by (simp add: case_step_def work_def)

lemma case_step_due:
  assumes "keys_ok db" "case_step db m x fm fx db'" "m \<in> set (op_missions db)" "x \<in> set (op_orders db)" "due_by db t" "minutes_le db r"
    "\<forall>s. rm_next_transition_at (fm m) = Some s \<longrightarrow> s \<le> t'" "\<forall>s. mo_next_transition_at (fx x) = Some s \<longrightarrow> s \<le> t'"
    "mo_repair_minutes (fx x) = mo_repair_minutes x" "t \<le> t'"
  shows "due_by db' t' \<and> minutes_le db' r"
proof -
  have "s \<le> t'" if "y \<in> set (op_missions db')" "rm_next_transition_at y = Some s" for y s
    using case_step_rows(1) [OF assms(1-4) that(1)] assms(5,7,10) that(2) unfolding due_by_def by (auto intro: order_trans)
  moreover have "(\<forall>s. mo_next_transition_at y = Some s \<longrightarrow> s \<le> t') \<and> mo_repair_minutes y \<le> r" if "y \<in> set (op_orders db')" for y
    using case_step_rows(2) [OF assms(1-4) that] assms(4-6,8-10) unfolding due_by_def minutes_le_def by (auto intro: order_trans)
  ultimately show ?thesis by (auto simp: due_by_def minutes_le_def)
qed

definition advanced :: "int \<Rightarrow> int \<Rightarrow> operations_db \<Rightarrow> operations_db \<Rightarrow> bool" where
  "advanced now r db db' \<longleftrightarrow>
     ops_ok db' \<and> due_by db' (now + longest r) \<and> minutes_le db' r \<and> work db' \<le> work db \<and>
     map rm_mission_no (op_missions db') = map rm_mission_no (op_missions db)"

lemma longest_pos: "0 < longest r"
  by (simp add: longest_def)

lemma rescue_advanced:
  assumes ok: "ops_ok db" and d: "due_by db (now + longest r)" "minutes_le db r"
  obtains c db' where "advance_one_due_rescue env now db = Inr (c, db')" "advanced now r db db'"
    "due_mission env now db \<noteq> None \<longrightarrow> work db' < work db" "due_mission env now db = None \<longrightarrow> db' = db"
proof (cases "due_mission env now db")
  case None
  then show thesis using that [of None db] ok d by (simp add: advance_one_due_rescue_def advanced_def)
next
  case (Some m)
  note m = due_missionD [OF Some]
  obtain c db' x fm fx where a: "advance_one_due_rescue env now db = Inr (Some c, db')" "ops_ok db'" and st: "case_step db m x fm fx db'"
    and x: "x \<in> set (op_orders db)" "rm_task_id m = mo_task_id x" and mv: "rescue_moved now m (fm m) x (fx x)"
    by (rule advance_rescue_ok [OF ok Some])
  have "mission_rank (rm_status (fm m)) < mission_rank (rm_status m)" "order_rank (fx x) = order_rank x"
    using m(2) mv by (auto simp: rescue_moved_def order_rank_def)
  then have w: "work db' < work db" using case_step_work [OF ops_okD(1) [OF ok] st m(1) x(1)] by simp
  have "\<forall>s. rm_next_transition_at (fm m) = Some s \<longrightarrow> s \<le> now + longest r"
    using mv m(2) by (auto simp: rescue_moved_def longest_def)
  moreover have "\<forall>s. mo_next_transition_at (fx x) = Some s \<longrightarrow> s \<le> now + longest r" "mo_repair_minutes (fx x) = mo_repair_minutes x"
    using mv d(1) x(1) by (auto simp: rescue_moved_def longest_def due_by_def)
  ultimately have "due_by db' (now + longest r) \<and> minutes_le db' r"
    using case_step_due [OF ops_okD(1) [OF ok] st m(1) x(1) d] by simp
  moreover have "map rm_mission_no (op_missions db') = map rm_mission_no (op_missions db)" using st by (auto simp: case_step_def)
  ultimately show thesis using that [OF a(1)] a(2) w Some by (simp add: advanced_def)
qed

lemma repair_advanced:
  assumes ok: "ops_ok db" and d: "due_by db (now + longest r)" "minutes_le db r"
  obtains c db' where "advance_one_due_maintenance env now db = Inr (c, db')" "advanced now r db db'"
    "due_order env now db \<noteq> None \<longrightarrow> work db' < work db"
proof (cases "due_order env now db")
  case None
  then show thesis using that [of None db] ok d by (simp add: advance_one_due_maintenance_def advanced_def)
next
  case (Some x)
  note x = due_orderD [OF Some]
  obtain c db' m fx where a: "advance_one_due_maintenance env now db = Inr (Some c, db')" "ops_ok db'" and st: "case_step db m x id fx db'"
    and m: "m \<in> set (op_missions db)" "rm_task_id m = mo_task_id x" and mv: "repair_moved now x (fx x)"
    by (rule advance_maintenance_ok [OF ok Some])
  have w: "work db' < work db" using case_step_work [OF ops_okD(1) [OF ok] st m(1) x(1)] mv by (simp add: repair_moved_def)
  have "mo_repair_minutes x \<le> r" using d(2) x(1) by (simp add: minutes_le_def)
  then have "now + max 6000000 (mo_repair_minutes x * 60000000) \<le> now + longest r" by (simp add: longest_def)
  then have "\<forall>s. mo_next_transition_at (fx x) = Some s \<longrightarrow> s \<le> now + longest r"
    using mv unfolding repair_moved_def by (blast intro: order_trans)
  moreover have "\<forall>s. rm_next_transition_at (id m) = Some s \<longrightarrow> s \<le> now + longest r" using d(1) m(1) by (simp add: due_by_def)
  moreover have "mo_repair_minutes (fx x) = mo_repair_minutes x" using mv by (simp add: repair_moved_def)
  ultimately have "due_by db' (now + longest r) \<and> minutes_le db' r"
    using case_step_due [OF ops_okD(1) [OF ok] st m(1) x(1) d] by simp
  moreover have "map rm_mission_no (op_missions db') = map rm_mission_no (op_missions db)" using st by (auto simp: case_step_def)
  ultimately show thesis using that [OF a(1)] a(2) w Some by (simp add: advanced_def)
qed

lemma something_due:
  assumes ok: "ops_ok db" and d: "due_by db now" and w: "0 < work db" and free: "en_locked env = (\<lambda>_. False)"
  shows "due_mission env now db \<noteq> None \<or> due_order env now db \<noteq> None"
proof (rule ccontr)
  assume "\<not> ?thesis"
  then have none: "due_mission env now db = None" "due_order env now db = None" by auto
  have m: "rm_status m = R_DELIVERED" if m: "m \<in> set (op_missions db)" for m
  proof (rule ccontr)
    assume a: "rm_status m \<noteq> R_DELIVERED"
    obtain x where "case_ok db m x" using mission_has_order [OF ok m] by blast
    then have "rm_status m \<in> {R_DISPATCHED, R_ARRIVED, R_LOADED}" "rm_next_transition_at m \<noteq> None"
      using a by (cases "rm_status m"; auto simp: case_ok_def unit_held_def active_mission_def)+
    then show False using none(1) m d free by (auto simp: due_mission_def py_min_by_None filter_empty_conv due_by_def split: option.splits)
  qed
  have "order_rank x = 0" if x: "x \<in> set (op_orders db)" for x
  proof (rule ccontr)
    assume a: "order_rank x \<noteq> 0"
    obtain n where "n \<in> set (op_missions db)" "case_ok db n x" using order_has_mission [OF ok x] by blast
    then have "mo_status x \<in> {M_WAITING_BAY, M_DIAGNOSING, M_REPAIRING, M_QA_PENDING}" "mo_next_transition_at x \<noteq> None"
      using a m by (auto simp: case_ok_def order_rank_def scheduled_def split: if_splits)
    then show False using none(2) x d free by (auto simp: due_order_def py_min_by_None filter_empty_conv due_by_def split: option.splits)
  qed
  then have "work db = 0" using m by (simp add: work_def sum_list_eq_0_iff)
  then show False using w by simp
qed

lemma progressor_run_once_advances:
  assumes ok: "ops_ok db" and d: "due_by db now" "minutes_le db r" and free: "en_locked env = (\<lambda>_. False)"
  obtains db' where "progressor_run_once env now db = (None, db')" "advanced now r db db'" "0 < work db \<longrightarrow> work db' < work db"
proof -
  have d': "due_by db (now + longest r)" using d(1) longest_pos [of r] unfolding due_by_def by (meson less_add_same_cancel1 less_imp_le order_trans)
  obtain c db1 where a: "advance_one_due_rescue env now db = Inr (c, db1)" "advanced now r db db1"
      "due_mission env now db \<noteq> None \<longrightarrow> work db1 < work db" "due_mission env now db = None \<longrightarrow> db1 = db"
    by (rule rescue_advanced [OF ok d' d(2), of env])
  obtain c' db2 where b: "advance_one_due_maintenance env now db1 = Inr (c', db2)" "advanced now r db1 db2"
      "due_order env now db1 \<noteq> None \<longrightarrow> work db2 < work db1"
    using a(2) repair_advanced [of db1 now r env] unfolding advanced_def by metis
  have "progressor_run_once env now db = (None, db2)" using a(1) b(1) by (simp add: progressor_run_once_def)
  moreover have "advanced now r db db2" using a(2) b(2) by (auto simp: advanced_def)
  moreover have "0 < work db \<longrightarrow> work db2 < work db"
  proof (cases "due_mission env now db = None")
    case True
    then have "db1 = db" using a(4) by simp
    then show ?thesis using something_due [OF ok d(1) _ free] True b(3) by blast
  next
    case False
    then have "work db1 < work db" "work db2 \<le> work db1" using a(3) b(2) by (simp_all add: advanced_def)
    then show ?thesis by simp
  qed
  ultimately show thesis by (rule that)
qed

text \<open>The progressor wakes up no earlier than the longest delay after the last time.\<close>

fun wakes_ok :: "int \<Rightarrow> int \<Rightarrow> int list \<Rightarrow> bool" where
  "wakes_ok d t [] \<longleftrightarrow> True"
| "wakes_ok d t (now # wakes) \<longleftrightarrow> t \<le> now \<and> wakes_ok d (now + d) wakes"

lemma progressor_run_forever_finishes:
  assumes "ops_ok db" "due_by db t" "minutes_le db r" "en_locked env = (\<lambda>_. False)" "wakes_ok (longest r) t wakes" "work db \<le> length wakes"
  shows "\<exists>db'. progressor_run_forever env wakes db = (None, db') \<and> ops_ok db' \<and> work db' = 0 \<and> map rm_mission_no (op_missions db') = map rm_mission_no (op_missions db)"
  using assms
proof (induction wakes arbitrary: db t)
  case (Cons now wakes)
  then have "due_by db now" unfolding due_by_def by (metis order_trans wakes_ok.simps(2))
  then obtain db1 where r: "progressor_run_once env now db = (None, db1)" and a: "advanced now r db db1" and w: "0 < work db \<longrightarrow> work db1 < work db"
    by (rule progressor_run_once_advances [OF Cons.prems(1) _ Cons.prems(3,4)])
  have "work db1 \<le> length wakes" using w a Cons.prems(6) by (cases "work db") (auto simp: advanced_def)
  then show ?case using Cons.IH [of db1 "now + longest r"] Cons.prems(4,5) a r by (auto simp: advanced_def)
qed simp

lemma work_bound:
  assumes "ops_ok db"
  shows "work db \<le> 7 * length (op_missions db)"
proof -
  have m: "sum_list (map (\<lambda>m. mission_rank (rm_status m)) ms) \<le> 3 * length ms" for ms :: "rescue_mission list"
  proof (induction ms)
    case (Cons m ms)
    then show ?case by (cases "rm_status m") auto
  qed simp
  have x: "sum_list (map order_rank xs) \<le> 4 * length xs" for xs
  proof (induction xs)
    case (Cons x xs)
    then show ?case by (cases "mo_status x") (auto simp: order_rank_def)
  qed simp
  have "length (op_orders db) = length (op_missions db)"
    using ops_okD(1) [OF assms] unfolding keys_ok_def by (metis distinct_card length_map list.set_map)
  then show ?thesis using m [of "op_missions db"] x [of "op_orders db"] by (simp add: work_def)
qed

lemma work_zero:
  assumes "ops_ok db" "work db = 0"
  shows "m \<in> set (op_missions db) \<Longrightarrow> rm_status m = R_DELIVERED"
    "x \<in> set (op_orders db) \<Longrightarrow> mo_status x \<in> {M_COMPLETED, M_FAILED} \<or> mo_status x = M_QA_PENDING \<and> mo_manual_inspection_required x \<and> mo_inspection_result x = None"
proof -
  have m: "mission_rank (rm_status n) = 0" if "n \<in> set (op_missions db)" for n using assms(2) that by (auto simp: work_def sum_list_eq_0_iff)
  have x: "order_rank x = 0" if "x \<in> set (op_orders db)" for x using assms(2) that by (auto simp: work_def sum_list_eq_0_iff)
  have d: "rm_status n = R_DELIVERED" if n: "n \<in> set (op_missions db)" for n
  proof -
    obtain y where "case_ok db n y" using mission_has_order [OF assms(1) n] by blast
    then show ?thesis using m [OF n] by (cases "rm_status n") (auto simp: case_ok_def)
  qed
  then show "m \<in> set (op_missions db) \<Longrightarrow> rm_status m = R_DELIVERED" .
  assume xin: "x \<in> set (op_orders db)"
  then obtain n where "n \<in> set (op_missions db)" "case_ok db n x" using order_has_mission [OF assms(1)] by blast
  then show "mo_status x \<in> {M_COMPLETED, M_FAILED} \<or> mo_status x = M_QA_PENDING \<and> mo_manual_inspection_required x \<and> mo_inspection_result x = None"
    using x [OF xin] d
    by (cases "mo_status x") (auto simp: case_ok_def order_rank_def scheduled_def split: if_splits)
qed

section \<open>A small fleet for evaluation\<close>

definition sample_truck :: vehicle_row where
  "sample_truck =
     \<lparr>vr_id = 1, vr_vehicle_id = ''V1'', vr_plate_no = ''P1'', vr_vehicle_type = ''TRUCK'', vr_max_load_kg = 1000, vr_current_load_kg = 0,
      vr_cargo_capability = ''GENERAL'', vr_gross_weight_tons = 3, vr_status = ''IN_TRANSIT'', vr_fault_code = None, vr_status_reason = None,
      vr_status_changed_at = None, vr_available_after = None, vr_maintenance_order_no = None, vr_current_node_id = ''N04'',
      vr_assigned_driver_id = None, vr_version = 1\<rparr>"

definition sample_operations :: operations_db where
  "sample_operations = seed_vehicle_operation_resources
     \<lparr>op_vehicles = [sample_truck], op_units = [], op_bays = [], op_missions = [], op_orders = [], op_history = [], op_outbox = [],
      op_task_ids = [''T7'', ''Ta'', ''Tb''], op_node_ids = [''N04'', ''N15'', ''A'', ''C'']\<rparr>"

definition sample_breakdown :: "string \<Rightarrow> breakdown_case_request" where
  "sample_breakdown task_id =
     \<lparr>bc_task_id = task_id, bc_vehicle_id = ''V1'', bc_replacement_vehicle_id = None, bc_rescue_unit_id = ''RU-001'', bc_incident_node_id = ''N04'',
      bc_station_node_id = ''N15'', bc_outbound_edge_ids = [''E1''], bc_tow_edge_ids = [''E1''], bc_fault_code = ''ENGINE_COOLING'', bc_diagnosis = [],
      bc_repair_minutes = 120, bc_manual_inspection_required = False, bc_occurred_at = 0, bc_replacement_edge_ids = []\<rparr>"

definition sample_operation_env :: operation_env where
  "sample_operation_env = \<lparr>en_locked = (\<lambda>_. False), en_draw = (\<lambda>n. (show_nat n, 0))\<rparr>"

definition sample_calls :: "(operation_env \<times> operation_call) list" where
  "sample_calls = [(sample_operation_env, CreateCase sample_operations (sample_breakdown ''T7''))]"

lemma sample_no_cases: "no_cases sample_operations"
  by (simp add: no_cases_def sample_operations_def seed_vehicle_operation_resources_def unit_of_def Let_def)

lemma sample_bay: "free_bay sample_operation_env sample_operations = Some (hd (op_bays sample_operations))"
  by (simp add: free_bay_def sample_operations_def seed_vehicle_operation_resources_def unit_of_def Let_def sample_operation_env_def)

lemma sample_rows_found:
  "mission_of_task sample_operations ''T7'' = None" "vehicle_for_update sample_operations ''V1'' = Inr sample_truck"
  "available_unit sample_operations ''RU-001'' = Some (hd (op_units sample_operations))"
  by (simp_all add: sample_operations_def seed_vehicle_operation_resources_def unit_of_def Let_def mission_of_task_def available_unit_def
        vehicle_for_update_def sample_truck_def)

lemma sample_opened:
  "op_missions (exec_calls sample_calls sample_operations) = [new_mission (sample_breakdown ''T7'')] \<and>
   op_orders (exec_calls sample_calls sample_operations) = [new_order (sample_breakdown ''T7'') (hd (op_bays sample_operations))]"
proof -
  have s: "vr_status sample_truck = vehicle_status_value V_IN_TRANSIT" "V_BROKEN \<in> set (vehicle_transitions V_IN_TRANSIT)"
    "bc_replacement_vehicle_id (sample_breakdown ''T7'') = None" by (simp_all add: sample_truck_def sample_breakdown_def)
  obtain db1 where b: "break_vehicle (sample_breakdown ''T7'') sample_truck sample_operations = Inr db1" "op_missions db1 = op_missions sample_operations"
    "op_orders db1 = op_orders sample_operations" "op_task_ids db1 = op_task_ids sample_operations" "op_node_ids db1 = op_node_ids sample_operations"
    by (rule break_vehicle_runs [OF s])
  have "case_constraints_ok db1 (sample_breakdown ''T7'')"
    using b by (simp add: case_constraints_ok_def sample_breakdown_def sample_operations_def seed_vehicle_operation_resources_def unit_of_def Let_def)
  note con = this
  let ?o = "opened sample_operation_env (sample_breakdown ''T7'') (hd (op_units sample_operations)) (hd (op_bays sample_operations)) db1"
  have q: "mission_of_task sample_operations (bc_task_id (sample_breakdown ''T7'')) = None"
    "vehicle_for_update sample_operations (bc_vehicle_id (sample_breakdown ''T7'')) = Inr sample_truck"
    "available_unit sample_operations (bc_rescue_unit_id (sample_breakdown ''T7'')) = Some (hd (op_units sample_operations))"
    using sample_rows_found by (simp_all add: sample_breakdown_def)
  obtain c where "create_breakdown_case sample_operation_env sample_operations (sample_breakdown ''T7'') sample_operations = Inr (c, ?o)"
      "op_missions ?o = op_missions db1 @ [new_mission (sample_breakdown ''T7'')]"
      "op_orders ?o = op_orders db1 @ [new_order (sample_breakdown ''T7'') (hd (op_bays sample_operations))]"
    by (rule created [OF no_cases_ok [OF sample_no_cases] q sample_bay b(1) con])
  moreover have "op_missions sample_operations = []" "op_orders sample_operations = []" using sample_no_cases by (simp_all add: no_cases_def)
  ultimately show ?thesis using b(2,3) by (simp add: sample_calls_def committed_def)
qed

section \<open>Results\<close>

text \<open>
  C31. From tables without cases on, whatever the sessions call of the repository and in whatever order, and whatever the rest of the program does to vehicles that are not in rescue or repair, each mission has exactly one order, on the same vehicle and at a stage that
  fits. Two open orders never share a vehicle or a bay, two missions under way never share a rescue unit. The vehicle of an open order is marked with it and
  is in rescue or repair, so that no dispatch can take it; its bay is reserved for it. Every recorded change of a vehicle's status is a permitted transition.
  The demo reset, which cancels open cases and frees all units and bays, is not one of these calls.
\<close>

theorem repair_resources_exclusive:
  assumes "no_cases db0" and "db = exec_calls calls db0"
  shows "rm_task_id ` set (op_missions db) = mo_task_id ` set (op_orders db) \<and> distinct (map rm_task_id (op_missions db)) \<and>
    (\<forall>m\<in>set (op_missions db). \<forall>x\<in>set (op_orders db). rm_task_id m = mo_task_id x \<longrightarrow> rm_vehicle_id m = mo_vehicle_id x \<and> case_stage_ok (rm_status m) (mo_status x)) \<and>
    (\<forall>x\<in>set (op_orders db). \<forall>y\<in>set (op_orders db). open_order x \<and> open_order y \<and> (mo_vehicle_id x = mo_vehicle_id y \<or> mo_bay_code x = mo_bay_code y) \<longrightarrow> x = y) \<and>
    (\<forall>m\<in>set (op_missions db). \<forall>n\<in>set (op_missions db). active_mission m \<and> active_mission n \<and> rm_rescue_unit_id m = rm_rescue_unit_id n \<longrightarrow> m = n) \<and>
    (\<forall>x\<in>set (op_orders db). open_order x \<longrightarrow>
       (\<exists>v\<in>set (op_vehicles db). vr_vehicle_id v = mo_vehicle_id x \<and> in_repair (vr_status v) \<and> vr_maintenance_order_no v = Some (mo_order_no x)) \<and>
       (\<exists>b\<in>set (op_bays db). mo_bay_code x = Some (mb_bay_code b) \<and> mb_status b = ''RESERVED'' \<and> mb_current_order_no b = Some (mo_order_no x))) \<and>
    moves_ok (op_history db)"
proof -
  have ok: "ops_ok db" using assms exec_calls_ok no_cases_ok by simp
  have held: "(\<exists>v\<in>set (op_vehicles db). vr_vehicle_id v = mo_vehicle_id x \<and> in_repair (vr_status v) \<and> vr_maintenance_order_no v = Some (mo_order_no x)) \<and>
       (\<exists>b\<in>set (op_bays db). mo_bay_code x = Some (mb_bay_code b) \<and> mb_status b = ''RESERVED'' \<and> mb_current_order_no b = Some (mo_order_no x))"
    if x: "x \<in> set (op_orders db)" "open_order x" for x
  proof -
    obtain m where c: "case_ok db m x" using order_has_mission [OF ok x(1)] by blast
    have "in_repair (vehicle_status_value (vehicle_stage (rm_status m) (mo_status x)))" by (simp add: in_repair_def vehicle_stage_def)
    then show ?thesis using c x(2) unfolding case_ok_def vehicle_held_def bay_held_def by metis
  qed
  have keys: "rm_task_id ` set (op_missions db) = mo_task_id ` set (op_orders db)" "distinct (map rm_task_id (op_missions db))"
    using ops_okD(1) [OF ok] by (simp_all add: keys_ok_def)
  have stages: "\<forall>m\<in>set (op_missions db). \<forall>x\<in>set (op_orders db). rm_task_id m = mo_task_id x \<longrightarrow>
      rm_vehicle_id m = mo_vehicle_id x \<and> case_stage_ok (rm_status m) (mo_status x)"
    using ops_okD(5) [OF ok] by (simp add: case_ok_def)
  have apart: "\<forall>x\<in>set (op_orders db). \<forall>y\<in>set (op_orders db). open_order x \<and> open_order y \<and>
      (mo_vehicle_id x = mo_vehicle_id y \<or> mo_bay_code x = mo_bay_code y) \<longrightarrow> x = y"
    using open_apart [OF ok] by blast
  show ?thesis
    by (intro conjI keys stages apart ops_okD(2) [OF ok, unfolded units_apart_def] ops_okD(3) [OF ok]) (use held in blast)
qed

theorem repair_resources_exclusive_witness:
  "op_orders (exec_calls sample_calls sample_operations) \<noteq> [] \<and>
   list_all (\<lambda>x. list_ex (\<lambda>v. vr_vehicle_id v = ''V1'' \<and> vr_maintenance_order_no v = Some (mo_order_no x))
       (op_vehicles (exec_calls sample_calls sample_operations)))
     (op_orders (exec_calls sample_calls sample_operations))"
proof -
  have "open_order (new_order (sample_breakdown ''T7'') b)" "mo_vehicle_id (new_order (sample_breakdown ''T7'') b) = ''V1''" for b
    by (simp_all add: open_order_def new_order_def sample_breakdown_def)
  then show ?thesis using repair_resources_exclusive [OF sample_no_cases refl, of sample_calls] sample_opened by (auto simp: list_all_iff list_ex_iff simp del: exec_calls.simps)
qed

text \<open>
  C32. If no other session holds locks and the progressor wakes up at intervals no shorter than the longest planned repair, then seven wake-ups per case are
  enough: it meets no error, every vehicle has been delivered, and every order is completed or failed, or waits for the manual inspection it requires. The configured interval of one second is far shorter, so that there the number of wake-ups is not bounded
  by seven per case.
\<close>

theorem repairs_complete:
  assumes "no_cases db0" and "db = exec_calls calls db0" and "en_locked env = (\<lambda>_. False)" and "due_by db t" and "minutes_le db r"
    and "wakes_ok (longest r) t wakes" and "7 * length (op_missions db) \<le> length wakes"
  shows "\<exists>db'. progressor_run_forever env wakes db = (None, db') \<and> map rm_mission_no (op_missions db') = map rm_mission_no (op_missions db) \<and>
    (\<forall>m\<in>set (op_missions db'). rm_status m = R_DELIVERED) \<and>
    (\<forall>x\<in>set (op_orders db'). mo_status x \<in> {M_COMPLETED, M_FAILED} \<or>
       mo_status x = M_QA_PENDING \<and> mo_manual_inspection_required x \<and> mo_inspection_result x = None)"
proof -
  have ok: "ops_ok db" using assms(1,2) exec_calls_ok no_cases_ok by simp
  obtain db' where "progressor_run_forever env wakes db = (None, db')" "ops_ok db'" "work db' = 0" "map rm_mission_no (op_missions db') = map rm_mission_no (op_missions db)"
    using progressor_run_forever_finishes [OF ok assms(4,5,3,6)] work_bound [OF ok] assms(7) by force
  then show ?thesis using work_zero [of db'] by blast
qed

theorem repairs_complete_witness:
  "\<exists>db'. progressor_run_forever sample_operation_env (map (\<lambda>k. (k + 1) * 7200000000) [0..6]) (exec_calls sample_calls sample_operations) = (None, db') \<and>
     length (op_missions db') = 1 \<and> list_all (\<lambda>m. rm_status m = R_DELIVERED) (op_missions db')"
proof -
  have due: "due_by (exec_calls sample_calls sample_operations) 8000000" "minutes_le (exec_calls sample_calls sample_operations) 120"
    unfolding due_by_def minutes_le_def using sample_opened by (simp_all add: new_mission_def new_order_def sample_breakdown_def)
  have wakes: "wakes_ok (longest 120) 8000000 (map (\<lambda>k. (k + 1) * 7200000000) [0..6])"
    by (simp add: upto.simps longest_def)
  have "en_locked sample_operation_env = (\<lambda>_. False)" "7 * length (op_missions (exec_calls sample_calls sample_operations)) \<le> length (map (\<lambda>k. (k + 1) * 7200000000) [0..6])"
    using sample_opened by (simp_all add: sample_operation_env_def)
  then obtain db' where db': "progressor_run_forever sample_operation_env (map (\<lambda>k. (k + 1) * 7200000000) [0..6]) (exec_calls sample_calls sample_operations) = (None, db')"
      "map rm_mission_no (op_missions db') = map rm_mission_no (op_missions (exec_calls sample_calls sample_operations))"
      "\<forall>m\<in>set (op_missions db'). rm_status m = R_DELIVERED"
    using repairs_complete [OF sample_no_cases refl _ due wakes] by blast
  have "length (op_missions db') = 1" using arg_cong [OF db'(2), of length] sample_opened by (auto simp del: exec_calls.simps)
  then show ?thesis using db'(1,3) unfolding list_all_iff by blast
qed

end
