(* ===== verification/Rescue_Orchestration.thy ===== *)
theory Rescue_Orchestration
  imports Vehicle_Progress
begin

text \<open>
  How a case begins: the orchestration of a rescue over the shortest paths of \<open>Path_Finder\<close>, and the numbers that its mission and its order get.
\<close>

lemma rescue_route_Inr:
  "wf_network net \<Longrightarrow> rescue_route net s t = Inr (Some p) \<Longrightarrow> best_route net (9 / 2) {} s t FASTEST p"
  using dijkstra.find_best by (auto simp: rescue_route_def split: sum.splits)

lemma mission_of_task_append:
  "bc_task_id q \<notin> rm_task_id ` set (op_missions db) \<Longrightarrow> op_missions db' = op_missions db @ [new_mission q] \<Longrightarrow>
   mission_of_task db' (bc_task_id q) = Some (new_mission q)"
  by (auto simp: mission_of_task_def first_match_append new_mission_def rev_image_eqI split: option.splits dest!: first_match_SomeD)

lemma order_of_task_append:
  "bc_task_id q \<notin> mo_task_id ` set (op_orders db) \<Longrightarrow> op_orders db' = op_orders db @ [new_order q b] \<Longrightarrow>
   order_of_task db' (bc_task_id q) = Some (new_order q b)"
  by (auto simp: order_of_task_def first_match_append new_order_def rev_image_eqI split: option.splits dest!: first_match_SomeD)

lemma case_snapshot_fields:
  "case_snapshot db m = Inr c \<Longrightarrow> order_of_task db (rm_task_id m) = Some x \<Longrightarrow> cx_mission c = mission_snapshot m \<and> cx_maintenance c = order_snapshot x"
  by (auto simp: case_snapshot_def res_bind_eq_Inr Let_def)

lemma break_vehicle_cases:
  assumes "break_vehicle q v db = Inr db1"
  shows "op_missions db1 = op_missions db \<and> op_orders db1 = op_orders db"
  using assms unfolding break_vehicle_def replace_vehicle_def
  by (auto simp: res_bind_eq_Inr Let_def store_defs split: option.splits if_splits prod.splits)

text \<open>A case that is created: what its snapshot shows, and that it is found again.\<close>

lemma create_breakdown_case_new:
  assumes r: "create_breakdown_case env db q db = Inr (c, db')" and none: "mission_of_task db (bc_task_id q) = None"
  shows "get_case db' (bc_task_id q) = Inr (Some c) \<and> cx_mission c = mission_snapshot (new_mission q) \<and>
    mx_manual_inspection_required (cx_maintenance c) = bc_manual_inspection_required q \<and> length (op_missions db') = length (op_missions db) + 1"
proof -
  obtain v where v: "vehicle_for_update db (bc_vehicle_id q) = Inr v" using r none by (auto simp: create_breakdown_case_def res_bind_eq_Inr)
  obtain u where u: "available_unit db (bc_rescue_unit_id q) = Some u"
    using r none v by (cases "available_unit db (bc_rescue_unit_id q)") (auto simp: create_breakdown_case_def)
  obtain b where b: "free_bay env db = Some b" using r none v u by (cases "free_bay env db") (auto simp: create_breakdown_case_def)
  obtain db1 where db1: "break_vehicle q v db = Inr db1" using r none v u b by (auto simp: create_breakdown_case_def res_bind_eq_Inr)
  have con: "case_constraints_ok db1 q" and c: "case_snapshot db' (new_mission q) = Inr c" and db': "db' = opened env q u b db1"
    using r create_new [OF none v u b db1] by (auto simp: with_case_def res_bind_eq_Inr split: if_splits)
  have t: "op_missions db' = op_missions db1 @ [new_mission q]" "op_orders db' = op_orders db1 @ [new_order q b]"
    by (simp_all add: db' opened_def store_defs)
  have m: "mission_of_task db' (bc_task_id q) = Some (new_mission q)" and x: "order_of_task db' (rm_task_id (new_mission q)) = Some (new_order q b)"
    using mission_of_task_append [OF _ t(1)] order_of_task_append [OF _ t(2)] con by (simp_all add: case_constraints_ok_def new_mission_def)
  show ?thesis
    using m c case_snapshot_fields [OF c x] t(1) break_vehicle_cases [OF db1] by (simp add: get_case_def order_snapshot_def new_order_def)
qed

section \<open>A rescue on a small network\<close>

definition sample_config :: rescue_config where
  "sample_config = \<lparr>rc_rescue_unit_id = ''RU-001'', rc_rescue_node_id = ''A'', rc_maintenance_node_id = ''A''\<rparr>"

definition sample_breakdown_report :: breakdown_orchestration_input where
  "sample_breakdown_report =
     \<lparr>bo_task_id = ''T7'', bo_vehicle_id = ''V1'', bo_replacement_vehicle_id = None, bo_incident_node_id = ''C'', bo_cargo_type = ''GENERAL'',
      bo_severity = ''HIGH'', bo_fault_code = ''BRAKE_FAILURE''\<rparr>"

lemma sample_routes:
  "find_path sample_net ''A'' ''C'' FASTEST (9 / 2) {} =
     Inr (Some \<lparr>pr_objective = FASTEST, pr_node_ids = [''A'', ''B'', ''C''], pr_edge_ids = [''E1'', ''E2''], pr_distance_km = 7 / 2,
                pr_estimated_minutes = 7, pr_risk_cost = 0, pr_visited_node_count = 3\<rparr>)"
  "find_path sample_net ''C'' ''A'' FASTEST (9 / 2) {} =
     Inr (Some \<lparr>pr_objective = FASTEST, pr_node_ids = [''C'', ''B'', ''A''], pr_edge_ids = [''E2'', ''E1''], pr_distance_km = 7 / 2,
                pr_estimated_minutes = 7, pr_risk_cost = 0, pr_visited_node_count = 3\<rparr>)"
  by code_simp+

lemma sample_orchestrated: "\<exists>c db'. orchestrate sample_config sample_operation_env sample_net 0 sample_breakdown_report sample_operations = Inr (c, db')"
proof -
  define q where "q = \<lparr>bc_task_id = ''T7'', bc_vehicle_id = ''V1'', bc_replacement_vehicle_id = None, bc_rescue_unit_id = ''RU-001'',
    bc_incident_node_id = ''C'', bc_station_node_id = ''A'', bc_outbound_edge_ids = [''E1'', ''E2''], bc_tow_edge_ids = [''E2'', ''E1''],
    bc_fault_code = py_upper (py_strip ''BRAKE_FAILURE''), bc_diagnosis = fault_diagnosis (py_upper (py_strip ''BRAKE_FAILURE'')), bc_repair_minutes = 120,
    bc_manual_inspection_required = requires_manual ''GENERAL'' ''HIGH'' (py_upper (py_strip ''BRAKE_FAILURE'')), bc_occurred_at = 0,
    bc_replacement_edge_ids = []\<rparr>"
  have sel: "bc_task_id q = ''T7''" "bc_vehicle_id q = ''V1''" "bc_rescue_unit_id q = ''RU-001''" "bc_replacement_vehicle_id q = None"
    "bc_incident_node_id q = ''C''" "bc_station_node_id q = ''A''" by (simp_all add: q_def)
  have o: "orchestrate sample_config sample_operation_env sample_net 0 sample_breakdown_report sample_operations = create_breakdown_case sample_operation_env sample_operations q sample_operations"
    by (simp add: orchestrate_def rescue_route_def sample_config_def sample_breakdown_report_def sample_routes get_case_def sample_rows_found q_def Let_def)
  have s: "vr_status sample_truck = vehicle_status_value V_IN_TRANSIT" "V_BROKEN \<in> set (vehicle_transitions V_IN_TRANSIT)" by (simp_all add: sample_truck_def)
  obtain db1 where b: "break_vehicle q sample_truck sample_operations = Inr db1" "op_missions db1 = op_missions sample_operations"
    "op_orders db1 = op_orders sample_operations" "op_task_ids db1 = op_task_ids sample_operations" "op_node_ids db1 = op_node_ids sample_operations"
    by (rule break_vehicle_runs [OF s sel(4)])
  have "case_constraints_ok db1 q"
    using b sel by (simp add: case_constraints_ok_def sample_operations_def seed_vehicle_operation_resources_def unit_of_def Let_def)
  moreover have "mission_of_task sample_operations (bc_task_id q) = None" "vehicle_for_update sample_operations (bc_vehicle_id q) = Inr sample_truck"
    "available_unit sample_operations (bc_rescue_unit_id q) = Some (hd (op_units sample_operations))"
    using sample_rows_found sel by simp_all
  ultimately show ?thesis using created [OF no_cases_ok [OF sample_no_cases] _ _ _ sample_bay b(1)] o by metis
qed

section \<open>Results\<close>

text \<open>
  C33. When a rescue is orchestrated for a task without a case, the mission drives a fastest route from the rescue node to the incident and tows along a fastest route
  from there to the station, both open to a vehicle of 4.5 tons; manual inspection is required exactly when the policy says so. Orchestrating the task again,
  whatever the network and the time, changes nothing and answers with the same case, except that a route of the replacement that is empty is looked for again.
\<close>

theorem rescue_dispatched_once:
  assumes "wf_network net" and "mission_of_task db (bo_task_id i) = None" and "orchestrate cfg env net now i db = Inr (c, db')"
  shows "(\<exists>out tow. best_route net (9 / 2) {} (rc_rescue_node_id cfg) (bo_incident_node_id i) FASTEST out \<and>
      best_route net (9 / 2) {} (bo_incident_node_id i) (rc_maintenance_node_id cfg) FASTEST tow \<and>
      rx_outbound_edge_ids (cx_mission c) = pr_edge_ids out \<and> rx_tow_edge_ids (cx_mission c) = pr_edge_ids tow) \<and>
    mx_manual_inspection_required (cx_maintenance c) = requires_manual (bo_cargo_type i) (bo_severity i) (py_upper (py_strip (bo_fault_code i))) \<and>
    length (op_missions db') = length (op_missions db) + 1 \<and>
    (cx_replacement_vehicle_id c = None \<or> cx_replacement_edge_ids c \<noteq> [] \<longrightarrow> (\<forall>env' net' now'. orchestrate cfg env' net' now' i db' = Inr (c, db')))"
proof -
  have none: "get_case db (bo_task_id i) = Inr None" using assms(2) by (simp add: get_case_def)
  obtain out where out: "rescue_route net (rc_rescue_node_id cfg) (bo_incident_node_id i) = Inr (Some out)"
    using assms(3) none by (auto simp: orchestrate_def res_bind_eq_Inr split: option.splits)
  obtain tow where tow: "rescue_route net (bo_incident_node_id i) (rc_maintenance_node_id cfg) = Inr (Some tow)"
    using assms(3) none out by (auto simp: orchestrate_def res_bind_eq_Inr split: option.splits)
  obtain q where q: "create_breakdown_case env db q db = Inr (c, db')" "bc_task_id q = bo_task_id i" "bc_outbound_edge_ids q = pr_edge_ids out"
      "bc_tow_edge_ids q = pr_edge_ids tow"
      "bc_manual_inspection_required q = requires_manual (bo_cargo_type i) (bo_severity i) (py_upper (py_strip (bo_fault_code i)))"
    using assms(3) none out tow by (auto simp: orchestrate_def res_bind_eq_Inr Let_def)
  have new: "get_case db' (bo_task_id i) = Inr (Some c)" "cx_mission c = mission_snapshot (new_mission q)"
      "mx_manual_inspection_required (cx_maintenance c) = bc_manual_inspection_required q" "length (op_missions db') = length (op_missions db) + 1"
    using create_breakdown_case_new [OF q(1)] q(2) assms(2) by auto
  have "orchestrate cfg env' net' now' i db' = Inr (c, db')" if "cx_replacement_vehicle_id c = None \<or> cx_replacement_edge_ids c \<noteq> []" for env' net' now'
    using new(1) that by (auto simp: orchestrate_def split: option.split)
  moreover have "rx_outbound_edge_ids (cx_mission c) = pr_edge_ids out" "rx_tow_edge_ids (cx_mission c) = pr_edge_ids tow"
    using new(2) q(3,4) by (simp_all add: mission_snapshot_def new_mission_def)
  ultimately show ?thesis
    using rescue_route_Inr [OF assms(1) out] rescue_route_Inr [OF assms(1) tow] new(3,4) q(5) by auto
qed

theorem rescue_dispatched_once_witness:
  "\<exists>c db'. orchestrate sample_config sample_operation_env sample_net 0 sample_breakdown_report sample_operations = Inr (c, db') \<and> length (op_missions db') = 1 \<and>
     (\<exists>out. best_route sample_net (9 / 2) {} ''A'' ''C'' FASTEST out \<and> rx_outbound_edge_ids (cx_mission c) = pr_edge_ids out)"
proof -
  obtain c db' where o: "orchestrate sample_config sample_operation_env sample_net 0 sample_breakdown_report sample_operations = Inr (c, db')" using sample_orchestrated by blast
  moreover have "mission_of_task sample_operations (bo_task_id sample_breakdown_report) = None" "op_missions sample_operations = []"
    using sample_rows_found(1) sample_no_cases by (simp_all add: sample_breakdown_report_def no_cases_def)
  ultimately show ?thesis
    using rescue_dispatched_once [OF sample_net_wf _ o] by (auto simp: sample_config_def sample_breakdown_report_def)
qed

text \<open>The replacement, if there is one, is another vehicle that may be dispatched, as a reserved or an available one may.\<close>

definition replacement_ready :: "breakdown_case_request \<Rightarrow> operations_db \<Rightarrow> bool" where
  "replacement_ready q db \<longleftrightarrow>
     (case bc_replacement_vehicle_id q of
        None \<Rightarrow> True
      | Some i \<Rightarrow> i \<noteq> bc_vehicle_id q \<and>
          (\<exists>w s. vehicle_for_update db i = Inr w \<and> vr_status w = vehicle_status_value s \<and> V_DISPATCHING \<in> set (vehicle_transitions s)))"

lemma break_vehicle_missions: "break_vehicle q v db = Inr db1 \<Longrightarrow> op_missions db1 = op_missions db"
  by (auto simp: break_vehicle_def replace_vehicle_def store_defs res_bind_eq_Inr Let_def split: option.splits if_splits)

lemma vehicle_for_update_other:
  "i \<noteq> vr_vehicle_id v \<Longrightarrow> vehicle_for_update (add_history hs (store_vehicle v db)) i = vehicle_for_update db i"
proof -
  assume i: "i \<noteq> vr_vehicle_id v"
  have "first_match (\<lambda>w. vr_vehicle_id w = i) (put_row vr_vehicle_id v ws) = first_match (\<lambda>w. vr_vehicle_id w = i) ws" for ws
    using i by (induction ws) (auto simp: put_row_def)
  then show ?thesis by (simp add: vehicle_for_update_def store_defs)
qed

lemma replace_vehicle_ready:
  assumes "replacement_ready q db" "vr_vehicle_id v = bc_vehicle_id q"
  shows "(\<exists>db1. replace_vehicle q (add_history hs (store_vehicle v db)) = Inr db1) \<or> replace_vehicle q (add_history hs (store_vehicle v db)) = Inl OperationIntegrityError"
proof (cases "bc_replacement_vehicle_id q")
  case (Some i)
  then obtain w s where w: "i \<noteq> vr_vehicle_id v" "vehicle_for_update db i = Inr w" "vr_status w = vehicle_status_value s" "V_DISPATCHING \<in> set (vehicle_transitions s)"
    using assms by (auto simp: replacement_ready_def)
  show ?thesis unfolding replace_vehicle_def Some option.case vehicle_for_update_other [OF w(1)] w(2)
    by (auto simp: transition_vehicle_stage [OF w(3,4)] transition_vehicle_stage [of _ V_DISPATCHING])
qed (simp add: replace_vehicle_def)

lemma break_vehicle_ready:
  assumes "vr_status v = vehicle_status_value s" "V_BROKEN \<in> set (vehicle_transitions s)" "vr_vehicle_id v = bc_vehicle_id q" "replacement_ready q db"
  shows "(\<exists>db1. break_vehicle q v db = Inr db1) \<or> break_vehicle q v db = Inl OperationIntegrityError"
proof -
  obtain v1 hs where v1: "stop_vehicle q v = Inr (v1, hs)"
    by (simp add: stop_vehicle_def transition_vehicle_stage [OF assms(1,2)] transition_vehicle_stage [of _ V_BROKEN])
  have "vr_vehicle_id v1 = vr_vehicle_id v" using stop_vehicle_Inr [OF v1] by simp
  then have "vr_vehicle_id (if bc_replacement_vehicle_id q \<noteq> None then touch_vehicle v v1 else v1) = bc_vehicle_id q" using assms(3) by (simp add: touch_vehicle_def)
  from replace_vehicle_ready [OF assms(4) this, of hs] show ?thesis by (auto simp: break_vehicle_def v1 Let_def)
qed

text \<open>
  C34. The number of a mission is the day and the digits at the end of the task's id, with \<open>001\<close> for an id that ends in a letter. Ids that are drawn at random end in a
  letter in six of sixteen cases; once a case was opened for such a task, no case can be opened on the same day for another such task, with or without a replacement vehicle. If its vehicle may break down, a rescue unit
  and a bay are ready and the replacement, if there is one, may be dispatched, then it is the unique number that refuses it.
\<close>

theorem mission_number_collides:
  assumes "m \<in> set (op_missions db)" and "rm_mission_no m = mission_number earlier" and "day_text (bc_occurred_at q) = day_text (bc_occurred_at earlier)"
    and "trailing_digits (bc_task_id earlier) = []" and "trailing_digits (bc_task_id q) = []"
    and "mission_of_task r (bc_task_id q) = None"
  shows "(\<exists>e. create_breakdown_case env r q db = Inl e) \<and>
    (\<forall>v s u b. vehicle_for_update db (bc_vehicle_id q) = Inr v \<and> vr_status v = vehicle_status_value s \<and> V_BROKEN \<in> set (vehicle_transitions s) \<and>
       replacement_ready q db \<and> available_unit db (bc_rescue_unit_id q) = Some u \<and> free_bay env db = Some b \<longrightarrow>
       create_breakdown_case env r q db = Inl OperationIntegrityError)"
proof -
  have "mission_number q = mission_number earlier" using assms(3-5) by (simp add: mission_number_def suffix_def)
  then have c: "\<not> case_constraints_ok db1 q" if "break_vehicle q v db = Inr db1" for v db1
    using assms(1,2) break_vehicle_missions [OF that] by (auto simp: case_constraints_ok_def rev_image_eqI)
  have "create_breakdown_case env r q db \<noteq> Inr x" for x
    using assms(6) c by (auto simp: create_breakdown_case_def res_bind_eq_Inr split: option.splits if_splits)
  moreover have "create_breakdown_case env r q db = Inl OperationIntegrityError"
    if "vehicle_for_update db (bc_vehicle_id q) = Inr v" "vr_status v = vehicle_status_value s" "V_BROKEN \<in> set (vehicle_transitions s)"
      "replacement_ready q db" "available_unit db (bc_rescue_unit_id q) = Some u" "free_bay env db = Some b" for v s u b
  proof -
    have "vr_vehicle_id v = bc_vehicle_id q" using that(1) by (auto simp: vehicle_for_update_def dest: first_match_SomeD split: option.splits)
    from break_vehicle_ready [OF that(2,3) this that(4)] show ?thesis
      using c that(1,5,6) assms(6) by (auto simp: create_breakdown_case_def)
  qed
  ultimately show ?thesis by (metis sum.exhaust)
qed

definition crowded_operations :: operations_db where
  "crowded_operations = sample_operations\<lparr>op_missions := [(new_mission (sample_breakdown ''Ta''))\<lparr>rm_status := R_DELIVERED\<rparr>],
     op_vehicles := [sample_truck, sample_truck\<lparr>vr_vehicle_id := ''V2'', vr_status := ''RESERVED''\<rparr>]\<rparr>"

theorem mission_number_collides_witness:
  "create_breakdown_case sample_operation_env sample_operations ((sample_breakdown ''Tb'')\<lparr>bc_replacement_vehicle_id := Some ''V2''\<rparr>) crowded_operations =
     Inl OperationIntegrityError"
proof -
  let ?q = "(sample_breakdown ''Tb'')\<lparr>bc_replacement_vehicle_id := Some ''V2''\<rparr>" and ?m = "(new_mission (sample_breakdown ''Ta''))\<lparr>rm_status := R_DELIVERED\<rparr>"
  have d: "trailing_digits ''Ta'' = []" "trailing_digits ''Tb'' = []" by (simp_all add: trailing_digits_def is_digit_def)
  have m: "?m \<in> set (op_missions crowded_operations)" "rm_mission_no ?m = mission_number (sample_breakdown ''Ta'')"
    by (simp_all add: crowded_operations_def new_mission_def)
  have "mission_of_task sample_operations ''Tb'' = None" using sample_no_cases by (simp add: mission_of_task_def no_cases_def)
  moreover have "free_bay sample_operation_env crowded_operations = Some (hd (op_bays sample_operations))"
    "available_unit crowded_operations ''RU-001'' = Some (hd (op_units sample_operations))"
    using sample_rows_found sample_bay by (simp_all add: crowded_operations_def free_bay_def available_unit_def unit_of_def)
  moreover have "vehicle_for_update crowded_operations ''V1'' = Inr sample_truck" "vr_status sample_truck = vehicle_status_value V_IN_TRANSIT"
    by (simp_all add: crowded_operations_def vehicle_for_update_def sample_truck_def)
  moreover have "replacement_ready ?q crowded_operations"
    unfolding replacement_ready_def
    by (simp add: crowded_operations_def vehicle_for_update_def sample_truck_def sample_breakdown_def) (rule exI [of _ V_RESERVED], simp)
  moreover have "\<exists>s. ''IN_TRANSIT'' = vehicle_status_value s \<and> V_BROKEN \<in> set (vehicle_transitions s)" by (rule exI [of _ V_IN_TRANSIT]) simp
  ultimately show ?thesis
    using mission_number_collides [OF m, of ?q sample_operations sample_operation_env] d by (simp add: sample_breakdown_def)
qed

end
