(* ===== verification/Memory_Facts.thy ===== *)
theory Memory_Facts
  imports Json_Text Sha256 Py_Time
begin

text \<open>
  The facts of the shared memory, a command that changes one, the digests that identify it and the policy that decides on it: \<open>models.py\<close>, \<open>identity.py\<close> and
  \<open>policy.py\<close> of \<open>shared_memory/\<close>. A command is one that its constructor has accepted; the constructor's trimming of texts, its limits and its redaction of
  secrets are not modelled. Times are in UTC.
\<close>

section \<open>Data: shared\_memory/models.py\<close>

datatype memory_category = CHAT | LLM_WIKI | CODE_GRAPH | DISPATCH

datatype memory_fact_kind = ATTRIBUTE | RELATIONSHIP | EXPERIENCE | HYBRID

datatype memory_target = VECTOR | GRAPH

datatype memory_fact_status = FACT_ACTIVE | FACT_EXPIRED | FACT_PENDING_REVIEW | FACT_CONFLICT

datatype mutation_decision = CREATE | MERGE | REPLACE | REJECT | CONFLICT_REVIEW | NOOP

datatype mutation_status = PENDING | APPLYING | FINALIZING | APPLIED | PARTIAL | REJECTED | CONFLICT | FAILED

datatype projection_status = NOT_REQUIRED | PROJECTION_PENDING | STAGED | ACTIVE | RETIRED | PROJECTION_FAILED

fun category_value :: "memory_category \<Rightarrow> string" where
  "category_value CHAT = ''ChatMemory''"
| "category_value LLM_WIKI = ''LLMWiki''"
| "category_value CODE_GRAPH = ''CodeGraph''"
| "category_value DISPATCH = ''DispatchMemory''"

fun fact_kind_value :: "memory_fact_kind \<Rightarrow> string" where
  "fact_kind_value ATTRIBUTE = ''ATTRIBUTE''"
| "fact_kind_value RELATIONSHIP = ''RELATIONSHIP''"
| "fact_kind_value EXPERIENCE = ''EXPERIENCE''"
| "fact_kind_value HYBRID = ''HYBRID''"

fun target_value :: "memory_target \<Rightarrow> string" where
  "target_value VECTOR = ''VECTOR''"
| "target_value GRAPH = ''GRAPH''"

fun fact_status_value :: "memory_fact_status \<Rightarrow> string" where
  "fact_status_value FACT_ACTIVE = ''ACTIVE''"
| "fact_status_value FACT_EXPIRED = ''EXPIRED''"
| "fact_status_value FACT_PENDING_REVIEW = ''PENDING_REVIEW''"
| "fact_status_value FACT_CONFLICT = ''CONFLICT''"

fun decision_value :: "mutation_decision \<Rightarrow> string" where
  "decision_value CREATE = ''CREATE''"
| "decision_value MERGE = ''MERGE''"
| "decision_value REPLACE = ''REPLACE''"
| "decision_value REJECT = ''REJECT''"
| "decision_value CONFLICT_REVIEW = ''CONFLICT_REVIEW''"
| "decision_value NOOP = ''NOOP''"

fun mutation_status_value :: "mutation_status \<Rightarrow> string" where
  "mutation_status_value PENDING = ''PENDING''"
| "mutation_status_value APPLYING = ''APPLYING''"
| "mutation_status_value FINALIZING = ''FINALIZING''"
| "mutation_status_value APPLIED = ''APPLIED''"
| "mutation_status_value PARTIAL = ''PARTIAL''"
| "mutation_status_value REJECTED = ''REJECTED''"
| "mutation_status_value CONFLICT = ''CONFLICT''"
| "mutation_status_value FAILED = ''FAILED''"

fun projection_status_value :: "projection_status \<Rightarrow> string" where
  "projection_status_value NOT_REQUIRED = ''NOT_REQUIRED''"
| "projection_status_value PROJECTION_PENDING = ''PENDING''"
| "projection_status_value STAGED = ''STAGED''"
| "projection_status_value ACTIVE = ''ACTIVE''"
| "projection_status_value RETIRED = ''RETIRED''"
| "projection_status_value PROJECTION_FAILED = ''FAILED''"

text \<open>
  The confidence is a decimal between 0 and 1: its digits and the number of them after the point, which its text shows. The column of the tables keeps four places,
  as MySQL rounds.
\<close>

type_synonym scaled = "nat \<times> nat"

definition scaled_value :: "scaled \<Rightarrow> rat" where
  "scaled_value x = of_nat (fst x) / 10 ^ snd x"

definition scaled_text :: "scaled \<Rightarrow> string" where
  "scaled_text x =
     (let (d, k) = x in if k = 0 then show_nat d else show_nat (d div 10 ^ k) @ ''.'' @ zero_pad k (show_nat (d mod 10 ^ k)))"

definition column_confidence :: "scaled \<Rightarrow> rat" where
  "column_confidence x = quantize_half_up 4 (scaled_value x)"

record memory_command =
  mc_idempotency_key :: string
  mc_category :: memory_category
  mc_fact_kind :: memory_fact_kind
  mc_subject_type :: string
  mc_subject_id :: string
  mc_predicate :: string
  mc_value_json :: pydict
  mc_confidence :: scaled
  mc_incoming_at :: int
  mc_source_type :: string
  mc_source_id :: string
  mc_operator_id :: string
  mc_human_confirmed :: bool
  mc_reason :: string
  mc_targets :: "memory_target list"
  mc_object_type :: "string option"
  mc_object_id :: "string option"
  mc_expected_version :: "int option"
  mc_expires_at :: "int option"
  mc_evidence_text :: "string option"
  mc_evidence_ref :: "string option"
  mc_evidence_observed_at :: "int option"
  mc_vector_memory_id :: "string option"
  mc_graph_fact_key :: "string option"

definition opt_iso :: "int option \<Rightarrow> pyval" where
  "opt_iso t = opt_str (map_option isoformat t)"

text \<open>The targets are a set: \<open>sorted\<close> gives each of its values once.\<close>

definition sorted_targets :: "memory_command \<Rightarrow> string list" where
  "sorted_targets cmd = map target_value (filter (\<lambda>t. t \<in> set (mc_targets cmd)) [GRAPH, VECTOR])"

definition fact_identity :: "memory_command \<Rightarrow> pydict" where
  "fact_identity cmd =
     [(''category'', PStr (category_value (mc_category cmd))), (''fact_kind'', PStr (fact_kind_value (mc_fact_kind cmd))),
      (''subject_type'', PStr (mc_subject_type cmd)), (''subject_id'', PStr (mc_subject_id cmd)),
      (''predicate'', PStr (mc_predicate cmd))] @
     (if mc_fact_kind cmd \<in> {RELATIONSHIP, HYBRID, EXPERIENCE}
      then [(''object_type'', opt_str (mc_object_type cmd)), (''object_id'', opt_str (mc_object_id cmd))] else [])"

definition command_to_dict :: "memory_command \<Rightarrow> pydict" where
  "command_to_dict cmd =
     [(''idempotency_key'', PStr (mc_idempotency_key cmd)), (''category'', PStr (category_value (mc_category cmd))),
      (''fact_kind'', PStr (fact_kind_value (mc_fact_kind cmd))), (''subject_type'', PStr (mc_subject_type cmd)),
      (''subject_id'', PStr (mc_subject_id cmd)), (''predicate'', PStr (mc_predicate cmd)),
      (''object_type'', opt_str (mc_object_type cmd)), (''object_id'', opt_str (mc_object_id cmd)),
      (''value_json'', PDict (mc_value_json cmd)), (''expected_version'', opt_int (mc_expected_version cmd)),
      (''confidence'', PStr (scaled_text (mc_confidence cmd))), (''incoming_at'', PStr (isoformat (mc_incoming_at cmd))),
      (''expires_at'', opt_iso (mc_expires_at cmd)), (''source_type'', PStr (mc_source_type cmd)),
      (''source_id'', PStr (mc_source_id cmd)), (''operator_id'', PStr (mc_operator_id cmd)),
      (''human_confirmed'', PBool (mc_human_confirmed cmd)), (''reason'', PStr (mc_reason cmd)),
      (''evidence_text'', opt_str (mc_evidence_text cmd)), (''evidence_ref'', opt_str (mc_evidence_ref cmd)),
      (''evidence_observed_at'', opt_iso (mc_evidence_observed_at cmd)),
      (''vector_memory_id'', opt_str (mc_vector_memory_id cmd)), (''graph_fact_key'', opt_str (mc_graph_fact_key cmd)),
      (''targets'', str_list (sorted_targets cmd))]"

section \<open>Identity: shared\_memory/identity.py\<close>

definition canonical_digest :: "pydict \<Rightarrow> string" where
  "canonical_digest d = sha256_hex (json_compact (PDict d))"

definition build_fact_key :: "memory_command \<Rightarrow> string" where
  "build_fact_key cmd = ''smf_'' @ canonical_digest (fact_identity cmd)"

definition content_fingerprint :: "memory_command \<Rightarrow> string" where
  "content_fingerprint cmd =
     canonical_digest
       [(''subject_type'', PStr (mc_subject_type cmd)), (''subject_id'', PStr (mc_subject_id cmd)),
        (''predicate'', PStr (mc_predicate cmd)), (''object_type'', opt_str (mc_object_type cmd)),
        (''object_id'', opt_str (mc_object_id cmd)), (''value_json'', PDict (mc_value_json cmd))]"

definition memory_payload_fingerprint :: "memory_command \<Rightarrow> string" where
  "memory_payload_fingerprint cmd = canonical_digest (filter (\<lambda>(k, v). k \<noteq> ''idempotency_key'') (command_to_dict cmd))"

definition evidence_fingerprint :: "memory_command \<Rightarrow> string" where
  "evidence_fingerprint cmd =
     canonical_digest
       [(''source_type'', PStr (mc_source_type cmd)), (''source_id'', PStr (mc_source_id cmd)),
        (''evidence_text'', opt_str (mc_evidence_text cmd)), (''evidence_ref'', opt_str (mc_evidence_ref cmd)),
        (''observed_at'', opt_iso (mc_evidence_observed_at cmd)), (''confidence'', PStr (scaled_text (mc_confidence cmd)))]"

record memory_fingerprints =
  mf_fact_key :: string
  mf_content_fingerprint :: string
  mf_payload_fingerprint :: string
  mf_evidence_fingerprint :: string

definition fingerprints :: "memory_command \<Rightarrow> memory_fingerprints" where
  "fingerprints cmd =
     \<lparr>mf_fact_key = build_fact_key cmd, mf_content_fingerprint = content_fingerprint cmd,
      mf_payload_fingerprint = memory_payload_fingerprint cmd, mf_evidence_fingerprint = evidence_fingerprint cmd\<rparr>"

section \<open>Policy: shared\_memory/policy.py\<close>

text \<open>\<open>VersionConflict\<close> carries the fact key, the expected and the actual version.\<close>

datatype memory_error =
    VersionConflict string "int option" "int option"
  | MemoryIdempotencyConflict
  | ProjectionIncomplete
  | UnknownMutation
  | UnknownFact
  | HistoryLimitInvalid
  | MemoryIntegrityError
  | MemoryStaleData
  | MutationBusy
  | TargetsInvalid
  | IdentityInvalid
  | DecisionIncomplete
  | NoSuchDecision
  | NoTerminalEvent
  | NoAfterVersion
  | ProjectionInvalid
  | ProviderRaised string
  | MutationTimedOut
  | MemoryLockFailed

record memory_policy =
  po_auto_apply_min_confidence :: rat
  po_lower_confidence_reject_delta :: rat

record memory_snapshot =
  sn_fact_key :: string
  sn_version :: int
  sn_content_fingerprint :: string
  sn_confidence :: rat
  sn_status :: memory_fact_status
  sn_updated_at :: int
  sn_expires_at :: "int option"
  sn_evidence_fingerprints :: "string list"

definition is_expired :: "memory_snapshot \<Rightarrow> int \<Rightarrow> bool" where
  "is_expired known now \<longleftrightarrow> sn_status known = FACT_EXPIRED \<or> (case sn_expires_at known of None \<Rightarrow> False | Some t \<Rightarrow> t \<le> now)"

record memory_decision =
  md_decision :: mutation_decision
  md_reason_code :: string
  md_before_version :: "int option"
  md_after_version :: "int option"
  md_proposed_status :: memory_fact_status
  md_requires_projection :: bool

definition decision_of :: "mutation_decision \<Rightarrow> string \<Rightarrow> memory_snapshot option \<Rightarrow> memory_fact_status \<Rightarrow> bool \<Rightarrow> bool \<Rightarrow> memory_decision" where
  "decision_of d reason_code current status increments requires_projection =
     \<lparr>md_decision = d, md_reason_code = reason_code, md_before_version = map_option sn_version current,
      md_after_version =
        (case current of None \<Rightarrow> if increments then Some 1 else None
         | Some known \<Rightarrow> Some (if increments then sn_version known + 1 else sn_version known)),
      md_proposed_status = status, md_requires_projection = requires_projection\<rparr>"

definition decide_live :: "memory_snapshot \<Rightarrow> memory_command \<Rightarrow> memory_policy \<Rightarrow> memory_decision" where
  "decide_live known cmd policy =
     (if content_fingerprint cmd = sn_content_fingerprint known
      then if evidence_fingerprint cmd \<in> set (sn_evidence_fingerprints known) \<and> scaled_value (mc_confidence cmd) = sn_confidence known \<and>
              mc_expires_at cmd = sn_expires_at known
           then decision_of NOOP ''DUPLICATE_FACT_AND_EVIDENCE'' (Some known) (sn_status known) False False
           else decision_of MERGE ''NEW_EVIDENCE_OR_METADATA'' (Some known) FACT_ACTIVE True True
      else if mc_human_confirmed cmd then decision_of REPLACE ''HUMAN_CONFIRMED'' (Some known) FACT_ACTIVE True True
      else if mc_incoming_at cmd < sn_updated_at known
      then decision_of REJECT ''STALE_EVIDENCE'' (Some known) (sn_status known) False False
      else if po_lower_confidence_reject_delta policy \<le> dec_sub (sn_confidence known) (scaled_value (mc_confidence cmd))
      then decision_of REJECT ''LOWER_CONFIDENCE'' (Some known) (sn_status known) False False
      else decision_of CONFLICT_REVIEW ''CONTENT_CONFLICT_REVIEW'' (Some known) FACT_CONFLICT False False)"

definition evaluate_mutation :: "memory_snapshot option \<Rightarrow> memory_command \<Rightarrow> memory_policy \<Rightarrow> int \<Rightarrow> memory_error + memory_decision" where
  "evaluate_mutation current cmd policy now =
     (let actual_version = map_option sn_version current
      in if mc_expected_version cmd \<noteq> actual_version
         then Inl (VersionConflict (case current of None \<Rightarrow> build_fact_key cmd | Some known \<Rightarrow> sn_fact_key known)
                     (mc_expected_version cmd) actual_version)
         else if scaled_value (mc_confidence cmd) < po_auto_apply_min_confidence policy \<and> \<not> mc_human_confirmed cmd
         then Inr (decision_of CONFLICT_REVIEW ''LOW_CONFIDENCE_REVIEW'' current
                     (if current = None then FACT_PENDING_REVIEW else FACT_CONFLICT) False False)
         else case current of
                None \<Rightarrow> Inr (decision_of CREATE ''NEW_FACT'' None FACT_ACTIVE True True)
              | Some known \<Rightarrow>
                  Inr (if is_expired known now then decision_of REPLACE ''EXPIRED_FACT'' current FACT_ACTIVE True True
                       else decide_live known cmd policy))"

section \<open>What the policy promises\<close>

named_theorems memory_simps \<open>projections of the decisions of the policy\<close>

lemma decision_of_sel [memory_simps]:
  "md_decision (decision_of d c s st i p) = d" "md_before_version (decision_of d c s st i p) = map_option sn_version s"
  "md_proposed_status (decision_of d c s st i p) = st" "md_requires_projection (decision_of d c s st i p) = p"
  "md_after_version (decision_of d c None st i p) = (if i then Some 1 else None)"
  "md_after_version (decision_of d c (Some known) st i p) = Some (if i then sn_version known + 1 else sn_version known)"
  by (simp_all add: decision_of_def)

lemma decision_value_inject [simp]: "decision_value a = decision_value b \<longleftrightarrow> a = b"
  by (cases a; cases b) simp_all

text \<open>
  A decision is about the version the command expects. It calls for projections exactly when it changes the fact; then the fact becomes active with
  the next version. Without a human the content of a live fact is never replaced.
\<close>

lemma evaluate_mutation_sound:
  assumes "evaluate_mutation current cmd policy now = Inr d"
  shows "md_before_version d = mc_expected_version cmd" "md_before_version d = map_option sn_version current"
    and "md_requires_projection d \<longleftrightarrow> md_decision d \<in> {CREATE, MERGE, REPLACE}"
    and "md_requires_projection d \<Longrightarrow> md_proposed_status d = FACT_ACTIVE \<and>
           md_after_version d = Some (case current of None \<Rightarrow> 1 | Some known \<Rightarrow> sn_version known + 1)"
    and "\<not> md_requires_projection d \<Longrightarrow> md_after_version d = map_option sn_version current"
  using assms by (auto simp: evaluate_mutation_def decide_live_def Let_def memory_simps split: if_splits option.splits)

lemma live_content_protected:
  assumes "evaluate_mutation (Some known) cmd policy now = Inr d" "md_requires_projection d" "\<not> is_expired known now"
    "\<not> mc_human_confirmed cmd"
  shows "content_fingerprint cmd = sn_content_fingerprint known \<and> po_auto_apply_min_confidence policy \<le> scaled_value (mc_confidence cmd)"
  using assms by (auto simp: evaluate_mutation_def decide_live_def Let_def memory_simps split: if_splits)

end
