(* ===== verification/Memory_Repository.thy ===== *)
theory Memory_Repository
  imports Memory_Facts Stale_Reads
begin

text \<open>
  The tables of the shared memory (\<open>models/shared_memory.py\<close>) and their repository (\<open>shared_memory/sqlalchemy_repository.py\<close>). A method opens a session
  that reads the tables \<open>r\<close> and commits to the tables \<open>w\<close>, to which other sessions may have written in between; a failed session leaves \<open>w\<close> as it is. The row of a
  fact carries a version, which the mapper compares and counts up on every write; the other rows are written without a check. Drawn ids and the time
  are arguments. The column \<open>proposed_fact_json\<close> holds the command instead of its dictionary.
\<close>

section \<open>Tables: models/shared\_memory.py\<close>

record memory_mutation =
  mm_mutation_id :: string
  mm_idempotency_key :: string
  mm_payload_fingerprint :: string
  mm_fact_key :: string
  mm_command :: memory_command
  mm_decision :: "mutation_decision option"
  mm_reason_code :: "string option"
  mm_before_version :: "int option"
  mm_after_version :: "int option"
  mm_status :: mutation_status
  mm_vector_status :: projection_status
  mm_graph_status :: projection_status
  mm_error_code :: "string option"
  mm_error_summary :: "string option"
  mm_completed_at :: "int option"
  mm_created_at :: int

record memory_fact =
  fa_fact_id :: string
  fa_fact_key :: string
  fa_category :: memory_category
  fa_fact_kind :: memory_fact_kind
  fa_subject_type :: string
  fa_subject_id :: string
  fa_predicate :: string
  fa_object_type :: "string option"
  fa_object_id :: "string option"
  fa_value_json :: pydict
  fa_content_fingerprint :: string
  fa_version :: int
  fa_confidence :: rat
  fa_status :: memory_fact_status
  fa_expires_at :: "int option"
  fa_vector_memory_id :: "string option"
  fa_graph_fact_key :: "string option"
  fa_last_mutation_id :: string
  fa_created_at :: int
  fa_updated_at :: int

record memory_evidence =
  ev_evidence_id :: string
  ev_mutation_id :: string
  ev_fact_id :: "string option"
  ev_evidence_fingerprint :: string
  ev_source_type :: string
  ev_source_id :: string
  ev_evidence_text :: "string option"
  ev_evidence_ref :: "string option"
  ev_observed_at :: int
  ev_confidence :: rat
  ev_safe_summary :: string
  ev_created_at :: int

record memory_attempt =
  ma_attempt_id :: string
  ma_mutation_id :: string
  ma_attempt_no :: int
  ma_started_at :: int
  ma_completed_at :: int
  ma_vector_before :: projection_status
  ma_vector_after :: projection_status
  ma_graph_before :: projection_status
  ma_graph_after :: projection_status
  ma_result :: mutation_status
  ma_error_code :: "string option"
  ma_error_summary :: "string option"

record memory_db =
  db_mutations :: "memory_mutation list"
  db_facts :: "memory_fact list"
  db_evidence :: "memory_evidence list"
  db_attempts :: "memory_attempt list"

type_synonym 'a mem_result = "(memory_error + 'a) \<times> memory_db"

section \<open>Mutations\<close>

definition find_mutation :: "memory_db \<Rightarrow> string \<Rightarrow> memory_mutation option" where
  "find_mutation db mutation_id = first_match (\<lambda>m. mm_mutation_id m = mutation_id) (db_mutations db)"

definition mutation_by_key :: "memory_db \<Rightarrow> string \<Rightarrow> memory_mutation option" where
  "mutation_by_key db key = first_match (\<lambda>m. mm_idempotency_key m = key) (db_mutations db)"

definition put_mutation :: "memory_db \<Rightarrow> string \<Rightarrow> (memory_mutation \<Rightarrow> memory_mutation) \<Rightarrow> memory_db" where
  "put_mutation db mutation_id f =
     db\<lparr>db_mutations := map (\<lambda>m. if mm_mutation_id m = mutation_id then f m else m) (db_mutations db)\<rparr>"

text \<open>The answer is the id of the mutation and whether it was known before.\<close>

definition replay_mutation :: "memory_mutation \<Rightarrow> memory_fingerprints \<Rightarrow> memory_error + string \<times> bool" where
  "replay_mutation existing fp =
     (if mm_payload_fingerprint existing \<noteq> mf_payload_fingerprint fp then Inl MemoryIdempotencyConflict
      else Inr (mm_mutation_id existing, True))"

definition new_mutation :: "memory_command \<Rightarrow> memory_fingerprints \<Rightarrow> string \<Rightarrow> int \<Rightarrow> memory_mutation" where
  "new_mutation cmd fp mutation_id now =
     \<lparr>mm_mutation_id = mutation_id, mm_idempotency_key = mc_idempotency_key cmd,
      mm_payload_fingerprint = mf_payload_fingerprint fp, mm_fact_key = mf_fact_key fp, mm_command = cmd,
      mm_decision = None, mm_reason_code = None, mm_before_version = None, mm_after_version = None, mm_status = PENDING,
      mm_vector_status = (if VECTOR \<in> set (mc_targets cmd) then PROJECTION_PENDING else NOT_REQUIRED),
      mm_graph_status = (if GRAPH \<in> set (mc_targets cmd) then PROJECTION_PENDING else NOT_REQUIRED),
      mm_error_code = None, mm_error_summary = None, mm_completed_at = None, mm_created_at = now\<rparr>"

definition memory_begin_or_replay :: "memory_db \<Rightarrow> memory_db \<Rightarrow> memory_command \<Rightarrow> memory_fingerprints \<Rightarrow> string \<Rightarrow> int \<Rightarrow> (string \<times> bool) mem_result" where
  "memory_begin_or_replay r w cmd fp mutation_id now =
     (case mutation_by_key r (mc_idempotency_key cmd) of
        Some existing \<Rightarrow> (replay_mutation existing fp, w)
      | None \<Rightarrow>
          if find_mutation w mutation_id = None \<and> mutation_by_key w (mc_idempotency_key cmd) = None
          then (Inr (mutation_id, False), w\<lparr>db_mutations := db_mutations w @ [new_mutation cmd fp mutation_id now]\<rparr>)
          else (case mutation_by_key w (mc_idempotency_key cmd) of
                  None \<Rightarrow> (Inl MemoryIntegrityError, w)
                | Some existing \<Rightarrow> (replay_mutation existing fp, w)))"

text \<open>\<open>_set_mutation_fields\<close>: any row may be changed, whatever its status.\<close>

definition set_mutation_fields :: "memory_db \<Rightarrow> memory_db \<Rightarrow> string \<Rightarrow> (memory_mutation \<Rightarrow> memory_mutation) \<Rightarrow> memory_mutation mem_result" where
  "set_mutation_fields r w mutation_id f =
     (case find_mutation r mutation_id of
        None \<Rightarrow> (Inl UnknownMutation, w)
      | Some m \<Rightarrow> (Inr (f m), put_mutation w mutation_id f))"

definition decided :: "memory_decision \<Rightarrow> int \<Rightarrow> memory_mutation \<Rightarrow> memory_mutation" where
  "decided d now m =
     (let m1 = m\<lparr>mm_decision := Some (md_decision d), mm_reason_code := Some (md_reason_code d),
                 mm_before_version := md_before_version d, mm_after_version := md_after_version d\<rparr>;
          m2 = (case md_decision d of
                  NOOP \<Rightarrow> m1\<lparr>mm_status := APPLIED, mm_completed_at := Some now\<rparr>
                | REJECT \<Rightarrow> m1\<lparr>mm_status := REJECTED, mm_completed_at := Some now\<rparr>
                | CONFLICT_REVIEW \<Rightarrow> m1\<lparr>mm_status := CONFLICT, mm_completed_at := Some now\<rparr>
                | _ \<Rightarrow> m1)
      in if md_requires_projection d then m2 else m2\<lparr>mm_vector_status := NOT_REQUIRED, mm_graph_status := NOT_REQUIRED\<rparr>)"

definition record_decision :: "memory_db \<Rightarrow> memory_db \<Rightarrow> string \<Rightarrow> memory_decision \<Rightarrow> int \<Rightarrow> memory_mutation mem_result" where
  "record_decision r w mutation_id d now = set_mutation_fields r w mutation_id (decided d now)"

definition memory_mark_applying :: "memory_db \<Rightarrow> memory_db \<Rightarrow> string \<Rightarrow> memory_mutation mem_result" where
  "memory_mark_applying r w mutation_id = set_mutation_fields r w mutation_id (\<lambda>m. m\<lparr>mm_status := APPLYING\<rparr>)"

definition with_projection :: "memory_target \<Rightarrow> projection_status \<Rightarrow> memory_mutation \<Rightarrow> memory_mutation" where
  "with_projection target status m = (case target of VECTOR \<Rightarrow> m\<lparr>mm_vector_status := status\<rparr> | GRAPH \<Rightarrow> m\<lparr>mm_graph_status := status\<rparr>)"

definition update_projection_status :: "memory_db \<Rightarrow> memory_db \<Rightarrow> string \<Rightarrow> memory_target \<Rightarrow> projection_status \<Rightarrow> memory_mutation mem_result" where
  "update_projection_status r w mutation_id target status = set_mutation_fields r w mutation_id (with_projection target status)"

text \<open>\<open>s[:n]\<close> on text that is kept in UTF-8.\<close>

fun take_chars :: "nat \<Rightarrow> string \<Rightarrow> string" where
  "take_chars n [] = []"
| "take_chars n (c # s) = (if cont c then c # take_chars n s else case n of 0 \<Rightarrow> [] | Suc k \<Rightarrow> c # take_chars k s)"

definition memory_mark_partial :: "memory_db \<Rightarrow> memory_db \<Rightarrow> string \<Rightarrow> string \<Rightarrow> string \<Rightarrow> memory_mutation mem_result" where
  "memory_mark_partial r w mutation_id error_code error_summary =
     set_mutation_fields r w mutation_id
       (\<lambda>m. m\<lparr>mm_status := PARTIAL, mm_error_code := Some (take_chars 64 error_code),
              mm_error_summary := Some (take_chars 512 error_summary)\<rparr>)"

section \<open>Evidence and attempts\<close>

definition new_memory_evidence :: "string \<Rightarrow> memory_command \<Rightarrow> memory_fingerprints \<Rightarrow> string \<Rightarrow> int \<Rightarrow> memory_evidence" where
  "new_memory_evidence mutation_id cmd fp evidence_id now =
     \<lparr>ev_evidence_id = evidence_id, ev_mutation_id = mutation_id, ev_fact_id = None,
      ev_evidence_fingerprint = mf_evidence_fingerprint fp, ev_source_type = mc_source_type cmd, ev_source_id = mc_source_id cmd,
      ev_evidence_text = mc_evidence_text cmd, ev_evidence_ref = mc_evidence_ref cmd,
      ev_observed_at = (case mc_evidence_observed_at cmd of None \<Rightarrow> mc_incoming_at cmd | Some t \<Rightarrow> t),
      ev_confidence = column_confidence (mc_confidence cmd),
      ev_safe_summary = take_chars 512 (case py_or (mc_evidence_text cmd) (mc_evidence_ref cmd) of None \<Rightarrow> [] | Some s \<Rightarrow> s),
      ev_created_at = now\<rparr>"

definition evidence_of_mutation :: "memory_db \<Rightarrow> string \<Rightarrow> string \<Rightarrow> bool" where
  "evidence_of_mutation db mutation_id fingerprint \<longleftrightarrow>
     list_ex (\<lambda>e. ev_mutation_id e = mutation_id \<and> ev_evidence_fingerprint e = fingerprint) (db_evidence db)"

text \<open>The unique ids and the reference to the mutation are checked by the commit, whose error is answered with \<open>False\<close>.\<close>

definition append_evidence :: "memory_db \<Rightarrow> memory_db \<Rightarrow> string \<Rightarrow> memory_command \<Rightarrow> memory_fingerprints \<Rightarrow> string \<Rightarrow> int \<Rightarrow> bool mem_result" where
  "append_evidence r w mutation_id cmd fp evidence_id now =
     (if evidence_of_mutation r mutation_id (mf_evidence_fingerprint fp) then (Inr False, w)
      else if evidence_of_mutation w mutation_id (mf_evidence_fingerprint fp) \<or> find_mutation w mutation_id = None \<or>
              list_ex (\<lambda>e. ev_evidence_id e = evidence_id) (db_evidence w)
      then (Inr False, w)
      else (Inr True, w\<lparr>db_evidence := db_evidence w @ [new_memory_evidence mutation_id cmd fp evidence_id now]\<rparr>))"

definition latest_memory_attempt :: "memory_db \<Rightarrow> string \<Rightarrow> int" where
  "latest_memory_attempt db mutation_id =
     foldl max 0 (map ma_attempt_no (filter (\<lambda>a. ma_mutation_id a = mutation_id) (db_attempts db)))"

definition memory_append_attempt :: "memory_db \<Rightarrow> memory_db \<Rightarrow> string \<Rightarrow> mutation_status \<Rightarrow> projection_status \<times> projection_status \<Rightarrow>
    projection_status \<times> projection_status \<Rightarrow> string option \<Rightarrow> string option \<Rightarrow> string \<Rightarrow> int \<Rightarrow> int mem_result" where
  "memory_append_attempt r w mutation_id result vector graph error_code error_summary attempt_id now =
     (let attempt_no = latest_memory_attempt r mutation_id + 1
      in if list_ex (\<lambda>a. ma_attempt_id a = attempt_id \<or> ma_mutation_id a = mutation_id \<and> ma_attempt_no a = attempt_no) (db_attempts w) \<or>
            find_mutation w mutation_id = None
         then (Inl MemoryIntegrityError, w)
         else (Inr attempt_no, w\<lparr>db_attempts := db_attempts w @
                [\<lparr>ma_attempt_id = attempt_id, ma_mutation_id = mutation_id, ma_attempt_no = attempt_no, ma_started_at = now,
                  ma_completed_at = now, ma_vector_before = fst vector, ma_vector_after = snd vector,
                  ma_graph_before = fst graph, ma_graph_after = snd graph, ma_result = result, ma_error_code = error_code,
                  ma_error_summary = map_option (take_chars 512) error_summary\<rparr>]\<rparr>))"

section \<open>Facts\<close>

definition fact_by_key :: "memory_db \<Rightarrow> string \<Rightarrow> memory_fact option" where
  "fact_by_key db fact_key = first_match (\<lambda>f. fa_fact_key f = fact_key) (db_facts db)"

text \<open>
  The confidence is rounded to its column. Times are kept to the microsecond, as SQLite does; a MySQL column without fractions would drop them.
\<close>

definition new_fact :: "string \<Rightarrow> memory_command \<Rightarrow> memory_fingerprints \<Rightarrow> int \<Rightarrow> memory_fact_status \<Rightarrow> string \<Rightarrow> int \<Rightarrow> memory_fact" where
  "new_fact mutation_id cmd fp version status fact_id now =
     \<lparr>fa_fact_id = fact_id, fa_fact_key = mf_fact_key fp, fa_category = mc_category cmd, fa_fact_kind = mc_fact_kind cmd,
      fa_subject_type = mc_subject_type cmd, fa_subject_id = mc_subject_id cmd, fa_predicate = mc_predicate cmd,
      fa_object_type = mc_object_type cmd, fa_object_id = mc_object_id cmd, fa_value_json = mc_value_json cmd,
      fa_content_fingerprint = mf_content_fingerprint fp, fa_version = version,
      fa_confidence = column_confidence (mc_confidence cmd), fa_status = status, fa_expires_at = mc_expires_at cmd,
      fa_vector_memory_id = mc_vector_memory_id cmd, fa_graph_fact_key = mc_graph_fact_key cmd,
      fa_last_mutation_id = mutation_id, fa_created_at = now, fa_updated_at = now\<rparr>"

text \<open>The mapper counts the version up; the key, the id and the time of creation stay.\<close>

definition changed_fact :: "memory_fact \<Rightarrow> string \<Rightarrow> memory_command \<Rightarrow> memory_fingerprints \<Rightarrow> memory_fact_status \<Rightarrow> int \<Rightarrow> memory_fact" where
  "changed_fact f mutation_id cmd fp status now =
     (new_fact mutation_id cmd fp (fa_version f + 1) status (fa_fact_id f) now)\<lparr>fa_fact_key := fa_fact_key f, fa_created_at := fa_created_at f\<rparr>"

definition insert_fact :: "memory_db \<Rightarrow> memory_fact \<Rightarrow> memory_db option" where
  "insert_fact w f =
     (if list_ex (\<lambda>g. fa_fact_id g = fa_fact_id f \<or> fa_fact_key g = fa_fact_key f) (db_facts w) then None
      else Some (w\<lparr>db_facts := db_facts w @ [f]\<rparr>))"

text \<open>The update names the row and the version that was read; if no row answers, the mapper raises \<open>StaleDataError\<close>.\<close>

definition update_fact :: "memory_db \<Rightarrow> memory_fact \<Rightarrow> memory_fact \<Rightarrow> memory_db option" where
  "update_fact w f g =
     (if list_ex (\<lambda>x. fa_fact_id x = fa_fact_id f \<and> fa_version x = fa_version f) (db_facts w)
      then Some (w\<lparr>db_facts := map (\<lambda>x. if fa_fact_id x = fa_fact_id f \<and> fa_version x = fa_version f then g else x) (db_facts w)\<rparr>)
      else None)"

definition link_evidence :: "memory_db \<Rightarrow> string \<Rightarrow> string \<Rightarrow> memory_db" where
  "link_evidence w mutation_id fact_id =
     w\<lparr>db_evidence := map (\<lambda>e. if ev_mutation_id e = mutation_id \<and> ev_fact_id e = None then e\<lparr>ev_fact_id := Some fact_id\<rparr> else e) (db_evidence w)\<rparr>"

definition finalized :: "memory_mutation \<Rightarrow> memory_mutation" where
  "finalized m = m\<lparr>mm_status := FINALIZING, mm_error_code := None, mm_error_summary := None\<rparr>"

text \<open>
  The flush, which stands before the \<open>try\<close> of the commit, is what raises: neither a stale row nor a duplicate key becomes a \<open>MemoryVersionConflict\<close>.
\<close>

definition finalize_canonical :: "memory_db \<Rightarrow> memory_db \<Rightarrow> string \<Rightarrow> memory_command \<Rightarrow> memory_fingerprints \<Rightarrow> memory_decision \<Rightarrow> string \<Rightarrow> int \<Rightarrow> memory_fact mem_result" where
  "finalize_canonical r w mutation_id cmd fp d fact_id now =
     (case find_mutation r mutation_id of
        None \<Rightarrow> (Inl UnknownMutation, w)
      | Some _ \<Rightarrow>
          (case fact_by_key r (mf_fact_key fp) of
             Some f \<Rightarrow>
               if fa_last_mutation_id f = mutation_id \<and> md_after_version d = Some (fa_version f)
               then (Inr f, put_mutation w mutation_id (\<lambda>m. m\<lparr>mm_status := FINALIZING\<rparr>))
               else if md_before_version d \<noteq> Some (fa_version f)
               then (Inl (VersionConflict (mf_fact_key fp) (md_before_version d) (Some (fa_version f))), w)
               else let g = changed_fact f mutation_id cmd fp (md_proposed_status d) now
                    in (case update_fact w f g of
                          None \<Rightarrow> (Inl MemoryStaleData, w)
                        | Some w' \<Rightarrow> (Inr g, link_evidence (put_mutation w' mutation_id finalized) mutation_id (fa_fact_id f)))
           | None \<Rightarrow>
               if md_before_version d \<noteq> None then (Inl (VersionConflict (mf_fact_key fp) (md_before_version d) None), w)
               else let g = new_fact mutation_id cmd fp
                              (case md_after_version d of None \<Rightarrow> 1 | Some v \<Rightarrow> if v = 0 then 1 else v) (md_proposed_status d) fact_id now
                    in (case insert_fact w g of
                          None \<Rightarrow> (Inl MemoryIntegrityError, w)
                        | Some w' \<Rightarrow> (Inr g, link_evidence (put_mutation w' mutation_id finalized) mutation_id fact_id))))"

definition create_pending_review :: "memory_db \<Rightarrow> memory_db \<Rightarrow> string \<Rightarrow> memory_command \<Rightarrow> memory_fingerprints \<Rightarrow> string \<Rightarrow> int \<Rightarrow> memory_fact mem_result" where
  "create_pending_review r w mutation_id cmd fp fact_id now =
     (case fact_by_key r (mf_fact_key fp) of
        Some existing \<Rightarrow> (Inr existing, w)
      | None \<Rightarrow>
          let g = new_fact mutation_id cmd fp 1 FACT_PENDING_REVIEW fact_id now
          in (case insert_fact w g of
                None \<Rightarrow> (Inl MemoryIntegrityError, w)
              | Some w' \<Rightarrow> (Inr g, link_evidence w' mutation_id fact_id)))"

definition memory_mark_applied :: "memory_db \<Rightarrow> memory_db \<Rightarrow> string \<Rightarrow> int \<Rightarrow> memory_mutation mem_result" where
  "memory_mark_applied r w mutation_id now =
     (case find_mutation r mutation_id of
        None \<Rightarrow> (Inl UnknownMutation, w)
      | Some m \<Rightarrow>
          if mm_vector_status m \<notin> {NOT_REQUIRED, ACTIVE} \<or> mm_graph_status m \<notin> {NOT_REQUIRED, ACTIVE} then (Inl ProjectionIncomplete, w)
          else (case fact_by_key r (mm_fact_key m) of
                  None \<Rightarrow> (Inl ProjectionIncomplete, w)
                | Some f \<Rightarrow>
                    if mm_after_version m \<noteq> Some (fa_version f) then (Inl ProjectionIncomplete, w)
                    else let done = (\<lambda>m. m\<lparr>mm_status := APPLIED, mm_completed_at := Some now, mm_error_code := None, mm_error_summary := None\<rparr>)
                         in (Inr (done m), put_mutation w mutation_id done)))"

section \<open>Reads\<close>

definition get_mutation :: "memory_db \<Rightarrow> string \<Rightarrow> memory_error + memory_mutation" where
  "get_mutation db mutation_id = (case find_mutation db mutation_id of None \<Rightarrow> Inl UnknownMutation | Some m \<Rightarrow> Inr m)"

definition snapshot_of :: "memory_db \<Rightarrow> memory_fact \<Rightarrow> memory_snapshot" where
  "snapshot_of db f =
     \<lparr>sn_fact_key = fa_fact_key f, sn_version = fa_version f, sn_content_fingerprint = fa_content_fingerprint f,
      sn_confidence = fa_confidence f, sn_status = fa_status f, sn_updated_at = fa_updated_at f, sn_expires_at = fa_expires_at f,
      sn_evidence_fingerprints = map ev_evidence_fingerprint (filter (\<lambda>e. ev_fact_id e = Some (fa_fact_id f)) (db_evidence db))\<rparr>"

definition get_active_fact :: "memory_db \<Rightarrow> string \<Rightarrow> int \<Rightarrow> memory_snapshot option" where
  "get_active_fact db fact_key now =
     map_option (snapshot_of db)
       (first_match (\<lambda>f. fa_fact_key f = fact_key \<and> fa_status f = FACT_ACTIVE \<and> (case fa_expires_at f of None \<Rightarrow> True | Some t \<Rightarrow> now < t))
          (db_facts db))"

definition load_fact :: "memory_db \<Rightarrow> string \<Rightarrow> memory_snapshot option" where
  "load_fact db fact_key = map_option (snapshot_of db) (fact_by_key db fact_key)"

definition mutation_view :: "memory_mutation \<Rightarrow> pydict" where
  "mutation_view m =
     [(''mutation_id'', PStr (mm_mutation_id m)), (''decision'', opt_str (map_option decision_value (mm_decision m))),
      (''status'', PStr (mutation_status_value (mm_status m))), (''before_version'', opt_int (mm_before_version m)),
      (''after_version'', opt_int (mm_after_version m)), (''vector_status'', PStr (projection_status_value (mm_vector_status m))),
      (''graph_status'', PStr (projection_status_value (mm_graph_status m))), (''source_type'', PStr (mc_source_type (mm_command m))),
      (''source_id'', PStr (mc_source_id (mm_command m))), (''operator_id'', PStr (mc_operator_id (mm_command m))),
      (''incoming_confidence'', PStr (format_f 4 (column_confidence (mc_confidence (mm_command m))))),
      (''reason_code'', opt_str (mm_reason_code m)), (''error_code'', opt_str (mm_error_code m)),
      (''error_summary'', opt_str (mm_error_summary m)), (''created_at'', PStr (isoformat (mm_created_at m))),
      (''completed_at'', opt_iso (mm_completed_at m))]"

definition evidence_view :: "memory_evidence \<Rightarrow> pydict" where
  "evidence_view e =
     [(''evidence_id'', PStr (ev_evidence_id e)), (''source_type'', PStr (ev_source_type e)), (''source_id'', PStr (ev_source_id e)),
      (''summary'', PStr (ev_safe_summary e)), (''observed_at'', PStr (isoformat (ev_observed_at e))),
      (''confidence'', PStr (format_f 4 (ev_confidence e)))]"

definition fact_view :: "memory_fact \<Rightarrow> pydict" where
  "fact_view f =
     [(''fact_key'', PStr (fa_fact_key f)), (''category'', PStr (category_value (fa_category f))),
      (''fact_kind'', PStr (fact_kind_value (fa_fact_kind f))), (''subject_type'', PStr (fa_subject_type f)),
      (''subject_id'', PStr (fa_subject_id f)), (''predicate'', PStr (fa_predicate f)), (''object_type'', opt_str (fa_object_type f)),
      (''object_id'', opt_str (fa_object_id f)), (''version'', PInt (fa_version f)), (''confidence'', PStr (format_f 4 (fa_confidence f))),
      (''status'', PStr (fact_status_value (fa_status f))), (''expires_at'', opt_iso (fa_expires_at f)),
      (''vector_memory_id'', opt_str (fa_vector_memory_id f)), (''graph_fact_key'', opt_str (fa_graph_fact_key f)),
      (''last_mutation_id'', PStr (fa_last_mutation_id f)), (''updated_at'', PStr (isoformat (fa_updated_at f))),
      (''value_json'', PDict (fa_value_json f))]"

definition get_fact_detail :: "memory_db \<Rightarrow> string \<Rightarrow> nat \<Rightarrow> memory_error + pydict" where
  "get_fact_detail db fact_key history_limit =
     (if history_limit < 1 \<or> 100 < history_limit then Inl HistoryLimitInvalid
      else case fact_by_key db fact_key of
             None \<Rightarrow> Inl UnknownFact
           | Some f \<Rightarrow>
               let mutations = take history_limit (sort_key (\<lambda>m. - mm_created_at m) (filter (\<lambda>m. mm_fact_key m = fact_key) (db_mutations db)));
                   evidence = take history_limit (sort_key (\<lambda>e. - ev_created_at e) (filter (\<lambda>e. ev_fact_id e = Some (fa_fact_id f)) (db_evidence db)))
               in Inr (fact_view f @
                    [(''projection_incomplete'', PBool (list_ex (\<lambda>m. mm_status m \<in> {PARTIAL, FINALIZING}) mutations)),
                     (''mutations'', PList (map (\<lambda>m. PDict (mutation_view m)) mutations)),
                     (''evidence'', PList (map (\<lambda>e. PDict (evidence_view e)) evidence))]))"

end
