(* ===== verification/Memory_History.thy ===== *)
theory Memory_History
  imports Memory_Repository
begin

text \<open>
  The repository of the shared memory under any interleaving of sessions. Every method that writes is an operation of the locale \<open>stale_reads\<close>: it
  reads at one moment and writes at another. The rows of facts are guarded by their version, so that no change of a fact is lost.
\<close>

section \<open>Sessions\<close>

datatype memory_op =
    BeginMutation memory_command memory_fingerprints string int
  | AppendEvidence string memory_command memory_fingerprints string int
  | AppendAttempt string mutation_status "projection_status \<times> projection_status" "projection_status \<times> projection_status" "string option" "string option" string int
  | RecordDecision string memory_decision int
  | MarkApplying string
  | UpdateProjection string memory_target projection_status
  | MarkPartial string string string
  | FinalizeFact string memory_command memory_fingerprints memory_decision string int
  | CreateReview string memory_command memory_fingerprints string int
  | MarkApplied string int

fun exec_memory :: "memory_op \<Rightarrow> memory_db \<Rightarrow> memory_db \<Rightarrow> memory_db" where
  "exec_memory (BeginMutation cmd fp i now) r w = snd (memory_begin_or_replay r w cmd fp i now)"
| "exec_memory (AppendEvidence m cmd fp i now) r w = snd (append_evidence r w m cmd fp i now)"
| "exec_memory (AppendAttempt m res v g c s i now) r w = snd (memory_append_attempt r w m res v g c s i now)"
| "exec_memory (RecordDecision m d now) r w = snd (record_decision r w m d now)"
| "exec_memory (MarkApplying m) r w = snd (memory_mark_applying r w m)"
| "exec_memory (UpdateProjection m t s) r w = snd (update_projection_status r w m t s)"
| "exec_memory (MarkPartial m c s) r w = snd (memory_mark_partial r w m c s)"
| "exec_memory (FinalizeFact m cmd fp d i now) r w = snd (finalize_canonical r w m cmd fp d i now)"
| "exec_memory (CreateReview m cmd fp i now) r w = snd (create_pending_review r w m cmd fp i now)"
| "exec_memory (MarkApplied m now) r w = snd (memory_mark_applied r w m now)"

definition memory_ok :: "memory_db \<Rightarrow> bool" where
  "memory_ok db \<longleftrightarrow>
     distinct (map mm_mutation_id (db_mutations db)) \<and> distinct (map mm_idempotency_key (db_mutations db)) \<and>
     distinct (map fa_fact_id (db_facts db)) \<and> distinct (map fa_fact_key (db_facts db)) \<and>
     distinct (map (\<lambda>e. (ev_mutation_id e, ev_evidence_fingerprint e)) (db_evidence db)) \<and>
     distinct (map (\<lambda>a. (ma_mutation_id a, ma_attempt_no a)) (db_attempts db))"

text \<open>What a mutation was asked for never changes.\<close>

definition same_request :: "memory_mutation \<Rightarrow> memory_mutation \<Rightarrow> bool" where
  "same_request m n \<longleftrightarrow>
     mm_mutation_id n = mm_mutation_id m \<and> mm_idempotency_key n = mm_idempotency_key m \<and> mm_fact_key n = mm_fact_key m \<and>
     mm_payload_fingerprint n = mm_payload_fingerprint m \<and> mm_command n = mm_command m \<and> mm_created_at n = mm_created_at m"

text \<open>A fact stays as it is, or it has a later version.\<close>

definition fact_le :: "memory_fact \<Rightarrow> memory_fact \<Rightarrow> bool" where
  "fact_le f g \<longleftrightarrow> fa_fact_id g = fa_fact_id f \<and> fa_fact_key g = fa_fact_key f \<and> (g = f \<or> fa_version f < fa_version g)"

definition evidence_le :: "memory_evidence \<Rightarrow> memory_evidence \<Rightarrow> bool" where
  "evidence_le e e' \<longleftrightarrow> e' = e \<or> ev_fact_id e = None \<and> (\<exists>x. e' = e\<lparr>ev_fact_id := x\<rparr>)"

definition memory_later :: "memory_db \<Rightarrow> memory_db \<Rightarrow> bool" where
  "memory_later db db' \<longleftrightarrow>
     (\<forall>m\<in>set (db_mutations db). \<exists>n\<in>set (db_mutations db'). same_request m n) \<and>
     (\<forall>f\<in>set (db_facts db). \<exists>g\<in>set (db_facts db'). fact_le f g) \<and>
     (\<forall>e\<in>set (db_evidence db). \<exists>e'\<in>set (db_evidence db'). evidence_le e e') \<and>
     set (db_attempts db) \<subseteq> set (db_attempts db')"

lemma same_request_refl: "same_request m m"
  by (simp add: same_request_def)

lemma fact_le_refl: "fact_le f f"
  by (simp add: fact_le_def)

lemma evidence_le_refl: "evidence_le e e"
  by (simp add: evidence_le_def)

lemma kept_rows [intro]:
  "m \<in> A \<Longrightarrow> \<exists>n\<in>A. same_request m n" "f \<in> B \<Longrightarrow> \<exists>g\<in>B. fact_le f g" "e \<in> C \<Longrightarrow> \<exists>e'\<in>C. evidence_le e e'"
  using same_request_refl fact_le_refl evidence_le_refl by blast+

lemma rows_trans:
  "same_request a b \<Longrightarrow> same_request b c \<Longrightarrow> same_request a c"
  "fact_le f g \<Longrightarrow> fact_le g h \<Longrightarrow> fact_le f h"
  "evidence_le e e1 \<Longrightarrow> evidence_le e1 e2 \<Longrightarrow> evidence_le e e2"
  by (auto simp: same_request_def fact_le_def evidence_le_def)

lemma memory_later_refl: "memory_later db db"
  unfolding memory_later_def using same_request_refl fact_le_refl evidence_le_refl by blast

lemma memory_later_trans: "memory_later a b \<Longrightarrow> memory_later b c \<Longrightarrow> memory_later a c"
  unfolding memory_later_def using rows_trans by (meson subset_trans)

section \<open>What every session keeps\<close>

definition keeps :: "memory_db \<Rightarrow> memory_db \<Rightarrow> bool" where
  "keeps w w' \<longleftrightarrow> (memory_ok w \<longrightarrow> memory_ok w') \<and> memory_later w w'"

lemma keeps_refl [simp]: "keeps w w"
  by (simp add: keeps_def memory_later_refl)

lemma keeps_trans: "keeps a b \<Longrightarrow> keeps b c \<Longrightarrow> keeps a c"
  unfolding keeps_def using memory_later_trans by blast

lemma keeps_mutations:
  assumes "\<forall>m. same_request m (f m)" shows "keeps w (put_mutation w i f)"
proof -
  let ?g = "\<lambda>m. if mm_mutation_id m = i then f m else m"
  have g: "same_request m (?g m)" for m using assms same_request_refl by simp
  have "map mm_mutation_id (map ?g ms) = map mm_mutation_id ms" "map mm_idempotency_key (map ?g ms) = map mm_idempotency_key ms" for ms
    using g by (simp_all add: same_request_def)
  moreover have "\<exists>n\<in>set (map ?g ms). same_request m n" if "m \<in> set ms" for m ms using that g [of m] by (intro bexI [of _ "?g m"]) simp_all
  ultimately show ?thesis
    unfolding keeps_def memory_ok_def memory_later_def put_mutation_def by (simp del: map_map set_map) blast
qed

lemma set_mutation_fields_keeps:
  assumes "\<forall>m. same_request m (f m)" shows "keeps w (snd (set_mutation_fields r w i f))"
  using keeps_mutations [OF assms] by (simp add: set_mutation_fields_def split: option.split)

lemma decided_same: "same_request m (decided d now m)"
  by (simp add: same_request_def decided_def Let_def split: mutation_decision.split)

lemma field_writes_same:
  "same_request m (m\<lparr>mm_status := st\<rparr>)" "same_request m (with_projection t s m)" "same_request m (finalized m)"
  "same_request m (m\<lparr>mm_status := st, mm_error_code := c, mm_error_summary := su\<rparr>)"
  "same_request m (m\<lparr>mm_status := st, mm_completed_at := t', mm_error_code := c, mm_error_summary := su\<rparr>)"
  by (simp_all add: same_request_def with_projection_def finalized_def split: memory_target.split)

lemma link_evidence_keeps: "keeps w (link_evidence w i j)"
proof -
  let ?g = "\<lambda>e. if ev_mutation_id e = i \<and> ev_fact_id e = None then e\<lparr>ev_fact_id := Some j\<rparr> else e"
  have g: "evidence_le e (?g e)" for e using evidence_le_refl by (auto simp: evidence_le_def)
  have k: "(ev_mutation_id (?g e), ev_evidence_fingerprint (?g e)) = (ev_mutation_id e, ev_evidence_fingerprint e)" for e by simp
  have keys: "map (\<lambda>e. (ev_mutation_id e, ev_evidence_fingerprint e)) (map ?g es) = map (\<lambda>e. (ev_mutation_id e, ev_evidence_fingerprint e)) es" for es
    unfolding map_map comp_def k ..
  have "\<exists>e'\<in>set (map ?g es). evidence_le e e'" if "e \<in> set es" for e es using that g [of e] by (intro bexI [of _ "?g e"]) simp_all
  then show ?thesis
    unfolding keeps_def memory_ok_def memory_later_def link_evidence_def by (simp add: keys del: map_map set_map) blast
qed

lemma insert_fact_keeps:
  assumes "insert_fact w f = Some w'" shows "keeps w w'"
proof -
  have new: "\<forall>g\<in>set (db_facts w). fa_fact_id g \<noteq> fa_fact_id f" "\<forall>g\<in>set (db_facts w). fa_fact_key g \<noteq> fa_fact_key f" and w': "w' = w\<lparr>db_facts := db_facts w @ [f]\<rparr>"
    using assms by (auto simp: insert_fact_def list_ex_iff split: if_splits)
  then show ?thesis unfolding keeps_def memory_ok_def memory_later_def by (auto simp: image_iff dest: sym)
qed

text \<open>The row that answers the update is the row that was read, unchanged.\<close>

lemma read_row:
  assumes "memory_ok w" "memory_later r w" "f \<in> set (db_facts r)" "x \<in> set (db_facts w)" "fa_fact_id x = fa_fact_id f" "fa_version x = fa_version f"
  shows "x = f"
proof -
  obtain g where g: "g \<in> set (db_facts w)" "fact_le f g" using assms(2,3) unfolding memory_later_def by blast
  then have "g = x" using assms(1,4,5) unfolding memory_ok_def fact_le_def by (metis distinct_mapD)
  then show ?thesis using g(2) assms(6) by (auto simp: fact_le_def)
qed

lemma update_fact_keeps:
  assumes "update_fact w f g = Some w'" "fa_fact_id g = fa_fact_id f" "fa_fact_key g = fa_fact_key f" "fa_version f < fa_version g"
    "memory_ok w" "memory_later r w" "f \<in> set (db_facts r)"
  shows "keeps w w' \<and> f \<in> set (db_facts w) \<and> db_facts w' = map (\<lambda>x. if x = f then g else x) (db_facts w)"
proof -
  have eq: "fa_fact_id x = fa_fact_id f \<and> fa_version x = fa_version f \<longleftrightarrow> x = f" if "x \<in> set (db_facts w)" for x
    using read_row [OF assms(5-7) that] by blast
  have f: "f \<in> set (db_facts w)" and w': "w' = w\<lparr>db_facts := map (\<lambda>x. if x = f then g else x) (db_facts w)\<rparr>"
    using assms(1) eq by (auto simp: update_fact_def list_ex_iff split: if_splits)
  have le: "fact_le x (if x = f then g else x)" for x using assms(2-4) by (auto simp: fact_le_def)
  have "map fa_fact_id (map (\<lambda>x. if x = f then g else x) fs) = map fa_fact_id fs" "map fa_fact_key (map (\<lambda>x. if x = f then g else x) fs) = map fa_fact_key fs" for fs
    using assms(2,3) by simp_all
  then have "memory_ok w'" using assms(5) unfolding w' memory_ok_def by (simp del: map_map)
  moreover have "\<exists>y\<in>set (map (\<lambda>x. if x = f then g else x) fs). fact_le x y" if "x \<in> set fs" for x fs
    using that le [of x] by (intro bexI [of _ "if x = f then g else x"]) simp_all
  then have "memory_later w w'" unfolding w' memory_later_def by (simp del: set_map) blast
  ultimately show ?thesis using f unfolding keeps_def by (simp add: w')
qed

lemma changed_fact_sel [simp]:
  "fa_fact_id (changed_fact f m cmd fp s now) = fa_fact_id f" "fa_fact_key (changed_fact f m cmd fp s now) = fa_fact_key f"
  "fa_version (changed_fact f m cmd fp s now) = fa_version f + 1" "fa_last_mutation_id (changed_fact f m cmd fp s now) = m"
  "fa_content_fingerprint (changed_fact f m cmd fp s now) = mf_content_fingerprint fp" "fa_status (changed_fact f m cmd fp s now) = s"
  by (simp_all add: changed_fact_def new_fact_def)

lemma new_fact_sel [simp]:
  "fa_fact_id (new_fact m cmd fp v s i now) = i" "fa_fact_key (new_fact m cmd fp v s i now) = mf_fact_key fp"
  "fa_version (new_fact m cmd fp v s i now) = v" "fa_last_mutation_id (new_fact m cmd fp v s i now) = m"
  "fa_content_fingerprint (new_fact m cmd fp v s i now) = mf_content_fingerprint fp" "fa_status (new_fact m cmd fp v s i now) = s"
  by (simp_all add: new_fact_def)

lemma facts_simps [simp]:
  "db_facts (put_mutation w i f) = db_facts w" "db_facts (link_evidence w i j) = db_facts w"
  "db_mutations (link_evidence w i j) = db_mutations w"
  by (simp_all add: put_mutation_def link_evidence_def)

lemma fact_by_keyD: "fact_by_key db k = Some f \<Longrightarrow> f \<in> set (db_facts db) \<and> fa_fact_key f = k"
  unfolding fact_by_key_def by (auto dest: first_match_SomeD)

lemma fact_by_key_iff: "memory_ok db \<Longrightarrow> fact_by_key db k = Some f \<longleftrightarrow> f \<in> set (db_facts db) \<and> fa_fact_key f = k"
  unfolding fact_by_key_def memory_ok_def using first_match_distinct [of fa_fact_key "db_facts db"] by (auto dest: first_match_SomeD)

text \<open>
  A finalisation that returns either found the fact finalised by the same mutation, or it wrote over exactly the row that it read, which had the
  version the decision was about, and the row has the next version.
\<close>

definition finalises :: "memory_db \<Rightarrow> memory_db \<Rightarrow> string \<Rightarrow> memory_fingerprints \<Rightarrow> memory_decision \<Rightarrow> memory_fact \<Rightarrow> memory_db \<Rightarrow> bool" where
  "finalises r w m fp d g w' \<longleftrightarrow>
     g \<in> set (db_facts r) \<and> fa_last_mutation_id g = m \<and> md_after_version d = Some (fa_version g) \<and> db_facts w' = db_facts w \<or>
     fact_by_key w (mf_fact_key fp) = fact_by_key r (mf_fact_key fp) \<and>
     map_option fa_version (fact_by_key w (mf_fact_key fp)) = md_before_version d \<and> fact_by_key w' (mf_fact_key fp) = Some g \<and>
     fa_last_mutation_id g = m \<and> fa_content_fingerprint g = mf_content_fingerprint fp \<and>
     (case md_before_version d of None \<Rightarrow> True | Some v \<Rightarrow> fa_version g = v + 1)"

lemma finalize_canonical_keeps:
  assumes "finalize_canonical r w m cmd fp d i now = (res, w')" "memory_ok w" "memory_later r w" "memory_ok r"
  shows "keeps w w' \<and> (case res of Inl _ \<Rightarrow> w' = w | Inr g \<Rightarrow> finalises r w m fp d g w')"
proof (cases "find_mutation r m")
  case None
  then show ?thesis using assms(1) by (auto simp: finalize_canonical_def)
next
  case (Some mut)
  note km = keeps_mutations [OF allI, where w = w and i = m, OF field_writes_same(1)]
  show ?thesis
  proof (cases "fact_by_key r (mf_fact_key fp)")
    case None
    let ?g = "new_fact m cmd fp (case md_after_version d of None \<Rightarrow> 1 | Some v \<Rightarrow> if v = 0 then 1 else v) (md_proposed_status d) i now"
    show ?thesis
    proof (cases "md_before_version d \<noteq> None \<or> insert_fact w ?g = None")
      case True
      then have "w' = w \<and> (\<exists>e. res = Inl e)" using assms(1) Some None by (auto simp: finalize_canonical_def Let_def split: if_splits)
      then show ?thesis by auto
    next
      case False
      then obtain w1 where w1: "insert_fact w ?g = Some w1" "md_before_version d = None" by blast
      then have w': "res = Inr ?g" "w' = link_evidence (put_mutation w1 m finalized) m i"
        using assms(1) Some None by (simp_all add: finalize_canonical_def Let_def)
      have facts: "db_facts w' = db_facts w @ [?g]" "\<forall>x\<in>set (db_facts w). fa_fact_key x \<noteq> mf_fact_key fp"
        using w1(1) unfolding w'(2) by (auto simp: insert_fact_def list_ex_iff split: if_splits)
      have absent: "fact_by_key w (mf_fact_key fp) = None" using facts(2) by (auto simp: fact_by_key_def first_match_None)
      have "keeps w w'" unfolding w'(2)
        using insert_fact_keeps [OF w1(1)] keeps_mutations [OF allI, of finalized w1 m] link_evidence_keeps field_writes_same(3) keeps_trans by blast
      moreover have "fact_by_key w' (mf_fact_key fp) = Some ?g" using absent unfolding fact_by_key_def facts(1) by (simp add: first_match_append)
      ultimately show ?thesis using w1(2) absent None by (simp add: w'(1) finalises_def)
    qed
  next
    case f: (Some f)
    note fr = fact_by_keyD [OF f]
    let ?g = "changed_fact f m cmd fp (md_proposed_status d) now"
    consider (same) "fa_last_mutation_id f = m \<and> md_after_version d = Some (fa_version f)"
      | (fails) "\<not> (fa_last_mutation_id f = m \<and> md_after_version d = Some (fa_version f))" "md_before_version d \<noteq> Some (fa_version f) \<or> update_fact w f ?g = None"
      | (writes) w1 where "\<not> (fa_last_mutation_id f = m \<and> md_after_version d = Some (fa_version f))" "md_before_version d = Some (fa_version f)" "update_fact w f ?g = Some w1"
      by blast
    then show ?thesis
    proof cases
      case same
      then show ?thesis using assms(1) Some f km fr by (auto simp: finalize_canonical_def finalises_def)
    next
      case fails
      then have "w' = w \<and> (\<exists>e. res = Inl e)" using assms(1) Some f by (auto simp: finalize_canonical_def Let_def split: if_splits option.splits)
      then show ?thesis by auto
    next
      case writes
      then have w': "res = Inr ?g" "w' = link_evidence (put_mutation w1 m finalized) m (fa_fact_id f)"
        using assms(1) Some f by (auto simp: finalize_canonical_def Let_def)
      have u: "keeps w w1 \<and> f \<in> set (db_facts w) \<and> db_facts w1 = map (\<lambda>x. if x = f then ?g else x) (db_facts w)"
        using update_fact_keeps [OF writes(3) _ _ _ assms(2,3)] fr by simp
      have k: "keeps w w'" unfolding w'(2)
        using u keeps_mutations [OF allI, of finalized w1 m] link_evidence_keeps field_writes_same(3) keeps_trans by blast
      then have "memory_ok w'" using assms(2) by (simp add: keeps_def)
      then have "fact_by_key w' (mf_fact_key fp) = Some ?g" using u fr by (force simp: fact_by_key_iff w'(2))
      moreover have "fact_by_key w (mf_fact_key fp) = Some f" using u fr assms(2) by (simp add: fact_by_key_iff)
      ultimately show ?thesis using k writes(2) f by (simp add: w'(1) finalises_def)
    qed
  qed
qed

lemma begin_keeps: "keeps w (snd (memory_begin_or_replay r w cmd fp i now))"
  unfolding memory_begin_or_replay_def keeps_def memory_ok_def memory_later_def find_mutation_def mutation_by_key_def
  by (auto simp: first_match_None new_mutation_def split: option.split)

lemma append_keeps:
  "keeps w (snd (append_evidence r w m cmd fp i now))" "keeps w (snd (memory_append_attempt r w m res v g c s i now))"
  unfolding append_evidence_def memory_append_attempt_def keeps_def memory_ok_def memory_later_def evidence_of_mutation_def Let_def
  by (auto simp: list_ex_iff new_memory_evidence_def)

lemma review_keeps: "keeps w (snd (create_pending_review r w m cmd fp i now))"
proof -
  have "keeps w (link_evidence w1 m i)" if "insert_fact w g = Some w1" for g w1
    using insert_fact_keeps [OF that] link_evidence_keeps keeps_trans by blast
  then show ?thesis by (auto simp: create_pending_review_def Let_def split: option.split)
qed

lemma applied_keeps: "keeps w (snd (memory_mark_applied r w m now))"
  using keeps_mutations [OF allI, OF field_writes_same(5), of w m] by (auto simp: memory_mark_applied_def Let_def split: option.split)

lemma exec_memory_keeps:
  assumes "memory_ok r" "memory_ok w" "memory_later r w" shows "keeps w (exec_memory op r w)"
proof (cases op)
  case (FinalizeFact m cmd fp d i now)
  show ?thesis unfolding FinalizeFact exec_memory.simps using finalize_canonical_keeps [OF prod.collapse [symmetric] assms(2,3,1)] by blast
next
  case (RecordDecision m d now)
  then show ?thesis by (simp add: record_decision_def set_mutation_fields_keeps decided_same)
next
  case (MarkApplying m)
  then show ?thesis by (simp add: memory_mark_applying_def set_mutation_fields_keeps field_writes_same)
next
  case (UpdateProjection m t s)
  then show ?thesis by (simp add: update_projection_status_def set_mutation_fields_keeps field_writes_same)
next
  case (MarkPartial m c s)
  then show ?thesis by (simp add: memory_mark_partial_def set_mutation_fields_keeps field_writes_same)
qed (simp_all add: begin_keeps append_keeps review_keeps applied_keeps)

interpretation memory_sessions: stale_reads "\<lambda>_. True" exec_memory memory_later memory_ok
proof
  show "memory_later a c" if "memory_later a b" "memory_later b c" for a b c using that by (rule memory_later_trans)
qed (use memory_later_refl exec_memory_keeps in \<open>auto simp: keeps_def\<close>)

section \<open>A sample\<close>

definition sample_command :: "string \<Rightarrow> memory_command" where
  "sample_command key =
     \<lparr>mc_idempotency_key = key, mc_category = DISPATCH, mc_fact_kind = EXPERIENCE, mc_subject_type = ''Driver'', mc_subject_id = ''D1'',
      mc_predicate = ''HAS_RISK_ON'', mc_value_json = [(''resolution'', PStr ''detour'')], mc_confidence = (9, 1), mc_incoming_at = 0,
      mc_source_type = ''audit'', mc_source_id = ''A1'', mc_operator_id = ''O1'', mc_human_confirmed = False, mc_reason = ''observed'',
      mc_targets = [VECTOR], mc_object_type = None, mc_object_id = None, mc_expected_version = Some 1, mc_expires_at = None,
      mc_evidence_text = Some ''seen'', mc_evidence_ref = None, mc_evidence_observed_at = None, mc_vector_memory_id = None,
      mc_graph_fact_key = None\<rparr>"

definition sample_fingerprints :: memory_fingerprints where
  "sample_fingerprints =
     \<lparr>mf_fact_key = ''smf_1'', mf_content_fingerprint = ''c1'', mf_payload_fingerprint = ''p1'', mf_evidence_fingerprint = ''e1''\<rparr>"

definition sample_decision :: memory_decision where
  "sample_decision =
     \<lparr>md_decision = REPLACE, md_reason_code = ''HUMAN_CONFIRMED'', md_before_version = Some 1, md_after_version = Some 2,
      md_proposed_status = FACT_ACTIVE, md_requires_projection = True\<rparr>"

definition sample_memory :: memory_db where
  "sample_memory =
     \<lparr>db_mutations = [new_mutation (sample_command ''K1'') sample_fingerprints ''M1'' 0, new_mutation (sample_command ''K2'') sample_fingerprints ''M2'' 0],
      db_facts = [new_fact ''M0'' (sample_command ''K0'') sample_fingerprints 1 FACT_ACTIVE ''F1'' 0], db_evidence = [], db_attempts = []\<rparr>"

abbreviation sample_final :: "string \<Rightarrow> memory_op" where
  "sample_final m \<equiv> FinalizeFact m (sample_command ''K2'') sample_fingerprints sample_decision ''F2'' 5"

section \<open>Properties\<close>

text \<open>
  C37. However the sessions of the shared memory interleave, each reading at one moment and writing at a later one, mutations, keys and facts stay unique, no mutation, evidence or attempt is lost and no
  request changes; a fact keeps its identity, and its row stays as it is or has a later version. A session that finalises a fact changes nothing when it fails;
  when it returns, it found the fact finalised by its own mutation, or it wrote over the very row that it had read, at the version its decision was about, and made the next version of it.
\<close>

theorem memory_facts_versioned:
  assumes "memory_ok db0" and "(stale_step (\<lambda>_. True) exec_memory)\<^sup>*\<^sup>* (db0, []) (db1, ps1)"
    and "(stale_step (\<lambda>_. True) exec_memory)\<^sup>*\<^sup>* (db1, ps1) (db2, ps2)"
  shows "memory_ok db2 \<and> memory_later db1 db2 \<and>
    (\<forall>m cmd fp d i now r res db3. (FinalizeFact m cmd fp d i now, r) \<in> set ps2 \<and> finalize_canonical r db2 m cmd fp d i now = (res, db3) \<longrightarrow>
       (case res of Inl _ \<Rightarrow> db3 = db2 | Inr g \<Rightarrow> finalises r db2 m fp d g db3))"
proof -
  have between: "memory_ok db2 \<and> memory_later db1 db2" using memory_sessions.later_between [OF assms(2,3,1)] by simp
  have "(stale_step (\<lambda>_. True) exec_memory)\<^sup>*\<^sup>* (db0, []) (db2, ps2)" using assms(2,3) by simp
  from memory_sessions.reachable_invariant [OF this assms(1)]
  have "memory_ok r \<and> memory_later r db2" if "(op, r) \<in> set ps2" for op r using that by auto
  then show ?thesis using between finalize_canonical_keeps by blast
qed

theorem memory_facts_versioned_witness:
  "map fa_version (db_facts (exec_memory (sample_final ''M1'') sample_memory sample_memory)) = [2] \<and>
   snd (finalize_canonical sample_memory (exec_memory (sample_final ''M1'') sample_memory sample_memory) ''M2'' (sample_command ''K2'')
     sample_fingerprints sample_decision ''F2'' 5) = exec_memory (sample_final ''M1'') sample_memory sample_memory"
proof -
  let ?a = "sample_final ''M1''" and ?b = "sample_final ''M2''" and ?db = "exec_memory (sample_final ''M1'') sample_memory sample_memory"
  have ok: "memory_ok sample_memory" by (simp add: memory_ok_def sample_memory_def new_mutation_def sample_command_def)
  have "stale_step (\<lambda>_. True) exec_memory (sample_memory, []) (sample_memory, [(?a, sample_memory)])"
    "stale_step (\<lambda>_. True) exec_memory (sample_memory, [(?a, sample_memory)]) (sample_memory, [(?b, sample_memory), (?a, sample_memory)])"
    by (simp_all add: session_read)
  moreover have "stale_step (\<lambda>_. True) exec_memory (sample_memory, [(?b, sample_memory), (?a, sample_memory)]) (?db, remove1 (?a, sample_memory) [(?b, sample_memory), (?a, sample_memory)])"
    by (rule session_write) simp
  ultimately have steps: "(stale_step (\<lambda>_. True) exec_memory)\<^sup>*\<^sup>* (sample_memory, []) (?db, [(?b, sample_memory)])"
    by (auto intro: rtranclp.rtrancl_into_rtrancl)
  have v: "map fa_version (db_facts ?db) = [2]"
    by (simp add: finalize_canonical_def find_mutation_def fact_by_key_def sample_memory_def new_mutation_def sample_fingerprints_def sample_decision_def
        update_fact_def Let_def)
  have "\<exists>e. fst (finalize_canonical sample_memory ?db ''M2'' (sample_command ''K2'') sample_fingerprints sample_decision ''F2'' 5) = Inl e"
    by (simp add: finalize_canonical_def find_mutation_def fact_by_key_def sample_memory_def new_mutation_def sample_fingerprints_def sample_decision_def
        update_fact_def Let_def)
  then obtain e db3 where f: "finalize_canonical sample_memory ?db ''M2'' (sample_command ''K2'') sample_fingerprints sample_decision ''F2'' 5 = (Inl e, db3)"
    by (metis prod.collapse)
  have "db3 = ?db" using memory_facts_versioned [OF ok steps rtranclp.rtrancl_refl] f by fastforce
  then show ?thesis using v f by simp
qed

end
