(* ===== verification/Uuid5.thy ===== *)
theory Uuid5
  imports Sha256
begin

text \<open>
  \<open>uuid.uuid5(uuid.NAMESPACE_URL, name)\<close> of the standard library as text: the first sixteen bytes of the SHA-1 digest (FIPS 180-4) of the namespace and the name, with
  the bits of the version and of the variant. The stores of the shared memory name their entries by it.
\<close>

definition sha_rotl :: "nat \<Rightarrow> w32 \<Rightarrow> w32" where
  "sha_rotl n x = sha_rotr (32 - n) x"

definition sha1_h0 :: "w32 list" where
  "sha1_h0 = [0x67452301, 0xEFCDAB89, 0x98BADCFE, 0x10325476, 0xC3D2E1F0]"

text \<open>The message schedule, kept with its newest word first.\<close>

fun sha1_schedule :: "nat \<Rightarrow> w32 list \<Rightarrow> w32 list" where
  "sha1_schedule 0 ws = ws"
| "sha1_schedule (Suc n) ws = sha1_schedule n (sha_rotl 1 (ws ! 2 XOR ws ! 7 XOR ws ! 13 XOR ws ! 15) # ws)"

definition sha1_choice :: "nat \<Rightarrow> w32 \<Rightarrow> w32 \<Rightarrow> w32 \<Rightarrow> w32 \<times> w32" where
  "sha1_choice t b c d =
     (if t < 20 then ((b AND c) OR (NOT b AND d), 0x5A827999)
      else if t < 40 then (b XOR c XOR d, 0x6ED9EBA1)
      else if t < 60 then ((b AND c) OR (b AND d) OR (c AND d), 0x8F1BBCDC)
      else (b XOR c XOR d, 0xCA62C1D6))"

fun sha1_round :: "w32 list \<Rightarrow> nat \<times> w32 \<Rightarrow> w32 list" where
  "sha1_round [a, b, c, d, e] (t, w) =
     (let (f, k) = sha1_choice t b c d in [sha_rotl 5 a + f + e + k + w, a, sha_rotl 30 b, c, d])"
| "sha1_round s _ = s"

definition sha1_compress :: "w32 list \<Rightarrow> w32 list \<Rightarrow> w32 list" where
  "sha1_compress h block = map2 (+) h (foldl sha1_round h (zip [0..<80] (rev (sha1_schedule 64 (rev block)))))"

fun sha1_blocks :: "nat \<Rightarrow> w32 list \<Rightarrow> w32 list \<Rightarrow> w32 list" where
  "sha1_blocks 0 h ws = h"
| "sha1_blocks (Suc n) h ws = sha1_blocks n (sha1_compress h (take 16 ws)) (drop 16 ws)"

definition sha1_words :: "int list \<Rightarrow> w32 list" where
  "sha1_words bytes = (let ws = words_of_bytes (sha_pad bytes) in sha1_blocks (length ws div 16) sha1_h0 ws)"

definition namespace_url :: "int list" where
  "namespace_url = [0x6B, 0xA7, 0xB8, 0x11, 0x9D, 0xAD, 0x11, 0xD1, 0x80, 0xB4, 0x00, 0xC0, 0x4F, 0xD4, 0x30, 0xC8]"

definition uuid5 :: "string \<Rightarrow> string" where
  "uuid5 name =
     (let ws = sha1_words (namespace_url @ map of_char name);
          w1 = (ws ! 1 AND 0xFFFF0FFF) OR 0x00005000;
          w2 = (ws ! 2 AND 0x3FFFFFFF) OR 0x80000000;
          h = concat (map word_hex [ws ! 0, w1, w2, ws ! 3])
      in take 8 h @ ''-'' @ take 4 (drop 8 h) @ ''-'' @ take 4 (drop 12 h) @ ''-'' @ take 4 (drop 16 h) @ ''-'' @ drop 20 h)"

end
