(* ===== verification/Memory_Projections.thy ===== *)
theory Memory_Projections
  imports Memory_Facts Uuid5
begin

text \<open>
  The projections of a fact into the vector store and the graph store: \<open>projection_builder.py\<close>, \<open>qdrant_projection.py\<close> and \<open>neo4j_projection.py\<close> of
  \<open>shared_memory/\<close>. The embedding service, the Qdrant client and the Neo4j driver are parameters; what the last two promise are the hypotheses \<open>qdrant_ok\<close> and
  \<open>neo4j_ok\<close>. The locale \<open>projection_port\<close> is the contract the service relies on; both stores are interpretations of it.
\<close>

section \<open>Calls of other services\<close>

text \<open>
  A call answers, raises an exception with a text, is late for the time limit of a projection, or is stopped by the time limit of the whole mutation. A
  call that is late or stopped has had its effect or has none.
\<close>

datatype 'a reply = Answer 'a | Raise string | Late | Stopped

definition call_bind :: "'a reply \<times> 's \<Rightarrow> ('a \<Rightarrow> 's \<Rightarrow> 'b reply \<times> 's) \<Rightarrow> 'b reply \<times> 's" where
  "call_bind c f = (case c of (Answer x, s) \<Rightarrow> f x s | (Raise t, s) \<Rightarrow> (Raise t, s) | (Late, s) \<Rightarrow> (Late, s) | (Stopped, s) \<Rightarrow> (Stopped, s))"

lemma call_bind_simps [simp]:
  "call_bind (Answer x, s) f = f x s" "call_bind (Raise t, s) f = (Raise t, s)" "call_bind (Late, s) f = (Late, s)"
  "call_bind (Stopped, s) f = (Stopped, s)"
  by (simp_all add: call_bind_def)

lemma call_bind_cases:
  assumes "call_bind c f = (res, s')"
  obtains (answers) x s where "c = (Answer x, s)" "f x s = (res, s')"
    | (ends) e where "c = (e, s')" "\<forall>x. e \<noteq> Answer x" "\<forall>y. res \<noteq> Answer y"
proof (cases c)
  case (Pair e s)
  show thesis
  proof (cases e)
    case (Answer x)
    then show thesis using assms Pair answers by simp
  qed (use assms Pair ends in auto)
qed

section \<open>Projections: shared\_memory/protocols.py and projection\_builder.py\<close>

record vector_projection =
  vp_mutation_id :: string
  vp_fact_key :: string
  vp_control_version :: int
  vp_memory_id :: string
  vp_vector :: "rat list"
  vp_driver_id :: string
  vp_route_id :: string
  vp_anomaly_type :: string
  vp_resolution_text :: string
  vp_metadata :: pydict
  vp_expires_at :: "int option"

text \<open>\<open>GraphEntity\<close> of \<open>graph_memory/models.py\<close>, without properties here.\<close>

record graph_entity =
  gn_entity_type :: string
  gn_entity_id :: string
  gn_display_name :: string

record graph_projection =
  gp_mutation_id :: string
  gp_fact_key :: string
  gp_control_version :: int
  gp_source :: graph_entity
  gp_relation_type :: string
  gp_target :: graph_entity
  gp_confidence :: scaled
  gp_source_type :: string
  gp_evidence :: "string option"
  gp_expires_at :: "int option"
  gp_timestamp :: int

definition entity_types :: "string list" where
  "entity_types = [''Driver'', ''Vehicle'', ''Route'', ''Weather'', ''RoadCondition'', ''Station'', ''Anomaly'', ''Resolution'', ''DispatchOrder'', ''PolicyRule'', ''UserPreference'']"

definition relation_types :: "string list" where
  "relation_types = [''DRIVES'', ''SERVES'', ''HAS_RISK_ON'', ''AFFECTED_BY'', ''HIGH_RISK_WHEN'', ''ALTERNATIVE_TO'', ''RESOLVED_BY'', ''CONFLICTS_WITH'', ''DEPENDS_ON'', ''STATUS'']"

definition make_entity :: "string \<Rightarrow> string \<Rightarrow> string \<Rightarrow> memory_error + graph_entity" where
  "make_entity entity_type entity_id display_name =
     (if entity_type \<notin> set entity_types \<or> py_strip entity_id = [] \<or> py_strip display_name = [] then Inl ProjectionInvalid
      else Inr \<lparr>gn_entity_type = entity_type, gn_entity_id = entity_id, gn_display_name = display_name\<rparr>)"

definition entity_key :: "graph_entity \<Rightarrow> string" where
  "entity_key n = gn_entity_type n @ '':'' @ gn_entity_id n"

text \<open>\<open>text\<close> joins what is there and not empty; \<open>canonical_json\<close> of a dictionary is never empty.\<close>

definition vector_text :: "memory_command \<Rightarrow> string" where
  "vector_text cmd =
     join '' '' (filter (\<lambda>s. s \<noteq> [])
       ([mc_subject_id cmd, case mc_object_id cmd of None \<Rightarrow> [] | Some s \<Rightarrow> s, mc_predicate cmd, json_compact (PDict (mc_value_json cmd)),
         case mc_evidence_text cmd of None \<Rightarrow> [] | Some s \<Rightarrow> s, mc_reason cmd]))"

definition build_vector :: "(string \<Rightarrow> rat list reply) \<Rightarrow> memory_command \<Rightarrow> string \<Rightarrow> string \<Rightarrow> int \<Rightarrow> vector_projection reply" where
  "build_vector embed_text cmd mutation_id fact_key version =
     (case embed_text (vector_text cmd) of
        Answer vector \<Rightarrow>
          Answer \<lparr>vp_mutation_id = mutation_id, vp_fact_key = fact_key, vp_control_version = version,
            vp_memory_id = (case py_or (mc_vector_memory_id cmd) None of None \<Rightarrow> fact_key | Some s \<Rightarrow> s), vp_vector = vector,
            vp_driver_id = mc_subject_id cmd,
            vp_route_id = (case py_or (mc_object_id cmd) None of None \<Rightarrow> ''unknown-route'' | Some s \<Rightarrow> s),
            vp_anomaly_type = mc_predicate cmd,
            vp_resolution_text = py_str (dget_default (mc_value_json cmd) ''resolution'' (PDict (mc_value_json cmd))),
            vp_metadata = [(''text'', PStr (vector_text cmd))], vp_expires_at = mc_expires_at cmd\<rparr>
      | Raise t \<Rightarrow> Raise t | Late \<Rightarrow> Late | Stopped \<Rightarrow> Stopped)"

text \<open>Without a value in the dictionary, \<open>next\<close> raises; \<open>lower\<close> is modelled on the ASCII letters.\<close>

definition build_graph :: "memory_command \<Rightarrow> string \<Rightarrow> string \<Rightarrow> int \<Rightarrow> memory_error + graph_projection" where
  "build_graph cmd mutation_id fact_key version =
     (case mc_value_json cmd of
        [] \<Rightarrow> Inl ProjectionInvalid
      | (_, v) # _ \<Rightarrow>
          let target_type = (case py_or (mc_object_type cmd) None of None \<Rightarrow> ''RoadCondition'' | Some t \<Rightarrow> t);
              target_id = (case py_or (mc_object_id cmd) None of None \<Rightarrow> map lower_char (py_strip (py_str v)) | Some s \<Rightarrow> s)
          in if target_type \<notin> set entity_types then Inl ProjectionInvalid
             else res_bind (make_entity (mc_subject_type cmd) (mc_subject_id cmd) (mc_subject_id cmd)) (\<lambda>source.
                  if mc_predicate cmd \<notin> set relation_types then Inl ProjectionInvalid
                  else res_bind (make_entity target_type target_id (py_str v)) (\<lambda>target.
                    Inr \<lparr>gp_mutation_id = mutation_id, gp_fact_key = fact_key, gp_control_version = version, gp_source = source,
                         gp_relation_type = mc_predicate cmd, gp_target = target, gp_confidence = mc_confidence cmd,
                         gp_source_type = mc_source_type cmd, gp_evidence = mc_evidence_text cmd, gp_expires_at = mc_expires_at cmd,
                         gp_timestamp = mc_incoming_at cmd\<rparr>)))"

section \<open>The contract of a store\<close>

record ('p, 's) memory_port =
  mp_stage :: "'p \<Rightarrow> 's \<Rightarrow> unit reply \<times> 's"
  mp_probe :: "string \<Rightarrow> int \<Rightarrow> 's \<Rightarrow> string option reply \<times> 's"
  mp_activate :: "'p \<Rightarrow> 's \<Rightarrow> unit reply \<times> 's"
  mp_retire_previous :: "'p \<Rightarrow> 's \<Rightarrow> unit reply \<times> 's"

text \<open>What a store shows of one entry.\<close>

record store_entry =
  se_id :: pyval
  se_fact_key :: pyval
  se_version :: pyval
  se_mutation_id :: pyval
  se_status :: pyval

definition activated :: "store_entry \<Rightarrow> store_entry \<Rightarrow> store_entry" where
  "activated own e = (if se_id e = se_id own then e\<lparr>se_status := PStr ''ACTIVE''\<rparr> else e)"

definition older :: "store_entry \<Rightarrow> store_entry \<Rightarrow> bool" where
  "older own e \<longleftrightarrow> (\<exists>i j. se_version e = PInt i \<and> se_version own = PInt j \<and> i < j)"

definition retired :: "store_entry \<Rightarrow> store_entry \<Rightarrow> store_entry" where
  "retired own e =
     (if se_fact_key e = se_fact_key own \<and> se_status e = PStr ''ACTIVE'' \<and> older own e then e\<lparr>se_status := PStr ''RETIRED''\<rparr> else e)"

definition staged_into :: "store_entry \<Rightarrow> store_entry set \<Rightarrow> store_entry set \<Rightarrow> bool" where
  "staged_into own E E' \<longleftrightarrow> own \<in> E' \<and> (\<forall>e\<in>E'. e = own \<or> e \<in> E) \<and> (\<forall>e\<in>E. se_id e \<noteq> se_id own \<longrightarrow> e \<in> E')"

definition of_mutation :: "string \<Rightarrow> int \<Rightarrow> store_entry \<Rightarrow> bool" where
  "of_mutation m v e \<longleftrightarrow> se_mutation_id e = PStr m \<and> se_version e = PInt v"

text \<open>An entry is a projection's own if it differs from it in its status at most.\<close>

definition is_own :: "store_entry \<Rightarrow> store_entry \<Rightarrow> bool" where
  "is_own own e \<longleftrightarrow> e = own\<lparr>se_status := se_status e\<rparr>"

text \<open>
  What may be active beside a projection that was switched on: another entry of the fact, not of an earlier version, that carries the id of the projection or was active before.
\<close>

definition rival :: "store_entry \<Rightarrow> store_entry \<Rightarrow> bool" where
  "rival own e \<longleftrightarrow> e \<noteq> own \<and> se_fact_key e = se_fact_key own \<and> \<not> older own e \<and> (se_id e = se_id own \<or> se_status e = PStr ''ACTIVE'')"

lemma own_is_own: "is_own own own"
  by (simp add: is_own_def)

lemma activated_sel [simp]:
  "se_fact_key (activated own e) = se_fact_key e" "se_id (activated own e) = se_id e" "se_version (activated own e) = se_version e"
  "se_mutation_id (activated own e) = se_mutation_id e"
  by (simp_all add: activated_def)

text \<open>The entries that readers of the store see for a fact.\<close>

definition active_entries :: "pyval \<Rightarrow> store_entry set \<Rightarrow> store_entry set" where
  "active_entries fact_key E = {e \<in> E. se_fact_key e = fact_key \<and> se_status e = PStr ''ACTIVE''}"

lemma no_rivals:
  assumes "staged_into own E E'" "\<forall>e\<in>active_entries (se_fact_key own) E. older own e" "\<forall>e\<in>E'. se_id e = se_id own \<longrightarrow> e = own"
  shows "\<forall>e\<in>E'. \<not> rival own e"
  using assms by (auto simp: rival_def staged_into_def active_entries_def)

locale projection_port =
  fixes port :: "('p, 's) memory_port" and entries :: "'s \<Rightarrow> store_entry set" and own :: "'p \<Rightarrow> store_entry"
  assumes own_staged: "se_status (own p) = PStr ''STAGED''"
    and stage_law: "mp_stage port p s = (res, s') \<Longrightarrow> staged_into (own p) (entries s) (entries s') \<or> res \<noteq> Answer () \<and> entries s' = entries s"
    and activate_law: "mp_activate port p s = (res, s') \<Longrightarrow> entries s' = activated (own p) ` entries s \<or> res \<noteq> Answer () \<and> entries s' = entries s"
    and retire_law: "mp_retire_previous port p s = (res, s') \<Longrightarrow> entries s' = retired (own p) ` entries s \<or> res \<noteq> Answer () \<and> entries s' = entries s"
    and probe_keeps: "mp_probe port m v s = (found, s') \<Longrightarrow> entries s' = entries s"
    and probe_none: "mp_probe port m v s = (Answer None, s') \<Longrightarrow> e \<in> entries s \<Longrightarrow> \<not> of_mutation m v e"
    and probe_some: "mp_probe port m v s = (Answer (Some t), s') \<Longrightarrow> \<exists>e\<in>entries s. of_mutation m v e \<and> t = py_str (se_status e)"
begin

text \<open>
  A switch that goes through leaves the fact with its new projection active and with no earlier version active; what else is active was a rival.
\<close>

lemma switch_active:
  assumes "own p \<in> entries s" "mp_activate port p s = (Answer (), s1)" "mp_retire_previous port p s1 = (Answer (), s2)"
  shows "(own p)\<lparr>se_status := PStr ''ACTIVE''\<rparr> \<in> active_entries (se_fact_key (own p)) (entries s2)"
    "e \<in> active_entries (se_fact_key (own p)) (entries s2) \<Longrightarrow> \<not> older (own p) e"
    "e \<in> active_entries (se_fact_key (own p)) (entries s2) \<Longrightarrow> e = (own p)\<lparr>se_status := PStr ''ACTIVE''\<rparr> \<or> (\<exists>x\<in>entries s. rival (own p) x)"
proof -
  let ?a = "(own p)\<lparr>se_status := PStr ''ACTIVE''\<rparr>"
  have s2: "entries s2 = retired (own p) ` activated (own p) ` entries s" using activate_law [OF assms(2)] retire_law [OF assms(3)] by simp
  have "retired (own p) (activated (own p) (own p)) = ?a" by (auto simp: retired_def activated_def older_def)
  then have "?a \<in> entries s2" using assms(1) unfolding s2 by (metis imageI)
  then show "?a \<in> active_entries (se_fact_key (own p)) (entries s2)" by (simp add: active_entries_def)
  have x: "\<exists>x\<in>entries s. e = activated (own p) x \<and> se_fact_key x = se_fact_key (own p) \<and> \<not> older (own p) x \<and> se_status e = PStr ''ACTIVE''"
    if h: "e \<in> active_entries (se_fact_key (own p)) (entries s2)" for e
  proof -
    obtain x where x: "x \<in> entries s" "e = retired (own p) (activated (own p) x)" "se_fact_key e = se_fact_key (own p)" "se_status e = PStr ''ACTIVE''"
      using h unfolding active_entries_def s2 by blast
    then have "\<not> (se_fact_key (activated (own p) x) = se_fact_key (own p) \<and> se_status (activated (own p) x) = PStr ''ACTIVE'' \<and> older (own p) (activated (own p) x))"
      by (auto simp: retired_def)
    moreover from this x(2) have "e = activated (own p) x" unfolding retired_def by (simp only: if_False)
    ultimately have "e = activated (own p) x" "\<not> older (own p) (activated (own p) x)" using x(3,4) by auto
    then show ?thesis using x by (auto simp: older_def)
  qed
  show "\<not> older (own p) e" if "e \<in> active_entries (se_fact_key (own p)) (entries s2)" using x [OF that] by (auto simp: older_def)
  show "e = ?a \<or> (\<exists>x\<in>entries s. rival (own p) x)" if h: "e \<in> active_entries (se_fact_key (own p)) (entries s2)"
  proof -
    obtain x where x: "x \<in> entries s" "e = activated (own p) x" "se_fact_key x = se_fact_key (own p)" "\<not> older (own p) x" "se_status e = PStr ''ACTIVE''"
      using x [OF h] by blast
    show ?thesis
    proof (cases "x = own p")
      case False
      then have "rival (own p) x" using x(2-5) by (auto simp: rival_def activated_def split: if_splits)
      then show ?thesis using x(1) by blast
    qed (simp add: x(2) activated_def)
  qed
qed

text \<open>After an activation whose retirement failed without effect, the earlier active versions are still there beside the new one.\<close>

lemma failed_retirement:
  assumes "mp_activate port p s = (Answer (), s1)" "entries s2 = entries s1" "e \<in> entries s" "is_own (own p) e"
    "x \<in> active_entries (se_fact_key (own p)) (entries s)" "older (own p) x"
  shows "x \<in> active_entries (se_fact_key (own p)) (entries s2) \<and> (own p)\<lparr>se_status := PStr ''ACTIVE''\<rparr> \<in> active_entries (se_fact_key (own p)) (entries s2) \<and>
    x \<noteq> (own p)\<lparr>se_status := PStr ''ACTIVE''\<rparr>"
proof -
  have s1: "entries s2 = activated (own p) ` entries s" using activate_law [OF assms(1)] assms(2) by simp
  have x: "x \<in> entries s" "se_fact_key x = se_fact_key (own p)" "se_status x = PStr ''ACTIVE''" using assms(5) by (simp_all add: active_entries_def)
  have ax: "activated (own p) x = x" using x(3) by (cases x) (simp add: activated_def)
  have ae: "activated (own p) e = (own p)\<lparr>se_status := PStr ''ACTIVE''\<rparr>"
    using assms(4) unfolding is_own_def by (cases e; cases "own p") (simp add: activated_def)
  have "x \<in> entries s2" "(own p)\<lparr>se_status := PStr ''ACTIVE''\<rparr> \<in> entries s2"
    using imageI [OF x(1), of "activated (own p)"] imageI [OF assms(3), of "activated (own p)"] unfolding ax ae s1 .
  moreover have "x \<noteq> (own p)\<lparr>se_status := PStr ''ACTIVE''\<rparr>" using assms(6) by (auto simp: older_def)
  ultimately show ?thesis using x(2,3) by (simp add: active_entries_def)
qed

end

section \<open>Qdrant: shared\_memory/qdrant\_projection.py\<close>

datatype condition = MatchValue string pyval | RangeLt string int

datatype selector = PointIds "string list" | PointsWhere "condition list"

record qdrant_point =
  qp_id :: string
  qp_vector :: "rat list"
  qp_payload :: pydict

record 's qdrant_client =
  qc_collection_exists :: "string \<Rightarrow> 's \<Rightarrow> bool reply \<times> 's"
  qc_create_collection :: "string \<Rightarrow> nat \<Rightarrow> 's \<Rightarrow> unit reply \<times> 's"
  qc_upsert :: "string \<Rightarrow> qdrant_point list \<Rightarrow> 's \<Rightarrow> unit reply \<times> 's"
  qc_set_payload :: "string \<Rightarrow> pydict \<Rightarrow> selector \<Rightarrow> 's \<Rightarrow> unit reply \<times> 's"
  qc_scroll :: "string \<Rightarrow> condition list \<Rightarrow> nat \<Rightarrow> 's \<Rightarrow> pydict list reply \<times> 's"
  qc_count :: "string \<Rightarrow> condition list \<Rightarrow> 's \<Rightarrow> int reply \<times> 's"

definition ensure_collection :: "'s qdrant_client \<Rightarrow> string \<Rightarrow> nat \<Rightarrow> 's \<Rightarrow> unit reply \<times> 's" where
  "ensure_collection client collection dimension s =
     call_bind (qc_collection_exists client collection s) (\<lambda>found s.
       if found then (Answer (), s) else qc_create_collection client collection dimension s)"

definition point_id :: "vector_projection \<Rightarrow> string" where
  "point_id p = uuid5 (''countyflow-shared-memory:'' @ vp_memory_id p @ '':v'' @ show_int (vp_control_version p))"

text \<open>A \<open>VectorProjection\<close> has no \<open>timestamp\<close>, so that \<open>created_at\<close> is empty.\<close>

definition staged_payload :: "vector_projection \<Rightarrow> pydict" where
  "staged_payload p =
     [(''memory_id'', PStr (vp_memory_id p)), (''driver_id'', PStr (vp_driver_id p)), (''route_id'', PStr (vp_route_id p)),
      (''anomaly_type'', PStr (vp_anomaly_type p)), (''resolution_text'', PStr (vp_resolution_text p)),
      (''metadata'', PDict (vp_metadata p)), (''created_at'', PStr []), (''fact_key'', PStr (vp_fact_key p)),
      (''control_version'', PInt (vp_control_version p)), (''projection_status'', PStr ''STAGED''),
      (''mutation_id'', PStr (vp_mutation_id p)), (''expires_at'', opt_iso (vp_expires_at p))]"

definition stage_vector :: "'s qdrant_client \<Rightarrow> string \<Rightarrow> nat \<Rightarrow> vector_projection \<Rightarrow> 's \<Rightarrow> unit reply \<times> 's" where
  "stage_vector client collection dimension p s =
     (if length (vp_vector p) \<noteq> dimension then (Raise (''expected '' @ show_nat dimension @ '' dimensions''), s)
      else call_bind (ensure_collection client collection dimension s) (\<lambda>_ s.
             qc_upsert client collection [\<lparr>qp_id = point_id p, qp_vector = vp_vector p, qp_payload = staged_payload p\<rparr>] s))"

definition probe_vector :: "'s qdrant_client \<Rightarrow> string \<Rightarrow> nat \<Rightarrow> string \<Rightarrow> int \<Rightarrow> 's \<Rightarrow> string option reply \<times> 's" where
  "probe_vector client collection dimension mutation_id control_version s =
     call_bind (ensure_collection client collection dimension s) (\<lambda>_ s.
       call_bind (qc_scroll client collection [MatchValue ''mutation_id'' (PStr mutation_id), MatchValue ''control_version'' (PInt control_version)] 2 s) (\<lambda>points s.
         (Answer (case points of [] \<Rightarrow> None | payload # _ \<Rightarrow> Some (py_str (dget payload ''projection_status''))), s)))"

definition activate_vector :: "'s qdrant_client \<Rightarrow> string \<Rightarrow> nat \<Rightarrow> vector_projection \<Rightarrow> 's \<Rightarrow> unit reply \<times> 's" where
  "activate_vector client collection dimension p s =
     call_bind (ensure_collection client collection dimension s) (\<lambda>_ s.
       qc_set_payload client collection [(''projection_status'', PStr ''ACTIVE'')] (PointIds [point_id p]) s)"

definition retire_previous_vector :: "'s qdrant_client \<Rightarrow> string \<Rightarrow> nat \<Rightarrow> vector_projection \<Rightarrow> 's \<Rightarrow> unit reply \<times> 's" where
  "retire_previous_vector client collection dimension p s =
     call_bind (ensure_collection client collection dimension s) (\<lambda>_ s.
       qc_set_payload client collection [(''projection_status'', PStr ''RETIRED'')]
         (PointsWhere [MatchValue ''fact_key'' (PStr (vp_fact_key p)), MatchValue ''projection_status'' (PStr ''ACTIVE''),
                       RangeLt ''control_version'' (vp_control_version p)]) s)"

definition count_points :: "'s qdrant_client \<Rightarrow> string \<Rightarrow> nat \<Rightarrow> string \<Rightarrow> int \<Rightarrow> 's \<Rightarrow> int reply \<times> 's" where
  "count_points client collection dimension memory_id version s =
     call_bind (ensure_collection client collection dimension s) (\<lambda>_ s.
       qc_count client collection [MatchValue ''memory_id'' (PStr memory_id), MatchValue ''control_version'' (PInt version)] s)"

definition qdrant_port :: "'s qdrant_client \<Rightarrow> string \<Rightarrow> nat \<Rightarrow> (vector_projection, 's) memory_port" where
  "qdrant_port client collection dimension =
     \<lparr>mp_stage = stage_vector client collection dimension, mp_probe = probe_vector client collection dimension,
      mp_activate = activate_vector client collection dimension, mp_retire_previous = retire_previous_vector client collection dimension\<rparr>"

text \<open>
  What Qdrant documents: points are upserted by id, a payload is merged into the points that are named or that satisfy all conditions, a scroll returns payloads of
  points that satisfy the conditions, and none only if there is none. A call that does not answer may or may not have had its effect.
\<close>

fun satisfies :: "pydict \<Rightarrow> condition \<Rightarrow> bool" where
  "satisfies payload (MatchValue k v) \<longleftrightarrow> dget payload k = v"
| "satisfies payload (RangeLt k n) \<longleftrightarrow> (case dget payload k of PInt i \<Rightarrow> i < n | _ \<Rightarrow> False)"

fun selected :: "selector \<Rightarrow> qdrant_point \<Rightarrow> bool" where
  "selected (PointIds ids) p \<longleftrightarrow> qp_id p \<in> set ids"
| "selected (PointsWhere cs) p \<longleftrightarrow> list_all (satisfies (qp_payload p)) cs"

definition upserted :: "qdrant_point list \<Rightarrow> qdrant_point list \<Rightarrow> qdrant_point list" where
  "upserted new ps = filter (\<lambda>p. qp_id p \<notin> qp_id ` set new) ps @ new"

definition with_payload :: "pydict \<Rightarrow> selector \<Rightarrow> qdrant_point list \<Rightarrow> qdrant_point list" where
  "with_payload d sel ps = map (\<lambda>p. if selected sel p then p\<lparr>qp_payload := dupdate (qp_payload p) d\<rparr> else p) ps"

definition qdrant_ok :: "'s qdrant_client \<Rightarrow> string \<Rightarrow> ('s \<Rightarrow> qdrant_point list) \<Rightarrow> bool" where
  "qdrant_ok client collection points \<longleftrightarrow>
     (\<forall>s res s'. qc_collection_exists client collection s = (res, s') \<longrightarrow> points s' = points s) \<and>
     (\<forall>n s res s'. qc_create_collection client collection n s = (res, s') \<longrightarrow> points s' = points s) \<and>
     (\<forall>new s res s'. qc_upsert client collection new s = (res, s') \<longrightarrow>
        points s' = upserted new (points s) \<or> res \<noteq> Answer () \<and> points s' = points s) \<and>
     (\<forall>d sel s res s'. qc_set_payload client collection d sel s = (res, s') \<longrightarrow>
        points s' = with_payload d sel (points s) \<or> res \<noteq> Answer () \<and> points s' = points s) \<and>
     (\<forall>cs n s res s'. qc_scroll client collection cs n s = (res, s') \<longrightarrow> points s' = points s \<and>
        (\<forall>ds. res = Answer ds \<longrightarrow> set ds \<subseteq> {qp_payload p |p. p \<in> set (points s) \<and> list_all (satisfies (qp_payload p)) cs} \<and>
           (ds = [] \<and> 0 < n \<longrightarrow> (\<forall>p\<in>set (points s). \<not> list_all (satisfies (qp_payload p)) cs))))"

definition point_entry :: "qdrant_point \<Rightarrow> store_entry" where
  "point_entry p =
     \<lparr>se_id = PStr (qp_id p), se_fact_key = dget (qp_payload p) ''fact_key'', se_version = dget (qp_payload p) ''control_version'',
      se_mutation_id = dget (qp_payload p) ''mutation_id'', se_status = dget (qp_payload p) ''projection_status''\<rparr>"

definition vector_own :: "vector_projection \<Rightarrow> store_entry" where
  "vector_own p =
     \<lparr>se_id = PStr (point_id p), se_fact_key = PStr (vp_fact_key p), se_version = PInt (vp_control_version p),
      se_mutation_id = PStr (vp_mutation_id p), se_status = PStr ''STAGED''\<rparr>"

lemma qdrant_okD:
  assumes "qdrant_ok client collection points"
  shows "qc_collection_exists client collection s = (found, s') \<Longrightarrow> points s' = points s"
    "qc_create_collection client collection n s = (res, s') \<Longrightarrow> points s' = points s"
    "qc_upsert client collection new s = (res, s') \<Longrightarrow> points s' = upserted new (points s) \<or> res \<noteq> Answer () \<and> points s' = points s"
    "qc_set_payload client collection d sel s = (res, s') \<Longrightarrow> points s' = with_payload d sel (points s) \<or> res \<noteq> Answer () \<and> points s' = points s"
    "qc_scroll client collection cs n s = (ds, s') \<Longrightarrow> points s' = points s"
    "qc_scroll client collection cs n s = (Answer xs, s') \<Longrightarrow> x \<in> set xs \<Longrightarrow> \<exists>p\<in>set (points s). x = qp_payload p \<and> list_all (satisfies (qp_payload p)) cs"
    "qc_scroll client collection cs (Suc n) s = (Answer [], s') \<Longrightarrow> p \<in> set (points s) \<Longrightarrow> \<not> list_all (satisfies (qp_payload p)) cs"
proof -
  note q = assms [unfolded qdrant_ok_def]
  note q1 = q [THEN conjunct1] and q2 = q [THEN conjunct2, THEN conjunct1] and q3 = q [THEN conjunct2, THEN conjunct2, THEN conjunct1]
    and q4 = q [THEN conjunct2, THEN conjunct2, THEN conjunct2, THEN conjunct1] and q5 = q [THEN conjunct2, THEN conjunct2, THEN conjunct2, THEN conjunct2]
  show "qc_collection_exists client collection s = (found, s') \<Longrightarrow> points s' = points s" by (rule q1 [rule_format])
  show "qc_create_collection client collection n s = (res, s') \<Longrightarrow> points s' = points s" by (rule q2 [rule_format])
  show "qc_upsert client collection new s = (res, s') \<Longrightarrow> points s' = upserted new (points s) \<or> res \<noteq> Answer () \<and> points s' = points s" by (rule q3 [rule_format])
  show "qc_set_payload client collection d sel s = (res, s') \<Longrightarrow> points s' = with_payload d sel (points s) \<or> res \<noteq> Answer () \<and> points s' = points s"
    by (rule q4 [rule_format])
  show "qc_scroll client collection cs n s = (ds, s') \<Longrightarrow> points s' = points s" using q5 [rule_format, of cs n s ds s'] by blast
  show "qc_scroll client collection cs n s = (Answer xs, s') \<Longrightarrow> x \<in> set xs \<Longrightarrow> \<exists>p\<in>set (points s). x = qp_payload p \<and> list_all (satisfies (qp_payload p)) cs"
    using q5 [rule_format, of cs n s "Answer xs" s'] by blast
  show "qc_scroll client collection cs (Suc n) s = (Answer [], s') \<Longrightarrow> p \<in> set (points s) \<Longrightarrow> \<not> list_all (satisfies (qp_payload p)) cs"
    using q5 [rule_format, of cs "Suc n" s "Answer []" s'] by simp
qed

lemma ensure_collection_points:
  assumes "qdrant_ok client collection points" "ensure_collection client collection n s = (res, s')" shows "points s' = points s"
  using assms(2) unfolding ensure_collection_def
proof (cases rule: call_bind_cases)
  case (answers found s1)
  then show ?thesis using qdrant_okD(1,2) [OF assms(1)] by (cases found) auto
next
  case (ends e)
  then show ?thesis using qdrant_okD(1) [OF assms(1)] by blast
qed

lemma dupdate_status: "dget (dupdate d [(''projection_status'', v)]) k = (if k = ''projection_status'' then v else dget d k)"
  by (simp add: dupdate_def)

lemma upserted_entries:
  "staged_into (vector_own p) (point_entry ` set ps) (point_entry ` set (upserted [\<lparr>qp_id = point_id p, qp_vector = v, qp_payload = staged_payload p\<rparr>] ps))"
proof -
  have own: "point_entry \<lparr>qp_id = point_id p, qp_vector = v, qp_payload = staged_payload p\<rparr> = vector_own p"
    by (simp add: point_entry_def vector_own_def staged_payload_def)
  show ?thesis unfolding staged_into_def upserted_def by (auto simp: own) (auto simp: vector_own_def point_entry_def image_iff)
qed

lemma activated_entries:
  "point_entry ` set (with_payload [(''projection_status'', PStr ''ACTIVE'')] (PointIds [point_id p]) ps) = activated (vector_own p) ` point_entry ` set ps"
  unfolding with_payload_def set_map image_image
  by (rule image_cong) (simp_all add: point_entry_def activated_def vector_own_def dupdate_status)

lemma retired_entries:
  "point_entry ` set (with_payload [(''projection_status'', PStr ''RETIRED'')]
       (PointsWhere [MatchValue ''fact_key'' (PStr (vp_fact_key p)), MatchValue ''projection_status'' (PStr ''ACTIVE''), RangeLt ''control_version'' (vp_control_version p)]) ps) =
   retired (vector_own p) ` point_entry ` set ps"
  unfolding with_payload_def set_map image_image
  by (rule image_cong) (auto simp: point_entry_def retired_def vector_own_def dupdate_status older_def split: pyval.splits)

lemma after_ensure:
  assumes ok: "qdrant_ok client collection points" and "call_bind (ensure_collection client collection n s) f = (res, s')"
  obtains (answers) s1 where "points s1 = points s" "f () s1 = (res, s')" | (ends) "points s' = points s" "\<forall>x. res \<noteq> Answer x"
  using assms(2)
proof (cases rule: call_bind_cases)
  case (answers x s1)
  then show thesis using that(1) [of s1] ensure_collection_points [OF ok answers(1)] by simp
next
  case (ends e)
  then show thesis using that(2) ensure_collection_points [OF ok] by blast
qed

lemma payload_write:
  assumes ok: "qdrant_ok client collection points"
    and "call_bind (ensure_collection client collection n s) (\<lambda>_ s. qc_set_payload client collection d sel s) = (res, s')"
  shows "points s' = with_payload d sel (points s) \<or> res \<noteq> Answer () \<and> points s' = points s"
  using ok assms(2)
proof (cases rule: after_ensure)
  case (answers s1)
  then show ?thesis using qdrant_okD(4) [OF ok answers(2)] by simp
qed simp

lemma stage_points:
  assumes ok: "qdrant_ok client collection points" and "stage_vector client collection n p s = (res, s')"
  shows "points s' = upserted [\<lparr>qp_id = point_id p, qp_vector = vp_vector p, qp_payload = staged_payload p\<rparr>] (points s) \<or> res \<noteq> Answer () \<and> points s' = points s"
proof (cases "length (vp_vector p) = n")
  case True
  then have "call_bind (ensure_collection client collection n s)
      (\<lambda>_ s. qc_upsert client collection [\<lparr>qp_id = point_id p, qp_vector = vp_vector p, qp_payload = staged_payload p\<rparr>] s) = (res, s')"
    using assms(2) by (simp add: stage_vector_def)
  with ok show ?thesis
  proof (cases rule: after_ensure)
    case (answers s1)
    then show ?thesis using qdrant_okD(3) [OF ok answers(2)] by simp
  qed simp
qed (use assms(2) in \<open>auto simp: stage_vector_def\<close>)

lemma probe_points:
  assumes ok: "qdrant_ok client collection points" and "probe_vector client collection n m v s = (res, s')"
  shows "points s' = points s \<and> (res = Answer None \<longrightarrow> (\<forall>p\<in>set (points s). \<not> of_mutation m v (point_entry p))) \<and>
    (\<forall>t. res = Answer (Some t) \<longrightarrow> (\<exists>p\<in>set (points s). of_mutation m v (point_entry p) \<and> t = py_str (se_status (point_entry p))))"
  using ok assms(2) [unfolded probe_vector_def]
proof (cases rule: after_ensure)
  case (answers s1)
  let ?cs = "[MatchValue ''mutation_id'' (PStr m), MatchValue ''control_version'' (PInt v)]"
  have of: "list_all (satisfies (qp_payload p)) ?cs \<longleftrightarrow> of_mutation m v (point_entry p)" for p by (simp add: of_mutation_def point_entry_def)
  from answers(2) show ?thesis
  proof (cases rule: call_bind_cases)
    case (answers ds s2)
    note sc = qdrant_okD(5) [OF ok answers(1)]
    show ?thesis
    proof (cases ds)
      case Nil
      then have "\<forall>p\<in>set (points s1). \<not> list_all (satisfies (qp_payload p)) ?cs" using qdrant_okD(7) [OF ok answers(1) [unfolded \<open>ds = []\<close> numeral_2_eq_2]] by blast
      then show ?thesis using answers(2) sc \<open>points s1 = points s\<close> of Nil by auto
    next
      case (Cons d ds')
      then obtain p where "p \<in> set (points s)" "d = qp_payload p" "of_mutation m v (point_entry p)"
        using qdrant_okD(6) [OF ok answers(1), of d] \<open>points s1 = points s\<close> of by auto
      moreover have "res = Answer (Some (py_str (dget d ''projection_status'')))" "s' = s2" using answers(2) Cons by auto
      ultimately show ?thesis using sc \<open>points s1 = points s\<close> by (auto simp: point_entry_def)
    qed
  next
    case (ends e)
    then have "points s' = points s1" using qdrant_okD(5) [OF ok] by blast
    then show ?thesis using ends \<open>points s1 = points s\<close> by auto
  qed
qed auto

text \<open>Staging a point replaces every point of its id.\<close>

lemma stage_vector_replaces:
  assumes "qdrant_ok client collection points" "stage_vector client collection n p s = (Answer (), s')"
  shows "\<forall>e\<in>point_entry ` set (points s'). se_id e = se_id (vector_own p) \<longrightarrow> e = vector_own p"
proof -
  have "points s' = upserted [\<lparr>qp_id = point_id p, qp_vector = vp_vector p, qp_payload = staged_payload p\<rparr>] (points s)" using stage_points [OF assms] by simp
  then show ?thesis by (auto simp: upserted_def point_entry_def vector_own_def staged_payload_def)
qed

lemma qdrant_is_port:
  assumes ok: "qdrant_ok client collection points"
  shows "projection_port (qdrant_port client collection n) (\<lambda>s. point_entry ` set (points s)) vector_own"
proof (unfold_locales, goal_cases)
  case (2 p s res s')
  then show ?case using stage_points [OF ok] upserted_entries by (fastforce simp: qdrant_port_def)
next
  case (3 p s res s')
  then have "call_bind (ensure_collection client collection n s)
      (\<lambda>_ s. qc_set_payload client collection [(''projection_status'', PStr ''ACTIVE'')] (PointIds [point_id p]) s) = (res, s')"
    by (simp add: qdrant_port_def activate_vector_def)
  from payload_write [OF ok this] show ?case using activated_entries [of p "points s"] by metis
next
  case (4 p s res s')
  then have "call_bind (ensure_collection client collection n s)
      (\<lambda>_ s. qc_set_payload client collection [(''projection_status'', PStr ''RETIRED'')]
         (PointsWhere [MatchValue ''fact_key'' (PStr (vp_fact_key p)), MatchValue ''projection_status'' (PStr ''ACTIVE''), RangeLt ''control_version'' (vp_control_version p)]) s) = (res, s')"
    by (simp add: qdrant_port_def retire_previous_vector_def)
  from payload_write [OF ok this] show ?case using retired_entries [of p "points s"] by metis
next
  case (5 m v s res s')
  then show ?case using probe_points [OF ok] by (fastforce simp: qdrant_port_def)
next
  case (6 m v s s' e)
  then show ?case using probe_points [OF ok] by (fastforce simp: qdrant_port_def)
next
  case (7 m v s t s')
  then show ?case using probe_points [OF ok] by (fastforce simp: qdrant_port_def)
qed (simp add: vector_own_def)

text \<open>The client of a collection, as a locale that extends the contract.\<close>

locale qdrant_store =
  fixes client :: "'s qdrant_client" and collection :: string and dimension :: nat and points :: "'s \<Rightarrow> qdrant_point list"
  assumes client_ok: "qdrant_ok client collection points"

sublocale qdrant_store \<subseteq> projection_port "qdrant_port client collection dimension" "\<lambda>s. point_entry ` set (points s)" vector_own
  by (rule qdrant_is_port [OF client_ok])

section \<open>Neo4j: shared\_memory/neo4j\_projection.py\<close>

text \<open>A query of the driver is one of the six Cypher statements of the source with its parameters; \<open>Inl ()\<close> is a \<open>Neo4jError\<close>.\<close>

datatype graph_query =
    MergeEntity string pydict
  | MergeRelation string pydict
  | ProbeRelation pydict
  | ActivateRelation pydict
  | RetireRelations pydict
  | CountRelations pydict

type_synonym 's neo4j_driver = "graph_query \<Rightarrow> 's \<Rightarrow> (unit + pydict list) reply \<times> 's"

definition execute_graph :: "'s neo4j_driver \<Rightarrow> graph_query \<Rightarrow> 's \<Rightarrow> pydict list reply \<times> 's" where
  "execute_graph driver q s =
     call_bind (driver q s) (\<lambda>r s. (case r of Inl _ \<Rightarrow> Raise ''Neo4j memory projection operation failed'' | Inr records \<Rightarrow> Answer records, s))"

definition projection_id :: "graph_projection \<Rightarrow> string" where
  "projection_id p = uuid5 (''countyflow-shared-memory:'' @ gp_fact_key p @ '':v'' @ show_int (gp_control_version p))"

definition entity_parameters :: "graph_entity \<Rightarrow> pydict" where
  "entity_parameters n =
     [(''entity_key'', PStr (entity_key n)), (''entity_type'', PStr (gn_entity_type n)), (''entity_id'', PStr (gn_entity_id n)),
      (''display_name'', PStr (gn_display_name n)), (''properties_json'', PStr (json_dumps (PDict [])))]"

definition relation_parameters :: "graph_projection \<Rightarrow> pydict" where
  "relation_parameters p =
     [(''source_key'', PStr (entity_key (gp_source p))), (''target_key'', PStr (entity_key (gp_target p))),
      (''projection_id'', PStr (projection_id p)), (''fact_key'', PStr (gp_fact_key p)), (''control_version'', PInt (gp_control_version p)),
      (''mutation_id'', PStr (gp_mutation_id p)), (''staged_status'', PStr ''STAGED''),
      (''confidence'', PFloat (to_float (scaled_value (gp_confidence p)))), (''source_type'', PStr (gp_source_type p)),
      (''evidence'', opt_str (gp_evidence p)), (''expires_at'', opt_iso (gp_expires_at p)), (''timestamp'', PStr (isoformat (gp_timestamp p)))]"

text \<open>The types of a projection that was built are members of their enumerations, so that the source's conversions do not raise.\<close>

definition stage_graph :: "'s neo4j_driver \<Rightarrow> graph_projection \<Rightarrow> 's \<Rightarrow> unit reply \<times> 's" where
  "stage_graph driver p s =
     call_bind (execute_graph driver (MergeEntity (gn_entity_type (gp_source p)) (entity_parameters (gp_source p))) s) (\<lambda>_ s.
     call_bind (execute_graph driver (MergeEntity (gn_entity_type (gp_target p)) (entity_parameters (gp_target p))) s) (\<lambda>_ s.
     call_bind (execute_graph driver (MergeRelation (gp_relation_type p) (relation_parameters p)) s) (\<lambda>_ s. (Answer (), s))))"

definition probe_graph :: "'s neo4j_driver \<Rightarrow> string \<Rightarrow> int \<Rightarrow> 's \<Rightarrow> string option reply \<times> 's" where
  "probe_graph driver mutation_id control_version s =
     call_bind (execute_graph driver (ProbeRelation [(''mutation_id'', PStr mutation_id), (''control_version'', PInt control_version)]) s) (\<lambda>records s.
       (Answer (case records of [] \<Rightarrow> None | r # _ \<Rightarrow> Some (py_str (dget r ''projection_status''))), s))"

definition activate_graph :: "'s neo4j_driver \<Rightarrow> graph_projection \<Rightarrow> 's \<Rightarrow> unit reply \<times> 's" where
  "activate_graph driver p s =
     call_bind (execute_graph driver (ActivateRelation [(''projection_id'', PStr (projection_id p)), (''active_status'', PStr ''ACTIVE'')]) s) (\<lambda>_ s. (Answer (), s))"

definition retire_previous_graph :: "'s neo4j_driver \<Rightarrow> graph_projection \<Rightarrow> 's \<Rightarrow> unit reply \<times> 's" where
  "retire_previous_graph driver p s =
     call_bind (execute_graph driver (RetireRelations
       [(''fact_key'', PStr (gp_fact_key p)), (''control_version'', PInt (gp_control_version p)), (''active_status'', PStr ''ACTIVE''),
        (''retired_status'', PStr ''RETIRED'')]) s) (\<lambda>_ s. (Answer (), s))"

definition count_edges :: "'s neo4j_driver \<Rightarrow> string \<Rightarrow> int \<Rightarrow> 's \<Rightarrow> int reply \<times> 's" where
  "count_edges driver fact_key version s =
     call_bind (execute_graph driver (CountRelations [(''fact_key'', PStr fact_key), (''control_version'', PInt version)]) s) (\<lambda>records s.
       (Answer (case records of [] \<Rightarrow> 0 | r # _ \<Rightarrow> (case dget r ''edge_count'' of PInt i \<Rightarrow> i | _ \<Rightarrow> 0)), s))"

definition neo4j_port :: "'s neo4j_driver \<Rightarrow> (graph_projection, 's) memory_port" where
  "neo4j_port driver =
     \<lparr>mp_stage = stage_graph driver, mp_probe = probe_graph driver, mp_activate = activate_graph driver, mp_retire_previous = retire_previous_graph driver\<rparr>"

text \<open>
  What Cypher documents of the statements: \<open>MERGE\<close> finds or creates a node by its key and a relation by its type, its ends and its projection id; \<open>SET\<close> writes the properties; \<open>WHERE\<close>
  selects relations by their properties. A statement that does not answer may or may not have had its effect.
\<close>

record graph_edge =
  ge_source :: pyval
  ge_type :: string
  ge_target :: pyval
  ge_props :: pydict

definition relation_props :: "pydict \<Rightarrow> pydict" where
  "relation_props ps =
     [(''control_fact_key'', dget ps ''fact_key''), (''control_version'', dget ps ''control_version''), (''mutation_id'', dget ps ''mutation_id''),
      (''projection_status'', dget ps ''staged_status''), (''confidence'', dget ps ''confidence''), (''source_type'', dget ps ''source_type''),
      (''evidence'', dget ps ''evidence''), (''expires_at'', dget ps ''expires_at''), (''version'', dget ps ''control_version''),
      (''timestamp'', dget ps ''timestamp'')]"

definition same_edge :: "string \<Rightarrow> pydict \<Rightarrow> graph_edge \<Rightarrow> bool" where
  "same_edge t ps e \<longleftrightarrow>
     ge_type e = t \<and> ge_source e = dget ps ''source_key'' \<and> ge_target e = dget ps ''target_key'' \<and> dget (ge_props e) ''projection_id'' = dget ps ''projection_id''"

definition merged_edges :: "string \<Rightarrow> pydict \<Rightarrow> pyval set \<Rightarrow> graph_edge list \<Rightarrow> graph_edge list" where
  "merged_edges t ps nodes es =
     (if dget ps ''source_key'' \<notin> nodes \<or> dget ps ''target_key'' \<notin> nodes then es
      else if list_ex (same_edge t ps) es
      then map (\<lambda>e. if same_edge t ps e then e\<lparr>ge_props := dupdate (ge_props e) (relation_props ps)\<rparr> else e) es
      else es @ [\<lparr>ge_source = dget ps ''source_key'', ge_type = t, ge_target = dget ps ''target_key'',
                  ge_props = (''projection_id'', dget ps ''projection_id'') # relation_props ps\<rparr>])"

definition edges_with_status :: "pyval \<Rightarrow> (pydict \<Rightarrow> bool) \<Rightarrow> graph_edge list \<Rightarrow> graph_edge list" where
  "edges_with_status status p es = map (\<lambda>e. if p (ge_props e) then e\<lparr>ge_props := dset ''projection_status'' status (ge_props e)\<rparr> else e) es"

definition props_older :: "pydict \<Rightarrow> pydict \<Rightarrow> bool" where
  "props_older ps d \<longleftrightarrow>
     dget d ''control_fact_key'' = dget ps ''fact_key'' \<and> dget d ''projection_status'' = dget ps ''active_status'' \<and>
     (case (dget d ''control_version'', dget ps ''control_version'') of (PInt i, PInt j) \<Rightarrow> i < j | _ \<Rightarrow> False)"

text \<open>The store after a statement: its nodes and its relations.\<close>

fun graph_effect :: "graph_query \<Rightarrow> pyval set \<times> graph_edge list \<Rightarrow> pyval set \<times> graph_edge list" where
  "graph_effect (MergeEntity l ps) (nodes, es) = (insert (dget ps ''entity_key'') nodes, es)"
| "graph_effect (MergeRelation t ps) (nodes, es) = (nodes, merged_edges t ps nodes es)"
| "graph_effect (ActivateRelation ps) (nodes, es) =
     (nodes, edges_with_status (dget ps ''active_status'') (\<lambda>d. dget d ''projection_id'' = dget ps ''projection_id'') es)"
| "graph_effect (RetireRelations ps) (nodes, es) = (nodes, edges_with_status (dget ps ''retired_status'') (props_older ps) es)"
| "graph_effect (ProbeRelation ps) g = g"
| "graph_effect (CountRelations ps) g = g"

definition probes :: "pydict \<Rightarrow> graph_edge \<Rightarrow> bool" where
  "probes ps e \<longleftrightarrow> dget (ge_props e) ''mutation_id'' = dget ps ''mutation_id'' \<and> dget (ge_props e) ''control_version'' = dget ps ''control_version''"

definition neo4j_ok :: "'s neo4j_driver \<Rightarrow> ('s \<Rightarrow> pyval set \<times> graph_edge list) \<Rightarrow> bool" where
  "neo4j_ok driver graph \<longleftrightarrow>
     (\<forall>q s res s'. driver q s = (res, s') \<longrightarrow>
        graph s' = graph_effect q (graph s) \<or> (\<forall>records. res \<noteq> Answer (Inr records)) \<and> graph s' = graph s) \<and>
     (\<forall>ps s records s'. driver (ProbeRelation ps) s = (Answer (Inr records), s') \<longrightarrow>
        (records = [] \<longrightarrow> (\<forall>e\<in>set (snd (graph s)). \<not> probes ps e)) \<and>
        (\<forall>r\<in>set records. \<exists>e\<in>set (snd (graph s)). probes ps e \<and> dget r ''projection_status'' = dget (ge_props e) ''projection_status''))"

definition edge_entry :: "graph_edge \<Rightarrow> store_entry" where
  "edge_entry e =
     \<lparr>se_id = dget (ge_props e) ''projection_id'', se_fact_key = dget (ge_props e) ''control_fact_key'',
      se_version = dget (ge_props e) ''control_version'', se_mutation_id = dget (ge_props e) ''mutation_id'',
      se_status = dget (ge_props e) ''projection_status''\<rparr>"

definition graph_own :: "graph_projection \<Rightarrow> store_entry" where
  "graph_own p =
     \<lparr>se_id = PStr (projection_id p), se_fact_key = PStr (gp_fact_key p), se_version = PInt (gp_control_version p),
      se_mutation_id = PStr (gp_mutation_id p), se_status = PStr ''STAGED''\<rparr>"

lemma execute_graph_effect:
  assumes ok: "neo4j_ok driver graph" and "execute_graph driver q s = (res, s')"
  shows "graph s' = graph_effect q (graph s) \<or> (\<forall>records. res \<noteq> Answer records) \<and> graph s' = graph s"
  using assms(2) unfolding execute_graph_def
proof (cases rule: call_bind_cases)
  case (answers r s1)
  then show ?thesis using ok [unfolded neo4j_ok_def, THEN conjunct1, rule_format, OF answers(1)] by (cases r) auto
next
  case (ends e)
  then show ?thesis using ok [unfolded neo4j_ok_def, THEN conjunct1, rule_format, OF ends(1)] by auto
qed

lemma execute_probe:
  assumes ok: "neo4j_ok driver graph" and "execute_graph driver (ProbeRelation ps) s = (Answer records, s')"
  shows "(records = [] \<longrightarrow> (\<forall>e\<in>set (snd (graph s)). \<not> probes ps e)) \<and>
    (\<forall>r\<in>set records. \<exists>e\<in>set (snd (graph s)). probes ps e \<and> dget r ''projection_status'' = dget (ge_props e) ''projection_status'')"
  using assms(2) unfolding execute_graph_def
proof (cases rule: call_bind_cases)
  case (answers r s1)
  then have "driver (ProbeRelation ps) s = (Answer (Inr records), s1)" by (auto split: sum.splits)
  then show ?thesis using ok unfolding neo4j_ok_def by blast
qed simp

lemma merged_entries:
  assumes "{PStr (entity_key (gp_source p)), PStr (entity_key (gp_target p))} \<subseteq> nodes"
  shows "staged_into (graph_own p) (edge_entry ` set es) (edge_entry ` set (merged_edges (gp_relation_type p) (relation_parameters p) nodes es))"
proof -
  let ?ps = "relation_parameters p"
  have props: "dget (dupdate d (relation_props ?ps)) ''control_fact_key'' = PStr (gp_fact_key p)" "dget (dupdate d (relation_props ?ps)) ''control_version'' = PInt (gp_control_version p)"
    "dget (dupdate d (relation_props ?ps)) ''mutation_id'' = PStr (gp_mutation_id p)" "dget (dupdate d (relation_props ?ps)) ''projection_status'' = PStr ''STAGED''"
    "dget (dupdate d (relation_props ?ps)) ''projection_id'' = dget d ''projection_id''" for d
    by (simp_all add: dupdate_def relation_props_def relation_parameters_def)
  have same: "edge_entry (e\<lparr>ge_props := dupdate (ge_props e) (relation_props ?ps)\<rparr>) = graph_own p" if "same_edge (gp_relation_type p) ?ps e" for e
    using that by (simp add: edge_entry_def graph_own_def props same_edge_def) (simp add: relation_parameters_def)
  have id: "se_id (edge_entry e) = PStr (projection_id p)" if "same_edge (gp_relation_type p) ?ps e" for e
    using that by (simp add: edge_entry_def same_edge_def) (simp add: relation_parameters_def)
  have new: "edge_entry \<lparr>ge_source = a, ge_type = t, ge_target = b, ge_props = (''projection_id'', dget ?ps ''projection_id'') # relation_props ?ps\<rparr> = graph_own p" for a t b
    by (simp add: edge_entry_def graph_own_def relation_props_def relation_parameters_def)
  have nodes: "dget ?ps ''source_key'' \<in> nodes" "dget ?ps ''target_key'' \<in> nodes" using assms by (simp_all add: relation_parameters_def)
  show ?thesis
  proof (cases "list_ex (same_edge (gp_relation_type p) ?ps) es")
    case True
    let ?g = "\<lambda>e. if same_edge (gp_relation_type p) ?ps e then e\<lparr>ge_props := dupdate (ge_props e) (relation_props ?ps)\<rparr> else e"
    have g: "edge_entry (?g e) = (if same_edge (gp_relation_type p) ?ps e then graph_own p else edge_entry e)" for e using same by simp
    have "merged_edges (gp_relation_type p) ?ps nodes es = map ?g es" using True nodes by (simp add: merged_edges_def)
    then have eq: "edge_entry ` set (merged_edges (gp_relation_type p) ?ps nodes es) = (\<lambda>e. if same_edge (gp_relation_type p) ?ps e then graph_own p else edge_entry e) ` set es"
      by (simp only: set_map image_image g)
    show ?thesis using True id unfolding staged_into_def eq by (auto simp: list_ex_iff graph_own_def)
  next
    case False
    then show ?thesis using nodes by (auto simp: staged_into_def merged_edges_def new)
  qed
qed

lemma edge_activated:
  "edge_entry ` set (edges_with_status (PStr ''ACTIVE'') (\<lambda>d. dget d ''projection_id'' = PStr (projection_id p)) es) = activated (graph_own p) ` edge_entry ` set es"
  unfolding edges_with_status_def set_map image_image by (rule image_cong) (simp_all add: edge_entry_def activated_def graph_own_def)

lemma edge_retired:
  assumes "dget ps ''fact_key'' = PStr (gp_fact_key p)" "dget ps ''active_status'' = PStr ''ACTIVE''" "dget ps ''control_version'' = PInt (gp_control_version p)"
  shows "edge_entry ` set (edges_with_status (PStr ''RETIRED'') (props_older ps) es) = retired (graph_own p) ` edge_entry ` set es"
  unfolding edges_with_status_def set_map image_image
  by (rule image_cong) (auto simp: edge_entry_def retired_def graph_own_def props_older_def older_def assms split: pyval.splits)

lemma stage_edges:
  assumes ok: "neo4j_ok driver graph" and "stage_graph driver p s = (res, s')"
  shows "staged_into (graph_own p) (edge_entry ` set (snd (graph s))) (edge_entry ` set (snd (graph s'))) \<or> res \<noteq> Answer () \<and> snd (graph s') = snd (graph s)"
  using assms(2) unfolding stage_graph_def
proof (cases rule: call_bind_cases)
  case (ends e)
  then show ?thesis using execute_graph_effect [OF ok ends(1)] by (cases "graph s") auto
next
  case (answers r1 s1)
  have g1: "graph s1 = (insert (PStr (entity_key (gp_source p))) (fst (graph s)), snd (graph s))"
    using execute_graph_effect [OF ok answers(1)] by (cases "graph s") (simp add: entity_parameters_def)
  from answers(2) show ?thesis
  proof (cases rule: call_bind_cases)
    case (ends e)
    then show ?thesis using execute_graph_effect [OF ok ends(1)] g1 by auto
  next
    case (answers r2 s2)
    have g2: "graph s2 = (insert (PStr (entity_key (gp_target p))) (insert (PStr (entity_key (gp_source p))) (fst (graph s))), snd (graph s))"
      using execute_graph_effect [OF ok answers(1)] g1 by (simp add: entity_parameters_def)
    note m = merged_entries [of p "fst (graph s2)" "snd (graph s)", unfolded g2 fst_conv]
    from answers(2) show ?thesis
    proof (cases rule: call_bind_cases)
      case (ends e)
      then show ?thesis using execute_graph_effect [OF ok ends(1)] g2 m by auto
    next
      case (answers r3 s3)
      then show ?thesis using execute_graph_effect [OF ok answers(1)] g2 m by auto
    qed
  qed
qed

lemma answer_after:
  assumes "call_bind c (\<lambda>_ s. (Answer (), s)) = (res, s')"
  shows "snd c = s' \<and> (res = Answer () \<longleftrightarrow> (\<exists>x. fst c = Answer x))"
  using assms by (cases rule: call_bind_cases) auto

lemma probe_edges:
  assumes ok: "neo4j_ok driver graph" and "probe_graph driver m v s = (res, s')"
  shows "graph s' = graph s \<and> (res = Answer None \<longrightarrow> (\<forall>e\<in>set (snd (graph s)). \<not> of_mutation m v (edge_entry e))) \<and>
    (\<forall>t. res = Answer (Some t) \<longrightarrow> (\<exists>e\<in>set (snd (graph s)). of_mutation m v (edge_entry e) \<and> t = py_str (se_status (edge_entry e))))"
  using assms(2) unfolding probe_graph_def
proof (cases rule: call_bind_cases)
  case (ends e)
  then show ?thesis using execute_graph_effect [OF ok ends(1)] by auto
next
  case (answers records s1)
  have of: "probes [(''mutation_id'', PStr m), (''control_version'', PInt v)] e \<longleftrightarrow> of_mutation m v (edge_entry e)" for e
    by (simp add: probes_def of_mutation_def edge_entry_def)
  note pr = execute_probe [OF ok answers(1), unfolded of]
  have g: "graph s1 = graph s" using execute_graph_effect [OF ok answers(1)] by simp
  show ?thesis
  proof (cases records)
    case Nil
    then show ?thesis using answers(2) pr g by auto
  next
    case (Cons r rs)
    then obtain e where "e \<in> set (snd (graph s))" "of_mutation m v (edge_entry e)" "dget r ''projection_status'' = dget (ge_props e) ''projection_status''"
      using pr by auto
    then show ?thesis using answers(2) Cons g by (auto simp: edge_entry_def)
  qed
qed

lemma neo4j_is_port:
  assumes ok: "neo4j_ok driver graph"
  shows "projection_port (neo4j_port driver) (\<lambda>s. edge_entry ` set (snd (graph s))) graph_own"
proof (unfold_locales, goal_cases)
  case (2 p s res s')
  then show ?case using stage_edges [OF ok, of p s res s'] by (auto simp: neo4j_port_def)
next
  case (3 p s res s')
  let ?q = "ActivateRelation [(''projection_id'', PStr (projection_id p)), (''active_status'', PStr ''ACTIVE'')]"
  have a: "snd (execute_graph driver ?q s) = s' \<and> (res = Answer () \<longleftrightarrow> (\<exists>x. fst (execute_graph driver ?q s) = Answer x))"
    using 3 answer_after by (simp add: neo4j_port_def activate_graph_def)
  have e: "snd (graph_effect ?q (graph s)) = edges_with_status (PStr ''ACTIVE'') (\<lambda>d. dget d ''projection_id'' = PStr (projection_id p)) (snd (graph s))"
    by (cases "graph s") simp
  have "graph s' = graph_effect ?q (graph s) \<or> res \<noteq> Answer () \<and> graph s' = graph s"
    using execute_graph_effect [OF ok prod.collapse [symmetric], of ?q s] a by blast
  then show ?case using edge_activated [of p "snd (graph s)", folded e] by metis
next
  case (4 p s res s')
  let ?ps = "[(''fact_key'', PStr (gp_fact_key p)), (''control_version'', PInt (gp_control_version p)), (''active_status'', PStr ''ACTIVE''), (''retired_status'', PStr ''RETIRED'')]"
  have a: "snd (execute_graph driver (RetireRelations ?ps) s) = s' \<and> (res = Answer () \<longleftrightarrow> (\<exists>x. fst (execute_graph driver (RetireRelations ?ps) s) = Answer x))"
    using 4 answer_after by (simp add: neo4j_port_def retire_previous_graph_def)
  have e: "snd (graph_effect (RetireRelations ?ps) (graph s)) = edges_with_status (PStr ''RETIRED'') (props_older ?ps) (snd (graph s))"
    by (cases "graph s") simp
  have "graph s' = graph_effect (RetireRelations ?ps) (graph s) \<or> res \<noteq> Answer () \<and> graph s' = graph s"
    using execute_graph_effect [OF ok prod.collapse [symmetric], of "RetireRelations ?ps" s] a by blast
  moreover have "edge_entry ` set (snd (graph_effect (RetireRelations ?ps) (graph s))) = retired (graph_own p) ` edge_entry ` set (snd (graph s))"
    unfolding e by (rule edge_retired) simp_all
  ultimately show ?case by metis
next
  case (5 m v s res s')
  then show ?case using probe_edges [OF ok, of m v s res s'] by (simp add: neo4j_port_def)
next
  case (6 m v s s' e)
  then show ?case using probe_edges [OF ok, of m v s "Answer None" s'] by (auto simp: neo4j_port_def)
next
  case (7 m v s t s')
  then show ?case using probe_edges [OF ok, of m v s "Answer (Some t)" s'] by (auto simp: neo4j_port_def)
qed (simp add: graph_own_def)

locale neo4j_store =
  fixes driver :: "'s neo4j_driver" and graph :: "'s \<Rightarrow> pyval set \<times> graph_edge list"
  assumes driver_ok: "neo4j_ok driver graph"

sublocale neo4j_store \<subseteq> projection_port "neo4j_port driver" "\<lambda>s. edge_entry ` set (snd (graph s))" graph_own
  by (rule neo4j_is_port [OF driver_ok])

section \<open>Stores in memory\<close>

text \<open>Clients that behave as documented and always answer.\<close>

definition list_client :: "qdrant_point list qdrant_client" where
  "list_client =
     \<lparr>qc_collection_exists = (\<lambda>_ s. (Answer True, s)), qc_create_collection = (\<lambda>_ _ s. (Answer (), s)),
      qc_upsert = (\<lambda>_ new s. (Answer (), upserted new s)), qc_set_payload = (\<lambda>_ d sel s. (Answer (), with_payload d sel s)),
      qc_scroll = (\<lambda>_ cs n s. (Answer (take n (filter (\<lambda>d. list_all (satisfies d) cs) (map qp_payload s))), s)),
      qc_count = (\<lambda>_ cs s. (Answer (int (length (filter (\<lambda>p. list_all (satisfies (qp_payload p)) cs) s))), s))\<rparr>"

definition list_driver :: "(pyval set \<times> graph_edge list) neo4j_driver" where
  "list_driver q s =
     (Answer (Inr (case q of
        ProbeRelation ps \<Rightarrow> map (\<lambda>e. [(''projection_status'', dget (ge_props e) ''projection_status'')]) (filter (probes ps) (snd s))
      | _ \<Rightarrow> [])), graph_effect q s)"

interpretation list_vectors: qdrant_store list_client "''dispatch_memory''" 2 "\<lambda>s. s"
proof
  have a: "set (take n (filter (\<lambda>d. list_all (satisfies d) cs) (map qp_payload s))) \<subseteq> {qp_payload p |p. p \<in> set s \<and> list_all (satisfies (qp_payload p)) cs}" for n cs s
    using set_take_subset by fastforce
  have b: "take n (filter (\<lambda>d. list_all (satisfies d) cs) (map qp_payload s)) = [] \<Longrightarrow> 0 < n \<Longrightarrow> p \<in> set s \<Longrightarrow> \<not> list_all (satisfies (qp_payload p)) cs" for n cs s p
    by (auto simp: filter_empty_conv)
  show "qdrant_ok list_client ''dispatch_memory'' (\<lambda>s. s)" unfolding qdrant_ok_def list_client_def by (simp del: take_eq_Nil) (use a b in blast)
qed

interpretation list_graph: neo4j_store list_driver "\<lambda>s. s"
  by unfold_locales (auto simp: neo4j_ok_def list_driver_def filter_empty_conv)

end
