(* ===== verification/Memory_Service.thy ===== *)
theory Memory_Service
  imports Memory_History Memory_Projections Execution_Lock
begin

text \<open>
  \<open>SharedMemoryMutationService\<close> (\<open>shared_memory/service.py\<close>) with its lock (\<open>redis_lock.py\<close>), its events (\<open>events.py\<close>) and the reconciler. A mutation is recorded under
  its idempotency key, decided by the policy, staged in the stores, finalised in the tables and activated in the stores; what is incomplete can be resumed. The
  stores, the embedding, the publisher of events and the client of the lock are parameters, as are clocks and drawn ids; metrics are left out.
\<close>

section \<open>The state and the calls\<close>

record ('r, 'v, 'g) memory_env =
  mv_policy :: memory_policy
  mv_vector_port :: "(vector_projection, 'v) memory_port"
  mv_graph_port :: "(graph_projection, 'g) memory_port"
  mv_embed_text :: "string \<Rightarrow> rat list reply"
  mv_publish :: "string \<Rightarrow> pydict \<Rightarrow> unit reply"
  mv_clock :: "nat \<Rightarrow> int"
  mv_db_clock :: "nat \<Rightarrow> int"
  mv_mutation_id :: string
  mv_evidence_id :: string
  mv_fact_id :: string
  mv_attempt_id :: string
  mv_lock_client :: "'r lock_client"
  mv_lock_ttl_ms :: int
  mv_lock_token :: string

record ('r, 'v, 'g) memory_world =
  mw_db :: memory_db
  mw_lock :: 'r
  mw_vector :: 'v
  mw_graph :: 'g

definition mem_bind :: "(memory_error + 'a) \<times> 'w \<Rightarrow> ('a \<Rightarrow> 'w \<Rightarrow> (memory_error + 'b) \<times> 'w) \<Rightarrow> (memory_error + 'b) \<times> 'w" where
  "mem_bind c f = (case c of (Inl e, w) \<Rightarrow> (Inl e, w) | (Inr x, w) \<Rightarrow> f x w)"

lemma mem_bind_simps [simp]: "mem_bind (Inl e, w) f = (Inl e, w)" "mem_bind (Inr x, w) f = f x w"
  by (simp_all add: mem_bind_def)

definition on_db :: "(memory_db \<Rightarrow> 'a mem_result) \<Rightarrow> ('r, 'v, 'g) memory_world \<Rightarrow> (memory_error + 'a) \<times> ('r, 'v, 'g) memory_world" where
  "on_db f w = (case f (mw_db w) of (res, db) \<Rightarrow> (res, w\<lparr>mw_db := db\<rparr>))"

definition on_vector :: "('v \<Rightarrow> 'a reply \<times> 'v) \<Rightarrow> ('r, 'v, 'g) memory_world \<Rightarrow> 'a reply \<times> ('r, 'v, 'g) memory_world" where
  "on_vector f w = (case f (mw_vector w) of (res, s) \<Rightarrow> (res, w\<lparr>mw_vector := s\<rparr>))"

definition on_graph :: "('g \<Rightarrow> 'a reply \<times> 'g) \<Rightarrow> ('r, 'v, 'g) memory_world \<Rightarrow> 'a reply \<times> ('r, 'v, 'g) memory_world" where
  "on_graph f w = (case f (mw_graph w) of (res, s) \<Rightarrow> (res, w\<lparr>mw_graph := s\<rparr>))"

text \<open>The exception of a call that is not handled where it is made.\<close>

fun unhandled :: "'a reply \<Rightarrow> memory_error" where
  "unhandled (Raise t) = ProviderRaised t"
| "unhandled Late = ProviderRaised ''TimeoutError''"
| "unhandled Stopped = MutationTimedOut"
| "unhandled (Answer _) = MutationTimedOut"

definition awaited :: "'a reply \<times> 'w \<Rightarrow> (memory_error + 'a) \<times> 'w" where
  "awaited c = (case c of (Answer x, w) \<Rightarrow> (Inr x, w) | (e, w) \<Rightarrow> (Inl (unhandled e), w))"

section \<open>Results and events\<close>

record memory_result =
  rs_mutation_id :: string
  rs_fact_key :: string
  rs_decision :: mutation_decision
  rs_status :: mutation_status
  rs_before_version :: "int option"
  rs_after_version :: "int option"
  rs_vector_status :: projection_status
  rs_graph_status :: projection_status
  rs_projection_incomplete :: bool
  rs_error_code :: "string option"
  rs_error_summary :: "string option"

text \<open>\<open>MutationDecision(None)\<close> raises.\<close>

definition result_of :: "memory_mutation \<Rightarrow> memory_error + memory_result" where
  "result_of m =
     (case mm_decision m of
        None \<Rightarrow> Inl NoSuchDecision
      | Some d \<Rightarrow>
          Inr \<lparr>rs_mutation_id = mm_mutation_id m, rs_fact_key = mm_fact_key m, rs_decision = d, rs_status = mm_status m,
               rs_before_version = mm_before_version m, rs_after_version = mm_after_version m, rs_vector_status = mm_vector_status m,
               rs_graph_status = mm_graph_status m, rs_projection_incomplete = (mm_status m \<in> {PARTIAL, FINALIZING}),
               rs_error_code = mm_error_code m, rs_error_summary = mm_error_summary m\<rparr>)"

definition publish_requested :: "('r, 'v, 'g) memory_env \<Rightarrow> string \<Rightarrow> string \<Rightarrow> 'w \<Rightarrow> (memory_error + unit) \<times> 'w" where
  "publish_requested env mutation_id fact_key w =
     awaited (mv_publish env ''MEMORY_MUTATION_REQUESTED'' [(''mutation_id'', PStr mutation_id), (''fact_key'', PStr fact_key)], w)"

fun terminal_event :: "mutation_status \<Rightarrow> string option" where
  "terminal_event APPLIED = Some ''MEMORY_MUTATION_APPLIED''"
| "terminal_event REJECTED = Some ''MEMORY_MUTATION_REJECTED''"
| "terminal_event CONFLICT = Some ''MEMORY_MUTATION_CONFLICT''"
| "terminal_event PARTIAL = Some ''MEMORY_MUTATION_PARTIAL''"
| "terminal_event _ = None"

definition publish_terminal :: "('r, 'v, 'g) memory_env \<Rightarrow> memory_result \<Rightarrow> 'w \<Rightarrow> (memory_error + unit) \<times> 'w" where
  "publish_terminal env result w =
     (case terminal_event (rs_status result) of
        None \<Rightarrow> (Inl NoTerminalEvent, w)
      | Some event_type \<Rightarrow>
          awaited (mv_publish env event_type
            [(''mutation_id'', PStr (rs_mutation_id result)), (''fact_key'', PStr (rs_fact_key result)),
             (''decision'', PStr (decision_value (rs_decision result))), (''status'', PStr (mutation_status_value (rs_status result))),
             (''before_version'', opt_int (rs_before_version result)), (''after_version'', opt_int (rs_after_version result)),
             (''vector_status'', PStr (projection_status_value (rs_vector_status result))),
             (''graph_status'', PStr (projection_status_value (rs_graph_status result)))], w))"

definition publish_result :: "('r, 'v, 'g) memory_env \<Rightarrow> memory_mutation \<Rightarrow> 'w \<Rightarrow> (memory_error + memory_result) \<times> 'w" where
  "publish_result env m w =
     mem_bind (result_of m, w) (\<lambda>result w. mem_bind (publish_terminal env result w) (\<lambda>_ w. (Inr result, w)))"

text \<open>\<open>isupper\<close> and \<open>isdigit\<close> are modelled on the ASCII characters, which is what the codes of the stores consist of.\<close>

definition safe_error_code :: "string \<Rightarrow> string" where
  "safe_error_code t =
     (if t \<noteq> [] \<and> length t \<le> 64 \<and> list_all (\<lambda>c. is_digit c \<or> c = CHR ''_'' \<or> 65 \<le> byte_of c \<and> byte_of c \<le> 90) t then t
      else ''PROJECTION_OPERATION_FAILED'')"

section \<open>Staging and activating\<close>

text \<open>The answer is the code of the error, if there was one.\<close>

definition stage_projection :: "string \<Rightarrow> memory_target \<Rightarrow> (('r, 'v, 'g) memory_world \<Rightarrow> unit reply \<times> ('r, 'v, 'g) memory_world) \<Rightarrow>
    ('r, 'v, 'g) memory_world \<Rightarrow> (memory_error + string option) \<times> ('r, 'v, 'g) memory_world" where
  "stage_projection mutation_id target stage w =
     (case stage w of
        (Answer _, w) \<Rightarrow> mem_bind (on_db (\<lambda>db. update_projection_status db db mutation_id target STAGED) w) (\<lambda>_ w. (Inr None, w))
      | (Late, w) \<Rightarrow> mem_bind (on_db (\<lambda>db. update_projection_status db db mutation_id target PROJECTION_FAILED) w)
                      (\<lambda>_ w. (Inr (Some ''PROJECTION_TIMEOUT''), w))
      | (Raise t, w) \<Rightarrow> mem_bind (on_db (\<lambda>db. update_projection_status db db mutation_id target PROJECTION_FAILED) w)
                         (\<lambda>_ w. (Inr (Some (safe_error_code t)), w))
      | (Stopped, w) \<Rightarrow> (Inl MutationTimedOut, w))"

definition activate_projection :: "string \<Rightarrow> memory_target \<Rightarrow> (('r, 'v, 'g) memory_world \<Rightarrow> unit reply \<times> ('r, 'v, 'g) memory_world) \<Rightarrow>
    (('r, 'v, 'g) memory_world \<Rightarrow> unit reply \<times> ('r, 'v, 'g) memory_world) \<Rightarrow> ('r, 'v, 'g) memory_world \<Rightarrow>
    (memory_error + string option) \<times> ('r, 'v, 'g) memory_world" where
  "activate_projection mutation_id target activate retire_previous w =
     (case call_bind (activate w) (\<lambda>_ w. retire_previous w) of
        (Answer _, w) \<Rightarrow> mem_bind (on_db (\<lambda>db. update_projection_status db db mutation_id target ACTIVE) w) (\<lambda>_ w. (Inr None, w))
      | (Late, w) \<Rightarrow> (Inr (Some ''PROJECTION_TIMEOUT''), w)
      | (Raise t, w) \<Rightarrow> (Inr (Some (safe_error_code t)), w)
      | (Stopped, w) \<Rightarrow> (Inl MutationTimedOut, w))"

definition partial_summary :: string where
  "partial_summary = ''A required memory projection is incomplete''"

definition finish_partial :: "('r, 'v, 'g) memory_env \<Rightarrow> string \<Rightarrow> string \<Rightarrow> ('r, 'v, 'g) memory_world \<Rightarrow>
    (memory_error + memory_result) \<times> ('r, 'v, 'g) memory_world" where
  "finish_partial env mutation_id error_code w =
     mem_bind (on_db (\<lambda>db. memory_mark_partial db db mutation_id error_code partial_summary) w) (\<lambda>stored w.
     mem_bind (on_db (\<lambda>db. memory_append_attempt db db mutation_id PARTIAL (PROJECTION_PENDING, mm_vector_status stored)
         (PROJECTION_PENDING, mm_graph_status stored) (Some error_code) (Some partial_summary) (mv_attempt_id env) (mv_db_clock env 3)) w) (\<lambda>_ w.
     publish_result env stored w))"

text \<open>\<open>mark_applied\<close> with the attempt and the event; \<open>before\<close> are the statuses the attempt started from.\<close>

definition finish_applied :: "('r, 'v, 'g) memory_env \<Rightarrow> string \<Rightarrow> projection_status \<times> projection_status \<Rightarrow> ('r, 'v, 'g) memory_world \<Rightarrow>
    (memory_error + memory_result) \<times> ('r, 'v, 'g) memory_world" where
  "finish_applied env mutation_id before w =
     mem_bind (on_db (\<lambda>db. memory_mark_applied db db mutation_id (mv_clock env 2)) w) (\<lambda>stored w.
     mem_bind (on_db (\<lambda>db. memory_append_attempt db db mutation_id APPLIED (fst before, mm_vector_status stored)
         (snd before, mm_graph_status stored) None None (mv_attempt_id env) (mv_db_clock env 3)) w) (\<lambda>_ w.
     publish_result env stored w))"

section \<open>\_mutate\_locked\<close>

definition stage_new_vector :: "('r, 'v, 'g) memory_env \<Rightarrow> memory_command \<Rightarrow> string \<Rightarrow> string \<Rightarrow> int \<Rightarrow> ('r, 'v, 'g) memory_world \<Rightarrow>
    (memory_error + vector_projection option \<times> string option) \<times> ('r, 'v, 'g) memory_world" where
  "stage_new_vector env cmd mutation_id fact_key version w =
     (if VECTOR \<notin> set (mc_targets cmd) then (Inr (None, None), w)
      else mem_bind (awaited (build_vector (mv_embed_text env) cmd mutation_id fact_key version, w)) (\<lambda>p w.
           mem_bind (stage_projection mutation_id VECTOR (on_vector (mp_stage (mv_vector_port env) p)) w) (\<lambda>err w. (Inr (Some p, err), w))))"

definition stage_new_graph :: "('r, 'v, 'g) memory_env \<Rightarrow> memory_command \<Rightarrow> string \<Rightarrow> string \<Rightarrow> int \<Rightarrow> ('r, 'v, 'g) memory_world \<Rightarrow>
    (memory_error + graph_projection option \<times> string option) \<times> ('r, 'v, 'g) memory_world" where
  "stage_new_graph env cmd mutation_id fact_key version w =
     (if GRAPH \<notin> set (mc_targets cmd) then (Inr (None, None), w)
      else mem_bind (build_graph cmd mutation_id fact_key version, w) (\<lambda>p w.
           mem_bind (stage_projection mutation_id GRAPH (on_graph (mp_stage (mv_graph_port env) p)) w) (\<lambda>err w. (Inr (Some p, err), w))))"

definition activate_vector_spec :: "('r, 'v, 'g) memory_env \<Rightarrow> string \<Rightarrow> vector_projection \<Rightarrow> ('r, 'v, 'g) memory_world \<Rightarrow>
    (memory_error + string option) \<times> ('r, 'v, 'g) memory_world" where
  "activate_vector_spec env mutation_id p w =
     activate_projection mutation_id VECTOR (on_vector (mp_activate (mv_vector_port env) p)) (on_vector (mp_retire_previous (mv_vector_port env) p)) w"

definition activate_graph_spec :: "('r, 'v, 'g) memory_env \<Rightarrow> string \<Rightarrow> graph_projection \<Rightarrow> ('r, 'v, 'g) memory_world \<Rightarrow>
    (memory_error + string option) \<times> ('r, 'v, 'g) memory_world" where
  "activate_graph_spec env mutation_id p w =
     activate_projection mutation_id GRAPH (on_graph (mp_activate (mv_graph_port env) p)) (on_graph (mp_retire_previous (mv_graph_port env) p)) w"

definition for_spec :: "'p option \<Rightarrow> ('p \<Rightarrow> 'w \<Rightarrow> (memory_error + string option) \<times> 'w) \<Rightarrow> 'w \<Rightarrow> (memory_error + string option) \<times> 'w" where
  "for_spec spec f w = (case spec of None \<Rightarrow> (Inr None, w) | Some p \<Rightarrow> f p w)"

definition first_error :: "string option \<Rightarrow> string option \<Rightarrow> string option" where
  "first_error a b = (case a of None \<Rightarrow> b | Some _ \<Rightarrow> a)"

definition apply_projections :: "('r, 'v, 'g) memory_env \<Rightarrow> memory_command \<Rightarrow> memory_fingerprints \<Rightarrow> memory_decision \<Rightarrow> string \<Rightarrow>
    ('r, 'v, 'g) memory_world \<Rightarrow> (memory_error + memory_result) \<times> ('r, 'v, 'g) memory_world" where
  "apply_projections env cmd fp d mutation_id w =
     mem_bind (on_db (\<lambda>db. memory_mark_applying db db mutation_id) w) (\<lambda>_ w.
     case md_after_version d of
       None \<Rightarrow> (Inl NoAfterVersion, w)
     | Some version \<Rightarrow>
         mem_bind (stage_new_vector env cmd mutation_id (mf_fact_key fp) version w) (\<lambda>(vector_spec, vector_error) w.
         mem_bind (stage_new_graph env cmd mutation_id (mf_fact_key fp) version w) (\<lambda>(graph_spec, graph_error) w.
         case first_error vector_error graph_error of
           Some err \<Rightarrow> finish_partial env mutation_id err w
         | None \<Rightarrow>
             mem_bind (on_db (\<lambda>db. finalize_canonical db db mutation_id cmd fp d (mv_fact_id env) (mv_clock env 1)) w) (\<lambda>_ w.
             mem_bind (for_spec vector_spec (activate_vector_spec env mutation_id) w) (\<lambda>vector_error w.
             mem_bind (for_spec graph_spec (activate_graph_spec env mutation_id) w) (\<lambda>graph_error w.
             case first_error vector_error graph_error of
               Some err \<Rightarrow> finish_partial env mutation_id err w
             | None \<Rightarrow> finish_applied env mutation_id (PROJECTION_PENDING, PROJECTION_PENDING) w))))))"

definition finish_decided :: "('r, 'v, 'g) memory_env \<Rightarrow> memory_command \<Rightarrow> memory_fingerprints \<Rightarrow> memory_decision \<Rightarrow> bool \<Rightarrow> string \<Rightarrow>
    ('r, 'v, 'g) memory_world \<Rightarrow> (memory_error + memory_result) \<times> ('r, 'v, 'g) memory_world" where
  "finish_decided env cmd fp d is_new mutation_id w =
     mem_bind (if md_decision d = CONFLICT_REVIEW \<and> is_new
               then mem_bind (on_db (\<lambda>db. create_pending_review db db mutation_id cmd fp (mv_fact_id env) (mv_clock env 1)) w) (\<lambda>_ w. (Inr (), w))
               else (Inr (), w)) (\<lambda>_ w.
     mem_bind (get_mutation (mw_db w) mutation_id, w) (\<lambda>stored w. publish_result env stored w))"

definition mutate_locked :: "('r, 'v, 'g) memory_env \<Rightarrow> memory_command \<Rightarrow> memory_fingerprints \<Rightarrow> ('r, 'v, 'g) memory_world \<Rightarrow>
    (memory_error + memory_result) \<times> ('r, 'v, 'g) memory_world" where
  "mutate_locked env cmd fp w =
     mem_bind (on_db (\<lambda>db. memory_begin_or_replay db db cmd fp (mv_mutation_id env) (mv_db_clock env 0)) w) (\<lambda>(mutation_id, replayed) w.
     if replayed then mem_bind (get_mutation (mw_db w) mutation_id, w) (\<lambda>stored w. (result_of stored, w))
     else
       mem_bind (publish_requested env mutation_id (mf_fact_key fp) w) (\<lambda>_ w.
       let current = load_fact (mw_db w) (mf_fact_key fp)
       in mem_bind (evaluate_mutation current cmd (mv_policy env) (mv_clock env 0), w) (\<lambda>d w.
          mem_bind (on_db (\<lambda>db. record_decision db db mutation_id d (mv_db_clock env 1)) w) (\<lambda>_ w.
          mem_bind (on_db (\<lambda>db. append_evidence db db mutation_id cmd fp (mv_evidence_id env) (mv_db_clock env 2)) w) (\<lambda>_ w.
          if md_requires_projection d then apply_projections env cmd fp d mutation_id w
          else finish_decided env cmd fp d (current = None) mutation_id w)))))"

section \<open>\_resume\_locked\<close>

text \<open>An entry that is staged or active already is not staged again, and one that is active is not activated again.\<close>

definition resume_stage :: "string \<Rightarrow> memory_target \<Rightarrow> (('r, 'v, 'g) memory_world \<Rightarrow> string option reply \<times> ('r, 'v, 'g) memory_world) \<Rightarrow>
    (('r, 'v, 'g) memory_world \<Rightarrow> unit reply \<times> ('r, 'v, 'g) memory_world) \<Rightarrow> ('r, 'v, 'g) memory_world \<Rightarrow>
    (memory_error + string option) \<times> ('r, 'v, 'g) memory_world" where
  "resume_stage mutation_id target probe stage w =
     mem_bind (awaited (probe w)) (\<lambda>state w.
       if state = Some ''STAGED'' then mem_bind (on_db (\<lambda>db. update_projection_status db db mutation_id target STAGED) w) (\<lambda>_ w. (Inr None, w))
       else if state = Some ''ACTIVE'' then mem_bind (on_db (\<lambda>db. update_projection_status db db mutation_id target ACTIVE) w) (\<lambda>_ w. (Inr None, w))
       else stage_projection mutation_id target stage w)"

definition resume_vector :: "('r, 'v, 'g) memory_env \<Rightarrow> memory_command \<Rightarrow> string \<Rightarrow> string \<Rightarrow> int \<Rightarrow> ('r, 'v, 'g) memory_world \<Rightarrow>
    (memory_error + vector_projection option \<times> string option) \<times> ('r, 'v, 'g) memory_world" where
  "resume_vector env cmd mutation_id fact_key version w =
     (if VECTOR \<notin> set (mc_targets cmd) then (Inr (None, None), w)
      else mem_bind (awaited (build_vector (mv_embed_text env) cmd mutation_id fact_key version, w)) (\<lambda>p w.
           mem_bind (resume_stage mutation_id VECTOR (on_vector (mp_probe (mv_vector_port env) mutation_id version))
                       (on_vector (mp_stage (mv_vector_port env) p)) w) (\<lambda>err w. (Inr (Some p, err), w))))"

definition resume_graph :: "('r, 'v, 'g) memory_env \<Rightarrow> memory_command \<Rightarrow> string \<Rightarrow> string \<Rightarrow> int \<Rightarrow> ('r, 'v, 'g) memory_world \<Rightarrow>
    (memory_error + graph_projection option \<times> string option) \<times> ('r, 'v, 'g) memory_world" where
  "resume_graph env cmd mutation_id fact_key version w =
     (if GRAPH \<notin> set (mc_targets cmd) then (Inr (None, None), w)
      else mem_bind (build_graph cmd mutation_id fact_key version, w) (\<lambda>p w.
           mem_bind (resume_stage mutation_id GRAPH (on_graph (mp_probe (mv_graph_port env) mutation_id version))
                       (on_graph (mp_stage (mv_graph_port env) p)) w) (\<lambda>err w. (Inr (Some p, err), w))))"

definition resume_activate :: "(('r, 'v, 'g) memory_world \<Rightarrow> string option reply \<times> ('r, 'v, 'g) memory_world) \<Rightarrow>
    (('r, 'v, 'g) memory_world \<Rightarrow> (memory_error + string option) \<times> ('r, 'v, 'g) memory_world) \<Rightarrow> ('r, 'v, 'g) memory_world \<Rightarrow>
    (memory_error + string option) \<times> ('r, 'v, 'g) memory_world" where
  "resume_activate probe activate w =
     mem_bind (awaited (probe w)) (\<lambda>state w. if state = Some ''ACTIVE'' then (Inr None, w) else activate w)"

definition resumed_decision :: "memory_mutation \<Rightarrow> mutation_decision \<Rightarrow> int \<Rightarrow> memory_decision" where
  "resumed_decision stored d version =
     \<lparr>md_decision = d, md_reason_code = (case py_or (mm_reason_code stored) None of None \<Rightarrow> ''RESUME'' | Some s \<Rightarrow> s),
      md_before_version = mm_before_version stored, md_after_version = Some version, md_proposed_status = FACT_ACTIVE, md_requires_projection = True\<rparr>"

definition resume_locked :: "('r, 'v, 'g) memory_env \<Rightarrow> memory_mutation \<Rightarrow> ('r, 'v, 'g) memory_world \<Rightarrow>
    (memory_error + memory_result) \<times> ('r, 'v, 'g) memory_world" where
  "resume_locked env stored w =
     (let cmd = mm_command stored; fp = fingerprints cmd; i = mm_mutation_id stored
      in if mf_fact_key fp \<noteq> mm_fact_key stored then (Inl IdentityInvalid, w)
         else case (mm_decision stored, mm_after_version stored) of
           (Some d, Some version) \<Rightarrow>
             mem_bind (on_db (\<lambda>db. memory_mark_applying db db i) w) (\<lambda>_ w.
             mem_bind (resume_vector env cmd i (mm_fact_key stored) version w) (\<lambda>(vector_spec, vector_error) w.
             mem_bind (resume_graph env cmd i (mm_fact_key stored) version w) (\<lambda>(graph_spec, graph_error) w.
             case first_error vector_error graph_error of
               Some err \<Rightarrow> finish_partial env i err w
             | None \<Rightarrow>
                 mem_bind (on_db (\<lambda>db. finalize_canonical db db i cmd fp (resumed_decision stored d version) (mv_fact_id env) (mv_clock env 1)) w) (\<lambda>_ w.
                 mem_bind (for_spec vector_spec (\<lambda>p. resume_activate (on_vector (mp_probe (mv_vector_port env) i version)) (activate_vector_spec env i p)) w) (\<lambda>vector_error w.
                 mem_bind (for_spec graph_spec (\<lambda>p. resume_activate (on_graph (mp_probe (mv_graph_port env) i version)) (activate_graph_spec env i p)) w) (\<lambda>graph_error w.
                 case first_error vector_error graph_error of
                   Some err \<Rightarrow> finish_partial env i err w
                 | None \<Rightarrow> finish_applied env i (mm_vector_status stored, mm_graph_status stored) w))))))
         | _ \<Rightarrow> (Inl DecisionIncomplete, w))"

section \<open>mutate, resume\_mutation\<close>

definition memory_lock_prefix :: string where
  "memory_lock_prefix = ''countyflow:lock:memory:''"

text \<open>The lock is released whatever happens inside; a release that raises hides the result.\<close>

definition with_fact_lock :: "('r, 'v, 'g) memory_env \<Rightarrow> string \<Rightarrow> (('r, 'v, 'g) memory_world \<Rightarrow> (memory_error + 'a) \<times> ('r, 'v, 'g) memory_world) \<Rightarrow>
    ('r, 'v, 'g) memory_world \<Rightarrow> (memory_error + 'a) \<times> ('r, 'v, 'g) memory_world" where
  "with_fact_lock env fact_key body w =
     (case acquire (mv_lock_client env) memory_lock_prefix (mv_lock_ttl_ms env) (mv_lock_token env) fact_key (mw_lock w) of
        (Inl _, r) \<Rightarrow> (Inl MemoryLockFailed, w\<lparr>mw_lock := r\<rparr>)
      | (Inr handle, r) \<Rightarrow>
          if \<not> lh_acquired handle then (Inl MutationBusy, w\<lparr>mw_lock := r\<rparr>)
          else (case body (w\<lparr>mw_lock := r\<rparr>) of
                  (res, w) \<Rightarrow>
                    (case release (mv_lock_client env) handle (mw_lock w) of
                       (Inl _, r) \<Rightarrow> (Inl MemoryLockFailed, w\<lparr>mw_lock := r\<rparr>)
                     | (Inr _, r) \<Rightarrow> (res, w\<lparr>mw_lock := r\<rparr>))))"

fun allowed_targets :: "memory_fact_kind \<Rightarrow> memory_target set" where
  "allowed_targets ATTRIBUTE = {GRAPH}"
| "allowed_targets RELATIONSHIP = {GRAPH}"
| "allowed_targets EXPERIENCE = {VECTOR}"
| "allowed_targets HYBRID = {VECTOR, GRAPH}"

definition validate_command :: "memory_command \<Rightarrow> memory_error + unit" where
  "validate_command cmd =
     (if mc_category cmd \<noteq> DISPATCH \<or> set (mc_targets cmd) \<noteq> allowed_targets (mc_fact_kind cmd) then Inl TargetsInvalid else Inr ())"

definition mutate :: "('r, 'v, 'g) memory_env \<Rightarrow> memory_command \<Rightarrow> ('r, 'v, 'g) memory_world \<Rightarrow>
    (memory_error + memory_result) \<times> ('r, 'v, 'g) memory_world" where
  "mutate env cmd w =
     mem_bind (validate_command cmd, w) (\<lambda>_ w.
       with_fact_lock env (build_fact_key cmd) (mutate_locked env cmd (fingerprints cmd)) w)"

definition resume_mutation :: "('r, 'v, 'g) memory_env \<Rightarrow> string \<Rightarrow> ('r, 'v, 'g) memory_world \<Rightarrow>
    (memory_error + memory_result) \<times> ('r, 'v, 'g) memory_world" where
  "resume_mutation env mutation_id w =
     mem_bind (get_mutation (mw_db w) mutation_id, w) (\<lambda>stored w.
       if mm_status stored \<in> {APPLIED, REJECTED, CONFLICT, FAILED} then (result_of stored, w)
       else with_fact_lock env (mm_fact_key stored) (resume_locked env stored) w)"

definition get_mutation_result :: "memory_db \<Rightarrow> string \<Rightarrow> memory_error + memory_result" where
  "get_mutation_result db mutation_id = res_bind (get_mutation db mutation_id) result_of"

end
