(* ===== verification/Memory_Runs.thy ===== *)
theory Memory_Runs
  imports Memory_Service
begin

text \<open>
  Whole calls of the memory service that meet no other session: a mutation that the policy accepts is applied and projected; a mutation that is repeated answers as the first one did.
\<close>

section \<open>One mutation in the tables\<close>

lemma first_match_map: "(\<And>x. q (g x) \<longleftrightarrow> q x) \<Longrightarrow> first_match q (map g xs) = map_option g (first_match q xs)"
  by (induction xs) simp_all

lemma other_tables [simp]:
  "find_mutation (db\<lparr>db_attempts := x\<rparr>) i = find_mutation db i" "mutation_by_key (db\<lparr>db_attempts := x\<rparr>) k = mutation_by_key db k"
  "find_mutation (db\<lparr>db_evidence := y\<rparr>) i = find_mutation db i" "mutation_by_key (db\<lparr>db_evidence := y\<rparr>) k = mutation_by_key db k"
  "find_mutation (db\<lparr>db_facts := z\<rparr>) i = find_mutation db i" "mutation_by_key (db\<lparr>db_facts := z\<rparr>) k = mutation_by_key db k"
  by (simp_all add: find_mutation_def mutation_by_key_def)

text \<open>The row of the mutation under its id and its key, the facts and the attempts.\<close>

definition stands :: "memory_db \<Rightarrow> string \<Rightarrow> memory_mutation \<Rightarrow> memory_fact list \<Rightarrow> memory_attempt list \<Rightarrow> bool" where
  "stands db i m fs as \<longleftrightarrow>
     mm_mutation_id m = i \<and> find_mutation db i = Some m \<and> mutation_by_key db (mm_idempotency_key m) = Some m \<and> db_facts db = fs \<and> db_attempts db = as"

lemma put_mutation_stands:
  assumes "stands db i m fs as" "\<forall>m. same_request m (f m)" shows "stands (put_mutation db i f) i (f m) fs as"
proof -
  let ?g = "\<lambda>m. if mm_mutation_id m = i then f m else m"
  have s: "mm_mutation_id (f n) = mm_mutation_id n" "mm_idempotency_key (f n) = mm_idempotency_key n" for n using assms(2) by (simp_all add: same_request_def)
  have "first_match (\<lambda>n. mm_mutation_id n = i) (map ?g (db_mutations db)) = map_option ?g (first_match (\<lambda>n. mm_mutation_id n = i) (db_mutations db))"
    "first_match (\<lambda>n. mm_idempotency_key n = mm_idempotency_key m) (map ?g (db_mutations db)) =
       map_option ?g (first_match (\<lambda>n. mm_idempotency_key n = mm_idempotency_key m) (db_mutations db))"
    by (rule first_match_map, simp add: s)+
  then show ?thesis using assms(1) s
    by (simp add: stands_def find_mutation_def mutation_by_key_def put_mutation_def)
qed

lemma set_mutation_fields_stands:
  assumes "stands db i m fs as" "\<forall>m. same_request m (f m)"
  shows "set_mutation_fields db db i f = (Inr (f m), put_mutation db i f)" "stands (put_mutation db i f) i (f m) fs as"
  using assms put_mutation_stands [OF assms] by (auto simp: set_mutation_fields_def stands_def)

lemma link_evidence_stands [simp]: "stands (link_evidence db i' j) i m fs as \<longleftrightarrow> stands db i m fs as"
  by (simp add: stands_def link_evidence_def find_mutation_def mutation_by_key_def)

text \<open>The evidence of the mutation is added, unless the table has it already or has its id.\<close>

definition evidence_after :: "memory_db \<Rightarrow> string \<Rightarrow> memory_command \<Rightarrow> memory_fingerprints \<Rightarrow> string \<Rightarrow> int \<Rightarrow> memory_evidence list" where
  "evidence_after db i cmd fp e now =
     (if evidence_of_mutation db i (mf_evidence_fingerprint fp) \<or> list_ex (\<lambda>x. ev_evidence_id x = e) (db_evidence db) then db_evidence db
      else db_evidence db @ [new_memory_evidence i cmd fp e now])"

lemma append_evidence_stands:
  assumes "stands db i m fs as"
  shows "\<exists>b db'. append_evidence db db i cmd fp e now = (Inr b, db') \<and> stands db' i m fs as \<and> db_evidence db' = evidence_after db i cmd fp e now"
  using assms by (auto simp: append_evidence_def evidence_after_def stands_def)

lemma append_attempt_stands:
  assumes "stands db i m fs as" "\<forall>a\<in>set as. ma_attempt_id a \<noteq> j"
  shows "\<exists>n db' a. memory_append_attempt db db i res v g c su j now = (Inr n, db') \<and> stands db' i m fs (as @ [a]) \<and> ma_attempt_id a = j \<and> ma_result a = res"
proof -
  have up: "y \<le> foldl max x xs" if "y \<in> set xs" for x y :: int and xs
  proof -
    have "foldl max x xs = Max (set (x # xs))" unfolding Max.set_eq_fold by (simp add: foldl_conv_fold max.commute)
    then show ?thesis using that by simp
  qed
  have "ma_attempt_no a \<le> latest_memory_attempt db i" if "a \<in> set as" "ma_mutation_id a = i" for a
    using that assms(1) up [of "ma_attempt_no a" "map ma_attempt_no (filter (\<lambda>a. ma_mutation_id a = i) as)" 0] by (simp add: latest_memory_attempt_def stands_def)
  then have "\<not> list_ex (\<lambda>a. ma_attempt_id a = j \<or> ma_mutation_id a = i \<and> ma_attempt_no a = latest_memory_attempt db i + 1) (db_attempts db)"
    using assms by (force simp: list_ex_iff stands_def)
  moreover have "stands (db\<lparr>db_attempts := db_attempts db @ [a]\<rparr>) i m fs (as @ [a])" for a
    using assms(1) by (simp add: stands_def find_mutation_def mutation_by_key_def)
  ultimately show ?thesis using assms(1) by (simp add: memory_append_attempt_def Let_def stands_def)
qed

definition fact_in :: "memory_fact list \<Rightarrow> string \<Rightarrow> memory_fact option" where
  "fact_in fs k = first_match (\<lambda>f. fa_fact_key f = k) fs"

lemma fact_by_key_in: "fact_by_key db k = fact_in (db_facts db) k"
  by (simp add: fact_by_key_def fact_in_def)

text \<open>The decision is about the fact as it stands; the fact gets the next version, other facts stay.\<close>

lemma finalize_stands:
  assumes st: "stands db i m fs as" and ok: "distinct (map fa_fact_id fs)" "distinct (map fa_fact_key fs)"
    and before: "md_before_version d = map_option fa_version (fact_in fs (mf_fact_key fp))"
    and new: "fact_in fs (mf_fact_key fp) = None \<longrightarrow> md_after_version d = Some 1 \<and> (\<forall>f\<in>set fs. fa_fact_id f \<noteq> j)"
    and old: "\<forall>f. fact_in fs (mf_fact_key fp) = Some f \<longrightarrow> md_after_version d = Some (fa_version f + 1)"
  shows "\<exists>g db' fs'. finalize_canonical db db i cmd fp d j now = (Inr g, db') \<and> stands db' i (finalized m) fs' as \<and>
    fact_in fs' (mf_fact_key fp) = Some g \<and> (\<forall>k. k \<noteq> mf_fact_key fp \<longrightarrow> fact_in fs' k = fact_in fs k) \<and>
    md_after_version d = Some (fa_version g) \<and> fa_status g = md_proposed_status d \<and> fa_content_fingerprint g = mf_content_fingerprint fp \<and>
    fa_value_json g = mc_value_json cmd \<and> fa_last_mutation_id g = i"
proof -
  have keep: "\<forall>m. same_request m (finalized m)" using field_writes_same(3) by blast
  have fm: "find_mutation db i = Some m" and fs: "db_facts db = fs" using st by (simp_all add: stands_def)
  have facts: "stands (db\<lparr>db_facts := fs'\<rparr>) i m fs' as" for fs' using st by (simp add: stands_def find_mutation_def mutation_by_key_def)
  show ?thesis
  proof (cases "fact_in fs (mf_fact_key fp)")
    case None
    let ?g = "new_fact i cmd fp 1 (md_proposed_status d) j now"
    have free: "\<forall>f\<in>set fs. fa_fact_key f \<noteq> mf_fact_key fp" "\<forall>f\<in>set fs. fa_fact_id f \<noteq> j" using None new by (auto simp: fact_in_def first_match_None)
    then have ins: "insert_fact db ?g = Some (db\<lparr>db_facts := fs @ [?g]\<rparr>)" using fs by (auto simp: insert_fact_def list_ex_iff)
    have "finalize_canonical db db i cmd fp d j now = (Inr ?g, link_evidence (put_mutation (db\<lparr>db_facts := fs @ [?g]\<rparr>) i finalized) i j)"
      using fm None before new ins by (simp add: finalize_canonical_def fact_by_key_in fs Let_def)
    moreover have "fact_in (fs @ [?g]) (mf_fact_key fp) = Some ?g" "k \<noteq> mf_fact_key fp \<Longrightarrow> fact_in (fs @ [?g]) k = fact_in fs k" for k
      using None by (simp_all add: fact_in_def first_match_append split: option.split)
    ultimately show ?thesis using put_mutation_stands [OF facts [of "fs @ [?g]"] keep] new None
      by (auto simp: new_fact_def)
  next
    case (Some f)
    then have f: "f \<in> set fs" "fa_fact_key f = mf_fact_key fp" by (auto simp: fact_in_def dest: first_match_SomeD)
    let ?g = "changed_fact f i cmd fp (md_proposed_status d) now" and ?h = "\<lambda>x. if x = f then changed_fact f i cmd fp (md_proposed_status d) now else x"
    have eq: "fa_fact_id x = fa_fact_id f \<and> fa_version x = fa_version f \<longleftrightarrow> x = f" if "x \<in> set fs" for x using that f(1) ok(1) by (auto dest: distinct_mapD)
    then have upd: "update_fact db f ?g = Some (db\<lparr>db_facts := map ?h fs\<rparr>)" using f(1) fs by (auto simp: update_fact_def list_ex_iff)
    have res: "finalize_canonical db db i cmd fp d j now = (Inr ?g, link_evidence (put_mutation (db\<lparr>db_facts := map ?h fs\<rparr>) i finalized) i (fa_fact_id f))"
      using fm Some before old upd by (simp add: finalize_canonical_def fact_by_key_in fs Let_def)
    have "fact_in (map ?h fs) k = map_option ?h (fact_in fs k)" for k unfolding fact_in_def by (rule first_match_map) simp
    moreover have "x \<noteq> f" if "fact_in fs k = Some x" "k \<noteq> mf_fact_key fp" for x k using that f(2) by (auto simp: fact_in_def dest: first_match_SomeD)
    ultimately have "fact_in (map ?h fs) (mf_fact_key fp) = Some ?g" "k \<noteq> mf_fact_key fp \<Longrightarrow> fact_in (map ?h fs) k = fact_in fs k" for k
      using Some f(2) by (simp, cases "fact_in fs k") simp_all
    then show ?thesis using res put_mutation_stands [OF facts [of "map ?h fs"] keep] old Some
      by (auto simp: changed_fact_def new_fact_def)
  qed
qed

lemma applied_stands:
  assumes "stands db i m fs as" "mm_vector_status m \<in> {NOT_REQUIRED, ACTIVE}" "mm_graph_status m \<in> {NOT_REQUIRED, ACTIVE}"
    "fact_in fs (mm_fact_key m) = Some f" "mm_after_version m = Some (fa_version f)"
  shows "\<exists>db' m'. memory_mark_applied db db i now = (Inr m', db') \<and> stands db' i m' fs as \<and> same_request m m' \<and>
    m' = m\<lparr>mm_status := APPLIED, mm_completed_at := Some now, mm_error_code := None, mm_error_summary := None\<rparr>"
  using assms put_mutation_stands [OF assms(1), of "\<lambda>m. m\<lparr>mm_status := APPLIED, mm_completed_at := Some now, mm_error_code := None, mm_error_summary := None\<rparr>"] field_writes_same(5)
  by (simp add: memory_mark_applied_def Let_def stands_def fact_by_key_in)

section \<open>One mutation in the service\<close>

abbreviation world :: "memory_db \<Rightarrow> 'r \<Rightarrow> 'v \<Rightarrow> 'g \<Rightarrow> ('r, 'v, 'g) memory_world" where
  "world db r v g \<equiv> \<lparr>mw_db = db, mw_lock = r, mw_vector = v, mw_graph = g\<rparr>"

lemma calls_simps [simp]:
  "on_db f (world db r v g) = (case f db of (res, db') \<Rightarrow> (res, world db' r v g))"
  "on_vector h (world db r v g) = (case h v of (res, s) \<Rightarrow> (res, world db r s g))"
  "on_graph k (world db r v g) = (case k g of (res, s) \<Rightarrow> (res, world db r v s))"
  by (simp_all add: on_db_def on_vector_def on_graph_def split: prod.split)

lemma awaited_Answer [simp]: "awaited (Answer x, w) = (Inr x, w)"
  by (simp add: awaited_def)

text \<open>A projection goes through a store: it is staged, activated, and the earlier versions are retired.\<close>

definition switches :: "('p, 's) memory_port \<Rightarrow> 'p \<Rightarrow> 's \<Rightarrow> 's \<Rightarrow> 's \<Rightarrow> bool" where
  "switches port p s s1 s' \<longleftrightarrow>
     mp_stage port p s = (Answer (), s1) \<and> (\<exists>s2. mp_activate port p s1 = (Answer (), s2) \<and> mp_retire_previous port p s2 = (Answer (), s'))"

definition vector_works :: "('r, 'v, 'g) memory_env \<Rightarrow> memory_command \<Rightarrow> string \<Rightarrow> string \<Rightarrow> int \<Rightarrow> 'v \<Rightarrow> 'v \<Rightarrow> 'v \<Rightarrow> bool" where
  "vector_works env cmd i k version s s1 s' \<longleftrightarrow>
     (if VECTOR \<in> set (mc_targets cmd)
      then \<exists>p. build_vector (mv_embed_text env) cmd i k version = Answer p \<and> switches (mv_vector_port env) p s s1 s' else s1 = s \<and> s' = s)"

definition graph_works :: "('r, 'v, 'g) memory_env \<Rightarrow> memory_command \<Rightarrow> string \<Rightarrow> string \<Rightarrow> int \<Rightarrow> 'g \<Rightarrow> 'g \<Rightarrow> 'g \<Rightarrow> bool" where
  "graph_works env cmd i k version s s1 s' \<longleftrightarrow>
     (if GRAPH \<in> set (mc_targets cmd)
      then \<exists>p. build_graph cmd i k version = Inr p \<and> switches (mv_graph_port env) p s s1 s' else s1 = s \<and> s' = s)"

text \<open>The statuses of the projections as the targets ask for them.\<close>

definition projected :: "memory_command \<Rightarrow> projection_status \<Rightarrow> memory_mutation \<Rightarrow> memory_mutation" where
  "projected cmd st m =
     m\<lparr>mm_vector_status := (if VECTOR \<in> set (mc_targets cmd) then st else mm_vector_status m),
       mm_graph_status := (if GRAPH \<in> set (mc_targets cmd) then st else mm_graph_status m)\<rparr>"

lemma update_projection_stands:
  assumes "stands db i m fs as"
  shows "\<exists>db'. update_projection_status db db i t st = (Inr (with_projection t st m), db') \<and> stands db' i (with_projection t st m) fs as"
  using set_mutation_fields_stands [OF assms, of "with_projection t st"] field_writes_same(2) by (simp add: update_projection_status_def)

lemma staged_vector:
  assumes "stands db i m fs as" "vector_works env cmd i k version v v1 v'"
  shows "\<exists>spec db'. stage_new_vector env cmd i k version (world db r v g) = (Inr (spec, None), world db' r v1 g) \<and>
    stands db' i (if VECTOR \<in> set (mc_targets cmd) then with_projection VECTOR STAGED m else m) fs as \<and> (spec \<noteq> None \<longleftrightarrow> VECTOR \<in> set (mc_targets cmd)) \<and>
    (\<forall>p. spec = Some p \<longrightarrow> build_vector (mv_embed_text env) cmd i k version = Answer p \<and> switches (mv_vector_port env) p v v1 v')"
  using assms(2) update_projection_stands [OF assms(1), of VECTOR STAGED] assms(1)
  by (auto simp: vector_works_def stage_new_vector_def stage_projection_def switches_def split: if_splits)

lemma staged_graph:
  assumes "stands db i m fs as" "graph_works env cmd i k version g g1 g'"
  shows "\<exists>spec db'. stage_new_graph env cmd i k version (world db r v g) = (Inr (spec, None), world db' r v g1) \<and>
    stands db' i (if GRAPH \<in> set (mc_targets cmd) then with_projection GRAPH STAGED m else m) fs as \<and> (spec \<noteq> None \<longleftrightarrow> GRAPH \<in> set (mc_targets cmd)) \<and>
    (\<forall>p. spec = Some p \<longrightarrow> build_graph cmd i k version = Inr p \<and> switches (mv_graph_port env) p g g1 g')"
  using assms(2) update_projection_stands [OF assms(1), of GRAPH STAGED] assms(1)
  by (auto simp: graph_works_def stage_new_graph_def stage_projection_def switches_def split: if_splits)

lemma activated_vector:
  assumes "stands db i m fs as" "vector_works env cmd i k version v0 v v'" "spec \<noteq> None \<longleftrightarrow> VECTOR \<in> set (mc_targets cmd)"
    "\<forall>p. spec = Some p \<longrightarrow> switches (mv_vector_port env) p v0 v v'"
  shows "\<exists>db'. for_spec spec (activate_vector_spec env i) (world db r v g) = (Inr None, world db' r v' g) \<and>
    stands db' i (if VECTOR \<in> set (mc_targets cmd) then with_projection VECTOR ACTIVE m else m) fs as"
  using assms(2-4) update_projection_stands [OF assms(1), of VECTOR ACTIVE] assms(1)
  by (auto simp: vector_works_def for_spec_def activate_vector_spec_def activate_projection_def switches_def split: if_splits)

lemma activated_graph:
  assumes "stands db i m fs as" "graph_works env cmd i k version g0 g g'" "spec \<noteq> None \<longleftrightarrow> GRAPH \<in> set (mc_targets cmd)"
    "\<forall>p. spec = Some p \<longrightarrow> switches (mv_graph_port env) p g0 g g'"
  shows "\<exists>db'. for_spec spec (activate_graph_spec env i) (world db r v g) = (Inr None, world db' r v g') \<and>
    stands db' i (if GRAPH \<in> set (mc_targets cmd) then with_projection GRAPH ACTIVE m else m) fs as"
  using assms(2-4) update_projection_stands [OF assms(1), of GRAPH ACTIVE] assms(1)
  by (auto simp: graph_works_def for_spec_def activate_graph_spec_def activate_projection_def switches_def split: if_splits)

lemma finish_applied_runs:
  assumes "stands db i m fs as" "mm_vector_status m \<in> {NOT_REQUIRED, ACTIVE}" "mm_graph_status m \<in> {NOT_REQUIRED, ACTIVE}"
    "fact_in fs (mm_fact_key m) = Some f" "mm_after_version m = Some (fa_version f)" "mm_decision m = Some d"
    "\<forall>a\<in>set as. ma_attempt_id a \<noteq> mv_attempt_id env" "\<forall>t x. mv_publish env t x = Answer ()"
  shows "\<exists>res db' m' a. finish_applied env i before (world db r v g) = (Inr res, world db' r v g) \<and> stands db' i m' fs (as @ [a]) \<and>
    result_of m' = Inr res \<and> m' = m\<lparr>mm_status := APPLIED, mm_completed_at := Some (mv_clock env 2), mm_error_code := None, mm_error_summary := None\<rparr>"
proof -
  let ?m = "m\<lparr>mm_status := APPLIED, mm_completed_at := Some (mv_clock env 2), mm_error_code := None, mm_error_summary := None\<rparr>"
  obtain db1 where a: "memory_mark_applied db db i (mv_clock env 2) = (Inr ?m, db1)" "stands db1 i ?m fs as"
    using applied_stands [OF assms(1-5)] by blast
  obtain n db2 x where b: "memory_append_attempt db1 db1 i APPLIED (fst before, mm_vector_status ?m) (snd before, mm_graph_status ?m) None None (mv_attempt_id env) (mv_db_clock env 3) = (Inr n, db2)"
    "stands db2 i ?m fs (as @ [x])"
    using append_attempt_stands [OF a(2) assms(7)] by blast
  obtain res where res: "result_of ?m = Inr res" "rs_status res = APPLIED" using assms(6) by (auto simp: result_of_def)
  have "publish_result env ?m (world db2 r v g) = (Inr res, world db2 r v g)"
    using res assms(8) by (simp add: publish_result_def publish_terminal_def)
  then show ?thesis using a b res unfolding finish_applied_def by auto
qed

lemma projected_switch:
  "(if GRAPH \<in> set (mc_targets cmd) then with_projection GRAPH st (if VECTOR \<in> set (mc_targets cmd) then with_projection VECTOR st m else m)
    else if VECTOR \<in> set (mc_targets cmd) then with_projection VECTOR st m else m) = projected cmd st m"
  by (simp add: projected_def with_projection_def)

lemma apply_projections_runs:
  assumes st: "stands db i m fs as" and row: "mm_decision m = Some (md_decision d)" "mm_after_version m = Some version" "mm_fact_key m = mf_fact_key fp"
      "VECTOR \<in> set (mc_targets cmd) \<or> mm_vector_status m = NOT_REQUIRED" "GRAPH \<in> set (mc_targets cmd) \<or> mm_graph_status m = NOT_REQUIRED"
    and ok: "distinct (map fa_fact_id fs)" "distinct (map fa_fact_key fs)"
    and before: "md_before_version d = map_option fa_version (fact_in fs (mf_fact_key fp))" "md_after_version d = Some version"
      "version = (case fact_in fs (mf_fact_key fp) of None \<Rightarrow> 1 | Some f \<Rightarrow> fa_version f + 1)"
    and fresh: "\<forall>f\<in>set fs. fa_fact_id f \<noteq> mv_fact_id env" "\<forall>a\<in>set as. ma_attempt_id a \<noteq> mv_attempt_id env"
    and works: "vector_works env cmd i (mf_fact_key fp) version v v1 v'" "graph_works env cmd i (mf_fact_key fp) version g g1 g'"
    and pub: "\<forall>t x. mv_publish env t x = Answer ()"
  shows "\<exists>res db' f m' fs' a. apply_projections env cmd fp d i (world db r v g) = (Inr res, world db' r v' g') \<and> stands db' i m' fs' (as @ [a]) \<and>
    result_of m' = Inr res \<and> m' = (projected cmd ACTIVE m)\<lparr>mm_status := APPLIED, mm_completed_at := Some (mv_clock env 2), mm_error_code := None, mm_error_summary := None\<rparr> \<and>
    fact_in fs' (mf_fact_key fp) = Some f \<and> (\<forall>k. k \<noteq> mf_fact_key fp \<longrightarrow> fact_in fs' k = fact_in fs k) \<and> fa_version f = version \<and>
    fa_status f = md_proposed_status d \<and> fa_content_fingerprint f = mf_content_fingerprint fp \<and> fa_value_json f = mc_value_json cmd \<and> fa_last_mutation_id f = i"
proof -
  let ?in = "\<lambda>t. t \<in> set (mc_targets cmd)"
  let ?m1 = "m\<lparr>mm_status := APPLYING\<rparr>"
  obtain db1 where s1: "memory_mark_applying db db i = (Inr ?m1, db1)" "stands db1 i ?m1 fs as"
    using set_mutation_fields_stands [OF st, of "\<lambda>m. m\<lparr>mm_status := APPLYING\<rparr>"] field_writes_same(1) by (simp add: memory_mark_applying_def)
  let ?m2 = "if ?in VECTOR then with_projection VECTOR STAGED ?m1 else ?m1"
  obtain vs db2 where s2: "stage_new_vector env cmd i (mf_fact_key fp) version (world db1 r v g) = (Inr (vs, None), world db2 r v1 g)" "stands db2 i ?m2 fs as"
    "vs \<noteq> None \<longleftrightarrow> ?in VECTOR" "\<forall>p. vs = Some p \<longrightarrow> switches (mv_vector_port env) p v v1 v'"
    using staged_vector [OF s1(2) works(1)] by metis
  let ?m3 = "if ?in GRAPH then with_projection GRAPH STAGED ?m2 else ?m2"
  obtain gs db3 where s3: "stage_new_graph env cmd i (mf_fact_key fp) version (world db2 r v1 g) = (Inr (gs, None), world db3 r v1 g1)" "stands db3 i ?m3 fs as"
    "gs \<noteq> None \<longleftrightarrow> ?in GRAPH" "\<forall>p. gs = Some p \<longrightarrow> switches (mv_graph_port env) p g g1 g'"
    using staged_graph [OF s2(2) works(2)] by metis
  have fin: "\<exists>f db' fs'. finalize_canonical db3 db3 i cmd fp d (mv_fact_id env) (mv_clock env 1) = (Inr f, db') \<and> stands db' i (finalized ?m3) fs' as \<and>
    fact_in fs' (mf_fact_key fp) = Some f \<and> (\<forall>k. k \<noteq> mf_fact_key fp \<longrightarrow> fact_in fs' k = fact_in fs k) \<and>
    md_after_version d = Some (fa_version f) \<and> fa_status f = md_proposed_status d \<and> fa_content_fingerprint f = mf_content_fingerprint fp \<and>
    fa_value_json f = mc_value_json cmd \<and> fa_last_mutation_id f = i"
    by (rule finalize_stands [OF s3(2) ok before(1)]) (use before(2,3) fresh(1) in auto)
  obtain f db4 fs' where s4: "finalize_canonical db3 db3 i cmd fp d (mv_fact_id env) (mv_clock env 1) = (Inr f, db4)" "stands db4 i (finalized ?m3) fs' as"
    "fact_in fs' (mf_fact_key fp) = Some f" "\<forall>k. k \<noteq> mf_fact_key fp \<longrightarrow> fact_in fs' k = fact_in fs k" "fa_version f = version"
    "fa_status f = md_proposed_status d" "fa_content_fingerprint f = mf_content_fingerprint fp" "fa_value_json f = mc_value_json cmd" "fa_last_mutation_id f = i"
    using fin before(2) by auto
  obtain db5 where s5: "for_spec vs (activate_vector_spec env i) (world db4 r v1 g1) = (Inr None, world db5 r v' g1)"
    "stands db5 i (if ?in VECTOR then with_projection VECTOR ACTIVE (finalized ?m3) else finalized ?m3) fs' as"
    using activated_vector [OF s4(2) works(1) s2(3,4)] by metis
  let ?m6 = "if ?in GRAPH then with_projection GRAPH ACTIVE (if ?in VECTOR then with_projection VECTOR ACTIVE (finalized ?m3) else finalized ?m3)
     else (if ?in VECTOR then with_projection VECTOR ACTIVE (finalized ?m3) else finalized ?m3)"
  obtain db6 where s6: "for_spec gs (activate_graph_spec env i) (world db5 r v' g1) = (Inr None, world db6 r v' g')" "stands db6 i ?m6 fs' as"
    using activated_graph [OF s5(2) works(2) s3(3,4)] by metis
  have m6: "?m6 = finalized (projected cmd ACTIVE ?m1)" by (simp add: projected_def with_projection_def finalized_def)
  have fields: "mm_vector_status ?m6 \<in> {NOT_REQUIRED, ACTIVE}" "mm_graph_status ?m6 \<in> {NOT_REQUIRED, ACTIVE}" "mm_decision ?m6 = Some (md_decision d)"
    "fact_in fs' (mm_fact_key ?m6) = Some f" "mm_after_version ?m6 = Some (fa_version f)"
    unfolding m6 using row s4(3,5) by (auto simp: projected_def finalized_def)
  obtain res db7 m' a where s7: "finish_applied env i (PROJECTION_PENDING, PROJECTION_PENDING) (world db6 r v' g') = (Inr res, world db7 r v' g')" "stands db7 i m' fs' (as @ [a])"
    "result_of m' = Inr res" "m' = ?m6\<lparr>mm_status := APPLIED, mm_completed_at := Some (mv_clock env 2), mm_error_code := None, mm_error_summary := None\<rparr>"
    using finish_applied_runs [OF s6(2) fields(1,2,4,5,3) fresh(2) pub] by metis
  have "apply_projections env cmd fp d i (world db r v g) = (Inr res, world db7 r v' g')"
    unfolding apply_projections_def using s1(1) s2(1) s3(1) s4(1) s5(1) s6(1) s7(1) before(2) by (simp add: first_error_def)
  moreover have "m' = (projected cmd ACTIVE m)\<lparr>mm_status := APPLIED, mm_completed_at := Some (mv_clock env 2), mm_error_code := None, mm_error_summary := None\<rparr>"
    unfolding s7(4) m6 by (simp add: projected_def finalized_def)
  ultimately show ?thesis using s7(2,3) s4(3-9) by blast
qed

section \<open>Whole calls\<close>

definition lock_free :: "('r, 'v, 'g) memory_env \<Rightarrow> string \<Rightarrow> 'r \<Rightarrow> 'r \<Rightarrow> bool" where
  "lock_free env k r r' \<longleftrightarrow>
     (\<exists>h r1 b. acquire (mv_lock_client env) memory_lock_prefix (mv_lock_ttl_ms env) (mv_lock_token env) k r = (Inr h, r1) \<and> lh_acquired h \<and>
        release (mv_lock_client env) h r1 = (Inr b, r'))"

lemma with_fact_lock_free:
  assumes "lock_free env k r r'" "\<And>r1. \<exists>res db' v' g'. body (world db r1 v g) = (res, world db' r1 v' g') \<and> P res db' v' g'"
  shows "\<exists>res db' v' g'. with_fact_lock env k body (world db r v g) = (res, world db' r' v' g') \<and> P res db' v' g'"
proof -
  obtain h r1 b where h: "acquire (mv_lock_client env) memory_lock_prefix (mv_lock_ttl_ms env) (mv_lock_token env) k r = (Inr h, r1)" "lh_acquired h"
      "release (mv_lock_client env) h r1 = (Inr b, r')"
    using assms(1) unfolding lock_free_def by blast
  obtain res db' v' g' where "body (world db r1 v g) = (res, world db' r1 v' g')" "P res db' v' g'" using assms(2) by blast
  then show ?thesis using h by (auto simp: with_fact_lock_def)
qed

lemma with_fact_lock_same:
  assumes "lock_free env k r r'" "\<And>r1. body (world db r1 v g) = (res, world db r1 v g)"
  shows "with_fact_lock env k body (world db r v g) = (res, world db r' v g)"
  using with_fact_lock_free [OF assms(1), of body db v g "\<lambda>x db' v' g'. x = res \<and> db' = db \<and> v' = v \<and> g' = g"] assms(2) by auto

lemma begin_new:
  assumes "mutation_by_key db (mc_idempotency_key cmd) = None" "find_mutation db i = None"
  shows "memory_begin_or_replay db db cmd fp i now = (Inr (i, False), db\<lparr>db_mutations := db_mutations db @ [new_mutation cmd fp i now]\<rparr>)"
    "stands (db\<lparr>db_mutations := db_mutations db @ [new_mutation cmd fp i now]\<rparr>) i (new_mutation cmd fp i now) (db_facts db) (db_attempts db)"
  using assms by (simp_all add: memory_begin_or_replay_def stands_def find_mutation_def mutation_by_key_def first_match_append new_mutation_def)

lemma load_fact_mutations [simp]: "load_fact (db\<lparr>db_mutations := x\<rparr>) k = load_fact db k"
proof -
  have "snapshot_of (db\<lparr>db_mutations := x\<rparr>) = snapshot_of db" by (rule ext) (simp add: snapshot_of_def)
  then show ?thesis by (simp add: load_fact_def fact_by_key_def)
qed

lemma record_decision_stands:
  assumes "stands db i m fs as"
  shows "\<exists>db'. record_decision db db i d now = (Inr (decided d now m), db') \<and> stands db' i (decided d now m) fs as \<and> db_evidence db' = db_evidence db"
  using set_mutation_fields_stands [OF assms, of "decided d now"] decided_same by (simp add: record_decision_def put_mutation_def)

text \<open>A key that was used answers with the mutation it was used for.\<close>

lemma mutate_replays:
  assumes "stands db i m fs as" "mm_idempotency_key m = mc_idempotency_key cmd" "mm_payload_fingerprint m = memory_payload_fingerprint cmd"
    "validate_command cmd = Inr ()" "lock_free env (build_fact_key cmd) r r'"
  shows "mutate env cmd (world db r v g) = (result_of m, world db r' v g)"
proof -
  have "mutate_locked env cmd (fingerprints cmd) (world db r1 v g) = (result_of m, world db r1 v g)" for r1
    using assms(1-3) by (simp add: mutate_locked_def memory_begin_or_replay_def stands_def replay_mutation_def fingerprints_def get_mutation_def)
  from with_fact_lock_same [OF assms(5) this] show ?thesis using assms(4) by (simp add: mutate_def)
qed

definition fresh_draws :: "('r, 'v, 'g) memory_env \<Rightarrow> memory_db \<Rightarrow> bool" where
  "fresh_draws env db \<longleftrightarrow>
     find_mutation db (mv_mutation_id env) = None \<and> (\<forall>f\<in>set (db_facts db). fa_fact_id f \<noteq> mv_fact_id env) \<and>
     (\<forall>a\<in>set (db_attempts db). ma_attempt_id a \<noteq> mv_attempt_id env) \<and> (\<forall>e\<in>set (db_evidence db). ev_evidence_id e \<noteq> mv_evidence_id env)"

text \<open>
  A mutation that is new and accepted by the policy: \<open>version\<close> is the version it makes. It is ready if it also meets no failure of the stores, of which \<open>v'\<close> and \<open>g'\<close> are the
  states after the projection went through.
\<close>

definition mutation_accepted :: "('r, 'v, 'g) memory_env \<Rightarrow> memory_command \<Rightarrow> ('r, 'v, 'g) memory_world \<Rightarrow> int \<Rightarrow> bool" where
  "mutation_accepted env cmd w version \<longleftrightarrow>
     memory_ok (mw_db w) \<and> fresh_draws env (mw_db w) \<and> validate_command cmd = Inr () \<and> mutation_by_key (mw_db w) (mc_idempotency_key cmd) = None \<and>
     (\<exists>d. evaluate_mutation (load_fact (mw_db w) (build_fact_key cmd)) cmd (mv_policy env) (mv_clock env 0) = Inr d \<and> md_requires_projection d \<and> md_after_version d = Some version) \<and>
     (\<forall>t x. mv_publish env t x = Answer ()) \<and> (\<exists>r'. lock_free env (build_fact_key cmd) (mw_lock w) r')"

definition mutation_ready :: "('r, 'v, 'g) memory_env \<Rightarrow> memory_command \<Rightarrow> ('r, 'v, 'g) memory_world \<Rightarrow> int \<Rightarrow> 'v \<Rightarrow> 'g \<Rightarrow> bool" where
  "mutation_ready env cmd w version v' g' \<longleftrightarrow>
     mutation_accepted env cmd w version \<and> (\<exists>v1. vector_works env cmd (mv_mutation_id env) (build_fact_key cmd) version (mw_vector w) v1 v') \<and>
     (\<exists>g1. graph_works env cmd (mv_mutation_id env) (build_fact_key cmd) version (mw_graph w) g1 g')"

text \<open>What the decision of an accepted mutation says about the fact and what its row is.\<close>

lemma accepted_decision:
  assumes "evaluate_mutation (load_fact db (build_fact_key cmd)) cmd policy now = Inr d" "md_requires_projection d" "md_after_version d = Some version"
  shows "md_before_version d = map_option fa_version (fact_in (db_facts db) (build_fact_key cmd))"
    "version = (case fact_in (db_facts db) (build_fact_key cmd) of None \<Rightarrow> 1 | Some f \<Rightarrow> fa_version f + 1)" "md_before_version d = mc_expected_version cmd"
    "md_proposed_status d = FACT_ACTIVE"
    "decided d t m = m\<lparr>mm_decision := Some (md_decision d), mm_reason_code := Some (md_reason_code d), mm_before_version := md_before_version d, mm_after_version := md_after_version d\<rparr>"
proof -
  note snd = evaluate_mutation_sound [OF assms(1)]
  have "map_option sn_version (load_fact db (build_fact_key cmd)) = map_option fa_version (fact_in (db_facts db) (build_fact_key cmd))"
    by (simp add: load_fact_def fact_by_key_in option.map_comp comp_def snapshot_of_def)
  then show "md_before_version d = map_option fa_version (fact_in (db_facts db) (build_fact_key cmd))" using snd(2) by simp
  show "version = (case fact_in (db_facts db) (build_fact_key cmd) of None \<Rightarrow> 1 | Some f \<Rightarrow> fa_version f + 1)"
    using snd(4) [OF assms(2)] assms(3) by (auto simp: load_fact_def fact_by_key_in snapshot_of_def split: option.splits)
  show "md_before_version d = mc_expected_version cmd" "md_proposed_status d = FACT_ACTIVE" using snd(1,4) assms(2) by simp_all
  show "decided d t m = m\<lparr>mm_decision := Some (md_decision d), mm_reason_code := Some (md_reason_code d), mm_before_version := md_before_version d, mm_after_version := md_after_version d\<rparr>"
    using assms(2) snd(3) by (auto simp: decided_def Let_def)
qed

lemma mutate_locked_new:
  assumes "mutation_by_key db (mc_idempotency_key cmd) = None" "find_mutation db (mv_mutation_id env) = None" "\<forall>t x. mv_publish env t x = Answer ()"
    "evaluate_mutation (load_fact db (mf_fact_key fp)) cmd (mv_policy env) (mv_clock env 0) = Inr d"
  shows "\<exists>db'. mutate_locked env cmd fp (world db r v g) =
      (if md_requires_projection d then apply_projections env cmd fp d (mv_mutation_id env) (world db' r v g)
       else finish_decided env cmd fp d (load_fact db (mf_fact_key fp) = None) (mv_mutation_id env) (world db' r v g)) \<and>
    stands db' (mv_mutation_id env) (decided d (mv_db_clock env 1) (new_mutation cmd fp (mv_mutation_id env) (mv_db_clock env 0))) (db_facts db) (db_attempts db) \<and>
    db_evidence db' = evidence_after db (mv_mutation_id env) cmd fp (mv_evidence_id env) (mv_db_clock env 2)"
proof -
  let ?i = "mv_mutation_id env" and ?m = "new_mutation cmd fp (mv_mutation_id env) (mv_db_clock env 0)"
  let ?db1 = "db\<lparr>db_mutations := db_mutations db @ [?m]\<rparr>"
  note b = begin_new [OF assms(1,2), of fp "mv_db_clock env 0"]
  obtain db2 where d: "record_decision ?db1 ?db1 ?i d (mv_db_clock env 1) = (Inr (decided d (mv_db_clock env 1) ?m), db2)"
    "stands db2 ?i (decided d (mv_db_clock env 1) ?m) (db_facts db) (db_attempts db)" "db_evidence db2 = db_evidence db"
    using record_decision_stands [OF b(2), of d "mv_db_clock env 1"] by auto
  obtain x db3 where e: "append_evidence db2 db2 ?i cmd fp (mv_evidence_id env) (mv_db_clock env 2) = (Inr x, db3)"
    "stands db3 ?i (decided d (mv_db_clock env 1) ?m) (db_facts db) (db_attempts db)"
    "db_evidence db3 = evidence_after db2 ?i cmd fp (mv_evidence_id env) (mv_db_clock env 2)"
    using append_evidence_stands [OF d(2)] by metis
  show ?thesis
  proof (intro exI [of _ db3] conjI)
    show "mutate_locked env cmd fp (world db r v g) =
      (if md_requires_projection d then apply_projections env cmd fp d ?i (world db3 r v g)
       else finish_decided env cmd fp d (load_fact db (mf_fact_key fp) = None) ?i (world db3 r v g))"
      unfolding mutate_locked_def using b(1) assms(3,4) d(1) e(1) by (simp add: publish_requested_def Let_def)
    show "stands db3 ?i (decided d (mv_db_clock env 1) ?m) (db_facts db) (db_attempts db)" by (rule e(2))
    show "db_evidence db3 = evidence_after db ?i cmd fp (mv_evidence_id env) (mv_db_clock env 2)"
      using e(3) d(3) by (simp add: evidence_after_def evidence_of_mutation_def)
  qed
qed

lemma mutate_runs:
  assumes ready: "mutation_ready env cmd w version v' g'"
  shows "\<exists>res w' f m' fs' as'. mutate env cmd w = (Inr res, w') \<and> stands (mw_db w') (mv_mutation_id env) m' fs' as' \<and> result_of m' = Inr res \<and>
    mm_status m' = APPLIED \<and> mm_before_version m' = mc_expected_version cmd \<and> mm_after_version m' = Some version \<and>
    mm_idempotency_key m' = mc_idempotency_key cmd \<and> mm_payload_fingerprint m' = memory_payload_fingerprint cmd \<and>
    fact_in fs' (build_fact_key cmd) = Some f \<and> (\<forall>k. k \<noteq> build_fact_key cmd \<longrightarrow> fact_in fs' k = fact_in (db_facts (mw_db w)) k) \<and>
    fa_version f = version \<and> fa_status f = FACT_ACTIVE \<and> fa_content_fingerprint f = content_fingerprint cmd \<and> fa_value_json f = mc_value_json cmd \<and>
    fa_last_mutation_id f = mv_mutation_id env \<and> mw_vector w' = v' \<and> mw_graph w' = g'"
proof -
  let ?k = "build_fact_key cmd" and ?fp = "fingerprints cmd" and ?db = "mw_db w" and ?i = "mv_mutation_id env"
  note rd = ready [unfolded mutation_ready_def mutation_accepted_def]
  obtain d where d: "evaluate_mutation (load_fact ?db ?k) cmd (mv_policy env) (mv_clock env 0) = Inr d" "md_requires_projection d" "md_after_version d = Some version"
    using rd by blast
  obtain r' where lock: "lock_free env ?k (mw_lock w) r'" using rd by blast
  obtain v1 g1 where works: "vector_works env cmd ?i ?k version (mw_vector w) v1 v'" "graph_works env cmd ?i ?k version (mw_graph w) g1 g'" using rd by blast
  have pub: "\<forall>t x. mv_publish env t x = Answer ()" using rd by blast
  have ok: "distinct (map fa_fact_id (db_facts ?db))" "distinct (map fa_fact_key (db_facts ?db))" using rd by (simp_all add: memory_ok_def)
  have fresh: "\<forall>f\<in>set (db_facts ?db). fa_fact_id f \<noteq> mv_fact_id env" "\<forall>a\<in>set (db_attempts ?db). ma_attempt_id a \<noteq> mv_attempt_id env"
    using rd by (simp_all add: fresh_draws_def)
  have fk: "mf_fact_key ?fp = ?k" "mf_content_fingerprint ?fp = content_fingerprint cmd" "mf_payload_fingerprint ?fp = memory_payload_fingerprint cmd"
    by (simp_all add: fingerprints_def)
  note acc = accepted_decision [OF d]
  let ?m = "decided d (mv_db_clock env 1) (new_mutation cmd ?fp ?i (mv_db_clock env 0))"
  have body: "\<exists>res db' v2 g2. mutate_locked env cmd ?fp (world ?db r1 (mw_vector w) (mw_graph w)) = (res, world db' r1 v2 g2) \<and>
     (\<exists>x f m' fs' as'. res = Inr x \<and> stands db' ?i m' fs' as' \<and> result_of m' = Inr x \<and> mm_status m' = APPLIED \<and> mm_before_version m' = mc_expected_version cmd \<and>
        mm_after_version m' = Some version \<and> mm_idempotency_key m' = mc_idempotency_key cmd \<and> mm_payload_fingerprint m' = memory_payload_fingerprint cmd \<and>
        fact_in fs' ?k = Some f \<and> (\<forall>k. k \<noteq> ?k \<longrightarrow> fact_in fs' k = fact_in (db_facts ?db) k) \<and> fa_version f = version \<and> fa_status f = FACT_ACTIVE \<and>
        fa_content_fingerprint f = content_fingerprint cmd \<and> fa_value_json f = mc_value_json cmd \<and> fa_last_mutation_id f = ?i \<and> v2 = v' \<and> g2 = g')" for r1
  proof -
    obtain db1 where a: "mutate_locked env cmd ?fp (world ?db r1 (mw_vector w) (mw_graph w)) = apply_projections env cmd ?fp d ?i (world db1 r1 (mw_vector w) (mw_graph w))"
      "stands db1 ?i ?m (db_facts ?db) (db_attempts ?db)"
      using mutate_locked_new [of ?db cmd env ?fp d r1 "mw_vector w" "mw_graph w"] rd d(1,2) by (auto simp: fresh_draws_def fk)
    have row: "mm_decision ?m = Some (md_decision d)" "mm_after_version ?m = Some version" "mm_fact_key ?m = mf_fact_key ?fp"
      "VECTOR \<in> set (mc_targets cmd) \<or> mm_vector_status ?m = NOT_REQUIRED" "GRAPH \<in> set (mc_targets cmd) \<or> mm_graph_status ?m = NOT_REQUIRED"
      unfolding acc(5) using d(3) by (simp_all add: new_mutation_def)
    obtain res db' f m' fs' x where run: "apply_projections env cmd ?fp d ?i (world db1 r1 (mw_vector w) (mw_graph w)) = (Inr res, world db' r1 v' g')"
      "stands db' ?i m' fs' (db_attempts ?db @ [x])" "result_of m' = Inr res"
      "m' = (projected cmd ACTIVE ?m)\<lparr>mm_status := APPLIED, mm_completed_at := Some (mv_clock env 2), mm_error_code := None, mm_error_summary := None\<rparr>"
      "fact_in fs' ?k = Some f" "\<forall>k. k \<noteq> ?k \<longrightarrow> fact_in fs' k = fact_in (db_facts ?db) k" "fa_version f = version" "fa_status f = FACT_ACTIVE"
      "fa_content_fingerprint f = content_fingerprint cmd" "fa_value_json f = mc_value_json cmd" "fa_last_mutation_id f = ?i"
      using apply_projections_runs [OF a(2) row ok acc(1) [folded fk(1)] d(3) acc(2) [folded fk(1)] fresh works [folded fk(1)] pub, of r1] acc(4) unfolding fk by metis
    have "mm_status m' = APPLIED" "mm_before_version m' = mc_expected_version cmd" "mm_after_version m' = Some version" "mm_idempotency_key m' = mc_idempotency_key cmd"
      "mm_payload_fingerprint m' = memory_payload_fingerprint cmd"
      unfolding run(4) acc(5) using acc(3) d(3) by (simp_all add: projected_def new_mutation_def fk)
    then show ?thesis unfolding a(1) run(1) using run(2,3,5-11) by blast
  qed
  have "validate_command cmd = Inr ()" using rd by blast
  moreover have weq: "world ?db (mw_lock w) (mw_vector w) (mw_graph w) = w" by simp
  ultimately have mut: "mutate env cmd w = with_fact_lock env ?k (mutate_locked env cmd ?fp) (world ?db (mw_lock w) (mw_vector w) (mw_graph w))"
    unfolding weq by (simp add: mutate_def)
  obtain x db' f m' fs' as' where "with_fact_lock env ?k (mutate_locked env cmd ?fp) (world ?db (mw_lock w) (mw_vector w) (mw_graph w)) = (Inr x, world db' r' v' g')"
    "stands db' ?i m' fs' as'" "result_of m' = Inr x" "mm_status m' = APPLIED" "mm_before_version m' = mc_expected_version cmd"
    "mm_after_version m' = Some version" "mm_idempotency_key m' = mc_idempotency_key cmd" "mm_payload_fingerprint m' = memory_payload_fingerprint cmd"
    "fact_in fs' ?k = Some f" "\<forall>k. k \<noteq> ?k \<longrightarrow> fact_in fs' k = fact_in (db_facts ?db) k" "fa_version f = version" "fa_status f = FACT_ACTIVE"
    "fa_content_fingerprint f = content_fingerprint cmd" "fa_value_json f = mc_value_json cmd" "fa_last_mutation_id f = ?i"
    using with_fact_lock_free [OF lock body] by blast
  then show ?thesis unfolding mut
    by (intro exI [of _ x] exI [of _ "world db' r' v' g'"] exI [of _ f] exI [of _ m'] exI [of _ fs'] exI [of _ as']) simp
qed

text \<open>The switch of a projection, seen through the contract of the store.\<close>

context projection_port
begin

lemma switches_active:
  assumes "switches port p s s1 s'"
  shows "(own p)\<lparr>se_status := PStr ''ACTIVE''\<rparr> \<in> active_entries (se_fact_key (own p)) (entries s') \<and>
    (\<forall>e\<in>active_entries (se_fact_key (own p)) (entries s'). \<not> older (own p) e) \<and>
    ((\<forall>e\<in>active_entries (se_fact_key (own p)) (entries s). older (own p) e) \<and> (\<forall>e\<in>entries s1. se_id e = se_id (own p) \<longrightarrow> e = own p) \<longrightarrow>
       active_entries (se_fact_key (own p)) (entries s') = {(own p)\<lparr>se_status := PStr ''ACTIVE''\<rparr>})"
proof -
  obtain s2 where c: "mp_stage port p s = (Answer (), s1)" "mp_activate port p s1 = (Answer (), s2)" "mp_retire_previous port p s2 = (Answer (), s')"
    using assms unfolding switches_def by blast
  have st: "staged_into (own p) (entries s) (entries s1)" using stage_law [OF c(1)] by simp
  then have "own p \<in> entries s1" unfolding staged_into_def by blast
  from switch_active [OF this c(2,3)] no_rivals [OF st] show ?thesis by blast
qed

end

lemma built_vector_key: "build_vector e cmd i k version = Answer p \<Longrightarrow> se_fact_key (vector_own p) = PStr k \<and> vp_fact_key p = k \<and> vp_control_version p = version \<and> vp_mutation_id p = i"
  by (auto simp: build_vector_def vector_own_def split: reply.splits)

lemma built_graph_key: "build_graph cmd i k version = Inr p \<Longrightarrow> se_fact_key (graph_own p) = PStr k"
  by (auto simp: build_graph_def graph_own_def Let_def res_bind_def split: list.splits if_splits sum.splits)

section \<open>A sample\<close>

definition sample_memory_env :: "(string \<rightharpoonup> string, qdrant_point list, pyval set \<times> graph_edge list) memory_env" where
  "sample_memory_env =
     \<lparr>mv_policy = \<lparr>po_auto_apply_min_confidence = 7 / 10, po_lower_confidence_reject_delta = 1 / 5\<rparr>,
      mv_vector_port = qdrant_port list_client ''dispatch_memory'' 2, mv_graph_port = neo4j_port list_driver,
      mv_embed_text = (\<lambda>_. Answer [0, 1]), mv_publish = (\<lambda>_ _. Answer ()), mv_clock = (\<lambda>_. 10), mv_db_clock = (\<lambda>_. 10),
      mv_mutation_id = ''M1'', mv_evidence_id = ''E1'', mv_fact_id = ''F1'', mv_attempt_id = ''A1'', mv_lock_client = map_client,
      mv_lock_ttl_ms = 1000, mv_lock_token = ''t1''\<rparr>"

definition empty_memory :: memory_db where
  "empty_memory = \<lparr>db_mutations = [], db_facts = [], db_evidence = [], db_attempts = []\<rparr>"

abbreviation new_command :: memory_command where
  "new_command \<equiv> (sample_command ''K1'')\<lparr>mc_expected_version := None\<rparr>"

lemma sample_lock_free:
  assumes "mv_lock_client env = map_client" shows "lock_free env k Map.empty Map.empty"
  using assms by (auto simp: lock_free_def acquire_def release_def map_client_def compare_and_delete_def)

lemma empty_finds [simp]:
  "find_mutation empty_memory i = None" "mutation_by_key empty_memory k = None" "load_fact empty_memory k = None" "memory_ok empty_memory"
  by (simp_all add: empty_memory_def find_mutation_def mutation_by_key_def load_fact_def fact_by_key_def memory_ok_def)

lemma sample_mutation_ready:
  "\<exists>v'. mutation_ready sample_memory_env new_command (world empty_memory Map.empty [] ({}, [])) 1 v' ({}, [])"
proof -
  have "\<exists>d. evaluate_mutation None new_command (mv_policy sample_memory_env) 10 = Inr d \<and> md_requires_projection d \<and> md_after_version d = Some 1"
    by (simp add: evaluate_mutation_def sample_command_def sample_memory_env_def scaled_value_def memory_simps)
  moreover have "\<exists>v' v1. vector_works sample_memory_env new_command ''M1'' (build_fact_key new_command) 1 [] v1 v'"
    by (simp add: vector_works_def sample_command_def sample_memory_env_def build_vector_def switches_def qdrant_port_def stage_vector_def activate_vector_def
        retire_previous_vector_def ensure_collection_def list_client_def)
  moreover have "validate_command new_command = Inr ()" "graph_works sample_memory_env new_command ''M1'' (build_fact_key new_command) 1 ({}, []) ({}, []) ({}, [])"
    by (simp_all add: validate_command_def sample_command_def graph_works_def)
  moreover have "lock_free sample_memory_env (build_fact_key new_command) Map.empty Map.empty" by (rule sample_lock_free) (simp add: sample_memory_env_def)
  moreover have "fresh_draws sample_memory_env empty_memory" "mv_mutation_id sample_memory_env = ''M1''" "mv_clock sample_memory_env 0 = 10" "mv_publish sample_memory_env t x = Answer ()" for t x
    by (simp_all add: fresh_draws_def empty_memory_def sample_memory_env_def find_mutation_def)
  ultimately show ?thesis unfolding mutation_ready_def mutation_accepted_def by auto
qed

section \<open>Properties\<close>

text \<open>
  C36. A new command that the policy accepts and whose stores work is applied: the fact becomes active with the content of the command, at the version after the one the command expects; no other fact
  changes. In the vector store and in the graph store the projection of that version is then active and no earlier version is. It is the only active one of the fact if the active entries of the fact were of earlier
  versions and, in the graph store, no relation carried its projection id already, as one that an unfinished mutation of the same version has staged to another target does. Sending the same command again answers with the
  same result and changes nothing.
\<close>

theorem mutation_applied:
  assumes "mutation_ready env cmd w version v' g'"
    and "mv_vector_port env = qdrant_port client collection n" and "qdrant_ok client collection points"
    and "mv_graph_port env = neo4j_port driver" and "neo4j_ok driver graph"
  shows "\<exists>res w' f. mutate env cmd w = (Inr res, w') \<and> rs_status res = APPLIED \<and> rs_before_version res = mc_expected_version cmd \<and> rs_after_version res = Some version \<and>
    fact_by_key (mw_db w') (build_fact_key cmd) = Some f \<and> fa_version f = version \<and> fa_status f = FACT_ACTIVE \<and> fa_value_json f = mc_value_json cmd \<and>
    (\<forall>k. k \<noteq> build_fact_key cmd \<longrightarrow> fact_by_key (mw_db w') k = fact_by_key (mw_db w) k) \<and>
    (VECTOR \<in> set (mc_targets cmd) \<longrightarrow> (\<exists>p. build_vector (mv_embed_text env) cmd (mv_mutation_id env) (build_fact_key cmd) version = Answer p \<and>
       (vector_own p)\<lparr>se_status := PStr ''ACTIVE''\<rparr> \<in> active_entries (PStr (build_fact_key cmd)) (point_entry ` set (points (mw_vector w'))) \<and>
       (\<forall>e\<in>active_entries (PStr (build_fact_key cmd)) (point_entry ` set (points (mw_vector w'))). \<not> older (vector_own p) e) \<and>
       ((\<forall>e\<in>active_entries (PStr (build_fact_key cmd)) (point_entry ` set (points (mw_vector w))). older (vector_own p) e) \<longrightarrow>
          active_entries (PStr (build_fact_key cmd)) (point_entry ` set (points (mw_vector w'))) = {(vector_own p)\<lparr>se_status := PStr ''ACTIVE''\<rparr>}))) \<and>
    (GRAPH \<in> set (mc_targets cmd) \<longrightarrow> (\<exists>p. build_graph cmd (mv_mutation_id env) (build_fact_key cmd) version = Inr p \<and>
       (graph_own p)\<lparr>se_status := PStr ''ACTIVE''\<rparr> \<in> active_entries (PStr (build_fact_key cmd)) (edge_entry ` set (snd (graph (mw_graph w')))) \<and>
       (\<forall>e\<in>active_entries (PStr (build_fact_key cmd)) (edge_entry ` set (snd (graph (mw_graph w')))). \<not> older (graph_own p) e) \<and>
       ((\<forall>e\<in>active_entries (PStr (build_fact_key cmd)) (edge_entry ` set (snd (graph (mw_graph w)))). older (graph_own p) e) \<and>
        (\<forall>e\<in>edge_entry ` set (snd (graph (mw_graph w))). se_id e \<noteq> se_id (graph_own p)) \<longrightarrow>
          active_entries (PStr (build_fact_key cmd)) (edge_entry ` set (snd (graph (mw_graph w')))) = {(graph_own p)\<lparr>se_status := PStr ''ACTIVE''\<rparr>}))) \<and>
    (\<forall>env2 r2. lock_free env2 (build_fact_key cmd) (mw_lock w') r2 \<longrightarrow> mutate env2 cmd w' = (Inr res, w'\<lparr>mw_lock := r2\<rparr>))"
proof -
  let ?k = "build_fact_key cmd"
  note rd = assms(1) [unfolded mutation_ready_def mutation_accepted_def]
  have v: "\<exists>p. build_vector (mv_embed_text env) cmd (mv_mutation_id env) ?k version = Answer p \<and>
       (vector_own p)\<lparr>se_status := PStr ''ACTIVE''\<rparr> \<in> active_entries (PStr ?k) (point_entry ` set (points v')) \<and>
       (\<forall>e\<in>active_entries (PStr ?k) (point_entry ` set (points v')). \<not> older (vector_own p) e) \<and>
       ((\<forall>e\<in>active_entries (PStr ?k) (point_entry ` set (points (mw_vector w))). older (vector_own p) e) \<longrightarrow>
          active_entries (PStr ?k) (point_entry ` set (points v')) = {(vector_own p)\<lparr>se_status := PStr ''ACTIVE''\<rparr>})" if t: "VECTOR \<in> set (mc_targets cmd)"
  proof -
    obtain v1 p where p: "build_vector (mv_embed_text env) cmd (mv_mutation_id env) ?k version = Answer p" "switches (qdrant_port client collection n) p (mw_vector w) v1 v'"
      using t rd assms(2) unfolding vector_works_def by auto
    have "stage_vector client collection n p (mw_vector w) = (Answer (), v1)" using p(2) by (simp add: switches_def qdrant_port_def)
    from stage_vector_replaces [OF assms(3) this] show ?thesis
      using projection_port.switches_active [OF qdrant_is_port [OF assms(3)] p(2)] built_vector_key [OF p(1)] p(1) by auto
  qed
  have g: "\<exists>p. build_graph cmd (mv_mutation_id env) ?k version = Inr p \<and>
       (graph_own p)\<lparr>se_status := PStr ''ACTIVE''\<rparr> \<in> active_entries (PStr ?k) (edge_entry ` set (snd (graph g'))) \<and>
       (\<forall>e\<in>active_entries (PStr ?k) (edge_entry ` set (snd (graph g'))). \<not> older (graph_own p) e) \<and>
       ((\<forall>e\<in>active_entries (PStr ?k) (edge_entry ` set (snd (graph (mw_graph w)))). older (graph_own p) e) \<and>
        (\<forall>e\<in>edge_entry ` set (snd (graph (mw_graph w))). se_id e \<noteq> se_id (graph_own p)) \<longrightarrow>
          active_entries (PStr ?k) (edge_entry ` set (snd (graph g'))) = {(graph_own p)\<lparr>se_status := PStr ''ACTIVE''\<rparr>})" if t: "GRAPH \<in> set (mc_targets cmd)"
  proof -
    obtain g1 p where p: "build_graph cmd (mv_mutation_id env) ?k version = Inr p" "switches (neo4j_port driver) p (mw_graph w) g1 g'"
      using t rd assms(4) unfolding graph_works_def by auto
    have "stage_graph driver p (mw_graph w) = (Answer (), g1)" using p(2) by (simp add: switches_def neo4j_port_def)
    then have "staged_into (graph_own p) (edge_entry ` set (snd (graph (mw_graph w)))) (edge_entry ` set (snd (graph g1)))" using stage_edges [OF assms(5)] by blast
    then have "(\<forall>e\<in>edge_entry ` set (snd (graph (mw_graph w))). se_id e \<noteq> se_id (graph_own p)) \<longrightarrow> (\<forall>e\<in>edge_entry ` set (snd (graph g1)). se_id e = se_id (graph_own p) \<longrightarrow> e = graph_own p)"
      unfolding staged_into_def by blast
    then show ?thesis
      using projection_port.switches_active [OF neo4j_is_port [OF assms(5)] p(2)] built_graph_key [OF p(1)] p(1) by auto
  qed
  obtain res w' f m' fs' as' where run: "mutate env cmd w = (Inr res, w')" "stands (mw_db w') (mv_mutation_id env) m' fs' as'" "result_of m' = Inr res"
    "mm_status m' = APPLIED" "mm_before_version m' = mc_expected_version cmd" "mm_after_version m' = Some version"
    "mm_idempotency_key m' = mc_idempotency_key cmd" "mm_payload_fingerprint m' = memory_payload_fingerprint cmd"
    "fact_in fs' ?k = Some f" "\<forall>k. k \<noteq> ?k \<longrightarrow> fact_in fs' k = fact_in (db_facts (mw_db w)) k" "fa_version f = version" "fa_status f = FACT_ACTIVE"
    "fa_value_json f = mc_value_json cmd" "mw_vector w' = v'" "mw_graph w' = g'"
    using mutate_runs [OF assms(1)] by metis
  have again: "mutate env2 cmd w' = (Inr res, w'\<lparr>mw_lock := r2\<rparr>)" if "lock_free env2 ?k (mw_lock w') r2" for env2 :: "('a, 'b, 'c) memory_env" and r2
    using mutate_replays [OF run(2,7,8) _ that, of "mw_vector w'" "mw_graph w'"] rd run(3) by (cases w') simp
  have "rs_status res = APPLIED" "rs_before_version res = mc_expected_version cmd" "rs_after_version res = Some version"
    using run(3-6) by (auto simp: result_of_def split: option.splits)
  moreover have "db_facts (mw_db w') = fs'" using run(2) by (simp add: stands_def)
  ultimately show ?thesis using run v g again by (intro exI [of _ res] exI [of _ w'] exI [of _ f]) (simp add: fact_by_key_in)
qed

theorem mutation_applied_witness:
  "\<exists>res w' p. mutate sample_memory_env new_command (world empty_memory Map.empty [] ({}, [])) = (Inr res, w') \<and> rs_status res = APPLIED \<and> rs_after_version res = Some 1 \<and>
     active_entries (PStr (build_fact_key new_command)) (point_entry ` set (mw_vector w')) = {(vector_own p)\<lparr>se_status := PStr ''ACTIVE''\<rparr>}"
proof -
  obtain v' where r: "mutation_ready sample_memory_env new_command (world empty_memory Map.empty [] ({}, [])) 1 v' ({}, [])" using sample_mutation_ready by blast
  have p: "mv_vector_port sample_memory_env = qdrant_port list_client ''dispatch_memory'' 2" "mv_graph_port sample_memory_env = neo4j_port list_driver" by (simp_all add: sample_memory_env_def)
  have "VECTOR \<in> set (mc_targets new_command)" "active_entries k (point_entry ` set []) = {}" for k by (simp_all add: sample_command_def active_entries_def)
  then show ?thesis
    using mutation_applied [OF r p(1) list_vectors.client_ok p(2) list_graph.driver_ok] by auto
qed

end
