(* ===== verification/Memory_Failures.thy ===== *)
theory Memory_Failures
  imports Memory_Runs
begin

text \<open>
  What the memory service does when a call goes wrong half-way, and four defects: a version conflict makes its idempotency key unusable, the confirmation of a fact that waits for
  review has no effect, a projection that could not be retired stays active after the mutation is resumed and reported as applied, and a relation that an unfinished mutation staged is activated with that of a later one.
\<close>

section \<open>A version conflict\<close>

text \<open>
  C38. A command that expects another version than the fact has is refused, but its mutation stays in the tables without a decision. From then on every repetition of the command raises the
  \<open>ValueError\<close> of \<open>MutationDecision(None)\<close>, every attempt to resume the mutation is refused as incomplete, and the tables stay as they are.
\<close>

theorem version_conflict_blocks_key:
  assumes "validate_command cmd = Inr ()" and "mutation_by_key (mw_db w) (mc_idempotency_key cmd) = None" and "find_mutation (mw_db w) (mv_mutation_id env) = None"
    and "\<forall>t x. mv_publish env t x = Answer ()" and "lock_free env (build_fact_key cmd) (mw_lock w) r'"
    and "mc_expected_version cmd \<noteq> map_option fa_version (fact_by_key (mw_db w) (build_fact_key cmd))"
  shows "\<exists>k e a w'. mutate env cmd w = (Inl (VersionConflict k e a), w') \<and> db_facts (mw_db w') = db_facts (mw_db w) \<and> mw_lock w' = r' \<and>
    (\<forall>env2 r2. lock_free env2 (build_fact_key cmd) (mw_lock w') r2 \<longrightarrow>
       mutate env2 cmd w' = (Inl NoSuchDecision, w'\<lparr>mw_lock := r2\<rparr>) \<and> resume_mutation env2 (mv_mutation_id env) w' = (Inl DecisionIncomplete, w'\<lparr>mw_lock := r2\<rparr>))"
proof -
  let ?k = "build_fact_key cmd" and ?fp = "fingerprints cmd" and ?i = "mv_mutation_id env" and ?db = "mw_db w"
  let ?m = "new_mutation cmd ?fp ?i (mv_db_clock env 0)" and ?db1 = "?db\<lparr>db_mutations := db_mutations ?db @ [new_mutation cmd ?fp ?i (mv_db_clock env 0)]\<rparr>"
  note b = begin_new [OF assms(2,3), of ?fp "mv_db_clock env 0"]
  have fk: "mf_fact_key ?fp = ?k" by (simp add: fingerprints_def)
  have "map_option sn_version (load_fact ?db ?k) = map_option fa_version (fact_by_key ?db ?k)"
    by (simp add: load_fact_def option.map_comp comp_def snapshot_of_def)
  then obtain k e a where c: "evaluate_mutation (load_fact ?db ?k) cmd (mv_policy env) (mv_clock env 0) = Inl (VersionConflict k e a)"
    using assms(6) by (simp add: evaluate_mutation_def Let_def)
  have "mutate_locked env cmd ?fp (world ?db r1 (mw_vector w) (mw_graph w)) = (Inl (VersionConflict k e a), world ?db1 r1 (mw_vector w) (mw_graph w))" for r1
    unfolding mutate_locked_def using b(1) assms(4) c by (simp add: publish_requested_def Let_def fk)
  then have "\<exists>res db' v' g'. mutate_locked env cmd ?fp (world ?db r1 (mw_vector w) (mw_graph w)) = (res, world db' r1 v' g') \<and>
      res = Inl (VersionConflict k e a) \<and> db' = ?db1 \<and> v' = mw_vector w \<and> g' = mw_graph w" for r1 by blast
  from with_fact_lock_free [OF assms(5) this]
  have "with_fact_lock env ?k (mutate_locked env cmd ?fp) (world ?db (mw_lock w) (mw_vector w) (mw_graph w)) = (Inl (VersionConflict k e a), world ?db1 r' (mw_vector w) (mw_graph w))"
    by blast
  then have run: "mutate env cmd w = (Inl (VersionConflict k e a), world ?db1 r' (mw_vector w) (mw_graph w))" using assms(1) by (cases w) (simp add: mutate_def)
  have again: "mutate env2 cmd (world ?db1 r' (mw_vector w) (mw_graph w)) = (Inl NoSuchDecision, world ?db1 r2 (mw_vector w) (mw_graph w))"
    if l: "lock_free env2 ?k r' r2" for env2 :: "('a, 'b, 'c) memory_env" and r2
    using mutate_replays [OF b(2) _ _ assms(1) l] by (simp add: new_mutation_def fingerprints_def result_of_def)
  have "resume_mutation env2 ?i (world ?db1 r' (mw_vector w) (mw_graph w)) = (Inl DecisionIncomplete, world ?db1 r2 (mw_vector w) (mw_graph w))"
    if l: "lock_free env2 ?k r' r2" for env2 :: "('a, 'b, 'c) memory_env" and r2
  proof -
    have "resume_locked env2 ?m (world ?db1 r1 (mw_vector w) (mw_graph w)) = (Inl DecisionIncomplete, world ?db1 r1 (mw_vector w) (mw_graph w))" for r1
      by (simp add: resume_locked_def new_mutation_def Let_def)
    from with_fact_lock_same [OF l this] show ?thesis using b(2) by (simp add: resume_mutation_def get_mutation_def stands_def) (simp add: new_mutation_def fk)
  qed
  then show ?thesis using run again by (intro exI [of _ k] exI [of _ e] exI [of _ a] exI [of _ "world ?db1 r' (mw_vector w) (mw_graph w)"]) simp
qed

theorem version_conflict_blocks_key_witness:
  "\<exists>k e a w'. mutate sample_memory_env (sample_command ''K1'') (world empty_memory Map.empty [] ({}, [])) = (Inl (VersionConflict k e a), w') \<and>
     fst (mutate sample_memory_env (sample_command ''K1'') w') = Inl NoSuchDecision"
proof -
  have l: "lock_free sample_memory_env (build_fact_key (sample_command ''K1'')) Map.empty Map.empty" by (rule sample_lock_free) (simp add: sample_memory_env_def)
  have "validate_command (sample_command ''K1'') = Inr ()" "\<forall>t x. mv_publish sample_memory_env t x = Answer ()"
    "mc_expected_version (sample_command ''K1'') \<noteq> map_option fa_version (fact_by_key empty_memory (build_fact_key (sample_command ''K1'')))"
    by (simp_all add: validate_command_def sample_command_def sample_memory_env_def empty_memory_def fact_by_key_def)
  then have "\<exists>k e a w'. mutate sample_memory_env (sample_command ''K1'') (world empty_memory Map.empty [] ({}, [])) = (Inl (VersionConflict k e a), w') \<and> mw_lock w' = Map.empty \<and>
      (\<forall>env2 r2. lock_free env2 (build_fact_key (sample_command ''K1'')) (mw_lock w') r2 \<longrightarrow> mutate env2 (sample_command ''K1'') w' = (Inl NoSuchDecision, w'\<lparr>mw_lock := r2\<rparr>))"
    using version_conflict_blocks_key [of "sample_command ''K1''" "world empty_memory Map.empty [] ({}, [])" sample_memory_env Map.empty] l by simp metis
  then show ?thesis using l by (metis fst_conv)
qed

section \<open>A fact that waits for review\<close>

lemma review_stands:
  assumes st: "stands db i m fs as" and free: "\<forall>f\<in>set fs. fa_fact_key f \<noteq> mf_fact_key fp" "\<forall>f\<in>set fs. fa_fact_id f \<noteq> j"
  shows "\<exists>db'. create_pending_review db db i cmd fp j now = (Inr (new_fact i cmd fp 1 FACT_PENDING_REVIEW j now), db') \<and>
    stands db' i m (fs @ [new_fact i cmd fp 1 FACT_PENDING_REVIEW j now]) as \<and>
    db_evidence db' = map (\<lambda>e. if ev_mutation_id e = i \<and> ev_fact_id e = None then e\<lparr>ev_fact_id := Some j\<rparr> else e) (db_evidence db)"
proof -
  let ?g = "new_fact i cmd fp 1 FACT_PENDING_REVIEW j now"
  have fs: "db_facts db = fs" using st by (simp add: stands_def)
  have "fact_by_key db (mf_fact_key fp) = None" using free fs by (auto simp: fact_by_key_def first_match_None)
  moreover have "insert_fact db ?g = Some (db\<lparr>db_facts := fs @ [?g]\<rparr>)" using free fs by (auto simp: insert_fact_def list_ex_iff)
  moreover have "stands (db\<lparr>db_facts := fs @ [?g]\<rparr>) i m (fs @ [?g]) as" using st by (simp add: stands_def)
  ultimately show ?thesis by (auto simp: create_pending_review_def Let_def) (simp add: link_evidence_def)
qed

lemma publish_terminal_result:
  assumes "mm_decision m = Some d" "mm_status m \<in> {APPLIED, REJECTED, CONFLICT, PARTIAL}" "\<forall>t x. mv_publish env t x = Answer ()"
  shows "\<exists>res. result_of m = Inr res \<and> publish_result env m w = (Inr res, w) \<and> rs_status res = mm_status m \<and> rs_decision res = d"
  using assms by (auto simp: result_of_def publish_result_def publish_terminal_def)

text \<open>The command that confirms another one: the same fact and evidence, confirmed by a human, about the version that waits.\<close>

definition confirmation :: "memory_command \<Rightarrow> string \<Rightarrow> memory_command" where
  "confirmation cmd key = cmd\<lparr>mc_idempotency_key := key, mc_expected_version := Some 1, mc_human_confirmed := True\<rparr>"

lemma confirmation_digests [simp]:
  "build_fact_key (confirmation cmd key) = build_fact_key cmd" "content_fingerprint (confirmation cmd key) = content_fingerprint cmd"
  "evidence_fingerprint (confirmation cmd key) = evidence_fingerprint cmd" "validate_command (confirmation cmd key) = validate_command cmd"
  by (simp_all add: confirmation_def build_fact_key_def fact_identity_def content_fingerprint_def evidence_fingerprint_def validate_command_def)

text \<open>A command that waits for review: it is unsure and nobody confirmed it, and the memory does not know its fact.\<close>

definition awaits_review :: "('r, 'v, 'g) memory_env \<Rightarrow> memory_command \<Rightarrow> memory_db \<Rightarrow> bool" where
  "awaits_review env cmd db \<longleftrightarrow>
     fresh_draws env db \<and> (\<forall>e\<in>set (db_evidence db). ev_mutation_id e \<noteq> mv_mutation_id env) \<and> validate_command cmd = Inr () \<and>
     mutation_by_key db (mc_idempotency_key cmd) = None \<and> fact_by_key db (build_fact_key cmd) = None \<and> mc_expected_version cmd = None \<and>
     scaled_value (mc_confidence cmd) < po_auto_apply_min_confidence (mv_policy env) \<and> \<not> mc_human_confirmed cmd \<and> (\<forall>t x. mv_publish env t x = Answer ())"

lemma review_created:
  assumes "awaits_review env cmd db"
  shows "\<exists>res db'. mutate_locked env cmd (fingerprints cmd) (world db r v g) = (Inr res, world db' r v g) \<and> rs_status res = CONFLICT \<and>
    db_facts db' = db_facts db @ [new_fact (mv_mutation_id env) cmd (fingerprints cmd) 1 FACT_PENDING_REVIEW (mv_fact_id env) (mv_clock env 1)] \<and>
    (\<exists>e\<in>set (db_evidence db'). ev_fact_id e = Some (mv_fact_id env) \<and> ev_evidence_fingerprint e = evidence_fingerprint cmd)"
proof -
  let ?k = "build_fact_key cmd" and ?fp = "fingerprints cmd" and ?i = "mv_mutation_id env"
  note rv = assms [unfolded awaits_review_def fresh_draws_def]
  have fk: "mf_fact_key ?fp = ?k" "mf_evidence_fingerprint ?fp = evidence_fingerprint cmd" by (simp_all add: fingerprints_def)
  let ?d = "decision_of CONFLICT_REVIEW ''LOW_CONFIDENCE_REVIEW'' None FACT_PENDING_REVIEW False False"
  have none: "load_fact db ?k = None" using rv by (simp add: load_fact_def)
  have ev: "evaluate_mutation (load_fact db (mf_fact_key ?fp)) cmd (mv_policy env) (mv_clock env 0) = Inr ?d"
    using rv none by (simp add: evaluate_mutation_def fk Let_def)
  let ?m = "decided ?d (mv_db_clock env 1) (new_mutation cmd ?fp ?i (mv_db_clock env 0))"
  have m: "mm_decision ?m = Some CONFLICT_REVIEW" "mm_status ?m = CONFLICT" by (simp_all add: decided_def memory_simps Let_def)
  obtain db1 where a: "mutate_locked env cmd ?fp (world db r v g) = finish_decided env cmd ?fp ?d True ?i (world db1 r v g)"
    "stands db1 ?i ?m (db_facts db) (db_attempts db)" "db_evidence db1 = evidence_after db ?i cmd ?fp (mv_evidence_id env) (mv_db_clock env 2)"
    using mutate_locked_new [of db cmd env ?fp ?d r v g] rv ev none by (auto simp: fk memory_simps)
  have free: "\<forall>f\<in>set (db_facts db). fa_fact_key f \<noteq> mf_fact_key ?fp" "\<forall>f\<in>set (db_facts db). fa_fact_id f \<noteq> mv_fact_id env"
    using rv by (auto simp: fact_by_key_def first_match_None fk)
  let ?f = "new_fact ?i cmd ?fp 1 FACT_PENDING_REVIEW (mv_fact_id env) (mv_clock env 1)"
  obtain db2 where b: "create_pending_review db1 db1 ?i cmd ?fp (mv_fact_id env) (mv_clock env 1) = (Inr ?f, db2)" "stands db2 ?i ?m (db_facts db @ [?f]) (db_attempts db)"
    "db_evidence db2 = map (\<lambda>e. if ev_mutation_id e = ?i \<and> ev_fact_id e = None then e\<lparr>ev_fact_id := Some (mv_fact_id env)\<rparr> else e) (db_evidence db1)"
    using review_stands [OF a(2) free, of cmd "mv_clock env 1"] by blast
  obtain res where r: "publish_result env ?m (world db2 r v g) = (Inr res, world db2 r v g)" "rs_status res = CONFLICT"
    using publish_terminal_result [OF m(1) _, of env "world db2 r v g"] m(2) rv by auto
  have run: "mutate_locked env cmd ?fp (world db r v g) = (Inr res, world db2 r v g)"
    unfolding a(1) finish_decided_def using b(1,2) r(1) by (simp add: memory_simps get_mutation_def stands_def)
  have "new_memory_evidence ?i cmd ?fp (mv_evidence_id env) (mv_db_clock env 2) \<in> set (db_evidence db1)"
    using rv unfolding a(3) evidence_after_def evidence_of_mutation_def by (auto simp: list_ex_iff)
  then have "(new_memory_evidence ?i cmd ?fp (mv_evidence_id env) (mv_db_clock env 2))\<lparr>ev_fact_id := Some (mv_fact_id env)\<rparr> \<in> set (db_evidence db2)"
    unfolding b(3) by (force simp: new_memory_evidence_def)
  moreover have "db_facts db2 = db_facts db @ [?f]" using b(2) by (simp add: stands_def)
  ultimately show ?thesis using run r(2) by (force simp: new_memory_evidence_def fk)
qed

lemma confirmed_without_effect:
  assumes pub: "\<forall>t x. mv_publish env t x = Answer ()" and new: "find_mutation db (mv_mutation_id env) = None" "mutation_by_key db key = None"
    and f: "fact_by_key db (build_fact_key cmd) = Some f" "fa_version f = 1" "fa_content_fingerprint f = content_fingerprint cmd" "fa_confidence f = scaled_value (mc_confidence cmd)"
      "fa_status f = FACT_PENDING_REVIEW" "fa_expires_at f = mc_expires_at cmd" "fa_expires_at f = None \<or> mv_clock env 0 < the (fa_expires_at f)"
    and e: "e \<in> set (db_evidence db)" "ev_fact_id e = Some (fa_fact_id f)" "ev_evidence_fingerprint e = evidence_fingerprint cmd"
  shows "\<exists>res db'. mutate_locked env (confirmation cmd key) (fingerprints (confirmation cmd key)) (world db r v g) = (Inr res, world db' r v g) \<and>
    rs_decision res = NOOP \<and> rs_status res = APPLIED \<and> db_facts db' = db_facts db"
proof -
  let ?c = "confirmation cmd key" and ?fp = "fingerprints (confirmation cmd key)" and ?i = "mv_mutation_id env"
  have fk: "mf_fact_key ?fp = build_fact_key cmd" by (simp add: fingerprints_def)
  have load: "load_fact db (mf_fact_key ?fp) = Some (snapshot_of db f)" using f(1) by (simp add: load_fact_def fk)
  have live: "\<not> is_expired (snapshot_of db f) (mv_clock env 0)" using f(5,7) by (auto simp: is_expired_def snapshot_of_def split: option.splits)
  have "evidence_fingerprint cmd \<in> set (sn_evidence_fingerprints (snapshot_of db f))" using e by (force simp: snapshot_of_def)
  then have "decide_live (snapshot_of db f) ?c (mv_policy env) = decision_of NOOP ''DUPLICATE_FACT_AND_EVIDENCE'' (Some (snapshot_of db f)) FACT_PENDING_REVIEW False False"
    using f by (simp add: decide_live_def) (simp add: snapshot_of_def confirmation_def)
  then have ev: "evaluate_mutation (load_fact db (mf_fact_key ?fp)) ?c (mv_policy env) (mv_clock env 0) =
      Inr (decision_of NOOP ''DUPLICATE_FACT_AND_EVIDENCE'' (Some (snapshot_of db f)) FACT_PENDING_REVIEW False False)" (is "_ = Inr ?d")
    using live f(2) unfolding load by (simp add: evaluate_mutation_def Let_def) (simp add: confirmation_def snapshot_of_def)
  let ?m = "decided ?d (mv_db_clock env 1) (new_mutation ?c ?fp ?i (mv_db_clock env 0))"
  have m: "mm_decision ?m = Some NOOP" "mm_status ?m = APPLIED" by (simp_all add: decided_def memory_simps Let_def)
  have key: "mutation_by_key db (mc_idempotency_key ?c) = None" using new(2) by (simp add: confirmation_def)
  obtain db1 where a: "mutate_locked env ?c ?fp (world db r v g) = finish_decided env ?c ?fp ?d False ?i (world db1 r v g)" "stands db1 ?i ?m (db_facts db) (db_attempts db)"
    using mutate_locked_new [OF key new(1) pub ev, of r v g] load by (auto simp: memory_simps)
  obtain res where r: "publish_result env ?m (world db1 r v g) = (Inr res, world db1 r v g)" "rs_status res = APPLIED" "rs_decision res = NOOP"
    using publish_terminal_result [OF m(1) _ pub, of "world db1 r v g"] m(2) by auto
  then show ?thesis using a unfolding a(1) finish_decided_def by (simp add: memory_simps get_mutation_def stands_def)
qed

text \<open>
  C39. A command that is too unsure makes a fact that waits for review. When a human then confirms exactly this fact before it expires, with the same content, evidence, confidence (one that its column keeps exactly) and expiry, the service answers that
  the mutation is applied, but takes it for a duplicate: the fact keeps waiting for review, and no reader ever sees it as active.
\<close>

theorem confirmation_has_no_effect:
  assumes "awaits_review env cmd (mw_db w)" and "lock_free env (build_fact_key cmd) (mw_lock w) r'" and "column_confidence (mc_confidence cmd) = scaled_value (mc_confidence cmd)"
  shows "\<exists>res w' f. mutate env cmd w = (Inr res, w') \<and> rs_status res = CONFLICT \<and> mw_lock w' = r' \<and> fact_by_key (mw_db w') (build_fact_key cmd) = Some f \<and> fa_status f = FACT_PENDING_REVIEW \<and>
    (\<forall>env2 key r2. (\<forall>t x. mv_publish env2 t x = Answer ()) \<and> find_mutation (mw_db w') (mv_mutation_id env2) = None \<and> mutation_by_key (mw_db w') key = None \<and>
        (mc_expires_at cmd = None \<or> mv_clock env2 0 < the (mc_expires_at cmd)) \<and> lock_free env2 (build_fact_key cmd) (mw_lock w') r2 \<longrightarrow>
       (\<exists>res2 w2. mutate env2 (confirmation cmd key) w' = (Inr res2, w2) \<and> rs_decision res2 = NOOP \<and> rs_status res2 = APPLIED \<and> db_facts (mw_db w2) = db_facts (mw_db w') \<and>
          (\<forall>now. get_active_fact (mw_db w2) (build_fact_key cmd) now = None)))"
proof -
  let ?k = "build_fact_key cmd" and ?fp = "fingerprints cmd" and ?db = "mw_db w" and ?c = "\<lambda>key. confirmation cmd key"
  let ?f = "new_fact (mv_mutation_id env) cmd ?fp 1 FACT_PENDING_REVIEW (mv_fact_id env) (mv_clock env 1)"
  note rv = assms(1) [unfolded awaits_review_def]
  let ?P = "\<lambda>res db' v' g'. \<exists>x. res = Inr x \<and> rs_status x = CONFLICT \<and> db_facts db' = db_facts ?db @ [?f] \<and> v' = mw_vector w \<and> g' = mw_graph w \<and>
      (\<exists>e\<in>set (db_evidence db'). ev_fact_id e = Some (mv_fact_id env) \<and> ev_evidence_fingerprint e = evidence_fingerprint cmd)"
  have "\<exists>res db' v' g'. mutate_locked env cmd ?fp (world ?db r1 (mw_vector w) (mw_graph w)) = (res, world db' r1 v' g') \<and> ?P res db' v' g'" for r1
    using review_created [OF assms(1), of r1 "mw_vector w" "mw_graph w"] by fast
  from with_fact_lock_free [OF assms(2) this] obtain x db1 e where lk: "with_fact_lock env ?k (mutate_locked env cmd ?fp) (world ?db (mw_lock w) (mw_vector w) (mw_graph w)) =
      (Inr x, world db1 r' (mw_vector w) (mw_graph w))"
    and x: "rs_status x = CONFLICT" "db_facts db1 = db_facts ?db @ [?f]" and e: "e \<in> set (db_evidence db1)" "ev_fact_id e = Some (mv_fact_id env)" "ev_evidence_fingerprint e = evidence_fingerprint cmd"
    by blast
  have run: "mutate env cmd w = (Inr x, world db1 r' (mw_vector w) (mw_graph w))" using lk rv by (cases w) (simp add: mutate_def)
  have fk: "mf_fact_key ?fp = ?k" "mf_content_fingerprint ?fp = content_fingerprint cmd" by (simp_all add: fingerprints_def)
  have absent: "\<forall>g\<in>set (db_facts ?db). fa_fact_key g \<noteq> ?k" using rv by (auto simp: fact_by_key_def first_match_None)
  then have "first_match (\<lambda>g. fa_fact_key g = ?k) (db_facts ?db) = None" by (simp add: first_match_None)
  then have f: "fact_by_key db1 ?k = Some ?f" unfolding fact_by_key_def x(2) by (simp add: first_match_append fk)
  have fields: "fa_confidence ?f = scaled_value (mc_confidence cmd)" "fa_expires_at ?f = mc_expires_at cmd" using assms(3) by (simp_all add: new_fact_def)
  have conf: "\<exists>res2 w2. mutate env2 (?c key) (world db1 r' (mw_vector w) (mw_graph w)) = (Inr res2, w2) \<and> rs_decision res2 = NOOP \<and> rs_status res2 = APPLIED \<and> db_facts (mw_db w2) = db_facts db1 \<and>
          (\<forall>now. get_active_fact (mw_db w2) ?k now = None)"
    if h: "\<forall>t x. mv_publish env2 t x = Answer ()" "find_mutation db1 (mv_mutation_id env2) = None" "mutation_by_key db1 key = None"
      "mc_expires_at cmd = None \<or> mv_clock env2 0 < the (mc_expires_at cmd)" "lock_free env2 ?k r' r2" for env2 :: "('a, 'b, 'c) memory_env" and key r2
  proof -
    let ?Q = "\<lambda>res db' v' g'. \<exists>y. res = Inr y \<and> rs_decision y = NOOP \<and> rs_status y = APPLIED \<and> db_facts db' = db_facts db1"
    have "\<exists>res db' v' g'. mutate_locked env2 (?c key) (fingerprints (?c key)) (world db1 r1 (mw_vector w) (mw_graph w)) = (res, world db' r1 v' g') \<and> ?Q res db' v' g'" for r1
      using confirmed_without_effect [OF h(1-3) f, of e r1 "mw_vector w" "mw_graph w"] e fields h(4) by (simp add: fk) blast
    from with_fact_lock_free [OF h(5) this] obtain y db2 v2 g2 where
      l2: "with_fact_lock env2 ?k (mutate_locked env2 (?c key) (fingerprints (?c key))) (world db1 r' (mw_vector w) (mw_graph w)) = (Inr y, world db2 r2 v2 g2)"
      and y: "rs_decision y = NOOP" "rs_status y = APPLIED" "db_facts db2 = db_facts db1"
      by blast
    have "get_active_fact db2 ?k now = None" for now using absent by (auto simp: get_active_fact_def y(3) x(2) first_match_None)
    then show ?thesis using l2 y rv by (auto simp: mutate_def)
  qed
  show ?thesis using run x(1) f
    by (intro exI [of _ x] exI [of _ "world db1 r' (mw_vector w) (mw_graph w)"] exI [of _ ?f]) (simp, use conf in blast)
qed

abbreviation unsure_command :: memory_command where
  "unsure_command \<equiv> new_command\<lparr>mc_confidence := (5, 1)\<rparr>"

theorem confirmation_has_no_effect_witness:
  "\<exists>res w'. mutate sample_memory_env unsure_command (world empty_memory Map.empty [] ({}, [])) = (Inr res, w') \<and> rs_status res = CONFLICT"
proof -
  have l: "lock_free sample_memory_env (build_fact_key unsure_command) Map.empty Map.empty" by (rule sample_lock_free) (simp add: sample_memory_env_def)
  have "fresh_draws sample_memory_env empty_memory" "db_evidence empty_memory = []" "fact_by_key empty_memory k = None" for k
    by (simp_all add: fresh_draws_def empty_memory_def find_mutation_def fact_by_key_def)
  then have a: "awaits_review sample_memory_env unsure_command empty_memory"
    by (simp add: awaits_review_def) (simp add: validate_command_def sample_command_def sample_memory_env_def scaled_value_def)
  have "column_confidence (mc_confidence unsure_command) = scaled_value (mc_confidence unsure_command)"
    unfolding column_confidence_def by (rule quantize_half_up_exact [of _ _ 5000]) (simp add: scaled_value_def)
  then show ?thesis using confirmation_has_no_effect [of sample_memory_env unsure_command "world empty_memory Map.empty [] ({}, [])" Map.empty] a l by auto
qed

section \<open>A projection that could not be retired\<close>

lemma finish_partial_runs:
  assumes "stands db i m fs as" "mm_decision m = Some d" "\<forall>a\<in>set as. ma_attempt_id a \<noteq> mv_attempt_id env" "\<forall>t x. mv_publish env t x = Answer ()"
  shows "\<exists>res db' m' a. finish_partial env i err (world db r v g) = (Inr res, world db' r v g) \<and> stands db' i m' fs (as @ [a]) \<and> ma_attempt_id a = mv_attempt_id env \<and>
    rs_status res = PARTIAL \<and> m' = m\<lparr>mm_status := PARTIAL, mm_error_code := Some (take_chars 64 err), mm_error_summary := Some (take_chars 512 partial_summary)\<rparr>"
proof -
  let ?f = "\<lambda>m. m\<lparr>mm_status := PARTIAL, mm_error_code := Some (take_chars 64 err), mm_error_summary := Some (take_chars 512 partial_summary)\<rparr>"
  have same: "\<forall>m. same_request m (?f m)" using field_writes_same(4) by blast
  note s1 = set_mutation_fields_stands [OF assms(1) same]
  obtain n db2 x where b: "memory_append_attempt (put_mutation db i ?f) (put_mutation db i ?f) i PARTIAL (PROJECTION_PENDING, mm_vector_status (?f m)) (PROJECTION_PENDING, mm_graph_status (?f m))
      (Some err) (Some partial_summary) (mv_attempt_id env) (mv_db_clock env 3) = (Inr n, db2)" "stands db2 i (?f m) fs (as @ [x])" "ma_attempt_id x = mv_attempt_id env"
    using append_attempt_stands [OF s1(2) assms(3)] by metis
  obtain res where r: "publish_result env (?f m) (world db2 r v g) = (Inr res, world db2 r v g)" "rs_status res = PARTIAL"
    using publish_terminal_result [of "?f m" d env "world db2 r v g"] assms(2,4) by auto
  have "finish_partial env i err (world db r v g) = (Inr res, world db2 r v g)"
    unfolding finish_partial_def memory_mark_partial_def using s1(1) b(1) r(1) by simp
  then show ?thesis using b(2,3) r(2) by blast
qed

text \<open>The projection is staged and activated, and the retirement of the earlier versions raises.\<close>

lemma retirement_fails:
  assumes st: "stands db i m fs as" and row: "mm_decision m = Some (md_decision d)"
    and targets: "set (mc_targets cmd) = {VECTOR}"
    and ok: "distinct (map fa_fact_id fs)" "distinct (map fa_fact_key fs)"
    and before: "md_before_version d = map_option fa_version (fact_in fs (mf_fact_key fp))" "md_after_version d = Some version"
      "version = (case fact_in fs (mf_fact_key fp) of None \<Rightarrow> 1 | Some f \<Rightarrow> fa_version f + 1)"
    and fresh: "\<forall>f\<in>set fs. fa_fact_id f \<noteq> mv_fact_id env" "\<forall>a\<in>set as. ma_attempt_id a \<noteq> mv_attempt_id env"
    and calls: "build_vector (mv_embed_text env) cmd i (mf_fact_key fp) version = Answer p" "mp_stage (mv_vector_port env) p v = (Answer (), v1)"
      "mp_activate (mv_vector_port env) p v1 = (Answer (), v2)" "mp_retire_previous (mv_vector_port env) p v2 = (Raise t, v3)"
    and pub: "\<forall>t x. mv_publish env t x = Answer ()"
  shows "\<exists>res db' f m' fs' a. apply_projections env cmd fp d i (world db r v g) = (Inr res, world db' r v3 g) \<and> stands db' i m' fs' (as @ [a]) \<and> rs_status res = PARTIAL \<and>
    ma_attempt_id a = mv_attempt_id env \<and> mm_status m' = PARTIAL \<and> mm_graph_status m' = mm_graph_status m \<and> mm_decision m' = mm_decision m \<and> mm_after_version m' = mm_after_version m \<and>
    same_request m m' \<and> fact_in fs' (mf_fact_key fp) = Some f \<and> fa_version f = version \<and> fa_last_mutation_id f = i"
proof -
  let ?m1 = "m\<lparr>mm_status := APPLYING\<rparr>" and ?m2 = "with_projection VECTOR STAGED (m\<lparr>mm_status := APPLYING\<rparr>)"
  obtain db1 where s1: "memory_mark_applying db db i = (Inr ?m1, db1)" "stands db1 i ?m1 fs as"
    using set_mutation_fields_stands [OF st, of "\<lambda>m. m\<lparr>mm_status := APPLYING\<rparr>"] field_writes_same(1) by (simp add: memory_mark_applying_def)
  obtain db2 where u: "update_projection_status db1 db1 i VECTOR STAGED = (Inr ?m2, db2)" "stands db2 i ?m2 fs as"
    using update_projection_stands [OF s1(2)] by blast
  have s2: "stage_new_vector env cmd i (mf_fact_key fp) version (world db1 r v g) = (Inr (Some p, None), world db2 r v1 g)"
    "stage_new_graph env cmd i (mf_fact_key fp) version (world db2 r v1 g) = (Inr (None, None), world db2 r v1 g)"
    using calls(1,2) u(1) targets by (simp_all add: stage_new_vector_def stage_new_graph_def stage_projection_def)
  have fin: "\<exists>f db' fs'. finalize_canonical db2 db2 i cmd fp d (mv_fact_id env) (mv_clock env 1) = (Inr f, db') \<and> stands db' i (finalized ?m2) fs' as \<and>
    fact_in fs' (mf_fact_key fp) = Some f \<and> (\<forall>k. k \<noteq> mf_fact_key fp \<longrightarrow> fact_in fs' k = fact_in fs k) \<and>
    md_after_version d = Some (fa_version f) \<and> fa_status f = md_proposed_status d \<and> fa_content_fingerprint f = mf_content_fingerprint fp \<and>
    fa_value_json f = mc_value_json cmd \<and> fa_last_mutation_id f = i"
    by (rule finalize_stands [OF u(2) ok before(1)]) (use before(2,3) fresh(1) in auto)
  obtain f db3 fs' where s3: "finalize_canonical db2 db2 i cmd fp d (mv_fact_id env) (mv_clock env 1) = (Inr f, db3)" "stands db3 i (finalized ?m2) fs' as"
    "fact_in fs' (mf_fact_key fp) = Some f" "fa_version f = version" "fa_last_mutation_id f = i"
    using fin before(2) by auto
  have s4: "for_spec (Some p) (activate_vector_spec env i) (world db3 r v1 g) = (Inr (Some (safe_error_code t)), world db3 r v3 g)"
    using calls(3,4) by (simp add: for_spec_def activate_vector_spec_def activate_projection_def)
  have dec: "mm_decision (finalized ?m2) = Some (md_decision d)" using row by (simp add: finalized_def with_projection_def)
  obtain res db4 m' a where s5: "finish_partial env i (safe_error_code t) (world db3 r v3 g) = (Inr res, world db4 r v3 g)" "stands db4 i m' fs' (as @ [a])"
    "ma_attempt_id a = mv_attempt_id env" "rs_status res = PARTIAL"
    "m' = (finalized ?m2)\<lparr>mm_status := PARTIAL, mm_error_code := Some (take_chars 64 (safe_error_code t)), mm_error_summary := Some (take_chars 512 partial_summary)\<rparr>"
    using finish_partial_runs [OF s3(2) dec fresh(2) pub] by metis
  have "apply_projections env cmd fp d i (world db r v g) = (Inr res, world db4 r v3 g)"
    unfolding apply_projections_def using s1(1) s2 s3(1) s4 s5(1) before(2) by (simp add: first_error_def for_spec_def)
  moreover have "mm_status m' = PARTIAL" "mm_graph_status m' = mm_graph_status m" "mm_decision m' = mm_decision m" "mm_after_version m' = mm_after_version m" "same_request m m'"
    unfolding s5(5) by (simp_all add: finalized_def with_projection_def same_request_def)
  ultimately show ?thesis using s5(2,3,4) s3(3-5) by blast
qed

lemma finalize_again:
  assumes "stands db i m fs as" "fact_in fs (mf_fact_key fp) = Some f" "fa_last_mutation_id f = i" "md_after_version d = Some (fa_version f)"
  shows "\<exists>db'. finalize_canonical db db i cmd fp d j now = (Inr f, db') \<and> stands db' i (m\<lparr>mm_status := FINALIZING\<rparr>) fs as"
  using assms put_mutation_stands [OF assms(1), of "\<lambda>m. m\<lparr>mm_status := FINALIZING\<rparr>"] field_writes_same(1)
  by (auto simp: finalize_canonical_def stands_def fact_by_key_in)

text \<open>Both probes find the projection active; it is reported as applied and nothing is called but the probes.\<close>

lemma resume_active:
  assumes st: "stands db i m fs as" and row: "mm_decision m = Some d" "mm_after_version m = Some version" "mm_command m = cmd" "mm_fact_key m = build_fact_key cmd"
      "mm_graph_status m = NOT_REQUIRED"
    and targets: "set (mc_targets cmd) = {VECTOR}"
    and f: "fact_in fs (build_fact_key cmd) = Some f" "fa_version f = version" "fa_last_mutation_id f = i"
    and fresh: "\<forall>a\<in>set as. ma_attempt_id a \<noteq> mv_attempt_id env"
    and calls: "build_vector (mv_embed_text env) cmd i (build_fact_key cmd) version = Answer p" "mp_probe (mv_vector_port env) i version v = (Answer (Some ''ACTIVE''), v1)"
      "mp_probe (mv_vector_port env) i version v1 = (Answer (Some ''ACTIVE''), v2)"
    and pub: "\<forall>t x. mv_publish env t x = Answer ()"
  shows "\<exists>res db'. resume_locked env m (world db r v g) = (Inr res, world db' r v2 g) \<and> rs_status res = APPLIED"
proof -
  let ?k = "build_fact_key cmd" and ?m1 = "m\<lparr>mm_status := APPLYING\<rparr>" and ?m2 = "with_projection VECTOR ACTIVE (m\<lparr>mm_status := APPLYING\<rparr>)"
  have i: "mm_mutation_id m = i" using st by (simp add: stands_def)
  have fk: "mf_fact_key (fingerprints cmd) = ?k" by (simp add: fingerprints_def)
  obtain db1 where s1: "memory_mark_applying db db i = (Inr ?m1, db1)" "stands db1 i ?m1 fs as"
    using set_mutation_fields_stands [OF st, of "\<lambda>m. m\<lparr>mm_status := APPLYING\<rparr>"] field_writes_same(1) by (simp add: memory_mark_applying_def)
  obtain db2 where u: "update_projection_status db1 db1 i VECTOR ACTIVE = (Inr ?m2, db2)" "stands db2 i ?m2 fs as"
    using update_projection_stands [OF s1(2)] by blast
  have s2: "resume_vector env cmd i ?k version (world db1 r v g) = (Inr (Some p, None), world db2 r v1 g)"
    "resume_graph env cmd i ?k version (world db2 r v1 g) = (Inr (None, None), world db2 r v1 g)"
    using calls(1,2) u(1) targets by (simp_all add: resume_vector_def resume_graph_def resume_stage_def)
  obtain db3 where s3: "finalize_canonical db2 db2 i cmd (fingerprints cmd) (resumed_decision m d version) (mv_fact_id env) (mv_clock env 1) = (Inr f, db3)"
    "stands db3 i (?m2\<lparr>mm_status := FINALIZING\<rparr>) fs as"
    using finalize_again [OF u(2) f(1) [folded fk] f(3)] f(2) by (metis (no_types, lifting) memory_decision.select_convs(4) resumed_decision_def)
  have s4: "for_spec (Some p) (\<lambda>p. resume_activate (on_vector (mp_probe (mv_vector_port env) i version)) (activate_vector_spec env i p)) (world db3 r v1 g) = (Inr None, world db3 r v2 g)"
    using calls(3) by (simp add: for_spec_def resume_activate_def)
  have fields: "mm_vector_status (?m2\<lparr>mm_status := FINALIZING\<rparr>) \<in> {NOT_REQUIRED, ACTIVE}" "mm_graph_status (?m2\<lparr>mm_status := FINALIZING\<rparr>) \<in> {NOT_REQUIRED, ACTIVE}"
    "fact_in fs (mm_fact_key (?m2\<lparr>mm_status := FINALIZING\<rparr>)) = Some f" "mm_after_version (?m2\<lparr>mm_status := FINALIZING\<rparr>) = Some (fa_version f)" "mm_decision (?m2\<lparr>mm_status := FINALIZING\<rparr>) = Some d"
    using row f by (simp_all add: with_projection_def)
  obtain res db4 m' where s5: "finish_applied env i (mm_vector_status m, mm_graph_status m) (world db3 r v2 g) = (Inr res, world db4 r v2 g)" "result_of m' = Inr res" "mm_status m' = APPLIED"
    using finish_applied_runs [OF s3(2) fields fresh pub, of "(mm_vector_status m, mm_graph_status m)" r v2 g] by auto
  have "resume_locked env m (world db r v g) = (Inr res, world db4 r v2 g)"
    unfolding resume_locked_def using row i fk s1(1) s2 s3(1) s4 s5(1) by (simp add: Let_def first_error_def for_spec_def)
  moreover have "rs_status res = APPLIED" using s5(2,3) row by (auto simp: result_of_def split: option.splits)
  ultimately show ?thesis by blast
qed

text \<open>The entries of the store after the activation: the projection is the only entry of its mutation, and it is active.\<close>

context projection_port
begin

lemma activated_probe:
  assumes "mp_stage port p s = (Answer (), s1)" "mp_activate port p s1 = (Answer (), s2)" "entries s3 = entries s2"
    "\<forall>e\<in>entries s. se_mutation_id e \<noteq> PStr m" "of_mutation m v (own p)" "mp_probe port m v s3 = (Answer found, s4)"
  shows "found = Some ''ACTIVE''"
proof -
  have "staged_into (own p) (entries s) (entries s1)" using stage_law [OF assms(1)] by simp
  then have E1: "own p \<in> entries s1" "\<forall>e\<in>entries s1. e = own p \<or> e \<in> entries s" by (auto simp: staged_into_def)
  have E3: "entries s3 = activated (own p) ` entries s1" using activate_law [OF assms(2)] assms(3) by simp
  have st: "se_status e = PStr ''ACTIVE''" if e: "e \<in> entries s3" "of_mutation m v e" for e
  proof -
    obtain e1 where e1: "e1 \<in> entries s1" "e = activated (own p) e1" using e(1) unfolding E3 by blast
    then have "e1 = own p" using E1(2) e(2) assms(4) by (auto simp: of_mutation_def)
    then show ?thesis using e1(2) by (simp add: activated_def)
  qed
  have "activated (own p) (own p) \<in> entries s3" "of_mutation m v (activated (own p) (own p))" using E1(1) assms(5) by (simp_all add: E3 of_mutation_def)
  then show ?thesis
  proof (cases found)
    case None
    then show ?thesis using probe_none [of m v s3 s4] assms(6) E1(1) assms(5) \<open>activated (own p) (own p) \<in> entries s3\<close> \<open>of_mutation m v (activated (own p) (own p))\<close> by blast
  next
    case (Some t)
    then obtain e where "e \<in> entries s3" "of_mutation m v e" "t = py_str (se_status e)" using probe_some [of m v s3 t s4] assms(6) by blast
    then show ?thesis using st Some by (simp add: py_str_def)
  qed
qed

end

text \<open>
  C40. A fact of the vector store has an active projection of an earlier version. A mutation activates the projection of the new version, but the call that retires the earlier one raises. The mutation
  ends as partial; when it is resumed, the probes find its projection active, so that nothing is called again: the mutation is reported as applied, while both versions are active and readers see them side by side.
\<close>

theorem unretired_projection_stays_active:
  assumes "mutation_accepted env cmd w version" and "set (mc_targets cmd) = {VECTOR}"
    and "mv_vector_port env = qdrant_port client collection n" and "qdrant_ok client collection points"
    and "build_vector (mv_embed_text env) cmd (mv_mutation_id env) (build_fact_key cmd) version = Answer p"
    and "stage_vector client collection n p (mw_vector w) = (Answer (), v1)" and "activate_vector client collection n p v1 = (Answer (), v2)"
    and "retire_previous_vector client collection n p v2 = (Raise t, v3)" and "points v3 = points v2"
    and "x \<in> active_entries (PStr (build_fact_key cmd)) (point_entry ` set (points (mw_vector w)))" and "older (vector_own p) x" and "se_id x \<noteq> se_id (vector_own p)"
    and "\<forall>q\<in>set (points (mw_vector w)). se_mutation_id (point_entry q) \<noteq> PStr (mv_mutation_id env)"
  shows "\<exists>res w'. mutate env cmd w = (Inr res, w') \<and> rs_status res = PARTIAL \<and>
    (\<forall>env2 r2 found1 found2 v4 v5. mv_vector_port env2 = qdrant_port client collection n \<and> (\<forall>t x. mv_publish env2 t x = Answer ()) \<and>
        build_vector (mv_embed_text env2) cmd (mv_mutation_id env) (build_fact_key cmd) version = Answer p \<and>
        (\<forall>a\<in>set (db_attempts (mw_db w')). ma_attempt_id a \<noteq> mv_attempt_id env2) \<and> lock_free env2 (build_fact_key cmd) (mw_lock w') r2 \<and>
        probe_vector client collection n (mv_mutation_id env) version (mw_vector w') = (Answer found1, v4) \<and>
        probe_vector client collection n (mv_mutation_id env) version v4 = (Answer found2, v5) \<longrightarrow>
      (\<exists>res2 w2. resume_mutation env2 (mv_mutation_id env) w' = (Inr res2, w2) \<and> rs_status res2 = APPLIED \<and>
         {x, (vector_own p)\<lparr>se_status := PStr ''ACTIVE''\<rparr>} \<subseteq> active_entries (PStr (build_fact_key cmd)) (point_entry ` set (points (mw_vector w2)))))"
proof -
  let ?k = "build_fact_key cmd" and ?fp = "fingerprints cmd" and ?db = "mw_db w" and ?i = "mv_mutation_id env" and ?port = "qdrant_port client collection n"
  let ?E = "\<lambda>s. point_entry ` set (points s)"
  note rd = assms(1) [unfolded mutation_accepted_def fresh_draws_def]
  note port = qdrant_is_port [OF assms(4), of n]
  have calls: "mp_stage ?port p (mw_vector w) = (Answer (), v1)" "mp_activate ?port p v1 = (Answer (), v2)" "mp_retire_previous ?port p v2 = (Raise t, v3)"
    using assms(6-8) by (simp_all add: qdrant_port_def)
  obtain d where d: "evaluate_mutation (load_fact ?db ?k) cmd (mv_policy env) (mv_clock env 0) = Inr d" "md_requires_projection d" "md_after_version d = Some version" using rd by blast
  note acc = accepted_decision [OF d]
  have fk: "mf_fact_key ?fp = ?k" by (simp add: fingerprints_def)
  obtain r' where lock: "lock_free env ?k (mw_lock w) r'" using rd by blast
  let ?m = "decided d (mv_db_clock env 1) (new_mutation cmd ?fp ?i (mv_db_clock env 0))"
  have m: "mm_decision ?m = Some (md_decision d)" "mm_after_version ?m = Some version" "mm_graph_status ?m = NOT_REQUIRED" "mm_command ?m = cmd" "mm_fact_key ?m = ?k"
    unfolding acc(5) using d(3) assms(2) by (simp_all add: new_mutation_def fk)
  let ?P = "\<lambda>res db' v' g'. \<exists>x f m' fs' as'. res = Inr x \<and> rs_status x = PARTIAL \<and> v' = v3 \<and> g' = mw_graph w \<and> stands db' ?i m' fs' as' \<and> mm_status m' = PARTIAL \<and>
      mm_graph_status m' = NOT_REQUIRED \<and> mm_decision m' = Some (md_decision d) \<and> mm_after_version m' = Some version \<and> mm_command m' = cmd \<and> mm_fact_key m' = ?k \<and>
      fact_in fs' ?k = Some f \<and> fa_version f = version \<and> fa_last_mutation_id f = ?i"
  have body: "\<exists>res db' v' g'. mutate_locked env cmd ?fp (world ?db r1 (mw_vector w) (mw_graph w)) = (res, world db' r1 v' g') \<and> ?P res db' v' g'" for r1
  proof -
    obtain db1 where a: "mutate_locked env cmd ?fp (world ?db r1 (mw_vector w) (mw_graph w)) = apply_projections env cmd ?fp d ?i (world db1 r1 (mw_vector w) (mw_graph w))"
      "stands db1 ?i ?m (db_facts ?db) (db_attempts ?db)"
      using mutate_locked_new [of ?db cmd env ?fp d r1 "mw_vector w" "mw_graph w"] rd d(1,2) by (auto simp: fk)
    have ok: "distinct (map fa_fact_id (db_facts ?db))" "distinct (map fa_fact_key (db_facts ?db))" "\<forall>f\<in>set (db_facts ?db). fa_fact_id f \<noteq> mv_fact_id env"
      "\<forall>a\<in>set (db_attempts ?db). ma_attempt_id a \<noteq> mv_attempt_id env" "\<forall>t x. mv_publish env t x = Answer ()" using rd by (simp_all add: memory_ok_def)
    show ?thesis unfolding a(1)
      using retirement_fails [OF a(2) m(1) assms(2) ok(1,2) acc(1) [folded fk] d(3) acc(2) [folded fk] ok(3,4) assms(5) [folded fk] calls [folded assms(3)] ok(5), of r1 "mw_graph w"] m
      unfolding fk same_request_def by metis
  qed
  from with_fact_lock_free [OF lock body] obtain y db1 f m' fs' as' where
    lk: "with_fact_lock env ?k (mutate_locked env cmd ?fp) (world ?db (mw_lock w) (mw_vector w) (mw_graph w)) = (Inr y, world db1 r' v3 (mw_graph w))" and y: "rs_status y = PARTIAL"
    and st: "stands db1 ?i m' fs' as'" and m': "mm_decision m' = Some (md_decision d)" "mm_after_version m' = Some version" "mm_command m' = cmd" "mm_fact_key m' = ?k" "mm_graph_status m' = NOT_REQUIRED"
    and stat: "mm_status m' = PARTIAL" and f: "fact_in fs' ?k = Some f" "fa_version f = version" "fa_last_mutation_id f = ?i"
    by blast
  have run: "mutate env cmd w = (Inr y, world db1 r' v3 (mw_graph w))" using lk rd by (cases w) (simp add: mutate_def)
  have own: "se_fact_key (vector_own p) = PStr ?k" "of_mutation ?i version (vector_own p)" using built_vector_key [OF assms(5)] by (simp_all add: of_mutation_def vector_own_def)
  have staged: "staged_into (vector_own p) (?E (mw_vector w)) (?E v1)" using projection_port.stage_law [OF port calls(1)] by simp
  then have x1: "x \<in> active_entries (PStr ?k) (?E v1)" "vector_own p \<in> ?E v1" using assms(10,12) by (auto simp: staged_into_def active_entries_def)
  have E3: "?E v3 = ?E v2" using assms(9) by simp
  have both: "{x, (vector_own p)\<lparr>se_status := PStr ''ACTIVE''\<rparr>} \<subseteq> active_entries (PStr ?k) (?E v3)"
    using projection_port.failed_retirement [OF port calls(2) E3 x1(2) own_is_own, unfolded own(1), OF x1(1) assms(11)] by simp
  have free: "\<forall>e\<in>?E (mw_vector w). se_mutation_id e \<noteq> PStr ?i" using assms(13) by simp
  have resumed: "\<exists>res2 w2. resume_mutation env2 ?i (world db1 r' v3 (mw_graph w)) = (Inr res2, w2) \<and> rs_status res2 = APPLIED \<and>
      {x, (vector_own p)\<lparr>se_status := PStr ''ACTIVE''\<rparr>} \<subseteq> active_entries (PStr ?k) (?E (mw_vector w2))"
    if h: "mv_vector_port env2 = ?port" "\<forall>t x. mv_publish env2 t x = Answer ()" "build_vector (mv_embed_text env2) cmd ?i ?k version = Answer p"
      "\<forall>a\<in>set (db_attempts db1). ma_attempt_id a \<noteq> mv_attempt_id env2" "lock_free env2 ?k r' r2" "probe_vector client collection n ?i version v3 = (Answer found1, v4)"
      "probe_vector client collection n ?i version v4 = (Answer found2, v5)" for env2 :: "('a, 'b, 'c) memory_env" and r2 found1 found2 v4 v5
  proof -
    have probes: "mp_probe ?port ?i version v3 = (Answer found1, v4)" "mp_probe ?port ?i version v4 = (Answer found2, v5)" using h(6,7) by (simp_all add: qdrant_port_def)
    have E4: "?E v4 = ?E v2" "?E v5 = ?E v3" using projection_port.probe_keeps [OF port probes(1)] projection_port.probe_keeps [OF port probes(2)] E3 by simp_all
    have found: "found1 = Some ''ACTIVE''" "found2 = Some ''ACTIVE''"
      using projection_port.activated_probe [OF port calls(1,2) E3 free own(2) probes(1)] projection_port.activated_probe [OF port calls(1,2) E4(1) free own(2) probes(2)] by simp_all
    have as: "\<forall>a\<in>set as'. ma_attempt_id a \<noteq> mv_attempt_id env2" using h(4) st by (simp add: stands_def)
    let ?Q = "\<lambda>res db' v' g'. \<exists>z. res = Inr z \<and> rs_status z = APPLIED \<and> v' = v5"
    have "\<exists>res db' v' g'. resume_locked env2 m' (world db1 r1 v3 (mw_graph w)) = (res, world db' r1 v' g') \<and> ?Q res db' v' g'" for r1
      using resume_active [OF st m' assms(2) f as h(3) probes [folded h(1), unfolded found] h(2), of r1 "mw_graph w"] by blast
    from with_fact_lock_free [OF h(5) this] obtain z db2 g2 where
      l2: "with_fact_lock env2 ?k (resume_locked env2 m') (world db1 r' v3 (mw_graph w)) = (Inr z, world db2 r2 v5 g2)" and z: "rs_status z = APPLIED"
      by blast
    have "resume_mutation env2 ?i (world db1 r' v3 (mw_graph w)) = (Inr z, world db2 r2 v5 g2)"
      using st stat l2 by (simp add: resume_mutation_def get_mutation_def stands_def m'(4))
    then show ?thesis using z both E4(2) by auto
  qed
  then show ?thesis using run y by (intro exI [of _ y] exI [of _ "world db1 r' v3 (mw_graph w)"]) (simp, blast)
qed

text \<open>A client whose writes by condition raise, and a store with the projection of the first version.\<close>

definition flaky_client :: "qdrant_point list qdrant_client" where
  "flaky_client =
     list_client\<lparr>qc_set_payload := (\<lambda>_ d sel s. case sel of PointIds _ \<Rightarrow> (Answer (), with_payload d sel s) | PointsWhere _ \<Rightarrow> (Raise ''UNAVAILABLE'', s))\<rparr>"

interpretation flaky_vectors: qdrant_store flaky_client "''dispatch_memory''" 2 "\<lambda>s. s"
proof
  note q = list_vectors.client_ok [unfolded qdrant_ok_def]
  show "qdrant_ok flaky_client ''dispatch_memory'' (\<lambda>s. s)"
    unfolding qdrant_ok_def using q by (intro conjI) (simp_all add: flaky_client_def split: selector.split)
qed

definition first_point :: qdrant_point where
  "first_point =
     \<lparr>qp_id = ''P0'', qp_vector = [0, 1],
      qp_payload = [(''fact_key'', PStr (build_fact_key (sample_command ''K1''))), (''control_version'', PInt 1), (''projection_status'', PStr ''ACTIVE''), (''mutation_id'', PStr ''M0'')]\<rparr>"

definition known_memory :: memory_db where
  "known_memory = empty_memory\<lparr>db_facts := [new_fact ''M0'' (sample_command ''K1'') (fingerprints (sample_command ''K1'')) 1 FACT_ACTIVE ''F0'' 0]\<rparr>"

definition flaky_env :: "(string \<rightharpoonup> string, qdrant_point list, pyval set \<times> graph_edge list) memory_env" where
  "flaky_env = sample_memory_env\<lparr>mv_vector_port := qdrant_port flaky_client ''dispatch_memory'' 2\<rparr>"

lemma uuid5_length: "4 \<le> length (uuid5 s)"
  by (simp add: uuid5_def Let_def)

lemma known_accepted: "mutation_accepted flaky_env (sample_command ''K1'') (world known_memory Map.empty [first_point] ({}, [])) 2"
proof -
  let ?c = "sample_command ''K1''"
  have f: "fact_by_key known_memory (build_fact_key ?c) = Some (new_fact ''M0'' ?c (fingerprints ?c) 1 FACT_ACTIVE ''F0'' 0)"
    by (simp add: fact_by_key_def known_memory_def fingerprints_def)
  have e: "db_evidence known_memory = []" by (simp add: known_memory_def empty_memory_def)
  have "\<exists>d. evaluate_mutation (load_fact known_memory (build_fact_key ?c)) ?c (mv_policy sample_memory_env) 10 = Inr d \<and> md_requires_projection d \<and> md_after_version d = Some 2"
    unfolding load_fact_def f
    by (simp add: evaluate_mutation_def decide_live_def is_expired_def snapshot_of_def e memory_simps Let_def)
      (simp add: sample_command_def sample_memory_env_def scaled_value_def new_fact_def fingerprints_def memory_simps)
  moreover have "lock_free flaky_env (build_fact_key ?c) Map.empty Map.empty" by (rule sample_lock_free) (simp add: flaky_env_def sample_memory_env_def)
  moreover have "memory_ok known_memory" "fresh_draws flaky_env known_memory" "validate_command ?c = Inr ()" "mutation_by_key known_memory (mc_idempotency_key ?c) = None"
    by (simp_all add: memory_ok_def fresh_draws_def known_memory_def empty_memory_def find_mutation_def mutation_by_key_def validate_command_def sample_command_def flaky_env_def sample_memory_env_def)
  moreover have "mv_policy flaky_env = mv_policy sample_memory_env" "mv_clock flaky_env 0 = 10" "mv_publish flaky_env t x = Answer ()" for t x by (simp_all add: flaky_env_def sample_memory_env_def)
  ultimately show ?thesis unfolding mutation_accepted_def by auto
qed

theorem unretired_projection_stays_active_witness:
  "\<exists>res w'. mutate flaky_env (sample_command ''K1'') (world known_memory Map.empty [first_point] ({}, [])) = (Inr res, w') \<and> rs_status res = PARTIAL"
proof -
  let ?c = "sample_command ''K1''" and ?k = "build_fact_key (sample_command ''K1'')"
  obtain p where p: "build_vector (mv_embed_text flaky_env) ?c (mv_mutation_id flaky_env) ?k 2 = Answer p" "length (vp_vector p) = 2"
    by (simp add: build_vector_def flaky_env_def sample_memory_env_def)
  note key = built_vector_key [OF p(1)]
  have t: "set (mc_targets ?c) = {VECTOR}" "mv_vector_port flaky_env = qdrant_port flaky_client ''dispatch_memory'' 2" by (simp_all add: sample_command_def flaky_env_def)
  have calls: "\<exists>v1. stage_vector flaky_client ''dispatch_memory'' 2 p [first_point] = (Answer (), v1)"
    "\<exists>v2. activate_vector flaky_client ''dispatch_memory'' 2 p v = (Answer (), v2)" "retire_previous_vector flaky_client ''dispatch_memory'' 2 p v = (Raise ''UNAVAILABLE'', v)" for v
    using p(2) by (simp_all add: stage_vector_def activate_vector_def retire_previous_vector_def ensure_collection_def flaky_client_def list_client_def)
  obtain v1 v2 where c: "stage_vector flaky_client ''dispatch_memory'' 2 p [first_point] = (Answer (), v1)" "activate_vector flaky_client ''dispatch_memory'' 2 p v1 = (Answer (), v2)"
    using calls(1,2) by blast
  have "point_id p \<noteq> ''P0''" using uuid5_length [of "''countyflow-shared-memory:'' @ vp_memory_id p @ '':v'' @ show_int (vp_control_version p)"] by (auto simp: point_id_def)
  then have x: "point_entry first_point \<in> active_entries (PStr ?k) (point_entry ` set [first_point])" "older (vector_own p) (point_entry first_point)"
    "se_id (point_entry first_point) \<noteq> se_id (vector_own p)"
    using key by (simp_all add: active_entries_def point_entry_def first_point_def older_def vector_own_def)
  have "\<forall>q\<in>set [first_point]. se_mutation_id (point_entry q) \<noteq> PStr (mv_mutation_id flaky_env)" by (simp add: point_entry_def first_point_def flaky_env_def sample_memory_env_def)
  then show ?thesis
    using unretired_projection_stays_active [OF known_accepted t flaky_vectors.client_ok p(1), of v1 v2 "''UNAVAILABLE''" v2 "point_entry first_point"] c calls(3) x by auto
qed

section \<open>A relation that an unfinished mutation left behind\<close>

text \<open>
  The projection id of a relation is made of the fact and its version, not of the mutation or the target. If a mutation has staged its relation and never finished, a later mutation that makes the same
  version with another target activates both relations.
\<close>

lemma leftover_relation_activated:
  assumes "gp_fact_key old = gp_fact_key p" "gp_control_version old = gp_control_version p" "entity_key (gp_target old) \<noteq> entity_key (gp_target p)"
  shows "\<exists>g0 g1 g'. stage_graph list_driver old ({}, []) = (Answer (), g0) \<and> switches (neo4j_port list_driver) p g0 g1 g' \<and>
    active_entries (PStr (gp_fact_key p)) (edge_entry ` set (snd g')) = {(graph_own old)\<lparr>se_status := PStr ''ACTIVE''\<rparr>, (graph_own p)\<lparr>se_status := PStr ''ACTIVE''\<rparr>}"
proof -
  have i: "projection_id old = projection_id p" using assms(1,2) by (simp add: projection_id_def)
  show ?thesis
    using assms i
    by (simp add: switches_def neo4j_port_def stage_graph_def activate_graph_def retire_previous_graph_def execute_graph_def list_driver_def call_bind_def
        merged_edges_def same_edge_def relation_parameters_def entity_parameters_def relation_props_def edges_with_status_def props_older_def
        active_entries_def edge_entry_def graph_own_def) auto
qed

end
