(* ===== verification/Spec2Isabelle.thy ===== *)
theory Spec2Isabelle
  imports Plan_Audit Flagged_Run Override_Service Dispatch_Worker Vehicle_Views Rescue_Orchestration Memory_Failures
begin

text \<open>
  A verification development for the county dispatch system under \<open>src/backend/app\<close>.

  \<^bold>\<open>The program.\<close> The API records a report (a broken vehicle, a blocked road, bad weather) as a task and puts a message on a Redis stream. A worker takes it
  from the stream under a lock and runs eight agents one after the other on a shared graph state: intake, memory, graph memory, environment, capacity, routing, dispatch, audit. Intake resolves the order
  and the reported road, capacity and fleet allocation rate drivers and vehicles, routing searches the road network, dispatch reserves
  a vehicle and persists the decision, the audit checks the evidence and gives the verdict. Every agent's progress is a checkpoint of a durable
  runtime thread, at whose boundaries an operator may override the vehicle status. An approved plan is published, others wait for the decision of a reviewer.

  \<^bold>\<open>Foundations.\<close> \<open>Prelude\<close> holds the fact collections and generic lemmas. \<open>Decimal_Arith\<close> and \<open>Decimal_Text\<close> model the \<open>decimal\<close> and
  \<open>float\<close> arithmetic with the rounding of the default context, and numbers as text; \<open>Py_Value\<close> and \<open>Py_Text\<close> the dynamically typed values, \<open>json.dumps\<close>,
  \<open>repr\<close> and the text functions; \<open>Sha256\<close> the digest of the standard library; \<open>Json_Text\<close> the compact printer and the reader of JSON on UTF-8 bytes, with their round
  trip; \<open>Py_Time\<close> points in time and their text.

  \<^bold>\<open>Planning.\<close>
  \<^item> \<open>Road_Network\<close>, \<open>Dijkstra_Correct\<close>, \<open>Path_Finder\<close>, \<open>Road_Snapshot_State\<close> model \<open>road_network/\<close>: the heap search of \<open>path_finder.py\<close>, its total
    correctness (a least-cost drivable route or none), the contract \<open>path_finder\<close> as a locale that the clients use, and the snapshot that
    travels through the graph state and back unchanged.
  \<^item> \<open>Fleet\<close> and \<open>Capacity\<close> model \<open>fleet/\<close> and \<open>capacity/\<close>: eligibility, ranking and selection of vehicles, the two providers and their ratings.
  \<^item> \<open>Routing\<close> models \<open>routing/\<close>: catalogue routing and planning with scores, candidates and decision; the planner recommends a best route that avoids the affected roads.
  \<^item> \<open>Real_Routes\<close> models the service of \<open>real_routes/\<close> over an arbitrary provider.
  \<^item> \<open>Sandtable\<close> and \<open>Recommendations\<close> model the context of a report and the rule-based reading of it.

  \<^bold>\<open>Decision.\<close>
  \<^item> \<open>Dispatch_Service\<close> models \<open>dispatch/service.py\<close> with its tables; interleaved workers are a step relation under which no vehicle is reserved twice.
  \<^item> \<open>Audit_Service\<close> models \<open>audit/service.py\<close>: it approves exactly when every check that applies to the evidence holds, and a task has one record.
  \<^item> \<open>Circuit_Breaker\<close> models \<open>services/\<close>: the breaker refines a three-state automaton; a lost probe blocks it.

  \<^bold>\<open>The graph.\<close> \<open>Graph_State\<close>, \<open>Agents\<close> and \<open>Pipeline\<close> model \<open>graph/\<close> and \<open>agents/\<close>: the eight nodes, their patches and the runs.
  \<open>Plan_Audit\<close> shows that a planned route passes the road checks of the audit; \<open>Flagged_Run\<close> what whole runs guarantee and where a review is lost.

  \<^bold>\<open>Durable execution.\<close>
  \<^item> \<open>Runtime_Threads\<close> and \<open>Checkpoints\<close> model \<open>runtime_threads/\<close>: the repository, the ancestry loops, the reconciler and the runner.
  \<^item> \<open>Permissions\<close> and \<open>Runtime_Overrides\<close> model the roles of \<open>security/\<close> and \<open>runtime_overrides/\<close>: policy, repository, service and reconciler.
  \<^item> \<open>Stale_Reads\<close> is the contract of sessions that read at one moment and write at another, a locale; \<open>Runtime_History\<close> interprets it on all methods of the two
    repositories, so that histories stay in order under any interleaving. \<open>Override_Service\<close> follows one request through the service.

  \<^bold>\<open>Tasks and messages.\<close>
  \<^item> \<open>Task_Messages\<close> and \<open>Stream_Queue\<close> model \<open>streams/\<close>: messages and dead letters with their JSON, which survives the stream, the queue over the replies of
    Redis, and the retry policy with its bounds.
  \<^item> \<open>Execution_Lock\<close> models \<open>locks/\<close> and the lock of \<open>runtime_overrides/\<close> over a Redis client; a key has one holder under any interleaving with expiries.
  \<^item> \<open>Idempotency\<close> models \<open>idempotency/service.py\<close> on the tables of tasks, threads, dispatches, audits and publications; \<open>Reviews\<close> models \<open>reviews/service.py\<close> and
    \<open>publications/service.py\<close>; \<open>Task_Submission\<close> models \<open>services/dispatch_task_api_service.py\<close>, whose submission is idempotent, and two of its races. \<open>Task_Ledger\<close>
    interprets \<open>stale_reads\<close> on all their writes: tasks are created once, only approved plans are published, a review is decided once.
  \<^item> \<open>Dispatch_Worker\<close> models \<open>workers/dispatch_worker.py\<close> over the ledger, the locks, the queue and the runner: what is acknowledged is finished; two defects
    of replays are theorems.

  \<^bold>\<open>Vehicle operations.\<close>
  \<^item> \<open>Vehicle_Operations\<close> models \<open>vehicle_operations/\<close>: statuses and their transitions, and each transaction of the repository on the tables of vehicles, rescue units,
    bays, missions, orders and events; its row locks make a transaction atomic, and the rows other sessions hold locked are a parameter.
  \<^item> \<open>Vehicle_Repairs\<close> has the invariant that every transaction keeps, \<open>Vehicle_Progress\<close> its consequences and the progressor, which brings every case to its end;
    \<open>Rescue_Orchestration\<close> models the service that opens a case with fastest routes of the path finder, and a collision of mission numbers.
  \<^item> \<open>Vehicle_Views\<close> models the queries of the user interface, which rebuild the nodes of a stored route.

  \<^bold>\<open>Shared memory.\<close>
  \<^item> \<open>Memory_Facts\<close> models the data, the identity and the policy of \<open>shared_memory/\<close>: which command creates, merges, replaces, waits for review or is refused.
  \<^item> \<open>Memory_Repository\<close> models the tables of mutations, facts, evidence and attempts with every method of the repository; \<open>Memory_History\<close> interprets \<open>stale_reads\<close> on
    them: under any interleaving facts advance version by version.
  \<^item> \<open>Memory_Projections\<close> models the builder and the two stores over any client of Qdrant and any driver of Neo4j. Their contract, that a staged projection can be activated and the
    earlier ones retired, is the locale \<open>projection_port\<close>; both stores fulfil it under the documented behaviour of their servers (\<open>qdrant_ok\<close>, \<open>neo4j_ok\<close>). \<open>Uuid5\<close> has
    the name-based ids of the standard library.
  \<^item> \<open>Memory_Service\<close> models the service with its lock, timeouts and events, and the resumption of a partial mutation; \<open>Memory_Runs\<close> shows that an accepted mutation is applied
    and when its projection is then the only active one, \<open>Memory_Failures\<close> four defects: a conflict that blocks its key, a confirmation without effect, a projection that is never retired,
    and a relation of an unfinished mutation that is activated with another one.

  \<^bold>\<open>Bounds and fuel.\<close> The Dijkstra loop runs on fuel that the theory proves sufficient; text loops take the length of the text as fuel, and every round consumes a
  character; the JSON reader has twice the length of the text and proves it enough. Looks at the checkpoint store until a deadline and the wake-ups of the progressor are finite lists; seven wake-ups per repair case are proved enough. All other loops are structural or have a termination proof.

  \<^bold>\<open>Parameters.\<close> LangGraph's stream of updates, its state update, the checkpoint store, the environment provider, the real-road provider, the clients of Redis, Qdrant and Neo4j and their replies, the embedding of texts, the publisher of events, the rescue as the worker calls it, clocks, random draws and ids
  are arguments of the definitions. The relational database is modelled by its tables with the constraints and version checks the sources declare.

  \<^bold>\<open>Not modelled.\<close> HTTP routes, web sockets, the fan-out of events, metrics, the recall queries on Qdrant and Neo4j, language models, the normalisation and redaction of memory commands, tokens and rate limits (cryptographic
  libraries), the result page, which pydantic models build, the renewal of the lock in the background, constant demo data and seeds, the demo reset (which cancels open repair cases behind the back of \<open>vehicle_operations/\<close>), migrations, load tests and
  acceptance scripts. Anomaly reports and workspace reads are left for extensions.
\<close>

end
